(* ===== verification/Prelude.thy ===== *)
theory Prelude imports Main "HOL-Library.Word" "HOL-Library.Multiset" begin

text \<open>
  Shared vocabulary of the development: the outcome of a Go call (a value, an error or a
  panic), the errors the code tells apart, the string routines of Go's \<open>strings\<close> package
  that the sources call, and the loops over slices that several components share.
\<close>

section \<open>Collections of rules\<close>

named_theorems go_simps \<open>equations that evaluate the outcome of a Go call\<close>
named_theorems str_simps \<open>equations and facts on Go strings\<close>

section \<open>Outcomes of Go calls\<close>

text \<open>
  The gRPC status codes that the sources build or test, and the errors they tell apart with
  \<open>errors.Is\<close>. Every other error carries the text of its format string, so that the branch
  that raised it stays visible.
\<close>

datatype grpc_code =
    NotFoundCode | InvalidArgument | InternalCode | PermissionDeniedCode | AlreadyExistsCode
  | UnauthenticatedCode | Canceled | DeadlineExceeded | OutOfRange | Unavailable
  | ResourceExhausted | Unimplemented | UnknownCode

datatype error =
    ErrNotFound
  | SessionNotFound
  | UnauthenticatedErr string
  | Status grpc_code
  | Errorf string

datatype 'a go = Ok 'a | Fail error | Panic

fun go_bind :: "'a go \<Rightarrow> ('a \<Rightarrow> 'b go) \<Rightarrow> 'b go" where
  "go_bind (Ok x) f = f x"
| "go_bind (Fail e) f = Fail e"
| "go_bind Panic f = Panic"

definition go_map :: "('a \<Rightarrow> 'b) \<Rightarrow> 'a go \<Rightarrow> 'b go" where
  "go_map f m = go_bind m (\<lambda>x. Ok (f x))"

fun is_ok :: "'a go \<Rightarrow> bool" where
  "is_ok (Ok x) = True"
| "is_ok (Fail e) = False"
| "is_ok Panic = False"

fun is_panic :: "'a go \<Rightarrow> bool" where
  "is_panic (Ok x) = False"
| "is_panic (Fail e) = False"
| "is_panic Panic = True"

text \<open>The check \<open>if cond { return err }\<close> at the head of a validator.\<close>

definition reject_if :: "bool \<Rightarrow> error \<Rightarrow> unit go" where
  "reject_if c e = (if c then Fail e else Ok ())"

text \<open>Reading a slice out of range panics.\<close>

definition nth_go :: "'a list \<Rightarrow> nat \<Rightarrow> 'a go" where
  "nth_go xs i = (if i < length xs then Ok (xs ! i) else Panic)"

text \<open>Following a nil pointer panics.\<close>

definition deref :: "'a option \<Rightarrow> 'a go" where
  "deref p = (case p of None \<Rightarrow> Panic | Some x \<Rightarrow> Ok x)"

text \<open>Sequencing of steps that thread a state; an error or a panic stops, and what was changed stays changed.\<close>

definition go_seq :: "'a go \<times> 's \<Rightarrow> ('a \<Rightarrow> 's \<Rightarrow> 'b go \<times> 's) \<Rightarrow> 'b go \<times> 's" where
  "go_seq r f = (case r of (Ok x, st) \<Rightarrow> f x st | (Fail e, st) \<Rightarrow> (Fail e, st) | (Panic, st) \<Rightarrow> (Panic, st))"

lemma go_seq_simps [simp]:
  "go_seq (Ok x, st) f = f x st" "go_seq (Fail e, st) f = (Fail e, st)" "go_seq (Panic, st) f = (Panic, st)"
  by (simp_all add: go_seq_def)

lemma go_seq_Ok: "go_seq r f = (Ok y, st') \<Longrightarrow> \<exists>x st. r = (Ok x, st) \<and> f x st = (Ok y, st')"
  by (auto simp: go_seq_def split: prod.splits go.splits)

text \<open>A \<open>for\<close> loop whose body may return an error, and one that also collects results.\<close>

fun go_each :: "('a \<Rightarrow> unit go) \<Rightarrow> 'a list \<Rightarrow> unit go" where
  "go_each f [] = Ok ()"
| "go_each f (x # xs) = go_bind (f x) (\<lambda>_. go_each f xs)"

fun go_mapM :: "('a \<Rightarrow> 'b go) \<Rightarrow> 'a list \<Rightarrow> 'b list go" where
  "go_mapM f [] = Ok []"
| "go_mapM f (x # xs) = go_bind (f x) (\<lambda>y. go_bind (go_mapM f xs) (\<lambda>ys. Ok (y # ys)))"

lemma go_bind_assoc: "go_bind (go_bind m f) g = go_bind m (\<lambda>x. go_bind (f x) g)"
  by (cases m) simp_all

lemma go_bind_cong [fundef_cong]:
  "m = m' \<Longrightarrow> (\<And>x. m' = Ok x \<Longrightarrow> f x = f' x) \<Longrightarrow> go_bind m f = go_bind m' f'"
  by (cases m') simp_all

lemma go_bind_eq_Ok [simp]: "go_bind m f = Ok y \<longleftrightarrow> (\<exists>x. m = Ok x \<and> f x = Ok y)"
  by (cases m) simp_all

lemma go_bind_eq_Panic [simp]:
  "go_bind m f = Panic \<longleftrightarrow> m = Panic \<or> (\<exists>x. m = Ok x \<and> f x = Panic)"
  by (cases m) simp_all

lemma go_map_eq_Ok [simp]: "go_map f m = Ok y \<longleftrightarrow> (\<exists>x. m = Ok x \<and> y = f x)"
  by (auto simp: go_map_def)

lemma is_ok_iff: "is_ok m \<longleftrightarrow> (\<exists>x. m = Ok x)"
  by (cases m) auto

lemma reject_if_Ok [simp]: "reject_if c e = Ok u \<longleftrightarrow> \<not> c"
  by (simp add: reject_if_def)

lemma nth_go_Ok [go_simps]: "i < length xs \<Longrightarrow> nth_go xs i = Ok (xs ! i)"
  by (simp add: nth_go_def)

lemma deref_simps [simp]: "deref None = Panic" "deref (Some x) = Ok x"
  by (simp_all add: deref_def)

lemma deref_eq_Ok [simp]: "deref p = Ok x \<longleftrightarrow> p = Some x"
  by (cases p) simp_all

lemma go_each_Ok [simp]: "go_each f xs = Ok u \<longleftrightarrow> (\<forall>x\<in>set xs. f x = Ok ())"
  by (induction xs) auto

lemma go_each_cong [fundef_cong]:
  "xs = ys \<Longrightarrow> (\<And>x. x \<in> set ys \<Longrightarrow> f x = g x) \<Longrightarrow> go_each f xs = go_each g ys"
  by (induction xs arbitrary: ys) auto

text \<open>
  Loops that evaluate tests which may fail: they stop at the first error, and at the first
  answer that settles the result.
\<close>

fun go_all :: "('a \<Rightarrow> bool go) \<Rightarrow> 'a list \<Rightarrow> bool go" where
  "go_all f [] = Ok True"
| "go_all f (x # xs) = go_bind (f x) (\<lambda>m. if \<not> m then Ok False else go_all f xs)"

fun go_any :: "('a \<Rightarrow> bool go) \<Rightarrow> 'a list \<Rightarrow> bool go" where
  "go_any f [] = Ok False"
| "go_any f (x # xs) = go_bind (f x) (\<lambda>m. if m then Ok True else go_any f xs)"

fun go_none :: "('a \<Rightarrow> bool go) \<Rightarrow> 'a list \<Rightarrow> bool go" where
  "go_none f [] = Ok True"
| "go_none f (x # xs) = go_bind (f x) (\<lambda>m. if m then Ok False else go_none f xs)"

lemma go_all_cong [fundef_cong]:
  "xs = ys \<Longrightarrow> (\<And>x. x \<in> set ys \<Longrightarrow> f x = g x) \<Longrightarrow> go_all f xs = go_all g ys"
  by (induction xs arbitrary: ys) (auto intro!: go_bind_cong)

lemma go_any_cong [fundef_cong]:
  "xs = ys \<Longrightarrow> (\<And>x. x \<in> set ys \<Longrightarrow> f x = g x) \<Longrightarrow> go_any f xs = go_any g ys"
  by (induction xs arbitrary: ys) (auto intro!: go_bind_cong)

lemma go_none_cong [fundef_cong]:
  "xs = ys \<Longrightarrow> (\<And>x. x \<in> set ys \<Longrightarrow> f x = g x) \<Longrightarrow> go_none f xs = go_none g ys"
  by (induction xs arbitrary: ys) (auto intro!: go_bind_cong)

lemma go_all_Ok: "(\<And>x. x \<in> set xs \<Longrightarrow> f x = Ok (p x)) \<Longrightarrow> go_all f xs = Ok (\<forall>x\<in>set xs. p x)"
  by (induction xs) auto

lemma go_any_Ok: "(\<And>x. x \<in> set xs \<Longrightarrow> f x = Ok (p x)) \<Longrightarrow> go_any f xs = Ok (\<exists>x\<in>set xs. p x)"
  by (induction xs) auto

lemma go_none_Ok: "(\<And>x. x \<in> set xs \<Longrightarrow> f x = Ok (p x)) \<Longrightarrow> go_none f xs = Ok (\<not> (\<exists>x\<in>set xs. p x))"
  by (induction xs) auto

lemma go_all_True: "go_all f xs = Ok True \<longleftrightarrow> (\<forall>x\<in>set xs. f x = Ok True)"
  by (induction xs) auto

lemma go_any_True: "go_any f xs = Ok True \<Longrightarrow> \<exists>x\<in>set xs. f x = Ok True"
  by (induction xs) (auto split: if_splits)

lemma go_none_True: "go_none f xs = Ok True \<longleftrightarrow> (\<forall>x\<in>set xs. f x = Ok False)"
  by (induction xs) auto

lemma go_loops_panic:
  assumes "\<And>x. x \<in> set xs \<Longrightarrow> f x \<noteq> Panic"
  shows "go_all f xs \<noteq> Panic" "go_any f xs \<noteq> Panic" "go_none f xs \<noteq> Panic"
  using assms by (induction xs) (auto split: if_splits)

lemma go_bind_not_Panic:
  "m \<noteq> Panic \<Longrightarrow> (\<And>x. m = Ok x \<Longrightarrow> f x \<noteq> Panic) \<Longrightarrow> go_bind m f \<noteq> Panic"
  by (cases m) auto

lemma go_mapM_Ok_iff:
  "go_mapM f xs = Ok ys \<longleftrightarrow> length ys = length xs \<and> (\<forall>i<length xs. f (xs ! i) = Ok (ys ! i))"
proof (induction xs arbitrary: ys)
  case (Cons x xs)
  then show ?case
    by (cases ys) (auto simp: less_Suc_eq_0_disj)
qed auto

lemma go_mapM_Ok: "(\<And>x. x \<in> set xs \<Longrightarrow> f x = Ok (g x)) \<Longrightarrow> go_mapM f xs = Ok (map g xs)"
  by (induction xs) auto

lemma distinct_adj_sorted: "sorted xs \<Longrightarrow> distinct_adj xs \<longleftrightarrow> distinct (xs :: 'a::linorder list)"
proof (induction xs rule: induct_list012)
  case (3 x y zs)
  then show ?case by (auto simp: distinct_adj_Cons)
qed simp_all

section \<open>Strings\<close>

text \<open>\<open>strings.Split\<close> with a separator of one character.\<close>

fun Split :: "string \<Rightarrow> char \<Rightarrow> string list" where
  "Split [] c = [[]]"
| "Split (x # xs) c =
     (if x = c then [] # Split xs c
      else (case Split xs c of [] \<Rightarrow> [[x]] | p # ps \<Rightarrow> (x # p) # ps))"

text \<open>\<open>strings.Cut\<close>: the text before and after the first separator, if there is one.\<close>

fun Cut :: "string \<Rightarrow> char \<Rightarrow> (string \<times> string) option" where
  "Cut [] c = None"
| "Cut (x # xs) c =
     (if x = c then Some ([], xs)
      else (case Cut xs c of None \<Rightarrow> None | Some (a, b) \<Rightarrow> Some (x # a, b)))"

text \<open>\<open>strings.SplitAfterN\<close>: at most \<open>n\<close> pieces, each but the last ending in its separator.\<close>

fun SplitAfterN :: "string \<Rightarrow> char \<Rightarrow> nat \<Rightarrow> string list" where
  "SplitAfterN s c 0 = []"
| "SplitAfterN s c (Suc 0) = [s]"
| "SplitAfterN s c (Suc (Suc n)) =
     (case Cut s c of None \<Rightarrow> [s] | Some (a, b) \<Rightarrow> (a @ [c]) # SplitAfterN b c (Suc n))"

text \<open>\<open>strings.SplitN(s, sep, 2)\<close> with a separator of one character.\<close>

definition SplitN2 :: "string \<Rightarrow> char \<Rightarrow> string list" where
  "SplitN2 s c = (case Cut s c of None \<Rightarrow> [s] | Some (a, b) \<Rightarrow> [a, b])"

definition HasPrefix :: "string \<Rightarrow> string \<Rightarrow> bool" where
  "HasPrefix s p \<longleftrightarrow> take (length p) s = p"

definition TrimPrefix :: "string \<Rightarrow> string \<Rightarrow> string" where
  "TrimPrefix s p = (if HasPrefix s p then drop (length p) s else s)"

text \<open>\<open>strings.Join\<close> with a separator of one character.\<close>

fun Join :: "string list \<Rightarrow> char \<Rightarrow> string" where
  "Join [] c = []"
| "Join [s] c = s"
| "Join (s # t # ts) c = s @ c # Join (t # ts) c"

lemma Split_not_Nil [simp]: "Split s c \<noteq> []"
  by (cases s) (auto split: list.splits)

lemma length_Split_pos [simp]: "0 < length (Split s c)"
  by simp

lemma Split_no_sep: "c \<notin> set s \<Longrightarrow> Split s c = [s]"
  by (induction s) auto

lemma Split_append_sep: "c \<notin> set a \<Longrightarrow> Split (a @ c # b) c = a # Split b c"
  by (induction a) auto

lemma Split_pieces: "p \<in> set (Split s c) \<Longrightarrow> c \<notin> set p"
  by (induction s arbitrary: p) (auto split: list.splits if_splits)

lemma Join_Cons: "ts \<noteq> [] \<Longrightarrow> Join (s # ts) c = s @ c # Join ts c"
  by (cases ts) simp_all

lemma Join_Split [simp]: "Join (Split s c) c = s"
proof (induction s)
  case (Cons x xs)
  then show ?case
  proof (cases "Split xs c")
    case (Cons p ps)
    with Cons.IH show ?thesis
      by (cases ps) (auto simp: Join_Cons)
  qed simp
qed simp

lemma Split_Join:
  "ps \<noteq> [] \<Longrightarrow> (\<forall>p\<in>set ps. c \<notin> set p) \<Longrightarrow> Split (Join ps c) c = ps"
  by (induction ps c rule: Join.induct) (auto simp: Split_no_sep Split_append_sep)

lemma Cut_eq_Split:
  "Cut s c = (case Split s c of [] \<Rightarrow> None | [p] \<Rightarrow> None | p # ps \<Rightarrow> Some (p, Join ps c))"
proof (induction s)
  case (Cons x xs)
  obtain p ps where s: "Split xs c = p # ps"
    by (cases "Split xs c") auto
  have "Join (Split xs c) c = xs" by simp
  with Cons s show ?case
    by (cases ps) auto
qed simp

lemma Cut_None [str_simps]: "Cut s c = None \<longleftrightarrow> c \<notin> set s"
  by (induction s) (auto split: option.splits)

lemma Cut_append [simp]: "c \<notin> set a \<Longrightarrow> Cut (a @ c # b) c = Some (a, b)"
  by (induction a) auto

lemma Cut_SomeD: "Cut s c = Some (a, b) \<Longrightarrow> s = a @ c # b \<and> c \<notin> set a"
  by (induction s arbitrary: a b) (auto split: option.splits if_splits)

lemma Cut_Some [str_simps]: "Cut s c = Some (a, b) \<longleftrightarrow> s = a @ c # b \<and> c \<notin> set a"
  by (metis Cut_SomeD Cut_append)

lemma SplitAfterN_nth:
  "0 < n \<Longrightarrow> n \<le> length (Split s c) \<Longrightarrow>
   length (SplitAfterN s c n) = n \<and> SplitAfterN s c n ! (n - 1) = Join (drop (n - 1) (Split s c)) c"
proof (induction s c n rule: SplitAfterN.induct)
  case (3 s c n)
  show ?case
  proof (cases "Cut s c")
    case None
    then have "Split s c = [s]" by (simp add: Cut_None Split_no_sep)
    with 3 show ?thesis by simp
  next
    case (Some ab)
    obtain a b where ab: "ab = (a, b)" by (cases ab)
    with Some have s: "s = a @ c # b" "c \<notin> set a" by (auto dest: Cut_SomeD)
    then have sp: "Split s c = a # Split b c" by (simp add: Split_append_sep)
    with 3 have "Suc n \<le> length (Split b c)" by simp
    with 3(1) [OF Some ab [symmetric]] sp Some ab show ?thesis by simp
  qed
qed simp_all

lemma Split_drop_Join:
  assumes "i < length (Split s c)"
  shows "Split (Join (drop i (Split s c)) c) c = drop i (Split s c)"
  using assms by (intro Split_Join) (auto dest: in_set_dropD Split_pieces)

lemma suffix_Join_drop: "i \<le> length ps \<Longrightarrow> \<exists>q. Join ps c = q @ Join (drop i ps) c"
proof (induction ps arbitrary: i)
  case (Cons p ps)
  show ?case
  proof (cases i)
    case (Suc j)
    with Cons obtain q where "Join ps c = q @ Join (drop j ps) c" by auto
    with Suc show ?thesis
      by (cases ps) (auto simp: Join_Cons intro: exI [of _ "p @ c # q"])
  qed simp
qed simp

lemma Split_append: "\<exists>ps x. Split (q @ t) c = ps @ (x @ hd (Split t c)) # tl (Split t c)"
proof (induction q)
  case Nil
  have "Split t c = [] @ ([] @ hd (Split t c)) # tl (Split t c)" by simp
  then show ?case by (metis append_Nil)
next
  case (Cons y q)
  then obtain ps x where IH: "Split (q @ t) c = ps @ (x @ hd (Split t c)) # tl (Split t c)" by blast
  show ?case
  proof (cases "y = c")
    case True
    with IH have "Split ((y # q) @ t) c = ([] # ps) @ (x @ hd (Split t c)) # tl (Split t c)" by simp
    then show ?thesis by blast
  next
    case False
    with IH have "Split ((y # q) @ t) c =
      (case ps of [] \<Rightarrow> ((y # x) @ hd (Split t c)) # tl (Split t c)
       | p # ps' \<Rightarrow> ((y # p) # ps') @ (x @ hd (Split t c)) # tl (Split t c))"
      by (simp split: list.splits)
    then show ?thesis by (cases ps) (simp; blast | force)+
  qed
qed

lemma hd_Split: "t \<noteq> [] \<Longrightarrow> hd t \<noteq> c \<Longrightarrow> hd (Split t c) \<noteq> []"
  by (cases t) (auto split: list.splits)

lemma hd_Join: "ps \<noteq> [] \<Longrightarrow> hd ps \<noteq> [] \<Longrightarrow> Join ps c \<noteq> [] \<and> hd (Join ps c) = hd (hd ps)"
  by (cases ps; cases "tl ps") (auto simp: Join_Cons)

lemma length_Join_drop: "length (Join (drop i ps) c) \<le> length (Join ps c)"
  by (metis drop_all le_add2 length_append linear list.size(3) Join.simps(1) le0 suffix_Join_drop)

lemma HasPrefix_append [simp]: "HasPrefix (p @ s) p"
  by (simp add: HasPrefix_def)

lemma HasPrefix_iff: "HasPrefix s p \<longleftrightarrow> (\<exists>t. s = p @ t)"
  by (metis HasPrefix_append HasPrefix_def append_take_drop_id)

lemma TrimPrefix_append [simp]: "TrimPrefix (p @ s) p = s"
  by (simp add: TrimPrefix_def)

section \<open>Slices\<close>

text \<open>The membership loop \<open>isInList\<close>, which several packages repeat.\<close>

fun isInList :: "string list \<Rightarrow> string \<Rightarrow> bool" where
  "isInList [] itm = False"
| "isInList (x # xs) itm = (if x = itm then True else isInList xs itm)"

lemma isInList_iff [simp]: "isInList xs x \<longleftrightarrow> x \<in> set xs"
  by (induction xs) auto

lemma sorted_wrt_find_first:
  assumes "sorted_wrt R xs" and "List.find P xs = Some x" and "y \<in> set xs" and "P y" and "y \<noteq> x"
  shows "R x y"
  using assms by (induction xs) (auto split: if_splits)

end
