(* ===== verification/Corev1.thy ===== *)
theory Corev1 imports Prelude begin

text \<open>
  The protobuf messages of \<open>apis/main/metav1\<close> and \<open>apis/main/corev1\<close> that the modelled code
  reads or writes. A message is a record whose fields carry the Go names after a short prefix, a
  pointer that the code compares with nil is an option, a \<open>oneof\<close> is a datatype, an enum is a
  datatype whose last constructor \<open>Other_...\<close>, where the code can meet one, stands for the numbers
  that the generated enum does not name. Go maps are association lists. A timestamp is
  \<open>None\<close> when it is nil and the nanoseconds since the epoch otherwise (timestamps outside the
  range of protobuf, which \<open>IsValid\<close> also rejects, are not represented). Parts of a message
  that no modelled code reads except by converting the whole message to a map are kept as \<open>json\<close>.
\<close>

section \<open>Generic values\<close>

datatype json =
    JNull | JBool bool | JNum int | JStr string | JList "json list" | JMap "(string \<times> json) list"

type_synonym timestamp = "int option"

section \<open>metav1\<close>

record ObjectReference =
  or_ApiVersion :: string
  or_Kind :: string
  or_Uid :: string
  or_Name :: string
  or_ResourceVersion :: string

record Metadata =
  md_Uid :: string
  md_Name :: string
  md_CreatedAt :: timestamp
  md_UpdatedAt :: timestamp
  md_DisplayName :: string
  md_Description :: string
  md_Labels :: "(string \<times> string) list"
  md_Tags :: "string list"
  md_Annotations :: "(string \<times> string) list"
  md_PicURL :: string
  md_ResourceVersion :: string
  md_LastResourceVersion :: string
  md_ActorRef :: "ObjectReference option"
  md_ActorOperation :: string
  md_IsSystem :: bool
  md_SpecLabels :: "(string \<times> string) list"
  md_IsUserHidden :: bool
  md_IsSystemHidden :: bool
  md_SystemLabels :: "(string \<times> string) list"

text \<open>The \<open>oneof\<close> of \<open>metav1.Duration\<close>; every number is a \<open>uint32\<close>.\<close>

datatype Duration =
    Duration_None
  | Milliseconds "32 word"
  | Seconds "32 word"
  | Minutes "32 word"
  | Hours "32 word"
  | Days "32 word"
  | Weeks "32 word"
  | Months "32 word"

record GetOptions =
  go_Uid :: string
  go_Name :: string

record DeleteOptions =
  do_Uid :: string
  do_Name :: string

record DualStackIP =
  ip_Ipv4 :: string
  ip_Ipv6 :: string

record DualStackNetwork =
  nw_V4 :: string
  nw_V6 :: string

section \<open>Conditions and policies\<close>

text \<open>\<open>Condition\<close> and its nested \<open>oneof\<close> wrappers; \<open>Condition_Unset\<close> has no type set.\<close>

datatype Condition =
    Condition_Unset
  | Condition_MatchAny bool
  | Condition_Match string
  | Condition_Not string
  | Condition_All "Condition list"
  | Condition_Any "Condition list"
  | Condition_None "Condition list"
  | Condition_Opa "string option"

datatype Rule_Effect = EFFECT_UNKNOWN | ALLOW | DENY | Other_Effect int

record Rule =
  ru_Name :: string
  ru_Condition :: "Condition option"
  ru_Effect :: Rule_Effect
  ru_Priority :: "32 word"

datatype Enforcement_Effect =
    ENFORCEMENT_UNKNOWN | ENFORCE | IGNORE | Other_Enforcement int

record EnforcementRule =
  en_Condition :: "Condition option"
  en_Effect :: Enforcement_Effect

record Policy_Spec =
  ps_Rules :: "Rule list"
  ps_EnforcementRules :: "EnforcementRule list"
  ps_Attrs :: "json option"
  ps_IsDisabled :: bool

record Policy =
  pol_ApiVersion :: string
  pol_Kind :: string
  pol_Metadata :: Metadata
  pol_Spec :: Policy_Spec
  pol_ParentPolicyRef :: "ObjectReference option"

record InlinePolicy =
  ip_Name :: string
  ip_Spec :: "Policy_Spec option"

text \<open>
  The same pair of fields is repeated in \<open>Session_Spec_Authorization\<close>,
  \<open>User_Spec_Authorization\<close> and the other owners of policies.
\<close>

record Authorization =
  az_Policies :: "string list"
  az_InlinePolicies :: "InlinePolicy list"

section \<open>Scopes\<close>

record Scope_Service_Filter =
  sf_Names :: "string list"
  sf_Namespaces :: "string list"

datatype Scope_Service =
    Scope_Service_Unset | Scope_Service_All | Scope_Service_Filter Scope_Service_Filter

record Scope_API_Filter =
  af_Packages :: "string list"
  af_Services :: "string list"
  af_Methods :: "string list"

datatype Scope_API = Scope_API_Unset | Scope_API_All | Scope_API_Filter Scope_API_Filter

datatype Scope = Scope_Unset | Scope_Svc Scope_Service | Scope_Api Scope_API

section \<open>Sessions\<close>

datatype Session_State = STATE_UNKNOWN | ACTIVE | PENDING | REJECTED | Other_State int

datatype Session_Type = TYPE_UNKNOWN | CLIENT | CLIENTLESS | Other_Type int

datatype L3Mode = BOTH | V4 | V6 | Other_L3Mode int

datatype Connection_Type = CONN_TYPE_UNKNOWN | WIREGUARD | QUICV0 | Other_ConnType int

datatype AuthenticatorAction =
    AUTHENTICATOR_ACTION_UNSET
  | AUTHENTICATION_REQUIRED
  | REGISTRATION_REQUIRED
  | AUTHENTICATION_RECOMMENDED
  | REGISTRATION_RECOMMENDED
  | Other_Action int

record Session_Spec =
  ss_ExpiresAt :: timestamp
  ss_State :: Session_State
  ss_Authorization :: "Authorization option"

record Authentication_Info_Downstream =
  ad_IpAddress :: string
  ad_UserAgent :: string
  ad_ClientVersion :: string

datatype Credential_Type = CRED_TYPE_UNKNOWN | AUTH_TOKEN | OAUTH2 | ACCESS_TOKEN | Other_CredType int

datatype IdP_Type = IDP_TYPE_UNKNOWN | GITHUB | OIDC | SAML | OIDC_IDENTITY_TOKEN | Other_IdPType int

record Info_IdentityProvider =
  ii_IdentityProviderRef :: "ObjectReference option"
  ii_Type :: IdP_Type
  ii_Identifier :: string
  ii_PicURL :: string
  ii_Email :: string

record Info_Credential =
  ic_CredentialRef :: "ObjectReference option"
  ic_Type :: Credential_Type
  ic_TokenID :: string

datatype Authenticator_Type = AUTHENTICATOR_UNKNOWN | FIDO | TOTP | TPM | Other_AuthenticatorType int

datatype Authenticator_Mode = AUTHENTICATOR_MODE_UNSET | DEFAULT | PASSKEY | MFA | Other_AuthenticatorMode int

record Info_FIDO =
  ff_UserPresent :: bool
  ff_UserVerified :: bool
  ff_IsHardware :: bool
  ff_IsSoftware :: bool
  ff_IsAttestationVerified :: bool
  ff_IsPasskey :: bool
  ff_Aaguid :: string

record Info_Authenticator =
  ia_AuthenticatorRef :: "ObjectReference option"
  ia_Type :: Authenticator_Type
  ia_Info :: "Info_FIDO option"
  ia_Mode :: Authenticator_Mode

datatype Info_Details =
    Details_Unset
  | Details_External json
  | Details_IdentityProvider Info_IdentityProvider
  | Details_Credential Info_Credential
  | Details_Authenticator Info_Authenticator

datatype Authentication_Info_Type =
    INFO_TYPE_UNSET | CREDENTIAL | INTERNAL | REFRESH_TOKEN | EXTERNAL | IDENTITY_PROVIDER | AUTHENTICATOR | Other_InfoType int

record Authentication_Info =
  ai_Type :: Authentication_Info_Type
  ai_Details :: Info_Details
  ai_Aal :: int
  ai_Downstream :: "Authentication_Info_Downstream option"

record Session_Status_Authentication =
  au_Info :: "Authentication_Info option"
  au_SetAt :: timestamp
  au_TokenID :: string
  au_AccessTokenDuration :: "Duration option"
  au_RefreshTokenDuration :: "Duration option"

record Upstream_Backend =
  ub_Host :: string
  ub_Port :: "32 word"

record RequestedService =
  rq_ServiceRef :: "ObjectReference option"
  rq_NamespaceRef :: "ObjectReference option"

record ServiceOptions =
  sop_ServeAll :: bool
  sop_RequestedServices :: "RequestedService list"
  sop_PortStart :: "32 word"

record Connection_Upstream =
  up_Port :: "32 word"
  up_L4Type :: int
  up_ServiceRef :: "ObjectReference option"
  up_NamespaceRef :: "ObjectReference option"
  up_Backend :: "Upstream_Backend option"
  up_Mode :: int

record PublishedService =
  pu_ServiceRef :: "ObjectReference option"
  pu_Port :: "32 word"
  pu_Address :: string

record LastConnection =
  lc_StartedAt :: timestamp
  lc_EndedAt :: timestamp

record Session_Status_Connection =
  co_StartedAt :: timestamp
  co_LastSeenAt :: timestamp
  co_Upstreams :: "Connection_Upstream list"
  co_Addresses :: "DualStackNetwork list"
  co_L3Mode :: L3Mode
  co_ServiceOptions :: "ServiceOptions option"
  co_X25519PublicKey :: string
  co_Ed25519PublicKey :: string
  co_Type :: Connection_Type
  co_PublishedServices :: "PublishedService list"
  co_IgnoreDNS :: bool
  co_ESSHEnable :: bool
  co_ESSHPort :: "32 word"

record Session_Status =
  st_UserRef :: "ObjectReference option"
  st_DeviceRef :: "ObjectReference option"
  st_Type :: Session_Type
  st_IsBrowser :: bool
  st_Authentication :: "Session_Status_Authentication option"
  st_LastAuthentications :: "Session_Status_Authentication list"
  st_InitialAuthentication :: "Session_Status_Authentication option"
  st_IsConnected :: bool
  st_Connection :: "Session_Status_Connection option"
  st_CredentialRef :: "ObjectReference option"
  st_Ext :: "(string \<times> json) list"
  st_TotalAuthentications :: "32 word"
  st_Scopes :: "Scope list"
  st_TotalConnections :: "32 word"
  st_LastConnections :: "LastConnection list"
  st_IsLocked :: bool
  st_AuthenticatorAction :: AuthenticatorAction
  st_RequiredAuthenticatorRef :: "ObjectReference option"

record Session =
  se_ApiVersion :: string
  se_Kind :: string
  se_Metadata :: Metadata
  se_Spec :: Session_Spec
  se_Status :: Session_Status

section \<open>Users, groups, devices and namespaces\<close>

datatype User_Type = USER_TYPE_UNKNOWN | HUMAN | WORKLOAD | Other_UserType int

record User_Spec_Session =
  uss_ClientDuration :: "Duration option"
  uss_ClientlessDuration :: "Duration option"
  uss_AccessTokenDuration :: "Duration option"
  uss_RefreshTokenDuration :: "Duration option"
  uss_MaxPerUser :: "32 word"
  uss_DefaultState :: Session_State

record Identity =
  id_IdentityProvider :: string
  id_Identifier :: string

record User_Spec =
  us_Groups :: "string list"
  us_Email :: string
  us_Type :: User_Type
  us_Info :: "json option"
  us_Session :: "User_Spec_Session option"
  us_Authorization :: "Authorization option"
  us_IsDisabled :: bool
  us_Attrs :: "json option"
  us_Authentication :: "Identity list option"

record User_Status =
  ut_Ext :: "(string \<times> json) list"
  ut_IdentityProviderRef :: "ObjectReference option"
  ut_IsLocked :: bool

record User =
  ur_ApiVersion :: string
  ur_Kind :: string
  ur_Metadata :: Metadata
  ur_Spec :: User_Spec
  ur_Status :: "User_Status option"

record Group =
  gr_ApiVersion :: string
  gr_Kind :: string
  gr_Metadata :: Metadata
  gr_Authorization :: "Authorization option"
  gr_Attrs :: "json option"

datatype Device_State =
    DEVICE_STATE_UNKNOWN | DEVICE_ACTIVE | DEVICE_PENDING | DEVICE_REJECTED | Other_DeviceState int

record Device_Spec =
  ds_State :: Device_State
  ds_Authorization :: "Authorization option"

record Device_Status =
  dt_Ext :: "(string \<times> json) list"
  dt_UserRef :: "ObjectReference option"
  dt_OsType :: int
  dt_Hostname :: string
  dt_Id :: string
  dt_SerialNumber :: string
  dt_IsLocked :: bool
  dt_MacAddresses :: "string list"

record Device =
  dv_ApiVersion :: string
  dv_Kind :: string
  dv_Metadata :: Metadata
  dv_Spec :: Device_Spec
  dv_Status :: "Device_Status option"

record Namespace =
  na_ApiVersion :: string
  na_Kind :: string
  na_Metadata :: Metadata
  na_Authorization :: "Authorization option"
  na_Attrs :: "json option"

end
