(* ===== verification/Corev1ServiceConfig.thy ===== *)
theory Corev1ServiceConfig imports Corev1 begin

text \<open>
  The configurations of a Service (\<open>corev1.pb.go\<close>): upstreams and containers, and what the
  configurations for HTTP, Kubernetes, SSH and databases say. A field whose message names a secret is the
  name, \<open>None\<close> when the message is nil; the parts that no modelled code reads are one value of JSON.
\<close>

section \<open>Containers\<close>

datatype Container_Env_Type =
    Env_Unset
  | Env_Value string
  | Env_FromSecret string
  | Env_KubernetesSecretRef string string

record Container_Env =
  cv_Name :: string
  cv_Type :: Container_Env_Type

record Container_Credentials =
  cw_Username :: string
  cw_Password :: "string option"
  cw_Server :: string

text \<open>A volume carries the name of its claim; a volume of no type is \<open>None\<close>.\<close>

record Container_Volume =
  vo_Name :: string
  vo_PersistentVolumeClaim :: "string option"

record Container_VolumeMount =
  mo_Name :: string
  mo_MountPath :: string
  mo_SubPath :: string

datatype Container_Probe =
    Probe_Unset
  | Probe_Grpc "32 word"
  | Probe_HttpGet string "32 word"
  | Probe_TcpSocket "32 word"

record Upstream_Container =
  uc_Port :: "32 word"
  uc_Image :: string
  uc_Command :: "string list"
  uc_Args :: "string list"
  uc_Env :: "Container_Env list"
  uc_Replicas :: "32 word"
  uc_UsernamePassword :: "Container_Credentials option"
  uc_ResourceLimit :: "(string \<times> string) list option"
  uc_Volumes :: "Container_Volume list"
  uc_VolumeMounts :: "Container_VolumeMount list"
  uc_LivenessProbe :: "Container_Probe option"
  uc_ReadinessProbe :: "Container_Probe option"
  uc_Rest :: json

section \<open>Upstreams\<close>

record Endpoint =
  ep_Url :: string
  ep_User :: string

datatype Upstream_Type =
    Upstream_Unset
  | Upstream_Url string
  | Upstream_Loadbalance "Endpoint list"
  | Upstream_Container Upstream_Container

record Config_Upstream =
  cu_User :: string
  cu_Type :: Upstream_Type

section \<open>HTTP\<close>

datatype HTTP_Auth =
    Auth_Unset
  | Auth_Bearer string
  | Auth_Basic string "string option"
  | Auth_Custom string "string option"
  | Auth_Sigv4 string string string "string option"
  | Auth_Oauth2ClientCredentials string string "string option"

record HTTP_Path =
  hp_AddPrefix :: string
  hp_RemovePrefix :: string

datatype JSON_Schema = Schema_Unset | Schema_Inline string

datatype Body_Validation = Validation_Unset | Validation_JsonSchema JSON_Schema

datatype Inline_Body = Body_Unset | Body_Inline string | Body_InlineBytes string

record Response_Direct =
  rd_StatusCode :: int
  rd_ContentType :: string
  rd_Type :: Inline_Body

datatype HTTP_Response = Response_Unset | Response_Direct Response_Direct

record Plugin_Direct =
  pl_StatusCode :: int
  pl_Headers :: "(string \<times> string) list"
  pl_Body :: "Inline_Body option"

datatype ExtProc_Type = ExtProc_Unset | ExtProc_Address string | ExtProc_Container string

datatype Cache_Key = Key_Unset | Key_Eval string

record Plugin_Cache =
  pc_Ttl :: "Duration option"
  pc_Key :: "Cache_Key option"
  pc_MaxSize :: "64 word"

record Plugin_JSONSchema =
  pj_Type :: JSON_Schema
  pj_Headers :: "(string \<times> string) list"
  pj_Body :: "Inline_Body option"

record Plugin_RateLimit =
  rl_Limit :: int
  rl_StatusCode :: int
  rl_Window :: "Duration option"
  rl_Headers :: "(string \<times> string) list"
  rl_Body :: "Inline_Body option"

datatype HTTP_Plugin_Type =
    Plugin_Unset
  | Plugin_Lua string
  | Plugin_Direct Plugin_Direct
  | Plugin_ExtProc "Duration option" ExtProc_Type
  | Plugin_Cache Plugin_Cache
  | Plugin_JsonSchema Plugin_JSONSchema
  | Plugin_Path HTTP_Path
  | Plugin_RateLimit Plugin_RateLimit

record HTTP_Plugin =
  pg_Name :: string
  pg_Condition :: "Condition option"
  pg_Type :: HTTP_Plugin_Type

record HTTP_Visibility =
  vi_IncludeRequestHeaders :: "string list"
  vi_IncludeResponseHeaders :: "string list"

record Config_HTTP =
  ch_Auth :: "HTTP_Auth option"
  ch_Path :: "HTTP_Path option"
  ch_IsUpstreamHTTP2 :: bool
  ch_ListenHTTP2 :: bool
  ch_EnableRequestBuffering :: bool
  ch_Body :: "Body_Validation option option"
  ch_Response :: "HTTP_Response option"
  ch_Plugins :: "HTTP_Plugin list"
  ch_Visibility :: "HTTP_Visibility option"
  ch_Rest :: json

section \<open>Other configurations\<close>

text \<open>A password or a key of SSH that names no secret is \<open>None\<close>.\<close>

datatype SSH_Auth = SSH_Unset | SSH_Password "string option" | SSH_PrivateKey "string option"

record Config_SSH =
  cs_User :: string
  cs_Auth :: "SSH_Auth option"
  cs_EnableLocalPortForwarding :: bool
  cs_EnableSubsystem :: bool
  cs_ESSHMode :: bool
  cs_Rest :: json

datatype Config_Kubernetes =
    K8s_Unset
  | K8s_Kubeconfig string string
  | K8s_ClientCertificate "string option"
  | K8s_BearerToken "string option"

record Config_Database =
  db_User :: string
  db_Password :: "string option"
  db_Database :: string
  db_Rest :: json

datatype Config_Type =
    Config_Unset
  | Config_Ssh Config_SSH
  | Config_Http Config_HTTP
  | Config_Kubernetes Config_Kubernetes
  | Config_Postgres Config_Database
  | Config_Mysql Config_Database
  | Config_Other json

record Config_TLS =
  tl_TrustedCAs :: "string list"
  tl_ClientCertificate :: "string option"

record Config_ClientCertificate =
  ck_FromSecret :: string
  ck_TrustedCAs :: "string list"

record Service_Spec_Config =
  sc_Name :: string
  sc_ClientCertificate :: "Config_ClientCertificate option"
  sc_Upstream :: "Config_Upstream option"
  sc_Parent :: string
  sc_Tls :: "Config_TLS option"
  sc_Type :: Config_Type

end
