(* ===== verification/Corev1Services.thy ===== *)
theory Corev1Services imports Corev1ServiceConfig begin

text \<open>
  The messages of \<open>corev1\<close> and \<open>coctovigilv1\<close> around a Service and a request to it: services and
  their upstreams, secrets, cluster configuration, policy triggers, the request context that
  policies see, and the reasons of a decision. The conventions are those of \<open>Corev1\<close>.
\<close>

section \<open>Services\<close>

datatype Service_Mode =
    MODE_UNSET | TCP | UDP | HTTP | SSH | KUBERNETES | POSTGRES | MYSQL | GRPC | WEB | DNS
  | Other_Mode int

record DynamicConfig_Rule =
  dr_Condition :: "Condition option"
  dr_ConfigName :: string

record DynamicConfig =
  dc_Configs :: "Service_Spec_Config list"
  dc_Rules :: "DynamicConfig_Rule list"

record Service_Spec =
  sv_Port :: "32 word"
  sv_Mode :: Service_Mode
  sv_Authorization :: "Authorization option"
  sv_Config :: "Service_Spec_Config option"
  sv_DynamicConfig :: "DynamicConfig option"
  sv_IsTLS :: bool
  sv_IsPublic :: bool
  sv_IsAnonymous :: bool
  sv_Deployment :: "json option"
  sv_Attrs :: "json option"
  sv_Region :: string

record Status_ManagedService =
  ms_Image :: string
  ms_Port :: "32 word"
  ms_HasSubdomain :: bool
  ms_ForwardHost :: bool
  ms_Type :: string
  ms_Rest :: json

record Service_Status_Address =
  sa_DualStackIP :: "DualStackIP option"
  sa_PodRef :: "ObjectReference option"

record Service_Status =
  sx_Addresses :: "Service_Status_Address list"
  sx_NamespaceRef :: "ObjectReference option"
  sx_ManagedService :: "Status_ManagedService option"
  sx_RegionRef :: "ObjectReference option"
  sx_PrimaryHostname :: string
  sx_AdditionalHostnames :: "string list"
  sx_Port :: "32 word"

record Service =
  svc_ApiVersion :: string
  svc_Kind :: string
  svc_Metadata :: Metadata
  svc_Spec :: Service_Spec
  svc_Status :: Service_Status

section \<open>Secrets, identity providers and regions\<close>

datatype Secret_Value = Value string | ValueBytes string | Other_Value

record Secret =
  sec_ApiVersion :: string
  sec_Kind :: string
  sec_Metadata :: Metadata
  sec_Spec_Data :: "Secret_Value option"
  sec_Data :: "Secret_Value option"

datatype AAL = AAL_UNSET | AAL1 | AAL2 | AAL3 | Other_AAL int

record AALRule =
  aa_Condition :: "Condition option"
  aa_Aal :: AAL

record PostAuthenticationRule =
  pa_Condition :: "Condition option"
  pa_Effect :: Rule_Effect

text \<open>The client secret of a provider names a secret; a secret that is nil is \<open>None\<close>.\<close>

record IdP_Github =
  gh_ClientID :: string
  gh_ClientSecret :: "string option"

record IdP_OIDC =
  oi_ClientID :: string
  oi_ClientSecret :: "string option"
  oi_IssuerURL :: string
  oi_Scopes :: "string list"
  oi_IdentifierClaim :: string
  oi_CheckEmailVerified :: bool
  oi_UseUserInfoEndpoint :: bool

datatype SAML_Metadata = SAML_Unset | SAML_Metadata string | SAML_MetadataURL string

record IdP_SAML =
  sa_MetadataType :: SAML_Metadata
  sa_EntityID :: string
  sa_IdentifierAttribute :: string
  sa_ForceAuthn :: bool

datatype OIDCIdentityToken_Type = OIT_Unset | OIT_IssuerURL string | OIT_JwksContent string | OIT_JwksURL string

record IdP_OIDCIdentityToken =
  ot_Type :: OIDCIdentityToken_Type
  ot_Issuer :: string
  ot_Audience :: string

datatype IdP_Spec_Type =
    IdP_Unset
  | IdP_Github IdP_Github
  | IdP_Oidc IdP_OIDC
  | IdP_Saml IdP_SAML
  | IdP_OidcIdentityToken IdP_OIDCIdentityToken

record IdentityProvider_Spec =
  is_IsDisabled :: bool
  is_DisplayName :: string
  is_AalRules :: "AALRule list"
  is_DisableEmailAsIdentity :: bool
  is_PostAuthenticationRules :: "PostAuthenticationRule list"
  is_Type :: IdP_Spec_Type

record IdentityProvider_Status =
  it_Type :: IdP_Type
  it_IsLocked :: bool

record IdentityProvider =
  idp_ApiVersion :: string
  idp_Kind :: string
  idp_Metadata :: Metadata
  idp_Spec :: IdentityProvider_Spec
  idp_Status :: IdentityProvider_Status

record Region =
  rg_ApiVersion :: string
  rg_Kind :: string
  rg_Metadata :: Metadata

section \<open>Gateways and configurations\<close>

record Gateway_WireGuard =
  gw_WgPort :: "32 word"
  gw_PublicKey :: string
  gw_KeyRotatedAt :: timestamp

record Gateway_Status =
  gw_RegionRef :: "ObjectReference option"
  gw_NodeRef :: "ObjectReference option"
  gw_Id :: string
  gw_Cidr :: "DualStackNetwork option"
  gw_Wireguard :: "Gateway_WireGuard option"
  gw_Quicv0 :: "32 word option"
  gw_PublicIPs :: "string list"
  gw_Hostname :: string

record Gateway =
  gw_Metadata :: Metadata
  gw_Status :: Gateway_Status

datatype Config_Data = Config_Value string | Config_ValueBytes string | Config_DataMap json | Config_Attrs "json option"

text \<open>The data of a configuration: nil, or a message whose oneof may be unset.\<close>

record Config =
  cfg_Metadata :: Metadata
  cfg_Data :: "Config_Data option option"

section \<open>Cluster configuration\<close>

datatype Network_Mode = MODE_DEFAULT | DUAL_STACK | V6_ONLY | V4_ONLY | Other_NetworkMode int

record Wireguard =
  wg_GatewayPort :: "32 word"
  wg_Mtu :: "32 word"

record Quicv0 =
  qu_Enable :: bool
  qu_GatewayPort :: "32 word"
  qu_Mtu :: "32 word"

record NetworkConfig =
  nc_Mode :: Network_Mode
  nc_V4 :: "json option"
  nc_V6 :: "json option"
  nc_Wireguard :: "Wireguard option"
  nc_Quicv0 :: "Quicv0 option"

record ClusterConfig_Ingress =
  in_UseForwardedForHeader :: bool

text \<open>The settings of the sessions of humans and of workloads have the same fields as those of a user.\<close>

record ClusterConfig_Session =
  cn_Human :: "User_Spec_Session option"
  cn_Workload :: "User_Spec_Session option"

text \<open>Likewise those of their devices.\<close>

record Device_Defaults =
  dd_DefaultState :: Device_State
  dd_MaxPerUser :: "32 word"

record ClusterConfig_Device =
  cdv_Human :: "Device_Defaults option"
  cdv_Workload :: "Device_Defaults option"

record ClusterConfig_Gateway =
  cg_WireguardKeyRotationDuration :: "Duration option"

record DNS_Zone =
  dz_Servers :: "string list"
  dz_CacheDuration :: "Duration option"

record ClusterConfig_DNS =
  cd_FallbackZone :: "DNS_Zone option"

datatype AuthEnforcement_Effect =
    AUTH_ENFORCEMENT_UNKNOWN | AUTH_ENFORCE | AUTH_IGNORE | AUTH_RECOMMEND | Other_AuthEnforcement int

record AuthEnforcementRule =
  ae_Condition :: "Condition option"
  ae_Effect :: AuthEnforcement_Effect

record AuthRule =
  ar_Name :: string
  ar_Condition :: "Condition option"
  ar_Effect :: Rule_Effect

record ClusterConfig_Authenticator =
  ca_RegistrationEnforcementRules :: "AuthEnforcementRule list"
  ca_AuthenticationEnforcementRules :: "AuthEnforcementRule list"
  ca_PostAuthenticationRules :: "AuthRule list"
  ca_EnablePasskeyLogin :: bool

record ClusterConfig_Spec =
  ccs_Authorization :: "Authorization option"
  ccs_Ingress :: "ClusterConfig_Ingress option"
  ccs_Session :: "ClusterConfig_Session option"
  ccs_Device :: "ClusterConfig_Device option"
  ccs_Gateway :: "ClusterConfig_Gateway option"
  ccs_Dns :: "ClusterConfig_DNS option"
  ccs_Authenticator :: "ClusterConfig_Authenticator option"

record ClusterConfig =
  cc_Metadata :: Metadata
  cc_Spec :: ClusterConfig_Spec
  cc_Domain :: string
  cc_ClusterNetwork :: DualStackNetwork
  cc_ServiceSubnet :: "DualStackNetwork option"
  cc_WgConnSubnet :: "DualStackNetwork option"
  cc_QuicConnSubnet :: "DualStackNetwork option"
  cc_NetworkConfig :: "NetworkConfig option"

section \<open>Requests\<close>

record HTTP_Request =
  ht_Headers :: "(string \<times> string) list"
  ht_Method :: string
  ht_Path :: string
  ht_Host :: string
  ht_Protocol :: string
  ht_Size :: int
  ht_Scheme :: string
  ht_Body :: string
  ht_BodyMap :: "json option"
  ht_Uri :: string
  ht_QueryParams :: "(string \<times> string) list"

record Kubernetes_Request =
  kr_Http :: "HTTP_Request option"
  kr_Verb :: string
  kr_ApiPrefix :: string
  kr_ApiGroup :: string
  kr_ApiVersion :: string
  kr_Namespace :: string
  kr_Resource :: string
  kr_Subresource :: string
  kr_Name :: string

record GRPC_Request =
  gq_Http :: "HTTP_Request option"
  gq_Method :: string
  gq_Service :: string
  gq_ServiceFullName :: string
  gq_Package :: string

datatype Request =
    Request_Unset
  | Request_Http HTTP_Request
  | Request_Ssh json
  | Request_Kubernetes Kubernetes_Request
  | Request_Grpc GRPC_Request
  | Request_Postgres json
  | Request_Dns json

record RequestContext =
  rc_Request :: "Request option"
  rc_Session :: "Session option"
  rc_User :: "User option"
  rc_Groups :: "Group list"
  rc_Device :: "Device option"
  rc_Service :: "Service option"
  rc_Namespace :: "Namespace option"

record DownstreamRequest_Source =
  so_Address :: string
  so_Port :: int

record DownstreamRequest =
  dq_Source :: "DownstreamRequest_Source option"
  dq_Request :: "Request option"

record DoAuthenticateAndAuthorizeRequest =
  da_Service :: "Service option"
  da_Request :: "DownstreamRequest option"

section \<open>Policy triggers\<close>

datatype PreCondition =
    PreCondition_Unset
  | PreCondition_NotBefore timestamp
  | PreCondition_NotAfter timestamp
  | PreCondition_SessionRef "ObjectReference option"
  | PreCondition_UserRef "ObjectReference option"
  | PreCondition_MatchAny bool
  | PreCondition_Condition "Condition option"
  | PreCondition_Any "PreCondition list"
  | PreCondition_All "PreCondition list"

record PolicyTrigger =
  pt_Metadata :: Metadata
  pt_OwnerRef :: "ObjectReference option"
  pt_PreCondition :: "PreCondition option"
  pt_Policies :: "string list"
  pt_InlinePolicies :: "InlinePolicy list"
  pt_IsDisabled :: bool

section \<open>Reasons of a decision\<close>

datatype Reason_Type =
    TYPE_UNKNOWN_REASON | SESSION_INVALID | DEVICE_NOT_ACTIVE | USER_DEACTIVATED
  | SCOPE_UNAUTHORIZED | POLICY_MATCH | NO_POLICY_MATCH | SESSION_CLIENT_TYPE_INVALID
  | SESSION_LOCKED | USER_LOCKED | DEVICE_LOCKED | AUTHENTICATOR_AUTHENTICATION_REQUIRED
  | AUTHENTICATOR_REGISTRATION_REQUIRED

datatype PolicyMatch_Type =
    PolicyMatch_Unset
  | PolicyMatch_Policy "ObjectReference option"
  | PolicyMatch_InlinePolicy "ObjectReference option" string

record PolicyMatch =
  pm_Type :: PolicyMatch_Type
  pm_RuleName :: string
  pm_Priority :: "32 word"

record Reason =
  re_Type :: Reason_Type
  re_Details :: "PolicyMatch option"

end
