(* ===== verification/Netip.thy ===== *)
theory Netip imports Prelude begin

unbundle bit_operations_syntax

text \<open>
  What the sources use of Go's \<open>net/netip\<close> and \<open>net\<close>: parsing and printing of addresses,
  CIDR prefixes and their membership test, and the address classes that decide whether a
  forwarded address is public. An IPv4 address is a word of 32 bits, an IPv6 address a word of
  128 bits with its zone (empty when there is none).
\<close>

section \<open>Digits\<close>

definition digit_val :: "char \<Rightarrow> nat option" where
  "digit_val c = (let n = of_char c in if 48 \<le> n \<and> n \<le> 57 then Some (n - 48) else None)"

definition hex_val :: "char \<Rightarrow> nat option" where
  "hex_val c = (let n = of_char c in
     if 48 \<le> n \<and> n \<le> 57 then Some (n - 48)
     else if 97 \<le> n \<and> n \<le> 102 then Some (n - 87)
     else if 65 \<le> n \<and> n \<le> 70 then Some (n - 55) else None)"

definition digit :: "nat \<Rightarrow> char" where
  "digit n = (if n < 10 then char_of (48 + n) else char_of (87 + n))"

fun dec :: "nat \<Rightarrow> string" where
  "dec n = (if n < 10 then [digit n] else dec (n div 10) @ [digit (n mod 10)])"

fun hex :: "nat \<Rightarrow> string" where
  "hex n = (if n < 16 then [digit n] else hex (n div 16) @ [digit (n mod 16)])"

declare dec.simps [simp del] hex.simps [simp del]

section \<open>IPv4 text\<close>

text \<open>
  \<open>parseIPv4Fields\<close>: \<open>val\<close> and \<open>n\<close> are the value and the number of digits of the current octet,
  \<open>acc\<close> the octets read so far, last one first.
\<close>

fun parse4 :: "string \<Rightarrow> nat \<Rightarrow> nat \<Rightarrow> nat list \<Rightarrow> nat list option" where
  "parse4 [] val n acc = (if length acc < 3 then None else Some (rev (val # acc)))"
| "parse4 (c # s) val n acc =
     (case digit_val c of
        Some d \<Rightarrow>
          if n = 1 \<and> val = 0 then None
          else if 255 < val * 10 + d then None
          else parse4 s (val * 10 + d) (n + 1) acc
      | None \<Rightarrow>
          if c \<noteq> CHR ''.'' then None
          else if n = 0 \<or> s = [] then None
          else if length acc = 3 then None
          else parse4 s 0 0 (val # acc))"

definition of_octets :: "nat list \<Rightarrow> nat" where
  "of_octets os = foldl (\<lambda>a o'. a * 256 + o') 0 os"

definition octets :: "32 word \<Rightarrow> nat list" where
  "octets w = (let n = unat w in
     [n div 16777216 mod 256, n div 65536 mod 256, n div 256 mod 256, n mod 256])"

definition String4 :: "32 word \<Rightarrow> string" where
  "String4 w = Join (map dec (octets w)) CHR ''.''"

section \<open>IPv6 text\<close>

fun hex_field :: "string \<Rightarrow> nat \<Rightarrow> nat \<Rightarrow> (nat \<times> nat \<times> string) option" where
  "hex_field [] acc off = Some (acc, off, [])"
| "hex_field (c # s) acc off =
     (case hex_val c of
        None \<Rightarrow> Some (acc, off, c # s)
      | Some d \<Rightarrow> if 3 < off \<or> 65535 < acc * 16 + d then None
                  else hex_field s (acc * 16 + d) (off + 1))"

text \<open>
  The loop of \<open>parseIPv6\<close>: \<open>k\<close> is the number of 16 bit fields still free, \<open>gs\<close> the fields read,
  last one first, \<open>ell\<close> the number of fields that preceded the ellipsis. The result is what is left
  of the text, the fields and the ellipsis.
\<close>

fun parse6 :: "nat \<Rightarrow> string \<Rightarrow> nat list \<Rightarrow> nat option \<Rightarrow> (string \<times> nat list \<times> nat option) option"
where
  "parse6 0 s gs ell = Some (s, gs, ell)"
| "parse6 (Suc k) s gs ell =
     (case hex_field s 0 0 of
        None \<Rightarrow> None
      | Some (acc, off, rest) \<Rightarrow>
          if off = 0 then None
          else if rest \<noteq> [] \<and> hd rest = CHR ''.'' then
            (if ell = None \<and> k \<noteq> 1 then None
             else if k = 0 then None
             else case parse4 s 0 0 [] of
                    Some [a, b, c, d] \<Rightarrow> Some ([], (c * 256 + d) # (a * 256 + b) # gs, ell)
                  | _ \<Rightarrow> None)
          else
            (case rest of
               [] \<Rightarrow> Some ([], acc # gs, ell)
             | c # s' \<Rightarrow>
                 if c \<noteq> CHR '':'' \<or> s' = [] then None
                 else if hd s' = CHR '':'' then
                   (if ell \<noteq> None then None
                    else if tl s' = [] then Some ([], acc # gs, Some (Suc (length gs)))
                    else parse6 k (tl s') (acc # gs) (Some (Suc (length gs))))
                 else parse6 k s' (acc # gs) ell))"

definition of_groups :: "nat list \<Rightarrow> nat" where
  "of_groups gs = foldl (\<lambda>a g. a * 65536 + g) 0 gs"

definition parse6_groups :: "string \<Rightarrow> nat list option" where
  "parse6_groups s =
     (if s = ''::'' then Some (replicate 8 0)
      else
        case (if HasPrefix s ''::'' then parse6 8 (drop 2 s) [] (Some 0) else parse6 8 s [] None) of
          None \<Rightarrow> None
        | Some (rest, gs, ell) \<Rightarrow>
            if rest \<noteq> [] then None
            else if length gs < 8 then
              (case ell of
                 None \<Rightarrow> None
               | Some e \<Rightarrow> Some (take e (rev gs) @ replicate (8 - length gs) 0 @ drop e (rev gs)))
            else if ell \<noteq> None then None
            else Some (rev gs))"

text \<open>The longest run of at least two zero fields, the first one of that length.\<close>

fun zero_run :: "nat list \<Rightarrow> nat" where
  "zero_run [] = 0"
| "zero_run (g # gs) = (if g = 0 then Suc (zero_run gs) else 0)"

fun best_run :: "nat list \<Rightarrow> nat \<Rightarrow> nat \<times> nat \<Rightarrow> nat \<times> nat" where
  "best_run [] i best = best"
| "best_run (g # gs) i best =
     (let l = zero_run (g # gs) in
      best_run gs (Suc i) (if 2 \<le> l \<and> snd best < l then (i, l) else best))"

definition String_groups :: "nat list \<Rightarrow> string" where
  "String_groups gs =
     (let (i, l) = best_run gs 0 (0, 0) in
      if l = 0 then Join (map hex gs) CHR '':''
      else Join (map hex (take i gs)) CHR '':'' @ ''::'' @ Join (map hex (drop (i + l) gs)) CHR '':'')"

definition groups :: "128 word \<Rightarrow> nat list" where
  "groups w = map (\<lambda>i. unat w div 65536 ^ (7 - i) mod 65536) [0..<8]"

section \<open>Addresses\<close>

datatype Addr = Addr4 "32 word" | Addr6 "128 word" string

definition parseIPv6 :: "string \<Rightarrow> Addr option" where
  "parseIPv6 s =
     (case Cut s CHR ''%'' of
        None \<Rightarrow> map_option (\<lambda>gs. Addr6 (of_nat (of_groups gs)) []) (parse6_groups s)
      | Some (a, zone) \<Rightarrow>
          if zone = [] then None
          else map_option (\<lambda>gs. Addr6 (of_nat (of_groups gs)) zone) (parse6_groups a))"

definition parseIPv4 :: "string \<Rightarrow> Addr option" where
  "parseIPv4 s = map_option (\<lambda>os. Addr4 (of_nat (of_octets os))) (parse4 s 0 0 [])"

definition ParseAddr :: "string \<Rightarrow> Addr option" where
  "ParseAddr s =
     (case List.find (\<lambda>c. c = CHR ''.'' \<or> c = CHR '':'' \<or> c = CHR ''%'') s of
        None \<Rightarrow> None
      | Some c \<Rightarrow>
          if c = CHR ''.'' then parseIPv4 s
          else if c = CHR '':'' then parseIPv6 s
          else None)"

fun Unmap :: "Addr \<Rightarrow> Addr" where
  "Unmap (Addr4 w) = Addr4 w"
| "Unmap (Addr6 w z) = (if unat w div 2 ^ 32 = 65535 then Addr4 (ucast w) else Addr6 w z)"

fun Zone :: "Addr \<Rightarrow> string" where
  "Zone (Addr4 w) = []"
| "Zone (Addr6 w z) = z"

fun BitLen :: "Addr \<Rightarrow> nat" where
  "BitLen (Addr4 w) = 32"
| "BitLen (Addr6 w z) = 128"

text \<open>\<open>netip.Addr.String\<close> and \<open>net.IP.String\<close>, which differ on mapped IPv4 addresses.\<close>

fun addr_String :: "Addr \<Rightarrow> string" where
  "addr_String (Addr4 w) = String4 w"
| "addr_String (Addr6 w z) =
     (let zs = (if z = [] then [] else CHR ''%'' # z) in
      case Unmap (Addr6 w z) of
        Addr4 v \<Rightarrow> ''::ffff:'' @ String4 v @ zs
      | Addr6 v z' \<Rightarrow> String_groups (groups v) @ zs)"

fun IP_String :: "Addr option \<Rightarrow> string" where
  "IP_String None = ''<nil>''"
| "IP_String (Some a) =
     (case Unmap a of Addr4 w \<Rightarrow> String4 w | Addr6 w z \<Rightarrow> String_groups (groups w))"

section \<open>Prefixes\<close>

datatype Prefix = Prefix Addr nat

text \<open>
  \<open>Prefix.Contains\<close>: an address with a zone, or of the other family, is never in the prefix. An
  IPv4 address mapped into IPv6 belongs to the IPv6 family here.
\<close>

fun Contains :: "Prefix \<Rightarrow> Addr \<Rightarrow> bool" where
  "Contains (Prefix (Addr4 p) b) (Addr4 a) \<longleftrightarrow> b \<le> 32 \<and> drop_bit (32 - b) (a XOR p) = 0"
| "Contains (Prefix (Addr6 p z') b) (Addr6 a z) \<longleftrightarrow>
     z = [] \<and> b \<le> 128 \<and> drop_bit (128 - b) (a XOR p) = 0"
| "Contains (Prefix (Addr4 p) b) (Addr6 a z) \<longleftrightarrow> False"
| "Contains (Prefix (Addr6 p z') b) (Addr4 a) \<longleftrightarrow> False"

text \<open>\<open>net.dtoi\<close>: the decimal prefix of a text, rejected from \<open>0xFFFFFF\<close> on.\<close>

fun dtoi :: "string \<Rightarrow> nat \<Rightarrow> nat \<Rightarrow> (nat \<times> nat) option" where
  "dtoi [] n i = (if i = 0 then None else Some (n, i))"
| "dtoi (c # s) n i =
     (case digit_val c of
        None \<Rightarrow> (if i = 0 then None else Some (n, i))
      | Some d \<Rightarrow> if 16777215 \<le> n * 10 + d then None else dtoi s (n * 10 + d) (Suc i))"

definition ParseCIDR :: "string \<Rightarrow> (Addr \<times> nat) option" where
  "ParseCIDR s =
     (case Cut s CHR ''/'' of
        None \<Rightarrow> None
      | Some (addr, bits) \<Rightarrow>
          (case ParseAddr addr of
             None \<Rightarrow> None
           | Some a \<Rightarrow>
               if Zone a \<noteq> [] then None
               else case dtoi bits 0 0 of
                      None \<Rightarrow> None
                    | Some (n, i) \<Rightarrow>
                        if i \<noteq> length bits \<or> BitLen a < n then None else Some (a, n)))"

section \<open>Address classes\<close>

definition in4 :: "32 word \<Rightarrow> nat \<Rightarrow> 32 word \<Rightarrow> bool" where
  "in4 p b a \<longleftrightarrow> Contains (Prefix (Addr4 p) b) (Addr4 a)"

definition top16 :: "128 word \<Rightarrow> nat" where
  "top16 w = unat w div 65536 ^ 7"

definition IsPrivate :: "Addr \<Rightarrow> bool" where
  "IsPrivate a =
     (case Unmap a of
        Addr4 w \<Rightarrow> in4 0x0A000000 8 w \<or> in4 0xAC100000 12 w \<or> in4 0xC0A80000 16 w
      | Addr6 w z \<Rightarrow> top16 w div 512 = 126)"

definition IsLoopback :: "Addr \<Rightarrow> bool" where
  "IsLoopback a =
     (case Unmap a of Addr4 w \<Rightarrow> in4 0x7F000000 8 w | Addr6 w z \<Rightarrow> w = 1)"

fun IsUnspecified :: "Addr \<Rightarrow> bool" where
  "IsUnspecified (Addr4 w) \<longleftrightarrow> w = 0"
| "IsUnspecified (Addr6 w z) \<longleftrightarrow> w = 0 \<and> z = []"

definition IsLinkLocalUnicast :: "Addr \<Rightarrow> bool" where
  "IsLinkLocalUnicast a =
     (case Unmap a of Addr4 w \<Rightarrow> in4 0xA9FE0000 16 w | Addr6 w z \<Rightarrow> top16 w div 64 = 1018)"

definition IsLinkLocalMulticast :: "Addr \<Rightarrow> bool" where
  "IsLinkLocalMulticast a =
     (case Unmap a of
        Addr4 w \<Rightarrow> in4 0xE0000000 24 w
      | Addr6 w z \<Rightarrow> top16 w div 4096 = 15 \<and> top16 w mod 16 = 2 \<and> top16 w div 256 = 255)"

section \<open>Round trip of IPv4 text\<close>

lemma digit_val_digit [simp]: "n < 10 \<Longrightarrow> digit_val (digit n) = Some n"
  by (simp add: digit_val_def digit_def Let_def)

lemma digit_chars [simp]:
  "digit 0 = CHR ''0''" "digit (Suc 0) = CHR ''1''" "digit 1 = CHR ''1''" "digit 2 = CHR ''2''"
  "digit 3 = CHR ''3''" "digit 4 = CHR ''4''" "digit 5 = CHR ''5''" "digit 6 = CHR ''6''"
  "digit 7 = CHR ''7''" "digit 8 = CHR ''8''" "digit 9 = CHR ''9''"
  by (simp_all add: digit_def char_of_def bit_0)

lemma digit_val_dot [simp]: "digit_val CHR ''.'' = None"
  by (simp add: digit_val_def Let_def)

lemma octet_digits:
  shows "n < 10 \<Longrightarrow> dec n = [digit n]"
    and "10 \<le> n \<Longrightarrow> n < 100 \<Longrightarrow> dec n = [digit (n div 10), digit (n mod 10)]"
    and "100 \<le> n \<Longrightarrow> n < 1000 \<Longrightarrow> dec n = [digit (n div 100), digit (n div 10 mod 10), digit (n mod 10)]"
proof -
  show "n < 10 \<Longrightarrow> dec n = [digit n]"
    by (subst dec.simps) simp
  show "10 \<le> n \<Longrightarrow> n < 100 \<Longrightarrow> dec n = [digit (n div 10), digit (n mod 10)]"
    by (subst dec.simps, subst dec.simps) auto
  show "100 \<le> n \<Longrightarrow> n < 1000 \<Longrightarrow> dec n = [digit (n div 100), digit (n div 10 mod 10), digit (n mod 10)]"
    by (subst dec.simps, subst dec.simps, subst dec.simps) (auto simp: div_mult2_eq [symmetric])
qed

lemma octet_cases:
  fixes n :: nat
  assumes "n < 256"
  obtains (one) "n < 10" | (two) "10 \<le> n" "n < 100" | (three) "100 \<le> n" "n < 256"
  using assms by linarith

lemma parse4_octet:
  assumes "n < 256"
  shows "\<exists>k>0. \<forall>s acc. parse4 (dec n @ s) 0 0 acc = parse4 s n k acc"
  using assms
proof (cases rule: octet_cases)
  case one
  then show ?thesis
    by (intro exI [of _ "Suc 0"]) (simp add: octet_digits)
next
  case two
  then have "n div 10 * 10 + n mod 10 = n" "n div 10 < 10" "n div 10 \<noteq> 0"
    by auto
  with two show ?thesis
    by (intro exI [of _ "Suc (Suc 0)"]) (simp add: octet_digits)
next
  case three
  have "n div 100 = n div 10 div 10"
    by (simp add: div_mult2_eq [symmetric])
  then have "n div 100 * 10 + n div 10 mod 10 = n div 10"
    by simp
  moreover have "n div 10 * 10 + n mod 10 = n" by simp
  moreover have "n div 100 < 10" "n div 100 \<noteq> 0" "n div 10 < 26" using three by auto
  ultimately show ?thesis
    using three by (intro exI [of _ "Suc (Suc (Suc 0))"]) (simp add: octet_digits)
qed

lemma dec_not_Nil [simp]: "dec n \<noteq> []"
  by (subst dec.simps) simp

lemma parse4_octet_dot:
  assumes "n < 256" and "length acc < 3" and "s \<noteq> []"
  shows "parse4 (dec n @ CHR ''.'' # s) 0 0 acc = parse4 s 0 0 (n # acc)"
proof -
  obtain k where "0 < k" "\<And>s acc. parse4 (dec n @ s) 0 0 acc = parse4 s n k acc"
    using parse4_octet [OF assms(1)] by blast
  with assms show ?thesis by simp
qed

lemma parse4_octet_end:
  assumes "n < 256" and "length acc = 3"
  shows "parse4 (dec n) 0 0 acc = Some (rev (n # acc))"
proof -
  obtain k where "0 < k" "\<And>s acc. parse4 (dec n @ s) 0 0 acc = parse4 s n k acc"
    using parse4_octet [OF assms(1)] by blast
  from this(2) [of "[]" acc] assms(2) show ?thesis by simp
qed

lemma parse4_dotted:
  assumes "a < 256" "b < 256" "c < 256" "d < 256"
  shows "parse4 (Join (map dec [a, b, c, d]) CHR ''.'') 0 0 [] = Some [a, b, c, d]"
  using assms by (simp add: parse4_octet_dot parse4_octet_end)

lemma of_octets_octets: "of_octets (octets w) = unat w"
proof -
  let ?n = "unat w"
  have lt: "?n < 4294967296"
    using unsigned_less [of w] by simp
  have "?n div 65536 = ?n div 256 div 256" "?n div 16777216 = ?n div 256 div 256 div 256"
    by (simp_all add: div_mult2_eq [symmetric])
  moreover have "?n div 16777216 < 256"
    using lt by simp
  ultimately show ?thesis
    by (simp add: of_octets_def octets_def Let_def)
qed

lemma String4_chars: "CHR '':'' \<notin> set (String4 w)" "CHR ''%'' \<notin> set (String4 w)" "CHR ''/'' \<notin> set (String4 w)"
proof -
  have dig: "c \<in> set (dec n) \<Longrightarrow> 48 \<le> (of_char c :: nat) \<and> (of_char c :: nat) \<le> 57" for c n
  proof (induction n rule: dec.induct)
    case (1 n)
    then show ?case
      by (subst (asm) dec.simps) (auto simp: digit_def split: if_splits)
  qed
  have "c \<in> set (String4 w) \<Longrightarrow> c = CHR ''.'' \<or> (\<exists>n. c \<in> set (dec n))" for c
    by (auto simp: String4_def octets_def Let_def simp del: One_nat_def)
  then have "c \<in> set (String4 w) \<Longrightarrow> c = CHR ''.'' \<or> (48 \<le> (of_char c :: nat) \<and> (of_char c :: nat) \<le> 57)" for c
    using dig by blast
  from this [of "CHR '':''"] this [of "CHR ''%''"] this [of "CHR ''/''"]
  show "CHR '':'' \<notin> set (String4 w)" "CHR ''%'' \<notin> set (String4 w)" "CHR ''/'' \<notin> set (String4 w)"
    by auto
qed

lemma parseIPv4_String4: "parseIPv4 (String4 w) = Some (Addr4 w)"
proof -
  have "parse4 (String4 w) 0 0 [] = Some (octets w)"
    unfolding String4_def octets_def Let_def by (rule parse4_dotted) simp_all
  then show ?thesis
    by (simp add: parseIPv4_def of_octets_octets)
qed

lemma find_eq_first:
  assumes "x \<in> set xs" and "P x" and "\<And>y. y \<in> set xs \<Longrightarrow> P y \<Longrightarrow> y = x"
  shows "List.find P xs = Some x"
  using assms
proof (induction xs)
  case (Cons a xs)
  show ?case
  proof (cases "P a")
    case True
    with Cons.prems(3) [of a] show ?thesis by simp
  next
    case False
    then have "x \<in> set xs" using Cons.prems(1,2) by (cases "x = a") simp_all
    from Cons.IH [OF this Cons.prems(2)] Cons.prems(3) False show ?thesis by simp
  qed
qed simp

lemma ParseAddr_String4: "ParseAddr (String4 w) = Some (Addr4 w)"
proof -
  have "CHR ''.'' \<in> set (String4 w)"
    by (simp add: String4_def octets_def Let_def)
  then have "List.find (\<lambda>c. c = CHR ''.'' \<or> c = CHR '':'' \<or> c = CHR ''%'') (String4 w) = Some CHR ''.''"
    by (rule find_eq_first) (use String4_chars in auto)
  then show ?thesis
    by (simp add: ParseAddr_def parseIPv4_String4)
qed

lemma xor_eq_0_iff: "(x XOR y = 0) = (x = (y :: 'a::len word))"
proof
  assume "x XOR y = 0"
  then have "(x XOR y) XOR y = y" by simp
  then show "x = y" by (simp add: xor.assoc)
qed simp

lemma drop_bit_eq_iff: "drop_bit n a = drop_bit n (p :: 32 word) \<longleftrightarrow> unat a div 2 ^ n = unat p div 2 ^ n"
  unfolding word_unat_eq_iff unat_drop_bit_eq by (simp add: drop_bit_eq_div)

lemma Contains_v4_iff:
  assumes "b \<le> 32"
  shows "Contains (Prefix (Addr4 p) b) (Addr4 a) \<longleftrightarrow> unat a div 2 ^ (32 - b) = unat p div 2 ^ (32 - b)"
  using assms by (simp add: drop_bit_xor xor_eq_0_iff drop_bit_eq_iff)

end
