(* ===== verification/CelEngine.thy ===== *)
theory CelEngine imports Corev1 Netip begin

text \<open>
  \<open>cluster/common/celengine\<close>: the evaluation of conditions. The compilers and evaluators of CEL and
  of Rego are third-party code and so is the hash that keys the cache of programs; they are fields of
  a record. A compiled program is the function that it computes.
\<close>

section \<open>Parameters\<close>

type_synonym input = "(string \<times> json) list"

text \<open>A value of a CEL program, as far as the Go type assertions tell values apart.\<close>

datatype cel_val = CelBool bool | CelString string | CelOther

type_synonym cel_program = "input \<Rightarrow> cel_val go"

text \<open>A result set of a Rego query: for each result its expressions, a text and a value each.\<close>

type_synonym rego_query = "input \<Rightarrow> (string \<times> json) list list go"

record cel_env =
  ce_Compile :: "string \<Rightarrow> cel_program go"
  ce_Sum256 :: "string \<Rightarrow> string"
  op_Prepare :: "string \<Rightarrow> rego_query go"

section \<open>Programs and their cache\<close>

definition hex2 :: "char \<Rightarrow> string" where
  "hex2 c = [digit (of_char c div 16), digit (of_char c mod 16)]"

definition getKey :: "cel_env \<Rightarrow> string \<Rightarrow> string" where
  "getKey E script = concat (map hex2 (take 24 (ce_Sum256 E script)))"

type_synonym prog_cache = "string \<rightharpoonup> cel_program"

definition getOrSetProg :: "cel_env \<Rightarrow> string \<Rightarrow> prog_cache \<Rightarrow> cel_program go \<times> prog_cache" where
  "getOrSetProg E exp c =
     (if 10000 < length exp then (Fail (Errorf ''Expression is too long''), c)
      else case c (getKey E exp) of
             Some prg \<Rightarrow> (Ok prg, c)
           | None \<Rightarrow>
               (case ce_Compile E exp of
                  Ok prg \<Rightarrow> (Ok prg, c(getKey E exp \<mapsto> prg))
                | r \<Rightarrow> (r, c)))"

text \<open>\<open>out.Value().(bool)\<close> panics on every other type of value.\<close>

fun as_bool :: "cel_val \<Rightarrow> bool go" where
  "as_bool (CelBool b) = Ok b"
| "as_bool (CelString s) = Panic"
| "as_bool CelOther = Panic"

fun as_string :: "cel_val \<Rightarrow> string go" where
  "as_string (CelString s) = Ok s"
| "as_string (CelBool b) = Panic"
| "as_string CelOther = Panic"

definition EvalPolicy_cached :: "cel_env \<Rightarrow> string \<Rightarrow> input \<Rightarrow> prog_cache \<Rightarrow> bool go \<times> prog_cache" where
  "EvalPolicy_cached E exp input c =
     (case getOrSetProg E exp c of (r, c') \<Rightarrow>
        (go_bind r (\<lambda>prg. go_bind (prg input) as_bool), c'))"

definition EvalPolicyString_cached ::
  "cel_env \<Rightarrow> string \<Rightarrow> input \<Rightarrow> prog_cache \<Rightarrow> string go \<times> prog_cache" where
  "EvalPolicyString_cached E exp input c =
     (case getOrSetProg E exp c of (r, c') \<Rightarrow>
        (go_bind r (\<lambda>prg. go_bind (prg input) as_string), c'))"

definition AddPolicy :: "cel_env \<Rightarrow> string \<Rightarrow> prog_cache \<Rightarrow> unit go \<times> prog_cache" where
  "AddPolicy E exp c = (case getOrSetProg E exp c of (r, c') \<Rightarrow> (go_map (\<lambda>_. ()) r, c'))"

text \<open>The outcome without the cache; every evaluation of a well-formed cache agrees with it.\<close>

definition compile :: "cel_env \<Rightarrow> string \<Rightarrow> cel_program go" where
  "compile E exp =
     (if 10000 < length exp then Fail (Errorf ''Expression is too long'') else ce_Compile E exp)"

definition EvalPolicy :: "cel_env \<Rightarrow> string \<Rightarrow> input \<Rightarrow> bool go" where
  "EvalPolicy E exp input = go_bind (compile E exp) (\<lambda>prg. go_bind (prg input) as_bool)"

section \<open>Rego\<close>

type_synonym query_cache = "string \<rightharpoonup> rego_query"

definition getOrSetPQ :: "cel_env \<Rightarrow> string \<Rightarrow> query_cache \<Rightarrow> rego_query go \<times> query_cache" where
  "getOrSetPQ E script c =
     (if 20000 < length script then (Fail (Errorf ''OPA script is too long''), c)
      else case c (getKey E script) of
             Some pq \<Rightarrow> (Ok pq, c)
           | None \<Rightarrow>
               (case op_Prepare E script of
                  Ok pq \<Rightarrow> (Ok pq, c(getKey E script \<mapsto> pq))
                | r \<Rightarrow> (r, c)))"

definition prepare :: "cel_env \<Rightarrow> string \<Rightarrow> rego_query go" where
  "prepare E script =
     (if 20000 < length script then Fail (Errorf ''OPA script is too long'') else op_Prepare E script)"

definition rego_match :: "(string \<times> json) list list \<Rightarrow> bool" where
  "rego_match rs =
     (case rs of
        [] \<Rightarrow> False
      | exps # _ \<Rightarrow>
          (case List.find (\<lambda>e. fst e = ''data.octelium.condition.match'') exps of
             None \<Rightarrow> False
           | Some (_, JBool b) \<Rightarrow> b
           | Some _ \<Rightarrow> False))"

definition OPA_EvalPolicy_cached ::
  "cel_env \<Rightarrow> string \<Rightarrow> input \<Rightarrow> query_cache \<Rightarrow> bool go \<times> query_cache" where
  "OPA_EvalPolicy_cached E script input c =
     (if script = [] then (Ok False, c)
      else case getOrSetPQ E script c of (r, c') \<Rightarrow>
             (go_bind r (\<lambda>pq. go_map rego_match (pq input)), c'))"

definition OPA_EvalPolicy :: "cel_env \<Rightarrow> string \<Rightarrow> input \<Rightarrow> bool go" where
  "OPA_EvalPolicy E script input =
     (if script = [] then Ok False
      else go_bind (prepare E script) (\<lambda>pq. go_map rego_match (pq input)))"

section \<open>Conditions\<close>

definition isConditionMatched :: "cel_env \<Rightarrow> input \<Rightarrow> string \<Rightarrow> bool go" where
  "isConditionMatched E input exp = (if exp = [] then Ok False else EvalPolicy E exp input)"

definition isConditionNotMatched :: "cel_env \<Rightarrow> input \<Rightarrow> string \<Rightarrow> bool go" where
  "isConditionNotMatched E input exp =
     (if exp = [] then Ok False
      else go_bind (EvalPolicy E exp input) (\<lambda>match. Ok (\<not> match)))"

definition isConditionMatchedAll :: "('c \<Rightarrow> bool go) \<Rightarrow> 'c list \<Rightarrow> bool go" where
  "isConditionMatchedAll eval cs = (if cs = [] then Ok False else go_all eval cs)"

definition isConditionMatchedAny :: "('c \<Rightarrow> bool go) \<Rightarrow> 'c list \<Rightarrow> bool go" where
  "isConditionMatchedAny eval cs = (if cs = [] then Ok False else go_any eval cs)"

definition isConditionMatchedNone :: "('c \<Rightarrow> bool go) \<Rightarrow> 'c list \<Rightarrow> bool go" where
  "isConditionMatchedNone eval cs = (if cs = [] then Ok False else go_none eval cs)"

lemma isConditionMatched_congs [fundef_cong]:
  "xs = ys \<Longrightarrow> (\<And>x. x \<in> set ys \<Longrightarrow> f x = g x) \<Longrightarrow> isConditionMatchedAll f xs = isConditionMatchedAll g ys"
  "xs = ys \<Longrightarrow> (\<And>x. x \<in> set ys \<Longrightarrow> f x = g x) \<Longrightarrow> isConditionMatchedAny f xs = isConditionMatchedAny g ys"
  "xs = ys \<Longrightarrow> (\<And>x. x \<in> set ys \<Longrightarrow> f x = g x) \<Longrightarrow> isConditionMatchedNone f xs = isConditionMatchedNone g ys"
  by (auto simp: isConditionMatchedAll_def isConditionMatchedAny_def isConditionMatchedNone_def
      intro: go_all_cong go_any_cong go_none_cong)

fun doEvalCondition :: "cel_env \<Rightarrow> input \<Rightarrow> Condition \<Rightarrow> bool go" where
  "doEvalCondition E inp Condition_Unset = Ok False"
| "doEvalCondition E inp (Condition_MatchAny b) = (if \<not> b then Ok False else Ok True)"
| "doEvalCondition E inp (Condition_Match exp) =
     go_bind (isConditionMatched E inp exp) (\<lambda>res. if \<not> res then Ok False else Ok True)"
| "doEvalCondition E inp (Condition_Not exp) =
     go_bind (isConditionNotMatched E inp exp) (\<lambda>res. if \<not> res then Ok False else Ok True)"
| "doEvalCondition E inp (Condition_All cs) =
     go_bind (isConditionMatchedAll (doEvalCondition E inp) cs)
       (\<lambda>res. if \<not> res then Ok False else Ok True)"
| "doEvalCondition E inp (Condition_Any cs) =
     go_bind (isConditionMatchedAny (doEvalCondition E inp) cs)
       (\<lambda>res. if \<not> res then Ok False else Ok True)"
| "doEvalCondition E inp (Condition_None cs) =
     go_bind (isConditionMatchedNone (doEvalCondition E inp) cs)
       (\<lambda>res. if \<not> res then Ok False else Ok True)"
| "doEvalCondition E inp (Condition_Opa None) = Ok False"
| "doEvalCondition E inp (Condition_Opa (Some script)) =
     go_bind (OPA_EvalPolicy E script inp) (\<lambda>res. if \<not> res then Ok False else Ok True)"

definition EvalCondition :: "cel_env \<Rightarrow> Condition option \<Rightarrow> input \<Rightarrow> bool go" where
  "EvalCondition E condition inp =
     (case condition of None \<Rightarrow> Ok False | Some c \<Rightarrow> doEvalCondition E inp c)"

section \<open>The caches do not show\<close>

text \<open>Every entry of a cache is the program of some expression of \<open>S\<close> with that key.\<close>

definition cache_ok :: "cel_env \<Rightarrow> string set \<Rightarrow> prog_cache \<Rightarrow> bool" where
  "cache_ok E S c \<longleftrightarrow>
     (\<forall>k prg. c k = Some prg \<longrightarrow> (\<exists>e\<in>S. getKey E e = k \<and> compile E e = Ok prg))"

lemma getOrSetProg_compile:
  assumes "cache_ok E S c" and "exp \<in> S" and "inj_on (getKey E) S"
  shows "fst (getOrSetProg E exp c) = compile E exp" and "cache_ok E S (snd (getOrSetProg E exp c))"
proof -
  have hit: "compile E exp = Ok prg" if "c (getKey E exp) = Some prg" for prg
    using assms that unfolding cache_ok_def inj_on_def by metis
  show "fst (getOrSetProg E exp c) = compile E exp"
    using hit by (auto simp: getOrSetProg_def compile_def split: option.splits go.splits if_splits)
  show "cache_ok E S (snd (getOrSetProg E exp c))"
    using assms(1,2)
    by (auto simp: getOrSetProg_def cache_ok_def compile_def split: option.splits go.splits if_splits)
qed

lemma EvalPolicy_cached_step:
  assumes "cache_ok E S c" and "exp \<in> S" and "inj_on (getKey E) S"
  shows "fst (EvalPolicy_cached E exp inp c) = EvalPolicy E exp inp"
    and "cache_ok E S (snd (EvalPolicy_cached E exp inp c))"
  using getOrSetProg_compile [OF assms]
  by (simp_all add: EvalPolicy_cached_def EvalPolicy_def case_prod_beta)

lemma cache_ok_evict: "cache_ok E S c \<Longrightarrow> cache_ok E S (\<lambda>k. if keep k then c k else None)"
  by (auto simp: cache_ok_def split: if_splits)

text \<open>
  A history of evaluations: before each one the cache may have dropped any of its entries, as
  the expiry of \<open>go-cache\<close> does.
\<close>

fun eval_history ::
  "cel_env \<Rightarrow> (string \<times> input \<times> (string \<Rightarrow> bool)) list \<Rightarrow> prog_cache \<Rightarrow> bool go list" where
  "eval_history E [] c = []"
| "eval_history E ((exp, inp, keep) # rs) c =
     (case EvalPolicy_cached E exp inp (\<lambda>k. if keep k then c k else None) of
        (r, c') \<Rightarrow> r # eval_history E rs c')"

lemma eval_history_ok:
  "cache_ok E S c \<Longrightarrow> fst ` set rs \<subseteq> S \<Longrightarrow> inj_on (getKey E) S \<Longrightarrow>
   eval_history E rs c = map (\<lambda>(exp, inp, keep). EvalPolicy E exp inp) rs"
proof (induction E rs c rule: eval_history.induct)
  case (2 E exp inp keep rs c)
  let ?c = "\<lambda>k. if keep k then c k else None"
  have ok: "cache_ok E S ?c" using "2.prems"(1) by (rule cache_ok_evict)
  have S: "exp \<in> S" "fst ` set rs \<subseteq> S" using "2.prems"(2) by auto
  note step = EvalPolicy_cached_step [OF ok S(1) "2.prems"(3), of inp]
  obtain r c' where rc: "EvalPolicy_cached E exp inp ?c = (r, c')" by fastforce
  with step have "r = EvalPolicy E exp inp" "cache_ok E S c'" by simp_all
  with "2.IH" [OF rc [symmetric]] S(2) "2.prems"(3) rc show ?case by simp
qed simp

text \<open>
  The cache of compiled programs does not show: as long as the expressions in use have distinct
  keys, every evaluation of a history gives what compiling and evaluating afresh gives, whatever
  the cache has dropped in between.
\<close>

theorem program_cache_transparent:
  assumes "inj_on (getKey E) (fst ` set rs)"
  shows "eval_history E rs Map.empty = map (\<lambda>(exp, inp, keep). EvalPolicy E exp inp) rs"
  by (rule eval_history_ok [where S = "fst ` set rs"]) (use assms in \<open>simp_all add: cache_ok_def\<close>)

theorem program_cache_transparent_witness:
  "eval_history \<lparr>ce_Compile = \<lambda>e. Ok (\<lambda>i. Ok (CelBool (e = ''a''))), ce_Sum256 = \<lambda>s. s, op_Prepare = \<lambda>s. Panic\<rparr>
     [(''a'', [], \<lambda>k. True), (''b'', [], \<lambda>k. True), (''a'', [], \<lambda>k. True)] Map.empty
   = [Ok True, Ok False, Ok True]"
proof -
  let ?E = "\<lparr>ce_Compile = \<lambda>e. Ok (\<lambda>i. Ok (CelBool (e = ''a''))), ce_Sum256 = \<lambda>s. s, op_Prepare = \<lambda>s. Panic\<rparr>"
  let ?rs = "[(''a'', [], \<lambda>k. True), (''b'', [], \<lambda>k. True), (''a'', [], \<lambda>k. True)] :: (string \<times> input \<times> (string \<Rightarrow> bool)) list"
  have "inj_on (getKey ?E) (fst ` set ?rs)"
    by (auto simp: inj_on_def getKey_def hex2_def digit_def)
  from program_cache_transparent [OF this] show ?thesis
    by (simp add: EvalPolicy_def compile_def)
qed

section \<open>Conditions mean what they say\<close>

text \<open>
  The boolean meaning of a condition, given the truth of its CEL expressions and Rego scripts. An
  empty expression and an empty list of conditions never hold, not even under negation.
\<close>

fun cond_sem :: "(string \<Rightarrow> bool) \<Rightarrow> (string \<Rightarrow> bool) \<Rightarrow> Condition \<Rightarrow> bool" where
  "cond_sem m r Condition_Unset \<longleftrightarrow> False"
| "cond_sem m r (Condition_MatchAny b) \<longleftrightarrow> b"
| "cond_sem m r (Condition_Match e) \<longleftrightarrow> e \<noteq> [] \<and> m e"
| "cond_sem m r (Condition_Not e) \<longleftrightarrow> e \<noteq> [] \<and> \<not> m e"
| "cond_sem m r (Condition_All cs) \<longleftrightarrow> cs \<noteq> [] \<and> (\<forall>c\<in>set cs. cond_sem m r c)"
| "cond_sem m r (Condition_Any cs) \<longleftrightarrow> cs \<noteq> [] \<and> (\<exists>c\<in>set cs. cond_sem m r c)"
| "cond_sem m r (Condition_None cs) \<longleftrightarrow> cs \<noteq> [] \<and> \<not> (\<exists>c\<in>set cs. cond_sem m r c)"
| "cond_sem m r (Condition_Opa None) \<longleftrightarrow> False"
| "cond_sem m r (Condition_Opa (Some s)) \<longleftrightarrow> r s"

fun cond_exprs :: "Condition \<Rightarrow> string set" where
  "cond_exprs Condition_Unset = {}"
| "cond_exprs (Condition_MatchAny b) = {}"
| "cond_exprs (Condition_Match e) = (if e = [] then {} else {e})"
| "cond_exprs (Condition_Not e) = (if e = [] then {} else {e})"
| "cond_exprs (Condition_All cs) = (\<Union>c\<in>set cs. cond_exprs c)"
| "cond_exprs (Condition_Any cs) = (\<Union>c\<in>set cs. cond_exprs c)"
| "cond_exprs (Condition_None cs) = (\<Union>c\<in>set cs. cond_exprs c)"
| "cond_exprs (Condition_Opa s) = {}"

fun cond_scripts :: "Condition \<Rightarrow> string set" where
  "cond_scripts Condition_Unset = {}"
| "cond_scripts (Condition_MatchAny b) = {}"
| "cond_scripts (Condition_Match e) = {}"
| "cond_scripts (Condition_Not e) = {}"
| "cond_scripts (Condition_All cs) = (\<Union>c\<in>set cs. cond_scripts c)"
| "cond_scripts (Condition_Any cs) = (\<Union>c\<in>set cs. cond_scripts c)"
| "cond_scripts (Condition_None cs) = (\<Union>c\<in>set cs. cond_scripts c)"
| "cond_scripts (Condition_Opa s) = set_option s"

lemma doEvalCondition_sem:
  assumes "\<forall>e\<in>cond_exprs c. EvalPolicy E e inp = Ok (m e)"
    and "\<forall>s\<in>cond_scripts c. OPA_EvalPolicy E s inp = Ok (r s)"
  shows "doEvalCondition E inp c = Ok (cond_sem m r c)"
  using assms
proof (induction E inp c rule: doEvalCondition.induct)
  case (5 E inp cs)
  then have "go_all (doEvalCondition E inp) cs = Ok (\<forall>c\<in>set cs. cond_sem m r c)"
    by (intro go_all_Ok) auto
  then show ?case by (auto simp: isConditionMatchedAll_def)
next
  case (6 E inp cs)
  then have "go_any (doEvalCondition E inp) cs = Ok (\<exists>c\<in>set cs. cond_sem m r c)"
    by (intro go_any_Ok) auto
  then show ?case by (auto simp: isConditionMatchedAny_def)
next
  case (7 E inp cs)
  then have "go_none (doEvalCondition E inp) cs = Ok (\<not> (\<exists>c\<in>set cs. cond_sem m r c))"
    by (intro go_none_Ok) auto
  then show ?case by (auto simp: isConditionMatchedNone_def)
qed (auto simp: isConditionMatched_def isConditionNotMatched_def)

text \<open>
  C24: when every expression and script that occurs in a condition evaluates, the result is the
  boolean meaning of the condition; a condition that is nil, has no type, or combines no
  conditions does not match.
\<close>

theorem EvalCondition_refines_meaning:
  assumes "\<forall>e\<in>cond_exprs c. EvalPolicy E e inp = Ok (m e)"
    and "\<forall>s\<in>cond_scripts c. OPA_EvalPolicy E s inp = Ok (r s)"
  shows "EvalCondition E (Some c) inp = Ok (cond_sem m r c) \<and>
    map (\<lambda>x. EvalCondition E x inp)
      [None, Some Condition_Unset, Some (Condition_All []), Some (Condition_Any []),
       Some (Condition_None []), Some (Condition_Match []), Some (Condition_Not [])]
    = replicate 7 (Ok False)"
  using doEvalCondition_sem [OF assms]
  by (simp add: EvalCondition_def isConditionMatchedAll_def isConditionMatchedAny_def
      isConditionMatchedNone_def isConditionMatched_def isConditionNotMatched_def numeral_eq_Suc)

theorem EvalCondition_refines_meaning_witness:
  "EvalCondition \<lparr>ce_Compile = \<lambda>e. Ok (\<lambda>i. Ok (CelBool (e = ''a''))), ce_Sum256 = \<lambda>s. s, op_Prepare = \<lambda>s. Panic\<rparr>
     (Some (Condition_All [Condition_Match ''a'', Condition_None [Condition_Match ''b'', Condition_Not ''a'']])) []
   = Ok True"
proof -
  let ?E = "\<lparr>ce_Compile = \<lambda>e. Ok (\<lambda>i. Ok (CelBool (e = ''a''))), ce_Sum256 = \<lambda>s. s, op_Prepare = \<lambda>s. Panic\<rparr>"
  let ?c = "Condition_All [Condition_Match ''a'', Condition_None [Condition_Match ''b'', Condition_Not ''a'']]"
  have e: "\<forall>e\<in>cond_exprs ?c. EvalPolicy ?E e [] = Ok (e = ''a'')"
    by (auto simp: EvalPolicy_def compile_def)
  have s: "\<forall>s\<in>cond_scripts ?c. OPA_EvalPolicy ?E s [] = Ok True"
    by simp
  from EvalCondition_refines_meaning [OF e s] show ?thesis
    by simp
qed

text \<open>Evaluation panics only where some expression or script does.\<close>

lemma doEvalCondition_no_panic:
  assumes "\<forall>e\<in>cond_exprs c. EvalPolicy E e inp \<noteq> Panic"
    and "\<forall>s\<in>cond_scripts c. OPA_EvalPolicy E s inp \<noteq> Panic"
  shows "doEvalCondition E inp c \<noteq> Panic"
  using assms
proof (induction E inp c rule: doEvalCondition.induct)
  case (5 E inp cs)
  then have "go_all (doEvalCondition E inp) cs \<noteq> Panic"
    by (intro go_loops_panic) auto
  then show ?case by (auto simp: isConditionMatchedAll_def)
next
  case (6 E inp cs)
  then have "go_any (doEvalCondition E inp) cs \<noteq> Panic"
    by (intro go_loops_panic) auto
  then show ?case by (auto simp: isConditionMatchedAny_def)
next
  case (7 E inp cs)
  then have "go_none (doEvalCondition E inp) cs \<noteq> Panic"
    by (intro go_loops_panic) auto
  then show ?case by (auto simp: isConditionMatchedNone_def)
qed (auto simp: isConditionMatched_def isConditionNotMatched_def)

text \<open>
  C27: a condition over an expression that compiles and whose value is not a boolean panics, because
  the type assertion on the value is unchecked and the check of the output type at
  compilation is commented out.
\<close>

theorem non_boolean_expression_panics:
  assumes "exp \<noteq> []" and "compile E exp = Ok prg" and "prg inp = Ok v" and "v = CelString txt \<or> v = CelOther"
  shows "EvalCondition E (Some (Condition_Match exp)) inp = Panic \<and>
    EvalCondition E (Some (Condition_Any [Condition_Not exp])) inp = Panic"
  using assms
  by (auto simp: EvalCondition_def isConditionMatched_def isConditionNotMatched_def
      isConditionMatchedAny_def EvalPolicy_def)

theorem non_boolean_expression_panics_witness:
  "EvalCondition \<lparr>ce_Compile = \<lambda>e. Ok (\<lambda>i. Ok (CelString e)), ce_Sum256 = \<lambda>s. s, op_Prepare = \<lambda>s. Panic\<rparr>
     (Some (Condition_Match ''ctx.user.metadata.name'')) [] = Panic"
  using non_boolean_expression_panics [of "''ctx.user.metadata.name''"
      "\<lparr>ce_Compile = \<lambda>e. Ok (\<lambda>i. Ok (CelString e)), ce_Sum256 = \<lambda>s. s, op_Prepare = \<lambda>s. Panic\<rparr>"
      "\<lambda>i. Ok (CelString ''ctx.user.metadata.name'')" "[]" "CelString ''ctx.user.metadata.name''" "''ctx.user.metadata.name''"]
  by (simp add: compile_def)

end
