(* ===== verification/GoSort.thy ===== *)
theory GoSort imports Prelude begin

text \<open>
  The contract of \<open>slices.SortFunc\<close>: the result is a permutation, and it is sorted when the
  comparison is a strict weak ordering on the elements. The order of equivalent elements is
  left open, as it is in Go, where the sort is not stable. The routine that Go uses on
  slices of up to twelve elements, an insertion sort, is shown to meet the contract.
\<close>

section \<open>The contract\<close>

definition strict_weak :: "('a \<Rightarrow> 'a \<Rightarrow> int) \<Rightarrow> 'a set \<Rightarrow> bool" where
  "strict_weak cmp A \<longleftrightarrow>
     (\<forall>x\<in>A. \<forall>y\<in>A. cmp x y < 0 \<longrightarrow> \<not> cmp y x < 0) \<and>
     (\<forall>x\<in>A. \<forall>y\<in>A. \<forall>z\<in>A. \<not> cmp x y < 0 \<longrightarrow> \<not> cmp y z < 0 \<longrightarrow> \<not> cmp x z < 0)"

lemma strict_weak_subset: "strict_weak cmp A \<Longrightarrow> B \<subseteq> A \<Longrightarrow> strict_weak cmp B"
  unfolding strict_weak_def by blast

lemma strict_weak_asym:
  "strict_weak cmp A \<Longrightarrow> x \<in> A \<Longrightarrow> y \<in> A \<Longrightarrow> cmp x y < 0 \<Longrightarrow> \<not> cmp y x < 0"
  unfolding strict_weak_def by blast

lemma strict_weak_trans:
  "strict_weak cmp A \<Longrightarrow> x \<in> A \<Longrightarrow> y \<in> A \<Longrightarrow> z \<in> A \<Longrightarrow>
   \<not> cmp x y < 0 \<Longrightarrow> \<not> cmp y z < 0 \<Longrightarrow> \<not> cmp x z < 0"
  unfolding strict_weak_def by blast

locale slice_sort =
  fixes SortFunc :: "('a \<Rightarrow> 'a \<Rightarrow> int) \<Rightarrow> 'a list \<Rightarrow> 'a list"
  assumes sort_mset: "mset (SortFunc cmp xs) = mset xs"
    and sort_sorted: "strict_weak cmp (set xs) \<Longrightarrow> sorted_wrt (\<lambda>x y. \<not> cmp y x < 0) (SortFunc cmp xs)"
begin

lemma sort_set [simp]: "set (SortFunc cmp xs) = set xs"
  by (metis set_mset_mset sort_mset)

lemma sort_length [simp]: "length (SortFunc cmp xs) = length xs"
  by (metis size_mset sort_mset)

text \<open>The first element that satisfies a test is not preceded, in the order, by any other one.\<close>

lemma find_first_minimal:
  assumes "strict_weak cmp (set xs)" and "List.find P (SortFunc cmp xs) = Some x"
    and "y \<in> set xs" and "P y"
  shows "\<not> cmp y x < 0"
proof (cases "y = x")
  case True
  with assms(1,3) show ?thesis unfolding strict_weak_def by blast
next
  case False
  have "y \<in> set (SortFunc cmp xs)" using assms(3) by simp
  from sorted_wrt_find_first [OF sort_sorted [OF assms(1)] assms(2) this assms(4) False]
  show ?thesis .
qed

lemma find_first_None:
  "List.find P (SortFunc cmp xs) = None \<longleftrightarrow> (\<forall>x\<in>set xs. \<not> P x)"
  by (auto simp: find_None_iff)

lemma find_first_mem:
  "List.find P (SortFunc cmp xs) = Some x \<Longrightarrow> x \<in> set xs \<and> P x"
  by (metis find_Some_iff nth_mem sort_set)

end

section \<open>Insertion sort\<close>

text \<open>
  \<open>insertionSortCmpFunc\<close>: the element moves left from the end of the sorted part while it is
  smaller than its neighbour. The sorted part is kept with its last element first.
\<close>

fun insert_left :: "('a \<Rightarrow> 'a \<Rightarrow> int) \<Rightarrow> 'a \<Rightarrow> 'a list \<Rightarrow> 'a list" where
  "insert_left cmp x [] = [x]"
| "insert_left cmp x (y # ys) = (if cmp x y < 0 then y # insert_left cmp x ys else x # y # ys)"

definition insertionSortCmpFunc :: "('a \<Rightarrow> 'a \<Rightarrow> int) \<Rightarrow> 'a list \<Rightarrow> 'a list" where
  "insertionSortCmpFunc cmp xs = rev (foldl (\<lambda>rp x. insert_left cmp x rp) [] xs)"

lemma mset_insert_left: "mset (insert_left cmp x ys) = add_mset x (mset ys)"
  by (induction ys) auto

lemma set_insert_left [simp]: "set (insert_left cmp x ys) = insert x (set ys)"
  by (metis mset_insert_left set_mset_add_mset_insert set_mset_mset)

lemma sorted_insert_left:
  assumes "strict_weak cmp (insert x (set ys))" and "sorted_wrt (\<lambda>x y. \<not> cmp x y < 0) ys"
  shows "sorted_wrt (\<lambda>x y. \<not> cmp x y < 0) (insert_left cmp x ys)"
  using assms
proof (induction ys)
  case (Cons y ys)
  have sw: "strict_weak cmp (insert x (set ys))"
    using Cons.prems(1) by (rule strict_weak_subset) auto
  show ?case
  proof (cases "cmp x y < 0")
    case True
    with Cons sw show ?thesis
      by (auto dest: strict_weak_asym [of cmp _ x y])
  next
    case False
    have "\<not> cmp x z < 0" if "z \<in> set ys" for z
      using strict_weak_trans [OF Cons.prems(1), of x y z] that Cons.prems(2) False by simp
    with False Cons.prems(2) show ?thesis by simp
  qed
qed simp

lemma mset_foldl_insert: "mset (foldl (\<lambda>rp x. insert_left cmp x rp) rp xs) = mset rp + mset xs"
  by (induction xs arbitrary: rp) (simp_all add: mset_insert_left)

lemma sorted_foldl_insert:
  assumes "strict_weak cmp (set rp \<union> set xs)" and "sorted_wrt (\<lambda>x y. \<not> cmp x y < 0) rp"
  shows "sorted_wrt (\<lambda>x y. \<not> cmp x y < 0) (foldl (\<lambda>rp x. insert_left cmp x rp) rp xs)"
  using assms
proof (induction xs arbitrary: rp)
  case (Cons x xs)
  have "sorted_wrt (\<lambda>x y. \<not> cmp x y < 0) (insert_left cmp x rp)"
    using Cons.prems by (intro sorted_insert_left) (auto elim: strict_weak_subset)
  moreover have "strict_weak cmp (set (insert_left cmp x rp) \<union> set xs)"
    using Cons.prems(1) by simp
  ultimately show ?case
    using Cons.IH by simp
qed simp

interpretation insertion: slice_sort insertionSortCmpFunc
proof unfold_locales
  fix cmp :: "'a \<Rightarrow> 'a \<Rightarrow> int" and xs :: "'a list"
  show "mset (insertionSortCmpFunc cmp xs) = mset xs"
    by (simp add: insertionSortCmpFunc_def mset_foldl_insert)
  show "strict_weak cmp (set xs) \<Longrightarrow>
        sorted_wrt (\<lambda>x y. \<not> cmp y x < 0) (insertionSortCmpFunc cmp xs)"
    using sorted_foldl_insert [of cmp "[]" xs] by (simp add: insertionSortCmpFunc_def sorted_wrt_rev)
qed

end
