(* ===== verification/Umetav1.thy ===== *)
theory Umetav1 imports Corev1 Netip "HOL-Library.Signed_Division" begin

text \<open>
  \<open>pkg/apiutils/umetav1/umetav1.go\<close>: durations, object references and dual stack addresses. A
  \<open>time.Duration\<close> is a word of 64 bits of nanoseconds, so that the multiplications of
  \<open>ToGo\<close> wrap as they do in Go; it is read as a signed number.
\<close>

section \<open>Durations\<close>

type_synonym go_duration = "64 word"

fun ToGo :: "Duration option \<Rightarrow> go_duration" where
  "ToGo None = 0"
| "ToGo (Some Duration_None) = 0"
| "ToGo (Some (Milliseconds n)) = ucast n * 1000000"
| "ToGo (Some (Seconds n)) = ucast n * 1000000000"
| "ToGo (Some (Minutes n)) = ucast n * 1000000000 * 60"
| "ToGo (Some (Hours n)) = ucast n * 1000000000 * 60 * 60"
| "ToGo (Some (Days n)) = ucast n * 1000000000 * 60 * 60 * 24"
| "ToGo (Some (Weeks n)) = ucast n * 1000000000 * 60 * 60 * 24 * 7"
| "ToGo (Some (Months n)) = ucast n * 1000000000 * 60 * 60 * 24 * 30"

text \<open>
  \<open>int64(d.Seconds())\<close> truncates towards zero. The detour through a floating point number is
  exact except within two microseconds below a whole second, which only wrapped values reach.
\<close>

definition ToSeconds :: "Duration option \<Rightarrow> int" where
  "ToSeconds d = sint (ToGo d) sdiv 1000000000"

text \<open>What a duration says, before any machine arithmetic.\<close>

fun nominal_ns :: "Duration \<Rightarrow> nat" where
  "nominal_ns Duration_None = 0"
| "nominal_ns (Milliseconds n) = unat n * 1000000"
| "nominal_ns (Seconds n) = unat n * 1000000000"
| "nominal_ns (Minutes n) = unat n * 60000000000"
| "nominal_ns (Hours n) = unat n * 3600000000000"
| "nominal_ns (Days n) = unat n * 86400000000000"
| "nominal_ns (Weeks n) = unat n * 604800000000000"
| "nominal_ns (Months n) = unat n * 2592000000000000"

section \<open>Timestamps\<close>

text \<open>\<open>AsTime\<close> of a nil timestamp is the epoch.\<close>

definition AsTime :: "timestamp \<Rightarrow> int" where
  "AsTime t = (case t of None \<Rightarrow> 0 | Some ns \<Rightarrow> ns)"

definition Add :: "int \<Rightarrow> go_duration \<Rightarrow> int" where
  "Add t d = t + sint d"

section \<open>Object references\<close>

definition GetObjectReference :: "string \<Rightarrow> string \<Rightarrow> Metadata option \<Rightarrow> ObjectReference option" where
  "GetObjectReference apiVersion kind md =
     (case md of
        None \<Rightarrow> None
      | Some m \<Rightarrow> Some \<lparr>or_ApiVersion = apiVersion, or_Kind = kind, or_Uid = md_Uid m,
                        or_Name = md_Name m, or_ResourceVersion = md_ResourceVersion m\<rparr>)"

section \<open>Dual stack addresses\<close>

text \<open>The network of a CIDR block: its address with the host bits cleared.\<close>

fun masked :: "Addr \<Rightarrow> nat \<Rightarrow> Addr" where
  "masked (Addr4 w) n = Addr4 (push_bit (32 - n) (drop_bit (32 - n) w))"
| "masked (Addr6 w z) n = Addr6 (push_bit (128 - n) (drop_bit (128 - n) w)) z"

definition net_ParseIP :: "string \<Rightarrow> Addr option" where
  "net_ParseIP s =
     (case ParseAddr s of None \<Rightarrow> None | Some a \<Rightarrow> if Zone a \<noteq> [] then None else Some a)"

definition DualStackIP_ToGo :: "DualStackIP \<Rightarrow> Addr option \<times> Addr option" where
  "DualStackIP_ToGo a = (net_ParseIP (ip_Ipv4 a), net_ParseIP (ip_Ipv6 a))"

definition DualStackNetwork_ToGo :: "DualStackNetwork \<Rightarrow> (Addr \<times> nat) option \<times> (Addr \<times> nat) option"
where
  "DualStackNetwork_ToGo n =
     (let cidr = (\<lambda>s. map_option (\<lambda>(a, b). (masked a b, b)) (ParseCIDR s)) in
      (cidr (nw_V4 n), cidr (nw_V6 n)))"

definition cidr_ip :: "string \<Rightarrow> string" where
  "cidr_ip s = IP_String (map_option fst (ParseCIDR s))"

definition ToIP :: "DualStackNetwork \<Rightarrow> DualStackIP" where
  "ToIP n = \<lparr>ip_Ipv4 = (if nw_V4 n \<noteq> [] then cidr_ip (nw_V4 n) else []),
             ip_Ipv6 = (if nw_V6 n \<noteq> [] then cidr_ip (nw_V6 n) else [])\<rparr>"

text \<open>The two last bytes of an address; slicing the nil address of a text that does not parse panics.\<close>

fun low16 :: "Addr option \<Rightarrow> nat go" where
  "low16 None = Panic"
| "low16 (Some (Addr4 w)) = Ok (unat w mod 65536)"
| "low16 (Some (Addr6 w z)) = Ok (unat w mod 65536)"

definition GetIndex :: "DualStackIP \<Rightarrow> nat go" where
  "GetIndex i =
     (if ip_Ipv4 i \<noteq> [] then low16 (fst (DualStackIP_ToGo i))
      else if ip_Ipv6 i \<noteq> [] then low16 (snd (DualStackIP_ToGo i))
      else Ok 0)"

section \<open>Facts on durations\<close>

lemma ToGo_nominal: "ToGo (Some d) = of_nat (nominal_ns d)"
  by (cases d) (simp_all add: mult.assoc)

text \<open>As long as the number of nanoseconds fits, the machine arithmetic is exact.\<close>

lemma sint_of_nat_64:
  assumes "n < 2 ^ 63"
  shows "sint (of_nat n :: 64 word) = int n"
proof -
  have "sint (of_nat n :: 64 word) = signed_take_bit 63 (int n)"
    by transfer (simp add: signed_take_bit_take_bit)
  also have "\<dots> = int n"
    by (rule signed_take_bit_int_eq_self) (use assms in simp_all)
  finally show ?thesis .
qed

lemma sint_ToGo_exact:
  assumes "nominal_ns d < 2 ^ 63"
  shows "sint (ToGo (Some d)) = int (nominal_ns d)"
  unfolding ToGo_nominal using assms by (rule sint_of_nat_64)

lemma ToSeconds_exact:
  assumes "nominal_ns d < 2 ^ 63"
  shows "ToSeconds (Some d) = int (nominal_ns d div 1000000000)"
  unfolding ToSeconds_def sint_ToGo_exact [OF assms] by (simp add: signed_divide_int_def zdiv_int sgn_if)

lemma sint_uminus_64:
  fixes x :: "64 word"
  assumes "0 < sint x"
  shows "sint (- x) = - sint x"
proof -
  have "sint (- x) = signed_take_bit 63 (- sint x)"
    by transfer (simp add: signed_take_bit_minus)
  also have "\<dots> = - sint x"
  proof (rule signed_take_bit_int_eq_self)
    show "- (2 ^ 63) \<le> - sint x" using sint_less [of x] by simp
    show "- sint x < 2 ^ 63" using assms by simp
  qed
  finally show ?thesis .
qed

lemma cidr_ip_of_v4:
  assumes "ParseCIDR s = Some (Addr4 w, n)"
  shows "cidr_ip s = String4 w"
  using assms by (simp add: cidr_ip_def)

end
