(* ===== verification/Ucorev1.thy ===== *)
theory Ucorev1 imports Corev1Services Umetav1 begin

text \<open>
  \<open>pkg/apiutils/ucorev1/ucorev1.go\<close>: the questions the components ask of sessions, users,
  services, secrets and the cluster configuration. The clock is the argument \<open>now\<close>; parsing an
  URL and the environment variable with the region's name are parameters. A message that the
  code dereferences without a test and that can be nil gives a panic.
\<close>

section \<open>Kinds\<close>

definition resource_kinds :: "string list" where
  "resource_kinds =
     [''User'', ''Group'', ''Namespace'', ''Service'', ''Credential'', ''Device'', ''Session'', ''Secret'',
      ''Config'', ''Policy'', ''IdentityProvider'', ''Region'', ''Gateway'', ''ClusterConfig'',
      ''PolicyTrigger'', ''Authenticator'']"

text \<open>The type of the new message is its kind.\<close>

definition NewObject :: "string \<Rightarrow> string go" where
  "NewObject kind = (if kind \<in> set resource_kinds then Ok kind else Fail (Errorf ''Invalid kind''))"

definition NewObjectListOptions :: "string \<Rightarrow> string go" where
  "NewObjectListOptions kind =
     (if kind \<in> {''User'', ''Group'', ''Namespace'', ''Service'', ''Credential'', ''Device'', ''Session'',
        ''Secret'', ''Policy'', ''IdentityProvider'', ''Region'', ''Gateway'', ''Authenticator''}
      then Ok (''List'' @ kind @ ''Options'') else Fail (Errorf ''Invalid kind''))"

definition NewObjectList :: "string \<Rightarrow> string go" where
  "NewObjectList kind =
     (if kind \<in> set resource_kinds \<and> kind \<noteq> ''ClusterConfig''
      then Ok (kind @ ''List'') else Fail (Errorf ''Invalid kind''))"

section \<open>Sessions\<close>

definition IsClient :: "Session \<Rightarrow> bool" where
  "IsClient s \<longleftrightarrow> st_Type (se_Status s) = CLIENT"

definition IsClientConnected :: "Session \<Rightarrow> bool" where
  "IsClientConnected s \<longleftrightarrow> st_Type (se_Status s) = CLIENT \<and> st_Connection (se_Status s) \<noteq> None"

definition IsClientConnectedESSH :: "Session \<Rightarrow> bool" where
  "IsClientConnectedESSH s =
     (if \<not> IsClientConnected s then False
      else (case st_Connection (se_Status s) of None \<Rightarrow> False | Some c \<Rightarrow> co_ESSHEnable c))"

definition Session_HasV4 :: "Session option \<Rightarrow> bool" where
  "Session_HasV4 so =
     (case so of
        None \<Rightarrow> False
      | Some s \<Rightarrow> (case st_Connection (se_Status s) of
                     None \<Rightarrow> False
                   | Some conn \<Rightarrow> co_L3Mode conn = BOTH \<or> co_L3Mode conn = V4))"

definition Session_HasV6 :: "Session option \<Rightarrow> bool" where
  "Session_HasV6 so =
     (case so of
        None \<Rightarrow> False
      | Some s \<Rightarrow> (case st_Connection (se_Status s) of
                     None \<Rightarrow> False
                   | Some conn \<Rightarrow> co_L3Mode conn = BOTH \<or> co_L3Mode conn = V6))"

definition IsExpired :: "int \<Rightarrow> Session \<Rightarrow> bool" where
  "IsExpired now s =
     (case ss_ExpiresAt (se_Spec s) of None \<Rightarrow> False | Some t \<Rightarrow> t < now)"

definition token_end :: "Session_Status_Authentication \<Rightarrow> Duration option \<Rightarrow> int" where
  "token_end a d = Add (AsTime (au_SetAt a)) (ToGo d)"

definition HasValidAccessToken :: "int \<Rightarrow> Session \<Rightarrow> bool go" where
  "HasValidAccessToken now s =
     go_bind (deref (st_Authentication (se_Status s))) (\<lambda>a.
       if au_AccessTokenDuration a = None then Ok True
       else Ok (now < token_end a (au_AccessTokenDuration a)))"

definition HasValidAccessTokenByTokenID :: "int \<Rightarrow> Session \<Rightarrow> string \<Rightarrow> bool go" where
  "HasValidAccessTokenByTokenID now s tid =
     go_bind (deref (st_Authentication (se_Status s))) (\<lambda>a.
       if au_TokenID a \<noteq> tid then Ok False
       else if au_AccessTokenDuration a = None then Ok True
       else Ok (now < token_end a (au_AccessTokenDuration a)))"

definition ShouldRefresh :: "int \<Rightarrow> Session \<Rightarrow> bool go" where
  "ShouldRefresh now s =
     go_bind (deref (st_Authentication (se_Status s))) (\<lambda>a.
       if au_AccessTokenDuration a = None then Ok False
       else (let accessTokenDuration = ToGo (au_AccessTokenDuration a) in
             Ok (Add (AsTime (au_SetAt a)) accessTokenDuration + sint (- accessTokenDuration) sdiv 4 < now)))"

definition HasValidRefreshTokenByTokenID :: "int \<Rightarrow> Session \<Rightarrow> string \<Rightarrow> bool go" where
  "HasValidRefreshTokenByTokenID now s tid =
     go_bind (deref (st_Authentication (se_Status s))) (\<lambda>a.
       if au_TokenID a \<noteq> tid then Ok False
       else if au_AccessTokenDuration a = None then Ok True
       else Ok (now < token_end a (au_RefreshTokenDuration a)))"

definition HasValidRefreshToken :: "int \<Rightarrow> Session \<Rightarrow> bool go" where
  "HasValidRefreshToken now s =
     go_bind (deref (st_Authentication (se_Status s))) (\<lambda>a.
       if au_RefreshTokenDuration a = None then Ok True
       else Ok (now < token_end a (au_RefreshTokenDuration a)))"

definition IsValid :: "int \<Rightarrow> Session \<Rightarrow> bool go" where
  "IsValid now s =
     (if ss_State (se_Spec s) \<noteq> ACTIVE then Ok False
      else if IsExpired now s then Ok False
      else go_bind (HasValidAccessToken now s) (\<lambda>v. if \<not> v then Ok False else Ok True))"

section \<open>Users\<close>

definition getAllGroups :: "User \<Rightarrow> string list" where
  "getAllGroups u = us_Groups (ur_Spec u)"

definition HasGroupName :: "User \<Rightarrow> string \<Rightarrow> bool" where
  "HasGroupName u arg = isInList (us_Groups (ur_Spec u)) arg"

definition HasGroupNameAny :: "User \<Rightarrow> string list \<Rightarrow> bool" where
  "HasGroupNameAny u arg = list_ex (isInList (getAllGroups u)) arg"

definition HasGroupNameAll :: "User \<Rightarrow> string list \<Rightarrow> bool" where
  "HasGroupNameAll u arg = list_all (isInList (getAllGroups u)) arg"

section \<open>Services and the sessions that serve them\<close>

definition Service_Name :: "Service \<Rightarrow> string" where
  "Service_Name s =
     (case Split (md_Name (svc_Metadata s)) CHR ''.'' of [] \<Rightarrow> [] | a # as \<Rightarrow> a)"

definition Service_Namespace :: "Service \<Rightarrow> string" where
  "Service_Namespace s =
     (case sx_NamespaceRef (svc_Status s) of None \<Rightarrow> [] | Some r \<Rightarrow> or_Name r)"

definition GetRealName :: "Service_Spec_Config option \<Rightarrow> string" where
  "GetRealName co =
     (case co of None \<Rightarrow> [] | Some c \<Rightarrow> if sc_Name c = [] then ''default'' else sc_Name c)"

definition upstream_serves :: "Service \<Rightarrow> Connection_Upstream \<Rightarrow> bool go" where
  "upstream_serves s u =
     go_bind (deref (up_ServiceRef u)) (\<lambda>r. Ok (or_Uid r = md_Uid (svc_Metadata s)))"

definition connection_upstreams :: "Session \<Rightarrow> Connection_Upstream list" where
  "connection_upstreams sess =
     (case st_Connection (se_Status sess) of None \<Rightarrow> [] | Some c \<Rightarrow> co_Upstreams c)"

definition IsServedBySession :: "Service \<Rightarrow> Session option \<Rightarrow> bool go" where
  "IsServedBySession s so =
     (case so of
        None \<Rightarrow> Ok False
      | Some sess \<Rightarrow>
          if \<not> IsClientConnected sess then Ok False
          else go_any (upstream_serves s) (connection_upstreams sess))"

fun first_upstream :: "Service \<Rightarrow> Connection_Upstream list \<Rightarrow> Connection_Upstream option go" where
  "first_upstream s [] = Ok None"
| "first_upstream s (u # us) =
     go_bind (upstream_serves s u) (\<lambda>m. if m then Ok (Some u) else first_upstream s us)"

definition GetSessionUpstream :: "Service \<Rightarrow> Session option \<Rightarrow> Connection_Upstream option go" where
  "GetSessionUpstream s so =
     go_bind (IsServedBySession s so) (\<lambda>served.
       if \<not> served then Ok None
       else (case so of None \<Rightarrow> Panic | Some sess \<Rightarrow> first_upstream s (connection_upstreams sess)))"

definition GetHostUserRef :: "Service option \<Rightarrow> string \<Rightarrow> ObjectReference go" where
  "GetHostUserRef so userName =
     (case so of
        None \<Rightarrow> Fail (Errorf ''hostUser not found'')
      | Some s \<Rightarrow>
          if userName = [] then Fail (Errorf ''hostUser not found'')
          else (case map_of (md_SpecLabels (svc_Metadata s)) (''host-user-'' @ userName) of
                  None \<Rightarrow> Fail (Errorf ''hostUser not found'')
                | Some userUID \<Rightarrow>
                    Ok \<lparr>or_ApiVersion = ''core/v1'', or_Kind = ''User'', or_Uid = userUID,
                        or_Name = userName, or_ResourceVersion = []\<rparr>))"

definition IsInMyRegion :: "string \<Rightarrow> Service \<Rightarrow> bool" where
  "IsInMyRegion region s =
     (if sv_Region (svc_Spec s) = [] then region = ''default'' else sv_Region (svc_Spec s) = region)"

section \<open>Modes\<close>

definition IsManagedService :: "Service \<Rightarrow> bool" where
  "IsManagedService l \<longleftrightarrow> sx_ManagedService (svc_Status l) \<noteq> None"

definition config_ssh :: "Service_Spec_Config \<Rightarrow> Config_SSH option" where
  "config_ssh cfg = (case sc_Type cfg of Config_Ssh c \<Rightarrow> Some c | _ \<Rightarrow> None)"

definition config_http :: "Service_Spec_Config \<Rightarrow> Config_HTTP option" where
  "config_http cfg = (case sc_Type cfg of Config_Http c \<Rightarrow> Some c | _ \<Rightarrow> None)"

definition IsManagedContainer :: "Service \<Rightarrow> bool" where
  "IsManagedContainer l =
     (case sv_Config (svc_Spec l) of
        None \<Rightarrow> False
      | Some cfg \<Rightarrow> (case sc_Upstream cfg of
                       None \<Rightarrow> False
                     | Some u \<Rightarrow> (case cu_Type u of Upstream_Container c \<Rightarrow> True | _ \<Rightarrow> False)))"

definition IsKubernetes :: "Service \<Rightarrow> bool" where
  "IsKubernetes l \<longleftrightarrow> sv_Mode (svc_Spec l) = KUBERNETES"

definition IsESSH :: "Service \<Rightarrow> bool" where
  "IsESSH l \<longleftrightarrow>
     sv_Mode (svc_Spec l) = SSH \<and>
     (case sv_Config (svc_Spec l) of
        None \<Rightarrow> False
      | Some cfg \<Rightarrow> (case config_ssh cfg of None \<Rightarrow> False | Some c \<Rightarrow> cs_ESSHMode c))"

definition L4Type :: "Service \<Rightarrow> Service_Mode" where
  "L4Type l = (case sv_Mode (svc_Spec l) of UDP \<Rightarrow> UDP | DNS \<Rightarrow> UDP | _ \<Rightarrow> TCP)"

definition RealPort :: "Service \<Rightarrow> int" where
  "RealPort l = uint (sx_Port (svc_Status l))"

definition IsHTTP :: "Service \<Rightarrow> bool" where
  "IsHTTP l =
     (case sv_Mode (svc_Spec l) of
        HTTP \<Rightarrow> True | KUBERNETES \<Rightarrow> True | GRPC \<Rightarrow> True | WEB \<Rightarrow> True | _ \<Rightarrow> False)"

definition IsGRPC :: "Service \<Rightarrow> bool" where
  "IsGRPC s \<longleftrightarrow> sv_Mode (svc_Spec s) = GRPC"

definition GetMode :: "Service \<Rightarrow> Service_Mode" where
  "GetMode l = (if sv_Mode (svc_Spec l) \<noteq> MODE_UNSET then sv_Mode (svc_Spec l) else TCP)"

section \<open>Upstream endpoints\<close>

record url =
  u_Scheme :: string
  u_Hostname :: string
  u_Port :: string
  u_String :: string

definition getPortFromScheme :: "string \<Rightarrow> int go" where
  "getPortFromScheme arg =
     (if arg = [] then Fail (Errorf ''Please provide port in the url'')
      else if arg \<in> {''http'', ''ws'', ''h2c''} then Ok 80
      else if arg \<in> {''https'', ''wss''} then Ok 443
      else if arg = ''ssh'' then Ok 22
      else if arg = ''dns'' then Ok 53
      else if arg \<in> {''postgres'', ''postgresql''} then Ok 5432
      else if arg = ''redis'' then Ok 6379
      else if arg = ''mysql'' then Ok 3306
      else if arg = ''mongodb'' then Ok 27017
      else if arg = ''rdp'' then Ok 3389
      else if arg = ''amqp'' then Ok 5672
      else if arg = ''ftp'' then Ok 21
      else if arg = ''dot'' then Ok 853
      else Fail (Errorf ''Unknown scheme. Please provide port number''))"

definition mode_scheme :: "Service_Mode \<Rightarrow> string" where
  "mode_scheme m =
     (case m of
        HTTP \<Rightarrow> ''http'' | GRPC \<Rightarrow> ''http'' | WEB \<Rightarrow> ''http'' | KUBERNETES \<Rightarrow> ''http''
      | SSH \<Rightarrow> ''ssh''
      | UDP \<Rightarrow> ''udp'' | DNS \<Rightarrow> ''udp''
      | _ \<Rightarrow> ''tcp'')"

definition getSvcK8sUpstreamHostname :: "Service \<Rightarrow> string \<Rightarrow> string" where
  "getSvcK8sUpstreamHostname svc name =
     ''upstream-svc-'' @
     map (\<lambda>c. if c = CHR ''.'' then CHR ''-'' else c) (md_Name (svc_Metadata svc)) @ ''-'' @
     (if name = [] then ''default'' else name)"

definition kubeconfig_url :: "Service \<Rightarrow> Service_Spec_Config \<Rightarrow> string" where
  "kubeconfig_url l cfg =
     (case map_of (md_SpecLabels (svc_Metadata l)) (''k8s-kubeconfig-url-'' @ GetRealName (Some cfg)) of
        None \<Rightarrow> [] | Some v \<Rightarrow> v)"

definition GetAllUpstreamEndpointsByConfig ::
  "(string \<Rightarrow> url option) \<Rightarrow> Service \<Rightarrow> Service_Spec_Config option \<Rightarrow> Endpoint list go" where
  "GetAllUpstreamEndpointsByConfig urlParse l co =
     (let scheme = mode_scheme (sv_Mode (svc_Spec l)) in
      case sx_ManagedService (svc_Status l) of
        Some m \<Rightarrow>
          Ok [\<lparr>ep_Url = (if ms_Port m \<noteq> 0 then scheme @ ''://localhost:'' @ dec (unat (ms_Port m))
                         else scheme @ ''://localhost:49999''), ep_User = []\<rparr>]
      | None \<Rightarrow>
          (case co of
             None \<Rightarrow> Ok []
           | Some cfg \<Rightarrow>
               if (case config_ssh cfg of None \<Rightarrow> False | Some c \<Rightarrow> cs_ESSHMode c)
               then Ok [\<lparr>ep_Url = ''ssh://localhost:22022'', ep_User = []\<rparr>]
               else
                 (let ret = (if kubeconfig_url l cfg \<noteq> []
                             then [\<lparr>ep_Url = kubeconfig_url l cfg, ep_User = []\<rparr>] else []) in
                  case sc_Upstream cfg of
                    None \<Rightarrow> Ok []
                  | Some upstream \<Rightarrow>
                      (case cu_Type upstream of
                         Upstream_Url u \<Rightarrow> Ok [\<lparr>ep_Url = u, ep_User = cu_User upstream\<rparr>]
                       | Upstream_Loadbalance eps \<Rightarrow> Ok eps
                       | Upstream_Container c \<Rightarrow>
                           go_map (\<lambda>u. ret @ [\<lparr>ep_Url = u_String u, ep_User = []\<rparr>])
                             (deref (urlParse (scheme @ ''://'' @
                               getSvcK8sUpstreamHostname l (sc_Name cfg) @ '':'' @ dec (unat (uc_Port c)))))
                       | Upstream_Unset \<Rightarrow> Ok ret))))"

definition GetAllUpstreamEndpoints :: "(string \<Rightarrow> url option) \<Rightarrow> Service \<Rightarrow> Endpoint list go" where
  "GetAllUpstreamEndpoints urlParse l =
     GetAllUpstreamEndpointsByConfig urlParse l (sv_Config (svc_Spec l))"

text \<open>\<open>strconv.Atoi\<close> on a text without sign: an overflow is an error.\<close>

definition Atoi :: "string \<Rightarrow> int option" where
  "Atoi s =
     (if s \<noteq> [] \<and> list_all (\<lambda>c. digit_val c \<noteq> None) s
      then (let n = foldl (\<lambda>a c. a * 10 + the (digit_val c)) 0 s in
            if n < 2 ^ 63 then Some (int n) else None)
      else None)"

definition epRealPort :: "(string \<Rightarrow> url option) \<Rightarrow> Endpoint \<Rightarrow> int go" where
  "epRealPort urlParse l =
     go_bind (deref (urlParse (ep_Url l))) (\<lambda>u.
       if u_Port u = [] then
         (case getPortFromScheme (u_Scheme u) of Ok p \<Rightarrow> Ok p | Fail e \<Rightarrow> Ok 0 | Panic \<Rightarrow> Panic)
       else (case Atoi (u_Port u) of Some p \<Rightarrow> Ok p | None \<Rightarrow> Ok 0))"

definition UpstreamRealPort :: "(string \<Rightarrow> url option) \<Rightarrow> Service \<Rightarrow> int go" where
  "UpstreamRealPort urlParse l =
     go_bind (GetAllUpstreamEndpoints urlParse l)
       (\<lambda>eps. case eps of [] \<Rightarrow> Ok 0 | e # es \<Rightarrow> epRealPort urlParse e)"

definition getFirstURL :: "(string \<Rightarrow> url option) \<Rightarrow> Service \<Rightarrow> url option go" where
  "getFirstURL urlParse l =
     go_bind (GetAllUpstreamEndpoints urlParse l)
       (\<lambda>eps. case eps of [] \<Rightarrow> Ok None | e # es \<Rightarrow> Ok (urlParse (ep_Url e)))"

definition BackendScheme :: "(string \<Rightarrow> url option) \<Rightarrow> Service \<Rightarrow> string go" where
  "BackendScheme urlParse l =
     go_map (\<lambda>u. case u of None \<Rightarrow> ''tcp'' | Some x \<Rightarrow> u_Scheme x) (getFirstURL urlParse l)"

definition IsListenerHTTP2 :: "(string \<Rightarrow> url option) \<Rightarrow> Service \<Rightarrow> bool go" where
  "IsListenerHTTP2 urlParse s =
     (if IsGRPC s then Ok True
      else if \<not> IsHTTP s then Ok False
      else if (case sv_Config (svc_Spec s) of
                 None \<Rightarrow> False
               | Some cfg \<Rightarrow> (case config_http cfg of None \<Rightarrow> False | Some h \<Rightarrow> ch_ListenHTTP2 h))
      then Ok True
      else if sv_IsTLS (svc_Spec s) then Ok True
      else go_map (\<lambda>sch. sch = ''grpc'' \<or> sch = ''h2c'') (BackendScheme urlParse s))"

definition IsUpstreamHTTP2 :: "(string \<Rightarrow> url option) \<Rightarrow> Service \<Rightarrow> bool go" where
  "IsUpstreamHTTP2 urlParse s =
     (if IsGRPC s then Ok True
      else if \<not> IsHTTP s then Ok False
      else if (case sv_Config (svc_Spec s) of
                 None \<Rightarrow> False
               | Some cfg \<Rightarrow> (case config_http cfg of None \<Rightarrow> False | Some h \<Rightarrow> ch_IsUpstreamHTTP2 h))
      then Ok True
      else go_map (\<lambda>sch. sch = ''grpc'' \<or> sch = ''h2c'') (BackendScheme urlParse s))"

section \<open>An example session\<close>

text \<open>An active client session with an access token of one hour, used by the concrete instances.\<close>

definition example_session :: Session where
  "example_session =
     \<lparr>se_ApiVersion = ''core/v1'', se_Kind = ''Session'',
      se_Metadata =
        \<lparr>md_Uid = ''s1'', md_Name = ''alice-s'', md_CreatedAt = None, md_UpdatedAt = None,
         md_DisplayName = [], md_Description = [], md_Labels = [], md_Tags = [], md_Annotations = [],
         md_PicURL = [], md_ResourceVersion = [], md_LastResourceVersion = [], md_ActorRef = None,
         md_ActorOperation = [], md_IsSystem = False, md_SpecLabels = [], md_IsUserHidden = False,
         md_IsSystemHidden = False, md_SystemLabels = []\<rparr>,
      se_Spec = \<lparr>ss_ExpiresAt = Some 7200000000000, ss_State = ACTIVE, ss_Authorization = None\<rparr>,
      se_Status =
        \<lparr>st_UserRef = Some \<lparr>or_ApiVersion = ''core/v1'', or_Kind = ''User'', or_Uid = ''u1'',
                             or_Name = ''alice'', or_ResourceVersion = []\<rparr>,
         st_DeviceRef = None, st_Type = CLIENT, st_IsBrowser = False,
         st_Authentication = Some \<lparr>au_Info = None, au_SetAt = Some 0, au_TokenID = ''t1'',
            au_AccessTokenDuration = Some (Hours 1), au_RefreshTokenDuration = None\<rparr>,
         st_LastAuthentications = [], st_InitialAuthentication = None, st_IsConnected = False,
         st_Connection = None, st_CredentialRef = None, st_Ext = [], st_TotalAuthentications = 1,
         st_Scopes = [], st_TotalConnections = 0, st_LastConnections = [], st_IsLocked = False,
         st_AuthenticatorAction = AUTHENTICATOR_ACTION_UNSET, st_RequiredAuthenticatorRef = None\<rparr>\<rparr>"

text \<open>A plain service in the namespace \<open>dev\<close>.\<close>

definition plain_service :: Service where
  "plain_service =
     \<lparr>svc_ApiVersion = ''core/v1'', svc_Kind = ''Service'',
      svc_Metadata = (se_Metadata example_session)\<lparr>md_Uid := ''v1'', md_Name := ''web.dev''\<rparr>,
      svc_Spec =
        \<lparr>sv_Port = 80, sv_Mode = HTTP, sv_Authorization = None, sv_Config = None,
         sv_DynamicConfig = None, sv_IsTLS = False, sv_IsPublic = False, sv_IsAnonymous = False,
         sv_Deployment = None, sv_Attrs = None, sv_Region = []\<rparr>,
      svc_Status =
        \<lparr>sx_Addresses = [],
         sx_NamespaceRef = Some \<lparr>or_ApiVersion = ''core/v1'', or_Kind = ''Namespace'', or_Uid = ''n1'',
                                 or_Name = ''dev'', or_ResourceVersion = []\<rparr>,
         sx_ManagedService = None, sx_RegionRef = None, sx_PrimaryHostname = [],
         sx_AdditionalHostnames = [], sx_Port = 80\<rparr>\<rparr>"

end
