(* ===== verification/Acache.thy ===== *)
theory Acache imports Ucorev1 begin

text \<open>
  \<open>cluster/octovigil/octovigil/acache/acache.go\<close>: the cache of the policy decision point, a bbolt
  database with a bucket for each kind of resource. A bucket is a map from keys to resources
  (marshalling and unmarshalling are inverse to each other and left out); \<open>pe\<close>, the parameter of
  every operation that writes, is the error that bbolt's \<open>Put\<close> returns for a key, if any.
\<close>

section \<open>Buckets\<close>

type_synonym 'a bucket = "string \<rightharpoonup> 'a"

type_synonym put_error = "string \<Rightarrow> error option"

text \<open>What bbolt documents: a blank key and a key of more than 32768 bytes are refused.\<close>

definition bolt_put :: put_error where
  "bolt_put k =
     (if k = [] then Some (Errorf ''key required'')
      else if 32768 < length k then Some (Errorf ''key too large'') else None)"

definition setResource ::
  "put_error \<Rightarrow> ('a \<Rightarrow> Metadata) \<Rightarrow> string \<Rightarrow> 'a \<Rightarrow> 'a bucket \<Rightarrow> unit go \<times> 'a bucket" where
  "setResource pe md key obj b =
     (let k = (if key = [] then md_Uid (md obj) else key) in
      case pe k of Some e \<Rightarrow> (Fail e, b) | None \<Rightarrow> (Ok (), b(k \<mapsto> obj)))"

definition getResource :: "'a bucket \<Rightarrow> string \<Rightarrow> 'a go" where
  "getResource b key =
     (if key = [] then Fail ErrNotFound
      else case b key of None \<Rightarrow> Fail ErrNotFound | Some v \<Rightarrow> Ok v)"

definition deleteResource :: "'a bucket \<Rightarrow> string \<Rightarrow> 'a bucket" where
  "deleteResource b key = b(key := None)"

text \<open>Two writes, the second one only when the first one succeeds.\<close>

definition setUnder ::
  "put_error \<Rightarrow> ('a \<Rightarrow> Metadata) \<Rightarrow> string \<Rightarrow> string \<Rightarrow> 'a \<Rightarrow> 'a bucket \<Rightarrow> unit go \<times> 'a bucket" where
  "setUnder pe md k1 k2 obj b =
     (case setResource pe md k1 obj b of
        (Ok u, b') \<Rightarrow> setResource pe md k2 obj b'
      | (r, b') \<Rightarrow> (r, b'))"

section \<open>The cache\<close>

record Cache =
  ca_Service :: "Service bucket"
  ca_Session :: "Session bucket"
  ca_User :: "User bucket"
  ca_Device :: "Device bucket"
  ca_Group :: "Group bucket"
  ca_Policy :: "Policy bucket"
  ca_Namespace :: "Namespace bucket"

definition NewCache :: Cache where
  "NewCache = \<lparr>ca_Service = Map.empty, ca_Session = Map.empty, ca_User = Map.empty,
     ca_Device = Map.empty, ca_Group = Map.empty, ca_Policy = Map.empty, ca_Namespace = Map.empty\<rparr>"

definition IsErrNotFound :: "error \<Rightarrow> bool" where
  "IsErrNotFound err \<longleftrightarrow> err = ErrNotFound"

definition SetUser :: "put_error \<Rightarrow> User \<Rightarrow> Cache \<Rightarrow> unit go \<times> Cache" where
  "SetUser pe usr c =
     (case setResource pe ur_Metadata [] usr (ca_User c) of (r, b) \<Rightarrow> (r, c\<lparr>ca_User := b\<rparr>))"

definition SetDevice :: "put_error \<Rightarrow> Device \<Rightarrow> Cache \<Rightarrow> unit go \<times> Cache" where
  "SetDevice pe device c =
     (case setResource pe dv_Metadata [] device (ca_Device c) of (r, b) \<Rightarrow> (r, c\<lparr>ca_Device := b\<rparr>))"

definition SetService :: "put_error \<Rightarrow> Service \<Rightarrow> Cache \<Rightarrow> unit go \<times> Cache" where
  "SetService pe svc c =
     (case setResource pe svc_Metadata (md_Uid (svc_Metadata svc)) svc (ca_Service c) of
        (r, b) \<Rightarrow> (r, c\<lparr>ca_Service := b\<rparr>))"

definition SetPolicy :: "put_error \<Rightarrow> Policy \<Rightarrow> Cache \<Rightarrow> unit go \<times> Cache" where
  "SetPolicy pe p c =
     (case setUnder pe pol_Metadata [] (md_Name (pol_Metadata p)) p (ca_Policy c) of
        (r, b) \<Rightarrow> (r, c\<lparr>ca_Policy := b\<rparr>))"

definition SetNamespace :: "put_error \<Rightarrow> Namespace \<Rightarrow> Cache \<Rightarrow> unit go \<times> Cache" where
  "SetNamespace pe p c =
     (case setUnder pe na_Metadata [] (md_Name (na_Metadata p)) p (ca_Namespace c) of
        (r, b) \<Rightarrow> (r, c\<lparr>ca_Namespace := b\<rparr>))"

definition SetGroup :: "put_error \<Rightarrow> Group \<Rightarrow> Cache \<Rightarrow> unit go \<times> Cache" where
  "SetGroup pe g c =
     (case setUnder pe gr_Metadata (md_Uid (gr_Metadata g)) (md_Name (gr_Metadata g)) g (ca_Group c) of
        (r, b) \<Rightarrow> (r, c\<lparr>ca_Group := b\<rparr>))"

definition GetPolicy :: "Cache \<Rightarrow> string \<Rightarrow> Policy go" where
  "GetPolicy c uid = getResource (ca_Policy c) uid"

definition GetNamespace :: "Cache \<Rightarrow> string \<Rightarrow> Namespace go" where
  "GetNamespace c uid = getResource (ca_Namespace c) uid"

definition GetGroup :: "Cache \<Rightarrow> string \<Rightarrow> Group go" where
  "GetGroup c key = getResource (ca_Group c) key"

definition GetUser :: "Cache \<Rightarrow> string \<Rightarrow> User go" where
  "GetUser c uid = getResource (ca_User c) uid"

definition GetDevice :: "Cache \<Rightarrow> string \<Rightarrow> Device go" where
  "GetDevice c uid = getResource (ca_Device c) uid"

definition GetSession :: "Cache \<Rightarrow> string \<Rightarrow> Session go" where
  "GetSession c identifier = getResource (ca_Session c) identifier"

definition GetService :: "Cache \<Rightarrow> string \<Rightarrow> Service go" where
  "GetService c identifier = getResource (ca_Service c) identifier"

definition DeletePolicy :: "Policy \<Rightarrow> Cache \<Rightarrow> Cache" where
  "DeletePolicy p c = c\<lparr>ca_Policy := deleteResource (ca_Policy c) (md_Uid (pol_Metadata p))\<rparr>"

definition DeleteNamespace :: "Namespace \<Rightarrow> Cache \<Rightarrow> Cache" where
  "DeleteNamespace p c = c\<lparr>ca_Namespace := deleteResource (ca_Namespace c) (md_Uid (na_Metadata p))\<rparr>"

definition DeleteGroup :: "Group \<Rightarrow> Cache \<Rightarrow> Cache" where
  "DeleteGroup g c =
     c\<lparr>ca_Group := deleteResource (deleteResource (ca_Group c) (md_Uid (gr_Metadata g)))
                     (md_Name (gr_Metadata g))\<rparr>"

definition DeleteUser :: "User \<Rightarrow> Cache \<Rightarrow> Cache" where
  "DeleteUser usr c = c\<lparr>ca_User := deleteResource (ca_User c) (md_Uid (ur_Metadata usr))\<rparr>"

definition DeleteDevice :: "Device \<Rightarrow> Cache \<Rightarrow> Cache" where
  "DeleteDevice device c = c\<lparr>ca_Device := deleteResource (ca_Device c) (md_Uid (dv_Metadata device))\<rparr>"

definition DeleteService :: "Service \<Rightarrow> Cache \<Rightarrow> Cache" where
  "DeleteService svc c = c\<lparr>ca_Service := deleteResource (ca_Service c) (md_Uid (svc_Metadata svc))\<rparr>"

section \<open>Sessions\<close>

definition address_keys :: "DualStackNetwork \<Rightarrow> string list" where
  "address_keys addr =
     (if nw_V4 addr \<noteq> [] then [ip_Ipv4 (ToIP addr)] else []) @
     (if nw_V6 addr \<noteq> [] then [ip_Ipv6 (ToIP addr)] else [])"

definition connection_keys :: "Session \<Rightarrow> string list" where
  "connection_keys sess =
     (case st_Connection (se_Status sess) of
        None \<Rightarrow> []
      | Some conn \<Rightarrow> concat (map address_keys (co_Addresses conn)))"

text \<open>A write whose error is only logged.\<close>

definition try_set :: "put_error \<Rightarrow> Session \<Rightarrow> string \<Rightarrow> Session bucket \<Rightarrow> Session bucket" where
  "try_set pe sess key b = snd (setResource pe se_Metadata key sess b)"

definition setSession :: "put_error \<Rightarrow> Session \<Rightarrow> Cache \<Rightarrow> unit go \<times> Cache" where
  "setSession pe sess c =
     (let b1 = fold (try_set pe sess) (connection_keys sess) (ca_Session c);
          b2 = try_set pe sess (md_Uid (se_Metadata sess)) b1;
          b3 = try_set pe sess (md_Name (se_Metadata sess)) b2 in
      (Ok (), c\<lparr>ca_Session := b3\<rparr>))"

definition DeleteSession :: "Session \<Rightarrow> Cache \<Rightarrow> Cache" where
  "DeleteSession sess c =
     (let b1 = fold (\<lambda>k b. deleteResource b k) (connection_keys sess) (ca_Session c);
          b2 = deleteResource b1 (md_Uid (se_Metadata sess));
          b3 = deleteResource b2 (md_Name (se_Metadata sess)) in
      c\<lparr>ca_Session := b3\<rparr>)"

section \<open>Downstream information\<close>

record DownstreamInfo =
  di_User :: "User option"
  di_Device :: "Device option"
  di_Session :: Session
  di_Groups :: "Group list"

text \<open>A lookup in which a missing resource is no error.\<close>

definition lookup_optional :: "'a go \<Rightarrow> 'a option go" where
  "lookup_optional r =
     (case r of
        Ok x \<Rightarrow> Ok (Some x)
      | Fail e \<Rightarrow> if e = ErrNotFound then Ok None else Fail e
      | Panic \<Rightarrow> Panic)"

fun cached_groups :: "Cache \<Rightarrow> string list \<Rightarrow> Group list go" where
  "cached_groups c [] = Ok []"
| "cached_groups c (g # gs) =
     go_bind (lookup_optional (GetGroup c g)) (\<lambda>grp.
       go_map (\<lambda>rest. case grp of None \<Rightarrow> rest | Some x \<Rightarrow> x # rest) (cached_groups c gs))"

text \<open>A missing session is reported by an error of its own.\<close>

definition session_missing :: "'a go \<Rightarrow> 'a go" where
  "session_missing r =
     (case r of Fail e \<Rightarrow> if e = ErrNotFound then Fail SessionNotFound else Fail e | m \<Rightarrow> m)"

lemma session_missing_Ok [simp]: "session_missing r = Ok x \<longleftrightarrow> r = Ok x"
  by (cases r) (auto simp: session_missing_def)

lemma lookup_optional_Ok: "lookup_optional r = Ok y \<longleftrightarrow> (r = Fail ErrNotFound \<and> y = None) \<or> (\<exists>x. r = Ok x \<and> y = Some x)"
  by (cases r) (auto simp: lookup_optional_def)

definition GetDownstreamInfoBySessionIdentifier :: "Cache \<Rightarrow> string \<Rightarrow> DownstreamInfo go" where
  "GetDownstreamInfoBySessionIdentifier c arg =
     (if arg = [] then Fail SessionNotFound
      else
        go_bind (session_missing (GetSession c arg)) (\<lambda>sess.
        go_bind (deref (st_UserRef (se_Status sess))) (\<lambda>userRef.
        go_bind (lookup_optional (GetUser c (or_Uid userRef))) (\<lambda>usr.
        go_bind (case st_DeviceRef (se_Status sess) of
                   None \<Rightarrow> Ok None
                 | Some r \<Rightarrow> lookup_optional (GetDevice c (or_Uid r))) (\<lambda>device.
        go_bind (case usr of
                   None \<Rightarrow> Ok []
                 | Some u \<Rightarrow> cached_groups c (us_Groups (ur_Spec u))) (\<lambda>groups.
        Ok \<lparr>di_User = usr, di_Device = device, di_Session = sess, di_Groups = groups\<rparr>))))))"

section \<open>The interface of a bucket\<close>

text \<open>
  What the decision point relies on: a resource that was set is found under each of its keys, and
  every other key keeps what it had.
\<close>

locale keyed_cache =
  fixes get :: "'c \<Rightarrow> string \<Rightarrow> 'a go"
    and put :: "'a \<Rightarrow> 'c \<Rightarrow> 'c"
    and keys :: "'a \<Rightarrow> string set"
  assumes get_put_same: "k \<in> keys x \<Longrightarrow> get (put x c) k = Ok x"
    and get_put_other: "k \<notin> keys x \<Longrightarrow> get (put x c) k = get c k"
begin

lemma sound_put:
  assumes "\<And>k y. get c k = Ok y \<Longrightarrow> k \<in> keys y" and "get (put x c) k = Ok y"
  shows "k \<in> keys y"
  using assms get_put_same [of k x c] get_put_other [of k x c] by (cases "k \<in> keys x") auto

text \<open>After a history of writes a key gives the last resource that has it.\<close>

lemma get_history:
  "get (fold put xs c) k =
   (case List.find (\<lambda>x. k \<in> keys x) (rev xs) of None \<Rightarrow> get c k | Some x \<Rightarrow> Ok x)"
proof (induction xs rule: rev_induct)
  case (snoc x xs)
  then show ?case
    by (cases "k \<in> keys x") (simp_all add: get_put_same get_put_other)
qed simp

end

section \<open>The buckets meet the interface\<close>

lemma getResource_simps:
  "getResource b [] = Fail ErrNotFound"
  "k \<noteq> [] \<Longrightarrow> getResource (b(k \<mapsto> x)) k = Ok x"
  "j \<noteq> k \<Longrightarrow> getResource (b(k := v)) j = getResource b j"
  "getResource (b(k := None)) k = Fail ErrNotFound"
  by (simp_all add: getResource_def)

lemma bolt_put_None: "bolt_put k = None \<longleftrightarrow> k \<noteq> [] \<and> length k \<le> 32768"
  by (auto simp: bolt_put_def)

text \<open>The keys under which a resource ends up, given the keys it is written under.\<close>

definition put_keys :: "('a \<Rightarrow> Metadata) \<Rightarrow> 'a \<Rightarrow> string list \<Rightarrow> string set" where
  "put_keys md x ks =
     {k \<in> set (map (\<lambda>k. if k = [] then md_Uid (md x) else k) ks). bolt_put k = None}"

lemma setResource_bolt:
  "getResource (snd (setResource bolt_put md key x b)) k =
   (if k \<in> put_keys md x [key] then Ok x else getResource b k)"
  by (auto simp: setResource_def put_keys_def Let_def getResource_def bolt_put_def split: option.splits)

lemma setUnder_bolt:
  "getResource (snd (setUnder bolt_put md k1 k2 x b)) k =
   (if k \<in> put_keys md x (if put_keys md x [k1] = {} then [] else [k1, k2])
    then Ok x else getResource b k)"
  by (auto simp: setUnder_def setResource_def put_keys_def Let_def getResource_def bolt_put_def
      split: option.splits if_splits)

lemma try_set_fold_bolt:
  "getResource (fold (try_set bolt_put x) ks b) k =
   (if k \<in> put_keys se_Metadata x ks then Ok x else getResource b k)"
proof (induction ks arbitrary: b)
  case (Cons j ks)
  then show ?case
    by (auto simp: try_set_def setResource_bolt put_keys_def)
qed (simp add: put_keys_def)

definition user_keys :: "User \<Rightarrow> string set" where
  "user_keys u = put_keys ur_Metadata u [[]]"

definition device_keys :: "Device \<Rightarrow> string set" where
  "device_keys d = put_keys dv_Metadata d [[]]"

definition service_keys :: "Service \<Rightarrow> string set" where
  "service_keys s = put_keys svc_Metadata s [md_Uid (svc_Metadata s)]"

definition named_keys :: "('a \<Rightarrow> Metadata) \<Rightarrow> 'a \<Rightarrow> string set" where
  "named_keys md x =
     put_keys md x (if bolt_put (md_Uid (md x)) \<noteq> None then [] else [[], md_Name (md x)])"

definition session_keys :: "Session \<Rightarrow> string set" where
  "session_keys s =
     put_keys se_Metadata s (connection_keys s @ [md_Uid (se_Metadata s), md_Name (se_Metadata s)])"

lemma own_keys:
  "user_keys u \<subseteq> {md_Uid (ur_Metadata u)}"
  "device_keys d \<subseteq> {md_Uid (dv_Metadata d)}"
  "service_keys v \<subseteq> {md_Uid (svc_Metadata v)}"
  "named_keys md x \<subseteq> {md_Uid (md x), md_Name (md x)}"
  "session_keys s \<subseteq> {md_Uid (se_Metadata s), md_Name (se_Metadata s)} \<union> set (connection_keys s)"
  by (auto simp: user_keys_def device_keys_def service_keys_def named_keys_def session_keys_def put_keys_def)

lemma setUnder_named:
  "getResource (snd (setUnder bolt_put md [] (md_Name (md x)) x b)) k =
   (if k \<in> named_keys md x then Ok x else getResource b k)"
  "getResource (snd (setUnder bolt_put md (md_Uid (md x)) (md_Name (md x)) x b)) k =
   (if k \<in> named_keys md x then Ok x else getResource b k)"
  by (auto simp: setUnder_bolt named_keys_def put_keys_def)

lemma setSession_bolt:
  "GetSession (snd (setSession bolt_put s c)) k =
   (if k \<in> session_keys s then Ok s else GetSession c k)"
proof -
  have "ca_Session (snd (setSession bolt_put s c)) =
    fold (try_set bolt_put s) (connection_keys s @ [md_Uid (se_Metadata s), md_Name (se_Metadata s)])
      (ca_Session c)"
    by (simp add: setSession_def Let_def)
  then show ?thesis
    unfolding GetSession_def session_keys_def by (simp only: try_set_fold_bolt)
qed

interpretation users: keyed_cache GetUser "\<lambda>x c. snd (SetUser bolt_put x c)" user_keys
  by unfold_locales (simp_all add: GetUser_def SetUser_def user_keys_def setResource_bolt case_prod_beta)

interpretation devices: keyed_cache GetDevice "\<lambda>x c. snd (SetDevice bolt_put x c)" device_keys
  by unfold_locales (simp_all add: GetDevice_def SetDevice_def device_keys_def setResource_bolt case_prod_beta)

interpretation services: keyed_cache GetService "\<lambda>x c. snd (SetService bolt_put x c)" service_keys
  by unfold_locales (simp_all add: GetService_def SetService_def service_keys_def setResource_bolt case_prod_beta)

interpretation policies: keyed_cache GetPolicy "\<lambda>x c. snd (SetPolicy bolt_put x c)" "named_keys pol_Metadata"
  by unfold_locales (simp_all add: GetPolicy_def SetPolicy_def setUnder_named case_prod_beta)

interpretation namespaces: keyed_cache GetNamespace "\<lambda>x c. snd (SetNamespace bolt_put x c)" "named_keys na_Metadata"
  by unfold_locales (simp_all add: GetNamespace_def SetNamespace_def setUnder_named case_prod_beta)

interpretation group_cache: keyed_cache GetGroup "\<lambda>x c. snd (SetGroup bolt_put x c)" "named_keys gr_Metadata"
  by unfold_locales (simp_all add: GetGroup_def SetGroup_def setUnder_named case_prod_beta)

interpretation sessions: keyed_cache GetSession "\<lambda>x c. snd (setSession bolt_put x c)" session_keys
  by unfold_locales (simp_all add: setSession_bolt)

section \<open>What survives a deletion\<close>

definition example_policy :: Policy where
  "example_policy =
     \<lparr>pol_ApiVersion = ''core/v1'', pol_Kind = ''Policy'',
      pol_Metadata =
        \<lparr>md_Uid = ''p1'', md_Name = ''allow-all'', md_CreatedAt = None, md_UpdatedAt = None,
         md_DisplayName = [], md_Description = [], md_Labels = [], md_Tags = [], md_Annotations = [],
         md_PicURL = [], md_ResourceVersion = [], md_LastResourceVersion = [], md_ActorRef = None,
         md_ActorOperation = [], md_IsSystem = False, md_SpecLabels = [], md_IsUserHidden = False,
         md_IsSystemHidden = False, md_SystemLabels = []\<rparr>,
      pol_Spec =
        \<lparr>ps_Rules = [\<lparr>ru_Name = ''r'', ru_Condition = Some (Condition_MatchAny True),
                     ru_Effect = ALLOW, ru_Priority = 0\<rparr>],
         ps_EnforcementRules = [], ps_Attrs = None, ps_IsDisabled = False\<rparr>,
      pol_ParentPolicyRef = None\<rparr>"

text \<open>
  Deleting a policy removes it under its identifier only: whoever looks it up by name, as the
  decision point does, still finds it.
\<close>

theorem deleted_policy_found_by_name:
  assumes "bolt_put (md_Uid (pol_Metadata p)) = None" and "bolt_put (md_Name (pol_Metadata p)) = None"
    and "md_Name (pol_Metadata p) \<noteq> md_Uid (pol_Metadata p)"
  shows "GetPolicy (DeletePolicy p (snd (SetPolicy bolt_put p c))) (md_Name (pol_Metadata p)) = Ok p \<and>
    GetPolicy (DeletePolicy p (snd (SetPolicy bolt_put p c))) (md_Uid (pol_Metadata p)) = Fail ErrNotFound"
proof -
  have k: "md_Name (pol_Metadata p) \<in> named_keys pol_Metadata p"
    using assms by (auto simp: named_keys_def put_keys_def bolt_put_None)
  have "GetPolicy (DeletePolicy p c') n = (if n = md_Uid (pol_Metadata p) then Fail ErrNotFound else GetPolicy c' n)" for c' n
    by (simp add: GetPolicy_def DeletePolicy_def deleteResource_def getResource_def)
  with assms(3) policies.get_put_same [OF k] show ?thesis by simp
qed

theorem deleted_policy_found_by_name_witness:
  "GetPolicy (DeletePolicy example_policy (snd (SetPolicy bolt_put example_policy NewCache))) ''allow-all''
   = Ok example_policy"
  using deleted_policy_found_by_name [of example_policy NewCache]
  by (simp add: bolt_put_def example_policy_def)

text \<open>
  Deleting a session removes it under every key that setting it wrote (its addresses, its
  identifier and its name), deleting a group removes it under its identifier and its name, and no
  other key of the bucket changes.
\<close>

theorem DeleteSession_complete:
  "GetSession (DeleteSession s c) k =
     (if k \<in> set (connection_keys s) \<union> {md_Uid (se_Metadata s), md_Name (se_Metadata s)}
      then Fail ErrNotFound else GetSession c k) \<and>
   session_keys s \<subseteq> set (connection_keys s) \<union> {md_Uid (se_Metadata s), md_Name (se_Metadata s)} \<and>
   GetGroup (DeleteGroup g c) k =
     (if k \<in> {md_Uid (gr_Metadata g), md_Name (gr_Metadata g)} then Fail ErrNotFound else GetGroup c k)"
proof (intro conjI)
  have del: "fold (\<lambda>k b. deleteResource b k) ks b j = (if j \<in> set ks then None else b j)" for ks j and b :: "Session bucket"
    by (induction ks arbitrary: b) (auto simp: deleteResource_def)
  show "GetSession (DeleteSession s c) k =
     (if k \<in> set (connection_keys s) \<union> {md_Uid (se_Metadata s), md_Name (se_Metadata s)}
      then Fail ErrNotFound else GetSession c k)"
    by (simp add: GetSession_def DeleteSession_def Let_def getResource_def deleteResource_def [of "deleteResource b l" for b l]
        deleteResource_def [of "fold f ks b" for f ks b] del)
  show "session_keys s \<subseteq> set (connection_keys s) \<union> {md_Uid (se_Metadata s), md_Name (se_Metadata s)}"
    by (auto simp: session_keys_def put_keys_def)
  show "GetGroup (DeleteGroup g c) k =
     (if k \<in> {md_Uid (gr_Metadata g), md_Name (gr_Metadata g)} then Fail ErrNotFound else GetGroup c k)"
    by (simp add: GetGroup_def DeleteGroup_def getResource_def deleteResource_def)
qed

section \<open>Downstream information\<close>

lemma cached_groups_eq:
  "cached_groups c gs =
   Ok (map (\<lambda>g. case GetGroup c g of Ok x \<Rightarrow> x) (filter (\<lambda>g. is_ok (GetGroup c g)) gs))"
proof (induction gs)
  case (Cons g gs)
  then show ?case
    by (auto simp: lookup_optional_def go_map_def GetGroup_def getResource_def split: option.splits)
qed simp

lemma GetDownstreamInfo_Ok:
  assumes "GetDownstreamInfoBySessionIdentifier c arg = Ok di"
  shows "arg \<noteq> []" and "GetSession c arg = Ok (di_Session di)"
    and "\<exists>r. st_UserRef (se_Status (di_Session di)) = Some r \<and>
             lookup_optional (GetUser c (or_Uid r)) = Ok (di_User di)"
    and "di_Groups di =
      (case di_User di of
         None \<Rightarrow> []
       | Some u \<Rightarrow> map (\<lambda>g. case GetGroup c g of Ok x \<Rightarrow> x)
                      (filter (\<lambda>g. is_ok (GetGroup c g)) (us_Groups (ur_Spec u))))"
  using assms
  by (auto simp: GetDownstreamInfoBySessionIdentifier_def cached_groups_eq split: if_splits option.splits)

text \<open>A lookup that does not fail with the session missing only panics on a missing user reference.\<close>

lemma getResource_Fail: "getResource b k = Fail e \<Longrightarrow> e = ErrNotFound"
  by (auto simp: getResource_def split: if_splits option.splits)

lemma getResource_not_Panic [simp]: "getResource b k \<noteq> Panic"
  by (simp add: getResource_def split: option.splits)

lemma lookup_optional_getResource: "\<exists>x. lookup_optional (getResource b k) = Ok x"
  by (cases "getResource b k") (auto simp: lookup_optional_def dest: getResource_Fail)

lemma GetDownstreamInfo_errors:
  assumes "GetDownstreamInfoBySessionIdentifier c arg = Fail e"
  shows "e = SessionNotFound"
proof (cases "arg = [] \<or> \<not> is_ok (GetSession c arg)")
  case True
  then have "arg = [] \<or> session_missing (GetSession c arg) = Fail SessionNotFound"
    by (cases "GetSession c arg") (auto simp: session_missing_def GetSession_def dest: getResource_Fail)
  then have "GetDownstreamInfoBySessionIdentifier c arg = Fail SessionNotFound"
    by (auto simp: GetDownstreamInfoBySessionIdentifier_def)
  with assms show ?thesis by simp
next
  case False
  then obtain s where s: "arg \<noteq> []" "session_missing (GetSession c arg) = Ok s"
    by (auto simp: is_ok_iff)
  have "\<exists>d. (case st_DeviceRef (se_Status s) of None \<Rightarrow> Ok None
            | Some r \<Rightarrow> lookup_optional (GetDevice c (or_Uid r))) = Ok d"
    using lookup_optional_getResource by (auto simp: GetDevice_def split: option.splits)
  then obtain d where d: "(case st_DeviceRef (se_Status s) of None \<Rightarrow> Ok None
            | Some r \<Rightarrow> lookup_optional (GetDevice c (or_Uid r))) = Ok d" by blast
  show ?thesis
  proof (cases "st_UserRef (se_Status s)")
    case (Some r)
    obtain u where u: "lookup_optional (GetUser c (or_Uid r)) = Ok u"
      using lookup_optional_getResource by (metis GetUser_def)
    have "\<exists>di. GetDownstreamInfoBySessionIdentifier c arg = Ok di"
      by (cases u) (simp_all add: GetDownstreamInfoBySessionIdentifier_def s Some u d cached_groups_eq)
    with assms show ?thesis by auto
  qed (use assms s in \<open>simp add: GetDownstreamInfoBySessionIdentifier_def\<close>)
qed

end
