(* ===== verification/PolicyDecision.thy ===== *)
theory PolicyDecision imports Corev1Services CelEngine GoSort Acache begin

text \<open>
  The decision part of \<open>cluster/octovigil/octovigil/policy.go\<close>: evaluating the collected rules in the
  order of their priorities, the reason that is reported, and the enforcement rules that switch
  a policy off. The environment record gathers what the decision point calls and does
  not implement: the condition engine's parameters, bbolt, the sort of the standard library, the
  conversion of messages to maps, the resource server and the token verifier.
\<close>

section \<open>Rules and the environment\<close>

record policyRuleInline =
  in_name :: string
  in_resourceRef :: "ObjectReference option"

record policyRule =
  pr_rule :: Rule
  pr_policyRef :: "ObjectReference option"
  pr_inline :: "policyRuleInline option"
  pr_attrs :: input

record AccessTokenClaims =
  tc_SessionUID :: string
  tc_TokenID :: string

record octo_env =
  oe_cel :: cel_env
  oe_put :: put_error
  oe_sort :: "(policyRule \<Rightarrow> policyRule \<Rightarrow> int) \<Rightarrow> policyRule list \<Rightarrow> policyRule list"
  oe_ctxMap :: "RequestContext \<Rightarrow> input go"
  oe_attrsMap :: "json option \<Rightarrow> input go"
  oe_GetPolicy :: "string \<Rightarrow> Policy go"
  oe_GetNamespace :: "string \<Rightarrow> Namespace go"
  oe_GetUser :: "string \<Rightarrow> User go"
  oe_GetDevice :: "string \<Rightarrow> Device go"
  oe_GetGroup :: "string \<Rightarrow> Group go"
  oe_GetService :: "string \<Rightarrow> Service go"
  oe_VerifyAccessToken :: "string \<Rightarrow> AccessTokenClaims go"
  oe_v4Prefix :: "Prefix option"
  oe_v6Prefix :: "Prefix option"
  oe_cc :: "ClusterConfig option"

section \<open>Evaluating one rule\<close>

datatype matchDecision = MATCH_NO | MATCH_YES

record policyDecisionResult =
  dr_decision :: matchDecision
  dr_effect :: Rule_Effect
  dr_reason :: "Reason option"

definition getMatchedDecisionReason :: "policyRule \<Rightarrow> Reason" where
  "getMatchedDecisionReason rule =
     \<lparr>re_Type = POLICY_MATCH,
      re_Details = Some
        \<lparr>pm_Type = (if pr_policyRef rule \<noteq> None then PolicyMatch_Policy (pr_policyRef rule)
                    else case pr_inline rule of
                           Some i \<Rightarrow> PolicyMatch_InlinePolicy (in_resourceRef i) (in_name i)
                         | None \<Rightarrow> PolicyMatch_Unset),
         pm_RuleName = ru_Name (pr_rule rule),
         pm_Priority = ru_Priority (pr_rule rule)\<rparr>\<rparr>"

definition input_map :: "input \<Rightarrow> input \<Rightarrow> input" where
  "input_map reqCtxMap attrs = [(''ctx'', JMap reqCtxMap), (''attrs'', JMap attrs)]"

definition getDecisionRule :: "octo_env \<Rightarrow> policyRule \<Rightarrow> input \<Rightarrow> policyDecisionResult go" where
  "getDecisionRule E r reqCtxMap =
     (let rule = pr_rule r;
          resp = \<lparr>dr_decision = MATCH_NO, dr_effect = EFFECT_UNKNOWN, dr_reason = None\<rparr>;
          inputMap = input_map reqCtxMap (pr_attrs r) in
      if ru_Condition rule \<noteq> None then
        go_bind (EvalCondition (oe_cel E) (ru_Condition rule) inputMap) (\<lambda>isMatched.
          if \<not> isMatched then Ok resp
          else Ok \<lparr>dr_decision = MATCH_YES, dr_effect = ru_Effect rule,
                   dr_reason = Some (getMatchedDecisionReason r)\<rparr>)
      else Ok resp)"

section \<open>The decision\<close>

text \<open>The subtraction of two \<open>int32\<close> priorities wraps.\<close>

definition policyRule_cmp :: "policyRule \<Rightarrow> policyRule \<Rightarrow> int" where
  "policyRule_cmp a b =
     (let diff = ru_Priority (pr_rule a) - ru_Priority (pr_rule b) in
      if sint diff < 0 then -1
      else if 0 < sint diff then 1
      else if ru_Effect (pr_rule a) = DENY \<and> ru_Effect (pr_rule b) = ALLOW then -1
      else if ru_Effect (pr_rule a) = ALLOW \<and> ru_Effect (pr_rule b) = DENY then 1
      else 0)"

definition no_match :: policyDecisionResult where
  "no_match = \<lparr>dr_decision = MATCH_NO, dr_effect = DENY, dr_reason = None\<rparr>"

text \<open>A rule whose evaluation fails is skipped.\<close>

fun decision_loop :: "octo_env \<Rightarrow> input \<Rightarrow> policyRule list \<Rightarrow> policyDecisionResult go" where
  "decision_loop E reqCtxMap [] = Ok no_match"
| "decision_loop E reqCtxMap (rule # rules) =
     (case getDecisionRule E rule reqCtxMap of
        Panic \<Rightarrow> Panic
      | Fail e \<Rightarrow> decision_loop E reqCtxMap rules
      | Ok res \<Rightarrow> if dr_decision res = MATCH_YES then Ok res else decision_loop E reqCtxMap rules)"

definition doGetDecision :: "octo_env \<Rightarrow> input \<Rightarrow> policyRule list \<Rightarrow> policyDecisionResult go" where
  "doGetDecision E reqCtxMap allRules = decision_loop E reqCtxMap (oe_sort E policyRule_cmp allRules)"

section \<open>Enforcement rules\<close>

definition getDecisionEnforcementRule :: "octo_env \<Rightarrow> EnforcementRule \<Rightarrow> input \<Rightarrow> input \<Rightarrow> matchDecision go" where
  "getDecisionEnforcementRule E rule reqCtxMap attrs =
     (if en_Condition rule \<noteq> None then
        go_bind (EvalCondition (oe_cel E) (en_Condition rule) (input_map reqCtxMap attrs))
          (\<lambda>isMatched. if \<not> isMatched then Ok MATCH_NO else Ok MATCH_YES)
      else Ok MATCH_NO)"

fun any_enforcement_match :: "octo_env \<Rightarrow> EnforcementRule list \<Rightarrow> input \<Rightarrow> input \<Rightarrow> bool go" where
  "any_enforcement_match E [] reqCtxMap attrs = Ok False"
| "any_enforcement_match E (rule # rules) reqCtxMap attrs =
     (case getDecisionEnforcementRule E rule reqCtxMap attrs of
        Panic \<Rightarrow> Panic
      | Fail e \<Rightarrow> any_enforcement_match E rules reqCtxMap attrs
      | Ok d \<Rightarrow> if d = MATCH_YES then Ok True else any_enforcement_match E rules reqCtxMap attrs)"

definition shouldEnforcePolicy :: "octo_env \<Rightarrow> Policy_Spec \<Rightarrow> input \<Rightarrow> input \<Rightarrow> bool go" where
  "shouldEnforcePolicy E spec reqCtxMap attrs =
     (if length (ps_EnforcementRules spec) = 0 then Ok True
      else
        (let enforceRules = filter (\<lambda>r. en_Effect r = ENFORCE) (ps_EnforcementRules spec);
             ignoreRules = filter (\<lambda>r. en_Effect r = IGNORE) (ps_EnforcementRules spec) in
         go_bind (any_enforcement_match E enforceRules reqCtxMap attrs) (\<lambda>enforce.
           if enforce then Ok True
           else go_bind (any_enforcement_match E ignoreRules reqCtxMap attrs)
                  (\<lambda>ignore. if ignore then Ok False else Ok True))))"

section \<open>The comparison of rules\<close>

definition rule_prio :: "policyRule \<Rightarrow> int" where
  "rule_prio r = sint (ru_Priority (pr_rule r))"

definition rule_effect :: "policyRule \<Rightarrow> Rule_Effect" where
  "rule_effect r = ru_Effect (pr_rule r)"

text \<open>Rules as the API server lets them through, with a generous bound on priorities.\<close>

definition rule_ok :: "policyRule \<Rightarrow> bool" where
  "rule_ok r \<longleftrightarrow> - (2 ^ 30) \<le> rule_prio r \<and> rule_prio r < 2 ^ 30 \<and> rule_effect r \<in> {ALLOW, DENY}"

lemma sint_diff_32:
  fixes x y :: "32 word"
  assumes "- (2 ^ 30) \<le> sint x" "sint x < 2 ^ 30" "- (2 ^ 30) \<le> sint y" "sint y < 2 ^ 30"
  shows "sint (x - y) = sint x - sint y"
proof -
  have "sint (x - y) = signed_take_bit 31 (sint x - sint y)"
    by transfer (simp add: signed_take_bit_diff)
  also have "\<dots> = sint x - sint y"
    by (rule signed_take_bit_int_eq_self) (use assms in simp_all)
  finally show ?thesis .
qed

lemma policyRule_cmp_neg:
  assumes "rule_ok a" and "rule_ok b"
  shows "policyRule_cmp a b < 0 \<longleftrightarrow>
    rule_prio a < rule_prio b \<or> (rule_prio a = rule_prio b \<and> rule_effect a = DENY \<and> rule_effect b = ALLOW)"
proof -
  have "sint (ru_Priority (pr_rule a) - ru_Priority (pr_rule b)) = rule_prio a - rule_prio b"
    using assms by (simp add: rule_ok_def rule_prio_def sint_diff_32)
  then show ?thesis
    by (auto simp: policyRule_cmp_def Let_def rule_effect_def)
qed

lemma policyRule_cmp_strict_weak:
  assumes "\<forall>r\<in>A. rule_ok r"
  shows "strict_weak policyRule_cmp A"
  unfolding strict_weak_def
proof (intro conjI ballI impI)
  fix x y assume xy: "x \<in> A" "y \<in> A" "policyRule_cmp x y < 0"
  then show "\<not> policyRule_cmp y x < 0"
    using assms by (auto simp: policyRule_cmp_neg)
next
  fix x y z assume A: "x \<in> A" "y \<in> A" "z \<in> A"
    and "\<not> policyRule_cmp x y < 0" "\<not> policyRule_cmp y z < 0"
  with assms show "\<not> policyRule_cmp x z < 0"
    by (auto simp: policyRule_cmp_neg rule_ok_def)
qed

section \<open>What a decision is\<close>

text \<open>A rule matches when it has a condition that evaluates to true.\<close>

definition rule_matches :: "octo_env \<Rightarrow> input \<Rightarrow> policyRule \<Rightarrow> bool" where
  "rule_matches E m r \<longleftrightarrow>
     ru_Condition (pr_rule r) \<noteq> None \<and>
     EvalCondition (oe_cel E) (ru_Condition (pr_rule r)) (input_map m (pr_attrs r)) = Ok True"

text \<open>
  The policy language in one definition: among the matching rules those of the least priority number
  count; if one of them denies, the request is denied, otherwise it is allowed; without a
  matching rule it is denied.
\<close>

definition decide :: "(policyRule \<Rightarrow> bool) \<Rightarrow> policyRule set \<Rightarrow> Rule_Effect" where
  "decide matches R =
     (let M = {r \<in> R. matches r}; p = Min (rule_prio ` M) in
      if M = {} then DENY
      else if \<exists>r\<in>M. rule_prio r = p \<and> rule_effect r = DENY then DENY else ALLOW)"

lemma getDecisionRule_cases:
  "getDecisionRule E r m = Panic \<or>
   (\<not> rule_matches E m r \<and> ((\<exists>e. getDecisionRule E r m = Fail e) \<or>
      (\<exists>res. getDecisionRule E r m = Ok res \<and> dr_decision res = MATCH_NO))) \<or>
   (rule_matches E m r \<and> getDecisionRule E r m =
      Ok \<lparr>dr_decision = MATCH_YES, dr_effect = rule_effect r, dr_reason = Some (getMatchedDecisionReason r)\<rparr>)"
  by (cases "EvalCondition (oe_cel E) (ru_Condition (pr_rule r)) (input_map m (pr_attrs r))")
    (auto simp: getDecisionRule_def rule_matches_def rule_effect_def Let_def)

lemma decision_loop_find:
  assumes "\<forall>r\<in>set rules. getDecisionRule E r m \<noteq> Panic"
  shows "decision_loop E m rules =
    Ok (case List.find (rule_matches E m) rules of
          None \<Rightarrow> no_match
        | Some r \<Rightarrow> \<lparr>dr_decision = MATCH_YES, dr_effect = rule_effect r,
                     dr_reason = Some (getMatchedDecisionReason r)\<rparr>)"
  using assms
proof (induction rules)
  case (Cons r rules)
  then show ?case
    using getDecisionRule_cases [of E r m] by (auto simp: rule_effect_def)
qed simp

text \<open>The first match in an order that respects the comparison is a rule that decides.\<close>

lemma decide_first:
  assumes fin: "finite R" and ok: "\<forall>r\<in>R. rule_ok r" and r: "r \<in> R" "matches r"
    and least: "\<And>y. y \<in> R \<Longrightarrow> matches y \<Longrightarrow> \<not> policyRule_cmp y r < 0"
  shows "decide matches R = rule_effect r" and "rule_prio r = Min (rule_prio ` {r \<in> R. matches r})"
proof -
  let ?M = "{r \<in> R. matches r}"
  have M: "finite (rule_prio ` ?M)" "?M \<noteq> {}" using fin r by auto
  have cmp: "\<not> (rule_prio y < rule_prio r \<or>
      (rule_prio y = rule_prio r \<and> rule_effect y = DENY \<and> rule_effect r = ALLOW))" if "y \<in> ?M" for y
    using least [of y] that ok r policyRule_cmp_neg [of y r] by auto
  show p: "rule_prio r = Min (rule_prio ` ?M)"
    by (rule Min_eqI [symmetric]) (use M r cmp in \<open>force simp: not_less\<close>)+
  have "(\<exists>y\<in>?M. rule_prio y = rule_prio r \<and> rule_effect y = DENY) \<longleftrightarrow> rule_effect r = DENY"
    using cmp r ok by (auto simp: rule_ok_def)
  then show "decide matches R = rule_effect r"
    using M(2) r ok by (auto simp: decide_def Let_def rule_ok_def simp flip: p)
qed

lemma doGetDecision_find:
  assumes "slice_sort (oe_sort E)" and "\<forall>r\<in>set rules. getDecisionRule E r m \<noteq> Panic"
  shows "doGetDecision E m rules =
    Ok (case List.find (rule_matches E m) (oe_sort E policyRule_cmp rules) of
          None \<Rightarrow> no_match
        | Some r \<Rightarrow> \<lparr>dr_decision = MATCH_YES, dr_effect = rule_effect r,
                     dr_reason = Some (getMatchedDecisionReason r)\<rparr>)"
  unfolding doGetDecision_def
  by (rule decision_loop_find) (use assms slice_sort.sort_set in blast)

lemma doGetDecision_spec:
  assumes "slice_sort (oe_sort E)" and "\<forall>r\<in>set rules. rule_ok r"
    and "\<forall>r\<in>set rules. getDecisionRule E r m \<noteq> Panic"
  obtains res where "doGetDecision E m rules = Ok res"
    and "dr_effect res = decide (rule_matches E m) (set rules)"
    and "(dr_decision res = MATCH_YES) = (\<exists>r\<in>set rules. rule_matches E m r)"
    and "dr_decision res = MATCH_YES \<Longrightarrow>
      \<exists>r\<in>set rules. rule_matches E m r \<and> rule_effect r = dr_effect res \<and>
         rule_prio r = Min (rule_prio ` {r \<in> set rules. rule_matches E m r}) \<and>
         dr_reason res = Some (getMatchedDecisionReason r)"
proof (cases "List.find (rule_matches E m) (oe_sort E policyRule_cmp rules)")
  case None
  with slice_sort.find_first_None [OF assms(1)] have "\<forall>r\<in>set rules. \<not> rule_matches E m r"
    by blast
  with that [of no_match] doGetDecision_find [OF assms(1,3)] None show ?thesis
    by (simp add: no_match_def decide_def)
next
  case (Some r)
  note first = slice_sort.find_first_mem [OF assms(1) Some]
  note least = slice_sort.find_first_minimal [OF assms(1) policyRule_cmp_strict_weak [OF assms(2)] Some]
  note dec = decide_first [OF finite_set assms(2) _ _ least, where matches = "rule_matches E m"]
  let ?res = "\<lparr>dr_decision = MATCH_YES, dr_effect = rule_effect r,
    dr_reason = Some (getMatchedDecisionReason r)\<rparr>"
  from that [of ?res] doGetDecision_find [OF assms(1,3)] Some first dec show ?thesis
    by auto
qed

text \<open>
  C4: for every sort that meets the contract of the standard library, the loop over the sorted rules
  implements the policy language: the effect is the one that \<open>decide\<close> gives, a match is
  reported exactly when some rule matches, and the reason then names a rule that matches, has the
  least priority number of the matching rules and the reported effect.
\<close>

theorem doGetDecision_implements_decide:
  assumes "slice_sort (oe_sort E)" and "\<forall>r\<in>set rules. rule_ok r"
    and "\<forall>r\<in>set rules. getDecisionRule E r m \<noteq> Panic"
  shows "\<exists>res. doGetDecision E m rules = Ok res \<and>
    dr_effect res = decide (rule_matches E m) (set rules) \<and>
    (dr_decision res = MATCH_YES) = (\<exists>r\<in>set rules. rule_matches E m r) \<and>
    (dr_decision res = MATCH_YES \<longrightarrow>
      (\<exists>r\<in>set rules. rule_matches E m r \<and> rule_effect r = dr_effect res \<and>
         rule_prio r = Min (rule_prio ` {r \<in> set rules. rule_matches E m r}) \<and>
         dr_reason res = Some (getMatchedDecisionReason r)))"
  by (rule doGetDecision_spec [OF assms]) blast

text \<open>
  C5: the decision does not depend on the order in which the rules were collected nor on how the sort
  orders equivalent rules.
\<close>

theorem decision_order_independent:
  assumes "slice_sort (oe_sort E)" and "slice_sort sort2" and "mset rules = mset rules2"
    and "\<forall>r\<in>set rules. rule_ok r" and "\<forall>r\<in>set rules. getDecisionRule E r m \<noteq> Panic"
  shows "go_map (\<lambda>res. (dr_decision res, dr_effect res)) (doGetDecision E m rules) =
    go_map (\<lambda>res. (dr_decision res, dr_effect res)) (doGetDecision (E\<lparr>oe_sort := sort2\<rparr>) m rules2)"
proof -
  let ?E2 = "E\<lparr>oe_sort := sort2\<rparr>"
  have "set rules2 = set rules" using assms(3) by (metis set_mset_mset)
  moreover have same: "getDecisionRule ?E2 = getDecisionRule E" "rule_matches ?E2 = rule_matches E"
    by (simp_all add: fun_eq_iff getDecisionRule_def rule_matches_def Let_def)
  ultimately have ok: "slice_sort (oe_sort ?E2)" "\<forall>r\<in>set rules2. rule_ok r"
    "\<forall>r\<in>set rules2. getDecisionRule ?E2 r m \<noteq> Panic"
    using assms by simp_all
  obtain res where res: "doGetDecision E m rules = Ok res"
    "dr_effect res = decide (rule_matches E m) (set rules)"
    "(dr_decision res = MATCH_YES) = (\<exists>r\<in>set rules. rule_matches E m r)"
    by (rule doGetDecision_spec [OF assms(1,4,5)])
  obtain res2 where res2: "doGetDecision ?E2 m rules2 = Ok res2"
    "dr_effect res2 = decide (rule_matches E m) (set rules2)"
    "(dr_decision res2 = MATCH_YES) = (\<exists>r\<in>set rules2. rule_matches E m r)"
    by (rule doGetDecision_spec [OF ok]) (simp add: same)
  show ?thesis
    using res res2 \<open>set rules2 = set rules\<close>
    by (simp add: go_map_def) (metis matchDecision.exhaust)
qed

lemma decide_ALLOW_iff:
  assumes "finite R"
  shows "decide matches R = ALLOW \<longleftrightarrow>
    (\<exists>r\<in>R. matches r \<and> (\<forall>y\<in>R. matches y \<longrightarrow> rule_prio r \<le> rule_prio y \<and>
       (rule_prio y = rule_prio r \<longrightarrow> rule_effect y \<noteq> DENY)))"
proof -
  let ?M = "{r \<in> R. matches r}"
  have fin: "finite (rule_prio ` ?M)" using assms by simp
  show ?thesis
  proof (cases "?M = {}")
    case False
    then obtain r where r: "r \<in> ?M" "rule_prio r = Min (rule_prio ` ?M)"
      using Min_in [OF fin] by fastforce
    have le: "Min (rule_prio ` ?M) \<le> rule_prio y" if "y \<in> ?M" for y
      using Min_le [OF fin] that by blast
    show ?thesis
    proof
      assume "decide matches R = ALLOW"
      with False have "\<not> (\<exists>y\<in>?M. rule_prio y = Min (rule_prio ` ?M) \<and> rule_effect y = DENY)"
        by (auto simp: decide_def Let_def split: if_splits)
      with r le show "\<exists>r\<in>R. matches r \<and> (\<forall>y\<in>R. matches y \<longrightarrow> rule_prio r \<le> rule_prio y \<and>
         (rule_prio y = rule_prio r \<longrightarrow> rule_effect y \<noteq> DENY))"
        by (intro bexI [of _ r]) auto
    next
      assume "\<exists>r\<in>R. matches r \<and> (\<forall>y\<in>R. matches y \<longrightarrow> rule_prio r \<le> rule_prio y \<and>
         (rule_prio y = rule_prio r \<longrightarrow> rule_effect y \<noteq> DENY))"
      then obtain r' where r': "r' \<in> ?M" "\<And>y. y \<in> ?M \<Longrightarrow> rule_prio r' \<le> rule_prio y \<and>
         (rule_prio y = rule_prio r' \<longrightarrow> rule_effect y \<noteq> DENY)" by auto
      then have "Min (rule_prio ` ?M) = rule_prio r'"
        using fin by (intro Min_eqI) auto
      with r' False show "decide matches R = ALLOW"
        by (auto simp: decide_def Let_def)
    qed
  qed (auto simp: decide_def)
qed

text \<open>
  C6: a request that is allowed with some more rules is still allowed when rules that deny are taken
  away: adding rules that deny, whatever their conditions and priorities, never turns a denial into
  a permission.
\<close>

theorem adding_denials_is_safe:
  assumes "slice_sort (oe_sort E)" and "\<forall>r\<in>set rules \<union> set denials. rule_ok r"
    and "\<forall>r\<in>set rules \<union> set denials. getDecisionRule E r m \<noteq> Panic"
    and "\<forall>r\<in>set denials. rule_effect r = DENY"
    and "doGetDecision E m (rules @ denials) = Ok res" and "dr_effect res = ALLOW"
  shows "\<exists>res'. doGetDecision E m rules = Ok res' \<and> dr_effect res' = ALLOW \<and> dr_decision res' = MATCH_YES"
proof -
  have all: "\<forall>r\<in>set (rules @ denials). rule_ok r" "\<forall>r\<in>set (rules @ denials). getDecisionRule E r m \<noteq> Panic"
    and ok: "\<forall>r\<in>set rules. rule_ok r" "\<forall>r\<in>set rules. getDecisionRule E r m \<noteq> Panic"
    using assms(2,3) by simp_all
  obtain res0 where "doGetDecision E m (rules @ denials) = Ok res0"
    "dr_effect res0 = decide (rule_matches E m) (set (rules @ denials))"
    by (rule doGetDecision_spec [OF assms(1) all])
  with assms(5,6) have "decide (rule_matches E m) (set (rules @ denials)) = ALLOW"
    by simp
  with assms(4) have dec: "decide (rule_matches E m) (set rules) = ALLOW"
    unfolding decide_ALLOW_iff [OF finite_set] by auto
  then have match: "\<exists>r\<in>set rules. rule_matches E m r"
    unfolding decide_ALLOW_iff [OF finite_set] by blast
  obtain res' where "doGetDecision E m rules = Ok res'"
    "dr_effect res' = decide (rule_matches E m) (set rules)"
    "(dr_decision res' = MATCH_YES) = (\<exists>r\<in>set rules. rule_matches E m r)"
    by (rule doGetDecision_spec [OF assms(1) ok])
  with dec match show ?thesis by simp
qed

section \<open>Concrete decisions\<close>

text \<open>An environment whose expressions are true exactly when they are the text \<open>a\<close>.\<close>

definition example_env :: octo_env where
  "example_env =
     \<lparr>oe_cel = \<lparr>ce_Compile = (\<lambda>e. Ok (\<lambda>i. Ok (CelBool (e = ''a'')))), ce_Sum256 = (\<lambda>s. s),
                op_Prepare = (\<lambda>s. Fail (Errorf ''no rego''))\<rparr>,
      oe_put = bolt_put, oe_sort = insertionSortCmpFunc,
      oe_ctxMap = (\<lambda>c. Ok []), oe_attrsMap = (\<lambda>a. Ok []),
      oe_GetPolicy = (\<lambda>n. if n = ''allow-all'' then Ok example_policy else Fail (Status NotFoundCode)),
      oe_GetNamespace = (\<lambda>n. Fail (Status NotFoundCode)),
      oe_GetUser = (\<lambda>n. Fail (Status NotFoundCode)),
      oe_GetDevice = (\<lambda>n. Fail (Status NotFoundCode)),
      oe_GetGroup = (\<lambda>n. Fail (Status NotFoundCode)),
      oe_GetService = (\<lambda>n. Fail (Status NotFoundCode)),
      oe_VerifyAccessToken = (\<lambda>t. if t = ''jwt'' then Ok \<lparr>tc_SessionUID = ''s1'', tc_TokenID = ''t1''\<rparr>
                                  else Fail (Errorf ''invalid token'')),
      oe_v4Prefix = Some (Prefix (Addr4 0x64400000) 10), oe_v6Prefix = None, oe_cc = None\<rparr>"

definition example_rule :: "string \<Rightarrow> Condition \<Rightarrow> Rule_Effect \<Rightarrow> 32 word \<Rightarrow> policyRule" where
  "example_rule name cond eff prio =
     \<lparr>pr_rule = \<lparr>ru_Name = name, ru_Condition = Some cond, ru_Effect = eff, ru_Priority = prio\<rparr>,
      pr_policyRef = None, pr_inline = None, pr_attrs = []\<rparr>"

definition example_rules :: "policyRule list" where
  "example_rules =
     [example_rule ''late'' (Condition_MatchAny True) ALLOW 3,
      example_rule ''skipped'' (Condition_Match ''b'') DENY (-1),
      example_rule ''first'' (Condition_Match ''a'') ALLOW 0]"

lemma insertion_sort_contract: "slice_sort insertionSortCmpFunc"
  by (rule insertion.slice_sort_axioms)

lemma example_rules_ok:
  "slice_sort (oe_sort example_env)" "\<forall>r\<in>set example_rules. rule_ok r"
  "\<forall>r\<in>set example_rules. getDecisionRule example_env r m \<noteq> Panic"
  by (simp_all add: example_env_def insertion_sort_contract example_rules_def example_rule_def rule_ok_def
      rule_prio_def rule_effect_def getDecisionRule_def EvalCondition_def isConditionMatched_def EvalPolicy_def
      compile_def Let_def)

lemma example_matches:
  "{r \<in> set example_rules. rule_matches example_env m r} =
   {example_rule ''late'' (Condition_MatchAny True) ALLOW 3, example_rule ''first'' (Condition_Match ''a'') ALLOW 0}"
  by (auto simp: example_env_def example_rules_def example_rule_def rule_matches_def EvalCondition_def
      isConditionMatched_def EvalPolicy_def compile_def)

lemma example_decision: "decide (rule_matches example_env m) (set example_rules) = ALLOW"
  unfolding decide_def Let_def example_matches by (simp add: example_rule_def rule_effect_def)

theorem doGetDecision_implements_decide_witness:
  "\<exists>res. doGetDecision example_env [] example_rules = Ok res \<and> dr_effect res = ALLOW"
  using doGetDecision_implements_decide [OF example_rules_ok, of "[]"] example_decision by auto

theorem decision_order_independent_witness:
  "go_map (\<lambda>res. (dr_decision res, dr_effect res)) (doGetDecision example_env [] example_rules) =
   go_map (\<lambda>res. (dr_decision res, dr_effect res))
     (doGetDecision (example_env\<lparr>oe_sort := insertionSortCmpFunc\<rparr>) [] (rev example_rules))"
  by (rule decision_order_independent [OF example_rules_ok(1) insertion_sort_contract _ example_rules_ok(2,3)])
    simp

theorem adding_denials_is_safe_witness:
  "\<exists>res'. doGetDecision example_env [] [example_rule ''allow'' (Condition_MatchAny True) ALLOW 0] = Ok res' \<and>
     dr_effect res' = ALLOW \<and> dr_decision res' = MATCH_YES"
proof -
  let ?a = "[example_rule ''allow'' (Condition_MatchAny True) ALLOW 0]"
  let ?d = "[example_rule ''deny'' (Condition_MatchAny True) DENY 1]"
  have ok: "\<forall>r\<in>set ?a \<union> set ?d. rule_ok r"
    "\<forall>r\<in>set ?a \<union> set ?d. getDecisionRule example_env r [] \<noteq> Panic" "\<forall>r\<in>set ?d. rule_effect r = DENY"
    by (simp_all add: example_rule_def rule_ok_def rule_prio_def rule_effect_def getDecisionRule_def
        EvalCondition_def Let_def)
  obtain res where "doGetDecision example_env [] (?a @ ?d) = Ok res" "dr_effect res = ALLOW"
    by (simp add: doGetDecision_def example_env_def insertionSortCmpFunc_def example_rule_def
        policyRule_cmp_def Let_def getDecisionRule_def EvalCondition_def)
  from adding_denials_is_safe [OF example_rules_ok(1) ok this] show ?thesis .
qed

end
