(* ===== verification/Controllers.thy ===== *)
theory Controllers imports Acache "HOL-Library.AList" begin

text \<open>
  \<open>cluster/octovigil/octovigil/controllers\<close> and the policy trigger table of
  \<open>cluster/octovigil/octovigil/octovigil.go\<close>: the handlers that keep the state of the decision
  point up to date from the watched resources, and what holds of every state that they and the loads
  of the decision point can reach.
\<close>

section \<open>The state\<close>

record Octovigil =
  oc_cache :: Cache
  oc_ptMap :: "(string \<times> PolicyTrigger) list"

definition NewOctovigil :: Octovigil where
  "NewOctovigil = \<lparr>oc_cache = NewCache, oc_ptMap = []\<rparr>"

definition SetPolicyTrigger :: "PolicyTrigger \<Rightarrow> Octovigil \<Rightarrow> Octovigil" where
  "SetPolicyTrigger i st = st\<lparr>oc_ptMap := AList.update (md_Uid (pt_Metadata i)) i (oc_ptMap st)\<rparr>"

definition DeletePolicyTrigger :: "PolicyTrigger \<Rightarrow> Octovigil \<Rightarrow> Octovigil" where
  "DeletePolicyTrigger i st = st\<lparr>oc_ptMap := AList.delete (md_Uid (pt_Metadata i)) (oc_ptMap st)\<rparr>"

section \<open>The handlers\<close>

datatype 'a watch = OnAdd 'a | OnUpdate 'a 'a | OnDelete 'a

text \<open>An update carries the new resource and the old one; the handlers ignore the old one.\<close>

definition handle ::
  "('a \<Rightarrow> Cache \<Rightarrow> unit go \<times> Cache) \<Rightarrow> ('a \<Rightarrow> Cache \<Rightarrow> Cache) \<Rightarrow> 'a watch \<Rightarrow> Octovigil \<Rightarrow> Octovigil" where
  "handle set_rsc delete_rsc ev st =
     (case ev of
        OnAdd x \<Rightarrow> st\<lparr>oc_cache := snd (set_rsc x (oc_cache st))\<rparr>
      | OnUpdate new old \<Rightarrow> st\<lparr>oc_cache := snd (set_rsc new (oc_cache st))\<rparr>
      | OnDelete x \<Rightarrow> st\<lparr>oc_cache := delete_rsc x (oc_cache st)\<rparr>)"

definition on_user :: "put_error \<Rightarrow> User watch \<Rightarrow> Octovigil \<Rightarrow> Octovigil" where
  "on_user pe = handle (SetUser pe) DeleteUser"

definition on_device :: "put_error \<Rightarrow> Device watch \<Rightarrow> Octovigil \<Rightarrow> Octovigil" where
  "on_device pe = handle (SetDevice pe) DeleteDevice"

definition on_session :: "put_error \<Rightarrow> Session watch \<Rightarrow> Octovigil \<Rightarrow> Octovigil" where
  "on_session pe = handle (setSession pe) DeleteSession"

definition on_service :: "put_error \<Rightarrow> Service watch \<Rightarrow> Octovigil \<Rightarrow> Octovigil" where
  "on_service pe = handle (SetService pe) DeleteService"

definition on_group :: "put_error \<Rightarrow> Group watch \<Rightarrow> Octovigil \<Rightarrow> Octovigil" where
  "on_group pe = handle (SetGroup pe) DeleteGroup"

definition on_namespace :: "put_error \<Rightarrow> Namespace watch \<Rightarrow> Octovigil \<Rightarrow> Octovigil" where
  "on_namespace pe = handle (SetNamespace pe) DeleteNamespace"

definition on_policy :: "put_error \<Rightarrow> Policy watch \<Rightarrow> Octovigil \<Rightarrow> Octovigil" where
  "on_policy pe = handle (SetPolicy pe) DeletePolicy"

text \<open>The handler of deletions calls \<open>SetPolicyTrigger\<close>, as the source does.\<close>

definition on_policy_trigger :: "PolicyTrigger watch \<Rightarrow> Octovigil \<Rightarrow> Octovigil" where
  "on_policy_trigger ev st =
     (case ev of
        OnAdd p \<Rightarrow> SetPolicyTrigger p st
      | OnUpdate new old \<Rightarrow> SetPolicyTrigger new st
      | OnDelete p \<Rightarrow> SetPolicyTrigger p st)"

section \<open>Steps and reachable states\<close>

text \<open>
  Every watched change is a step. The decision point itself stores what it loads from the resource
  server, which has the effect of the corresponding \<open>OnAdd\<close>.
\<close>

inductive step :: "put_error \<Rightarrow> Octovigil \<Rightarrow> Octovigil \<Rightarrow> bool" for pe where
  user: "step pe st (on_user pe ev st)"
| device: "step pe st (on_device pe ev st)"
| session: "step pe st (on_session pe ev st)"
| service: "step pe st (on_service pe ev st)"
| group: "step pe st (on_group pe ev st)"
| namespace: "step pe st (on_namespace pe ev st)"
| policy: "step pe st (on_policy pe ev st)"
| trigger: "step pe st (on_policy_trigger ev st)"

inductive reachable :: "put_error \<Rightarrow> Octovigil \<Rightarrow> bool" for pe where
  init: "reachable pe NewOctovigil"
| next_state: "reachable pe st \<Longrightarrow> step pe st st' \<Longrightarrow> reachable pe st'"

section \<open>Every entry is filed under a key of its own\<close>

definition cache_sound :: "Cache \<Rightarrow> bool" where
  "cache_sound c \<longleftrightarrow>
     (\<forall>k x. GetUser c k = Ok x \<longrightarrow> k \<in> user_keys x) \<and>
     (\<forall>k x. GetDevice c k = Ok x \<longrightarrow> k \<in> device_keys x) \<and>
     (\<forall>k x. GetSession c k = Ok x \<longrightarrow> k \<in> session_keys x) \<and>
     (\<forall>k x. GetService c k = Ok x \<longrightarrow> k \<in> service_keys x) \<and>
     (\<forall>k x. GetGroup c k = Ok x \<longrightarrow> k \<in> named_keys gr_Metadata x) \<and>
     (\<forall>k x. GetNamespace c k = Ok x \<longrightarrow> k \<in> named_keys na_Metadata x) \<and>
     (\<forall>k x. GetPolicy c k = Ok x \<longrightarrow> k \<in> named_keys pol_Metadata x)"

lemmas getters = GetUser_def GetDevice_def GetSession_def GetService_def GetGroup_def
  GetNamespace_def GetPolicy_def

lemmas setters = SetUser_def SetDevice_def SetService_def SetGroup_def SetNamespace_def
  SetPolicy_def setSession_def Let_def case_prod_beta

lemmas deleters = DeleteUser_def DeleteDevice_def DeleteSession_def DeleteService_def
  DeleteGroup_def DeleteNamespace_def DeletePolicy_def Let_def

lemma getResource_delete:
  "getResource (deleteResource b j) k = Ok x \<Longrightarrow> getResource b k = Ok x"
  by (auto simp: getResource_def deleteResource_def split: if_splits)

lemma getResource_delete_all:
  "getResource (fold (\<lambda>k b. deleteResource b k) ks b) k = Ok x \<Longrightarrow> getResource b k = Ok x"
  by (induction ks arbitrary: b) (auto dest: getResource_delete)

lemma cache_sound_new: "cache_sound NewCache"
  by (simp add: cache_sound_def getters NewCache_def getResource_def)

lemma cache_sound_set:
  assumes "cache_sound c"
  shows "cache_sound (snd (SetUser bolt_put u c))" "cache_sound (snd (SetDevice bolt_put d c))"
    "cache_sound (snd (setSession bolt_put s c))" "cache_sound (snd (SetService bolt_put v c))"
    "cache_sound (snd (SetGroup bolt_put g c))" "cache_sound (snd (SetNamespace bolt_put n c))"
    "cache_sound (snd (SetPolicy bolt_put p c))"
proof -
  show "cache_sound (snd (SetUser bolt_put u c))"
    using assms users.sound_put [of c u] by (simp add: cache_sound_def) (simp add: getters setters)
  show "cache_sound (snd (SetDevice bolt_put d c))"
    using assms devices.sound_put [of c d] by (simp add: cache_sound_def) (simp add: getters setters)
  show "cache_sound (snd (setSession bolt_put s c))"
    using assms sessions.sound_put [of c s] by (simp add: cache_sound_def) (simp add: getters setters)
  show "cache_sound (snd (SetService bolt_put v c))"
    using assms services.sound_put [of c v] by (simp add: cache_sound_def) (simp add: getters setters)
  show "cache_sound (snd (SetGroup bolt_put g c))"
    using assms group_cache.sound_put [of c g] by (simp add: cache_sound_def) (simp add: getters setters)
  show "cache_sound (snd (SetNamespace bolt_put n c))"
    using assms namespaces.sound_put [of c n] by (simp add: cache_sound_def) (simp add: getters setters)
  show "cache_sound (snd (SetPolicy bolt_put p c))"
    using assms policies.sound_put [of c p] by (simp add: cache_sound_def) (simp add: getters setters)
qed

lemma cache_sound_delete:
  assumes "cache_sound c"
  shows "cache_sound (DeleteUser u c)" "cache_sound (DeleteDevice d c)"
    "cache_sound (DeleteSession s c)" "cache_sound (DeleteService v c)"
    "cache_sound (DeleteGroup g c)" "cache_sound (DeleteNamespace n c)"
    "cache_sound (DeletePolicy p c)"
  using assms
  by (auto simp: cache_sound_def getters deleters dest!: getResource_delete getResource_delete_all)

lemma handle_cache: "oc_cache (handle f g ev st) =
    (case ev of OnAdd x \<Rightarrow> snd (f x (oc_cache st)) | OnUpdate new old \<Rightarrow> snd (f new (oc_cache st))
     | OnDelete x \<Rightarrow> g x (oc_cache st))"
  by (simp add: handle_def split: watch.splits)

lemma trigger_cache: "oc_cache (on_policy_trigger ev st) = oc_cache st"
  by (simp add: on_policy_trigger_def SetPolicyTrigger_def split: watch.splits)

lemma step_cache_sound: "step bolt_put st st' \<Longrightarrow> cache_sound (oc_cache st) \<Longrightarrow> cache_sound (oc_cache st')"
  by (induction rule: step.induct)
    (auto simp: on_user_def on_device_def on_session_def on_service_def on_group_def on_namespace_def
      on_policy_def handle_cache trigger_cache cache_sound_set cache_sound_delete split: watch.splits)

lemma reachable_cache_sound: "reachable bolt_put st \<Longrightarrow> cache_sound (oc_cache st)"
  by (induction rule: reachable.induct)
    (auto simp: NewOctovigil_def cache_sound_new intro: step_cache_sound)

lemma cache_soundD:
  assumes "cache_sound c"
  shows "GetUser c k = Ok u \<Longrightarrow> k \<in> user_keys u" "GetDevice c k = Ok d \<Longrightarrow> k \<in> device_keys d"
    "GetSession c k = Ok s \<Longrightarrow> k \<in> session_keys s" "GetService c k = Ok v \<Longrightarrow> k \<in> service_keys v"
    "GetGroup c k = Ok g \<Longrightarrow> k \<in> named_keys gr_Metadata g"
    "GetNamespace c k = Ok n \<Longrightarrow> k \<in> named_keys na_Metadata n"
    "GetPolicy c k = Ok p \<Longrightarrow> k \<in> named_keys pol_Metadata p"
  using assms unfolding cache_sound_def by auto

text \<open>
  C25: in every reachable state a cached resource is found only under keys of its own: a session
  under its identifier, its name or one of the addresses of its connection, a user, device or
  service under its identifier, a group, namespace or policy under its identifier or its name.
\<close>

theorem cache_entries_under_own_keys:
  assumes "reachable bolt_put st"
  shows "(GetSession (oc_cache st) k = Ok s \<longrightarrow>
            k = md_Uid (se_Metadata s) \<or> k = md_Name (se_Metadata s) \<or> k \<in> set (connection_keys s)) \<and>
    (GetUser (oc_cache st) k = Ok u \<longrightarrow> k = md_Uid (ur_Metadata u)) \<and>
    (GetDevice (oc_cache st) k = Ok d \<longrightarrow> k = md_Uid (dv_Metadata d)) \<and>
    (GetService (oc_cache st) k = Ok v \<longrightarrow> k = md_Uid (svc_Metadata v)) \<and>
    (GetGroup (oc_cache st) k = Ok g \<longrightarrow> k \<in> {md_Uid (gr_Metadata g), md_Name (gr_Metadata g)}) \<and>
    (GetNamespace (oc_cache st) k = Ok n \<longrightarrow> k \<in> {md_Uid (na_Metadata n), md_Name (na_Metadata n)}) \<and>
    (GetPolicy (oc_cache st) k = Ok p \<longrightarrow> k \<in> {md_Uid (pol_Metadata p), md_Name (pol_Metadata p)})"
proof (intro conjI impI)
  note sound = cache_soundD [OF reachable_cache_sound [OF assms]]
  show "k = md_Uid (se_Metadata s) \<or> k = md_Name (se_Metadata s) \<or> k \<in> set (connection_keys s)"
    if "GetSession (oc_cache st) k = Ok s"
    using subsetD [OF own_keys(5) sound(3) [OF that]] by simp
  show "k = md_Uid (ur_Metadata u)"
    if "GetUser (oc_cache st) k = Ok u"
    using subsetD [OF own_keys(1) sound(1) [OF that]] by simp
  show "k = md_Uid (dv_Metadata d)"
    if "GetDevice (oc_cache st) k = Ok d"
    using subsetD [OF own_keys(2) sound(2) [OF that]] by simp
  show "k = md_Uid (svc_Metadata v)"
    if "GetService (oc_cache st) k = Ok v"
    using subsetD [OF own_keys(3) sound(4) [OF that]] by simp
  show "k \<in> {md_Uid (gr_Metadata g), md_Name (gr_Metadata g)}"
    if "GetGroup (oc_cache st) k = Ok g"
    using subsetD [OF own_keys(4) sound(5) [OF that]] by simp
  show "k \<in> {md_Uid (na_Metadata n), md_Name (na_Metadata n)}"
    if "GetNamespace (oc_cache st) k = Ok n"
    using subsetD [OF own_keys(4) sound(6) [OF that]] by simp
  show "k \<in> {md_Uid (pol_Metadata p), md_Name (pol_Metadata p)}"
    if "GetPolicy (oc_cache st) k = Ok p"
    using subsetD [OF own_keys(4) sound(7) [OF that]] by simp
qed

theorem cache_entries_under_own_keys_witness:
  "GetPolicy (oc_cache (on_policy bolt_put (OnAdd example_policy) NewOctovigil)) ''allow-all'' = Ok example_policy \<and>
   ''allow-all'' \<in> {md_Uid (pol_Metadata example_policy), md_Name (pol_Metadata example_policy)}"
proof -
  let ?st = "on_policy bolt_put (OnAdd example_policy) NewOctovigil"
  have "reachable bolt_put ?st"
    by (rule reachable.next_state [OF reachable.init step.policy])
  moreover have "GetPolicy (oc_cache ?st) ''allow-all'' = Ok example_policy"
    using policies.get_put_same [of "''allow-all''" example_policy NewCache]
    by (simp add: on_policy_def handle_cache NewOctovigil_def named_keys_def put_keys_def bolt_put_def
        example_policy_def)
  ultimately show ?thesis
    using cache_entries_under_own_keys [of ?st "''allow-all''"] by blast
qed

text \<open>
  The address of a session that has disconnected keeps identifying it: when an update carries
  the session without its connection, the keys of the old addresses still lead to the
  session as it was before.
\<close>

theorem stale_address_after_disconnect:
  assumes "k \<in> session_keys old" and "k \<notin> session_keys new"
  shows "GetSession (oc_cache (on_session bolt_put (OnUpdate new old) (on_session bolt_put (OnAdd old) st))) k = Ok old"
  by (simp add: on_session_def handle_cache sessions.get_put_other [OF assms(2)] sessions.get_put_same [OF assms(1)])

definition connected_session :: Session where
  "connected_session = example_session\<lparr>se_Status := (se_Status example_session)
     \<lparr>st_Connection := Some \<lparr>co_StartedAt = None, co_LastSeenAt = None, co_Upstreams = [],
        co_Addresses = [\<lparr>nw_V4 = ''100.64.0.10/32'', nw_V6 = []\<rparr>], co_L3Mode = V4,
        co_ServiceOptions = None, co_X25519PublicKey = [], co_Ed25519PublicKey = [], co_Type = WIREGUARD,
        co_PublishedServices = [], co_IgnoreDNS = False, co_ESSHEnable = False, co_ESSHPort = 0\<rparr>\<rparr>\<rparr>"

lemma connected_session_keys: "connection_keys connected_session = [''100.64.0.10'']"
proof -
  have "ParseCIDR ''100.64.0.10/32'' = Some (Addr4 0x6440000A, 32)"
    by (simp add: ParseCIDR_def ParseAddr_def parseIPv4_def digit_val_def of_octets_def)
  moreover have "String4 0x6440000A = ''100.64.0.10''"
    by (simp add: String4_def octets_def octet_digits Let_def)
  ultimately show ?thesis
    by (simp add: connected_session_def connection_keys_def address_keys_def ToIP_def cidr_ip_of_v4)
qed

theorem stale_address_after_disconnect_witness:
  "GetSession (oc_cache (on_session bolt_put (OnUpdate example_session connected_session)
     (on_session bolt_put (OnAdd connected_session) NewOctovigil))) ''100.64.0.10'' = Ok connected_session"
proof (rule stale_address_after_disconnect)
  show "''100.64.0.10'' \<in> session_keys connected_session"
    by (simp add: session_keys_def put_keys_def connected_session_keys bolt_put_def)
  show "''100.64.0.10'' \<notin> session_keys example_session"
    by (simp add: session_keys_def put_keys_def connection_keys_def example_session_def)
qed

text \<open>
  A policy trigger whose deletion is watched stays in the table of triggers, so the decision
  point goes on applying it; the table's own operation for deletions would have removed it.
\<close>

theorem deleted_trigger_stays:
  "map_of (oc_ptMap (on_policy_trigger (OnDelete p) st)) (md_Uid (pt_Metadata p)) = Some p \<and>
   map_of (oc_ptMap (DeletePolicyTrigger p st)) (md_Uid (pt_Metadata p)) = None"
  by (simp add: on_policy_trigger_def SetPolicyTrigger_def DeletePolicyTrigger_def AList.update_conv'
      AList.delete_conv')

end
