(* ===== verification/Serr.thy ===== *)
theory Serr imports Prelude begin

text \<open>
  The constructors and tests of gRPC errors: \<open>cluster/common/grpcutils/grpcutils.go\<close>,
  \<open>cluster/apiserver/apiserver/serr/err.go\<close> and \<open>pkg/grpcerr/grpcerr.go\<close>. A status error is
  represented by its code; its text and the log lines are left out.
\<close>

section \<open>Reading the code of an error\<close>

text \<open>\<open>status.Code\<close>: an error that is no status has the code \<open>Unknown\<close>.\<close>

fun status_code :: "error \<Rightarrow> grpc_code" where
  "status_code (Status c) = c"
| "status_code e = UnknownCode"

definition IsNotFound :: "error \<Rightarrow> bool" where
  "IsNotFound err \<longleftrightarrow> status_code err = NotFoundCode"

definition IsAlreadyExists :: "error \<Rightarrow> bool" where
  "IsAlreadyExists err \<longleftrightarrow> status_code err = AlreadyExistsCode"

definition IsInternal :: "error \<Rightarrow> bool" where
  "IsInternal err \<longleftrightarrow> status_code err = InternalCode"

definition IsInvalidArg :: "error \<Rightarrow> bool" where
  "IsInvalidArg err \<longleftrightarrow> status_code err = InvalidArgument"

definition IsUnauthorized :: "error \<Rightarrow> bool" where
  "IsUnauthorized err \<longleftrightarrow> status_code err = PermissionDeniedCode"

definition IsUnauthenticated :: "error \<Rightarrow> bool" where
  "IsUnauthenticated err \<longleftrightarrow> status_code err = UnauthenticatedCode"

section \<open>Building errors\<close>

definition InvalidArg :: error where
  "InvalidArg = Status InvalidArgument"

definition InvalidArgWithErr :: "error \<Rightarrow> error" where
  "InvalidArgWithErr err = Status InvalidArgument"

definition NotFound :: error where
  "NotFound = Status NotFoundCode"

definition Internal :: error where
  "Internal = Status InternalCode"

definition InternalWithErr :: "error \<Rightarrow> error" where
  "InternalWithErr err = Status InternalCode"

definition K8sInternal :: "error \<Rightarrow> error" where
  "K8sInternal err = Status InternalCode"

definition NotFoundOrInternal :: "error \<Rightarrow> error" where
  "NotFoundOrInternal err = (if IsNotFound err then Status NotFoundCode else K8sInternal err)"

definition K8sNotFoundOrInternal :: "error \<Rightarrow> error" where
  "K8sNotFoundOrInternal err = (if IsNotFound err then Status NotFoundCode else K8sInternal err)"

definition K8sNotFoundOrInternalWithErr :: "error \<Rightarrow> error" where
  "K8sNotFoundOrInternalWithErr err = (if IsNotFound err then err else K8sInternal err)"

definition Unauthorized :: error where
  "Unauthorized = Status PermissionDeniedCode"

definition PermissionDenied :: error where
  "PermissionDenied = Status PermissionDeniedCode"

definition Unauthenticated :: error where
  "Unauthenticated = Status UnauthenticatedCode"

definition AlreadyExists :: error where
  "AlreadyExists = Status AlreadyExistsCode"

text \<open>The three ways of reporting a lookup agree, and only ever say not found or internal.\<close>

lemma lookup_errors_agree:
  "NotFoundOrInternal err = K8sNotFoundOrInternal err"
  "K8sNotFoundOrInternalWithErr err = K8sNotFoundOrInternal err"
  by (cases err; simp add: NotFoundOrInternal_def K8sNotFoundOrInternal_def
      K8sNotFoundOrInternalWithErr_def IsNotFound_def)+

lemma status_code_builders [go_simps]:
  "status_code InvalidArg = InvalidArgument"
  "status_code (InvalidArgWithErr e) = InvalidArgument"
  "status_code (InternalWithErr e) = InternalCode"
  "status_code Unauthorized = PermissionDeniedCode"
  by (simp_all add: InvalidArg_def InvalidArgWithErr_def InternalWithErr_def Unauthorized_def)

end
