(* ===== verification/Apivalidation.thy ===== *)
theory Apivalidation imports Umetav1 Serr "HOL-Library.List_Lexorder" "HOL-Library.Char_ord" begin

text \<open>
  \<open>cluster/common/apivalidation/apivalidation.go\<close> with the patterns of \<open>pkg/common/rgx/rgx.go\<close>:
  the checks that the API servers run on names, metadata, references, attributes, durations and
  environment variables before anything is stored. The third-party package \<open>govalidator\<close>, the
  Unicode tables, the user agent parser and the mail exchanger lookup are fields of a record that
  the checks receive.
\<close>

section \<open>Parameters\<close>

record user_agent =
  ua_Name :: string
  ua_Desktop :: bool
  ua_Mobile :: bool
  ua_Known :: bool

record validators =
  IsUUIDv4 :: "string \<Rightarrow> bool"
  IsASCII :: "string \<Rightarrow> bool"
  IsEmail :: "string \<Rightarrow> bool"
  IsDNSName :: "string \<Rightarrow> bool"
  IsHost :: "string \<Rightarrow> bool"
  IsPort :: "string \<Rightarrow> bool"
  IsIP :: "string \<Rightarrow> bool"
  IsURL :: "string \<Rightarrow> bool"
  IsRequestURI :: "string \<Rightarrow> bool"
  IsUnixFilePath :: "string \<Rightarrow> bool"
  LookupMX :: "string \<Rightarrow> bool"
  ParseUA :: "string \<Rightarrow> user_agent"
  runes :: "string \<Rightarrow> nat list"
  IsLower :: "nat \<Rightarrow> bool"
  IsLetter :: "nat \<Rightarrow> bool"
  IsDigit :: "nat \<Rightarrow> bool"
  MarshalLen :: "json \<Rightarrow> nat go"
  ConvertToMap :: "json \<Rightarrow> (string \<times> json) list go"

section \<open>Patterns\<close>

definition lower :: "char \<Rightarrow> bool" where
  "lower c \<longleftrightarrow> 97 \<le> (of_char c :: nat) \<and> (of_char c :: nat) \<le> 122"

definition decimal :: "char \<Rightarrow> bool" where
  "decimal c \<longleftrightarrow> 48 \<le> (of_char c :: nat) \<and> (of_char c :: nat) \<le> 57"

definition lower_alnum :: "char \<Rightarrow> bool" where
  "lower_alnum c \<longleftrightarrow> lower c \<or> decimal c"

definition name_char :: "char \<Rightarrow> bool" where
  "name_char c \<longleftrightarrow> lower_alnum c \<or> c = CHR ''-''"

text \<open>\<open>^(?P<name>[a-z][a-z0-9-]{0,38}[a-z0-9])$\<close>\<close>

definition NameMain :: "string \<Rightarrow> bool" where
  "NameMain s \<longleftrightarrow>
     2 \<le> length s \<and> length s \<le> 40 \<and> lower (hd s) \<and> list_all name_char (butlast (tl s)) \<and>
     lower_alnum (last s)"

text \<open>\<open>^(?P<name>[a-z0-9][a-z0-9-]{0,31})$\<close>\<close>

definition LabelVal :: "string \<Rightarrow> bool" where
  "LabelVal s \<longleftrightarrow> s \<noteq> [] \<and> length s \<le> 32 \<and> lower_alnum (hd s) \<and> list_all name_char (tl s)"

text \<open>\<open>^[^-]+(?:-[^-]+)*$\<close>: hyphens separate non-empty pieces.\<close>

definition rgxDoubleHyphen :: "string \<Rightarrow> bool" where
  "rgxDoubleHyphen s \<longleftrightarrow> list_all (\<lambda>p. p \<noteq> []) (Split s CHR ''-'')"

section \<open>Names\<close>

definition check_names :: "string list \<Rightarrow> unit go" where
  "check_names = go_each (\<lambda>a. reject_if (\<not> NameMain a) (Errorf ''Invalid name''))"

definition validateName :: "string \<Rightarrow> nat \<Rightarrow> nat \<Rightarrow> unit go" where
  "validateName arg parentsMust parentsMax =
     go_bind
       (if parentsMust \<noteq> 0 then
          (let args = Split arg CHR ''.'' in
           if length args \<noteq> parentsMust + 1 then Fail (Errorf ''Invalid name'')
           else check_names args)
        else if parentsMax \<noteq> 0 then
          (let args = Split arg CHR ''.'' in
           if parentsMax + 1 < length args then Fail (Errorf ''Invalid name'')
           else check_names args)
        else reject_if (\<not> NameMain arg) (Errorf ''Invalid name''))
       (\<lambda>_. go_bind (reject_if (\<not> rgxDoubleHyphen arg) (Errorf ''Invalid name''))
       (\<lambda>_. reject_if (128 < length arg) (Errorf ''Too long name'')))"

definition ValidateName :: "string \<Rightarrow> nat \<Rightarrow> nat \<Rightarrow> unit go" where
  "ValidateName arg parentsMust parentsMax = validateName arg parentsMust parentsMax"

text \<open>
  \<open>strings.SplitAfterN(arg, ".", i)[i-1]\<close> for \<open>i\<close> from 1 to the number of labels; the index is out
  of range when there are fewer pieces.
\<close>

definition GetNameAndParents :: "string \<Rightarrow> string list go" where
  "GetNameAndParents arg =
     go_bind (validateName arg 0 6)
       (\<lambda>_. let subNames = Split arg CHR ''.'' in
         go_mapM (\<lambda>i. nth_go (SplitAfterN arg CHR ''.'' i) (i - 1)) [1..<length subNames + 1])"

section \<open>Metadata\<close>

record ValidateMetadataOpts =
  vm_RequireName :: bool
  vm_RequireUID :: bool
  vm_ParentsMust :: nat
  vm_ParentsMax :: nat

definition no_metadata_opts :: ValidateMetadataOpts where
  "no_metadata_opts =
     \<lparr>vm_RequireName = False, vm_RequireUID = False, vm_ParentsMust = 0, vm_ParentsMax = 0\<rparr>"

definition check_label :: "string \<times> string \<Rightarrow> unit go" where
  "check_label kv =
     go_bind (reject_if (\<not> NameMain (fst kv)) (Errorf ''Invalid label key''))
       (\<lambda>_. reject_if (\<not> LabelVal (snd kv)) (Errorf ''Invalid label value''))"

definition check_annotation :: "string \<times> string \<Rightarrow> unit go" where
  "check_annotation kv =
     go_bind (reject_if (\<not> NameMain (fst kv)) (Errorf ''Invalid annotation key''))
       (\<lambda>_. reject_if (63 < length (snd kv)) (Errorf ''annotation value is too long''))"

definition check_tags :: "string list \<Rightarrow> unit go" where
  "check_tags tags =
     go_bind (reject_if (64 < length tags) (Errorf ''Too many tags''))
       (\<lambda>_. if 0 < length tags then
          go_bind (go_each (\<lambda>t. reject_if (\<not> NameMain t) (Errorf ''Invalid tag'')) tags)
            (\<lambda>_. reject_if (length (remdups_adj (sort tags)) \<noteq> length tags)
                   (Errorf ''Duplicate tags''))
        else Ok ())"

definition doValidateMetadata ::
  "validators \<Rightarrow> Metadata option \<Rightarrow> ValidateMetadataOpts option \<Rightarrow> unit go" where
  "doValidateMetadata V mo oo =
     (let opts = (case oo of None \<Rightarrow> no_metadata_opts | Some x \<Rightarrow> x) in
      case mo of
        None \<Rightarrow> Fail (Errorf ''You must provide Metadata for the Resource'')
      | Some m \<Rightarrow>
          go_bind (reject_if (vm_RequireName opts \<and> md_Name m = [])
                    (Errorf ''You must provide a name for the Resource'')) (\<lambda>_.
          go_bind (if md_Name m \<noteq> []
                   then validateName (md_Name m) (vm_ParentsMust opts) (vm_ParentsMax opts)
                   else Ok ()) (\<lambda>_.
          go_bind (reject_if (vm_RequireUID opts \<and> md_Uid m = []) (Errorf ''UID is required'')) (\<lambda>_.
          go_bind (reject_if (md_Uid m \<noteq> [] \<and> \<not> IsUUIDv4 V (md_Uid m)) (Errorf ''Invalid UID'')) (\<lambda>_.
          go_bind (reject_if (100 < length (md_DisplayName m)) (Errorf ''Display name is too long'')) (\<lambda>_.
          go_bind (reject_if (1024 < length (md_Description m)) (Errorf ''Description is too long'')) (\<lambda>_.
          go_bind (reject_if (64 < length (md_Labels m)) (Errorf ''Labels map is too large'')) (\<lambda>_.
          go_bind (go_each check_label (md_Labels m)) (\<lambda>_.
          go_bind (reject_if (64 < length (md_Annotations m))
                    (Errorf ''Annotations map is too large'')) (\<lambda>_.
          go_bind (go_each check_annotation (md_Annotations m)) (\<lambda>_.
          check_tags (md_Tags m))))))))))))"

definition with_invalid_arg :: "'a go \<Rightarrow> 'a go" where
  "with_invalid_arg m = (case m of Fail e \<Rightarrow> Fail (InvalidArgWithErr e) | r \<Rightarrow> r)"

definition ValidateMetadata ::
  "validators \<Rightarrow> Metadata option \<Rightarrow> ValidateMetadataOpts option \<Rightarrow> unit go" where
  "ValidateMetadata V m opts = with_invalid_arg (doValidateMetadata V m opts)"

section \<open>Whole resources\<close>

record ValidateCommonOpts =
  vc_Metadata :: ValidateMetadataOpts
  vc_RequireStatus :: bool
  vc_RequireData :: bool

text \<open>
  A resource is its metadata pointer and the outcome of converting it to a map; \<open>require_map\<close> is the
  pair of tests the code repeats for \<open>spec\<close>, \<open>status\<close> and \<open>data\<close>.
\<close>

type_synonym resource = "Metadata option \<times> (string \<times> json) list go"

definition require_map :: "(string \<times> json) list \<Rightarrow> string \<Rightarrow> unit go" where
  "require_map m k =
     (case map_of m k of
        None \<Rightarrow> Fail InvalidArg
      | Some (JMap kvs) \<Rightarrow> Ok ()
      | Some v \<Rightarrow> Fail InvalidArg)"

definition ValidateCommon ::
  "validators \<Rightarrow> resource option \<Rightarrow> ValidateCommonOpts option \<Rightarrow> unit go" where
  "ValidateCommon V obj oo =
     (let om = (case oo of
                  None \<Rightarrow> \<lparr>vc_Metadata = no_metadata_opts, vc_RequireStatus = False, vc_RequireData = False\<rparr>
                | Some x \<Rightarrow> x) in
      case obj of
        None \<Rightarrow> Fail InvalidArg
      | Some (None, objMap) \<Rightarrow> Fail InvalidArg
      | Some (Some md, objMap) \<Rightarrow>
          go_bind (ValidateMetadata V (Some md) (Some (vc_Metadata om))) (\<lambda>_.
          go_bind (with_invalid_arg objMap) (\<lambda>m.
          go_bind (require_map m ''spec'') (\<lambda>_.
          go_bind (if vc_RequireStatus om then require_map m ''status'' else Ok ()) (\<lambda>_.
          if vc_RequireData om then require_map m ''data'' else Ok ())))))"

definition CheckIsSystem :: "Metadata option \<Rightarrow> unit go" where
  "CheckIsSystem mo =
     (case mo of None \<Rightarrow> Fail InvalidArg | Some m \<Rightarrow> reject_if (md_IsSystem m) Unauthorized)"

definition CheckIsSystemHidden :: "Metadata option \<Rightarrow> unit go" where
  "CheckIsSystemHidden mo =
     (case mo of None \<Rightarrow> Fail InvalidArg | Some m \<Rightarrow> reject_if (md_IsSystemHidden m) Unauthorized)"

definition CheckIsUserHidden :: "Metadata option \<Rightarrow> unit go" where
  "CheckIsUserHidden mo =
     (case mo of
        None \<Rightarrow> Fail InvalidArg
      | Some m \<Rightarrow> reject_if (md_IsUserHidden m \<or> md_IsSystemHidden m) Unauthorized)"

section \<open>References and options\<close>

definition DoCheckUID :: "validators \<Rightarrow> string \<Rightarrow> unit go" where
  "DoCheckUID V arg = reject_if (\<not> IsUUIDv4 V arg) InvalidArg"

definition CheckUID :: "validators \<Rightarrow> string option \<Rightarrow> unit go" where
  "CheckUID V arg =
     (case arg of None \<Rightarrow> Fail InvalidArg | Some uid \<Rightarrow> reject_if (\<not> IsUUIDv4 V uid) InvalidArg)"

record CheckGetOptionsOpts =
  cg_HasName :: bool
  cg_HasUID :: bool
  cg_ParentsMax :: nat
  cg_ParentsMust :: nat

definition CheckGetOptions ::
  "validators \<Rightarrow> GetOptions option \<Rightarrow> CheckGetOptionsOpts option \<Rightarrow> unit go" where
  "CheckGetOptions V ro oo =
     (case ro of
        None \<Rightarrow> Fail InvalidArg
      | Some req \<Rightarrow>
          go_bind (reject_if (go_Name req = [] \<and> go_Uid req = []) InvalidArg) (\<lambda>_.
          let opts = (case oo of
                        None \<Rightarrow> \<lparr>cg_HasName = False, cg_HasUID = False, cg_ParentsMax = 0, cg_ParentsMust = 0\<rparr>
                      | Some x \<Rightarrow> x) in
          go_bind (reject_if (cg_HasName opts \<and> go_Name req = []) InvalidArg) (\<lambda>_.
          go_bind (reject_if (cg_HasUID opts \<and> go_Uid req = []) InvalidArg) (\<lambda>_.
          go_bind (if go_Name req \<noteq> []
                   then with_invalid_arg
                          (validateName (go_Name req) (cg_ParentsMust opts) (cg_ParentsMax opts))
                   else Ok ()) (\<lambda>_.
          reject_if (go_Uid req \<noteq> [] \<and> \<not> IsUUIDv4 V (go_Uid req)) InvalidArg)))))"

definition CheckDeleteOptions ::
  "validators \<Rightarrow> DeleteOptions option \<Rightarrow> CheckGetOptionsOpts option \<Rightarrow> unit go" where
  "CheckDeleteOptions V ro opts =
     (case ro of
        None \<Rightarrow> Fail InvalidArg
      | Some req \<Rightarrow> CheckGetOptions V (Some \<lparr>go_Uid = do_Uid req, go_Name = do_Name req\<rparr>) opts)"

definition CheckObjectRef ::
  "validators \<Rightarrow> ObjectReference option \<Rightarrow> CheckGetOptionsOpts option \<Rightarrow> unit go" where
  "CheckObjectRef V ro opts =
     (case ro of
        None \<Rightarrow> Fail InvalidArg
      | Some req \<Rightarrow> CheckGetOptions V (Some \<lparr>go_Uid = or_Uid req, go_Name = or_Name req\<rparr>) opts)"

definition ObjectReferenceToGetOptions :: "ObjectReference option \<Rightarrow> GetOptions" where
  "ObjectReferenceToGetOptions arg =
     (case arg of
        None \<Rightarrow> \<lparr>go_Uid = [], go_Name = []\<rparr>
      | Some r \<Rightarrow> \<lparr>go_Uid = or_Uid r, go_Name = or_Name r\<rparr>)"

definition ObjectReferenceToDeleteOptions :: "ObjectReference option \<Rightarrow> DeleteOptions" where
  "ObjectReferenceToDeleteOptions arg =
     (case arg of
        None \<Rightarrow> \<lparr>do_Uid = [], do_Name = []\<rparr>
      | Some r \<Rightarrow> \<lparr>do_Uid = or_Uid r, do_Name = or_Name r\<rparr>)"

section \<open>Attributes\<close>

definition isCamelCase :: "validators \<Rightarrow> string \<Rightarrow> bool" where
  "isCamelCase V s =
     (if s = [] then False
      else (case runes V s of
              [] \<Rightarrow> False
            | r # rs \<Rightarrow> IsLower V r \<and> list_all (\<lambda>x. IsLetter V x \<or> IsDigit V x) rs))"

fun isMapCamelCase :: "validators \<Rightarrow> (string \<times> json) list \<Rightarrow> bool" where
  "isMapCamelCase V [] = True"
| "isMapCamelCase V ((key, value) # rest) =
     (if 100 < length key then False
      else if \<not> isCamelCase V key then False
      else (case value of JMap nested \<Rightarrow> isMapCamelCase V nested | v \<Rightarrow> True) \<and>
           isMapCamelCase V rest)"

definition ValidateAttrs :: "validators \<Rightarrow> json option \<Rightarrow> unit go" where
  "ValidateAttrs V ao =
     (case ao of
        None \<Rightarrow> Ok ()
      | Some attrs \<Rightarrow>
          go_bind (with_invalid_arg (MarshalLen V attrs)) (\<lambda>n.
          go_bind (reject_if (20000 < n) InvalidArg) (\<lambda>_.
          go_bind (with_invalid_arg (ConvertToMap V attrs)) (\<lambda>m.
          reject_if (\<not> isMapCamelCase V m) InvalidArg))))"

section \<open>Small values\<close>

definition ValidateGenASCII :: "validators \<Rightarrow> string \<Rightarrow> unit go" where
  "ValidateGenASCII V arg =
     go_bind (reject_if (arg = []) InvalidArg) (\<lambda>_.
     go_bind (reject_if (\<not> IsASCII V arg) InvalidArg) (\<lambda>_.
     reject_if (150 < length arg) InvalidArg))"

definition ValidateHTTPStatusCode :: "int \<Rightarrow> unit go" where
  "ValidateHTTPStatusCode arg = reject_if (arg < 200 \<or> 599 < arg) InvalidArg"

definition ValidateDuration :: "Duration option \<Rightarrow> unit go" where
  "ValidateDuration d =
     (if d = None then Ok ()
      else go_bind (reject_if (ToSeconds d < 1) InvalidArg)
             (\<lambda>_. reject_if (60 * 60 * 24 * 30 * 12 * 100 < ToSeconds d) InvalidArg))"

definition ValidateEnvVarKey :: "string \<Rightarrow> unit go" where
  "ValidateEnvVarKey key =
     go_bind (reject_if (key = []) InvalidArg) (\<lambda>_. reject_if (1024 < length key) InvalidArg)"

definition ValidateEnvVarValue :: "string \<Rightarrow> unit go" where
  "ValidateEnvVarValue val = reject_if (8129 < length val) InvalidArg"

definition ValidateEnvVar :: "string \<Rightarrow> string \<Rightarrow> unit go" where
  "ValidateEnvVar key val = go_bind (ValidateEnvVarKey key) (\<lambda>_. ValidateEnvVarValue val)"

definition itoa :: "int \<Rightarrow> string" where
  "itoa d = (if d < 0 then CHR ''-'' # dec (nat (- d)) else dec (nat d))"

definition ValidatePort :: "validators \<Rightarrow> int \<Rightarrow> unit go" where
  "ValidatePort V d = reject_if (\<not> IsPort V (itoa d)) InvalidArg"

definition ValidateBrowserUserAgent :: "validators \<Rightarrow> string \<Rightarrow> unit go" where
  "ValidateBrowserUserAgent V arg =
     go_bind (reject_if (\<not> (3 \<le> length arg \<and> length arg \<le> 300)) InvalidArg) (\<lambda>_.
     let u = ParseUA V arg in
     go_bind (reject_if (ua_Name u = []) InvalidArg) (\<lambda>_.
     reject_if (\<not> (ua_Desktop u \<or> ua_Mobile u \<or> ua_Known u)) InvalidArg))"

section \<open>Hosts and mail addresses\<close>

fun LastIndex :: "string \<Rightarrow> char \<Rightarrow> nat option" where
  "LastIndex [] c = None"
| "LastIndex (x # xs) c =
     (case LastIndex xs c of
        Some i \<Rightarrow> Some (Suc i)
      | None \<Rightarrow> if x = c then Some 0 else None)"

fun IndexByte :: "string \<Rightarrow> char \<Rightarrow> nat option" where
  "IndexByte [] c = None"
| "IndexByte (x # xs) c = (if x = c then Some 0 else map_option Suc (IndexByte xs c))"

text \<open>\<open>net.SplitHostPort\<close>\<close>

definition SplitHostPort :: "string \<Rightarrow> (string \<times> string) option" where
  "SplitHostPort hp =
     (case LastIndex hp CHR '':'' of
        None \<Rightarrow> None
      | Some i \<Rightarrow>
          if hd hp = CHR ''['' then
            (case IndexByte hp CHR '']'' of
               None \<Rightarrow> None
             | Some e \<Rightarrow>
                 if e + 1 \<noteq> i then None
                 else if CHR ''['' \<in> set (drop 1 hp) \<or> CHR '']'' \<in> set (drop (e + 1) hp) then None
                 else Some (drop 1 (take e hp), drop (i + 1) hp))
          else if CHR '':'' \<in> set (take i hp) then None
          else if CHR ''['' \<in> set hp \<or> CHR '']'' \<in> set hp then None
          else Some (take i hp, drop (i + 1) hp))"

definition ValidateHostPort :: "validators \<Rightarrow> string \<Rightarrow> unit go" where
  "ValidateHostPort V hostPort =
     (case SplitHostPort hostPort of
        None \<Rightarrow> Fail InvalidArg
      | Some (host, port) \<Rightarrow>
          go_bind (reject_if (\<not> IsHost V host) InvalidArg) (\<lambda>_.
          go_bind (reject_if (port = []) InvalidArg) (\<lambda>_.
          reject_if (\<not> IsPort V port) InvalidArg)))"

definition ToLower :: "string \<Rightarrow> string" where
  "ToLower = map (\<lambda>c. if 65 \<le> (of_char c :: nat) \<and> (of_char c :: nat) \<le> 90
                      then char_of (of_char c + 32 :: nat) else c)"

text \<open>An address that the first tests let through is ASCII, so lower case is that of ASCII.\<close>

definition CheckEmail :: "validators \<Rightarrow> string \<Rightarrow> unit go" where
  "CheckEmail V arg =
     go_bind (reject_if (arg = []) (Errorf ''Empty email'')) (\<lambda>_.
     go_bind (reject_if (\<not> IsEmail V arg \<or> \<not> IsASCII V arg \<or> 128 \<le> length arg)
               (Errorf ''Invalid email'')) (\<lambda>_.
     case LastIndex arg CHR ''@'' of
       None \<Rightarrow> Fail (Errorf ''Invalid email'')
     | Some at \<Rightarrow>
         if at = 0 \<or> int (length arg) - 3 < int at then Fail (Errorf ''Invalid email'')
         else
           (let usr = take at arg; host = ToLower (drop (at + 1) arg) in
            if 64 < length usr \<or> host = ''localhost'' \<or> host = ''example.com'' \<or>
               \<not> IsDNSName V host \<or> \<not> LookupMX V host
            then Fail (Errorf ''Invalid email'') else Ok ())))"

section \<open>Names: what the checks accept\<close>

text \<open>The name itself and its suffixes at the dots, longest first.\<close>

definition parents :: "string \<Rightarrow> string list" where
  "parents arg = map (\<lambda>i. Join (drop i (Split arg CHR ''.'')) CHR ''.'') [0..<length (Split arg CHR ''.'')]"

lemma GetNameAndParents_eq:
  "GetNameAndParents arg = go_bind (validateName arg 0 6) (\<lambda>_. Ok (parents arg))"
proof -
  let ?L = "Split arg CHR ''.''"
  have "go_mapM (\<lambda>i. nth_go (SplitAfterN arg CHR ''.'' i) (i - 1)) [1..<length ?L + 1]
        = Ok (map (\<lambda>i. Join (drop (i - 1) ?L) CHR ''.'') [1..<length ?L + 1])"
    by (rule go_mapM_Ok) (use SplitAfterN_nth [of _ arg "CHR ''.''"] in \<open>auto simp: nth_go_def\<close>)
  also have "map (\<lambda>i. Join (drop (i - 1) ?L) CHR ''.'') [1..<length ?L + 1] = parents arg"
    unfolding parents_def by (rule nth_equalityI) (simp_all del: upt_Suc)
  finally show ?thesis
    by (simp add: GetNameAndParents_def Let_def)
qed

lemma validateName_not_panic: "validateName arg m n \<noteq> Panic"
proof -
  have "check_names xs \<noteq> Panic" for xs
    by (induction xs) (auto simp: check_names_def reject_if_def)
  then show ?thesis
    by (cases "check_names (Split arg CHR ''.'')") (auto simp: validateName_def reject_if_def Let_def)
qed

lemma validateName_parents_iff:
  "validateName arg 0 (Suc n) = Ok u \<longleftrightarrow>
     length (Split arg CHR ''.'') \<le> n + 2 \<and> list_all NameMain (Split arg CHR ''.'') \<and>
     rgxDoubleHyphen arg \<and> length arg \<le> 128"
  by (auto simp: validateName_def check_names_def Let_def list_all_iff reject_if_def not_less)

lemma rgxDoubleHyphen_suffix:
  assumes "rgxDoubleHyphen (q @ t)" and "t \<noteq> []" and "hd t \<noteq> CHR ''-''"
  shows "rgxDoubleHyphen t"
proof -
  obtain h r where t: "Split t CHR ''-'' = h # r" by (cases "Split t CHR ''-''") auto
  obtain ps x where "Split (q @ t) CHR ''-'' = ps @ (x @ h) # r"
    using Split_append [of q t "CHR ''-''"] t by auto
  with assms(1) have "list_all (\<lambda>p. p \<noteq> []) r"
    by (simp add: rgxDoubleHyphen_def)
  with t hd_Split [OF assms(2,3)] show ?thesis
    by (simp add: rgxDoubleHyphen_def)
qed

lemma NameMain_hd: "NameMain p \<Longrightarrow> p \<noteq> [] \<and> hd p \<noteq> CHR ''-''"
  by (auto simp: NameMain_def lower_def)

lemma validateName_parent:
  assumes ok: "validateName arg 0 (Suc n) = Ok ()" and p: "p \<in> set (parents arg)"
  shows "validateName p 0 (Suc n) = Ok ()"
proof -
  let ?L = "Split arg CHR ''.''"
  obtain i where i: "i < length ?L" "p = Join (drop i ?L) CHR ''.''"
    using p by (auto simp: parents_def)
  have L: "length ?L \<le> n + 2" "list_all NameMain ?L" "rgxDoubleHyphen arg" "length arg \<le> 128"
    using ok by (auto simp: validateName_parents_iff)
  have sp: "Split p CHR ''.'' = drop i ?L"
    using i by (simp add: Split_drop_Join)
  obtain q where q: "arg = q @ p"
    using suffix_Join_drop [of i ?L "CHR ''.''"] i by auto
  have "hd (drop i ?L) \<in> set ?L"
    using i(1) by (simp add: hd_drop_conv_nth)
  with L(2) have "NameMain (hd (drop i ?L))" by (simp add: list_all_iff)
  then have "p \<noteq> []" "hd p \<noteq> CHR ''-''"
    using NameMain_hd hd_Join [of "drop i ?L" "CHR ''.''"] i by auto
  with L(3) q have "rgxDoubleHyphen p"
    by (auto intro: rgxDoubleHyphen_suffix)
  then show ?thesis
    using L sp q by (auto simp: validateName_parents_iff list_all_iff dest: in_set_dropD)
qed

text \<open>
  C26: \<open>GetNameAndParents\<close> never panics on its slice index; on every name that passes the
  check it returns the name followed by its parents (the suffixes at the dots, longest first), and
  each of them passes the same check, so that looking up an ancestor policy never fails on
  its name.
\<close>

theorem GetNameAndParents_suffixes:
  "GetNameAndParents arg = go_bind (validateName arg 0 6) (\<lambda>_. Ok (parents arg)) \<and>
   (GetNameAndParents arg = Ok ps \<longrightarrow> list_all (\<lambda>p. GetNameAndParents p = Ok (parents p)) ps)"
  using validateName_parent [of arg 5]
  by (auto simp: GetNameAndParents_eq list_all_iff numeral_eq_Suc)

theorem GetNameAndParents_suffixes_witness:
  "list_all (\<lambda>p. GetNameAndParents p = Ok (parents p)) [''web.dev'', ''dev'']"
proof -
  have "GetNameAndParents ''web.dev'' = Ok [''web.dev'', ''dev'']"
    by (simp add: GetNameAndParents_eq validateName_def check_names_def NameMain_def lower_def
        lower_alnum_def name_char_def decimal_def rgxDoubleHyphen_def reject_if_def parents_def)
  with GetNameAndParents_suffixes [of "''web.dev''" "[''web.dev'', ''dev'']"] show ?thesis
    by blast
qed

section \<open>Metadata and durations: what the checks accept\<close>

lemma length_compact_sort: "length (remdups_adj (sort xs)) = length xs \<longleftrightarrow> distinct (xs :: string list)"
  by (metis distinct_adj_conv_length_remdups_adj distinct_adj_sorted distinct_sort length_sort sorted_sort)

text \<open>
  Sorting, compacting and comparing the lengths rejects exactly the tag lists with a
  repetition: at most 64 tags are accepted, each of them a name, no two of them equal.
\<close>

theorem check_tags_iff_distinct:
  "check_tags tags = Ok () \<longleftrightarrow> length tags \<le> 64 \<and> list_all NameMain tags \<and> distinct tags"
  unfolding check_tags_def length_compact_sort
  by (auto simp: reject_if_def list_all_iff split: if_splits)

text \<open>
  For a duration whose number of nanoseconds fits in 63 bits, the check accepts exactly the
  durations from one second up to (and with) 3110400000 seconds, in whole seconds.
\<close>

theorem ValidateDuration_bounds:
  assumes "nominal_ns d < 2 ^ 63"
  shows "ValidateDuration (Some d) = Ok () \<longleftrightarrow>
    1000000000 \<le> nominal_ns d \<and> nominal_ns d < 3110400001 * 1000000000"
  by (simp add: ValidateDuration_def ToSeconds_exact [OF assms]) linarith

theorem ValidateDuration_bounds_witness:
  "ValidateDuration (Some (Months 1200)) = Ok () \<and> ValidateDuration (Some (Months 1201)) \<noteq> Ok ()"
  using ValidateDuration_bounds [of "Months 1200"] ValidateDuration_bounds [of "Months 1201"] by simp

text \<open>
  Beyond 63 bits the bound is not one: 7117 months, which is almost six times the limit of
  1200 months, wrap around to six days and are accepted.
\<close>

theorem ValidateDuration_overflow:
  "ValidateDuration (Some (Months 7117)) = Ok () \<and> ToSeconds (Some (Months 7117)) = 519926 \<and>
   3110400000 * 1000000000 < nominal_ns (Months 7117)"
  by (simp add: ValidateDuration_def ToSeconds_def)

end
