(* ===== verification/PolicyRules.thy ===== *)
theory PolicyRules imports PolicyDecision Controllers Apivalidation begin

text \<open>
  The collecting part of \<open>cluster/octovigil/octovigil/policy.go\<close> and
  \<open>cluster/octovigil/octovigil/policytrigger.go\<close>: which rules a request meets. The state that
  the loops thread is the list of policies used so far and the cache, which grows by the
  policies and namespaces that are loaded from the resource server.
\<close>

section \<open>Loading by name\<close>

definition getPolicyFromName :: "octo_env \<Rightarrow> string \<Rightarrow> Cache \<Rightarrow> Policy go \<times> Cache" where
  "getPolicyFromName E name c =
     (case GetPolicy c name of
        Ok p \<Rightarrow> (Ok p, c)
      | Panic \<Rightarrow> (Panic, c)
      | Fail e \<Rightarrow>
          if \<not> IsErrNotFound e then (Fail e, c)
          else (case oe_GetPolicy E name of
                  Ok p \<Rightarrow> (Ok p, snd (SetPolicy (oe_put E) p c))
                | r \<Rightarrow> (r, c)))"

definition getNamespaceFromName :: "octo_env \<Rightarrow> string \<Rightarrow> Cache \<Rightarrow> Namespace go \<times> Cache" where
  "getNamespaceFromName E name c =
     (case GetNamespace c name of
        Ok n \<Rightarrow> (Ok n, c)
      | Panic \<Rightarrow> (Panic, c)
      | Fail e \<Rightarrow>
          if \<not> IsErrNotFound e then (Fail e, c)
          else (case oe_GetNamespace E name of
                  Ok n \<Rightarrow> (Ok n, snd (SetNamespace (oe_put E) n c))
                | r \<Rightarrow> (r, c)))"

section \<open>The rules of one owner\<close>

type_synonym collect_state = "string list \<times> Cache"

text \<open>Appending what a second step collects to what a first one did; errors and panics stop.\<close>

definition and_then ::
  "policyRule list go \<times> 's \<Rightarrow> ('s \<Rightarrow> policyRule list go \<times> 's) \<Rightarrow> policyRule list go \<times> 's" where
  "and_then r f =
     (case r of
        (Ok rs, st) \<Rightarrow> (case f st of (r', st') \<Rightarrow> (go_map (\<lambda>rs'. rs @ rs') r', st'))
      | (r', st) \<Rightarrow> (r', st))"

lemma and_then_cong [fundef_cong]:
  "r = r' \<Longrightarrow> (\<And>rs st. r' = (Ok rs, st) \<Longrightarrow> f st = g st) \<Longrightarrow> and_then r f = and_then r' g"
  by (cases r') (auto simp: and_then_def split: go.splits)

definition policy_ref :: "Policy \<Rightarrow> ObjectReference option" where
  "policy_ref p = GetObjectReference (pol_ApiVersion p) (pol_Kind p) (Some (pol_Metadata p))"

definition rules_of_policy :: "Policy \<Rightarrow> input \<Rightarrow> policyRule list" where
  "rules_of_policy p attrs =
     map (\<lambda>rule. \<lparr>pr_rule = rule, pr_policyRef = policy_ref p, pr_inline = None, pr_attrs = attrs\<rparr>)
       (ps_Rules (pol_Spec p))"

text \<open>The body of the inner loop: one policy name, an ancestor of a name or that name itself.\<close>

definition collect_policy :: "octo_env \<Rightarrow> input \<Rightarrow> string \<Rightarrow> collect_state \<Rightarrow> policyRule list go \<times> collect_state"
where
  "collect_policy E m p st =
     (case st of (used, c) \<Rightarrow>
      case getPolicyFromName E p c of
        (Panic, c') \<Rightarrow> (Panic, (used, c'))
      | (Fail e, c') \<Rightarrow> (Ok [], (used, c'))
      | (Ok policy, c') \<Rightarrow>
          if ps_IsDisabled (pol_Spec policy) then (Ok [], (used, c'))
          else (case oe_attrsMap E (ps_Attrs (pol_Spec policy)) of
                  Panic \<Rightarrow> (Panic, (used, c'))
                | Fail e \<Rightarrow> (Ok [], (used, c'))
                | Ok attrs \<Rightarrow>
                    (case shouldEnforcePolicy E (pol_Spec policy) m attrs of
                       Ok enforce \<Rightarrow>
                         if \<not> enforce then (Ok [], (used, c'))
                         else if isInList used (md_Name (pol_Metadata policy)) then (Ok [], (used, c'))
                         else (Ok (rules_of_policy policy attrs),
                               (used @ [md_Name (pol_Metadata policy)], c'))
                     | Fail e \<Rightarrow> (Ok [], (used, c'))
                     | Panic \<Rightarrow> (Panic, (used, c')))))"

fun collect_names ::
  "octo_env \<Rightarrow> input \<Rightarrow> string list \<Rightarrow> collect_state \<Rightarrow> policyRule list go \<times> collect_state" where
  "collect_names E m [] st = (Ok [], st)"
| "collect_names E m (p # ps) st = and_then (collect_policy E m p st) (collect_names E m ps)"

fun collect_policies ::
  "octo_env \<Rightarrow> input \<Rightarrow> string list \<Rightarrow> collect_state \<Rightarrow> policyRule list go \<times> collect_state" where
  "collect_policies E m [] st = (Ok [], st)"
| "collect_policies E m (name # names) st =
     (case GetNameAndParents name of
        Ok allPolicies \<Rightarrow> and_then (collect_names E m allPolicies st) (collect_policies E m names)
      | Fail e \<Rightarrow> (Fail e, st)
      | Panic \<Rightarrow> (Panic, st))"

definition inline_policy_rules ::
  "octo_env \<Rightarrow> input \<Rightarrow> InlinePolicy \<times> ObjectReference option \<Rightarrow> policyRule list go" where
  "inline_policy_rules E m pr =
     (case pr of (p, resourceRef) \<Rightarrow>
      go_bind (deref (ip_Spec p)) (\<lambda>spec.
        if ps_IsDisabled spec then Ok []
        else (case oe_attrsMap E (ps_Attrs spec) of
                Panic \<Rightarrow> Panic
              | Fail e \<Rightarrow> Ok []
              | Ok attrs \<Rightarrow>
                  go_bind (shouldEnforcePolicy E spec m attrs) (\<lambda>enforce.
                    if \<not> enforce then Ok []
                    else Ok (map (\<lambda>rule. \<lparr>pr_rule = rule, pr_policyRef = None,
                                   pr_inline = Some \<lparr>in_name = ip_Name p, in_resourceRef = resourceRef\<rparr>,
                                   pr_attrs = attrs\<rparr>) (ps_Rules spec))))))"

definition inline_rules ::
  "octo_env \<Rightarrow> input \<Rightarrow> (InlinePolicy \<times> ObjectReference option) list \<Rightarrow> policyRule list go" where
  "inline_rules E m ps = go_map concat (go_mapM (inline_policy_rules E m) ps)"

definition getResourcePolicyRules ::
  "octo_env \<Rightarrow> input \<Rightarrow> string list \<Rightarrow> InlinePolicy list \<Rightarrow> ObjectReference option \<Rightarrow> collect_state \<Rightarrow>
   policyRule list go \<times> collect_state" where
  "getResourcePolicyRules E m policies inlinePolicies resourceRef st =
     and_then (collect_policies E m policies st)
       (\<lambda>st'. (inline_rules E m (map (\<lambda>p. (p, resourceRef)) inlinePolicies), st'))"

text \<open>
  The same loops for the evaluation of given policies; every inline policy has its own reference,
  and one that is nil panics.
\<close>

definition getEvaluatePolicyRules ::
  "octo_env \<Rightarrow> input \<Rightarrow> string list \<Rightarrow> (InlinePolicy option \<times> ObjectReference option) list \<Rightarrow> Cache \<Rightarrow>
   policyRule list go \<times> collect_state" where
  "getEvaluatePolicyRules E m policies inlinePolicies c =
     and_then (collect_policies E m policies ([], c))
       (\<lambda>st'. (go_map concat (go_mapM (\<lambda>(p, ref). go_bind (deref p) (\<lambda>ip. inline_policy_rules E m (ip, ref)))
                 inlinePolicies), st'))"

section \<open>Policy triggers\<close>

lemma go_loop_nonempty_congs [fundef_cong]:
  "xs = ys \<Longrightarrow> (\<And>x. x \<in> set ys \<Longrightarrow> f x = g x) \<Longrightarrow>
   (if length xs = 0 then Ok False else go_all f xs) = (if length ys = 0 then Ok False else go_all g ys)"
  by (auto intro: go_all_cong)

fun doEvalPreCondition :: "octo_env \<Rightarrow> int \<Rightarrow> RequestContext \<Rightarrow> input \<Rightarrow> PreCondition \<Rightarrow> bool go" where
  "doEvalPreCondition E now i inp PreCondition_Unset = Ok False"
| "doEvalPreCondition E now i inp (PreCondition_Condition c) =
     go_bind (EvalCondition (oe_cel E) c inp) (\<lambda>res. if \<not> res then Ok False else Ok True)"
| "doEvalPreCondition E now i inp (PreCondition_MatchAny b) = (if \<not> b then Ok False else Ok True)"
| "doEvalPreCondition E now i inp (PreCondition_NotAfter t) =
     (case t of None \<Rightarrow> Ok False | Some v \<Rightarrow> if v < now then Ok False else Ok True)"
| "doEvalPreCondition E now i inp (PreCondition_NotBefore t) =
     (case t of None \<Rightarrow> Ok False | Some v \<Rightarrow> if now < v then Ok False else Ok True)"
| "doEvalPreCondition E now i inp (PreCondition_SessionRef r) =
     (case (r, rc_Session i) of
        (Some ref, Some s) \<Rightarrow> if or_Uid ref \<noteq> md_Uid (se_Metadata s) then Ok False else Ok True
      | _ \<Rightarrow> Ok False)"
| "doEvalPreCondition E now i inp (PreCondition_UserRef r) =
     (case (r, rc_User i) of
        (Some ref, Some u) \<Rightarrow> if or_Uid ref \<noteq> md_Uid (ur_Metadata u) then Ok False else Ok True
      | _ \<Rightarrow> Ok False)"
| "doEvalPreCondition E now i inp (PreCondition_All cs) =
     (if length cs = 0 then Ok False else go_all (doEvalPreCondition E now i inp) cs)"
| "doEvalPreCondition E now i inp (PreCondition_Any cs) =
     (if length cs = 0 then Ok False else go_any (doEvalPreCondition E now i inp) cs)"

definition evalPreCondition ::
  "octo_env \<Rightarrow> int \<Rightarrow> RequestContext \<Rightarrow> input \<Rightarrow> PreCondition option \<Rightarrow> bool go" where
  "evalPreCondition E now i inp pc =
     (case pc of None \<Rightarrow> Ok False | Some p \<Rightarrow> doEvalPreCondition E now i inp p)"

definition getRulesFromPolicyTrigger ::
  "octo_env \<Rightarrow> int \<Rightarrow> RequestContext \<Rightarrow> input \<Rightarrow> PolicyTrigger \<Rightarrow> collect_state \<Rightarrow>
   policyRule list go \<times> collect_state" where
  "getRulesFromPolicyTrigger E now i m pt st =
     (case evalPreCondition E now i [(''ctx'', JMap m)] (pt_PreCondition pt) of
        Fail e \<Rightarrow> (Fail e, st)
      | Panic \<Rightarrow> (Panic, st)
      | Ok isMatched \<Rightarrow>
          if \<not> isMatched then (Ok [], st)
          else getResourcePolicyRules E m (pt_Policies pt) (pt_InlinePolicies pt) (pt_OwnerRef pt) st)"

text \<open>The loop skips a trigger whose evaluation fails; what it had marked as used stays marked.\<close>

fun getRulesFromPolicyTriggers ::
  "octo_env \<Rightarrow> int \<Rightarrow> RequestContext \<Rightarrow> input \<Rightarrow> PolicyTrigger list \<Rightarrow> collect_state \<Rightarrow>
   policyRule list go \<times> collect_state" where
  "getRulesFromPolicyTriggers E now i m [] st = (Ok [], st)"
| "getRulesFromPolicyTriggers E now i m (pt # pts) st =
     (if pt_IsDisabled pt then getRulesFromPolicyTriggers E now i m pts st
      else and_then
             (case getRulesFromPolicyTrigger E now i m pt st of
                (Fail e, st') \<Rightarrow> (Ok [], st')
              | r \<Rightarrow> r)
             (getRulesFromPolicyTriggers E now i m pts))"

section \<open>All the rules of a request\<close>

definition owner_rules ::
  "octo_env \<Rightarrow> input \<Rightarrow> Authorization option \<Rightarrow> ObjectReference option \<Rightarrow> collect_state \<Rightarrow>
   policyRule list go \<times> collect_state" where
  "owner_rules E m az ref st =
     (case az of
        None \<Rightarrow> (Ok [], st)
      | Some a \<Rightarrow> getResourcePolicyRules E m (az_Policies a) (az_InlinePolicies a) ref st)"

fun group_rules ::
  "octo_env \<Rightarrow> input \<Rightarrow> Group list \<Rightarrow> collect_state \<Rightarrow> policyRule list go \<times> collect_state" where
  "group_rules E m [] st = (Ok [], st)"
| "group_rules E m (g # gs) st =
     and_then
       (owner_rules E m (gr_Authorization g)
         (GetObjectReference (gr_ApiVersion g) (gr_Kind g) (Some (gr_Metadata g))) st)
       (group_rules E m gs)"

definition namespace_rules ::
  "octo_env \<Rightarrow> input \<Rightarrow> Service \<Rightarrow> collect_state \<Rightarrow> policyRule list go \<times> collect_state" where
  "namespace_rules E m v st =
     (case (sx_NamespaceRef (svc_Status v), st) of
        (None, _) \<Rightarrow> (Panic, st)
      | (Some ref, (used, c)) \<Rightarrow>
          (case getNamespaceFromName E (or_Name ref) c of
             (Ok ns, c') \<Rightarrow>
               owner_rules E m (na_Authorization ns)
                 (GetObjectReference (na_ApiVersion ns) (na_Kind ns) (Some (na_Metadata ns))) (used, c')
           | (Fail e, c') \<Rightarrow> (Ok [], (used, c'))
           | (Panic, c') \<Rightarrow> (Panic, (used, c'))))"

definition getAllRules ::
  "octo_env \<Rightarrow> int \<Rightarrow> PolicyTrigger list \<Rightarrow> RequestContext \<Rightarrow> input \<Rightarrow> Cache \<Rightarrow>
   policyRule list go \<times> collect_state" where
  "getAllRules E now pts i m c =
     and_then (and_then (and_then (and_then (and_then (and_then
       (case rc_User i of
          None \<Rightarrow> (Panic, ([], c))
        | Some u \<Rightarrow> owner_rules E m (us_Authorization (ur_Spec u))
            (GetObjectReference (ur_ApiVersion u) (ur_Kind u) (Some (ur_Metadata u))) ([], c))
       (group_rules E m (rc_Groups i)))
       (\<lambda>st. case rc_Service i of
          None \<Rightarrow> (Panic, st)
        | Some v \<Rightarrow> owner_rules E m (sv_Authorization (svc_Spec v))
            (GetObjectReference (svc_ApiVersion v) (svc_Kind v) (Some (svc_Metadata v))) st))
       (\<lambda>st. case rc_Service i of None \<Rightarrow> (Panic, st) | Some v \<Rightarrow> namespace_rules E m v st))
       (\<lambda>st. case rc_Session i of
          None \<Rightarrow> (Panic, st)
        | Some s \<Rightarrow> owner_rules E m (ss_Authorization (se_Spec s))
            (GetObjectReference (se_ApiVersion s) (se_Kind s) (Some (se_Metadata s))) st))
       (\<lambda>st. case rc_Device i of
          None \<Rightarrow> (Ok [], st)
        | Some d \<Rightarrow> owner_rules E m (ds_Authorization (dv_Spec d))
            (GetObjectReference (dv_ApiVersion d) (dv_Kind d) (Some (dv_Metadata d))) st))
       (getRulesFromPolicyTriggers E now i m pts)"

definition getDecision ::
  "octo_env \<Rightarrow> int \<Rightarrow> PolicyTrigger list \<Rightarrow> RequestContext \<Rightarrow> Cache \<Rightarrow> policyDecisionResult go \<times> Cache" where
  "getDecision E now pts i c =
     (case oe_ctxMap E i of
        Fail e \<Rightarrow> (Fail e, c)
      | Panic \<Rightarrow> (Panic, c)
      | Ok reqCtxMap \<Rightarrow>
          (case getAllRules E now pts i reqCtxMap c of
             (Ok allRules, (used, c')) \<Rightarrow> (doGetDecision E reqCtxMap allRules, c')
           | (Fail e, (used, c')) \<Rightarrow> (Fail e, c')
           | (Panic, (used, c')) \<Rightarrow> (Panic, c')))"

text \<open>\<open>Evaluate\<close> of \<open>cluster/octovigil/octovigil/apis.go\<close>: the effect of given policies on a given context.\<close>

definition Evaluate ::
  "octo_env \<Rightarrow> string list \<Rightarrow> (InlinePolicy option \<times> ObjectReference option) list \<Rightarrow> json option \<Rightarrow> Cache \<Rightarrow>
   Rule_Effect go \<times> Cache" where
  "Evaluate E policies inlinePolicies ctx c =
     (case oe_attrsMap E ctx of
        Fail e \<Rightarrow> (Fail (InternalWithErr e), c)
      | Panic \<Rightarrow> (Panic, c)
      | Ok reqCtxMap \<Rightarrow>
          (case getEvaluatePolicyRules E reqCtxMap policies inlinePolicies c of
             (Fail e, (used, c')) \<Rightarrow> (Fail (InternalWithErr e), c')
           | (Panic, (used, c')) \<Rightarrow> (Panic, c')
           | (Ok allRules, (used, c')) \<Rightarrow>
               (case doGetDecision E reqCtxMap allRules of
                  Ok resp \<Rightarrow> (Ok (dr_effect resp), c')
                | Fail e \<Rightarrow> (Fail (InternalWithErr e), c')
                | Panic \<Rightarrow> (Panic, c'))))"

end
