(* ===== verification/Oscope.thy ===== *)
theory Oscope imports Apivalidation Ucorev1 begin

text \<open>
  \<open>cluster/common/oscope/oscope.go\<close>: the scopes that restrict a session, their text, and the
  test of a request against them. A pattern is the function that returns its submatches. A request
  for which the code would follow a nil pointer gives a panic.
\<close>

section \<open>Patterns\<close>

definition api_char :: "char \<Rightarrow> bool" where
  "api_char c \<longleftrightarrow> name_char c"

definition word_char :: "char \<Rightarrow> bool" where
  "word_char c \<longleftrightarrow> name_char c \<or> (65 \<le> (of_char c :: nat) \<and> (of_char c :: nat) \<le> 90)"

definition is_api :: "string \<Rightarrow> bool" where
  "is_api s \<longleftrightarrow> s \<noteq> [] \<and> length s \<le> 64 \<and> list_all api_char s"

definition is_word :: "string \<Rightarrow> bool" where
  "is_word s \<longleftrightarrow> s \<noteq> [] \<and> list_all word_char s"

text \<open>\<open>[a-z][a-z0-9-]{0,28}[a-z0-9]\<close>\<close>

definition is_short_name :: "string \<Rightarrow> bool" where
  "is_short_name s \<longleftrightarrow>
     2 \<le> length s \<and> length s \<le> 30 \<and> lower (hd s) \<and> list_all name_char (butlast (tl s)) \<and>
     lower_alnum (last s)"

definition apiRgx1 :: "string \<Rightarrow> string option" where
  "apiRgx1 s = (if is_api s then Some s else None)"

definition apiRgx2 :: "string \<Rightarrow> (string \<times> string) option" where
  "apiRgx2 s =
     (case Cut s CHR ''.'' of
        None \<Rightarrow> None
      | Some (api, service) \<Rightarrow> if is_api api \<and> is_word service then Some (api, service) else None)"

definition apiRgx3 :: "string \<Rightarrow> (string \<times> string \<times> string) option" where
  "apiRgx3 s =
     (case Cut s CHR ''.'' of
        None \<Rightarrow> None
      | Some (api, rest) \<Rightarrow>
          (case Cut rest CHR ''/'' of
             None \<Rightarrow> None
           | Some (service, meth) \<Rightarrow>
               if is_api api \<and> is_word service \<and> is_word meth then Some (api, service, meth) else None))"

definition svcRgx1 :: "string \<Rightarrow> (string \<times> string) option" where
  "svcRgx1 s =
     (case Cut s CHR ''.'' of
        None \<Rightarrow> None
      | Some (svc, ns) \<Rightarrow> if is_short_name svc \<and> is_short_name ns then Some (svc, ns) else None)"

definition svcRgx2 :: "string \<Rightarrow> string option" where
  "svcRgx2 s =
     (case Cut s CHR ''/'' of
        None \<Rightarrow> None
      | Some (ns, rest) \<Rightarrow> if is_short_name ns \<and> rest = ''*'' then Some ns else None)"

section \<open>Parsing scopes\<close>

definition packageFromAPI :: "string \<Rightarrow> string" where
  "packageFromAPI arg = ''octelium.api.main.'' @ arg @ ''.v1''"

definition api_filter :: "string \<Rightarrow> string \<Rightarrow> string \<Rightarrow> Scope" where
  "api_filter api service meth =
     Scope_Api (Scope_API_Filter \<lparr>af_Packages = [packageFromAPI api], af_Services = [service],
       af_Methods = [meth]\<rparr>)"

definition service_filter :: "string \<Rightarrow> string \<Rightarrow> Scope" where
  "service_filter svc ns =
     Scope_Svc (Scope_Service_Filter \<lparr>sf_Names = [svc], sf_Namespaces = [ns]\<rparr>)"

definition getScopeAPI :: "string \<Rightarrow> Scope go" where
  "getScopeAPI arg =
     (if arg = [] then Fail (Errorf ''API scope content is empty'')
      else if arg = ''*'' then Ok (Scope_Api Scope_API_All)
      else case apiRgx1 arg of
        Some api \<Rightarrow> Ok (api_filter api ''*'' ''*'')
      | None \<Rightarrow>
          (case apiRgx2 arg of
             Some (api, service) \<Rightarrow> Ok (api_filter api service ''*'')
           | None \<Rightarrow>
               (case apiRgx3 arg of
                  Some (api, service, meth) \<Rightarrow> Ok (api_filter api service meth)
                | None \<Rightarrow> Fail (Errorf ''Could not parse scope''))))"

definition getScopeService :: "string \<Rightarrow> Scope go" where
  "getScopeService arg =
     (if arg = [] then Fail (Errorf ''API scope content is empty'')
      else if arg = ''*'' then Ok (Scope_Svc Scope_Service_All)
      else if NameMain arg then Ok (service_filter arg ''default'')
      else case svcRgx1 arg of
        Some (svc, ns) \<Rightarrow> Ok (service_filter svc ns)
      | None \<Rightarrow>
          (case svcRgx2 arg of
             Some ns \<Rightarrow> Ok (service_filter ''*'' ns)
           | None \<Rightarrow> Fail (Errorf ''Invalid scope'')))"

definition getScope :: "validators \<Rightarrow> string \<Rightarrow> Scope go" where
  "getScope V scope =
     (if length scope = 0 then Fail (Errorf ''Found empty scope'')
      else if 256 < length scope then Fail (Errorf ''Scope is too large'')
      else if \<not> IsASCII V scope then Fail (Errorf ''Invalid scope format'')
      else
        (case SplitN2 scope CHR '':'' of
           [kind, arg] \<Rightarrow>
             if kind = ''api'' then getScopeAPI arg
             else if kind = ''service'' then getScopeService arg
             else Fail (Errorf ''Invalid scope type'')
         | _ \<Rightarrow> Fail (Errorf ''Invalid scope'')))"

text \<open>\<open>None\<close> is the nil slice, which is accepted; an empty slice that is not nil is refused.\<close>

definition GetScopes :: "validators \<Rightarrow> string list option \<Rightarrow> Scope list go" where
  "GetScopes V scopes =
     (case scopes of
        None \<Rightarrow> Ok []
      | Some ss \<Rightarrow>
          if length ss = 0 then Fail (Errorf ''Scopes must not be an empty array'')
          else if 128 < length ss then Fail (Errorf ''Too many scopes'')
          else go_mapM (getScope V) ss)"

definition VerifyScopes :: "validators \<Rightarrow> string list option \<Rightarrow> unit go" where
  "VerifyScopes V scopes = go_map (\<lambda>_. ()) (GetScopes V scopes)"

section \<open>Testing requests\<close>

fun isInListOrAny :: "string list \<Rightarrow> string \<Rightarrow> bool" where
  "isInListOrAny [] arg = False"
| "isInListOrAny (itm # lst) arg = (if itm = arg \<or> itm = ''*'' then True else isInListOrAny lst arg)"

lemma isInListOrAny_iff [simp]: "isInListOrAny lst arg \<longleftrightarrow> arg \<in> set lst \<or> ''*'' \<in> set lst"
  by (induction lst) auto

definition IsAuthorizedByScopeAPIServer :: "Scope_API \<Rightarrow> GRPC_Request \<Rightarrow> bool" where
  "IsAuthorizedByScopeAPIServer scope grpcReq =
     (case scope of
        Scope_API_All \<Rightarrow> True
      | Scope_API_Filter fltr \<Rightarrow>
          if 0 < length (af_Packages fltr) \<and> \<not> isInListOrAny (af_Packages fltr) (gq_Package grpcReq) then False
          else if 0 < length (af_Services fltr) \<and> \<not> isInListOrAny (af_Services fltr) (gq_Service grpcReq) then False
          else if 0 < length (af_Methods fltr) \<and> \<not> isInListOrAny (af_Methods fltr) (gq_Method grpcReq) then False
          else True
      | Scope_API_Unset \<Rightarrow> False)"

definition IsAuthorizedByScopeService :: "Scope_Service \<Rightarrow> Service option \<Rightarrow> bool go" where
  "IsAuthorizedByScopeService scope svc =
     (case scope of
        Scope_Service_All \<Rightarrow> Ok True
      | Scope_Service_Filter fltr \<Rightarrow>
          go_bind (if 0 < length (sf_Names fltr)
                   then go_bind (deref svc) (\<lambda>s. Ok (isInListOrAny (sf_Names fltr) (md_Name (svc_Metadata s))))
                   else Ok True) (\<lambda>b1.
          if \<not> b1 then Ok False
          else if 0 < length (sf_Namespaces fltr)
          then go_bind (deref svc) (\<lambda>s. go_bind (deref (sx_NamespaceRef (svc_Status s)))
                 (\<lambda>r. Ok (isInListOrAny (sf_Namespaces fltr) (or_Name r))))
          else Ok True)
      | Scope_Service_Unset \<Rightarrow> Ok False)"

fun request_grpc :: "Request option \<Rightarrow> GRPC_Request option" where
  "request_grpc (Some (Request_Grpc g)) = Some g"
| "request_grpc _ = None"

fun scope_loop :: "Scope list \<Rightarrow> Service option \<Rightarrow> Request option \<Rightarrow> bool go" where
  "scope_loop [] svc req = Ok False"
| "scope_loop (scope # scopes) svc req =
     (case scope of
        Scope_Svc s \<Rightarrow>
          go_bind (IsAuthorizedByScopeService s svc)
            (\<lambda>ok. if ok then Ok True else scope_loop scopes svc req)
      | Scope_Api a \<Rightarrow>
          go_bind (deref svc) (\<lambda>v.
            if \<not> IsManagedService v \<and>
               (case sx_ManagedService (svc_Status v) of None \<Rightarrow> False | Some m \<Rightarrow> ms_Type m = ''apiserver'')
            then scope_loop scopes svc req
            else case request_grpc req of
                   None \<Rightarrow> scope_loop scopes svc req
                 | Some g \<Rightarrow> if IsAuthorizedByScopeAPIServer a g then Ok True else scope_loop scopes svc req)
      | Scope_Unset \<Rightarrow> scope_loop scopes svc req)"

definition doIsAuthorizedByScopes :: "Scope list \<Rightarrow> Service option \<Rightarrow> Request option \<Rightarrow> bool go" where
  "doIsAuthorizedByScopes scopes svc req = (if length scopes = 0 then Ok True else scope_loop scopes svc req)"

definition IsAuthorizedByScopes :: "RequestContext \<Rightarrow> bool go" where
  "IsAuthorizedByScopes req =
     (case rc_Session req of
        None \<Rightarrow> Ok False
      | Some sess \<Rightarrow>
          if length (st_Scopes (se_Status sess)) = 0 then Ok True
          else doIsAuthorizedByScopes (st_Scopes (se_Status sess)) (rc_Service req) (rc_Request req))"

section \<open>What scopes allow\<close>

text \<open>What a single scope allows of a request to a service, by its name, its namespace and the gRPC call.\<close>

definition admits :: "string list \<Rightarrow> string \<Rightarrow> bool" where
  "admits xs x \<longleftrightarrow> xs = [] \<or> x \<in> set xs \<or> ''*'' \<in> set xs"

fun scope_allows :: "Scope \<Rightarrow> string \<Rightarrow> string \<Rightarrow> GRPC_Request option \<Rightarrow> bool" where
  "scope_allows Scope_Unset name ns g \<longleftrightarrow> False"
| "scope_allows (Scope_Svc Scope_Service_Unset) name ns g \<longleftrightarrow> False"
| "scope_allows (Scope_Svc Scope_Service_All) name ns g \<longleftrightarrow> True"
| "scope_allows (Scope_Svc (Scope_Service_Filter f)) name ns g \<longleftrightarrow> admits (sf_Names f) name \<and> admits (sf_Namespaces f) ns"
| "scope_allows (Scope_Api Scope_API_Unset) name ns g \<longleftrightarrow> False"
| "scope_allows (Scope_Api Scope_API_All) name ns g \<longleftrightarrow> g \<noteq> None"
| "scope_allows (Scope_Api (Scope_API_Filter f)) name ns g \<longleftrightarrow>
     (\<exists>r. g = Some r \<and> admits (af_Packages f) (gq_Package r) \<and> admits (af_Services f) (gq_Service r) \<and>
       admits (af_Methods f) (gq_Method r))"

lemma IsAuthorizedByScopeService_sem:
  assumes "sx_NamespaceRef (svc_Status v) = Some r"
  shows "IsAuthorizedByScopeService s (Some v) =
    Ok (scope_allows (Scope_Svc s) (md_Name (svc_Metadata v)) (or_Name r) g)"
  using assms by (cases s) (auto simp: IsAuthorizedByScopeService_def admits_def)

lemma IsAuthorizedByScopeAPIServer_sem:
  "scope_allows (Scope_Api a) name ns g \<longleftrightarrow> (\<exists>r. g = Some r \<and> IsAuthorizedByScopeAPIServer a r)"
  by (cases a; cases g) (auto simp: IsAuthorizedByScopeAPIServer_def admits_def)

lemma scope_loop_sem:
  assumes "sx_NamespaceRef (svc_Status v) = Some r"
  shows "scope_loop scopes (Some v) req =
    Ok (list_ex (\<lambda>s. scope_allows s (md_Name (svc_Metadata v)) (or_Name r) (request_grpc req)) scopes)"
proof (induction scopes)
  case (Cons s scopes)
  then show ?case
    by (cases s)
      (auto simp: IsAuthorizedByScopeService_sem [OF assms, where g = "request_grpc req"] IsAuthorizedByScopeAPIServer_sem
        IsManagedService_def split: option.splits)
qed simp

section \<open>Characters of names\<close>

lemma name_char_no_sep: "name_char c \<Longrightarrow> c \<noteq> CHR ''.'' \<and> c \<noteq> CHR ''/'' \<and> c \<noteq> CHR ''*'' \<and> c \<noteq> CHR '':''"
  by (auto simp: name_char_def lower_alnum_def lower_def decimal_def)

lemma list_middle: "2 \<le> length s \<Longrightarrow> c \<in> set s \<Longrightarrow> c = hd s \<or> c \<in> set (butlast (tl s)) \<or> c = last s"
proof (cases s)
  case (Cons a t)
  assume "2 \<le> length s" "c \<in> set s"
  with Cons show ?thesis
    by (cases t rule: rev_cases) auto
qed simp

lemma lower_name_char: "lower c \<Longrightarrow> name_char c" "lower_alnum c \<Longrightarrow> name_char c"
  by (simp_all add: name_char_def lower_alnum_def)

lemma NameMain_chars: "NameMain s \<Longrightarrow> c \<in> set s \<Longrightarrow> name_char c"
  unfolding NameMain_def list_all_iff using list_middle [of s c] lower_name_char by blast

lemma is_short_name_NameMain: "is_short_name s \<Longrightarrow> NameMain s"
  by (simp add: is_short_name_def NameMain_def)

section \<open>What the texts of scopes permit\<close>

text \<open>
  The permissions that the text of a scope stands for: all services, one of the default namespace by its name, one by its name and
  namespace, all of a namespace; every gRPC call, those to an API, to one of its services, or to one of the methods of a service.
\<close>

inductive service_permits :: "string \<Rightarrow> string \<Rightarrow> string \<Rightarrow> bool" where
  every_service: "service_permits ''*'' name ns"
| default_service: "NameMain name \<Longrightarrow> service_permits name name ''default''"
| named_service: "is_short_name name \<Longrightarrow> is_short_name ns \<Longrightarrow> service_permits (name @ CHR ''.'' # ns) name ns"
| services_of: "is_short_name ns \<Longrightarrow> service_permits (ns @ CHR ''/'' # ''*'') name ns"

inductive api_permits :: "string \<Rightarrow> GRPC_Request \<Rightarrow> bool" where
  every_call: "api_permits ''*'' r"
| calls_to_api: "is_api a \<Longrightarrow> gq_Package r = packageFromAPI a \<Longrightarrow> api_permits a r"
| calls_to_service: "is_api a \<Longrightarrow> gq_Package r = packageFromAPI a \<Longrightarrow> is_word (gq_Service r) \<Longrightarrow>
    api_permits (a @ CHR ''.'' # gq_Service r) r"
| calls_to_method: "is_api a \<Longrightarrow> gq_Package r = packageFromAPI a \<Longrightarrow> is_word (gq_Service r) \<Longrightarrow> is_word (gq_Method r) \<Longrightarrow>
    api_permits (a @ CHR ''.'' # gq_Service r @ CHR ''/'' # gq_Method r) r"

definition scope_grants :: "string \<Rightarrow> string \<Rightarrow> string \<Rightarrow> GRPC_Request option \<Rightarrow> bool" where
  "scope_grants t name ns g \<longleftrightarrow>
     (\<exists>arg. t = ''service:'' @ arg \<and> service_permits arg name ns) \<or>
     (\<exists>arg r. t = ''api:'' @ arg \<and> g = Some r \<and> api_permits arg r)"

lemma name_no_sep: "NameMain s \<Longrightarrow> CHR ''.'' \<notin> set s \<and> CHR ''/'' \<notin> set s \<and> CHR ''*'' \<notin> set s"
  using NameMain_chars name_char_no_sep by blast

lemma word_no_sep: "is_word s \<Longrightarrow> CHR ''.'' \<notin> set s \<and> CHR ''/'' \<notin> set s \<and> CHR ''*'' \<notin> set s"
  using name_char_no_sep by (fastforce simp: is_word_def list_all_iff word_char_def)

lemma api_no_sep: "is_api s \<Longrightarrow> CHR ''.'' \<notin> set s \<and> CHR ''/'' \<notin> set s \<and> CHR ''*'' \<notin> set s"
  using name_char_no_sep by (fastforce simp: is_api_def list_all_iff api_char_def)

lemma sep_inj:
  assumes "(c :: char) \<notin> set a" "c \<notin> set b"
  shows "a @ c # x = b @ c # y \<longleftrightarrow> a = b \<and> x = y"
proof
  assume "a @ c # x = b @ c # y"
  then have "Cut (a @ c # x) c = Cut (b @ c # y) c" by (rule arg_cong)
  then show "a = b \<and> x = y" by (simp only: Cut_append [OF assms(1)] Cut_append [OF assms(2)] option.inject prod.inject)
qed simp

lemma service_permits_iff:
  "service_permits arg name ns \<longleftrightarrow>
     arg = ''*'' \<or> (NameMain arg \<and> name = arg \<and> ns = ''default'') \<or>
     (is_short_name name \<and> is_short_name ns \<and> arg = name @ CHR ''.'' # ns) \<or> (is_short_name ns \<and> arg = ns @ CHR ''/'' # ''*'')"
  by (subst service_permits.simps) blast

lemma api_permits_iff:
  "api_permits arg r \<longleftrightarrow> arg = ''*'' \<or>
     (\<exists>a. is_api a \<and> gq_Package r = packageFromAPI a \<and>
       (arg = a \<or> is_word (gq_Service r) \<and>
         (arg = a @ CHR ''.'' # gq_Service r \<or> is_word (gq_Method r) \<and> arg = a @ CHR ''.'' # gq_Service r @ CHR ''/'' # gq_Method r)))"
  by (subst api_permits.simps) blast

lemma starred: "s \<noteq> [] \<Longrightarrow> s @ c # t \<noteq> ''*''"
  by (cases s) simp_all

lemma named_not_empty: "is_short_name s \<Longrightarrow> s \<noteq> []" "is_api s \<Longrightarrow> s \<noteq> []"
  by (auto simp: is_short_name_def is_api_def)

lemma filter_allows:
  "scope_allows (service_filter s n) name ns g \<longleftrightarrow> (name = s \<or> s = ''*'') \<and> (ns = n \<or> n = ''*'')"
  "scope_allows (api_filter a s m) name ns g \<longleftrightarrow>
     (\<exists>r. g = Some r \<and> gq_Package r = packageFromAPI a \<and> (gq_Service r = s \<or> s = ''*'') \<and> (gq_Method r = m \<or> m = ''*''))"
  by (auto simp: service_filter_def api_filter_def admits_def packageFromAPI_def)

lemma star_not: "\<not> NameMain ''*''" "\<not> is_short_name ''*''" "\<not> is_word ''*''" "\<not> is_api ''*''"
  using name_no_sep [of "''*''"] word_no_sep [of "''*''"] api_no_sep [of "''*''"] is_short_name_NameMain by auto

lemma rgx_shapes:
  "svcRgx1 s = Some (a, b) \<Longrightarrow> s = a @ CHR ''.'' # b \<and> is_short_name a \<and> is_short_name b"
  "svcRgx2 s = Some a \<Longrightarrow> s = a @ CHR ''/'' # ''*'' \<and> is_short_name a"
  "apiRgx2 s = Some (a, b) \<Longrightarrow> s = a @ CHR ''.'' # b \<and> is_api a \<and> is_word b"
  by (auto simp: svcRgx1_def svcRgx2_def apiRgx2_def dest: Cut_SomeD split: option.splits prod.splits if_splits)

lemma apiRgx3_shape:
  assumes "apiRgx3 s = Some (a, b, m)"
  shows "s = a @ CHR ''.'' # b @ CHR ''/'' # m \<and> is_api a \<and> is_word b \<and> is_word m"
proof -
  obtain rest where "Cut s CHR ''.'' = Some (a, rest)" "Cut rest CHR ''/'' = Some (b, m)" "is_api a" "is_word b" "is_word m"
    using assms by (auto simp: apiRgx3_def split: option.splits prod.splits if_splits)
  then show ?thesis using Cut_SomeD [of s] Cut_SomeD [of rest] by simp
qed

lemma service_scope_shapes:
  assumes "getScopeService arg = Ok sc"
  obtains (all) "arg = ''*''" "sc = Scope_Svc Scope_Service_All"
    | (main) "NameMain arg" "sc = service_filter arg ''default''"
    | (named) s n where "arg = s @ CHR ''.'' # n" "is_short_name s" "is_short_name n" "sc = service_filter s n"
    | (of_ns) n where "arg = n @ CHR ''/'' # ''*''" "is_short_name n" "sc = service_filter ''*'' n"
proof -
  consider "arg = ''*'' \<and> sc = Scope_Svc Scope_Service_All" | "NameMain arg \<and> sc = service_filter arg ''default''"
    | s n where "svcRgx1 arg = Some (s, n)" "sc = service_filter s n" | n where "svcRgx2 arg = Some n" "sc = service_filter ''*'' n"
    using assms by (auto simp: getScopeService_def split: if_splits option.splits)
  then show thesis by cases (use that rgx_shapes(1,2) in blast)+
qed

lemma api_scope_shapes:
  assumes "getScopeAPI arg = Ok sc"
  obtains (all) "arg = ''*''" "sc = Scope_Api Scope_API_All"
    | (api) "is_api arg" "sc = api_filter arg ''*'' ''*''"
    | (service) a s where "arg = a @ CHR ''.'' # s" "is_api a" "is_word s" "sc = api_filter a s ''*''"
    | (meth) a s m where "arg = a @ CHR ''.'' # s @ CHR ''/'' # m" "is_api a" "is_word s" "is_word m" "sc = api_filter a s m"
proof -
  consider "arg = ''*'' \<and> sc = Scope_Api Scope_API_All" | "is_api arg \<and> sc = api_filter arg ''*'' ''*''"
    | a s where "apiRgx2 arg = Some (a, s)" "sc = api_filter a s ''*''" | a s m where "apiRgx3 arg = Some (a, s, m)" "sc = api_filter a s m"
    using assms by (auto simp: getScopeAPI_def apiRgx1_def split: if_splits option.splits)
  then show thesis by cases (use that rgx_shapes(3) apiRgx3_shape in blast)+
qed

text \<open>A scope that is parsed allows what its text stands for.\<close>

lemma service_scope_permits:
  assumes "getScopeService arg = Ok sc"
  shows "scope_allows sc name ns g \<longleftrightarrow> service_permits arg name ns"
proof -
  note short = name_no_sep [OF is_short_name_NameMain]
  from assms show ?thesis
  proof (cases rule: service_scope_shapes)
    case main
    then have "arg \<noteq> ''*''" "arg \<noteq> x @ CHR ''.'' # y" "arg \<noteq> x @ CHR ''/'' # y" for x y
      using name_no_sep [OF main(1)] by auto
    with main show ?thesis by (auto simp: service_permits_iff filter_allows)
  next
    case (named s n)
    have "arg \<noteq> ''*''" unfolding named(1) by (rule starred [OF named_not_empty(1) [OF named(2)]])
    moreover have "\<not> NameMain arg" using name_no_sep [of arg] named(1) by auto
    moreover have "arg \<noteq> ns @ CHR ''/'' # ''*''"
    proof
      assume "arg = ns @ CHR ''/'' # ''*''"
      then have "last n = CHR ''*''" using named(1) named_not_empty(1) [OF named(3)] by (metis last.simps last_append list.discI)
      then show False using short [OF named(3)] last_in_set [OF named_not_empty(1) [OF named(3)]] by simp
    qed
    moreover have "is_short_name name \<Longrightarrow> arg = name @ CHR ''.'' # ns \<longleftrightarrow> name = s \<and> ns = n"
      using sep_inj [of "CHR ''.''" s name n ns] short [OF named(2)] short [of name] named(1) by auto
    moreover have "s \<noteq> ''*''" "n \<noteq> ''*''" using named(2,3) star_not(2) by auto
    ultimately show ?thesis using named(2-4) by (auto simp: service_permits_iff filter_allows)
  next
    case (of_ns n)
    have "arg \<noteq> ''*''" unfolding of_ns(1) by (rule starred [OF named_not_empty(1) [OF of_ns(2)]])
    moreover have "\<not> NameMain arg" using name_no_sep [of arg] of_ns(1) by auto
    moreover have "arg \<noteq> name @ CHR ''.'' # ns" if "is_short_name ns"
    proof
      assume "arg = name @ CHR ''.'' # ns"
      then have "last arg = last ns" using named_not_empty(1) [OF that] by simp
      moreover have "last ns \<in> set ns" using named_not_empty(1) [OF that] by simp
      ultimately show False using short [OF that] of_ns(1) by simp
    qed
    moreover have "arg = ns @ CHR ''/'' # ''*'' \<longleftrightarrow> ns = n" using of_ns(1) by auto
    moreover have "n \<noteq> ''*''" using of_ns(2) star_not(2) by auto
    ultimately show ?thesis using of_ns(2,3) by (auto simp: service_permits_iff filter_allows)
  qed (simp add: service_permits_iff)
qed

lemma api_scope_permits:
  assumes "getScopeAPI arg = Ok sc"
  shows "scope_allows sc name ns g \<longleftrightarrow> (\<exists>r. g = Some r \<and> api_permits arg r)"
proof -
  from assms show ?thesis
  proof (cases rule: api_scope_shapes)
    case api
    have "arg \<noteq> x @ CHR ''.'' # y" for x y using api_no_sep [OF api(1)] by auto
    moreover have "arg \<noteq> ''*''" using api(1) star_not(4) by auto
    ultimately show ?thesis using api by (auto simp: api_permits_iff filter_allows)
  next
    case (service a s)
    have "arg \<noteq> ''*''" unfolding service(1) by (rule starred [OF named_not_empty(2) [OF service(2)]])
    moreover have "\<not> is_api arg" using service(1) api_no_sep [of arg] by auto
    moreover have "is_api b \<Longrightarrow> arg = b @ CHR ''.'' # x \<longleftrightarrow> b = a \<and> x = s" for b x
      using sep_inj [of "CHR ''.''" a b s x] api_no_sep [of b] api_no_sep [OF service(2)] service(1) by auto
    moreover have "x @ CHR ''/'' # y \<noteq> s" for x y using word_no_sep [OF service(3)] by auto
    ultimately have "api_permits arg r \<longleftrightarrow> gq_Package r = packageFromAPI a \<and> gq_Service r = s" for r
      using service(2,3) unfolding api_permits_iff by metis
    then show ?thesis using service(3,4) star_not(3) by (auto simp: filter_allows)
  next
    case (meth a s m)
    have "arg \<noteq> ''*''" unfolding meth(1) by (rule starred [OF named_not_empty(2) [OF meth(2)]])
    moreover have "\<not> is_api arg" using meth(1) api_no_sep [of arg] by auto
    moreover have "is_api b \<Longrightarrow> arg = b @ CHR ''.'' # x \<longleftrightarrow> b = a \<and> x = s @ CHR ''/'' # m" for b x
      using sep_inj [of "CHR ''.''" a b "s @ CHR ''/'' # m" x] api_no_sep [of b] api_no_sep [OF meth(2)] meth(1) by auto
    moreover have "is_word x \<Longrightarrow> x \<noteq> s @ CHR ''/'' # m" for x using word_no_sep [of x] by auto
    moreover have "is_word x \<Longrightarrow> x @ CHR ''/'' # y = s @ CHR ''/'' # m \<longleftrightarrow> x = s \<and> y = m" for x y
      using sep_inj [of "CHR ''/''" x s y m] word_no_sep [of x] word_no_sep [OF meth(3)] by auto
    ultimately have "api_permits arg r \<longleftrightarrow> gq_Package r = packageFromAPI a \<and> gq_Service r = s \<and> gq_Method r = m" for r
      using meth(2-4) unfolding api_permits_iff by metis
    then show ?thesis using meth(3-5) star_not(3) by (auto simp: filter_allows)
  qed (auto simp: api_permits_iff)
qed

lemma parsed_scope_grants:
  assumes "getScope V t = Ok sc"
  shows "scope_allows sc name ns g \<longleftrightarrow> scope_grants t name ns g"
proof -
  obtain kind arg where split: "SplitN2 t CHR '':'' = [kind, arg]"
    and k: "(kind = ''api'' \<and> getScopeAPI arg = Ok sc) \<or> (kind = ''service'' \<and> getScopeService arg = Ok sc)"
    using assms by (auto simp: getScope_def split: if_splits list.splits)
  from split have "t = kind @ CHR '':'' # arg" by (auto simp: SplitN2_def dest: Cut_SomeD split: option.splits prod.splits)
  with k show ?thesis
    using api_scope_permits [of arg sc name ns g] service_scope_permits [of arg sc name ns g]
    by (elim disjE conjE) (simp_all add: scope_grants_def)
qed

lemma parsed_scopes_grant:
  "go_mapM (getScope V) ts = Ok scopes \<Longrightarrow>
     list_ex (\<lambda>s. scope_allows s name ns g) scopes \<longleftrightarrow> list_ex (\<lambda>t. scope_grants t name ns g) ts"
  by (induction ts arbitrary: scopes) (auto simp: parsed_scope_grants)

text \<open>
  C23: for a service in a namespace the test of the scopes never panics, and it lets a request through exactly when the texts that
  the scopes were made from permit it: without scopes every request, and otherwise the requests that one of the texts stands for,
  by the name and the namespace of the service or by the API, the service and the method of the gRPC call.
\<close>

theorem scopes_are_permissions:
  assumes "GetScopes V texts = Ok scopes" and "sx_NamespaceRef (svc_Status v) = Some r"
  shows "doIsAuthorizedByScopes scopes (Some v) req =
    Ok (case texts of
          None \<Rightarrow> True
        | Some ts \<Rightarrow> list_ex (\<lambda>t. scope_grants t (md_Name (svc_Metadata v)) (or_Name r) (request_grpc req)) ts)"
proof (cases texts)
  case None
  with assms(1) show ?thesis by (simp add: GetScopes_def doIsAuthorizedByScopes_def)
next
  case (Some ts)
  with assms(1) have ts: "ts \<noteq> []" "go_mapM (getScope V) ts = Ok scopes" by (auto simp: GetScopes_def split: if_splits)
  then have "scopes \<noteq> []" by (cases ts) auto
  with Some parsed_scopes_grant [OF ts(2)] scope_loop_sem [OF assms(2)] show ?thesis by (simp add: doIsAuthorizedByScopes_def)
qed

text \<open>
  The test that should confine API scopes to the API server never holds, so a scope for the whole
  API lets a session reach every service that speaks gRPC, whichever it is.
\<close>

theorem api_scope_not_confined:
  "doIsAuthorizedByScopes [Scope_Api Scope_API_All] (Some v) (Some (Request_Grpc g)) = Ok True"
  by (simp add: doIsAuthorizedByScopes_def IsAuthorizedByScopeAPIServer_def IsManagedService_def
      split: option.splits)

section \<open>Scopes of named services\<close>

lemma getScopeService_cases:
  assumes "getScopeService arg = Ok sc"
  obtains "sc = Scope_Svc Scope_Service_All"
  | svc ns where "sc = service_filter svc ns" "NameMain svc"
  | ns where "sc = service_filter ''*'' ns" "arg = ns @ ''/*''" "NameMain ns"
  using assms is_short_name_NameMain
  by (auto simp: getScopeService_def svcRgx1_def svcRgx2_def dest!: Cut_SomeD
      split: if_splits option.splits prod.splits)

lemma service_scope_cases:
  assumes "getScope V (''service:'' @ arg) = Ok sc"
  shows "getScopeService arg = Ok sc"
proof -
  have "SplitN2 (''service:'' @ arg) CHR '':'' = [''service'', arg]"
    using Cut_append [of "CHR '':''" "''service''" arg] by (simp add: SplitN2_def)
  with assms show ?thesis
    by (auto simp: getScope_def split: if_splits)
qed

text \<open>
  A service scope that names a service never lets a request through when the service's full name
  has the form \<open>name.namespace\<close>, which is what the API server gives every service: the test
  compares the scope's plain name with the full one. Only the scopes for all services and for a
  whole namespace work.
\<close>

theorem named_service_scope_never_matches:
  assumes "getScope V (''service:'' @ arg) = Ok sc" and "arg \<noteq> ''*''" and "drop (length arg - 2) arg \<noteq> ''/*''"
    and "CHR ''.'' \<in> set (md_Name (svc_Metadata v))" and "sx_NamespaceRef (svc_Status v) = Some r"
  shows "doIsAuthorizedByScopes [sc] (Some v) req = Ok False"
  using service_scope_cases [OF assms(1)]
proof (cases rule: getScopeService_cases)
  case 1
  with assms(2) service_scope_cases [OF assms(1)] show ?thesis
    by (auto simp: getScopeService_def service_filter_def split: if_splits option.splits)
next
  case (2 svc ns)
  then have "svc \<noteq> md_Name (svc_Metadata v)" "svc \<noteq> ''*''"
    using NameMain_chars [OF 2(2)] name_char_no_sep assms(4) by fastforce+
  with 2 show ?thesis
    using scope_loop_sem [OF assms(5), of "[sc]" req]
    by (simp add: doIsAuthorizedByScopes_def filter_allows)
next
  case (3 ns)
  with assms(3) show ?thesis by simp
qed

definition ascii_validators :: validators where
  "ascii_validators =
     \<lparr>IsUUIDv4 = (\<lambda>s. s \<noteq> []), IsASCII = list_all (\<lambda>c. (of_char c :: nat) < 128), IsEmail = (\<lambda>s. True),
      IsDNSName = (\<lambda>s. True), IsHost = (\<lambda>s. True), IsPort = (\<lambda>s. True),
      IsIP = (\<lambda>s. True), IsURL = (\<lambda>s. True), IsRequestURI = (\<lambda>s. True), IsUnixFilePath = (\<lambda>s. True), LookupMX = (\<lambda>s. True),
      ParseUA = (\<lambda>s. \<lparr>ua_Name = s, ua_Desktop = True, ua_Mobile = False, ua_Known = False\<rparr>),
      runes = map of_char, IsLower = (\<lambda>r. 97 \<le> r \<and> r \<le> 122),
      IsLetter = (\<lambda>r. (97 \<le> r \<and> r \<le> 122) \<or> (65 \<le> r \<and> r \<le> 90)), IsDigit = (\<lambda>r. 48 \<le> r \<and> r \<le> 57),
      MarshalLen = (\<lambda>j. Ok 0), ConvertToMap = (\<lambda>j. case j of JMap m \<Rightarrow> Ok m | _ \<Rightarrow> Fail InvalidArg)\<rparr>"

lemma web_dev_scope: "getScope ascii_validators ''service:web.dev'' = Ok (service_filter ''web'' ''dev'')"
  by (simp add: getScope_def ascii_validators_def SplitN2_def getScopeService_def NameMain_def
      svcRgx1_def is_short_name_def name_char_def lower_alnum_def lower_def decimal_def)

lemma status_scope:
  "getScope ascii_validators ''api:user.MainService/GetStatus'' = Ok (api_filter ''user'' ''MainService'' ''GetStatus'')"
  by (simp add: getScope_def ascii_validators_def SplitN2_def getScopeAPI_def apiRgx1_def apiRgx2_def apiRgx3_def is_api_def is_word_def
      api_char_def word_char_def name_char_def lower_alnum_def lower_def decimal_def)

text \<open>A call of one method; the scope for another method of its service does not permit it.\<close>

definition status_call :: "string \<Rightarrow> Request" where
  "status_call m = Request_Grpc
     \<lparr>gq_Http = None, gq_Method = m, gq_Service = ''MainService'', gq_ServiceFullName = ''octelium.api.main.user.v1.MainService'',
      gq_Package = ''octelium.api.main.user.v1''\<rparr>"

theorem scopes_are_permissions_witness:
  "doIsAuthorizedByScopes [service_filter ''web'' ''dev'', api_filter ''user'' ''MainService'' ''GetStatus''] (Some plain_service)
     (Some (status_call ''GetStatus'')) = Ok True \<and>
   doIsAuthorizedByScopes [service_filter ''web'' ''dev'', api_filter ''user'' ''MainService'' ''GetStatus''] (Some plain_service)
     (Some (status_call ''SetStatus'')) = Ok False"
proof -
  let ?ts = "Some [''service:web.dev'', ''api:user.MainService/GetStatus'']"
  have parsed: "GetScopes ascii_validators ?ts = Ok [service_filter ''web'' ''dev'', api_filter ''user'' ''MainService'' ''GetStatus'']"
    by (simp add: GetScopes_def web_dev_scope status_scope)
  obtain r where r: "sx_NamespaceRef (svc_Status plain_service) = Some r" "or_Name r = ''dev''" "md_Name (svc_Metadata plain_service) = ''web.dev''"
    by (simp add: plain_service_def)
  have "scope_grants ''api:user.MainService/GetStatus'' n d (request_grpc (Some (status_call m))) \<longleftrightarrow> m = ''GetStatus''" for n d m
    using parsed_scope_grants [OF status_scope, of n d "request_grpc (Some (status_call m))"]
    by (simp add: status_call_def filter_allows packageFromAPI_def)
  moreover have "\<not> scope_grants ''service:web.dev'' ''web.dev'' n g" for n g
    using parsed_scope_grants [OF web_dev_scope, of "''web.dev''" n g] by (simp add: filter_allows)
  ultimately show ?thesis
    using scopes_are_permissions [OF parsed r(1), of "Some (status_call ''GetStatus'')"]
      scopes_are_permissions [OF parsed r(1), of "Some (status_call ''SetStatus'')"] r(2,3) by simp
qed

theorem named_service_scope_never_matches_witness:
  "doIsAuthorizedByScopes [service_filter ''web'' ''dev''] (Some plain_service) None = Ok False"
  using named_service_scope_never_matches [of ascii_validators "''web.dev''" "service_filter ''web'' ''dev''"
      plain_service "\<lparr>or_ApiVersion = ''core/v1'', or_Kind = ''Namespace'', or_Uid = ''n1'',
        or_Name = ''dev'', or_ResourceVersion = []\<rparr>" None] web_dev_scope
  by (simp add: plain_service_def)

end
