(* ===== verification/Octovigil.thy ===== *)
theory Octovigil imports PolicyRules Oscope begin

text \<open>
  \<open>cluster/octovigil/octovigil/octovigil.go\<close> and \<open>apis.go\<close>: authentication of a request from its
  source address or its token, and authorization of the authenticated request. The handlers thread
  the cache, which grows by what they load from the resource server. The clock is \<open>now\<close>, one
  instant for a request, and \<open>pts\<close> are the policy triggers in the order of the iteration.
\<close>

section \<open>Tokens in headers\<close>

definition http_space :: "char \<Rightarrow> bool" where
  "http_space c \<longleftrightarrow> of_char c \<in> {9, 10, 13, 32 :: nat}"

definition trim_with :: "(char \<Rightarrow> bool) \<Rightarrow> string \<Rightarrow> string" where
  "trim_with P s = rev (dropWhile P (rev (dropWhile P s)))"

definition validCookieValueByte :: "char \<Rightarrow> bool" where
  "validCookieValueByte c \<longleftrightarrow>
     (let b = of_char c :: nat in 32 \<le> b \<and> b < 127 \<and> b \<noteq> 34 \<and> b \<noteq> 59 \<and> b \<noteq> 92)"

definition parseCookieValue :: "string \<Rightarrow> string option" where
  "parseCookieValue raw =
     (let v = (if 1 < length raw \<and> hd raw = char_of (34 :: nat) \<and> last raw = char_of (34 :: nat)
               then butlast (tl raw) else raw) in
      if list_all validCookieValueByte v then Some v else None)"

text \<open>\<open>Request.Cookie\<close> of \<open>net/http\<close>: the first cookie of that name with a valid value.\<close>

fun cookie_in :: "string \<Rightarrow> string list \<Rightarrow> string option" where
  "cookie_in name [] = None"
| "cookie_in name (part # parts) =
     (let p = trim_with http_space part;
          (n, v) = (case Cut p CHR ''='' of None \<Rightarrow> (p, []) | Some (a, b) \<Rightarrow> (a, b)) in
      if p = [] then cookie_in name parts
      else if trim_with http_space n \<noteq> name then cookie_in name parts
      else (case parseCookieValue v of None \<Rightarrow> cookie_in name parts | Some w \<Rightarrow> Some w))"

definition Cookie :: "string \<Rightarrow> string \<Rightarrow> string option" where
  "Cookie header name = cookie_in name (Split (trim_with http_space header) CHR '';'')"

definition header_value :: "(string \<times> string) list \<Rightarrow> string \<Rightarrow> string" where
  "header_value hdr k = (case map_of hdr k of None \<Rightarrow> [] | Some v \<Rightarrow> v)"

definition getAccessTokenFromHTTPHeader :: "(string \<times> string) list \<Rightarrow> string go" where
  "getAccessTokenFromHTTPHeader hdr =
     (if header_value hdr ''x-octelium-auth'' \<noteq> [] then Ok (header_value hdr ''x-octelium-auth'')
      else if HasPrefix (header_value hdr ''authorization'') ''Bearer ''
      then Ok (TrimPrefix (header_value hdr ''authorization'') ''Bearer '')
      else if header_value hdr ''cookie'' = []
      then Fail (Errorf ''Could not find jwt neither in header or cookie'')
      else (case Cookie (header_value hdr ''cookie'') ''octelium_auth'' of
              None \<Rightarrow> Fail (Errorf ''named cookie not present'')
            | Some v \<Rightarrow> Ok v))"

text \<open>The headers of a request; a nil map and an empty one lead to the same outcome and are both empty.\<close>

definition getHTTPHeadersFromReq :: "DownstreamRequest \<Rightarrow> (string \<times> string) list" where
  "getHTTPHeadersFromReq req =
     (case dq_Request req of
        Some (Request_Grpc g) \<Rightarrow> (case gq_Http g of None \<Rightarrow> [] | Some h \<Rightarrow> ht_Headers h)
      | Some (Request_Http h) \<Rightarrow> ht_Headers h
      | Some (Request_Kubernetes k) \<Rightarrow> (case kr_Http k of None \<Rightarrow> [] | Some h \<Rightarrow> ht_Headers h)
      | _ \<Rightarrow> [])"

definition isAddressFromClient :: "octo_env \<Rightarrow> string \<Rightarrow> bool" where
  "isAddressFromClient E addrStr =
     (case ParseAddr addrStr of
        None \<Rightarrow> False
      | Some addr \<Rightarrow>
          if (case oe_v6Prefix E of None \<Rightarrow> False | Some p \<Rightarrow> Contains p addr) then True
          else if (case oe_v4Prefix E of None \<Rightarrow> False | Some p \<Rightarrow> Contains p addr) then True
          else False)"

section \<open>Authentication\<close>

definition getConnectionIdentifier ::
  "octo_env \<Rightarrow> DoAuthenticateAndAuthorizeRequest option \<Rightarrow> (string \<times> AccessTokenClaims option) go" where
  "getConnectionIdentifier E r =
     (case r of
        None \<Rightarrow> Fail (Errorf ''Nil req'')
      | Some rq \<Rightarrow>
          (case da_Service rq of
             None \<Rightarrow> Fail (Errorf ''Nil Service'')
           | Some svc \<Rightarrow>
               (case da_Request rq of
                  None \<Rightarrow> Fail (Errorf ''Nil DownstreamRequest'')
                | Some req \<Rightarrow>
                    let addr = (case dq_Source req of None \<Rightarrow> [] | Some s \<Rightarrow> so_Address s);
                        none = Fail (Errorf ''Could not find Connection identifier'') in
                    if addr \<noteq> [] \<and> isAddressFromClient E addr then Ok (addr, None)
                    else if sv_IsPublic (svc_Spec svc) then
                      (case getAccessTokenFromHTTPHeader (getHTTPHeadersFromReq req) of
                         Ok tkn \<Rightarrow>
                           go_bind (oe_VerifyAccessToken E tkn) (\<lambda>claims. Ok (tc_SessionUID claims, Some claims))
                       | Fail e \<Rightarrow> none
                       | Panic \<Rightarrow> Panic)
                    else none)))"

text \<open>Loading what the cache does not have; each resource that is loaded is stored.\<close>

definition load_user :: "octo_env \<Rightarrow> DownstreamInfo \<Rightarrow> Cache \<Rightarrow> User go \<times> Cache" where
  "load_user E di c =
     (case di_User di of
        Some u \<Rightarrow> (Ok u, c)
      | None \<Rightarrow>
          (case go_bind (deref (st_UserRef (se_Status (di_Session di)))) (\<lambda>r. oe_GetUser E (or_Uid r)) of
             Ok u \<Rightarrow> (Ok u, snd (SetUser (oe_put E) u c))
           | r \<Rightarrow> (r, c)))"

definition load_device :: "octo_env \<Rightarrow> DownstreamInfo \<Rightarrow> Cache \<Rightarrow> Device option go \<times> Cache" where
  "load_device E di c =
     (case (di_Device di, st_DeviceRef (se_Status (di_Session di))) of
        (None, Some r) \<Rightarrow>
          (case oe_GetDevice E (or_Uid r) of
             Ok d \<Rightarrow> (Ok (Some d), snd (SetDevice (oe_put E) d c))
           | Fail e \<Rightarrow> (Fail e, c)
           | Panic \<Rightarrow> (Panic, c))
      | (d, _) \<Rightarrow> (Ok d, c))"

fun load_group_list :: "octo_env \<Rightarrow> string list \<Rightarrow> Cache \<Rightarrow> Group list go \<times> Cache" where
  "load_group_list E [] c = (Ok [], c)"
| "load_group_list E (g # gs) c =
     (case oe_GetGroup E g of
        Ok grp \<Rightarrow> (case load_group_list E gs (snd (SetGroup (oe_put E) grp c)) of
                     (r, c') \<Rightarrow> (go_map (Cons grp) r, c'))
      | Fail e \<Rightarrow> (Fail e, c)
      | Panic \<Rightarrow> (Panic, c))"

text \<open>The groups are loaded only when the cache gave none of them.\<close>

definition load_groups :: "octo_env \<Rightarrow> DownstreamInfo \<Rightarrow> User \<Rightarrow> Cache \<Rightarrow> Group list go \<times> Cache" where
  "load_groups E di u c =
     (if di_Groups di = [] then load_group_list E (us_Groups (ur_Spec u)) c else (Ok (di_Groups di), c))"

definition check_claims :: "AccessTokenClaims option \<Rightarrow> Session \<Rightarrow> unit go" where
  "check_claims tknClaims s =
     (case tknClaims of
        None \<Rightarrow> Ok ()
      | Some cl \<Rightarrow>
          if tc_SessionUID cl \<noteq> md_Uid (se_Metadata s)
          then Fail (UnauthenticatedErr ''Token claims are not valid'')
          else go_bind (deref (st_Authentication (se_Status s))) (\<lambda>a.
                 reject_if (tc_TokenID cl \<noteq> au_TokenID a) (UnauthenticatedErr ''Token claims are not valid'')))"

definition authenticate ::
  "octo_env \<Rightarrow> int \<Rightarrow> DoAuthenticateAndAuthorizeRequest option \<Rightarrow> Cache \<Rightarrow> DownstreamInfo go \<times> Cache" where
  "authenticate E now req c =
     (case getConnectionIdentifier E req of
        Panic \<Rightarrow> (Panic, c)
      | Fail e \<Rightarrow> (Fail (UnauthenticatedErr ''Could not get connection identifier''), c)
      | Ok (sessID, tknClaims) \<Rightarrow>
          (case GetDownstreamInfoBySessionIdentifier c sessID of
             Panic \<Rightarrow> (Panic, c)
           | Fail e \<Rightarrow>
               (if e = SessionNotFound then Fail (UnauthenticatedErr [])
                else Fail (Errorf ''Could not get downstream info from identifier''), c)
           | Ok di \<Rightarrow>
               if IsExpired now (di_Session di)
               then (Fail (UnauthenticatedErr ''The Session is expired''), c)
               else
                 go_seq (load_user E di c) (\<lambda>usr c1.
                 go_seq (load_device E di c1) (\<lambda>device c2.
                 go_seq (load_groups E di usr c2) (\<lambda>groups c3.
                 (go_map (\<lambda>_. \<lparr>di_User = Some usr, di_Device = device, di_Session = di_Session di,
                              di_Groups = groups\<rparr>)
                    (check_claims tknClaims (di_Session di)), c3))))))"

section \<open>Forwarded addresses\<close>

text \<open>\<open>strings.TrimSpace\<close>, for the spaces that are ASCII characters.\<close>

definition ascii_space :: "char \<Rightarrow> bool" where
  "ascii_space c \<longleftrightarrow> of_char c \<in> {9, 10, 11, 12, 13, 32 :: nat}"

fun first_public :: "string list \<Rightarrow> string" where
  "first_public [] = []"
| "first_public (ip # ips) =
     (case ParseAddr ip of
        None \<Rightarrow> first_public ips
      | Some addr \<Rightarrow>
          if IsPrivate addr \<or> IsLoopback addr \<or> IsUnspecified addr \<or>
             IsLinkLocalUnicast addr \<or> IsLinkLocalMulticast addr
          then first_public ips else addr_String addr)"

definition GetDownstreamPublicIPFromXFFHeader :: "string \<Rightarrow> string" where
  "GetDownstreamPublicIPFromXFFHeader hdr =
     (if hdr = [] then []
      else first_public (rev (map (trim_with ascii_space) (Split hdr CHR '',''))))"

section \<open>Authorization\<close>

definition getReqCtx ::
  "DownstreamInfo \<Rightarrow> Request option \<Rightarrow> Service \<Rightarrow> Cache \<Rightarrow> RequestContext go" where
  "getReqCtx di req svc c =
     go_bind (deref (sx_NamespaceRef (svc_Status svc))) (\<lambda>ref.
       Ok \<lparr>rc_Request = req, rc_Session = Some (di_Session di), rc_User = di_User di,
          rc_Groups = di_Groups di, rc_Device = di_Device di, rc_Service = Some svc,
          rc_Namespace = (case GetNamespace c (or_Uid ref) of Ok n \<Rightarrow> Some n | _ \<Rightarrow> None)\<rparr>)"

definition reason_of :: "Reason_Type \<Rightarrow> Reason option" where
  "reason_of t = Some \<lparr>re_Type = t, re_Details = None\<rparr>"

text \<open>The address the session was authenticated from, where it is known.\<close>

definition authenticated_from :: "Session \<Rightarrow> string" where
  "authenticated_from s =
     (case st_Authentication (se_Status s) of
        None \<Rightarrow> []
      | Some a \<Rightarrow>
          (case au_Info a of
             None \<Rightarrow> []
           | Some i \<Rightarrow> (case ai_Downstream i of None \<Rightarrow> [] | Some d \<Rightarrow> ad_IpAddress d)))"

definition forwarded_mismatch :: "octo_env \<Rightarrow> RequestContext \<Rightarrow> Session \<Rightarrow> Service \<Rightarrow> bool" where
  "forwarded_mismatch E req s v \<longleftrightarrow>
     sv_IsPublic (svc_Spec v) \<and> st_Type (se_Status s) = CLIENTLESS \<and>
     (case oe_cc E of
        None \<Rightarrow> False
      | Some cc \<Rightarrow> (case ccs_Ingress (cc_Spec cc) of None \<Rightarrow> False | Some i \<Rightarrow> in_UseForwardedForHeader i)) \<and>
     (case rc_Request req of
        Some (Request_Http h) \<Rightarrow>
          (let ipAddr = GetDownstreamPublicIPFromXFFHeader (header_value (ht_Headers h) ''x-forwarded-for'') in
           ipAddr \<noteq> [] \<and> authenticated_from s \<noteq> [] \<and> ipAddr \<noteq> authenticated_from s)
      | _ \<Rightarrow> False)"

text \<open>
  The checks before any policy, in their order: \<open>Some\<close> reason when the request is denied, \<open>None\<close> when it
  goes on to the policies.
\<close>

definition precheck ::
  "octo_env \<Rightarrow> int \<Rightarrow> RequestContext \<Rightarrow> User \<Rightarrow> Session \<Rightarrow> Service \<Rightarrow> Reason option option go" where
  "precheck E now req u s v =
     go_bind (IsValid now s) (\<lambda>valid.
     if \<not> valid then Ok (Some (reason_of SESSION_INVALID))
     else if st_IsLocked (se_Status s) then Ok (Some (reason_of SESSION_LOCKED))
     else go_bind (deref (ur_Status u)) (\<lambda>ustatus.
     if ut_IsLocked ustatus then Ok (Some (reason_of USER_LOCKED))
     else if st_AuthenticatorAction (se_Status s) = AUTHENTICATION_REQUIRED
     then Ok (Some (reason_of AUTHENTICATOR_AUTHENTICATION_REQUIRED))
     else if st_AuthenticatorAction (se_Status s) = REGISTRATION_REQUIRED
     then Ok (Some (reason_of AUTHENTICATOR_REGISTRATION_REQUIRED))
     else if st_AuthenticatorAction (se_Status s) \<notin>
       {AUTHENTICATOR_ACTION_UNSET, AUTHENTICATION_RECOMMENDED, REGISTRATION_RECOMMENDED}
     then Fail (Errorf ''Unhandled authenticatorAction'')
     else go_bind (case rc_Device req of
                     None \<Rightarrow> Ok None
                   | Some d \<Rightarrow>
                       if ds_State (dv_Spec d) \<noteq> DEVICE_ACTIVE then Ok (Some (reason_of DEVICE_NOT_ACTIVE))
                       else go_bind (deref (dv_Status d)) (\<lambda>ds.
                              if dt_IsLocked ds then Ok (Some (reason_of DEVICE_LOCKED)) else Ok None))
       (\<lambda>dev. case dev of
          Some r \<Rightarrow> Ok (Some r)
        | None \<Rightarrow>
            if us_IsDisabled (ur_Spec u) then Ok (Some (reason_of USER_DEACTIVATED))
            else if \<not> sv_IsPublic (svc_Spec v) \<and> \<not> IsClient s
            then Ok (Some (reason_of SESSION_CLIENT_TYPE_INVALID))
            else if forwarded_mismatch E req s v then Ok (Some (reason_of TYPE_UNKNOWN_REASON))
            else go_bind (IsAuthorizedByScopes req) (\<lambda>ok.
                   if \<not> ok then Ok (Some (reason_of SCOPE_UNAUTHORIZED)) else Ok None))))"

definition isAuthorized ::
  "octo_env \<Rightarrow> int \<Rightarrow> PolicyTrigger list \<Rightarrow> RequestContext option \<Rightarrow> Cache \<Rightarrow>
   (bool \<times> Reason option) go \<times> Cache" where
  "isAuthorized E now pts ro c =
     (case ro of
        None \<Rightarrow> (Fail (Errorf ''Nil request''), c)
      | Some req \<Rightarrow>
          (case rc_User req of
             None \<Rightarrow> (Fail (Errorf ''Nil User''), c)
           | Some u \<Rightarrow>
               (case rc_Session req of
                  None \<Rightarrow> (Fail (Errorf ''Nil Session''), c)
                | Some s \<Rightarrow>
                    (case rc_Service req of
                       None \<Rightarrow> (Fail (Errorf ''Nil Service''), c)
                     | Some v \<Rightarrow>
                         (case precheck E now req u s v of
                            Panic \<Rightarrow> (Panic, c)
                          | Fail e \<Rightarrow> (Fail e, c)
                          | Ok (Some reason) \<Rightarrow> (Ok (False, reason), c)
                          | Ok None \<Rightarrow>
                              go_seq (getDecision E now pts req c) (\<lambda>resp c'.
                                if dr_decision resp = MATCH_YES
                                then (Ok (dr_effect resp = ALLOW, dr_reason resp), c')
                                else (Ok (False, reason_of NO_POLICY_MATCH), c')))))))"

section \<open>The two together\<close>

fun config_name_loop :: "octo_env \<Rightarrow> input \<Rightarrow> DynamicConfig_Rule list \<Rightarrow> string go" where
  "config_name_loop E inputMap [] = Ok []"
| "config_name_loop E inputMap (rule # rules) =
     (case EvalCondition (oe_cel E) (dr_Condition rule) inputMap of
        Panic \<Rightarrow> Panic
      | Fail e \<Rightarrow> config_name_loop E inputMap rules
      | Ok isMatch \<Rightarrow> if isMatch then Ok (dr_ConfigName rule) else config_name_loop E inputMap rules)"

definition getServiceConfigName :: "octo_env \<Rightarrow> RequestContext \<Rightarrow> string go" where
  "getServiceConfigName E reqCtx =
     go_bind (deref (rc_Service reqCtx)) (\<lambda>svc.
       case sv_DynamicConfig (svc_Spec svc) of
         None \<Rightarrow> Ok []
       | Some d \<Rightarrow>
           if length (dc_Rules d) < 1 then Ok []
           else go_bind (oe_ctxMap E reqCtx) (\<lambda>m. config_name_loop E [(''ctx'', JMap m)] (dc_Rules d)))"

record AuthenticateAndAuthorizeResponse =
  aa_IsAuthenticated :: bool
  aa_IsAuthorized :: bool
  aa_RequestContext :: "RequestContext option"
  aa_Reason :: "Reason option"
  aa_ServiceConfigName :: string

definition unauthenticated_response :: AuthenticateAndAuthorizeResponse where
  "unauthenticated_response =
     \<lparr>aa_IsAuthenticated = False, aa_IsAuthorized = False, aa_RequestContext = None,
      aa_Reason = None, aa_ServiceConfigName = []\<rparr>"

fun is_unauthenticated :: "error \<Rightarrow> bool" where
  "is_unauthenticated (UnauthenticatedErr s) = True"
| "is_unauthenticated _ = False"

definition AuthenticateAndAuthorize ::
  "octo_env \<Rightarrow> int \<Rightarrow> PolicyTrigger list \<Rightarrow> DoAuthenticateAndAuthorizeRequest \<Rightarrow> Cache \<Rightarrow>
   AuthenticateAndAuthorizeResponse go \<times> Cache" where
  "AuthenticateAndAuthorize E now pts req c =
     (case authenticate E now (Some req) c of
        (Panic, c1) \<Rightarrow> (Panic, c1)
      | (Fail e, c1) \<Rightarrow> (if is_unauthenticated e then Ok unauthenticated_response else Fail e, c1)
      | (Ok di, c1) \<Rightarrow>
          (case go_bind (deref (da_Request req)) (\<lambda>dq. go_bind (deref (da_Service req)) (\<lambda>v.
                  getReqCtx di (dq_Request dq) v c1)) of
             Panic \<Rightarrow> (Panic, c1)
           | Fail e \<Rightarrow> (Fail e, c1)
           | Ok reqCtx \<Rightarrow>
               go_seq (isAuthorized E now pts (Some reqCtx) c1) (\<lambda>(authorized, reason) c2.
                 (case getServiceConfigName E reqCtx of
                    Panic \<Rightarrow> (Panic, c2)
                  | r \<Rightarrow>
                      (Ok \<lparr>aa_IsAuthenticated = True, aa_IsAuthorized = authorized,
                          aa_RequestContext = Some reqCtx, aa_Reason = reason,
                          aa_ServiceConfigName = (case r of Ok n \<Rightarrow> n | _ \<Rightarrow> [])\<rparr>, c2)))))"

section \<open>The internal service\<close>

definition load_service :: "octo_env \<Rightarrow> string \<Rightarrow> Cache \<Rightarrow> Service go \<times> Cache" where
  "load_service E uid c =
     (case GetService c uid of
        Ok v \<Rightarrow> (Ok v, c)
      | Panic \<Rightarrow> (Panic, c)
      | Fail e \<Rightarrow>
          if e \<noteq> ErrNotFound then (Fail (InternalWithErr e), c)
          else (case oe_GetService E uid of
                  Ok v \<Rightarrow> (Ok v, snd (SetService (oe_put E) v c))
                | r \<Rightarrow> (r, c)))"

definition internal_AuthenticateAndAuthorize ::
  "octo_env \<Rightarrow> int \<Rightarrow> PolicyTrigger list \<Rightarrow> string \<Rightarrow> DownstreamRequest option \<Rightarrow> Cache \<Rightarrow>
   AuthenticateAndAuthorizeResponse go \<times> Cache" where
  "internal_AuthenticateAndAuthorize E now pts serviceUID req c =
     go_seq (load_service E serviceUID c) (\<lambda>svc c1.
       case AuthenticateAndAuthorize E now pts \<lparr>da_Service = Some svc, da_Request = req\<rparr> c1 of
         (Fail e, c2) \<Rightarrow> (Fail (InternalWithErr e), c2)
       | r \<Rightarrow> r)"

definition GetDownstreamFromSessionUID :: "Cache \<Rightarrow> string \<Rightarrow> DownstreamInfo go" where
  "GetDownstreamFromSessionUID c uid =
     (case GetDownstreamInfoBySessionIdentifier c uid of
        Fail e \<Rightarrow> if e = SessionNotFound then Fail NotFound else Fail (InternalWithErr e)
      | r \<Rightarrow> r)"

definition internal_Authorize ::
  "octo_env \<Rightarrow> int \<Rightarrow> PolicyTrigger list \<Rightarrow> string \<Rightarrow> string \<Rightarrow> Request option \<Rightarrow> Cache \<Rightarrow>
   (bool \<times> Reason option) go \<times> Cache" where
  "internal_Authorize E now pts serviceUID sessionUID req c =
     go_seq (load_service E serviceUID c) (\<lambda>svc c1.
       case GetDownstreamInfoBySessionIdentifier c1 sessionUID of
         Panic \<Rightarrow> (Panic, c1)
       | Fail e \<Rightarrow> (Fail e, c1)
       | Ok di \<Rightarrow>
           (case getReqCtx di req svc c1 of
              Panic \<Rightarrow> (Panic, c1)
            | Fail e \<Rightarrow> (Fail e, c1)
            | Ok reqCtx \<Rightarrow> isAuthorized E now pts (Some reqCtx) c1))"

end
