(* ===== verification/PolicyRulesFacts.thy ===== *)
theory PolicyRulesFacts imports PolicyRules begin

text \<open>
  What the collection of rules guarantees: the named policies that contribute are those that are loaded for a name which an owner or
  a trigger asks for, and that are enabled and enforced for the request; each contributes once however often it is asked for; every
  other rule is one of an enabled and enforced inline policy of an owner or a trigger; and what the preconditions of triggers mean.
\<close>

section \<open>Where rules may come from\<close>

definition active :: "octo_env \<Rightarrow> input \<Rightarrow> Policy_Spec \<Rightarrow> input \<Rightarrow> bool" where
  "active E m spec attrs \<longleftrightarrow>
     \<not> ps_IsDisabled spec \<and> oe_attrsMap E (ps_Attrs spec) = Ok attrs \<and>
     shouldEnforcePolicy E spec m attrs = Ok True"

lemma active_unique: "active E m spec a \<Longrightarrow> active E m spec b \<Longrightarrow> a = b"
  by (simp add: active_def)

text \<open>The names that the policies of an owner or a trigger stand for, and its inline policies.\<close>

type_synonym source = "string list \<times> (InlinePolicy \<times> ObjectReference option) list"

definition requested :: "string list \<Rightarrow> string set" where
  "requested names = (\<Union>name\<in>set names. case GetNameAndParents name of Ok l \<Rightarrow> set l | _ \<Rightarrow> {})"

definition owner_source :: "Authorization option \<Rightarrow> ObjectReference option \<Rightarrow> source" where
  "owner_source az ref =
     (case az of None \<Rightarrow> ([], []) | Some a \<Rightarrow> (az_Policies a, map (\<lambda>p. (p, ref)) (az_InlinePolicies a)))"

definition trigger_source :: "PolicyTrigger \<Rightarrow> source" where
  "trigger_source pt = (pt_Policies pt, map (\<lambda>p. (p, pt_OwnerRef pt)) (pt_InlinePolicies pt))"

definition user_source :: "User \<Rightarrow> source" where
  "user_source u = owner_source (us_Authorization (ur_Spec u)) (GetObjectReference (ur_ApiVersion u) (ur_Kind u) (Some (ur_Metadata u)))"

definition group_source :: "Group \<Rightarrow> source" where
  "group_source g = owner_source (gr_Authorization g) (GetObjectReference (gr_ApiVersion g) (gr_Kind g) (Some (gr_Metadata g)))"

definition service_source :: "Service \<Rightarrow> source" where
  "service_source v =
     owner_source (sv_Authorization (svc_Spec v)) (GetObjectReference (svc_ApiVersion v) (svc_Kind v) (Some (svc_Metadata v)))"

definition namespace_of :: "Service \<Rightarrow> string" where
  "namespace_of v = (case sx_NamespaceRef (svc_Status v) of None \<Rightarrow> [] | Some ref \<Rightarrow> or_Name ref)"

definition namespace_sources :: "octo_env \<Rightarrow> Cache \<Rightarrow> Service \<Rightarrow> source list" where
  "namespace_sources E c v =
     (case fst (getNamespaceFromName E (namespace_of v) c) of
        Ok ns \<Rightarrow> [owner_source (na_Authorization ns) (GetObjectReference (na_ApiVersion ns) (na_Kind ns) (Some (na_Metadata ns)))]
      | _ \<Rightarrow> [])"

definition session_source :: "Session \<Rightarrow> source" where
  "session_source s =
     owner_source (ss_Authorization (se_Spec s)) (GetObjectReference (se_ApiVersion s) (se_Kind s) (Some (se_Metadata s)))"

definition device_source :: "Device \<Rightarrow> source" where
  "device_source d =
     owner_source (ds_Authorization (dv_Spec d)) (GetObjectReference (dv_ApiVersion d) (dv_Kind d) (Some (dv_Metadata d)))"

definition list_of :: "'a option \<Rightarrow> 'a list" where
  "list_of x = (case x of None \<Rightarrow> [] | Some y \<Rightarrow> [y])"

text \<open>The owners of a request, its namespace being the one that is loaded for the name in the Service, and the triggers that apply.\<close>

definition owners :: "octo_env \<Rightarrow> Cache \<Rightarrow> RequestContext \<Rightarrow> source list" where
  "owners E c i =
     map user_source (list_of (rc_User i)) @ map group_source (rc_Groups i) @ map service_source (list_of (rc_Service i)) @
     concat (map (namespace_sources E c) (list_of (rc_Service i))) @ map session_source (list_of (rc_Session i)) @
     map device_source (list_of (rc_Device i))"

definition triggers :: "octo_env \<Rightarrow> int \<Rightarrow> RequestContext \<Rightarrow> input \<Rightarrow> PolicyTrigger list \<Rightarrow> source list" where
  "triggers E now i m pts =
     map trigger_source
       (filter (\<lambda>pt. \<not> pt_IsDisabled pt \<and> evalPreCondition E now i [(''ctx'', JMap m)] (pt_PreCondition pt) = Ok True) pts)"

definition names_in :: "source list \<Rightarrow> string set" where
  "names_in srcs = (\<Union>s\<in>set srcs. requested (fst s))"

text \<open>What a name brings in, with the attributes of the policy; and what an inline policy does.\<close>

definition contributes :: "octo_env \<Rightarrow> input \<Rightarrow> Cache \<Rightarrow> string \<Rightarrow> Policy \<times> input \<Rightarrow> bool" where
  "contributes E m c n pa \<longleftrightarrow> fst (getPolicyFromName E n c) = Ok (fst pa) \<and> active E m (pol_Spec (fst pa)) (snd pa)"

definition inline_contributes :: "octo_env \<Rightarrow> input \<Rightarrow> InlinePolicy \<times> ObjectReference option \<Rightarrow> policyRule \<Rightarrow> bool" where
  "inline_contributes E m pr r \<longleftrightarrow>
     (\<exists>spec attrs. ip_Spec (fst pr) = Some spec \<and> active E m spec attrs \<and>
       (\<exists>rule\<in>set (ps_Rules spec). r = \<lparr>pr_rule = rule, pr_policyRef = None,
          pr_inline = Some \<lparr>in_name = ip_Name (fst pr), in_resourceRef = snd pr\<rparr>, pr_attrs = attrs\<rparr>))"

definition inline_in :: "octo_env \<Rightarrow> input \<Rightarrow> source list \<Rightarrow> policyRule set" where
  "inline_in E m srcs = {r. \<exists>s\<in>set srcs. \<exists>pr\<in>set (snd s). inline_contributes E m pr r}"

definition policy_name :: "Policy \<times> input \<Rightarrow> string" where
  "policy_name pa = md_Name (pol_Metadata (fst pa))"

definition named_rules :: "policyRule list \<Rightarrow> policyRule list" where
  "named_rules rs = filter (\<lambda>r. pr_inline r = None) rs"

definition inlined_rules :: "policyRule list \<Rightarrow> policyRule set" where
  "inlined_rules rs = {r \<in> set rs. pr_inline r \<noteq> None}"

definition policies_rules :: "(Policy \<times> input) list \<Rightarrow> policyRule list" where
  "policies_rules ps = concat (map (\<lambda>pa. rules_of_policy (fst pa) (snd pa)) ps)"

lemma requested_simps [simp]:
  "requested [] = {}"
  "requested (name # names) = (case GetNameAndParents name of Ok l \<Rightarrow> set l | _ \<Rightarrow> {}) \<union> requested names"
  by (simp_all add: requested_def)

lemma in_append [simp]:
  "names_in (xs @ ys) = names_in xs \<union> names_in ys" "inline_in E m (xs @ ys) = inline_in E m xs \<union> inline_in E m ys"
  "names_in [] = {}" "inline_in E m [] = {}" "names_in (x # xs) = requested (fst x) \<union> names_in xs"
  "inline_in E m (x # xs) = {r. \<exists>pr\<in>set (snd x). inline_contributes E m pr r} \<union> inline_in E m xs"
  by (auto simp: names_in_def inline_in_def)

lemma rules_append [simp]:
  "named_rules (xs @ ys) = named_rules xs @ named_rules ys" "inlined_rules (xs @ ys) = inlined_rules xs \<union> inlined_rules ys"
  "policies_rules (ps @ qs) = policies_rules ps @ policies_rules qs"
  "named_rules [] = []" "inlined_rules [] = {}" "policies_rules [] = []"
  by (auto simp: named_rules_def inlined_rules_def policies_rules_def)

section \<open>Lookups while the cache grows\<close>

text \<open>
  What is loaded goes into the cache, and changes no later lookup of the names in question, as long as a policy is loaded under its own
  name and none of the names is the UID of a policy.
\<close>

definition names_apart :: "octo_env \<Rightarrow> Cache \<Rightarrow> string set \<Rightarrow> bool" where
  "names_apart E c N \<longleftrightarrow>
     (\<forall>n\<in>N. \<forall>p. fst (getPolicyFromName E n c) = Ok p \<longrightarrow> md_Name (pol_Metadata p) = n \<and> md_Uid (pol_Metadata p) \<notin> N)"

definition same_lookups :: "octo_env \<Rightarrow> string set \<Rightarrow> string \<Rightarrow> Cache \<Rightarrow> Cache \<Rightarrow> bool" where
  "same_lookups E N ns c c' \<longleftrightarrow>
     (\<forall>n\<in>N. fst (getPolicyFromName E n c') = fst (getPolicyFromName E n c)) \<and>
     fst (getNamespaceFromName E ns c') = fst (getNamespaceFromName E ns c)"

lemma same_lookups_refl: "same_lookups E N ns c c"
  by (simp add: same_lookups_def)

lemma setUnder_lookup:
  "getResource (snd (setUnder pe md [] (md_Name (md x)) x b)) k \<in> {Ok x, getResource b k}"
  "k \<noteq> md_Uid (md x) \<Longrightarrow> k \<noteq> md_Name (md x) \<Longrightarrow>
    getResource (snd (setUnder pe md [] (md_Name (md x)) x b)) k = getResource b k"
  by (auto simp: setUnder_def setResource_def getResource_def Let_def split: option.splits)

lemma SetPolicy_lookup:
  "GetPolicy (snd (SetPolicy pe p c)) k \<in> {Ok p, GetPolicy c k}"
  "k \<noteq> md_Uid (pol_Metadata p) \<Longrightarrow> k \<noteq> md_Name (pol_Metadata p) \<Longrightarrow> GetPolicy (snd (SetPolicy pe p c)) k = GetPolicy c k"
  "GetNamespace (snd (SetPolicy pe p c)) k = GetNamespace c k"
  using setUnder_lookup [where pe = pe and md = pol_Metadata and x = p and b = "ca_Policy c" and k = k]
  by (simp_all add: SetPolicy_def GetPolicy_def GetNamespace_def split_beta)

lemma SetNamespace_lookup:
  "GetNamespace (snd (SetNamespace pe n c)) k \<in> {Ok n, GetNamespace c k}" "GetPolicy (snd (SetNamespace pe n c)) k = GetPolicy c k"
  using setUnder_lookup(1) [where pe = pe and md = na_Metadata and x = n and b = "ca_Namespace c" and k = k]
  by (simp_all add: SetNamespace_def GetPolicy_def GetNamespace_def split_beta)

lemma policy_lookup_by: "GetPolicy c' n = GetPolicy c n \<Longrightarrow> fst (getPolicyFromName E n c') = fst (getPolicyFromName E n c)"
  by (simp add: getPolicyFromName_def split: go.split)

lemma namespace_lookup_by:
  "GetNamespace c' n = GetNamespace c n \<Longrightarrow> fst (getNamespaceFromName E n c') = fst (getNamespaceFromName E n c)"
  by (simp add: getNamespaceFromName_def split: go.split)

lemma policy_loaded:
  assumes same: "same_lookups E N ns c0 c" and apart: "names_apart E c0 N" and n: "n \<in> N" and got: "getPolicyFromName E n c = (r, c')"
  shows "r = fst (getPolicyFromName E n c0)" and "same_lookups E N ns c0 c'"
proof -
  show r: "r = fst (getPolicyFromName E n c0)" using same n got by (auto simp: same_lookups_def)
  show "same_lookups E N ns c0 c'"
  proof (cases "c' = c")
    case False
    then obtain p where p: "r = Ok p" "GetPolicy c n = Fail ErrNotFound" "oe_GetPolicy E n = Ok p" "c' = snd (SetPolicy (oe_put E) p c)"
      using got by (auto simp: getPolicyFromName_def IsErrNotFound_def split: go.splits if_splits dest: sym [of "Ok _"])
    with r apart n have md: "md_Name (pol_Metadata p) = n" "md_Uid (pol_Metadata p) \<notin> N" by (auto simp: names_apart_def)
    have "fst (getPolicyFromName E k c') = fst (getPolicyFromName E k c)" if k: "k \<in> N" for k
    proof (cases "k = n")
      case True
      show ?thesis
        using SetPolicy_lookup(1) [of "oe_put E" p c n] p got
        by (auto simp: True getPolicyFromName_def IsErrNotFound_def)
    next
      case other: False
      have "k \<noteq> md_Uid (pol_Metadata p)" using k md(2) by blast
      with other md(1) show ?thesis unfolding p(4) by (intro policy_lookup_by SetPolicy_lookup(2)) auto
    qed
    moreover have "fst (getNamespaceFromName E ns c') = fst (getNamespaceFromName E ns c)"
      unfolding p(4) by (rule namespace_lookup_by [OF SetPolicy_lookup(3)])
    ultimately show ?thesis using same by (simp add: same_lookups_def)
  qed (use same in simp)
qed

lemma namespace_loaded:
  assumes same: "same_lookups E N ns c0 c" and got: "getNamespaceFromName E ns c = (r, c')"
  shows "r = fst (getNamespaceFromName E ns c0)" and "same_lookups E N ns c0 c'"
proof -
  show "r = fst (getNamespaceFromName E ns c0)" using same got by (auto simp: same_lookups_def)
  show "same_lookups E N ns c0 c'"
  proof (cases "c' = c")
    case False
    then obtain x where x: "GetNamespace c ns = Fail ErrNotFound" "oe_GetNamespace E ns = Ok x" "c' = snd (SetNamespace (oe_put E) x c)"
      using got by (auto simp: getNamespaceFromName_def IsErrNotFound_def split: go.splits if_splits dest: sym [of "Ok _"])
    have "fst (getNamespaceFromName E ns c') = fst (getNamespaceFromName E ns c)"
      using SetNamespace_lookup(1) [of "oe_put E" x c ns] x by (auto simp: getNamespaceFromName_def IsErrNotFound_def)
    moreover have "fst (getPolicyFromName E k c') = fst (getPolicyFromName E k c)" for k
      unfolding x(3) by (rule policy_lookup_by [OF SetNamespace_lookup(2)])
    ultimately show ?thesis using same by (simp add: same_lookups_def)
  qed (use same in simp)
qed

section \<open>What a step collects\<close>

text \<open>
  A step for the owners collects exactly the policies that its names bring in, each one unless it has been used before, and marks
  them as used; a step for triggers, which may stop half-way, collects some of them. Both keep the lookups.
\<close>

definition exactly ::
  "octo_env \<Rightarrow> input \<Rightarrow> Cache \<Rightarrow> string set \<Rightarrow> policyRule set \<Rightarrow> string list \<Rightarrow> policyRule list \<Rightarrow> string list \<Rightarrow> bool" where
  "exactly E m c N I used rs used' \<longleftrightarrow>
     (\<exists>ps. named_rules rs = policies_rules ps \<and> used' = used @ map policy_name ps \<and> distinct (map policy_name ps) \<and>
       set (map policy_name ps) \<inter> set used = {} \<and> (\<forall>pa\<in>set ps. \<exists>n\<in>N. contributes E m c n pa) \<and>
       (\<forall>n\<in>N. \<forall>pa. contributes E m c n pa \<longrightarrow> policy_name pa \<in> set used')) \<and> inlined_rules rs = I"

definition loosely ::
  "octo_env \<Rightarrow> input \<Rightarrow> Cache \<Rightarrow> string set \<Rightarrow> policyRule set \<Rightarrow> string list \<Rightarrow> policyRule list \<Rightarrow> string list \<Rightarrow> bool" where
  "loosely E m c N I used rs used' \<longleftrightarrow>
     (\<exists>ps. named_rules rs = policies_rules ps \<and> set used \<union> set (map policy_name ps) \<subseteq> set used' \<and> distinct (map policy_name ps) \<and>
       set (map policy_name ps) \<inter> set used = {} \<and> (\<forall>pa\<in>set ps. \<exists>n\<in>N. contributes E m c n pa)) \<and> inlined_rules rs \<subseteq> I"

definition step_ok ::
  "octo_env \<Rightarrow> string set \<Rightarrow> string \<Rightarrow> Cache \<Rightarrow> (string list \<Rightarrow> policyRule list \<Rightarrow> string list \<Rightarrow> bool) \<Rightarrow> string list \<Rightarrow>
   policyRule list go \<times> collect_state \<Rightarrow> bool" where
  "step_ok E A ns c P used res \<longleftrightarrow>
     same_lookups E A ns c (snd (snd res)) \<and> set used \<subseteq> set (fst (snd res)) \<and>
     (\<forall>rs. fst res = Ok rs \<longrightarrow> P used rs (fst (snd res)))"

lemma exactly_loosely: "exactly E m c N I used rs used' \<Longrightarrow> loosely E m c N I used rs used'"
  unfolding exactly_def loosely_def by auto

lemma exactly_append:
  assumes "exactly E m c N I u rs u'" and "exactly E m c N' I' u' rs' u''"
  shows "exactly E m c (N \<union> N') (I \<union> I') u (rs @ rs') u''"
proof -
  obtain ps where ps: "named_rules rs = policies_rules ps" "u' = u @ map policy_name ps" "distinct (map policy_name ps)"
    "set (map policy_name ps) \<inter> set u = {}" "\<forall>pa\<in>set ps. \<exists>n\<in>N. contributes E m c n pa"
    "\<forall>n\<in>N. \<forall>pa. contributes E m c n pa \<longrightarrow> policy_name pa \<in> set u'"
    using assms(1) by (auto simp: exactly_def)
  obtain qs where qs: "named_rules rs' = policies_rules qs" "u'' = u' @ map policy_name qs" "distinct (map policy_name qs)"
    "set (map policy_name qs) \<inter> set u' = {}" "\<forall>pa\<in>set qs. \<exists>n\<in>N'. contributes E m c n pa"
    "\<forall>n\<in>N'. \<forall>pa. contributes E m c n pa \<longrightarrow> policy_name pa \<in> set u''"
    using assms(2) by (auto simp: exactly_def)
  have "named_rules (rs @ rs') = policies_rules (ps @ qs)" using ps(1) qs(1) by simp
  moreover have "u'' = u @ map policy_name (ps @ qs)" using ps(2) qs(2) by simp
  moreover have "distinct (map policy_name (ps @ qs))" "set (map policy_name (ps @ qs)) \<inter> set u = {}"
    using ps(2-4) qs(3,4) by auto
  moreover have "\<forall>pa\<in>set (ps @ qs). \<exists>n\<in>N \<union> N'. contributes E m c n pa" using ps(5) qs(5) by auto
  moreover have "\<forall>n\<in>N \<union> N'. \<forall>pa. contributes E m c n pa \<longrightarrow> policy_name pa \<in> set u''" using ps(6) qs(6) qs(2) by auto
  moreover have "inlined_rules (rs @ rs') = I \<union> I'" using assms by (simp add: exactly_def)
  ultimately show ?thesis unfolding exactly_def by blast
qed

lemma loosely_append:
  assumes "loosely E m c N I u rs u'" and "loosely E m c N' I' u' rs' u''"
  shows "loosely E m c (N \<union> N') (I \<union> I') u (rs @ rs') u''"
proof -
  obtain ps where ps: "named_rules rs = policies_rules ps" "set u \<union> set (map policy_name ps) \<subseteq> set u'" "distinct (map policy_name ps)"
    "set (map policy_name ps) \<inter> set u = {}" "\<forall>pa\<in>set ps. \<exists>n\<in>N. contributes E m c n pa"
    using assms(1) by (auto simp: loosely_def)
  obtain qs where qs: "named_rules rs' = policies_rules qs" "set u' \<union> set (map policy_name qs) \<subseteq> set u''" "distinct (map policy_name qs)"
    "set (map policy_name qs) \<inter> set u' = {}" "\<forall>pa\<in>set qs. \<exists>n\<in>N'. contributes E m c n pa"
    using assms(2) by (auto simp: loosely_def)
  have "named_rules (rs @ rs') = policies_rules (ps @ qs)" using ps(1) qs(1) by simp
  moreover have "set u \<union> set (map policy_name (ps @ qs)) \<subseteq> set u''" using ps(2) qs(2) by auto
  moreover
  have disj: "set (map policy_name ps) \<inter> set (map policy_name qs) = {}" "set (map policy_name qs) \<inter> set u = {}"
    using ps(2) qs(4) by blast+
  have "distinct (map policy_name (ps @ qs))" "set (map policy_name (ps @ qs)) \<inter> set u = {}"
    using disj ps(3,4) qs(3) by (simp_all add: Int_Un_distrib2)
  moreover have "\<forall>pa\<in>set (ps @ qs). \<exists>n\<in>N \<union> N'. contributes E m c n pa" using ps(5) qs(5) by auto
  moreover have "inlined_rules (rs @ rs') \<subseteq> I \<union> I'" using assms by (auto simp: loosely_def)
  ultimately show ?thesis unfolding loosely_def by blast
qed

lemma exactly_nothing [simp]: "exactly E m c {} {} used [] used"
  by (simp add: exactly_def exI [of _ "[]"])

lemma loosely_nothing: "set used \<subseteq> set used' \<Longrightarrow> loosely E m c N I used [] used'"
  unfolding loosely_def by (intro conjI exI [of _ "[]"]) simp_all

lemma step_and_then:
  assumes "step_ok E A ns c P used R" and "\<And>used' c'. same_lookups E A ns c c' \<Longrightarrow> step_ok E A ns c Q used' (f (used', c'))"
    and "\<And>rs u' rs' u''. P used rs u' \<Longrightarrow> Q u' rs' u'' \<Longrightarrow> PQ used (rs @ rs') u''"
  shows "step_ok E A ns c PQ used (and_then R f)"
proof -
  obtain r u' c' where R: "R = (r, (u', c'))" by (cases R) auto
  obtain r2 u2 c2 where f: "f (u', c') = (r2, (u2, c2))" by (cases "f (u', c')") auto
  show ?thesis
    using assms(1,3) assms(2) [of c' u'] by (cases r) (auto simp: R f and_then_def step_ok_def)
qed

lemma step_exactly:
  assumes "step_ok E A ns c (exactly E m c N I) used R"
    and "\<And>used' c'. same_lookups E A ns c c' \<Longrightarrow> step_ok E A ns c (exactly E m c N' I') used' (f (used', c'))"
  shows "step_ok E A ns c (exactly E m c (N \<union> N') (I \<union> I')) used (and_then R f)"
proof (rule step_and_then [where P = "exactly E m c N I" and Q = "exactly E m c N' I'"])
  show "step_ok E A ns c (exactly E m c N I) used R" by (rule assms(1))
  show "step_ok E A ns c (exactly E m c N' I') used' (f (used', c'))" if "same_lookups E A ns c c'" for used' c'
    by (rule assms(2) [OF that])
qed (rule exactly_append)

lemma step_mono: "step_ok E A ns c P used R \<Longrightarrow> (\<And>rs u'. P used rs u' \<Longrightarrow> Q used rs u') \<Longrightarrow> step_ok E A ns c Q used R"
  by (auto simp: step_ok_def)

section \<open>Every collecting step\<close>

lemma rules_of_policy_named [simp]:
  "named_rules (rules_of_policy p attrs) = rules_of_policy p attrs" "inlined_rules (rules_of_policy p attrs) = {}"
  by (auto simp: named_rules_def inlined_rules_def rules_of_policy_def filter_id_conv)

lemma step_collect_policy:
  assumes same: "same_lookups E A ns c0 c" and apart: "names_apart E c0 A" and n: "n \<in> A"
  shows "step_ok E A ns c0 (exactly E m c0 {n} {}) used (collect_policy E m n (used, c))"
proof -
  obtain r c' where r: "getPolicyFromName E n c = (r, c')" by fastforce
  note loaded = policy_loaded [OF same apart n r]
  have idle: "exactly E m c0 {n} {} used [] used" if "\<And>pa. contributes E m c0 n pa \<Longrightarrow> policy_name pa \<in> set used"
    using that by (simp add: exactly_def exI [of _ "[]"])
  show ?thesis
  proof (cases "\<exists>pa. contributes E m c0 n pa")
    case True
    then obtain pol attrs where pa: "contributes E m c0 n (pol, attrs)" by auto
    then have pol: "r = Ok pol" "active E m (pol_Spec pol) attrs" using loaded(1) by (simp_all add: contributes_def)
    have only: "pa = (pol, attrs)" if "contributes E m c0 n pa" for pa
      using that pa by (auto simp: contributes_def active_def prod_eq_iff)
    have one: "exactly E m c0 {n} {} used (rules_of_policy pol attrs) (used @ [md_Name (pol_Metadata pol)])"
      if "md_Name (pol_Metadata pol) \<notin> set used"
    proof -
      have name: "policy_name (pol, attrs) = md_Name (pol_Metadata pol)" by (simp add: policy_name_def)
      have "policy_name pa = md_Name (pol_Metadata pol)" if "contributes E m c0 n pa" for pa
        using only [OF that] by (simp only: name)
      then show ?thesis
        unfolding exactly_def using that pa name
        by (intro conjI exI [of _ "[(pol, attrs)]"]) (simp_all add: policies_rules_def)
    qed
    have result: "collect_policy E m n (used, c) =
        (if md_Name (pol_Metadata pol) \<in> set used then (Ok [], (used, c'))
         else (Ok (rules_of_policy pol attrs), (used @ [md_Name (pol_Metadata pol)], c')))"
      using pol by (simp add: collect_policy_def r active_def)
    show ?thesis
    proof (cases "md_Name (pol_Metadata pol) \<in> set used")
      case True
      have "exactly E m c0 {n} {} used [] used"
      proof (rule idle)
        fix pa
        assume "contributes E m c0 n pa"
        from only [OF this] show "policy_name pa \<in> set used" using True by (simp add: policy_name_def)
      qed
      with True loaded(2) show ?thesis by (simp add: result step_ok_def)
    next
      case False
      from one [OF False] False loaded(2) show ?thesis by (simp add: result step_ok_def subset_insertI)
    qed
  next
    case False
    have skipped: "exactly E m c0 {n} {} used [] used" by (rule idle) (use False in blast)
    have "\<not> active E m (pol_Spec pol) attrs" if "r = Ok pol" for pol attrs
      using loaded(1) that False by (auto simp: contributes_def)
    then have "collect_policy E m n (used, c) \<in> {(Ok [], (used, c')), (Panic, (used, c'))}"
      by (cases r) (auto simp: collect_policy_def r active_def split: go.splits)
    then show ?thesis using loaded(2) skipped by (auto simp: step_ok_def)
  qed
qed

lemma step_collect_names:
  assumes "names_apart E c0 A" and "set l \<subseteq> A" and "same_lookups E A ns c0 c"
  shows "step_ok E A ns c0 (exactly E m c0 (set l) {}) used (collect_names E m l (used, c))"
  using assms(2,3)
proof (induction l arbitrary: used c)
  case (Cons n l)
  have "step_ok E A ns c0 (exactly E m c0 ({n} \<union> set l) ({} \<union> {})) used (and_then (collect_policy E m n (used, c)) (collect_names E m l))"
    by (rule step_exactly [OF step_collect_policy [OF Cons.prems(2) assms(1)] Cons.IH]) (use Cons.prems in simp_all)
  then show ?case by simp
qed (simp add: step_ok_def)

lemma step_collect_policies:
  assumes "names_apart E c0 A" and "requested names \<subseteq> A" and "same_lookups E A ns c0 c"
  shows "step_ok E A ns c0 (exactly E m c0 (requested names) {}) used (collect_policies E m names (used, c))"
  using assms(2,3)
proof (induction names arbitrary: used c)
  case (Cons name names)
  show ?case
  proof (cases "GetNameAndParents name")
    case (Ok l)
    with Cons.prems have l: "set l \<subseteq> A" "requested names \<subseteq> A" by simp_all
    have "step_ok E A ns c0 (exactly E m c0 (set l \<union> requested names) ({} \<union> {})) used
        (and_then (collect_names E m l (used, c)) (collect_policies E m names))"
      by (rule step_exactly [OF step_collect_names [OF assms(1) l(1) Cons.prems(2)] Cons.IH [OF l(2)]])
    then show ?thesis by (simp add: Ok)
  qed (use Cons.prems in \<open>simp_all add: step_ok_def\<close>)
qed (simp add: step_ok_def)

lemma inline_policy_rules_set:
  assumes "inline_policy_rules E m pr = Ok rs"
  shows "set rs = {r. inline_contributes E m pr r}"
proof -
  obtain p ref where pr: "pr = (p, ref)" by (cases pr)
  from assms pr obtain spec where spec: "ip_Spec p = Some spec" by (cases "ip_Spec p") (auto simp: inline_policy_rules_def)
  show ?thesis
    using assms
    by (auto simp: pr spec inline_policy_rules_def inline_contributes_def active_def split: if_splits go.splits)
qed

lemma inline_rules_set:
  assumes "inline_rules E m prs = Ok rs"
  shows "set rs = {r. \<exists>pr\<in>set prs. inline_contributes E m pr r}"
proof -
  from assms obtain yss where yss: "go_mapM (inline_policy_rules E m) prs = Ok yss" "rs = concat yss" by (auto simp: inline_rules_def)
  have "set (concat yss) = {r. \<exists>pr\<in>set prs. inline_contributes E m pr r}"
    using yss(1)
  proof (induction prs arbitrary: yss)
    case (Cons pr prs)
    then obtain ys zs where y: "yss = ys # zs" "inline_policy_rules E m pr = Ok ys" "go_mapM (inline_policy_rules E m) prs = Ok zs" by auto
    have "set (concat yss) = set ys \<union> set (concat zs)" by (simp add: y(1))
    also have "\<dots> = {r. \<exists>pr\<in>set (pr # prs). inline_contributes E m pr r}"
      unfolding inline_policy_rules_set [OF y(2)] Cons.IH [OF y(3)] by auto
    finally show ?case .
  qed simp
  then show ?thesis by (simp add: yss(2))
qed

lemma step_inline:
  assumes "same_lookups E A ns c0 c"
  shows "step_ok E A ns c0 (exactly E m c0 {} {r. \<exists>pr\<in>set prs. inline_contributes E m pr r}) used (inline_rules E m prs, (used, c))"
proof -
  have "exactly E m c0 {} {r. \<exists>pr\<in>set prs. inline_contributes E m pr r} used rs used" if "inline_rules E m prs = Ok rs" for rs
  proof -
    have set: "set rs = {r. \<exists>pr\<in>set prs. inline_contributes E m pr r}" by (rule inline_rules_set [OF that])
    have "pr_inline r \<noteq> None" if "r \<in> set rs" for r using that by (auto simp: set inline_contributes_def)
    then have "named_rules rs = []" "inlined_rules rs = set rs" by (auto simp: named_rules_def inlined_rules_def filter_empty_conv)
    then show ?thesis using set by (simp add: exactly_def exI [of _ "[]"])
  qed
  with assms show ?thesis by (simp add: step_ok_def)
qed

lemma step_source:
  assumes "names_apart E c0 A" and "requested names \<subseteq> A" and "same_lookups E A ns c0 c"
  shows "step_ok E A ns c0 (exactly E m c0 (requested names) {r. \<exists>pr\<in>set (map (\<lambda>p. (p, ref)) inlines). inline_contributes E m pr r}) used
    (getResourcePolicyRules E m names inlines ref (used, c))"
proof -
  have "step_ok E A ns c0 (exactly E m c0 (requested names \<union> {}) ({} \<union> {r. \<exists>pr\<in>set (map (\<lambda>p. (p, ref)) inlines). inline_contributes E m pr r}))
      used (getResourcePolicyRules E m names inlines ref (used, c))"
    unfolding getResourcePolicyRules_def by (rule step_exactly [OF step_collect_policies [OF assms]]) (simp only: prod.case step_inline)
  then show ?thesis by simp
qed

lemma step_owner:
  assumes "names_apart E c0 A" and "names_in [owner_source az ref] \<subseteq> A" and "same_lookups E A ns c0 c"
  shows "step_ok E A ns c0 (exactly E m c0 (names_in [owner_source az ref]) (inline_in E m [owner_source az ref])) used
    (owner_rules E m az ref (used, c))"
proof (cases az)
  case None
  then show ?thesis using assms(3) by (simp add: owner_rules_def owner_source_def step_ok_def)
next
  case (Some a)
  then show ?thesis using step_source [OF assms(1) _ assms(3), of "az_Policies a" m ref "az_InlinePolicies a"] assms(2)
    by (simp add: owner_rules_def owner_source_def)
qed

lemma step_groups:
  assumes "names_apart E c0 A" and "names_in (map group_source gs) \<subseteq> A" and "same_lookups E A ns c0 c"
  shows "step_ok E A ns c0 (exactly E m c0 (names_in (map group_source gs)) (inline_in E m (map group_source gs))) used
    (group_rules E m gs (used, c))"
  using assms(2,3)
proof (induction gs arbitrary: used c)
  case (Cons g gs)
  have g: "names_in [group_source g] \<subseteq> A" "names_in (map group_source gs) \<subseteq> A" using Cons.prems(1) by simp_all
  have "step_ok E A ns c0 (exactly E m c0 (names_in [group_source g] \<union> names_in (map group_source gs))
      (inline_in E m [group_source g] \<union> inline_in E m (map group_source gs))) used (group_rules E m (g # gs) (used, c))"
    unfolding group_rules.simps group_source_def
    by (rule step_exactly [OF step_owner [OF assms(1) g(1) [unfolded group_source_def] Cons.prems(2)]])
      (rule Cons.IH [OF g(2), unfolded group_source_def])
  then show ?case by simp
qed (simp add: step_ok_def)

lemma step_namespace:
  assumes "names_apart E c0 A" and "names_in (namespace_sources E c0 v) \<subseteq> A" and "same_lookups E A (namespace_of v) c0 c"
  shows "step_ok E A (namespace_of v) c0 (exactly E m c0 (names_in (namespace_sources E c0 v)) (inline_in E m (namespace_sources E c0 v))) used
    (namespace_rules E m v (used, c))"
proof (cases "sx_NamespaceRef (svc_Status v)")
  case None
  then show ?thesis using assms(3) by (simp add: namespace_rules_def step_ok_def)
next
  case (Some ref)
  obtain r c' where r: "getNamespaceFromName E (namespace_of v) c = (r, c')" by fastforce
  note loaded = namespace_loaded [OF assms(3) r]
  have name: "or_Name ref = namespace_of v" by (simp add: namespace_of_def Some)
  have lookup: "fst (getNamespaceFromName E (namespace_of v) c0) = r" using loaded(1) by (rule sym)
  show ?thesis
  proof (cases r)
    case (Ok x)
    have src: "namespace_sources E c0 v =
        [owner_source (na_Authorization x) (GetObjectReference (na_ApiVersion x) (na_Kind x) (Some (na_Metadata x)))]"
      by (simp add: namespace_sources_def lookup Ok)
    show ?thesis
      using step_owner [OF assms(1) assms(2) [unfolded src] loaded(2)]
      by (simp add: namespace_rules_def Some name r Ok src)
  qed (use loaded(2) in \<open>simp_all add: namespace_rules_def Some name r step_ok_def namespace_sources_def lookup\<close>)
qed

lemma step_owner_opt:
  assumes "names_apart E c0 A" and "names_in (map src (list_of x)) \<subseteq> A" and "same_lookups E A ns c0 c"
    and "\<And>y. src y = owner_source (az y) (ref y)"
  shows "step_ok E A ns c0 (exactly E m c0 (names_in (map src (list_of x))) (inline_in E m (map src (list_of x)))) used
    (case x of None \<Rightarrow> (Panic, (used, c)) | Some y \<Rightarrow> owner_rules E m (az y) (ref y) (used, c))"
    and "step_ok E A ns c0 (exactly E m c0 (names_in (map src (list_of x))) (inline_in E m (map src (list_of x)))) used
    (case x of None \<Rightarrow> (Ok [], (used, c)) | Some y \<Rightarrow> owner_rules E m (az y) (ref y) (used, c))"
  using assms(2,3) step_owner [OF assms(1) _ assms(3), of "az (the x)" "ref (the x)" m used]
  by (cases x; simp add: list_of_def assms(4) step_ok_def)+

text \<open>A trigger that fails half-way contributes nothing and leaves its marks.\<close>

lemma step_trigger:
  assumes "names_apart E c0 A" and "names_in (triggers E now i m [pt]) \<subseteq> A" and "same_lookups E A ns c0 c" and "\<not> pt_IsDisabled pt"
  shows "step_ok E A ns c0 (loosely E m c0 (names_in (triggers E now i m [pt])) (inline_in E m (triggers E now i m [pt]))) used
    (case getRulesFromPolicyTrigger E now i m pt (used, c) of (Fail e, st') \<Rightarrow> (Ok [], st') | r \<Rightarrow> r)"
proof (cases "evalPreCondition E now i [(''ctx'', JMap m)] (pt_PreCondition pt) = Ok True")
  case True
  then have src: "triggers E now i m [pt] = [trigger_source pt]" using assms(4) by (simp add: triggers_def)
  have "step_ok E A ns c0 (exactly E m c0 (names_in [trigger_source pt]) (inline_in E m [trigger_source pt])) used
      (getRulesFromPolicyTrigger E now i m pt (used, c))"
    using step_source [OF assms(1) _ assms(3), of "pt_Policies pt" m "pt_OwnerRef pt" "pt_InlinePolicies pt"] assms(2) True
    by (simp add: src trigger_source_def getRulesFromPolicyTrigger_def)
  then show ?thesis
    unfolding src by (auto simp: step_ok_def exactly_loosely loosely_nothing split: prod.split go.split)
next
  case False
  then show ?thesis
    using assms(3) by (auto simp: getRulesFromPolicyTrigger_def step_ok_def loosely_nothing split: go.split)
qed

lemma step_triggers:
  assumes "names_apart E c0 A" and "names_in (triggers E now i m pts) \<subseteq> A" and "same_lookups E A ns c0 c"
  shows "step_ok E A ns c0 (loosely E m c0 (names_in (triggers E now i m pts)) (inline_in E m (triggers E now i m pts))) used
    (getRulesFromPolicyTriggers E now i m pts (used, c))"
  using assms(2,3)
proof (induction pts arbitrary: used c)
  case Nil
  then show ?case by (simp add: step_ok_def loosely_nothing)
next
  case (Cons pt pts)
  have split: "triggers E now i m (pt # pts) = triggers E now i m [pt] @ triggers E now i m pts" by (simp add: triggers_def)
  show ?case
  proof (cases "pt_IsDisabled pt")
    case True
    then have "triggers E now i m (pt # pts) = triggers E now i m pts" by (simp add: triggers_def)
    with Cons True show ?thesis by simp
  next
    case False
    have t: "names_in (triggers E now i m [pt]) \<subseteq> A" "names_in (triggers E now i m pts) \<subseteq> A"
      using Cons.prems(1) by (simp_all add: split)
    have "step_ok E A ns c0 (loosely E m c0 (names_in (triggers E now i m [pt]) \<union> names_in (triggers E now i m pts))
        (inline_in E m (triggers E now i m [pt]) \<union> inline_in E m (triggers E now i m pts))) used
        (and_then (case getRulesFromPolicyTrigger E now i m pt (used, c) of (Fail e, st') \<Rightarrow> (Ok [], st') | r \<Rightarrow> r)
          (getRulesFromPolicyTriggers E now i m pts))"
    proof (rule step_and_then [OF step_trigger [OF assms(1) t(1) Cons.prems(2) False]])
      show "step_ok E A ns c0 (loosely E m c0 (names_in (triggers E now i m pts)) (inline_in E m (triggers E now i m pts))) used'
          (getRulesFromPolicyTriggers E now i m pts (used', c'))" if "same_lookups E A ns c0 c'" for used' c'
        by (rule Cons.IH [OF t(2) that])
    qed (rule loosely_append)
    with False show ?thesis by (simp add: split)
  qed
qed

text \<open>The owners of a request, in their order.\<close>

definition owners_rules :: "octo_env \<Rightarrow> RequestContext \<Rightarrow> input \<Rightarrow> Cache \<Rightarrow> policyRule list go \<times> collect_state" where
  "owners_rules E i m c =
     and_then (and_then (and_then (and_then (and_then
       (case rc_User i of
          None \<Rightarrow> (Panic, ([], c))
        | Some u \<Rightarrow> owner_rules E m (us_Authorization (ur_Spec u))
            (GetObjectReference (ur_ApiVersion u) (ur_Kind u) (Some (ur_Metadata u))) ([], c))
       (group_rules E m (rc_Groups i)))
       (\<lambda>st. case rc_Service i of
          None \<Rightarrow> (Panic, st)
        | Some v \<Rightarrow> owner_rules E m (sv_Authorization (svc_Spec v))
            (GetObjectReference (svc_ApiVersion v) (svc_Kind v) (Some (svc_Metadata v))) st))
       (\<lambda>st. case rc_Service i of None \<Rightarrow> (Panic, st) | Some v \<Rightarrow> namespace_rules E m v st))
       (\<lambda>st. case rc_Session i of
          None \<Rightarrow> (Panic, st)
        | Some s \<Rightarrow> owner_rules E m (ss_Authorization (se_Spec s))
            (GetObjectReference (se_ApiVersion s) (se_Kind s) (Some (se_Metadata s))) st))
       (\<lambda>st. case rc_Device i of
          None \<Rightarrow> (Ok [], st)
        | Some d \<Rightarrow> owner_rules E m (ds_Authorization (dv_Spec d))
            (GetObjectReference (dv_ApiVersion d) (dv_Kind d) (Some (dv_Metadata d))) st)"

lemma getAllRules_owners: "getAllRules E now pts i m c = and_then (owners_rules E i m c) (getRulesFromPolicyTriggers E now i m pts)"
  by (simp only: getAllRules_def owners_rules_def)

definition request_namespace :: "RequestContext \<Rightarrow> string" where
  "request_namespace i = (case rc_Service i of None \<Rightarrow> [] | Some v \<Rightarrow> namespace_of v)"

lemma step_owners:
  assumes apart: "names_apart E c A" and all: "names_in (owners E c i) \<subseteq> A"
  shows "step_ok E A (request_namespace i) c (exactly E m c (names_in (owners E c i)) (inline_in E m (owners E c i))) []
    (owners_rules E i m c)"
proof -
  let ?n = "request_namespace i"
  have sub: "names_in (map user_source (list_of (rc_User i))) \<subseteq> A" "names_in (map group_source (rc_Groups i)) \<subseteq> A"
    "names_in (map service_source (list_of (rc_Service i))) \<subseteq> A"
    "names_in (concat (map (namespace_sources E c) (list_of (rc_Service i)))) \<subseteq> A"
    "names_in (map session_source (list_of (rc_Session i))) \<subseteq> A" "names_in (map device_source (list_of (rc_Device i))) \<subseteq> A"
    using all by (simp_all add: owners_def)
  have namespace: "step_ok E A ?n c (exactly E m c (names_in (concat (map (namespace_sources E c) (list_of (rc_Service i)))))
      (inline_in E m (concat (map (namespace_sources E c) (list_of (rc_Service i)))))) used
      (case rc_Service i of None \<Rightarrow> (Panic, (used, c')) | Some v \<Rightarrow> namespace_rules E m v (used, c'))"
    if "same_lookups E A ?n c c'" for used c'
  proof (cases "rc_Service i")
    case None
    then show ?thesis using that by (simp add: step_ok_def)
  next
    case (Some v)
    then show ?thesis using step_namespace [OF apart, of v] sub(4) that by (simp add: request_namespace_def list_of_def)
  qed
  note steps = step_exactly step_owner_opt(1) [OF apart sub(1) _ user_source_def] step_groups [OF apart sub(2)]
    step_owner_opt(1) [OF apart sub(3) _ service_source_def] namespace step_owner_opt(1) [OF apart sub(5) _ session_source_def]
    step_owner_opt(2) [OF apart sub(6) _ device_source_def]
  have "step_ok E A ?n c (exactly E m c
      (((((names_in (map user_source (list_of (rc_User i))) \<union> names_in (map group_source (rc_Groups i))) \<union>
        names_in (map service_source (list_of (rc_Service i)))) \<union> names_in (concat (map (namespace_sources E c) (list_of (rc_Service i))))) \<union>
        names_in (map session_source (list_of (rc_Session i)))) \<union> names_in (map device_source (list_of (rc_Device i))))
      (((((inline_in E m (map user_source (list_of (rc_User i))) \<union> inline_in E m (map group_source (rc_Groups i))) \<union>
        inline_in E m (map service_source (list_of (rc_Service i)))) \<union>
        inline_in E m (concat (map (namespace_sources E c) (list_of (rc_Service i))))) \<union>
        inline_in E m (map session_source (list_of (rc_Session i)))) \<union> inline_in E m (map device_source (list_of (rc_Device i))))) []
      (owners_rules E i m c)"
    unfolding owners_rules_def by (intro steps same_lookups_refl)
  then show ?thesis by (simp add: owners_def Un_assoc)
qed

text \<open>
  C7: the named policies whose rules a request meets are, each of them once, the policies that are loaded from the cache or the resource
  server for a name in the policies of an owner of the request (its user, groups, Service, namespace, session and device) or of a trigger
  that applies to it, or for an ancestor of such a name, and that are active: not disabled, and not switched off by their
  enforcement rules. None that an owner asks for is missing. And the rules of inline policies are, in the same way, those of the active
  inline policies of the owners and of triggers that apply. (A policy is loaded under its own name, and no name is the UID of a policy.)
\<close>

theorem getAllRules_origin:
  assumes "getAllRules E now pts i m c = (Ok rules, st')"
    and "names_apart E c (names_in (owners E c i @ triggers E now i m pts))"
  shows "\<exists>ps. named_rules rules = policies_rules ps \<and> distinct (map policy_name ps) \<and>
    {pa. \<exists>n\<in>names_in (owners E c i). contributes E m c n pa} \<subseteq> set ps \<and>
    set ps \<subseteq> {pa. \<exists>n\<in>names_in (owners E c i @ triggers E now i m pts). contributes E m c n pa} \<and>
    inline_in E m (owners E c i) \<subseteq> inlined_rules rules \<and>
    inlined_rules rules \<subseteq> inline_in E m (owners E c i @ triggers E now i m pts)"
proof -
  let ?A = "names_in (owners E c i @ triggers E now i m pts)"
  have sub: "names_in (owners E c i) \<subseteq> ?A" "names_in (triggers E now i m pts) \<subseteq> ?A" by simp_all
  obtain r u c1 where o: "owners_rules E i m c = (r, (u, c1))" by (cases "owners_rules E i m c") auto
  obtain r2 u2 c2 where t: "getRulesFromPolicyTriggers E now i m pts (u, c1) = (r2, (u2, c2))"
    by (cases "getRulesFromPolicyTriggers E now i m pts (u, c1)") auto
  from assms(1) obtain rs rs2 where rs: "r = Ok rs" "r2 = Ok rs2" "rules = rs @ rs2"
    by (cases r; cases r2) (auto simp: getAllRules_owners o t and_then_def go_map_def)
  note owned = step_owners [OF assms(2) sub(1), of m, unfolded o]
  then have same: "same_lookups E ?A (request_namespace i) c c1" and
    ex: "exactly E m c (names_in (owners E c i)) (inline_in E m (owners E c i)) [] rs u"
    by (simp_all add: step_ok_def rs)
  from step_triggers [OF assms(2) sub(2) same, of u] have
    lo: "loosely E m c (names_in (triggers E now i m pts)) (inline_in E m (triggers E now i m pts)) u rs2 u2"
    by (simp add: t step_ok_def rs)
  obtain ps where ps: "named_rules rs = policies_rules ps" "u = map policy_name ps" "distinct (map policy_name ps)"
    "\<forall>pa\<in>set ps. \<exists>n\<in>names_in (owners E c i). contributes E m c n pa"
    "\<forall>n\<in>names_in (owners E c i). \<forall>pa. contributes E m c n pa \<longrightarrow> policy_name pa \<in> set u"
    using ex by (auto simp: exactly_def)
  obtain qs where qs: "named_rules rs2 = policies_rules qs" "distinct (map policy_name qs)" "set (map policy_name qs) \<inter> set u = {}"
    "\<forall>pa\<in>set qs. \<exists>n\<in>names_in (triggers E now i m pts). contributes E m c n pa"
    using lo by (auto simp: loosely_def)
  have own: "pa \<in> set ps" if "n \<in> names_in (owners E c i)" "contributes E m c n pa" for n pa
  proof -
    have "policy_name pa \<in> set (map policy_name ps)" using ps(2,5) that by blast
    then obtain pb n' where pb: "pb \<in> set ps" "policy_name pb = policy_name pa" "n' \<in> names_in (owners E c i)" "contributes E m c n' pb"
      using ps(4) by auto
    have "policy_name pa = n" "policy_name pb = n'"
      using assms(2) that pb(3,4) by (auto simp: names_apart_def contributes_def policy_name_def)
    with that(2) pb(2,4) have "pa = pb" by (auto simp: contributes_def active_def prod_eq_iff)
    with pb(1) show ?thesis by simp
  qed
  have "distinct (map policy_name (ps @ qs))" using ps(2,3) qs(2,3) by auto
  moreover have "named_rules rules = policies_rules (ps @ qs)" using ps(1) qs(1) by (simp add: rs)
  moreover have "{pa. \<exists>n\<in>names_in (owners E c i). contributes E m c n pa} \<subseteq> set (ps @ qs)" using own by auto
  moreover have "set (ps @ qs) \<subseteq> {pa. \<exists>n\<in>?A. contributes E m c n pa}" using ps(4) qs(4) by auto
  moreover have "inline_in E m (owners E c i) \<subseteq> inlined_rules rules"
    "inlined_rules rules \<subseteq> inline_in E m (owners E c i @ triggers E now i m pts)"
    using ex lo by (auto simp: exactly_def loosely_def rs)
  ultimately show ?thesis by blast
qed

section \<open>Preconditions\<close>

text \<open>
  A trigger without a precondition, or with one that combines nothing, never applies; and a
  trigger for a span of time applies exactly within it.
\<close>

theorem precondition_windows:
  "evalPreCondition E now i inp (Some (PreCondition_All
      [PreCondition_NotBefore (Some a), PreCondition_NotAfter (Some b)])) = Ok (a \<le> now \<and> now \<le> b) \<and>
   map (\<lambda>p. evalPreCondition E now i inp p)
     [None, Some PreCondition_Unset, Some (PreCondition_All []), Some (PreCondition_Any []),
      Some (PreCondition_NotAfter None), Some (PreCondition_SessionRef None), Some (PreCondition_UserRef None)]
   = replicate 7 (Ok False)"
  by (cases "b < now"; cases "now < a") (simp_all add: evalPreCondition_def numeral_eq_Suc)

section \<open>Triggers and the order of the table\<close>

definition plain_trigger :: "string \<Rightarrow> string list \<Rightarrow> PolicyTrigger" where
  "plain_trigger uid policies =
     \<lparr>pt_Metadata = (pol_Metadata example_policy)\<lparr>md_Uid := uid\<rparr>, pt_OwnerRef = None,
      pt_PreCondition = Some (PreCondition_MatchAny True), pt_Policies = policies,
      pt_InlinePolicies = [], pt_IsDisabled = False\<rparr>"

definition request_of :: "Session \<Rightarrow> RequestContext" where
  "request_of s = \<lparr>rc_Request = None, rc_Session = Some s, rc_User = None, rc_Groups = [], rc_Device = None,
     rc_Service = None, rc_Namespace = None\<rparr>"

lemma getNameAndParents_allow_all: "GetNameAndParents ''allow-all'' = Ok [''allow-all'']"
  by (simp add: GetNameAndParents_eq validateName_def check_names_def NameMain_def lower_def
      lower_alnum_def name_char_def decimal_def rgxDoubleHyphen_def reject_if_def parents_def)

lemma getNameAndParents_blank: "GetNameAndParents [] = Fail (Errorf ''Invalid name'')"
  by (simp add: GetNameAndParents_def validateName_def check_names_def NameMain_def reject_if_def)

definition warm_cache :: Cache where
  "warm_cache = snd (SetPolicy bolt_put example_policy NewCache)"

lemma warm_cache_policy: "GetPolicy warm_cache ''allow-all'' = Ok example_policy"
  unfolding warm_cache_def
  by (rule policies.get_put_same) (simp add: named_keys_def put_keys_def bolt_put_def example_policy_def)

lemma collect_example:
  assumes "GetPolicy c ''allow-all'' = Ok example_policy"
  shows "collect_policy example_env m ''allow-all'' (used, c) =
   (if ''allow-all'' \<in> set used then (Ok [], (used, c))
    else (Ok (rules_of_policy example_policy []), (used @ [''allow-all''], c)))"
proof -
  have "shouldEnforcePolicy example_env (pol_Spec example_policy) m [] = Ok True"
    "\<not> ps_IsDisabled (pol_Spec example_policy)" "md_Name (pol_Metadata example_policy) = ''allow-all''"
    "oe_attrsMap example_env a = Ok []" for a
    by (simp_all add: shouldEnforcePolicy_def example_policy_def example_env_def)
  then show ?thesis
    by (simp add: collect_policy_def getPolicyFromName_def assms)
qed

lemma plain_trigger_rules:
  "getRulesFromPolicyTrigger E now i m (plain_trigger uid names) st =
   and_then (collect_policies E m names st) (\<lambda>st'. (Ok [], st'))"
  "pt_IsDisabled (plain_trigger uid names) = False"
  by (simp_all add: getRulesFromPolicyTrigger_def evalPreCondition_def plain_trigger_def
      getResourcePolicyRules_def inline_rules_def go_map_def)

text \<open>
  The order of the table of triggers matters: a trigger that fails after having named a policy
  keeps that policy marked as used, so a later trigger no longer contributes it, while in the other
  order it does.
\<close>

theorem failing_trigger_hides_policy:
  "fst (getRulesFromPolicyTriggers example_env now (request_of s) m
          [plain_trigger ''a'' [''allow-all'', []], plain_trigger ''b'' [''allow-all'']] ([], warm_cache)) = Ok [] \<and>
   fst (getRulesFromPolicyTriggers example_env now (request_of s) m
          [plain_trigger ''b'' [''allow-all''], plain_trigger ''a'' [''allow-all'', []]] ([], warm_cache))
   = Ok (rules_of_policy example_policy [])"
  by (simp add: plain_trigger_rules and_then_def getNameAndParents_allow_all getNameAndParents_blank
      collect_example [OF warm_cache_policy] go_map_def)

section \<open>A request that names one policy twice\<close>

definition example_user :: User where
  "example_user =
     \<lparr>ur_ApiVersion = ''core/v1'', ur_Kind = ''User'',
      ur_Metadata = (se_Metadata example_session)\<lparr>md_Uid := ''u1'', md_Name := ''alice''\<rparr>,
      ur_Spec =
        \<lparr>us_Groups = [], us_Email = [], us_Type = HUMAN, us_Info = None, us_Session = None,
         us_Authorization = Some \<lparr>az_Policies = [''allow-all'', ''allow-all''], az_InlinePolicies = []\<rparr>,
         us_IsDisabled = False, us_Attrs = None, us_Authentication = None\<rparr>,
      ur_Status = Some \<lparr>ut_Ext = [], ut_IdentityProviderRef = None, ut_IsLocked = False\<rparr>\<rparr>"

definition example_request :: RequestContext where
  "example_request =
     \<lparr>rc_Request = None, rc_Session = Some connected_session, rc_User = Some example_user, rc_Groups = [],
      rc_Device = None, rc_Service = Some plain_service, rc_Namespace = None\<rparr>"

definition example_policy_rule :: policyRule where
  "example_policy_rule = \<lparr>pr_rule = \<lparr>ru_Name = ''r'', ru_Condition = Some (Condition_MatchAny True),
     ru_Effect = ALLOW, ru_Priority = 0\<rparr>, pr_policyRef = policy_ref example_policy, pr_inline = None, pr_attrs = []\<rparr>"

lemma example_all_rules:
  assumes "GetPolicy c ''allow-all'' = Ok example_policy" and "GetNamespace c ''dev'' = Fail ErrNotFound"
  shows "getAllRules example_env now [] example_request [] c = (Ok [example_policy_rule], ([''allow-all''], c))"
proof -
  have ns: "getNamespaceFromName example_env ''dev'' c = (Fail (Status NotFoundCode), c)"
    by (simp add: getNamespaceFromName_def assms IsErrNotFound_def example_env_def)
  have "rules_of_policy example_policy [] = [example_policy_rule]"
    by (simp add: rules_of_policy_def example_policy_rule_def example_policy_def)
  moreover have "us_Authorization (ur_Spec example_user) =
      Some \<lparr>az_Policies = [''allow-all'', ''allow-all''], az_InlinePolicies = []\<rparr>"
    by (simp add: example_user_def)
  moreover have "sv_Authorization (svc_Spec plain_service) = None"
    "\<exists>ref. sx_NamespaceRef (svc_Status plain_service) = Some ref \<and> or_Name ref = ''dev''"
    "ss_Authorization (se_Spec connected_session) = None"
    by (simp_all add: plain_service_def connected_session_def example_session_def)
  ultimately show ?thesis
    by (auto simp: getAllRules_def example_request_def owner_rules_def namespace_rules_def ns and_then_def
        getResourcePolicyRules_def inline_rules_def getNameAndParents_allow_all collect_example [OF assms(1)]
        go_map_def)
qed

lemma warm_cache_namespace: "GetNamespace warm_cache ''dev'' = Fail ErrNotFound"
  by (simp add: warm_cache_def SetPolicy_def GetNamespace_def getResource_def NewCache_def split: prod.split)

lemma example_names:
  "names_in (owners example_env warm_cache example_request @ triggers example_env now example_request m []) = {''allow-all''}"
proof -
  have "us_Authorization (ur_Spec example_user) = Some \<lparr>az_Policies = [''allow-all'', ''allow-all''], az_InlinePolicies = []\<rparr>"
    "sv_Authorization (svc_Spec plain_service) = None" "namespace_of plain_service = ''dev''"
    "ss_Authorization (se_Spec connected_session) = None"
    by (simp_all add: example_user_def plain_service_def connected_session_def example_session_def namespace_of_def)
  moreover have "fst (getNamespaceFromName example_env ''dev'' warm_cache) = Fail (Status NotFoundCode)"
    by (simp add: getNamespaceFromName_def warm_cache_namespace IsErrNotFound_def example_env_def)
  ultimately show ?thesis
    by (simp add: owners_def triggers_def example_request_def list_of_def user_source_def service_source_def session_source_def
        namespace_sources_def owner_source_def getNameAndParents_allow_all)
qed

theorem getAllRules_origin_witness:
  "\<exists>ps. [example_policy_rule] = policies_rules ps \<and> distinct (map policy_name ps) \<and>
     (\<forall>pa\<in>set ps. contributes example_env [] warm_cache ''allow-all'' pa)"
proof -
  have "names_apart example_env warm_cache {''allow-all''}"
    by (simp add: names_apart_def getPolicyFromName_def warm_cache_policy) (simp add: example_policy_def)
  then have "names_apart example_env warm_cache (names_in (owners example_env warm_cache example_request @
      triggers example_env 0 example_request [] []))" by (simp only: example_names)
  from getAllRules_origin [OF example_all_rules [OF warm_cache_policy warm_cache_namespace] this]
  show ?thesis by (auto simp: example_names [simplified] named_rules_def example_policy_rule_def)
qed

end
