(* ===== verification/OctovigilFacts.thy ===== *)
theory OctovigilFacts imports Octovigil PolicyRulesFacts begin

text \<open>
  What authentication and authorization guarantee: who is let in, on which grounds, and by which rule.
\<close>

section \<open>Authorization\<close>

lemma decision_loop_match:
  "decision_loop E m rules = Ok res \<Longrightarrow> dr_decision res = MATCH_YES \<Longrightarrow>
   \<exists>r. List.find (rule_matches E m) rules = Some r \<and>
     res = \<lparr>dr_decision = MATCH_YES, dr_effect = rule_effect r, dr_reason = Some (getMatchedDecisionReason r)\<rparr>"
proof (induction rules)
  case (Cons r rules)
  then show ?case
    using getDecisionRule_cases [of E r m] by (auto split: if_splits)
qed (auto simp: no_match_def)

lemma getDecision_match:
  assumes "slice_sort (oe_sort E)" and "getDecision E now pts req c = (Ok res, c')"
    and "dr_decision res = MATCH_YES"
  obtains m rules st r where "oe_ctxMap E req = Ok m" and "getAllRules E now pts req m c = (Ok rules, st)"
    and "r \<in> set rules" and "rule_matches E m r"
    and "dr_effect res = rule_effect r" and "dr_reason res = Some (getMatchedDecisionReason r)"
    and "(\<forall>z\<in>set rules. rule_ok z) \<Longrightarrow>
      (\<forall>y. y \<in> set rules \<longrightarrow> rule_matches E m y \<longrightarrow> \<not> policyRule_cmp y r < 0)"
proof -
  obtain m where m: "oe_ctxMap E req = Ok m"
    using assms(2) by (cases "oe_ctxMap E req") (auto simp: getDecision_def)
  obtain ar used c2 where ar: "getAllRules E now pts req m c = (ar, (used, c2))"
    by (cases "getAllRules E now pts req m c") auto
  with assms(2) m obtain rules where rules: "ar = Ok rules" "doGetDecision E m rules = Ok res"
    by (cases ar) (auto simp: getDecision_def)
  then obtain r where r: "List.find (rule_matches E m) (oe_sort E policyRule_cmp rules) = Some r"
    "res = \<lparr>dr_decision = MATCH_YES, dr_effect = rule_effect r, dr_reason = Some (getMatchedDecisionReason r)\<rparr>"
    using decision_loop_match assms(3) unfolding doGetDecision_def by blast
  have least: "\<forall>y. y \<in> set rules \<longrightarrow> rule_matches E m y \<longrightarrow> \<not> policyRule_cmp y r < 0"
    if "\<forall>y\<in>set rules. rule_ok y"
    using slice_sort.find_first_minimal [OF assms(1) policyRule_cmp_strict_weak [OF that] r(1)] by blast
  show thesis
    by (rule that [OF m ar [unfolded rules(1)]])
      (use slice_sort.find_first_mem [OF assms(1) r(1)] r(2) least in simp_all)
qed

lemma precheck_passed:
  assumes "precheck E now req u s v = Ok None"
  shows "IsValid now s = Ok True" and "\<not> st_IsLocked (se_Status s)"
    and "\<exists>us. ur_Status u = Some us \<and> \<not> ut_IsLocked us" and "\<not> us_IsDisabled (ur_Spec u)"
    and "st_AuthenticatorAction (se_Status s) \<in>
      {AUTHENTICATOR_ACTION_UNSET, AUTHENTICATION_RECOMMENDED, REGISTRATION_RECOMMENDED}"
    and "\<forall>d. rc_Device req = Some d \<longrightarrow>
      ds_State (dv_Spec d) = DEVICE_ACTIVE \<and> (\<exists>ds. dv_Status d = Some ds \<and> \<not> dt_IsLocked ds)"
    and "sv_IsPublic (svc_Spec v) \<or> IsClient s" and "\<not> forwarded_mismatch E req s v"
    and "IsAuthorizedByScopes req = Ok True"
proof -
  let ?dev = "case rc_Device req of
      None \<Rightarrow> Ok None
    | Some d \<Rightarrow>
        if ds_State (dv_Spec d) \<noteq> DEVICE_ACTIVE then Ok (Some (reason_of DEVICE_NOT_ACTIVE))
        else go_bind (deref (dv_Status d)) (\<lambda>ds.
               if dt_IsLocked ds then Ok (Some (reason_of DEVICE_LOCKED)) else Ok None)"
  let ?rest = "\<lambda>dev. case dev of
      Some r \<Rightarrow> Ok (Some r)
    | None \<Rightarrow>
        if us_IsDisabled (ur_Spec u) then Ok (Some (reason_of USER_DEACTIVATED))
        else if \<not> sv_IsPublic (svc_Spec v) \<and> \<not> IsClient s
        then Ok (Some (reason_of SESSION_CLIENT_TYPE_INVALID))
        else if forwarded_mismatch E req s v then Ok (Some (reason_of TYPE_UNKNOWN_REASON))
        else go_bind (IsAuthorizedByScopes req) (\<lambda>ok.
               if \<not> ok then Ok (Some (reason_of SCOPE_UNAUTHORIZED)) else Ok None)"
  show valid: "IsValid now s = Ok True" and lock: "\<not> st_IsLocked (se_Status s)"
    using assms by (auto simp: precheck_def split: if_splits)
  show us: "\<exists>us. ur_Status u = Some us \<and> \<not> ut_IsLocked us"
    using assms valid lock by (auto simp: precheck_def split: if_splits)
  show act: "st_AuthenticatorAction (se_Status s) \<in>
      {AUTHENTICATOR_ACTION_UNSET, AUTHENTICATION_RECOMMENDED, REGISTRATION_RECOMMENDED}"
    using assms valid lock us by (auto simp: precheck_def split: if_splits)
  have rest: "go_bind ?dev ?rest = Ok None"
    using assms valid lock us act by (auto simp: precheck_def)
  then obtain d where d: "?dev = Ok d" "?rest d = Ok None"
    by (simp only: go_bind_eq_Ok) blast
  then have "d = None" by (cases d) simp_all
  with d(1) show "\<forall>d. rc_Device req = Some d \<longrightarrow>
      ds_State (dv_Spec d) = DEVICE_ACTIVE \<and> (\<exists>ds. dv_Status d = Some ds \<and> \<not> dt_IsLocked ds)"
    by (auto split: if_splits)
  from d(2) \<open>d = None\<close> show "\<not> us_IsDisabled (ur_Spec u)"
    "sv_IsPublic (svc_Spec v) \<or> IsClient s" "\<not> forwarded_mismatch E req s v"
    "IsAuthorizedByScopes req = Ok True"
    by (auto split: if_splits)
qed

text \<open>What has to hold of a request context before any policy is asked.\<close>

definition admissible :: "octo_env \<Rightarrow> int \<Rightarrow> RequestContext \<Rightarrow> bool" where
  "admissible E now req \<longleftrightarrow>
     (\<exists>u s v. rc_User req = Some u \<and> rc_Session req = Some s \<and> rc_Service req = Some v \<and>
        IsValid now s = Ok True \<and> \<not> st_IsLocked (se_Status s) \<and>
        (\<exists>us. ur_Status u = Some us \<and> \<not> ut_IsLocked us) \<and> \<not> us_IsDisabled (ur_Spec u) \<and>
        (\<forall>d. rc_Device req = Some d \<longrightarrow>
           ds_State (dv_Spec d) = DEVICE_ACTIVE \<and> (\<exists>ds. dv_Status d = Some ds \<and> \<not> dt_IsLocked ds)) \<and>
        (sv_IsPublic (svc_Spec v) \<or> IsClient s) \<and> \<not> forwarded_mismatch E req s v \<and>
        IsAuthorizedByScopes req = Ok True)"

text \<open>
  A rule that grants: it matches and allows and, when every collected rule is one that the API server
  lets through, no matching rule comes before it and no matching rule of its priority denies.
\<close>

definition granted_by ::
  "octo_env \<Rightarrow> int \<Rightarrow> PolicyTrigger list \<Rightarrow> RequestContext \<Rightarrow> Cache \<Rightarrow> policyRule \<Rightarrow> bool" where
  "granted_by E now pts req c r \<longleftrightarrow>
     (\<exists>m rules st. oe_ctxMap E req = Ok m \<and> getAllRules E now pts req m c = (Ok rules, st) \<and>
        r \<in> set rules \<and> rule_matches E m r \<and> rule_effect r = ALLOW \<and>
        ((\<forall>y\<in>set rules. rule_ok y) \<longrightarrow>
          (\<forall>y\<in>set rules. rule_matches E m y \<longrightarrow>
             rule_prio r \<le> rule_prio y \<and> (rule_prio y = rule_prio r \<longrightarrow> rule_effect y \<noteq> DENY))))"

lemma isAuthorized_True:
  assumes "slice_sort (oe_sort E)" and "isAuthorized E now pts (Some req) c = (Ok (True, reason), c')"
  shows "admissible E now req" and "\<exists>r. granted_by E now pts req c r \<and> reason = Some (getMatchedDecisionReason r)"
proof -
  obtain u s v where usv: "rc_User req = Some u" "rc_Session req = Some s" "rc_Service req = Some v"
    using assms(2) by (auto simp: isAuthorized_def split: option.splits)
  have pre: "precheck E now req u s v = Ok None"
    using assms(2) usv by (auto simp: isAuthorized_def split: go.splits option.splits)
  show "admissible E now req"
    unfolding admissible_def using usv precheck_passed [OF pre] by blast
  obtain res where res: "getDecision E now pts req c = (Ok res, c')" "dr_decision res = MATCH_YES"
    "dr_effect res = ALLOW" "dr_reason res = reason"
    using assms(2) usv pre
    by (auto simp: isAuthorized_def go_seq_def reason_of_def split: go.splits prod.splits if_splits)
  obtain m rules st r where r: "oe_ctxMap E req = Ok m" "getAllRules E now pts req m c = (Ok rules, st)"
    "r \<in> set rules" "rule_matches E m r" "dr_effect res = rule_effect r"
    "dr_reason res = Some (getMatchedDecisionReason r)"
    and least: "(\<forall>z\<in>set rules. rule_ok z) \<Longrightarrow>
      (\<forall>y. y \<in> set rules \<longrightarrow> rule_matches E m y \<longrightarrow> \<not> policyRule_cmp y r < 0)"
    by (rule getDecision_match [OF assms(1) res(1,2)]) blast
  have "rule_prio r \<le> rule_prio y \<and> (rule_prio y = rule_prio r \<longrightarrow> rule_effect y \<noteq> DENY)"
    if "\<forall>y\<in>set rules. rule_ok y" "y \<in> set rules" "rule_matches E m y" for y
    using least [OF that(1)] policyRule_cmp_neg [of y r] that r(3,5) res(3) by auto
  with r res have "granted_by E now pts req c r"
    unfolding granted_by_def by metis
  with r(6) res(4) show "\<exists>r. granted_by E now pts req c r \<and> reason = Some (getMatchedDecisionReason r)"
    by auto
qed

text \<open>
  C2: an authorized request satisfies every condition at once: the session is active, not
  expired, not locked and has a valid access token, the user is neither disabled nor locked, the device,
  if there is one, is active and not locked, the service is public or the session a client's, the
  scopes allow the request, and there is a matching rule that allows, no matching rule of which
  precedes or denies at its priority; the reason that is reported names that rule.
\<close>

theorem isAuthorized_sound:
  assumes "slice_sort (oe_sort E)" and "isAuthorized E now pts (Some req) c = (Ok (True, reason), c')"
  shows "admissible E now req \<and> (\<exists>r. granted_by E now pts req c r \<and> reason = Some (getMatchedDecisionReason r))"
  using isAuthorized_True [OF assms] by blast

text \<open>
  C3: for a request that passes the checks before the policies the answer is the one of the policy
  language: it is authorized exactly when \<open>decide\<close> allows it for the rules that were collected.
\<close>

theorem isAuthorized_decides:
  assumes "slice_sort (oe_sort E)" and "rc_User req = Some u" and "rc_Session req = Some s"
    and "rc_Service req = Some v" and "precheck E now req u s v = Ok None" and "oe_ctxMap E req = Ok m"
    and "getAllRules E now pts req m c = (Ok rules, (used, c'))"
    and "\<forall>r\<in>set rules. rule_ok r" and "\<forall>r\<in>set rules. getDecisionRule E r m \<noteq> Panic"
  shows "\<exists>reason. isAuthorized E now pts (Some req) c =
    (Ok (decide (rule_matches E m) (set rules) = ALLOW, reason), c')"
proof -
  obtain res where res: "doGetDecision E m rules = Ok res"
    "dr_effect res = decide (rule_matches E m) (set rules)"
    "(dr_decision res = MATCH_YES) = (\<exists>r\<in>set rules. rule_matches E m r)"
    by (rule doGetDecision_spec [OF assms(1,8,9)])
  have "getDecision E now pts req c = (Ok res, c')"
    using assms res(1) by (simp add: getDecision_def)
  moreover have "decide (rule_matches E m) (set rules) \<noteq> ALLOW" if "dr_decision res \<noteq> MATCH_YES"
    using res(3) that by (auto simp: decide_def)
  ultimately show ?thesis
    using assms(2-5) res(2) by (auto simp: isAuthorized_def go_seq_def)
qed

section \<open>Authentication\<close>

text \<open>
  The grounds on which a session stands for a request: the source address is one of the cluster's
  and leads to the session, or the service is public and a verified token names the session and
  its current token identifier.
\<close>

definition identified ::
  "octo_env \<Rightarrow> Cache \<Rightarrow> DoAuthenticateAndAuthorizeRequest \<Rightarrow> Session \<Rightarrow> bool" where
  "identified E c rq s \<longleftrightarrow>
     (\<exists>v req. da_Service rq = Some v \<and> da_Request rq = Some req \<and>
       ((\<exists>src. dq_Source req = Some src \<and> so_Address src \<noteq> [] \<and> isAddressFromClient E (so_Address src) \<and>
           GetSession c (so_Address src) = Ok s) \<or>
        (\<exists>tkn cl a. sv_IsPublic (svc_Spec v) \<and>
           getAccessTokenFromHTTPHeader (getHTTPHeadersFromReq req) = Ok tkn \<and>
           oe_VerifyAccessToken E tkn = Ok cl \<and> tc_SessionUID cl = md_Uid (se_Metadata s) \<and>
           st_Authentication (se_Status s) = Some a \<and> tc_TokenID cl = au_TokenID a)))"

lemma getConnectionIdentifier_Ok:
  assumes "getConnectionIdentifier E (Some rq) = Ok (sessID, claims)"
  shows "\<exists>v req. da_Service rq = Some v \<and> da_Request rq = Some req \<and>
    ((claims = None \<and> (\<exists>src. dq_Source req = Some src \<and> so_Address src = sessID \<and> sessID \<noteq> [] \<and>
        isAddressFromClient E sessID)) \<or>
     (\<exists>tkn cl. claims = Some cl \<and> sv_IsPublic (svc_Spec v) \<and> sessID = tc_SessionUID cl \<and>
        getAccessTokenFromHTTPHeader (getHTTPHeadersFromReq req) = Ok tkn \<and> oe_VerifyAccessToken E tkn = Ok cl))"
proof -
  obtain v req where vr: "da_Service rq = Some v" "da_Request rq = Some req"
    using assms by (auto simp: getConnectionIdentifier_def split: option.splits)
  let ?addr = "case dq_Source req of None \<Rightarrow> [] | Some s \<Rightarrow> so_Address s"
  show ?thesis
  proof (cases "?addr \<noteq> [] \<and> isAddressFromClient E ?addr")
    case True
    with assms vr show ?thesis
      by (cases "dq_Source req") (auto simp: getConnectionIdentifier_def Let_def)
  next
    case False
    with assms vr show ?thesis
      by (cases "getAccessTokenFromHTTPHeader (getHTTPHeadersFromReq req)")
        (auto simp: getConnectionIdentifier_def Let_def split: if_splits)
  qed
qed

lemma authenticate_Ok:
  assumes "authenticate E now (Some rq) c = (Ok di, c')"
  shows "identified E c rq (di_Session di)" and "\<not> IsExpired now (di_Session di)" and "di_User di \<noteq> None"
proof -
  obtain sessID claims where id: "getConnectionIdentifier E (Some rq) = Ok (sessID, claims)"
    using assms by (auto simp: authenticate_def split: go.splits)
  obtain d where d: "GetDownstreamInfoBySessionIdentifier c sessID = Ok d"
    using assms id by (auto simp: authenticate_def split: go.splits if_splits)
  have exp: "\<not> IsExpired now (di_Session d)"
    using assms id d by (auto simp: authenticate_def split: if_splits)
  obtain usr c1 device c2 groups c3 where
    "go_map (\<lambda>_. \<lparr>di_User = Some usr, di_Device = device, di_Session = di_Session d, di_Groups = groups\<rparr>)
       (check_claims claims (di_Session d)) = Ok di"
    using assms id d exp by (auto simp: authenticate_def dest!: go_seq_Ok)
  then have di: "di_Session di = di_Session d" "di_User di = Some usr"
    and claims: "check_claims claims (di_Session d) = Ok ()"
    by auto
  show "\<not> IsExpired now (di_Session di)" "di_User di \<noteq> None"
    using exp di by simp_all
  have sess: "GetSession c sessID = Ok (di_Session d)"
    using GetDownstreamInfo_Ok(2) [OF d] .
  have cl: "tc_SessionUID x = md_Uid (se_Metadata (di_Session d)) \<and>
      (\<exists>a. st_Authentication (se_Status (di_Session d)) = Some a \<and> tc_TokenID x = au_TokenID a)"
    if "claims = Some x" for x
    using claims that by (auto simp: check_claims_def split: if_splits)
  show "identified E c rq (di_Session di)"
    using getConnectionIdentifier_Ok [OF id] sess cl unfolding identified_def di(1) by blast
qed

lemma response_authorized:
  assumes "AuthenticateAndAuthorize E now pts rq c = (Ok resp, c')" and "aa_IsAuthorized resp"
  obtains di c1 reqCtx c2 where "authenticate E now (Some rq) c = (Ok di, c1)"
    and "aa_RequestContext resp = Some reqCtx" and "rc_Session reqCtx = Some (di_Session di)"
    and "isAuthorized E now pts (Some reqCtx) c1 = (Ok (True, aa_Reason resp), c2)"
    and "aa_IsAuthenticated resp"
proof -
  obtain a c1 where a: "authenticate E now (Some rq) c = (a, c1)" by fastforce
  with assms obtain di where di: "a = Ok di"
    by (cases a) (auto simp: AuthenticateAndAuthorize_def unauthenticated_response_def split: if_splits)
  let ?ctx = "go_bind (deref (da_Request rq)) (\<lambda>dq. go_bind (deref (da_Service rq)) (\<lambda>v.
                getReqCtx di (dq_Request dq) v c1))"
  obtain reqCtx where ctx: "?ctx = Ok reqCtx"
    using assms a di by (cases ?ctx) (auto simp: AuthenticateAndAuthorize_def)
  then have sess: "rc_Session reqCtx = Some (di_Session di)"
    by (auto simp: getReqCtx_def)
  obtain auth c2 where auth: "isAuthorized E now pts (Some reqCtx) c1 = (auth, c2)" by fastforce
  obtain b reason where br: "auth = Ok (b, reason)"
    using assms a di ctx auth by (cases auth) (auto simp: AuthenticateAndAuthorize_def go_seq_def)
  then have "resp = \<lparr>aa_IsAuthenticated = True, aa_IsAuthorized = b, aa_RequestContext = Some reqCtx,
      aa_Reason = reason, aa_ServiceConfigName = aa_ServiceConfigName resp\<rparr>"
    using assms a di ctx auth
    by (auto simp: AuthenticateAndAuthorize_def go_seq_def split: go.splits)
  then have "aa_RequestContext resp = Some reqCtx" "aa_Reason resp = reason" "aa_IsAuthenticated resp"
    "b = aa_IsAuthorized resp"
    by (metis AuthenticateAndAuthorizeResponse.select_convs)+
  with that a di sess auth br assms(2) show thesis by simp
qed


section \<open>A connected client\<close>

text \<open>The state after the watchers have seen a user, a connected session and a policy.\<close>

definition example_state :: Octovigil where
  "example_state =
     on_policy bolt_put (OnAdd example_policy)
       (on_session bolt_put (OnAdd connected_session) (on_user bolt_put (OnAdd example_user) NewOctovigil))"

lemma example_state_reachable: "reachable bolt_put example_state"
  unfolding example_state_def
  by (intro reachable.next_state [OF _ step.policy] reachable.next_state [OF _ step.session]
      reachable.next_state [OF reachable.init step.user])

lemma other_buckets:
  "GetUser (snd (SetPolicy pe p c)) k = GetUser c k" "GetUser (snd (setSession pe s c)) k = GetUser c k"
  "GetSession (snd (SetPolicy pe p c)) k = GetSession c k"
  "GetNamespace (snd (SetPolicy pe p c)) k = GetNamespace c k"
  "GetNamespace (snd (setSession pe s c)) k = GetNamespace c k"
  "GetNamespace (snd (SetUser pe u c)) k = GetNamespace c k"
  by (simp_all add: GetUser_def GetSession_def GetNamespace_def SetPolicy_def setSession_def SetUser_def Let_def
      split: prod.splits)

lemma new_cache_namespace: "GetNamespace NewCache k = Fail ErrNotFound"
  by (simp add: GetNamespace_def getResource_def NewCache_def)

lemma example_state_lookups:
  "GetPolicy (oc_cache example_state) ''allow-all'' = Ok example_policy"
  "GetUser (oc_cache example_state) ''u1'' = Ok example_user"
  "GetSession (oc_cache example_state) ''100.64.0.10'' = Ok connected_session"
  "GetNamespace (oc_cache example_state) ''dev'' = Fail ErrNotFound"
proof -
  have "''allow-all'' \<in> named_keys pol_Metadata example_policy" "''u1'' \<in> user_keys example_user"
    "''100.64.0.10'' \<in> session_keys connected_session"
    by (simp_all add: named_keys_def user_keys_def session_keys_def put_keys_def bolt_put_def example_policy_def
        example_user_def connected_session_keys)
  then show "GetPolicy (oc_cache example_state) ''allow-all'' = Ok example_policy"
    "GetUser (oc_cache example_state) ''u1'' = Ok example_user"
    "GetSession (oc_cache example_state) ''100.64.0.10'' = Ok connected_session"
    by (simp_all add: example_state_def on_policy_def on_session_def on_user_def handle_cache other_buckets
        policies.get_put_same users.get_put_same sessions.get_put_same)
  show "GetNamespace (oc_cache example_state) ''dev'' = Fail ErrNotFound"
    by (simp add: example_state_def on_policy_def on_session_def on_user_def handle_cache other_buckets
        NewOctovigil_def new_cache_namespace)
qed

lemma example_precheck:
  "precheck example_env 5 example_request example_user connected_session plain_service = Ok None"
  by (simp add: precheck_def IsValid_def IsExpired_def HasValidAccessToken_def token_end_def Add_def AsTime_def reject_if_def
      connected_session_def example_session_def example_user_def example_request_def plain_service_def
      IsClient_def forwarded_mismatch_def IsAuthorizedByScopes_def)

lemma example_rule_facts:
  "\<forall>r\<in>set [example_policy_rule]. rule_ok r"
  "\<forall>r\<in>set [example_policy_rule]. getDecisionRule example_env r [] \<noteq> Panic"
  "rule_matches example_env [] example_policy_rule" "rule_effect example_policy_rule = ALLOW"
  by (simp_all add: example_policy_rule_def rule_ok_def rule_prio_def rule_effect_def getDecisionRule_def
      rule_matches_def EvalCondition_def Let_def)

theorem isAuthorized_decides_witness:
  "\<exists>reason. isAuthorized example_env 5 [] (Some example_request) (oc_cache example_state) =
     (Ok (True, reason), oc_cache example_state)"
proof -
  have req: "rc_User example_request = Some example_user" "rc_Session example_request = Some connected_session"
    "rc_Service example_request = Some plain_service" "oe_ctxMap example_env example_request = Ok []"
    by (simp_all add: example_request_def example_env_def)
  have "decide (rule_matches example_env []) (set [example_policy_rule]) = ALLOW"
    using example_rule_facts(3,4) by (auto simp: decide_ALLOW_iff)
  then show ?thesis
    using isAuthorized_decides [OF example_rules_ok(1) req(1-3) example_precheck req(4)
        example_all_rules [OF example_state_lookups(1,4)] example_rule_facts(1,2)] by simp
qed

lemma example_authorized:
  "isAuthorized example_env 5 [] (Some example_request) (oc_cache example_state) =
     (Ok (True, Some (getMatchedDecisionReason example_policy_rule)), oc_cache example_state)"
proof -
  have sort: "oe_sort example_env policyRule_cmp [x] = [x]" for x
    by (simp add: example_env_def insertionSortCmpFunc_def)
  have "oe_ctxMap example_env example_request = Ok []" by (simp add: example_env_def)
  then have "getDecision example_env 5 [] example_request (oc_cache example_state) =
      (Ok \<lparr>dr_decision = MATCH_YES, dr_effect = ALLOW,
           dr_reason = Some (getMatchedDecisionReason example_policy_rule)\<rparr>, oc_cache example_state)"
    by (simp add: getDecision_def example_all_rules [OF example_state_lookups(1,4)] doGetDecision_def sort
        getDecisionRule_def EvalCondition_def Let_def) (simp add: example_policy_rule_def EvalCondition_def)
  moreover have "rc_User example_request = Some example_user" "rc_Session example_request = Some connected_session"
    "rc_Service example_request = Some plain_service"
    by (simp_all add: example_request_def)
  ultimately show ?thesis
    using example_precheck by (simp add: isAuthorized_def go_seq_def)
qed

theorem isAuthorized_sound_witness:
  "admissible example_env 5 example_request \<and>
   (\<exists>r. granted_by example_env 5 [] example_request (oc_cache example_state) r \<and>
      Some (getMatchedDecisionReason example_policy_rule) = Some (getMatchedDecisionReason r))"
  by (rule isAuthorized_sound [OF example_rules_ok(1) example_authorized])

definition example_downstream :: DoAuthenticateAndAuthorizeRequest where
  "example_downstream =
     \<lparr>da_Service = Some plain_service,
      da_Request = Some \<lparr>dq_Source = Some \<lparr>so_Address = ''100.64.0.10'', so_Port = 40000\<rparr>, dq_Request = None\<rparr>\<rparr>"

lemma example_address: "isAddressFromClient example_env ''100.64.0.10''"
proof -
  have "ParseAddr ''100.64.0.10'' = Some (Addr4 0x6440000A)"
    by (simp add: ParseAddr_def parseIPv4_def digit_val_def of_octets_def)
  then show ?thesis
    by (simp add: isAddressFromClient_def example_env_def Contains_v4_iff)
qed

lemma example_authenticate:
  "authenticate example_env 5 (Some example_downstream) (oc_cache example_state) =
     (Ok \<lparr>di_User = Some example_user, di_Device = None, di_Session = connected_session, di_Groups = []\<rparr>,
      oc_cache example_state)"
proof -
  have "getConnectionIdentifier example_env (Some example_downstream) = Ok (''100.64.0.10'', None)"
    using example_address by (simp add: getConnectionIdentifier_def example_downstream_def)
  moreover have "\<exists>r. st_UserRef (se_Status connected_session) = Some r \<and> or_Uid r = ''u1''"
    "st_DeviceRef (se_Status connected_session) = None" "\<not> IsExpired 5 connected_session"
    "us_Groups (ur_Spec example_user) = []"
    by (simp_all add: connected_session_def example_session_def IsExpired_def example_user_def)
  ultimately show ?thesis
    by (auto simp: authenticate_def GetDownstreamInfoBySessionIdentifier_def example_state_lookups
        session_missing_def lookup_optional_def load_user_def load_device_def load_groups_def check_claims_def
        go_seq_def go_map_def)
qed


end
