(* ===== verification/Ucorev1Config.thy ===== *)
theory Ucorev1Config imports Ucorev1 begin

text \<open>
  The rest of \<open>pkg/apiutils/ucorev1/ucorev1.go\<close> (identity providers, cluster configuration,
  secrets, regions), and what the functions of \<open>Ucorev1\<close> guarantee.
\<close>

section \<open>Identity providers\<close>

fun GetByName :: "IdentityProvider list \<Rightarrow> string \<Rightarrow> IdentityProvider go" where
  "GetByName [] name = Fail (Errorf ''No identity provider exists with name'')"
| "GetByName (idp # idps) name =
     (if md_Name (idp_Metadata idp) = name then Ok idp else GetByName idps name)"

fun GetByUID :: "IdentityProvider list \<Rightarrow> string \<Rightarrow> IdentityProvider option" where
  "GetByUID [] uid = None"
| "GetByUID (itm # itms) uid =
     (if md_Uid (idp_Metadata itm) = uid then Some itm else GetByUID itms uid)"

fun index_of_name :: "IdentityProvider list \<Rightarrow> nat \<Rightarrow> string \<Rightarrow> nat \<times> bool" where
  "index_of_name [] i name = (0, False)"
| "index_of_name (itm # itms) i name =
     (if md_Name (idp_Metadata itm) = name then (i, True) else index_of_name itms (Suc i) name)"

fun FilterByNames :: "IdentityProvider list \<Rightarrow> string list \<Rightarrow> IdentityProvider list go" where
  "FilterByNames items [] = Ok []"
| "FilterByNames items (name # lst) =
     (case index_of_name items 0 name of (idx, ok) \<Rightarrow>
        if ok then go_bind (nth_go items idx) (\<lambda>x. go_map (Cons x) (FilterByNames items lst))
        else FilterByNames items lst)"

section \<open>Cluster configuration\<close>

definition GetNetworkMode :: "ClusterConfig \<Rightarrow> Network_Mode" where
  "GetNetworkMode c =
     (case cc_NetworkConfig c of
        None \<Rightarrow> DUAL_STACK
      | Some nc \<Rightarrow> if nc_Mode nc = MODE_DEFAULT then DUAL_STACK else nc_Mode nc)"

definition HasV4 :: "ClusterConfig option \<Rightarrow> bool" where
  "HasV4 i =
     (case i of
        None \<Rightarrow> True
      | Some c \<Rightarrow> (case cc_NetworkConfig c of
                     None \<Rightarrow> True
                   | Some nc \<Rightarrow> (case nc_Mode nc of
                                    V4_ONLY \<Rightarrow> True | DUAL_STACK \<Rightarrow> True | MODE_DEFAULT \<Rightarrow> True | _ \<Rightarrow> False)))"

definition HasV6 :: "ClusterConfig option \<Rightarrow> bool" where
  "HasV6 i =
     (case i of
        None \<Rightarrow> True
      | Some c \<Rightarrow> (case cc_NetworkConfig c of
                     None \<Rightarrow> True
                   | Some nc \<Rightarrow> (case nc_Mode nc of
                                    V6_ONLY \<Rightarrow> True | DUAL_STACK \<Rightarrow> True | MODE_DEFAULT \<Rightarrow> True | _ \<Rightarrow> False)))"

definition wireguard_of :: "ClusterConfig \<Rightarrow> Wireguard option" where
  "wireguard_of c = (case cc_NetworkConfig c of None \<Rightarrow> None | Some nc \<Rightarrow> nc_Wireguard nc)"

definition quicv0_of :: "ClusterConfig \<Rightarrow> Quicv0 option" where
  "quicv0_of c = (case cc_NetworkConfig c of None \<Rightarrow> None | Some nc \<Rightarrow> nc_Quicv0 nc)"

definition GetGatewayPortWireGuard :: "ClusterConfig \<Rightarrow> 32 word" where
  "GetGatewayPortWireGuard c =
     (case wireguard_of c of
        None \<Rightarrow> 53820
      | Some w \<Rightarrow> if wg_GatewayPort w = 0 then 53820 else wg_GatewayPort w)"

definition GetGatewayPortQUICv0 :: "ClusterConfig \<Rightarrow> 32 word" where
  "GetGatewayPortQUICv0 c =
     (case quicv0_of c of
        None \<Rightarrow> 8443
      | Some q \<Rightarrow> if qu_GatewayPort q = 0 then 8443 else qu_GatewayPort q)"

definition GetDevMTUWireGuard :: "ClusterConfig \<Rightarrow> int" where
  "GetDevMTUWireGuard c =
     (case wireguard_of c of
        None \<Rightarrow> 1280
      | Some w \<Rightarrow> if wg_Mtu w = 0 then 1280 else uint (wg_Mtu w))"

definition GetDevMTUQUIV0 :: "ClusterConfig \<Rightarrow> int" where
  "GetDevMTUQUIV0 c =
     (case quicv0_of c of
        None \<Rightarrow> 1280
      | Some q \<Rightarrow> if qu_Mtu q = 0 then 1280
                  else if 1280 < qu_Mtu q then 1280 else uint (qu_Mtu q))"

section \<open>Secrets and regions\<close>

definition secret_value :: "Secret_Value option \<Rightarrow> string" where
  "secret_value d =
     (case d of
        None \<Rightarrow> []
      | Some (Value v) \<Rightarrow> v
      | Some (ValueBytes b) \<Rightarrow> b
      | Some Other_Value \<Rightarrow> [])"

definition GetSpecValueStr :: "Secret \<Rightarrow> string" where
  "GetSpecValueStr s = secret_value (sec_Spec_Data s)"

definition GetValueStr :: "Secret \<Rightarrow> string" where
  "GetValueStr s = secret_value (sec_Data s)"

definition SetCertificate :: "Secret option \<Rightarrow> string \<Rightarrow> string \<Rightarrow> Secret option" where
  "SetCertificate co chainPEM privateKeyPEM =
     (case co of
        None \<Rightarrow> None
      | Some c \<Rightarrow> Some (c\<lparr>sec_Spec_Data := Some (Value chainPEM), sec_Data := Some (Value privateKeyPEM)\<rparr>))"

definition GetCertificateChainAndKey :: "Secret \<Rightarrow> (string \<times> string) go" where
  "GetCertificateChainAndKey c =
     (let chain = GetSpecValueStr c; key = GetValueStr c in
      if length chain = 0 \<or> length key = 0
      then Fail (Errorf ''Could not find certificate chain and key'') else Ok (chain, key))"

definition Region_IsDefault :: "Region \<Rightarrow> bool" where
  "Region_IsDefault r \<longleftrightarrow> md_Name (rg_Metadata r) = ''default''"

section \<open>Sessions and time\<close>

lemma HasValidAccessToken_mono:
  "HasValidAccessToken now s = Ok True \<Longrightarrow> earlier \<le> now \<Longrightarrow> HasValidAccessToken earlier s = Ok True"
  by (auto simp: HasValidAccessToken_def split: if_splits)

lemma IsExpired_mono: "IsExpired earlier s \<Longrightarrow> earlier \<le> now \<Longrightarrow> IsExpired now s"
  by (auto simp: IsExpired_def split: option.splits)

lemma IsValid_True_iff:
  "IsValid now s = Ok True \<longleftrightarrow>
     ss_State (se_Spec s) = ACTIVE \<and> \<not> IsExpired now s \<and> HasValidAccessToken now s = Ok True"
  by (auto simp: IsValid_def split: if_splits)

text \<open>
  The passing of time never revives a session: one that is valid at some time was valid at every
  earlier time, and one that is not valid stays so.
\<close>

theorem IsValid_antitone:
  assumes "earlier \<le> now"
  shows "IsValid now s = Ok True \<longrightarrow> IsValid earlier s = Ok True"
  using HasValidAccessToken_mono [OF _ assms] IsExpired_mono [OF _ assms]
  by (auto simp: IsValid_True_iff)

theorem IsValid_antitone_witness:
  "IsValid 3599000000000 example_session = Ok True \<and> IsValid 5 example_session = Ok True"
proof -
  have "IsValid 3599000000000 example_session = Ok True"
    by (simp add: IsValid_def IsExpired_def HasValidAccessToken_def token_end_def example_session_def
        Add_def AsTime_def)
  with IsValid_antitone [of 5 3599000000000 example_session] show ?thesis by simp
qed

text \<open>
  A client that follows \<open>ShouldRefresh\<close> refreshes in time: for an access token of at least
  four nanoseconds, once the token is no longer valid the answer is yes, and it is yes
  already throughout the last quarter of the validity of the token.
\<close>

theorem ShouldRefresh_before_expiry:
  assumes "st_Authentication (se_Status s) = Some a" and "au_AccessTokenDuration a = Some d"
    and "4 \<le> sint (ToGo (Some d))"
  shows "(HasValidAccessToken now s = Ok False \<longrightarrow> ShouldRefresh now s = Ok True) \<and>
    (token_end a (Some d) - sint (ToGo (Some d)) div 4 < now \<longrightarrow> ShouldRefresh now s = Ok True)"
proof -
  let ?d = "sint (ToGo (Some d))"
  have neg: "sint (- ToGo (Some d)) = - ?d"
    by (rule sint_uminus_64) (use assms(3) in simp)
  have quarter: "?d sdiv 4 = ?d div 4"
    using assms(3) by (simp add: signed_divide_int_def sgn_if)
  have refresh: "ShouldRefresh now s = Ok (token_end a (Some d) - ?d div 4 < now)"
    using assms(1,2) by (simp add: ShouldRefresh_def Let_def neg quarter token_end_def Add_def)
  have valid: "HasValidAccessToken now s = Ok (now < token_end a (Some d))"
    using assms(1,2) by (simp add: HasValidAccessToken_def)
  have "0 < ?d div 4"
    using assms(3) by (simp add: pos_imp_zdiv_pos_iff)
  then show ?thesis
    unfolding refresh valid by auto
qed

theorem ShouldRefresh_before_expiry_witness:
  "ShouldRefresh 2700000000001 example_session = Ok True"
  using ShouldRefresh_before_expiry [of example_session
      "\<lparr>au_Info = None, au_SetAt = Some 0, au_TokenID = ''t1'',
        au_AccessTokenDuration = Some (Hours 1), au_RefreshTokenDuration = None\<rparr>" "Hours 1" 2700000000001]
  by (simp add: example_session_def token_end_def Add_def AsTime_def)

text \<open>
  \<open>HasValidRefreshTokenByTokenID\<close> tests the access token's duration where it means the refresh
  token's: without an access token duration the refresh token of that identifier is accepted
  whatever its own duration says, and without a refresh token duration it is refused although
  \<open>HasValidRefreshToken\<close> accepts it.
\<close>

theorem refresh_by_id_tests_wrong_duration:
  assumes "st_Authentication (se_Status s) = Some a"
  shows "(au_AccessTokenDuration a = None \<longrightarrow>
            HasValidRefreshTokenByTokenID now s (au_TokenID a) = Ok True) \<and>
    (au_AccessTokenDuration a \<noteq> None \<and> au_RefreshTokenDuration a = None \<and> AsTime (au_SetAt a) \<le> now \<longrightarrow>
       HasValidRefreshTokenByTokenID now s (au_TokenID a) = Ok False \<and> HasValidRefreshToken now s = Ok True)"
  using assms by (auto simp: HasValidRefreshTokenByTokenID_def HasValidRefreshToken_def token_end_def Add_def)

theorem refresh_by_id_tests_wrong_duration_witness:
  "HasValidRefreshTokenByTokenID 60 example_session ''t1'' = Ok False \<and>
   HasValidRefreshToken 60 example_session = Ok True"
  using refresh_by_id_tests_wrong_duration [of example_session
      "\<lparr>au_Info = None, au_SetAt = Some 0, au_TokenID = ''t1'',
        au_AccessTokenDuration = Some (Hours 1), au_RefreshTokenDuration = None\<rparr>" 60]
  by (simp add: example_session_def AsTime_def)

section \<open>Other guarantees\<close>

text \<open>
  The two ways of reading the network mode agree: IPv4 (IPv6) is present exactly when
  \<open>GetNetworkMode\<close> is dual stack or the mode of that family alone, and one of the
  families is present exactly for the modes that the enum names.
\<close>

theorem network_modes_agree:
  "HasV4 (Some c) = (GetNetworkMode c \<in> {V4_ONLY, DUAL_STACK}) \<and>
   HasV6 (Some c) = (GetNetworkMode c \<in> {V6_ONLY, DUAL_STACK}) \<and>
   (HasV4 (Some c) \<or> HasV6 (Some c)) = (GetNetworkMode c \<in> {DUAL_STACK, V6_ONLY, V4_ONLY}) \<and>
   GetDevMTUQUIV0 c \<le> 1280"
  by (auto simp: HasV4_def HasV6_def GetNetworkMode_def GetDevMTUQUIV0_def word_less_def not_less
      split: option.splits Network_Mode.splits)

lemma index_of_name_ok:
  "index_of_name items i name = (idx, True) \<Longrightarrow>
   i \<le> idx \<and> idx - i < length items \<and> GetByName items name = Ok (items ! (idx - i))"
proof (induction items arbitrary: i)
  case (Cons itm items)
  show ?case
  proof (cases "md_Name (idp_Metadata itm) = name")
    case False
    with Cons have "Suc i \<le> idx \<and> idx - Suc i < length items \<and> GetByName items name = Ok (items ! (idx - Suc i))"
      by simp
    moreover from this have "idx - i = Suc (idx - Suc i)" by linarith
    ultimately show ?thesis
      using False by simp
  qed (use Cons in simp)
qed simp

lemma index_of_name_none:
  "index_of_name items i name = (idx, False) \<Longrightarrow> \<not> is_ok (GetByName items name)"
  by (induction items arbitrary: i) (auto split: if_splits)

text \<open>
  Filtering identity providers never reads out of range; it keeps the order of the names asked
  for and returns for each name what the lookup by name returns, skipping the names that the
  lookup does not find.
\<close>

theorem FilterByNames_is_lookup:
  "FilterByNames items lst =
   Ok (map (\<lambda>n. case GetByName items n of Ok x \<Rightarrow> x) (filter (\<lambda>n. is_ok (GetByName items n)) lst))"
proof (induction lst)
  case (Cons name lst)
  show ?case
  proof (cases "index_of_name items 0 name")
    case (Pair idx ok)
    show ?thesis
    proof (cases ok)
      case True
      with Pair index_of_name_ok [of items 0 name idx] Cons show ?thesis
        by (simp add: nth_go_def go_map_def)
    next
      case False
      with Pair index_of_name_none [of items 0 name idx] Cons show ?thesis by simp
    qed
  qed
qed simp

text \<open>
  The certificate that \<open>SetCertificate\<close> stores is the one that \<open>GetCertificateChainAndKey\<close> reads
  back, and an empty chain or key is reported as missing.
\<close>

theorem certificate_roundtrip:
  "map_option GetCertificateChainAndKey (SetCertificate (Some c) chain key) =
   Some (if chain = [] \<or> key = [] then Fail (Errorf ''Could not find certificate chain and key'')
         else Ok (chain, key))"
  by (simp add: SetCertificate_def GetCertificateChainAndKey_def GetSpecValueStr_def GetValueStr_def
      secret_value_def Let_def)

definition example_service :: Service where
  "example_service =
     \<lparr>svc_ApiVersion = ''core/v1'', svc_Kind = ''Service'',
      svc_Metadata = (se_Metadata example_session)
        \<lparr>md_Uid := ''v1'', md_Name := ''kube.default'',
         md_SpecLabels := [(''k8s-kubeconfig-url-default'', ''https://10.0.0.1:6443'')]\<rparr>,
      svc_Spec =
        \<lparr>sv_Port = 443, sv_Mode = KUBERNETES, sv_Authorization = None,
         sv_Config = Some \<lparr>sc_Name = [], sc_ClientCertificate = None, sc_Upstream = None,
                           sc_Parent = [], sc_Tls = None, sc_Type = Config_Other JNull\<rparr>,
         sv_DynamicConfig = None, sv_IsTLS = False, sv_IsPublic = False, sv_IsAnonymous = False,
         sv_Deployment = None, sv_Attrs = None, sv_Region = []\<rparr>,
      svc_Status =
        \<lparr>sx_Addresses = [],
         sx_NamespaceRef = Some \<lparr>or_ApiVersion = ''core/v1'', or_Kind = ''Namespace'', or_Uid = ''n1'',
                                 or_Name = ''default'', or_ResourceVersion = []\<rparr>,
         sx_ManagedService = None, sx_RegionRef = None, sx_PrimaryHostname = [],
         sx_AdditionalHostnames = [], sx_Port = 443\<rparr>\<rparr>"

text \<open>
  The endpoint that a Kubernetes configuration takes from its kubeconfig is dropped when the
  configuration has no upstream: the service then has no endpoint at all.
\<close>

theorem kubeconfig_endpoint_dropped:
  assumes "\<not> IsManagedService l" and "sc_Upstream cfg = None" and "config_ssh cfg = None"
  shows "GetAllUpstreamEndpointsByConfig urlParse l (Some cfg) = Ok []"
  using assms by (simp add: GetAllUpstreamEndpointsByConfig_def IsManagedService_def Let_def)

theorem kubeconfig_endpoint_dropped_witness:
  "kubeconfig_url example_service (the (sv_Config (svc_Spec example_service))) = ''https://10.0.0.1:6443'' \<and>
   GetAllUpstreamEndpoints (\<lambda>u. None) example_service = Ok []"
proof -
  have "\<not> IsManagedService example_service"
    "sc_Upstream (the (sv_Config (svc_Spec example_service))) = None"
    "config_ssh (the (sv_Config (svc_Spec example_service))) = None"
    by (simp_all add: example_service_def IsManagedService_def config_ssh_def)
  from kubeconfig_endpoint_dropped [OF this, of "\<lambda>u. None"] show ?thesis
    by (simp add: example_service_def GetAllUpstreamEndpoints_def kubeconfig_url_def GetRealName_def)
qed

end
