(* ===== verification/Rscserver.thy ===== *)
theory Rscserver imports Apivalidation Ucorev1 begin

text \<open>
  \<open>cluster/rscserver/rscserver\<close>, the resource server: a Postgres table of resources, a copy of them in
  Redis, and the messages published to the watchers. A row of the table is a record and the
  table the list of its rows in the order of their \<open>id\<close>; Redis is a map from keys to marshalled
  messages, each with the message type it was marshalled from. The server is the one that
  the program starts: no hooks, no secret manager, not a test build.
\<close>

section \<open>State and environment\<close>

text \<open>A resource object: what every kind of resource has in common.\<close>

record rsc_obj =
  ob_ApiVersion :: string
  ob_Kind :: string
  ob_Metadata :: "Metadata option"
  ob_Spec :: "json option"
  ob_Status :: "json option"
  ob_Data :: "json option"

record row =
  rw_Uid :: string
  rw_Api :: string
  rw_Version :: string
  rw_Kind :: string
  rw_Resource :: rsc_obj

datatype WatchEvent = Event_Create rsc_obj | Event_Update rsc_obj rsc_obj | Event_Delete rsc_obj

record rsc_state =
  rs_table :: "row list"
  rs_redis :: "string \<rightharpoonup> string \<times> rsc_obj"
  rs_published :: "(string \<times> WatchEvent) list"

datatype stmt = SELECT | INSERT | UPDATE | DELETE_ROW

text \<open>
  What a request meets: the validator of identifiers, the statements that fail, the commands of Redis
  that fail, and the conversions of messages. \<open>re_Unmarshal to from\<close> reads the bytes
  that a message of type \<open>from\<close> was marshalled to as a message of type \<open>to\<close>.
\<close>

record rsc_env =
  re_V :: validators
  re_db :: "stmt \<Rightarrow> error option"
  re_redis_get :: "string \<Rightarrow> error option"
  re_redis_set :: "string \<Rightarrow> error option"
  re_redis_del :: "error option"
  re_publish :: "error option"
  re_Unmarshal :: "string \<Rightarrow> string \<Rightarrow> rsc_obj \<Rightarrow> rsc_obj go"
  re_FromMap :: "string \<Rightarrow> rsc_obj \<Rightarrow> rsc_obj go"

text \<open>The identifiers and the instant that a request draws, and the caller that its headers name.\<close>

record rsc_call =
  rc_NewUid :: string
  rc_NewVersion :: string
  rc_Now :: int
  rc_ActorRef :: "ObjectReference option"
  rc_ActorOp :: string

section \<open>Names and options\<close>

definition rgxName :: "string \<Rightarrow> bool" where
  "rgxName s \<longleftrightarrow>
     2 \<le> length s \<and> length s \<le> 54 \<and> lower_alnum (hd s) \<and> lower_alnum (last s) \<and>
     list_all (\<lambda>c. name_char c \<or> c = CHR '':'') (butlast (tl s))"

definition MaxNameSubArgs :: nat where
  "MaxNameSubArgs = 7"

definition checkName :: "string \<Rightarrow> unit go" where
  "checkName arg =
     go_bind (reject_if (length arg = 0) (Errorf ''Empty name'')) (\<lambda>_.
     go_bind (reject_if (length arg < 2) (Errorf ''Name must contain at least 2 characters'')) (\<lambda>_.
     go_bind (reject_if (140 < length arg) (Errorf ''Name is too long'')) (\<lambda>_.
     let nameArgs = Split arg CHR ''.'' in
     go_bind (reject_if (MaxNameSubArgs < length nameArgs) (Errorf ''Invalid name format'')) (\<lambda>_.
     go_each (\<lambda>a. reject_if (\<not> rgxName a) (Errorf ''Invalid name'')) nameArgs))))"

definition rsc_checkGetOptions :: "rsc_env \<Rightarrow> GetOptions \<Rightarrow> unit go" where
  "rsc_checkGetOptions E req =
     go_bind (reject_if (go_Name req = [] \<and> go_Uid req = [])
       (Errorf ''At least either the name or the UID must be specified'')) (\<lambda>_.
     go_bind (if go_Name req \<noteq> [] then checkName (go_Name req) else Ok ()) (\<lambda>_.
     reject_if (go_Uid req \<noteq> [] \<and> \<not> IsUUIDv4 (re_V E) (go_Uid req)) (Errorf ''Invalid UID'')))"

definition GetApiVersion :: "string \<Rightarrow> string \<Rightarrow> string" where
  "GetApiVersion api version = api @ CHR ''/'' # version"

text \<open>\<open>NewResourceObject\<close> of \<open>cluster/common/vutils\<close>: the type of the new message is its kind.\<close>

definition NewResourceObject :: "string \<Rightarrow> string \<Rightarrow> string \<Rightarrow> string go" where
  "NewResourceObject api version kind =
     (if api = ''core'' then NewObject kind else Fail (Errorf ''Invalid API''))"

definition isTypeSecret :: "string \<Rightarrow> bool" where
  "isTypeSecret kind \<longleftrightarrow> length ''Secret'' \<le> length kind \<and> drop (length kind - length ''Secret'') kind = ''Secret''"

section \<open>The copy in Redis\<close>

definition getObjectKeyByUID :: "string \<Rightarrow> string" where
  "getObjectKeyByUID uid = ''rsc:'' @ uid"

definition getObjectKeyByName :: "string \<Rightarrow> string \<Rightarrow> string \<Rightarrow> string \<Rightarrow> string" where
  "getObjectKeyByName api version kind name =
     ''rsc:'' @ api @ CHR '':'' # version @ CHR '':'' # kind @ CHR '':'' # name"

definition redis_Set :: "rsc_env \<Rightarrow> string \<Rightarrow> string \<times> rsc_obj \<Rightarrow> rsc_state \<Rightarrow> rsc_state" where
  "redis_Set E key v st =
     (case re_redis_set E key of Some e \<Rightarrow> st | None \<Rightarrow> st\<lparr>rs_redis := (rs_redis st)(key \<mapsto> v)\<rparr>)"

text \<open>The value that is found, unless it is missing or cannot be read.\<close>

definition doGetCache ::
  "rsc_env \<Rightarrow> GetOptions \<Rightarrow> string \<Rightarrow> string \<Rightarrow> string \<Rightarrow> rsc_state \<Rightarrow> rsc_obj option go" where
  "doGetCache E req api version kind st =
     (if isTypeSecret kind then Ok None
      else if go_Name req = [] \<and> go_Uid req = [] then Fail (Status InvalidArgument)
      else
        (let key = (if go_Name req \<noteq> [] then getObjectKeyByName api version kind (go_Name req)
                    else getObjectKeyByUID (go_Uid req)) in
         case re_redis_get E key of
           Some e \<Rightarrow> Fail (InternalWithErr e)
         | None \<Rightarrow>
             (case rs_redis st key of
                None \<Rightarrow> Ok None
              | Some (from, o') \<Rightarrow>
                  (case NewResourceObject api version kind of
                     Ok to \<Rightarrow> (case re_Unmarshal E to from o' of
                                Ok x \<Rightarrow> Ok (Some x)
                              | Fail e \<Rightarrow> Fail (InternalWithErr e)
                              | Panic \<Rightarrow> Panic)
                   | Fail e \<Rightarrow> Fail (InternalWithErr e)
                   | Panic \<Rightarrow> Panic))))"

text \<open>Errors of the two writes are ignored.\<close>

definition doSetCache ::
  "rsc_env \<Rightarrow> rsc_obj \<Rightarrow> string \<Rightarrow> string \<Rightarrow> string \<Rightarrow> rsc_state \<Rightarrow> unit go \<times> rsc_state" where
  "doSetCache E itm api version kind st =
     (if isTypeSecret kind then (Ok (), st)
      else (case ob_Metadata itm of
              None \<Rightarrow> (Panic, st)
            | Some md \<Rightarrow>
                (Ok (), redis_Set E (getObjectKeyByUID (md_Uid md)) (kind, itm)
                          (redis_Set E (getObjectKeyByName api version kind (md_Name md)) (kind, itm) st))))"

definition doDeleteCache ::
  "rsc_env \<Rightarrow> rsc_obj \<Rightarrow> string \<Rightarrow> string \<Rightarrow> string \<Rightarrow> rsc_state \<Rightarrow> unit go \<times> rsc_state" where
  "doDeleteCache E itm api version kind st =
     (case ob_Metadata itm of
        None \<Rightarrow> (Panic, st)
      | Some md \<Rightarrow>
          (Ok (), case re_redis_del E of
             Some e \<Rightarrow> st
           | None \<Rightarrow> st\<lparr>rs_redis := (rs_redis st)
               (getObjectKeyByName api version kind (md_Name md) := None,
                getObjectKeyByUID (md_Uid md) := None)\<rparr>))"

section \<open>Publishing\<close>

definition getRedisRscChannel :: "string \<Rightarrow> string \<Rightarrow> string \<Rightarrow> string" where
  "getRedisRscChannel api version kind =
     ''octelium.rsc.'' @ api @ CHR ''.'' # version @ CHR ''.'' # kind"

text \<open>A message that cannot be published is logged and lost.\<close>

definition publishMessage ::
  "rsc_env \<Rightarrow> string \<Rightarrow> string \<Rightarrow> string \<Rightarrow> WatchEvent \<Rightarrow> rsc_state \<Rightarrow> rsc_state" where
  "publishMessage E api version kind msg st =
     (case re_publish E of
        Some e \<Rightarrow> st
      | None \<Rightarrow> st\<lparr>rs_published := rs_published st @ [(getRedisRscChannel api version kind, msg)]\<rparr>)"

definition doPostCreate ::
  "rsc_env \<Rightarrow> rsc_obj \<Rightarrow> string \<Rightarrow> string \<Rightarrow> string \<Rightarrow> rsc_state \<Rightarrow> unit go \<times> rsc_state" where
  "doPostCreate E obj api version kind st =
     go_seq (doSetCache E obj api version kind st)
       (\<lambda>_ st1. (Ok (), publishMessage E api version kind (Event_Create obj) st1))"

definition doPostUpdate ::
  "rsc_env \<Rightarrow> rsc_obj \<Rightarrow> rsc_obj \<Rightarrow> string \<Rightarrow> string \<Rightarrow> string \<Rightarrow> rsc_state \<Rightarrow> unit go \<times> rsc_state" where
  "doPostUpdate E new old api version kind st =
     go_seq (doSetCache E new api version kind st)
       (\<lambda>_ st1. (Ok (), publishMessage E api version kind (Event_Update new old) st1))"

definition doPostDelete ::
  "rsc_env \<Rightarrow> rsc_obj \<Rightarrow> string \<Rightarrow> string \<Rightarrow> string \<Rightarrow> rsc_state \<Rightarrow> unit go \<times> rsc_state" where
  "doPostDelete E obj api version kind st =
     go_seq (doDeleteCache E obj api version kind st)
       (\<lambda>_ st1. (Ok (), publishMessage E api version kind (Event_Delete obj) st1))"

section \<open>Get\<close>

definition row_selected :: "GetOptions \<Rightarrow> string \<Rightarrow> string \<Rightarrow> string \<Rightarrow> row \<Rightarrow> bool" where
  "row_selected req api version kind r \<longleftrightarrow>
     rw_Api r = api \<and> rw_Version r = version \<and> rw_Kind r = kind \<and>
     (case ob_Metadata (rw_Resource r) of
        None \<Rightarrow> False
      | Some md \<Rightarrow> if go_Name req \<noteq> [] then md_Name md = go_Name req else md_Uid md = go_Uid req)"

text \<open>
  The query and the object it gives; the query takes one of the rows that it selects, here the one with
  the least \<open>id\<close>.
\<close>

definition get_row :: "rsc_env \<Rightarrow> GetOptions \<Rightarrow> string \<Rightarrow> string \<Rightarrow> string \<Rightarrow> rsc_state \<Rightarrow> rsc_obj go" where
  "get_row E req api version kind st =
     (case re_db E SELECT of
        Some e \<Rightarrow> Fail (InternalWithErr e)
      | None \<Rightarrow>
          (case List.find (row_selected req api version kind) (rs_table st) of
             None \<Rightarrow> Fail NotFound
           | Some r \<Rightarrow> go_bind (NewResourceObject api version kind) (\<lambda>_. Ok (rw_Resource r))))"

definition doGet ::
  "rsc_env \<Rightarrow> GetOptions \<Rightarrow> string \<Rightarrow> string \<Rightarrow> string \<Rightarrow> rsc_state \<Rightarrow> rsc_obj go \<times> rsc_state" where
  "doGet E req api version kind st =
     (case rsc_checkGetOptions E req of
        Fail e \<Rightarrow> (Fail (Status InvalidArgument), st)
      | Panic \<Rightarrow> (Panic, st)
      | Ok _ \<Rightarrow>
          (case doGetCache E req api version kind st of
             Ok (Some cached) \<Rightarrow> (Ok cached, st)
           | Panic \<Rightarrow> (Panic, st)
           | _ \<Rightarrow>
               go_seq (get_row E req api version kind st, st) (\<lambda>ret st1.
               go_seq (doSetCache E ret api version kind st1) (\<lambda>_ st2. (Ok ret, st2)))))"

section \<open>Create\<close>

definition with_defaults :: "string \<Rightarrow> string \<Rightarrow> string \<Rightarrow> rsc_obj \<Rightarrow> rsc_obj" where
  "with_defaults api version kind req =
     req\<lparr>ob_Kind := kind, ob_ApiVersion := GetApiVersion api version,
         ob_Spec := (case ob_Spec req of None \<Rightarrow> Some (JMap []) | s \<Rightarrow> s),
         ob_Status := (case ob_Status req of None \<Rightarrow> Some (JMap []) | s \<Rightarrow> s)\<rparr>"

definition stamp_create :: "rsc_call \<Rightarrow> Metadata \<Rightarrow> Metadata" where
  "stamp_create x md =
     md\<lparr>md_CreatedAt := Some (rc_Now x), md_Uid := rc_NewUid x, md_ResourceVersion := rc_NewVersion x,
        md_ActorRef := rc_ActorRef x, md_ActorOperation := rc_ActorOp x\<rparr>"

text \<open>Up to the insertion: the object is completed, checked, and its name is looked for.\<close>

definition create_prepare ::
  "rsc_env \<Rightarrow> rsc_call \<Rightarrow> rsc_obj \<Rightarrow> string \<Rightarrow> string \<Rightarrow> string \<Rightarrow> rsc_state \<Rightarrow> rsc_obj go \<times> rsc_state" where
  "create_prepare E x req0 api version kind st =
     go_seq (NewResourceObject api version kind, st) (\<lambda>_ st.
     go_seq (re_FromMap E kind (with_defaults api version kind req0), st) (\<lambda>req st.
     case ob_Metadata req of
       None \<Rightarrow> (Fail InvalidArg, st)
     | Some md \<Rightarrow>
         (let getOpts = \<lparr>go_Uid = [], go_Name = md_Name md\<rparr> in
          case rsc_checkGetOptions E getOpts of
            Fail e \<Rightarrow> (Fail (Status InvalidArgument), st)
          | Panic \<Rightarrow> (Panic, st)
          | Ok _ \<Rightarrow>
              (case doGet E getOpts api version kind st of
                 (Ok _, st1) \<Rightarrow> (Fail AlreadyExists, st1)
               | (Panic, st1) \<Rightarrow> (Panic, st1)
               | (Fail e, st1) \<Rightarrow>
                   if \<not> IsNotFound e then (Fail e, st1)
                   else (Ok (req\<lparr>ob_Metadata := Some (stamp_create x md)\<rparr>), st1)))))"

text \<open>The column \<open>uid\<close> is unique: a second row with the same identifier is refused.\<close>

definition insert_row ::
  "rsc_env \<Rightarrow> string \<Rightarrow> string \<Rightarrow> string \<Rightarrow> string \<Rightarrow> rsc_obj \<Rightarrow> rsc_state \<Rightarrow> unit go \<times> rsc_state" where
  "insert_row E uid api version kind obj st =
     (case re_db E INSERT of
        Some e \<Rightarrow> (Fail (InternalWithErr e), st)
      | None \<Rightarrow>
          if uid \<in> rw_Uid ` set (rs_table st)
          then (Fail (InternalWithErr (Errorf ''duplicate key value violates unique constraint'')), st)
          else (Ok (), st\<lparr>rs_table := rs_table st @
                 [\<lparr>rw_Uid = uid, rw_Api = api, rw_Version = version, rw_Kind = kind, rw_Resource = obj\<rparr>]\<rparr>))"

definition create_commit ::
  "rsc_env \<Rightarrow> rsc_obj \<Rightarrow> string \<Rightarrow> string \<Rightarrow> string \<Rightarrow> rsc_state \<Rightarrow> rsc_obj go \<times> rsc_state" where
  "create_commit E req api version kind st =
     go_seq (deref (ob_Metadata req), st) (\<lambda>md st.
     go_seq (insert_row E (md_Uid md) api version kind req st) (\<lambda>_ st1.
     go_seq (if isTypeSecret kind then doGet E \<lparr>go_Uid = md_Uid md, go_Name = []\<rparr> api version kind st1
             else (Ok req, st1)) (\<lambda>req2 st2.
     go_seq (doPostCreate E req2 api version kind st2) (\<lambda>_ st3. (Ok req2, st3)))))"

definition doCreate ::
  "rsc_env \<Rightarrow> rsc_call \<Rightarrow> rsc_obj \<Rightarrow> string \<Rightarrow> string \<Rightarrow> string \<Rightarrow> rsc_state \<Rightarrow> rsc_obj go \<times> rsc_state" where
  "doCreate E x req api version kind st =
     go_seq (create_prepare E x req api version kind st)
       (\<lambda>obj st1. create_commit E obj api version kind st1)"

section \<open>Update\<close>

definition stamp_update :: "rsc_call \<Rightarrow> Metadata \<Rightarrow> Metadata" where
  "stamp_update x md =
     md\<lparr>md_LastResourceVersion := md_ResourceVersion md, md_ResourceVersion := rc_NewVersion x,
        md_UpdatedAt := Some (rc_Now x), md_ActorRef := rc_ActorRef x, md_ActorOperation := rc_ActorOp x\<rparr>"

text \<open>
  Up to the statement: \<open>Inl\<close> of the old object when there is nothing to change, and otherwise \<open>Inr\<close> of
  the stamped and of the old object.
\<close>

definition update_prepare ::
  "rsc_env \<Rightarrow> rsc_call \<Rightarrow> rsc_obj \<Rightarrow> string \<Rightarrow> string \<Rightarrow> string \<Rightarrow> rsc_state \<Rightarrow>
   (rsc_obj + rsc_obj \<times> rsc_obj) go \<times> rsc_state" where
  "update_prepare E x req api version kind st =
     (case ob_Metadata req of
        None \<Rightarrow> (Fail InvalidArg, st)
      | Some mdNew \<Rightarrow>
          go_seq (doGet E \<lparr>go_Uid = md_Uid mdNew, go_Name = []\<rparr> api version kind st) (\<lambda>old st1.
          go_seq (deref (ob_Metadata old), st1) (\<lambda>mdOld st1.
          if md_ResourceVersion mdOld \<noteq> md_ResourceVersion mdNew then (Fail (Status OutOfRange), st1)
          else if req = old then (Ok (Inl old), st1)
          else (Ok (Inr (req\<lparr>ob_Metadata := Some (stamp_update x mdNew)\<rparr>, old)), st1))))"

text \<open>The statement changes every row with the identifier, whatever its kind.\<close>

definition update_row :: "rsc_env \<Rightarrow> string \<Rightarrow> rsc_obj \<Rightarrow> rsc_state \<Rightarrow> unit go \<times> rsc_state" where
  "update_row E uid obj st =
     (case re_db E UPDATE of
        Some e \<Rightarrow> (Fail (InternalWithErr e), st)
      | None \<Rightarrow>
          (Ok (), st\<lparr>rs_table := map (\<lambda>r. if rw_Uid r = uid then r\<lparr>rw_Resource := obj\<rparr> else r) (rs_table st)\<rparr>))"

definition update_commit ::
  "rsc_env \<Rightarrow> rsc_obj \<Rightarrow> rsc_obj \<Rightarrow> string \<Rightarrow> string \<Rightarrow> string \<Rightarrow> rsc_state \<Rightarrow>
   (rsc_obj \<times> rsc_obj) go \<times> rsc_state" where
  "update_commit E req old api version kind st =
     go_seq (deref (ob_Metadata req), st) (\<lambda>md st.
     go_seq (update_row E (md_Uid md) req st) (\<lambda>_ st1.
     go_seq (if isTypeSecret kind then doGet E \<lparr>go_Uid = md_Uid md, go_Name = []\<rparr> api version kind st1
             else (Ok req, st1)) (\<lambda>req2 st2.
     go_seq (doPostUpdate E req2 old api version kind st2) (\<lambda>_ st3. (Ok (req2, old), st3)))))"

definition doUpdate ::
  "rsc_env \<Rightarrow> rsc_call \<Rightarrow> rsc_obj \<Rightarrow> string \<Rightarrow> string \<Rightarrow> string \<Rightarrow> rsc_state \<Rightarrow>
   (rsc_obj \<times> rsc_obj) go \<times> rsc_state" where
  "doUpdate E x req api version kind st =
     go_seq (update_prepare E x req api version kind st) (\<lambda>r st1.
       case r of
         Inl old \<Rightarrow> (Ok (req, old), st1)
       | Inr (new, old) \<Rightarrow> update_commit E new old api version kind st1)"

section \<open>Delete\<close>

definition delete_row :: "rsc_env \<Rightarrow> string \<Rightarrow> rsc_state \<Rightarrow> unit go \<times> rsc_state" where
  "delete_row E uid st =
     (case re_db E DELETE_ROW of
        Some e \<Rightarrow> (Fail (InternalWithErr e), st)
      | None \<Rightarrow> (Ok (), st\<lparr>rs_table := filter (\<lambda>r. rw_Uid r \<noteq> uid) (rs_table st)\<rparr>))"

definition doDelete ::
  "rsc_env \<Rightarrow> rsc_call \<Rightarrow> DeleteOptions \<Rightarrow> string \<Rightarrow> string \<Rightarrow> string \<Rightarrow> rsc_state \<Rightarrow> rsc_obj go \<times> rsc_state" where
  "doDelete E x req api version kind st =
     (let getOpts = \<lparr>go_Uid = do_Uid req, go_Name = do_Name req\<rparr> in
      case rsc_checkGetOptions E getOpts of
        Fail e \<Rightarrow> (Fail (Status InvalidArgument), st)
      | Panic \<Rightarrow> (Panic, st)
      | Ok _ \<Rightarrow>
          go_seq (doGet E getOpts api version kind st) (\<lambda>itm st1.
          go_seq (deref (ob_Metadata itm), st1) (\<lambda>md st1.
          go_seq (delete_row E (md_Uid md) st1) (\<lambda>_ st2.
            let itm' = itm\<lparr>ob_Metadata := Some (stamp_update x md)\<rparr> in
            go_seq (doPostDelete E itm' api version kind st2) (\<lambda>_ st3. (Ok itm', st3))))))"

end
