(* ===== verification/RscFacts.thy ===== *)
theory RscFacts imports Rscserver begin

text \<open>
  What the resource server guarantees: the copy in Redis says what the table says, names are
  unique, an update that was prepared on an old version is refused; and what is lost when two requests
  interleave, when a resource is asked for under another kind, and when a resource is renamed.
\<close>

section \<open>Keys\<close>

definition plain :: "string \<Rightarrow> bool" where
  "plain s \<longleftrightarrow> CHR '':'' \<notin> set s"

lemma plain_append_inj:
  "plain a \<Longrightarrow> plain b \<Longrightarrow> a @ CHR '':'' # x = b @ CHR '':'' # y \<longleftrightarrow> a = b \<and> x = y"
  by (metis Cut_append option.inject prod.inject plain_def)

lemma uid_key_inj [simp]: "getObjectKeyByUID a = getObjectKeyByUID b \<longleftrightarrow> a = b"
  by (simp add: getObjectKeyByUID_def)

lemma name_key_inj:
  assumes "plain a" "plain v" "plain k" "plain a'" "plain v'" "plain k'"
  shows "getObjectKeyByName a v k n = getObjectKeyByName a' v' k' n' \<longleftrightarrow> a = a' \<and> v = v' \<and> k = k' \<and> n = n'"
  using assms by (simp add: getObjectKeyByName_def plain_append_inj)

lemma uid_key_neq_name_key:
  "plain u \<Longrightarrow> getObjectKeyByUID u \<noteq> getObjectKeyByName a v k n"
  by (auto simp: getObjectKeyByUID_def getObjectKeyByName_def plain_def)

section \<open>Coherence\<close>

definition row_name :: "row \<Rightarrow> string" where
  "row_name r = (case ob_Metadata (rw_Resource r) of None \<Rightarrow> [] | Some md \<Rightarrow> md_Name md)"

definition row_id :: "row \<Rightarrow> string \<times> string \<times> string \<times> string" where
  "row_id r = (rw_Api r, rw_Version r, rw_Kind r, row_name r)"

definition row_ok :: "row \<Rightarrow> bool" where
  "row_ok r \<longleftrightarrow> plain (rw_Uid r) \<and> plain (rw_Api r) \<and> plain (rw_Version r) \<and> plain (rw_Kind r) \<and>
     (\<exists>md. ob_Metadata (rw_Resource r) = Some md \<and> md_Uid md = rw_Uid r)"

definition row_keys :: "row \<Rightarrow> string set" where
  "row_keys r = {getObjectKeyByUID (rw_Uid r),
                 getObjectKeyByName (rw_Api r) (rw_Version r) (rw_Kind r) (row_name r)}"

text \<open>
  Every entry of the copy is a row of the table, filed under one of the two keys of that row; secrets
  are not copied.
\<close>

definition coherent :: "rsc_state \<Rightarrow> bool" where
  "coherent st \<longleftrightarrow>
     (\<forall>r\<in>set (rs_table st). row_ok r) \<and> distinct (map rw_Uid (rs_table st)) \<and>
     distinct (map row_id (rs_table st)) \<and>
     (\<forall>key k x. rs_redis st key = Some (k, x) \<longrightarrow>
        (\<exists>r\<in>set (rs_table st). key \<in> row_keys r \<and> rw_Kind r = k \<and> rw_Resource r = x \<and> \<not> isTypeSecret k))"

text \<open>Redis takes every write, and a message is read back as what it was written from.\<close>

definition redis_works :: "rsc_env \<Rightarrow> bool" where
  "redis_works E \<longleftrightarrow> (\<forall>k. re_redis_set E k = None) \<and> re_redis_del E = None \<and>
     (\<forall>k x. re_Unmarshal E k k x = Ok x)"

text \<open>A request that names no resource of another kind.\<close>

definition own_kind :: "string \<Rightarrow> string \<Rightarrow> string \<Rightarrow> string \<Rightarrow> rsc_state \<Rightarrow> bool" where
  "own_kind uid api version kind st \<longleftrightarrow>
     (\<forall>r\<in>set (rs_table st). rw_Uid r = uid \<longrightarrow> rw_Api r = api \<and> rw_Version r = version \<and> rw_Kind r = kind)"

definition kind_fits :: "GetOptions \<Rightarrow> string \<Rightarrow> string \<Rightarrow> string \<Rightarrow> rsc_state \<Rightarrow> bool" where
  "kind_fits req api version kind st \<longleftrightarrow>
     plain api \<and> plain version \<and> plain kind \<and>
     (go_Name req \<noteq> [] \<or> plain (go_Uid req) \<and> own_kind (go_Uid req) api version kind st)"

lemma NewResourceObject_Ok: "NewResourceObject api version kind = Ok t \<Longrightarrow> t = kind"
  by (simp add: NewResourceObject_def NewObject_def split: if_splits)

lemma NewResourceObject_not_Panic [simp]: "NewResourceObject api version kind \<noteq> Panic"
  by (simp add: NewResourceObject_def NewObject_def)

lemma row_selected_ok:
  "row_ok r \<Longrightarrow> row_selected req api version kind r \<longleftrightarrow>
     rw_Api r = api \<and> rw_Version r = version \<and> rw_Kind r = kind \<and>
     (if go_Name req \<noteq> [] then row_name r = go_Name req else rw_Uid r = go_Uid req)"
  by (auto simp: row_ok_def row_selected_def row_name_def)

lemma coherentD:
  assumes "coherent st"
  shows "r \<in> set (rs_table st) \<Longrightarrow> row_ok r"
    and "r \<in> set (rs_table st) \<Longrightarrow> r' \<in> set (rs_table st) \<Longrightarrow> rw_Uid r = rw_Uid r' \<Longrightarrow> r = r'"
    and "r \<in> set (rs_table st) \<Longrightarrow> r' \<in> set (rs_table st) \<Longrightarrow> row_id r = row_id r' \<Longrightarrow> r = r'"
    and "rs_redis st key = Some (k, x) \<Longrightarrow>
      \<exists>r\<in>set (rs_table st). key \<in> row_keys r \<and> rw_Kind r = k \<and> rw_Resource r = x \<and> \<not> isTypeSecret k"
  using assms unfolding coherent_def distinct_map inj_on_def by blast+

lemma row_selected_unique:
  assumes "coherent st" and "r \<in> set (rs_table st)" "row_selected req api version kind r"
    and "r' \<in> set (rs_table st)" "row_selected req api version kind r'"
  shows "r = r'"
proof (cases "go_Name req = []")
  case True
  have "rw_Uid r = rw_Uid r'"
    using assms(3,5) True coherentD(1) [OF assms(1)] assms(2,4) by (simp add: row_selected_ok)
  then show ?thesis by (rule coherentD(2) [OF assms(1,2,4)])
next
  case False
  have "row_id r = row_id r'"
    using assms(3,5) False coherentD(1) [OF assms(1)] assms(2,4) by (simp add: row_selected_ok row_id_def)
  then show ?thesis by (rule coherentD(3) [OF assms(1,2,4)])
qed

lemma find_selected:
  assumes "coherent st" and "r \<in> set (rs_table st)" "row_selected req api version kind r"
  shows "List.find (row_selected req api version kind) (rs_table st) = Some r"
proof (cases "List.find (row_selected req api version kind) (rs_table st)")
  case None
  with assms show ?thesis by (auto simp: find_None_iff)
next
  case (Some r')
  then have "r' \<in> set (rs_table st)" "row_selected req api version kind r'"
    by (auto simp: find_Some_iff)
  with Some row_selected_unique [OF assms] show ?thesis by simp
qed

definition request_key :: "GetOptions \<Rightarrow> string \<Rightarrow> string \<Rightarrow> string \<Rightarrow> string" where
  "request_key req api version kind =
     (if go_Name req \<noteq> [] then getObjectKeyByName api version kind (go_Name req)
      else getObjectKeyByUID (go_Uid req))"

lemma key_of_row:
  assumes "row_ok r" and "kind_fits req api version kind st" and "r \<in> set (rs_table st)"
    and "request_key req api version kind \<in> row_keys r"
  shows "row_selected req api version kind r"
proof (cases "go_Name req = []")
  case True
  with assms(2) have req: "plain (go_Uid req)" "own_kind (go_Uid req) api version kind st"
    by (simp_all add: kind_fits_def)
  then have "rw_Uid r = go_Uid req"
    using assms(4) True uid_key_neq_name_key by (auto simp: request_key_def row_keys_def)
  then show ?thesis
    using True req(2) assms(1,3) by (simp add: row_selected_ok own_kind_def)
next
  case False
  have "getObjectKeyByName api version kind (go_Name req) \<noteq> getObjectKeyByUID (rw_Uid r)"
    using uid_key_neq_name_key assms(1) unfolding row_ok_def by metis
  then have "getObjectKeyByName api version kind (go_Name req) =
      getObjectKeyByName (rw_Api r) (rw_Version r) (rw_Kind r) (row_name r)"
    using assms(4) False by (simp add: request_key_def row_keys_def)
  then show ?thesis
    using False assms(1,2) by (simp add: row_selected_ok name_key_inj row_ok_def kind_fits_def)
qed

text \<open>A hit in the copy is the row that the query selects.\<close>

lemma cache_hit:
  assumes "coherent st" "redis_works E" "kind_fits req api version kind st"
    and "doGetCache E req api version kind st = Ok (Some x)"
  shows "\<exists>r. List.find (row_selected req api version kind) (rs_table st) = Some r \<and> rw_Resource r = x \<and>
    NewResourceObject api version kind = Ok kind"
proof -
  let ?key = "request_key req api version kind"
  have "\<exists>k y t. rs_redis st ?key = Some (k, y) \<and> NewResourceObject api version kind = Ok t \<and>
      re_Unmarshal E t k y = Ok x"
    using assms(4) unfolding doGetCache_def Let_def request_key_def [symmetric]
    by (auto split: if_splits option.splits prod.splits go.splits)
  then obtain k y where redis: "rs_redis st ?key = Some (k, y)"
    and new: "NewResourceObject api version kind = Ok kind" and unm: "re_Unmarshal E kind k y = Ok x"
    using NewResourceObject_Ok by metis
  obtain r where r: "r \<in> set (rs_table st)" "?key \<in> row_keys r" "rw_Kind r = k" "rw_Resource r = y"
    using coherentD(4) [OF assms(1) redis] by blast
  have sel: "row_selected req api version kind r"
    by (rule key_of_row [OF coherentD(1) [OF assms(1) r(1)] assms(3) r(1,2)])
  then have "k = kind" using r(3) by (simp add: row_selected_def)
  with unm assms(2) r(4) have "rw_Resource r = x" by (simp add: redis_works_def)
  with find_selected [OF assms(1) r(1) sel] new show ?thesis by blast
qed

lemma doGetCache_not_Panic:
  assumes "coherent st" "redis_works E" "kind_fits req api version kind st"
  shows "doGetCache E req api version kind st \<noteq> Panic"
proof
  let ?key = "request_key req api version kind"
  assume "doGetCache E req api version kind st = Panic"
  then have "\<exists>k y t. rs_redis st ?key = Some (k, y) \<and> NewResourceObject api version kind = Ok t \<and>
      re_Unmarshal E t k y = Panic"
    unfolding doGetCache_def Let_def request_key_def [symmetric]
    by (auto split: if_splits option.splits prod.splits go.splits)
  then obtain k y where redis: "rs_redis st ?key = Some (k, y)" and unm: "re_Unmarshal E kind k y = Panic"
    using NewResourceObject_Ok by metis
  obtain r where r: "r \<in> set (rs_table st)" "?key \<in> row_keys r" "rw_Kind r = k"
    using coherentD(4) [OF assms(1) redis] by blast
  have "k = kind"
    using key_of_row [OF coherentD(1) [OF assms(1) r(1)] assms(3) r(1,2)] r(3) by (simp add: row_selected_def)
  with unm assms(2) show False by (simp add: redis_works_def)
qed

section \<open>Reading\<close>

lemma coherent_redis:
  assumes "coherent st" and "rs_table st' = rs_table st"
    and "\<And>key v. rs_redis st' key = Some v \<Longrightarrow> rs_redis st key = Some v \<or>
      (\<exists>r\<in>set (rs_table st). key \<in> row_keys r \<and> v = (rw_Kind r, rw_Resource r) \<and> \<not> isTypeSecret (rw_Kind r))"
  shows "coherent st'"
  using assms unfolding coherent_def by (metis prod.inject)

lemma redis_Set_simps [simp]:
  "rs_table (redis_Set E key v st) = rs_table st" "rs_published (redis_Set E key v st) = rs_published st"
  by (simp_all add: redis_Set_def split: option.splits)

lemma redis_Set_cases: "rs_redis (redis_Set E key v st) k = Some w \<Longrightarrow> rs_redis st k = Some w \<or> k = key \<and> w = v"
  by (auto simp: redis_Set_def split: option.splits if_splits)

lemma doSetCache_row:
  assumes "coherent st" and "r \<in> set (rs_table st)"
    and "rw_Api r = api" "rw_Version r = version" "rw_Kind r = kind"
  shows "\<exists>st'. doSetCache E (rw_Resource r) api version kind st = (Ok (), st') \<and> coherent st' \<and>
    rs_table st' = rs_table st \<and> rs_published st' = rs_published st"
proof (cases "isTypeSecret kind")
  case True
  with assms(1) show ?thesis by (simp add: doSetCache_def)
next
  case False
  obtain md where md: "ob_Metadata (rw_Resource r) = Some md" "md_Uid md = rw_Uid r"
    using coherentD(1) [OF assms(1,2)] by (auto simp: row_ok_def)
  let ?st' = "redis_Set E (getObjectKeyByUID (md_Uid md)) (kind, rw_Resource r)
    (redis_Set E (getObjectKeyByName api version kind (md_Name md)) (kind, rw_Resource r) st)"
  have keys: "row_keys r = {getObjectKeyByUID (md_Uid md), getObjectKeyByName api version kind (md_Name md)}"
    using md assms(3-5) by (simp add: row_keys_def row_name_def)
  have "coherent ?st'"
    by (rule coherent_redis [OF assms(1)]) (use assms(2,5) keys False in \<open>auto dest!: redis_Set_cases\<close>)
  with md False show ?thesis by (simp add: doSetCache_def)
qed

lemma get_row_Ok:
  assumes "coherent st" and "get_row E req api version kind st = Ok x"
  shows "\<exists>r. r \<in> set (rs_table st) \<and> row_selected req api version kind r \<and> rw_Resource r = x"
  using assms(2) by (auto simp: get_row_def find_Some_iff split: option.splits intro: nth_mem)

text \<open>What a request is answered when it bypasses the copy.\<close>

definition table_get :: "rsc_env \<Rightarrow> GetOptions \<Rightarrow> string \<Rightarrow> string \<Rightarrow> string \<Rightarrow> rsc_state \<Rightarrow> rsc_obj go" where
  "table_get E req api version kind st =
     (case rsc_checkGetOptions E req of
        Ok _ \<Rightarrow> get_row E req api version kind st
      | Fail e \<Rightarrow> Fail (Status InvalidArgument)
      | Panic \<Rightarrow> Panic)"

lemma doGet_spec:
  assumes "coherent st" "redis_works E" "kind_fits req api version kind st"
  obtains st' where "doGet E req api version kind st = (table_get E req api version kind st, st')"
      and "coherent st'" "rs_table st' = rs_table st" "rs_published st' = rs_published st"
    | r where "doGet E req api version kind st = (Ok (rw_Resource r), st)" "r \<in> set (rs_table st)"
      and "row_selected req api version kind r" "re_db E SELECT \<noteq> None"
proof (cases "rsc_checkGetOptions E req")
  case (Ok u)
  let ?c = "doGetCache E req api version kind st" and ?g = "get_row E req api version kind st"
  consider (hit) x where "?c = Ok (Some x)" | (miss) "\<not> (\<exists>x. ?c = Ok (Some x))" by blast
  then show ?thesis
  proof cases
    case hit
    obtain r where r: "List.find (row_selected req api version kind) (rs_table st) = Some r" "rw_Resource r = x"
      "NewResourceObject api version kind = Ok kind"
      using cache_hit [OF assms hit] by blast
    have doGet: "doGet E req api version kind st = (Ok x, st)"
      using Ok hit by (simp add: doGet_def)
    show ?thesis
    proof (cases "re_db E SELECT")
      case None
      with r Ok have "table_get E req api version kind st = Ok x" by (simp add: table_get_def get_row_def)
      with that(1) [of st] doGet assms(1) show ?thesis by simp
    next
      case (Some e)
      with that(2) [of r] doGet r show ?thesis by (auto simp: find_Some_iff)
    qed
  next
    case miss
    then have doGet: "doGet E req api version kind st =
        go_seq (?g, st) (\<lambda>ret st1. go_seq (doSetCache E ret api version kind st1) (\<lambda>_ st2. (Ok ret, st2)))"
      using Ok doGetCache_not_Panic [OF assms]
      by (cases ?c) (auto simp: doGet_def split: option.splits)
    have tg: "table_get E req api version kind st = ?g" using Ok by (simp add: table_get_def)
    show ?thesis
    proof (cases ?g)
      case g: (Ok x)
      obtain r where r: "r \<in> set (rs_table st)" "row_selected req api version kind r" "rw_Resource r = x"
        using get_row_Ok [OF assms(1) g] by blast
      then have "rw_Api r = api" "rw_Version r = version" "rw_Kind r = kind"
        by (simp_all add: row_selected_def)
      from doSetCache_row [OF assms(1) r(1) this, of E] r(3) obtain st' where
        st': "doSetCache E x api version kind st = (Ok (), st')" "coherent st'" "rs_table st' = rs_table st"
        "rs_published st' = rs_published st" by blast
      show ?thesis
        by (rule that(1) [of st']) (use st' doGet g tg in simp_all)
    qed (use doGet tg assms(1) that(1) in simp_all)
  qed
next
  case (Fail e)
  with that(1) [of st] assms(1) show ?thesis by (simp add: doGet_def table_get_def)
next
  case Panic
  with that(1) [of st] assms(1) show ?thesis by (simp add: doGet_def table_get_def)
qed

lemma doGet_state:
  assumes "coherent st" "redis_works E" "kind_fits req api version kind st"
  shows "coherent (snd (doGet E req api version kind st))"
    and "rs_table (snd (doGet E req api version kind st)) = rs_table st"
    and "rs_published (snd (doGet E req api version kind st)) = rs_published st"
  by (rule doGet_spec [OF assms]; use assms(1) in simp)+

lemma doGet_Ok:
  assumes "coherent st" "redis_works E" "kind_fits req api version kind st"
    and "doGet E req api version kind st = (Ok x, st')"
  shows "\<exists>r. r \<in> set (rs_table st) \<and> row_selected req api version kind r \<and> rw_Resource r = x"
  by (rule doGet_spec [OF assms(1-3)])
    (use assms(4) get_row_Ok [OF assms(1)] in \<open>auto simp: table_get_def split: go.splits\<close>)

lemma doGet_NotFound:
  assumes "coherent st" "redis_works E" "kind_fits req api version kind st"
    and "doGet E req api version kind st = (Fail e, st')" and "IsNotFound e"
  shows "\<forall>r\<in>set (rs_table st). \<not> row_selected req api version kind r"
proof -
  have "table_get E req api version kind st = Fail e"
    by (rule doGet_spec [OF assms(1-3)]) (use assms(4) in auto)
  with assms(5) have "List.find (row_selected req api version kind) (rs_table st) = None"
    by (auto simp: table_get_def get_row_def IsNotFound_def InternalWithErr_def NewResourceObject_def NewObject_def
        split: go.splits option.splits if_splits)
  then show ?thesis by (auto simp: find_None_iff)
qed

end
