(* ===== verification/RscSteps.thy ===== *)
theory RscSteps imports RscFacts Oscope begin

text \<open>
  Every operation of the resource server keeps the copy in Redis coherent with the table, and
  what that means for the states the server can reach.
\<close>

section \<open>Creating\<close>

lemma go_seq_state:
  assumes "P (snd r)" and "\<And>x st. r = (Ok x, st) \<Longrightarrow> P (snd (f x st))"
  shows "P (snd (go_seq r f))"
  using assms by (cases r; cases "fst r") auto

lemma coherent_publish [simp]:
  "coherent (publishMessage E api version kind msg st) = coherent st"
  "rs_table (publishMessage E api version kind msg st) = rs_table st"
  by (simp_all add: publishMessage_def coherent_def split: option.splits)

lemma create_prepare_state:
  assumes "coherent st" "redis_works E" "plain api" "plain version" "plain kind"
  shows "coherent (snd (create_prepare E x req0 api version kind st)) \<and>
    rs_table (snd (create_prepare E x req0 api version kind st)) = rs_table st"
proof -
  have "coherent (snd (doGet E \<lparr>go_Uid = [], go_Name = n\<rparr> api version kind st)) \<and>
      rs_table (snd (doGet E \<lparr>go_Uid = [], go_Name = n\<rparr> api version kind st)) = rs_table st"
    if "rsc_checkGetOptions E \<lparr>go_Uid = [], go_Name = n\<rparr> = Ok ()" for n
  proof -
    have "kind_fits \<lparr>go_Uid = [], go_Name = n\<rparr> api version kind st"
      using that assms(3-5) by (auto simp: rsc_checkGetOptions_def kind_fits_def)
    with doGet_state [OF assms(1,2) this] show ?thesis by simp
  qed
  then have "coherent (snd (doGet E \<lparr>go_Uid = [], go_Name = n\<rparr> api version kind st)) \<and>
      rs_table (snd (doGet E \<lparr>go_Uid = [], go_Name = n\<rparr> api version kind st)) = rs_table st"
    if "\<exists>u. rsc_checkGetOptions E \<lparr>go_Uid = [], go_Name = n\<rparr> = Ok u" for n
    using that by (cases "rsc_checkGetOptions E \<lparr>go_Uid = [], go_Name = n\<rparr>") auto
  then show ?thesis
    using assms(1)
    by (cases "NewResourceObject api version kind"; cases "re_FromMap E kind (with_defaults api version kind req0)")
      (auto simp: create_prepare_def Let_def split: option.splits go.splits prod.splits; force)+
qed

lemma create_prepare_Ok:
  assumes "coherent st" "redis_works E" "plain api" "plain version" "plain kind"
    and "create_prepare E x req0 api version kind st = (Ok obj, st1)"
  shows "\<exists>md. ob_Metadata obj = Some md \<and> md_Uid md = rc_NewUid x \<and>
    (api, version, kind, md_Name md) \<notin> row_id ` set (rs_table st)"
proof -
  obtain req md e where req: "ob_Metadata req = Some md" "obj = req\<lparr>ob_Metadata := Some (stamp_create x md)\<rparr>"
    and ck: "rsc_checkGetOptions E \<lparr>go_Uid = [], go_Name = md_Name md\<rparr> = Ok ()"
    and get: "doGet E \<lparr>go_Uid = [], go_Name = md_Name md\<rparr> api version kind st = (Fail e, st1)" "IsNotFound e"
    using assms(6) unfolding create_prepare_def Let_def
    by (auto dest!: go_seq_Ok split: option.splits go.splits prod.splits if_splits)
  from ck have fits: "kind_fits \<lparr>go_Uid = [], go_Name = md_Name md\<rparr> api version kind st" "md_Name md \<noteq> []"
    using assms(3-5) by (auto simp: rsc_checkGetOptions_def kind_fits_def)
  have "row_id r \<noteq> (api, version, kind, md_Name md)" if "r \<in> set (rs_table st)" for r
  proof -
    have "\<not> row_selected \<lparr>go_Uid = [], go_Name = md_Name md\<rparr> api version kind r"
      using doGet_NotFound [OF assms(1,2) fits(1) get] that by blast
    then show ?thesis
      using coherentD(1) [OF assms(1) that] fits(2) by (auto simp: row_selected_ok row_id_def)
  qed
  with req show ?thesis by (force simp: stamp_create_def)
qed

lemma coherent_insert:
  assumes "coherent st" and "row_ok r" and "rw_Uid r \<notin> rw_Uid ` set (rs_table st)"
    and "row_id r \<notin> row_id ` set (rs_table st)"
  shows "coherent (st\<lparr>rs_table := rs_table st @ [r]\<rparr>)"
  using assms unfolding coherent_def by (auto 0 3)

lemma create_commit_state:
  assumes "coherent st" "redis_works E" "plain api" "plain version" "plain kind" "plain (md_Uid md)"
    and "ob_Metadata obj = Some md" and "(api, version, kind, md_Name md) \<notin> row_id ` set (rs_table st)"
  shows "coherent (snd (create_commit E obj api version kind st))"
proof (cases "insert_row E (md_Uid md) api version kind obj st")
  case (Pair r st1)
  let ?row = "\<lparr>rw_Uid = md_Uid md, rw_Api = api, rw_Version = version, rw_Kind = kind, rw_Resource = obj\<rparr>"
  have ok: "row_ok ?row" and id: "row_id ?row = (api, version, kind, md_Name md)"
    using assms by (simp_all add: row_ok_def row_id_def row_name_def)
  show ?thesis
  proof (cases r)
    case (Ok u)
    with Pair have new: "md_Uid md \<notin> rw_Uid ` set (rs_table st)" and st1: "st1 = st\<lparr>rs_table := rs_table st @ [?row]\<rparr>"
      by (auto simp: insert_row_def split: option.splits if_splits)
    have coh: "coherent st1" unfolding st1
      by (rule coherent_insert [OF assms(1) ok]) (use new assms(8) id in simp_all)
    have fits: "kind_fits \<lparr>go_Uid = md_Uid md, go_Name = []\<rparr> api version kind st1"
      using new assms(3-6) by (simp add: kind_fits_def own_kind_def st1) (metis image_eqI)
    show ?thesis
    proof (cases "isTypeSecret kind")
      case True
      have "coherent (snd (doGet E \<lparr>go_Uid = md_Uid md, go_Name = []\<rparr> api version kind st1))"
        by (rule doGet_state [OF coh assms(2) fits])
      with True Ok Pair assms(7) show ?thesis
        by (cases "doGet E \<lparr>go_Uid = md_Uid md, go_Name = []\<rparr> api version kind st1";
            cases "fst (doGet E \<lparr>go_Uid = md_Uid md, go_Name = []\<rparr> api version kind st1)")
          (simp_all add: create_commit_def doPostCreate_def doSetCache_def)
    next
      case False
      obtain st2 where "doSetCache E obj api version kind st1 = (Ok (), st2)" "coherent st2"
        using doSetCache_row [OF coh, of ?row api version kind E] by (auto simp: st1)
      with False Ok Pair assms(7) show ?thesis
        by (simp add: create_commit_def doPostCreate_def)
    qed
  next
    case (Fail e)
    with Pair assms(1,7) show ?thesis
      by (auto simp: create_commit_def insert_row_def split: option.splits if_splits)
  next
    case Panic
    with Pair show ?thesis by (auto simp: insert_row_def split: option.splits if_splits)
  qed
qed

lemma doCreate_coherent:
  assumes "coherent st" "redis_works E" "plain api" "plain version" "plain kind" "plain (rc_NewUid x)"
  shows "coherent (snd (doCreate E x req api version kind st))"
  unfolding doCreate_def
proof (rule go_seq_state [where P = coherent])
  show "coherent (snd (create_prepare E x req api version kind st))"
    using create_prepare_state [OF assms(1-5)] by blast
  fix obj st1 assume prep: "create_prepare E x req api version kind st = (Ok obj, st1)"
  then have "coherent st1" "rs_table st1 = rs_table st"
    using create_prepare_state [OF assms(1-5), of x req] by simp_all
  with create_prepare_Ok [OF assms(1-5) prep] assms(2-6) show "coherent (snd (create_commit E obj api version kind st1))"
    by (auto intro!: create_commit_state)
qed

section \<open>Updating\<close>

text \<open>
  What the API server keeps when it updates: the identifier is the one of a resource of the kind of the
  request, and the name is the one it has.
\<close>

definition keeps_name :: "rsc_obj \<Rightarrow> string \<Rightarrow> string \<Rightarrow> string \<Rightarrow> rsc_state \<Rightarrow> bool" where
  "keeps_name req api version kind st \<longleftrightarrow>
     (\<forall>md. ob_Metadata req = Some md \<longrightarrow> plain (md_Uid md) \<and> own_kind (md_Uid md) api version kind st \<and>
        (\<forall>r\<in>set (rs_table st). rw_Uid r = md_Uid md \<longrightarrow> row_name r = md_Name md))"

lemma update_prepare_state:
  assumes "coherent st" "redis_works E" "plain api" "plain version" "plain kind"
    and "keeps_name req api version kind st"
  shows "coherent (snd (update_prepare E x req api version kind st)) \<and>
    rs_table (snd (update_prepare E x req api version kind st)) = rs_table st"
proof (cases "ob_Metadata req")
  case (Some md)
  let ?get = "doGet E \<lparr>go_Uid = md_Uid md, go_Name = []\<rparr> api version kind st"
  have "kind_fits \<lparr>go_Uid = md_Uid md, go_Name = []\<rparr> api version kind st"
    using assms(3-6) Some by (simp add: kind_fits_def keeps_name_def)
  from doGet_state [OF assms(1,2) this] have "coherent (snd ?get) \<and> rs_table (snd ?get) = rs_table st"
    by blast
  with Some show ?thesis
    by (cases ?get; cases "fst ?get"; cases "ob_Metadata (case fst ?get of Ok y \<Rightarrow> y)")
      (auto simp: update_prepare_def)
qed (simp add: update_prepare_def assms(1))

lemma update_prepare_Inr:
  assumes "update_prepare E x req api version kind st = (Ok (Inr (new, old)), st1)"
  shows "\<exists>md. ob_Metadata req = Some md \<and> new = req\<lparr>ob_Metadata := Some (stamp_update x md)\<rparr>"
  using assms by (auto simp: update_prepare_def dest!: go_seq_Ok split: option.splits if_splits)

definition set_resource :: "string \<Rightarrow> rsc_obj \<Rightarrow> row \<Rightarrow> row" where
  "set_resource uid obj r = (if rw_Uid r = uid then r\<lparr>rw_Resource := obj\<rparr> else r)"

lemma set_resource_simps [simp]:
  "rw_Uid (set_resource uid obj r) = rw_Uid r" "rw_Api (set_resource uid obj r) = rw_Api r"
  "rw_Version (set_resource uid obj r) = rw_Version r" "rw_Kind (set_resource uid obj r) = rw_Kind r"
  by (simp_all add: set_resource_def)

text \<open>After the statement the copy may still hold the old version, under the two keys of the row.\<close>

lemma coherent_update:
  assumes coh: "coherent st" and md: "ob_Metadata obj = Some md"
    and keeps: "\<forall>r\<in>set (rs_table st). rw_Uid r = md_Uid md \<longrightarrow> row_name r = md_Name md"
    and redis: "\<And>key v. rs_redis st' key = Some v \<Longrightarrow>
      rs_redis st key = Some v \<and> (\<forall>r\<in>set (rs_table st). rw_Uid r = md_Uid md \<longrightarrow> key \<notin> row_keys r \<or> isTypeSecret (rw_Kind r)) \<or>
      (\<exists>r\<in>set (rs_table st). rw_Uid r = md_Uid md \<and> key \<in> row_keys r \<and> v = (rw_Kind r, obj) \<and> \<not> isTypeSecret (rw_Kind r))"
    and table: "rs_table st' = map (set_resource (md_Uid md) obj) (rs_table st)"
  shows "coherent st'"
proof -
  let ?f = "set_resource (md_Uid md) obj"
  have name: "row_name (?f r) = row_name r" if "r \<in> set (rs_table st)" for r
    using keeps that md by (simp add: set_resource_def row_name_def)
  then have id: "row_id (?f r) = row_id r" and keys: "row_keys (?f r) = row_keys r" if "r \<in> set (rs_table st)" for r
    using that by (simp_all add: row_id_def row_keys_def)
  have ok: "row_ok (?f r)" if "r \<in> set (rs_table st)" for r
    using coherentD(1) [OF coh that] md by (auto simp: row_ok_def set_resource_def)
  have entry: "\<exists>r\<in>set (rs_table st'). key \<in> row_keys r \<and> rw_Kind r = k \<and> rw_Resource r = x \<and> \<not> isTypeSecret k"
    if "rs_redis st' key = Some (k, x)" for key k x
    using redis [OF that]
  proof
    assume old: "rs_redis st key = Some (k, x) \<and>
      (\<forall>r\<in>set (rs_table st). rw_Uid r = md_Uid md \<longrightarrow> key \<notin> row_keys r \<or> isTypeSecret (rw_Kind r))"
    then obtain r where r: "r \<in> set (rs_table st)" "key \<in> row_keys r" "rw_Kind r = k" "rw_Resource r = x"
      "\<not> isTypeSecret k"
      using coherentD(4) [OF coh] by blast
    with old have "?f r = r" by (auto simp: set_resource_def)
    then have "r \<in> set (rs_table st')" using r(1) table by (metis image_eqI image_set)
    with r show ?thesis by blast
  next
    assume "\<exists>r\<in>set (rs_table st). rw_Uid r = md_Uid md \<and> key \<in> row_keys r \<and> (k, x) = (rw_Kind r, obj) \<and>
      \<not> isTypeSecret (rw_Kind r)"
    then obtain r where r: "r \<in> set (rs_table st)" "rw_Uid r = md_Uid md" "key \<in> row_keys r" "k = rw_Kind r"
      "x = obj" "\<not> isTypeSecret (rw_Kind r)" by blast
    then have "?f r \<in> set (rs_table st')" "key \<in> row_keys (?f r)" "rw_Resource (?f r) = obj"
      by (simp_all add: table keys) (simp add: set_resource_def)
    with r show ?thesis by (metis set_resource_simps(4))
  qed
  have "map row_id (rs_table st') = map row_id (rs_table st)" "map rw_Uid (rs_table st') = map rw_Uid (rs_table st)"
    using id by (simp_all add: table)
  moreover have "\<forall>r\<in>set (rs_table st'). row_ok r" using ok by (auto simp: table)
  moreover have "distinct (map rw_Uid (rs_table st))" "distinct (map row_id (rs_table st))"
    using coh by (simp_all add: coherent_def)
  ultimately show ?thesis
    using entry unfolding coherent_def by metis
qed

lemma update_commit_coherent:
  assumes coh: "coherent st" and "redis_works E" "plain api" "plain version" "plain kind"
    and md: "ob_Metadata obj = Some md" and keeps: "keeps_name obj api version kind st"
    and row: "md_Uid md \<in> rw_Uid ` set (rs_table st)"
  shows "coherent (snd (update_commit E obj old api version kind st))"
proof (cases "re_db E UPDATE")
  case (Some e)
  with md coh show ?thesis by (simp add: update_commit_def update_row_def)
next
  case None
  let ?st1 = "st\<lparr>rs_table := map (set_resource (md_Uid md) obj) (rs_table st)\<rparr>"
  have upd: "update_row E (md_Uid md) obj st = (Ok (), ?st1)"
    using None by (simp add: update_row_def set_resource_def fun_eq_iff)
  have own: "own_kind (md_Uid md) api version kind st" "plain (md_Uid md)"
    and name: "\<forall>r\<in>set (rs_table st). rw_Uid r = md_Uid md \<longrightarrow> row_name r = md_Name md"
    using keeps md by (simp_all add: keeps_name_def)
  show ?thesis
  proof (cases "isTypeSecret kind")
    case True
    have coh1: "coherent ?st1"
      by (rule coherent_update [OF coh md name]) (use own True in \<open>auto simp: own_kind_def\<close>)
    let ?get = "doGet E \<lparr>go_Uid = md_Uid md, go_Name = []\<rparr> api version kind ?st1"
    have "kind_fits \<lparr>go_Uid = md_Uid md, go_Name = []\<rparr> api version kind ?st1"
      using assms(3-5) own by (auto simp: kind_fits_def own_kind_def)
    then have "coherent (snd ?get)" by (rule doGet_state [OF coh1 assms(2)])
    with True upd md show ?thesis
      by (cases ?get; cases "fst ?get") (simp_all add: update_commit_def doPostUpdate_def doSetCache_def)
  next
    case False
    have set: "re_redis_set E k = None" for k using assms(2) by (simp add: redis_works_def)
    let ?kn = "getObjectKeyByName api version kind (md_Name md)" and ?ku = "getObjectKeyByUID (md_Uid md)"
    let ?st2 = "?st1\<lparr>rs_redis := (rs_redis st)(?kn \<mapsto> (kind, obj), ?ku \<mapsto> (kind, obj))\<rparr>"
    have post: "doSetCache E obj api version kind ?st1 = (Ok (), ?st2)"
      using False md by (simp add: doSetCache_def redis_Set_def set)
    have keys: "row_keys r = {?ku, ?kn}" if "r \<in> set (rs_table st)" "rw_Uid r = md_Uid md" for r
      using that own name by (simp add: row_keys_def own_kind_def)
    have "coherent ?st2"
      by (rule coherent_update [OF coh md name])
        (use row own False keys in \<open>auto simp: own_kind_def split: if_splits\<close>)
    with False upd md post show ?thesis by (simp add: update_commit_def doPostUpdate_def)
  qed
qed

lemma doUpdate_coherent:
  assumes "coherent st" "redis_works E" "plain api" "plain version" "plain kind"
    and "keeps_name req api version kind st"
  shows "coherent (snd (doUpdate E x req api version kind st))"
  unfolding doUpdate_def
proof (rule go_seq_state [where P = coherent])
  show "coherent (snd (update_prepare E x req api version kind st))"
    using update_prepare_state [OF assms] by blast
  fix r st1 assume prep: "update_prepare E x req api version kind st = (Ok r, st1)"
  then have st1: "coherent st1" "rs_table st1 = rs_table st"
    using update_prepare_state [OF assms, of x] by simp_all
  show "coherent (snd (case r of Inl old \<Rightarrow> (Ok (req, old), st1)
      | Inr (new, old) \<Rightarrow> update_commit E new old api version kind st1))"
  proof (cases r)
    case (Inr no)
    obtain new old where no: "no = (new, old)" by (cases no)
    obtain md where md: "ob_Metadata req = Some md" "new = req\<lparr>ob_Metadata := Some (stamp_update x md)\<rparr>"
      using update_prepare_Inr prep Inr no by blast
    have "keeps_name new api version kind st1"
      using assms(6) md by (simp add: keeps_name_def own_kind_def st1(2) stamp_update_def)
    moreover have "md_Uid md \<in> rw_Uid ` set (rs_table st1)"
    proof -
      obtain y s where get: "doGet E \<lparr>go_Uid = md_Uid md, go_Name = []\<rparr> api version kind st = (Ok y, s)"
        using prep md(1) by (auto simp: update_prepare_def dest!: go_seq_Ok)
      have "kind_fits \<lparr>go_Uid = md_Uid md, go_Name = []\<rparr> api version kind st"
        using assms(3-6) md(1) by (simp add: kind_fits_def keeps_name_def)
      from doGet_Ok [OF assms(1,2) this get] obtain r where
        "r \<in> set (rs_table st)" "row_selected \<lparr>go_Uid = md_Uid md, go_Name = []\<rparr> api version kind r" by blast
      then show ?thesis
        using coherentD(1) [OF assms(1)] st1(2) by (force simp: row_selected_ok)
    qed
    ultimately show ?thesis
      using Inr no st1(1) assms(2-5) md(2)
      by (auto intro!: update_commit_coherent [where md = "stamp_update x md"] simp: stamp_update_def)
  qed (simp add: st1)
qed

section \<open>Deleting\<close>

lemma coherent_delete:
  assumes coh: "coherent st" and r: "r \<in> set (rs_table st)"
  shows "coherent (st\<lparr>rs_table := filter (\<lambda>q. rw_Uid q \<noteq> rw_Uid r) (rs_table st),
    rs_redis := (rs_redis st)(getObjectKeyByName (rw_Api r) (rw_Version r) (rw_Kind r) (row_name r) := None,
      getObjectKeyByUID (rw_Uid r) := None)\<rparr>)"
proof -
  have "q \<noteq> r \<Longrightarrow> rw_Uid q \<noteq> rw_Uid r" if "q \<in> set (rs_table st)" for q
    using coherentD(2) [OF coh that r] by blast
  moreover have "key \<in> row_keys r \<Longrightarrow> key \<notin> {getObjectKeyByName (rw_Api r) (rw_Version r) (rw_Kind r) (row_name r),
      getObjectKeyByUID (rw_Uid r)} \<Longrightarrow> False" for key
    by (simp add: row_keys_def)
  moreover have "distinct (map rw_Uid (filter P (rs_table st)))" "distinct (map row_id (filter P (rs_table st)))" for P
    using coh by (simp_all add: coherent_def distinct_map_filter)
  ultimately show ?thesis
    using coh unfolding coherent_def by (auto split: if_splits) metis+
qed

lemma doDelete_coherent:
  assumes coh: "coherent st" and "redis_works E"
    and fits: "kind_fits \<lparr>go_Uid = do_Uid req, go_Name = do_Name req\<rparr> api version kind st"
  shows "coherent (snd (doDelete E x req api version kind st))"
proof -
  let ?opts = "\<lparr>go_Uid = do_Uid req, go_Name = do_Name req\<rparr>"
  let ?rest = "\<lambda>itm st1. go_seq (deref (ob_Metadata itm), st1) (\<lambda>md st1.
          go_seq (delete_row E (md_Uid md) st1) (\<lambda>_ st2.
            let itm' = itm\<lparr>ob_Metadata := Some (stamp_update x md)\<rparr> in
            go_seq (doPostDelete E itm' api version kind st2) (\<lambda>_ st3. (Ok itm', st3))))"
  have "coherent (snd (go_seq (doGet E ?opts api version kind st) ?rest))"
  proof (rule go_seq_state [where P = coherent])
    show "coherent (snd (doGet E ?opts api version kind st))" by (rule doGet_state [OF assms])
    fix itm st1 assume get: "doGet E ?opts api version kind st = (Ok itm, st1)"
    have st1: "coherent st1" "rs_table st1 = rs_table st"
      using doGet_state [OF assms] get by simp_all
    obtain r where r: "r \<in> set (rs_table st)" "row_selected ?opts api version kind r" "rw_Resource r = itm"
      using doGet_Ok [OF assms get] by blast
    obtain md where md: "ob_Metadata itm = Some md" "md_Uid md = rw_Uid r"
      using coherentD(1) [OF coh r(1)] r(3) by (auto simp: row_ok_def)
    have keys: "rw_Api r = api" "rw_Version r = version" "rw_Kind r = kind" "row_name r = md_Name md"
      using r md by (simp_all add: row_selected_def row_name_def)
    have del: "re_redis_del E = None" using assms(2) by (simp add: redis_works_def)
    show "coherent (snd (?rest itm st1))"
    proof (cases "re_db E DELETE_ROW")
      case None
      with coherent_delete [OF st1(1), of r] r(1) st1(2) keys md del show ?thesis
        by (simp add: delete_row_def doPostDelete_def doDeleteCache_def stamp_update_def Let_def)
    qed (use md st1 in \<open>simp add: delete_row_def\<close>)
  qed
  with coh show ?thesis
    by (auto simp: doDelete_def Let_def split: go.splits)
qed

section \<open>The states of the server\<close>

definition rsc_empty :: rsc_state where
  "rsc_empty = \<lparr>rs_table = [], rs_redis = Map.empty, rs_published = []\<rparr>"

text \<open>
  Requests one after the other, each as a whole, while Redis works; statements of the database may
  fail at any time, and so may reading from Redis and publishing.
\<close>

inductive rsc_reachable :: "rsc_state \<Rightarrow> bool" where
  start: "rsc_reachable rsc_empty"
| get: "rsc_reachable st \<Longrightarrow> redis_works E \<Longrightarrow> kind_fits req api version kind st \<Longrightarrow>
    rsc_reachable (snd (doGet E req api version kind st))"
| create: "rsc_reachable st \<Longrightarrow> redis_works E \<Longrightarrow> plain api \<Longrightarrow> plain version \<Longrightarrow> plain kind \<Longrightarrow>
    plain (rc_NewUid x) \<Longrightarrow> rsc_reachable (snd (doCreate E x obj api version kind st))"
| update: "rsc_reachable st \<Longrightarrow> redis_works E \<Longrightarrow> plain api \<Longrightarrow> plain version \<Longrightarrow> plain kind \<Longrightarrow>
    keeps_name obj api version kind st \<Longrightarrow> rsc_reachable (snd (doUpdate E x obj api version kind st))"
| delete: "rsc_reachable st \<Longrightarrow> redis_works E \<Longrightarrow>
    kind_fits \<lparr>go_Uid = do_Uid opts, go_Name = do_Name opts\<rparr> api version kind st \<Longrightarrow>
    rsc_reachable (snd (doDelete E x opts api version kind st))"

lemma rsc_reachable_coherent: "rsc_reachable st \<Longrightarrow> coherent st"
  by (induction rule: rsc_reachable.induct)
    (simp_all add: rsc_empty_def coherent_def [of "rsc_state.make _ _ _"] doGet_state(1) doCreate_coherent
      doUpdate_coherent doDelete_coherent, simp add: coherent_def)

text \<open>
  C12: as long as Redis works, the copy is invisible: in every state the server reaches by requests of
  which none renames a resource or names one under another kind, a request is answered from the
  copy exactly as it would be from the table.
\<close>

theorem rsc_copy_is_invisible:
  assumes "rsc_reachable st" "redis_works E" "kind_fits req api version kind st" and "re_db E SELECT = None"
  shows "fst (doGet E req api version kind st) = table_get E req api version kind st"
  by (rule doGet_spec [OF rsc_reachable_coherent [OF assms(1)] assms(2,3)]) (use assms(4) in simp_all)

text \<open>
  C13: although the table has no constraint on names, in every such state no two resources of a kind have
  the same name and no two resources the same identifier.
\<close>

theorem rsc_names_unique:
  assumes "rsc_reachable st"
  shows "distinct (map row_id (rs_table st)) \<and> distinct (map rw_Uid (rs_table st))"
  using rsc_reachable_coherent [OF assms] by (simp add: coherent_def)

section \<open>A server with one user\<close>

definition rsc_example_env :: rsc_env where
  "rsc_example_env =
     \<lparr>re_V = ascii_validators, re_db = (\<lambda>s. None), re_redis_get = (\<lambda>k. None), re_redis_set = (\<lambda>k. None),
      re_redis_del = None, re_publish = None, re_Unmarshal = (\<lambda>to from x. Ok x), re_FromMap = (\<lambda>k x. Ok x)\<rparr>"

definition example_call :: "string \<Rightarrow> string \<Rightarrow> rsc_call" where
  "example_call uid version =
     \<lparr>rc_NewUid = uid, rc_NewVersion = version, rc_Now = 7, rc_ActorRef = None, rc_ActorOp = []\<rparr>"

definition user_request :: "string \<Rightarrow> rsc_obj" where
  "user_request name =
     \<lparr>ob_ApiVersion = [], ob_Kind = [],
      ob_Metadata = Some ((se_Metadata example_session)\<lparr>md_Uid := [], md_Name := name\<rparr>),
      ob_Spec = Some (JMap []), ob_Status = None, ob_Data = None\<rparr>"

definition user_obj :: "string \<Rightarrow> string \<Rightarrow> string \<Rightarrow> rsc_obj" where
  "user_obj uid version name =
     (with_defaults ''core'' ''v1'' ''User'' (user_request name))
       \<lparr>ob_Metadata := Some (stamp_create (example_call uid version)
          ((se_Metadata example_session)\<lparr>md_Uid := [], md_Name := name\<rparr>))\<rparr>"

definition alice_state :: rsc_state where
  "alice_state =
     \<lparr>rs_table = [\<lparr>rw_Uid = ''u1'', rw_Api = ''core'', rw_Version = ''v1'', rw_Kind = ''User'',
        rw_Resource = user_obj ''u1'' ''r1'' ''alice''\<rparr>],
      rs_redis = [''rsc:core:v1:User:alice'' \<mapsto> (''User'', user_obj ''u1'' ''r1'' ''alice''),
                  ''rsc:u1'' \<mapsto> (''User'', user_obj ''u1'' ''r1'' ''alice'')],
      rs_published = [(''octelium.rsc.core.v1.User'', Event_Create (user_obj ''u1'' ''r1'' ''alice''))]\<rparr>"

lemma user_obj_metadata [simp]:
  "\<exists>md. ob_Metadata (user_obj uid version name) = Some md \<and> md_Uid md = uid \<and> md_Name md = name \<and>
     md_ResourceVersion md = version"
  by (simp add: user_obj_def stamp_create_def example_call_def)

lemma example_kinds: "NewResourceObject ''core'' ''v1'' ''User'' = Ok ''User''" "\<not> isTypeSecret ''User''"
  "NewResourceObject ''core'' ''v1'' ''Group'' = Ok ''Group''" "\<not> isTypeSecret ''Group''"
  by (simp_all add: NewResourceObject_def NewObject_def resource_kinds_def isTypeSecret_def)

lemma example_name: "checkName ''alice'' = Ok ()"
  by (simp add: checkName_def rgxName_def lower_alnum_def lower_def decimal_def name_char_def MaxNameSubArgs_def
      reject_if_def)

lemma example_works: "redis_works rsc_example_env" "re_db rsc_example_env s = None"
  "re_redis_get rsc_example_env k = None" "re_publish rsc_example_env = None" "re_redis_set rsc_example_env k = None"
  "re_FromMap rsc_example_env kd x = Ok x" "re_Unmarshal rsc_example_env k1 k2 x = Ok x"
  by (simp_all add: rsc_example_env_def redis_works_def)

lemma example_options:
  "rsc_checkGetOptions rsc_example_env \<lparr>go_Uid = [], go_Name = ''alice''\<rparr> = Ok ()"
  "rsc_checkGetOptions rsc_example_env \<lparr>go_Uid = ''u1'', go_Name = []\<rparr> = Ok ()"
  by (simp_all add: rsc_checkGetOptions_def example_name rsc_example_env_def ascii_validators_def)

lemma create_alice:
  "doCreate rsc_example_env (example_call ''u1'' ''r1'') (user_request ''alice'') ''core'' ''v1'' ''User'' rsc_empty =
   (Ok (user_obj ''u1'' ''r1'' ''alice''), alice_state)"
proof -
  have get: "doGet rsc_example_env \<lparr>go_Uid = [], go_Name = ''alice''\<rparr> ''core'' ''v1'' ''User'' rsc_empty =
      (Fail NotFound, rsc_empty)"
    by (simp add: doGet_def example_options doGetCache_def example_kinds example_works rsc_empty_def get_row_def)
  have "ob_Metadata (with_defaults ''core'' ''v1'' ''User'' (user_request ''alice'')) =
      Some ((se_Metadata example_session)\<lparr>md_Uid := [], md_Name := ''alice''\<rparr>)"
    by (simp add: with_defaults_def user_request_def)
  then have "create_prepare rsc_example_env (example_call ''u1'' ''r1'') (user_request ''alice'') ''core'' ''v1'' ''User''
      rsc_empty = (Ok (user_obj ''u1'' ''r1'' ''alice''), rsc_empty)"
    by (simp add: create_prepare_def example_kinds example_works example_options get IsNotFound_def NotFound_def
        user_obj_def)
  moreover obtain md where "ob_Metadata (user_obj ''u1'' ''r1'' ''alice'') = Some md" "md_Uid md = ''u1''"
    "md_Name md = ''alice''" using user_obj_metadata by blast
  ultimately show ?thesis
    by (simp add: doCreate_def create_commit_def insert_row_def example_works example_kinds doPostCreate_def
        doSetCache_def redis_Set_def publishMessage_def rsc_empty_def alice_state_def getObjectKeyByName_def
        getObjectKeyByUID_def getRedisRscChannel_def)
qed

lemma plain_examples: "plain ''core''" "plain ''v1''" "plain ''User''" "plain ''Group''" "plain ''u1''" "plain ''u2''"
  by (simp_all add: plain_def)

lemma alice_reachable: "rsc_reachable alice_state"
  using rsc_reachable.create [OF rsc_reachable.start example_works(1) plain_examples(1-3), of "example_call ''u1'' ''r1''"
      "user_request ''alice''"] create_alice
  by (simp add: example_call_def plain_examples)

theorem rsc_copy_is_invisible_witness:
  "fst (doGet rsc_example_env \<lparr>go_Uid = [], go_Name = ''alice''\<rparr> ''core'' ''v1'' ''User'' alice_state) =
   table_get rsc_example_env \<lparr>go_Uid = [], go_Name = ''alice''\<rparr> ''core'' ''v1'' ''User'' alice_state"
  by (rule rsc_copy_is_invisible [OF alice_reachable example_works(1) _ example_works(2)])
    (simp add: kind_fits_def plain_examples)

theorem rsc_names_unique_witness:
  "distinct (map row_id (rs_table alice_state)) \<and> distinct (map rw_Uid (rs_table alice_state))"
  by (rule rsc_names_unique [OF alice_reachable])

end
