(* ===== verification/RscList.thy ===== *)
theory RscList imports Rscserver begin

text \<open>
  Listing: \<open>doList\<close> of \<open>cluster/rscserver/rscserver/common.go\<close>, the translation of filters of
  \<open>types.go\<close>, and the options that \<open>cluster/common/urscsrv/urscsrv.go\<close> builds for the API servers. The
  meaning of a condition in SQL and of \<open>ORDER BY\<close> are parameters; the texts of the conditions
  are the ones that the code writes.
\<close>

section \<open>Options\<close>

datatype pb_value =
    PB_Unset | PB_Null | PB_Number int | PB_String string | PB_Bool bool | PB_Struct | PB_List

datatype Filter_Op = OP_UNSET | OP_EQ | OP_INCLUDES | Other_Op int

record Filter =
  fi_Field :: string
  fi_Op :: Filter_Op
  fi_Value :: "pb_value option"

datatype OrderBy_Type = TYPE_UNSET | TYPE_NAME | TYPE_CREATED_AT | Other_OrderType int

datatype OrderBy_Mode = MODE_UNSET | MODE_ASC | MODE_DESC | Other_OrderMode int

record ListOptions =
  lo_Filters :: "Filter list"
  lo_SpecLabels :: "(string \<times> string) list"
  lo_SpecLabelsORed :: "(string \<times> string) list"
  lo_SystemLabels :: "(string \<times> string) list"
  lo_SystemLabelsORed :: "(string \<times> string) list"
  lo_Paginate :: bool
  lo_Page :: "32 word"
  lo_ItemsPerPage :: "32 word"
  lo_OrderBy :: "(OrderBy_Type \<times> OrderBy_Mode) list"

record ListResponseMeta =
  lm_Page :: "32 word"
  lm_ItemsPerPage :: "32 word"
  lm_TotalCount :: "32 word"
  lm_HasMore :: bool

section \<open>Conditions\<close>

datatype sql_val = SQL_Str string | SQL_Num int | SQL_Nil

datatype sql_cond =
    SQL_Eq string sql_val | SQL_IsTrue string | SQL_IsNotTrue string | SQL_Or "sql_cond list"

definition quoted :: "string \<Rightarrow> string" where
  "quoted s = CHR 0x27 # s @ [CHR 0x27]"

fun getPBVal :: "pb_value \<Rightarrow> sql_val" where
  "getPBVal (PB_String s) = SQL_Str s"
| "getPBVal (PB_Bool b) = SQL_Str (if b then ''true'' else [])"
| "getPBVal PB_Null = SQL_Nil"
| "getPBVal (PB_Number n) = SQL_Num n"
| "getPBVal _ = SQL_Nil"

definition filter_path :: "string list \<Rightarrow> string" where
  "filter_path args = foldl (\<lambda>acc a. acc @ ''->'' @ quoted a) ''resource'' (butlast args)"

text \<open>
  A filter on a value that a message leaves out when it is stored (false, zero, no text) asks for the
  absence of the field.
\<close>

definition eq_filter :: "string \<Rightarrow> string \<Rightarrow> pb_value \<Rightarrow> sql_cond list" where
  "eq_filter path field v =
     (case v of
        PB_Bool b \<Rightarrow>
          if b then [SQL_Eq (path @ ''->>'' @ quoted field) (getPBVal v)]
          else [SQL_IsNotTrue (path @ '' ? '' @ quoted field)]
      | PB_Number n \<Rightarrow>
          if n \<noteq> 0 then [SQL_Eq (''('' @ path @ ''->>'' @ quoted field @ '')::int'') (getPBVal v)]
          else [SQL_IsNotTrue (path @ '' ? '' @ quoted field)]
      | PB_String s \<Rightarrow>
          if s \<noteq> [] then [SQL_Eq (path @ ''->>'' @ quoted field) (getPBVal v)]
          else [SQL_IsNotTrue (path @ '' ? '' @ quoted field)]
      | _ \<Rightarrow> [])"

definition includes_filter :: "string \<Rightarrow> string \<Rightarrow> pb_value \<Rightarrow> sql_cond list" where
  "includes_filter path field v =
     (case v of
        PB_String s \<Rightarrow>
          if s \<noteq> [] then [SQL_IsTrue (path @ ''->'' @ quoted field @ '' ? '' @ quoted s)] else []
      | _ \<Rightarrow> [])"

definition list_filter :: "Filter \<Rightarrow> sql_cond list go" where
  "list_filter f =
     (let args = Split (fi_Field f) CHR ''.'' in
      case fi_Op f of
        OP_EQ \<Rightarrow> go_map (eq_filter (filter_path args) (last args)) (deref (fi_Value f))
      | OP_INCLUDES \<Rightarrow> go_map (includes_filter (filter_path args) (last args)) (deref (fi_Value f))
      | _ \<Rightarrow> Ok [])"

definition getListFilters :: "Filter list \<Rightarrow> sql_cond list go" where
  "getListFilters fs = go_map concat (go_mapM list_filter fs)"

definition label_filter :: "string \<Rightarrow> string \<times> string \<Rightarrow> sql_cond" where
  "label_filter labels kv =
     SQL_Eq (''resource->'' @ quoted ''metadata'' @ ''->'' @ quoted labels @ ''->>'' @ quoted (fst kv)) (SQL_Str (snd kv))"

definition list_conditions :: "ListOptions \<Rightarrow> sql_cond list go" where
  "list_conditions req =
     go_map (\<lambda>fs.
       map (label_filter ''specLabels'') (lo_SpecLabels req) @
       (if lo_SpecLabelsORed req \<noteq> [] then [SQL_Or (map (label_filter ''specLabels'') (lo_SpecLabelsORed req))] else []) @
       map (label_filter ''systemLabels'') (lo_SystemLabels req) @
       (if lo_SystemLabelsORed req \<noteq> [] then [SQL_Or (map (label_filter ''systemLabels'') (lo_SystemLabelsORed req))] else []) @
       fs)
     (if 0 < length (lo_Filters req) then getListFilters (lo_Filters req) else Ok [])"

section \<open>Order\<close>

datatype order_term = By_created_at bool | By_name bool | By_id

text \<open>
  The flag is true for a descending order. An order of another type replaces what was asked for before.
\<close>

fun order_terms :: "order_term list \<Rightarrow> (OrderBy_Type \<times> OrderBy_Mode) list \<Rightarrow> order_term list" where
  "order_terms ts [] = ts"
| "order_terms ts ((typ, mode) # os) =
     order_terms
       (case typ of
          TYPE_CREATED_AT \<Rightarrow> ts @ [By_created_at (mode = MODE_DESC)]
        | TYPE_NAME \<Rightarrow> ts @ [By_name (mode = MODE_DESC)]
        | _ \<Rightarrow> [By_id]) os"

definition list_order :: "ListOptions \<Rightarrow> order_term list" where
  "list_order req = (if 0 < length (lo_OrderBy req) then order_terms [] (lo_OrderBy req) else [By_id])"

section \<open>Listing\<close>

record list_env =
  le_db :: "stmt \<Rightarrow> error option"
  le_holds :: "sql_cond \<Rightarrow> rsc_obj \<Rightarrow> bool"
  le_order :: "order_term list \<Rightarrow> row list \<Rightarrow> row list"

definition defaultItemsPerPage :: "32 word" where "defaultItemsPerPage = 200"

definition maxItemsPerPage :: "32 word" where "maxItemsPerPage = 1000"

definition list_limit :: "ListOptions \<Rightarrow> 32 word" where
  "list_limit req =
     (if lo_ItemsPerPage req = 0 then defaultItemsPerPage
      else if maxItemsPerPage < lo_ItemsPerPage req then maxItemsPerPage
      else lo_ItemsPerPage req)"

text \<open>The rows that are selected, in their order, before they are cut into pages.\<close>

definition selected_rows ::
  "list_env \<Rightarrow> ListOptions \<Rightarrow> sql_cond list \<Rightarrow> string \<Rightarrow> string \<Rightarrow> string \<Rightarrow> row list \<Rightarrow> row list" where
  "selected_rows L req conds api version kind table =
     le_order L (list_order req)
       (filter (\<lambda>r. rw_Api r = api \<and> rw_Version r = version \<and> rw_Kind r = kind \<and>
          list_all (\<lambda>c. le_holds L c (rw_Resource r)) conds) table)"

text \<open>\<open>count(*) OVER()\<close> repeats the number of selected rows in every row of the page, so without a row it is not read.\<close>

definition doList ::
  "list_env \<Rightarrow> ListOptions \<Rightarrow> string \<Rightarrow> string \<Rightarrow> string \<Rightarrow> rsc_state \<Rightarrow> (rsc_obj list \<times> ListResponseMeta) go" where
  "doList L req api version kind st =
     go_bind (list_conditions req) (\<lambda>conds.
     if lo_Paginate req \<and> 10000 < lo_Page req then Fail (Status InvalidArgument)
     else
       (let meta0 = (if lo_Paginate req
                     then \<lparr>lm_Page = lo_Page req, lm_ItemsPerPage = list_limit req, lm_TotalCount = 0, lm_HasMore = False\<rparr>
                     else \<lparr>lm_Page = 0, lm_ItemsPerPage = 0, lm_TotalCount = 0, lm_HasMore = False\<rparr>) in
        case le_db L SELECT of
          Some e \<Rightarrow> Fail (InternalWithErr e)
        | None \<Rightarrow>
            (let rows = selected_rows L req conds api version kind (rs_table st);
                 page = (if lo_Paginate req
                         then take (unat (list_limit req)) (drop (unat (lo_Page req * list_limit req)) rows)
                         else rows) in
             go_bind (if page = [] then Ok []
                      else (case NewResourceObject api version kind of
                              Ok _ \<Rightarrow> Ok (map rw_Resource page)
                            | Fail e \<Rightarrow> Fail (InternalWithErr e)
                            | Panic \<Rightarrow> Panic))
               (\<lambda>items.
                 if length items = 0 \<and> 0 < lo_Page req then Fail NotFound
                 else
                   (let meta1 = (if items = [] then meta0 else meta0\<lparr>lm_TotalCount := of_nat (length rows)\<rparr>);
                        meta2 = (if (lm_Page meta1 + 1) * lm_ItemsPerPage meta1 < lm_TotalCount meta1
                                 then meta1\<lparr>lm_HasMore := True\<rparr> else meta1) in
                    Ok (items, meta2))))))"

section \<open>The options of the API servers\<close>

definition FilterFieldEQValStr :: "string \<Rightarrow> string \<Rightarrow> Filter" where
  "FilterFieldEQValStr field val = \<lparr>fi_Field = field, fi_Op = OP_EQ, fi_Value = Some (PB_String val)\<rparr>"

definition FilterFieldIncludesValStr :: "string \<Rightarrow> string \<Rightarrow> Filter" where
  "FilterFieldIncludesValStr field val = \<lparr>fi_Field = field, fi_Op = OP_INCLUDES, fi_Value = Some (PB_String val)\<rparr>"

definition FilterFieldBooleanTrue :: "string \<Rightarrow> Filter" where
  "FilterFieldBooleanTrue field = \<lparr>fi_Field = field, fi_Op = OP_EQ, fi_Value = Some (PB_Bool True)\<rparr>"

definition FilterFieldBooleanFalse :: "string \<Rightarrow> Filter" where
  "FilterFieldBooleanFalse field = \<lparr>fi_Field = field, fi_Op = OP_EQ, fi_Value = Some (PB_Bool False)\<rparr>"

definition FilterStatusUserUID :: "string \<Rightarrow> Filter" where
  "FilterStatusUserUID uid = FilterFieldEQValStr ''status.userRef.uid'' uid"

definition FilterStatusNamespaceUID :: "string \<Rightarrow> Filter" where
  "FilterStatusNamespaceUID uid = FilterFieldEQValStr ''status.namespaceRef.uid'' uid"

definition no_list_options :: ListOptions where
  "no_list_options = \<lparr>lo_Filters = [], lo_SpecLabels = [], lo_SpecLabelsORed = [], lo_SystemLabels = [],
     lo_SystemLabelsORed = [], lo_Paginate = False, lo_Page = 0, lo_ItemsPerPage = 0, lo_OrderBy = []\<rparr>"

definition FilterByUser :: "User \<Rightarrow> ListOptions" where
  "FilterByUser u = no_list_options\<lparr>lo_Filters := [FilterStatusUserUID (md_Uid (ur_Metadata u))]\<rparr>"

definition FilterByUserRef :: "ObjectReference \<Rightarrow> ListOptions" where
  "FilterByUserRef u = no_list_options\<lparr>lo_Filters := [FilterStatusUserUID (or_Uid u)]\<rparr>"

text \<open>\<open>CommonListOptions\<close> with its order; the types and modes are those of \<open>metav1\<close>.\<close>

datatype Common_OrderType = COMMON_TYPE_UNSET | COMMON_NAME | COMMON_CREATED_AT | Other_CommonType int

datatype Common_OrderMode = COMMON_MODE_UNSET | COMMON_ASC | COMMON_DESC | Other_CommonMode int

record CommonListOptions =
  cl_Page :: "32 word"
  cl_ItemsPerPage :: "32 word"
  cl_OrderBy :: "(Common_OrderType \<times> Common_OrderMode) option"

definition doGetPublicListOptions ::
  "ListOptions \<Rightarrow> CommonListOptions option \<Rightarrow> Filter list \<Rightarrow> ListOptions" where
  "doGetPublicListOptions parent common fs =
     (let ret = (case common of
                   None \<Rightarrow> parent
                 | Some c \<Rightarrow> parent\<lparr>lo_Page := cl_Page c, lo_ItemsPerPage := cl_ItemsPerPage c\<rparr>);
          ret = ret\<lparr>lo_Filters := lo_Filters ret @ fs\<rparr> in
      case common of
        None \<Rightarrow> ret
      | Some c \<Rightarrow>
          (case cl_OrderBy c of
             None \<Rightarrow> ret
           | Some (typ, mode) \<Rightarrow>
               if typ = COMMON_TYPE_UNSET then ret
               else ret\<lparr>lo_OrderBy :=
                 [(case typ of COMMON_CREATED_AT \<Rightarrow> TYPE_CREATED_AT | COMMON_NAME \<Rightarrow> TYPE_NAME | _ \<Rightarrow> TYPE_UNSET,
                   case mode of COMMON_DESC \<Rightarrow> MODE_DESC | _ \<Rightarrow> MODE_ASC)]\<rparr>))"

definition GetPublicListOptions :: "CommonListOptions option \<Rightarrow> Filter list \<Rightarrow> ListOptions" where
  "GetPublicListOptions common fs =
     doGetPublicListOptions
       (no_list_options\<lparr>lo_Paginate := True, lo_Filters := [FilterFieldBooleanFalse ''metadata.isSystemHidden'']\<rparr>)
       common fs"

definition GetUserPublicListOptions :: "CommonListOptions option \<Rightarrow> Filter list \<Rightarrow> ListOptions" where
  "GetUserPublicListOptions common fs =
     doGetPublicListOptions
       (no_list_options\<lparr>lo_Paginate := True,
          lo_Filters := [FilterFieldBooleanFalse ''metadata.isSystemHidden'',
                         FilterFieldBooleanFalse ''metadata.isUserHidden'']\<rparr>)
       common fs"

section \<open>Pages\<close>

lemma list_limit_bounds: "1 \<le> unat (list_limit req) \<and> unat (list_limit req) \<le> 1000"
proof -
  have "unat (lo_ItemsPerPage req) \<noteq> 0" if "lo_ItemsPerPage req \<noteq> 0" using that by (simp add: unat_eq_0)
  then show ?thesis
    by (auto simp: list_limit_def defaultItemsPerPage_def maxItemsPerPage_def word_le_nat_alt word_less_nat_alt)
qed

lemma offset_exact:
  assumes "\<not> 10000 < lo_Page req"
  shows "unat (lo_Page req * list_limit req) = unat (lo_Page req) * unat (list_limit req)"
    and "unat ((lo_Page req + 1) * list_limit req) = (unat (lo_Page req) + 1) * unat (list_limit req)"
proof -
  have p: "unat (lo_Page req) \<le> 10000" using assms by (simp add: word_less_nat_alt)
  have "unat (lo_Page req) * unat (list_limit req) \<le> 10000 * 1000"
    using p list_limit_bounds by (intro mult_le_mono) auto
  then show "unat (lo_Page req * list_limit req) = unat (lo_Page req) * unat (list_limit req)"
    by (simp add: unat_word_ariths)
  have "(unat (lo_Page req) + 1) * unat (list_limit req) \<le> 10001 * 1000"
    using p list_limit_bounds by (intro mult_le_mono) auto
  moreover have "unat (lo_Page req + 1) = unat (lo_Page req) + 1"
    using p by (simp add: unat_word_ariths)
  ultimately show "unat ((lo_Page req + 1) * list_limit req) = (unat (lo_Page req) + 1) * unat (list_limit req)"
    by (simp add: unat_word_ariths)
qed

text \<open>The part of a list that a page shows.\<close>

definition page_of :: "nat \<Rightarrow> nat \<Rightarrow> 'a list \<Rightarrow> 'a list" where
  "page_of n p xs = take n (drop (p * n) xs)"

lemma page_of_map: "page_of n p (map f xs) = map f (page_of n p xs)"
  by (simp add: page_of_def take_map drop_map)

lemma pages_concat: "concat (map (\<lambda>p. page_of n p xs) [0..<k]) = take (k * n) xs"
proof (induction k)
  case (Suc k)
  have "take (k * n) xs @ take n (drop (k * n) xs) = take (k * n + n) xs"
    by (metis take_add)
  with Suc show ?case by (simp add: page_of_def add.commute)
qed simp

lemma doList_page:
  assumes "list_conditions req = Ok conds" and "lo_Paginate req" and "\<not> 10000 < lo_Page req"
    and "le_db L SELECT = None" and "NewResourceObject api version kind = Ok kind"
    and "length (selected_rows L req conds api version kind (rs_table st)) < 2 ^ 32"
  defines "rows \<equiv> selected_rows L req conds api version kind (rs_table st)"
  shows "doList L req api version kind st =
    (let n = unat (list_limit req); p = unat (lo_Page req); items = map rw_Resource (page_of n p rows) in
     if items = [] \<and> 0 < p then Fail NotFound
     else Ok (items, \<lparr>lm_Page = lo_Page req, lm_ItemsPerPage = list_limit req,
       lm_TotalCount = (if items = [] then 0 else of_nat (length rows)),
       lm_HasMore = (items \<noteq> [] \<and> (p + 1) * n < length rows)\<rparr>))"
proof -
  let ?n = "unat (list_limit req)" and ?p = "unat (lo_Page req)"
  have pos: "(0 < lo_Page req) = (0 < ?p)" by (simp add: word_less_nat_alt)
  have more: "(lo_Page req + 1) * list_limit req < of_nat (length rows) \<longleftrightarrow> (?p + 1) * ?n < length rows"
    using assms(6) by (simp add: word_less_nat_alt offset_exact(2) [OF assms(3)] unat_of_nat rows_def)
  have "\<not> (lo_Page req + 1) * list_limit req < 0" by simp
  then show ?thesis
    using assms(1-5) pos more
    by (simp add: doList_def Let_def page_of_def offset_exact(1) [OF assms(3)] rows_def [symmetric] del: length_0_conv)
      auto
qed

definition page_items :: "(rsc_obj list \<times> ListResponseMeta) go \<Rightarrow> rsc_obj list" where
  "page_items r = (case r of Ok (items, meta) \<Rightarrow> items | _ \<Rightarrow> [])"

text \<open>
  C22: the pages of a list are its consecutive parts: reading the first \<open>k\<close> pages one after the other
  gives the first \<open>k\<close> times page size resources of the list, each once and in order, and a page that is
  not empty says that there is more exactly when there is; the arithmetic on 32 bits
  does not wrap for any page number and page size that the server admits.
\<close>

theorem pages_partition_list:
  assumes "list_conditions req = Ok conds" and "lo_Paginate req" and "le_db L SELECT = None"
    and "NewResourceObject api version kind = Ok kind" and "k \<le> 10001"
    and "length (selected_rows L req conds api version kind (rs_table st)) < 2 ^ 32"
  shows "concat (map (\<lambda>p. page_items (doList L (req\<lparr>lo_Page := of_nat p\<rparr>) api version kind st)) [0..<k]) =
      take (k * unat (list_limit req)) (map rw_Resource (selected_rows L req conds api version kind (rs_table st))) \<and>
    (\<forall>p<k. \<forall>items meta. doList L (req\<lparr>lo_Page := of_nat p\<rparr>) api version kind st = Ok (items, meta) \<longrightarrow> items \<noteq> [] \<longrightarrow>
      (lm_HasMore meta \<longleftrightarrow>
        (p + 1) * unat (list_limit req) < length (selected_rows L req conds api version kind (rs_table st))))"
proof -
  let ?rows = "selected_rows L req conds api version kind (rs_table st)" and ?n = "unat (list_limit req)"
  have page: "doList L (req\<lparr>lo_Page := of_nat p\<rparr>) api version kind st =
      (let items = map rw_Resource (page_of ?n p ?rows) in
       if items = [] \<and> 0 < p then Fail NotFound
       else Ok (items, \<lparr>lm_Page = of_nat p, lm_ItemsPerPage = list_limit req,
         lm_TotalCount = (if items = [] then 0 else of_nat (length ?rows)),
         lm_HasMore = (items \<noteq> [] \<and> (p + 1) * ?n < length ?rows)\<rparr>))" if "p < k" for p
  proof -
    let ?req = "req\<lparr>lo_Page := of_nat p\<rparr>"
    have small: "unat (of_nat p :: 32 word) = p" using that assms(5) by (simp add: unat_of_nat)
    have "list_conditions ?req = list_conditions req" by (simp add: list_conditions_def)
    then have same: "list_conditions ?req = Ok conds" "lo_Paginate ?req" "list_limit ?req = list_limit req"
      "selected_rows L ?req conds api version kind (rs_table st) = ?rows"
      using assms(1,2) by (simp_all add: list_limit_def selected_rows_def list_order_def)
    have le: "\<not> 10000 < lo_Page ?req" using that assms(5) small by (simp add: word_less_nat_alt)
    have len: "length (selected_rows L ?req conds api version kind (rs_table st)) < 2 ^ 32"
      unfolding same(4) by (rule assms(6))
    have "lo_Page ?req = of_nat p" by simp
    with doList_page [OF same(1,2) le assms(3,4) len] show ?thesis
      by (simp only: same(3,4) small Let_def)
  qed
  have "page_items (doList L (req\<lparr>lo_Page := of_nat p\<rparr>) api version kind st) = page_of ?n p (map rw_Resource ?rows)"
    if "p < k" for p
    unfolding page [OF that] Let_def page_of_map by (simp add: page_items_def)
  then have items: "map (\<lambda>p. page_items (doList L (req\<lparr>lo_Page := of_nat p\<rparr>) api version kind st)) [0..<k] =
      map (\<lambda>p. page_of ?n p (map rw_Resource ?rows)) [0..<k]"
    by (intro map_cong) auto
  show ?thesis
  proof (intro conjI allI impI)
    show "concat (map (\<lambda>p. page_items (doList L (req\<lparr>lo_Page := of_nat p\<rparr>) api version kind st)) [0..<k]) =
        take (k * ?n) (map rw_Resource ?rows)"
      unfolding items by (rule pages_concat)
    fix p items meta
    assume "p < k" "doList L (req\<lparr>lo_Page := of_nat p\<rparr>) api version kind st = Ok (items, meta)" "items \<noteq> []"
    with page [OF this(1)] show "lm_HasMore meta \<longleftrightarrow> (p + 1) * ?n < length ?rows"
      by (auto simp: Let_def split: if_splits)
  qed
qed

text \<open>
  A list that is asked for as a whole claims that there is more: every resource is returned, and
  unless there is none the metadata nevertheless says that further pages exist.
\<close>

theorem whole_list_claims_more:
  assumes "list_conditions req = Ok conds" and "\<not> lo_Paginate req" and "le_db L SELECT = None"
    and "NewResourceObject api version kind = Ok kind"
    and "selected_rows L req conds api version kind (rs_table st) = r # rs" and "length rs < 2 ^ 31"
  shows "\<exists>meta. doList L req api version kind st = Ok (map rw_Resource (r # rs), meta) \<and> lm_HasMore meta"
proof -
  have "(0 :: 32 word) < of_nat (Suc (length rs))"
    using assms(6) by (simp add: word_less_nat_alt unat_of_nat del: of_nat_Suc)
  then show ?thesis
    using assms by (simp add: doList_def Let_def del: of_nat_Suc)
qed

section \<open>A list of three users\<close>

definition example_list_env :: list_env where
  "example_list_env = \<lparr>le_db = (\<lambda>s. None), le_holds = (\<lambda>c x. True), le_order = (\<lambda>ts rows. rows)\<rparr>"

definition bare_row :: "string \<Rightarrow> row" where
  "bare_row uid =
     \<lparr>rw_Uid = uid, rw_Api = ''core'', rw_Version = ''v1'', rw_Kind = ''User'',
      rw_Resource = \<lparr>ob_ApiVersion = ''core/v1'', ob_Kind = ''User'', ob_Metadata = None,
        ob_Spec = Some (JStr uid), ob_Status = None, ob_Data = None\<rparr>\<rparr>"

definition three_users :: rsc_state where
  "three_users = \<lparr>rs_table = map bare_row [''u1'', ''u2'', ''u3''], rs_redis = Map.empty, rs_published = []\<rparr>"

lemma three_users_selected:
  "list_conditions req = Ok conds \<Longrightarrow>
   selected_rows example_list_env req conds ''core'' ''v1'' ''User'' (rs_table three_users) = map bare_row [''u1'', ''u2'', ''u3'']"
  by (simp add: selected_rows_def three_users_def example_list_env_def bare_row_def list_all_iff)

lemma example_list_kind: "NewResourceObject ''core'' ''v1'' ''User'' = Ok ''User''" "le_db example_list_env SELECT = None"
  by (simp_all add: NewResourceObject_def NewObject_def resource_kinds_def example_list_env_def)

theorem pages_partition_list_witness:
  "concat (map (\<lambda>p. page_items (doList example_list_env
      (no_list_options\<lparr>lo_Paginate := True, lo_ItemsPerPage := 2, lo_Page := of_nat p\<rparr>) ''core'' ''v1'' ''User'' three_users)) [0..<2])
   = map (rw_Resource \<circ> bare_row) [''u1'', ''u2'', ''u3'']"
proof -
  let ?req = "no_list_options\<lparr>lo_Paginate := True, lo_ItemsPerPage := 2\<rparr>"
  have c: "list_conditions ?req = Ok []"
    by (simp add: list_conditions_def no_list_options_def go_map_def)
  have n: "unat (list_limit ?req) = 2"
    by (simp add: list_limit_def maxItemsPerPage_def)
  show ?thesis
    using pages_partition_list [OF c, of example_list_env "''core''" "''v1''" "''User''" 2 three_users]
    by (simp add: three_users_selected [OF c] example_list_kind n)
qed

theorem whole_list_claims_more_witness:
  "\<exists>meta. doList example_list_env no_list_options ''core'' ''v1'' ''User'' three_users =
     Ok (map (rw_Resource \<circ> bare_row) [''u1'', ''u2'', ''u3''], meta) \<and> lm_HasMore meta"
proof -
  have c: "list_conditions no_list_options = Ok []"
    by (simp add: list_conditions_def no_list_options_def go_map_def)
  have "\<not> lo_Paginate no_list_options" by (simp add: no_list_options_def)
  from whole_list_claims_more [OF c this example_list_kind(2,1), of three_users "bare_row ''u1''" "map bare_row [''u2'', ''u3'']"]
  show ?thesis by (simp add: three_users_selected [OF c])
qed

end
