(* ===== verification/RscServe.thy ===== *)
theory RscServe imports RscSteps RscList begin

text \<open>
  \<open>cluster/rscserver/rscserver/middleware.go\<close>: a gRPC method of the resource server is dispatched on its
  path to the operations on any kind of resource, and the path is read back as what it was built from.
\<close>

section \<open>Paths\<close>

record regexResult =
  rr_api :: string
  rr_version :: string
  rr_verb :: string
  rr_kind :: string

definition letter :: "char \<Rightarrow> bool" where
  "letter c \<longleftrightarrow> lower c \<or> 65 \<le> (of_char c :: nat) \<and> (of_char c :: nat) \<le> 90"

definition rsc_verbs :: "string list" where
  "rsc_verbs = [''Get'', ''Create'', ''List'', ''Update'', ''Delete'', ''Watch'']"

definition rsc_prefix :: string where
  "rsc_prefix = ''/octelium.api.rsc.''"

definition rsc_service :: string where
  "rsc_service = ''.v1.ResourceService/''"

text \<open>
  The regular expression: the prefix, the name of the API, the service, one of the verbs (none of which is
  a prefix of another), and the kind, whose letters are the rest of the path.
\<close>

definition rgxPath :: "string \<Rightarrow> (string \<times> string \<times> string) option" where
  "rgxPath u =
     (if \<not> HasPrefix u rsc_prefix then None
      else
        (let r = TrimPrefix u rsc_prefix;
             api = takeWhile lower r;
             r2 = dropWhile lower r in
         if \<not> (2 \<le> length api \<and> length api \<le> 32 \<and> HasPrefix r2 rsc_service) then None
         else
           (let r3 = TrimPrefix r2 rsc_service in
            case List.find (\<lambda>v. HasPrefix r3 v) rsc_verbs of
              None \<Rightarrow> None
            | Some verb \<Rightarrow>
                (let kind = TrimPrefix r3 verb in
                 if 2 \<le> length kind \<and> length kind \<le> 32 \<and> list_all letter kind then Some (api, verb, kind)
                 else None))))"

definition getRequestInfo :: "string \<Rightarrow> regexResult go" where
  "getRequestInfo u =
     (case rgxPath u of
        None \<Rightarrow> Fail (Errorf ''Invalid path'')
      | Some (api, verb, kind) \<Rightarrow>
          Ok \<lparr>rr_api = api, rr_version = ''v1'', rr_verb = verb, rr_kind = kind\<rparr>)"

section \<open>Requests\<close>

datatype rsc_request =
    Req_Get GetOptions | Req_List ListOptions | Req_Object rsc_obj | Req_Delete DeleteOptions | Req_Other

datatype rsc_response =
    Resp_Object rsc_obj | Resp_List "rsc_obj list" ListResponseMeta | Resp_Handler

record serve_env =
  sn_rsc :: rsc_env
  sn_list :: list_env
  sn_call :: rsc_call
  sn_ToJSON :: "rsc_obj list \<Rightarrow> error option"
  sn_FromJSON :: "rsc_obj list \<Rightarrow> error option"

text \<open>The items go through JSON, which keeps them unless one of the two conversions fails.\<close>

definition toResourceList ::
  "serve_env \<Rightarrow> rsc_obj list \<times> ListResponseMeta \<Rightarrow> string \<Rightarrow> string \<Rightarrow> rsc_response go" where
  "toResourceList S l api kind =
     (case sn_ToJSON S (fst l) of
        Some e \<Rightarrow> Fail e
      | None \<Rightarrow>
          go_bind (if api = ''core'' then NewObjectList kind else Fail (Errorf ''Invalid API'')) (\<lambda>_.
          case sn_FromJSON S (fst l) of Some e \<Rightarrow> Fail e | None \<Rightarrow> Ok (Resp_List (fst l) (snd l))))"

text \<open>
  A request of another type than the verb expects panics. A path that is not of this form, and a watch, are
  left to the handler of the generated service, whose answer is not told.
\<close>

definition handleUnaryRequest ::
  "serve_env \<Rightarrow> string \<Rightarrow> rsc_request \<Rightarrow> rsc_state \<Rightarrow> rsc_response go \<times> rsc_state" where
  "handleUnaryRequest S path req st =
     (case getRequestInfo path of
        Ok i \<Rightarrow>
          (let api = rr_api i; version = rr_version i; kind = rr_kind i; verb = rr_verb i;
               obj = (\<lambda>r. go_seq r (\<lambda>x st. (Ok (Resp_Object x), st))) in
           if verb = ''Get'' then
             (case req of Req_Get o' \<Rightarrow> obj (doGet (sn_rsc S) o' api version kind st) | _ \<Rightarrow> (Panic, st))
           else if verb = ''List'' then
             (case req of
                Req_List o' \<Rightarrow>
                  (go_bind (doList (sn_list S) o' api version kind st) (\<lambda>l. toResourceList S l api kind), st)
              | _ \<Rightarrow> (Panic, st))
           else if verb = ''Create'' then
             (case req of Req_Object x \<Rightarrow> obj (doCreate (sn_rsc S) (sn_call S) x api version kind st) | _ \<Rightarrow> (Panic, st))
           else if verb = ''Update'' then
             (case req of
                Req_Object x \<Rightarrow>
                  go_seq (doUpdate (sn_rsc S) (sn_call S) x api version kind st) (\<lambda>p st. (Ok (Resp_Object (fst p)), st))
              | _ \<Rightarrow> (Panic, st))
           else if verb = ''Delete'' then
             (case req of Req_Delete o' \<Rightarrow> obj (doDelete (sn_rsc S) (sn_call S) o' api version kind st) | _ \<Rightarrow> (Panic, st))
           else (Ok Resp_Handler, st))
      | _ \<Rightarrow> (Ok Resp_Handler, st))"

section \<open>Paths are read back\<close>

definition rsc_path :: "string \<Rightarrow> string \<Rightarrow> string \<Rightarrow> string" where
  "rsc_path api verb kind = rsc_prefix @ api @ rsc_service @ verb @ kind"

lemma HasPrefix_Cons: "HasPrefix (c # s) (d # p) \<longleftrightarrow> c = d \<and> HasPrefix s p" "HasPrefix s []"
  by (auto simp: HasPrefix_def)

lemma verb_found: "verb \<in> set rsc_verbs \<Longrightarrow> List.find (\<lambda>v. HasPrefix (verb @ kind) v) rsc_verbs = Some verb"
proof -
  have "list_all (\<lambda>verb. List.find (\<lambda>v. HasPrefix (verb @ kind) v) rsc_verbs = Some verb) rsc_verbs"
    by (simp add: rsc_verbs_def HasPrefix_Cons cong: if_cong)
  then show "verb \<in> set rsc_verbs \<Longrightarrow> List.find (\<lambda>v. HasPrefix (verb @ kind) v) rsc_verbs = Some verb"
    by (simp only: list_all_iff)
qed

lemma lower_service: "takeWhile lower (api @ rsc_service @ r) = api \<and> dropWhile lower (api @ rsc_service @ r) = rsc_service @ r"
  if "list_all lower api" for api r
  using that by (induction api) (simp_all add: rsc_service_def lower_def)

lemma rgxPath_Some:
  assumes "rgxPath u = Some (api, verb, kind)"
  shows "u = rsc_path api verb kind \<and> list_all lower api \<and> verb \<in> set rsc_verbs"
proof -
  obtain r where r: "u = rsc_prefix @ r"
    using assms by (auto simp: rgxPath_def HasPrefix_iff split: if_splits)
  have api: "api = takeWhile lower r"
    using assms by (auto simp: rgxPath_def r Let_def split: if_splits option.splits)
  have "HasPrefix (dropWhile lower r) rsc_service"
    using assms by (auto simp: rgxPath_def r Let_def split: if_splits)
  then obtain r3 where r3: "dropWhile lower r = rsc_service @ r3" by (auto simp: HasPrefix_iff)
  have verb: "List.find (\<lambda>v. HasPrefix r3 v) rsc_verbs = Some verb" "kind = TrimPrefix r3 verb"
    using assms by (auto simp: rgxPath_def r r3 Let_def split: if_splits option.splits)
  then have mem: "verb \<in> set rsc_verbs" "HasPrefix r3 verb"
    by (auto simp: find_Some_iff)
  then have "r3 = verb @ kind" using verb(2) by (auto simp: HasPrefix_iff)
  then have "u = rsc_path api verb kind"
    by (metis r r3 api takeWhile_dropWhile_id rsc_path_def append.assoc)
  moreover have "list_all lower api" unfolding api list_all_iff by (meson set_takeWhileD)
  ultimately show ?thesis using mem by simp
qed

lemma rgxPath_path:
  assumes "list_all lower api" and "verb \<in> set rsc_verbs"
  shows "rgxPath (rsc_path api verb kind) =
    (if length api \<in> {2..32} \<and> list_all letter kind \<and> length kind \<in> {2..32} then Some (api, verb, kind) else None)"
  using lower_service [OF assms(1), of "verb @ kind"] verb_found [OF assms(2), of kind]
  by (simp add: rgxPath_def rsc_path_def Let_def)

text \<open>
  C20: the path of a method is read back as the API, the verb and the kind it was built from, for every
  name of an API and of a kind that the pattern admits; and whatever path is accepted is the path of
  what is read, so that no other request reaches the operations on resources.
\<close>

theorem getRequestInfo_roundtrip:
  "getRequestInfo u = Ok i \<longleftrightarrow>
     (u = rsc_path (rr_api i) (rr_verb i) (rr_kind i) \<and> rr_version i = ''v1'' \<and>
      list_all lower (rr_api i) \<and> length (rr_api i) \<in> {2..32} \<and> rr_verb i \<in> set rsc_verbs \<and>
      list_all letter (rr_kind i) \<and> length (rr_kind i) \<in> {2..32})"
proof
  assume "getRequestInfo u = Ok i"
  then have i: "rgxPath u = Some (rr_api i, rr_verb i, rr_kind i)" "rr_version i = ''v1''"
    by (auto simp: getRequestInfo_def split: option.splits)
  with rgxPath_Some [OF i(1)] rgxPath_path [of "rr_api i" "rr_verb i" "rr_kind i"]
  show "u = rsc_path (rr_api i) (rr_verb i) (rr_kind i) \<and> rr_version i = ''v1'' \<and>
      list_all lower (rr_api i) \<and> length (rr_api i) \<in> {2..32} \<and> rr_verb i \<in> set rsc_verbs \<and>
      list_all letter (rr_kind i) \<and> length (rr_kind i) \<in> {2..32}"
    by (metis option.distinct(1))
qed (cases i, simp add: getRequestInfo_def rgxPath_path)

end
