(* ===== verification/RscTable.thy ===== *)
theory RscTable imports RscServe begin

text \<open>
  What each operation of the resource server does to the table, whatever fails on the way: a request either
  leaves the table alone or has its whole effect, and when it succeeds it has had its effect.
\<close>

section \<open>Creating\<close>

definition new_row :: "string \<Rightarrow> string \<Rightarrow> string \<Rightarrow> string \<Rightarrow> rsc_obj \<Rightarrow> row" where
  "new_row uid api version kind obj =
     \<lparr>rw_Uid = uid, rw_Api = api, rw_Version = version, rw_Kind = kind, rw_Resource = obj\<rparr>"

lemma new_row_simps [simp]:
  "rw_Uid (new_row uid api version kind obj) = uid" "rw_Api (new_row uid api version kind obj) = api"
  "rw_Version (new_row uid api version kind obj) = version" "rw_Kind (new_row uid api version kind obj) = kind"
  "rw_Resource (new_row uid api version kind obj) = obj"
  by (simp_all add: new_row_def)

lemma post_table [simp]:
  "rs_table (snd (doPostCreate E y api version kind s)) = rs_table s"
  "rs_table (snd (doPostUpdate E y z api version kind s)) = rs_table s"
  "rs_table (snd (doPostDelete E y api version kind s)) = rs_table s"
  by (cases "isTypeSecret kind"; cases "ob_Metadata y";
      simp add: doPostCreate_def doPostUpdate_def doPostDelete_def doSetCache_def doDeleteCache_def publishMessage_def
        split: option.splits)+

lemma reread_effect:
  assumes "rs_table (snd b) = T \<and> (\<forall>y. fst b = Ok y \<longrightarrow> y = v)"
    and "(res, st') = go_seq b (\<lambda>y s. go_seq (f y s) (\<lambda>_ s. (Ok (g y), s)))"
    and "\<And>y s. rs_table (snd (f y s)) = rs_table s"
  shows "rs_table st' = T \<and> (\<forall>y. res = Ok y \<longrightarrow> y = g v)"
proof (cases b)
  case (Pair r s)
  show ?thesis
  proof (cases r)
    case (Ok y)
    with Pair assms(1,2) assms(3) [of y s] show ?thesis
      by (cases "f y s"; cases "fst (f y s)") auto
  qed (use Pair assms(1,2) in auto)
qed

text \<open>Reading a row back by its identifier gives the row, if it gives anything.\<close>

lemma read_back:
  assumes "coherent st" "redis_works E" "row \<in> set (rs_table st)" "plain api" "plain version" "plain kind"
    and "rw_Api row = api" "rw_Version row = version" "rw_Kind row = kind"
  defines "get \<equiv> doGet E \<lparr>go_Uid = rw_Uid row, go_Name = []\<rparr> api version kind st"
  shows "rs_table (snd get) = rs_table st \<and> (\<forall>y. fst get = Ok y \<longrightarrow> y = rw_Resource row)"
proof -
  have "own_kind (rw_Uid row) api version kind st"
    unfolding own_kind_def using coherentD(2) [OF assms(1) _ assms(3)] assms(7-9) by blast
  moreover have "plain (rw_Uid row)" using coherentD(1) [OF assms(1,3)] by (simp add: row_ok_def)
  ultimately have fits: "kind_fits \<lparr>go_Uid = rw_Uid row, go_Name = []\<rparr> api version kind st"
    using assms(4-6) by (simp add: kind_fits_def)
  have "y = rw_Resource row" if "fst get = Ok y" for y
  proof -
    from that have "get = (Ok y, snd get)" by (metis prod.collapse)
    from doGet_Ok [OF assms(1,2) fits this [unfolded get_def]] obtain r where
      r: "r \<in> set (rs_table st)" "row_selected \<lparr>go_Uid = rw_Uid row, go_Name = []\<rparr> api version kind r"
        "rw_Resource r = y" by blast
    then have "rw_Uid r = rw_Uid row"
      using coherentD(1) [OF assms(1) r(1)] by (simp add: row_selected_ok)
    with coherentD(2) [OF assms(1) r(1) assms(3)] r(3) show ?thesis by simp
  qed
  with doGet_state(2) [OF assms(1,2) fits] show ?thesis by (simp add: get_def)
qed

lemma create_commit_table:
  assumes coh: "coherent st" "redis_works E" "plain api" "plain version" "plain kind" "plain (md_Uid m)"
    and m: "ob_Metadata obj = Some m" "(api, version, kind, md_Name m) \<notin> row_id ` set (rs_table st)"
    and commit: "create_commit E obj api version kind st = (res, st')"
  shows "(rs_table st' = rs_table st \<and> \<not> is_ok res) \<or>
    (rs_table st' = rs_table st @ [new_row (md_Uid m) api version kind obj] \<and> (\<forall>y. res = Ok y \<longrightarrow> y = obj))"
proof (cases "insert_row E (md_Uid m) api version kind obj st")
  case (Pair q st2)
  let ?row = "new_row (md_Uid m) api version kind obj"
  show ?thesis
  proof (cases q)
    case (Ok u)
    with Pair have st2: "st2 = st\<lparr>rs_table := rs_table st @ [?row]\<rparr>"
        and new: "md_Uid m \<notin> rw_Uid ` set (rs_table st)"
      by (auto simp: insert_row_def new_row_def split: option.splits if_splits)
    have "row_ok ?row" "row_id ?row = (api, version, kind, md_Name m)"
      using coh m by (simp_all add: row_ok_def row_id_def row_name_def)
    with coherent_insert [OF coh(1), of ?row] new m(2) have coh2: "coherent st2" by (simp add: st2)
    let ?reread = "if isTypeSecret kind then doGet E \<lparr>go_Uid = md_Uid m, go_Name = []\<rparr> api version kind st2 else (Ok obj, st2)"
    have reread: "rs_table (snd ?reread) = rs_table st2 \<and> (\<forall>y. fst ?reread = Ok y \<longrightarrow> y = obj)"
      using read_back [OF coh2 coh(2), of ?row api version kind] coh(3-5) by (simp add: st2)
    have "(res, st') = go_seq ?reread (\<lambda>req2 st2. go_seq (doPostCreate E req2 api version kind st2) (\<lambda>_ st3. (Ok req2, st3)))"
      using commit m(1) Pair Ok by (simp add: create_commit_def)
    from reread_effect [OF reread this] st2 show ?thesis by simp
  qed (use Pair commit m(1) in \<open>auto simp: create_commit_def insert_row_def split: option.splits if_splits\<close>)
qed

lemma doCreate_table:
  assumes coh: "coherent st" "redis_works E" "plain api" "plain version" "plain kind" "plain (rc_NewUid x)"
    and cr: "doCreate E x req api version kind st = (res, st')"
  shows "(rs_table st' = rs_table st \<and> \<not> is_ok res) \<or>
    (\<exists>obj md. re_FromMap E kind (with_defaults api version kind req) = Ok obj \<and> ob_Metadata obj = Some md \<and>
       rs_table st' = rs_table st @
         [new_row (rc_NewUid x) api version kind (obj\<lparr>ob_Metadata := Some (stamp_create x md)\<rparr>)] \<and>
       (\<forall>y. res = Ok y \<longrightarrow> y = obj\<lparr>ob_Metadata := Some (stamp_create x md)\<rparr>))"
proof -
  obtain p st1 where prep: "create_prepare E x req api version kind st = (p, st1)" by fastforce
  have st1: "coherent st1" "rs_table st1 = rs_table st"
    using create_prepare_state [OF coh(1-5), of x req] prep by simp_all
  show ?thesis
  proof (cases p)
    case (Ok obj')
    then obtain obj md where obj: "re_FromMap E kind (with_defaults api version kind req) = Ok obj"
      "ob_Metadata obj = Some md" "obj' = obj\<lparr>ob_Metadata := Some (stamp_create x md)\<rparr>"
      using prep unfolding create_prepare_def Let_def
      by (auto dest!: go_seq_Ok split: option.splits go.splits prod.splits if_splits)
    have uid: "md_Uid (stamp_create x md) = rc_NewUid x" "md_Name (stamp_create x md) = md_Name md"
      by (simp_all add: stamp_create_def)
    have "create_commit E obj' api version kind st1 = (res, st')"
      using cr prep Ok by (simp add: doCreate_def)
    moreover have "(api, version, kind, md_Name (stamp_create x md)) \<notin> row_id ` set (rs_table st1)"
      using create_prepare_Ok [OF coh(1-5), of x req obj' st1] prep Ok obj(3) st1(2) by simp
    ultimately show ?thesis
      using create_commit_table [OF st1(1) coh(2-5), of "stamp_create x md" obj'] obj uid coh(6) st1(2) by auto
  qed (use cr prep st1 in \<open>auto simp: doCreate_def\<close>)
qed

section \<open>Updating\<close>

lemma update_prepare_table:
  assumes "coherent st" "redis_works E" "plain api" "plain version" "plain kind" "keeps_name req api version kind st"
    and "update_prepare E x req api version kind st = (res, st1)"
  shows "coherent st1" "rs_table st1 = rs_table st"
  using update_prepare_state [OF assms(1-6), of x] assms(7) by simp_all

lemma update_commit_effect:
  assumes coh: "coherent st" "redis_works E" "plain api" "plain version" "plain kind"
    and md: "ob_Metadata new = Some md" and keeps: "keeps_name new api version kind st"
    and row: "r \<in> set (rs_table st)" "rw_Uid r = md_Uid md"
    and commit: "update_commit E new old api version kind st = (res, st')"
  shows "(rs_table st' = rs_table st \<and> \<not> is_ok res) \<or>
    (rs_table st' = map (set_resource (md_Uid md) new) (rs_table st) \<and> (\<forall>y. res = Ok y \<longrightarrow> fst y = new))"
proof (cases "re_db E UPDATE")
  case None
  let ?st2 = "st\<lparr>rs_table := map (set_resource (md_Uid md) new) (rs_table st)\<rparr>" and ?r = "set_resource (md_Uid md) new r"
  have upd: "update_row E (md_Uid md) new st = (Ok (), ?st2)"
    using None by (simp add: update_row_def set_resource_def fun_eq_iff)
  have own: "own_kind (md_Uid md) api version kind st"
    and name: "\<forall>r\<in>set (rs_table st). rw_Uid r = md_Uid md \<longrightarrow> row_name r = md_Name md"
    using keeps md by (simp_all add: keeps_name_def)
  have r: "rw_Api ?r = api" "rw_Version ?r = version" "rw_Kind ?r = kind" "rw_Resource ?r = new" "?r \<in> set (rs_table ?st2)"
    using own row by (simp_all add: own_kind_def) (simp add: set_resource_def)
  let ?reread = "if isTypeSecret kind then doGet E \<lparr>go_Uid = md_Uid md, go_Name = []\<rparr> api version kind ?st2 else (Ok new, ?st2)"
  have "rs_table (snd ?reread) = rs_table ?st2 \<and> (\<forall>y. fst ?reread = Ok y \<longrightarrow> y = new)"
  proof (cases "isTypeSecret kind")
    case True
    have coh2: "coherent ?st2"
      by (rule coherent_update [OF coh(1) md name]) (use own True in \<open>auto simp: own_kind_def\<close>)
    from read_back [OF coh2 coh(2) r(5) coh(3-5) r(1-3)] True r(4) row(2) show ?thesis by simp
  qed simp
  moreover have "(res, st') = go_seq ?reread (\<lambda>req2 st2. go_seq (doPostUpdate E req2 old api version kind st2) (\<lambda>_ st3. (Ok (req2, old), st3)))"
    using commit md upd by (simp add: update_commit_def)
  ultimately have "rs_table st' = rs_table ?st2 \<and> (\<forall>y. res = Ok y \<longrightarrow> y = (new, old))"
    by (rule reread_effect) simp
  then show ?thesis by auto
qed (use commit md in \<open>auto simp: update_commit_def update_row_def\<close>)

text \<open>
  An update that finds nothing to change answers with the request, which is then what the table has already.
\<close>

lemma doUpdate_table:
  assumes coh: "coherent st" "redis_works E" "plain api" "plain version" "plain kind"
    and keeps: "keeps_name req api version kind st" and req: "ob_Metadata req = Some md"
    and up: "doUpdate E x req api version kind st = (res, st')"
  shows "(rs_table st' = rs_table st \<and> (\<forall>y. res = Ok y \<longrightarrow>
      fst y = req \<and> (\<exists>r\<in>set (rs_table st). rw_Uid r = md_Uid md \<and> rw_Resource r = req))) \<or>
    (let new = req\<lparr>ob_Metadata := Some (stamp_update x md)\<rparr> in
     rs_table st' = map (set_resource (md_Uid md) new) (rs_table st) \<and> (\<forall>y. res = Ok y \<longrightarrow> fst y = new))"
proof -
  obtain p st1 where prep: "update_prepare E x req api version kind st = (p, st1)" by fastforce
  note st1 = update_prepare_table [OF coh keeps prep]
  have get: "\<exists>old s. doGet E \<lparr>go_Uid = md_Uid md, go_Name = []\<rparr> api version kind st = (Ok old, s) \<and>
      (q = Inl old \<longrightarrow> req = old) \<and> (\<forall>new o2. q = Inr (new, o2) \<longrightarrow> new = req\<lparr>ob_Metadata := Some (stamp_update x md)\<rparr>)"
    if "p = Ok q" for q
    using prep that req by (auto simp: update_prepare_def dest!: go_seq_Ok split: if_splits)
  have fits: "kind_fits \<lparr>go_Uid = md_Uid md, go_Name = []\<rparr> api version kind st"
    using coh(3-5) keeps req by (simp add: kind_fits_def keeps_name_def)
  show ?thesis
  proof (cases p)
    case (Ok q)
    from get [OF this] obtain old s where old: "doGet E \<lparr>go_Uid = md_Uid md, go_Name = []\<rparr> api version kind st = (Ok old, s)"
      "q = Inl old \<longrightarrow> req = old" "\<forall>new o2. q = Inr (new, o2) \<longrightarrow> new = req\<lparr>ob_Metadata := Some (stamp_update x md)\<rparr>" by blast
    obtain r where r: "r \<in> set (rs_table st)" "row_selected \<lparr>go_Uid = md_Uid md, go_Name = []\<rparr> api version kind r"
        "rw_Resource r = old"
      using doGet_Ok [OF coh(1,2) fits old(1)] by blast
    have uid: "rw_Uid r = md_Uid md" using coherentD(1) [OF coh(1) r(1)] r(2) by (simp add: row_selected_ok)
    show ?thesis
    proof (cases q)
      case (Inl old')
      then have "old' = old" using prep Ok old(1) req
        by (auto simp: update_prepare_def dest!: go_seq_Ok split: if_splits)
      then show ?thesis
        using up prep Ok Inl old(2) st1(2) r uid by (auto simp: doUpdate_def)
    next
      case (Inr no)
      obtain o2 where no: "no = (req\<lparr>ob_Metadata := Some (stamp_update x md)\<rparr>, o2)"
        using old(3) Inr by (cases no) auto
      let ?new = "req\<lparr>ob_Metadata := Some (stamp_update x md)\<rparr>"
      have commit: "update_commit E ?new o2 api version kind st1 = (res, st')"
        using up prep Ok Inr no by (simp add: doUpdate_def)
      have ids: "md_Uid (stamp_update x md) = md_Uid md" "md_Name (stamp_update x md) = md_Name md"
        by (simp_all add: stamp_update_def)
      have "keeps_name ?new api version kind st1"
        using keeps req by (simp add: keeps_name_def own_kind_def st1(2) ids)
      from update_commit_effect [OF st1(1) coh(2-5) _ this _ _ commit, of "stamp_update x md" r] r(1) uid
      show ?thesis
        unfolding Let_def ids st1(2) by auto
    qed
  qed (use up prep st1 in \<open>auto simp: doUpdate_def\<close>)
qed

section \<open>Deleting\<close>

lemma doDelete_effect:
  assumes coh: "coherent st" "redis_works E"
    and fits: "kind_fits \<lparr>go_Uid = do_Uid req, go_Name = do_Name req\<rparr> api version kind st"
    and del: "doDelete E x req api version kind st = (res, st')"
  shows "(rs_table st' = rs_table st \<and> \<not> is_ok res) \<or>
    (\<exists>r md. r \<in> set (rs_table st) \<and> row_selected \<lparr>go_Uid = do_Uid req, go_Name = do_Name req\<rparr> api version kind r \<and>
       ob_Metadata (rw_Resource r) = Some md \<and>
       rs_table st' = filter (\<lambda>q. rw_Uid q \<noteq> rw_Uid r) (rs_table st) \<and>
       (\<forall>y. res = Ok y \<longrightarrow> y = (rw_Resource r)\<lparr>ob_Metadata := Some (stamp_update x md)\<rparr>))"
proof (cases "rsc_checkGetOptions E \<lparr>go_Uid = do_Uid req, go_Name = do_Name req\<rparr>")
  case (Ok u)
  let ?opts = "\<lparr>go_Uid = do_Uid req, go_Name = do_Name req\<rparr>"
  obtain g st1 where get: "doGet E ?opts api version kind st = (g, st1)" by fastforce
  then have st1: "rs_table st1 = rs_table st" using doGet_state(2) [OF coh fits] by simp
  show ?thesis
  proof (cases g)
    case g: (Ok itm)
    obtain r where r: "r \<in> set (rs_table st)" "row_selected ?opts api version kind r" "rw_Resource r = itm"
      using doGet_Ok [OF coh fits] get g by blast
    obtain md where md: "ob_Metadata itm = Some md" "md_Uid md = rw_Uid r"
      using coherentD(1) [OF coh(1) r(1)] r(3) by (auto simp: row_ok_def)
    let ?itm = "itm\<lparr>ob_Metadata := Some (stamp_update x md)\<rparr>"
    show ?thesis
    proof (cases "re_db E DELETE_ROW")
      case None
      have "(res, st') = go_seq (doPostDelete E ?itm api version kind
          (st1\<lparr>rs_table := filter (\<lambda>q. rw_Uid q \<noteq> rw_Uid r) (rs_table st)\<rparr>)) (\<lambda>_ st3. (Ok ?itm, st3))"
        using del Ok get g md None st1 by (simp add: doDelete_def delete_row_def Let_def)
      then have "rs_table st' = filter (\<lambda>q. rw_Uid q \<noteq> rw_Uid r) (rs_table st) \<and> (\<forall>y. res = Ok y \<longrightarrow> y = ?itm)"
        by (cases "doPostDelete E ?itm api version kind (st1\<lparr>rs_table := filter (\<lambda>q. rw_Uid q \<noteq> rw_Uid r) (rs_table st)\<rparr>)";
            cases "fst (doPostDelete E ?itm api version kind (st1\<lparr>rs_table := filter (\<lambda>q. rw_Uid q \<noteq> rw_Uid r) (rs_table st)\<rparr>))")
          (use post_table(3) [of E ?itm api version kind "st1\<lparr>rs_table := filter (\<lambda>q. rw_Uid q \<noteq> rw_Uid r) (rs_table st)\<rparr>"] in auto)
      with r md show ?thesis by blast
    qed (use del Ok get g md st1 in \<open>auto simp: doDelete_def delete_row_def\<close>)
  qed (use del Ok get st1 in \<open>auto simp: doDelete_def\<close>)
qed (use del in \<open>auto simp: doDelete_def\<close>)

end
