(* ===== verification/RscRaces.thy ===== *)
theory RscRaces imports RscTable begin

text \<open>
  What the version check of the resource server gives, and what it does not: two requests are
  serialized only as far as their statements are, so the part of a request before its statement can
  be followed by other requests. Interleavings are sequences of the stages of \<open>doCreate\<close> and \<open>doUpdate\<close>.
\<close>

section \<open>The version check\<close>

lemma doGet_Ok_checked:
  assumes "doGet E req api version kind st = (Ok y, st')"
  shows "rsc_checkGetOptions E req = Ok () \<and> NewResourceObject api version kind = Ok kind"
proof -
  have ck: "rsc_checkGetOptions E req = Ok ()"
    using assms by (cases "rsc_checkGetOptions E req") (auto simp: doGet_def)
  have "\<exists>t. NewResourceObject api version kind = Ok t"
  proof (cases "\<exists>c. doGetCache E req api version kind st = Ok (Some c)")
    case True
    then show ?thesis
      by (auto simp: doGetCache_def Let_def split: if_splits option.splits prod.splits go.splits)
  next
    case False
    with assms ck have "\<exists>z. get_row E req api version kind st = Ok z"
      by (cases "doGetCache E req api version kind st")
        (auto simp: doGet_def dest!: go_seq_Ok split: option.splits)
    then show ?thesis by (auto simp: get_row_def split: option.splits)
  qed
  with ck show ?thesis using NewResourceObject_Ok by blast
qed

lemma update_prepare_get:
  assumes "update_prepare E x req api version kind st = (Ok r, st1)" and "ob_Metadata req = Some md"
  shows "\<exists>old mdOld. doGet E \<lparr>go_Uid = md_Uid md, go_Name = []\<rparr> api version kind st = (Ok old, st1) \<and>
    ob_Metadata old = Some mdOld \<and> md_ResourceVersion mdOld = md_ResourceVersion md \<and>
    r = (if req = old then Inl old else Inr (req\<lparr>ob_Metadata := Some (stamp_update x md)\<rparr>, old))"
  using assms by (auto simp: update_prepare_def dest!: go_seq_Ok split: if_splits)

lemma doSetCache_table [simp]: "rs_table (snd (doSetCache E o' api version kind s)) = rs_table s"
  by (simp add: doSetCache_def split: option.splits)

lemma doSetCache_tableD: "doSetCache E o' api version kind s = (r, s') \<Longrightarrow> rs_table s' = rs_table s"
  by (metis doSetCache_table prod.sel(2))

lemma update_commit_table:
  assumes "update_commit E obj old api version kind st = (Ok y, st1)" and "ob_Metadata obj = Some md"
    and "\<And>req s. rs_table (snd (doGet E req api version kind s)) = rs_table s"
  shows "rs_table st1 = map (set_resource (md_Uid md) obj) (rs_table st)"
proof -
  from assms(1,2) obtain u s1 o2 s2 u3 s3 where s: "update_row E (md_Uid md) obj st = (Ok u, s1)"
    "(if isTypeSecret kind then doGet E \<lparr>go_Uid = md_Uid md, go_Name = []\<rparr> api version kind s1 else (Ok obj, s1)) = (Ok o2, s2)"
    "doPostUpdate E o2 old api version kind s2 = (Ok u3, st1)"
    by (auto simp: update_commit_def dest!: go_seq_Ok)
  have "rs_table s1 = map (set_resource (md_Uid md) obj) (rs_table st)"
    using s(1) by (auto simp: update_row_def set_resource_def split: option.splits)
  moreover have "rs_table s2 = rs_table s1"
    using s(2) assms(3) by (metis prod.sel(2))
  moreover have "rs_table st1 = rs_table s2"
    using s(3) by (auto simp: doPostUpdate_def dest!: go_seq_Ok doSetCache_tableD)
  ultimately show ?thesis by simp
qed

lemma doGet_table: "rs_table (snd (doGet E req api version kind st)) = rs_table st"
proof -
  have "rs_table (snd (go_seq (get_row E req api version kind st, st) (\<lambda>ret st1.
      go_seq (doSetCache E ret api version kind st1) (\<lambda>_ st2. (Ok ret, st2))))) = rs_table st"
    by (rule go_seq_state [where P = "\<lambda>s. rs_table s = rs_table st"], simp,
        rule go_seq_state [where P = "\<lambda>s. rs_table s = rs_table st"]) (auto dest!: doSetCache_tableD)
  then show ?thesis
    by (auto simp: doGet_def split: go.splits option.splits)
qed

text \<open>
  The states after a given one: requests one after the other, as in \<open>rsc_reachable\<close>, none of which draws the given version for
  a resource.
\<close>

inductive rsc_later :: "string \<Rightarrow> rsc_state \<Rightarrow> rsc_state \<Rightarrow> bool" for v :: string and st0 :: rsc_state where
  at_once: "rsc_later v st0 st0"
| after_get: "rsc_later v st0 st \<Longrightarrow> redis_works E \<Longrightarrow> kind_fits req api version kind st \<Longrightarrow>
    rsc_later v st0 (snd (doGet E req api version kind st))"
| after_create: "rsc_later v st0 st \<Longrightarrow> redis_works E \<Longrightarrow> plain api \<Longrightarrow> plain version \<Longrightarrow> plain kind \<Longrightarrow>
    plain (rc_NewUid x) \<Longrightarrow> rc_NewVersion x \<noteq> v \<Longrightarrow> rsc_later v st0 (snd (doCreate E x obj api version kind st))"
| after_update: "rsc_later v st0 st \<Longrightarrow> redis_works E \<Longrightarrow> plain api \<Longrightarrow> plain version \<Longrightarrow> plain kind \<Longrightarrow>
    keeps_name obj api version kind st \<Longrightarrow> rc_NewVersion x \<noteq> v \<Longrightarrow> rsc_later v st0 (snd (doUpdate E x obj api version kind st))"
| after_delete: "rsc_later v st0 st \<Longrightarrow> redis_works E \<Longrightarrow>
    kind_fits \<lparr>go_Uid = do_Uid opts, go_Name = do_Name opts\<rparr> api version kind st \<Longrightarrow>
    rsc_later v st0 (snd (doDelete E x opts api version kind st))"

lemma rsc_later_reachable: "rsc_later v st0 st \<Longrightarrow> rsc_reachable st0 \<Longrightarrow> rsc_reachable st"
  by (induction rule: rsc_later.induct) (auto intro: rsc_reachable.intros)

text \<open>No resource with the identifier is at the version.\<close>

definition outdated :: "string \<Rightarrow> string \<Rightarrow> rsc_state \<Rightarrow> bool" where
  "outdated u v st \<longleftrightarrow>
     (\<forall>r\<in>set (rs_table st). rw_Uid r = u \<longrightarrow> (\<forall>m. ob_Metadata (rw_Resource r) = Some m \<longrightarrow> md_ResourceVersion m \<noteq> v))"

lemma outdated_table: "outdated u v st \<Longrightarrow> rs_table st' = rs_table st \<Longrightarrow> outdated u v st'"
  by (simp add: outdated_def)

lemma outdated_append:
  "outdated u v st \<Longrightarrow> rs_table st' = rs_table st @ [r] \<Longrightarrow>
     (\<And>m. ob_Metadata (rw_Resource r) = Some m \<Longrightarrow> md_ResourceVersion m \<noteq> v) \<Longrightarrow> outdated u v st'"
  unfolding outdated_def by auto

lemma outdated_set:
  "outdated u v st \<Longrightarrow> rs_table st' = map (set_resource w obj) (rs_table st) \<Longrightarrow>
     (\<And>m. ob_Metadata obj = Some m \<Longrightarrow> md_ResourceVersion m \<noteq> v) \<Longrightarrow> outdated u v st'"
  unfolding outdated_def by (auto simp: set_resource_def)

lemma outdated_create:
  assumes "outdated u v st" "coherent st" "redis_works E" "plain api" "plain version" "plain kind" "plain (rc_NewUid x)"
    and "rc_NewVersion x \<noteq> v"
  shows "outdated u v (snd (doCreate E x obj api version kind st))"
  using doCreate_table [OF assms(2-7) prod.collapse [symmetric], of obj]
proof (elim disjE conjE exE)
  fix obj' md
  assume "rs_table (snd (doCreate E x obj api version kind st)) =
    rs_table st @ [new_row (rc_NewUid x) api version kind (obj'\<lparr>ob_Metadata := Some (stamp_create x md)\<rparr>)]"
  from outdated_append [OF assms(1) this] assms(8) show ?thesis by (simp add: stamp_create_def)
qed (rule outdated_table [OF assms(1)])

lemma outdated_update:
  assumes "outdated u v st" "coherent st" "redis_works E" "plain api" "plain version" "plain kind" "keeps_name obj api version kind st"
    and "rc_NewVersion x \<noteq> v"
  shows "outdated u v (snd (doUpdate E x obj api version kind st))"
proof (cases "ob_Metadata obj")
  case None
  with assms(1) show ?thesis by (simp add: doUpdate_def update_prepare_def)
next
  case (Some md)
  from doUpdate_table [OF assms(2-7) Some prod.collapse [symmetric], of x] show ?thesis
    unfolding Let_def
  proof (elim disjE conjE)
    assume "rs_table (snd (doUpdate E x obj api version kind st)) =
      map (set_resource (md_Uid md) (obj\<lparr>ob_Metadata := Some (stamp_update x md)\<rparr>)) (rs_table st)"
    from outdated_set [OF assms(1) this] assms(8) show ?thesis by (simp add: stamp_update_def)
  qed (rule outdated_table [OF assms(1)])
qed

lemma outdated_delete:
  assumes "outdated u v st" "coherent st" "redis_works E"
    and "kind_fits \<lparr>go_Uid = do_Uid opts, go_Name = do_Name opts\<rparr> api version kind st"
  shows "outdated u v (snd (doDelete E x opts api version kind st))"
  using doDelete_effect [OF assms(2-4) prod.collapse [symmetric], of x] assms(1) by (auto simp: outdated_def)

lemma outdated_later: "rsc_later v st0 st \<Longrightarrow> rsc_reachable st0 \<Longrightarrow> outdated u v st0 \<Longrightarrow> outdated u v st"
proof (induction rule: rsc_later.induct)
  case (after_get st E req api version kind)
  then show ?case using outdated_table doGet_table by blast
qed (auto intro: outdated_create outdated_update outdated_delete rsc_reachable_coherent rsc_later_reachable)

lemma update_outdates:
  assumes "rsc_reachable st" "redis_works E" "plain api" "plain version" "plain kind" "keeps_name req api version kind st"
    and "doUpdate E x req api version kind st = (Ok (new, old), st1)" and "req \<noteq> old"
    and "ob_Metadata req = Some md" and "rc_NewVersion x \<noteq> md_ResourceVersion md"
  shows "outdated (md_Uid md) (md_ResourceVersion md) st1" and "rsc_reachable st1"
proof -
  let ?n = "req\<lparr>ob_Metadata := Some (stamp_update x md)\<rparr>"
  obtain r s where prep: "update_prepare E x req api version kind st = (Ok r, s)"
    and rest: "(case r of Inl old \<Rightarrow> (Ok (req, old), s) | Inr (n, old) \<Rightarrow> update_commit E n old api version kind s)
      = (Ok (new, old), st1)"
    using assms(7) by (auto simp: doUpdate_def dest!: go_seq_Ok)
  obtain o' where "r = (if req = o' then Inl o' else Inr (?n, o'))" using update_prepare_get [OF prep assms(9)] by blast
  with rest assms(8) have commit: "update_commit E ?n o' api version kind s = (Ok (new, old), st1)" by (auto split: if_splits)
  have "md_ResourceVersion (stamp_update x md) \<noteq> md_ResourceVersion md" "md_Uid (stamp_update x md) = md_Uid md"
    using assms(10) by (simp_all add: stamp_update_def)
  with update_commit_table [OF commit _ doGet_table, of "stamp_update x md"]
  show "outdated (md_Uid md) (md_ResourceVersion md) st1"
    by (auto simp: outdated_def set_resource_def)
  show "rsc_reachable st1"
    using rsc_reachable.update [OF assms(1-6), of x] assms(7) by simp
qed

lemma outdated_refused:
  assumes "coherent st" "redis_works E" "kind_fits \<lparr>go_Uid = md_Uid md, go_Name = []\<rparr> api version kind st"
    and "outdated (md_Uid md) (md_ResourceVersion md) st" and "ob_Metadata req = Some md"
    and "doUpdate E x req api version kind st = (res, st')"
  shows "(\<exists>e. res = Fail e) \<and> rs_table st' = rs_table st \<and> rs_published st' = rs_published st \<and>
    (is_ok (table_get E \<lparr>go_Uid = md_Uid md, go_Name = []\<rparr> api version kind st) \<longrightarrow> res = Fail (Status OutOfRange))"
proof -
  let ?opts = "\<lparr>go_Uid = md_Uid md, go_Name = []\<rparr>"
  obtain g s where g: "doGet E ?opts api version kind st = (g, s)" by fastforce
  have s: "rs_table s = rs_table st" "rs_published s = rs_published st"
    using doGet_state(2,3) [OF assms(1-3)] g by simp_all
  have tg: "table_get E ?opts api version kind st \<noteq> Panic"
    by (auto simp: table_get_def rsc_checkGetOptions_def get_row_def reject_if_def split: go.splits option.splits)
  show ?thesis
  proof (cases g)
    case (Ok y)
    then obtain r where r: "r \<in> set (rs_table st)" "row_selected ?opts api version kind r" "rw_Resource r = y"
      using doGet_Ok [OF assms(1-3)] g by blast
    then obtain m where m: "ob_Metadata y = Some m" "md_ResourceVersion m \<noteq> md_ResourceVersion md"
      using assms(4) coherentD(1) [OF assms(1) r(1)] by (auto simp: outdated_def row_selected_ok row_ok_def)
    then have "res = Fail (Status OutOfRange)" "st' = s"
      using assms(5,6) g Ok by (simp_all add: doUpdate_def update_prepare_def)
    with s show ?thesis by simp
  next
    case (Fail e)
    then have "res = Fail e" "st' = s" using assms(5,6) g by (simp_all add: doUpdate_def update_prepare_def)
    moreover have "table_get E ?opts api version kind st = Fail e"
      by (rule doGet_spec [OF assms(1-3)]) (use g Fail in auto)
    ultimately show ?thesis using s by simp
  next
    case Panic
    have "table_get E ?opts api version kind st = Panic"
      by (rule doGet_spec [OF assms(1-3)]) (use g Panic in auto)
    with tg show ?thesis by simp
  qed
qed

text \<open>
  C21: an update is refused when the resource has changed since it was read. Once an update has changed a resource, every later update
  that still carries the version which that update was based on fails, whatever requests came in between, as long as no request draws
  that version again: it changes neither the table nor what is published, and its error is \<open>OutOfRange\<close> if the resource
  can be read.
\<close>

theorem stale_update_refused:
  assumes "rsc_reachable st" "redis_works E" "plain api" "plain version" "plain kind"
    and "keeps_name req api version kind st"
    and "doUpdate E x req api version kind st = (Ok (new, old), st1)" and "req \<noteq> old"
    and "ob_Metadata req = Some md" and "rc_NewVersion x \<noteq> md_ResourceVersion md"
    and "rsc_later (md_ResourceVersion md) st1 st2"
    and "ob_Metadata req2 = Some md2" "md_Uid md2 = md_Uid md" "md_ResourceVersion md2 = md_ResourceVersion md"
    and "redis_works E2" and "kind_fits \<lparr>go_Uid = md_Uid md, go_Name = []\<rparr> api version kind st2"
    and "doUpdate E2 x2 req2 api version kind st2 = (res, st3)"
  shows "(\<exists>e. res = Fail e) \<and> rs_table st3 = rs_table st2 \<and> rs_published st3 = rs_published st2 \<and>
    (is_ok (table_get E2 \<lparr>go_Uid = md_Uid md, go_Name = []\<rparr> api version kind st2) \<longrightarrow> res = Fail (Status OutOfRange))"
proof -
  note first = update_outdates [OF assms(1-10)]
  have "coherent st2" by (rule rsc_reachable_coherent [OF rsc_later_reachable [OF assms(11) first(2)]])
  from outdated_refused [OF this assms(15), of md2, unfolded assms(13,14), OF assms(16)
      outdated_later [OF assms(11) first(2,1)] assms(12,17)]
  show ?thesis .
qed

section \<open>Interleaved requests\<close>

text \<open>
  C28: two updates that have both been checked before either statement runs are both acknowledged,
  and the second one overwrites the first, whatever the versions they carried.
\<close>

theorem interleaved_update_is_lost:
  assumes "update_prepare E x1 req1 api version kind st = (Ok (Inr (n1, o1)), st1)"
    and "update_prepare E x2 req2 api version kind st1 = (Ok (Inr (n2, o2)), st2)"
    and "map_option md_Uid (ob_Metadata req1) = Some uid" "map_option md_Uid (ob_Metadata req2) = Some uid"
    and "\<not> isTypeSecret kind" and "re_db E UPDATE = None"
  shows "\<exists>st3 st4. update_commit E n1 o1 api version kind st2 = (Ok (n1, o1), st3) \<and>
    update_commit E n2 o2 api version kind st3 = (Ok (n2, o2), st4) \<and>
    rs_table st4 = map (\<lambda>r. if rw_Uid r = uid then r\<lparr>rw_Resource := n2\<rparr> else r) (rs_table st2)"
proof -
  obtain md1 md2 where md: "ob_Metadata n1 = Some md1" "md_Uid md1 = uid" "ob_Metadata n2 = Some md2" "md_Uid md2 = uid"
    using update_prepare_Inr [OF assms(1)] update_prepare_Inr [OF assms(2)] assms(3,4) by (auto simp: stamp_update_def)
  show ?thesis
    using md assms(5,6)
    by (simp add: update_commit_def update_row_def doPostUpdate_def doSetCache_def publishMessage_def
        redis_Set_def comp_def split: option.splits)
qed

text \<open>
  Two requests that create a resource of the same name and are both checked before either insertion
  both succeed, and the table then has two resources of the kind with that name.
\<close>

theorem interleaved_creates_duplicate:
  assumes "create_prepare E x1 req1 api version kind st = (Ok o1, st1)"
    and "create_prepare E x2 req2 api version kind st1 = (Ok o2, st2)"
    and "ob_Metadata o1 = Some md1" "ob_Metadata o2 = Some md2" "md_Name md1 = md_Name md2"
    and "md_Uid md1 \<notin> rw_Uid ` set (rs_table st2)" "md_Uid md2 \<notin> rw_Uid ` set (rs_table st2)" "md_Uid md1 \<noteq> md_Uid md2"
    and "\<not> isTypeSecret kind" and "re_db E INSERT = None"
  shows "\<exists>st3 st4. create_commit E o1 api version kind st2 = (Ok o1, st3) \<and>
    create_commit E o2 api version kind st3 = (Ok o2, st4) \<and> \<not> distinct (map row_id (rs_table st4))"
  using assms(3-10)
  by (simp add: create_commit_def insert_row_def doPostCreate_def doSetCache_def publishMessage_def
      redis_Set_def row_id_def row_name_def split: option.splits)

lemma map_filtered_out: "map (\<lambda>r. if rw_Uid r = u then f r else r) (filter (\<lambda>r. rw_Uid r \<noteq> u) rows) =
    filter (\<lambda>r. rw_Uid r \<noteq> u) rows"
  by (induction rows) auto

lemma checkName_nonempty: "checkName n = Ok u \<Longrightarrow> n \<noteq> []"
  by (auto simp: checkName_def)

lemma doDelete_table:
  assumes coh: "coherent st" and "redis_works E"
    and fits: "kind_fits \<lparr>go_Uid = do_Uid opts, go_Name = do_Name opts\<rparr> api version kind st"
    and del: "doDelete E x opts api version kind st = (Ok gone, st')" and "do_Name opts = []"
  shows "rs_table st' = filter (\<lambda>r. rw_Uid r \<noteq> do_Uid opts) (rs_table st)"
proof -
  let ?o = "\<lparr>go_Uid = do_Uid opts, go_Name = do_Name opts\<rparr>"
  obtain itm st1 md u st2 v where s: "doGet E ?o api version kind st = (Ok itm, st1)" "ob_Metadata itm = Some md"
    "delete_row E (md_Uid md) st1 = (Ok u, st2)"
    "doPostDelete E (itm\<lparr>ob_Metadata := Some (stamp_update x md)\<rparr>) api version kind st2 = (Ok v, st')"
    using del by (auto simp: doDelete_def Let_def dest!: go_seq_Ok split: go.splits)
  obtain r where r: "r \<in> set (rs_table st)" "row_selected ?o api version kind r" "rw_Resource r = itm"
    using doGet_Ok [OF coh assms(2) fits s(1)] by blast
  then have "md_Uid md = do_Uid opts"
    using coherentD(1) [OF coh r(1)] s(2) assms(5) by (auto simp: row_selected_ok row_ok_def)
  moreover have "rs_table st1 = rs_table st"
    using doGet_table [of E ?o api version kind st] s(1) by simp
  moreover have "rs_table st' = rs_table st2"
    using s(4) by (auto simp: doPostDelete_def doDeleteCache_def publishMessage_def stamp_update_def
        split: option.splits)
  ultimately show ?thesis
    using s(3) by (auto simp: delete_row_def split: option.splits)
qed

text \<open>
  An update that was checked before its resource was deleted brings the resource back to
  those who ask by name: the statement changes no row, but the copy is written, and from then on
  a request is answered with a resource that the table does not have.
\<close>

theorem deleted_resource_comes_back:
  assumes "rsc_reachable st" "redis_works E" "plain api" "plain version" "plain kind" "keeps_name req api version kind st"
    and "update_prepare E x req api version kind st = (Ok (Inr (new, old)), st1)"
    and "doDelete E x2 \<lparr>do_Uid = md_Uid md, do_Name = []\<rparr> api version kind st1 = (Ok gone, st2)"
    and "ob_Metadata req = Some md" and "\<not> isTypeSecret kind" "re_db E = (\<lambda>_. None)" "re_redis_get E = (\<lambda>_. None)"
    and "checkName (md_Name md) = Ok ()"
  shows "\<exists>st3. update_commit E new old api version kind st2 = (Ok (new, old), st3) \<and>
    fst (doGet E \<lparr>go_Uid = [], go_Name = md_Name md\<rparr> api version kind st3) = Ok new \<and>
    table_get E \<lparr>go_Uid = [], go_Name = md_Name md\<rparr> api version kind st3 = Fail NotFound"
proof -
  let ?opts = "\<lparr>go_Uid = md_Uid md, go_Name = []\<rparr>" and ?name = "\<lparr>go_Uid = [], go_Name = md_Name md\<rparr>"
  have coh: "coherent st" by (rule rsc_reachable_coherent [OF assms(1)])
  have st1: "coherent st1" "rs_table st1 = rs_table st"
    using update_prepare_state [OF coh assms(2-6), of x] assms(7) by simp_all
  obtain o' where get: "doGet E ?opts api version kind st = (Ok o', st1)"
    "new = req\<lparr>ob_Metadata := Some (stamp_update x md)\<rparr>"
    using update_prepare_get [OF assms(7,9)] by (auto split: if_splits)
  have fits: "kind_fits ?opts api version kind st" "kind_fits ?opts api version kind st1"
    using assms(3-6,9) st1 by (simp_all add: kind_fits_def keeps_name_def own_kind_def)
  obtain q where q: "q \<in> set (rs_table st)" "row_selected ?opts api version kind q"
    using doGet_Ok [OF coh assms(2) fits(1) get(1)] by blast
  then have qid: "rw_Uid q = md_Uid md" "rw_Api q = api" "rw_Version q = version" "rw_Kind q = kind"
    "row_name q = md_Name md"
    using coherentD(1) [OF coh q(1)] assms(6,9) by (simp_all add: row_selected_ok keeps_name_def)
  have st2: "rs_table st2 = filter (\<lambda>r. rw_Uid r \<noteq> md_Uid md) (rs_table st)"
    using doDelete_table [OF st1(1) assms(2), of "\<lparr>do_Uid = md_Uid md, do_Name = []\<rparr>"] fits(2) assms(8) st1(2)
      st1(1) by simp
  have none: "\<not> row_selected ?name api version kind r" if "r \<in> set (rs_table st2)" for r
  proof
    assume "row_selected ?name api version kind r"
    moreover have r: "r \<in> set (rs_table st)" "rw_Uid r \<noteq> md_Uid md" using that by (simp_all add: st2)
    ultimately have "row_id r = row_id q"
      using coherentD(1) [OF coh r(1)] qid checkName_nonempty [OF assms(13)] by (simp add: row_selected_ok row_id_def)
    with coherentD(3) [OF coh r(1) q(1)] r(2) qid(1) show False by simp
  qed
  let ?st3 = "snd (update_commit E new old api version kind st2)"
  have set: "re_redis_set E k = None" "re_Unmarshal E k' k' y = Ok y" for k k' y
    using assms(2) by (simp_all add: redis_works_def)
  have commit: "update_commit E new old api version kind st2 = (Ok (new, old), ?st3)"
    "rs_redis ?st3 (getObjectKeyByName api version kind (md_Name md)) = Some (kind, new)"
    "rs_table ?st3 = rs_table st2"
    using assms(10,11) get(2)
    by (simp_all add: update_commit_def update_row_def doPostUpdate_def doSetCache_def redis_Set_def set
        publishMessage_def stamp_update_def st2 map_filtered_out split: option.splits)
  have ck: "rsc_checkGetOptions E ?name = Ok ()"
    using assms(13) checkName_nonempty [OF assms(13)] by (simp add: rsc_checkGetOptions_def)
  have new: "NewResourceObject api version kind = Ok kind" using doGet_Ok_checked [OF get(1)] by simp
  have "doGetCache E ?name api version kind ?st3 = Ok (Some new)"
    using commit(2) new set assms(10,12) checkName_nonempty [OF assms(13)] by (simp add: doGetCache_def)
  moreover have "List.find (row_selected ?name api version kind) (rs_table ?st3) = None"
    using none commit(3) by (simp add: find_None_iff)
  ultimately show ?thesis
    using commit(1) ck assms(11) by (intro exI [of _ ?st3]) (simp add: doGet_def table_get_def get_row_def)
qed

section \<open>Resources asked for under another kind\<close>

text \<open>
  The key of the copy under an identifier does not say the kind: asking for a resource of one kind
  with the identifier of a resource of another kind finds that other resource, read as if it were of
  the kind that was asked for, where the table answers that there is none.
\<close>

theorem copy_confuses_kinds:
  assumes "rs_redis st (getObjectKeyByUID uid) = Some (kind0, x)" and "\<not> isTypeSecret kind"
    and "rsc_checkGetOptions E \<lparr>go_Uid = uid, go_Name = []\<rparr> = Ok ()" and "NewResourceObject api version kind = Ok kind"
    and "re_Unmarshal E kind kind0 x = Ok y" and "re_redis_get E (getObjectKeyByUID uid) = None" and "re_db E SELECT = None"
    and "\<forall>r\<in>set (rs_table st). rw_Kind r = kind \<longrightarrow> rw_Uid r \<noteq> uid" and "coherent st"
  shows "doGet E \<lparr>go_Uid = uid, go_Name = []\<rparr> api version kind st = (Ok y, st) \<and>
    table_get E \<lparr>go_Uid = uid, go_Name = []\<rparr> api version kind st = Fail NotFound"
proof -
  have "uid \<noteq> []" using assms(3) by (auto simp: rsc_checkGetOptions_def)
  then have "doGetCache E \<lparr>go_Uid = uid, go_Name = []\<rparr> api version kind st = Ok (Some y)"
    using assms(1,2,4-6) by (simp add: doGetCache_def)
  moreover have "List.find (row_selected \<lparr>go_Uid = uid, go_Name = []\<rparr> api version kind) (rs_table st) = None"
    using assms(8) coherentD(1) [OF assms(9)] by (auto simp: find_None_iff row_selected_ok)
  ultimately show ?thesis
    using assms(3,7) by (simp add: doGet_def table_get_def get_row_def)
qed

section \<open>Concrete interleavings\<close>

definition edited :: "string \<Rightarrow> rsc_obj" where
  "edited s = (user_obj ''u1'' ''r1'' ''alice'')\<lparr>ob_Spec := Some (JStr s)\<rparr>"

definition stored :: "string \<Rightarrow> string \<Rightarrow> rsc_obj" where
  "stored version s = (edited s)
     \<lparr>ob_Metadata := Some (stamp_update (example_call [] version) (case ob_Metadata (edited s) of Some m \<Rightarrow> m))\<rparr>"

lemma edited_facts: "\<exists>md. ob_Metadata (edited s) = Some md \<and> md_Uid md = ''u1'' \<and> md_Name md = ''alice'' \<and>
    md_ResourceVersion md = ''r1''" "edited s \<noteq> user_obj ''u1'' ''r1'' ''alice''"
  using user_obj_metadata [of "''u1''" "''r1''" "''alice''"]
  by (simp_all add: edited_def) (simp add: user_obj_def with_defaults_def user_request_def)

lemma alice_by_uid:
  "doGet rsc_example_env \<lparr>go_Uid = ''u1'', go_Name = []\<rparr> ''core'' ''v1'' ''User'' alice_state =
   (Ok (user_obj ''u1'' ''r1'' ''alice''), alice_state)"
  by (simp add: doGet_def example_options doGetCache_def example_kinds example_works alice_state_def
      getObjectKeyByUID_def)

lemma alice_edit_prepared:
  "update_prepare rsc_example_env (example_call [] version) (edited s) ''core'' ''v1'' ''User'' alice_state =
   (Ok (Inr (stored version s, user_obj ''u1'' ''r1'' ''alice'')), alice_state)"
proof -
  obtain md where "ob_Metadata (edited s) = Some md" "md_Uid md = ''u1''" "md_ResourceVersion md = ''r1''"
    using edited_facts(1) by blast
  moreover obtain m0 where "ob_Metadata (user_obj ''u1'' ''r1'' ''alice'') = Some m0" "md_ResourceVersion m0 = ''r1''"
    using user_obj_metadata by blast
  ultimately show ?thesis
    using edited_facts(2) by (simp add: update_prepare_def alice_by_uid stored_def)
qed

lemma alice_edit_keeps_name: "keeps_name (edited s) ''core'' ''v1'' ''User'' alice_state"
proof -
  obtain m0 where "ob_Metadata (user_obj ''u1'' ''r1'' ''alice'') = Some m0" "md_Name m0 = ''alice''"
    using user_obj_metadata by blast
  with edited_facts(1) [of s] show ?thesis
    by (auto simp: keeps_name_def own_kind_def plain_examples alice_state_def row_name_def)
qed

lemma stored_metadata: "\<exists>md. ob_Metadata (stored version s) = Some md \<and> md_Uid md = ''u1''"
  using edited_facts(1) [of s] by (auto simp: stored_def stamp_update_def)

theorem stale_update_refused_witness:
  "\<exists>e. fst (doUpdate rsc_example_env (example_call [] ''r3'') (edited ''b'') ''core'' ''v1'' ''User''
     (snd (doGet rsc_example_env \<lparr>go_Uid = ''u1'', go_Name = []\<rparr> ''core'' ''v1'' ''User''
       (snd (doUpdate rsc_example_env (example_call [] ''r2'') (edited ''a'') ''core'' ''v1'' ''User'' alice_state))))) = Fail e"
proof -
  obtain md where md: "ob_Metadata (stored ''r2'' ''a'') = Some md" "md_Uid md = ''u1''" using stored_metadata by blast
  obtain st1 where up: "doUpdate rsc_example_env (example_call [] ''r2'') (edited ''a'') ''core'' ''v1'' ''User'' alice_state =
      (Ok (stored ''r2'' ''a'', user_obj ''u1'' ''r1'' ''alice''), st1)"
    using md by (simp add: doUpdate_def alice_edit_prepared update_commit_def update_row_def example_works
        example_kinds doPostUpdate_def doSetCache_def)
  obtain m1 m2 where m: "ob_Metadata (edited ''a'') = Some m1" "ob_Metadata (edited ''b'') = Some m2"
    "md_Uid m1 = ''u1''" "md_Uid m2 = md_Uid m1" "md_ResourceVersion m2 = md_ResourceVersion m1" "md_ResourceVersion m1 = ''r1''"
    using edited_facts(1) [of "''a''"] edited_facts(1) [of "''b''"] by auto
  have new: "rc_NewVersion (example_call [] ''r2'') \<noteq> md_ResourceVersion m1" by (simp add: m example_call_def)
  let ?opts = "\<lparr>go_Uid = ''u1'', go_Name = []\<rparr>"
  have "own_kind ''u1'' ''core'' ''v1'' ''User'' st1"
    using doUpdate_table [OF rsc_reachable_coherent [OF alice_reachable] example_works(1) plain_examples(1-3) alice_edit_keeps_name m(1) up]
    by (auto simp: own_kind_def alice_state_def set_resource_def Let_def)
  then have fits: "kind_fits ?opts ''core'' ''v1'' ''User'' st1" by (simp add: kind_fits_def plain_examples)
  let ?st2 = "snd (doGet rsc_example_env ?opts ''core'' ''v1'' ''User'' st1)"
  have later: "rsc_later (md_ResourceVersion m1) st1 ?st2"
    by (rule rsc_later.after_get [OF rsc_later.at_once example_works(1) fits])
  have fits2: "kind_fits \<lparr>go_Uid = md_Uid m1, go_Name = []\<rparr> ''core'' ''v1'' ''User'' ?st2"
    using fits doGet_table [of rsc_example_env ?opts "''core''" "''v1''" "''User''" st1] by (simp add: kind_fits_def own_kind_def m(3))
  from stale_update_refused [OF alice_reachable example_works(1) plain_examples(1-3) alice_edit_keeps_name up
      edited_facts(2) m(1) new later m(2,4,5) example_works(1) fits2 prod.collapse [symmetric]] up
  show ?thesis by simp
qed

theorem interleaved_update_is_lost_witness:
  "\<exists>st3 st4.
     update_commit rsc_example_env (stored ''r2'' ''a'') (user_obj ''u1'' ''r1'' ''alice'') ''core'' ''v1'' ''User'' alice_state
       = (Ok (stored ''r2'' ''a'', user_obj ''u1'' ''r1'' ''alice''), st3) \<and>
     update_commit rsc_example_env (stored ''r3'' ''b'') (user_obj ''u1'' ''r1'' ''alice'') ''core'' ''v1'' ''User'' st3
       = (Ok (stored ''r3'' ''b'', user_obj ''u1'' ''r1'' ''alice''), st4) \<and>
     map rw_Resource (rs_table st4) = [stored ''r3'' ''b'']"
proof -
  have uid: "map_option md_Uid (ob_Metadata (edited t)) = Some ''u1''" for t
    using edited_facts(1) [of t] by auto
  show ?thesis
    using interleaved_update_is_lost [OF alice_edit_prepared [of "''r2''" "''a''"] alice_edit_prepared [of "''r3''" "''b''"]
        uid uid example_kinds(2) example_works(2)]
    by (auto simp: alice_state_def)
qed

theorem interleaved_creates_duplicate_witness:
  "\<exists>st3 st4.
     create_commit rsc_example_env (user_obj ''u1'' ''r1'' ''alice'') ''core'' ''v1'' ''User'' rsc_empty
       = (Ok (user_obj ''u1'' ''r1'' ''alice''), st3) \<and>
     create_commit rsc_example_env (user_obj ''u2'' ''r2'' ''alice'') ''core'' ''v1'' ''User'' st3
       = (Ok (user_obj ''u2'' ''r2'' ''alice''), st4) \<and> \<not> distinct (map row_id (rs_table st4))"
proof -
  have prep: "create_prepare rsc_example_env (example_call uid v) (user_request ''alice'') ''core'' ''v1'' ''User'' rsc_empty
      = (Ok (user_obj uid v ''alice''), rsc_empty)" for uid v
    by (simp add: create_prepare_def example_kinds example_works with_defaults_def user_request_def doGet_def
        example_options doGetCache_def get_row_def rsc_empty_def IsNotFound_def NotFound_def user_obj_def)
  obtain m1 m2 where "ob_Metadata (user_obj ''u1'' ''r1'' ''alice'') = Some m1" "md_Uid m1 = ''u1''" "md_Name m1 = ''alice''"
    "ob_Metadata (user_obj ''u2'' ''r2'' ''alice'') = Some m2" "md_Uid m2 = ''u2''" "md_Name m2 = ''alice''"
    using user_obj_metadata by meson
  then show ?thesis
    using interleaved_creates_duplicate [OF prep [of "''u1''" "''r1''"] prep [of "''u2''" "''r2''"], of m1 m2]
      example_kinds(2) example_works(2) by (simp add: rsc_empty_def)
qed

theorem deleted_resource_comes_back_witness:
  "\<exists>st2 st3.
     snd (doDelete rsc_example_env (example_call [] ''r9'') \<lparr>do_Uid = ''u1'', do_Name = []\<rparr> ''core'' ''v1'' ''User'' alice_state) = st2 \<and>
     update_commit rsc_example_env (stored ''r2'' ''a'') (user_obj ''u1'' ''r1'' ''alice'') ''core'' ''v1'' ''User'' st2
       = (Ok (stored ''r2'' ''a'', user_obj ''u1'' ''r1'' ''alice''), st3) \<and>
     fst (doGet rsc_example_env \<lparr>go_Uid = [], go_Name = ''alice''\<rparr> ''core'' ''v1'' ''User'' st3) = Ok (stored ''r2'' ''a'') \<and>
     table_get rsc_example_env \<lparr>go_Uid = [], go_Name = ''alice''\<rparr> ''core'' ''v1'' ''User'' st3 = Fail NotFound"
proof -
  obtain md where md: "ob_Metadata (edited ''a'') = Some md" "md_Uid md = ''u1''" "md_Name md = ''alice''"
    using edited_facts(1) by blast
  obtain m0 where m0: "ob_Metadata (user_obj ''u1'' ''r1'' ''alice'') = Some m0" "md_Uid m0 = ''u1''"
    using user_obj_metadata by blast
  obtain gone st2 where del: "doDelete rsc_example_env (example_call [] ''r9'') \<lparr>do_Uid = md_Uid md, do_Name = []\<rparr>
      ''core'' ''v1'' ''User'' alice_state = (Ok gone, st2)"
    using m0 md by (simp add: doDelete_def example_options alice_by_uid delete_row_def example_works
        doPostDelete_def doDeleteCache_def Let_def stamp_update_def)
  have env: "re_db rsc_example_env = (\<lambda>_. None)" "re_redis_get rsc_example_env = (\<lambda>_. None)"
    by (simp_all add: rsc_example_env_def)
  have "checkName (md_Name md) = Ok ()" by (simp add: md example_name)
  from deleted_resource_comes_back [OF alice_reachable example_works(1) plain_examples(1-3) alice_edit_keeps_name
      alice_edit_prepared del md(1) example_kinds(2) env this]
  show ?thesis using del md by simp
qed

theorem copy_confuses_kinds_witness:
  "doGet rsc_example_env \<lparr>go_Uid = ''u1'', go_Name = []\<rparr> ''core'' ''v1'' ''Group'' alice_state =
     (Ok (user_obj ''u1'' ''r1'' ''alice''), alice_state) \<and>
   table_get rsc_example_env \<lparr>go_Uid = ''u1'', go_Name = []\<rparr> ''core'' ''v1'' ''Group'' alice_state = Fail NotFound"
  using copy_confuses_kinds [of alice_state "''u1''" "''User''" "user_obj ''u1'' ''r1'' ''alice''" "''Group''"
      rsc_example_env "''core''" "''v1''" "user_obj ''u1'' ''r1'' ''alice''"]
    example_kinds example_options example_works rsc_reachable_coherent [OF alice_reachable]
  by (simp add: alice_state_def getObjectKeyByUID_def)

end
