(* ===== verification/CoreClient.thy ===== *)
theory CoreClient imports RscTable begin

text \<open>
  The clients through which the other servers reach the resource server: for every kind of resource
  the five methods of \<open>ResourceService\<close> over its typed message. The contract of such a client is a
  locale; the client over the model of the resource server meets it, whatever calls get lost.
\<close>

section \<open>Clients\<close>

record ('s, 'a) client =
  cl_Get :: "GetOptions \<Rightarrow> 's \<Rightarrow> 'a go \<times> 's"
  cl_List :: "ListOptions \<Rightarrow> 's \<Rightarrow> 'a list go \<times> 's"
  cl_Create :: "'a \<Rightarrow> 's \<Rightarrow> 'a go \<times> 's"
  cl_Update :: "'a \<Rightarrow> 's \<Rightarrow> 'a go \<times> 's"
  cl_Delete :: "DeleteOptions \<Rightarrow> 's \<Rightarrow> 'a go \<times> 's"

text \<open>
  A typed message and its kind: its metadata, the rest of it, its conversions to and from a resource object,
  and what a condition of a list says of it.
\<close>

record ('a, 'p) codec =
  cd_kind :: string
  cd_md :: "'a \<Rightarrow> Metadata"
  cd_payload :: "'a \<Rightarrow> 'p"
  cd_enc :: "'a \<Rightarrow> rsc_obj"
  cd_dec :: "rsc_obj \<Rightarrow> 'a go"
  cd_holds :: "sql_cond \<Rightarrow> 'a \<Rightarrow> bool"

text \<open>
  What the network does to a call: it is carried out and answered, or the caller gets a code, and
  the call was carried out nevertheless or not.
\<close>

datatype transport_error = Call_Canceled | Call_Deadline | Call_Unavailable

datatype fate = Answered | Lost_before transport_error | Lost_after transport_error

fun transport_code :: "transport_error \<Rightarrow> grpc_code" where
  "transport_code Call_Canceled = Canceled"
| "transport_code Call_Deadline = DeadlineExceeded"
| "transport_code Call_Unavailable = Unavailable"

text \<open>An error leaves the server as its code; a panic ends the connection.\<close>

fun over_grpc :: "'a go \<Rightarrow> 'a go" where
  "over_grpc (Ok x) = Ok x"
| "over_grpc (Fail e) = Fail (Status (status_code e))"
| "over_grpc Panic = Fail (Status Unavailable)"

definition client_call ::
  "serve_env \<Rightarrow> (string \<Rightarrow> fate) \<Rightarrow> string \<Rightarrow> rsc_request \<Rightarrow> (rsc_response \<Rightarrow> 'b go) \<Rightarrow> rsc_state \<Rightarrow> 'b go \<times> rsc_state"
where
  "client_call S net path req conv st =
     (case net path of
        Lost_before c \<Rightarrow> (Fail (Status (transport_code c)), st)
      | Lost_after c \<Rightarrow> (Fail (Status (transport_code c)), snd (handleUnaryRequest S path req st))
      | Answered \<Rightarrow> (case handleUnaryRequest S path req st of (r, st') \<Rightarrow> (over_grpc (go_bind r conv), st')))"

definition resp_object :: "('a, 'p) codec \<Rightarrow> rsc_response \<Rightarrow> 'a go" where
  "resp_object K r = (case r of Resp_Object x \<Rightarrow> cd_dec K x | _ \<Rightarrow> Fail (Status InternalCode))"

definition resp_list :: "('a, 'p) codec \<Rightarrow> rsc_response \<Rightarrow> 'a list go" where
  "resp_list K r = (case r of Resp_List xs m \<Rightarrow> go_mapM (cd_dec K) xs | _ \<Rightarrow> Fail (Status InternalCode))"

definition CoreC :: "serve_env \<Rightarrow> (string \<Rightarrow> fate) \<Rightarrow> ('a, 'p) codec \<Rightarrow> (rsc_state, 'a) client" where
  "CoreC S net K =
     (let path = (\<lambda>verb. rsc_path ''core'' verb (cd_kind K)) in
      \<lparr>cl_Get = (\<lambda>o'. client_call S net (path ''Get'') (Req_Get o') (resp_object K)),
       cl_List = (\<lambda>o'. client_call S net (path ''List'') (Req_List o') (resp_list K)),
       cl_Create = (\<lambda>x. client_call S net (path ''Create'') (Req_Object (cd_enc K x)) (resp_object K)),
       cl_Update = (\<lambda>x. client_call S net (path ''Update'') (Req_Object (cd_enc K x)) (resp_object K)),
       cl_Delete = (\<lambda>o'. client_call S net (path ''Delete'') (Req_Delete o') (resp_object K))\<rparr>)"

section \<open>Errors of the calls\<close>

definition map_err :: "(error \<Rightarrow> error) \<Rightarrow> 'a go \<Rightarrow> 'a go" where
  "map_err f r = (case r of Fail e \<Rightarrow> Fail (f e) | _ \<Rightarrow> r)"

definition on_err :: "(error \<Rightarrow> error) \<Rightarrow> 'a go \<times> 's \<Rightarrow> 'a go \<times> 's" where
  "on_err f r = (map_err f (fst r), snd r)"

text \<open>A lookup that must fail because the resource is not there.\<close>

definition must_be_absent :: "(error \<Rightarrow> error) \<Rightarrow> 'a go \<times> 's \<Rightarrow> unit go \<times> 's" where
  "must_be_absent wrap r =
     (case r of
        (Ok x, s) \<Rightarrow> (Fail AlreadyExists, s)
      | (Fail e, s) \<Rightarrow> (if IsNotFound e then Ok () else Fail (wrap e), s)
      | (Panic, s) \<Rightarrow> (Panic, s))"

lemma map_err_simps [simp]:
  "map_err f r = Ok x \<longleftrightarrow> r = Ok x" "is_ok (map_err f r) = is_ok r" "map_err f r = Panic \<longleftrightarrow> r = Panic"
  "Ok x = map_err f r \<longleftrightarrow> r = Ok x"
  by (cases r; auto simp: map_err_def)+

lemma on_err_simps [simp]:
  "fst (on_err f r) = map_err f (fst r)" "snd (on_err f r) = snd r" "on_err f (Ok x, s) = (Ok x, s)"
  "on_err f r = (Ok x, s) \<longleftrightarrow> r = (Ok x, s)"
  by (cases r; auto simp: on_err_def map_err_def split: go.splits)+

section \<open>The contract\<close>

definition opt_matches :: "GetOptions \<Rightarrow> Metadata \<Rightarrow> bool" where
  "opt_matches o' md \<longleftrightarrow> (if go_Name o' \<noteq> [] then md_Name md = go_Name o' else md_Uid md = go_Uid o')"

abbreviation by_name :: "string \<Rightarrow> GetOptions" where
  "by_name n \<equiv> \<lparr>go_Uid = [], go_Name = n\<rparr>"

abbreviation by_uid :: "string \<Rightarrow> GetOptions" where
  "by_uid u \<equiv> \<lparr>go_Uid = u, go_Name = []\<rparr>"

text \<open>The metadata that the resource server does not write.\<close>

definition unstamped :: "Metadata \<Rightarrow> Metadata" where
  "unstamped md =
     md\<lparr>md_Uid := [], md_CreatedAt := None, md_UpdatedAt := None, md_ResourceVersion := [],
        md_LastResourceVersion := [], md_ActorRef := None, md_ActorOperation := []\<rparr>"

lemma unstamped_keeps:
  "unstamped a = unstamped b \<Longrightarrow> md_Name a = md_Name b \<and> md_IsSystem a = md_IsSystem b"
  by (cases a; cases b) (simp add: unstamped_def)

definition effect :: "'b go \<Rightarrow> ('b \<Rightarrow> 'v \<Rightarrow> bool) \<Rightarrow> 'v \<Rightarrow> 'v \<Rightarrow> bool" where
  "effect r new v v' \<longleftrightarrow> (v' = v \<and> \<not> is_ok r) \<or> (\<exists>y. new y v' \<and> (\<forall>y'. r = Ok y' \<longrightarrow> y' = y))"

lemma effect_Ok: "effect (Ok y) new v v' \<Longrightarrow> new y v'"
  by (auto simp: effect_def)

lemma effect_mono: "effect r new v v' \<Longrightarrow> (\<And>y. new y v' \<Longrightarrow> new' y v') \<Longrightarrow> effect r new' v v'"
  unfolding effect_def by blast

lemma effect_cases:
  assumes "effect r new v v'" and "v' = v \<Longrightarrow> P" and "\<And>y. new y v' \<Longrightarrow> P"
  shows P
  using assms by (auto simp: effect_def)

text \<open>
  A view lists the resources of the kind, and \<open>rest\<close> is everything else, which no operation changes. Reading gives the one that is asked for and changes nothing;
  creating, updating and deleting have their whole effect or none, and have had it when they succeed.
\<close>

locale resource_client =
  fixes C :: "('s, 'a) client" and md :: "'a \<Rightarrow> Metadata" and payload :: "'a \<Rightarrow> 'p"
    and holds :: "Filter \<Rightarrow> 'a \<Rightarrow> bool"
    and inv :: "'s \<Rightarrow> bool" and fits :: "GetOptions \<Rightarrow> 's \<Rightarrow> bool" and view :: "'s \<Rightarrow> 'a list"
    and rest :: "'s \<Rightarrow> 'o"
  assumes fits_name: "inv s \<Longrightarrow> go_Name o' \<noteq> [] \<Longrightarrow> fits o' s"
    and fits_own: "inv s \<Longrightarrow> x \<in> set (view s) \<Longrightarrow> fits (by_uid (md_Uid (md x))) s"
    and unique: "inv s \<Longrightarrow> distinct (map (\<lambda>x. md_Uid (md x)) (view s)) \<and> distinct (map (\<lambda>x. md_Name (md x)) (view s))"
    and get: "inv s \<Longrightarrow> fits o' s \<Longrightarrow> cl_Get C o' s = (r, s') \<Longrightarrow>
      inv s' \<and> rest s' = rest s \<and> view s' = view s \<and> (\<forall>x. r = Ok x \<longrightarrow> x \<in> set (view s) \<and> opt_matches o' (md x)) \<and>
      (\<forall>e. r = Fail e \<longrightarrow> IsNotFound e \<longrightarrow> (\<forall>x\<in>set (view s). \<not> opt_matches o' (md x))) \<and> r \<noteq> Panic"
    and listed: "inv s \<Longrightarrow> cl_List C (no_list_options\<lparr>lo_Filters := fs\<rparr>) s = (l, s') \<Longrightarrow>
      inv s' \<and> rest s' = rest s \<and> view s' = view s \<and> l \<noteq> Panic \<and>
      (\<forall>xs. l = Ok xs \<longrightarrow> set xs = {x \<in> set (view s). \<forall>f\<in>set fs. holds f x})"
    and list_reads: "inv s \<Longrightarrow> cl_List C lo s = (l, s') \<Longrightarrow> inv s' \<and> rest s' = rest s \<and> view s' = view s"
    and create: "inv s \<Longrightarrow> cl_Create C x s = (r, s') \<Longrightarrow> inv s' \<and> rest s' = rest s \<and> r \<noteq> Panic \<and>
      effect r (\<lambda>y v. v = view s @ [y] \<and> payload y = payload x \<and> unstamped (md y) = unstamped (md x)) (view s) (view s')"
    and update: "inv s \<Longrightarrow> z \<in> set (view s) \<Longrightarrow> md_Uid (md x) = md_Uid (md z) \<Longrightarrow> md_Name (md x) = md_Name (md z) \<Longrightarrow>
      cl_Update C x s = (r, s') \<Longrightarrow> inv s' \<and> rest s' = rest s \<and> r \<noteq> Panic \<and>
      effect r (\<lambda>y v. v = map (\<lambda>z. if md_Uid (md z) = md_Uid (md x) then y else z) (view s) \<and>
        payload y = payload x \<and> unstamped (md y) = unstamped (md x) \<and> md_Uid (md y) = md_Uid (md x)) (view s) (view s')"
    and delete: "inv s \<Longrightarrow> z \<in> set (view s) \<Longrightarrow> cl_Delete C \<lparr>do_Uid = md_Uid (md z), do_Name = []\<rparr> s = (r, s') \<Longrightarrow>
      inv s' \<and> rest s' = rest s \<and> r \<noteq> Panic \<and>
      effect r (\<lambda>y v. v = filter (\<lambda>q. md_Uid (md q) \<noteq> md_Uid (md z)) (view s)) (view s) (view s')"
begin

text \<open>
  What a handler does to the resources of the kind, and how its steps compose: as long as it only reads it
  changes nothing.
\<close>

abbreviation (input) same :: "'s \<Rightarrow> 's \<Rightarrow> bool" where
  "same s s' \<equiv> inv s' \<and> rest s' = rest s \<and> view s' = view s"

abbreviation (input) handles :: "'s \<Rightarrow> ('b \<Rightarrow> 'a list \<Rightarrow> bool) \<Rightarrow> 'b go \<times> 's \<Rightarrow> bool" where
  "handles s new m \<equiv> inv (snd m) \<and> rest (snd m) = rest s \<and> effect (fst m) new (view s) (view (snd m))"

lemma handles_step:
  assumes "same s (snd m)" and "\<And>x s1. m = (Ok x, s1) \<Longrightarrow> same s s1 \<Longrightarrow> handles s new (f x s1)"
  shows "handles s new (go_seq m f)"
proof (cases m)
  case (Pair r s1)
  show ?thesis
  proof (cases r)
    case (Ok x)
    with Pair assms(1) assms(2) [of x s1] show ?thesis by simp
  qed (use Pair assms(1) in \<open>simp_all add: effect_def\<close>)
qed

lemma handles_check:
  assumes "same s s1" and "\<And>x. r = Ok x \<Longrightarrow> handles s new (f x s1)"
  shows "handles s new (go_seq (r, s1) f)"
proof (rule handles_step)
  show "same s (snd (r, s1))" using assms(1) by (simp only: snd_conv)
  fix x s2
  assume "(r, s1) = (Ok x, s2)"
  then have "r = Ok x" "s2 = s1" by blast+
  with assms(2) show "handles s new (f x s2)" by blast
qed

lemma handles_on_err: "handles s new m \<Longrightarrow> handles s new (on_err g m)"
  unfolding on_err_simps effect_def map_err_simps by blast

lemma handles_finish: "handles s (\<lambda>_. new) m \<Longrightarrow> handles s (\<lambda>_. new) (go_seq m (\<lambda>_ s. (Ok (), s)))"
  by (cases m; cases "fst m") (auto simp: effect_def)

lemma get_same: "same s s1 \<Longrightarrow> fits o' s1 \<Longrightarrow> same s (snd (cl_Get C o' s1))"
  using get [OF _ _ prod.collapse [symmetric], of s1 o'] by auto

lemma get_name_same: "same s s1 \<Longrightarrow> n \<noteq> [] \<Longrightarrow> same s (snd (cl_Get C (by_name n) s1))"
  using get_same fits_name [of s1 "by_name n"] by auto

lemma get_Ok:
  "inv s \<Longrightarrow> fits o' s \<Longrightarrow> cl_Get C o' s = (Ok x, s') \<Longrightarrow> same s s' \<and> x \<in> set (view s) \<and> opt_matches o' (md x)"
  using get [of s o' "Ok x" s'] by blast

lemma list_same: "same s s1 \<Longrightarrow> same s (snd (cl_List C (no_list_options\<lparr>lo_Filters := fs\<rparr>) s1))"
  using listed [OF _ prod.collapse [symmetric], of s1 fs] by auto

lemma absent_same: "same s (snd m) \<Longrightarrow> same s (snd (must_be_absent w m))"
  by (cases m; cases "fst m") (auto simp: must_be_absent_def)

lemma create_handles:
  assumes "same s s1" and "\<And>y. payload y = payload x \<Longrightarrow> unstamped (md y) = unstamped (md x) \<Longrightarrow> new y (view s @ [y])"
  shows "handles s new (cl_Create C x s1)"
proof -
  have s1: "inv s1" "rest s1 = rest s" "view s1 = view s" using assms(1) by blast+
  note c = create [OF s1(1) prod.collapse [symmetric], of x, unfolded s1]
  from c have "effect (fst (cl_Create C x s1)) new (view s) (view (snd (cl_Create C x s1)))"
    by (elim conjE effect_mono) (use assms(2) in auto)
  with c show ?thesis by blast
qed

lemma update_handles:
  assumes "same s s1" and "z \<in> set (view s)" "md_Uid (md x) = md_Uid (md z)" "md_Name (md x) = md_Name (md z)"
    and "\<And>y. payload y = payload x \<Longrightarrow> unstamped (md y) = unstamped (md x) \<Longrightarrow> md_Uid (md y) = md_Uid (md z) \<Longrightarrow>
      new y (map (\<lambda>q. if md_Uid (md q) = md_Uid (md z) then y else q) (view s))"
  shows "handles s new (cl_Update C x s1)"
proof -
  have s1: "inv s1" "rest s1 = rest s" "view s1 = view s" using assms(1) by blast+
  have z: "z \<in> set (view s1)" using assms(2) s1(3) by simp
  note c = update [OF s1(1) z assms(3,4) prod.collapse [symmetric], unfolded s1]
  from c have "effect (fst (cl_Update C x s1)) new (view s) (view (snd (cl_Update C x s1)))"
    by (elim conjE effect_mono) (use assms(3,5) in auto)
  with c show ?thesis by blast
qed

lemma delete_handles:
  assumes "same s s1" and "z \<in> set (view s)"
    and "\<And>y. new y (filter (\<lambda>q. md_Uid (md q) \<noteq> md_Uid (md z)) (view s))"
  shows "handles s new (cl_Delete C \<lparr>do_Uid = md_Uid (md z), do_Name = []\<rparr> s1)"
proof -
  have s1: "inv s1" "rest s1 = rest s" "view s1 = view s" using assms(1) by blast+
  have z: "z \<in> set (view s1)" using assms(2) s1(3) by simp
  note c = delete [OF s1(1) z prod.collapse [symmetric], unfolded s1]
  from c have "effect (fst (cl_Delete C \<lparr>do_Uid = md_Uid (md z), do_Name = []\<rparr> s1)) new (view s)
      (view (snd (cl_Delete C \<lparr>do_Uid = md_Uid (md z), do_Name = []\<rparr> s1)))"
    by (elim conjE effect_mono) (use assms(3) in auto)
  with c show ?thesis by blast
qed

lemma handles_mono:
  assumes "handles s new m" and "\<And>y v. new y v \<Longrightarrow> new' y v"
  shows "handles s new' m"
  using assms by (auto simp: effect_def)


lemma view_unique:
  assumes "inv s" "x \<in> set (view s)" "y \<in> set (view s)" "md_Uid (md x) = md_Uid (md y)"
  shows "x = y"
  using unique [OF assms(1)] assms(2-4) by (auto simp: distinct_map inj_on_def)

end

section \<open>The resource server meets the contract\<close>

text \<open>
  What the conversions keep: the metadata, and the rest of the message also when other metadata is set or when
  the server completes a new object; and the database selects by what the message says.
\<close>

definition codec_ok :: "serve_env \<Rightarrow> ('a, 'p) codec \<Rightarrow> bool" where
  "codec_ok S K \<longleftrightarrow>
     cd_kind K \<in> set resource_kinds \<and>
     (\<forall>x. ob_Metadata (cd_enc K x) = Some (cd_md K x)) \<and>
     (\<forall>x. \<exists>y. cd_dec K (cd_enc K x) = Ok y \<and> cd_payload K y = cd_payload K x) \<and>
     (\<forall>z x. cd_dec K z = Ok x \<longrightarrow> ob_Metadata z = Some (cd_md K x)) \<and>
     (\<forall>z x m. cd_dec K z = Ok x \<longrightarrow>
        (\<exists>y. cd_dec K (z\<lparr>ob_Metadata := Some m\<rparr>) = Ok y \<and> cd_payload K y = cd_payload K x)) \<and>
     (\<forall>x z. re_FromMap (sn_rsc S) (cd_kind K) (with_defaults ''core'' ''v1'' (cd_kind K) (cd_enc K x)) = Ok z \<longrightarrow>
        ob_Metadata z = Some (cd_md K x) \<and> (\<exists>y. cd_dec K z = Ok y \<and> cd_payload K y = cd_payload K x)) \<and>
     (\<forall>c z x. cd_dec K z = Ok x \<longrightarrow> le_holds (sn_list S) c z = cd_holds K c x)"

fun go_oks :: "'a go list \<Rightarrow> 'a list" where
  "go_oks [] = []"
| "go_oks (Ok x # rs) = x # go_oks rs"
| "go_oks (r # rs) = go_oks rs"

lemma go_oks_append: "go_oks (rs @ rs') = go_oks rs @ go_oks rs'"
  by (induction rs rule: go_oks.induct) simp_all

lemma set_go_oks: "x \<in> set (go_oks rs) \<longleftrightarrow> Ok x \<in> set rs"
  by (induction rs rule: go_oks.induct) auto

lemma go_oks_rel: "\<forall>r\<in>set rs. is_ok (f r) \<Longrightarrow> list_all2 (\<lambda>r x. f r = Ok x) rs (go_oks (map f rs))"
proof (induction rs)
  case (Cons r rs)
  then show ?case by (cases "f r") simp_all
qed simp

lemma codecD:
  assumes "codec_ok S K"
  shows "ob_Metadata (cd_enc K x) = Some (cd_md K x)"
    and "\<exists>y. cd_dec K (cd_enc K x) = Ok y \<and> cd_payload K y = cd_payload K x"
    and "cd_dec K z = Ok x \<Longrightarrow> ob_Metadata z = Some (cd_md K x)"
    and "cd_dec K z = Ok x \<Longrightarrow> \<exists>y. cd_dec K (z\<lparr>ob_Metadata := Some m\<rparr>) = Ok y \<and> cd_payload K y = cd_payload K x \<and> cd_md K y = m"
    and "re_FromMap (sn_rsc S) (cd_kind K) (with_defaults ''core'' ''v1'' (cd_kind K) (cd_enc K x)) = Ok z \<Longrightarrow>
      ob_Metadata z = Some (cd_md K x) \<and> (\<exists>y. cd_dec K z = Ok y \<and> cd_payload K y = cd_payload K x)"
    and "cd_dec K z = Ok x \<Longrightarrow> le_holds (sn_list S) c z = cd_holds K c x"
proof -
  note c = assms [unfolded codec_ok_def]
  show "ob_Metadata (cd_enc K x) = Some (cd_md K x)" using c by blast
  show "\<exists>y. cd_dec K (cd_enc K x) = Ok y \<and> cd_payload K y = cd_payload K x" using c by blast
  show md: "ob_Metadata z = Some (cd_md K x)" if "cd_dec K z = Ok x" for z x using c that by blast
  show "\<exists>y. cd_dec K (z\<lparr>ob_Metadata := Some m\<rparr>) = Ok y \<and> cd_payload K y = cd_payload K x \<and> cd_md K y = m"
    if dec: "cd_dec K z = Ok x"
  proof -
    obtain y where y: "cd_dec K (z\<lparr>ob_Metadata := Some m\<rparr>) = Ok y" "cd_payload K y = cd_payload K x"
      using c dec by blast
    with md [OF y(1)] show ?thesis by auto
  qed
  show "ob_Metadata z = Some (cd_md K x) \<and> (\<exists>y. cd_dec K z = Ok y \<and> cd_payload K y = cd_payload K x)"
    if "re_FromMap (sn_rsc S) (cd_kind K) (with_defaults ''core'' ''v1'' (cd_kind K) (cd_enc K x)) = Ok z"
    using c that by blast
  show "le_holds (sn_list S) c z = cd_holds K c x" if "cd_dec K z = Ok x" using c that by blast
qed

definition of_kind :: "('a, 'p) codec \<Rightarrow> row \<Rightarrow> bool" where
  "of_kind K r \<longleftrightarrow> rw_Api r = ''core'' \<and> rw_Version r = ''v1'' \<and> rw_Kind r = cd_kind K"

definition kind_view :: "('a, 'p) codec \<Rightarrow> rsc_state \<Rightarrow> 'a list" where
  "kind_view K st = go_oks (map (\<lambda>r. cd_dec K (rw_Resource r)) (filter (of_kind K) (rs_table st)))"

definition kind_rest :: "('a, 'p) codec \<Rightarrow> rsc_state \<Rightarrow> row list" where
  "kind_rest K st = filter (\<lambda>r. \<not> of_kind K r) (rs_table st)"

text \<open>What a request relies on, and what holds of the stored resources between requests.\<close>

definition serve_ok :: "serve_env \<Rightarrow> ('a, 'p) codec \<Rightarrow> bool" where
  "serve_ok S K \<longleftrightarrow>
     redis_works (sn_rsc S) \<and> plain (rc_NewUid (sn_call S)) \<and> codec_ok S K \<and>
     (\<forall>ts rows. set (le_order (sn_list S) ts rows) = set rows)"

definition stored_ok :: "('a, 'p) codec \<Rightarrow> rsc_state \<Rightarrow> bool" where
  "stored_ok K st \<longleftrightarrow>
     coherent st \<and> (\<forall>r\<in>set (rs_table st). of_kind K r \<longrightarrow> (\<exists>x. cd_dec K (rw_Resource r) = Ok x))"

definition client_inv :: "serve_env \<Rightarrow> ('a, 'p) codec \<Rightarrow> rsc_state \<Rightarrow> bool" where
  "client_inv S K st \<longleftrightarrow> serve_ok S K \<and> stored_ok K st"

lemma getRequestInfo_path:
  assumes "list_all lower api" "length api \<in> {2..32}" "verb \<in> set rsc_verbs" "list_all letter kind" "length kind \<in> {2..32}"
  shows "getRequestInfo (rsc_path api verb kind) = Ok \<lparr>rr_api = api, rr_version = ''v1'', rr_verb = verb, rr_kind = kind\<rparr>"
  using rgxPath_path [OF assms(1,3), of kind] assms by (simp add: getRequestInfo_def)

lemma kinds_fine:
  assumes "kind \<in> set resource_kinds"
  shows "NewResourceObject ''core'' ''v1'' kind = Ok kind" "plain kind" "list_all letter kind" "length kind \<in> {2..32}"
proof -
  have "list_all plain resource_kinds" by (simp add: resource_kinds_def plain_def)
  moreover have "list_all (list_all letter) resource_kinds"
    by (simp add: resource_kinds_def letter_def lower_def)
  moreover have "list_all (\<lambda>k. length k \<in> {2..32}) resource_kinds" by (simp add: resource_kinds_def)
  ultimately show "plain kind" "list_all letter kind" "length kind \<in> {2..32}"
    using assms unfolding list_all_iff by blast+
  show "NewResourceObject ''core'' ''v1'' kind = Ok kind"
    using assms by (simp add: NewResourceObject_def NewObject_def)
qed

lemma core_path:
  assumes "kind \<in> set resource_kinds" "verb \<in> set rsc_verbs"
  shows "getRequestInfo (rsc_path ''core'' verb kind) = Ok \<lparr>rr_api = ''core'', rr_version = ''v1'', rr_verb = verb, rr_kind = kind\<rparr>"
  by (rule getRequestInfo_path) (use assms kinds_fine [OF assms(1)] in \<open>auto simp: lower_def\<close>)

text \<open>What reaches the server with each method of a client.\<close>

lemma handle_core:
  assumes "kind \<in> set resource_kinds"
  shows "handleUnaryRequest S (rsc_path ''core'' ''Get'' kind) (Req_Get o') st =
      go_seq (doGet (sn_rsc S) o' ''core'' ''v1'' kind st) (\<lambda>x st. (Ok (Resp_Object x), st))"
    and "handleUnaryRequest S (rsc_path ''core'' ''List'' kind) (Req_List l) st =
      (go_bind (doList (sn_list S) l ''core'' ''v1'' kind st) (\<lambda>l. toResourceList S l ''core'' kind), st)"
    and "handleUnaryRequest S (rsc_path ''core'' ''Create'' kind) (Req_Object x) st =
      go_seq (doCreate (sn_rsc S) (sn_call S) x ''core'' ''v1'' kind st) (\<lambda>x st. (Ok (Resp_Object x), st))"
    and "handleUnaryRequest S (rsc_path ''core'' ''Update'' kind) (Req_Object x) st =
      go_seq (doUpdate (sn_rsc S) (sn_call S) x ''core'' ''v1'' kind st) (\<lambda>p st. (Ok (Resp_Object (fst p)), st))"
    and "handleUnaryRequest S (rsc_path ''core'' ''Delete'' kind) (Req_Delete d) st =
      go_seq (doDelete (sn_rsc S) (sn_call S) d ''core'' ''v1'' kind st) (\<lambda>x st. (Ok (Resp_Object x), st))"
  using core_path [OF assms] by (simp_all add: handleUnaryRequest_def rsc_verbs_def Let_def)

lemma call_object:
  assumes "handleUnaryRequest S path req st = go_seq h (\<lambda>x st. (Ok (Resp_Object (f x)), st))"
    and "client_call S net path req (resp_object K) st = (r, s')"
  shows "(s' = st \<or> s' = snd h) \<and> (\<exists>t. r = Fail (Status (transport_code t))) \<or>
    s' = snd h \<and> r = over_grpc (go_bind (fst h) (\<lambda>x. cd_dec K (f x)))"
  using assms by (cases h; cases "fst h"; cases "net path") (auto simp: client_call_def resp_object_def)

lemma over_grpc_simps [simp]: "over_grpc r \<noteq> Panic" "over_grpc r = Ok y \<longleftrightarrow> r = Ok y" "is_ok (over_grpc r) = is_ok r"
  "Ok y = over_grpc r \<longleftrightarrow> r = Ok y" "Panic \<noteq> over_grpc r"
  by (cases r; auto)+

lemma transport_not_found [simp]: "\<not> IsNotFound (Status (transport_code t))"
  by (cases t) (simp_all add: IsNotFound_def)

lemma over_grpc_NotFound: "over_grpc r = Fail e \<Longrightarrow> IsNotFound e \<Longrightarrow> \<exists>e'. r = Fail e' \<and> IsNotFound e'"
  by (cases r) (auto simp: IsNotFound_def)

lemma client_invD:
  assumes "client_inv S K st"
  shows "coherent st" "redis_works (sn_rsc S)" "plain (rc_NewUid (sn_call S))" "codec_ok S K"
    "plain (cd_kind K)" "cd_kind K \<in> set resource_kinds" "plain ''core''" "plain ''v1''"
    "r \<in> set (rs_table st) \<Longrightarrow> of_kind K r \<Longrightarrow> \<exists>x. cd_dec K (rw_Resource r) = Ok x"
  using assms kinds_fine(2) by (auto simp: client_inv_def stored_ok_def serve_ok_def codec_ok_def plain_examples)

lemma client_inv_table:
  "client_inv S K st \<Longrightarrow> coherent st' \<Longrightarrow> rs_table st' = rs_table st \<Longrightarrow> client_inv S K st'"
  "rs_table st' = rs_table st \<Longrightarrow> kind_view K st' = kind_view K st"
  "rs_table st' = rs_table st \<Longrightarrow> kind_rest K st' = kind_rest K st"
  by (simp_all add: client_inv_def stored_ok_def kind_view_def kind_rest_def)

lemma in_view:
  "x \<in> set (kind_view K st) \<longleftrightarrow> (\<exists>r\<in>set (rs_table st). of_kind K r \<and> cd_dec K (rw_Resource r) = Ok x)"
  by (force simp: kind_view_def set_go_oks image_iff)

lemma view_rows:
  assumes "client_inv S K st"
  shows "list_all2 (\<lambda>r x. (r \<in> set (rs_table st) \<and> of_kind K r) \<and> cd_dec K (rw_Resource r) = Ok x)
    (filter (of_kind K) (rs_table st)) (kind_view K st)"
proof -
  have "list_all2 (\<lambda>r x. cd_dec K (rw_Resource r) = Ok x) (filter (of_kind K) (rs_table st)) (kind_view K st)"
    unfolding kind_view_def
    by (rule go_oks_rel) (use client_invD(9) [OF assms] in \<open>auto simp: is_ok_iff\<close>)
  then show ?thesis by (rule list.rel_mono_strong) simp
qed

text \<open>The view is the list that the rows of the kind are read as, row by row.\<close>

lemma view_eqI:
  assumes "list_all2 (\<lambda>r x. cd_dec K (rw_Resource r) = Ok x) (filter (of_kind K) (rs_table st)) xs"
  shows "kind_view K st = xs"
proof -
  have "go_oks (map f rs) = xs" if "list_all2 (\<lambda>r x. f r = Ok x) rs xs" for f :: "row \<Rightarrow> 'a go" and rs xs
    using that by (induction rs xs rule: list_all2_induct) simp_all
  with assms show ?thesis by (simp add: kind_view_def)
qed

lemma decoded_row:
  assumes "client_inv S K st" "r \<in> set (rs_table st)" "cd_dec K (rw_Resource r) = Ok x"
  shows "md_Uid (cd_md K x) = rw_Uid r" "md_Name (cd_md K x) = row_name r" "ob_Metadata (rw_Resource r) = Some (cd_md K x)"
proof -
  show "ob_Metadata (rw_Resource r) = Some (cd_md K x)"
    using client_invD(4) [OF assms(1)] assms(3) by (simp add: codec_ok_def)
  then show "md_Uid (cd_md K x) = rw_Uid r" "md_Name (cd_md K x) = row_name r"
    using coherentD(1) [OF client_invD(1) [OF assms(1)] assms(2)] by (auto simp: row_ok_def row_name_def)
qed

lemma view_keys:
  assumes "client_inv S K st"
  shows "map (\<lambda>x. md_Uid (cd_md K x)) (kind_view K st) = map rw_Uid (filter (of_kind K) (rs_table st))"
    and "map (\<lambda>x. md_Name (cd_md K x)) (kind_view K st) = map row_name (filter (of_kind K) (rs_table st))"
  using view_rows [OF assms] decoded_row [OF assms]
  by (auto simp: list_all2_conv_all_nth intro!: nth_equalityI)

lemma view_unique_keys:
  assumes "client_inv S K st"
  shows "distinct (map (\<lambda>x. md_Uid (cd_md K x)) (kind_view K st)) \<and>
    distinct (map (\<lambda>x. md_Name (cd_md K x)) (kind_view K st))"
proof -
  have "distinct (map rw_Uid (rs_table st))" "distinct (map row_id (rs_table st))"
    using client_invD(1) [OF assms] by (simp_all add: coherent_def)
  then have "distinct (map rw_Uid (filter (of_kind K) (rs_table st)))"
    "distinct (map row_id (filter (of_kind K) (rs_table st)))"
    by (simp_all add: distinct_map_filter)
  moreover have "row_name r = row_name r' \<Longrightarrow> row_id r = row_id r'" if "of_kind K r" "of_kind K r'" for r r'
    using that by (simp add: row_id_def of_kind_def)
  ultimately show ?thesis
    unfolding view_keys [OF assms] by (auto simp: distinct_map inj_on_def)
qed

lemma view_inj:
  assumes "client_inv S K st" "x \<in> set (kind_view K st)" "z \<in> set (kind_view K st)" "md_Uid (cd_md K x) = md_Uid (cd_md K z)"
  shows "x = z"
proof -
  have "inj_on (\<lambda>x. md_Uid (cd_md K x)) (set (kind_view K st))"
    using view_unique_keys [OF assms(1)] by (simp add: distinct_map)
  from inj_onD [OF this assms(4,2,3)] show ?thesis .
qed

lemma fits_by_name:
  assumes "client_inv S K st" "go_Name o' \<noteq> []"
  shows "kind_fits o' ''core'' ''v1'' (cd_kind K) st"
  using client_invD(5,7,8) [OF assms(1)] assms(2) by (simp add: kind_fits_def)

lemma fits_by_own_uid:
  assumes "client_inv S K st" "x \<in> set (kind_view K st)"
  shows "kind_fits (by_uid (md_Uid (cd_md K x))) ''core'' ''v1'' (cd_kind K) st"
proof -
  obtain r where r: "r \<in> set (rs_table st)" "of_kind K r" "cd_dec K (rw_Resource r) = Ok x"
    using assms(2) by (auto simp: in_view)
  note inv = client_invD [OF assms(1)]
  have "own_kind (md_Uid (cd_md K x)) ''core'' ''v1'' (cd_kind K) st"
    unfolding own_kind_def decoded_row [OF assms(1) r(1,3)]
    using coherentD(2) [OF inv(1) _ r(1)] r(2) by (auto simp: of_kind_def)
  moreover have "plain (rw_Uid r)" using coherentD(1) [OF inv(1) r(1)] by (simp add: row_ok_def)
  ultimately show ?thesis
    using inv(5,7,8) decoded_row [OF assms(1) r(1,3)] by (simp add: kind_fits_def)
qed

section \<open>Reading\<close>

lemma client_get:
  assumes inv: "client_inv S K st" and fits: "kind_fits o' ''core'' ''v1'' (cd_kind K) st"
    and get: "cl_Get (CoreC S net K) o' st = (r, st')"
  shows "client_inv S K st' \<and> kind_rest K st' = kind_rest K st \<and> kind_view K st' = kind_view K st \<and>
    (\<forall>x. r = Ok x \<longrightarrow> x \<in> set (kind_view K st) \<and> opt_matches o' (cd_md K x)) \<and>
    (\<forall>e. r = Fail e \<longrightarrow> IsNotFound e \<longrightarrow> (\<forall>x\<in>set (kind_view K st). \<not> opt_matches o' (cd_md K x))) \<and> r \<noteq> Panic"
proof -
  note D = client_invD [OF inv]
  let ?h = "doGet (sn_rsc S) o' ''core'' ''v1'' (cd_kind K) st"
  have call: "(st' = st \<or> st' = snd ?h) \<and> (\<exists>t. r = Fail (Status (transport_code t))) \<or>
      st' = snd ?h \<and> r = over_grpc (go_bind (fst ?h) (cd_dec K))"
  proof -
    have "client_call S net (rsc_path ''core'' ''Get'' (cd_kind K)) (Req_Get o') (resp_object K) st = (r, st')"
      using get by (simp add: CoreC_def)
    from call_object [OF handle_core(1) [OF D(6)] this] show ?thesis by simp
  qed
  have state: "client_inv S K st'" "kind_view K st' = kind_view K st" "kind_rest K st' = kind_rest K st"
    using call doGet_state [OF D(1,2) fits] client_inv_table(1) [OF inv] inv client_inv_table(2,3) [of st' st K] by metis+
  have hit: "row_selected o' ''core'' ''v1'' (cd_kind K) q \<longleftrightarrow> of_kind K q \<and> opt_matches o' (cd_md K x)"
    if "q \<in> set (rs_table st)" "cd_dec K (rw_Resource q) = Ok x" for q x
    using decoded_row [OF inv that] coherentD(1) [OF D(1) that(1)]
    by (auto simp: row_selected_ok of_kind_def opt_matches_def)
  have ok: "x \<in> set (kind_view K st) \<and> opt_matches o' (cd_md K x)" if "r = Ok x" for x
  proof -
    from that call obtain z where z: "fst ?h = Ok z" "cd_dec K z = Ok x" by auto
    obtain q where q: "q \<in> set (rs_table st)" "row_selected o' ''core'' ''v1'' (cd_kind K) q" "rw_Resource q = z"
      using doGet_Ok [OF D(1,2) fits, of z "snd ?h"] z(1) by (metis prod.collapse)
    with hit [OF q(1)] z(2) show ?thesis by (auto simp: in_view)
  qed
  moreover have "\<not> opt_matches o' (cd_md K x)" if fail: "r = Fail e" "IsNotFound e" and x: "x \<in> set (kind_view K st)" for e x
  proof -
    obtain q where q: "q \<in> set (rs_table st)" "of_kind K q" "cd_dec K (rw_Resource q) = Ok x"
      using x by (auto simp: in_view)
    have "over_grpc (go_bind (fst ?h) (cd_dec K)) = Fail e" using call fail by auto
    then obtain e' where e': "go_bind (fst ?h) (cd_dec K) = Fail e'" "IsNotFound e'"
      using over_grpc_NotFound fail(2) by blast
    show ?thesis
    proof (cases "fst ?h")
      case (Ok z)
      obtain p where p: "p \<in> set (rs_table st)" "row_selected o' ''core'' ''v1'' (cd_kind K) p" "rw_Resource p = z"
        using doGet_Ok [OF D(1,2) fits, of z "snd ?h"] Ok by (metis prod.collapse)
      then have "of_kind K p" by (simp add: row_selected_def of_kind_def)
      with D(9) [OF p(1)] p(3) e'(1) Ok show ?thesis by auto
    next
      case (Fail e2)
      with e' have "?h = (Fail e', snd ?h)" by (metis go_bind.simps(2) prod.collapse)
      from doGet_NotFound [OF D(1,2) fits this e'(2)] q(1) hit [OF q(1,3)] q(2) show ?thesis by blast
    qed (use e' in simp)
  qed
  moreover have "r \<noteq> Panic" using call by auto
  ultimately show ?thesis using state by blast
qed

definition filter_holds :: "('a, 'p) codec \<Rightarrow> Filter \<Rightarrow> 'a \<Rightarrow> bool" where
  "filter_holds K f x = (case list_filter f of Ok cs \<Rightarrow> list_all (\<lambda>c. cd_holds K c x) cs | _ \<Rightarrow> False)"

lemma getListFilters_holds:
  "getListFilters fs = Ok cs \<Longrightarrow>
   list_all (\<lambda>c. cd_holds K c x) cs \<longleftrightarrow> (\<forall>f\<in>set fs. filter_holds K f x)"
proof -
  have "list_all (\<lambda>c. cd_holds K c x) (concat css) \<longleftrightarrow> (\<forall>f\<in>set fs. filter_holds K f x)"
    if "go_mapM list_filter fs = Ok css" for css
    using that by (induction fs arbitrary: css) (auto simp: filter_holds_def)
  then show "getListFilters fs = Ok cs \<Longrightarrow> ?thesis" by (auto simp: getListFilters_def)
qed

lemma doList_items:
  assumes "doList L (no_list_options\<lparr>lo_Filters := fs\<rparr>) api version kind st = Ok (items, m)"
    and "\<forall>ts rows. set (le_order L ts rows) = set rows"
  shows "\<exists>cs. getListFilters fs = Ok cs \<and> set items = rw_Resource ` {r \<in> set (rs_table st).
    rw_Api r = api \<and> rw_Version r = version \<and> rw_Kind r = kind \<and> list_all (\<lambda>c. le_holds L c (rw_Resource r)) cs}"
proof -
  let ?req = "no_list_options\<lparr>lo_Filters := fs\<rparr>"
  have plain: "\<not> lo_Paginate ?req" "lo_Page ?req = 0" by (simp_all add: no_list_options_def)
  obtain cs where cs: "list_conditions ?req = Ok cs" using assms(1) by (auto simp: doList_def)
  then have "getListFilters fs = Ok cs"
    by (cases fs) (auto simp: list_conditions_def no_list_options_def getListFilters_def go_map_def)
  moreover have "items = map rw_Resource (selected_rows L ?req cs api version kind (rs_table st))"
    using assms(1) cs plain by (auto simp: doList_def Let_def split: option.splits if_splits go.splits)
  ultimately show ?thesis
    using assms(2) by (auto simp: selected_rows_def)
qed

lemma client_list:
  assumes inv: "client_inv S K st" and call: "cl_List (CoreC S net K) (no_list_options\<lparr>lo_Filters := fs\<rparr>) st = (l, st')"
  shows "client_inv S K st' \<and> kind_rest K st' = kind_rest K st \<and> kind_view K st' = kind_view K st \<and> l \<noteq> Panic \<and>
    (\<forall>xs. l = Ok xs \<longrightarrow> set xs = {x \<in> set (kind_view K st). \<forall>f\<in>set fs. filter_holds K f x})"
proof -
  note D = client_invD [OF inv]
  let ?req = "no_list_options\<lparr>lo_Filters := fs\<rparr>"
  let ?r = "go_bind (doList (sn_list S) ?req ''core'' ''v1'' (cd_kind K) st) (\<lambda>l. toResourceList S l ''core'' (cd_kind K))"
  have outcome: "st' = st \<and> ((\<exists>t. l = Fail (Status (transport_code t))) \<or> l = over_grpc (go_bind ?r (resp_list K)))"
    using call handle_core(2) [OF D(6)] by (auto simp: CoreC_def client_call_def Let_def split: fate.splits)
  have "set xs = {x \<in> set (kind_view K st). \<forall>f\<in>set fs. filter_holds K f x}" if "l = Ok xs" for xs
  proof -
    from that outcome obtain items m where items: "doList (sn_list S) ?req ''core'' ''v1'' (cd_kind K) st = Ok (items, m)"
      "go_mapM (cd_dec K) items = Ok xs"
      by (auto simp: toResourceList_def resp_list_def split: if_splits option.splits)
    have "\<forall>ts rows. set (le_order (sn_list S) ts rows) = set rows" using inv by (simp add: client_inv_def serve_ok_def)
    from doList_items [OF items(1) this] obtain cs where cs: "getListFilters fs = Ok cs"
      and set: "set items = rw_Resource ` {r \<in> set (rs_table st). of_kind K r \<and> list_all (\<lambda>c. le_holds (sn_list S) c (rw_Resource r)) cs}"
      by (auto simp: of_kind_def)
    have "x \<in> set xs \<longleftrightarrow> (\<exists>z\<in>set items. cd_dec K z = Ok x)" for x
      using items(2) by (force simp: go_mapM_Ok_iff in_set_conv_nth)
    also have "\<dots> x \<longleftrightarrow> (\<exists>r\<in>set (rs_table st). of_kind K r \<and> cd_dec K (rw_Resource r) = Ok x \<and> list_all (\<lambda>c. cd_holds K c x) cs)" for x
      unfolding set using D(4) by (auto simp: codec_ok_def)
    finally show ?thesis
      by (auto simp: in_view getListFilters_holds [OF cs])
  qed
  moreover have "l \<noteq> Panic" using outcome by auto
  ultimately show ?thesis using outcome inv by auto
qed

lemma client_list_reads:
  assumes inv: "client_inv S K st" and call: "cl_List (CoreC S net K) o' st = (l, st')"
  shows "client_inv S K st' \<and> kind_rest K st' = kind_rest K st \<and> kind_view K st' = kind_view K st"
proof -
  have "st' = st"
    using call handle_core(2) [OF client_invD(6) [OF inv]] by (auto simp: CoreC_def client_call_def Let_def split: fate.splits)
  with inv show ?thesis by simp
qed

section \<open>Writing\<close>

lemma unstamped_stamps [simp]:
  "unstamped (stamp_create x m) = unstamped m" "unstamped (stamp_update x m) = unstamped m"
  by (simp_all add: unstamped_def stamp_create_def stamp_update_def)

lemma effect_call:
  assumes "(v' = v \<and> (\<exists>t. r = Fail (Status (transport_code t)))) \<or> effect r0 new v v' \<and> (is_ok r \<longrightarrow> r = r0)"
  shows "effect r new v v'"
  using assms by (cases r) (auto simp: effect_def)

lemma client_create:
  assumes inv: "client_inv S K st" and call: "cl_Create (CoreC S net K) x st = (r, st')"
  shows "client_inv S K st' \<and> kind_rest K st' = kind_rest K st \<and> r \<noteq> Panic \<and>
    effect r (\<lambda>y v. v = kind_view K st @ [y] \<and> cd_payload K y = cd_payload K x \<and>
      unstamped (cd_md K y) = unstamped (cd_md K x)) (kind_view K st) (kind_view K st')"
proof -
  note D = client_invD [OF inv]
  let ?new = "\<lambda>y v. v = kind_view K st @ [y] \<and> cd_payload K y = cd_payload K x \<and> unstamped (cd_md K y) = unstamped (cd_md K x)"
  obtain q s1 where h: "doCreate (sn_rsc S) (sn_call S) (cd_enc K x) ''core'' ''v1'' (cd_kind K) st = (q, s1)"
    by fastforce
  have call: "(st' = st \<or> st' = s1) \<and> (\<exists>t. r = Fail (Status (transport_code t))) \<or>
      st' = s1 \<and> r = over_grpc (go_bind q (cd_dec K))"
  proof -
    have "client_call S net (rsc_path ''core'' ''Create'' (cd_kind K)) (Req_Object (cd_enc K x)) (resp_object K) st = (r, st')"
      using call by (simp add: CoreC_def)
    from call_object [OF handle_core(3) [OF D(6)] this] show ?thesis unfolding h by simp
  qed
  have coh: "coherent s1"
    using doCreate_coherent [OF D(1,2,7,8,5,3), of "cd_enc K x"] h by simp
  consider (none) "rs_table s1 = rs_table st" "\<not> is_ok q"
    | (row) obj m where "re_FromMap (sn_rsc S) (cd_kind K) (with_defaults ''core'' ''v1'' (cd_kind K) (cd_enc K x)) = Ok obj"
        "ob_Metadata obj = Some m"
        "rs_table s1 = rs_table st @ [new_row (rc_NewUid (sn_call S)) ''core'' ''v1'' (cd_kind K)
          (obj\<lparr>ob_Metadata := Some (stamp_create (sn_call S) m)\<rparr>)]"
        "\<forall>y. q = Ok y \<longrightarrow> y = obj\<lparr>ob_Metadata := Some (stamp_create (sn_call S) m)\<rparr>"
    using doCreate_table [OF D(1,2,7,8,5,3) h] by blast
  then have "(client_inv S K s1 \<and> kind_rest K s1 = kind_rest K st) \<and> effect (over_grpc (go_bind q (cd_dec K))) ?new (kind_view K st) (kind_view K s1)"
  proof cases
    case none
    then have "client_inv S K s1" "kind_view K s1 = kind_view K st" "kind_rest K s1 = kind_rest K st"
      using client_inv_table(1) [OF inv coh] client_inv_table(2,3) [of s1 st] by blast+
    with none(2) show ?thesis by (cases q) (simp_all add: effect_def)
  next
    case row
    obtain y0 where y0: "cd_dec K obj = Ok y0" "cd_payload K y0 = cd_payload K x" "m = cd_md K x"
      using codecD(5) [OF D(4) row(1)] row(2) by auto
    obtain y where y: "cd_dec K (obj\<lparr>ob_Metadata := Some (stamp_create (sn_call S) m)\<rparr>) = Ok y"
        "cd_payload K y = cd_payload K x" and "cd_md K y = stamp_create (sn_call S) m"
      using codecD(4) [OF D(4) y0(1), of "stamp_create (sn_call S) m"] y0(2) by auto
    then have md: "cd_md K y = stamp_create (sn_call S) (cd_md K x)" using y0(3) by simp
    have view: "kind_view K s1 = kind_view K st @ [y]"
      using y(1) by (simp add: kind_view_def row(3) of_kind_def go_oks_append)
    have "client_inv S K s1" "kind_rest K s1 = kind_rest K st"
      using inv coh y(1) by (auto simp: client_inv_def stored_ok_def kind_rest_def row(3) of_kind_def)
    with view y md row(4) show ?thesis
      by (cases q) (auto simp: effect_def)
  qed
  with call inv show ?thesis
    by (auto simp: effect_def)
qed

lemma map_filter_idI: "(\<And>r. r \<in> set rs \<Longrightarrow> P (f r) = P r \<and> (P r \<longrightarrow> f r = r)) \<Longrightarrow> map f (filter (P \<circ> f) rs) = filter P rs"
  by (induction rs) auto

lemma view_map_rows:
  assumes inv: "client_inv S K st" and "rs_table st' = map (set_resource uid obj) (rs_table st)" and y: "cd_dec K obj = Ok y"
  shows "kind_view K st' = map (\<lambda>z. if md_Uid (cd_md K z) = uid then y else z) (kind_view K st)"
proof (rule view_eqI)
  have "filter (of_kind K) (rs_table st') = map (set_resource uid obj) (filter (of_kind K) (rs_table st))"
    unfolding assms(2) filter_map by (rule arg_cong [where f = "map _"], rule filter_cong) (simp_all add: of_kind_def)
  moreover have "list_all2 (\<lambda>r x. cd_dec K (rw_Resource (set_resource uid obj r)) = Ok (if md_Uid (cd_md K x) = uid then y else x))
      (filter (of_kind K) (rs_table st)) (kind_view K st)"
    by (rule list.rel_mono_strong [OF view_rows [OF inv]])
      (use decoded_row [OF inv] y in \<open>auto simp: set_resource_def\<close>)
  ultimately show "list_all2 (\<lambda>r x. cd_dec K (rw_Resource r) = Ok x) (filter (of_kind K) (rs_table st'))
      (map (\<lambda>z. if md_Uid (cd_md K z) = uid then y else z) (kind_view K st))"
    by (simp add: list.rel_map)
qed

lemma client_update:
  assumes inv: "client_inv S K st" and z: "z \<in> set (kind_view K st)"
    and same: "md_Uid (cd_md K x) = md_Uid (cd_md K z)" "md_Name (cd_md K x) = md_Name (cd_md K z)"
    and call: "cl_Update (CoreC S net K) x st = (r, st')"
  shows "client_inv S K st' \<and> kind_rest K st' = kind_rest K st \<and> r \<noteq> Panic \<and>
    effect r (\<lambda>y v. v = map (\<lambda>z. if md_Uid (cd_md K z) = md_Uid (cd_md K x) then y else z) (kind_view K st) \<and>
      cd_payload K y = cd_payload K x \<and> unstamped (cd_md K y) = unstamped (cd_md K x) \<and>
      md_Uid (cd_md K y) = md_Uid (cd_md K x)) (kind_view K st) (kind_view K st')"
proof -
  note D = client_invD [OF inv]
  let ?new = "\<lambda>y v. v = map (\<lambda>z. if md_Uid (cd_md K z) = md_Uid (cd_md K x) then y else z) (kind_view K st) \<and>
      cd_payload K y = cd_payload K x \<and> unstamped (cd_md K y) = unstamped (cd_md K x) \<and>
      md_Uid (cd_md K y) = md_Uid (cd_md K x)"
  let ?md = "cd_md K x" and ?stamped = "(cd_enc K x)\<lparr>ob_Metadata := Some (stamp_update (sn_call S) (cd_md K x))\<rparr>"
  obtain q s1 where h: "doUpdate (sn_rsc S) (sn_call S) (cd_enc K x) ''core'' ''v1'' (cd_kind K) st = (q, s1)"
    by fastforce
  obtain row where row: "row \<in> set (rs_table st)" "of_kind K row" "cd_dec K (rw_Resource row) = Ok z"
    using z by (auto simp: in_view)
  have enc: "ob_Metadata (cd_enc K x) = Some ?md" using D(4) by (simp add: codec_ok_def)
  have fits: "kind_fits (by_uid (md_Uid ?md)) ''core'' ''v1'' (cd_kind K) st"
    using fits_by_own_uid [OF inv z] same(1) by simp
  have keeps: "keeps_name (cd_enc K x) ''core'' ''v1'' (cd_kind K) st"
    using fits enc same decoded_row [OF inv row(1,3)] coherentD(2) [OF D(1) _ row(1)]
    by (auto simp: keeps_name_def kind_fits_def)
  have call: "(st' = st \<or> st' = s1) \<and> (\<exists>t. r = Fail (Status (transport_code t))) \<or>
      st' = s1 \<and> r = over_grpc (go_bind q (\<lambda>p. cd_dec K (fst p)))"
  proof -
    have "client_call S net (rsc_path ''core'' ''Update'' (cd_kind K)) (Req_Object (cd_enc K x)) (resp_object K) st = (r, st')"
      using call by (simp add: CoreC_def)
    from call_object [OF handle_core(4) [OF D(6)] this] show ?thesis unfolding h by simp
  qed
  have coh: "coherent s1"
    using doUpdate_coherent [OF D(1,2,7,8,5) keeps, of "sn_call S"] h by simp
  obtain y0 where y0: "cd_dec K (cd_enc K x) = Ok y0" "cd_payload K y0 = cd_payload K x"
    using codecD(2) [OF D(4)] by blast
  obtain y where y: "cd_dec K ?stamped = Ok y" "cd_payload K y = cd_payload K x" "cd_md K y = stamp_update (sn_call S) ?md"
    using codecD(4) [OF D(4) y0(1)] y0(2) by auto
  have mds: "cd_md K y0 = ?md" "cd_md K y = stamp_update (sn_call S) ?md"
    using codecD(3) [OF D(4) y0(1)] enc y(3) by simp_all
  have "(client_inv S K s1 \<and> kind_rest K s1 = kind_rest K st) \<and> effect (over_grpc (go_bind q (\<lambda>p. cd_dec K (fst p)))) ?new (kind_view K st) (kind_view K s1)"
    using doUpdate_table [OF D(1,2,7,8,5) keeps enc h]
  proof
    assume a: "rs_table s1 = rs_table st \<and> (\<forall>y. q = Ok y \<longrightarrow> fst y = cd_enc K x \<and>
      (\<exists>r\<in>set (rs_table st). rw_Uid r = md_Uid ?md \<and> rw_Resource r = cd_enc K x))"
    have "?new y0 (kind_view K st)" if q: "q = Ok p" for p
    proof -
      obtain r' where r': "r' \<in> set (rs_table st)" "rw_Uid r' = md_Uid ?md" "rw_Resource r' = cd_enc K x"
        using a q by blast
      have "r' = row" using coherentD(2) [OF D(1) r'(1) row(1)] r'(2) same decoded_row [OF inv row(1,3)] by simp
      then have "z = y0" using row(3) r'(3) y0(1) by simp
      have "map (\<lambda>w. if md_Uid (cd_md K w) = md_Uid ?md then y0 else w) (kind_view K st) = kind_view K st"
        by (rule map_idI) (use view_inj [OF inv _ z] same(1) \<open>z = y0\<close> in auto)
      with y0(2) mds(1) show ?thesis by simp
    qed
    moreover have "client_inv S K s1" "kind_view K s1 = kind_view K st" "kind_rest K s1 = kind_rest K st"
      using a client_inv_table(1) [OF inv coh] client_inv_table(2,3) [of s1 st] by blast+
    ultimately show ?thesis
      using a y0(1) by (cases q) (auto simp: effect_def)
  next
    assume b: "let new = ?stamped in rs_table s1 = map (set_resource (md_Uid ?md) new) (rs_table st) \<and> (\<forall>y. q = Ok y \<longrightarrow> fst y = new)"
    then have table: "rs_table s1 = map (set_resource (md_Uid ?md) ?stamped) (rs_table st)" and res: "\<forall>p. q = Ok p \<longrightarrow> fst p = ?stamped"
      by (simp_all add: Let_def)
    have "client_inv S K s1"
      using inv coh y(1) by (auto simp: client_inv_def stored_ok_def table set_resource_def of_kind_def)
    moreover have "kind_rest K s1 = kind_rest K st"
      unfolding kind_rest_def table filter_map
      by (rule map_filter_idI) (use fits in \<open>auto simp: kind_fits_def own_kind_def of_kind_def set_resource_def\<close>)
    moreover have "?new y (kind_view K s1)"
      using view_map_rows [OF inv table y(1)] y(2) mds(2) by (simp add: stamp_update_def unstamped_def)
    ultimately show ?thesis
      using res y(1) by (cases q) (auto simp: effect_def)
  qed
  with call inv show ?thesis by (auto simp: effect_def)
qed

lemma list_all2_filter:
  assumes "list_all2 P rs xs" and "\<And>r x. P r x \<Longrightarrow> p r = q x"
  shows "list_all2 P (filter p rs) (filter q xs)"
  using assms(1) by (induction rule: list_all2_induct) (simp_all add: assms(2))

lemma client_delete:
  assumes inv: "client_inv S K st" and z: "z \<in> set (kind_view K st)"
    and call: "cl_Delete (CoreC S net K) \<lparr>do_Uid = md_Uid (cd_md K z), do_Name = []\<rparr> st = (r, st')"
  shows "client_inv S K st' \<and> kind_rest K st' = kind_rest K st \<and> r \<noteq> Panic \<and>
    effect r (\<lambda>y v. v = filter (\<lambda>q. md_Uid (cd_md K q) \<noteq> md_Uid (cd_md K z)) (kind_view K st)) (kind_view K st) (kind_view K st')"
proof -
  note D = client_invD [OF inv]
  let ?d = "\<lparr>do_Uid = md_Uid (cd_md K z), do_Name = []\<rparr>"
  let ?new = "\<lambda>y v. v = filter (\<lambda>q. md_Uid (cd_md K q) \<noteq> md_Uid (cd_md K z)) (kind_view K st)"
  obtain q s1 where h: "doDelete (sn_rsc S) (sn_call S) ?d ''core'' ''v1'' (cd_kind K) st = (q, s1)" by fastforce
  have call: "(st' = st \<or> st' = s1) \<and> (\<exists>t. r = Fail (Status (transport_code t))) \<or>
      st' = s1 \<and> r = over_grpc (go_bind q (cd_dec K))"
  proof -
    have "client_call S net (rsc_path ''core'' ''Delete'' (cd_kind K)) (Req_Delete ?d) (resp_object K) st = (r, st')"
      using call by (simp add: CoreC_def)
    from call_object [OF handle_core(5) [OF D(6)] this] show ?thesis unfolding h by simp
  qed
  have fits: "kind_fits \<lparr>go_Uid = do_Uid ?d, go_Name = do_Name ?d\<rparr> ''core'' ''v1'' (cd_kind K) st"
    using fits_by_own_uid [OF inv z] by simp
  have coh: "coherent s1" using doDelete_coherent [OF D(1,2) fits, of "sn_call S"] h by simp
  consider (none) "rs_table s1 = rs_table st" "\<not> is_ok q"
    | (row) p m where "p \<in> set (rs_table st)" "row_selected (by_uid (md_Uid (cd_md K z))) ''core'' ''v1'' (cd_kind K) p"
      "rs_table s1 = filter (\<lambda>q. rw_Uid q \<noteq> rw_Uid p) (rs_table st)"
      "\<forall>y. q = Ok y \<longrightarrow> y = (rw_Resource p)\<lparr>ob_Metadata := Some m\<rparr>"
    using doDelete_effect [OF D(1,2) fits h] by auto
  then have "(client_inv S K s1 \<and> kind_rest K s1 = kind_rest K st) \<and> effect (over_grpc (go_bind q (cd_dec K))) ?new (kind_view K st) (kind_view K s1)"
  proof cases
    case none
    then have "client_inv S K s1" "kind_view K s1 = kind_view K st" "kind_rest K s1 = kind_rest K st"
      using client_inv_table(1) [OF inv coh] client_inv_table(2,3) [of s1 st] by blast+
    with none(2) show ?thesis by (cases q) (simp_all add: effect_def)
  next
    case row
    have kind: "of_kind K p" and uid: "rw_Uid p = md_Uid (cd_md K z)"
      using row(2) coherentD(1) [OF D(1) row(1)] by (simp_all add: row_selected_ok of_kind_def)
    have inv1: "client_inv S K s1" using inv coh by (auto simp: client_inv_def stored_ok_def row(3))
    have rest: "kind_rest K s1 = kind_rest K st"
      unfolding kind_rest_def row(3) filter_filter
      by (rule filter_cong) (use coherentD(2) [OF D(1) _ row(1)] kind in auto)
    obtain w where w: "cd_dec K (rw_Resource p) = Ok w" using D(9) [OF row(1) kind] by blast
    obtain y where y: "cd_dec K ((rw_Resource p)\<lparr>ob_Metadata := Some m\<rparr>) = Ok y"
      using codecD(4) [OF D(4) w] by blast
    have "list_all2 (\<lambda>r x. (r \<in> set (rs_table st) \<and> of_kind K r) \<and> cd_dec K (rw_Resource r) = Ok x)
        (filter (\<lambda>q. rw_Uid q \<noteq> rw_Uid p) (filter (of_kind K) (rs_table st)))
        (filter (\<lambda>q. md_Uid (cd_md K q) \<noteq> md_Uid (cd_md K z)) (kind_view K st))"
      by (rule list_all2_filter [OF view_rows [OF inv]]) (use decoded_row(1) [OF inv] uid in auto)
    moreover have "filter (\<lambda>q. rw_Uid q \<noteq> rw_Uid p) (filter (of_kind K) (rs_table st)) = filter (of_kind K) (rs_table s1)"
      by (simp add: row(3) conj_commute)
    ultimately have "kind_view K s1 = filter (\<lambda>q. md_Uid (cd_md K q) \<noteq> md_Uid (cd_md K z)) (kind_view K st)"
      by (intro view_eqI) (auto elim!: list.rel_mono_strong)
    with inv1 rest row(4) y show ?thesis by (cases q) (auto simp: effect_def)
  qed
  with call inv show ?thesis by (auto simp: effect_def)
qed

interpretation core: resource_client "CoreC S net K" "cd_md K" "cd_payload K" "filter_holds K" "client_inv S K"
  "\<lambda>o'. kind_fits o' ''core'' ''v1'' (cd_kind K)" "kind_view K" "kind_rest K" for S net and K :: "('a, 'p) codec"
  by unfold_locales
    (rule fits_by_name fits_by_own_uid view_unique_keys client_get client_list client_list_reads client_create client_update client_delete;
      assumption)+

end
