(* ===== verification/ApiCommon.thy ===== *)
theory ApiCommon imports CoreClient CelEngine begin

text \<open>
  What the handlers of the API servers share: \<open>cluster/apiserver/apiserver/common/utils.go\<close> and the small
  checks of \<open>cluster/apiserver/apiserver/admin/utils.go\<close>. A request is the part of a message that the
  caller fills in, with the outcome of converting the message to a map, which only the
  validation of \<open>apivalidation\<close> looks at.
\<close>

section \<open>Requests and their environment\<close>

record 'spec api_request =
  aq_Metadata :: "Metadata option"
  aq_Spec :: "'spec option"
  aq_Map :: "(string \<times> json) list go"

text \<open>
  The caller as \<open>GetUserCtx\<close> tells it, the time, the engine for conditions, the size of a marshalled policy, and
  two functions of the libraries on text.
\<close>

record UserCtx =
  ctx_User :: "User option"
  ctx_Session :: "Session option"
  ctx_Groups :: "Group list"
  ctx_Device :: "Device option"

record api_env =
  ap_V :: validators
  ap_Now :: int
  ap_Cel :: cel_env
  ap_CelNew :: "error option"
  ap_MarshalSize :: "Policy_Spec \<Rightarrow> nat go"
  ap_GetUserCtx :: "UserCtx go"
  ap_Slug :: "string \<Rightarrow> string"
  ap_IsLowerCase :: "string \<Rightarrow> bool"

definition api_resource :: "'spec api_request \<Rightarrow> resource" where
  "api_resource req = (aq_Metadata req, aq_Map req)"

definition named_opts :: "nat \<Rightarrow> ValidateCommonOpts" where
  "named_opts parentsMax =
     \<lparr>vc_Metadata = \<lparr>vm_RequireName = True, vm_RequireUID = False, vm_ParentsMust = 0, vm_ParentsMax = parentsMax\<rparr>,
      vc_RequireStatus = False, vc_RequireData = False\<rparr>"

section \<open>Metadata\<close>

definition no_metadata :: Metadata where
  "no_metadata =
     \<lparr>md_Uid = [], md_Name = [], md_CreatedAt = None, md_UpdatedAt = None, md_DisplayName = [], md_Description = [],
      md_Labels = [], md_Tags = [], md_Annotations = [], md_PicURL = [], md_ResourceVersion = [],
      md_LastResourceVersion = [], md_ActorRef = None, md_ActorOperation = [], md_IsSystem = False, md_SpecLabels = [],
      md_IsUserHidden = False, md_IsSystemHidden = False, md_SystemLabels = []\<rparr>"

definition MetadataFrom :: "Metadata \<Rightarrow> Metadata" where
  "MetadataFrom req =
     no_metadata\<lparr>md_Name := md_Name req, md_DisplayName := md_DisplayName req, md_Description := md_Description req,
       md_Labels := md_Labels req, md_Annotations := md_Annotations req, md_Tags := md_Tags req\<rparr>"

definition MetadataUpdate :: "Metadata \<Rightarrow> Metadata \<Rightarrow> Metadata" where
  "MetadataUpdate to from =
     to\<lparr>md_DisplayName := md_DisplayName from, md_Description := md_Description from, md_Labels := md_Labels from,
        md_Annotations := md_Annotations from, md_SpecLabels := md_SpecLabels from, md_PicURL := md_PicURL from,
        md_Tags := md_Tags from\<rparr>"

definition IsMetadataEqual :: "Metadata \<Rightarrow> Metadata \<Rightarrow> bool" where
  "IsMetadataEqual a b \<longleftrightarrow>
     md_DisplayName a = md_DisplayName b \<and> md_Description a = md_Description b \<and> map_of (md_Labels a) = map_of (md_Labels b) \<and>
     map_of (md_Annotations a) = map_of (md_Annotations b) \<and> md_PicURL a = md_PicURL b \<and> md_Tags a = md_Tags b"

section \<open>Options\<close>

definition api_rgxName :: "string \<Rightarrow> bool" where
  "api_rgxName s \<longleftrightarrow>
     2 \<le> length s \<and> length s \<le> 64 \<and> lower_alnum (hd s) \<and> lower_alnum (last s) \<and> list_all name_char (butlast (tl s))"

definition CheckGetOrDeleteOptions :: "validators \<Rightarrow> GetOptions \<Rightarrow> unit go" where
  "CheckGetOrDeleteOptions V req =
     go_bind (reject_if (go_Name req \<noteq> [] \<and> \<not> api_rgxName (go_Name req)) InvalidArg) (\<lambda>_.
     go_bind (reject_if (go_Uid req \<noteq> [] \<and> \<not> IsUUIDv4 V (go_Uid req)) InvalidArg) (\<lambda>_.
     go_bind (reject_if (go_Uid req \<noteq> [] \<and> go_Name req \<noteq> []) InvalidArg) (\<lambda>_.
     reject_if (go_Uid req = [] \<and> go_Name req = []) InvalidArg)))"

definition IsNameValid :: "string \<Rightarrow> bool" where
  "IsNameValid arg \<longleftrightarrow> api_rgxName arg"

definition IsNameValidOptional :: "string \<Rightarrow> bool" where
  "IsNameValidOptional arg = (if arg = [] then True else api_rgxName arg)"

section \<open>Small checks\<close>

text \<open>A new engine has an empty cache.\<close>

definition checkCELExpression :: "api_env \<Rightarrow> string \<Rightarrow> unit go" where
  "checkCELExpression A arg =
     (case ap_CelNew A of
        Some e \<Rightarrow> Fail (InternalWithErr e)
      | None \<Rightarrow> map_err InvalidArgWithErr (fst (AddPolicy (ap_Cel A) arg Map.empty)))"

definition getNamespace :: "string \<Rightarrow> string go" where
  "getNamespace name =
     (let args = Split name CHR ''.'' in
      if length args = 1 then Ok ''default''
      else if length args = 2 then Ok (args ! 1)
      else Fail InvalidArg)"

definition validateGenStr :: "validators \<Rightarrow> string \<Rightarrow> bool \<Rightarrow> unit go" where
  "validateGenStr V arg required =
     (if arg = [] then reject_if required InvalidArg
      else go_bind (reject_if (256 < length arg) InvalidArg) (\<lambda>_. reject_if (\<not> IsASCII V arg) InvalidArg))"

text \<open>The owner of a secret names it; an owner that is nil is refused.\<close>

definition validateSecretOwner ::
  "('s, Secret) client \<Rightarrow> string option \<Rightarrow> 's \<Rightarrow> unit go \<times> 's" where
  "validateSecretOwner C secOwner s =
     (case secOwner of
        None \<Rightarrow> (Fail InvalidArg, s)
      | Some fromSecret \<Rightarrow>
          if fromSecret = [] then (Fail InvalidArg, s)
          else
            (case cl_Get C (by_name fromSecret) s of
               (Ok _, s') \<Rightarrow> (Ok (), s')
             | (Fail e, s') \<Rightarrow>
                 (Fail (if IsNotFound e \<or> IsInvalidArg e then InvalidArg else InternalWithErr e), s')
             | (Panic, s') \<Rightarrow> (Panic, s')))"

section \<open>What the validation of a named resource gives\<close>

lemma validate_named:
  assumes "ValidateCommon V (Some (api_resource req)) (Some (named_opts n)) = Ok u"
  shows "\<exists>md. aq_Metadata req = Some md \<and> md_Name md \<noteq> [] \<and> validateName (md_Name md) 0 n = Ok ()"
  using assms
  by (cases "aq_Metadata req")
    (auto simp: ValidateCommon_def api_resource_def Let_def named_opts_def ValidateMetadata_def with_invalid_arg_def
      doValidateMetadata_def split: go.splits)

lemma MetadataUpdate_simps [simp]:
  "md_Uid (MetadataUpdate to from) = md_Uid to" "md_Name (MetadataUpdate to from) = md_Name to"
  "md_IsSystem (MetadataUpdate to from) = md_IsSystem to" "md_Name (MetadataFrom md) = md_Name md"
  by (simp_all add: MetadataUpdate_def MetadataFrom_def)

text \<open>A name that the API accepts is one that the resource server accepts.\<close>

lemma NameMain_rgxName: "NameMain s \<Longrightarrow> rgxName s"
  by (auto simp: NameMain_def rgxName_def lower_alnum_def list_all_iff)

lemma Split_short: "list_all NameMain (Split arg c) \<Longrightarrow> 2 \<le> length arg"
proof -
  assume a: "list_all NameMain (Split arg c)"
  show ?thesis
  proof (cases arg)
    case (Cons x xs)
    then show ?thesis using a by (cases xs) (auto simp: NameMain_def split: if_splits)
  qed (use a in \<open>simp add: NameMain_def\<close>)
qed

lemma names_fit:
  assumes "length (Split n CHR ''.'') \<le> 7" "list_all NameMain (Split n CHR ''.'')" "length n \<le> 128"
  shows "checkName n = Ok ()"
proof -
  have "go_each (\<lambda>a. reject_if (\<not> rgxName a) (Errorf ''Invalid name'')) (Split n CHR ''.'') = Ok ()"
    using assms(2) NameMain_rgxName by (auto simp: list_all_iff)
  then show ?thesis
    using assms Split_short [OF assms(2)] by (auto simp: checkName_def reject_if_def MaxNameSubArgs_def Let_def)
qed

lemma Split_no_dot: "c \<notin> set s \<Longrightarrow> Split s c = [s]"
  by (induction s) auto

lemma api_name_fits: "validateName n 0 m = Ok u \<Longrightarrow> m \<le> 6 \<Longrightarrow> checkName n = Ok ()"
proof (cases m)
  case 0
  assume "validateName n 0 m = Ok u"
  with 0 have n: "NameMain n" "length n \<le> 128" by (auto simp: validateName_def)
  have "\<exists>a b c. n = a # b @ [c]"
    using n(1) by (cases n; cases "tl n" rule: rev_cases) (auto simp: NameMain_def)
  then obtain a b c where abc: "n = a # b @ [c]" by blast
  have "CHR ''.'' \<notin> set n"
    using n(1) unfolding abc
    by (auto simp: NameMain_def list_all_iff name_char_def lower_alnum_def lower_def decimal_def)
  then have "Split n CHR ''.'' = [n]" by (rule Split_no_dot)
  with n show ?thesis by (intro names_fit) simp_all
next
  case (Suc k)
  assume "validateName n 0 m = Ok u" "m \<le> 6"
  with Suc show ?thesis by (intro names_fit) (auto simp: validateName_parents_iff)
qed

end
