(* ===== verification/PolicyAdmin.thy ===== *)
theory PolicyAdmin imports ApiCommon PolicyDecision begin

text \<open>
  \<open>cluster/apiserver/apiserver/admin/policy.go\<close>: the validation of policies and of the owners of policies, and the
  handlers for the kind Policy over a client of the resource server.
\<close>

section \<open>Validation\<close>

definition priorityMaxVal :: int where
  "priorityMaxVal = 4"

definition MaxPolicyParents :: nat where
  "MaxPolicyParents = 5"

fun validate_condition :: "api_env \<Rightarrow> Condition \<Rightarrow> unit go" where
  "validate_condition A (Condition_All cs) =
     go_bind (reject_if (length cs = 0) InvalidArg) (\<lambda>_.
     go_bind (reject_if (100 < length cs) InvalidArg) (\<lambda>_. go_each (validate_condition A) cs))"
| "validate_condition A (Condition_Any cs) =
     go_bind (reject_if (length cs = 0) InvalidArg) (\<lambda>_.
     go_bind (reject_if (100 < length cs) InvalidArg) (\<lambda>_. go_each (validate_condition A) cs))"
| "validate_condition A (Condition_Match exp) = checkCELExpression A exp"
| "validate_condition A (Condition_MatchAny b) = Ok ()"
| "validate_condition A (Condition_None cs) =
     go_bind (reject_if (length cs = 0) InvalidArg) (\<lambda>_.
     go_bind (reject_if (100 < length cs) InvalidArg) (\<lambda>_. go_each (validate_condition A) cs))"
| "validate_condition A (Condition_Not exp) = checkCELExpression A exp"
| "validate_condition A (Condition_Opa s) = Ok ()"
| "validate_condition A Condition_Unset = Fail InvalidArg"

definition validateCondition :: "api_env \<Rightarrow> Condition option \<Rightarrow> unit go" where
  "validateCondition A c = (case c of None \<Rightarrow> Fail InvalidArg | Some c \<Rightarrow> validate_condition A c)"

definition validate_rule :: "api_env \<Rightarrow> Rule \<Rightarrow> unit go" where
  "validate_rule A r =
     go_bind (if ru_Name r \<noteq> [] then ValidateName (ru_Name r) 0 0 else Ok ()) (\<lambda>_.
     go_bind (reject_if (ru_Effect r = EFFECT_UNKNOWN) InvalidArg) (\<lambda>_.
     go_bind (reject_if (priorityMaxVal < sint (ru_Priority r)) InvalidArg) (\<lambda>_.
     go_bind (reject_if (sint (ru_Priority r) < - priorityMaxVal) InvalidArg) (\<lambda>_.
     validateCondition A (ru_Condition r)))))"

definition validate_enforcement :: "api_env \<Rightarrow> EnforcementRule \<Rightarrow> unit go" where
  "validate_enforcement A r =
     go_bind (reject_if (en_Effect r = ENFORCEMENT_UNKNOWN) InvalidArg) (\<lambda>_. validateCondition A (en_Condition r))"

definition validatePolicySpec :: "api_env \<Rightarrow> Policy_Spec option \<Rightarrow> unit go" where
  "validatePolicySpec A po =
     (case po of
        None \<Rightarrow> Fail InvalidArg
      | Some p \<Rightarrow>
          go_bind (ValidateAttrs (ap_V A) (ps_Attrs p)) (\<lambda>_.
          go_bind (map_err (\<lambda>_. InvalidArg) (ap_MarshalSize A p)) (\<lambda>n.
          go_bind (reject_if (100000 < n) InvalidArg) (\<lambda>_.
          go_bind (reject_if (100 < length (ps_Rules p)) InvalidArg) (\<lambda>_.
          go_bind (reject_if (100 < length (ps_EnforcementRules p)) InvalidArg) (\<lambda>_.
          go_bind (go_each (validate_rule A) (ps_Rules p)) (\<lambda>_.
          go_each (validate_enforcement A) (ps_EnforcementRules p))))))))"

definition validatePolicy :: "api_env \<Rightarrow> Policy_Spec api_request \<Rightarrow> unit go" where
  "validatePolicy A req =
     go_bind (ValidateCommon (ap_V A) (Some (api_resource req)) (Some (named_opts MaxPolicyParents))) (\<lambda>_.
     map_err InvalidArgWithErr (validatePolicySpec A (aq_Spec req)))"

section \<open>Owners of policies\<close>

definition owner_policy :: "('s, Policy) client \<Rightarrow> string \<Rightarrow> 's \<Rightarrow> unit go \<times> 's" where
  "owner_policy C pol s =
     go_seq (map_err InvalidArgWithErr (ValidateName pol 0 MaxPolicyParents), s) (\<lambda>_ s.
     go_seq (on_err (\<lambda>e. if IsNotFound e then InvalidArg else InternalWithErr e) (cl_Get C (by_name pol) s))
       (\<lambda>_ s. (Ok (), s)))"

definition owner_inline :: "api_env \<Rightarrow> InlinePolicy \<Rightarrow> unit go" where
  "owner_inline A pol =
     go_bind (if ip_Name pol \<noteq> [] then map_err InvalidArgWithErr (ValidateName (ip_Name pol) 0 0) else Ok ()) (\<lambda>_.
     validatePolicySpec A (ip_Spec pol))"

fun go_each_st :: "('a \<Rightarrow> 's \<Rightarrow> unit go \<times> 's) \<Rightarrow> 'a list \<Rightarrow> 's \<Rightarrow> unit go \<times> 's" where
  "go_each_st f [] s = (Ok (), s)"
| "go_each_st f (x # xs) s = go_seq (f x s) (\<lambda>_ s. go_each_st f xs s)"

definition validatePolicyOwner ::
  "api_env \<Rightarrow> ('s, Policy) client \<Rightarrow> Authorization option \<Rightarrow> 's \<Rightarrow> unit go \<times> 's" where
  "validatePolicyOwner A C owner s =
     (let policies = (case owner of None \<Rightarrow> [] | Some a \<Rightarrow> az_Policies a);
          inlinePolices = (case owner of None \<Rightarrow> [] | Some a \<Rightarrow> az_InlinePolicies a) in
      go_seq (reject_if (100 < length policies) InvalidArg, s) (\<lambda>_ s.
      go_seq (reject_if (100 < length inlinePolices) InvalidArg, s) (\<lambda>_ s.
      go_seq (go_each_st (owner_policy C) policies s) (\<lambda>_ s.
      (go_each (owner_inline A) inlinePolices, s)))))"

section \<open>Handlers\<close>

definition policy_reference :: "Policy \<Rightarrow> ObjectReference option" where
  "policy_reference p = GetObjectReference (pol_ApiVersion p) (pol_Kind p) (Some (pol_Metadata p))"

definition new_policy :: "Metadata \<Rightarrow> Policy_Spec \<Rightarrow> Policy" where
  "new_policy md spec =
     \<lparr>pol_ApiVersion = [], pol_Kind = [], pol_Metadata = MetadataFrom md, pol_Spec = spec, pol_ParentPolicyRef = None\<rparr>"

definition with_parent ::
  "('s, Policy) client \<Rightarrow> string list \<Rightarrow> Policy \<Rightarrow> 's \<Rightarrow> Policy go \<times> 's" where
  "with_parent C policyNames item s =
     (if 1 < length policyNames then
        go_seq (on_err (\<lambda>e. if \<not> IsNotFound e then InternalWithErr e else InvalidArg)
                  (cl_Get C (by_name (policyNames ! 1)) s)) (\<lambda>parentPolicy s.
        (Ok (item\<lparr>pol_ParentPolicyRef := policy_reference parentPolicy\<rparr>), s))
      else (Ok item, s))"

definition admin_CreatePolicy ::
  "api_env \<Rightarrow> ('s, Policy) client \<Rightarrow> Policy_Spec api_request \<Rightarrow> 's \<Rightarrow> Policy go \<times> 's" where
  "admin_CreatePolicy A C req s =
     go_seq (map_err InvalidArgWithErr (validatePolicy A req), s) (\<lambda>_ s.
     go_seq (deref (aq_Metadata req), s) (\<lambda>md s.
     go_seq (must_be_absent InternalWithErr (cl_Get C (by_name (md_Name md)) s)) (\<lambda>_ s.
     go_seq (map_err InvalidArgWithErr (GetNameAndParents (md_Name md)), s) (\<lambda>policyNames s.
     go_seq (deref (aq_Spec req), s) (\<lambda>spec s.
     go_seq (with_parent C policyNames (new_policy md spec) s) (\<lambda>item s.
     go_seq (map_err (\<lambda>_. InvalidArg) (validatePolicySpec A (Some (pol_Spec item))), s) (\<lambda>_ s.
     cl_Create C item s)))))))"

definition admin_UpdatePolicy ::
  "api_env \<Rightarrow> ('s, Policy) client \<Rightarrow> Policy_Spec api_request \<Rightarrow> 's \<Rightarrow> Policy go \<times> 's" where
  "admin_UpdatePolicy A C req s =
     go_seq (map_err InvalidArgWithErr (validatePolicy A req), s) (\<lambda>_ s.
     go_seq (deref (aq_Metadata req), s) (\<lambda>md s.
     go_seq (cl_Get C (by_name (md_Name md)) s) (\<lambda>item s.
     go_seq (CheckIsSystem (Some (pol_Metadata item)), s) (\<lambda>_ s.
     go_seq (deref (aq_Spec req), s) (\<lambda>spec s.
     let item = item\<lparr>pol_Metadata := MetadataUpdate (pol_Metadata item) md, pol_Spec := spec\<rparr> in
     go_seq (map_err (\<lambda>_. InvalidArg) (validatePolicySpec A (Some (pol_Spec item))), s) (\<lambda>_ s.
     cl_Update C item s))))))"

definition admin_ListPolicy ::
  "('s, Policy) client \<Rightarrow> CommonListOptions option \<Rightarrow> 's \<Rightarrow> Policy list go \<times> 's" where
  "admin_ListPolicy C common s = cl_List C (GetPublicListOptions common []) s"

definition children_filter :: "string \<Rightarrow> Filter" where
  "children_filter uid = FilterFieldEQValStr ''status.parentPolicyRef.uid'' uid"

definition parents_opts :: "nat \<Rightarrow> CheckGetOptionsOpts" where
  "parents_opts n = \<lparr>cg_HasName = False, cg_HasUID = False, cg_ParentsMax = n, cg_ParentsMust = 0\<rparr>"

definition admin_DeletePolicy ::
  "api_env \<Rightarrow> ('s, Policy) client \<Rightarrow> DeleteOptions \<Rightarrow> 's \<Rightarrow> unit go \<times> 's" where
  "admin_DeletePolicy A C req s =
     go_seq (CheckDeleteOptions (ap_V A) (Some req) (Some (parents_opts MaxPolicyParents)), s) (\<lambda>_ s.
     go_seq (cl_Get C \<lparr>go_Uid = do_Uid req, go_Name = do_Name req\<rparr> s) (\<lambda>g s.
     go_seq (CheckIsSystem (Some (pol_Metadata g)), s) (\<lambda>_ s.
     go_seq (on_err K8sInternal
       (cl_List C (no_list_options\<lparr>lo_Filters := [children_filter (md_Uid (pol_Metadata g))]\<rparr>) s)) (\<lambda>childPolicyList s.
     go_seq (reject_if (0 < length childPolicyList) InvalidArg, s) (\<lambda>_ s.
     go_seq (on_err K8sInternal (cl_Delete C \<lparr>do_Uid = md_Uid (pol_Metadata g), do_Name = []\<rparr> s)) (\<lambda>_ s.
     (Ok (), s)))))))"

definition admin_GetPolicy :: "api_env \<Rightarrow> ('s, Policy) client \<Rightarrow> GetOptions \<Rightarrow> 's \<Rightarrow> Policy go \<times> 's" where
  "admin_GetPolicy A C req s =
     go_seq (CheckGetOptions (ap_V A) (Some req) (Some (parents_opts MaxPolicyParents)), s) (\<lambda>_ s.
     on_err K8sNotFoundOrInternalWithErr (cl_Get C req s))"

end
