(* ===== verification/AdminDirectory.thy ===== *)
theory AdminDirectory imports PolicyAdmin "HOL-Library.AList" begin

text \<open>
  \<open>cluster/apiserver/apiserver/admin\<close>: the handlers for groups, namespaces, users and devices
  (\<open>group.go\<close>, \<open>namespace.go\<close>, \<open>user.go\<close>, \<open>device.go\<close>), over the clients of the kinds that each of them uses.
\<close>

section \<open>Groups\<close>

record Group_Spec =
  gs_Attrs :: "json option"
  gs_Authorization :: "Authorization option"

text \<open>What the validations of groups and of namespaces have in common.\<close>

definition validate_owner_spec ::
  "api_env \<Rightarrow> ('s, Policy) client \<Rightarrow> 'spec api_request \<Rightarrow> ('spec \<Rightarrow> json option) \<Rightarrow> ('spec \<Rightarrow> Authorization option) \<Rightarrow> 's \<Rightarrow>
   unit go \<times> 's"
where
  "validate_owner_spec A Cp req attrs auth s =
     go_seq (ValidateCommon (ap_V A) (Some (api_resource req)) (Some (named_opts 0)), s) (\<lambda>_ s.
     case aq_Spec req of
       None \<Rightarrow> (Fail InvalidArg, s)
     | Some sp \<Rightarrow> go_seq (ValidateAttrs (ap_V A) (attrs sp), s) (\<lambda>_ s. validatePolicyOwner A Cp (auth sp) s))"

definition validateGroup :: "api_env \<Rightarrow> ('s, Policy) client \<Rightarrow> Group_Spec api_request \<Rightarrow> 's \<Rightarrow> unit go \<times> 's" where
  "validateGroup A Cp req s = validate_owner_spec A Cp req gs_Attrs gs_Authorization s"

definition new_group :: "Metadata \<Rightarrow> Group_Spec \<Rightarrow> Group" where
  "new_group md sp =
     \<lparr>gr_ApiVersion = [], gr_Kind = [], gr_Metadata = MetadataFrom md, gr_Authorization = gs_Authorization sp, gr_Attrs = gs_Attrs sp\<rparr>"

definition admin_CreateGroup ::
  "api_env \<Rightarrow> ('s, Policy) client \<Rightarrow> ('s, Group) client \<Rightarrow> Group_Spec api_request \<Rightarrow> 's \<Rightarrow> Group go \<times> 's" where
  "admin_CreateGroup A Cp C req s =
     go_seq (on_err InvalidArgWithErr (validateGroup A Cp req s)) (\<lambda>_ s.
     go_seq (deref (aq_Metadata req), s) (\<lambda>md s.
     go_seq (must_be_absent K8sInternal (cl_Get C (by_name (md_Name md)) s)) (\<lambda>_ s.
     go_seq (deref (aq_Spec req), s) (\<lambda>sp s.
     on_err InternalWithErr (cl_Create C (new_group md sp) s)))))"

definition admin_UpdateGroup ::
  "api_env \<Rightarrow> ('s, Policy) client \<Rightarrow> ('s, Group) client \<Rightarrow> Group_Spec api_request \<Rightarrow> 's \<Rightarrow> Group go \<times> 's" where
  "admin_UpdateGroup A Cp C req s =
     go_seq (on_err InvalidArgWithErr (validateGroup A Cp req s)) (\<lambda>_ s.
     go_seq (deref (aq_Metadata req), s) (\<lambda>md s.
     go_seq (cl_Get C (by_name (md_Name md)) s) (\<lambda>item s.
     go_seq (CheckIsSystem (Some (gr_Metadata item)), s) (\<lambda>_ s.
     go_seq (deref (aq_Spec req), s) (\<lambda>sp s.
     on_err K8sInternal
       (cl_Update C (item\<lparr>gr_Metadata := MetadataUpdate (gr_Metadata item) md, gr_Authorization := gs_Authorization sp,
          gr_Attrs := gs_Attrs sp\<rparr>) s))))))"

definition admin_ListGroup :: "('s, Group) client \<Rightarrow> CommonListOptions option \<Rightarrow> 's \<Rightarrow> Group list go \<times> 's" where
  "admin_ListGroup C common s = cl_List C (GetPublicListOptions common []) s"

definition members_filter :: "string \<Rightarrow> Filter" where
  "members_filter n = FilterFieldIncludesValStr ''spec.groups'' n"

definition admin_DeleteGroup ::
  "api_env \<Rightarrow> ('s, User) client \<Rightarrow> ('s, Group) client \<Rightarrow> DeleteOptions \<Rightarrow> 's \<Rightarrow> unit go \<times> 's" where
  "admin_DeleteGroup A Cu C req s =
     go_seq (CheckDeleteOptions (ap_V A) (Some req) None, s) (\<lambda>_ s.
     go_seq (cl_Get C \<lparr>go_Uid = do_Uid req, go_Name = do_Name req\<rparr> s) (\<lambda>g s.
     go_seq (CheckIsSystem (Some (gr_Metadata g)), s) (\<lambda>_ s.
     go_seq (on_err K8sInternal
       (cl_List Cu (no_list_options\<lparr>lo_Filters := [members_filter (md_Name (gr_Metadata g))]\<rparr>) s)) (\<lambda>usrs s.
     go_seq (reject_if (0 < length usrs) InvalidArg, s) (\<lambda>_ s.
     go_seq (on_err K8sInternal (cl_Delete C \<lparr>do_Uid = md_Uid (gr_Metadata g), do_Name = []\<rparr> s)) (\<lambda>_ s.
     (Ok (), s)))))))"

definition admin_GetGroup :: "api_env \<Rightarrow> ('s, Group) client \<Rightarrow> GetOptions \<Rightarrow> 's \<Rightarrow> Group go \<times> 's" where
  "admin_GetGroup A C req s =
     go_seq (CheckGetOptions (ap_V A) (Some req) None, s) (\<lambda>_ s. on_err K8sNotFoundOrInternalWithErr (cl_Get C req s))"

section \<open>Namespaces\<close>

record Namespace_Spec =
  nas_Attrs :: "json option"
  nas_Authorization :: "Authorization option"

definition validateNamespace :: "api_env \<Rightarrow> ('s, Policy) client \<Rightarrow> Namespace_Spec api_request \<Rightarrow> 's \<Rightarrow> unit go \<times> 's" where
  "validateNamespace A Cp req s = validate_owner_spec A Cp req nas_Attrs nas_Authorization s"

definition checkInvalidServiceNamespaceNames :: "string \<Rightarrow> unit go" where
  "checkInvalidServiceNamespaceNames arg =
     go_each (\<lambda>prefix. reject_if (HasPrefix arg prefix) InvalidArg) [''octelium'', ''local'']"

definition new_namespace :: "Metadata \<Rightarrow> Namespace_Spec \<Rightarrow> Namespace" where
  "new_namespace md sp =
     \<lparr>na_ApiVersion = [], na_Kind = [], na_Metadata = MetadataFrom md, na_Authorization = nas_Authorization sp,
      na_Attrs = nas_Attrs sp\<rparr>"

text \<open>A lookup of the Service that must fail because there is none; its other errors are passed on.\<close>

definition no_default_service :: "('s, Service) client \<Rightarrow> string \<Rightarrow> 's \<Rightarrow> unit go \<times> 's" where
  "no_default_service Cs name s =
     (case cl_Get Cs (by_name (name @ ''.default'')) s of
        (Ok _, s) \<Rightarrow> (Fail InvalidArg, s)
      | (Fail e, s) \<Rightarrow> (if \<not> IsNotFound e then Fail e else Ok (), s)
      | (Panic, s) \<Rightarrow> (Panic, s))"

definition admin_CreateNamespace ::
  "api_env \<Rightarrow> ('s, Policy) client \<Rightarrow> ('s, Service) client \<Rightarrow> ('s, Namespace) client \<Rightarrow> Namespace_Spec api_request \<Rightarrow> 's \<Rightarrow>
   Namespace go \<times> 's"
where
  "admin_CreateNamespace A Cp Cs C req s =
     go_seq (on_err InvalidArgWithErr (validateNamespace A Cp req s)) (\<lambda>_ s.
     go_seq (deref (aq_Metadata req), s) (\<lambda>md s.
     go_seq (checkInvalidServiceNamespaceNames (md_Name md), s) (\<lambda>_ s.
     go_seq (no_default_service Cs (md_Name md) s) (\<lambda>_ s.
     go_seq (must_be_absent id (cl_Get C (by_name (md_Name md)) s)) (\<lambda>_ s.
     go_seq (deref (aq_Spec req), s) (\<lambda>sp s.
     on_err InternalWithErr (cl_Create C (new_namespace md sp) s)))))))"

definition admin_UpdateNamespace ::
  "api_env \<Rightarrow> ('s, Policy) client \<Rightarrow> ('s, Namespace) client \<Rightarrow> Namespace_Spec api_request \<Rightarrow> 's \<Rightarrow> Namespace go \<times> 's" where
  "admin_UpdateNamespace A Cp C req s =
     go_seq (on_err InvalidArgWithErr (validateNamespace A Cp req s)) (\<lambda>_ s.
     go_seq (deref (aq_Metadata req), s) (\<lambda>md s.
     go_seq (on_err K8sNotFoundOrInternalWithErr (cl_Get C (by_name (md_Name md)) s)) (\<lambda>item s.
     go_seq (CheckIsSystem (Some (na_Metadata item)), s) (\<lambda>_ s.
     go_seq (deref (aq_Spec req), s) (\<lambda>sp s.
     on_err K8sInternal
       (cl_Update C (item\<lparr>na_Metadata := MetadataUpdate (na_Metadata item) md, na_Authorization := nas_Authorization sp,
          na_Attrs := nas_Attrs sp\<rparr>) s))))))"

definition admin_DeleteNamespace :: "api_env \<Rightarrow> ('s, Namespace) client \<Rightarrow> DeleteOptions \<Rightarrow> 's \<Rightarrow> unit go \<times> 's" where
  "admin_DeleteNamespace A C req s =
     go_seq (CheckDeleteOptions (ap_V A) (Some req) None, s) (\<lambda>_ s.
     go_seq (on_err K8sNotFoundOrInternalWithErr (cl_Get C \<lparr>go_Uid = do_Uid req, go_Name = do_Name req\<rparr> s)) (\<lambda>ns s.
     go_seq (CheckIsSystem (Some (na_Metadata ns)), s) (\<lambda>_ s.
     go_seq (on_err InternalWithErr (cl_Delete C \<lparr>do_Uid = md_Uid (na_Metadata ns), do_Name = []\<rparr> s)) (\<lambda>_ s.
     (Ok (), s)))))"

definition admin_ListNamespace :: "('s, Namespace) client \<Rightarrow> CommonListOptions option \<Rightarrow> 's \<Rightarrow> Namespace list go \<times> 's" where
  "admin_ListNamespace C common s = cl_List C (GetPublicListOptions common []) s"

text \<open>A resource that is hidden by the system is not shown.\<close>

definition shown :: "('a \<Rightarrow> Metadata) \<Rightarrow> 'a go \<times> 's \<Rightarrow> 'a go \<times> 's" where
  "shown md r = go_seq r (\<lambda>x s. go_seq (CheckIsSystemHidden (Some (md x)), s) (\<lambda>_ s. (Ok x, s)))"

definition admin_GetNamespace :: "api_env \<Rightarrow> ('s, Namespace) client \<Rightarrow> GetOptions \<Rightarrow> 's \<Rightarrow> Namespace go \<times> 's" where
  "admin_GetNamespace A C req s =
     go_seq (CheckGetOptions (ap_V A) (Some req) None, s) (\<lambda>_ s.
     shown na_Metadata (on_err K8sNotFoundOrInternalWithErr (cl_Get C req s)))"

section \<open>Users\<close>

definition validate_email :: "api_env \<Rightarrow> User_Spec \<Rightarrow> unit go" where
  "validate_email A sp =
     (if us_Email sp = [] then Ok ()
      else
        go_bind (reject_if (us_Type sp \<noteq> HUMAN) InvalidArg) (\<lambda>_.
        go_bind (reject_if (\<not> IsEmail (ap_V A) (us_Email sp)) InvalidArg) (\<lambda>_.
        go_bind (reject_if (\<not> IsASCII (ap_V A) (us_Email sp)) InvalidArg) (\<lambda>_.
        go_bind (reject_if (\<not> ap_IsLowerCase A (us_Email sp)) InvalidArg) (\<lambda>_.
        reject_if (150 < length (us_Email sp)) InvalidArg)))))"

definition validate_identities :: "User_Spec \<Rightarrow> unit go" where
  "validate_identities sp =
     (case us_Authentication sp of
        None \<Rightarrow> Ok ()
      | Some ids \<Rightarrow>
          go_bind (reject_if (100 < length ids) InvalidArg) (\<lambda>_.
          go_each (\<lambda>acc. go_bind (reject_if (id_Identifier acc = []) InvalidArg) (\<lambda>_.
            reject_if (id_IdentityProvider acc = []) InvalidArg)) ids))"

definition validate_user_session :: "User_Spec \<Rightarrow> unit go" where
  "validate_user_session sp =
     (case us_Session sp of
        None \<Rightarrow> Ok ()
      | Some ss \<Rightarrow> go_bind (ValidateDuration (uss_ClientDuration ss)) (\<lambda>_. ValidateDuration (uss_ClientlessDuration ss)))"

definition validateUser :: "api_env \<Rightarrow> ('s, Policy) client \<Rightarrow> User_Spec api_request \<Rightarrow> 's \<Rightarrow> unit go \<times> 's" where
  "validateUser A Cp req s =
     go_seq (ValidateCommon (ap_V A) (Some (api_resource req)) (Some (named_opts 0)), s) (\<lambda>_ s.
     case aq_Spec req of
       None \<Rightarrow> (Fail InvalidArg, s)
     | Some sp \<Rightarrow>
         go_seq (ValidateAttrs (ap_V A) (us_Attrs sp), s) (\<lambda>_ s.
         go_seq (reject_if (us_Type sp = USER_TYPE_UNKNOWN) InvalidArg, s) (\<lambda>_ s.
         go_seq (validate_email A sp, s) (\<lambda>_ s.
         go_seq (validate_identities sp, s) (\<lambda>_ s.
         go_seq (go_each (\<lambda>g. reject_if (\<not> NameMain g) InvalidArg) (us_Groups sp), s) (\<lambda>_ s.
         go_seq (validate_user_session sp, s) (\<lambda>_ s.
         validatePolicyOwner A Cp (us_Authorization sp) s)))))))"

record 's user_clients =
  uc_Policy :: "('s, Policy) client"
  uc_Group :: "('s, Group) client"
  uc_User :: "('s, User) client"
  uc_IdP :: "('s, IdentityProvider) client"

text \<open>A policy that cannot be looked up for another reason than its absence is accepted.\<close>

definition user_policy :: "'s user_clients \<Rightarrow> string \<Rightarrow> 's \<Rightarrow> unit go \<times> 's" where
  "user_policy C p s =
     (case cl_Get (uc_Policy C) (by_name p) s of
        (Ok _, s) \<Rightarrow> (Ok (), s)
      | (Fail e, s) \<Rightarrow> (reject_if (IsNotFound e) InvalidArg, s)
      | (Panic, s) \<Rightarrow> (Panic, s))"

definition missing_arg :: "error \<Rightarrow> error" where
  "missing_arg e = (if IsNotFound e then InvalidArg else InternalWithErr e)"

definition user_group :: "'s user_clients \<Rightarrow> string \<Rightarrow> 's \<Rightarrow> unit go \<times> 's" where
  "user_group C g s = go_seq (on_err missing_arg (cl_Get (uc_Group C) (by_name g) s)) (\<lambda>_ s. (Ok (), s))"

text \<open>The first user with a label must be the one that is written.\<close>

definition label_owner :: "'s user_clients \<Rightarrow> string \<Rightarrow> string \<Rightarrow> string \<Rightarrow> 's \<Rightarrow> unit go \<times> 's" where
  "label_owner C name key val s =
     go_seq (on_err InternalWithErr (cl_List (uc_User C) (no_list_options\<lparr>lo_SpecLabels := [(key, val)]\<rparr>) s)) (\<lambda>usrs s.
     (case usrs of [] \<Rightarrow> Ok () | u # _ \<Rightarrow> reject_if (md_Name (ur_Metadata u) \<noteq> name) InvalidArg, s))"

fun user_identities ::
  "api_env \<Rightarrow> 's user_clients \<Rightarrow> string \<Rightarrow> Identity list \<Rightarrow> (string \<times> string) list \<Rightarrow> 's \<Rightarrow> (string \<times> string) list go \<times> 's"
where
  "user_identities A C name [] labels s = (Ok labels, s)"
| "user_identities A C name (acc # ids) labels s =
     (let key = ''auth-'' @ id_IdentityProvider acc; val = ap_Slug A (id_Identifier acc) in
      go_seq (on_err missing_arg (cl_Get (uc_IdP C) (by_name (id_IdentityProvider acc)) s)) (\<lambda>_ s.
      go_seq (label_owner C name key val s) (\<lambda>_ s.
      user_identities A C name ids (AList.update key val labels) s)))"

definition CheckAndSetUser :: "api_env \<Rightarrow> 's user_clients \<Rightarrow> User \<Rightarrow> 's \<Rightarrow> User go \<times> 's" where
  "CheckAndSetUser A C req s =
     (let sp = ur_Spec req; name = md_Name (ur_Metadata req) in
      go_seq (case us_Authorization sp of
                None \<Rightarrow> (Ok (), s)
              | Some az \<Rightarrow>
                  go_seq (go_each (\<lambda>ip. validatePolicySpec A (ip_Spec ip)) (az_InlinePolicies az), s) (\<lambda>_ s.
                  go_each_st (user_policy C) (az_Policies az) s)) (\<lambda>_ s.
      go_seq (go_each_st (user_group C) (us_Groups sp) s) (\<lambda>_ s.
      go_seq (if us_Email sp \<noteq> [] then label_owner C name ''email'' (ap_Slug A (us_Email sp)) s else (Ok (), s)) (\<lambda>_ s.
      go_seq (case us_Authentication sp of None \<Rightarrow> (Ok [], s) | Some ids \<Rightarrow> user_identities A C name ids [] s) (\<lambda>labels s.
      (Ok (req\<lparr>ur_Metadata := (ur_Metadata req)\<lparr>md_SpecLabels := labels\<rparr>\<rparr>), s))))))"

definition new_user :: "Metadata \<Rightarrow> User_Spec \<Rightarrow> User" where
  "new_user md sp =
     \<lparr>ur_ApiVersion = [], ur_Kind = [], ur_Metadata = MetadataFrom md, ur_Spec = sp,
      ur_Status = Some \<lparr>ut_Ext = [], ut_IdentityProviderRef = None, ut_IsLocked = False\<rparr>\<rparr>"

definition admin_CreateUser :: "api_env \<Rightarrow> 's user_clients \<Rightarrow> User_Spec api_request \<Rightarrow> 's \<Rightarrow> User go \<times> 's" where
  "admin_CreateUser A C req s =
     go_seq (on_err InvalidArgWithErr (validateUser A (uc_Policy C) req s)) (\<lambda>_ s.
     go_seq (deref (aq_Metadata req), s) (\<lambda>md s.
     go_seq (must_be_absent InternalWithErr (cl_Get (uc_User C) (by_name (md_Name md)) s)) (\<lambda>_ s.
     go_seq (deref (aq_Spec req), s) (\<lambda>sp s.
     go_seq (CheckAndSetUser A C (new_user md sp) s) (\<lambda>item s.
     on_err InternalWithErr (cl_Create (uc_User C) item s))))))"

text \<open>Nobody disables himself.\<close>

definition not_yourself :: "api_env \<Rightarrow> User \<Rightarrow> unit go" where
  "not_yourself A item =
     go_bind (ap_GetUserCtx A) (\<lambda>i.
     go_bind (deref (ctx_User i)) (\<lambda>u.
     reject_if (md_Uid (ur_Metadata u) = md_Uid (ur_Metadata item) \<and> us_IsDisabled (ur_Spec item)) Unauthorized))"

definition admin_UpdateUser :: "api_env \<Rightarrow> 's user_clients \<Rightarrow> User_Spec api_request \<Rightarrow> 's \<Rightarrow> User go \<times> 's" where
  "admin_UpdateUser A C req s =
     go_seq (on_err InvalidArgWithErr (validateUser A (uc_Policy C) req s)) (\<lambda>_ s.
     go_seq (deref (aq_Metadata req), s) (\<lambda>md s.
     go_seq (on_err K8sNotFoundOrInternalWithErr (cl_Get (uc_User C) (by_name (md_Name md)) s)) (\<lambda>item s.
     go_seq (CheckIsSystem (Some (ur_Metadata item)), s) (\<lambda>_ s.
     go_seq (deref (aq_Spec req), s) (\<lambda>sp s.
     go_seq (CheckAndSetUser A C (item\<lparr>ur_Metadata := MetadataUpdate (ur_Metadata item) md, ur_Spec := sp\<rparr>) s) (\<lambda>item s.
     go_seq (not_yourself A item, s) (\<lambda>_ s.
     on_err InternalWithErr (cl_Update (uc_User C) item s))))))))"

definition admin_ListUser :: "('s, User) client \<Rightarrow> CommonListOptions option \<Rightarrow> 's \<Rightarrow> User list go \<times> 's" where
  "admin_ListUser C common s = cl_List C (GetPublicListOptions common []) s"

definition admin_DeleteUser :: "api_env \<Rightarrow> ('s, User) client \<Rightarrow> DeleteOptions \<Rightarrow> 's \<Rightarrow> unit go \<times> 's" where
  "admin_DeleteUser A C req s =
     go_seq (CheckDeleteOptions (ap_V A) (Some req) None, s) (\<lambda>_ s.
     go_seq (on_err K8sNotFoundOrInternalWithErr (cl_Get C \<lparr>go_Uid = do_Uid req, go_Name = do_Name req\<rparr> s)) (\<lambda>usr s.
     go_seq (CheckIsSystem (Some (ur_Metadata usr)), s) (\<lambda>_ s.
     go_seq (cl_Delete C \<lparr>do_Uid = md_Uid (ur_Metadata usr), do_Name = []\<rparr> s) (\<lambda>_ s.
     (Ok (), s)))))"

definition admin_GetUser :: "api_env \<Rightarrow> ('s, User) client \<Rightarrow> GetOptions \<Rightarrow> 's \<Rightarrow> User go \<times> 's" where
  "admin_GetUser A C req s =
     go_seq (CheckGetOptions (ap_V A) (Some req) None, s) (\<lambda>_ s.
     shown ur_Metadata (on_err K8sNotFoundOrInternalWithErr (cl_Get C req s)))"

section \<open>Devices\<close>

definition validateDevice :: "api_env \<Rightarrow> ('s, Policy) client \<Rightarrow> Device_Spec api_request \<Rightarrow> 's \<Rightarrow> unit go \<times> 's" where
  "validateDevice A Cp req s =
     go_seq (ValidateCommon (ap_V A) (Some (api_resource req)) (Some (named_opts 0)), s) (\<lambda>_ s.
     case aq_Spec req of
       None \<Rightarrow> (Fail InvalidArg, s)
     | Some sp \<Rightarrow>
         go_seq (reject_if (ds_State sp = DEVICE_STATE_UNKNOWN) InvalidArg, s) (\<lambda>_ s.
         validatePolicyOwner A Cp (ds_Authorization sp) s))"

text \<open>The filter of a list of what a user owns, when the request names a user.\<close>

definition user_filter ::
  "api_env \<Rightarrow> ('s, User) client \<Rightarrow> ObjectReference option \<Rightarrow> 's \<Rightarrow> Filter list go \<times> 's" where
  "user_filter A Cu userRef s =
     (case userRef of
        None \<Rightarrow> (Ok [], s)
      | Some r \<Rightarrow>
          go_seq (CheckObjectRef (ap_V A) (Some r) (Some (parents_opts 0)), s) (\<lambda>_ s.
          go_seq (cl_Get Cu \<lparr>go_Uid = or_Uid r, go_Name = or_Name r\<rparr> s) (\<lambda>usr s.
          (Ok [FilterStatusUserUID (md_Uid (ur_Metadata usr))], s))))"

definition admin_ListDevice ::
  "api_env \<Rightarrow> ('s, User) client \<Rightarrow> ('s, Device) client \<Rightarrow> ObjectReference option \<Rightarrow> CommonListOptions option \<Rightarrow> 's \<Rightarrow>
   Device list go \<times> 's"
where
  "admin_ListDevice A Cu C userRef common s =
     go_seq (user_filter A Cu userRef s) (\<lambda>listOpts s. cl_List C (GetPublicListOptions common listOpts) s)"

definition admin_DeleteDevice :: "api_env \<Rightarrow> ('s, Device) client \<Rightarrow> DeleteOptions \<Rightarrow> 's \<Rightarrow> unit go \<times> 's" where
  "admin_DeleteDevice A C req s =
     go_seq (CheckDeleteOptions (ap_V A) (Some req) None, s) (\<lambda>_ s.
     go_seq (on_err K8sNotFoundOrInternalWithErr (cl_Get C \<lparr>go_Uid = do_Uid req, go_Name = do_Name req\<rparr> s)) (\<lambda>dev s.
     go_seq (on_err InternalWithErr (cl_Delete C \<lparr>do_Uid = md_Uid (dv_Metadata dev), do_Name = []\<rparr> s)) (\<lambda>_ s.
     (Ok (), s))))"

definition admin_GetDevice :: "api_env \<Rightarrow> ('s, Device) client \<Rightarrow> GetOptions \<Rightarrow> 's \<Rightarrow> Device go \<times> 's" where
  "admin_GetDevice A C req s =
     go_seq (CheckGetOptions (ap_V A) (Some req) None, s) (\<lambda>_ s. on_err K8sNotFoundOrInternalWithErr (cl_Get C req s))"

text \<open>Nobody deactivates the device that he uses; only the spec is updated, not the metadata.\<close>

definition not_your_device :: "api_env \<Rightarrow> Device \<Rightarrow> Device_Spec \<Rightarrow> unit go" where
  "not_your_device A item sp =
     go_bind (ap_GetUserCtx A) (\<lambda>i.
     case ctx_Device i of
       None \<Rightarrow> Ok ()
     | Some d \<Rightarrow>
         reject_if (md_Uid (dv_Metadata d) = md_Uid (dv_Metadata item) \<and> ds_State sp \<in> {DEVICE_PENDING, DEVICE_REJECTED})
           Unauthorized)"

definition admin_UpdateDevice ::
  "api_env \<Rightarrow> ('s, Policy) client \<Rightarrow> ('s, Device) client \<Rightarrow> Device_Spec api_request \<Rightarrow> 's \<Rightarrow> Device go \<times> 's" where
  "admin_UpdateDevice A Cp C req s =
     go_seq (on_err InvalidArgWithErr (validateDevice A Cp req s)) (\<lambda>_ s.
     go_seq (deref (aq_Metadata req), s) (\<lambda>md s.
     go_seq (on_err K8sNotFoundOrInternalWithErr (cl_Get C (by_name (md_Name md)) s)) (\<lambda>item s.
     go_seq (deref (aq_Spec req), s) (\<lambda>sp s.
     go_seq (not_your_device A item sp, s) (\<lambda>_ s.
     on_err K8sInternal (cl_Update C (item\<lparr>dv_Spec := sp\<rparr>) s))))))"

end
