(* ===== verification/PolicyAdminFacts.thy ===== *)
theory PolicyAdminFacts imports PolicyAdmin begin

text \<open>
  What the handlers for policies guarantee over any client that meets its contract, and over the
  resource server: only well-formed policies are stored, the policies of the system stay as they are, and a
  policy with children stays.
\<close>

section \<open>Well-formed policies\<close>

fun condition_wf :: "Condition \<Rightarrow> bool" where
  "condition_wf Condition_Unset = False"
| "condition_wf (Condition_All cs) = (cs \<noteq> [] \<and> length cs \<le> 100 \<and> list_all condition_wf cs)"
| "condition_wf (Condition_Any cs) = (cs \<noteq> [] \<and> length cs \<le> 100 \<and> list_all condition_wf cs)"
| "condition_wf (Condition_None cs) = (cs \<noteq> [] \<and> length cs \<le> 100 \<and> list_all condition_wf cs)"
| "condition_wf c = True"

definition spec_wf :: "Policy_Spec \<Rightarrow> bool" where
  "spec_wf p \<longleftrightarrow>
     length (ps_Rules p) \<le> 100 \<and> length (ps_EnforcementRules p) \<le> 100 \<and>
     list_all (\<lambda>r. ru_Effect r \<noteq> EFFECT_UNKNOWN \<and> - 4 \<le> sint (ru_Priority r) \<and> sint (ru_Priority r) \<le> 4 \<and>
       pred_option condition_wf (ru_Condition r) \<and> ru_Condition r \<noteq> None) (ps_Rules p) \<and>
     list_all (\<lambda>r. en_Effect r \<noteq> ENFORCEMENT_UNKNOWN \<and> pred_option condition_wf (en_Condition r) \<and>
       en_Condition r \<noteq> None) (ps_EnforcementRules p)"

lemma validate_condition_wf: "validate_condition A c = Ok () \<Longrightarrow> condition_wf c"
  by (induction A c rule: validate_condition.induct) (auto simp: list_all_iff)

lemma validateCondition_wf: "validateCondition A c = Ok () \<Longrightarrow> pred_option condition_wf c \<and> c \<noteq> None"
  by (cases c) (auto simp: validateCondition_def validate_condition_wf)

lemma validatePolicySpec_wf: "validatePolicySpec A (Some p) = Ok () \<Longrightarrow> spec_wf p"
  using validateCondition_wf
  by (auto simp: validatePolicySpec_def spec_wf_def list_all_iff validate_rule_def validate_enforcement_def
      priorityMaxVal_def not_less)

section \<open>Over any client\<close>

text \<open>The policy that a request asks for, and the reference to its parent.\<close>

definition made_from :: "Policy_Spec api_request \<Rightarrow> Policy list \<Rightarrow> Policy \<Rightarrow> bool" where
  "made_from req ps p \<longleftrightarrow>
     (\<exists>md spec names. aq_Metadata req = Some md \<and> aq_Spec req = Some spec \<and> GetNameAndParents (md_Name md) = Ok names \<and>
        unstamped (pol_Metadata p) = unstamped (MetadataFrom md) \<and> pol_Spec p = spec \<and>
        (if 1 < length names
         then \<exists>q\<in>set ps. md_Name (pol_Metadata q) = names ! 1 \<and> pol_ParentPolicyRef p = policy_reference q
         else pol_ParentPolicyRef p = None))"

definition updated_from :: "Policy_Spec api_request \<Rightarrow> Policy \<Rightarrow> Policy \<Rightarrow> bool" where
  "updated_from req old p \<longleftrightarrow>
     (\<exists>md spec. aq_Metadata req = Some md \<and> aq_Spec req = Some spec \<and> md_Name (pol_Metadata old) = md_Name md \<and>
        unstamped (pol_Metadata p) = unstamped (MetadataUpdate (pol_Metadata old) md) \<and>
        md_Uid (pol_Metadata p) = md_Uid (pol_Metadata old) \<and> pol_Spec p = spec \<and>
        pol_ParentPolicyRef p = pol_ParentPolicyRef old)"

abbreviation (input) uid_of :: "Policy \<Rightarrow> string" where
  "uid_of p \<equiv> md_Uid (pol_Metadata p)"

lemma validatePolicy_Ok:
  assumes "validatePolicy A req = Ok u"
  shows "\<exists>md spec. aq_Metadata req = Some md \<and> md_Name md \<noteq> [] \<and> aq_Spec req = Some spec \<and> spec_wf spec"
  using assms validate_named [of "ap_V A" req MaxPolicyParents] validatePolicySpec_wf [of A]
  by (cases "aq_Spec req") (auto simp: validatePolicy_def validatePolicySpec_def)

lemma names_not_empty: "GetNameAndParents n = Ok names \<Longrightarrow> \<forall>x\<in>set names. x \<noteq> []"
  using validateName_parent [of n 5]
  by (fastforce simp: GetNameAndParents_eq validateName_parents_iff NameMain_def numeral_eq_Suc)

locale policy_client =
  resource_client C pol_Metadata "\<lambda>p. (pol_Spec p, pol_ParentPolicyRef p)" holds inv fits view rest
  for C :: "('s, Policy) client" and holds inv fits view and rest :: "'s \<Rightarrow> 'o"
begin

lemma with_parent_Ok:
  assumes "same s s1" and "with_parent C names item s1 = (r, s2)" and "\<forall>n\<in>set names. n \<noteq> []"
  shows "same s s2 \<and> (\<forall>p. r = Ok p \<longrightarrow>
    (if 1 < length names
     then \<exists>q\<in>set (view s). md_Name (pol_Metadata q) = names ! 1 \<and> p = item\<lparr>pol_ParentPolicyRef := policy_reference q\<rparr>
     else p = item))"
proof (cases "1 < length names")
  case True
  then have ne: "names ! 1 \<noteq> []" using assms(3) by auto
  have inv: "inv s1" "view s1 = view s" "rest s1 = rest s" using assms(1) by blast+
  have fits: "fits (by_name (names ! 1)) s1" using fits_name [OF inv(1)] ne by simp
  obtain q s3 where q: "cl_Get C (by_name (names ! 1)) s1 = (q, s3)" by fastforce
  note g = get [OF inv(1) fits q]
  show ?thesis
  proof (cases q)
    case (Ok p)
    with g ne have "p \<in> set (view s)" "md_Name (pol_Metadata p) = names ! 1"
      by (auto simp: opt_matches_def inv(2))
    with assms(2) True q Ok g inv show ?thesis by (auto simp: with_parent_def)
  qed (use assms(2) True q g inv in \<open>auto simp: with_parent_def on_err_def map_err_def\<close>)
qed (use assms in \<open>auto simp: with_parent_def\<close>)

lemma CreatePolicy_handles:
  assumes "inv s"
  shows "handles s (\<lambda>p v. v = view s @ [p] \<and> spec_wf (pol_Spec p) \<and> made_from req (view s) p) (admin_CreatePolicy A C req s)"
  unfolding admin_CreatePolicy_def
proof ((intro handles_check handles_step; assumption?), goal_cases)
  case (3 u md)
  then have "md_Name md \<noteq> []" using validatePolicy_Ok [of A req u] by auto
  with assms show ?case by (intro absent_same get_name_same) simp_all
next
  case (4 u md a s1 names spec)
  then show ?case
    using with_parent_Ok [OF 4(4) prod.collapse [symmetric] names_not_empty [of "md_Name md"]] by auto
next
  case (5 u md a s1 names spec item s2 b)
  have wf: "spec_wf (pol_Spec item)" using 5 validatePolicySpec_wf by simp
  have md: "aq_Metadata req = Some md" "aq_Spec req = Some spec" "GetNameAndParents (md_Name md) = Ok names" using 5 by simp_all
  have item: "if 1 < length names
     then \<exists>q\<in>set (view s). md_Name (pol_Metadata q) = names ! 1 \<and>
       item = (new_policy md spec)\<lparr>pol_ParentPolicyRef := policy_reference q\<rparr>
     else item = new_policy md spec"
    using with_parent_Ok [OF 5(4) 5(7) names_not_empty [OF md(3)]] by blast
  show ?case
  proof (rule create_handles [OF 5(8)])
    fix y :: Policy assume y: "(pol_Spec y, pol_ParentPolicyRef y) = (pol_Spec item, pol_ParentPolicyRef item)"
      "unstamped (pol_Metadata y) = unstamped (pol_Metadata item)"
    have item': "pol_Metadata item = MetadataFrom md" "pol_Spec item = spec"
      "if 1 < length names
       then \<exists>q\<in>set (view s). md_Name (pol_Metadata q) = names ! 1 \<and> pol_ParentPolicyRef item = policy_reference q
       else pol_ParentPolicyRef item = None"
      using item by (cases "1 < length names"; fastforce simp: new_policy_def)+
    then have "made_from req (view s) y"
      unfolding made_from_def using md y
      by (intro exI [of _ md] exI [of _ spec] exI [of _ names]) (auto split: if_splits)
    with wf y(1) show "view s @ [y] = view s @ [y] \<and> spec_wf (pol_Spec y) \<and> made_from req (view s) y" by simp
  qed
qed (use assms in auto)

lemma UpdatePolicy_handles:
  assumes "inv s"
  shows "handles s (\<lambda>p v. \<exists>old\<in>set (view s). \<not> md_IsSystem (pol_Metadata old) \<and> spec_wf (pol_Spec p) \<and>
      updated_from req old p \<and> v = map (\<lambda>q. if uid_of q = uid_of old then p else q) (view s)) (admin_UpdatePolicy A C req s)"
  unfolding admin_UpdatePolicy_def Let_def
proof ((intro handles_check handles_step; assumption?), goal_cases)
  case (3 u md)
  then have "md_Name md \<noteq> []" using validatePolicy_Ok [of A req u] by auto
  with assms show ?case by (intro get_name_same) simp_all
next
  case (4 u md old s1 v spec w)
  have name: "md_Name md \<noteq> []" using validatePolicy_Ok [of A req u] 4 by auto
  then have old: "old \<in> set (view s)" "md_Name (pol_Metadata old) = md_Name md"
    using get_Ok [OF assms fits_name [OF assms] 4(3)] by (auto simp: opt_matches_def)
  have wf: "spec_wf spec" using 4 validatePolicySpec_wf [of A spec] by simp
  have sys: "\<not> md_IsSystem (pol_Metadata old)" using 4 by (simp add: CheckIsSystem_def)
  have new: "\<exists>o'\<in>set (view s). \<not> md_IsSystem (pol_Metadata o') \<and> spec_wf (pol_Spec y) \<and> updated_from req o' y \<and>
        map (\<lambda>q. if uid_of q = uid_of old then y else q) (view s) = map (\<lambda>q. if uid_of q = uid_of o' then y else q) (view s)"
    if y: "pol_Spec y = spec" "pol_ParentPolicyRef y = pol_ParentPolicyRef old"
      "unstamped (pol_Metadata y) = unstamped (MetadataUpdate (pol_Metadata old) md)" "uid_of y = uid_of old" for y :: Policy
  proof -
    have "updated_from req old y" using y old(2) 4 by (auto simp: updated_from_def)
    with y(1) wf sys old(1) show ?thesis by (intro bexI [of _ old]) simp_all
  qed
  show ?case
    by (rule update_handles [OF 4(4) old(1)]) (use new in simp_all)
qed (use assms in auto)

lemma DeletePolicy_handles:
  assumes "inv s" "fits \<lparr>go_Uid = do_Uid req, go_Name = do_Name req\<rparr> s"
  shows "handles s (\<lambda>_ v. \<exists>g\<in>set (view s). opt_matches \<lparr>go_Uid = do_Uid req, go_Name = do_Name req\<rparr> (pol_Metadata g) \<and>
      \<not> md_IsSystem (pol_Metadata g) \<and> (\<forall>q\<in>set (view s). \<not> holds (children_filter (uid_of g)) q) \<and>
      v = filter (\<lambda>q. uid_of q \<noteq> uid_of g) (view s)) (admin_DeletePolicy A C req s)"
  unfolding admin_DeletePolicy_def
proof ((intro handles_finish handles_check handles_step; assumption?), goal_cases)
  case (2 u) then show ?case using assms by (intro get_same) simp_all
next
  case (3 u g s1 v) then show ?case by (simp add: list_same)
next
  case (4 u g s1 v children s2 w)
  have g: "g \<in> set (view s)" "opt_matches \<lparr>go_Uid = do_Uid req, go_Name = do_Name req\<rparr> (pol_Metadata g)"
    using get_Ok [OF assms 4(2)] by simp_all
  have "set children = {q \<in> set (view s1). \<forall>f\<in>set [children_filter (uid_of g)]. holds f q}"
    using listed [of s1 "[children_filter (uid_of g)]" "Ok children" s2] 4 by simp
  then have none: "\<forall>q\<in>set (view s). \<not> holds (children_filter (uid_of g)) q"
    using 4 by auto
  have sys: "\<not> md_IsSystem (pol_Metadata g)" using 4 by (simp add: CheckIsSystem_def)
  show ?case
    by (intro handles_on_err delete_handles [OF 4(6) g(1)]) (use g none sys in blast)
qed (use assms in auto)

end

section \<open>Over the resource server\<close>

definition policy_codec ::
  "(Policy \<Rightarrow> rsc_obj) \<Rightarrow> (rsc_obj \<Rightarrow> Policy go) \<Rightarrow> (sql_cond \<Rightarrow> Policy \<Rightarrow> bool) \<Rightarrow>
   (Policy, Policy_Spec \<times> ObjectReference option) codec" where
  "policy_codec wr rd hold =
     \<lparr>cd_kind = ''Policy'', cd_md = pol_Metadata, cd_payload = (\<lambda>p. (pol_Spec p, pol_ParentPolicyRef p)),
      cd_enc = wr, cd_dec = rd, cd_holds = hold\<rparr>"

lemma policy_codec_simps [simp]:
  "cd_kind (policy_codec wr rd hold) = ''Policy''" "cd_md (policy_codec wr rd hold) = pol_Metadata"
  "cd_payload (policy_codec wr rd hold) = (\<lambda>p. (pol_Spec p, pol_ParentPolicyRef p))"
  "cd_enc (policy_codec wr rd hold) = wr" "cd_dec (policy_codec wr rd hold) = rd"
  "cd_holds (policy_codec wr rd hold) = hold"
  by (simp_all add: policy_codec_def)

interpretation core_policy: policy_client "CoreC S net (policy_codec wr rd hold)" "filter_holds (policy_codec wr rd hold)"
  "client_inv S (policy_codec wr rd hold)" "\<lambda>o'. kind_fits o' ''core'' ''v1'' ''Policy''"
  "kind_view (policy_codec wr rd hold)" "kind_rest (policy_codec wr rd hold)" for S net wr rd hold
  using core.resource_client_axioms [of S net "policy_codec wr rd hold"] by (simp add: policy_client_def)

text \<open>
  The resource server under an API server for policies: requests one after the other, each over a network
  that may lose calls, with statements of the database failing at any time, and in between anything that
  leaves the policies as they are. A deletion names the policy, or gives the identifier of no resource of
  another kind.
\<close>

inductive policy_server :: "(Policy, Policy_Spec \<times> ObjectReference option) codec \<Rightarrow> rsc_state \<Rightarrow> bool" for K where
  start: "policy_server K rsc_empty"
| others: "policy_server K st \<Longrightarrow> stored_ok K st' \<Longrightarrow> kind_view K st' = kind_view K st \<Longrightarrow> policy_server K st'"
| create: "policy_server K st \<Longrightarrow> serve_ok S K \<Longrightarrow> policy_server K (snd (admin_CreatePolicy A (CoreC S net K) req st))"
| update: "policy_server K st \<Longrightarrow> serve_ok S K \<Longrightarrow> policy_server K (snd (admin_UpdatePolicy A (CoreC S net K) req st))"
| delete: "policy_server K st \<Longrightarrow> serve_ok S K \<Longrightarrow> kind_fits \<lparr>go_Uid = do_Uid d, go_Name = do_Name d\<rparr> ''core'' ''v1'' ''Policy'' st \<Longrightarrow>
    policy_server K (snd (admin_DeletePolicy A (CoreC S net K) d st))"

lemma stored_empty: "stored_ok K rsc_empty"
  by (simp add: stored_ok_def rsc_empty_def coherent_def)

lemma policy_server_inv:
  assumes "policy_server (policy_codec wr rd hold) st"
  shows "stored_ok (policy_codec wr rd hold) st \<and>
    (\<forall>p\<in>set (kind_view (policy_codec wr rd hold) st). spec_wf (pol_Spec p))"
  using assms
proof (induction rule: policy_server.induct)
  case start
  then show ?case by (simp add: stored_empty) (simp add: kind_view_def rsc_empty_def)
next
  case (others st st')
  then show ?case by simp
next
  case (create st S A net req)
  then have inv: "client_inv S (policy_codec wr rd hold) st" by (simp add: client_inv_def)
  from core_policy.CreatePolicy_handles [OF inv, where net = net and A = A and req = req] create.IH show ?case
    by (elim conjE effect_cases) (auto simp: client_inv_def)
next
  case (update st S A net req)
  then have inv: "client_inv S (policy_codec wr rd hold) st" by (simp add: client_inv_def)
  from core_policy.UpdatePolicy_handles [OF inv, where net = net and A = A and req = req] update.IH show ?case
    by (elim conjE effect_cases) (auto simp: client_inv_def)
next
  case (delete st S d A net)
  then have inv: "client_inv S (policy_codec wr rd hold) st" by (simp add: client_inv_def)
  from core_policy.DeletePolicy_handles [OF inv delete.hyps(3), where net = net and A = A] delete.IH show ?case
    by (elim conjE effect_cases) (auto simp: client_inv_def)
qed

end
