(* ===== verification/DirectoryFacts.thy ===== *)
theory DirectoryFacts imports AdminDirectory PolicyAdminFacts begin

text \<open>
  What the handlers for groups and users do together: over clients that share one server, every user is
  well-formed and all groups of a user exist, whatever sequence of requests is made.
\<close>

section \<open>Handlers that mostly read\<close>

text \<open>A handler keeps \<open>R\<close>, whatever it answers.\<close>

definition keeps :: "('s \<Rightarrow> bool) \<Rightarrow> 'b go \<times> 's \<Rightarrow> bool" where
  "keeps R m \<longleftrightarrow> R (snd m)"

lemma keeps_seq: "keeps R m \<Longrightarrow> (\<And>x s. m = (Ok x, s) \<Longrightarrow> R s \<Longrightarrow> keeps R (f x s)) \<Longrightarrow> keeps R (go_seq m f)"
  by (cases m; cases "fst m") (auto simp: keeps_def)

lemma keeps_check: "R s \<Longrightarrow> (\<And>x. r = Ok x \<Longrightarrow> keeps R (f x s)) \<Longrightarrow> keeps R (go_seq (r, s) f)"
  by (rule keeps_seq) (auto simp: keeps_def)

lemma keeps_on_err: "keeps R m \<Longrightarrow> keeps R (on_err g m)"
  by (simp add: keeps_def)

lemma keeps_return: "R s \<Longrightarrow> keeps R (r, s)"
  by (simp add: keeps_def)

lemma keeps_absent: "keeps R m \<Longrightarrow> keeps R (must_be_absent w m)"
  by (cases m; cases "fst m") (auto simp: must_be_absent_def keeps_def)

lemma each_keeps:
  assumes "R s" and "\<And>x s. x \<in> set xs \<Longrightarrow> R s \<Longrightarrow> keeps R (f x s)"
  shows "keeps R (go_each_st f xs s)"
  using assms
proof (induction xs arbitrary: s)
  case (Cons x xs)
  have "keeps R (f x s)" using Cons.prems by simp
  then show ?case using Cons by (auto intro: keeps_seq)
qed (simp add: keeps_def)

lemmas keeps_rules = keeps_check keeps_seq keeps_on_err keeps_return keeps_absent each_keeps

text \<open>
  A handler that leads from states that look as before, which \<open>R\<close> says, to \<open>Q\<close>: either it fails and
  everything looks as before, or \<open>Q\<close> holds.
\<close>

definition leads :: "('s \<Rightarrow> bool) \<Rightarrow> ('s \<Rightarrow> bool) \<Rightarrow> 'b go \<times> 's \<Rightarrow> bool" where
  "leads R Q m \<longleftrightarrow> (R (snd m) \<and> \<not> is_ok (fst m)) \<or> Q (snd m)"

lemma leads_step:
  assumes "keeps R m" and "\<And>x s. m = (Ok x, s) \<Longrightarrow> R s \<Longrightarrow> leads R Q (f x s)"
  shows "leads R Q (go_seq m f)"
  using assms by (cases m; cases "fst m") (auto simp: leads_def keeps_def)

lemma leads_check: "R s \<Longrightarrow> (\<And>x. r = Ok x \<Longrightarrow> leads R Q (f x s)) \<Longrightarrow> leads R Q (go_seq (r, s) f)"
  by (rule leads_step) (auto simp: keeps_def)

lemma leads_on_err: "leads R Q m \<Longrightarrow> leads R Q (on_err g m)"
  by (simp add: leads_def)

lemma leads_finish: "leads R Q m \<Longrightarrow> leads R Q (go_seq m (\<lambda>_ s. (Ok (), s)))"
  by (cases m; cases "fst m") (auto simp: leads_def)

lemma leads_effect:
  assumes "effect (fst m) new v (view (snd m))" and "view (snd m) = v \<Longrightarrow> R (snd m)" and "\<And>y. new y (view (snd m)) \<Longrightarrow> Q (snd m)"
  shows "leads R Q m"
  using assms by (auto simp: leads_def effect_def)

lemma each_Ok:
  assumes "\<And>x s u s'. x \<in> set xs \<Longrightarrow> R s \<Longrightarrow> f x s = (Ok u, s') \<Longrightarrow> R s' \<and> P x"
    and "R s" and "go_each_st f xs s = (Ok u, s')"
  shows "R s' \<and> (\<forall>x\<in>set xs. P x)"
  using assms
proof (induction xs arbitrary: s)
  case (Cons x xs)
  from Cons.prems(3) obtain v s1 where s1: "f x s = (Ok v, s1)" "go_each_st f xs s1 = (Ok u, s')"
    by (auto dest!: go_seq_Ok)
  with Cons.prems(1) [of x s v s1] Cons.prems(2) have "R s1" "P x" by simp_all
  with Cons.IH [OF _ _ s1(2)] Cons.prems(1) show ?case by (metis list.set_intros(2) set_ConsD)
qed simp

section \<open>Well-formed users\<close>

definition user_wf :: "User_Spec \<Rightarrow> bool" where
  "user_wf sp \<longleftrightarrow>
     us_Type sp \<noteq> USER_TYPE_UNKNOWN \<and> (us_Email sp = [] \<or> us_Type sp = HUMAN) \<and>
     (\<forall>ids. us_Authentication sp = Some ids \<longrightarrow> length ids \<le> 100 \<and>
        (\<forall>i\<in>set ids. id_Identifier i \<noteq> [] \<and> id_IdentityProvider i \<noteq> [])) \<and>
     (\<forall>g\<in>set (us_Groups sp). NameMain g)"

lemma names_nonempty: "validateName n 0 m = Ok u \<Longrightarrow> n \<noteq> []"
  by (auto simp: validateName_def check_names_def NameMain_def split: if_splits)

definition named_policies :: "Authorization option \<Rightarrow> bool" where
  "named_policies owner \<longleftrightarrow> (\<forall>a. owner = Some a \<longrightarrow> (\<forall>p\<in>set (az_Policies a). p \<noteq> []))"

lemma owner_named:
  assumes "validatePolicyOwner A C owner s = (Ok u, s')"
  shows "named_policies owner"
proof (cases owner)
  case (Some a)
  have name: "x \<noteq> []" if "owner_policy C x t = (Ok v, t')" for x t v t'
    using that by (auto simp: owner_policy_def ValidateName_def dest!: go_seq_Ok dest: names_nonempty)
  from assms obtain s1 s2 where "go_each_st (owner_policy C) (az_Policies a) s2 = (Ok (), s1)"
    by (auto simp: validatePolicyOwner_def Let_def Some dest!: go_seq_Ok)
  from each_Ok [where R = "\<lambda>_. True" and P = "\<lambda>p. p \<noteq> []", OF _ _ this] name
  have "\<forall>p\<in>set (az_Policies a). p \<noteq> []" by blast
  with Some show ?thesis by (simp add: named_policies_def)
qed (simp add: named_policies_def)

lemma validateUser_Ok:
  assumes "validateUser A C req s = (Ok u, s')"
  shows "\<exists>md sp. aq_Metadata req = Some md \<and> md_Name md \<noteq> [] \<and> aq_Spec req = Some sp \<and> user_wf sp \<and>
    named_policies (us_Authorization sp)"
proof -
  from assms obtain sp s1 where sp: "aq_Spec req = Some sp" "ValidateCommon (ap_V A) (Some (api_resource req)) (Some (named_opts 0)) = Ok ()"
    "us_Type sp \<noteq> USER_TYPE_UNKNOWN" "validate_email A sp = Ok ()" "validate_identities sp = Ok ()"
    "go_each (\<lambda>g. reject_if (\<not> NameMain g) InvalidArg) (us_Groups sp) = Ok ()"
    "validatePolicyOwner A C (us_Authorization sp) s1 = (Ok u, s')"
    by (auto simp: validateUser_def dest!: go_seq_Ok split: option.splits)
  have "user_wf sp"
    using sp(3-6) by (auto simp: user_wf_def validate_email_def validate_identities_def split: if_splits)
  with sp(1) validate_named [OF sp(2)] owner_named [OF sp(7)] show ?thesis by blast
qed

section \<open>Over clients of one server\<close>

text \<open>
  Clients for policies, groups, users and identity providers that share a state: what one of them changes, the
  others do not see.
\<close>

locale directory =
  pol: resource_client "uc_Policy C" pol_Metadata pay_p holds_p inv_p fits_p view_p rest_p +
  grp: resource_client "uc_Group C" gr_Metadata pay_g holds_g inv_g fits_g view_g rest_g +
  usr: resource_client "uc_User C" ur_Metadata "\<lambda>u. (ur_Spec u, ur_Status u)" holds_u inv_u fits_u view_u rest_u +
  idp: resource_client "uc_IdP C" idp_Metadata pay_i holds_i inv_i fits_i view_i rest_i
  for C :: "'s user_clients" and pay_p :: "Policy \<Rightarrow> 'p" and holds_p inv_p fits_p view_p and rest_p :: "'s \<Rightarrow> 'o"
    and pay_g :: "Group \<Rightarrow> 'g" and holds_g inv_g fits_g view_g and rest_g :: "'s \<Rightarrow> 'o"
    and holds_u inv_u fits_u view_u and rest_u :: "'s \<Rightarrow> 'o"
    and pay_i :: "IdentityProvider \<Rightarrow> 'i" and holds_i inv_i fits_i view_i and rest_i :: "'s \<Rightarrow> 'o" +
  assumes frame_p: "inv_p s \<and> inv_g s \<and> inv_u s \<and> inv_i s \<Longrightarrow> inv_p t \<Longrightarrow> rest_p t = rest_p s \<Longrightarrow>
      inv_g t \<and> inv_u t \<and> inv_i t \<and> view_g t = view_g s \<and> view_u t = view_u s"
    and frame_g: "inv_p s \<and> inv_g s \<and> inv_u s \<and> inv_i s \<Longrightarrow> inv_g t \<Longrightarrow> rest_g t = rest_g s \<Longrightarrow>
      inv_p t \<and> inv_u t \<and> inv_i t \<and> view_p t = view_p s \<and> view_u t = view_u s"
    and frame_u: "inv_p s \<and> inv_g s \<and> inv_u s \<and> inv_i s \<Longrightarrow> inv_u t \<Longrightarrow> rest_u t = rest_u s \<Longrightarrow>
      inv_p t \<and> inv_g t \<and> inv_i t \<and> view_p t = view_p s \<and> view_g t = view_g s"
    and frame_i: "inv_p s \<and> inv_g s \<and> inv_u s \<and> inv_i s \<Longrightarrow> inv_i t \<Longrightarrow> rest_i t = rest_i s \<Longrightarrow>
      inv_p t \<and> inv_g t \<and> inv_u t \<and> view_p t = view_p s \<and> view_g t = view_g s \<and> view_u t = view_u s"
begin

definition fine :: "'s \<Rightarrow> bool" where
  "fine s \<longleftrightarrow> inv_p s \<and> inv_g s \<and> inv_u s \<and> inv_i s"

definition calm :: "'s \<Rightarrow> 's \<Rightarrow> bool" where
  "calm s t \<longleftrightarrow> fine t \<and> view_p t = view_p s \<and> view_g t = view_g s \<and> view_u t = view_u s"

lemma calmI:
  "calm s t \<Longrightarrow> inv_p r \<Longrightarrow> rest_p r = rest_p t \<Longrightarrow> view_p r = view_p t \<Longrightarrow> calm s r"
  "calm s t \<Longrightarrow> inv_g r \<Longrightarrow> rest_g r = rest_g t \<Longrightarrow> view_g r = view_g t \<Longrightarrow> calm s r"
  "calm s t \<Longrightarrow> inv_u r \<Longrightarrow> rest_u r = rest_u t \<Longrightarrow> view_u r = view_u t \<Longrightarrow> calm s r"
  "calm s t \<Longrightarrow> inv_i r \<Longrightarrow> rest_i r = rest_i t \<Longrightarrow> calm s r"
  using frame_p [of t r] frame_g [of t r] frame_u [of t r] frame_i [of t r] unfolding calm_def fine_def by metis+

lemma calm_fine: "calm s t \<Longrightarrow> inv_p t \<and> inv_g t \<and> inv_u t \<and> inv_i t"
  by (simp add: calm_def fine_def)

lemma calm_via_p: "calm s t \<Longrightarrow> (inv_p t \<Longrightarrow> inv_p r \<and> rest_p r = rest_p t \<and> view_p r = view_p t) \<Longrightarrow> calm s r"
  using calmI(1) calm_fine by blast

lemma calm_via_g: "calm s t \<Longrightarrow> (inv_g t \<Longrightarrow> inv_g r \<and> rest_g r = rest_g t \<and> view_g r = view_g t) \<Longrightarrow> calm s r"
  using calmI(2) calm_fine by blast

lemma calm_via_u: "calm s t \<Longrightarrow> (inv_u t \<Longrightarrow> inv_u r \<and> rest_u r = rest_u t \<and> view_u r = view_u t) \<Longrightarrow> calm s r"
  using calmI(3) calm_fine by blast

lemma calm_via_i: "calm s t \<Longrightarrow> (inv_i t \<Longrightarrow> inv_i r \<and> rest_i r = rest_i t) \<Longrightarrow> calm s r"
  using calmI(4) calm_fine by blast

text \<open>Reading leaves everything calm.\<close>

lemma read_p: "calm s t \<Longrightarrow> n \<noteq> [] \<Longrightarrow> keeps (calm s) (cl_Get (uc_Policy C) (by_name n) t)"
  unfolding keeps_def by (erule calm_via_p) (rule pol.get_name_same; blast)

lemma read_g: "calm s t \<Longrightarrow> fits_g o' t \<Longrightarrow> keeps (calm s) (cl_Get (uc_Group C) o' t)"
  unfolding keeps_def by (erule calm_via_g) (rule grp.get_same; blast)

lemma named_g: "calm s t \<Longrightarrow> n \<noteq> [] \<Longrightarrow> keeps (calm s) (cl_Get (uc_Group C) (by_name n) t)"
  unfolding keeps_def by (erule calm_via_g) (rule grp.get_name_same; blast)

lemma read_u: "calm s t \<Longrightarrow> fits_u o' t \<Longrightarrow> keeps (calm s) (cl_Get (uc_User C) o' t)"
  unfolding keeps_def by (erule calm_via_u) (rule usr.get_same; blast)

lemma named_u: "calm s t \<Longrightarrow> n \<noteq> [] \<Longrightarrow> keeps (calm s) (cl_Get (uc_User C) (by_name n) t)"
  unfolding keeps_def by (erule calm_via_u) (rule usr.get_name_same; blast)

lemma list_u: "calm s t \<Longrightarrow> keeps (calm s) (cl_List (uc_User C) lo t)"
  unfolding keeps_def by (erule calm_via_u) (rule usr.list_reads [OF _ prod.collapse [symmetric]])

lemma read_idp: "calm s t \<Longrightarrow> n \<noteq> [] \<Longrightarrow> keeps (calm s) (cl_Get (uc_IdP C) (by_name n) t)"
  unfolding keeps_def by (erule calm_via_i) (use idp.get_name_same in blast)

lemma owner_calm:
  assumes "calm s t"
  shows "keeps (calm s) (validatePolicyOwner A (uc_Policy C) ow t)"
proof -
  have "keeps (calm s) (owner_policy (uc_Policy C) p t)" if "calm s t" for p t
    unfolding owner_policy_def
    by (intro keeps_rules that read_p) (auto simp: ValidateName_def dest: names_nonempty)
  then show ?thesis
    unfolding validatePolicyOwner_def Let_def by (intro keeps_rules assms)
qed

text \<open>The check of a user reads only, and finds every group.\<close>

lemma identities_calm:
  assumes "calm s t" and "\<forall>i\<in>set ids. id_IdentityProvider i \<noteq> []"
  shows "keeps (calm s) (user_identities A C name ids labels t)"
  using assms
proof (induction ids arbitrary: labels t)
  case (Cons acc ids)
  show ?case
    unfolding user_identities.simps Let_def label_owner_def
    by (intro keeps_rules read_idp list_u Cons.IH Cons.prems(1); assumption?) (use Cons.prems(2) in simp_all)
qed (simp add: keeps_def)

lemma user_policy_calm: "calm s t \<Longrightarrow> p \<noteq> [] \<Longrightarrow> keeps (calm s) (user_policy C p t)"
  using read_p [of s t p] by (auto simp: user_policy_def keeps_def split: prod.splits go.splits)

lemma policies_calm:
  assumes "calm s r" and "named_policies owner"
  shows "keeps (calm s) (case owner of None \<Rightarrow> (Ok (), r)
      | Some az \<Rightarrow> go_seq (go_each (\<lambda>ip. validatePolicySpec A (ip_Spec ip)) (az_InlinePolicies az), r)
          (\<lambda>_. go_each_st (user_policy C) (az_Policies az)))"
proof (cases owner)
  case (Some az)
  show ?thesis
    unfolding Some option.case
    by (intro keeps_rules user_policy_calm assms(1)) (use assms(2) Some in \<open>auto simp: named_policies_def\<close>)
qed (use assms(1) in \<open>simp add: keeps_return\<close>)

lemma check_calm:
  assumes "calm s t" and "user_wf (ur_Spec req)" and "named_policies (us_Authorization (ur_Spec req))"
  shows "keeps (calm s) (CheckAndSetUser A C req t)"
proof -
  have "keeps (calm s) (user_group C g r)" if "calm s r" "g \<in> set (us_Groups (ur_Spec req))" for g r
    unfolding user_group_def
    by (intro keeps_rules named_g that(1)) (use that assms(2) in \<open>auto simp: user_wf_def NameMain_def\<close>)
  moreover have "keeps (calm s) (case us_Authorization (ur_Spec req) of None \<Rightarrow> (Ok (), r)
      | Some az \<Rightarrow> go_seq (go_each (\<lambda>ip. validatePolicySpec A (ip_Spec ip)) (az_InlinePolicies az), r)
          (\<lambda>_. go_each_st (user_policy C) (az_Policies az)))" if "calm s r" for r
    by (rule policies_calm [OF that assms(3)])
  moreover have "keeps (calm s) (label_owner C n k v r)" if "calm s r" for n k v r
    unfolding label_owner_def by (intro keeps_rules list_u that)
  moreover have "keeps (calm s) (case us_Authentication (ur_Spec req) of
      None \<Rightarrow> (Ok [], r) | Some ids \<Rightarrow> user_identities A C n ids [] r)" if "calm s r" for n r
    using assms(2) that identities_calm by (auto simp: user_wf_def keeps_def split: option.splits)
  moreover have "keeps (calm s) (if b then label_owner C n k v r else (Ok (), r))" if "calm s r" for b n k v r
    using calculation(3) that by (simp add: keeps_return)
  ultimately show ?thesis
    unfolding CheckAndSetUser_def Let_def
    by (intro keeps_seq keeps_return each_keeps assms(1); assumption?) (simp_all add: assms(1))
qed

lemma check_Ok:
  assumes "calm s t" and "user_wf (ur_Spec req)" and "named_policies (us_Authorization (ur_Spec req))"
    and "CheckAndSetUser A C req t = (Ok x, t')"
  shows "calm s t' \<and> ur_Spec x = ur_Spec req \<and> md_Uid (ur_Metadata x) = md_Uid (ur_Metadata req) \<and>
    md_Name (ur_Metadata x) = md_Name (ur_Metadata req) \<and>
    (\<forall>g\<in>set (us_Groups (ur_Spec req)). \<exists>r\<in>set (view_g s). md_Name (gr_Metadata r) = g)"
proof -
  have calm': "calm s t'" using check_calm [OF assms(1-3), of A] assms(4) by (simp add: keeps_def)
  have x: "x = req\<lparr>ur_Metadata := (ur_Metadata req)\<lparr>md_SpecLabels := md_SpecLabels (ur_Metadata x)\<rparr>\<rparr>"
    using assms(4) by (auto simp: CheckAndSetUser_def Let_def dest!: go_seq_Ok)
  obtain t1 t2 where g: "go_each_st (user_group C) (us_Groups (ur_Spec req)) t1 = (Ok (), t2)" and t1: "calm s t1"
  proof -
    let ?pols = "case us_Authorization (ur_Spec req) of None \<Rightarrow> (Ok (), t)
      | Some az \<Rightarrow> go_seq (go_each (\<lambda>ip. validatePolicySpec A (ip_Spec ip)) (az_InlinePolicies az), t)
          (\<lambda>_. go_each_st (user_policy C) (az_Policies az))"
    obtain u t1 t2 where "?pols = (Ok u, t1)" "go_each_st (user_group C) (us_Groups (ur_Spec req)) t1 = (Ok (), t2)"
      using assms(4) by (auto simp: CheckAndSetUser_def Let_def dest!: go_seq_Ok)
    moreover have "keeps (calm s) ?pols"
      using policies_calm [OF assms(1,3)] .
    ultimately show thesis using that by (simp add: keeps_def)
  qed
  have step: "calm s r' \<and> (\<exists>q\<in>set (view_g s). md_Name (gr_Metadata q) = n)"
    if n: "n \<in> set (us_Groups (ur_Spec req))" and r: "calm s r" "user_group C n r = (Ok u, r')" for n r u r'
  proof -
    have ne: "n \<noteq> []" using n assms(2) by (auto simp: user_wf_def NameMain_def)
    obtain q where q: "cl_Get (uc_Group C) (by_name n) r = (Ok q, r')"
      using r(2) by (auto simp: user_group_def dest!: go_seq_Ok)
    have "inv_g r" "view_g r = view_g s" using r(1) by (simp_all add: calm_def fine_def)
    with grp.get_Ok [OF _ grp.fits_name q] ne have "q \<in> set (view_g s)" "md_Name (gr_Metadata q) = n"
      by (auto simp: opt_matches_def)
    moreover have "calm s r'" using named_g [OF r(1) ne] q by (simp add: keeps_def)
    ultimately show ?thesis by blast
  qed
  have "calm s t2 \<and> (\<forall>g\<in>set (us_Groups (ur_Spec req)). \<exists>q\<in>set (view_g s). md_Name (gr_Metadata q) = g)"
    by (rule each_Ok [where R = "calm s", OF _ t1 g]) (rule step)
  moreover have "ur_Spec x = ur_Spec req" "md_Uid (ur_Metadata x) = md_Uid (ur_Metadata req)"
    "md_Name (ur_Metadata x) = md_Name (ur_Metadata req)" by (subst x, simp)+
  ultimately show ?thesis using calm' by blast
qed

section \<open>The invariant\<close>

definition linked :: "'s \<Rightarrow> bool" where
  "linked s \<longleftrightarrow> fine s \<and>
     (\<forall>u\<in>set (view_u s). user_wf (ur_Spec u) \<and>
        (\<forall>g\<in>set (us_Groups (ur_Spec u)). \<exists>r\<in>set (view_g s). md_Name (gr_Metadata r) = g))"

lemma linked_calm: "linked s \<Longrightarrow> calm s t \<Longrightarrow> linked t"
  by (simp add: linked_def calm_def)

lemma leads_linked: "linked s \<Longrightarrow> leads (calm s) linked m \<Longrightarrow> linked (snd m)"
  using linked_calm by (auto simp: leads_def)

text \<open>Writing a user whose groups exist, and whose spec is well-formed, keeps the invariant.\<close>

lemma linked_users:
  assumes "linked s" "calm s t" and "inv_u r" "rest_u r = rest_u t"
    and "set (view_u r) \<subseteq> set (view_u s) \<union> {y}" and "user_wf (ur_Spec y)"
    and "\<forall>g\<in>set (us_Groups (ur_Spec y)). \<exists>r\<in>set (view_g s). md_Name (gr_Metadata r) = g"
  shows "linked r"
proof -
  have "inv_p r \<and> inv_g r \<and> inv_i r \<and> view_g r = view_g t"
    using frame_u [of t r] assms(2-4) by (simp add: calm_def fine_def)
  moreover have "view_g t = view_g s" using assms(2) by (simp add: calm_def)
  ultimately show ?thesis
    using assms(1,3,5-7) by (auto simp: linked_def fine_def)
qed

lemma create_user_linked:
  assumes "linked s" "calm s t" and "user_wf (ur_Spec x)"
    and "\<forall>g\<in>set (us_Groups (ur_Spec x)). \<exists>r\<in>set (view_g s). md_Name (gr_Metadata r) = g"
  shows "leads (calm s) linked (cl_Create (uc_User C) x t)"
proof -
  have t: "inv_u t" "view_u t = view_u s" using assms(2) by (simp_all add: calm_def fine_def)
  note c = usr.create [OF t(1) prod.collapse [symmetric], of x]
  show ?thesis
  proof (rule leads_effect [where view = view_u])
    show "effect (fst (cl_Create (uc_User C) x t)) (\<lambda>y v. v = view_u t @ [y] \<and> (ur_Spec y, ur_Status y) = (ur_Spec x, ur_Status x) \<and>
        unstamped (ur_Metadata y) = unstamped (ur_Metadata x)) (view_u t) (view_u (snd (cl_Create (uc_User C) x t)))"
      using c by blast
    assume "view_u (snd (cl_Create (uc_User C) x t)) = view_u t"
    with c show "calm s (snd (cl_Create (uc_User C) x t))" by (intro calm_via_u [OF assms(2)]) blast
  next
    fix y
    assume "view_u (snd (cl_Create (uc_User C) x t)) = view_u t @ [y] \<and> (ur_Spec y, ur_Status y) = (ur_Spec x, ur_Status x) \<and>
        unstamped (ur_Metadata y) = unstamped (ur_Metadata x)"
    with c show "linked (snd (cl_Create (uc_User C) x t))"
      by (intro linked_users [OF assms(1,2), of _ y]) (use assms(3,4) t(2) in auto)
  qed
qed

lemma update_user_linked:
  assumes "linked s" "calm s t" and "user_wf (ur_Spec x)" and "z \<in> set (view_u s)"
    and "md_Uid (ur_Metadata x) = md_Uid (ur_Metadata z)" "md_Name (ur_Metadata x) = md_Name (ur_Metadata z)"
    and "\<forall>g\<in>set (us_Groups (ur_Spec x)). \<exists>r\<in>set (view_g s). md_Name (gr_Metadata r) = g"
  shows "leads (calm s) linked (cl_Update (uc_User C) x t)"
proof -
  have t: "inv_u t" "view_u t = view_u s" using assms(2) by (simp_all add: calm_def fine_def)
  then have z: "z \<in> set (view_u t)" using assms(4) by simp
  note c = usr.update [OF t(1) z assms(5,6) prod.collapse [symmetric]]
  show ?thesis
  proof (rule leads_effect [where view = view_u])
    show "effect (fst (cl_Update (uc_User C) x t)) (\<lambda>y v. v = map (\<lambda>z. if md_Uid (ur_Metadata z) = md_Uid (ur_Metadata x) then y else z) (view_u t) \<and>
        (ur_Spec y, ur_Status y) = (ur_Spec x, ur_Status x) \<and> unstamped (ur_Metadata y) = unstamped (ur_Metadata x) \<and>
        md_Uid (ur_Metadata y) = md_Uid (ur_Metadata x)) (view_u t) (view_u (snd (cl_Update (uc_User C) x t)))"
      using c by blast
    assume "view_u (snd (cl_Update (uc_User C) x t)) = view_u t"
    with c show "calm s (snd (cl_Update (uc_User C) x t))" by (intro calm_via_u [OF assms(2)]) blast
  next
    fix y
    assume "view_u (snd (cl_Update (uc_User C) x t)) = map (\<lambda>z. if md_Uid (ur_Metadata z) = md_Uid (ur_Metadata x) then y else z) (view_u t) \<and>
        (ur_Spec y, ur_Status y) = (ur_Spec x, ur_Status x) \<and> unstamped (ur_Metadata y) = unstamped (ur_Metadata x) \<and>
        md_Uid (ur_Metadata y) = md_Uid (ur_Metadata x)"
    with c show "linked (snd (cl_Update (uc_User C) x t))"
      by (intro linked_users [OF assms(1,2), of _ y]) (use assms(3,7) t(2) in auto)
  qed
qed

section \<open>The handlers\<close>

lemma owner_spec_calm: "calm s t \<Longrightarrow> keeps (calm s) (validate_owner_spec A (uc_Policy C) req attrs auth t)"
  unfolding validate_owner_spec_def
  by (intro keeps_check; assumption?) (auto split: option.splits intro!: keeps_check keeps_return owner_calm)

lemma validateUser_calm: "calm s t \<Longrightarrow> keeps (calm s) (validateUser A (uc_Policy C) req t)"
  unfolding validateUser_def
  by (intro keeps_check; assumption?) (auto split: option.splits intro!: keeps_check keeps_return owner_calm)

lemma calm_refl: "linked s \<Longrightarrow> calm s s"
  by (simp add: linked_def calm_def)

lemma CreateUser_linked:
  assumes "linked s"
  shows "linked (snd (admin_CreateUser A C req s))"
proof (rule leads_linked [OF assms])
  note c = calm_refl [OF assms]
  show "leads (calm s) linked (admin_CreateUser A C req s)"
    unfolding admin_CreateUser_def
  proof ((intro leads_check leads_step leads_on_err keeps_on_err keeps_absent validateUser_calm c; assumption?), goal_cases)
    case (1 u t md)
    then show ?case using validateUser_Ok [of A "uc_Policy C" req s u t] by (auto intro!: named_u)
  next
    case (2 u t md v t1 sp)
    then show ?case using validateUser_Ok [of A "uc_Policy C" req s u t]
      by (intro check_calm) (auto simp: new_user_def)
  next
    case (3 u t md v t1 sp item t2)
    have wf: "user_wf sp" "named_policies (us_Authorization sp)"
      using 3 validateUser_Ok [of A "uc_Policy C" req s u t] by auto
    from check_Ok [OF 3(5) _ _ 3(7)] wf have "ur_Spec item = sp"
      "\<forall>g\<in>set (us_Groups sp). \<exists>r\<in>set (view_g s). md_Name (gr_Metadata r) = g"
      by (simp_all add: new_user_def)
    then show ?case by (intro create_user_linked [OF assms 3(8)]) (use wf in simp_all)
  qed
qed

lemma UpdateUser_linked:
  assumes "linked s"
  shows "linked (snd (admin_UpdateUser A C req s))"
proof (rule leads_linked [OF assms])
  note c = calm_refl [OF assms]
  show "leads (calm s) linked (admin_UpdateUser A C req s)"
    unfolding admin_UpdateUser_def
  proof ((intro leads_check leads_step leads_on_err keeps_on_err validateUser_calm c; assumption?), goal_cases)
    case (1 u t md)
    then show ?case using validateUser_Ok [of A "uc_Policy C" req s u t] by (auto intro!: named_u)
  next
    case (2 u t md item t1 v sp)
    then show ?case using validateUser_Ok [of A "uc_Policy C" req s u t]
      by (intro check_calm) auto
  next
    case (3 u t md old t1 v sp item t2 w)
    have wf: "user_wf sp" "named_policies (us_Authorization sp)" and md: "md_Name md \<noteq> []"
      using 3 validateUser_Ok [of A "uc_Policy C" req s u t] by auto
    have "inv_u t" "view_u t = view_u s" using 3(2) by (simp_all add: calm_def fine_def)
    with usr.get_Ok [OF _ usr.fits_name, of t "by_name (md_Name md)" old t1] 3(4) md have old: "old \<in> set (view_u s)"
      by auto
    from check_Ok [OF 3(5) _ _ 3(8)] wf have "ur_Spec item = sp"
      "md_Uid (ur_Metadata item) = md_Uid (ur_Metadata old)" "md_Name (ur_Metadata item) = md_Name (ur_Metadata old)"
      "\<forall>g\<in>set (us_Groups sp). \<exists>r\<in>set (view_g s). md_Name (gr_Metadata r) = g"
      by simp_all
    then show ?case by (intro update_user_linked [OF assms 3(9) _ old]) (use wf in simp_all)
  qed
qed

lemma DeleteUser_linked:
  assumes "linked s" and "fits_u \<lparr>go_Uid = do_Uid req, go_Name = do_Name req\<rparr> s"
  shows "linked (snd (admin_DeleteUser A (uc_User C) req s))"
proof (rule leads_linked [OF assms(1)])
  note c = calm_refl [OF assms(1)]
  show "leads (calm s) linked (admin_DeleteUser A (uc_User C) req s)"
    unfolding admin_DeleteUser_def
  proof ((intro leads_finish leads_check leads_step keeps_on_err read_u c assms(2); assumption?), goal_cases)
    case (1 u z t v)
    have "inv_u s" using assms(1) by (simp add: linked_def fine_def)
    with usr.get_Ok [OF _ assms(2)] 1(2) have z: "z \<in> set (view_u s)" by auto
    have t: "inv_u t" "view_u t = view_u s" using 1(3) by (simp_all add: calm_def fine_def)
    then have zt: "z \<in> set (view_u t)" using z by simp
    let ?m = "cl_Delete (uc_User C) \<lparr>do_Uid = md_Uid (ur_Metadata z), do_Name = []\<rparr> t"
    note d = usr.delete [OF t(1) zt prod.collapse [symmetric]]
    show ?case
    proof (rule leads_effect [where view = view_u])
      show "effect (fst ?m) (\<lambda>y v. v = filter (\<lambda>q. md_Uid (ur_Metadata q) \<noteq> md_Uid (ur_Metadata z)) (view_u t)) (view_u t) (view_u (snd ?m))"
        using d by blast
      assume "view_u (snd ?m) = view_u t"
      with d show "calm s (snd ?m)" by (intro calm_via_u [OF 1(3)]) blast
    next
      assume "view_u (snd ?m) = filter (\<lambda>q. md_Uid (ur_Metadata q) \<noteq> md_Uid (ur_Metadata z)) (view_u t)"
      with d show "linked (snd ?m)"
        by (intro linked_users [OF assms(1) 1(3), of _ z]) (use z t(2) assms(1) in \<open>auto simp: linked_def\<close>)
    qed
  qed
qed

text \<open>Writing groups so that all groups of users are still there keeps the invariant.\<close>

lemma linked_groups:
  assumes "linked s" "calm s t" and "inv_g r" "rest_g r = rest_g t"
    and "\<And>u n. u \<in> set (view_u s) \<Longrightarrow> n \<in> set (us_Groups (ur_Spec u)) \<Longrightarrow> \<exists>q\<in>set (view_g r). md_Name (gr_Metadata q) = n"
  shows "linked r"
proof -
  have "inv_p r \<and> inv_u r \<and> inv_i r \<and> view_u r = view_u t"
    using frame_g [of t r] assms(2-4) by (simp add: calm_def fine_def)
  moreover have "view_u t = view_u s" using assms(2) by (simp add: calm_def)
  ultimately show ?thesis
    using assms(1,3,5) by (auto simp: linked_def fine_def)
qed

lemma linkedD:
  "linked s \<Longrightarrow> u \<in> set (view_u s) \<Longrightarrow> n \<in> set (us_Groups (ur_Spec u)) \<Longrightarrow>
   n \<noteq> [] \<and> (\<exists>q\<in>set (view_g s). md_Name (gr_Metadata q) = n)"
  using NameMain_hd by (auto simp: linked_def user_wf_def)

lemma validate_owner_named:
  "validate_owner_spec A Cp req attrs auth s = (Ok u, t) \<Longrightarrow> \<exists>md. aq_Metadata req = Some md \<and> md_Name md \<noteq> []"
  by (auto simp: validate_owner_spec_def dest!: go_seq_Ok dest: validate_named)

lemma CreateGroup_linked:
  assumes "linked s"
  shows "linked (snd (admin_CreateGroup A (uc_Policy C) (uc_Group C) req s))"
proof (rule leads_linked [OF assms])
  note c = calm_refl [OF assms]
  show "leads (calm s) linked (admin_CreateGroup A (uc_Policy C) (uc_Group C) req s)"
    unfolding admin_CreateGroup_def validateGroup_def
  proof ((intro leads_check leads_step leads_on_err keeps_on_err keeps_absent owner_spec_calm c; assumption?), goal_cases)
    case (1 u t md)
    then show ?case by (auto intro!: named_g dest!: validate_owner_named)
  next
    case (2 u t md v t1 sp)
    have t: "inv_g t1" "view_g t1 = view_g s" using 2(5) by (simp_all add: calm_def fine_def)
    let ?m = "cl_Create (uc_Group C) (new_group md sp) t1"
    note d = grp.create [OF t(1) prod.collapse [symmetric], of "new_group md sp"]
    show ?case
    proof (rule leads_effect [where view = view_g])
      show "effect (fst ?m) (\<lambda>y v. v = view_g t1 @ [y] \<and> pay_g y = pay_g (new_group md sp) \<and>
          unstamped (gr_Metadata y) = unstamped (gr_Metadata (new_group md sp))) (view_g t1) (view_g (snd ?m))"
        using d by blast
      assume "view_g (snd ?m) = view_g t1"
      with d show "calm s (snd ?m)" by (intro calm_via_g [OF 2(5)]) blast
    next
      fix y
      assume "view_g (snd ?m) = view_g t1 @ [y] \<and> pay_g y = pay_g (new_group md sp) \<and>
          unstamped (gr_Metadata y) = unstamped (gr_Metadata (new_group md sp))"
      with d show "linked (snd ?m)"
        by (intro linked_groups [OF assms 2(5)]) (use linkedD [OF assms] t(2) in auto)
    qed
  qed
qed

lemma UpdateGroup_linked:
  assumes "linked s"
  shows "linked (snd (admin_UpdateGroup A (uc_Policy C) (uc_Group C) req s))"
proof (rule leads_linked [OF assms])
  note c = calm_refl [OF assms]
  show "leads (calm s) linked (admin_UpdateGroup A (uc_Policy C) (uc_Group C) req s)"
    unfolding admin_UpdateGroup_def validateGroup_def
  proof ((intro leads_check leads_step leads_on_err keeps_on_err owner_spec_calm c; assumption?), goal_cases)
    case (1 u t md)
    then show ?case by (auto intro!: named_g dest!: validate_owner_named)
  next
    case (2 u t md z t1 v sp)
    have md: "md_Name md \<noteq> []" using 2(1,3) by (auto dest!: validate_owner_named)
    have t: "inv_g t" "view_g t = view_g s" "inv_g t1" "view_g t1 = view_g s"
      using 2(2,5) by (simp_all add: calm_def fine_def)
    have z: "z \<in> set (view_g t1)"
      using grp.get_Ok [OF t(1) grp.fits_name, of "by_name (md_Name md)" z t1] t md 2(4) by auto
    let ?x = "z\<lparr>gr_Metadata := MetadataUpdate (gr_Metadata z) md, gr_Authorization := gs_Authorization sp, gr_Attrs := gs_Attrs sp\<rparr>"
    let ?m = "cl_Update (uc_Group C) ?x t1"
    have same: "md_Uid (gr_Metadata ?x) = md_Uid (gr_Metadata z)" "md_Name (gr_Metadata ?x) = md_Name (gr_Metadata z)" by simp_all
    note d = grp.update [OF t(3) z same prod.collapse [symmetric]]
    show ?case
    proof (rule leads_effect [where view = view_g])
      show "effect (fst ?m) (\<lambda>y v. v = map (\<lambda>q. if md_Uid (gr_Metadata q) = md_Uid (gr_Metadata ?x) then y else q) (view_g t1) \<and>
          pay_g y = pay_g ?x \<and> unstamped (gr_Metadata y) = unstamped (gr_Metadata ?x) \<and>
          md_Uid (gr_Metadata y) = md_Uid (gr_Metadata ?x)) (view_g t1) (view_g (snd ?m))"
        using d by blast
      assume "view_g (snd ?m) = view_g t1"
      with d show "calm s (snd ?m)" by (intro calm_via_g [OF 2(5)]) blast
    next
      fix y
      assume y: "view_g (snd ?m) = map (\<lambda>q. if md_Uid (gr_Metadata q) = md_Uid (gr_Metadata ?x) then y else q) (view_g t1) \<and>
          pay_g y = pay_g ?x \<and> unstamped (gr_Metadata y) = unstamped (gr_Metadata ?x) \<and>
          md_Uid (gr_Metadata y) = md_Uid (gr_Metadata ?x)"
      then have "unstamped (gr_Metadata y) = unstamped (gr_Metadata ?x)" by blast
      from unstamped_keeps [OF this] same(2) have yname: "md_Name (gr_Metadata y) = md_Name (gr_Metadata z)" by argo
      have "\<exists>q'\<in>set (view_g (snd ?m)). md_Name (gr_Metadata q') = md_Name (gr_Metadata q)" if q: "q \<in> set (view_g s)" for q
      proof (cases "md_Uid (gr_Metadata q) = md_Uid (gr_Metadata z)")
        case True
        then have "q = z" using grp.view_unique [OF t(3)] q z t(4) by auto
        with y yname z show ?thesis by (auto intro!: bexI [of _ y])
      next
        case False
        with y q t(4) show ?thesis by (auto intro!: bexI [of _ q] simp: image_iff)
      qed
      then have names: "\<exists>q\<in>set (view_g (snd ?m)). md_Name (gr_Metadata q) = n"
        if "x \<in> set (view_u s)" "n \<in> set (us_Groups (ur_Spec x))" for x n
        using linkedD [OF assms that] by metis
      show "linked (snd ?m)"
        by (rule linked_groups [OF assms 2(5) _ _ names]) (use d in blast)+
    qed
  qed
qed

lemma DeleteGroup_linked:
  assumes "linked s" and "fits_g \<lparr>go_Uid = do_Uid req, go_Name = do_Name req\<rparr> s"
    and member: "\<And>n u. n \<noteq> [] \<Longrightarrow> holds_u (members_filter n) u \<longleftrightarrow> n \<in> set (us_Groups (ur_Spec u))"
  shows "linked (snd (admin_DeleteGroup A (uc_User C) (uc_Group C) req s))"
proof (rule leads_linked [OF assms(1)])
  note c = calm_refl [OF assms(1)]
  show "leads (calm s) linked (admin_DeleteGroup A (uc_User C) (uc_Group C) req s)"
    unfolding admin_DeleteGroup_def
  proof ((intro leads_finish leads_check leads_step leads_on_err keeps_on_err read_g list_u c assms(2); assumption?), goal_cases)
    case (1 u z t v usrs t1 w)
    have inv: "inv_g s" using assms(1) by (simp add: linked_def fine_def)
    have t: "inv_u t" "view_u t = view_u s" "inv_g t1" "view_g t1 = view_g s"
      using 1(3,6) by (simp_all add: calm_def fine_def)
    have z: "z \<in> set (view_g t1)" using grp.get_Ok [OF inv assms(2)] 1(2) t(4) by auto
    have "set usrs = {u \<in> set (view_u t). \<forall>f\<in>set [members_filter (md_Name (gr_Metadata z))]. holds_u f u}"
      using usr.listed [OF t(1), of "[members_filter (md_Name (gr_Metadata z))]" "Ok usrs" t1] 1(5) by simp
    moreover have "usrs = []" using 1(7) by simp
    ultimately have free: "\<not> holds_u (members_filter (md_Name (gr_Metadata z))) u" if "u \<in> set (view_u s)" for u
      using that t(2) by auto
    let ?m = "cl_Delete (uc_Group C) \<lparr>do_Uid = md_Uid (gr_Metadata z), do_Name = []\<rparr> t1"
    note d = grp.delete [OF t(3) z prod.collapse [symmetric]]
    show ?case
    proof (rule leads_effect [where view = view_g])
      show "effect (fst ?m) (\<lambda>y v. v = filter (\<lambda>q. md_Uid (gr_Metadata q) \<noteq> md_Uid (gr_Metadata z)) (view_g t1)) (view_g t1) (view_g (snd ?m))"
        using d by blast
      assume "view_g (snd ?m) = view_g t1"
      with d show "calm s (snd ?m)" by (intro calm_via_g [OF 1(6)]) blast
    next
      assume gone: "view_g (snd ?m) = filter (\<lambda>q. md_Uid (gr_Metadata q) \<noteq> md_Uid (gr_Metadata z)) (view_g t1)"
      have "\<exists>q\<in>set (view_g (snd ?m)). md_Name (gr_Metadata q) = n"
        if n: "x \<in> set (view_u s)" "n \<in> set (us_Groups (ur_Spec x))" for x n
      proof -
        obtain q where q: "q \<in> set (view_g s)" "md_Name (gr_Metadata q) = n" "n \<noteq> []"
          using linkedD [OF assms(1) n] by blast
        have "md_Uid (gr_Metadata q) \<noteq> md_Uid (gr_Metadata z)"
        proof
          assume "md_Uid (gr_Metadata q) = md_Uid (gr_Metadata z)"
          then have "q = z" using grp.view_unique [OF t(3)] q(1) z t(4) by auto
          with free [OF n(1)] member [of n x] q(2,3) n(2) show False by simp
        qed
        with gone q t(4) show ?thesis by auto
      qed
      with d show "linked (snd ?m)" by (intro linked_groups [OF assms(1) 1(6)]) blast+
    qed
  qed
qed

end

section \<open>Over the resource server\<close>

text \<open>A client of one kind of resource changes nothing of another kind.\<close>

lemma core_frame:
  assumes "client_inv S K' s" and "client_inv S K t" and "kind_rest K t = kind_rest K s" and "cd_kind K' \<noteq> cd_kind K"
  shows "client_inv S K' t \<and> kind_view K' t = kind_view K' s"
proof -
  have other: "filter (of_kind K') (rs_table r) = filter (of_kind K') (kind_rest K r)" for r
    unfolding kind_rest_def filter_filter by (rule filter_cong) (use assms(4) in \<open>auto simp: of_kind_def\<close>)
  have rows: "filter (of_kind K') (rs_table t) = filter (of_kind K') (rs_table s)"
    unfolding other [of t] other [of s] assms(3) ..
  have "\<exists>x. cd_dec K' (rw_Resource r) = Ok x" if "r \<in> set (rs_table t)" "of_kind K' r" for r
  proof -
    have "r \<in> set (filter (of_kind K') (rs_table s))" using that by (simp add: rows [symmetric])
    then show ?thesis using client_invD(9) [OF assms(1)] by simp
  qed
  then have "client_inv S K' t"
    using assms(1,2) by (simp add: client_inv_def stored_ok_def)
  then show ?thesis by (simp add: kind_view_def rows)
qed

text \<open>How the messages of the four kinds are written and read, and what a condition says of them.\<close>

type_synonym 'a conversion = "('a \<Rightarrow> rsc_obj) \<times> (rsc_obj \<Rightarrow> 'a go) \<times> (sql_cond \<Rightarrow> 'a \<Rightarrow> bool)"

record conversions =
  cv_Policy :: "Policy conversion"
  cv_Group :: "Group conversion"
  cv_User :: "User conversion"
  cv_IdP :: "IdentityProvider conversion"

definition codec_of :: "string \<Rightarrow> ('a \<Rightarrow> Metadata) \<Rightarrow> ('a \<Rightarrow> 'p) \<Rightarrow> 'a conversion \<Rightarrow> ('a, 'p) codec" where
  "codec_of kind md payload cv =
     \<lparr>cd_kind = kind, cd_md = md, cd_payload = payload, cd_enc = fst cv, cd_dec = fst (snd cv), cd_holds = snd (snd cv)\<rparr>"

lemma codec_of_simps [simp]:
  "cd_kind (codec_of kind md payload cv) = kind" "cd_md (codec_of kind md payload cv) = md"
  "cd_payload (codec_of kind md payload cv) = payload"
  by (simp_all add: codec_of_def)

text \<open>The conversions of a codec.\<close>

definition conversion_of :: "('a, 'p) codec \<Rightarrow> 'a conversion" where
  "conversion_of K = (cd_enc K, cd_dec K, cd_holds K)"

abbreviation policies :: "conversions \<Rightarrow> (Policy, Policy_Spec \<times> ObjectReference option) codec" where
  "policies D \<equiv> codec_of ''Policy'' pol_Metadata (\<lambda>p. (pol_Spec p, pol_ParentPolicyRef p)) (cv_Policy D)"

abbreviation groups :: "conversions \<Rightarrow> (Group, Authorization option \<times> json option) codec" where
  "groups D \<equiv> codec_of ''Group'' gr_Metadata (\<lambda>g. (gr_Authorization g, gr_Attrs g)) (cv_Group D)"

abbreviation users :: "conversions \<Rightarrow> (User, User_Spec \<times> User_Status option) codec" where
  "users D \<equiv> codec_of ''User'' ur_Metadata (\<lambda>u. (ur_Spec u, ur_Status u)) (cv_User D)"

abbreviation idps :: "conversions \<Rightarrow> (IdentityProvider, IdentityProvider_Spec \<times> IdentityProvider_Status) codec" where
  "idps D \<equiv> codec_of ''IdentityProvider'' idp_Metadata (\<lambda>i. (idp_Spec i, idp_Status i)) (cv_IdP D)"

definition core_clients :: "serve_env \<Rightarrow> (string \<Rightarrow> fate) \<Rightarrow> conversions \<Rightarrow> rsc_state user_clients" where
  "core_clients S net D =
     \<lparr>uc_Policy = CoreC S net (policies D), uc_Group = CoreC S net (groups D), uc_User = CoreC S net (users D),
      uc_IdP = CoreC S net (idps D)\<rparr>"

lemma core_clients_simps [simp]:
  "uc_Policy (core_clients S net D) = CoreC S net (policies D)" "uc_Group (core_clients S net D) = CoreC S net (groups D)"
  "uc_User (core_clients S net D) = CoreC S net (users D)" "uc_IdP (core_clients S net D) = CoreC S net (idps D)"
  by (simp_all add: core_clients_def)

interpretation core_directory: directory "core_clients S net D"
  "\<lambda>p. (pol_Spec p, pol_ParentPolicyRef p)" "filter_holds (policies D)" "client_inv S (policies D)"
    "\<lambda>o'. kind_fits o' ''core'' ''v1'' ''Policy''" "kind_view (policies D)" "kind_rest (policies D)"
  "\<lambda>g. (gr_Authorization g, gr_Attrs g)" "filter_holds (groups D)" "client_inv S (groups D)"
    "\<lambda>o'. kind_fits o' ''core'' ''v1'' ''Group''" "kind_view (groups D)" "kind_rest (groups D)"
  "filter_holds (users D)" "client_inv S (users D)"
    "\<lambda>o'. kind_fits o' ''core'' ''v1'' ''User''" "kind_view (users D)" "kind_rest (users D)"
  "\<lambda>i. (idp_Spec i, idp_Status i)" "filter_holds (idps D)" "client_inv S (idps D)"
    "\<lambda>o'. kind_fits o' ''core'' ''v1'' ''IdentityProvider''" "kind_view (idps D)" "kind_rest (idps D)" for S net D
proof (unfold directory_def directory_axioms_def core_clients_simps, intro conjI allI impI)
  show "resource_client (CoreC S net (policies D)) pol_Metadata (\<lambda>p. (pol_Spec p, pol_ParentPolicyRef p)) (filter_holds (policies D))
      (client_inv S (policies D)) (\<lambda>o'. kind_fits o' ''core'' ''v1'' ''Policy'') (kind_view (policies D)) (kind_rest (policies D))"
    using core.resource_client_axioms [of S net "policies D"] by simp
  show "resource_client (CoreC S net (groups D)) gr_Metadata (\<lambda>g. (gr_Authorization g, gr_Attrs g)) (filter_holds (groups D))
      (client_inv S (groups D)) (\<lambda>o'. kind_fits o' ''core'' ''v1'' ''Group'') (kind_view (groups D)) (kind_rest (groups D))"
    using core.resource_client_axioms [of S net "groups D"] by simp
  show "resource_client (CoreC S net (users D)) ur_Metadata (\<lambda>u. (ur_Spec u, ur_Status u)) (filter_holds (users D))
      (client_inv S (users D)) (\<lambda>o'. kind_fits o' ''core'' ''v1'' ''User'') (kind_view (users D)) (kind_rest (users D))"
    using core.resource_client_axioms [of S net "users D"] by simp
  show "resource_client (CoreC S net (idps D)) idp_Metadata (\<lambda>i. (idp_Spec i, idp_Status i)) (filter_holds (idps D))
      (client_inv S (idps D)) (\<lambda>o'. kind_fits o' ''core'' ''v1'' ''IdentityProvider'') (kind_view (idps D)) (kind_rest (idps D))"
    using core.resource_client_axioms [of S net "idps D"] by simp
qed ((elim conjE, rule core_frame [THEN conjunct1] core_frame [THEN conjunct2], assumption, assumption, assumption, simp)+)

end
