(* ===== verification/CoreLive.thy ===== *)
theory CoreLive imports CoreClient begin

text \<open>
  What a client gets from a server on which nothing fails: reading finds every resource that is there,
  and a resource with a new name is created. Then a server on which this can be evaluated.
\<close>

section \<open>Servers on which nothing fails\<close>

definition works :: "serve_env \<Rightarrow> (string \<Rightarrow> fate) \<Rightarrow> ('a, 'p) codec \<Rightarrow> bool" where
  "works S net K \<longleftrightarrow>
     (\<forall>s. re_db (sn_rsc S) s = None) \<and> (\<forall>s. le_db (sn_list S) s = None) \<and> (\<forall>p. net p = Answered) \<and>
     (\<forall>xs. sn_ToJSON S xs = None \<and> sn_FromJSON S xs = None) \<and>
     (\<forall>x. is_ok (re_FromMap (sn_rsc S) (cd_kind K) x))"

text \<open>Such a server, when the identifier that it draws for a new resource is not taken.\<close>

definition healthy :: "serve_env \<Rightarrow> (string \<Rightarrow> fate) \<Rightarrow> ('a, 'p) codec \<Rightarrow> rsc_state \<Rightarrow> bool" where
  "healthy S net K st \<longleftrightarrow>
     works S net K \<and> rc_NewUid (sn_call S) \<notin> rw_Uid ` set (rs_table st) \<and> rc_NewUid (sn_call S) \<noteq> [] \<and>
     IsUUIDv4 (re_V (sn_rsc S)) (rc_NewUid (sn_call S))"

lemma healthy_works: "healthy S net K st \<Longrightarrow> works S net K"
  by (simp add: healthy_def)

text \<open>The options that the server accepts: a name or an identifier of their form.\<close>

definition opts_fine :: "serve_env \<Rightarrow> GetOptions \<Rightarrow> bool" where
  "opts_fine S o' \<longleftrightarrow> rsc_checkGetOptions (sn_rsc S) o' = Ok ()"

lemma healthy_table: "rs_table st' = rs_table st \<Longrightarrow> healthy S net K st' = healthy S net K st"
  by (simp add: healthy_def)

lemma call_answered:
  assumes "works S net K"
    and "handleUnaryRequest S path req st = go_seq h (\<lambda>x st. (Ok (Resp_Object (f x)), st))"
  shows "client_call S net path req (resp_object K) st = (over_grpc (go_bind (fst h) (\<lambda>x. cd_dec K (f x))), snd h)"
  using assms by (cases h; cases "fst h") (auto simp: client_call_def works_def resp_object_def)

lemma doGet_healthy:
  assumes "client_inv S K st" "works S net K" "kind_fits o' ''core'' ''v1'' (cd_kind K) st"
  shows "\<exists>st'. doGet (sn_rsc S) o' ''core'' ''v1'' (cd_kind K) st =
      (table_get (sn_rsc S) o' ''core'' ''v1'' (cd_kind K) st, st') \<and> coherent st' \<and> rs_table st' = rs_table st"
  by (rule doGet_spec [OF client_invD(1,2) [OF assms(1)] assms(3)]) (use assms(2) in \<open>auto simp: works_def\<close>)

lemma selected_iff:
  assumes "client_inv S K st" "q \<in> set (rs_table st)" "cd_dec K (rw_Resource q) = Ok x"
  shows "row_selected o' ''core'' ''v1'' (cd_kind K) q \<longleftrightarrow> of_kind K q \<and> opt_matches o' (cd_md K x)"
  using decoded_row [OF assms] coherentD(1) [OF client_invD(1) [OF assms(1)] assms(2)]
  by (auto simp: row_selected_ok of_kind_def opt_matches_def)

lemma not_selected:
  assumes "client_inv S K st" "\<forall>x\<in>set (kind_view K st). \<not> opt_matches o' (cd_md K x)"
  shows "List.find (row_selected o' ''core'' ''v1'' (cd_kind K)) (rs_table st) = None"
  unfolding find_None_iff
proof (intro notI, elim bexE exE conjE)
  fix q assume q: "q \<in> set (rs_table st)" "row_selected o' ''core'' ''v1'' (cd_kind K) q"
  then have kind: "of_kind K q" by (simp add: row_selected_def of_kind_def)
  obtain x where x: "cd_dec K (rw_Resource q) = Ok x" using client_invD(9) [OF assms(1) q(1) kind] by blast
  with q kind assms(2) selected_iff [OF assms(1) q(1) x] show False by (auto simp: in_view)
qed

section \<open>Reading\<close>

lemma core_get_absent:
  assumes inv: "client_inv S K st" and h: "healthy S net K st" and o': "kind_fits o' ''core'' ''v1'' (cd_kind K) st" "opts_fine S o'"
    and none: "\<forall>x\<in>set (kind_view K st). \<not> opt_matches o' (cd_md K x)"
  shows "\<exists>st'. cl_Get (CoreC S net K) o' st = (Fail NotFound, st') \<and> rs_table st' = rs_table st \<and> client_inv S K st'"
proof -
  obtain st' where st': "doGet (sn_rsc S) o' ''core'' ''v1'' (cd_kind K) st =
      (table_get (sn_rsc S) o' ''core'' ''v1'' (cd_kind K) st, st')" "coherent st'" "rs_table st' = rs_table st"
    using doGet_healthy [OF inv healthy_works [OF h] o'(1)] by blast
  have "table_get (sn_rsc S) o' ''core'' ''v1'' (cd_kind K) st = Fail NotFound"
    using o'(2) h not_selected [OF inv none] by (simp add: table_get_def get_row_def opts_fine_def healthy_def works_def)
  then show ?thesis
    using call_answered [OF healthy_works [OF h] handle_core(1) [OF client_invD(6) [OF inv]], of o'] st' client_inv_table(1) [OF inv st'(2)]
    by (simp add: CoreC_def NotFound_def)
qed

lemma core_get_present:
  assumes inv: "client_inv S K st" and h: "healthy S net K st" and o': "kind_fits o' ''core'' ''v1'' (cd_kind K) st" "opts_fine S o'"
    and x: "x \<in> set (kind_view K st)" "opt_matches o' (cd_md K x)"
  shows "\<exists>st'. cl_Get (CoreC S net K) o' st = (Ok x, st') \<and> rs_table st' = rs_table st \<and> client_inv S K st'"
proof -
  note D = client_invD [OF inv]
  obtain st' where st': "doGet (sn_rsc S) o' ''core'' ''v1'' (cd_kind K) st =
      (table_get (sn_rsc S) o' ''core'' ''v1'' (cd_kind K) st, st')" "coherent st'" "rs_table st' = rs_table st"
    using doGet_healthy [OF inv healthy_works [OF h] o'(1)] by blast
  obtain q where q: "q \<in> set (rs_table st)" "of_kind K q" "cd_dec K (rw_Resource q) = Ok x"
    using x(1) by (auto simp: in_view)
  then have "row_selected o' ''core'' ''v1'' (cd_kind K) q" using selected_iff [OF inv q(1,3)] x(2) by simp
  then have "List.find (row_selected o' ''core'' ''v1'' (cd_kind K)) (rs_table st) = Some q"
    by (rule find_selected [OF D(1) q(1)])
  then have "table_get (sn_rsc S) o' ''core'' ''v1'' (cd_kind K) st = Ok (rw_Resource q)"
    using o'(2) h kinds_fine(1) [OF D(6)] by (simp add: table_get_def get_row_def opts_fine_def healthy_def works_def)
  then show ?thesis
    using call_answered [OF healthy_works [OF h] handle_core(1) [OF D(6)], of o'] st' q(3) client_inv_table(1) [OF inv st'(2)]
    by (simp add: CoreC_def)
qed

section \<open>Listing\<close>

lemma go_mapM_total: "\<forall>x\<in>set xs. is_ok (f x) \<Longrightarrow> is_ok (go_mapM f xs)"
  by (induction xs) (auto simp: is_ok_iff go_map_def)

lemma core_list_ok:
  assumes inv: "client_inv S K st" and h: "healthy S net K st" and fs: "is_ok (getListFilters fs)"
    and kind: "cd_kind K \<noteq> ''ClusterConfig''"
  shows "\<exists>xs. cl_List (CoreC S net K) (no_list_options\<lparr>lo_Filters := fs\<rparr>) st = (Ok xs, st)"
proof -
  note D = client_invD [OF inv]
  let ?req = "no_list_options\<lparr>lo_Filters := fs\<rparr>"
  obtain cs where "getListFilters fs = Ok cs" using fs by (auto simp: is_ok_iff)
  then have cs: "list_conditions ?req = Ok cs"
    by (cases fs) (auto simp: list_conditions_def no_list_options_def getListFilters_def go_map_def)
  have req: "\<not> lo_Paginate ?req" "lo_Page ?req = 0" by (simp_all add: no_list_options_def)
  obtain L where L: "L = sn_list S" "le_db L SELECT = None" using h by (auto simp: healthy_def works_def)
  have "\<exists>items m. doList L ?req ''core'' ''v1'' (cd_kind K) st = Ok (items, m)"
    using kinds_fine(1) [OF D(6)] L(2) req unfolding doList_def cs by (cases "selected_rows L ?req cs ''core'' ''v1'' (cd_kind K) (rs_table st) = []") (simp_all add: Let_def)
  then obtain items m where items: "doList (sn_list S) ?req ''core'' ''v1'' (cd_kind K) st = Ok (items, m)" unfolding L(1) by blast
  have "\<forall>ts rows. set (le_order (sn_list S) ts rows) = set rows" using inv by (simp add: client_inv_def serve_ok_def)
  from doList_items [OF items this] have "\<forall>z\<in>set items. is_ok (cd_dec K z)"
    using D(9) by (auto simp: is_ok_iff of_kind_def)
  then obtain xs where "go_mapM (cd_dec K) items = Ok xs" using go_mapM_total [of items "cd_dec K"] by (auto simp: is_ok_iff)
  moreover have "NewObjectList (cd_kind K) = Ok (cd_kind K @ ''List'')"
    using D(6) kind by (simp add: NewObjectList_def)
  ultimately show ?thesis
    using h handle_core(2) [OF D(6), of S ?req st] items
    by (simp add: CoreC_def client_call_def healthy_def works_def toResourceList_def resp_list_def)
qed

section \<open>Creating\<close>

lemma core_create_new:
  assumes inv: "client_inv S K st" and h: "healthy S net K st" and name: "opts_fine S (by_name (md_Name (cd_md K x)))"
    and none: "\<forall>y\<in>set (kind_view K st). md_Name (cd_md K y) \<noteq> md_Name (cd_md K x)"
  shows "\<exists>y st'. cl_Create (CoreC S net K) x st = (Ok y, st')"
proof -
  note D = client_invD [OF inv]
  let ?E = "sn_rsc S" and ?o = "by_name (md_Name (cd_md K x))" and ?uid = "rc_NewUid (sn_call S)"
  have nm: "md_Name (cd_md K x) \<noteq> []" using name by (auto simp: opts_fine_def rsc_checkGetOptions_def)
  obtain obj where obj: "re_FromMap ?E (cd_kind K) (with_defaults ''core'' ''v1'' (cd_kind K) (cd_enc K x)) = Ok obj"
    using h unfolding healthy_def works_def is_ok_iff by blast
  obtain y0 where y0: "ob_Metadata obj = Some (cd_md K x)" "cd_dec K obj = Ok y0" using codecD(5) [OF D(4) obj] by blast
  let ?obj = "obj\<lparr>ob_Metadata := Some (stamp_create (sn_call S) (cd_md K x))\<rparr>"
  obtain y where y: "cd_dec K ?obj = Ok y" using codecD(4) [OF D(4) y0(2)] by blast
  have fits: "kind_fits ?o ''core'' ''v1'' (cd_kind K) st" by (rule fits_by_name [OF inv]) (simp add: nm)
  obtain st1 where st1: "doGet ?E ?o ''core'' ''v1'' (cd_kind K) st = (table_get ?E ?o ''core'' ''v1'' (cd_kind K) st, st1)"
    "coherent st1" "rs_table st1 = rs_table st"
    using doGet_healthy [OF inv healthy_works [OF h] fits] by blast
  have "table_get ?E ?o ''core'' ''v1'' (cd_kind K) st = Fail NotFound"
    using name h not_selected [OF inv, of ?o] none nm
    by (simp add: table_get_def get_row_def opts_fine_def healthy_def works_def opt_matches_def)
  then have prep: "create_prepare ?E (sn_call S) (cd_enc K x) ''core'' ''v1'' (cd_kind K) st = (Ok ?obj, st1)"
    using st1(1) name kinds_fine(1) [OF D(6)] obj y0(1)
    by (simp add: create_prepare_def opts_fine_def IsNotFound_def NotFound_def)
  let ?row = "new_row ?uid ''core'' ''v1'' (cd_kind K) ?obj" and ?m = "stamp_create (sn_call S) (cd_md K x)"
  let ?st2 = "st1\<lparr>rs_table := rs_table st1 @ [?row]\<rparr>"
  have ins: "insert_row ?E ?uid ''core'' ''v1'' (cd_kind K) ?obj st1 = (Ok (), ?st2)"
    using h by (simp add: insert_row_def healthy_def works_def st1(3) new_row_def)
  have m: "md_Uid ?m = ?uid" "md_Name ?m = md_Name (cd_md K x)" by (simp_all add: stamp_create_def)
  have "row_id ?row \<notin> row_id ` set (rs_table st1)"
  proof
    assume "row_id ?row \<in> row_id ` set (rs_table st1)"
    then obtain q where q: "q \<in> set (rs_table st)" "row_id q = row_id ?row" by (auto simp: st1(3))
    then have "row_selected ?o ''core'' ''v1'' (cd_kind K) q"
      using coherentD(1) [OF D(1) q(1)] nm by (simp add: row_selected_ok row_id_def row_name_def m)
    moreover have "\<forall>y\<in>set (kind_view K st). \<not> opt_matches ?o (cd_md K y)" using none nm by (simp add: opt_matches_def)
    ultimately show False using not_selected [OF inv, of ?o] q(1) by (simp add: find_None_iff)
  qed
  moreover have "?uid \<notin> rw_Uid ` set (rs_table st1)" using h by (simp add: healthy_def works_def st1(3))
  moreover have "row_ok ?row" using D by (simp add: row_ok_def m)
  ultimately have coh2: "coherent ?st2" using coherent_insert [OF st1(2), of ?row] by simp
  have reread: "\<exists>s. (if isTypeSecret (cd_kind K) then doGet ?E (by_uid ?uid) ''core'' ''v1'' (cd_kind K) ?st2 else (Ok ?obj, ?st2)) = (Ok ?obj, s)"
  proof (cases "isTypeSecret (cd_kind K)")
    case True
    have "own_kind ?uid ''core'' ''v1'' (cd_kind K) ?st2"
      using h by (auto simp: own_kind_def healthy_def works_def st1(3) image_iff)
    then have fits2: "kind_fits (by_uid ?uid) ''core'' ''v1'' (cd_kind K) ?st2" using D by (simp add: kind_fits_def)
    obtain s where s: "doGet ?E (by_uid ?uid) ''core'' ''v1'' (cd_kind K) ?st2 =
        (table_get ?E (by_uid ?uid) ''core'' ''v1'' (cd_kind K) ?st2, s)"
      by (rule doGet_spec [OF coh2 D(2) fits2]) (use h in \<open>auto simp: healthy_def works_def\<close>)
    have "row_selected (by_uid ?uid) ''core'' ''v1'' (cd_kind K) ?row" by (simp add: row_selected_def m)
    then have "List.find (row_selected (by_uid ?uid) ''core'' ''v1'' (cd_kind K)) (rs_table ?st2) = Some ?row"
      by (intro find_selected [OF coh2]) simp_all
    then have "table_get ?E (by_uid ?uid) ''core'' ''v1'' (cd_kind K) ?st2 = Ok ?obj"
      using h kinds_fine(1) [OF D(6)] by (simp add: table_get_def get_row_def healthy_def works_def rsc_checkGetOptions_def reject_if_def)
    with s True show ?thesis by simp
  qed simp
  then obtain s where s: "(if isTypeSecret (cd_kind K) then doGet ?E (by_uid ?uid) ''core'' ''v1'' (cd_kind K) ?st2 else (Ok ?obj, ?st2)) = (Ok ?obj, s)"
    by blast
  have "\<exists>s'. doPostCreate ?E ?obj ''core'' ''v1'' (cd_kind K) s = (Ok (), s')"
    by (cases "isTypeSecret (cd_kind K)") (simp_all add: doPostCreate_def doSetCache_def)
  then obtain s' where s': "doPostCreate ?E ?obj ''core'' ''v1'' (cd_kind K) s = (Ok (), s')" by blast
  have "doCreate ?E (sn_call S) (cd_enc K x) ''core'' ''v1'' (cd_kind K) st = (Ok ?obj, s')"
    by (cases "isTypeSecret (cd_kind K)") (use prep ins s s' in \<open>simp_all add: doCreate_def create_commit_def m\<close>)
  then show ?thesis
    using call_answered [OF healthy_works [OF h] handle_core(3) [OF D(6)], of "cd_enc K x"] y by (simp add: CoreC_def)
qed

text \<open>A creation that succeeds adds the row of its identifier.\<close>

lemma core_create_uids:
  assumes inv: "client_inv S K st" and h: "healthy S net K st" and ok: "cl_Create (CoreC S net K) x st = (Ok y, st')"
  shows "rw_Uid ` set (rs_table st') = insert (rc_NewUid (sn_call S)) (rw_Uid ` set (rs_table st))"
proof -
  note D = client_invD [OF inv]
  obtain q s1 where q: "doCreate (sn_rsc S) (sn_call S) (cd_enc K x) ''core'' ''v1'' (cd_kind K) st = (q, s1)" by fastforce
  have "st' = s1" "is_ok q"
    using call_answered [OF healthy_works [OF h] handle_core(3) [OF D(6)], of "cd_enc K x"] ok q by (auto simp: CoreC_def is_ok_iff)
  then show ?thesis using doCreate_table [OF D(1,2,7,8,5,3) q] by auto
qed

end
