(* ===== verification/CoreExamples.thy ===== *)
theory CoreExamples imports CoreLive "HOL-Library.Countable" begin

text \<open>
  A server on which the operations of the clients can be followed: every payload is stored as its number, the
  database and Redis work, and every call is answered. The numbers are those of countable types.
\<close>

section \<open>Payloads have numbers\<close>

instance json :: countable by countable_datatype
instance Condition :: countable by countable_datatype
instance Rule_Effect :: countable by countable_datatype
instance Enforcement_Effect :: countable by countable_datatype
instance User_Type :: countable by countable_datatype
instance Session_State :: countable by countable_datatype
instance word :: (len) countable by (rule countable_classI [of unat]) (simp add: word_unat_eq_iff)
instance Duration :: countable by countable_datatype

instance Rule_ext :: (countable) countable
  by (rule countable_classI [of "\<lambda>r. to_nat (ru_Name r, ru_Condition r, ru_Effect r, ru_Priority r, Rule.more r)"])
    (simp add: Rule.equality)

instance EnforcementRule_ext :: (countable) countable
  by (rule countable_classI [of "\<lambda>r. to_nat (en_Condition r, en_Effect r, EnforcementRule.more r)"])
    (simp add: EnforcementRule.equality)

instance Policy_Spec_ext :: (countable) countable
  by (rule countable_classI [of "\<lambda>r. to_nat (ps_Rules r, ps_EnforcementRules r, ps_Attrs r, ps_IsDisabled r, Policy_Spec.more r)"])
    (simp add: Policy_Spec.equality)

instance ObjectReference_ext :: (countable) countable
  by (rule countable_classI [of "\<lambda>r. to_nat (or_ApiVersion r, or_Kind r, or_Uid r, or_Name r, or_ResourceVersion r,
    ObjectReference.more r)"]) (simp add: ObjectReference.equality)

instance InlinePolicy_ext :: (countable) countable
  by (rule countable_classI [of "\<lambda>r. to_nat (ip_Name r, ip_Spec r, InlinePolicy.more r)"]) (simp add: InlinePolicy.equality)

instance Authorization_ext :: (countable) countable
  by (rule countable_classI [of "\<lambda>r. to_nat (az_Policies r, az_InlinePolicies r, Authorization.more r)"])
    (simp add: Authorization.equality)

instance Identity_ext :: (countable) countable
  by (rule countable_classI [of "\<lambda>r. to_nat (id_IdentityProvider r, id_Identifier r, Identity.more r)"])
    (simp add: Identity.equality)

instance User_Spec_Session_ext :: (countable) countable
  by (rule countable_classI [of "\<lambda>r. to_nat (uss_ClientDuration r, uss_ClientlessDuration r, uss_AccessTokenDuration r,
    uss_RefreshTokenDuration r, uss_MaxPerUser r, uss_DefaultState r, User_Spec_Session.more r)"])
    (simp add: User_Spec_Session.equality)

instance User_Spec_ext :: (countable) countable
  by (rule countable_classI [of "\<lambda>r. to_nat (us_Groups r, us_Email r, us_Type r, us_Info r, us_Session r, us_Authorization r,
    us_IsDisabled r, us_Attrs r, us_Authentication r, User_Spec.more r)"]) (simp add: User_Spec.equality)

instance User_Status_ext :: (countable) countable
  by (rule countable_classI [of "\<lambda>r. to_nat (ut_Ext r, ut_IdentityProviderRef r, ut_IsLocked r, User_Status.more r)"])
    (simp add: User_Status.equality)

instance AAL :: countable by countable_datatype
instance IdP_Type :: countable by countable_datatype

instance AALRule_ext :: (countable) countable
  by (rule countable_classI [of "\<lambda>r. to_nat (aa_Condition r, aa_Aal r, AALRule.more r)"]) (simp add: AALRule.equality)

instance PostAuthenticationRule_ext :: (countable) countable
  by (rule countable_classI [of "\<lambda>r. to_nat (pa_Condition r, pa_Effect r, PostAuthenticationRule.more r)"])
    (simp add: PostAuthenticationRule.equality)

instance SAML_Metadata :: countable by countable_datatype
instance OIDCIdentityToken_Type :: countable by countable_datatype

instance IdP_Github_ext :: (countable) countable
  by (rule countable_classI [of "\<lambda>r. to_nat (gh_ClientID r, gh_ClientSecret r, IdP_Github.more r)"]) (simp add: IdP_Github.equality)

instance IdP_OIDC_ext :: (countable) countable
  by (rule countable_classI [of "\<lambda>r. to_nat (oi_ClientID r, oi_ClientSecret r, oi_IssuerURL r, oi_Scopes r, oi_IdentifierClaim r,
    oi_CheckEmailVerified r, oi_UseUserInfoEndpoint r, IdP_OIDC.more r)"]) (simp add: IdP_OIDC.equality)

instance IdP_SAML_ext :: (countable) countable
  by (rule countable_classI [of "\<lambda>r. to_nat (sa_MetadataType r, sa_EntityID r, sa_IdentifierAttribute r, sa_ForceAuthn r,
    IdP_SAML.more r)"]) (simp add: IdP_SAML.equality)

instance IdP_OIDCIdentityToken_ext :: (countable) countable
  by (rule countable_classI [of "\<lambda>r. to_nat (ot_Type r, ot_Issuer r, ot_Audience r, IdP_OIDCIdentityToken.more r)"])
    (simp add: IdP_OIDCIdentityToken.equality)

instance IdP_Spec_Type :: countable by countable_datatype

instance IdentityProvider_Spec_ext :: (countable) countable
  by (rule countable_classI [of "\<lambda>r. to_nat (is_IsDisabled r, is_DisplayName r, is_AalRules r, is_DisableEmailAsIdentity r,
    is_PostAuthenticationRules r, is_Type r, IdentityProvider_Spec.more r)"]) (simp add: IdentityProvider_Spec.equality)

instance IdentityProvider_Status_ext :: (countable) countable
  by (rule countable_classI [of "\<lambda>r. to_nat (it_Type r, it_IsLocked r, IdentityProvider_Status.more r)"])
    (simp add: IdentityProvider_Status.equality)

section \<open>The server\<close>

text \<open>A kind of resource whose payload is stored as its number; \<open>mk\<close> puts a resource together.\<close>

definition numbered ::
  "string \<Rightarrow> ('a \<Rightarrow> Metadata) \<Rightarrow> ('a \<Rightarrow> 'p::countable) \<Rightarrow> (Metadata \<Rightarrow> 'p \<Rightarrow> 'a) \<Rightarrow> (sql_cond \<Rightarrow> 'a \<Rightarrow> bool) \<Rightarrow> ('a, 'p) codec"
where
  "numbered kind md payload mk hold =
     \<lparr>cd_kind = kind, cd_md = md, cd_payload = payload,
      cd_enc = (\<lambda>x. \<lparr>ob_ApiVersion = ''core/v1'', ob_Kind = kind, ob_Metadata = Some (md x),
        ob_Spec = Some (JNum (int (to_nat (payload x)))), ob_Status = None, ob_Data = None\<rparr>),
      cd_dec = (\<lambda>z. case (ob_Metadata z, ob_Spec z) of
        (Some m, Some (JNum n)) \<Rightarrow> if ob_Kind z = kind then Ok (mk m (from_nat (nat n))) else Fail (Errorf ''cannot be read'')
      | _ \<Rightarrow> Fail (Errorf ''cannot be read'')),
      cd_holds = hold\<rparr>"

definition example_list :: "(sql_cond \<Rightarrow> rsc_obj \<Rightarrow> bool) \<Rightarrow> list_env" where
  "example_list hold = \<lparr>le_db = (\<lambda>s. None), le_holds = hold, le_order = (\<lambda>ts rows. rows)\<rparr>"

definition example_serve :: "(sql_cond \<Rightarrow> rsc_obj \<Rightarrow> bool) \<Rightarrow> string \<Rightarrow> serve_env" where
  "example_serve hold uid =
     \<lparr>sn_rsc = rsc_example_env, sn_list = example_list hold, sn_call = example_call uid ''r1'',
      sn_ToJSON = (\<lambda>xs. None), sn_FromJSON = (\<lambda>xs. None)\<rparr>"

text \<open>What a condition says of a resource that is read as one of the kind.\<close>

definition decides :: "('a, 'p) codec \<Rightarrow> sql_cond \<Rightarrow> rsc_obj \<Rightarrow> bool" where
  "decides K c z = (case cd_dec K z of Ok x \<Rightarrow> cd_holds K c x | _ \<Rightarrow> False)"

abbreviation answered :: "string \<Rightarrow> fate" where
  "answered \<equiv> \<lambda>p. Answered"

lemma numbered_dec:
  "cd_dec (numbered kind md payload mk hold) z = Ok x \<longleftrightarrow>
     (\<exists>m n. ob_Kind z = kind \<and> ob_Metadata z = Some m \<and> ob_Spec z = Some (JNum n) \<and> x = mk m (from_nat (nat n)))"
  by (auto simp: numbered_def split: option.splits json.splits if_splits)

lemma numbered_simps [simp]:
  "cd_kind (numbered kind md payload mk hold) = kind" "cd_md (numbered kind md payload mk hold) = md"
  "cd_payload (numbered kind md payload mk hold) = payload" "cd_holds (numbered kind md payload mk hold) = hold"
  "ob_Kind (cd_enc (numbered kind md payload mk hold) x) = kind"
  "ob_Metadata (cd_enc (numbered kind md payload mk hold) x) = Some (md x)"
  "ob_Spec (cd_enc (numbered kind md payload mk hold) x) = Some (JNum (int (to_nat (payload x))))"
  by (simp_all add: numbered_def)

lemma example_serve_simps [simp]:
  "sn_rsc (example_serve h uid) = rsc_example_env" "rc_NewUid (sn_call (example_serve h uid)) = uid"
  "le_db (sn_list (example_serve h uid)) s = None" "le_order (sn_list (example_serve h uid)) ts rows = rows"
  "le_holds (sn_list (example_serve h uid)) = h"
  "re_FromMap rsc_example_env k z = Ok z" "re_V rsc_example_env = ascii_validators"
  "sn_ToJSON (example_serve h uid) xs = None" "sn_FromJSON (example_serve h uid) xs = None"
  by (simp_all add: example_serve_def example_list_def example_call_def rsc_example_env_def)

lemma example_codec_ok:
  assumes "kind \<in> set resource_kinds" and "\<And>m p. md (mk m p) = m" and "\<And>m p. payload (mk m p) = p"
    and "\<And>c z x. cd_dec (numbered kind md payload mk hold) z = Ok x \<Longrightarrow> h c z = hold c x"
  shows "codec_ok (example_serve h uid) (numbered kind md payload mk hold)"
  using assms(1-3) assms(4) [unfolded numbered_dec] by (auto simp: codec_ok_def numbered_dec with_defaults_def)

lemma example_serve_ok:
  assumes "kind \<in> set resource_kinds" and "\<And>m p. md (mk m p) = m" and "\<And>m p. payload (mk m p) = p"
    and "\<And>c z x. cd_dec (numbered kind md payload mk hold) z = Ok x \<Longrightarrow> h c z = hold c x" and "plain uid"
  shows "serve_ok (example_serve h uid) (numbered kind md payload mk hold)"
  using assms(5) example_codec_ok [OF assms(1-4)] example_works(1) by (simp add: serve_ok_def)

lemma example_healthy:
  assumes "uid \<noteq> []" "uid \<notin> rw_Uid ` set (rs_table st)"
  shows "healthy (example_serve h uid) answered K st"
  using assms by (simp add: healthy_def works_def example_works ascii_validators_def)

lemma example_opts_name:
  assumes "checkName n = Ok ()"
  shows "opts_fine (example_serve h uid) (by_name n)"
  using assms by (auto simp: opts_fine_def rsc_checkGetOptions_def checkName_def reject_if_def)

lemma example_opts_uid: "u \<noteq> [] \<Longrightarrow> opts_fine (example_serve h uid) (by_uid u)"
  by (simp add: opts_fine_def rsc_checkGetOptions_def reject_if_def ascii_validators_def)

text \<open>A filter holds of everything when its conditions do.\<close>

lemma filter_holds_all:
  "(\<And>c. cd_holds K c x) \<Longrightarrow> filter_holds K (FilterFieldEQValStr f v) x"
  "(\<And>c. cd_holds K c x) \<Longrightarrow> filter_holds K (FilterFieldIncludesValStr f v) x"
  by (simp_all add: filter_holds_def list_filter_def FilterFieldEQValStr_def FilterFieldIncludesValStr_def Let_def
      list_all_iff go_map_def)

text \<open>What a creation of a resource with a new name and identifier makes of a state.\<close>

lemma example_created:
  assumes "client_inv (example_serve h uid) K st" "uid \<noteq> []" "uid \<notin> rw_Uid ` set (rs_table st)" "checkName (md_Name (cd_md K x)) = Ok ()"
    and "\<forall>y\<in>set (kind_view K st). md_Name (cd_md K y) \<noteq> md_Name (cd_md K x)"
    and st': "st' = snd (cl_Create (CoreC (example_serve h uid) answered K) x st)"
  obtains y where "client_inv (example_serve h uid) K st'" "kind_rest K st' = kind_rest K st" "kind_view K st' = kind_view K st @ [y]"
    "cd_payload K y = cd_payload K x" "md_Name (cd_md K y) = md_Name (cd_md K x)"
    "rw_Uid ` set (rs_table st') = insert uid (rw_Uid ` set (rs_table st))"
proof -
  have ready: "healthy (example_serve h uid) answered K st"
    by (rule example_healthy [OF assms(2,3)])
  have n: "opts_fine (example_serve h uid) (by_name (md_Name (cd_md K x)))"
    by (rule example_opts_name [OF assms(4)])
  obtain y s' where y: "cl_Create (CoreC (example_serve h uid) answered K) x st = (Ok y, s')"
    using core_create_new [OF assms(1) ready n assms(5)] by blast
  then have "s' = st'" using st' by simp
  with client_create [OF assms(1) y] have c: "client_inv (example_serve h uid) K st' \<and> kind_rest K st' = kind_rest K st \<and>
      kind_view K st' = kind_view K st @ [y] \<and> cd_payload K y = cd_payload K x \<and> unstamped (cd_md K y) = unstamped (cd_md K x)"
    by (auto dest!: effect_Ok)
  then have "md_Name (cd_md K y) = md_Name (cd_md K x)" using unstamped_keeps by blast
  with c core_create_uids [OF assms(1) ready y] \<open>s' = st'\<close> show thesis
    by (intro that [of y]) simp_all
qed

end
