(* ===== verification/PolicyClaims.thy ===== *)
theory PolicyClaims imports PolicyAdminFacts CoreExamples begin

text \<open>
  The properties of the handlers for policies over the resource server: the well-formedness of what is stored,
  the protection of the policies of the system and of those that have children, and that a valid
  request for a new policy is granted when nothing fails.
\<close>

section \<open>A valid request is granted\<close>

lemma policy_name_Ok:
  assumes "validatePolicy A req = Ok u" "aq_Metadata req = Some md"
  shows "validateName (md_Name md) 0 5 = Ok ()"
  using assms validate_named [of "ap_V A" req MaxPolicyParents]
  by (auto simp: validatePolicy_def MaxPolicyParents_def)

lemma longer_names: "validateName n 0 5 = Ok () \<Longrightarrow> GetNameAndParents n = Ok (parents n)"
  by (simp add: GetNameAndParents_eq numeral_eq_Suc validateName_parents_iff [of n "Suc (Suc (Suc (Suc (Suc 0))))"])
    (auto simp: validateName_parents_iff [of n "Suc (Suc (Suc (Suc 0)))", simplified])

lemma own_parent: "n \<in> set (parents n)"
proof -
  have "0 < length (Split n CHR ''.'')" by (cases "Split n CHR ''.''"; cases n) (auto split: if_splits list.splits)
  then have "(\<lambda>x. Join (drop x (Split n CHR ''.'')) CHR ''.'') 0 \<in> set (parents n)"
    unfolding parents_def by (intro in_set_conv_nth [THEN iffD2] exI [of _ 0]) simp
  then show ?thesis by simp
qed

lemma create_policy_granted:
  assumes "client_inv S (policy_codec wr rd hold) st" and "healthy S net (policy_codec wr rd hold) st"
    and "validatePolicy A req = Ok ()" and "aq_Metadata req = Some md"
    and "\<forall>p\<in>set (kind_view (policy_codec wr rd hold) st). md_Name (pol_Metadata p) \<noteq> md_Name md"
    and "1 < length (parents (md_Name md)) \<longrightarrow>
      (\<exists>p\<in>set (kind_view (policy_codec wr rd hold) st). md_Name (pol_Metadata p) = parents (md_Name md) ! 1)"
  shows "\<exists>p st'. admin_CreatePolicy A (CoreC S net (policy_codec wr rd hold)) req st = (Ok p, st')"
proof -
  let ?K = "policy_codec wr rd hold" and ?names = "parents (md_Name md)"
  let ?C = "CoreC S net ?K"
  obtain spec where spec: "aq_Spec req = Some spec" and name: "md_Name md \<noteq> []"
    using validatePolicy_Ok [OF assms(3)] assms(4) by auto
  have ok: "validateName (md_Name md) 0 5 = Ok ()" by (rule policy_name_Ok [OF assms(3,4)])
  have fine: "opts_fine S (by_name n)" if "n \<in> set ?names" for n
    using validateName_parent [of "md_Name md" 4 n] ok that api_name_fits [of n 5] 
    by (auto simp: opts_fine_def rsc_checkGetOptions_def reject_if_def checkName_def)
  have own: "md_Name md \<in> set ?names" by (rule own_parent)
  obtain s1 where s1: "cl_Get ?C (by_name (md_Name md)) st = (Fail NotFound, s1)" "rs_table s1 = rs_table st"
      "client_inv S ?K s1"
    using core_get_absent [OF assms(1,2) fits_by_name [OF assms(1)] fine [OF own]] assms(5) name
    by (auto simp: opt_matches_def)
  have view1: "kind_view ?K s1 = kind_view ?K st" by (rule client_inv_table(2) [OF s1(2)])
  have h1: "healthy S net ?K s1" using assms(2) healthy_table [OF s1(2)] by blast
  have "\<exists>item s2. with_parent ?C ?names (new_policy md spec) s1 = (Ok item, s2) \<and> rs_table s2 = rs_table s1 \<and>
      client_inv S ?K s2 \<and> pol_Spec item = spec \<and> pol_Metadata item = MetadataFrom md"
  proof (cases "1 < length ?names")
    case True
    then have n: "?names ! 1 \<in> set ?names" by simp
    obtain p where p: "p \<in> set (kind_view ?K s1)" "md_Name (pol_Metadata p) = ?names ! 1"
      using assms(6) True view1 by auto
    have ne: "?names ! 1 \<noteq> []" using fine [OF n] by (auto simp: opts_fine_def rsc_checkGetOptions_def reject_if_def)
    obtain s2 where "cl_Get ?C (by_name (?names ! 1)) s1 = (Ok p, s2)" "rs_table s2 = rs_table s1" "client_inv S ?K s2"
      using core_get_present [OF s1(3) h1 fits_by_name [OF s1(3)] fine [OF n] p(1)] p(2) ne by (auto simp: opt_matches_def)
    with True show ?thesis by (simp add: with_parent_def new_policy_def)
  qed (use s1(3) in \<open>simp add: with_parent_def new_policy_def\<close>)
  then obtain item s2 where item: "with_parent ?C ?names (new_policy md spec) s1 = (Ok item, s2)" "rs_table s2 = rs_table s1"
      "client_inv S ?K s2" "pol_Spec item = spec" "pol_Metadata item = MetadataFrom md" by blast
  have view2: "kind_view ?K s2 = kind_view ?K st" using client_inv_table(2) [OF item(2), where K = ?K] view1 by simp
  have h2: "healthy S net ?K s2" using h1 healthy_table [OF item(2)] by blast
  obtain p st' where p: "cl_Create ?C item s2 = (Ok p, st')"
    using core_create_new [OF item(3) h2, of item] fine [OF own] assms(5) by (auto simp: item(5) view2)
  have "validatePolicySpec A (Some spec) = Ok ()" using assms(3) spec by (simp add: validatePolicy_def)
  then have "admin_CreatePolicy A ?C req st = (Ok p, st')"
    using assms(3,4) spec s1(1) item(1,4) p longer_names [OF ok]
    by (simp add: admin_CreatePolicy_def must_be_absent_def IsNotFound_def NotFound_def map_err_def)
  then show ?thesis by blast
qed

text \<open>
  C16: a valid request for a policy is granted when nothing fails: if its name is new and its parent, if the name
  has one, is there, then the policy is created as it was asked for, with a reference to its parent.
\<close>

theorem new_policy_is_created:
  assumes "client_inv S (policy_codec wr rd hold) st" and "healthy S net (policy_codec wr rd hold) st"
    and "validatePolicy A req = Ok ()" and "aq_Metadata req = Some md"
    and "\<forall>p\<in>set (kind_view (policy_codec wr rd hold) st). md_Name (pol_Metadata p) \<noteq> md_Name md"
    and "1 < length (parents (md_Name md)) \<longrightarrow>
      (\<exists>p\<in>set (kind_view (policy_codec wr rd hold) st). md_Name (pol_Metadata p) = parents (md_Name md) ! 1)"
  shows "\<exists>p st'. admin_CreatePolicy A (CoreC S net (policy_codec wr rd hold)) req st = (Ok p, st') \<and>
    kind_view (policy_codec wr rd hold) st' = kind_view (policy_codec wr rd hold) st @ [p] \<and>
    made_from req (kind_view (policy_codec wr rd hold) st) p"
proof -
  let ?K = "policy_codec wr rd hold"
  obtain p st' where run: "admin_CreatePolicy A (CoreC S net ?K) req st = (Ok p, st')"
    using create_policy_granted [OF assms] by blast
  from core_policy.CreatePolicy_handles [OF assms(1), of A net req]
  have "kind_view ?K st' = kind_view ?K st @ [p] \<and> made_from req (kind_view ?K st) p"
    unfolding run by (auto dest!: effect_Ok)
  with run show ?thesis by blast
qed

section \<open>What stays\<close>

text \<open>
  C14: whatever requests are made, and whatever fails, every stored policy is well-formed: bounded numbers of
  rules, effects that are set, priorities between -4 and 4, and conditions that are set, without empty lists, down to
  every nested one.
\<close>

theorem stored_policies_wf:
  assumes "policy_server (policy_codec wr rd hold) st" and "p \<in> set (kind_view (policy_codec wr rd hold) st)"
  shows "spec_wf (pol_Spec p)"
  using policy_server_inv [OF assms(1)] assms(2) by blast

lemma kept_by_effect:
  assumes "effect r new v v'" and "x \<in> set v" and "\<And>y. new y v' \<Longrightarrow> x \<in> set v'"
  shows "x \<in> set v'"
  using assms by (auto simp: effect_def)

text \<open>
  C15: no request to create, update or delete a policy, granted or not, changes or removes a policy of the
  system.
\<close>

theorem system_policies_stay:
  assumes "client_inv S (policy_codec wr rd hold) st" and "p \<in> set (kind_view (policy_codec wr rd hold) st)"
    and "md_IsSystem (pol_Metadata p)"
    and "kind_fits \<lparr>go_Uid = do_Uid d, go_Name = do_Name d\<rparr> ''core'' ''v1'' ''Policy'' st"
  shows "p \<in> set (kind_view (policy_codec wr rd hold) (snd (admin_CreatePolicy A (CoreC S net (policy_codec wr rd hold)) req st)))
    \<and> p \<in> set (kind_view (policy_codec wr rd hold) (snd (admin_UpdatePolicy A (CoreC S net (policy_codec wr rd hold)) req st)))
    \<and> p \<in> set (kind_view (policy_codec wr rd hold) (snd (admin_DeletePolicy A (CoreC S net (policy_codec wr rd hold)) d st)))"
proof (intro conjI)
  let ?K = "policy_codec wr rd hold"
  have other: "uid_of p \<noteq> uid_of old" if "old \<in> set (kind_view ?K st)" "\<not> md_IsSystem (pol_Metadata old)" for old
    using view_inj [OF assms(1,2) that(1)] assms(3) that(2) by auto
  show "p \<in> set (kind_view ?K (snd (admin_CreatePolicy A (CoreC S net ?K) req st)))"
    using core_policy.CreatePolicy_handles [OF assms(1), of A net req] assms(2) by (auto elim!: effect_cases)
  show "p \<in> set (kind_view ?K (snd (admin_UpdatePolicy A (CoreC S net ?K) req st)))"
    using core_policy.UpdatePolicy_handles [OF assms(1), of A net req] assms(2) other
    by (auto elim!: effect_cases simp: image_iff intro!: bexI [of _ p])
  show "p \<in> set (kind_view ?K (snd (admin_DeletePolicy A (CoreC S net ?K) d st)))"
    using core_policy.DeletePolicy_handles [OF assms(1,4), of A net] assms(2) other by (auto elim!: effect_cases)
qed

text \<open>
  A policy is not deleted while the server finds a policy whose parent it is: the request fails, and no policy
  is changed.
\<close>

theorem parents_are_not_deleted:
  assumes "client_inv S (policy_codec wr rd hold) st"
    and "p \<in> set (kind_view (policy_codec wr rd hold) st)" "q \<in> set (kind_view (policy_codec wr rd hold) st)"
    and "opt_matches \<lparr>go_Uid = do_Uid d, go_Name = do_Name d\<rparr> (pol_Metadata p)"
    and "filter_holds (policy_codec wr rd hold) (children_filter (md_Uid (pol_Metadata p))) q"
    and "kind_fits \<lparr>go_Uid = do_Uid d, go_Name = do_Name d\<rparr> ''core'' ''v1'' ''Policy'' st"
  shows "fst (admin_DeletePolicy A (CoreC S net (policy_codec wr rd hold)) d st) \<noteq> Ok () \<and>
    kind_view (policy_codec wr rd hold) (snd (admin_DeletePolicy A (CoreC S net (policy_codec wr rd hold)) d st)) =
    kind_view (policy_codec wr rd hold) st"
proof -
  let ?K = "policy_codec wr rd hold" and ?o = "\<lparr>go_Uid = do_Uid d, go_Name = do_Name d\<rparr>"
  let ?m = "admin_DeletePolicy A (CoreC S net ?K) d st"
  have "g = p" if "g \<in> set (kind_view ?K st)" "opt_matches ?o (pol_Metadata g)" for g
    using core_policy.view_unique [OF assms(1) that(1) assms(2)] view_unique_keys [OF assms(1)] that assms(2,4)
    by (auto simp: opt_matches_def distinct_map inj_on_def split: if_splits)
  then have "\<not> (\<exists>g\<in>set (kind_view ?K st). opt_matches ?o (pol_Metadata g) \<and> \<not> md_IsSystem (pol_Metadata g) \<and>
      (\<forall>q\<in>set (kind_view ?K st). \<not> filter_holds ?K (children_filter (uid_of g)) q) \<and> v)" for v
    using assms(3,5) by blast
  with core_policy.DeletePolicy_handles [OF assms(1,6), of A net] show ?thesis
    by (auto simp: effect_def)
qed

section \<open>A server with a policy and its child\<close>

text \<open>The only condition that is looked at is the one on the parent.\<close>

definition example_hold :: "sql_cond \<Rightarrow> Policy \<Rightarrow> bool" where
  "example_hold c p = (pol_ParentPolicyRef p \<noteq> None)"

definition numbered_policies :: "(Policy, Policy_Spec \<times> ObjectReference option) codec" where
  "numbered_policies =
     numbered ''Policy'' pol_Metadata (\<lambda>p. (pol_Spec p, pol_ParentPolicyRef p))
       (\<lambda>m (spec, ref). \<lparr>pol_ApiVersion = ''core/v1'', pol_Kind = ''Policy'', pol_Metadata = m, pol_Spec = spec,
          pol_ParentPolicyRef = ref\<rparr>) example_hold"

definition example_policies :: "(Policy, Policy_Spec \<times> ObjectReference option) codec" where
  "example_policies = policy_codec (cd_enc numbered_policies) (cd_dec numbered_policies) example_hold"

lemma example_policies_eq: "example_policies = numbered_policies"
  by (simp add: example_policies_def policy_codec_def numbered_policies_def numbered_def)

lemma example_policies_ok: "plain uid \<Longrightarrow> serve_ok (example_serve (decides example_policies) uid) example_policies"
  unfolding example_policies_eq numbered_policies_def
  by (rule example_serve_ok) (auto simp: resource_kinds_def decides_def split: prod.splits)

definition example_api :: api_env where
  "example_api =
     \<lparr>ap_V = ascii_validators, ap_Now = 7, ap_Cel = oe_cel example_env, ap_CelNew = None, ap_MarshalSize = (\<lambda>p. Ok 10),
      ap_GetUserCtx = Fail Internal, ap_Slug = (\<lambda>s. s), ap_IsLowerCase = list_all (\<lambda>c. \<not> (65 \<le> (of_char c :: nat) \<and> (of_char c :: nat) \<le> 90))\<rparr>"

definition example_spec :: Policy_Spec where
  "example_spec =
     \<lparr>ps_Rules = [\<lparr>ru_Name = [], ru_Condition = Some (Condition_Any [Condition_MatchAny True]), ru_Effect = ALLOW, ru_Priority = 1\<rparr>],
      ps_EnforcementRules = [], ps_Attrs = None, ps_IsDisabled = False\<rparr>"

definition policy_request :: "string \<Rightarrow> Policy_Spec api_request" where
  "policy_request n =
     \<lparr>aq_Metadata = Some (no_metadata\<lparr>md_Name := n\<rparr>), aq_Spec = Some example_spec, aq_Map = Ok [(''spec'', JMap [])]\<rparr>"

lemma policy_request_ok:
  assumes "validateName n 0 5 = Ok ()" and "n \<noteq> []"
  shows "validatePolicy example_api (policy_request n) = Ok ()"
  using assms
  by (simp add: validatePolicy_def ValidateCommon_def api_resource_def policy_request_def named_opts_def
      MaxPolicyParents_def ValidateMetadata_def doValidateMetadata_def with_invalid_arg_def no_metadata_def
      require_map_def check_tags_def validatePolicySpec_def example_spec_def example_api_def ValidateAttrs_def
      validate_rule_def validateCondition_def priorityMaxVal_def reject_if_def)

lemma start_inv: "client_inv (example_serve (decides example_policies) ''u1'') example_policies rsc_empty"
  using example_policies_ok [of "''u1''"] by (simp add: client_inv_def stored_empty plain_examples)

lemma rsc_empty_simps [simp]: "rs_table rsc_empty = []" "kind_view K rsc_empty = []"
  by (simp_all add: rsc_empty_def kind_view_def)

lemma web_name: "validateName ''web'' 0 5 = Ok ()" "parents ''web'' = [''web'']"
  by (simp_all add: validateName_parents_iff [of _ 4, simplified] NameMain_def lower_def lower_alnum_def
      name_char_def decimal_def rgxDoubleHyphen_def parents_def)

text \<open>The state after the policy \<open>web\<close> has been created.\<close>

definition web_state :: rsc_state where
  "web_state = snd (admin_CreatePolicy example_api (CoreC (example_serve (decides example_policies) ''u1'') answered example_policies)
     (policy_request ''web'') rsc_empty)"

lemma web_created:
  "\<exists>p. kind_view example_policies web_state = [p] \<and> made_from (policy_request ''web'') [] p"
proof -
  have h: "healthy (example_serve (decides example_policies) ''u1'') answered example_policies rsc_empty"
    by (rule example_healthy) simp_all
  have "\<exists>p st'. admin_CreatePolicy example_api (CoreC (example_serve (decides example_policies) ''u1'') answered example_policies)
      (policy_request ''web'') rsc_empty = (Ok p, st')"
    using create_policy_granted [OF start_inv [unfolded example_policies_def] h [unfolded example_policies_def]
      policy_request_ok [OF web_name(1)]]
    by (simp add: policy_request_def example_policies_def no_metadata_def web_name(2))
  then show ?thesis
    using core_policy.CreatePolicy_handles [OF start_inv [unfolded example_policies_def], of example_api answered "policy_request ''web''"]
    by (auto simp: web_state_def example_policies_def dest!: effect_Ok)
qed

lemma web_reached: "policy_server example_policies web_state"
  unfolding web_state_def example_policies_def
  by (intro policy_server.create policy_server.start)
    (use example_policies_ok [of "''u1''"] in \<open>simp add: plain_examples example_policies_def\<close>)

theorem stored_policies_wf_witness:
  "\<exists>p. p \<in> set (kind_view example_policies web_state) \<and> ps_Rules (pol_Spec p) \<noteq> [] \<and> spec_wf (pol_Spec p)"
proof -
  obtain p where p: "kind_view example_policies web_state = [p]" "made_from (policy_request ''web'') [] p"
    using web_created by blast
  then have "ps_Rules (pol_Spec p) \<noteq> []" by (auto simp: made_from_def policy_request_def example_spec_def)
  with p(1) stored_policies_wf [OF web_reached [unfolded example_policies_def], of p]
  show ?thesis by (simp add: example_policies_def)
qed

theorem new_policy_is_created_witness:
  "\<exists>p st'. admin_CreatePolicy example_api (CoreC (example_serve (decides example_policies) ''u1'') answered example_policies)
     (policy_request ''web'') rsc_empty = (Ok p, st') \<and> kind_view example_policies st' = [p]"
proof -
  have h: "healthy (example_serve (decides example_policies) ''u1'') answered example_policies rsc_empty"
    by (rule example_healthy) simp_all
  have md: "aq_Metadata (policy_request ''web'') = Some (no_metadata\<lparr>md_Name := ''web''\<rparr>)"
    by (simp add: policy_request_def)
  from new_policy_is_created [OF start_inv [unfolded example_policies_def] h [unfolded example_policies_def]
      policy_request_ok [OF web_name(1)] md]
  obtain p st' where "admin_CreatePolicy example_api (CoreC (example_serve (decides example_policies) ''u1'') answered example_policies)
     (policy_request ''web'') rsc_empty = (Ok p, st')" "kind_view example_policies st' = [p]"
    by (auto simp: example_policies_def web_name(2))
  then show ?thesis by blast
qed

text \<open>A policy of the system with a reference to a parent, written without the API server.\<close>

definition system_policy :: Policy where
  "system_policy =
     \<lparr>pol_ApiVersion = [], pol_Kind = [], pol_Metadata = no_metadata\<lparr>md_Name := ''web'', md_IsSystem := True\<rparr>,
      pol_Spec = example_spec, pol_ParentPolicyRef = GetObjectReference ''core/v1'' ''Policy'' (Some no_metadata)\<rparr>"

definition sys_state :: rsc_state where
  "sys_state = snd (cl_Create (CoreC (example_serve (decides example_policies) ''u1'') answered example_policies) system_policy rsc_empty)"

lemma sys_policy:
  "\<exists>p. kind_view example_policies sys_state = [p] \<and> md_IsSystem (pol_Metadata p) \<and> md_Name (pol_Metadata p) = ''web'' \<and>
    example_hold c p"
  "client_inv (example_serve (decides example_policies) ''u1'') example_policies sys_state"
proof -
  have h: "healthy (example_serve (decides example_policies) ''u1'') answered example_policies rsc_empty"
    by (rule example_healthy) simp_all
  have md: "cd_md example_policies = pol_Metadata" "cd_payload example_policies = (\<lambda>p. (pol_Spec p, pol_ParentPolicyRef p))"
    by (simp_all add: example_policies_def)
  have name: "opts_fine (example_serve (decides example_policies) ''u1'') (by_name (md_Name (cd_md example_policies system_policy)))"
    using example_opts_name [OF api_name_fits [OF web_name(1)]] by (simp add: md system_policy_def)
  obtain y st' where run: "cl_Create (CoreC (example_serve (decides example_policies) ''u1'') answered example_policies) system_policy rsc_empty = (Ok y, st')"
    using core_create_new [OF start_inv h name] by auto
  have "client_inv (example_serve (decides example_policies) ''u1'') example_policies st' \<and> kind_view example_policies st' = [y] \<and>
      (pol_Spec y, pol_ParentPolicyRef y) = (pol_Spec system_policy, pol_ParentPolicyRef system_policy) \<and>
      unstamped (pol_Metadata y) = unstamped (pol_Metadata system_policy)"
    using client_create [OF start_inv run] unfolding md by (auto dest!: effect_Ok)
  moreover have "st' = sys_state" by (simp add: sys_state_def run)
  ultimately show "\<exists>p. kind_view example_policies sys_state = [p] \<and> md_IsSystem (pol_Metadata p) \<and> md_Name (pol_Metadata p) = ''web'' \<and>
      example_hold c p" "client_inv (example_serve (decides example_policies) ''u1'') example_policies sys_state"
    using unstamped_keeps [of "pol_Metadata y" "pol_Metadata system_policy"]
    by (auto simp: system_policy_def example_hold_def GetObjectReference_def)
qed

definition delete_web :: DeleteOptions where
  "delete_web = \<lparr>do_Uid = [], do_Name = ''web''\<rparr>"

lemma delete_web_fits: "kind_fits \<lparr>go_Uid = do_Uid delete_web, go_Name = do_Name delete_web\<rparr> ''core'' ''v1'' ''Policy'' st"
  using kinds_fine(2) [of "''Policy''"] by (simp add: kind_fits_def delete_web_def plain_examples resource_kinds_def)

theorem system_policies_stay_witness:
  "\<exists>p. md_IsSystem (pol_Metadata p) \<and> p \<in> set (kind_view example_policies
     (snd (admin_DeletePolicy example_api (CoreC (example_serve (decides example_policies) ''u1'') answered example_policies) delete_web sys_state)))"
proof -
  obtain p where p: "kind_view example_policies sys_state = [p]" "md_IsSystem (pol_Metadata p)" using sys_policy(1) by blast
  from system_policies_stay [OF sys_policy(2) [unfolded example_policies_def], of p delete_web example_api answered "policy_request ''web''"]
    p delete_web_fits
  show ?thesis by (auto simp: example_policies_def)
qed

theorem parents_are_not_deleted_witness:
  "fst (admin_DeletePolicy example_api (CoreC (example_serve (decides example_policies) ''u1'') answered example_policies) delete_web sys_state)
   \<noteq> Ok ()"
proof -
  obtain p where p: "kind_view example_policies sys_state = [p]" "md_Name (pol_Metadata p) = ''web''" "\<And>c. example_hold c p"
    using sys_policy(1) unfolding example_hold_def by blast
  have "filter_holds (policy_codec (cd_enc numbered_policies) (cd_dec numbered_policies) example_hold)
      (children_filter (md_Uid (pol_Metadata p))) p"
    unfolding children_filter_def by (rule filter_holds_all) (simp add: p(3))
  with parents_are_not_deleted [OF sys_policy(2) [unfolded example_policies_def], of p p delete_web example_api answered]
    p(1,2) delete_web_fits
  show ?thesis by (simp add: example_policies_def opt_matches_def delete_web_def)
qed

end
