(* ===== verification/DirectoryClaims.thy ===== *)
theory DirectoryClaims imports DirectoryFacts PolicyClaims begin

text \<open>
  The properties of the handlers for groups and users over the resource server, and a server with a group and a
  user in it.
\<close>

section \<open>Every group of a user exists\<close>

definition all_ok :: "serve_env \<Rightarrow> conversions \<Rightarrow> bool" where
  "all_ok S D \<longleftrightarrow> serve_ok S (policies D) \<and> serve_ok S (groups D) \<and> serve_ok S (users D) \<and> serve_ok S (idps D)"

definition all_stored :: "conversions \<Rightarrow> rsc_state \<Rightarrow> bool" where
  "all_stored D st \<longleftrightarrow>
     stored_ok (policies D) st \<and> stored_ok (groups D) st \<and> stored_ok (users D) st \<and> stored_ok (idps D) st"

definition users_linked :: "conversions \<Rightarrow> rsc_state \<Rightarrow> bool" where
  "users_linked D st \<longleftrightarrow>
     (\<forall>u\<in>set (kind_view (users D) st). user_wf (ur_Spec u) \<and>
        (\<forall>g\<in>set (us_Groups (ur_Spec u)). \<exists>r\<in>set (kind_view (groups D) st). md_Name (gr_Metadata r) = g))"

text \<open>The database finds the users of a group.\<close>

definition finds_members :: "conversions \<Rightarrow> bool" where
  "finds_members D \<longleftrightarrow>
     (\<forall>n u. n \<noteq> [] \<longrightarrow> filter_holds (users D) (members_filter n) u = (n \<in> set (us_Groups (ur_Spec u))))"

text \<open>
  The resource server under an API server for users and groups. It starts with any resources in which the users are
  linked; requests come one after the other, over a network that may lose calls, with statements
  of the database failing at any time; and in between comes anything that leaves users and groups as they are.
\<close>

inductive directory_server :: "conversions \<Rightarrow> rsc_state \<Rightarrow> bool" for D where
  start: "all_stored D st \<Longrightarrow> users_linked D st \<Longrightarrow> directory_server D st"
| others: "directory_server D st \<Longrightarrow> all_stored D st' \<Longrightarrow> kind_view (users D) st' = kind_view (users D) st \<Longrightarrow>
    kind_view (groups D) st' = kind_view (groups D) st \<Longrightarrow> directory_server D st'"
| create_user: "directory_server D st \<Longrightarrow> all_ok S D \<Longrightarrow> directory_server D (snd (admin_CreateUser A (core_clients S net D) u st))"
| update_user: "directory_server D st \<Longrightarrow> all_ok S D \<Longrightarrow> directory_server D (snd (admin_UpdateUser A (core_clients S net D) u st))"
| delete_user: "directory_server D st \<Longrightarrow> all_ok S D \<Longrightarrow> kind_fits \<lparr>go_Uid = do_Uid d, go_Name = do_Name d\<rparr> ''core'' ''v1'' ''User'' st \<Longrightarrow>
    directory_server D (snd (admin_DeleteUser A (CoreC S net (users D)) d st))"
| create_group: "directory_server D st \<Longrightarrow> all_ok S D \<Longrightarrow>
    directory_server D (snd (admin_CreateGroup A (CoreC S net (policies D)) (CoreC S net (groups D)) g st))"
| update_group: "directory_server D st \<Longrightarrow> all_ok S D \<Longrightarrow>
    directory_server D (snd (admin_UpdateGroup A (CoreC S net (policies D)) (CoreC S net (groups D)) g st))"
| delete_group: "directory_server D st \<Longrightarrow> all_ok S D \<Longrightarrow> kind_fits \<lparr>go_Uid = do_Uid d, go_Name = do_Name d\<rparr> ''core'' ''v1'' ''Group'' st \<Longrightarrow>
    directory_server D (snd (admin_DeleteGroup A (CoreC S net (users D)) (CoreC S net (groups D)) d st))"

lemma linked_iff: "all_ok S D \<Longrightarrow> core_directory.linked S D st \<longleftrightarrow> all_stored D st \<and> users_linked D st"
  by (auto simp: core_directory.linked_def core_directory.fine_def client_inv_def all_ok_def all_stored_def users_linked_def)

lemma directory_server_inv:
  assumes "directory_server D st" and "finds_members D"
  shows "all_stored D st \<and> users_linked D st"
  using assms(1)
proof (induction rule: directory_server.induct)
  case (others st st') then show ?case by (simp add: users_linked_def)
next
  case (create_user st S A net u)
  then show ?case using core_directory.CreateUser_linked [of S D st A net u] by (simp add: linked_iff)
next
  case (update_user st S A net u)
  then show ?case using core_directory.UpdateUser_linked [of S D st A net u] by (simp add: linked_iff)
next
  case (delete_user st S d A net)
  then show ?case using core_directory.DeleteUser_linked [of S D st d A net] by (simp add: linked_iff)
next
  case (create_group st S A net g)
  then show ?case using core_directory.CreateGroup_linked [of S D st A net g] by (simp add: linked_iff)
next
  case (update_group st S A net g)
  then show ?case using core_directory.UpdateGroup_linked [of S D st A net g] by (simp add: linked_iff)
next
  case (delete_group st S d A net)
  then show ?case
    using core_directory.DeleteGroup_linked [of S D st d A net] assms(2) by (simp add: linked_iff finds_members_def)
qed simp

text \<open>
  C17: whatever requests for users and groups are made one after the other, and whatever fails, every group that a
  user is in exists, and every user has a type, an email only as a human, and identities that are set.
\<close>

theorem groups_of_users_exist:
  assumes "directory_server D st" and "finds_members D" and "u \<in> set (kind_view (users D) st)"
  shows "user_wf (ur_Spec u) \<and>
    (\<forall>g\<in>set (us_Groups (ur_Spec u)). \<exists>r\<in>set (kind_view (groups D) st). md_Name (gr_Metadata r) = g)"
  using directory_server_inv [OF assms(1,2)] assms(3) by (simp add: users_linked_def)

section \<open>The labels of identities\<close>

lemma user_identities_labels:
  "user_identities A C name ids labels s = (Ok ls, s') \<Longrightarrow>
   map_of ls = map_of labels ++ map_of (rev (map (\<lambda>i. (''auth-'' @ id_IdentityProvider i, ap_Slug A (id_Identifier i))) ids))"
proof (induction ids arbitrary: labels s)
  case (Cons i ids)
  then show ?case
    by (auto simp: Let_def dest!: go_seq_Ok Cons.IH) (auto simp: AList.update_conv' fun_eq_iff map_add_def split: option.splits)
qed simp

text \<open>
  The labels by which later requests look for the owner of an identity keep only the last identifier of each
  identity provider, and never the email: so a second identifier of one provider hides the first, and the
  check that an email is not taken by another user, which looks for the label \<open>email\<close>, never finds one
  that a user was given here.
\<close>

theorem labels_keep_last_identity:
  assumes "CheckAndSetUser A C req s = (Ok x, s')"
  shows "map_of (md_SpecLabels (ur_Metadata x)) =
      map_of (rev (map (\<lambda>i. (''auth-'' @ id_IdentityProvider i, ap_Slug A (id_Identifier i)))
        (case us_Authentication (ur_Spec req) of None \<Rightarrow> [] | Some ids \<Rightarrow> ids))) \<and>
    map_of (md_SpecLabels (ur_Metadata x)) ''email'' = None"
proof -
  obtain ls t where ls: "(case us_Authentication (ur_Spec req) of None \<Rightarrow> (Ok [], t)
      | Some ids \<Rightarrow> user_identities A C (md_Name (ur_Metadata req)) ids [] t) = (Ok ls, s')" "md_SpecLabels (ur_Metadata x) = ls"
    using assms by (auto simp: CheckAndSetUser_def Let_def dest!: go_seq_Ok)
  then have eq: "map_of ls = map_of (rev (map (\<lambda>i. (''auth-'' @ id_IdentityProvider i, ap_Slug A (id_Identifier i)))
        (case us_Authentication (ur_Spec req) of None \<Rightarrow> [] | Some ids \<Rightarrow> ids)))"
    by (auto dest: user_identities_labels split: option.splits)
  moreover have "map_of ls ''email'' = None"
    unfolding eq map_of_eq_None_iff by auto
  ultimately show ?thesis using ls(2) by simp
qed

section \<open>A server with a group and a user in it\<close>

text \<open>The condition that the list of \<open>admin_DeleteGroup\<close> asks for.\<close>

definition member_cond :: "string \<Rightarrow> sql_cond" where
  "member_cond n = SQL_IsTrue (''resource->'' @ quoted ''spec'' @ ''->'' @ quoted ''groups'' @ '' ? '' @ quoted n)"

definition numbered_groups :: "(Group, Authorization option \<times> json option) codec" where
  "numbered_groups = numbered ''Group'' gr_Metadata (\<lambda>g. (gr_Authorization g, gr_Attrs g))
     (\<lambda>m p. \<lparr>gr_ApiVersion = [], gr_Kind = [], gr_Metadata = m, gr_Authorization = fst p, gr_Attrs = snd p\<rparr>) (\<lambda>c g. False)"

definition numbered_users :: "(User, User_Spec \<times> User_Status option) codec" where
  "numbered_users = numbered ''User'' ur_Metadata (\<lambda>u. (ur_Spec u, ur_Status u))
     (\<lambda>m p. \<lparr>ur_ApiVersion = [], ur_Kind = [], ur_Metadata = m, ur_Spec = fst p, ur_Status = snd p\<rparr>)
     (\<lambda>c u. list_ex (\<lambda>n. c = member_cond n) (us_Groups (ur_Spec u)))"

definition numbered_pols :: "(Policy, Policy_Spec \<times> ObjectReference option) codec" where
  "numbered_pols = numbered ''Policy'' pol_Metadata (\<lambda>p. (pol_Spec p, pol_ParentPolicyRef p))
     (\<lambda>m p. \<lparr>pol_ApiVersion = [], pol_Kind = [], pol_Metadata = m, pol_Spec = fst p, pol_ParentPolicyRef = snd p\<rparr>) (\<lambda>c p. False)"

definition numbered_idps :: "(IdentityProvider, IdentityProvider_Spec \<times> IdentityProvider_Status) codec" where
  "numbered_idps = numbered ''IdentityProvider'' idp_Metadata (\<lambda>i. (idp_Spec i, idp_Status i))
     (\<lambda>m p. \<lparr>idp_ApiVersion = [], idp_Kind = [], idp_Metadata = m, idp_Spec = fst p, idp_Status = snd p\<rparr>) (\<lambda>c p. False)"

definition example_conv :: conversions where
  "example_conv =
     \<lparr>cv_Policy = conversion_of numbered_pols, cv_Group = conversion_of numbered_groups, cv_User = conversion_of numbered_users,
      cv_IdP = conversion_of numbered_idps\<rparr>"

lemma example_conv_codecs:
  "policies example_conv = numbered_pols" "groups example_conv = numbered_groups" "users example_conv = numbered_users"
  "idps example_conv = numbered_idps"
  by (simp_all add: codec_of_def example_conv_def conversion_of_def numbered_pols_def numbered_groups_def numbered_users_def
      numbered_idps_def numbered_def)

definition dir_serve :: "string \<Rightarrow> serve_env" where
  "dir_serve uid = example_serve (decides numbered_users) uid"

lemma decides_other: "ob_Kind z \<noteq> ''User'' \<Longrightarrow> \<not> decides numbered_users c z"
  by (auto simp: decides_def numbered_users_def numbered_dec split: go.splits)

lemma dir_serve_ok:
  assumes "plain uid"
  shows "all_ok (dir_serve uid) example_conv"
proof -
  have "serve_ok (dir_serve uid) numbered_users"
    unfolding dir_serve_def numbered_users_def
    by (rule example_serve_ok) (use assms in \<open>auto simp: resource_kinds_def decides_def\<close>)
  moreover have "serve_ok (dir_serve uid) numbered_groups"
    unfolding dir_serve_def numbered_groups_def
    by (rule example_serve_ok) (use assms decides_other in \<open>auto simp: resource_kinds_def numbered_dec\<close>)
  moreover have "serve_ok (dir_serve uid) numbered_pols"
    unfolding dir_serve_def numbered_pols_def
    by (rule example_serve_ok) (use assms decides_other in \<open>auto simp: resource_kinds_def numbered_dec\<close>)
  moreover have "serve_ok (dir_serve uid) numbered_idps"
    unfolding dir_serve_def numbered_idps_def
    by (rule example_serve_ok) (use assms decides_other in \<open>auto simp: resource_kinds_def numbered_dec\<close>)
  ultimately show ?thesis by (simp add: all_ok_def example_conv_codecs)
qed

lemma example_finds_members: "finds_members example_conv"
proof -
  have "filter_holds numbered_users (members_filter n) u = (n \<in> set (us_Groups (ur_Spec u)))" if "n \<noteq> []" for n u
    using that
    by (auto simp: filter_holds_def members_filter_def FilterFieldIncludesValStr_def list_filter_def go_map_def
        includes_filter_def filter_path_def numbered_users_def member_cond_def quoted_def list_ex_iff)
  then show ?thesis by (simp add: finds_members_def example_conv_codecs)
qed

definition ops_group :: Group where
  "ops_group = \<lparr>gr_ApiVersion = [], gr_Kind = [], gr_Metadata = no_metadata\<lparr>md_Name := ''ops''\<rparr>, gr_Authorization = None, gr_Attrs = None\<rparr>"

definition alice_spec :: User_Spec where
  "alice_spec =
     \<lparr>us_Groups = [''ops''], us_Email = [], us_Type = HUMAN, us_Info = None, us_Session = None, us_Authorization = None,
      us_IsDisabled = False, us_Attrs = None, us_Authentication = None\<rparr>"

definition ops_state :: rsc_state where
  "ops_state = snd (cl_Create (CoreC (dir_serve ''g1'') answered numbered_groups) ops_group rsc_empty)"

definition alice_member :: rsc_state where
  "alice_member = snd (cl_Create (CoreC (dir_serve ''u1'') answered numbered_users) (new_user (no_metadata\<lparr>md_Name := ''alice''\<rparr>) alice_spec)
     ops_state)"

lemma invs_iff:
  "plain uid \<Longrightarrow> all_stored example_conv st \<longleftrightarrow>
     client_inv (dir_serve uid) numbered_pols st \<and> client_inv (dir_serve uid) numbered_groups st \<and>
     client_inv (dir_serve uid) numbered_users st \<and> client_inv (dir_serve uid) numbered_idps st"
  using dir_serve_ok [of uid] by (auto simp: all_stored_def all_ok_def client_inv_def example_conv_codecs)

lemma plain_uids: "plain ''g1''" "plain ''u1''"
  by (simp_all add: plain_def)

lemma numbered_kinds [simp]:
  "cd_kind numbered_pols = ''Policy''" "cd_kind numbered_groups = ''Group''" "cd_kind numbered_users = ''User''"
  "cd_kind numbered_idps = ''IdentityProvider''" "cd_md numbered_groups = gr_Metadata" "cd_md numbered_users = ur_Metadata"
  "cd_payload numbered_users = (\<lambda>u. (ur_Spec u, ur_Status u))"
  by (simp_all add: numbered_pols_def numbered_groups_def numbered_users_def numbered_idps_def)

lemmas created_in = example_created [where h = "decides numbered_users", folded dir_serve_def]

lemma short_names: "checkName ''ops'' = Ok ()" "checkName ''alice'' = Ok ()"
  by (simp_all add: checkName_def MaxNameSubArgs_def Let_def reject_if_def rgxName_def lower_alnum_def lower_def decimal_def
      name_char_def)

lemma alice_is_member:
  "all_stored example_conv alice_member"
  "\<exists>u r. kind_view numbered_users alice_member = [u] \<and> ur_Spec u = alice_spec \<and>
     kind_view numbered_groups alice_member = [r] \<and> md_Name (gr_Metadata r) = ''ops''"
proof -
  have empty: "all_stored example_conv rsc_empty" by (simp add: all_stored_def stored_empty)
  note g = invs_iff [OF plain_uids(1)] and u = invs_iff [OF plain_uids(2)]
  have view0: "kind_view K rsc_empty = []" "rs_table rsc_empty = []" for K :: "('a, 'p) codec"
    by (simp_all add: rsc_empty_def kind_view_def)
  obtain r where r: "client_inv (dir_serve ''g1'') numbered_groups ops_state"
    "kind_rest numbered_groups ops_state = kind_rest numbered_groups rsc_empty" "kind_view numbered_groups ops_state = [r]"
    "md_Name (gr_Metadata r) = ''ops''" "rw_Uid ` set (rs_table ops_state) = {''g1''}"
    by (rule created_in [OF _ _ _ _ _ ops_state_def])
      (use empty g view0 short_names in \<open>auto simp: ops_group_def\<close>)
  have frame: "client_inv (dir_serve ''g1'') K ops_state \<and> kind_view K ops_state = []"
    if "client_inv (dir_serve ''g1'') K rsc_empty" "cd_kind K \<noteq> ''Group''" for K :: "('a, 'p) codec"
    using core_frame [OF that(1) r(1,2)] that(2) by (simp add: view0)
  have stored: "all_stored example_conv ops_state" "kind_view numbered_users ops_state = []"
    using empty frame [of numbered_users] frame [of numbered_pols] frame [of numbered_idps] r(1) by (simp_all add: g)
  obtain y where y: "client_inv (dir_serve ''u1'') numbered_users alice_member"
    "kind_rest numbered_users alice_member = kind_rest numbered_users ops_state" "kind_view numbered_users alice_member = [y]"
    "ur_Spec y = alice_spec"
    by (rule created_in [OF _ _ _ _ _ alice_member_def])
      (use stored r(5) short_names in \<open>auto simp: u new_user_def\<close>)
  have frame': "client_inv (dir_serve ''u1'') K alice_member \<and> kind_view K alice_member = kind_view K ops_state"
    if "client_inv (dir_serve ''u1'') K ops_state" "cd_kind K \<noteq> ''User''" for K :: "('a, 'p) codec"
    using core_frame [OF that(1) y(1,2)] that(2) by simp
  show "all_stored example_conv alice_member"
    using stored(1) y(1) frame' [of numbered_groups] frame' [of numbered_pols] frame' [of numbered_idps] by (simp add: u)
  show "\<exists>u r. kind_view numbered_users alice_member = [u] \<and> ur_Spec u = alice_spec \<and>
     kind_view numbered_groups alice_member = [r] \<and> md_Name (gr_Metadata r) = ''ops''"
    using y(3,4) r(3,4) frame' [of numbered_groups] stored(1) by (simp add: u)
qed

lemma alice_linked: "directory_server example_conv alice_member"
proof (rule directory_server.start [OF alice_is_member(1)])
  show "users_linked example_conv alice_member"
    using alice_is_member(2)
    by (auto simp: users_linked_def example_conv_codecs alice_spec_def user_wf_def NameMain_def lower_def lower_alnum_def name_char_def)
qed

text \<open>Also after the group of the user was to be deleted.\<close>

theorem groups_of_users_exist_witness:
  "(\<exists>u\<in>set (kind_view numbered_users alice_member). us_Groups (ur_Spec u) = [''ops''] \<and>
      (\<exists>r\<in>set (kind_view numbered_groups alice_member). md_Name (gr_Metadata r) = ''ops'')) \<and>
   (let t = snd (admin_DeleteGroup example_api (CoreC (dir_serve ''x'') answered numbered_users) (CoreC (dir_serve ''x'') answered numbered_groups)
      \<lparr>do_Uid = [], do_Name = ''ops''\<rparr> alice_member) in
    list_all (\<lambda>u. list_all (\<lambda>g. g \<in> (\<lambda>r. md_Name (gr_Metadata r)) ` set (kind_view numbered_groups t)) (us_Groups (ur_Spec u)))
      (kind_view numbered_users t))"
proof -
  let ?t = "snd (admin_DeleteGroup example_api (CoreC (dir_serve ''x'') answered numbered_users) (CoreC (dir_serve ''x'') answered numbered_groups)
      \<lparr>do_Uid = [], do_Name = ''ops''\<rparr> alice_member)"
  obtain u where u: "u \<in> set (kind_view numbered_users alice_member)" "ur_Spec u = alice_spec"
    using alice_is_member(2) by auto
  with groups_of_users_exist [OF alice_linked example_finds_members, of u]
  have alice: "us_Groups (ur_Spec u) = [''ops''] \<and> (\<exists>r\<in>set (kind_view numbered_groups alice_member). md_Name (gr_Metadata r) = ''ops'')"
    by (simp add: example_conv_codecs alice_spec_def)
  have "kind_fits \<lparr>go_Uid = [], go_Name = ''ops''\<rparr> ''core'' ''v1'' ''Group'' alice_member"
    by (simp add: kind_fits_def plain_examples)
  then have "directory_server example_conv ?t"
    using directory_server.delete_group [OF alice_linked dir_serve_ok, of "''x''" "\<lparr>do_Uid = [], do_Name = ''ops''\<rparr>" example_api answered]
    by (simp add: example_conv_codecs plain_def)
  from groups_of_users_exist [OF this example_finds_members]
  have "list_all (\<lambda>u. list_all (\<lambda>g. g \<in> (\<lambda>r. md_Name (gr_Metadata r)) ` set (kind_view numbered_groups ?t)) (us_Groups (ur_Spec u)))
      (kind_view numbered_users ?t)"
    by (fastforce simp: list_all_iff example_conv_codecs)
  with alice u(1) show ?thesis unfolding Let_def by blast
qed

section \<open>A user with two identities of one provider\<close>

text \<open>A client that finds everything and lists nothing.\<close>

definition finds :: "'a \<Rightarrow> (unit, 'a) client" where
  "finds x =
     \<lparr>cl_Get = (\<lambda>o' s. (Ok x, s)), cl_List = (\<lambda>lo s. (Ok [], s)), cl_Create = (\<lambda>y s. (Ok y, s)), cl_Update = (\<lambda>y s. (Ok y, s)),
      cl_Delete = (\<lambda>d s. (Ok x, s))\<rparr>"

definition two_identities :: User where
  "two_identities = new_user (no_metadata\<lparr>md_Name := ''alice''\<rparr>)
     (alice_spec\<lparr>us_Email := ''a@b.io'', us_Authentication := Some
        [\<lparr>id_IdentityProvider = ''idp'', id_Identifier = ''alice''\<rparr>, \<lparr>id_IdentityProvider = ''idp'', id_Identifier = ''alice2''\<rparr>]\<rparr>)"

definition some_idp :: IdentityProvider where
  "some_idp =
     \<lparr>idp_ApiVersion = [], idp_Kind = [], idp_Metadata = no_metadata,
      idp_Spec = \<lparr>is_IsDisabled = False, is_DisplayName = [], is_AalRules = [], is_DisableEmailAsIdentity = False,
        is_PostAuthenticationRules = [], is_Type = IdP_Github \<lparr>gh_ClientID = ''id'', gh_ClientSecret = Some ''secret''\<rparr>\<rparr>,
      idp_Status = \<lparr>it_Type = GITHUB, it_IsLocked = False\<rparr>\<rparr>"

definition found_clients :: "unit user_clients" where
  "found_clients =
     \<lparr>uc_Policy = finds system_policy, uc_Group = finds ops_group, uc_User = finds two_identities,
      uc_IdP = finds some_idp\<rparr>"

theorem labels_keep_last_identity_witness:
  "\<exists>x. fst (CheckAndSetUser example_api found_clients two_identities ()) = Ok x \<and>
     map_of (md_SpecLabels (ur_Metadata x)) ''auth-idp'' = Some ''alice2'' \<and> map_of (md_SpecLabels (ur_Metadata x)) ''email'' = None"
proof -
  obtain x s' where x: "CheckAndSetUser example_api found_clients two_identities () = (Ok x, s')"
    by (simp add: CheckAndSetUser_def two_identities_def new_user_def alice_spec_def found_clients_def finds_def user_group_def
        label_owner_def Let_def)
  from labels_keep_last_identity [OF x] x show ?thesis
    by (simp add: two_identities_def new_user_def alice_spec_def example_api_def)
qed

end
