(* ===== verification/Upstream.thy ===== *)
theory Upstream imports Ucorev1 CoreClient begin

text \<open>
  \<open>cluster/common/upstream\<close> with the parts of \<open>vutils\<close> and \<open>utilrand\<close> it uses: the addresses of the connection
  of a session, and the services that the session serves to others. The numbers that
  the source of random numbers delivers during a call are an argument, and so are the parser of
  URLs, \<open>k8snet.GetIndexedIP\<close> and the conversions between the message on active indexes and the attributes of
  a configuration.
\<close>

section \<open>Environment\<close>

record ClusterConnInfo =
  ci_ActiveIndexesWG :: "32 word list"
  ci_ActiveIndexesQUIC :: "32 word list"

record conn_env =
  nv_urlParse :: "string \<Rightarrow> url option"
  nv_GetIndexedIP :: "Addr \<times> nat \<Rightarrow> int \<Rightarrow> Addr go"
  nv_ReadInfo :: "json option \<Rightarrow> ClusterConnInfo go"
  nv_WriteInfo :: "ClusterConnInfo \<Rightarrow> json go"

record 's net_clients =
  nl_Session :: "('s, Session) client"
  nl_Service :: "('s, Service) client"
  nl_Gateway :: "('s, Gateway) client"
  nl_Config :: "('s, Config) client"
  nl_ClusterConfig :: "('s, ClusterConfig) client"
  nl_Secret :: "('s, Secret) client"

type_synonym random = "nat \<Rightarrow> nat go"

section \<open>Random indexes\<close>

text \<open>The loop of \<open>GetRandomIPIndex\<close>; the number is the position in the random numbers.\<close>

primrec random_index :: "nat \<Rightarrow> random \<Rightarrow> nat \<Rightarrow> 32 word go \<times> nat" where
  "random_index 0 rnd k = (Fail (Errorf ''Could not generate a random number''), k)"
| "random_index (Suc n) rnd k =
     go_seq (rnd k, Suc k) (\<lambda>v k.
     let ret = of_nat v in if ret = 0 \<or> ret mod 256 = 0 then random_index n rnd k else (Ok ret, k))"

definition GetRandomIPIndex :: "random \<Rightarrow> nat \<Rightarrow> 32 word go \<times> nat" where
  "GetRandomIPIndex rnd k = random_index 100000 rnd k"

text \<open>The loop of \<open>AddAddressToConnection\<close>, which goes on after a free index has been found.\<close>

primrec draw_index :: "nat \<Rightarrow> (32 word \<Rightarrow> bool) \<Rightarrow> random \<Rightarrow> 32 word \<Rightarrow> nat \<Rightarrow> 32 word go" where
  "draw_index 0 hasIndex rnd idx k = Ok idx"
| "draw_index (Suc n) hasIndex rnd idx k =
     (case GetRandomIPIndex rnd k of
        (Ok curIdx, k) \<Rightarrow> draw_index n hasIndex rnd (if \<not> hasIndex curIdx then curIdx else idx) k
      | (Fail e, k) \<Rightarrow> Fail e
      | (Panic, k) \<Rightarrow> Panic)"

section \<open>Addresses\<close>

text \<open>One family of \<open>GetDualStackIPByIndex\<close>: a network that is empty gives no address.\<close>

definition indexed_ip :: "conn_env \<Rightarrow> string \<Rightarrow> int \<Rightarrow> string go" where
  "indexed_ip E net idx =
     (if net = [] then Ok []
      else
        (case ParseCIDR net of
           None \<Rightarrow> Fail (Errorf ''invalid CIDR address'')
         | Some (a, bits) \<Rightarrow> go_map (\<lambda>ip. IP_String (Some ip)) (nv_GetIndexedIP E (masked a bits, bits) idx)))"

definition GetDualStackIPByIndex :: "conn_env \<Rightarrow> DualStackNetwork \<Rightarrow> int \<Rightarrow> DualStackIP go" where
  "GetDualStackIPByIndex E n idx =
     go_bind (indexed_ip E (nw_V4 n) idx) (\<lambda>ipv4.
     go_map (\<lambda>ipv6. \<lparr>ip_Ipv4 = ipv4, ip_Ipv6 = ipv6\<rparr>) (indexed_ip E (nw_V6 n) idx))"

definition GetAttrs :: "Config \<Rightarrow> json option" where
  "GetAttrs cfg = (case cfg_Data cfg of Some (Some (Config_Attrs a)) \<Rightarrow> a | _ \<Rightarrow> None)"

definition set_attrs :: "Config \<Rightarrow> json \<Rightarrow> Config go" where
  "set_attrs cfg attrs =
     go_map (\<lambda>_. cfg\<lparr>cfg_Data := Some (Some (Config_Attrs (Some attrs)))\<rparr>) (deref (cfg_Data cfg))"

definition active_indexes :: "Connection_Type \<Rightarrow> ClusterConnInfo \<Rightarrow> 32 word list" where
  "active_indexes typ network =
     (case typ of WIREGUARD \<Rightarrow> ci_ActiveIndexesWG network | QUICV0 \<Rightarrow> ci_ActiveIndexesQUIC network | _ \<Rightarrow> [])"

definition addConnIndex :: "ClusterConnInfo \<Rightarrow> 32 word \<Rightarrow> Connection_Type \<Rightarrow> ClusterConnInfo" where
  "addConnIndex network idx typ =
     (case typ of
        WIREGUARD \<Rightarrow> network\<lparr>ci_ActiveIndexesWG := ci_ActiveIndexesWG network @ [idx]\<rparr>
      | QUICV0 \<Rightarrow> network\<lparr>ci_ActiveIndexesQUIC := ci_ActiveIndexesQUIC network @ [idx]\<rparr>
      | _ \<Rightarrow> network)"

text \<open>Only the first occurrence is removed.\<close>

definition removeConnIndex :: "ClusterConnInfo \<Rightarrow> 32 word \<Rightarrow> Connection_Type \<Rightarrow> ClusterConnInfo" where
  "removeConnIndex network arg typ =
     (case typ of
        WIREGUARD \<Rightarrow> network\<lparr>ci_ActiveIndexesWG := remove1 arg (ci_ActiveIndexesWG network)\<rparr>
      | QUICV0 \<Rightarrow> network\<lparr>ci_ActiveIndexesQUIC := remove1 arg (ci_ActiveIndexesQUIC network)\<rparr>
      | _ \<Rightarrow> network)"

definition conn_subnet :: "Connection_Type \<Rightarrow> ClusterConfig \<Rightarrow> DualStackNetwork go" where
  "conn_subnet typ cc = deref (case typ of QUICV0 \<Rightarrow> cc_QuicConnSubnet cc | _ \<Rightarrow> cc_WgConnSubnet cc)"

definition host_address :: "DualStackIP \<Rightarrow> DualStackNetwork" where
  "host_address ip =
     \<lparr>nw_V4 = (if ip_Ipv4 ip \<noteq> [] then ip_Ipv4 ip @ ''/32'' else []),
      nw_V6 = (if ip_Ipv6 ip \<noteq> [] then ip_Ipv6 ip @ ''/128'' else [])\<rparr>"

definition with_connection :: "Session \<Rightarrow> Session_Status_Connection option \<Rightarrow> Session" where
  "with_connection sess conn = sess\<lparr>se_Status := (se_Status sess)\<lparr>st_Connection := conn\<rparr>\<rparr>"

definition conn_info_opts :: GetOptions where
  "conn_info_opts = by_name ''sys:conn-info''"

text \<open>The end of both operations on the active indexes: they are written into the configuration.\<close>

definition write_conn_info :: "conn_env \<Rightarrow> 's net_clients \<Rightarrow> Config \<Rightarrow> ClusterConnInfo \<Rightarrow> 's \<Rightarrow> unit go \<times> 's" where
  "write_conn_info E C cfg networkInfo s =
     go_seq (nv_WriteInfo E networkInfo, s) (\<lambda>attrs s.
     go_seq (set_attrs cfg attrs, s) (\<lambda>cfg s.
     go_seq (cl_Update (nl_Config C) cfg s) (\<lambda>_ s. (Ok (), s))))"

definition AddAddressToConnection :: "conn_env \<Rightarrow> 's net_clients \<Rightarrow> random \<Rightarrow> Session \<Rightarrow> 's \<Rightarrow> Session go \<times> 's" where
  "AddAddressToConnection E C rnd sess s =
     (case st_Connection (se_Status sess) of
        None \<Rightarrow> (Fail (Errorf ''Connection is not set in the Session''), s)
      | Some conn \<Rightarrow>
          let typ = co_Type conn in
          if typ \<noteq> QUICV0 \<and> typ \<noteq> WIREGUARD
          then (Fail (Errorf ''Cannot adding addresses without knowing Connection type''), s)
          else
            go_seq (cl_Get (nl_Config C) conn_info_opts s) (\<lambda>cfg s.
            go_seq (cl_Get (nl_ClusterConfig C) (by_name ''default'') s) (\<lambda>cc s.
            go_seq (nv_ReadInfo E (GetAttrs cfg), s) (\<lambda>networkInfo s.
            go_seq (draw_index 100000 (\<lambda>i. i \<in> set (active_indexes typ networkInfo)) rnd 0 0, s) (\<lambda>idx s.
            go_seq (reject_if (idx = 0) (Errorf ''Could not find a valid IP''), s) (\<lambda>_ s.
            go_seq (write_conn_info E C cfg (addConnIndex networkInfo idx typ) s) (\<lambda>_ s.
            go_seq (conn_subnet typ cc, s) (\<lambda>connSubnet s.
            go_seq (GetDualStackIPByIndex E connSubnet (uint idx), s) (\<lambda>connIP s.
            (Ok (with_connection sess (Some (conn\<lparr>co_Addresses := co_Addresses conn @ [host_address connIP]\<rparr>))), s))))))))))"

definition removeAddressFromConnection :: "conn_env \<Rightarrow> 's net_clients \<Rightarrow> Session \<Rightarrow> nat \<Rightarrow> 's \<Rightarrow> unit go \<times> 's" where
  "removeAddressFromConnection E C sess idx s =
     (case st_Connection (se_Status sess) of
        None \<Rightarrow> (Ok (), s)
      | Some conn \<Rightarrow>
          if co_Addresses conn = [] then (Ok (), s)
          else
            go_seq (nth_go (co_Addresses conn) idx, s) (\<lambda>addr s.
            go_seq (cl_Get (nl_Config C) conn_info_opts s) (\<lambda>cfg s.
            go_seq (nv_ReadInfo E (GetAttrs cfg), s) (\<lambda>networkInfo s.
            go_seq (GetIndex (ToIP addr), s) (\<lambda>i s.
            write_conn_info E C cfg (removeConnIndex networkInfo (of_nat i) (co_Type conn)) s)))))"

fun remove_addresses :: "conn_env \<Rightarrow> 's net_clients \<Rightarrow> Session \<Rightarrow> nat list \<Rightarrow> 's \<Rightarrow> unit go \<times> 's" where
  "remove_addresses E C sess [] s = (Ok (), s)"
| "remove_addresses E C sess (i # ks) s =
     go_seq (removeAddressFromConnection E C sess i s) (\<lambda>_ s. remove_addresses E C sess ks s)"

definition RemoveAllAddressFromConnection :: "conn_env \<Rightarrow> 's net_clients \<Rightarrow> Session \<Rightarrow> 's \<Rightarrow> Session go \<times> 's" where
  "RemoveAllAddressFromConnection E C sess s =
     (case st_Connection (se_Status sess) of
        None \<Rightarrow> (Ok sess, s)
      | Some conn \<Rightarrow>
          if co_Addresses conn = [] then (Ok sess, s)
          else
            go_seq (remove_addresses E C sess [0..<length (co_Addresses conn)] s) (\<lambda>_ s.
            (Ok (with_connection sess (Some (conn\<lparr>co_Addresses := []\<rparr>))), s)))"

section \<open>Ports of the services that a session serves\<close>

text \<open>
  The search for a port, over signed 32 bit numbers: \<open>None\<close> would be a loop that does not end, \<open>Some None\<close> is
  the end of the range.
\<close>

partial_function (option) port_loop :: "32 word \<Rightarrow> 32 word \<Rightarrow> 32 word list \<Rightarrow> 32 word option option" where
  "port_loop i bound curPorts =
     (if \<not> i <s bound then Some None
      else if i \<notin> set curPorts then Some (Some i)
      else port_loop (i + 1) bound curPorts)"

definition getListenerPort :: "Session \<Rightarrow> int go option" where
  "getListenerPort sess =
     (case st_Connection (se_Status sess) of
        None \<Rightarrow> Some (Fail (Errorf ''Connection is not set in the Session''))
      | Some conn \<Rightarrow>
          (case co_ServiceOptions conn of
             None \<Rightarrow> Some (Fail (Errorf ''Nil ServiceOptions''))
           | Some opts \<Rightarrow>
               map_option (\<lambda>r. case r of None \<Rightarrow> Fail (Errorf ''Could not choose port for Session'') | Some i \<Rightarrow> Ok (sint i))
                 (port_loop (sop_PortStart opts) (sop_PortStart opts + 10000) (map up_Port (co_Upstreams conn)))))"

text \<open>The first endpoint that the user of the session hosts; a URL that does not parse is as none.\<close>

fun host_backend :: "conn_env \<Rightarrow> Session \<Rightarrow> Service \<Rightarrow> Endpoint list \<Rightarrow> url option go" where
  "host_backend E sess svc [] = Ok None"
| "host_backend E sess svc (b # eps) =
     (if ep_User b = [] then host_backend E sess svc eps
      else
        (case GetHostUserRef (Some svc) (ep_User b) of
           Ok userRef \<Rightarrow>
             go_bind (deref (st_UserRef (se_Status sess))) (\<lambda>u.
             if or_Uid userRef = or_Uid u then Ok (nv_urlParse E (ep_Url b)) else host_backend E sess svc eps)
         | _ \<Rightarrow> host_backend E sess svc eps))"

text \<open>The backend of an upstream that exists already is replaced; \<open>None\<close> when there is no such upstream.\<close>

fun replace_backend :: "string \<Rightarrow> Upstream_Backend \<Rightarrow> Connection_Upstream list \<Rightarrow> Connection_Upstream list option go" where
  "replace_backend uid b [] = Ok None"
| "replace_backend uid b (u # us) =
     go_bind (deref (up_ServiceRef u)) (\<lambda>r.
     if or_Uid r = uid then Ok (Some (u\<lparr>up_Backend := Some b\<rparr> # us))
     else go_map (map_option ((#) u)) (replace_backend uid b us))"

definition service_ref :: "Service \<Rightarrow> ObjectReference option" where
  "service_ref svc = GetObjectReference (svc_ApiVersion svc) (svc_Kind svc) (Some (svc_Metadata svc))"

definition new_upstream :: "Service \<Rightarrow> Upstream_Backend \<Rightarrow> 32 word \<Rightarrow> Connection_Upstream" where
  "new_upstream svc backend port =
     \<lparr>up_Port = port, up_L4Type = (if L4Type svc = UDP then 2 else 1), up_ServiceRef = service_ref svc,
      up_NamespaceRef = sx_NamespaceRef (svc_Status svc), up_Backend = Some backend, up_Mode = (if IsESSH svc then 2 else 1)\<rparr>"

definition put_upstream :: "Session \<Rightarrow> Session_Status_Connection \<Rightarrow> Service \<Rightarrow> Upstream_Backend \<Rightarrow> Session go" where
  "put_upstream sess conn svc backend =
     go_bind (replace_backend (md_Uid (svc_Metadata svc)) backend (co_Upstreams conn)) (\<lambda>replaced.
     case replaced of
       Some us \<Rightarrow> Ok (with_connection sess (Some (conn\<lparr>co_Upstreams := us\<rparr>)))
     | None \<Rightarrow>
         go_map (\<lambda>lisPort. with_connection sess
             (Some (conn\<lparr>co_Upstreams := co_Upstreams conn @ [new_upstream svc backend (word_of_int lisPort)]\<rparr>)))
           (the (getListenerPort sess)))"

definition setConnectionUpstreamsListener :: "conn_env \<Rightarrow> Session \<Rightarrow> Service \<Rightarrow> Session go" where
  "setConnectionUpstreamsListener E sess svc =
     (case st_Connection (se_Status sess) of
        None \<Rightarrow> Fail (Errorf ''Connection is not set in the Session'')
      | Some conn \<Rightarrow>
          go_bind (GetAllUpstreamEndpoints (nv_urlParse E) svc) (\<lambda>eps.
          go_bind (host_backend E sess svc eps) (\<lambda>upstreamBackend.
          case upstreamBackend of
            None \<Rightarrow> go_bind (deref (st_UserRef (se_Status sess))) (\<lambda>_. Fail (Errorf ''Cannot find listener backend for the User''))
          | Some u \<Rightarrow>
              go_bind (UpstreamRealPort (nv_urlParse E) svc) (\<lambda>p.
              put_upstream sess conn svc \<lparr>ub_Host = u_Hostname u, ub_Port = word_of_int p\<rparr>))))"

definition SetConnectionUpstreams :: "conn_env \<Rightarrow> Session \<Rightarrow> Service \<Rightarrow> Session go" where
  "SetConnectionUpstreams E sess svc = setConnectionUpstreamsListener E sess svc"

text \<open>The loop from the last upstream to the first one; \<open>i\<close> upstreams are left to look at.\<close>

fun remove_upstreams :: "nat \<Rightarrow> string \<Rightarrow> Connection_Upstream list \<Rightarrow> Connection_Upstream list go" where
  "remove_upstreams 0 uid us = Ok us"
| "remove_upstreams (Suc i) uid us =
     go_bind (nth_go us i) (\<lambda>u.
     go_bind (deref (up_ServiceRef u)) (\<lambda>r.
     remove_upstreams i uid (if or_Uid r = uid then take i us @ drop (Suc i) us else us)))"

definition RemoveConnectionUpstreams :: "Session \<Rightarrow> Service \<Rightarrow> Session go" where
  "RemoveConnectionUpstreams sess svc =
     (case st_Connection (se_Status sess) of
        None \<Rightarrow> Ok sess
      | Some conn \<Rightarrow>
          go_map (\<lambda>us. with_connection sess (Some (conn\<lparr>co_Upstreams := us\<rparr>)))
            (remove_upstreams (length (co_Upstreams conn)) (md_Uid (svc_Metadata svc)) (co_Upstreams conn)))"

section \<open>The sessions of a service\<close>

fun requests_service :: "string \<Rightarrow> RequestedService list \<Rightarrow> bool go" where
  "requests_service uid [] = Ok False"
| "requests_service uid (r # rs) =
     go_bind (deref (rq_ServiceRef r)) (\<lambda>o'. if or_Uid o' = uid then Ok True else requests_service uid rs)"

definition ServeService :: "Service \<Rightarrow> Session \<Rightarrow> bool go" where
  "ServeService svc sess =
     (case st_Connection (se_Status sess) of
        None \<Rightarrow> Ok False
      | Some conn \<Rightarrow>
          (case co_ServiceOptions conn of
             None \<Rightarrow> Ok False
           | Some opts \<Rightarrow>
               if sop_ServeAll opts then Ok True
               else requests_service (md_Uid (svc_Metadata svc)) (sop_RequestedServices opts)))"

fun candidates :: "Service \<Rightarrow> Session list \<Rightarrow> Session list go" where
  "candidates svc [] = Ok []"
| "candidates svc (c # cs) =
     (if st_Type (se_Status c) \<noteq> CLIENT then candidates svc cs
      else go_bind (ServeService svc c) (\<lambda>serve. go_map (\<lambda>r. if serve then c # r else r) (candidates svc cs)))"

definition getCandidateConnections :: "'s net_clients \<Rightarrow> Endpoint \<Rightarrow> Service \<Rightarrow> 's \<Rightarrow> Session list go \<times> 's" where
  "getCandidateConnections C ep svc s =
     go_seq (cl_List (nl_Session C) (no_list_options\<lparr>lo_Filters :=
       [FilterFieldEQValStr ''status.userRef.name'' (ep_User ep), FilterFieldEQValStr ''status.type'' ''CLIENT'']\<rparr>) s) (\<lambda>conns s.
     (candidates svc conns, s))"

definition session_uid :: "Session \<Rightarrow> string" where
  "session_uid c = md_Uid (se_Metadata c)"

text \<open>A session that is in the list already takes the place of its first occurrence.\<close>

fun put_session :: "Session \<Rightarrow> Session list \<Rightarrow> Session list" where
  "put_session c [] = [c]"
| "put_session c (x # xs) = (if session_uid x = session_uid c then c # xs else x # put_session c xs)"

fun set_candidates :: "conn_env \<Rightarrow> Service \<Rightarrow> Session list \<Rightarrow> Session list \<Rightarrow> Session list go" where
  "set_candidates E svc [] svcConns = Ok svcConns"
| "set_candidates E svc (c # conns) svcConns =
     go_bind (setConnectionUpstreamsListener E c svc) (\<lambda>c. set_candidates E svc conns (put_session c svcConns))"

fun set_endpoints ::
  "conn_env \<Rightarrow> 's net_clients \<Rightarrow> Service \<Rightarrow> Endpoint list \<Rightarrow> Session list \<Rightarrow> 's \<Rightarrow> Session list go \<times> 's"
where
  "set_endpoints E C svc [] svcConns s = (Ok svcConns, s)"
| "set_endpoints E C svc (ep # eps) svcConns s =
     (if ep_User ep = [] then set_endpoints E C svc eps svcConns s
      else
        go_seq (getCandidateConnections C ep svc s) (\<lambda>conns s.
        go_seq (set_candidates E svc conns svcConns, s) (\<lambda>svcConns s. set_endpoints E C svc eps svcConns s)))"

definition SetServiceUpstreams :: "conn_env \<Rightarrow> 's net_clients \<Rightarrow> Service \<Rightarrow> 's \<Rightarrow> Session list go \<times> 's" where
  "SetServiceUpstreams E C svc s =
     go_seq (GetAllUpstreamEndpoints (nv_urlParse E) svc, s) (\<lambda>eps s.
     if \<not> list_ex (\<lambda>ep. ep_User ep \<noteq> []) eps then (Ok [], s) else set_endpoints E C svc eps [] s)"

fun serves :: "string \<Rightarrow> Connection_Upstream list \<Rightarrow> bool go" where
  "serves uid [] = Ok False"
| "serves uid (u # us) =
     go_bind (deref (up_ServiceRef u)) (\<lambda>r. go_map (\<lambda>b. uid = or_Uid r \<or> b) (serves uid us))"

fun host_conns :: "Service \<Rightarrow> Session list \<Rightarrow> Session list \<Rightarrow> Session list go" where
  "host_conns svc [] ret = Ok ret"
| "host_conns svc (sess # xs) ret =
     (if st_Type (se_Status sess) \<noteq> CLIENT then host_conns svc xs ret
      else
        (case st_Connection (se_Status sess) of
           None \<Rightarrow> host_conns svc xs ret
         | Some conn \<Rightarrow>
             go_bind (serves (md_Uid (svc_Metadata svc)) (co_Upstreams conn)) (\<lambda>b.
             host_conns svc xs (if b \<and> session_uid sess \<notin> session_uid ` set ret then ret @ [sess] else ret))))"

fun endpoint_conns ::
  "'s net_clients \<Rightarrow> Service \<Rightarrow> Endpoint list \<Rightarrow> Session list \<Rightarrow> 's \<Rightarrow> Session list go \<times> 's"
where
  "endpoint_conns C svc [] ret s = (Ok ret, s)"
| "endpoint_conns C svc (ep # eps) ret s =
     (if ep_User ep = [] then endpoint_conns C svc eps ret s
      else
        (case GetHostUserRef (Some svc) (ep_User ep) of
           Ok userRef \<Rightarrow>
             go_seq (cl_List (nl_Session C) (FilterByUserRef userRef) s) (\<lambda>sessL s.
             go_seq (host_conns svc sessL ret, s) (\<lambda>ret s. endpoint_conns C svc eps ret s))
         | _ \<Rightarrow> endpoint_conns C svc eps ret s))"

definition GetServiceHostConns :: "conn_env \<Rightarrow> 's net_clients \<Rightarrow> Service \<Rightarrow> 's \<Rightarrow> Session list go \<times> 's" where
  "GetServiceHostConns E C svc s =
     go_seq (GetAllUpstreamEndpoints (nv_urlParse E) svc, s) (\<lambda>eps s. endpoint_conns C svc eps [] s)"

definition GetServiceHostConnsByUser ::
  "'s net_clients \<Rightarrow> Service \<Rightarrow> ObjectReference option \<Rightarrow> 's \<Rightarrow> Session list go \<times> 's"
where
  "GetServiceHostConnsByUser C svc userRef s =
     (case userRef of
        None \<Rightarrow> (Fail (Errorf ''Could not GetServiceHostConnsByUser. UserRef cannot be nil''), s)
      | Some u \<Rightarrow>
          go_seq (cl_List (nl_Session C) (FilterByUserRef u) s) (\<lambda>sessL s. (host_conns svc sessL [], s)))"

section \<open>The services that a session hosts, as the client is told\<close>

record HostedService =
  hs_Name :: string
  hs_Port :: "32 word"
  hs_L4Type :: int
  hs_Upstream :: Upstream_Backend
  hs_Address :: DualStackIP
  hs_Mode :: int

definition GetHostServicesFromUpstream :: "Connection_Upstream \<Rightarrow> Session \<Rightarrow> HostedService option go" where
  "GetHostServicesFromUpstream l sess =
     go_bind (deref (st_Connection (se_Status sess))) (\<lambda>conn.
     case co_Addresses conn of
       [] \<Rightarrow> Ok None
     | addr # _ \<Rightarrow>
         go_bind (deref (up_ServiceRef l)) (\<lambda>r.
         go_bind (deref (up_Backend l)) (\<lambda>b.
         Ok (Some \<lparr>hs_Name = or_Name r, hs_Port = up_Port l, hs_L4Type = up_L4Type l, hs_Upstream = b,
           hs_Address = ToIP addr, hs_Mode = up_Mode l\<rparr>))))"

definition GetHostServicesFromConn :: "Session \<Rightarrow> HostedService option list go" where
  "GetHostServicesFromConn sess =
     (case st_Connection (se_Status sess) of
        None \<Rightarrow> Ok []
      | Some conn \<Rightarrow>
          if co_Addresses conn = [] then Ok []
          else go_mapM (\<lambda>l. GetHostServicesFromUpstream l sess) (co_Upstreams conn))"

end
