(* ===== verification/UserCtx.thy ===== *)
theory UserCtx imports Octovigil ApiCommon begin

text \<open>
  \<open>cluster/common/userctx/userctx.go\<close>: the caller of a method of an API server, whom the decision point
  tells from the identifier of the session in the headers of the request.
\<close>

text \<open>The headers of the request are \<open>None\<close> when the context has none.\<close>

type_synonym incoming = "(string \<times> string list) list option"

definition getSessionUID :: "incoming \<Rightarrow> string go" where
  "getSessionUID incoming =
     (case incoming of
        None \<Rightarrow> Fail (Errorf ''Could not find metadata from context'')
      | Some md \<Rightarrow>
          (case map_of md ''x-octelium-session-uid'' of
             Some [v] \<Rightarrow> Ok v
           | _ \<Rightarrow> Fail (Errorf ''Could not find x-octelium-session-uid header'')))"

definition getDownstream :: "Cache \<Rightarrow> incoming \<Rightarrow> UserCtx go" where
  "getDownstream c incoming =
     go_bind (getSessionUID incoming) (\<lambda>sessUID.
     go_bind (over_grpc (GetDownstreamFromSessionUID c sessUID)) (\<lambda>resp.
     Ok \<lparr>ctx_User = di_User resp, ctx_Session = Some (di_Session resp), ctx_Groups = di_Groups resp, ctx_Device = di_Device resp\<rparr>))"

text \<open>The flag says whether the interceptor has put the middleware into the context.\<close>

definition GetUserCtx :: "bool \<Rightarrow> Cache \<Rightarrow> incoming \<Rightarrow> UserCtx go" where
  "GetUserCtx installed c incoming = (if \<not> installed then Fail Internal else getDownstream c incoming)"

end
