(* ===== verification/Vutils.thy ===== *)
theory Vutils imports Ucorev1Config Apivalidation begin

text \<open>
  Small helpers of \<open>cluster/common/vutils\<close> and the kubeconfig files of \<open>cluster/common/k8sutils/kubeconfig.go\<close>.
\<close>

section \<open>Names\<close>

definition SplitApiVersion :: "string \<Rightarrow> string \<times> string" where
  "SplitApiVersion apiVersion =
     (case Split apiVersion CHR ''/'' of a # b # _ \<Rightarrow> (a, b) | [a] \<Rightarrow> (a, []) | [] \<Rightarrow> ([], []))"

definition GetServiceFullNameFromName :: "string \<Rightarrow> string" where
  "GetServiceFullNameFromName arg =
     (if arg = [] then []
      else (case Split arg CHR ''.'' of [a] \<Rightarrow> arg @ ''.default'' | [a, b] \<Rightarrow> arg | _ \<Rightarrow> []))"

definition GetServiceFullName :: "Service \<Rightarrow> string" where
  "GetServiceFullName svc = GetServiceFullNameFromName (md_Name (svc_Metadata svc))"

definition fqdn_name :: "Service \<Rightarrow> string go" where
  "fqdn_name svc =
     go_map (\<lambda>ns. if or_Name ns = ''default'' then Service_Name svc else md_Name (svc_Metadata svc))
       (deref (sx_NamespaceRef (svc_Status svc)))"

definition GetServicePublicFQDN :: "Service \<Rightarrow> string \<Rightarrow> string go" where
  "GetServicePublicFQDN svc clusterDomain = go_map (\<lambda>n. n @ ''.'' @ clusterDomain) (fqdn_name svc)"

definition GetServicePrivateFQDN :: "Service \<Rightarrow> string \<Rightarrow> string go" where
  "GetServicePrivateFQDN svc clusterDomain = go_map (\<lambda>n. n @ ''.local.'' @ clusterDomain) (fqdn_name svc)"

section \<open>Kubeconfig files\<close>

record KubeConfigCluster =
  kc_Name :: string
  kc_Server :: string
  kc_CertificateAuthorityData :: string

record KubeConfigUser =
  ku_Name :: string
  ku_Token :: string
  ku_ClientCertificateData :: string
  ku_ClientKeyData :: string

record KubeConfigContext =
  kx_Name :: string
  kx_Cluster :: string
  kx_User :: string

record KubeConfig =
  kf_APIVersion :: string
  kf_Kind :: string
  kf_Clusters :: "KubeConfigCluster list"
  kf_Users :: "KubeConfigUser list"
  kf_Contexts :: "KubeConfigContext list"
  kf_CurrentContext :: string

definition kf_GetContext :: "KubeConfig \<Rightarrow> string \<Rightarrow> KubeConfigContext option" where
  "kf_GetContext i context' =
     (if context' \<noteq> [] then List.find (\<lambda>itm. kx_Name itm = context') (kf_Contexts i)
      else if kf_CurrentContext i \<noteq> [] then List.find (\<lambda>itm. kx_Name itm = kf_CurrentContext i) (kf_Contexts i)
      else None)"

definition kf_GetCluster :: "KubeConfig \<Rightarrow> string \<Rightarrow> KubeConfigCluster option" where
  "kf_GetCluster i context' =
     (case kf_GetContext i context' of
        None \<Rightarrow> None
      | Some ctx \<Rightarrow> List.find (\<lambda>itm. kc_Name itm = kx_Cluster ctx) (kf_Clusters i))"

definition kf_GetUser :: "KubeConfig \<Rightarrow> string \<Rightarrow> KubeConfigUser option" where
  "kf_GetUser i context' =
     (case kf_GetContext i context' of
        None \<Rightarrow> None
      | Some ctx \<Rightarrow> List.find (\<lambda>itm. ku_Name itm = kx_User ctx) (kf_Users i))"

section \<open>Gateways as the client is told of them\<close>

record User_Gateway =
  ug_Id :: string
  ug_Addresses :: "string list"
  ug_CIDRs :: "string list"
  ug_Hostname :: string
  ug_WgPort :: "32 word"
  ug_WgPublicKey :: string
  ug_Quicv0Port :: "32 word option"

definition GatewayToUser :: "Gateway \<Rightarrow> User_Gateway go" where
  "GatewayToUser gw =
     go_bind (deref (gw_Wireguard (gw_Status gw))) (\<lambda>wg.
     go_bind (deref (gw_Cidr (gw_Status gw))) (\<lambda>cidr.
     Ok \<lparr>ug_Id = gw_Id (gw_Status gw), ug_Addresses = gw_PublicIPs (gw_Status gw),
       ug_CIDRs = filter (\<lambda>c. c \<noteq> []) [nw_V4 cidr, nw_V6 cidr], ug_Hostname = gw_Hostname (gw_Status gw),
       ug_WgPort = gw_WgPort wg, ug_WgPublicKey = gw_PublicKey wg, ug_Quicv0Port = gw_Quicv0 (gw_Status gw)\<rparr>))"

end
