(* ===== verification/ApiUser.thy ===== *)
theory ApiUser imports Upstream UserCtx Vutils Serr begin

text \<open>
  \<open>cluster/apiserver/apiserver/user\<close> without the connections: what the API for users tells of services, namespaces
  and the caller, the configuration of a Kubernetes service, and the table of the streams that are connected.
\<close>

section \<open>Namespaces and services\<close>

definition described :: "Metadata \<Rightarrow> Metadata" where
  "described m =
     no_metadata\<lparr>md_Uid := md_Uid m, md_Name := md_Name m, md_DisplayName := md_DisplayName m, md_Description := md_Description m\<rparr>"

definition user_ListNamespace :: "('s, Namespace) client \<Rightarrow> CommonListOptions option \<Rightarrow> 's \<Rightarrow> Metadata list go \<times> 's" where
  "user_ListNamespace C common s =
     go_seq (on_err InternalWithErr (cl_List C (GetUserPublicListOptions common []) s)) (\<lambda>nss s.
     (Ok (map (\<lambda>n. described (na_Metadata n)) nss), s))"

record User_Service =
  uv_Metadata :: Metadata
  uv_Port :: "32 word"
  uv_Type :: Service_Mode
  uv_IsTLS :: bool
  uv_IsPublic :: bool
  uv_Namespace :: string
  uv_PrimaryHostname :: string
  uv_Addresses :: "string list"

definition address_texts :: "Service_Status_Address \<Rightarrow> string list go" where
  "address_texts a = go_map (\<lambda>ip. filter (\<lambda>t. t \<noteq> []) [ip_Ipv4 ip, ip_Ipv6 ip]) (deref (sa_DualStackIP a))"

definition ServiceTo :: "Service \<Rightarrow> User_Service go" where
  "ServiceTo p =
     go_bind (deref (sx_NamespaceRef (svc_Status p))) (\<lambda>ns.
     go_bind (go_mapM address_texts (sx_Addresses (svc_Status p))) (\<lambda>addrs.
     Ok \<lparr>uv_Metadata = described (svc_Metadata p), uv_Port = word_of_int (RealPort p), uv_Type = GetMode p,
       uv_IsTLS = sv_IsTLS (svc_Spec p), uv_IsPublic = sv_IsPublic (svc_Spec p), uv_Namespace = or_Name ns,
       uv_PrimaryHostname = sx_PrimaryHostname (svc_Status p), uv_Addresses = concat addrs\<rparr>))"

definition namespace_filter :: "('s, Namespace) client \<Rightarrow> string \<Rightarrow> 's \<Rightarrow> Filter list go \<times> 's" where
  "namespace_filter Cn ns s =
     (if ns = [] then (Ok [], s)
      else
        go_seq (cl_Get Cn (by_name ns) s) (\<lambda>n s.
        go_seq (CheckIsUserHidden (Some (na_Metadata n)), s) (\<lambda>_ s.
        (Ok [FilterStatusNamespaceUID (md_Uid (na_Metadata n))], s))))"

definition user_ListService ::
  "('s, Namespace) client \<Rightarrow> ('s, Service) client \<Rightarrow> string \<Rightarrow> CommonListOptions option \<Rightarrow> 's \<Rightarrow> User_Service list go \<times> 's"
where
  "user_ListService Cn C ns common s =
     go_seq (namespace_filter Cn ns s) (\<lambda>fs s.
     let opts = GetUserPublicListOptions common [] in
     go_seq (cl_List C (opts\<lparr>lo_Filters := lo_Filters opts @ fs\<rparr>) s) (\<lambda>svcs s.
     (go_mapM ServiceTo svcs, s)))"

definition user_GetService :: "api_env \<Rightarrow> ('s, Service) client \<Rightarrow> GetOptions \<Rightarrow> 's \<Rightarrow> User_Service go \<times> 's" where
  "user_GetService A C req s =
     go_seq (CheckGetOptions (ap_V A) (Some req)
       (Some \<lparr>cg_HasName = False, cg_HasUID = False, cg_ParentsMax = 1, cg_ParentsMust = 0\<rparr>), s) (\<lambda>_ s.
     go_seq (on_err K8sNotFoundOrInternalWithErr
       (cl_Get C \<lparr>go_Uid = go_Uid req, go_Name = GetServiceFullNameFromName (go_Name req)\<rparr> s)) (\<lambda>svc s.
     go_seq (CheckIsUserHidden (Some (svc_Metadata svc)), s) (\<lambda>_ s.
     (ServiceTo svc, s))))"

section \<open>The caller\<close>

record GetStatusResponse =
  gs_Domain :: string
  gs_Cluster :: "string \<times> string"
  gs_User :: Metadata
  gs_Email :: string
  gs_Session :: Metadata
  gs_SessionType :: Session_Type

text \<open>The picture that the identity provider gave, when the session has none.\<close>

definition session_picture :: "Session \<Rightarrow> string" where
  "session_picture sess =
     (if md_PicURL (se_Metadata sess) \<noteq> [] then md_PicURL (se_Metadata sess)
      else
        (case st_Authentication (se_Status sess) of
           None \<Rightarrow> []
         | Some a \<Rightarrow>
             (case au_Info a of
                None \<Rightarrow> []
              | Some i \<Rightarrow> (case ai_Details i of Details_IdentityProvider d \<Rightarrow> ii_PicURL d | _ \<Rightarrow> []))))"

definition user_GetStatus :: "api_env \<Rightarrow> ('s, ClusterConfig) client \<Rightarrow> 's \<Rightarrow> GetStatusResponse go \<times> 's" where
  "user_GetStatus A C s =
     go_seq (ap_GetUserCtx A, s) (\<lambda>i s.
     go_seq (on_err InternalWithErr (cl_Get C (by_name ''default'') s)) (\<lambda>cc s.
     go_seq (deref (ctx_User i), s) (\<lambda>user s.
     go_seq (deref (ctx_Session i), s) (\<lambda>sess s.
     (Ok \<lparr>gs_Domain = cc_Domain cc,
        gs_Cluster = (md_DisplayName (cc_Metadata cc), md_Description (cc_Metadata cc)),
        gs_User = no_metadata\<lparr>md_Name := md_Name (ur_Metadata user), md_DisplayName := md_DisplayName (ur_Metadata user),
          md_Uid := md_Uid (ur_Metadata user), md_PicURL := md_PicURL (ur_Metadata user)\<rparr>,
        gs_Email = us_Email (ur_Spec user),
        gs_Session = no_metadata\<lparr>md_Name := md_Name (se_Metadata sess), md_Uid := md_Uid (se_Metadata sess),
          md_PicURL := session_picture sess\<rparr>,
        gs_SessionType = st_Type (se_Status sess)\<rparr>, s)))))"

section \<open>The configuration of a service\<close>

text \<open>\<open>net.JoinHostPort\<close>; the text of an URL with nothing to escape in its host.\<close>

definition JoinHostPort :: "string \<Rightarrow> string \<Rightarrow> string" where
  "JoinHostPort host port = (if CHR '':'' \<in> set host then ''['' @ host @ '']:'' @ port else host @ '':'' @ port)"

fun published :: "string \<Rightarrow> PublishedService list \<Rightarrow> PublishedService option go" where
  "published uid [] = Ok None"
| "published uid (p # ps) =
     go_bind (deref (pu_ServiceRef p)) (\<lambda>r. if or_Uid r = uid then Ok (Some p) else published uid ps)"

definition first_address :: "Service \<Rightarrow> DualStackIP go" where
  "first_address svc = go_bind (nth_go (sx_Addresses (svc_Status svc)) 0) (\<lambda>a. deref (sa_DualStackIP a))"

definition kube_host :: "Service \<Rightarrow> Session \<Rightarrow> Session_Status_Connection \<Rightarrow> ClusterConfig \<Rightarrow> string go" where
  "kube_host svc sess conn cc =
     go_bind (published (md_Uid (svc_Metadata svc)) (co_PublishedServices conn)) (\<lambda>p.
     case p of
       Some p \<Rightarrow> Ok (JoinHostPort (if pu_Address p \<noteq> [] then pu_Address p else ''localhost'') (itoa (sint (pu_Port p))))
     | None \<Rightarrow>
         if \<not> co_IgnoreDNS conn
         then go_map (\<lambda>n. n @ '':'' @ itoa (RealPort svc)) (GetServicePrivateFQDN svc (cc_Domain cc))
         else
           go_map (\<lambda>h. JoinHostPort h (itoa (RealPort svc)))
             (if Session_HasV6 (Some sess) then go_map ip_Ipv6 (first_address svc)
              else if Session_HasV4 (Some sess) then go_map ip_Ipv4 (first_address svc)
              else Ok []))"

definition getKubeConfig :: "Service \<Rightarrow> Session \<Rightarrow> ClusterConfig \<Rightarrow> KubeConfig go" where
  "getKubeConfig svc sess cc =
     go_bind (deref (st_Connection (se_Status sess))) (\<lambda>conn.
     go_map (\<lambda>host.
       \<lparr>kf_APIVersion = ''v1'', kf_Kind = ''Config'',
        kf_Clusters = [\<lparr>kc_Name = ''kubernetes'',
          kc_Server = (if sv_IsTLS (svc_Spec svc) then ''https'' else ''http'') @ ''://'' @ host,
          kc_CertificateAuthorityData = []\<rparr>],
        kf_Users = [\<lparr>ku_Name = ''kubernetes-admin'', ku_Token = ''dummy-token'', ku_ClientCertificateData = [],
          ku_ClientKeyData = []\<rparr>],
        kf_Contexts = [\<lparr>kx_Name = ''kubernetes-admin@kubernetes'', kx_Cluster = ''kubernetes'', kx_User = ''kubernetes-admin''\<rparr>],
        kf_CurrentContext = ''kubernetes-admin@kubernetes''\<rparr>) (kube_host svc sess conn cc))"

text \<open>The marshalled kubeconfig of a Kubernetes service; the other services have no configuration.\<close>

definition SetServiceConfigs ::
  "api_env \<Rightarrow> (KubeConfig \<Rightarrow> string go) \<Rightarrow> ('s, Service) client \<Rightarrow> ('s, ClusterConfig) client \<Rightarrow> string \<Rightarrow> 's \<Rightarrow> string list go \<times> 's"
where
  "SetServiceConfigs A toYAML Cs Cc name s =
     go_seq (ap_GetUserCtx A, s) (\<lambda>i s.
     go_seq (deref (ctx_Session i), s) (\<lambda>sess s.
     go_seq (reject_if (st_Connection (se_Status sess) = None) InvalidArg, s) (\<lambda>_ s.
     go_seq (user_GetService A Cs \<lparr>go_Uid = [], go_Name = GetServiceFullNameFromName name\<rparr> s) (\<lambda>svcU s.
     go_seq (cl_Get Cs (by_name (md_Name (uv_Metadata svcU))) s) (\<lambda>svc s.
     go_seq (cl_Get Cc (by_name ''default'') s) (\<lambda>cc s.
     if IsKubernetes svc
     then go_seq (getKubeConfig svc sess cc, s) (\<lambda>k s. (go_map (\<lambda>y. [y]) (toYAML k), s))
     else (Ok [], s)))))))"

section \<open>Connected streams\<close>

text \<open>The table from the identifiers of sessions to their streams; a message goes to the streams that are listed.\<close>

type_synonym 'stream conn_server = "string \<rightharpoonup> Session \<times> 'stream"

definition addConnectedSess :: "Session \<Rightarrow> 'stream \<Rightarrow> 'stream conn_server \<Rightarrow> 'stream conn_server" where
  "addConnectedSess sess stream m = m(md_Uid (se_Metadata sess) \<mapsto> (sess, stream))"

definition removeConnectedSess :: "string \<Rightarrow> 'stream conn_server \<Rightarrow> 'stream conn_server" where
  "removeConnectedSess sessUID m = m(sessUID := None)"

definition SendMessage :: "string \<Rightarrow> 'stream conn_server \<Rightarrow> 'stream option" where
  "SendMessage sessUID m = map_option snd (m sessUID)"

definition BroadcastMessage :: "'stream conn_server \<Rightarrow> 'stream set" where
  "BroadcastMessage m = snd ` ran m"

end
