(* ===== verification/UserConnect.thy ===== *)
theory UserConnect imports ApiUser begin

text \<open>
  \<open>cluster/apiserver/apiserver/user/connect.go\<close> and \<open>conn_state.go\<close>: how a session gets connected, what its
  client is told, how it stays connected and is disconnected. The generation of keys and the parser of the key of
  the SSH authority are parameters.
\<close>

section \<open>Messages\<close>

datatype Init_L3Mode = INIT_BOTH | INIT_V4 | INIT_V6 | Other_InitL3Mode int

datatype Init_ConnectionType = INIT_UNSET | INIT_WIREGUARD | INIT_QUICV0 | Other_InitType int

record Init_ServiceOptions =
  io_ServeAll :: bool
  io_Services :: "string list"
  io_PortStart :: "32 word"

record Init_PublishedService =
  iu_Name :: string
  iu_Port :: "32 word"
  iu_Address :: string

record Initialize =
  ini_L3Mode :: Init_L3Mode
  ini_ServiceOptions :: "Init_ServiceOptions option"
  ini_ConnectionType :: Init_ConnectionType
  ini_PublishedServices :: "Init_PublishedService list"
  ini_IgnoreDNS :: bool
  ini_ESSHEnable :: bool
  ini_ESSHPort :: "32 word"

record ConnectionState =
  cx_X25519Key :: string
  cx_Ed25519Key :: string
  cx_Mtu :: "32 word"
  cx_Addresses :: "DualStackNetwork list"
  cx_Dns :: "string list"
  cx_Cidr :: DualStackNetwork
  cx_L3Mode :: L3Mode
  cx_Gateways :: "User_Gateway list"
  cx_Services :: "HostedService option list option"
  cx_KnownHosts :: "string list"
  cx_AuthorizedKeys :: "string list"

text \<open>The keys are pairs of a private and a public key; that of the authority is its type and its encoding.\<close>

record connect_env =
  ct_A :: api_env
  ct_E :: conn_env
  ct_rnd :: random
  ct_GeneratePrivateKey :: "(string \<times> string) go"
  ct_GenerateEd25519 :: "(string \<times> string) go"
  ct_ParseCA :: "string \<Rightarrow> (string \<times> string) go"
  ct_KnownHostsLine :: "string \<times> string \<Rightarrow> string"

section \<open>What the client is told\<close>

definition getCASigner :: "connect_env \<Rightarrow> ('s, Secret) client \<Rightarrow> 's \<Rightarrow> (string \<times> string) go \<times> 's" where
  "getCASigner R C s = go_seq (cl_Get C (by_name ''sys:ssh-ca'') s) (\<lambda>secret s. (ct_ParseCA R (secret_value (sec_Data secret)), s))"

definition getAuthorizedKeyCALine :: "string \<times> string \<Rightarrow> string" where
  "getAuthorizedKeyCALine k = ''cert-authority '' @ fst k @ '' '' @ snd k"

definition dns_servers :: "Session \<Rightarrow> Service_Status_Address \<Rightarrow> string list go" where
  "dns_servers sess addr =
     go_bind (if Session_HasV4 (Some sess) then go_map (\<lambda>ip. if ip_Ipv4 ip \<noteq> [] then [ip_Ipv4 ip] else []) (deref (sa_DualStackIP addr))
              else Ok []) (\<lambda>a.
     go_bind (if Session_HasV6 (Some sess) then go_map (\<lambda>ip. if ip_Ipv6 ip \<noteq> [] then [ip_Ipv6 ip] else []) (deref (sa_DualStackIP addr))
              else Ok []) (\<lambda>b.
     Ok (a @ b)))"

definition conn_mtu :: "Session_Status_Connection \<Rightarrow> ClusterConfig \<Rightarrow> 32 word" where
  "conn_mtu conn cc =
     (case co_Type conn of
        QUICV0 \<Rightarrow> word_of_int (GetDevMTUQUIV0 cc)
      | WIREGUARD \<Rightarrow> word_of_int (GetDevMTUWireGuard cc)
      | _ \<Rightarrow> 1280)"

definition getConnectionState ::
  "connect_env \<Rightarrow> 's net_clients \<Rightarrow> Session \<Rightarrow> ClusterConfig \<Rightarrow> string \<Rightarrow> string \<Rightarrow> 's \<Rightarrow> ConnectionState go \<times> 's"
where
  "getConnectionState R C sess cc privK ed25519Priv s =
     (case st_Connection (se_Status sess) of
        None \<Rightarrow> (Fail InvalidArg, s)
      | Some conn \<Rightarrow>
          go_seq (on_err InternalWithErr (cl_Get (nl_Service C) (by_name ''dns.octelium'') s)) (\<lambda>dnsSvc s.
          go_seq (go_mapM (dns_servers sess) (sx_Addresses (svc_Status dnsSvc)), s) (\<lambda>dnsIPs s.
          go_seq (deref (cc_ServiceSubnet cc), s) (\<lambda>cidr s.
          go_seq (on_err InternalWithErr (cl_List (nl_Gateway C) no_list_options s)) (\<lambda>gws s.
          go_seq (go_mapM GatewayToUser gws, s) (\<lambda>gateways s.
          go_seq (if co_Upstreams conn = [] then Ok None else go_map Some (GetHostServicesFromConn sess), s) (\<lambda>svcs s.
          go_seq (on_err InternalWithErr (getCASigner R (nl_Secret C) s)) (\<lambda>ca s.
          (Ok \<lparr>cx_X25519Key = privK, cx_Ed25519Key = ed25519Priv, cx_Mtu = conn_mtu conn cc, cx_Addresses = co_Addresses conn,
             cx_Dns = concat dnsIPs, cx_Cidr = cidr,
             cx_L3Mode = (case co_L3Mode conn of V4 \<Rightarrow> V4 | V6 \<Rightarrow> V6 | _ \<Rightarrow> BOTH), cx_Gateways = gateways, cx_Services = svcs,
             cx_KnownHosts = [''@cert-authority '' @ ct_KnownHostsLine R ca],
             cx_AuthorizedKeys = [getAuthorizedKeyCALine ca]\<rparr>, s)))))))))"

section \<open>The services of a request\<close>

text \<open>A service that is not found is skipped.\<close>

fun request_services :: "('s, Service) client \<Rightarrow> string list \<Rightarrow> 's \<Rightarrow> RequestedService list go \<times> 's" where
  "request_services C [] s = (Ok [], s)"
| "request_services C (n # ns) s =
     (case cl_Get C (by_name (GetServiceFullNameFromName n)) s of
        (Ok svc, s) \<Rightarrow>
          go_seq (CheckIsUserHidden (Some (svc_Metadata svc)), s) (\<lambda>_ s.
          go_seq (request_services C ns s) (\<lambda>r s.
          (Ok (\<lparr>rq_ServiceRef = service_ref svc, rq_NamespaceRef = sx_NamespaceRef (svc_Status svc)\<rparr> # r), s)))
      | (Fail e, s) \<Rightarrow> (if IsNotFound e then request_services C ns s else (Fail (InternalWithErr e), s))
      | (Panic, s) \<Rightarrow> (Panic, s))"

definition req_services ::
  "validators \<Rightarrow> ('s, Service) client \<Rightarrow> Init_ServiceOptions option \<Rightarrow> 's \<Rightarrow> RequestedService list go \<times> 's"
where
  "req_services V C oo s =
     (case oo of
        None \<Rightarrow> (Ok [], s)
      | Some opts \<Rightarrow>
          if io_Services opts = [] then (Ok [], s)
          else
            go_seq (ValidatePort V (sint (io_PortStart opts)), s) (\<lambda>_ s.
            go_seq (reject_if (128 < length (io_Services opts)) InvalidArg, s) (\<lambda>_ s.
            request_services C (io_Services opts) s)))"

fun publish_services :: "validators \<Rightarrow> ('s, Service) client \<Rightarrow> Init_PublishedService list \<Rightarrow> 's \<Rightarrow> PublishedService list go \<times> 's" where
  "publish_services V C [] s = (Ok [], s)"
| "publish_services V C (p # ps) s =
     (case cl_Get C (by_name (GetServiceFullNameFromName (iu_Name p))) s of
        (Ok svc, s) \<Rightarrow>
          go_seq (CheckIsUserHidden (Some (svc_Metadata svc)), s) (\<lambda>_ s.
          go_seq (reject_if (\<not> IsPort V (dec (unat (iu_Port p)))) InvalidArg, s) (\<lambda>_ s.
          go_seq (reject_if (iu_Address p \<noteq> [] \<and> iu_Address p \<noteq> ''localhost'' \<and> \<not> IsIP V (iu_Address p)) InvalidArg, s) (\<lambda>_ s.
          go_seq (publish_services V C ps s) (\<lambda>r s.
          (Ok (\<lparr>pu_ServiceRef = service_ref svc, pu_Port = iu_Port p,
             pu_Address = (if iu_Address p \<noteq> [] then iu_Address p else ''localhost'')\<rparr> # r), s)))))
      | (Fail e, s) \<Rightarrow> (if IsNotFound e then publish_services V C ps s else (Fail (InternalWithErr e), s))
      | (Panic, s) \<Rightarrow> (Panic, s))"

definition published_services ::
  "validators \<Rightarrow> ('s, Service) client \<Rightarrow> Init_PublishedService list \<Rightarrow> 's \<Rightarrow> PublishedService list go \<times> 's"
where
  "published_services V C ps s =
     go_seq (reject_if (128 < length ps) InvalidArg, s) (\<lambda>_ s. publish_services V C ps s)"

section \<open>Connecting\<close>

definition session_l3mode :: "Network_Mode \<Rightarrow> Init_L3Mode \<Rightarrow> L3Mode" where
  "session_l3mode mode req =
     (let ret = (case mode of DUAL_STACK \<Rightarrow> BOTH | V4_ONLY \<Rightarrow> V4 | V6_ONLY \<Rightarrow> V6 | _ \<Rightarrow> BOTH) in
      if ret = BOTH then (case req of INIT_V4 \<Rightarrow> V4 | INIT_V6 \<Rightarrow> V6 | _ \<Rightarrow> BOTH) else ret)"

definition service_options :: "Init_ServiceOptions option \<Rightarrow> RequestedService list \<Rightarrow> ServiceOptions option" where
  "service_options oo reqServices =
     (case oo of
        None \<Rightarrow> None
      | Some opts \<Rightarrow> Some \<lparr>sop_ServeAll = io_ServeAll opts, sop_RequestedServices = reqServices,
          sop_PortStart = (if io_PortStart opts \<noteq> 0 then io_PortStart opts else 23000)\<rparr>)"

definition essh_port :: "Initialize \<Rightarrow> 32 word" where
  "essh_port req = (if \<not> ini_ESSHEnable req then 0 else if ini_ESSHPort req \<noteq> 0 then ini_ESSHPort req else 22022)"

definition new_connection ::
  "api_env \<Rightarrow> Initialize \<Rightarrow> ClusterConfig \<Rightarrow> RequestedService list \<Rightarrow> PublishedService list \<Rightarrow> string \<Rightarrow> string \<Rightarrow> Session_Status_Connection"
where
  "new_connection A req cc reqServices publishedServices pubKey ed25519Pub =
     \<lparr>co_StartedAt = Some (ap_Now A), co_LastSeenAt = None, co_Upstreams = [], co_Addresses = [],
      co_L3Mode = session_l3mode (GetNetworkMode cc) (ini_L3Mode req),
      co_ServiceOptions = service_options (ini_ServiceOptions req) reqServices,
      co_X25519PublicKey = pubKey, co_Ed25519PublicKey = ed25519Pub,
      co_Type = (case ini_ConnectionType req of INIT_QUICV0 \<Rightarrow> QUICV0 | _ \<Rightarrow> WIREGUARD),
      co_PublishedServices = publishedServices, co_IgnoreDNS = ini_IgnoreDNS req, co_ESSHEnable = ini_ESSHEnable req,
      co_ESSHPort = essh_port req\<rparr>"

definition connected :: "Session \<Rightarrow> Session_Status_Connection \<Rightarrow> Session" where
  "connected sess conn =
     sess\<lparr>se_Status := (se_Status sess)\<lparr>st_IsConnected := True, st_Connection := Some conn,
       st_TotalConnections := st_TotalConnections (se_Status sess) + 1\<rparr>\<rparr>"

fun serve_services :: "conn_env \<Rightarrow> Service list \<Rightarrow> Session \<Rightarrow> Session go" where
  "serve_services E [] sess = Ok sess"
| "serve_services E (svc # svcs) sess =
     go_bind (ServeService svc sess) (\<lambda>b.
     if b then go_bind (map_err InternalWithErr (SetConnectionUpstreams E sess svc)) (serve_services E svcs)
     else serve_services E svcs sess)"

definition serve_candidates :: "conn_env \<Rightarrow> 's net_clients \<Rightarrow> UserCtx \<Rightarrow> Initialize \<Rightarrow> Session \<Rightarrow> 's \<Rightarrow> Session go \<times> 's" where
  "serve_candidates E C i req sess s =
     (case ini_ServiceOptions req of
        None \<Rightarrow> (Ok sess, s)
      | Some opts \<Rightarrow>
          if io_ServeAll opts \<or> io_Services opts \<noteq> [] then
            go_seq (deref (ctx_User i), s) (\<lambda>u s.
            go_seq (on_err InternalWithErr (cl_List (nl_Service C) (no_list_options\<lparr>lo_SpecLabels :=
              [(''host-user-'' @ md_Name (ur_Metadata u), md_Uid (ur_Metadata u))]\<rparr>) s)) (\<lambda>svcs s.
            (serve_services E svcs sess, s)))
          else (Ok sess, s))"

definition check_l3mode :: "ClusterConfig \<Rightarrow> Initialize \<Rightarrow> unit go" where
  "check_l3mode cc req =
     go_bind (reject_if (ini_L3Mode req \<in> {INIT_V4, INIT_BOTH} \<and> \<not> HasV4 (Some cc)) InvalidArg) (\<lambda>_.
     reject_if (ini_L3Mode req \<in> {INIT_V6, INIT_BOTH} \<and> \<not> HasV6 (Some cc)) InvalidArg)"

text \<open>The end of \<open>DoInitConnect\<close>, when the session has its address.\<close>

definition finish_connect ::
  "connect_env \<Rightarrow> 's net_clients \<Rightarrow> UserCtx \<Rightarrow> Initialize \<Rightarrow> ClusterConfig \<Rightarrow> string \<Rightarrow> string \<Rightarrow> Session \<Rightarrow> 's \<Rightarrow> ConnectionState go \<times> 's"
where
  "finish_connect R C i req cc privateKey ed25519Priv sess s =
     go_seq (serve_candidates (ct_E R) C i req sess s) (\<lambda>sess s.
     go_seq (getConnectionState R C sess cc privateKey ed25519Priv s) (\<lambda>connState s.
     go_seq (on_err InternalWithErr (cl_Update (nl_Session C) sess s)) (\<lambda>_ s.
     (Ok connState, s))))"

definition DoInitConnect :: "connect_env \<Rightarrow> 's net_clients \<Rightarrow> Initialize \<Rightarrow> 's \<Rightarrow> ConnectionState go \<times> 's" where
  "DoInitConnect R C req s =
     (let A = ct_A R; E = ct_E R; V = ap_V A in
      go_seq (ap_GetUserCtx A, s) (\<lambda>i s.
      go_seq (deref (ctx_Session i), s) (\<lambda>caller s.
      go_seq (on_err InternalWithErr (cl_Get (nl_Session C) (by_uid (session_uid caller)) s)) (\<lambda>sess s.
      go_seq (on_err InternalWithErr (cl_Get (nl_ClusterConfig C) (by_name ''default'') s)) (\<lambda>cc s.
      go_seq (check_l3mode cc req, s) (\<lambda>_ s.
      go_seq (map_err InternalWithErr (ct_GeneratePrivateKey R), s) (\<lambda>keys s.
      go_seq (req_services V (nl_Service C) (ini_ServiceOptions req) s) (\<lambda>reqServices s.
      go_seq (published_services V (nl_Service C) (ini_PublishedServices req) s) (\<lambda>publishedServices s.
      go_seq (if ini_ESSHPort req \<noteq> 0 then ValidatePort V (sint (ini_ESSHPort req)) else Ok (), s) (\<lambda>_ s.
      go_seq (map_err InternalWithErr (ct_GenerateEd25519 R), s) (\<lambda>edKeys s.
      let conn = new_connection A req cc reqServices publishedServices (snd keys) (snd edKeys) in
      go_seq (on_err InternalWithErr (AddAddressToConnection E C (ct_rnd R) (connected sess conn) s)) (\<lambda>sess s.
      finish_connect R C i req cc (fst keys) (fst edKeys) sess s))))))))))))"

section \<open>Disconnecting\<close>

definition checkIfCanConnect :: "UserCtx \<Rightarrow> unit go" where
  "checkIfCanConnect i = go_bind (deref (ctx_Session i)) (\<lambda>sess. reject_if (\<not> IsClient sess) InvalidArg)"

definition push_connection :: "LastConnection \<Rightarrow> LastConnection list \<Rightarrow> LastConnection list" where
  "push_connection c xs = c # (if 100 \<le> length xs then take 98 xs else xs)"

definition disconnected :: "int \<Rightarrow> Session \<Rightarrow> Session_Status_Connection \<Rightarrow> Session" where
  "disconnected now sess conn =
     sess\<lparr>se_Status := (se_Status sess)\<lparr>
       st_LastConnections := push_connection \<lparr>lc_StartedAt = co_StartedAt conn, lc_EndedAt = Some now\<rparr>
         (st_LastConnections (se_Status sess)),
       st_IsConnected := False, st_Connection := None\<rparr>\<rparr>"

text \<open>Addresses that cannot be given back are only logged.\<close>

definition doDisconnect :: "connect_env \<Rightarrow> 's net_clients \<Rightarrow> UserCtx \<Rightarrow> 's \<Rightarrow> unit go \<times> 's" where
  "doDisconnect R C i s =
     go_seq (checkIfCanConnect i, s) (\<lambda>_ s.
     go_seq (deref (ctx_Session i), s) (\<lambda>caller s.
     go_seq (on_err K8sNotFoundOrInternal (cl_Get (nl_Session C) (by_uid (session_uid caller)) s)) (\<lambda>sess s.
     go_seq (reject_if (st_Type (se_Status sess) \<noteq> CLIENT) InvalidArg, s) (\<lambda>_ s.
     case st_Connection (se_Status sess) of
       None \<Rightarrow> (Ok (), s)
     | Some conn \<Rightarrow>
         if \<not> st_IsConnected (se_Status sess) then (Ok (), s)
         else
           (case RemoveAllAddressFromConnection (ct_E R) C sess s of
              (Panic, s) \<Rightarrow> (Panic, s)
            | (_, s) \<Rightarrow>
                go_seq (on_err InternalWithErr (cl_Update (nl_Session C) (disconnected (ap_Now (ct_A R)) sess conn) s)) (\<lambda>_ s.
                (Ok (), s)))))))"

definition Disconnect :: "connect_env \<Rightarrow> 's net_clients \<Rightarrow> 's \<Rightarrow> unit go \<times> 's" where
  "Disconnect R C s = go_seq (ap_GetUserCtx (ct_A R), s) (\<lambda>i s. doDisconnect R C i s)"

section \<open>The stream of a connection\<close>

text \<open>
  \<open>Connect\<close> is its opening up to the registration of the stream, its reaction to each tick of the clock,
  and its end. A server keeps the table of its streams beside the resources. The first message of the client, which
  is \<open>None\<close> when it does not initialize, and whether the stream takes the answer are arguments.
\<close>

definition connect_open ::
  "connect_env \<Rightarrow> 's net_clients \<Rightarrow> 'stream \<Rightarrow> Initialize option go \<Rightarrow> bool \<Rightarrow> 'stream conn_server \<times> 's \<Rightarrow>
   UserCtx go \<times> 'stream conn_server \<times> 's"
where
  "connect_open R C stream recv sent w =
     (let (m, s) = w in
      case go_seq (ap_GetUserCtx (ct_A R), s) (\<lambda>i s.
           go_seq (checkIfCanConnect i, s) (\<lambda>_ s.
           go_seq (map_err InternalWithErr recv, s) (\<lambda>initReq s.
           case initReq of
             None \<Rightarrow> (Fail InvalidArg, s)
           | Some req \<Rightarrow>
               go_seq (deref (ctx_Session i), s) (\<lambda>sess s.
               go_seq (if st_Connection (se_Status sess) \<noteq> None then doDisconnect R C i s else (Ok (), s)) (\<lambda>_ s.
               go_seq (DoInitConnect R C req s) (\<lambda>connState s.
               (if sent then Ok (i, sess) else Fail Internal, s)))))))
      of (Ok (i, sess), s) \<Rightarrow> (Ok i, addConnectedSess sess stream m, s)
       | (Fail e, s) \<Rightarrow> (Fail e, m, s)
       | (Panic, s) \<Rightarrow> (Panic, m, s))"

text \<open>Whether the loop goes on.\<close>

definition connect_tick :: "connect_env \<Rightarrow> 's net_clients \<Rightarrow> UserCtx \<Rightarrow> 's \<Rightarrow> bool go \<times> 's" where
  "connect_tick R C i s =
     go_seq (deref (ctx_Session i), s) (\<lambda>caller s.
     case cl_Get (nl_Session C) (by_uid (session_uid caller)) s of
       (Ok sess, s) \<Rightarrow>
         (case st_Connection (se_Status sess) of
            None \<Rightarrow> (Ok False, s)
          | Some conn \<Rightarrow>
              (case cl_Update (nl_Session C) (with_connection sess (Some (conn\<lparr>co_LastSeenAt := Some (ap_Now (ct_A R))\<rparr>))) s of
                 (Ok _, s) \<Rightarrow> (Ok True, s)
               | (Fail e, s) \<Rightarrow> (Ok (\<not> IsNotFound e), s)
               | (Panic, s) \<Rightarrow> (Panic, s)))
     | (Fail e, s) \<Rightarrow> (Ok (\<not> IsNotFound e), s)
     | (Panic, s) \<Rightarrow> (Panic, s))"

text \<open>The deferred calls of the end: the stream is taken out of the table, then the session is disconnected.\<close>

definition connect_close ::
  "connect_env \<Rightarrow> 's net_clients \<Rightarrow> UserCtx \<Rightarrow> 'stream conn_server \<times> 's \<Rightarrow> unit go \<times> 'stream conn_server \<times> 's"
where
  "connect_close R C i w =
     (let (m, s) = w in
      case ctx_Session i of
        None \<Rightarrow> (Panic, m, s)
      | Some sess \<Rightarrow> (case doDisconnect R C i s of (r, s) \<Rightarrow> (r, removeConnectedSess (session_uid sess) m, s)))"

end
