(* ===== verification/UpstreamFacts.thy ===== *)
theory UpstreamFacts imports UserConnect begin

text \<open>
  Random indexes are fresh and in range, the search for a port ends and finds the first free port, and the
  upstreams of a connection keep one entry for a service and one port for an entry.
\<close>

section \<open>Random indexes\<close>

text \<open>What \<open>rand.Int\<close> promises: a number below its bound.\<close>

definition random_ok :: "random \<Rightarrow> bool" where
  "random_ok rnd \<longleftrightarrow> (\<forall>k v. rnd k = Ok v \<longrightarrow> v < 65535)"

definition index_fine :: "32 word \<Rightarrow> bool" where
  "index_fine i \<longleftrightarrow> i \<noteq> 0 \<and> i mod 256 \<noteq> 0 \<and> unat i < 65535"

lemma random_index_fine: "random_ok rnd \<Longrightarrow> random_index n rnd k = (Ok i, k') \<Longrightarrow> index_fine i"
proof (induction n arbitrary: k)
  case (Suc n)
  from Suc.prems(2) obtain v where v: "rnd k = Ok v"
    by (auto dest!: go_seq_Ok)
  with Suc.prems(1) have "v < 65535" by (simp add: random_ok_def)
  then have "unat (of_nat v :: 32 word) = v" by (simp add: unsigned_of_nat take_bit_nat_eq_self)
  with v Suc \<open>v < 65535\<close> show ?case by (auto simp: index_fine_def Let_def split: if_splits)
qed simp

lemma draw_index_fine:
  "random_ok rnd \<Longrightarrow> draw_index n has rnd idx k = Ok i \<Longrightarrow> i = idx \<or> \<not> has i \<and> index_fine i"
proof (induction n arbitrary: idx k)
  case (Suc n)
  from Suc.prems(2) obtain c k' where c: "GetRandomIPIndex rnd k = (Ok c, k')"
    by (auto split: prod.splits go.splits)
  with Suc.prems(1) have "index_fine c" by (simp add: GetRandomIPIndex_def random_index_fine)
  with c Suc.prems Suc.IH [OF Suc.prems(1), of _ k'] show ?case by (auto split: if_splits)
qed simp

lemma draw_index_0: "random_ok rnd \<Longrightarrow> draw_index n has rnd 0 0 = Ok i \<Longrightarrow> i \<noteq> 0 \<Longrightarrow> \<not> has i \<and> index_fine i"
  using draw_index_fine by blast

section \<open>The search for a port\<close>

lemma sless_sint: "(i <s b) = (sint i < sint b)" for i b :: "32 word"
  by (simp add: word_sless_alt)

lemma sint_Suc:
  fixes i b :: "32 word"
  assumes "sint i < sint b"
  shows "sint (i + 1) = sint i + 1"
proof -
  have b: "sint b < 2 ^ 31" using sint_lt [of b] by simp
  have i: "- (2 ^ 31) \<le> sint i" using sint_ge [of i] by simp
  from assms b i show ?thesis by (simp add: sint_word_ariths signed_take_bit_int_eq_self)
qed

text \<open>The search returns the first port of the range that is not taken, or says that all are.\<close>

lemma port_loop_spec:
  "\<exists>r. port_loop i b ps = Some r \<and>
     (case r of
        None \<Rightarrow> \<forall>k. sint i \<le> sint k \<longrightarrow> sint k < sint b \<longrightarrow> k \<in> set ps
      | Some j \<Rightarrow> sint i \<le> sint j \<and> sint j < sint b \<and> j \<notin> set ps \<and> (\<forall>k. sint i \<le> sint k \<longrightarrow> sint k < sint j \<longrightarrow> k \<in> set ps))"
proof (induction "nat (sint b - sint i)" arbitrary: i rule: less_induct)
  case less
  note step = port_loop.simps [of i b ps]
  consider "\<not> sint i < sint b" | "sint i < sint b" "i \<notin> set ps" | "sint i < sint b" "i \<in> set ps" by blast
  then show ?case
  proof cases
    case 3
    have le: "sint (i + 1) = sint i + 1" by (rule sint_Suc [OF 3(1)])
    with 3 have "nat (sint b - sint (i + 1)) < nat (sint b - sint i)" by simp
    from less [OF this] obtain r where r: "port_loop (i + 1) b ps = Some r" and
      spec: "case r of
        None \<Rightarrow> \<forall>k. sint (i + 1) \<le> sint k \<longrightarrow> sint k < sint b \<longrightarrow> k \<in> set ps
      | Some j \<Rightarrow> sint (i + 1) \<le> sint j \<and> sint j < sint b \<and> j \<notin> set ps \<and>
          (\<forall>k. sint (i + 1) \<le> sint k \<longrightarrow> sint k < sint j \<longrightarrow> k \<in> set ps)"
      by blast
    have inj: "sint k = sint i \<Longrightarrow> k = i" for k by (rule signed_word_eqI)
    have split: "sint i \<le> sint k \<longleftrightarrow> k = i \<or> sint (i + 1) \<le> sint k" for k
    proof (cases "k = i")
      case False
      then have "sint k \<noteq> sint i" using inj by blast
      with False le show ?thesis by auto
    qed simp
    show ?thesis
    proof (intro exI [of _ r] conjI)
      show "port_loop i b ps = Some r" using 3 r by (subst step) (simp add: sless_sint)
      show "case r of
          None \<Rightarrow> \<forall>k. sint i \<le> sint k \<longrightarrow> sint k < sint b \<longrightarrow> k \<in> set ps
        | Some j \<Rightarrow> sint i \<le> sint j \<and> sint j < sint b \<and> j \<notin> set ps \<and> (\<forall>k. sint i \<le> sint k \<longrightarrow> sint k < sint j \<longrightarrow> k \<in> set ps)"
        using spec 3(2) by (auto simp: split split: option.splits)
    qed
  qed (auto simp: step sless_sint)
qed

lemma port_loop_returns: "\<exists>r. port_loop i b ps = Some r"
  using port_loop_spec [of i b ps] by blast

lemma find_upto:
  fixes a b j :: int
  assumes "a \<le> j" "j \<le> b" "P j" and "\<And>k. a \<le> k \<Longrightarrow> k < j \<Longrightarrow> \<not> P k"
  shows "List.find P [a..b] = Some j"
proof -
  let ?i = "nat (j - a)"
  have nth: "[a..b] ! i = a + int i" if "i \<le> ?i" for i
    using that assms(1,2) by (intro nth_upto) linarith
  have "?i < length [a..b]" "[a..b] ! ?i = j" using assms(1,2) nth [of ?i] by simp_all
  moreover have "\<not> P ([a..b] ! i)" if "i < ?i" for i
    using that nth [of i] assms(1) assms(4) [of "a + int i"] by simp
  ultimately show ?thesis using assms(3) by (auto simp: find_Some_iff intro!: exI [of _ ?i])
qed

text \<open>The first port of the ten thousand after the start that no upstream has; none when the range runs over.\<close>

definition first_free_port :: "int \<Rightarrow> 32 word list \<Rightarrow> int option" where
  "first_free_port start used =
     (if 2 ^ 31 \<le> start + 10000 then None else List.find (\<lambda>p. p \<notin> sint ` set used) [start..start + 9999])"

lemma sint_bounds: "- 2147483648 \<le> sint k \<and> sint k < 2147483648" for k :: "32 word"
  using sint_ge [of k] sint_lt [of k] by simp

lemma sint_word_of_int: "- 2147483648 \<le> p \<Longrightarrow> p < 2147483648 \<Longrightarrow> sint (word_of_int p :: 32 word) = p"
  by (simp add: signed_of_int signed_take_bit_int_eq_self)

lemma port_loop_first_free:
  "port_loop i (i + 10000) used = Some (map_option word_of_int (first_free_port (sint i) used))"
proof -
  note i = sint_bounds [of i]
  obtain r where r: "port_loop i (i + 10000) used = Some r" and
    spec: "case r of
        None \<Rightarrow> \<forall>k. sint i \<le> sint k \<longrightarrow> sint k < sint (i + 10000) \<longrightarrow> k \<in> set used
      | Some j \<Rightarrow> sint i \<le> sint j \<and> sint j < sint (i + 10000) \<and> j \<notin> set used \<and>
          (\<forall>k. sint i \<le> sint k \<longrightarrow> sint k < sint j \<longrightarrow> k \<in> set used)"
    using port_loop_spec [of i "i + 10000" used] by blast
  have used: "sint k \<in> sint ` set used \<longleftrightarrow> k \<in> set used" for k :: "32 word"
    by (auto dest: signed_word_eqI)
  have plus: "word_of_int (sint i + 10000) = i + 10000" by simp
  show ?thesis
  proof (cases "2 ^ 31 \<le> sint i + 10000")
    case True
    have wrap: "(4294967296 :: 32 word) = 0" by transfer simp
    have "(word_of_int (sint i + 10000 - 4294967296) :: 32 word) = i + 10000 - 4294967296"
      by (simp only: of_int_add of_int_diff) simp
    then have "sint (i + 10000) = sint (word_of_int (sint i + 10000 - 4294967296) :: 32 word)" by (simp only: wrap diff_0_right)
    also have "\<dots> = sint i + 10000 - 4294967296"
      using True i by (intro sint_word_of_int) simp_all
    finally have "sint (i + 10000) < sint i" by simp
    with spec True r show ?thesis by (auto simp: first_free_port_def split: option.splits)
  next
    case False
    have "sint (i + 10000) = sint (word_of_int (sint i + 10000) :: 32 word)" by simp
    also have "\<dots> = sint i + 10000" using False i by (intro sint_word_of_int) simp_all
    finally have b: "sint (i + 10000) = sint i + 10000" .
    show ?thesis
    proof (cases r)
      case None
      have "p \<in> sint ` set used" if "sint i \<le> p" "p < sint i + 10000" for p
        using None spec that i False b used [of "word_of_int p"] sint_word_of_int [of p] by simp
      then have "List.find (\<lambda>p. p \<notin> sint ` set used) [sint i..sint i + 9999] = None"
        by (auto simp: find_None_iff)
      with None r False show ?thesis by (simp add: first_free_port_def)
    next
      case (Some j)
      have "List.find (\<lambda>p. p \<notin> sint ` set used) [sint i..sint i + 9999] = Some (sint j)"
      proof (rule find_upto)
        show "\<not> k \<notin> sint ` set used" if "sint i \<le> k" "k < sint j" for k
          using Some spec that i sint_bounds [of j] used [of "word_of_int k"] sint_word_of_int [of k] by simp
      qed (use Some spec b used in auto)
      with Some r False show ?thesis by (simp add: first_free_port_def)
    qed
  qed
qed

text \<open>
  C30: the search for the port of a service that a session hosts always returns. It gives the first of the ten thousand
  ports after the start that no other upstream of the session has, over unbounded integers; and when the
  end of that range does not fit in 32 bits it finds none, although every port may be free.
\<close>

theorem getListenerPort_returns:
  "getListenerPort sess =
     Some (case st_Connection (se_Status sess) of
        None \<Rightarrow> Fail (Errorf ''Connection is not set in the Session'')
      | Some conn \<Rightarrow>
          (case co_ServiceOptions conn of
             None \<Rightarrow> Fail (Errorf ''Nil ServiceOptions'')
           | Some opts \<Rightarrow>
               (case first_free_port (sint (sop_PortStart opts)) (map up_Port (co_Upstreams conn)) of
                  None \<Rightarrow> Fail (Errorf ''Could not choose port for Session'')
                | Some p \<Rightarrow> Ok p)))"
proof -
  have range: "sint (word_of_int p :: 32 word) = p" if "first_free_port (sint i) used = Some p" for p and i :: "32 word" and used
  proof (rule sint_word_of_int)
    show "- 2147483648 \<le> p" "p < 2147483648"
      using that sint_bounds [of i] by (auto simp: first_free_port_def find_Some_iff nth_append split: if_splits dest!: nth_mem)
  qed
  show ?thesis
    by (auto simp: getListenerPort_def port_loop_first_free range split: option.splits)
qed

section \<open>The upstreams of a connection\<close>

definition upstream_uid :: "Connection_Upstream \<Rightarrow> string" where
  "upstream_uid u = (case up_ServiceRef u of None \<Rightarrow> [] | Some r \<Rightarrow> or_Uid r)"

definition upstreams_wf :: "Connection_Upstream list \<Rightarrow> bool" where
  "upstreams_wf us \<longleftrightarrow>
     list_all (\<lambda>u. up_ServiceRef u \<noteq> None) us \<and> distinct (map up_Port us) \<and> distinct (map upstream_uid us)"

lemma replace_backend_Some:
  "replace_backend uid b us = Ok (Some us') \<Longrightarrow>
   map up_Port us' = map up_Port us \<and> map up_ServiceRef us' = map up_ServiceRef us \<and> uid \<in> upstream_uid ` set us"
proof (induction us arbitrary: us')
  case (Cons u us)
  from Cons.prems obtain r where r: "up_ServiceRef u = Some r"
    by (cases "up_ServiceRef u") (simp_all add: deref_def)
  show ?case
  proof (cases "or_Uid r = uid")
    case True
    with Cons.prems r show ?thesis by (auto simp: deref_def upstream_uid_def)
  next
    case False
    with Cons.prems r obtain vs where "replace_backend uid b us = Ok (Some vs)" "us' = u # vs"
      by (auto simp: deref_def go_map_def split: go.splits option.splits)
    with Cons.IH [of vs] show ?thesis by auto
  qed
qed simp

lemma replace_backend_None: "replace_backend uid b us = Ok None \<Longrightarrow> uid \<notin> upstream_uid ` set us"
proof (induction us)
  case (Cons u us)
  from Cons.prems obtain r where r: "up_ServiceRef u = Some r"
    by (cases "up_ServiceRef u") (simp_all add: deref_def)
  with Cons.prems have "or_Uid r \<noteq> uid" "replace_backend uid b us = Ok None"
    by (auto simp: deref_def go_map_def split: go.splits option.splits if_splits)
  with Cons.IH r show ?case by (simp add: upstream_uid_def)
qed simp

lemma upstreams_wf_fields:
  assumes "map up_Port us' = map up_Port us" and "map up_ServiceRef us' = map up_ServiceRef us"
  shows "upstreams_wf us' = upstreams_wf us" and "upstream_uid ` set us' = upstream_uid ` set us"
proof -
  let ?uid = "\<lambda>r. case r of None \<Rightarrow> [] | Some r \<Rightarrow> or_Uid r"
  have uid: "map upstream_uid us = map ?uid (map up_ServiceRef us)" for us by (simp add: upstream_uid_def)
  have refs: "list_all (\<lambda>u. up_ServiceRef u \<noteq> None) us = list_all (\<lambda>r. r \<noteq> None) (map up_ServiceRef us)" for us
    by (simp add: list_all_iff)
  show "upstreams_wf us' = upstreams_wf us" by (simp only: upstreams_wf_def uid refs assms)
  have "set (map upstream_uid us') = set (map upstream_uid us)" by (simp only: uid assms)
  then show "upstream_uid ` set us' = upstream_uid ` set us" by simp
qed

lemma getListenerPort_fresh:
  assumes "getListenerPort sess = Some (Ok p)" and "st_Connection (se_Status sess) = Some conn"
  shows "word_of_int p \<notin> set (map up_Port (co_Upstreams conn))"
proof -
  obtain opts where opts: "co_ServiceOptions conn = Some opts"
    using assms by (auto simp: getListenerPort_def split: option.splits)
  then obtain j where j: "port_loop (sop_PortStart opts) (sop_PortStart opts + 10000) (map up_Port (co_Upstreams conn)) = Some (Some j)"
    "p = sint j"
    using assms by (auto simp: getListenerPort_def split: option.splits)
  with port_loop_spec [of "sop_PortStart opts" "sop_PortStart opts + 10000" "map up_Port (co_Upstreams conn)"] show ?thesis
    by auto
qed

lemma service_ref_uid: "upstream_uid (new_upstream svc b p) = md_Uid (svc_Metadata svc)"
  by (simp add: upstream_uid_def new_upstream_def service_ref_def GetObjectReference_def)

lemma with_connection_upstreams [simp]:
  "connection_upstreams (with_connection sess (Some conn)) = co_Upstreams conn"
  "st_Connection (se_Status (with_connection sess c)) = c" "se_Metadata (with_connection sess c) = se_Metadata sess"
  by (simp_all add: connection_upstreams_def with_connection_def)

lemma listener_keeps_wf:
  assumes "setConnectionUpstreamsListener E sess svc = Ok sess'" and "upstreams_wf (connection_upstreams sess)"
  shows "upstreams_wf (connection_upstreams sess') \<and>
    upstream_uid ` set (connection_upstreams sess') = insert (md_Uid (svc_Metadata svc)) (upstream_uid ` set (connection_upstreams sess))"
proof -
  let ?uid = "md_Uid (svc_Metadata svc)"
  obtain conn where conn: "st_Connection (se_Status sess) = Some conn"
    using assms(1) by (auto simp: setConnectionUpstreamsListener_def split: option.splits)
  then have us: "connection_upstreams sess = co_Upstreams conn" by (simp add: connection_upstreams_def)
  obtain b where "put_upstream sess conn svc b = Ok sess'"
    using assms(1) conn by (auto simp: setConnectionUpstreamsListener_def split: option.splits)
  then obtain replaced where r: "replace_backend ?uid b (co_Upstreams conn) = Ok replaced" and
    res: "(case replaced of
        Some us \<Rightarrow> Ok (with_connection sess (Some (conn\<lparr>co_Upstreams := us\<rparr>)))
      | None \<Rightarrow> go_map (\<lambda>lisPort. with_connection sess
          (Some (conn\<lparr>co_Upstreams := co_Upstreams conn @ [new_upstream svc b (word_of_int lisPort)]\<rparr>)))
            (the (getListenerPort sess))) = Ok sess'"
    unfolding put_upstream_def go_bind_eq_Ok by blast
  show ?thesis
  proof (cases replaced)
    case (Some us')
    with r replace_backend_Some [of ?uid b "co_Upstreams conn" us'] have f: "map up_Port us' = map up_Port (co_Upstreams conn)"
      "map up_ServiceRef us' = map up_ServiceRef (co_Upstreams conn)" "?uid \<in> upstream_uid ` set (co_Upstreams conn)" by simp_all
    with res Some us assms(2) upstreams_wf_fields [OF f(1,2)] show ?thesis by auto
  next
    case None
    obtain x where x: "getListenerPort sess = Some x"
      by (cases "co_ServiceOptions conn") (simp_all add: getListenerPort_def conn port_loop_first_free)
    with None res obtain p where p: "x = Ok p"
      "sess' = with_connection sess (Some (conn\<lparr>co_Upstreams := co_Upstreams conn @ [new_upstream svc b (word_of_int p)]\<rparr>))"
      by (cases x) (auto simp: go_map_def)
    have "word_of_int p \<notin> set (map up_Port (co_Upstreams conn))"
      using x p(1) conn by (intro getListenerPort_fresh) simp_all
    moreover have "?uid \<notin> upstream_uid ` set (co_Upstreams conn)" using None r replace_backend_None by simp
    moreover have "up_Port (new_upstream svc b q) = q" "up_ServiceRef (new_upstream svc b q) \<noteq> None" for q
      by (simp_all add: new_upstream_def service_ref_def GetObjectReference_def)
    ultimately show ?thesis
      using assms(2) us p(2) by (simp add: upstreams_wf_def service_ref_uid)
  qed
qed

lemma remove_upstreams_filter:
  "list_all (\<lambda>u. up_ServiceRef u \<noteq> None) us \<Longrightarrow> i \<le> length us \<Longrightarrow>
   remove_upstreams i uid us = Ok (filter (\<lambda>u. upstream_uid u \<noteq> uid) (take i us) @ drop i us)"
proof (induction i arbitrary: us)
  case (Suc i)
  let ?u = "us ! i" and ?P = "\<lambda>u. upstream_uid u \<noteq> uid"
  have i: "i < length us" using Suc.prems(2) by simp
  with Suc.prems(1) obtain r where r: "up_ServiceRef ?u = Some r" by (auto simp: list_all_length)
  have take: "take (Suc i) us = take i us @ [?u]" using i by (rule take_Suc_conv_app_nth)
  show ?case
  proof (cases "or_Uid r = uid")
    case True
    have "remove_upstreams (Suc i) uid us = remove_upstreams i uid (take i us @ drop (Suc i) us)"
      using i r True by (simp add: nth_go_def deref_def)
    also have "\<dots> = Ok (filter ?P (take i (take i us @ drop (Suc i) us)) @ drop i (take i us @ drop (Suc i) us))"
      using Suc.prems i by (intro Suc.IH) (auto simp: list_all_iff dest: in_set_takeD in_set_dropD)
    also have "\<dots> = Ok (filter ?P (take (Suc i) us) @ drop (Suc i) us)"
      using i r True take by (simp add: upstream_uid_def)
    finally show ?thesis .
  next
    case False
    have "remove_upstreams (Suc i) uid us = remove_upstreams i uid us"
      using i r False by (simp add: nth_go_def deref_def)
    also have "\<dots> = Ok (filter ?P (take i us) @ drop i us)" using Suc.prems(1) i by (intro Suc.IH) simp_all
    also have "\<dots> = Ok (filter ?P (take (Suc i) us) @ drop (Suc i) us)"
      using i r False take by (simp add: upstream_uid_def Cons_nth_drop_Suc)
    finally show ?thesis .
  qed
qed simp

text \<open>The session with an upstream removed is the one without the upstreams of the service.\<close>

lemma RemoveConnectionUpstreams_filter:
  assumes "upstreams_wf (connection_upstreams sess)" and "RemoveConnectionUpstreams sess svc = Ok sess'"
  shows "connection_upstreams sess' = filter (\<lambda>u. upstream_uid u \<noteq> md_Uid (svc_Metadata svc)) (connection_upstreams sess)"
proof (cases "st_Connection (se_Status sess)")
  case (Some conn)
  with assms remove_upstreams_filter [of "co_Upstreams conn" "length (co_Upstreams conn)"] show ?thesis
    by (auto simp: RemoveConnectionUpstreams_def connection_upstreams_def upstreams_wf_def go_map_def)
qed (use assms in \<open>simp add: RemoveConnectionUpstreams_def connection_upstreams_def\<close>)

lemma upstreams_wf_filter: "upstreams_wf us \<Longrightarrow> upstreams_wf (filter P us)"
  by (auto simp: upstreams_wf_def list_all_iff distinct_map inj_on_def)

text \<open>A session that has been connected, and whose upstreams are changed as services and the session come and go.\<close>

inductive hosting :: "conn_env \<Rightarrow> Session \<Rightarrow> bool" for E where
  fresh: "connection_upstreams sess = [] \<Longrightarrow> hosting E sess"
| set_upstream: "hosting E sess \<Longrightarrow> SetConnectionUpstreams E sess svc = Ok sess' \<Longrightarrow> hosting E sess'"
| serve_all: "hosting E sess \<Longrightarrow> serve_services E svcs sess = Ok sess' \<Longrightarrow> hosting E sess'"
| remove: "hosting E sess \<Longrightarrow> RemoveConnectionUpstreams sess svc = Ok sess' \<Longrightarrow> hosting E sess'"
| other: "hosting E sess \<Longrightarrow> connection_upstreams sess' = connection_upstreams sess \<Longrightarrow> hosting E sess'"

lemma serve_services_wf:
  "serve_services E svcs sess = Ok sess' \<Longrightarrow> upstreams_wf (connection_upstreams sess) \<Longrightarrow> upstreams_wf (connection_upstreams sess')"
proof (induction svcs arbitrary: sess)
  case (Cons svc svcs)
  then obtain b where b: "ServeService svc sess = Ok b" by auto
  show ?case
  proof (cases b)
    case True
    with b Cons.prems obtain t where t: "SetConnectionUpstreams E sess svc = Ok t" "serve_services E svcs t = Ok sess'" by auto
    with Cons.prems(2) have "upstreams_wf (connection_upstreams t)"
      using listener_keeps_wf [of E sess svc t] by (simp add: SetConnectionUpstreams_def)
    with t(2) show ?thesis by (rule Cons.IH)
  qed (use b Cons in simp)
qed simp

lemma hosting_wf: "hosting E sess \<Longrightarrow> upstreams_wf (connection_upstreams sess)"
proof (induction rule: hosting.induct)
  case (set_upstream sess svc sess')
  then show ?case using listener_keeps_wf [of E sess svc sess'] by (simp add: SetConnectionUpstreams_def)
next
  case (serve_all sess svcs sess')
  then show ?case using serve_services_wf by blast
next
  case (remove sess svc sess')
  then show ?case using RemoveConnectionUpstreams_filter [of sess svc sess'] by (simp add: upstreams_wf_filter)
qed (simp_all add: upstreams_wf_def)

text \<open>
  C31: however the services that a session hosts come and go, no two of them have the same port on the session and no
  service is hosted twice; and taking a service away removes all that is hosted of it and keeps the rest.
\<close>

theorem hosted_services_distinct:
  assumes "hosting E sess"
  shows "distinct (map up_Port (connection_upstreams sess)) \<and> distinct (map upstream_uid (connection_upstreams sess)) \<and>
    (\<forall>sess'. RemoveConnectionUpstreams sess svc = Ok sess' \<longrightarrow>
      connection_upstreams sess' = filter (\<lambda>u. upstream_uid u \<noteq> md_Uid (svc_Metadata svc)) (connection_upstreams sess))"
  using hosting_wf [OF assms] RemoveConnectionUpstreams_filter [of sess svc] by (simp add: upstreams_wf_def)

section \<open>Two services of one session\<close>

definition hosted_service :: "string \<Rightarrow> string \<Rightarrow> Service" where
  "hosted_service uid u = example_service
     \<lparr>svc_Metadata := (se_Metadata example_session)\<lparr>md_Uid := uid, md_SpecLabels := [(''host-user-alice'', ''u1'')]\<rparr>,
      svc_Spec := (svc_Spec example_service)\<lparr>sv_Mode := HTTP, sv_Config := Some \<lparr>sc_Name = [], sc_ClientCertificate = None,
        sc_Upstream = Some \<lparr>cu_User = ''alice'', cu_Type = Upstream_Url u\<rparr>, sc_Parent = [], sc_Tls = None, sc_Type = Config_Unset\<rparr>\<rparr>\<rparr>"

definition serving_conn :: "Connection_Upstream list \<Rightarrow> Session_Status_Connection" where
  "serving_conn us =
     \<lparr>co_StartedAt = None, co_LastSeenAt = None, co_Upstreams = us, co_Addresses = [], co_L3Mode = V4,
      co_ServiceOptions = Some \<lparr>sop_ServeAll = True, sop_RequestedServices = [], sop_PortStart = 23000\<rparr>,
      co_X25519PublicKey = [], co_Ed25519PublicKey = [], co_Type = WIREGUARD, co_PublishedServices = [], co_IgnoreDNS = False,
      co_ESSHEnable = False, co_ESSHPort = 0\<rparr>"

definition serving_session :: "Connection_Upstream list \<Rightarrow> Session" where
  "serving_session us = with_connection example_session (Some (serving_conn us))"

definition hosted_upstream :: "string \<Rightarrow> 32 word \<Rightarrow> 32 word \<Rightarrow> Connection_Upstream" where
  "hosted_upstream uid port backend = new_upstream (hosted_service uid []) \<lparr>ub_Host = ''localhost'', ub_Port = backend\<rparr> port"

definition local_urls :: conn_env where
  "local_urls =
     \<lparr>nv_urlParse = (\<lambda>u. Some \<lparr>u_Scheme = ''http'', u_Hostname = ''localhost'', u_Port = u, u_String = u\<rparr>),
      nv_GetIndexedIP = (\<lambda>n i. Fail Internal), nv_ReadInfo = (\<lambda>j. Fail Internal), nv_WriteInfo = (\<lambda>i. Fail Internal)\<rparr>"

lemma first_ports:
  "port_loop 23000 33000 [] = Some (Some 23000)" "port_loop 23000 33000 [23000] = Some (Some 23001)"
  by (simp_all add: port_loop.simps [of 23000] port_loop.simps [of 23001])

lemma serving_simps [simp]:
  "st_Connection (se_Status (serving_session us)) = Some (serving_conn us)" "connection_upstreams (serving_session us) = us"
  "with_connection (serving_session us) (Some (serving_conn us\<lparr>co_Upstreams := vs\<rparr>)) = serving_session vs"
  "st_UserRef (se_Status (serving_session us)) = st_UserRef (se_Status example_session)" "co_Upstreams (serving_conn us) = us"
  "co_ServiceOptions (serving_conn us) = Some \<lparr>sop_ServeAll = True, sop_RequestedServices = [], sop_PortStart = 23000\<rparr>"
  by (simp_all add: serving_session_def serving_conn_def with_connection_def connection_upstreams_def)

lemma hosted_put:
  assumes "Atoi p = Some k" and "p \<noteq> []"
  shows "SetConnectionUpstreams local_urls (serving_session us) (hosted_service uid p) =
    put_upstream (serving_session us) (serving_conn us) (hosted_service uid p) \<lparr>ub_Host = ''localhost'', ub_Port = word_of_int k\<rparr>"
proof -
  have "GetAllUpstreamEndpoints (nv_urlParse local_urls) (hosted_service uid p) = Ok [\<lparr>ep_Url = p, ep_User = ''alice''\<rparr>]"
    by (simp add: GetAllUpstreamEndpoints_def GetAllUpstreamEndpointsByConfig_def hosted_service_def example_service_def config_ssh_def
        Let_def)
  then show ?thesis
    using assms
    by (simp add: SetConnectionUpstreams_def setConnectionUpstreamsListener_def GetHostUserRef_def UpstreamRealPort_def epRealPort_def
        local_urls_def hosted_service_def example_session_def deref_def)
qed

lemma hosted_uid: "upstream_uid (hosted_upstream uid p b) = uid" "up_Port (hosted_upstream uid p b) = p"
  "up_ServiceRef (hosted_upstream uid p b) \<noteq> None" "md_Uid (svc_Metadata (hosted_service uid u)) = uid"
  "new_upstream (hosted_service uid u) \<lparr>ub_Host = ''localhost'', ub_Port = b\<rparr> p = hosted_upstream uid p b"
  by (simp_all add: hosted_upstream_def service_ref_uid hosted_service_def) (simp_all add: new_upstream_def service_ref_def
      GetObjectReference_def L4Type_def IsESSH_def config_ssh_def)

lemma hosted_refs: "deref (up_ServiceRef (hosted_upstream uid p b)) = Ok r \<longleftrightarrow> up_ServiceRef (hosted_upstream uid p b) = Some r"
  "go_bind (deref (up_ServiceRef (hosted_upstream uid p b))) f = f (the (up_ServiceRef (hosted_upstream uid p b)))"
  "or_Uid (the (up_ServiceRef (hosted_upstream uid p b))) = uid"
  using hosted_uid(1,3) [of uid p b] by (auto simp: deref_def upstream_uid_def split: option.splits)

theorem hosted_services_distinct_witness:
  "\<exists>s. serve_services local_urls [hosted_service ''v1'' ''80'', hosted_service ''v2'' ''81'', hosted_service ''v1'' ''82''] (serving_session []) = Ok s \<and>
     map up_Port (connection_upstreams s) = [23000, 23001] \<and> map upstream_uid (connection_upstreams s) = [''v1'', ''v2''] \<and>
     distinct (map up_Port (connection_upstreams s))"
proof -
  have ports: "Atoi ''80'' = Some 80" "Atoi ''81'' = Some 81" "Atoi ''82'' = Some 82" by (simp_all add: Atoi_def digit_val_def)
  let ?u = hosted_upstream
  have one: "SetConnectionUpstreams local_urls (serving_session []) (hosted_service ''v1'' ''80'') = Ok (serving_session [?u ''v1'' 23000 80])"
    by (simp add: hosted_put [OF ports(1)] put_upstream_def getListenerPort_def first_ports hosted_uid go_map_def)
  have two: "SetConnectionUpstreams local_urls (serving_session [?u ''v1'' 23000 80]) (hosted_service ''v2'' ''81'') =
      Ok (serving_session [?u ''v1'' 23000 80, ?u ''v2'' 23001 81])"
    by (simp add: hosted_put [OF ports(2)] put_upstream_def getListenerPort_def first_ports hosted_uid go_map_def hosted_refs)
  have three: "SetConnectionUpstreams local_urls (serving_session [?u ''v1'' 23000 80, ?u ''v2'' 23001 81]) (hosted_service ''v1'' ''82'') =
      Ok (serving_session [?u ''v1'' 23000 82, ?u ''v2'' 23001 81])"
    by (simp add: hosted_put [OF ports(3)] put_upstream_def hosted_uid go_map_def hosted_refs) (simp add: hosted_upstream_def new_upstream_def)
  let ?s = "serving_session [?u ''v1'' 23000 82, ?u ''v2'' 23001 81]"
  have s: "serve_services local_urls [hosted_service ''v1'' ''80'', hosted_service ''v2'' ''81'', hosted_service ''v1'' ''82'']
      (serving_session []) = Ok ?s"
    by (auto simp: ServeService_def one two three)
  have "hosting local_urls (serving_session [])" by (rule hosting.fresh) simp
  then have "hosting local_urls ?s" using s by (rule hosting.serve_all)
  from hosted_services_distinct [OF this] s show ?thesis by (intro exI [of _ ?s]) (simp add: hosted_uid)
qed

end
