(* ===== verification/AddressFacts.thy ===== *)
theory AddressFacts imports UpstreamFacts DirectoryFacts begin

text \<open>
  The addresses of connections over clients that share one server: the active indexes that the configuration
  \<open>sys:conn-info\<close> keeps cover the indexes of all sessions, and no two sessions have the same one.
\<close>

section \<open>Indexes that sessions hold\<close>

definition address_index :: "DualStackNetwork \<Rightarrow> 32 word" where
  "address_index a = (case GetIndex (ToIP a) of Ok n \<Rightarrow> of_nat n | _ \<Rightarrow> 0)"

definition connection_addresses :: "Session \<Rightarrow> DualStackNetwork list" where
  "connection_addresses x = (case st_Connection (se_Status x) of None \<Rightarrow> [] | Some c \<Rightarrow> co_Addresses c)"

definition held :: "Session \<Rightarrow> (Connection_Type \<times> 32 word) set" where
  "held x =
     (case st_Connection (se_Status x) of None \<Rightarrow> {} | Some c \<Rightarrow> (\<lambda>a. (co_Type c, address_index a)) ` set (co_Addresses c))"

definition conn_info :: "conn_env \<Rightarrow> Config list \<Rightarrow> ClusterConnInfo option" where
  "conn_info E cfgs =
     (case List.find (\<lambda>c. md_Name (cfg_Metadata c) = ''sys:conn-info'') cfgs of
        None \<Rightarrow> None
      | Some c \<Rightarrow> (case nv_ReadInfo E (GetAttrs c) of Ok i \<Rightarrow> Some i | _ \<Rightarrow> None))"

definition distinct_indexes :: "ClusterConnInfo \<Rightarrow> bool" where
  "distinct_indexes info \<longleftrightarrow> distinct (ci_ActiveIndexesWG info) \<and> distinct (ci_ActiveIndexesQUIC info)"

definition covers :: "ClusterConnInfo \<Rightarrow> Session list \<Rightarrow> bool" where
  "covers info xs \<longleftrightarrow> (\<forall>x\<in>set xs. \<forall>(t, i)\<in>held x. i \<in> set (active_indexes t info))"

definition disjoint_addresses :: "Session list \<Rightarrow> bool" where
  "disjoint_addresses xs \<longleftrightarrow>
     (\<forall>x\<in>set xs. \<forall>y\<in>set xs. session_uid x \<noteq> session_uid y \<longrightarrow> held x \<inter> held y = {})"

text \<open>What the conversions of \<open>pbutils\<close> promise, and what a subnet must satisfy for its addresses to tell their index.\<close>

definition info_roundtrip :: "conn_env \<Rightarrow> bool" where
  "info_roundtrip E \<longleftrightarrow> (\<forall>i j. nv_WriteInfo E i = Ok j \<longrightarrow> nv_ReadInfo E (Some j) = Ok i)"

definition subnets_ok :: "conn_env \<Rightarrow> ClusterConfig \<Rightarrow> bool" where
  "subnets_ok E cc \<longleftrightarrow>
     (\<forall>typ n idx ip. conn_subnet typ cc = Ok n \<longrightarrow> index_fine idx \<longrightarrow> GetDualStackIPByIndex E n (uint idx) = Ok ip \<longrightarrow>
        address_index (host_address ip) = idx)"

lemma held_simps:
  "st_Connection (se_Status x) = None \<Longrightarrow> held x = {}"
  "st_Connection (se_Status x) = Some c \<Longrightarrow> held x = (\<lambda>a. (co_Type c, address_index a)) ` set (co_Addresses c)"
  by (simp_all add: held_def)

lemma distinct_add: "distinct_indexes info \<Longrightarrow> i \<notin> set (active_indexes t info) \<Longrightarrow> distinct_indexes (addConnIndex info i t)"
  by (cases t) (auto simp: distinct_indexes_def active_indexes_def addConnIndex_def)

lemma active_add: "set (active_indexes u info) \<subseteq> set (active_indexes u (addConnIndex info i t))"
  by (cases u; cases t) (auto simp: active_indexes_def addConnIndex_def)

lemma active_added: "t = WIREGUARD \<or> t = QUICV0 \<Longrightarrow> i \<in> set (active_indexes t (addConnIndex info i t))"
  by (auto simp: active_indexes_def addConnIndex_def)

lemma distinct_remove: "distinct_indexes info \<Longrightarrow> distinct_indexes (removeConnIndex info i t)"
  by (cases t) (simp_all add: distinct_indexes_def removeConnIndex_def)

lemma active_remove: "(u, j) \<noteq> (t, i) \<Longrightarrow> j \<in> set (active_indexes u info) \<Longrightarrow> j \<in> set (active_indexes u (removeConnIndex info i t))"
  by (cases u; cases t) (auto simp: active_indexes_def removeConnIndex_def in_set_remove1)

lemma coversD: "covers info xs \<Longrightarrow> x \<in> set xs \<Longrightarrow> (t, i) \<in> held x \<Longrightarrow> i \<in> set (active_indexes t info)"
  by (auto simp: covers_def)

lemma covers_sub: "covers info xs \<Longrightarrow> set ys \<subseteq> set xs \<Longrightarrow> covers info ys"
  unfolding covers_def by blast

lemma covers_add: "covers info xs \<Longrightarrow> covers (addConnIndex info i t) xs"
  unfolding covers_def using active_add by fast

section \<open>Over clients of one server\<close>

definition unseen :: "('s \<Rightarrow> bool) \<Rightarrow> ('s \<Rightarrow> 'v) \<Rightarrow> ('s \<Rightarrow> 'w) \<Rightarrow> 's \<Rightarrow> 's \<Rightarrow> bool" where
  "unseen fine v w s t \<longleftrightarrow> fine t \<and> v t = v s \<and> w t = w s"

text \<open>
  Clients for sessions and configurations, each of which the other does not see, and clients for what
  connecting only reads.
\<close>

locale connections =
  ses: resource_client "nl_Session C" se_Metadata "\<lambda>x. st_Connection (se_Status x)" holds_s inv_s fits_s view_s rest_s +
  cfg: resource_client "nl_Config C" cfg_Metadata cfg_Data holds_c inv_c fits_c view_c rest_c
  for C :: "'s net_clients" and holds_s inv_s fits_s view_s and rest_s :: "'s \<Rightarrow> 'o"
    and holds_c inv_c fits_c view_c and rest_c :: "'s \<Rightarrow> 'o" +
  fixes E :: conn_env and fine :: "'s \<Rightarrow> bool"
  assumes roundtrip: "fine s \<Longrightarrow> info_roundtrip E"
    and fine_inv: "fine s \<Longrightarrow> inv_s s \<and> inv_c s"
    and frame_s: "fine s \<Longrightarrow> inv_s t \<Longrightarrow> rest_s t = rest_s s \<Longrightarrow> fine t \<and> view_c t = view_c s"
    and frame_c: "fine s \<Longrightarrow> inv_c t \<Longrightarrow> rest_c t = rest_c s \<Longrightarrow> fine t \<and> view_s t = view_s s"
    and reads_service: "fine s \<Longrightarrow> unseen fine view_s view_c s (snd (cl_Get (nl_Service C) (by_name n) s))"
    and lists_service: "fine s \<Longrightarrow> unseen fine view_s view_c s (snd (cl_List (nl_Service C) lo s))"
    and lists_gateway: "fine s \<Longrightarrow> unseen fine view_s view_c s (snd (cl_List (nl_Gateway C) lo s))"
    and reads_secret: "fine s \<Longrightarrow> unseen fine view_s view_c s (snd (cl_Get (nl_Secret C) (by_name ''sys:ssh-ca'') s))"
    and reads_cluster: "fine s \<Longrightarrow> unseen fine view_s view_c s (snd (cl_Get (nl_ClusterConfig C) (by_name ''default'') s))"
    and cluster_subnets: "fine s \<Longrightarrow> cl_Get (nl_ClusterConfig C) (by_name ''default'') s = (Ok cc, t) \<Longrightarrow> subnets_ok E cc"
begin

abbreviation calm :: "'s \<Rightarrow> 's \<Rightarrow> bool" where
  "calm s t \<equiv> unseen fine view_s view_c s t"

lemma calm_refl: "fine s \<Longrightarrow> calm s s"
  by (simp add: unseen_def)

lemma calm_trans: "calm s t \<Longrightarrow> (fine t \<Longrightarrow> calm t u) \<Longrightarrow> calm s u"
  by (simp add: unseen_def)

lemma calm_session: "calm s t \<Longrightarrow> fits_s o' t \<Longrightarrow> keeps (calm s) (cl_Get (nl_Session C) o' t)"
  using ses.get_same [of t t o'] fine_inv [of t] frame_s [of t "snd (cl_Get (nl_Session C) o' t)"] by (auto simp: keeps_def unseen_def)

lemma calm_config: "calm s t \<Longrightarrow> keeps (calm s) (cl_Get (nl_Config C) conn_info_opts t)"
  using cfg.get_name_same [of t t "''sys:conn-info''"] fine_inv [of t]
    frame_c [of t "snd (cl_Get (nl_Config C) (by_name ''sys:conn-info'') t)"]
  by (auto simp: keeps_def unseen_def conn_info_opts_def)

lemma calm_reads:
  "calm s t \<Longrightarrow> keeps (calm s) (cl_Get (nl_Service C) (by_name n) t)"
  "calm s t \<Longrightarrow> keeps (calm s) (cl_List (nl_Service C) lo t)"
  "calm s t \<Longrightarrow> keeps (calm s) (cl_List (nl_Gateway C) lo t)"
  "calm s t \<Longrightarrow> keeps (calm s) (cl_Get (nl_Secret C) (by_name ''sys:ssh-ca'') t)"
  "calm s t \<Longrightarrow> keeps (calm s) (cl_Get (nl_ClusterConfig C) (by_name ''default'') t)"
  using reads_service lists_service lists_gateway reads_secret reads_cluster by (auto simp: keeps_def intro: calm_trans)

text \<open>The configuration that is read is the one of the active indexes.\<close>

lemma config_read:
  assumes "fine s" and "cl_Get (nl_Config C) conn_info_opts s = (Ok c, t)"
  shows "c \<in> set (view_c s)" "md_Name (cfg_Metadata c) = ''sys:conn-info''"
    and "conn_info E (view_c s) = (case nv_ReadInfo E (GetAttrs c) of Ok i \<Rightarrow> Some i | _ \<Rightarrow> None)"
proof -
  have inv: "inv_c s" using fine_inv [OF assms(1)] by simp
  have get: "c \<in> set (view_c s) \<and> opt_matches conn_info_opts (cfg_Metadata c)"
    using cfg.get_Ok [OF inv cfg.fits_name [OF inv] assms(2)] by (simp add: conn_info_opts_def)
  then show c: "c \<in> set (view_c s)" and n: "md_Name (cfg_Metadata c) = ''sys:conn-info''"
    by (simp_all add: opt_matches_def conn_info_opts_def)
  have "distinct (map (\<lambda>x. md_Name (cfg_Metadata x)) (view_c s))" using cfg.unique [OF inv] by simp
  then have "List.find (\<lambda>c. md_Name (cfg_Metadata c) = ''sys:conn-info'') (view_c s) = Some c"
    using c n by (intro find_eq_first) (auto simp: distinct_map inj_on_def)
  then show "conn_info E (view_c s) = (case nv_ReadInfo E (GetAttrs c) of Ok i \<Rightarrow> Some i | _ \<Rightarrow> None)"
    by (simp add: conn_info_def)
qed

lemma find_map_replace:
  assumes "\<And>z. P (g z) = P z" and "List.find P xs = Some c"
  shows "List.find P (map g xs) = Some (g c)"
  using assms(2) by (induction xs) (auto simp: assms(1) split: if_splits)

text \<open>Writing the active indexes back.\<close>

lemma config_write:
  assumes "fine t" and "c \<in> set (view_c t)" "md_Name (cfg_Metadata c) = ''sys:conn-info''"
    and "nv_WriteInfo E info = Ok j" and "set_attrs c j = Ok c'"
  shows "leads (calm t) (\<lambda>u. fine u \<and> view_s u = view_s t \<and> conn_info E (view_c u) = Some info) (cl_Update (nl_Config C) c' t)"
proof -
  let ?u = "snd (cl_Update (nl_Config C) c' t)"
  have inv: "inv_c t" using fine_inv [OF assms(1)] by simp
  have c': "cfg_Metadata c' = cfg_Metadata c" "cfg_Data c' = Some (Some (Config_Attrs (Some j)))"
    using assms(5) by (auto simp: set_attrs_def go_map_def)
  have upd: "inv_c ?u" "rest_c ?u = rest_c t" and eff: "effect (fst (cl_Update (nl_Config C) c' t))
      (\<lambda>y v. v = map (\<lambda>z. if md_Uid (cfg_Metadata z) = md_Uid (cfg_Metadata c) then y else z) (view_c t) \<and>
        cfg_Data y = cfg_Data c' \<and> unstamped (cfg_Metadata y) = unstamped (cfg_Metadata c) \<and>
        md_Uid (cfg_Metadata y) = md_Uid (cfg_Metadata c)) (view_c t) (view_c ?u)"
    using cfg.update [OF inv assms(2), of c' "fst (cl_Update (nl_Config C) c' t)" ?u] c'(1) by simp_all
  have fr: "fine ?u" "view_s ?u = view_s t" using frame_c [OF assms(1) upd] by simp_all
  show ?thesis
  proof (rule leads_effect [where view = view_c, OF eff])
    show "calm t ?u" if "view_c ?u = view_c t" using fr that by (simp add: unseen_def)
    show "fine ?u \<and> view_s ?u = view_s t \<and> conn_info E (view_c ?u) = Some info"
      if y: "view_c ?u = map (\<lambda>z. if md_Uid (cfg_Metadata z) = md_Uid (cfg_Metadata c) then y else z) (view_c t) \<and>
        cfg_Data y = cfg_Data c' \<and> unstamped (cfg_Metadata y) = unstamped (cfg_Metadata c) \<and>
        md_Uid (cfg_Metadata y) = md_Uid (cfg_Metadata c)" for y
    proof -
      let ?g = "\<lambda>z. if md_Uid (cfg_Metadata z) = md_Uid (cfg_Metadata c) then y else z"
      have uniq: "distinct (map (\<lambda>x. md_Name (cfg_Metadata x)) (view_c t))" "distinct (map (\<lambda>x. md_Uid (cfg_Metadata x)) (view_c t))"
        using cfg.unique [OF inv] by simp_all
      have "List.find (\<lambda>c. md_Name (cfg_Metadata c) = ''sys:conn-info'') (view_c t) = Some c"
        using assms(2,3) uniq(1) by (intro find_eq_first) (auto simp: distinct_map inj_on_def)
      moreover have name: "md_Name (cfg_Metadata y) = ''sys:conn-info''" using y assms(3) unstamped_keeps by metis
      have same: "md_Name (cfg_Metadata (?g z)) = md_Name (cfg_Metadata z)" if "z \<in> set (view_c t)" for z
        using that assms(2,3) uniq(2) name by (auto simp: distinct_map inj_on_def)
      have "List.find (\<lambda>c. md_Name (cfg_Metadata c) = ''sys:conn-info'') (map ?g (view_c t)) = Some y"
      proof (rule find_eq_first)
        show "y \<in> set (map ?g (view_c t))" using assms(2) by force
        show "md_Name (cfg_Metadata y) = ''sys:conn-info''" by (rule name)
        fix w
        assume w: "w \<in> set (map ?g (view_c t))" "md_Name (cfg_Metadata w) = ''sys:conn-info''"
        then obtain z where z: "z \<in> set (view_c t)" "w = ?g z" by auto
        with w(2) same have "md_Name (cfg_Metadata z) = ''sys:conn-info''" by simp
        with z(1) assms(2,3) uniq(1) have "z = c" by (auto simp: distinct_map inj_on_def)
        with z(2) show "w = y" by simp
      qed
      then have "conn_info E (view_c ?u) = Some info"
        using y c'(2) roundtrip [OF assms(1)] assms(4) by (simp add: conn_info_def GetAttrs_def info_roundtrip_def)
      with fr show ?thesis by simp
    qed
  qed
qed

lemma info_write:
  assumes "fine t" and "c \<in> set (view_c t)" "md_Name (cfg_Metadata c) = ''sys:conn-info''"
  shows "leads (calm t) (\<lambda>u. fine u \<and> view_s u = view_s t \<and> conn_info E (view_c u) = Some info) (write_conn_info E C c info t)"
  unfolding write_conn_info_def
  by (intro leads_check leads_finish config_write [OF assms] calm_refl assms(1))

definition addresses_ok :: "'s \<Rightarrow> bool" where
  "addresses_ok s \<longleftrightarrow>
     fine s \<and> (\<exists>info. conn_info E (view_c s) = Some info \<and> distinct_indexes info \<and> covers info (view_s s)) \<and>
     disjoint_addresses (view_s s)"

lemma addresses_calm: "addresses_ok s \<Longrightarrow> calm s t \<Longrightarrow> addresses_ok t \<and> view_s t = view_s s"
  by (simp add: addresses_ok_def unseen_def)

text \<open>An index is reserved when it is active and no session holds it.\<close>

definition reserved :: "'s \<Rightarrow> Connection_Type \<Rightarrow> 32 word \<Rightarrow> 's \<Rightarrow> bool" where
  "reserved s typ idx t \<longleftrightarrow>
     addresses_ok t \<and> view_s t = view_s s \<and>
     (\<exists>info. conn_info E (view_c t) = Some info \<and> idx \<in> set (active_indexes typ info)) \<and>
     (\<forall>x\<in>set (view_s s). (typ, idx) \<notin> held x)"

lemma reserve:
  assumes "addresses_ok s" and "conn_info E (view_c s) = Some info" and "idx \<notin> set (active_indexes typ info)"
    and "typ = WIREGUARD \<or> typ = QUICV0"
    and "fine t" "view_s t = view_s s" "conn_info E (view_c t) = Some (addConnIndex info idx typ)"
  shows "reserved s typ idx t"
proof -
  have info: "distinct_indexes info" "covers info (view_s s)" "disjoint_addresses (view_s s)"
    using assms(1,2) by (auto simp: addresses_ok_def)
  then have "(typ, idx) \<notin> held x" if "x \<in> set (view_s s)" for x
    using that assms(3) by (auto simp: covers_def)
  with info assms(3-7) show ?thesis
    by (simp add: reserved_def addresses_ok_def distinct_add covers_add active_added)
qed

lemma reserved_calm: "reserved s typ idx t \<Longrightarrow> calm t u \<Longrightarrow> reserved s typ idx u"
  using addresses_calm [of t u] by (auto simp: reserved_def unseen_def)

lemma leads_stored:
  "leads R Q (write_conn_info E C c info t) \<Longrightarrow> (\<And>x u. snd (f x u) = u) \<Longrightarrow> leads R Q (go_seq (write_conn_info E C c info t) f)"
  by (cases "write_conn_info E C c info t"; cases "fst (write_conn_info E C c info t)") (auto simp: leads_def)

lemma leads_mono: "leads R Q m \<Longrightarrow> (\<And>u. R u \<Longrightarrow> R' u) \<Longrightarrow> (\<And>u. Q u \<Longrightarrow> Q' u) \<Longrightarrow> leads R' Q' m"
  by (auto simp: leads_def)

lemma leads_keeps: "leads R Q m \<Longrightarrow> (\<And>u. R u \<Longrightarrow> P u) \<Longrightarrow> (\<And>u. Q u \<Longrightarrow> P u) \<Longrightarrow> keeps P m"
  by (auto simp: leads_def keeps_def)

lemma go_seq_pure: "(\<And>x. r = Ok x \<Longrightarrow> snd (f x u) = u) \<Longrightarrow> snd (go_seq (r, u) f) = u"
  by (cases r) simp_all

text \<open>The index that is drawn gets reserved.\<close>

lemma drawn_reserved:
  assumes ok: "addresses_ok s" and rnd: "random_ok rnd" and conn_typ: "typ = QUICV0 \<or> typ = WIREGUARD"
    and cfg: "cl_Get (nl_Config C) conn_info_opts s = (Ok c, s1)" "calm s t" and info: "nv_ReadInfo E (GetAttrs c) = Ok info"
    and idx: "draw_index 100000 (\<lambda>i. i \<in> set (active_indexes typ info)) rnd 0 0 = Ok idx" "idx \<noteq> 0"
  shows "leads (calm s) (reserved s typ idx) (write_conn_info E C c (addConnIndex info idx typ) t)" and "index_fine idx"
proof -
  have fine: "fine s" "fine t" using ok cfg(2) by (simp_all add: addresses_ok_def unseen_def)
  note read = config_read [OF fine(1) cfg(1)]
  have info_s: "conn_info E (view_c s) = Some info" using read(3) info by simp
  have new: "idx \<notin> set (active_indexes typ info)" and "index_fine idx" using draw_index_0 [OF rnd idx] by simp_all
  then show "index_fine idx" by simp
  have "c \<in> set (view_c t)" using read(1) cfg(2) by (simp add: unseen_def)
  from info_write [OF fine(2) this read(2)]
  show "leads (calm s) (reserved s typ idx) (write_conn_info E C c (addConnIndex info idx typ) t)"
  proof (rule leads_mono)
    show "calm s u" if "calm t u" for u using that cfg(2) by (simp add: unseen_def)
    show "reserved s typ idx u"
      if "fine u \<and> view_s u = view_s t \<and> conn_info E (view_c u) = Some (addConnIndex info idx typ)" for u
      using that cfg(2) conn_typ by (intro reserve [OF ok info_s new]) (auto simp: unseen_def)
  qed
qed

lemma add_address_leads:
  assumes ok: "addresses_ok s" and rnd: "random_ok rnd" and conn: "st_Connection (se_Status sess) = Some conn"
  shows "leads (calm s) (\<lambda>t. \<exists>idx. reserved s (co_Type conn) idx t) (AddAddressToConnection E C rnd sess s)"
proof -
  have refl: "calm s s" using ok by (simp add: addresses_ok_def unseen_def)
  show ?thesis
    unfolding AddAddressToConnection_def conn option.case Let_def if_distrib [where f = "leads _ _"]
  proof ((intro if_bool_eq_conj [THEN iffD2] conjI impI leads_stored leads_check leads_step), goal_cases)
    case (7 c t cc u info idx v)
    then have "idx \<noteq> 0" "co_Type conn = QUICV0 \<or> co_Type conn = WIREGUARD" by (auto simp: reject_if_def split: if_splits)
    from drawn_reserved(1) [OF ok rnd this(2) 7(2,5,6,7) this(1)] show ?case by (rule leads_mono) auto
  next
    case 8
    then show ?case by (intro go_seq_pure) simp
  qed (use refl calm_config calm_reads(5) in \<open>auto simp: leads_def\<close>)
qed

lemma add_address_Ok:
  assumes ok: "addresses_ok s" and rnd: "random_ok rnd" and conn: "st_Connection (se_Status sess) = Some conn"
    and res: "AddAddressToConnection E C rnd sess s = (Ok sess', t)"
  shows "\<exists>idx a. reserved s (co_Type conn) idx t \<and> address_index a = idx \<and>
    sess' = with_connection sess (Some (conn\<lparr>co_Addresses := co_Addresses conn @ [a]\<rparr>))"
proof -
  let ?kd = "co_Type conn"
  have fine: "fine s" using ok by (simp add: addresses_ok_def)
  have conn_typ: "?kd = QUICV0 \<or> ?kd = WIREGUARD"
    using res by (auto simp: AddAddressToConnection_def conn Let_def split: if_splits)
  with res obtain c s1 cc s2 info idx where
    c: "cl_Get (nl_Config C) conn_info_opts s = (Ok c, s1)" and cc: "cl_Get (nl_ClusterConfig C) (by_name ''default'') s1 = (Ok cc, s2)" and
    info: "nv_ReadInfo E (GetAttrs c) = Ok info" and
    idx: "draw_index 100000 (\<lambda>i. i \<in> set (active_indexes ?kd info)) rnd 0 0 = Ok idx" "reject_if (idx = 0) (Errorf ''Could not find a valid IP'') = Ok ()" and
    rest: "go_seq (write_conn_info E C c (addConnIndex info idx ?kd) s2) (\<lambda>_ s.
      go_seq (conn_subnet ?kd cc, s) (\<lambda>connSubnet s.
      go_seq (GetDualStackIPByIndex E connSubnet (uint idx), s) (\<lambda>connIP s.
      (Ok (with_connection sess (Some (conn\<lparr>co_Addresses := co_Addresses conn @ [host_address connIP]\<rparr>))), s)))) = (Ok sess', t)"
    by (fastforce simp: AddAddressToConnection_def conn Let_def dest!: go_seq_Ok)
  obtain v n ip where w: "write_conn_info E C c (addConnIndex info idx ?kd) s2 = (Ok v, t)" and
    n: "conn_subnet ?kd cc = Ok n" "GetDualStackIPByIndex E n (uint idx) = Ok ip" and
    sess': "sess' = with_connection sess (Some (conn\<lparr>co_Addresses := co_Addresses conn @ [host_address ip]\<rparr>))"
    using rest by (auto dest!: go_seq_Ok)
  have s1: "calm s s1" using calm_config [OF calm_refl [OF fine]] c by (simp add: keeps_def)
  then have s2: "calm s s2" using calm_reads(5) [OF s1] cc by (simp add: keeps_def)
  have "idx \<noteq> 0" using idx(2) by (auto simp: reject_if_def split: if_splits)
  note d = drawn_reserved [OF ok rnd conn_typ c s2 info idx(1) this]
  have "reserved s ?kd idx t" using d(1) w by (simp add: leads_def)
  moreover have "subnets_ok E cc" using cluster_subnets [OF _ cc] s1 by (simp add: unseen_def)
  then have "address_index (host_address ip) = idx" using n d(2) by (simp add: subnets_ok_def)
  ultimately show ?thesis using sess' by blast
qed

text \<open>What writing a session back does to the addresses: all but the session itself must have been fine.\<close>

definition addresses_but :: "Session \<Rightarrow> 's \<Rightarrow> bool" where
  "addresses_but z s \<longleftrightarrow>
     fine s \<and> (\<exists>info. conn_info E (view_c s) = Some info \<and> distinct_indexes info \<and>
       covers info (filter (\<lambda>x. session_uid x \<noteq> session_uid z) (view_s s))) \<and> disjoint_addresses (view_s s)"

lemma addresses_but:
  assumes "addresses_ok s"
  shows "addresses_but z s"
proof -
  obtain info where info: "conn_info E (view_c s) = Some info" "distinct_indexes info" "covers info (view_s s)"
    using assms by (auto simp: addresses_ok_def)
  from info(3) have "covers info (filter (\<lambda>x. session_uid x \<noteq> session_uid z) (view_s s))" by (rule covers_sub) simp
  with info(1,2) assms show ?thesis by (simp add: addresses_ok_def addresses_but_def)
qed

lemma session_write:
  assumes u: "addresses_but z u" and z: "z \<in> set (view_s u)" and same: "session_uid x = session_uid z" "md_Name (se_Metadata x) = md_Name (se_Metadata z)"
    and active: "\<And>info t i. conn_info E (view_c u) = Some info \<Longrightarrow> (t, i) \<in> held x \<Longrightarrow> i \<in> set (active_indexes t info)"
    and disjoint: "\<And>w. w \<in> set (view_s u) \<Longrightarrow> session_uid w \<noteq> session_uid z \<Longrightarrow> held x \<inter> held w = {}"
  shows "leads (calm u) addresses_ok (cl_Update (nl_Session C) x u)"
proof -
  let ?u = "snd (cl_Update (nl_Session C) x u)" and ?md = "\<lambda>x. md_Uid (se_Metadata x)"
  have fine: "fine u" using u by (simp add: addresses_but_def)
  have inv: "inv_s u" using fine_inv [OF fine] by simp
  have md: "md_Uid (se_Metadata x) = md_Uid (se_Metadata z)" using same(1) by (simp add: session_uid_def)
  note written = ses.update [OF inv z md same(2) prod.collapse [symmetric]]
  have upd: "inv_s ?u" by (rule written [THEN conjunct1])
  have rst: "rest_s ?u = rest_s u" by (rule written [THEN conjunct2, THEN conjunct1])
  have eff: "effect (fst (cl_Update (nl_Session C) x u))
      (\<lambda>y v. v = map (\<lambda>z. if ?md z = ?md x then y else z) (view_s u) \<and> st_Connection (se_Status y) = st_Connection (se_Status x) \<and>
        unstamped (se_Metadata y) = unstamped (se_Metadata x) \<and> ?md y = ?md x) (view_s u) (view_s ?u)"
    by (rule written [THEN conjunct2, THEN conjunct2, THEN conjunct2])
  have fr: "fine ?u" "view_c ?u = view_c u" using frame_s [OF fine upd rst] by simp_all
  show ?thesis
  proof (rule leads_effect [where view = view_s, OF eff])
    show "calm u ?u" if "view_s ?u = view_s u" using fr that by (simp add: unseen_def)
    fix y
    assume y: "view_s ?u = map (\<lambda>z. if ?md z = ?md x then y else z) (view_s u) \<and> st_Connection (se_Status y) = st_Connection (se_Status x) \<and>
        unstamped (se_Metadata y) = unstamped (se_Metadata x) \<and> ?md y = ?md x"
    then have held: "held y = held x" by (simp add: held_def)
    from y same(1) have uid: "session_uid y = session_uid z" by (simp add: session_uid_def)
    have members: "w \<in> set (view_s ?u) \<Longrightarrow> w = y \<or> w \<in> set (view_s u) \<and> session_uid w \<noteq> session_uid z" for w
      using y same(1) by (auto simp: session_uid_def)
    obtain info where info: "conn_info E (view_c u) = Some info" "distinct_indexes info"
      "covers info (filter (\<lambda>x. session_uid x \<noteq> session_uid z) (view_s u))" "disjoint_addresses (view_s u)"
      using u by (auto simp: addresses_but_def)
    have "covers info (view_s ?u)"
      unfolding covers_def
    proof (intro ballI)
      fix w e
      assume w: "w \<in> set (view_s ?u)" "e \<in> held w"
      show "case e of (t, i) \<Rightarrow> i \<in> set (active_indexes t info)"
        using members [OF w(1)]
      proof
        assume "w = y"
        with w(2) held active [OF info(1)] show ?thesis by (cases e) simp
      next
        assume "w \<in> set (view_s u) \<and> session_uid w \<noteq> session_uid z"
        with w(2) info(3) show ?thesis by (auto simp: covers_def)
      qed
    qed
    moreover have "disjoint_addresses (view_s ?u)"
      unfolding disjoint_addresses_def
    proof (intro ballI impI)
      fix v w
      assume vw: "v \<in> set (view_s ?u)" "w \<in> set (view_s ?u)" "session_uid v \<noteq> session_uid w"
      consider "v = y" "w \<in> set (view_s u)" "session_uid w \<noteq> session_uid z"
        | "w = y" "v \<in> set (view_s u)" "session_uid v \<noteq> session_uid z"
        | "v \<in> set (view_s u)" "w \<in> set (view_s u)"
        using members [OF vw(1)] members [OF vw(2)] vw(3) uid by auto
      then show "held v \<inter> held w = {}"
      proof cases
        case 3
        with info(4) vw(3) show ?thesis by (auto simp: disjoint_addresses_def)
      qed (use disjoint held in auto)
    qed
    ultimately show "addresses_ok ?u" using fr info(1,2) by (simp add: addresses_ok_def)
  qed
qed

lemma leads_ok: "leads (calm s) addresses_ok m \<Longrightarrow> addresses_ok s \<Longrightarrow> addresses_ok (snd m)"
  using addresses_calm by (auto simp: leads_def)

text \<open>The upstreams that a session gets leave its addresses as they are.\<close>

lemma listener_addresses:
  assumes "setConnectionUpstreamsListener E sess svc = Ok sess'"
  shows "held sess' = held sess \<and> se_Metadata sess' = se_Metadata sess"
proof -
  obtain conn where conn: "st_Connection (se_Status sess) = Some conn"
    using assms by (auto simp: setConnectionUpstreamsListener_def split: option.splits)
  then obtain b where "put_upstream sess conn svc b = Ok sess'"
    using assms by (auto simp: setConnectionUpstreamsListener_def split: option.splits)
  then obtain us where "sess' = with_connection sess (Some (conn\<lparr>co_Upstreams := us\<rparr>))"
    by (auto simp: put_upstream_def go_map_def split: option.splits go.splits)
  with conn show ?thesis by (simp add: held_def)
qed

lemma serve_services_addresses:
  "serve_services E svcs sess = Ok sess' \<Longrightarrow> held sess' = held sess \<and> se_Metadata sess' = se_Metadata sess"
proof (induction svcs arbitrary: sess)
  case (Cons svc svcs)
  then obtain b where b: "ServeService svc sess = Ok b" by auto
  show ?case
  proof (cases b)
    case True
    with b Cons.prems obtain t where t: "SetConnectionUpstreams E sess svc = Ok t" "serve_services E svcs t = Ok sess'" by auto
    with listener_addresses [of sess svc t] Cons.IH [OF t(2)] show ?thesis by (simp add: SetConnectionUpstreams_def)
  qed (use b Cons in simp)
qed simp

lemma serve_candidates_addresses:
  assumes "serve_candidates E C i req sess s = (Ok sess', t)"
  shows "held sess' = held sess \<and> se_Metadata sess' = se_Metadata sess"
  using assms serve_services_addresses by (auto simp: serve_candidates_def split: option.splits if_splits dest!: go_seq_Ok)

section \<open>Connecting and disconnecting\<close>

lemma calm_serve: "calm s t \<Longrightarrow> keeps (calm s) (serve_candidates E C i req sess t)"
  unfolding serve_candidates_def
  by (cases "ini_ServiceOptions req") (auto intro!: keeps_rules calm_reads simp del: on_err_simps)

lemma calm_state: "calm s t \<Longrightarrow> keeps (calm s) (getConnectionState R C sess cc k1 k2 t)"
  unfolding getConnectionState_def getCASigner_def
  by (cases "st_Connection (se_Status sess)") (auto intro!: keeps_rules calm_reads simp del: on_err_simps)

lemma finish_connect_leads:
  assumes res: "reserved s typ idx t" and E: "ct_E R = E" and z: "z \<in> set (view_s s)" "se_Metadata sess = se_Metadata z"
    and one: "held sess = {(typ, idx)}"
  shows "leads (reserved s typ idx) addresses_ok (finish_connect R C i req cc k1 k2 sess t)"
proof -
  have calm: "fine t" using res by (simp add: reserved_def addresses_ok_def)
  have keep: "keeps (reserved s typ idx) m" if "keeps (calm u) m" "reserved s typ idx u" for m :: "'b go \<times> 's" and u
    using that reserved_calm by (auto simp: keeps_def)
  have self: "calm u u" if "reserved s typ idx u" for u
    using that by (simp add: reserved_def addresses_ok_def unseen_def)
  show ?thesis
    unfolding finish_connect_def E
  proof (rule leads_step [OF _ leads_step], goal_cases)
    case 1
    show ?case by (rule keep [OF calm_serve [OF self] res]) (rule res)
  next
    case (2 sess' u)
    then show ?case by (intro keep [OF calm_state [OF self]])
  next
    case (3 sess' u cs v)
    note sess' = serve_candidates_addresses [OF 3(1)]
    have v: "view_s v = view_s s" "addresses_ok v" using 3(4) by (simp_all add: reserved_def)
    obtain info where info: "conn_info E (view_c v) = Some info" "idx \<in> set (active_indexes typ info)" and
      free: "\<forall>x\<in>set (view_s s). (typ, idx) \<notin> held x"
      using 3(4) by (auto simp: reserved_def)
    have "leads (calm v) addresses_ok (cl_Update (nl_Session C) sess' v)"
    proof (rule session_write [OF addresses_but [OF v(2)]])
      show "z \<in> set (view_s v)" using z(1) v(1) by simp
      show "session_uid sess' = session_uid z" "md_Name (se_Metadata sess') = md_Name (se_Metadata z)"
        using sess' z(2) by (simp_all add: session_uid_def)
      show "j \<in> set (active_indexes ty inf)" if "conn_info E (view_c v) = Some inf" "(ty, j) \<in> held sess'" for inf ty j
        using that sess' one info by simp
      show "held sess' \<inter> held w = {}" if "w \<in> set (view_s v)" for w
        using that sess' one free v(1) by simp
    qed
    then have "leads (reserved s typ idx) addresses_ok (cl_Update (nl_Session C) sess' v)"
      by (rule leads_mono) (use reserved_calm [OF 3(4)] in auto)
    then show ?case
      by (cases "cl_Update (nl_Session C) sess' v"; cases "fst (cl_Update (nl_Session C) sess' v)")
        (auto simp: leads_def on_err_def map_err_def)
  qed
qed

lemma calm_request: "calm s t \<Longrightarrow> keeps (calm s) (request_services (nl_Service C) ns t)"
proof (induction ns arbitrary: t)
  case (Cons n ns)
  obtain r u where r: "cl_Get (nl_Service C) (by_name (GetServiceFullNameFromName n)) t = (r, u)" by fastforce
  with calm_reads(1) [OF Cons.prems, of "GetServiceFullNameFromName n"] have u: "calm s u" by (simp add: keeps_def)
  note rest = Cons.IH [OF u]
  show ?case
    using r u rest by (cases r) (auto intro!: keeps_rules)
qed (auto simp: keeps_def)

lemma calm_publish: "calm s t \<Longrightarrow> keeps (calm s) (publish_services V (nl_Service C) ps t)"
proof (induction ps arbitrary: t)
  case (Cons p ps)
  obtain r u where r: "cl_Get (nl_Service C) (by_name (GetServiceFullNameFromName (iu_Name p))) t = (r, u)" by fastforce
  with calm_reads(1) [OF Cons.prems, of "GetServiceFullNameFromName (iu_Name p)"] have u: "calm s u" by (simp add: keeps_def)
  note rest = Cons.IH [OF u]
  show ?case
    using r u rest by (cases r) (auto intro!: keeps_rules)
qed (auto simp: keeps_def)

lemma calm_requests:
  "calm s t \<Longrightarrow> keeps (calm s) (req_services V (nl_Service C) oo t)"
  "calm s t \<Longrightarrow> keeps (calm s) (published_services V (nl_Service C) ps t)"
  unfolding req_services_def published_services_def
  by (auto intro!: keeps_rules calm_request calm_publish split: option.splits)

text \<open>The session of the caller is asked for by its identifier.\<close>

definition caller_fits :: "UserCtx \<Rightarrow> 's \<Rightarrow> bool" where
  "caller_fits i s \<longleftrightarrow> (\<forall>x. ctx_Session i = Some x \<longrightarrow> fits_s (by_uid (session_uid x)) s)"

lemma leads_address:
  assumes ok: "addresses_ok s" and rnd: "random_ok rnd" and conn: "st_Connection (se_Status sess) = Some conn" and t: "calm s t"
    and rest: "\<And>idx a u. reserved s (co_Type conn) idx u \<Longrightarrow> address_index a = idx \<Longrightarrow>
      leads (reserved s (co_Type conn) idx) addresses_ok (f (with_connection sess (Some (conn\<lparr>co_Addresses := co_Addresses conn @ [a]\<rparr>))) u)"
  shows "leads (calm s) addresses_ok (go_seq (on_err InternalWithErr (AddAddressToConnection E C rnd sess t)) f)"
proof -
  obtain r u where m: "AddAddressToConnection E C rnd sess t = (r, u)" by fastforce
  have t': "addresses_ok t" "view_s t = view_s s" using addresses_calm [OF ok t] by simp_all
  have same: "reserved t ty idx v = reserved s ty idx v" for ty idx v by (simp add: reserved_def t'(2))
  have l: "leads (calm t) (\<lambda>v. \<exists>idx. reserved t (co_Type conn) idx v) (r, u)"
    using add_address_leads [OF t'(1) rnd conn] m by simp
  have up: "calm t v \<Longrightarrow> calm s v" for v using t by (simp add: unseen_def)
  show ?thesis
  proof (cases r)
    case (Ok x)
    with m add_address_Ok [OF t'(1) rnd conn] obtain idx a where a: "reserved s (co_Type conn) idx u" "address_index a = idx"
      "x = with_connection sess (Some (conn\<lparr>co_Addresses := co_Addresses conn @ [a]\<rparr>))"
      unfolding same by blast
    have "leads (reserved s (co_Type conn) idx) addresses_ok (f x u)" using rest [OF a(1,2)] a(3) by simp
    then have "addresses_ok (snd (f x u))" by (auto simp: leads_def reserved_def)
    then show ?thesis using m Ok by (simp add: leads_def)
  qed (use l m up in \<open>auto simp: leads_def on_err_def map_err_def reserved_def\<close>)
qed

lemma connected_conn: "st_Connection (se_Status (connected sess conn)) = Some conn" "se_Metadata (connected sess conn) = se_Metadata sess"
  by (simp_all add: connected_def)

lemma new_no_addresses: "co_Addresses (new_connection A req cc rs ps k1 k2) = []"
  by (simp add: new_connection_def)

lemma connect_new:
  assumes ok: "addresses_ok s" and R: "ct_E R = E" and res: "reserved s (co_Type conn) idx u" and "address_index a = idx"
    and get: "on_err InternalWithErr (cl_Get (nl_Session C) o' s) = (Ok z, t)" "fits_s o' s" and "co_Addresses conn = []"
  shows "leads (reserved s (co_Type conn) idx) addresses_ok
    (finish_connect R C i req cc k1 k2 (with_connection (connected z conn) (Some (conn\<lparr>co_Addresses := co_Addresses conn @ [a]\<rparr>))) u)"
proof (rule finish_connect_leads [OF res R])
  have "inv_s s" using ok fine_inv by (simp add: addresses_ok_def)
  then show "z \<in> set (view_s s)" using ses.get_Ok [OF _ get(2)] get(1) by simp
qed (use assms(4,7) in \<open>simp_all add: connected_conn held_def\<close>)

lemma DoInitConnect_ok:
  assumes ok: "addresses_ok s" and R: "ct_E R = E" "random_ok (ct_rnd R)" and caller: "\<And>i. ap_GetUserCtx (ct_A R) = Ok i \<Longrightarrow> caller_fits i s"
  shows "addresses_ok (snd (DoInitConnect R C req s))"
proof (rule leads_ok [OF _ ok])
  have self: "calm s s" using ok by (simp add: addresses_ok_def unseen_def)
  have fits: "ap_GetUserCtx (ct_A R) = Ok i \<Longrightarrow> deref (ctx_Session i) = Ok x \<Longrightarrow> fits_s (by_uid (session_uid x)) s" for i x
    using caller [of i] by (cases "ctx_Session i") (auto simp: caller_fits_def)
  show "leads (calm s) addresses_ok (DoInitConnect R C req s)"
    unfolding DoInitConnect_def Let_def R(1)
    by (assumption | rule self | erule (1) fits | rule leads_address [OF ok R(2)] connected_conn | rule leads_check | rule leads_step |
      rule keeps_on_err | rule calm_requests | rule calm_reads | rule calm_session | rule connect_new [OF ok R(1)] | rule new_no_addresses)+
qed

text \<open>A session that is written back with the addresses it has.\<close>

lemma rewrite_session:
  assumes ok: "addresses_ok u" and z: "z \<in> set (view_s u)" and same: "se_Metadata x = se_Metadata z" "held x \<subseteq> held z"
  shows "addresses_ok (snd (cl_Update (nl_Session C) x u))"
proof (rule leads_ok [OF session_write [OF addresses_but [OF ok] z] ok])
  show "session_uid x = session_uid z" "md_Name (se_Metadata x) = md_Name (se_Metadata z)"
    using same(1) by (simp_all add: session_uid_def)
  show "j \<in> set (active_indexes ty info)" if "conn_info E (view_c u) = Some info" "(ty, j) \<in> held x" for info ty j
    using ok z coversD [of info "view_s u" z ty j] that same(2) by (auto simp: addresses_ok_def)
  show "held x \<inter> held w = {}" if "w \<in> set (view_s u)" "session_uid w \<noteq> session_uid z" for w
    using that ok z same(2) unfolding addresses_ok_def disjoint_addresses_def by blast
qed

lemma connect_tick_ok:
  assumes ok: "addresses_ok s" and caller: "caller_fits i s"
  shows "addresses_ok (snd (connect_tick R C i s))"
proof (cases "ctx_Session i")
  case (Some x)
  have self: "calm s s" using ok by (simp add: addresses_ok_def unseen_def)
  have fits: "fits_s (by_uid (session_uid x)) s" using caller Some by (simp add: caller_fits_def)
  obtain r t where get: "cl_Get (nl_Session C) (by_uid (session_uid x)) s = (r, t)" by fastforce
  with calm_session [OF self fits] have t: "calm s t" by (simp add: keeps_def)
  note ok_t = addresses_calm [OF ok t]
  have "addresses_ok v" if z: "r = Ok z" "st_Connection (se_Status z) = Some conn" and
    v: "cl_Update (nl_Session C) (with_connection z (Some (conn\<lparr>co_LastSeenAt := Some (ap_Now (ct_A R))\<rparr>))) t = (q, v)" for z conn q v
    unfolding v [THEN arg_cong [where f = snd], unfolded snd_conv, symmetric]
  proof (rule rewrite_session)
    have "inv_s s" using ok fine_inv by (simp add: addresses_ok_def)
    with ses.get_Ok [OF _ fits] get z(1) have "z \<in> set (view_s s)" by simp
    with ok_t show "z \<in> set (view_s t)" by simp
  qed (use ok_t z(2) in \<open>simp_all add: held_def\<close>)
  then show ?thesis
    using ok_t by (fastforce simp: connect_tick_def Some deref_def get split: go.splits option.splits prod.splits)
qed (use ok in \<open>simp add: connect_tick_def deref_def\<close>)

text \<open>Giving addresses back: the index of the session goes, those of the other sessions stay.\<close>

lemma covers_remove:
  assumes "covers info xs" and "\<And>x. x \<in> set xs \<Longrightarrow> (typ, i) \<notin> held x"
  shows "covers (removeConnIndex info i typ) xs"
  unfolding covers_def
proof (intro ballI)
  fix x e
  assume x: "x \<in> set xs" "e \<in> held x"
  then have "e \<noteq> (typ, i)" "case e of (t, j) \<Rightarrow> j \<in> set (active_indexes t info)" using assms by (auto simp: covers_def)
  then show "case e of (t, j) \<Rightarrow> j \<in> set (active_indexes t (removeConnIndex info i typ))"
    by (cases e) (simp add: active_remove)
qed

lemma remove_address:
  assumes t: "addresses_but z t" "view_s t = view_s s" and z: "z \<in> set (view_s s)"
  shows "keeps (\<lambda>u. addresses_but z u \<and> view_s u = view_s s) (removeAddressFromConnection E C z k t)"
proof (cases "st_Connection (se_Status z)")
  case (Some conn)
  let ?R = "\<lambda>u. addresses_but z u \<and> view_s u = view_s s"
  have calm: "?R v" if "?R u" "calm u v" for u v using that by (auto simp: addresses_but_def unseen_def)
  have self: "calm t t" using t by (simp add: addresses_but_def unseen_def)
  have written: "keeps ?R (write_conn_info E C c (removeConnIndex info (of_nat i) (co_Type conn)) u)"
    if a: "nth_go (co_Addresses conn) k = Ok a" and c: "cl_Get (nl_Config C) conn_info_opts t = (Ok c, u)"
      and info: "nv_ReadInfo E (GetAttrs c) = Ok info" and i: "GetIndex (ToIP a) = Ok i" for a c u info i
  proof -
    have fine: "fine t" using t by (simp add: addresses_but_def)
    have u: "calm t u" using calm_config [OF self] c by (simp add: keeps_def)
    note read = config_read [OF fine c]
    have info_t: "conn_info E (view_c t) = Some info" using read(3) info by simp
    with t(1) have inf: "distinct_indexes info" "covers info (filter (\<lambda>x. session_uid x \<noteq> session_uid z) (view_s t))"
      "disjoint_addresses (view_s t)"
      by (auto simp: addresses_but_def)
    have "a \<in> set (co_Addresses conn)" using a by (auto simp: nth_go_def split: if_splits)
    then have mine: "(co_Type conn, of_nat i) \<in> held z"
      using Some i by (auto simp: held_def address_index_def intro!: image_eqI [of _ _ a])
    have "(co_Type conn, of_nat i) \<notin> held x" if "x \<in> set (filter (\<lambda>x. session_uid x \<noteq> session_uid z) (view_s t))" for x
    proof -
      have "x \<in> set (view_s t)" "session_uid x \<noteq> session_uid z" using that by simp_all
      then have "held x \<inter> held z = {}" using inf(3) z t(2) by (simp add: disjoint_addresses_def)
      with mine show ?thesis by blast
    qed
    from covers_remove [OF inf(2) this]
    have ok: "?R v" if "fine v" "view_s v = view_s u" "conn_info E (view_c v) = Some (removeConnIndex info (of_nat i) (co_Type conn))" for v
      using that t u inf by (simp add: addresses_but_def unseen_def distinct_remove)
    have "leads (calm u) (\<lambda>v. fine v \<and> view_s v = view_s u \<and>
        conn_info E (view_c v) = Some (removeConnIndex info (of_nat i) (co_Type conn)))
        (write_conn_info E C c (removeConnIndex info (of_nat i) (co_Type conn)) u)"
      using u read by (intro info_write) (simp_all add: unseen_def)
    moreover have "?R u" using calm [OF _ u] t by simp
    ultimately show ?thesis
      by (elim leads_keeps) (rule calm, assumption+, elim conjE, rule ok)
  qed
  have got: "keeps ?R (cl_Get (nl_Config C) conn_info_opts t)"
    using calm_config [OF self] calm [of t] t by (simp add: keeps_def)
  show ?thesis
    unfolding removeAddressFromConnection_def Some
    by (auto intro!: keeps_check keeps_seq got written simp: t keeps_return)
qed (use t in \<open>simp add: removeAddressFromConnection_def keeps_def\<close>)

lemma remove_all_addresses:
  assumes ok: "addresses_ok s" and z: "z \<in> set (view_s s)"
  shows "keeps (\<lambda>u. addresses_but z u \<and> view_s u = view_s s) (RemoveAllAddressFromConnection E C z s)"
proof -
  let ?R = "\<lambda>u. addresses_but z u \<and> view_s u = view_s s"
  have each: "keeps ?R (remove_addresses E C z ks t)" if "?R t" for ks t
    using that by (induction ks arbitrary: t) (auto intro!: keeps_return keeps_seq remove_address z)
  have "?R s" using addresses_but [OF ok] by simp
  then show ?thesis
    by (auto simp: RemoveAllAddressFromConnection_def intro!: keeps_return keeps_seq each split: option.splits)
qed

lemma doDisconnect_ok:
  assumes ok: "addresses_ok s" and caller: "caller_fits i s" and res: "doDisconnect R C i s = (Ok x, t)" and E: "ct_E R = E"
  shows "addresses_ok t"
proof -
  obtain c where c: "ctx_Session i = Some c" using res by (cases "ctx_Session i") (auto simp: doDisconnect_def checkIfCanConnect_def deref_def)
  have self: "calm s s" using ok by (simp add: addresses_ok_def unseen_def)
  have fits: "fits_s (by_uid (session_uid c)) s" using caller c by (simp add: caller_fits_def)
  obtain z u where z: "cl_Get (nl_Session C) (by_uid (session_uid c)) s = (Ok z, u)"
    using res by (auto simp: doDisconnect_def c deref_def dest!: go_seq_Ok)
  with calm_session [OF self fits] have u: "calm s u" by (simp add: keeps_def)
  note ok_u = addresses_calm [OF ok u]
  have "inv_s s" using ok fine_inv by (simp add: addresses_ok_def)
  with ses.get_Ok [OF _ fits] z have zs: "z \<in> set (view_s u)" using ok_u by simp
  show ?thesis
  proof (cases "\<exists>conn. st_Connection (se_Status z) = Some conn \<and> st_IsConnected (se_Status z)")
    case False
    with res z ok_u show ?thesis
      by (auto simp: doDisconnect_def c deref_def split: option.splits if_splits dest!: go_seq_Ok)
  next
    case True
    then obtain conn where conn: "st_Connection (se_Status z) = Some conn" "st_IsConnected (se_Status z)" by blast
    obtain r v where v: "RemoveAllAddressFromConnection E C z u = (r, v)" by fastforce
    with remove_all_addresses [OF _ zs] ok_u have ok_v: "addresses_but z v" "view_s v = view_s u" by (simp_all add: keeps_def)
    let ?x = "disconnected (ap_Now (ct_A R)) z conn"
    have upd: "is_ok (fst (cl_Update (nl_Session C) ?x v))" "t = snd (cl_Update (nl_Session C) ?x v)"
      using res z v conn by (auto simp: doDisconnect_def c deref_def E split: go.splits dest!: go_seq_Ok)
    have "leads (calm v) addresses_ok (cl_Update (nl_Session C) ?x v)"
      by (rule session_write [OF ok_v(1)]) (use zs ok_v(2) in \<open>simp_all add: disconnected_def session_uid_def held_def\<close>)
    with upd show ?thesis by (simp add: leads_def)
  qed
qed

end

end
