(* ===== verification/AddressClaims.thy ===== *)
theory AddressClaims imports AddressFacts CoreExamples begin

text \<open>
  The properties of connections over the resource server: no two sessions share an address. An example has
  two sessions that are connected.
\<close>

section \<open>Over the resource server\<close>

record net_conversions =
  nc_Session :: "Session conversion"
  nc_Service :: "Service conversion"
  nc_Gateway :: "Gateway conversion"
  nc_Config :: "Config conversion"
  nc_ClusterConfig :: "ClusterConfig conversion"
  nc_Secret :: "Secret conversion"

text \<open>Of the messages that are only read nothing but the metadata needs to survive being written.\<close>

abbreviation sessions :: "net_conversions \<Rightarrow> (Session, Session_Status_Connection option) codec" where
  "sessions D \<equiv> codec_of ''Session'' se_Metadata (\<lambda>x. st_Connection (se_Status x)) (nc_Session D)"

abbreviation services :: "net_conversions \<Rightarrow> (Service, unit) codec" where
  "services D \<equiv> codec_of ''Service'' svc_Metadata (\<lambda>x. ()) (nc_Service D)"

abbreviation gateways :: "net_conversions \<Rightarrow> (Gateway, unit) codec" where
  "gateways D \<equiv> codec_of ''Gateway'' gw_Metadata (\<lambda>x. ()) (nc_Gateway D)"

abbreviation configs :: "net_conversions \<Rightarrow> (Config, Config_Data option option) codec" where
  "configs D \<equiv> codec_of ''Config'' cfg_Metadata cfg_Data (nc_Config D)"

abbreviation cluster_configs :: "net_conversions \<Rightarrow> (ClusterConfig, unit) codec" where
  "cluster_configs D \<equiv> codec_of ''ClusterConfig'' cc_Metadata (\<lambda>x. ()) (nc_ClusterConfig D)"

abbreviation secrets :: "net_conversions \<Rightarrow> (Secret, unit) codec" where
  "secrets D \<equiv> codec_of ''Secret'' sec_Metadata (\<lambda>x. ()) (nc_Secret D)"

definition core_net :: "serve_env \<Rightarrow> (string \<Rightarrow> fate) \<Rightarrow> net_conversions \<Rightarrow> rsc_state net_clients" where
  "core_net S net D =
     \<lparr>nl_Session = CoreC S net (sessions D), nl_Service = CoreC S net (services D), nl_Gateway = CoreC S net (gateways D),
      nl_Config = CoreC S net (configs D), nl_ClusterConfig = CoreC S net (cluster_configs D), nl_Secret = CoreC S net (secrets D)\<rparr>"

lemma core_net_simps [simp]:
  "nl_Session (core_net S net D) = CoreC S net (sessions D)" "nl_Service (core_net S net D) = CoreC S net (services D)"
  "nl_Gateway (core_net S net D) = CoreC S net (gateways D)" "nl_Config (core_net S net D) = CoreC S net (configs D)"
  "nl_ClusterConfig (core_net S net D) = CoreC S net (cluster_configs D)" "nl_Secret (core_net S net D) = CoreC S net (secrets D)"
  by (simp_all add: core_net_def)

definition net_ok :: "serve_env \<Rightarrow> net_conversions \<Rightarrow> bool" where
  "net_ok S D \<longleftrightarrow>
     serve_ok S (sessions D) \<and> serve_ok S (services D) \<and> serve_ok S (gateways D) \<and> serve_ok S (configs D) \<and>
     serve_ok S (cluster_configs D) \<and> serve_ok S (secrets D)"

text \<open>All resources can be read, and the subnets of the cluster tell the index of an address.\<close>

definition net_stored :: "net_conversions \<Rightarrow> conn_env \<Rightarrow> rsc_state \<Rightarrow> bool" where
  "net_stored D E st \<longleftrightarrow>
     stored_ok (sessions D) st \<and> stored_ok (services D) st \<and> stored_ok (gateways D) st \<and> stored_ok (configs D) st \<and>
     stored_ok (cluster_configs D) st \<and> stored_ok (secrets D) st \<and>
     (\<forall>cc\<in>set (kind_view (cluster_configs D) st). subnets_ok E cc)"

definition net_fine :: "serve_env \<Rightarrow> net_conversions \<Rightarrow> conn_env \<Rightarrow> rsc_state \<Rightarrow> bool" where
  "net_fine S D E st \<longleftrightarrow> net_ok S D \<and> info_roundtrip E \<and> net_stored D E st"

lemma net_fineD:
  assumes "net_fine S D E st"
  shows "client_inv S (sessions D) st" "client_inv S (services D) st" "client_inv S (gateways D) st" "client_inv S (configs D) st"
    "client_inv S (cluster_configs D) st" "client_inv S (secrets D) st"
  using assms by (simp_all add: net_fine_def net_ok_def net_stored_def client_inv_def)

text \<open>A call for one kind leaves the resources of the other kinds as they are.\<close>

lemma net_frame:
  assumes fine: "net_fine S D E st" and K: "client_inv S K st'" "kind_rest K st' = kind_rest K st"
    and own: "cd_kind K = ''Session'' \<Longrightarrow> client_inv S (sessions D) st'" "cd_kind K = ''Service'' \<Longrightarrow> client_inv S (services D) st'"
      "cd_kind K = ''Gateway'' \<Longrightarrow> client_inv S (gateways D) st'" "cd_kind K = ''Config'' \<Longrightarrow> client_inv S (configs D) st'"
      "cd_kind K = ''Secret'' \<Longrightarrow> client_inv S (secrets D) st'"
      "cd_kind K = ''ClusterConfig'' \<Longrightarrow> client_inv S (cluster_configs D) st' \<and>
        kind_view (cluster_configs D) st' = kind_view (cluster_configs D) st"
  shows "net_fine S D E st'"
proof -
  have frame: "client_inv S L st' \<and> kind_view L st' = kind_view L st" if "client_inv S L st" "cd_kind L \<noteq> cd_kind K" for L :: "('b, 'q) codec"
    using core_frame [OF that(1) K that(2)] .
  note D = net_fineD [OF fine]
  have "client_inv S (sessions D) st'"
    using own(1) core_frame [OF D(1) K] by (cases "cd_kind K = ''Session''") auto
  moreover have "client_inv S (services D) st'"
    using own(2) core_frame [OF D(2) K] by (cases "cd_kind K = ''Service''") auto
  moreover have "client_inv S (gateways D) st'"
    using own(3) core_frame [OF D(3) K] by (cases "cd_kind K = ''Gateway''") auto
  moreover have "client_inv S (configs D) st'"
    using own(4) core_frame [OF D(4) K] by (cases "cd_kind K = ''Config''") auto
  moreover have "client_inv S (secrets D) st'"
    using own(5) core_frame [OF D(6) K] by (cases "cd_kind K = ''Secret''") auto
  moreover have "client_inv S (cluster_configs D) st' \<and> kind_view (cluster_configs D) st' = kind_view (cluster_configs D) st"
    using own(6) core_frame [OF D(5) K] by (cases "cd_kind K = ''ClusterConfig''") auto
  ultimately show ?thesis
    using fine by (simp add: net_fine_def net_stored_def client_inv_def)
qed

lemma get_by_no_name:
  assumes "client_inv S K st"
  shows "snd (cl_Get (CoreC S net K) (by_name []) st) = st"
proof -
  have "cd_kind K \<in> set resource_kinds" using client_invD(6) [OF assms] .
  from handle_core(1) [OF this, of S "by_name []" st] show ?thesis
    by (simp add: CoreC_def client_call_def doGet_def rsc_checkGetOptions_def reject_if_def split: fate.splits)
qed

text \<open>Reads by name and lists, of every kind, are seen neither in the sessions nor in the configurations.\<close>

lemma net_reads:
  assumes fine: "net_fine S D E st" and K: "client_inv S K st" "cd_kind K \<in> {''Service'', ''Gateway'', ''Secret'', ''ClusterConfig''}"
    and st': "(st' = snd (cl_Get (CoreC S net K) (by_name n) st) \<or> st' = snd (cl_List (CoreC S net K) lo st))"
    and own: "client_inv S K st' \<Longrightarrow> cd_kind K = ''Service'' \<Longrightarrow> client_inv S (services D) st'"
      "client_inv S K st' \<Longrightarrow> cd_kind K = ''Gateway'' \<Longrightarrow> client_inv S (gateways D) st'"
      "client_inv S K st' \<Longrightarrow> cd_kind K = ''Secret'' \<Longrightarrow> client_inv S (secrets D) st'"
      "client_inv S K st' \<Longrightarrow> kind_view K st' = kind_view K st \<Longrightarrow> cd_kind K = ''ClusterConfig'' \<Longrightarrow> client_inv S (cluster_configs D) st' \<and>
        kind_view (cluster_configs D) st' = kind_view (cluster_configs D) st"
  shows "unseen (net_fine S D E) (kind_view (sessions D)) (kind_view (configs D)) st st'"
proof -
  have same: "client_inv S K st' \<and> kind_rest K st' = kind_rest K st \<and> kind_view K st' = kind_view K st"
  proof (cases "st' = snd (cl_List (CoreC S net K) lo st)")
    case True
    then show ?thesis using client_list_reads [OF K(1) prod.collapse [symmetric]] by simp
  next
    case False
    then show ?thesis
      using st' core.get_name_same [where s = st and ?s1.0 = st and n = n] get_by_no_name [OF K(1), of net] K(1) by (cases "n = []") auto
  qed
  then have "net_fine S D E st'" using K(2) own by (intro net_frame [OF fine, of K]) auto
  moreover have "kind_view (sessions D) st' = kind_view (sessions D) st" "kind_view (configs D) st' = kind_view (configs D) st"
    using core_frame [OF net_fineD(1) [OF fine], of K st'] core_frame [OF net_fineD(4) [OF fine], of K st'] same K(2) by auto
  ultimately show ?thesis by (simp add: unseen_def)
qed

interpretation core_addresses: connections "core_net S net D" "filter_holds (sessions D)" "client_inv S (sessions D)"
    "\<lambda>o'. kind_fits o' ''core'' ''v1'' ''Session''" "kind_view (sessions D)" "kind_rest (sessions D)"
  "filter_holds (configs D)" "client_inv S (configs D)" "\<lambda>o'. kind_fits o' ''core'' ''v1'' ''Config''" "kind_view (configs D)"
    "kind_rest (configs D)" E "net_fine S D E" for S net D E
proof (unfold connections_def connections_axioms_def core_net_simps, intro conjI allI impI)
  show "resource_client (CoreC S net (sessions D)) se_Metadata (\<lambda>x. st_Connection (se_Status x)) (filter_holds (sessions D))
      (client_inv S (sessions D)) (\<lambda>o'. kind_fits o' ''core'' ''v1'' ''Session'') (kind_view (sessions D)) (kind_rest (sessions D))"
    using core.resource_client_axioms [of S net "sessions D"] by simp
  show "resource_client (CoreC S net (configs D)) cfg_Metadata cfg_Data (filter_holds (configs D))
      (client_inv S (configs D)) (\<lambda>o'. kind_fits o' ''core'' ''v1'' ''Config'') (kind_view (configs D)) (kind_rest (configs D))"
    using core.resource_client_axioms [of S net "configs D"] by simp
next
  fix s t cc
  assume fine: "net_fine S D E s" and get: "cl_Get (CoreC S net (cluster_configs D)) (by_name ''default'') s = (Ok cc, t)"
  have "cc \<in> set (kind_view (cluster_configs D) s)"
    using core.get_Ok [OF net_fineD(5) [OF fine] fits_by_name [OF net_fineD(5) [OF fine]] get] by simp
  then show "subnets_ok E cc" using fine by (simp add: net_fine_def net_stored_def)
next
  fix s t
  assume "net_fine S D E s" "client_inv S (sessions D) t" "kind_rest (sessions D) t = kind_rest (sessions D) s"
  then show "net_fine S D E t" "kind_view (configs D) t = kind_view (configs D) s"
    using core_frame [OF net_fineD(4), of S D E s "sessions D" t] by (auto intro: net_frame)
next
  fix s t
  assume "net_fine S D E s" "client_inv S (configs D) t" "kind_rest (configs D) t = kind_rest (configs D) s"
  then show "net_fine S D E t" "kind_view (sessions D) t = kind_view (sessions D) s"
    using core_frame [OF net_fineD(1), of S D E s "configs D" t] by (auto intro: net_frame)
qed (auto simp: net_fine_def net_fineD intro!: net_reads)

section \<open>No two sessions share an address\<close>

text \<open>The active indexes are as the sessions need them, and no two sessions share one.\<close>

definition addresses_stored :: "net_conversions \<Rightarrow> conn_env \<Rightarrow> rsc_state \<Rightarrow> bool" where
  "addresses_stored D E st \<longleftrightarrow>
     (\<exists>info. conn_info E (kind_view (configs D) st) = Some info \<and> distinct_indexes info \<and> covers info (kind_view (sessions D) st)) \<and>
     disjoint_addresses (kind_view (sessions D) st)"

text \<open>Sessions may come and go, but none gets an address.\<close>

definition no_new_addresses :: "Session list \<Rightarrow> Session list \<Rightarrow> bool" where
  "no_new_addresses xs ys \<longleftrightarrow>
     (\<forall>y\<in>set ys. held y = {} \<or> (\<exists>x\<in>set xs. session_uid x = session_uid y \<and> held y \<subseteq> held x))"

text \<open>
  The resource server under the API server of the users. Requests come one after the other, over a network that may lose
  calls, with statements of the database failing at any time, and in between comes anything that
  gives no session an address. A session is disconnected with success; what is left of
  its address by a failure is another matter.
\<close>

inductive connecting :: "net_conversions \<Rightarrow> conn_env \<Rightarrow> rsc_state \<Rightarrow> bool" for D E where
  start: "info_roundtrip E \<Longrightarrow> net_stored D E st \<Longrightarrow> addresses_stored D E st \<Longrightarrow> connecting D E st"
| others: "connecting D E st \<Longrightarrow> net_stored D E st' \<Longrightarrow> kind_view (configs D) st' = kind_view (configs D) st \<Longrightarrow>
    no_new_addresses (kind_view (sessions D) st) (kind_view (sessions D) st') \<Longrightarrow> connecting D E st'"
| connect: "connecting D E st \<Longrightarrow> net_ok S D \<Longrightarrow> ct_E R = E \<Longrightarrow> random_ok (ct_rnd R) \<Longrightarrow>
    (\<And>i x. ap_GetUserCtx (ct_A R) = Ok i \<Longrightarrow> ctx_Session i = Some x \<Longrightarrow> kind_fits (by_uid (session_uid x)) ''core'' ''v1'' ''Session'' st) \<Longrightarrow>
    connecting D E (snd (DoInitConnect R (core_net S net D) req st))"
| tick: "connecting D E st \<Longrightarrow> net_ok S D \<Longrightarrow>
    (\<And>x. ctx_Session i = Some x \<Longrightarrow> kind_fits (by_uid (session_uid x)) ''core'' ''v1'' ''Session'' st) \<Longrightarrow>
    connecting D E (snd (connect_tick R (core_net S net D) i st))"
| disconnect: "connecting D E st \<Longrightarrow> net_ok S D \<Longrightarrow> ct_E R = E \<Longrightarrow>
    (\<And>x. ctx_Session i = Some x \<Longrightarrow> kind_fits (by_uid (session_uid x)) ''core'' ''v1'' ''Session'' st) \<Longrightarrow>
    doDisconnect R (core_net S net D) i st = (Ok x, st') \<Longrightarrow> connecting D E st'"

lemma addresses_ok_iff:
  "net_ok S D \<Longrightarrow> info_roundtrip E \<Longrightarrow> core_addresses.addresses_ok D E S st \<longleftrightarrow> net_stored D E st \<and> addresses_stored D E st"
  by (auto simp: core_addresses.addresses_ok_def net_fine_def addresses_stored_def)

lemma addresses_others:
  assumes "addresses_stored D E st" and "kind_view (configs D) st' = kind_view (configs D) st"
    and "no_new_addresses (kind_view (sessions D) st) (kind_view (sessions D) st')"
  shows "addresses_stored D E st'"
proof -
  obtain info where info: "conn_info E (kind_view (configs D) st) = Some info" "distinct_indexes info"
    "covers info (kind_view (sessions D) st)" "disjoint_addresses (kind_view (sessions D) st)"
    using assms(1) by (auto simp: addresses_stored_def)
  have old: "held y = {} \<or> (\<exists>x\<in>set (kind_view (sessions D) st). session_uid x = session_uid y \<and> held y \<subseteq> held x)"
    if "y \<in> set (kind_view (sessions D) st')" for y
    using assms(3) that by (simp add: no_new_addresses_def)
  have "covers info (kind_view (sessions D) st')"
    unfolding covers_def
  proof (intro ballI)
    fix y e
    assume y: "y \<in> set (kind_view (sessions D) st')" "e \<in> held y"
    with old [OF y(1)] obtain x where "x \<in> set (kind_view (sessions D) st)" "e \<in> held x" by auto
    with info(3) show "case e of (t, i) \<Rightarrow> i \<in> set (active_indexes t info)" by (auto simp: covers_def)
  qed
  moreover have "disjoint_addresses (kind_view (sessions D) st')"
    unfolding disjoint_addresses_def
  proof (intro ballI impI)
    fix y z
    assume yz: "y \<in> set (kind_view (sessions D) st')" "z \<in> set (kind_view (sessions D) st')" "session_uid y \<noteq> session_uid z"
    show "held y \<inter> held z = {}"
      using old [OF yz(1)] old [OF yz(2)] info(4) yz(3) by (fastforce simp: disjoint_addresses_def)
  qed
  ultimately show ?thesis using info(1,2) assms(2) by (simp add: addresses_stored_def)
qed

lemma connecting_inv: "connecting D E st \<Longrightarrow> info_roundtrip E \<and> net_stored D E st \<and> addresses_stored D E st"
proof (induction rule: connecting.induct)
  case (others st st')
  then show ?case using addresses_others by blast
next
  case (connect st S R net req)
  have "core_addresses.addresses_ok D E S (snd (DoInitConnect R (core_net S net D) req st))"
    by (rule core_addresses.DoInitConnect_ok) (use connect in \<open>simp_all add: addresses_ok_iff core_addresses.caller_fits_def\<close>)
  then show ?case using connect by (simp add: addresses_ok_iff)
next
  case (tick st S i R net)
  have "core_addresses.addresses_ok D E S (snd (connect_tick R (core_net S net D) i st))"
    by (rule core_addresses.connect_tick_ok) (use tick in \<open>simp_all add: addresses_ok_iff core_addresses.caller_fits_def\<close>)
  then show ?case using tick by (simp add: addresses_ok_iff)
next
  case (disconnect st S R i net x st')
  have "core_addresses.addresses_ok D E S st'"
    by (rule core_addresses.doDisconnect_ok [where s = st])
      (use disconnect in \<open>simp_all add: addresses_ok_iff core_addresses.caller_fits_def\<close>)
  then show ?case using disconnect by (simp add: addresses_ok_iff)
qed simp

text \<open>
  C29: however sessions connect, stay connected and disconnect, one request after the other and whatever fails while
  they connect, no two sessions hold the same address on one kind of connection, and the addresses that
  sessions hold are among the active indexes that are stored.
\<close>

theorem sessions_never_share:
  assumes "connecting D E st" and "x \<in> set (kind_view (sessions D) st)"
  shows "(\<forall>y\<in>set (kind_view (sessions D) st). session_uid y \<noteq> session_uid x \<longrightarrow> held x \<inter> held y = {}) \<and>
    (\<exists>info. conn_info E (kind_view (configs D) st) = Some info \<and> (\<forall>(t, i)\<in>held x. i \<in> set (active_indexes t info)))"
  using connecting_inv [OF assms(1)] assms(2) unfolding addresses_stored_def disjoint_addresses_def covers_def by metis

section \<open>Addresses of networks for IPv4\<close>

text \<open>What \<open>k8snet.GetIndexedIP\<close> promises: the address that many places behind the start of the subnet.\<close>

definition indexes_v4 :: "conn_env \<Rightarrow> bool" where
  "indexes_v4 E \<longleftrightarrow> (\<forall>w b i a. nv_GetIndexedIP E (Addr4 w, b) i = Ok a \<longrightarrow> a = Addr4 (w + word_of_int i))"

definition wide_v4 :: "DualStackNetwork \<Rightarrow> bool" where
  "wide_v4 n \<longleftrightarrow> nw_V4 n \<noteq> [] \<and> (\<exists>w b. ParseCIDR (nw_V4 n) = Some (Addr4 w, b) \<and> b \<le> 16)"

lemma masked_low16: "b \<le> 16 \<Longrightarrow> masked (Addr4 w) b = Addr4 v \<Longrightarrow> unat v mod 65536 = 0"
proof -
  assume b: "b \<le> 16" "masked (Addr4 w) b = Addr4 v"
  then have v: "v = push_bit (32 - b) (drop_bit (32 - b) w)" by simp
  have "take_bit 16 v = 0"
    using b(1) by (auto intro!: bit_eqI simp: v bit_simps)
  then have "take_bit 16 (unat v) = 0"
    by (metis unsigned_take_bit_eq unsigned_0)
  then show "unat v mod 65536 = 0" by (simp add: take_bit_eq_mod)
qed

lemma low16_index:
  fixes v i :: "32 word"
  assumes "unat v mod 65536 = 0" and "unat i < 65536"
  shows "unat (v + i) mod 65536 = unat i"
proof -
  have "unat (v + i) mod 65536 = (unat v + unat i) mod 4294967296 mod 65536" by (simp add: unat_word_ariths)
  also have "\<dots> = (unat v + unat i) mod 65536" by (simp add: mod_mod_cancel)
  also have "\<dots> = unat i" using assms by (simp add: mod_add_left_eq [symmetric])
  finally show ?thesis .
qed

lemma Cut_first: "c \<notin> set s \<Longrightarrow> Cut (s @ c # t) c = Some (s, t)"
  by (induction s) auto

lemma ParseCIDR_host4: "ParseCIDR (String4 w @ ''/32'') = Some (Addr4 w, 32)"
proof -
  have "Cut (String4 w @ CHR ''/'' # ''32'') CHR ''/'' = Some (String4 w, ''32'')"
    using String4_chars(3) [of w] by (intro Cut_first) simp
  then show ?thesis by (simp add: ParseCIDR_def ParseAddr_String4 digit_val_def)
qed

text \<open>The index of an IPv4 address in a subnet of at most 16 bits can be read off the address.\<close>

lemma wide_subnets_ok:
  assumes E: "indexes_v4 E" and cc: "\<And>typ n. conn_subnet typ cc = Ok n \<Longrightarrow> wide_v4 n"
  shows "subnets_ok E cc"
  unfolding subnets_ok_def
proof (intro allI impI)
  fix ty n idx ip
  assume n: "conn_subnet ty cc = Ok n" and idx: "index_fine idx" and ip: "GetDualStackIPByIndex E n (uint idx) = Ok ip"
  obtain w b where w: "nw_V4 n \<noteq> []" "ParseCIDR (nw_V4 n) = Some (Addr4 w, b)" "b \<le> 16"
    using cc [OF n] by (auto simp: wide_v4_def)
  obtain v where v: "masked (Addr4 w) b = Addr4 v" by simp
  have low: "unat v mod 65536 = 0" by (rule masked_low16 [OF w(3) v])
  obtain a where "indexed_ip E (nw_V4 n) (uint idx) = Ok (ip_Ipv4 ip)" "nv_GetIndexedIP E (Addr4 v, b) (uint idx) = Ok a"
    "ip_Ipv4 ip = IP_String (Some a)"
    using ip w v by (auto simp: GetDualStackIPByIndex_def indexed_ip_def go_map_def split: go.splits)
  moreover from this(2) E have "a = Addr4 (v + word_of_int (uint idx))" unfolding indexes_v4_def by blast
  ultimately have v4: "ip_Ipv4 ip = String4 (v + idx)" by simp
  have lt: "unat idx < 65536" using idx by (simp add: index_fine_def)
  have "ParseCIDR (String4 (v + idx) @ ''/32'') = Some (Addr4 (v + idx), 32)"
    by (rule ParseCIDR_host4)
  then have "cidr_ip (String4 (v + idx) @ ''/32'') = String4 (v + idx)" by (rule cidr_ip_of_v4)
  moreover have "String4 (v + idx) \<noteq> []" by (simp add: String4_def octets_def Let_def)
  ultimately show "address_index (host_address ip) = idx"
    using v4 low16_index [OF low lt]
    by (simp add: address_index_def host_address_def ToIP_def GetIndex_def DualStackIP_ToGo_def net_ParseIP_def ParseAddr_String4)
qed

section \<open>Two sessions that are connected\<close>

definition example_conn_env :: conn_env where
  "example_conn_env =
     \<lparr>nv_urlParse = (\<lambda>u. None),
      nv_GetIndexedIP = (\<lambda>n i. case fst n of Addr4 w \<Rightarrow> Ok (Addr4 (w + word_of_int i)) | _ \<Rightarrow> Fail (Errorf ''no IPv4 network'')),
      nv_ReadInfo = (\<lambda>j. case j of
        Some (JList [JList ws, JList qs]) \<Rightarrow>
          let ints = map (\<lambda>k. case k of JNum n \<Rightarrow> word_of_int n | _ \<Rightarrow> 0) in Ok \<lparr>ci_ActiveIndexesWG = ints ws, ci_ActiveIndexesQUIC = ints qs\<rparr>
      | _ \<Rightarrow> Fail (Errorf ''cannot be read'')),
      nv_WriteInfo = (\<lambda>i. Ok (JList [JList (map (\<lambda>w. JNum (uint w)) (ci_ActiveIndexesWG i)),
        JList (map (\<lambda>w. JNum (uint w)) (ci_ActiveIndexesQUIC i))]))\<rparr>"

lemma example_conn_env_ok: "info_roundtrip example_conn_env" "indexes_v4 example_conn_env"
  by (auto simp: info_roundtrip_def indexes_v4_def example_conn_env_def Let_def comp_def)

definition example_cluster :: "Metadata \<Rightarrow> ClusterConfig" where
  "example_cluster m =
     \<lparr>cc_Metadata = m,
      cc_Spec = \<lparr>ccs_Authorization = None, ccs_Ingress = None, ccs_Session = None, ccs_Device = None, ccs_Gateway = None,
        ccs_Dns = None, ccs_Authenticator = None\<rparr>,
      cc_Domain = ''example.com'', cc_ClusterNetwork = \<lparr>nw_V4 = ''100.64.0.0/10'', nw_V6 = []\<rparr>,
      cc_ServiceSubnet = Some \<lparr>nw_V4 = ''100.65.0.0/16'', nw_V6 = []\<rparr>,
      cc_WgConnSubnet = Some \<lparr>nw_V4 = ''100.66.0.0/16'', nw_V6 = []\<rparr>,
      cc_QuicConnSubnet = Some \<lparr>nw_V4 = ''100.67.0.0/16'', nw_V6 = []\<rparr>, cc_NetworkConfig = None\<rparr>"

lemma example_subnets: "subnets_ok example_conn_env (example_cluster m)"
proof (rule wide_subnets_ok [OF example_conn_env_ok(2)])
  fix ty n
  assume "conn_subnet ty (example_cluster m) = Ok n"
  then have "n = \<lparr>nw_V4 = ''100.66.0.0/16'', nw_V6 = []\<rparr> \<or> n = \<lparr>nw_V4 = ''100.67.0.0/16'', nw_V6 = []\<rparr>"
    by (cases ty) (simp_all add: conn_subnet_def example_cluster_def deref_def)
  moreover have "ParseCIDR ''100.66.0.0/16'' = Some (Addr4 0x64420000, 16)" "ParseCIDR ''100.67.0.0/16'' = Some (Addr4 0x64430000, 16)"
    by (simp_all add: ParseCIDR_def ParseAddr_def parseIPv4_def of_octets_def digit_val_def)
  ultimately show "wide_v4 n" by (auto simp: wide_v4_def)
qed

instance L3Mode :: countable by countable_datatype
instance Connection_Type :: countable by countable_datatype
instance Config_Data :: countable by countable_datatype

instance DualStackNetwork_ext :: (countable) countable
  by (rule countable_classI [of "\<lambda>r. to_nat (nw_V4 r, nw_V6 r, DualStackNetwork.more r)"]) (simp add: DualStackNetwork.equality)

instance Upstream_Backend_ext :: (countable) countable
  by (rule countable_classI [of "\<lambda>r. to_nat (ub_Host r, ub_Port r, Upstream_Backend.more r)"]) (simp add: Upstream_Backend.equality)

instance RequestedService_ext :: (countable) countable
  by (rule countable_classI [of "\<lambda>r. to_nat (rq_ServiceRef r, rq_NamespaceRef r, RequestedService.more r)"])
    (simp add: RequestedService.equality)

instance ServiceOptions_ext :: (countable) countable
  by (rule countable_classI [of "\<lambda>r. to_nat (sop_ServeAll r, sop_RequestedServices r, sop_PortStart r, ServiceOptions.more r)"])
    (simp add: ServiceOptions.equality)

instance Connection_Upstream_ext :: (countable) countable
  by (rule countable_classI [of "\<lambda>r. to_nat (up_Port r, up_L4Type r, up_ServiceRef r, up_NamespaceRef r, up_Backend r, up_Mode r,
    Connection_Upstream.more r)"]) (simp add: Connection_Upstream.equality)

instance PublishedService_ext :: (countable) countable
  by (rule countable_classI [of "\<lambda>r. to_nat (pu_ServiceRef r, pu_Port r, pu_Address r, PublishedService.more r)"])
    (simp add: PublishedService.equality)

instance Session_Status_Connection_ext :: (countable) countable
  by (rule countable_classI [of "\<lambda>r. to_nat (co_StartedAt r, co_LastSeenAt r, co_Upstreams r, co_Addresses r, co_L3Mode r,
    co_ServiceOptions r, co_X25519PublicKey r, co_Ed25519PublicKey r, co_Type r, co_PublishedServices r, co_IgnoreDNS r, co_ESSHEnable r,
    co_ESSHPort r, Session_Status_Connection.more r)"]) (simp add: Session_Status_Connection.equality)

definition numbered_sessions :: "(Session, Session_Status_Connection option) codec" where
  "numbered_sessions = numbered ''Session'' se_Metadata (\<lambda>x. st_Connection (se_Status x))
     (\<lambda>m c. with_connection (example_session\<lparr>se_Metadata := m\<rparr>) c) (\<lambda>c x. False)"

definition numbered_configs :: "(Config, Config_Data option option) codec" where
  "numbered_configs = numbered ''Config'' cfg_Metadata cfg_Data (\<lambda>m d. \<lparr>cfg_Metadata = m, cfg_Data = d\<rparr>) (\<lambda>c x. False)"

definition numbered_clusters :: "(ClusterConfig, unit) codec" where
  "numbered_clusters = numbered ''ClusterConfig'' cc_Metadata (\<lambda>x. ()) (\<lambda>m u. example_cluster m) (\<lambda>c x. False)"

definition numbered_services :: "(Service, unit) codec" where
  "numbered_services = numbered ''Service'' svc_Metadata (\<lambda>x. ()) (\<lambda>m u. example_service\<lparr>svc_Metadata := m\<rparr>) (\<lambda>c x. False)"

definition numbered_gateways :: "(Gateway, unit) codec" where
  "numbered_gateways = numbered ''Gateway'' gw_Metadata (\<lambda>x. ())
     (\<lambda>m u. \<lparr>gw_Metadata = m, gw_Status = \<lparr>gw_RegionRef = None, gw_NodeRef = None, gw_Id = ''g'', gw_Cidr = None, gw_Wireguard = None,
        gw_Quicv0 = None, gw_PublicIPs = [], gw_Hostname = []\<rparr>\<rparr>) (\<lambda>c x. False)"

definition numbered_secrets :: "(Secret, unit) codec" where
  "numbered_secrets = numbered ''Secret'' sec_Metadata (\<lambda>x. ())
     (\<lambda>m u. \<lparr>sec_ApiVersion = [], sec_Kind = [], sec_Metadata = m, sec_Spec_Data = None, sec_Data = None\<rparr>) (\<lambda>c x. False)"

definition example_net :: net_conversions where
  "example_net =
     \<lparr>nc_Session = conversion_of numbered_sessions, nc_Service = conversion_of numbered_services,
      nc_Gateway = conversion_of numbered_gateways, nc_Config = conversion_of numbered_configs,
      nc_ClusterConfig = conversion_of numbered_clusters, nc_Secret = conversion_of numbered_secrets\<rparr>"

lemmas numbered_defs = numbered_sessions_def numbered_services_def numbered_gateways_def numbered_configs_def numbered_clusters_def
  numbered_secrets_def

lemma example_net_codecs:
  "sessions example_net = numbered_sessions" "services example_net = numbered_services" "gateways example_net = numbered_gateways"
  "configs example_net = numbered_configs" "cluster_configs example_net = numbered_clusters" "secrets example_net = numbered_secrets"
  by (simp_all add: codec_of_def example_net_def conversion_of_def numbered_defs numbered_def)

lemma net_kinds [simp]:
  "cd_kind numbered_sessions = ''Session''" "cd_kind numbered_configs = ''Config''" "cd_kind numbered_clusters = ''ClusterConfig''"
  "cd_md numbered_sessions = se_Metadata" "cd_md numbered_configs = cfg_Metadata" "cd_md numbered_clusters = cc_Metadata"
  "cd_payload numbered_sessions = (\<lambda>x. st_Connection (se_Status x))" "cd_payload numbered_configs = cfg_Data"
  by (simp_all add: numbered_defs)

definition net_serve :: "string \<Rightarrow> serve_env" where
  "net_serve uid = example_serve (\<lambda>c z. False) uid"

lemma net_serve_ok: "plain uid \<Longrightarrow> net_ok (net_serve uid) example_net"
  unfolding net_ok_def example_net_codecs net_serve_def numbered_defs
  by (intro conjI; rule example_serve_ok) (auto simp: resource_kinds_def with_connection_def example_cluster_def)

definition no_connection :: Session_Status_Connection where
  "no_connection =
     \<lparr>co_StartedAt = None, co_LastSeenAt = None, co_Upstreams = [], co_Addresses = [], co_L3Mode = V4, co_ServiceOptions = None,
      co_X25519PublicKey = [], co_Ed25519PublicKey = [], co_Type = WIREGUARD, co_PublishedServices = [], co_IgnoreDNS = False,
      co_ESSHEnable = False, co_ESSHPort = 0\<rparr>"

definition at_address :: "string \<Rightarrow> string \<Rightarrow> Session" where
  "at_address name addr = with_connection (example_session\<lparr>se_Metadata := no_metadata\<lparr>md_Name := name\<rparr>\<rparr>)
     (Some (no_connection\<lparr>co_Addresses := [\<lparr>nw_V4 = addr, nw_V6 = []\<rparr>]\<rparr>))"

definition stored_indexes :: Config where
  "stored_indexes = \<lparr>cfg_Metadata = no_metadata\<lparr>md_Name := ''sys:conn-info''\<rparr>,
     cfg_Data = Some (Some (Config_Attrs (Some (JList [JList [JNum 5, JNum 6], JList []]))))\<rparr>"

text \<open>The state after the configurations and the two sessions have been created.\<close>

definition net_1 :: rsc_state where
  "net_1 = snd (cl_Create (CoreC (net_serve ''c1'') answered numbered_configs) stored_indexes rsc_empty)"

definition net_2 :: rsc_state where
  "net_2 = snd (cl_Create (CoreC (net_serve ''k1'') answered numbered_clusters) (example_cluster (no_metadata\<lparr>md_Name := ''default''\<rparr>)) net_1)"

definition net_3 :: rsc_state where
  "net_3 = snd (cl_Create (CoreC (net_serve ''s1'') answered numbered_sessions) (at_address ''alice-1'' ''100.66.0.5/32'') net_2)"

definition net_4 :: rsc_state where
  "net_4 = snd (cl_Create (CoreC (net_serve ''s2'') answered numbered_sessions) (at_address ''bob-1'' ''100.66.0.6/32'') net_3)"

lemma net_names: "checkName ''sys:conn-info'' = Ok ()" "checkName ''default'' = Ok ()" "checkName ''alice-1'' = Ok ()"
  "checkName ''bob-1'' = Ok ()"
  by (simp_all add: checkName_def MaxNameSubArgs_def Let_def reject_if_def rgxName_def lower_alnum_def lower_def decimal_def
      name_char_def)

lemma net_fine_uid:
  "plain uid \<Longrightarrow> net_fine (net_serve uid) example_net example_conn_env st \<longleftrightarrow> net_stored example_net example_conn_env st"
  by (simp add: net_fine_def net_serve_ok example_conn_env_ok)

lemmas net_created = example_created [where h = "\<lambda>c z. False", folded net_serve_def]

abbreviation net_invs :: "rsc_state \<Rightarrow> bool" where
  "net_invs st \<equiv> net_stored example_net example_conn_env st"

lemma net_invsD:
  assumes "net_invs st" and "plain uid"
  shows "client_inv (net_serve uid) numbered_sessions st" "client_inv (net_serve uid) numbered_configs st"
    "client_inv (net_serve uid) numbered_clusters st"
  using net_fineD(1,4,5) [of "net_serve uid" example_net example_conn_env st] assms
  by (simp_all add: net_fine_uid example_net_codecs)

text \<open>What the creation of each of the kinds keeps.\<close>

lemma net_invs_created:
  assumes "net_invs st" and "plain uid" and K: "client_inv (net_serve uid) K st'" "kind_rest K st' = kind_rest K st"
    and own: "cd_kind K = ''Session'' \<Longrightarrow> client_inv (net_serve uid) numbered_sessions st'"
      "cd_kind K = ''Config'' \<Longrightarrow> client_inv (net_serve uid) numbered_configs st'"
    and kinds: "cd_kind K = ''Session'' \<or> cd_kind K = ''Config''"
  shows "net_invs st'"
  using net_frame [of "net_serve uid" example_net example_conn_env st K st'] assms
  by (auto simp: net_fine_uid example_net_codecs)

lemma net_cluster_created:
  assumes "net_invs st" and "plain uid" and K: "client_inv (net_serve uid) numbered_clusters st'" "kind_rest numbered_clusters st' = kind_rest numbered_clusters st"
  shows "net_invs st'"
proof -
  note D = net_fineD [of "net_serve uid" example_net example_conn_env st, unfolded net_fine_uid [OF assms(2)] example_net_codecs, OF assms(1)]
  have "client_inv (net_serve uid) numbered_sessions st'" "client_inv (net_serve uid) numbered_services st'"
    "client_inv (net_serve uid) numbered_gateways st'" "client_inv (net_serve uid) numbered_configs st'"
    "client_inv (net_serve uid) numbered_secrets st'"
    using core_frame [OF D(1) K] core_frame [OF D(2) K] core_frame [OF D(3) K] core_frame [OF D(4) K] core_frame [OF D(6) K]
    by (simp_all add: numbered_defs)
  moreover have "\<forall>cc\<in>set (kind_view numbered_clusters st'). subnets_ok example_conn_env cc"
    unfolding kind_view_def by (auto simp: set_go_oks numbered_clusters_def numbered_dec example_subnets dest!: sym [of "Ok _"])
  ultimately show ?thesis using K(1) by (simp add: net_stored_def example_net_codecs client_inv_def)
qed

lemma view_empty: "kind_view K rsc_empty = []"
  by (simp add: rsc_empty_def kind_view_def)

lemma net_state:
  obtains c x y where "net_invs net_4" "kind_view numbered_configs net_4 = [c]" "cfg_Data c = cfg_Data stored_indexes"
    "md_Name (cfg_Metadata c) = ''sys:conn-info''" "kind_view numbered_sessions net_4 = [x, y]"
    "st_Connection (se_Status x) = st_Connection (se_Status (at_address ''alice-1'' ''100.66.0.5/32''))"
    "st_Connection (se_Status y) = st_Connection (se_Status (at_address ''bob-1'' ''100.66.0.6/32''))"
    "session_uid x \<noteq> session_uid y"
proof -
  have plain: "plain ''c1''" "plain ''k1''" "plain ''s1''" "plain ''s2''" by (simp_all add: plain_def)
  have n0: "net_invs rsc_empty" by (simp add: net_stored_def stored_empty example_net_codecs view_empty)
  have uids: "rw_Uid ` set (rs_table rsc_empty) = {}" by (simp add: rsc_empty_def)
  obtain c where c: "client_inv (net_serve ''c1'') numbered_configs net_1" "kind_rest numbered_configs net_1 = kind_rest numbered_configs rsc_empty"
    "kind_view numbered_configs net_1 = [c]" "cfg_Data c = cfg_Data stored_indexes" "md_Name (cfg_Metadata c) = ''sys:conn-info''"
    "rw_Uid ` set (rs_table net_1) = {''c1''}"
    by (rule net_created [OF net_invsD(2) [OF n0 plain(1)] _ _ _ _ net_1_def])
      (use net_names uids in \<open>simp_all add: stored_indexes_def view_empty\<close>)
  have n1: "net_invs net_1" by (rule net_invs_created [OF n0 plain(1) c(1,2)]) (use c(1) in simp_all)
  have view1: "kind_view numbered_clusters net_1 = []" "kind_view numbered_sessions net_1 = []"
    using core_frame [OF net_invsD(3) [OF n0 plain(1)] c(1,2)] core_frame [OF net_invsD(1) [OF n0 plain(1)] c(1,2)] by (simp_all add: view_empty)
  obtain k where k: "client_inv (net_serve ''k1'') numbered_clusters net_2" "kind_rest numbered_clusters net_2 = kind_rest numbered_clusters net_1"
    "rw_Uid ` set (rs_table net_2) = {''k1'', ''c1''}"
    by (rule net_created [OF net_invsD(3) [OF n1 plain(2)] _ _ _ _ net_2_def])
      (use net_names c(6) view1 in \<open>simp_all add: example_cluster_def\<close>)
  have n2: "net_invs net_2" by (rule net_cluster_created [OF n1 plain(2) k(1,2)])
  have view2: "kind_view numbered_configs net_2 = [c]" "kind_view numbered_sessions net_2 = []"
    using core_frame [OF net_invsD(2) [OF n1 plain(2)] k(1,2)] core_frame [OF net_invsD(1) [OF n1 plain(2)] k(1,2)] view1 c(3) by simp_all
  obtain x where x: "client_inv (net_serve ''s1'') numbered_sessions net_3" "kind_rest numbered_sessions net_3 = kind_rest numbered_sessions net_2"
    "kind_view numbered_sessions net_3 = [x]"
    "st_Connection (se_Status x) = st_Connection (se_Status (at_address ''alice-1'' ''100.66.0.5/32''))" "md_Name (se_Metadata x) = ''alice-1''"
    "rw_Uid ` set (rs_table net_3) = {''s1'', ''k1'', ''c1''}"
    by (rule net_created [OF net_invsD(1) [OF n2 plain(3)] _ _ _ _ net_3_def])
      (use net_names k(3) view2 in \<open>simp_all add: at_address_def\<close>)
  have n3: "net_invs net_3" by (rule net_invs_created [OF n2 plain(3) x(1,2)]) (use x(1) in simp_all)
  have view3: "kind_view numbered_configs net_3 = [c]"
    using core_frame [OF net_invsD(2) [OF n2 plain(3)] x(1,2)] view2 by simp
  obtain y where y: "client_inv (net_serve ''s2'') numbered_sessions net_4" "kind_rest numbered_sessions net_4 = kind_rest numbered_sessions net_3"
    "kind_view numbered_sessions net_4 = [x, y]"
    "st_Connection (se_Status y) = st_Connection (se_Status (at_address ''bob-1'' ''100.66.0.6/32''))"
    by (rule net_created [OF net_invsD(1) [OF n3 plain(4)] _ _ _ _ net_4_def])
      (use net_names x view3 in \<open>simp_all add: at_address_def\<close>)
  have n4: "net_invs net_4" by (rule net_invs_created [OF n3 plain(4) y(1,2)]) (use y(1) in simp_all)
  have view4: "kind_view numbered_configs net_4 = [c]"
    using core_frame [OF net_invsD(2) [OF n3 plain(4)] y(1,2)] view3 by simp
  have "session_uid x \<noteq> session_uid y"
    using view_unique_keys [OF y(1)] y(3) by (simp add: session_uid_def)
  with n4 view4 c(4,5) y x(4) show thesis by (intro that)
qed

lemma example_held:
  "held (at_address n ''100.66.0.5/32'') = {(WIREGUARD, 5)}" "held (at_address n ''100.66.0.6/32'') = {(WIREGUARD, 6)}"
proof -
  have "ParseCIDR ''100.66.0.5/32'' = Some (Addr4 0x64420005, 32)" "ParseCIDR ''100.66.0.6/32'' = Some (Addr4 0x64420006, 32)"
    by (simp_all add: ParseCIDR_def ParseAddr_def parseIPv4_def of_octets_def digit_val_def)
  moreover have "String4 w \<noteq> []" for w by (simp add: String4_def octets_def Let_def)
  ultimately show "held (at_address n ''100.66.0.5/32'') = {(WIREGUARD, 5)}" "held (at_address n ''100.66.0.6/32'') = {(WIREGUARD, 6)}"
    by (simp_all add: held_def at_address_def no_connection_def address_index_def ToIP_def cidr_ip_of_v4 GetIndex_def
        DualStackIP_ToGo_def net_ParseIP_def ParseAddr_String4)
qed

lemma example_info: "cfg_Data c = cfg_Data stored_indexes \<Longrightarrow> md_Name (cfg_Metadata c) = ''sys:conn-info'' \<Longrightarrow>
  conn_info example_conn_env [c] = Some \<lparr>ci_ActiveIndexesWG = [5, 6], ci_ActiveIndexesQUIC = []\<rparr>"
  by (simp add: conn_info_def GetAttrs_def stored_indexes_def example_conn_env_def)

theorem sessions_never_share_witness:
  "\<exists>x y. kind_view numbered_sessions net_4 = [x, y] \<and> held x = {(WIREGUARD, 5)} \<and> held y = {(WIREGUARD, 6)} \<and> held x \<inter> held y = {}"
proof -
  obtain c x y where net: "net_invs net_4" "kind_view numbered_configs net_4 = [c]" "cfg_Data c = cfg_Data stored_indexes"
    "md_Name (cfg_Metadata c) = ''sys:conn-info''" "kind_view numbered_sessions net_4 = [x, y]"
    "st_Connection (se_Status x) = st_Connection (se_Status (at_address ''alice-1'' ''100.66.0.5/32''))"
    "st_Connection (se_Status y) = st_Connection (se_Status (at_address ''bob-1'' ''100.66.0.6/32''))"
    "session_uid x \<noteq> session_uid y"
    by (rule net_state)
  have held: "held x = {(WIREGUARD, 5)}" "held y = {(WIREGUARD, 6)}"
    using net(6,7) example_held by (simp_all add: held_def)
  have "addresses_stored example_net example_conn_env net_4"
    using net(2,5) held
    by (auto simp: addresses_stored_def example_net_codecs example_info [OF net(3,4)] distinct_indexes_def covers_def active_indexes_def
        disjoint_addresses_def)
  then have "connecting example_net example_conn_env net_4"
    using net(1) example_conn_env_ok(1) by (intro connecting.start)
  from sessions_never_share [OF this, of x] net(5,8) have "held x \<inter> held y = {}" by (auto simp: example_net_codecs)
  with net(5) held show ?thesis by blast
qed

end
