(* ===== verification/Base64.thy ===== *)
theory Base64 imports Prelude begin

text \<open>
  \<open>base64.RawURLEncoding\<close> of Go's standard library, on byte strings: every three bytes are four characters of the
  alphabet of URLs, and nothing pads the last group. Decoding skips line ends and drops the bits left over.
\<close>

section \<open>Characters\<close>

definition b64_char :: "nat \<Rightarrow> char" where
  "b64_char n = char_of (if n < 26 then n + 65 else if n < 52 then n + 71 else if n < 62 then n - 4 else if n = 62 then 45 else 95)"

definition b64_val :: "char \<Rightarrow> nat option" where
  "b64_val c =
     (let n = of_char c in
      if 65 \<le> n \<and> n \<le> 90 then Some (n - 65)
      else if 97 \<le> n \<and> n \<le> 122 then Some (n - 71)
      else if 48 \<le> n \<and> n \<le> 57 then Some (n + 4)
      else if n = 45 then Some 62
      else if n = 95 then Some 63
      else None)"

lemma b64_val_char [simp]: "n < 64 \<Longrightarrow> b64_val (b64_char n) = Some n"
  by (auto simp: b64_val_def b64_char_def Let_def of_char_of)

lemma b64_val_less: "b64_val c = Some n \<Longrightarrow> n < 64"
  by (auto simp: b64_val_def Let_def split: if_splits)

section \<open>Encoding\<close>

fun b64_values :: "nat list \<Rightarrow> nat list" where
  "b64_values [] = []"
| "b64_values [a] = [a div 4, a mod 4 * 16]"
| "b64_values [a, b] = [a div 4, a mod 4 * 16 + b div 16, b mod 16 * 4]"
| "b64_values (a # b # c # xs) =
     [a div 4, a mod 4 * 16 + b div 16, b mod 16 * 4 + c div 64, c mod 64] @ b64_values xs"

definition EncodeToString :: "string \<Rightarrow> string" where
  "EncodeToString bs = map b64_char (b64_values (map of_char bs))"

section \<open>Decoding\<close>

fun b64_bytes :: "nat list \<Rightarrow> nat list go" where
  "b64_bytes [] = Ok []"
| "b64_bytes [a] = Fail (Errorf ''illegal base64 data'')"
| "b64_bytes [a, b] = Ok [a * 4 + b div 16]"
| "b64_bytes [a, b, c] = Ok [a * 4 + b div 16, b mod 16 * 16 + c div 4]"
| "b64_bytes (a # b # c # d # xs) =
     go_map (\<lambda>r. [a * 4 + b div 16, b mod 16 * 16 + c div 4, c mod 4 * 64 + d] @ r) (b64_bytes xs)"

definition DecodeString :: "string \<Rightarrow> string go" where
  "DecodeString s =
     (case those (map b64_val (filter (\<lambda>c. of_char c \<noteq> (10 :: nat) \<and> of_char c \<noteq> (13 :: nat)) s)) of
        None \<Rightarrow> Fail (Errorf ''illegal base64 data'')
      | Some vs \<Rightarrow> go_map (map char_of) (b64_bytes vs))"

section \<open>Decoding what was encoded\<close>

lemma bytes_of_values: "\<forall>n\<in>set ns. n < 256 \<Longrightarrow> b64_bytes (b64_values ns) = Ok ns \<and> (\<forall>v\<in>set (b64_values ns). v < 64)"
proof (induction ns rule: b64_values.induct)
  case (4 a b c xs)
  then have "a div 4 < 64" "b div 16 < 16" "c div 64 < 4" by auto
  with 4 show ?case by (auto simp: go_map_def)
qed auto

lemma values_length: "length (b64_values ns) = (4 * length ns + 2) div 3"
  by (induction ns rule: b64_values.induct) auto

lemma encoded_length [simp]: "length (EncodeToString bs) = (4 * length bs + 2) div 3"
  by (simp add: EncodeToString_def values_length)

lemma those_map: "(\<And>x. x \<in> set xs \<Longrightarrow> f x = Some (g x)) \<Longrightarrow> those (map f xs) = Some (map g xs)"
  by (induction xs) auto

lemma b64_char_line_end: "n < 64 \<Longrightarrow> of_char (b64_char n) \<noteq> (10 :: nat) \<and> of_char (b64_char n) \<noteq> (13 :: nat)"
  by (auto simp: b64_char_def of_char_of)

lemma decode_encode: "DecodeString (EncodeToString bs) = Ok bs"
proof -
  let ?ns = "map of_char bs :: nat list"
  have b: "b64_bytes (b64_values ?ns) = Ok ?ns" "\<forall>v\<in>set (b64_values ?ns). v < 64"
    using bytes_of_values [of ?ns] by auto
  have "filter (\<lambda>c. of_char c \<noteq> (10 :: nat) \<and> of_char c \<noteq> (13 :: nat)) (EncodeToString bs) = EncodeToString bs"
    using b(2) b64_char_line_end by (auto simp: EncodeToString_def filter_id_conv)
  moreover have "those (map b64_val (EncodeToString bs)) = Some (b64_values ?ns)"
    using b(2) those_map [of "b64_values ?ns" "b64_val \<circ> b64_char" id] by (simp add: EncodeToString_def)
  ultimately show ?thesis using b(1) by (simp add: DecodeString_def go_map_def comp_def)
qed

end
