(* ===== verification/Corev1Credentials.thy ===== *)
theory Corev1Credentials imports Corev1Services begin

text \<open>
  The generated messages (\<open>corev1.pb.go\<close>, \<open>authv1.pb.go\<close>) of credentials, of
  authenticators and of tokens, with the fields that the modelled code reads or writes.
\<close>

section \<open>Credentials\<close>

record Credential_Spec =
  crs_Type :: Credential_Type
  crs_User :: string
  crs_MaxAuthentications :: "32 word"
  crs_ExpiresAt :: timestamp
  crs_SessionType :: Session_Type
  crs_Authorization :: "Authorization option"
  crs_IsDisabled :: bool
  crs_AutoDelete :: bool

record Credential_Status =
  crt_UserRef :: "ObjectReference option"
  crt_Id :: string
  crt_TokenID :: string
  crt_LastRotationAt :: timestamp
  crt_TotalRotations :: "32 word"
  crt_TotalAuthentications :: "32 word"
  crt_IsLocked :: bool

record Credential =
  cr_ApiVersion :: string
  cr_Kind :: string
  cr_Metadata :: Metadata
  cr_Spec :: Credential_Spec
  cr_Status :: Credential_Status

datatype CredentialToken =
    AuthenticationToken string
  | Oauth2Credentials string string
  | AccessToken string

section \<open>Authenticators\<close>

record Authenticator_EncryptedData =
  ed_Ciphertext :: string
  ed_Nonce :: string
  ed_KeySecretRef :: "ObjectReference option"

record AuthenticationAttempt =
  tt_CreatedAt :: timestamp
  tt_EncryptedChallengeRequest :: "Authenticator_EncryptedData option"
  tt_EncryptedDataMap :: "(string \<times> Authenticator_EncryptedData) list"
  tt_DataMap :: "(string \<times> string) list"
  tt_SessionRef :: "ObjectReference option"

record Authenticator_FIDO =
  af_Id :: string
  af_PublicKey :: string
  af_Aaguid :: string
  af_IsPasskey :: bool
  af_IdHash :: string
  af_IsAttestationVerified :: bool
  af_IsSoftware :: bool
  af_IsHardware :: bool

datatype Authenticator_Info =
    Info_Type_Unset
  | Info_Fido Authenticator_FIDO
  | Info_Totp "Authenticator_EncryptedData option"
  | Info_Tpm json

record Authenticator_Status =
  ats_UserRef :: "ObjectReference option"
  ats_DeviceRef :: "ObjectReference option"
  ats_Type :: Authenticator_Type
  ats_Info :: "Authenticator_Info option"
  ats_AuthenticationAttempt :: "AuthenticationAttempt option"
  ats_LastAuthenticationAttempts :: "AuthenticationAttempt list"
  ats_SuccessfulAuthentications :: "32 word"
  ats_FailedAuthentications :: "32 word"
  ats_TotalAuthenticationAttempts :: "32 word"
  ats_IsRegistered :: bool
  ats_Description :: string

record Authenticator =
  atr_ApiVersion :: string
  atr_Kind :: string
  atr_Metadata :: Metadata
  atr_DisplayName :: string
  atr_Status :: Authenticator_Status

section \<open>Tokens\<close>

datatype TokenT0_Content_Type = TOKEN_UNKNOWN | ACCESS_TOKEN_T0 | REFRESH_TOKEN_T0 | CREDENTIAL_T0 | Other_TokenType int

record TokenT0_Content =
  tk_Type :: TokenT0_Content_Type
  tk_KeyID :: string
  tk_Subject :: string
  tk_TokenID :: string
  tk_ExpiresAt :: timestamp

record TokenT0 =
  tk_Signature :: string
  tk_Content :: "TokenT0_Content option"

end
