(* ===== verification/Sessionc.thy ===== *)
theory Sessionc imports Octovigil ApiCommon begin

text \<open>
  \<open>cluster/common/sessionc/sessionc.go\<close>: how a session is put together from its user, its device and the
  configuration of the cluster, the limit on the sessions of a user, and what a new authentication makes of a session. A
  call reads the clock as one instant; the random end of the name and the identifier of the token are
  arguments.
\<close>

section \<open>Options\<close>

record CreateSessionOpts =
  cs_Usr :: User
  cs_Device :: "Device option"
  cs_ClusterConfig :: "ClusterConfig option"
  cs_SessType :: Session_Type
  cs_IsBrowser :: bool
  cs_Scopes :: "Scope list"
  cs_AuthenticationInfo :: "Authentication_Info option"
  cs_Authorization :: "Authorization option"
  cs_CredentialRef :: "ObjectReference option"
  cs_ExpiresAt :: timestamp
  cs_UserAgent :: string
  cs_XFF :: string
  cs_Ext :: "(string \<times> json) list"
  cs_CheckPerUserLimit :: bool
  cs_AuthenticatorAction :: AuthenticatorAction
  cs_RequiredAuthenticatorRef :: "ObjectReference option"

record session_env =
  ne_Now :: int
  ne_NameEnd :: string
  ne_TokenID :: string

section \<open>Durations and state\<close>

definition cc_session :: "ClusterConfig \<Rightarrow> User_Type \<Rightarrow> User_Spec_Session option" where
  "cc_session cc t =
     (case ccs_Session (cc_Spec cc) of
        None \<Rightarrow> None
      | Some x \<Rightarrow> (case t of HUMAN \<Rightarrow> cn_Human x | WORKLOAD \<Rightarrow> cn_Workload x | _ \<Rightarrow> None))"

definition type_duration :: "Session_Type \<Rightarrow> User_Spec_Session option \<Rightarrow> 64 word" where
  "type_duration t so =
     (case so of
        None \<Rightarrow> 0
      | Some x \<Rightarrow> (case t of CLIENTLESS \<Rightarrow> ToGo (uss_ClientlessDuration x) | CLIENT \<Rightarrow> ToGo (uss_ClientDuration x) | _ \<Rightarrow> 0))"

definition hour :: "64 word" where
  "hour = 3600000000000"

definition default_duration :: "User_Type \<Rightarrow> Session_Type \<Rightarrow> 64 word" where
  "default_duration ut t =
     (case ut of
        HUMAN \<Rightarrow> (case t of CLIENTLESS \<Rightarrow> hour * 16 | CLIENT \<Rightarrow> hour * 16 | _ \<Rightarrow> hour)
      | WORKLOAD \<Rightarrow> (case t of CLIENTLESS \<Rightarrow> hour * 2 | CLIENT \<Rightarrow> hour * 24 * 30 * 3 | _ \<Rightarrow> hour)
      | _ \<Rightarrow> 0)"

definition session_duration :: "User_Spec \<Rightarrow> ClusterConfig \<Rightarrow> Session_Type \<Rightarrow> 64 word" where
  "session_duration sp cc t =
     (let usrDuration = type_duration t (us_Session sp); ccDuration = type_duration t (cc_session cc (us_Type sp)) in
      if usrDuration \<noteq> 0 then usrDuration else if ccDuration \<noteq> 0 then ccDuration else default_duration (us_Type sp) t)"

definition own_state :: "User_Spec_Session option \<Rightarrow> Session_State" where
  "own_state so = (case so of None \<Rightarrow> STATE_UNKNOWN | Some x \<Rightarrow> uss_DefaultState x)"

definition session_state :: "User_Spec \<Rightarrow> ClusterConfig \<Rightarrow> Session_State" where
  "session_state sp cc =
     (if own_state (us_Session sp) \<noteq> STATE_UNKNOWN then own_state (us_Session sp)
      else if own_state (cc_session cc (us_Type sp)) \<noteq> STATE_UNKNOWN then own_state (cc_session cc (us_Type sp))
      else ACTIVE)"

definition session_expiry :: "timestamp \<Rightarrow> int \<Rightarrow> 64 word \<Rightarrow> int" where
  "session_expiry ex now d = (case ex of Some e \<Rightarrow> if now < e then e else now + sint d | None \<Rightarrow> now + sint d)"

text \<open>A duration for tokens counts when it is set and at least half an hour.\<close>

definition token_duration :: "(User_Spec_Session \<Rightarrow> Duration option) \<Rightarrow> User_Spec_Session option \<Rightarrow> Duration option" where
  "token_duration get so =
     (case so of
        None \<Rightarrow> None
      | Some x \<Rightarrow> (case get x of None \<Rightarrow> None | Some d \<Rightarrow> if 1800000000000 \<le>s ToGo (Some d) then Some d else None))"

definition or_else :: "'a option \<Rightarrow> 'a option \<Rightarrow> 'a option" where
  "or_else a b = (case a of None \<Rightarrow> b | _ \<Rightarrow> a)"

definition access_duration :: "User_Spec \<Rightarrow> ClusterConfig \<Rightarrow> Duration option" where
  "access_duration sp cc =
     or_else (token_duration uss_AccessTokenDuration (us_Session sp))
       (or_else (token_duration uss_AccessTokenDuration (cc_session cc (us_Type sp))) (Some (Hours 4)))"

definition refresh_duration :: "User_Spec \<Rightarrow> ClusterConfig \<Rightarrow> Duration option" where
  "refresh_duration sp cc =
     (let refresh =
        or_else (token_duration uss_RefreshTokenDuration (us_Session sp))
          (or_else (token_duration uss_RefreshTokenDuration (cc_session cc (us_Type sp)))
            (case us_Type sp of HUMAN \<Rightarrow> Some (Hours 18) | WORKLOAD \<Rightarrow> Some (Days 14) | _ \<Rightarrow> None)) in
      if ToGo refresh <s ToGo (access_duration sp cc) then access_duration sp cc else refresh)"

section \<open>Where a session comes from\<close>

definition forwarded_ip :: "string \<Rightarrow> ClusterConfig \<Rightarrow> string" where
  "forwarded_ip xff cc =
     (if xff \<noteq> [] \<and> (case ccs_Ingress (cc_Spec cc) of None \<Rightarrow> False | Some i \<Rightarrow> in_UseForwardedForHeader i)
      then GetDownstreamPublicIPFromXFFHeader xff else [])"

definition short_agent :: "string \<Rightarrow> string" where
  "short_agent ua = (if ua \<noteq> [] \<and> length ua < 220 then ua else [])"

definition client_version :: "string \<Rightarrow> string" where
  "client_version ua =
     (if short_agent ua = [] then []
      else
        (case Split ua CHR '' '' of
           [] \<Rightarrow> []
         | p # _ \<Rightarrow>
             if HasPrefix p ''octelium-cli/''
             then (case Split p CHR ''/'' of [a, b] \<Rightarrow> b | _ \<Rightarrow> [])
             else []))"

definition info_from :: "Authentication_Info_Downstream \<Rightarrow> Authentication_Info option \<Rightarrow> Authentication_Info option" where
  "info_from d = map_option (ai_Downstream_update (\<lambda>_. Some d))"

definition info_picture :: "Authentication_Info option \<Rightarrow> string" where
  "info_picture io =
     (case io of
        None \<Rightarrow> []
      | Some i \<Rightarrow> (case ai_Details i of Details_IdentityProvider d \<Rightarrow> ii_PicURL d | _ \<Rightarrow> []))"

section \<open>New sessions\<close>

definition new_session :: "session_env \<Rightarrow> CreateSessionOpts \<Rightarrow> ClusterConfig \<Rightarrow> Session" where
  "new_session N o' cc =
     (let usr = cs_Usr o'; sp = ur_Spec usr;
          auth = \<lparr>au_Info = info_from
                   \<lparr>ad_IpAddress = forwarded_ip (cs_XFF o') cc, ad_UserAgent = short_agent (cs_UserAgent o'),
                    ad_ClientVersion = client_version (cs_UserAgent o')\<rparr> (cs_AuthenticationInfo o'),
                  au_SetAt = Some (ne_Now N), au_TokenID = ne_TokenID N,
                  au_AccessTokenDuration = access_duration sp cc, au_RefreshTokenDuration = refresh_duration sp cc\<rparr> in
      \<lparr>se_ApiVersion = [], se_Kind = [],
       se_Metadata = no_metadata\<lparr>md_Name := md_Name (ur_Metadata usr) @ ''-'' @ ne_NameEnd N,
         md_PicURL := info_picture (cs_AuthenticationInfo o')\<rparr>,
       se_Spec =
         \<lparr>ss_ExpiresAt = Some (session_expiry (cs_ExpiresAt o') (ne_Now N) (session_duration sp cc (cs_SessType o'))),
          ss_State = session_state sp cc, ss_Authorization = cs_Authorization o'\<rparr>,
       se_Status =
         \<lparr>st_UserRef = GetObjectReference (ur_ApiVersion usr) (ur_Kind usr) (Some (ur_Metadata usr)),
          st_DeviceRef = (case cs_Device o' of None \<Rightarrow> None
             | Some d \<Rightarrow> GetObjectReference (dv_ApiVersion d) (dv_Kind d) (Some (dv_Metadata d))),
          st_Type = cs_SessType o', st_IsBrowser = cs_IsBrowser o', st_Authentication = Some auth, st_LastAuthentications = [],
          st_InitialAuthentication = Some auth, st_IsConnected = False, st_Connection = None, st_CredentialRef = cs_CredentialRef o',
          st_Ext = cs_Ext o', st_TotalAuthentications = 1, st_Scopes = cs_Scopes o', st_TotalConnections = 0, st_LastConnections = [],
          st_IsLocked = False, st_AuthenticatorAction = cs_AuthenticatorAction o',
          st_RequiredAuthenticatorRef = cs_RequiredAuthenticatorRef o'\<rparr>\<rparr>)"

definition given_config ::
  "('s, ClusterConfig) client \<Rightarrow> CreateSessionOpts \<Rightarrow> 's \<Rightarrow> ClusterConfig go \<times> 's" where
  "given_config Cc o' s =
     (case cs_ClusterConfig o' of
        Some cc \<Rightarrow> (Ok cc, s)
      | None \<Rightarrow> on_err InternalWithErr (cl_Get Cc (by_name ''default'') s))"

definition NewSession :: "session_env \<Rightarrow> ('s, ClusterConfig) client \<Rightarrow> CreateSessionOpts \<Rightarrow> 's \<Rightarrow> Session go \<times> 's" where
  "NewSession N Cc o' s = go_seq (given_config Cc o' s) (\<lambda>cc s. (Ok (new_session N o' cc), s))"

section \<open>The limit on the sessions of a user\<close>

definition positive_max :: "User_Spec_Session option \<Rightarrow> 32 word" where
  "positive_max so = (case so of None \<Rightarrow> 0 | Some x \<Rightarrow> uss_MaxPerUser x)"

definition max_sessions :: "User_Spec \<Rightarrow> ClusterConfig \<Rightarrow> 32 word" where
  "max_sessions sp cc =
     (let maxSess =
        (if positive_max (us_Session sp) > 0 then positive_max (us_Session sp)
         else
           (case us_Type sp of
              HUMAN \<Rightarrow> (let m = positive_max (cc_session cc HUMAN) in if m > 0 then m else 16)
            | WORKLOAD \<Rightarrow> (let m = positive_max (cc_session cc WORKLOAD) in if m > 0 then m else 128)
            | USER_TYPE_UNKNOWN \<Rightarrow> (let m = positive_max (cc_session cc WORKLOAD) in if m > 0 then m else 128)
            | _ \<Rightarrow> 0)) in
      if maxSess > 10000 then 10000 else maxSess)"

definition checkMaxSessionsPerUser :: "('s, Session) client \<Rightarrow> User \<Rightarrow> ClusterConfig \<Rightarrow> 's \<Rightarrow> unit go \<times> 's" where
  "checkMaxSessionsPerUser C usr cc s =
     go_seq (on_err InternalWithErr (cl_List C (FilterByUser usr) s)) (\<lambda>sessList s.
     (reject_if (max_sessions (ur_Spec usr) cc \<le> of_nat (length sessList)) Unauthorized, s))"

definition CreateSession ::
  "session_env \<Rightarrow> ('s, Session) client \<Rightarrow> ('s, ClusterConfig) client \<Rightarrow> CreateSessionOpts \<Rightarrow> 's \<Rightarrow> Session go \<times> 's" where
  "CreateSession N C Cc o' s =
     go_seq (given_config Cc o' s) (\<lambda>cc s.
     go_seq (if cs_CheckPerUserLimit o' then checkMaxSessionsPerUser C (cs_Usr o') cc s else (Ok (), s)) (\<lambda>_ s.
     go_seq (NewSession N Cc (o'\<lparr>cs_ClusterConfig := Some cc\<rparr>) s) (\<lambda>sess s.
     on_err InternalWithErr (cl_Create C sess s))))"

section \<open>A new authentication of a session\<close>

definition push_authentication :: "Session_Status_Authentication option \<Rightarrow> Session_Status_Authentication list \<Rightarrow> Session_Status_Authentication list" where
  "push_authentication a xs = (case a of None \<Rightarrow> xs | Some x \<Rightarrow> x # (if 100 \<le> length xs then take 98 xs else xs))"

definition prependAuthenticationToLastArray :: "Session \<Rightarrow> Session" where
  "prependAuthenticationToLastArray sess =
     sess\<lparr>se_Status := (se_Status sess)\<lparr>st_LastAuthentications :=
       push_authentication (st_Authentication (se_Status sess)) (st_LastAuthentications (se_Status sess))\<rparr>\<rparr>"

text \<open>The durations are those of the first authentication; a session without one makes the call panic.\<close>

definition SetCurrAuthentication ::
  "session_env \<Rightarrow> Session \<Rightarrow> Authentication_Info option \<Rightarrow> string \<Rightarrow> ClusterConfig \<Rightarrow> string \<Rightarrow> Session go" where
  "SetCurrAuthentication N sess authInfo userAgent cc xff =
     go_map (\<lambda>initial.
       let old = prependAuthenticationToLastArray sess;
           resp = \<lparr>au_Info = info_from
                     \<lparr>ad_IpAddress = forwarded_ip xff cc, ad_UserAgent = short_agent userAgent, ad_ClientVersion = []\<rparr> authInfo,
                   au_SetAt = Some (ne_Now N), au_TokenID = ne_TokenID N,
                   au_AccessTokenDuration = au_AccessTokenDuration initial, au_RefreshTokenDuration = au_RefreshTokenDuration initial\<rparr> in
       old\<lparr>se_Status := (se_Status old)\<lparr>st_Authentication := Some resp,
         st_TotalAuthentications := st_TotalAuthentications (se_Status old) + 1\<rparr>\<rparr>)
       (deref (st_InitialAuthentication (se_Status sess)))"

end
