(* ===== verification/Jwkctl.thy ===== *)
theory Jwkctl imports Base64 Corev1Credentials Sessionc Ucorev1Config begin

text \<open>
  \<open>cluster/common/jwkctl\<close>: the keys that sign the tokens of the cluster, kept in step with the root secrets, and the
  tokens themselves. A token is the base64 form of a format byte and a signed message. A call reads
  the clock as one instant.
\<close>

section \<open>Libraries\<close>

text \<open>A private key by its kind.\<close>

datatype signer = Ed25519_Key string | Ecdsa_Key string | Rsa_Key string

text \<open>
  The libraries: the validators, UUIDs and their 16 bytes, the wire format of messages, signatures, PEM blocks and
  the formats of keys. A key in PKCS8 format that cannot sign is \<open>None\<close>; \<open>te_KeyPEM\<close> is what a new key
  for a root secret is written as, and \<open>te_NameEnd\<close> the random end of its name.
\<close>

record token_env =
  te_V :: validators
  te_MustParse :: "string \<Rightarrow> string go"
  te_FromBytes :: "string \<Rightarrow> string go"
  te_MarshalContent :: "TokenT0_Content \<Rightarrow> string go"
  te_Marshal :: "TokenT0 \<Rightarrow> string go"
  te_Unmarshal :: "string \<Rightarrow> TokenT0 go"
  te_Sign :: "string \<Rightarrow> string \<Rightarrow> string"
  te_Verify :: "string \<Rightarrow> string \<Rightarrow> string \<Rightarrow> bool"
  te_PemDecode :: "string \<Rightarrow> (string \<times> string) option"
  te_PKCS8 :: "string \<Rightarrow> signer option go"
  te_EC :: "string \<Rightarrow> signer go"
  te_PKCS1 :: "string \<Rightarrow> signer go"
  te_Validate :: "signer \<Rightarrow> unit go"
  te_KeyPEM :: "string go"
  te_NameEnd :: string

section \<open>Keys\<close>

text \<open>A PKCS8 key that cannot sign gives a nil key and no error.\<close>

definition ParsePrivateKeyPEM :: "token_env \<Rightarrow> string \<Rightarrow> signer option go" where
  "ParsePrivateKeyPEM E keyBytes =
     (case te_PemDecode E keyBytes of
        None \<Rightarrow> Fail (Errorf ''error decoding private key PEM block'')
      | Some (blockType, b) \<Rightarrow>
          if blockType = ''PRIVATE KEY'' then te_PKCS8 E b
          else if blockType = ''EC PRIVATE KEY'' then go_map Some (te_EC E b)
          else if blockType = ''RSA PRIVATE KEY'' then
            go_bind (te_PKCS1 E b) (\<lambda>key. go_bind (te_Validate E key) (\<lambda>_. Ok (Some key)))
          else Fail (Errorf ''unknown private key type''))"

record jwtKey =
  jk_key :: "signer option"
  jk_createdAt :: int
  jk_uid :: string

type_synonym keyMap = "(string \<times> jwtKey) list"

definition isJWKSecret :: "Secret \<Rightarrow> bool" where
  "isJWKSecret s \<longleftrightarrow> map_of (md_SystemLabels (sec_Metadata s)) ''octelium-root-secret'' = Some ''true''"

definition jwk_of :: "Secret \<Rightarrow> signer option \<Rightarrow> jwtKey" where
  "jwk_of s key =
     \<lparr>jk_key = key, jk_createdAt = AsTime (md_CreatedAt (sec_Metadata s)), jk_uid = md_Uid (sec_Metadata s)\<rparr>"

definition setKey :: "token_env \<Rightarrow> Secret \<Rightarrow> keyMap \<Rightarrow> unit go \<times> keyMap" where
  "setKey E s m =
     (if \<not> isJWKSecret s then (Ok (), m)
      else
        go_seq (ParsePrivateKeyPEM E (GetValueStr s), m) (\<lambda>key m.
        (Ok (), AList.update (md_Uid (sec_Metadata s)) (jwk_of s key) m)))"

definition onAddSecret :: "token_env \<Rightarrow> Secret \<Rightarrow> keyMap \<Rightarrow> unit go \<times> keyMap" where
  "onAddSecret E s m = setKey E s m"

definition onUpdateSecret :: "token_env \<Rightarrow> Secret \<Rightarrow> Secret \<Rightarrow> keyMap \<Rightarrow> unit go \<times> keyMap" where
  "onUpdateSecret E new old m = setKey E new m"

definition onDeleteSecret :: "Secret \<Rightarrow> keyMap \<Rightarrow> unit go \<times> keyMap" where
  "onDeleteSecret s m = (Ok (), if \<not> isJWKSecret s then m else AList.delete (md_Uid (sec_Metadata s)) m)"

text \<open>The loop over the keys, in the order in which the map yields them.\<close>

fun newest :: "jwtKey option \<Rightarrow> jwtKey list \<Rightarrow> jwtKey option" where
  "newest ret [] = ret"
| "newest None (k # ks) = newest (Some k) ks"
| "newest (Some r) (k # ks) = newest (Some (if jk_createdAt r < jk_createdAt k then k else r)) ks"

definition chooseJWK :: "keyMap \<Rightarrow> jwtKey go" where
  "chooseJWK m =
     (if length m < 1 then Fail (Errorf ''Could not find a JWK'')
      else (case newest None (map snd m) of None \<Rightarrow> Fail (Errorf ''Could not find a JWK'') | Some k \<Rightarrow> Ok k))"

definition findKeyByUID :: "token_env \<Rightarrow> keyMap \<Rightarrow> string \<Rightarrow> jwtKey go" where
  "findKeyByUID E m uid =
     go_bind (reject_if (\<not> IsUUIDv4 (te_V E) uid) (Errorf ''Invalid uid'')) (\<lambda>_.
     case map_of m uid of Some k \<Rightarrow> Ok k | None \<Rightarrow> Fail (Errorf ''Cannot find key of kid''))"

section \<open>The controller\<close>

record Controller =
  jc_keyMap :: keyMap
  jc_domain :: string

definition root_labels :: "(string \<times> string) list" where
  "root_labels = [(''octelium-root-secret'', ''true'')]"

definition CreateJWKSecret :: "token_env \<Rightarrow> ('s, Secret) client \<Rightarrow> 's \<Rightarrow> Secret go \<times> 's" where
  "CreateJWKSecret E C s =
     go_seq (te_KeyPEM E, s) (\<lambda>privPEM s.
     cl_Create C
       \<lparr>sec_ApiVersion = [], sec_Kind = [], sec_Metadata = no_metadata\<lparr>md_Name := ''sys:root-secret-'' @ te_NameEnd E,
          md_SystemLabels := [(''octelium-root-secret'', ''true''), (''type'', ''ed25519'')],
          md_IsSystem := True, md_IsSystemHidden := True, md_IsUserHidden := True\<rparr>,
        sec_Spec_Data = None, sec_Data = Some (ValueBytes privPEM)\<rparr> s)"

fun set_keys :: "token_env \<Rightarrow> Secret list \<Rightarrow> keyMap \<Rightarrow> keyMap go" where
  "set_keys E [] m = Ok m"
| "set_keys E (s # ss) m =
     (case setKey E s m of (Ok _, m') \<Rightarrow> set_keys E ss m' | (Fail e, _) \<Rightarrow> Fail e | (Panic, _) \<Rightarrow> Panic)"

definition list_root_secrets :: "('s, Secret) client \<Rightarrow> 's \<Rightarrow> Secret list go \<times> 's" where
  "list_root_secrets C s = cl_List C (no_list_options\<lparr>lo_SystemLabels := root_labels\<rparr>) s"

definition NewJWKController ::
  "token_env \<Rightarrow> ('s, Secret) client \<Rightarrow> ('s, ClusterConfig) client \<Rightarrow> 's \<Rightarrow> Controller go \<times> 's" where
  "NewJWKController E C Cc s =
     go_seq (list_root_secrets C s) (\<lambda>found s.
     go_seq
       (if length found < 1 then go_seq (CreateJWKSecret E C s) (\<lambda>_ s. list_root_secrets C s) else (Ok found, s)) (\<lambda>secrets s.
     go_seq (set_keys E secrets [], s) (\<lambda>m s.
     go_seq (cl_Get Cc (by_name ''default'') s) (\<lambda>cc s.
     (Ok \<lparr>jc_keyMap = m, jc_domain = cc_Domain cc\<rparr>, s)))))"

text \<open>While it runs, the controller follows the secrets; an error of a handler is logged and changes nothing.\<close>

definition jwk_event :: "token_env \<Rightarrow> Secret watch \<Rightarrow> keyMap \<Rightarrow> keyMap" where
  "jwk_event E ev m =
     snd (case ev of
        OnAdd x \<Rightarrow> onAddSecret E x m
      | OnUpdate new old \<Rightarrow> onUpdateSecret E new old m
      | OnDelete x \<Rightarrow> onDeleteSecret x m)"

section \<open>Making tokens\<close>

definition whole_second :: "int \<Rightarrow> int" where
  "whole_second t = t div 1000000000 * 1000000000"

text \<open>An expiry is cut to the second; one that has passed is refused.\<close>

definition expiry_of :: "int \<Rightarrow> timestamp \<Rightarrow> timestamp go" where
  "expiry_of now ex =
     (case ex of
        None \<Rightarrow> Ok None
      | Some t \<Rightarrow> if t < now then Fail (Errorf ''expiresAt is already exceeded'') else Ok (Some (whole_second t)))"

definition ed25519_key :: "jwtKey \<Rightarrow> string go" where
  "ed25519_key k = (case jk_key k of Some (Ed25519_Key x) \<Rightarrow> Ok x | _ \<Rightarrow> Panic)"

definition createToken :: "token_env \<Rightarrow> int \<Rightarrow> keyMap \<Rightarrow> TokenT0_Content \<Rightarrow> string go" where
  "createToken E now m content =
     go_bind (chooseJWK m) (\<lambda>key.
     go_bind (te_MustParse E (jk_uid key)) (\<lambda>kid.
     go_bind (expiry_of now (tk_ExpiresAt content)) (\<lambda>ex.
     let c = content\<lparr>tk_KeyID := kid, tk_ExpiresAt := ex\<rparr> in
     go_bind (te_MarshalContent E c) (\<lambda>contentBytes.
     go_bind (ed25519_key key) (\<lambda>priv.
     go_bind (te_Marshal E \<lparr>tk_Signature = te_Sign E priv contentBytes, tk_Content = Some c\<rparr>) (\<lambda>tknBytes.
     Ok (EncodeToString (CHR 0x01 # tknBytes))))))))"

text \<open>What the tokens of a session are made from.\<close>

definition authentication_of :: "Session option \<Rightarrow> (Session \<times> Session_Status_Authentication) go" where
  "authentication_of sess =
     (case sess of
        None \<Rightarrow> Fail (Errorf ''Session authentication field is not set'')
      | Some x \<Rightarrow>
          (case st_Authentication (se_Status x) of
             None \<Rightarrow> Fail (Errorf ''Session authentication field is not set'')
           | Some a \<Rightarrow>
               (case au_SetAt a of
                  None \<Rightarrow> Fail (Errorf ''Session authentication field is not set'')
                | Some t \<Rightarrow>
                    if au_TokenID a = [] then Fail (Errorf ''Session authentication field is not set'') else Ok (x, a))))"

definition session_token ::
  "token_env \<Rightarrow> int \<Rightarrow> keyMap \<Rightarrow> TokenT0_Content_Type \<Rightarrow> (Session_Status_Authentication \<Rightarrow> Duration option) \<Rightarrow> Session option \<Rightarrow> string go"
where
  "session_token E now m ty dur sess =
     go_bind (authentication_of sess) (\<lambda>(x, a).
     go_bind (te_MustParse E (md_Uid (se_Metadata x))) (\<lambda>subject.
     go_bind (te_MustParse E (au_TokenID a)) (\<lambda>tokenID.
     createToken E now m
       \<lparr>tk_Type = ty, tk_KeyID = [], tk_Subject = subject, tk_TokenID = tokenID,
        tk_ExpiresAt = Some (token_end a (dur a))\<rparr>)))"

definition CreateAccessToken :: "token_env \<Rightarrow> int \<Rightarrow> keyMap \<Rightarrow> Session option \<Rightarrow> string go" where
  "CreateAccessToken E now m sess = session_token E now m ACCESS_TOKEN_T0 au_AccessTokenDuration sess"

definition CreateRefreshToken :: "token_env \<Rightarrow> int \<Rightarrow> keyMap \<Rightarrow> Session option \<Rightarrow> string go" where
  "CreateRefreshToken E now m sess = session_token E now m REFRESH_TOKEN_T0 au_RefreshTokenDuration sess"

text \<open>
  The caller's credential shares its expiry with the message, so that the expiry of the credential in
  memory is cut to the second too; no caller reads it afterwards.
\<close>

definition CreateCredential :: "token_env \<Rightarrow> int \<Rightarrow> keyMap \<Rightarrow> Credential option \<Rightarrow> string go" where
  "CreateCredential E now m cred =
     (case cred of
        None \<Rightarrow> Fail (Errorf ''tokenID must be set'')
      | Some x \<Rightarrow>
          if crt_TokenID (cr_Status x) = [] then Fail (Errorf ''tokenID must be set'')
          else
            go_bind (te_MustParse E (md_Uid (cr_Metadata x))) (\<lambda>subject.
            go_bind (te_MustParse E (crt_TokenID (cr_Status x))) (\<lambda>tokenID.
            createToken E now m
              \<lparr>tk_Type = CREDENTIAL_T0, tk_KeyID = [], tk_Subject = subject, tk_TokenID = tokenID,
               tk_ExpiresAt = crs_ExpiresAt (cr_Spec x)\<rparr>)))"

section \<open>Reading tokens\<close>

definition token_char :: "char \<Rightarrow> bool" where
  "token_char c \<longleftrightarrow>
     (CHR ''A'' \<le> c \<and> c \<le> CHR ''Z'') \<or> (CHR ''a'' \<le> c \<and> c \<le> CHR ''z'') \<or> (CHR ''0'' \<le> c \<and> c \<le> CHR ''9'') \<or>
     c = CHR ''-'' \<or> c = CHR ''_''"

definition rgxT0 :: "string \<Rightarrow> bool" where
  "rgxT0 s \<longleftrightarrow> 150 \<le> length s \<and> length s \<le> 220 \<and> list_all token_char s"

definition getUID :: "token_env \<Rightarrow> string \<Rightarrow> string go" where
  "getUID E b =
     go_bind (reject_if (length b \<noteq> 16) (Errorf ''Invalid uid'')) (\<lambda>_.
     go_bind (te_FromBytes E b) (\<lambda>ret.
     go_bind (reject_if (\<not> IsUUIDv4 (te_V E) ret) (Errorf ''Invalid uid'')) (\<lambda>_. Ok ret)))"

definition not_expired :: "int \<Rightarrow> timestamp \<Rightarrow> unit go" where
  "not_expired now ex = (case ex of None \<Rightarrow> Ok () | Some t \<Rightarrow> reject_if (t < now) (Errorf ''Token is expired''))"

text \<open>The bytes of a token, and the checks of what they hold.\<close>

definition token_bytes :: "string \<Rightarrow> string go" where
  "token_bytes tknStr =
     go_bind (reject_if (length tknStr = 0) (Errorf ''Empty token'')) (\<lambda>_.
     go_bind (reject_if (length tknStr < 140) (Errorf ''Token is too short'')) (\<lambda>_.
     go_bind (reject_if (300 < length tknStr) (Errorf ''Token is too large'')) (\<lambda>_.
     go_bind (reject_if (\<not> rgxT0 tknStr) (Errorf ''Invalid token'')) (\<lambda>_.
     go_bind (map_err (\<lambda>_. Errorf ''Could not decode token'') (DecodeString tknStr)) (\<lambda>bytes.
     go_bind (reject_if (length bytes < 100 \<or> 200 < length bytes) (Errorf ''Invalid token bytes'')) (\<lambda>_.
     go_bind (nth_go bytes 0) (\<lambda>b.
     go_bind (reject_if (b \<noteq> CHR 0x01) (Errorf ''Invalid token type'')) (\<lambda>_.
     Ok (tl bytes)))))))))"

definition check_token :: "token_env \<Rightarrow> int \<Rightarrow> keyMap \<Rightarrow> TokenT0 \<Rightarrow> TokenT0_Content go" where
  "check_token E now m tkn =
     go_bind (reject_if (length (tk_Signature tkn) = 0) (Errorf ''No signature'')) (\<lambda>_.
     case tk_Content tkn of
       None \<Rightarrow> Fail (Errorf ''No content'')
     | Some c \<Rightarrow>
         go_bind (getUID E (tk_KeyID c)) (\<lambda>keyUID.
         go_bind (findKeyByUID E m keyUID) (\<lambda>key.
         go_bind (te_MarshalContent E c) (\<lambda>contentByte.
         go_bind (ed25519_key key) (\<lambda>priv.
         go_bind (reject_if (\<not> te_Verify E priv contentByte (tk_Signature tkn)) (Errorf ''Invalid signature'')) (\<lambda>_.
         go_bind (getUID E (tk_Subject c)) (\<lambda>_.
         go_bind (getUID E (tk_TokenID c)) (\<lambda>_.
         go_bind (reject_if (tk_Type c = TOKEN_UNKNOWN) (Errorf ''Unknown token type'')) (\<lambda>_.
         go_bind (not_expired now (tk_ExpiresAt c)) (\<lambda>_. Ok c))))))))))"

definition parseToken :: "token_env \<Rightarrow> int \<Rightarrow> keyMap \<Rightarrow> string \<Rightarrow> TokenT0_Content go" where
  "parseToken E now m tknStr =
     go_bind (token_bytes tknStr) (\<lambda>b. go_bind (te_Unmarshal E b) (\<lambda>tkn. check_token E now m tkn))"

definition verifyToken :: "token_env \<Rightarrow> int \<Rightarrow> keyMap \<Rightarrow> string \<Rightarrow> TokenT0_Content_Type \<Rightarrow> (string \<times> string) go" where
  "verifyToken E now m tknStr ty =
     go_bind (parseToken E now m tknStr) (\<lambda>c.
     go_bind (getUID E (tk_Subject c)) (\<lambda>subject.
     go_bind (getUID E (tk_TokenID c)) (\<lambda>tokenID.
     go_bind (reject_if (tk_Type c \<noteq> ty) (Errorf ''The token type is not as expected'')) (\<lambda>_.
     Ok (subject, tokenID)))))"

record RefreshTokenClaims =
  rf_SessionUID :: string
  rf_TokenID :: string

record CredentialClaims =
  cl_UID :: string
  cl_TokenID :: string

definition VerifyAccessToken :: "token_env \<Rightarrow> int \<Rightarrow> keyMap \<Rightarrow> string \<Rightarrow> AccessTokenClaims go" where
  "VerifyAccessToken E now m tknStr =
     go_map (\<lambda>(s, t). \<lparr>tc_SessionUID = s, tc_TokenID = t\<rparr>) (verifyToken E now m tknStr ACCESS_TOKEN_T0)"

definition VerifyRefreshToken :: "token_env \<Rightarrow> int \<Rightarrow> keyMap \<Rightarrow> string \<Rightarrow> RefreshTokenClaims go" where
  "VerifyRefreshToken E now m tknStr =
     go_map (\<lambda>(s, t). \<lparr>rf_SessionUID = s, rf_TokenID = t\<rparr>) (verifyToken E now m tknStr REFRESH_TOKEN_T0)"

definition VerifyCredential :: "token_env \<Rightarrow> int \<Rightarrow> keyMap \<Rightarrow> string \<Rightarrow> CredentialClaims go" where
  "VerifyCredential E now m tknStr =
     go_map (\<lambda>(s, t). \<lparr>cl_UID = s, cl_TokenID = t\<rparr>) (verifyToken E now m tknStr CREDENTIAL_T0)"

end
