(* ===== verification/JwkctlFacts.thy ===== *)
theory JwkctlFacts imports Jwkctl begin

text \<open>
  What the tokens of \<open>cluster/common/jwkctl\<close> guarantee: a token that verifies was signed with a key that the controller has,
  is of the kind that was asked for and has not expired, and the token made for a session verifies as that session's
  until it expires. Over the laws of the libraries: wire format, signatures, UUIDs. And what the map of keys holds after any events:
  the last event that tells of a UID decides.
\<close>

section \<open>Accepted tokens\<close>

definition accepted :: "token_env \<Rightarrow> int \<Rightarrow> keyMap \<Rightarrow> string \<Rightarrow> TokenT0_Content \<Rightarrow> bool" where
  "accepted E now m tknStr c \<longleftrightarrow>
     (\<exists>b sig kid key priv bytes.
        token_bytes tknStr = Ok b \<and> te_Unmarshal E b = Ok \<lparr>tk_Signature = sig, tk_Content = Some c\<rparr> \<and>
        getUID E (tk_KeyID c) = Ok kid \<and> map_of m kid = Some key \<and> jk_key key = Some (Ed25519_Key priv) \<and>
        te_MarshalContent E c = Ok bytes \<and> te_Verify E priv bytes sig) \<and>
     (\<forall>t. tk_ExpiresAt c = Some t \<longrightarrow> now \<le> t)"

lemma ed25519_key_Ok: "ed25519_key k = Ok x \<longleftrightarrow> jk_key k = Some (Ed25519_Key x)"
  by (auto simp: ed25519_key_def split: option.splits signer.splits)

lemma findKeyByUID_Ok: "findKeyByUID E m u = Ok k \<longleftrightarrow> IsUUIDv4 (te_V E) u \<and> map_of m u = Some k"
  by (auto simp: findKeyByUID_def split: option.splits)

lemma not_expired_Ok: "not_expired now ex = Ok u \<longleftrightarrow> (\<forall>t. ex = Some t \<longrightarrow> now \<le> t)"
  by (auto simp: not_expired_def split: option.splits)

lemma parseToken_accepted:
  assumes "parseToken E now m tknStr = Ok c"
  shows "accepted E now m tknStr c"
proof -
  from assms obtain b tkn where b: "token_bytes tknStr = Ok b" "te_Unmarshal E b = Ok tkn" "check_token E now m tkn = Ok c"
    by (auto simp: parseToken_def)
  then obtain kid key priv bytes where "tk_Content tkn = Some c" "getUID E (tk_KeyID c) = Ok kid" "map_of m kid = Some key"
    "jk_key key = Some (Ed25519_Key priv)" "te_MarshalContent E c = Ok bytes" "te_Verify E priv bytes (tk_Signature tkn)"
    "not_expired now (tk_ExpiresAt c) = Ok ()"
    by (auto simp: check_token_def ed25519_key_Ok findKeyByUID_Ok split: option.splits)
  moreover from this have "te_Unmarshal E b = Ok \<lparr>tk_Signature = tk_Signature tkn, tk_Content = Some c\<rparr>"
    using b(2) by (cases tkn) simp
  ultimately show ?thesis using b(1) unfolding accepted_def not_expired_Ok by blast
qed

lemma verifyToken_Ok:
  assumes "verifyToken E now m tknStr ty = Ok (subject, tokenID)"
  shows "\<exists>c. parseToken E now m tknStr = Ok c \<and> getUID E (tk_Subject c) = Ok subject \<and> getUID E (tk_TokenID c) = Ok tokenID \<and> tk_Type c = ty"
  using assms by (auto simp: verifyToken_def)

text \<open>A token holds one message, whoever reads it and whenever.\<close>

lemma accepted_unique: "accepted E now m s c \<Longrightarrow> accepted E now' m' s c' \<Longrightarrow> c = c'"
  by (auto simp: accepted_def)

lemma verifyToken_type:
  assumes "verifyToken E now m s ty = Ok x" and "verifyToken E now' m' s ty' = Ok y"
  shows "ty = ty'"
  using assms verifyToken_Ok [of E now m s ty "fst x" "snd x"] verifyToken_Ok [of E now' m' s ty' "fst y" "snd y"]
    accepted_unique parseToken_accepted by (metis prod.collapse)

section \<open>The keys of a controller\<close>

text \<open>A UID in the form in which \<open>uuid\<close> writes it.\<close>

definition uid_ok :: "token_env \<Rightarrow> string \<Rightarrow> bool" where
  "uid_ok E u \<longleftrightarrow> (\<exists>b. te_MustParse E u = Ok b \<and> getUID E b = Ok u)"

definition keys_ok :: "token_env \<Rightarrow> keyMap \<Rightarrow> bool" where
  "keys_ok E m \<longleftrightarrow> distinct (map fst m) \<and> (\<forall>(u, k)\<in>set m. jk_uid k = u \<and> uid_ok E u)"

lemma getUID_Ok: "getUID E b = Ok u \<longleftrightarrow> length b = 16 \<and> te_FromBytes E b = Ok u \<and> IsUUIDv4 (te_V E) u"
  by (auto simp: getUID_def)

lemma keys_ok_empty: "keys_ok E []"
  by (simp add: keys_ok_def)

lemma set_update: "(u, k) \<in> set (AList.update x y m) \<Longrightarrow> (u, k) = (x, y) \<or> (u, k) \<in> set m"
  by (induction m) (auto split: if_splits)

lemma setKey_keys_ok:
  assumes "keys_ok E m" and "uid_ok E (md_Uid (sec_Metadata s))"
  shows "keys_ok E (snd (setKey E s m))"
  using assms set_update
  by (cases "ParsePrivateKeyPEM E (GetValueStr s)")
    (fastforce simp: setKey_def keys_ok_def distinct_update jwk_of_def)+

lemma onDeleteSecret_keys_ok: "keys_ok E m \<Longrightarrow> keys_ok E (snd (onDeleteSecret s m))"
  by (auto simp: onDeleteSecret_def keys_ok_def AList.delete_eq distinct_map_filter)

text \<open>The secrets whose keys an event stores.\<close>

fun stored_by :: "Secret watch \<Rightarrow> Secret set" where
  "stored_by (OnAdd x) = {x}"
| "stored_by (OnUpdate new old) = {new}"
| "stored_by (OnDelete x) = {}"

lemma jwk_event_keys_ok:
  assumes "keys_ok E m" and "\<And>s. s \<in> stored_by ev \<Longrightarrow> isJWKSecret s \<Longrightarrow> uid_ok E (md_Uid (sec_Metadata s))"
  shows "keys_ok E (jwk_event E ev m)"
proof -
  have "keys_ok E (snd (setKey E s m))" if "s \<in> stored_by ev" for s
  proof (cases "isJWKSecret s")
    case True
    show ?thesis by (rule setKey_keys_ok [OF assms(1) assms(2) [OF that True]])
  qed (use assms(1) in \<open>simp add: setKey_def\<close>)
  then show ?thesis
    using onDeleteSecret_keys_ok [OF assms(1)] by (cases ev) (auto simp: jwk_event_def onAddSecret_def onUpdateSecret_def)
qed

text \<open>A key that is gone comes back only with its secret.\<close>

lemma setKey_others:
  "\<not> (isJWKSecret s \<and> md_Uid (sec_Metadata s) = u) \<Longrightarrow> map_of (snd (setKey E s m)) u = map_of m u"
  by (cases "ParsePrivateKeyPEM E (GetValueStr s)") (auto simp: setKey_def update_conv')

lemma jwk_event_none:
  assumes "map_of m u = None" and "\<And>s. s \<in> stored_by ev \<Longrightarrow> \<not> (isJWKSecret s \<and> md_Uid (sec_Metadata s) = u)"
  shows "map_of (jwk_event E ev m) u = None"
  using assms setKey_others
  by (cases ev) (auto simp: jwk_event_def onAddSecret_def onUpdateSecret_def onDeleteSecret_def delete_conv')

lemma jwk_events_none:
  "map_of m u = None \<Longrightarrow> (\<And>ev s. ev \<in> set evs \<Longrightarrow> s \<in> stored_by ev \<Longrightarrow> \<not> (isJWKSecret s \<and> md_Uid (sec_Metadata s) = u)) \<Longrightarrow>
    map_of (fold (jwk_event E) evs m) u = None"
proof (induction evs arbitrary: m)
  case (Cons ev evs)
  have "map_of (jwk_event E ev m) u = None"
    by (rule jwk_event_none [OF Cons.prems(1)]) (use Cons.prems(2) in auto)
  from Cons.IH [OF this] Cons.prems(2) show ?case by auto
qed simp

text \<open>
  What an event says of the key of a UID: nothing, that it is gone, or that it is the one in the secret. A secret whose key
  cannot be read says nothing.
\<close>

definition key_in :: "token_env \<Rightarrow> string \<Rightarrow> Secret \<Rightarrow> jwtKey option" where
  "key_in E u s =
     (if isJWKSecret s \<and> md_Uid (sec_Metadata s) = u
      then (case ParsePrivateKeyPEM E (GetValueStr s) of
              Ok key \<Rightarrow> Some \<lparr>jk_key = key, jk_createdAt = AsTime (md_CreatedAt (sec_Metadata s)), jk_uid = u\<rparr>
            | _ \<Rightarrow> None)
      else None)"

fun told :: "token_env \<Rightarrow> string \<Rightarrow> Secret watch \<Rightarrow> jwtKey option option" where
  "told E u (OnAdd s) = map_option Some (key_in E u s)"
| "told E u (OnUpdate new old) = map_option Some (key_in E u new)"
| "told E u (OnDelete s) = (if isJWKSecret s \<and> md_Uid (sec_Metadata s) = u then Some None else None)"

lemma setKey_map_of:
  "map_of (snd (setKey E s m)) u = (case key_in E u s of None \<Rightarrow> map_of m u | Some k \<Rightarrow> Some k)"
  by (cases "ParsePrivateKeyPEM E (GetValueStr s)") (auto simp: setKey_def key_in_def update_conv' jwk_of_def)

lemma jwk_event_map_of:
  "map_of (jwk_event E ev m) u = (case told E u ev of None \<Rightarrow> map_of m u | Some r \<Rightarrow> r)"
  by (cases ev)
    (auto simp: jwk_event_def onAddSecret_def onUpdateSecret_def onDeleteSecret_def delete_conv' setKey_map_of split: option.splits)

text \<open>The last event that says anything of a UID decides.\<close>

lemma jwk_events_map_of:
  "map_of (fold (jwk_event E) evs m) u = Some k \<longleftrightarrow>
     (\<exists>pre ev post. evs = pre @ ev # post \<and> told E u ev = Some (Some k) \<and> (\<forall>e\<in>set post. told E u e = None)) \<or>
     (map_of m u = Some k \<and> (\<forall>e\<in>set evs. told E u e = None))"
proof (induction evs rule: rev_induct)
  case (snoc ev evs)
  have split: "(\<exists>pre e post. evs @ [ev] = pre @ e # post \<and> P e \<and> (\<forall>x\<in>set post. Q x)) \<longleftrightarrow>
      P ev \<or> (Q ev \<and> (\<exists>pre e post. evs = pre @ e # post \<and> P e \<and> (\<forall>x\<in>set post. Q x)))" for P Q
  proof
    assume "\<exists>pre e post. evs @ [ev] = pre @ e # post \<and> P e \<and> (\<forall>x\<in>set post. Q x)"
    then obtain pre e post where h: "evs @ [ev] = pre @ e # post" "P e" "\<forall>x\<in>set post. Q x" by blast
    then show "P ev \<or> (Q ev \<and> (\<exists>pre e post. evs = pre @ e # post \<and> P e \<and> (\<forall>x\<in>set post. Q x)))"
      by (cases post rule: rev_cases) auto
  next
    assume "P ev \<or> (Q ev \<and> (\<exists>pre e post. evs = pre @ e # post \<and> P e \<and> (\<forall>x\<in>set post. Q x)))"
    then show "\<exists>pre e post. evs @ [ev] = pre @ e # post \<and> P e \<and> (\<forall>x\<in>set post. Q x)"
    proof (elim disjE conjE exE)
      assume "P ev"
      then show ?thesis by (intro exI [of _ evs] exI [of _ ev] exI [of _ "[]"]) simp
    next
      fix pre e post assume "Q ev" "evs = pre @ e # post" "P e" "\<forall>x\<in>set post. Q x"
      then show ?thesis by (intro exI [of _ pre] exI [of _ e] exI [of _ "post @ [ev]"]) auto
    qed
  qed
  show ?case
    unfolding split using snoc.IH by (auto simp: jwk_event_map_of split: option.splits)
qed simp

lemma set_keys_events: "set_keys E secrets m = Ok m' \<Longrightarrow> m' = fold (jwk_event E) (map OnAdd secrets) m"
  by (induction E secrets m rule: set_keys.induct) (auto simp: jwk_event_def onAddSecret_def split: prod.splits go.splits)

lemma jwk_event_distinct: "distinct (map fst m) \<Longrightarrow> distinct (map fst (jwk_event E ev m))"
proof -
  have "distinct (map fst m) \<Longrightarrow> distinct (map fst (snd (setKey E s m)))" for s
    by (cases "ParsePrivateKeyPEM E (GetValueStr s)") (auto simp: setKey_def distinct_update)
  then show "distinct (map fst m) \<Longrightarrow> distinct (map fst (jwk_event E ev m))"
    by (cases ev) (auto simp: jwk_event_def onAddSecret_def onUpdateSecret_def onDeleteSecret_def AList.delete_eq distinct_map_filter)
qed

lemma jwk_events_distinct: "distinct (map fst m) \<Longrightarrow> distinct (map fst (fold (jwk_event E) evs m))"
  by (induction evs arbitrary: m) (simp_all add: jwk_event_distinct)

lemma newest_in: "newest r ks = Some k \<Longrightarrow> r = Some k \<or> k \<in> set ks"
  by (induction r ks rule: newest.induct) (auto split: if_splits)

lemma newest_exists: "r \<noteq> None \<or> ks \<noteq> [] \<Longrightarrow> newest r ks \<noteq> None"
  by (induction r ks rule: newest.induct) auto

text \<open>The key that is chosen is none older than the others, in whatever order the map yields them.\<close>

lemma newest_max:
  "newest r ks = Some k \<Longrightarrow> x \<in> set ks \<or> r = Some x \<Longrightarrow> jk_createdAt x \<le> jk_createdAt k"
  by (induction r ks arbitrary: x rule: newest.induct) (fastforce split: if_splits)+

lemma chooseJWK_Ok: "chooseJWK m = Ok k \<Longrightarrow> \<exists>u. (u, k) \<in> set m"
  using newest_in [of None "map snd m" k] by (auto simp: chooseJWK_def split: if_splits option.splits)

text \<open>The key that a token names, and what becomes of tokens whose key is gone.\<close>

definition key_named :: "token_env \<Rightarrow> string \<Rightarrow> string \<Rightarrow> bool" where
  "key_named E u tkn \<longleftrightarrow>
     (\<exists>b sig c. token_bytes tkn = Ok b \<and> te_Unmarshal E b = Ok \<lparr>tk_Signature = sig, tk_Content = Some c\<rparr> \<and>
       getUID E (tk_KeyID c) = Ok u)"

lemma key_gone_refused:
  assumes "key_named E u tkn" and "map_of m u = None"
  shows "\<not> is_ok (verifyToken E now m tkn ty)"
proof
  assume "is_ok (verifyToken E now m tkn ty)"
  then obtain x where "verifyToken E now m tkn ty = Ok (fst x, snd x)" by (auto simp: is_ok_iff)
  from verifyToken_Ok [OF this] obtain c where "accepted E now m tkn c" using parseToken_accepted by blast
  with assms show False by (auto simp: key_named_def accepted_def)
qed

section \<open>Tokens of the libraries\<close>

text \<open>
  What the code relies on: the wire format gives back the message that was written, in the sizes that the
  parser expects of messages with identifiers of 16 bytes, and a key verifies its own signatures, of 64 bytes.
\<close>

definition id_bytes :: "TokenT0_Content \<Rightarrow> bool" where
  "id_bytes c \<longleftrightarrow> length (tk_KeyID c) = 16 \<and> length (tk_Subject c) = 16 \<and> length (tk_TokenID c) = 16"

lemma dash_chars: "char_of (45 :: nat) = CHR ''-''" "char_of (95 :: nat) = CHR ''_''"
  by (simp_all add: char_of_def bit_Suc_0_iff)

locale tokens =
  fixes E :: token_env
  assumes wire: "te_Marshal E t = Ok b \<Longrightarrow> te_Unmarshal E b = Ok t"
    and size: "te_Marshal E \<lparr>tk_Signature = sig, tk_Content = Some c\<rparr> = Ok b \<Longrightarrow> id_bytes c \<Longrightarrow> length sig = 64 \<Longrightarrow>
      111 \<le> length b \<and> length b \<le> 164"
    and signed: "te_Verify E k x (te_Sign E k x) \<and> length (te_Sign E k x) = 64"
begin

lemma token_bytes_encoded:
  assumes "111 \<le> length b" "length b \<le> 164"
  shows "token_bytes (EncodeToString (CHR 0x01 # b)) = Ok b"
proof -
  have "token_char (b64_char n)" if "n < 64" for n
    using that by (auto simp: token_char_def b64_char_def less_eq_char_def of_char_of dash_chars)
  then have "rgxT0 (EncodeToString (CHR 0x01 # b))"
    using assms bytes_of_values [of "map of_char (CHR 0x01 # b)"]
    by (auto simp: rgxT0_def EncodeToString_def values_length list_all_iff)
  then show ?thesis
    using assms by (auto simp: token_bytes_def decode_encode nth_go_def map_err_def reject_if_def rgxT0_def)
qed

lemma created_Ok:
  assumes "createToken E now m c0 = Ok tkn" and "keys_ok E m" and "length (tk_Subject c0) = 16" "length (tk_TokenID c0) = 16"
  shows "\<exists>b sig u kid key priv bytes ex. token_bytes tkn = Ok b \<and>
    te_Unmarshal E b = Ok \<lparr>tk_Signature = sig, tk_Content = Some (c0\<lparr>tk_KeyID := kid, tk_ExpiresAt := ex\<rparr>)\<rparr> \<and> sig \<noteq> [] \<and>
    getUID E kid = Ok u \<and> map_of m u = Some key \<and> jk_key key = Some (Ed25519_Key priv) \<and> expiry_of now (tk_ExpiresAt c0) = Ok ex \<and>
    te_MarshalContent E (c0\<lparr>tk_KeyID := kid, tk_ExpiresAt := ex\<rparr>) = Ok bytes \<and> te_Verify E priv bytes sig \<and>
    chooseJWK m = Ok key \<and> jk_uid key = u"
proof -
  from assms(1) obtain key kid ex bytes priv b where k: "chooseJWK m = Ok key" "te_MustParse E (jk_uid key) = Ok kid"
    "expiry_of now (tk_ExpiresAt c0) = Ok ex" "ed25519_key key = Ok priv" and
    bytes: "te_MarshalContent E (c0\<lparr>tk_KeyID := kid, tk_ExpiresAt := ex\<rparr>) = Ok bytes" and
    b: "te_Marshal E \<lparr>tk_Signature = te_Sign E priv bytes, tk_Content = Some (c0\<lparr>tk_KeyID := kid, tk_ExpiresAt := ex\<rparr>)\<rparr> = Ok b" and
    tkn: "tkn = EncodeToString (CHR 0x01 # b)"
    by (auto simp: createToken_def Let_def)
  obtain u where "(u, key) \<in> set m" using chooseJWK_Ok [OF k(1)] by blast
  then have "map_of m u = Some key" "uid_ok E u" "jk_uid key = u" using assms(2) by (auto simp: keys_ok_def)
  then have u: "map_of m u = Some key" "getUID E kid = Ok u" "jk_uid key = u" using k(2) by (auto simp: uid_ok_def)
  then have "id_bytes (c0\<lparr>tk_KeyID := kid, tk_ExpiresAt := ex\<rparr>)" using assms(3,4) by (simp add: id_bytes_def getUID_Ok)
  from size [OF b this] have "token_bytes tkn = Ok b" using token_bytes_encoded signed tkn by simp
  moreover have "te_Sign E priv bytes \<noteq> []" using signed [of priv bytes] by auto
  ultimately show ?thesis
    using wire [OF b] u k(1,3,4) bytes signed unfolding ed25519_key_Ok by blast
qed

lemma created_names_key:
  assumes "createToken E now m c0 = Ok tkn" and "keys_ok E m" and "length (tk_Subject c0) = 16" "length (tk_TokenID c0) = 16"
    and "chooseJWK m = Ok k"
  shows "key_named E (jk_uid k) tkn"
proof -
  from created_Ok [OF assms(1-4)] assms(5) obtain b sig kid ex where "token_bytes tkn = Ok b"
    "te_Unmarshal E b = Ok \<lparr>tk_Signature = sig, tk_Content = Some (c0\<lparr>tk_KeyID := kid, tk_ExpiresAt := ex\<rparr>)\<rparr>" "getUID E kid = Ok (jk_uid k)"
    by auto
  then show ?thesis unfolding key_named_def by force
qed

text \<open>A token that has been made is read back for what it is, by every controller that still has the key, until it expires.\<close>

lemma created_verifies:
  assumes made: "createToken E now m c0 = Ok tkn" and m: "keys_ok E m" "map_of m \<subseteq>\<^sub>m map_of m'"
    and ids: "getUID E (tk_Subject c0) = Ok s" "getUID E (tk_TokenID c0) = Ok t" and ty: "tk_Type c0 \<noteq> TOKEN_UNKNOWN"
    and live: "\<And>x. tk_ExpiresAt c0 = Some x \<Longrightarrow> now' \<le> whole_second x"
  shows "verifyToken E now' m' tkn ty = (if ty = tk_Type c0 then Ok (s, t) else Fail (Errorf ''The token type is not as expected''))"
proof -
  have len: "length (tk_Subject c0) = 16" "length (tk_TokenID c0) = 16" using ids by (simp_all add: getUID_Ok)
  from created_Ok [OF made m(1) len] obtain b sig u kid key priv bytes ex where
    b: "token_bytes tkn = Ok b" "te_Unmarshal E b = Ok \<lparr>tk_Signature = sig, tk_Content = Some (c0\<lparr>tk_KeyID := kid, tk_ExpiresAt := ex\<rparr>)\<rparr>" and
    u: "sig \<noteq> []" "getUID E kid = Ok u" "map_of m u = Some key" "jk_key key = Some (Ed25519_Key priv)" and
    ex: "expiry_of now (tk_ExpiresAt c0) = Ok ex" and
    bytes: "te_MarshalContent E (c0\<lparr>tk_KeyID := kid, tk_ExpiresAt := ex\<rparr>) = Ok bytes" "te_Verify E priv bytes sig"
    by blast
  have "map_of m' u = Some key" using m(2) u(3) by (metis domI map_le_def)
  then have "findKeyByUID E m' u = Ok key" using u(2) by (simp add: findKeyByUID_Ok getUID_Ok)
  moreover have "not_expired now' ex = Ok ()"
    using ex live by (auto simp: not_expired_Ok expiry_of_def split: option.splits if_splits)
  ultimately have "parseToken E now' m' tkn = Ok (c0\<lparr>tk_KeyID := kid, tk_ExpiresAt := ex\<rparr>)"
    using b u bytes ids ty by (simp add: parseToken_def check_token_def ed25519_key_Ok reject_if_def)
  then show ?thesis
    using ids by (simp add: verifyToken_def reject_if_def)
qed

text \<open>Whatever becomes of the keys, a token never verifies for another session or authentication.\<close>

lemma session_token_claims:
  assumes made: "session_token E now m ty dur (Some sess) = Ok tkn" and m: "keys_ok E m"
    and a: "st_Authentication (se_Status sess) = Some a"
    and ids: "uid_ok E (md_Uid (se_Metadata sess))" "uid_ok E (au_TokenID a)"
    and v: "verifyToken E now' m' tkn ty' = Ok (s, t)"
  shows "s = md_Uid (se_Metadata sess) \<and> t = au_TokenID a"
proof -
  from made a obtain sb tb where b: "te_MustParse E (md_Uid (se_Metadata sess)) = Ok sb" "te_MustParse E (au_TokenID a) = Ok tb" and
    made: "createToken E now m \<lparr>tk_Type = ty, tk_KeyID = [], tk_Subject = sb, tk_TokenID = tb,
      tk_ExpiresAt = Some (token_end a (dur a))\<rparr> = Ok tkn"
    by (auto simp: session_token_def authentication_of_def split: option.splits if_splits)
  from b ids have u: "getUID E sb = Ok (md_Uid (se_Metadata sess))" "getUID E tb = Ok (au_TokenID a)" by (auto simp: uid_ok_def)
  then have len: "length sb = 16" "length tb = 16" by (simp_all add: getUID_Ok)
  obtain bs sig kid ex where bs: "token_bytes tkn = Ok bs"
    "te_Unmarshal E bs = Ok \<lparr>tk_Signature = sig, tk_Content = Some \<lparr>tk_Type = ty, tk_KeyID = kid, tk_Subject = sb, tk_TokenID = tb, tk_ExpiresAt = ex\<rparr>\<rparr>"
    using created_Ok [OF made m] len by auto
  obtain c where c: "parseToken E now' m' tkn = Ok c" "getUID E (tk_Subject c) = Ok s" "getUID E (tk_TokenID c) = Ok t"
    using verifyToken_Ok [OF v] by blast
  then have "c = \<lparr>tk_Type = ty, tk_KeyID = kid, tk_Subject = sb, tk_TokenID = tb, tk_ExpiresAt = ex\<rparr>"
    using parseToken_accepted [OF c(1)] bs by (auto simp: accepted_def)
  with c u show ?thesis by simp
qed

lemma session_token_verifies:
  assumes made: "session_token E now m ty dur (Some sess) = Ok tkn" and m: "keys_ok E m" "map_of m \<subseteq>\<^sub>m map_of m'"
    and a: "st_Authentication (se_Status sess) = Some a"
    and ids: "uid_ok E (md_Uid (se_Metadata sess))" "uid_ok E (au_TokenID a)" and ty: "ty \<noteq> TOKEN_UNKNOWN"
    and live: "now' \<le> whole_second (token_end a (dur a))"
  shows "verifyToken E now' m' tkn ty' =
    (if ty' = ty then Ok (md_Uid (se_Metadata sess), au_TokenID a) else Fail (Errorf ''The token type is not as expected''))"
proof -
  from made a obtain s t where s: "te_MustParse E (md_Uid (se_Metadata sess)) = Ok s" "te_MustParse E (au_TokenID a) = Ok t" and
    made: "createToken E now m \<lparr>tk_Type = ty, tk_KeyID = [], tk_Subject = s, tk_TokenID = t,
      tk_ExpiresAt = Some (token_end a (dur a))\<rparr> = Ok tkn"
    by (auto simp: session_token_def authentication_of_def split: option.splits if_splits)
  from s ids have "getUID E s = Ok (md_Uid (se_Metadata sess))" "getUID E t = Ok (au_TokenID a)" by (auto simp: uid_ok_def)
  then show ?thesis
    using created_verifies [OF made m, of "md_Uid (se_Metadata sess)" "au_TokenID a" now' ty'] ty live by auto
qed

end

end
