(* ===== verification/TokenWire.thy ===== *)
theory TokenWire imports JwkctlFacts begin

text \<open>
  An instance of the libraries that the tokens rely on: the wire format of protocol buffers for the messages of a token
  (field numbers and wire types of \<open>authv1.pb.go\<close>), UUIDs and their bytes, and a stand-in for signatures. It meets
  the laws of \<open>tokens\<close>. Its encoder refuses what the format has no name for here: a type by a number that has a
  name, and times before 1970 or after \<open>2 ^ 40\<close> seconds.
\<close>

section \<open>Fields\<close>

datatype wire_field = Varint nat nat | Len nat "nat list"

fun varint :: "nat \<Rightarrow> nat list" where
  "varint n = (if n < 128 then [n] else (128 + n mod 128) # varint (n div 128))"

declare varint.simps [simp del]

fun read_varint :: "nat list \<Rightarrow> (nat \<times> nat list) option" where
  "read_varint [] = None"
| "read_varint (b # bs) =
     (if b < 128 then Some (b, bs)
      else (case read_varint bs of None \<Rightarrow> None | Some (n, r) \<Rightarrow> Some (b - 128 + 128 * n, r)))"

fun put_field :: "wire_field \<Rightarrow> nat list" where
  "put_field (Varint f n) = varint (f * 8) @ varint n"
| "put_field (Len f bs) = varint (f * 8 + 2) @ varint (length bs) @ bs"

definition read_field :: "nat list \<Rightarrow> (wire_field \<times> nat list) option" where
  "read_field bs =
     (case read_varint bs of
        None \<Rightarrow> None
      | Some (tag, r) \<Rightarrow>
          (case read_varint r of
             None \<Rightarrow> None
           | Some (n, r) \<Rightarrow>
               if tag mod 8 = 0 then Some (Varint (tag div 8) n, r)
               else if tag mod 8 = 2 \<and> n \<le> length r then Some (Len (tag div 8) (take n r), drop n r)
               else None))"

fun read_fields :: "nat \<Rightarrow> nat list \<Rightarrow> wire_field list option" where
  "read_fields k [] = Some []"
| "read_fields 0 (b # bs) = None"
| "read_fields (Suc k) (b # bs) =
     (case read_field (b # bs) of
        None \<Rightarrow> None
      | Some (f, r) \<Rightarrow> (case read_fields k r of None \<Rightarrow> None | Some fs \<Rightarrow> Some (f # fs)))"

definition put_fields :: "wire_field list \<Rightarrow> nat list" where
  "put_fields fs = concat (map put_field fs)"

lemma varint_bytes: "\<forall>b\<in>set (varint n). b < 256"
  by (induction n rule: varint.induct) (subst varint.simps, auto)

lemma read_varint_put: "read_varint (varint n @ r) = Some (n, r)"
proof (induction n rule: varint.induct)
  case (1 n)
  then show ?case by (subst varint.simps) auto
qed

lemma varint_not_empty [simp]: "varint n \<noteq> []"
  by (subst varint.simps) simp

lemma varint_length: "n < 128 ^ k \<Longrightarrow> 0 < k \<Longrightarrow> length (varint n) \<le> k"
proof (induction n arbitrary: k rule: varint.induct)
  case (1 n)
  show ?case
  proof (cases "n < 128")
    case False
    with 1(2,3) obtain j where j: "k = Suc j" "0 < j" by (cases k; cases "k - 1") auto
    with 1(2) have "n div 128 < 128 ^ j" by (simp add: less_mult_imp_div_less mult.commute)
    then show ?thesis using 1(1) [OF False _ j(2)] False j by (subst varint.simps) simp
  qed (use 1(3) in \<open>subst varint.simps, simp\<close>)
qed

lemma len_tag: "(f * 8 + 2) mod 8 = 2" "(f * 8 + 2) div 8 = (f :: nat)"
  by presburger+

lemma read_field_put: "read_field (put_field f @ r) = Some (f, r)"
  by (cases f) (simp_all add: read_field_def read_varint_put len_tag del: add_2_eq_Suc')

lemma put_field_not_empty: "put_field f \<noteq> []"
  by (cases f) simp_all

lemma read_fields_put: "length fs \<le> k \<Longrightarrow> read_fields k (put_fields fs) = Some fs"
proof (induction fs arbitrary: k)
  case (Cons f fs)
  then obtain j where j: "k = Suc j" "length fs \<le> j" by (cases k) auto
  obtain b bs where b: "put_field f @ put_fields fs = b # bs" using put_field_not_empty [of f] by (cases "put_field f") auto
  then have "read_fields k (b # bs) = Some (f # fs)"
    using Cons.IH [OF j(2)] read_field_put [of f "put_fields fs"] j(1) by simp
  then show ?case using b by (simp add: put_fields_def)
qed (simp add: put_fields_def)

lemma fields_fit: "length fs \<le> length (put_fields fs)"
proof (induction fs)
  case (Cons f fs)
  have "1 \<le> length (put_field f)" using put_field_not_empty [of f] by (cases "put_field f") auto
  with Cons show ?case by (simp add: put_fields_def)
qed (simp add: put_fields_def)

section \<open>Messages\<close>

definition bytes_of :: "string \<Rightarrow> nat list" where
  "bytes_of = map of_char"

definition text_of :: "nat list \<Rightarrow> string" where
  "text_of = map char_of"

lemma text_of_bytes [simp]: "text_of (bytes_of s) = s"
  by (simp add: text_of_def bytes_of_def comp_def)

definition len_field :: "nat \<Rightarrow> string \<Rightarrow> wire_field list" where
  "len_field f s = (if s = [] then [] else [Len f (bytes_of s)])"

definition num_field :: "nat \<Rightarrow> nat \<Rightarrow> wire_field list" where
  "num_field f n = (if n = 0 then [] else [Varint f n])"

fun type_number :: "TokenT0_Content_Type \<Rightarrow> nat option" where
  "type_number TOKEN_UNKNOWN = Some 0"
| "type_number ACCESS_TOKEN_T0 = Some 1"
| "type_number REFRESH_TOKEN_T0 = Some 2"
| "type_number CREDENTIAL_T0 = Some 3"
| "type_number (Other_TokenType k) = (if 3 < k \<and> k < 128 then Some (nat k) else None)"

definition type_named :: "nat \<Rightarrow> TokenT0_Content_Type" where
  "type_named n =
     (if n = 0 then TOKEN_UNKNOWN else if n = 1 then ACCESS_TOKEN_T0 else if n = 2 then REFRESH_TOKEN_T0
      else if n = 3 then CREDENTIAL_T0 else Other_TokenType (int n))"

lemma type_named_number: "type_number t = Some n \<Longrightarrow> type_named n = t \<and> n < 128"
  by (cases t) (auto simp: type_named_def split: if_splits)

definition time_body :: "int \<Rightarrow> wire_field list" where
  "time_body t = num_field 1 (nat (t div 1000000000)) @ num_field 2 (nat (t mod 1000000000))"

definition time_fields :: "timestamp \<Rightarrow> wire_field list option" where
  "time_fields ex =
     (case ex of
        None \<Rightarrow> Some []
      | Some t \<Rightarrow>
          if 0 \<le> t \<and> t div 1000000000 < 2 ^ 40
          then Some [Len 5 (put_fields (time_body t))]
          else None)"

definition content_fields :: "TokenT0_Content \<Rightarrow> wire_field list option" where
  "content_fields c =
     (case (type_number (tk_Type c), time_fields (tk_ExpiresAt c)) of
        (Some n, Some ts) \<Rightarrow>
          Some (num_field 1 n @ len_field 2 (tk_KeyID c) @ len_field 3 (tk_Subject c) @ len_field 4 (tk_TokenID c) @ ts)
      | _ \<Rightarrow> None)"

text \<open>A later field replaces an earlier one, and fields with other numbers are skipped.\<close>

fun last_len :: "nat \<Rightarrow> wire_field list \<Rightarrow> nat list option" where
  "last_len f [] = None"
| "last_len f (Varint g n # fs) = last_len f fs"
| "last_len f (Len g bs # fs) = (case last_len f fs of Some x \<Rightarrow> Some x | None \<Rightarrow> if g = f then Some bs else None)"

fun last_num :: "nat \<Rightarrow> wire_field list \<Rightarrow> nat option" where
  "last_num f [] = None"
| "last_num f (Len g bs # fs) = last_num f fs"
| "last_num f (Varint g n # fs) = (case last_num f fs of Some x \<Rightarrow> Some x | None \<Rightarrow> if g = f then Some n else None)"

definition num_of :: "nat option \<Rightarrow> nat" where
  "num_of x = (case x of None \<Rightarrow> 0 | Some n \<Rightarrow> n)"

definition str_of :: "nat list option \<Rightarrow> string" where
  "str_of x = (case x of None \<Rightarrow> [] | Some b \<Rightarrow> text_of b)"

definition read_message :: "nat list \<Rightarrow> wire_field list option" where
  "read_message bs = read_fields (length bs) bs"

lemma read_message_put [simp]: "read_message (put_fields fs) = Some fs"
  by (simp add: read_message_def read_fields_put fields_fit)

definition read_time :: "wire_field list \<Rightarrow> timestamp option" where
  "read_time fs =
     (case last_len 5 fs of
        None \<Rightarrow> Some None
      | Some bs \<Rightarrow>
          (case read_message bs of
             None \<Rightarrow> None
           | Some ts \<Rightarrow> Some (Some (int (num_of (last_num 1 ts)) * 1000000000 + int (num_of (last_num 2 ts))))))"

definition content_of :: "wire_field list \<Rightarrow> TokenT0_Content option" where
  "content_of fs =
     (case read_time fs of
        None \<Rightarrow> None
      | Some ex \<Rightarrow>
          Some \<lparr>tk_Type = type_named (num_of (last_num 1 fs)), tk_KeyID = str_of (last_len 2 fs), tk_Subject = str_of (last_len 3 fs),
            tk_TokenID = str_of (last_len 4 fs), tk_ExpiresAt = ex\<rparr>)"

definition marshal_error :: error where
  "marshal_error = Errorf ''marshal''"

definition put_content :: "TokenT0_Content \<Rightarrow> nat list go" where
  "put_content c = (case content_fields c of None \<Rightarrow> Fail marshal_error | Some fs \<Rightarrow> Ok (put_fields fs))"

definition wire_content :: "TokenT0_Content \<Rightarrow> string go" where
  "wire_content c = go_map text_of (put_content c)"

definition wire_token :: "TokenT0 \<Rightarrow> string go" where
  "wire_token t =
     go_map (\<lambda>c. text_of (put_fields (len_field 1 (tk_Signature t) @ c)))
       (case tk_Content t of None \<Rightarrow> Ok [] | Some c \<Rightarrow> go_map (\<lambda>b. [Len 2 b]) (put_content c))"

definition unwire_token :: "string \<Rightarrow> TokenT0 go" where
  "unwire_token s =
     (case read_message (bytes_of s) of
        None \<Rightarrow> Fail (Errorf ''unmarshal'')
      | Some fs \<Rightarrow>
          (case last_len 2 fs of
             None \<Rightarrow> Ok \<lparr>tk_Signature = str_of (last_len 1 fs), tk_Content = None\<rparr>
           | Some b \<Rightarrow>
               (case read_message b of
                  None \<Rightarrow> Fail (Errorf ''unmarshal'')
                | Some cs \<Rightarrow>
                    (case content_of cs of
                       None \<Rightarrow> Fail (Errorf ''unmarshal'')
                     | Some c \<Rightarrow> Ok \<lparr>tk_Signature = str_of (last_len 1 fs), tk_Content = Some c\<rparr>))))"

section \<open>Reading back\<close>

lemma bytes_of_text: "\<forall>b\<in>set bs. b < 256 \<Longrightarrow> bytes_of (text_of bs) = bs"
  by (induction bs) (simp_all add: bytes_of_def text_of_def of_char_of)

fun bytes_field :: "wire_field \<Rightarrow> bool" where
  "bytes_field (Varint f n) = True"
| "bytes_field (Len f bs) = (\<forall>b\<in>set bs. b < 256)"

lemma put_field_bytes: "bytes_field f \<Longrightarrow> \<forall>b\<in>set (put_field f). b < 256"
  using varint_bytes by (cases f) auto

lemma put_fields_bytes: "list_all bytes_field fs \<Longrightarrow> \<forall>b\<in>set (put_fields fs). b < 256"
  using put_field_bytes by (auto simp: put_fields_def list_all_iff)

lemma len_field_bytes [simp]: "list_all bytes_field (len_field f s)"
  by (auto simp: len_field_def bytes_of_def)

lemma num_field_bytes [simp]: "list_all bytes_field (num_field f n)"
  by (simp add: num_field_def)

lemma time_fields_bytes: "time_fields ex = Some ts \<Longrightarrow> list_all bytes_field ts"
  using put_fields_bytes [of "time_body (the ex)"] by (auto simp: time_fields_def time_body_def split: option.splits if_splits)

lemma put_content_bytes: "put_content c = Ok bs \<Longrightarrow> \<forall>b\<in>set bs. b < 256"
  using time_fields_bytes
  by (auto simp: put_content_def content_fields_def intro!: put_fields_bytes split: option.splits)

lemma last_len_append: "last_len f (xs @ ys) = (case last_len f ys of None \<Rightarrow> last_len f xs | Some b \<Rightarrow> Some b)"
  by (induction f xs rule: last_len.induct) (auto split: option.splits)

lemma last_num_append: "last_num f (xs @ ys) = (case last_num f ys of None \<Rightarrow> last_num f xs | Some b \<Rightarrow> Some b)"
  by (induction f xs rule: last_num.induct) (auto split: option.splits)

lemma last_fields [simp]:
  "last_len f (len_field g s) = (if f = g \<and> s \<noteq> [] then Some (bytes_of s) else None)" "last_len f (num_field g n) = None"
  "last_num f (num_field g n) = (if f = g \<and> n \<noteq> 0 then Some n else None)" "last_num f (len_field g s) = None"
  by (simp_all add: len_field_def num_field_def)

lemma time_body_last:
  assumes "0 \<le> t"
  shows "int (num_of (last_num 1 (time_body t))) * 1000000000 + int (num_of (last_num 2 (time_body t))) = t"
proof -
  have "num_of (last_num 1 (time_body t)) = nat (t div 1000000000)" "num_of (last_num 2 (time_body t)) = nat (t mod 1000000000)"
    by (simp_all add: time_body_def last_num_append num_of_def)
  moreover have "0 \<le> t div 1000000000" using assms by (simp add: pos_imp_zdiv_nonneg_iff)
  ultimately show ?thesis by simp
qed

lemma time_fields_last:
  assumes "time_fields ex = Some ts"
  shows "last_num f ts = None" "f \<noteq> 5 \<Longrightarrow> last_len f ts = None" "last_len 5 xs = None \<Longrightarrow> read_time (xs @ ts) = Some ex"
proof -
  have "last_num f ts = None \<and> (f \<noteq> 5 \<longrightarrow> last_len f ts = None) \<and> (last_len 5 xs = None \<longrightarrow> read_time (xs @ ts) = Some ex)"
  proof (cases ex)
    case (Some t)
    then have "0 \<le> t" "ts = [Len 5 (put_fields (time_body t))]" using assms by (auto simp: time_fields_def split: if_splits)
    then show ?thesis using Some time_body_last [of t] by (simp add: read_time_def last_len_append)
  qed (use assms in \<open>simp add: time_fields_def read_time_def\<close>)
  then show "last_num f ts = None" "f \<noteq> 5 \<Longrightarrow> last_len f ts = None" "last_len 5 xs = None \<Longrightarrow> read_time (xs @ ts) = Some ex"
    by simp_all
qed

lemma content_of_fields:
  assumes "content_fields c = Some fs"
  shows "content_of fs = Some c"
proof -
  let ?xs = "\<lambda>n. num_field 1 n @ len_field 2 (tk_KeyID c) @ len_field 3 (tk_Subject c) @ len_field 4 (tk_TokenID c)"
  obtain n ts where n: "type_number (tk_Type c) = Some n" and ts: "time_fields (tk_ExpiresAt c) = Some ts" and fs: "fs = ?xs n @ ts"
    using assms by (auto simp: content_fields_def split: option.splits)
  have "read_time fs = Some (tk_ExpiresAt c)"
    unfolding fs by (rule time_fields_last(3) [OF ts]) (simp add: last_len_append)
  moreover have "num_of (last_num 1 fs) = n"
    by (simp add: fs last_num_append time_fields_last(1) [OF ts] num_of_def)
  moreover have "str_of (last_len 2 fs) = tk_KeyID c" "str_of (last_len 3 fs) = tk_Subject c" "str_of (last_len 4 fs) = tk_TokenID c"
    by (simp_all add: fs last_len_append time_fields_last(2) [OF ts] str_of_def)
  ultimately show ?thesis
    using type_named_number [OF n] by (simp add: content_of_def)
qed

lemma unwire_wire:
  assumes "wire_token t = Ok b"
  shows "unwire_token b = Ok t"
proof (cases "tk_Content t")
  case None
  then have "b = text_of (put_fields (len_field 1 (tk_Signature t)))" using assms by (simp add: wire_token_def)
  moreover from this have "bytes_of b = put_fields (len_field 1 (tk_Signature t))"
    using bytes_of_text put_fields_bytes len_field_bytes by metis
  ultimately show ?thesis
    using None by (cases t) (auto simp: unwire_token_def str_of_def)
next
  case (Some c)
  then obtain cb where cb: "put_content c = Ok cb" and b: "b = text_of (put_fields (len_field 1 (tk_Signature t) @ [Len 2 cb]))"
    using assms by (auto simp: wire_token_def)
  have "bytes_of b = put_fields (len_field 1 (tk_Signature t) @ [Len 2 cb])"
    unfolding b by (intro bytes_of_text put_fields_bytes) (use put_content_bytes [OF cb] in simp)
  moreover obtain fs where "content_fields c = Some fs" "cb = put_fields fs"
    using cb by (auto simp: put_content_def split: option.splits)
  ultimately show ?thesis
    using Some content_of_fields by (cases t) (auto simp: unwire_token_def last_len_append str_of_def)
qed

section \<open>Sizes\<close>

lemma put_fields_append: "put_fields (xs @ ys) = put_fields xs @ put_fields ys"
  by (simp add: put_fields_def)

lemma put_id: "length s = 16 \<Longrightarrow> f < 16 \<Longrightarrow> length (put_fields (len_field f s)) = 18"
  by (auto simp: len_field_def put_fields_def varint.simps bytes_of_def)

lemma put_num: "n < 128 ^ k \<Longrightarrow> 0 < k \<Longrightarrow> f < 16 \<Longrightarrow> length (put_fields (num_field f n)) \<le> 1 + k"
  using varint_length [of n k] by (auto simp: num_field_def put_fields_def varint.simps [of "f * 8"])

lemma put_time: "time_fields ex = Some ts \<Longrightarrow> length (put_fields ts) \<le> 15"
proof (cases ex)
  case (Some t)
  assume ts: "time_fields ex = Some ts"
  let ?f = "put_fields (time_body t)"
  have t: "0 \<le> t" "t div 1000000000 < 2 ^ 40" and ts: "ts = [Len 5 ?f]"
    using ts Some by (auto simp: time_fields_def split: if_splits)
  then have "nat (t div 1000000000) < 128 ^ 6" "nat (t mod 1000000000) < 128 ^ 5" by auto
  from put_num [OF this(1), of 1] put_num [OF this(2), of 2] have "length ?f \<le> 13" by (simp add: time_body_def put_fields_append)
  then show ?thesis
    using varint_length [of "length ?f" 1] by (simp add: ts put_fields_def varint.simps [of 42])
qed (simp add: time_fields_def put_fields_def)

lemma wire_size:
  assumes "wire_token \<lparr>tk_Signature = sig, tk_Content = Some c\<rparr> = Ok b" and "id_bytes c" and "length sig = 64"
  shows "111 \<le> length b \<and> length b \<le> 164"
proof -
  from assms(1) obtain n ts cb where n: "type_number (tk_Type c) = Some n" "time_fields (tk_ExpiresAt c) = Some ts" and
    cb: "cb = put_fields (num_field 1 n @ len_field 2 (tk_KeyID c) @ len_field 3 (tk_Subject c) @ len_field 4 (tk_TokenID c) @ ts)" and
    b: "b = text_of (put_fields (len_field 1 sig @ [Len 2 cb]))"
    by (auto simp: wire_token_def put_content_def content_fields_def split: option.splits)
  have "n < 128 ^ 1" using type_named_number [OF n(1)] by simp
  from put_num [OF this, of 1] put_time [OF n(2)] assms(2) have "54 \<le> length cb" "length cb \<le> 71"
    by (simp_all add: cb put_id id_bytes_def put_fields_append)
  then show ?thesis
    using assms(3) by (auto simp: b text_of_def put_fields_def len_field_def bytes_of_def varint.simps)
qed

end
