(* ===== verification/TokenClaims.thy ===== *)
theory TokenClaims imports TokenWire OctovigilFacts begin

text \<open>
  The properties of the tokens of the cluster, with an instance of the libraries: the wire format of \<open>TokenWire\<close>, UUIDs
  as \<open>uuid\<close> reads and writes them, and a stand-in for signatures and for the format of keys.
\<close>

section \<open>UUIDs\<close>

definition hex_char :: "nat \<Rightarrow> char" where
  "hex_char n = ''0123456789abcdef'' ! n"

definition hex_digit :: "char \<Rightarrow> nat option" where
  "hex_digit c =
     (let n = of_char c in
      if 48 \<le> n \<and> n \<le> 57 then Some (n - 48) else if 97 \<le> n \<and> n \<le> 102 then Some (n - 87) else None)"

fun hex_bytes :: "string \<Rightarrow> string option" where
  "hex_bytes [] = Some []"
| "hex_bytes [c] = None"
| "hex_bytes (c # d # s) =
     (case (hex_digit c, hex_digit d, hex_bytes s) of
        (Some a, Some b, Some r) \<Rightarrow> Some (char_of (a * 16 + b) # r)
      | _ \<Rightarrow> None)"

definition uuid_groups :: "string \<Rightarrow> string list" where
  "uuid_groups h = [take 8 h, take 4 (drop 8 h), take 4 (drop 12 h), take 4 (drop 16 h), drop 20 h]"

definition uuid_String :: "string \<Rightarrow> string go" where
  "uuid_String b =
     (if length b = 16
      then
        Ok (case uuid_groups (concat (map (\<lambda>c. [hex_char (of_char c div 16), hex_char (of_char c mod 16)]) b)) of
              g # gs \<Rightarrow> g @ concat (map (Cons CHR ''-'') gs) | [] \<Rightarrow> [])
      else Fail (Errorf ''invalid UUID''))"

definition uuid_MustParse :: "string \<Rightarrow> string go" where
  "uuid_MustParse s =
     (if length s = 36 \<and> list_all (\<lambda>i. s ! i = CHR ''-'') [8, 13, 18, 23]
      then (case hex_bytes (filter (\<lambda>c. c \<noteq> CHR ''-'') s) of
              Some b \<Rightarrow> if length b = 16 then Ok b else Panic
            | None \<Rightarrow> Panic)
      else Panic)"

definition uuid_v4 :: "string \<Rightarrow> bool" where
  "uuid_v4 s \<longleftrightarrow> is_ok (uuid_MustParse s) \<and> s ! 14 = CHR ''4'' \<and> s ! 19 \<in> {CHR ''8'', CHR ''9'', CHR ''a'', CHR ''b''}"

section \<open>The instance\<close>

definition stand_in_signature :: "string \<Rightarrow> string \<Rightarrow> string" where
  "stand_in_signature k x = take 64 (k @ x @ replicate 64 CHR ''.'')"

definition wire_env :: token_env where
  "wire_env =
     \<lparr>te_V = ascii_validators\<lparr>IsUUIDv4 := uuid_v4\<rparr>, te_MustParse = uuid_MustParse, te_FromBytes = uuid_String,
      te_MarshalContent = wire_content, te_Marshal = wire_token, te_Unmarshal = unwire_token,
      te_Sign = stand_in_signature, te_Verify = (\<lambda>k x s. s = stand_in_signature k x),
      te_PemDecode = (\<lambda>s. Some (''PRIVATE KEY'', s)), te_PKCS8 = (\<lambda>b. Ok (Some (Ed25519_Key b))),
      te_EC = (\<lambda>b. Ok (Ecdsa_Key b)), te_PKCS1 = (\<lambda>b. Ok (Rsa_Key b)), te_Validate = (\<lambda>k. Ok ()),
      te_KeyPEM = Ok ''seed'', te_NameEnd = ''abcdefgh''\<rparr>"

lemma wire_env_simps [simp]:
  "IsUUIDv4 (te_V wire_env) = uuid_v4" "te_MustParse wire_env = uuid_MustParse" "te_FromBytes wire_env = uuid_String"
  "te_MarshalContent wire_env = wire_content" "te_Marshal wire_env = wire_token" "te_Unmarshal wire_env = unwire_token"
  "te_Sign wire_env = stand_in_signature" "te_Verify wire_env k x s \<longleftrightarrow> s = stand_in_signature k x"
  "te_PemDecode wire_env s = Some (''PRIVATE KEY'', s)" "te_PKCS8 wire_env b = Ok (Some (Ed25519_Key b))"
  by (simp_all add: wire_env_def)

interpretation wire: tokens wire_env
proof
  show "te_Marshal wire_env t = Ok b \<Longrightarrow> te_Unmarshal wire_env b = Ok t" for t b
    by (simp add: unwire_wire)
  show "te_Marshal wire_env \<lparr>tk_Signature = sig, tk_Content = Some c\<rparr> = Ok b \<Longrightarrow> id_bytes c \<Longrightarrow> length sig = 64 \<Longrightarrow>
      111 \<le> length b \<and> length b \<le> 164" for sig c b
    using wire_size by simp
qed (simp add: stand_in_signature_def)

definition key_uid :: string where
  "key_uid = ''3f2b8c1e-5d4a-4f6b-9a7c-0e1d2c3b4a59''"

definition sess_uid :: string where
  "sess_uid = ''a1b2c3d4-e5f6-4a7b-8c9d-0e1f2a3b4c5d''"

definition token_uid :: string where
  "token_uid = ''0f1e2d3c-4b5a-4697-8879-6a5b4c3d2e1f''"

lemma key_uid_bytes:
  "uuid_MustParse key_uid = Ok (map char_of ([63, 43, 140, 30, 93, 74, 79, 107, 154, 124, 14, 29, 44, 59, 74, 89] :: nat list))"
  by (simp add: uuid_MustParse_def key_uid_def hex_digit_def Let_def)

lemma key_uid_text: "uuid_String (map char_of ([63, 43, 140, 30, 93, 74, 79, 107, 154, 124, 14, 29, 44, 59, 74, 89] :: nat list)) = Ok key_uid"
  by (simp add: uuid_String_def uuid_groups_def hex_char_def key_uid_def of_char_of)

lemma sess_uid_bytes:
  "uuid_MustParse sess_uid = Ok (map char_of ([161, 178, 195, 212, 229, 246, 74, 123, 140, 157, 14, 31, 42, 59, 76, 93] :: nat list))"
  by (simp add: uuid_MustParse_def sess_uid_def hex_digit_def Let_def)

lemma sess_uid_text: "uuid_String (map char_of ([161, 178, 195, 212, 229, 246, 74, 123, 140, 157, 14, 31, 42, 59, 76, 93] :: nat list)) = Ok sess_uid"
  by (simp add: uuid_String_def uuid_groups_def hex_char_def sess_uid_def of_char_of)

lemma token_uid_bytes:
  "uuid_MustParse token_uid = Ok (map char_of ([15, 30, 45, 60, 75, 90, 70, 151, 136, 121, 106, 91, 76, 61, 46, 31] :: nat list))"
  by (simp add: uuid_MustParse_def token_uid_def hex_digit_def Let_def)

lemma token_uid_text: "uuid_String (map char_of ([15, 30, 45, 60, 75, 90, 70, 151, 136, 121, 106, 91, 76, 61, 46, 31] :: nat list)) = Ok token_uid"
  by (simp add: uuid_String_def uuid_groups_def hex_char_def token_uid_def of_char_of)

lemma example_uids: "uid_ok wire_env key_uid" "uid_ok wire_env sess_uid" "uid_ok wire_env token_uid"
proof -
  have "uuid_v4 key_uid" "uuid_v4 sess_uid" "uuid_v4 token_uid"
    unfolding uuid_v4_def key_uid_bytes sess_uid_bytes token_uid_bytes by (simp_all add: key_uid_def sess_uid_def token_uid_def)
  then show "uid_ok wire_env key_uid" "uid_ok wire_env sess_uid" "uid_ok wire_env token_uid"
    using key_uid_text sess_uid_text token_uid_text
    by (simp_all add: uid_ok_def getUID_Ok key_uid_bytes sess_uid_bytes token_uid_bytes del: list.map)
qed

text \<open>A root secret with its key, a session with its authentication, and the token that is made for it.\<close>

definition root_secret :: Secret where
  "root_secret =
     \<lparr>sec_ApiVersion = [], sec_Kind = [], sec_Metadata = no_metadata\<lparr>md_Uid := key_uid, md_Name := ''sys:root-secret-abcdefgh'', md_CreatedAt := Some 0,
        md_SystemLabels := root_labels, md_IsSystem := True\<rparr>,
      sec_Spec_Data = None, sec_Data = Some (ValueBytes ''seed'')\<rparr>"

definition token_keys :: keyMap where
  "token_keys = snd (onAddSecret wire_env root_secret [])"

lemma token_keys_eq: "token_keys = [(key_uid, \<lparr>jk_key = Some (Ed25519_Key ''seed''), jk_createdAt = 0, jk_uid = key_uid\<rparr>)]"
  by (simp add: token_keys_def onAddSecret_def setKey_def isJWKSecret_def root_secret_def root_labels_def ParsePrivateKeyPEM_def
      GetValueStr_def secret_value_def jwk_of_def AsTime_def no_metadata_def)

lemma token_keys_ok: "keys_ok wire_env token_keys"
  using example_uids(1) by (simp add: keys_ok_def token_keys_eq)

definition token_auth :: Session_Status_Authentication where
  "token_auth =
     \<lparr>au_Info = None, au_SetAt = Some 0, au_TokenID = token_uid, au_AccessTokenDuration = Some (Hours 1), au_RefreshTokenDuration = None\<rparr>"

definition token_session :: Session where
  "token_session = example_session
     \<lparr>se_Metadata := (se_Metadata example_session)\<lparr>md_Uid := sess_uid\<rparr>,
      se_Status := (se_Status example_session)\<lparr>st_Authentication := Some token_auth, st_InitialAuthentication := Some token_auth\<rparr>\<rparr>"

lemma wire_content_Ok: "content_fields c = Some fs \<Longrightarrow> wire_content c = Ok (text_of (put_fields fs))"
  by (simp add: wire_content_def put_content_def go_map_def)

lemma wire_token_Ok: "content_fields c = Some fs \<Longrightarrow> is_ok (wire_token \<lparr>tk_Signature = sig, tk_Content = Some c\<rparr>)"
  by (simp add: wire_token_def put_content_def go_map_def)

lemma token_session_auth:
  "st_Authentication (se_Status token_session) = Some token_auth" "au_SetAt token_auth = Some 0" "au_TokenID token_auth = token_uid"
  "md_Uid (se_Metadata token_session) = sess_uid"
  by (simp_all add: token_session_def token_auth_def)

lemma token_auth_end: "token_end token_auth (au_AccessTokenDuration token_auth) = 3600000000000"
  by (simp add: token_auth_def token_end_def AsTime_def Add_def)

lemma token_auth_whole: "whole_second 3600000000000 = 3600000000000"
  by (simp add: whole_second_def)

lemma token_made: "\<exists>tkn. CreateAccessToken wire_env 5 token_keys (Some token_session) = Ok tkn"
proof -
  obtain k s t where b: "uuid_MustParse key_uid = Ok k" "uuid_MustParse sess_uid = Ok s" "uuid_MustParse token_uid = Ok t"
    using that [OF key_uid_bytes sess_uid_bytes token_uid_bytes] .
  let ?c = "\<lparr>tk_Type = ACCESS_TOKEN_T0, tk_KeyID = k, tk_Subject = s, tk_TokenID = t, tk_ExpiresAt = Some 3600000000000\<rparr>"
  obtain fs where fs: "content_fields ?c = Some fs" by (simp add: content_fields_def time_fields_def)
  have auth: "authentication_of (Some token_session) = Ok (token_session, token_auth)"
    by (simp add: authentication_of_def token_session_auth) (simp add: token_uid_def)
  have "createToken wire_env 5 token_keys
      \<lparr>tk_Type = ACCESS_TOKEN_T0, tk_KeyID = [], tk_Subject = s, tk_TokenID = t, tk_ExpiresAt = Some 3600000000000\<rparr> =
    go_map (\<lambda>b. EncodeToString (CHR 0x01 # b))
      (wire_token \<lparr>tk_Signature = stand_in_signature ''seed'' (text_of (put_fields fs)), tk_Content = Some ?c\<rparr>)"
    by (simp add: createToken_def chooseJWK_def token_keys_eq b expiry_of_def whole_second_def wire_content_Ok [OF fs] Let_def
        ed25519_key_def go_map_def)
  then show ?thesis
    using wire_token_Ok [OF fs] token_session_auth token_auth_end b auth by (auto simp: CreateAccessToken_def session_token_def is_ok_iff)
qed

lemma token_verifies:
  "\<exists>tkn. CreateAccessToken wire_env 5 token_keys (Some token_session) = Ok tkn \<and>
    VerifyAccessToken wire_env 3600000000000 token_keys tkn = Ok \<lparr>tc_SessionUID = sess_uid, tc_TokenID = token_uid\<rparr>"
proof -
  obtain tkn where tkn: "CreateAccessToken wire_env 5 token_keys (Some token_session) = Ok tkn" using token_made by blast
  from wire.session_token_verifies [OF tkn [unfolded CreateAccessToken_def] token_keys_ok map_le_refl token_session_auth(1)] token_session_auth token_auth_end
    token_auth_whole example_uids
  have "verifyToken wire_env 3600000000000 token_keys tkn ACCESS_TOKEN_T0 = Ok (sess_uid, token_uid)" by simp
  then show ?thesis using tkn by (auto simp: VerifyAccessToken_def go_map_def)
qed

section \<open>What tokens guarantee\<close>

text \<open>
  C34: the access token that is made for a session verifies, until it expires, as that session's with the identifier of its
  authentication, at every controller that still has the keys, and neither as a refresh token nor as a credential.
\<close>

theorem access_token_roundtrip:
  assumes "tokens E" and "keys_ok E m" and "map_of m \<subseteq>\<^sub>m map_of m'"
    and "st_Authentication (se_Status sess) = Some a" and "uid_ok E (md_Uid (se_Metadata sess))" and "uid_ok E (au_TokenID a)"
    and "CreateAccessToken E now m (Some sess) = Ok tkn" and "now' \<le> whole_second (token_end a (au_AccessTokenDuration a))"
  shows "VerifyAccessToken E now' m' tkn = Ok \<lparr>tc_SessionUID = md_Uid (se_Metadata sess), tc_TokenID = au_TokenID a\<rparr> \<and>
    \<not> is_ok (VerifyRefreshToken E now' m' tkn) \<and> \<not> is_ok (VerifyCredential E now' m' tkn)"
proof -
  have "verifyToken E now' m' tkn ty' =
      (if ty' = ACCESS_TOKEN_T0 then Ok (md_Uid (se_Metadata sess), au_TokenID a)
       else Fail (Errorf ''The token type is not as expected''))" for ty'
    by (rule tokens.session_token_verifies [OF assms(1) assms(7) [unfolded CreateAccessToken_def] assms(2-6) _ assms(8)]) simp
  then show ?thesis
    by (simp add: VerifyAccessToken_def VerifyRefreshToken_def VerifyCredential_def go_map_def)
qed

theorem access_token_roundtrip_witness:
  "\<exists>tkn. CreateAccessToken wire_env 5 token_keys (Some token_session) = Ok tkn \<and>
     VerifyAccessToken wire_env 3600000000000 token_keys tkn = Ok \<lparr>tc_SessionUID = sess_uid, tc_TokenID = token_uid\<rparr>"
proof -
  obtain tkn where tkn: "CreateAccessToken wire_env 5 token_keys (Some token_session) = Ok tkn" using token_made by blast
  with access_token_roundtrip [OF wire.tokens_axioms token_keys_ok map_le_refl token_session_auth(1) _ _ tkn] token_session_auth
    token_auth_end token_auth_whole example_uids show ?thesis by auto
qed

text \<open>
  C35: an access token that verifies was signed with a key that the controller has, over a message that is
  an access token for the claimed session and token and has not expired; and no controller ever takes it for a
  refresh token or a credential.
\<close>

theorem VerifyAccessToken_sound:
  assumes "VerifyAccessToken E now m tkn = Ok cl"
  shows "(\<exists>c. accepted E now m tkn c \<and> tk_Type c = ACCESS_TOKEN_T0 \<and> getUID E (tk_Subject c) = Ok (tc_SessionUID cl) \<and>
      getUID E (tk_TokenID c) = Ok (tc_TokenID cl)) \<and>
    \<not> is_ok (VerifyRefreshToken E now' m' tkn) \<and> \<not> is_ok (VerifyCredential E now' m' tkn)"
proof -
  from assms have v: "verifyToken E now m tkn ACCESS_TOKEN_T0 = Ok (tc_SessionUID cl, tc_TokenID cl)"
    by (auto simp: VerifyAccessToken_def)
  have "\<not> is_ok (verifyToken E now' m' tkn ty)" if "ty \<noteq> ACCESS_TOKEN_T0" for ty
    using verifyToken_type [OF v] that unfolding is_ok_iff by blast
  then have "\<not> is_ok (VerifyRefreshToken E now' m' tkn)" "\<not> is_ok (VerifyCredential E now' m' tkn)"
    by (auto simp: VerifyRefreshToken_def VerifyCredential_def is_ok_iff)
  then show ?thesis using verifyToken_Ok [OF v] parseToken_accepted by blast
qed

theorem VerifyAccessToken_sound_witness:
  "\<exists>tkn c. accepted wire_env 3600000000000 token_keys tkn c \<and> tk_Type c = ACCESS_TOKEN_T0 \<and> getUID wire_env (tk_Subject c) = Ok sess_uid \<and>
     \<not> is_ok (VerifyCredential wire_env 5 token_keys tkn)"
proof -
  obtain tkn where "VerifyAccessToken wire_env 3600000000000 token_keys tkn = Ok \<lparr>tc_SessionUID = sess_uid, tc_TokenID = token_uid\<rparr>"
    using token_verifies by blast
  from VerifyAccessToken_sound [OF this, of 5 token_keys] show ?thesis by auto
qed

text \<open>
  C37: the keys of a controller are those of the root secrets, as far as it has been told of them. It has a key for a UID exactly when
  the last that it was told of that UID, when it started or since, is a root secret whose key could be read, and then it has that key
  with the time at which the secret was created (a secret whose key cannot be read tells nothing, and a deletion that there is none);
  and it signs with a key that no other one is newer than.
\<close>

theorem keys_follow_secrets:
  assumes "set_keys E secrets [] = Ok m"
  shows "(map_of (fold (jwk_event E) evs m) u = Some k \<longleftrightarrow>
      (\<exists>pre ev post. map OnAdd secrets @ evs = pre @ ev # post \<and> told E u ev = Some (Some k) \<and> (\<forall>e\<in>set post. told E u e = None))) \<and>
    (\<forall>key. chooseJWK (fold (jwk_event E) evs m) = Ok key \<longrightarrow>
      map_of (fold (jwk_event E) evs m) (jk_uid key) = Some key \<and>
      (\<forall>v x. map_of (fold (jwk_event E) evs m) v = Some x \<longrightarrow> jk_createdAt x \<le> jk_createdAt key))"
proof (intro conjI allI impI)
  let ?m = "fold (jwk_event E) evs m"
  have m: "?m = fold (jwk_event E) (map OnAdd secrets @ evs) []" using set_keys_events [OF assms] by simp
  have keys: "map_of ?m u = Some k \<longleftrightarrow>
      (\<exists>pre ev post. map OnAdd secrets @ evs = pre @ ev # post \<and> told E u ev = Some (Some k) \<and> (\<forall>e\<in>set post. told E u e = None))" for u k
    unfolding m jwk_events_map_of by simp
  then show "map_of ?m u = Some k \<longleftrightarrow>
      (\<exists>pre ev post. map OnAdd secrets @ evs = pre @ ev # post \<and> told E u ev = Some (Some k) \<and> (\<forall>e\<in>set post. told E u e = None))" .
  fix key assume key: "chooseJWK ?m = Ok key"
  have "distinct (map fst ?m)" unfolding m by (rule jwk_events_distinct) simp
  then obtain v where v: "map_of ?m v = Some key" using chooseJWK_Ok [OF key] by auto
  then obtain ev where "told E v ev = Some (Some key)" using keys by blast
  then have "jk_uid key = v" by (cases ev) (auto simp: key_in_def split: if_splits go.splits)
  with v show "map_of ?m (jk_uid key) = Some key" by simp
  show "jk_createdAt x \<le> jk_createdAt key" if "map_of ?m w = Some x" for w x
    using newest_max [of None "map snd ?m" key x] key map_of_SomeD [OF that]
    by (force simp: chooseJWK_def split: if_splits option.splits)
qed

text \<open>Two root secrets, of which one is deleted and the other one gets a new key.\<close>

definition other_secret :: Secret where
  "other_secret = root_secret\<lparr>sec_Metadata := (sec_Metadata root_secret)\<lparr>md_Uid := sess_uid\<rparr>\<rparr>"

definition new_secret :: Secret where
  "new_secret = root_secret\<lparr>sec_Data := Some (ValueBytes ''grown'')\<rparr>"

theorem keys_follow_secrets_witness:
  "map_of (fold (jwk_event wire_env) [OnDelete other_secret, OnUpdate new_secret root_secret]
     (snd (setKey wire_env other_secret (snd (setKey wire_env root_secret []))))) key_uid =
   Some \<lparr>jk_key = Some (Ed25519_Key ''grown''), jk_createdAt = 0, jk_uid = key_uid\<rparr>"
proof -
  let ?k = "\<lparr>jk_key = Some (Ed25519_Key ''grown''), jk_createdAt = 0, jk_uid = key_uid\<rparr>"
  have labels: "isJWKSecret root_secret" "isJWKSecret other_secret" "isJWKSecret new_secret" and
    uids: "md_Uid (sec_Metadata root_secret) = key_uid" "md_Uid (sec_Metadata other_secret) = sess_uid" "md_Uid (sec_Metadata new_secret) = key_uid"
    by (simp_all add: isJWKSecret_def other_secret_def new_secret_def root_secret_def root_labels_def no_metadata_def)
  have read: "ParsePrivateKeyPEM wire_env v = Ok (Some (Ed25519_Key v))" for v
    by (simp add: ParsePrivateKeyPEM_def)
  have "set_keys wire_env [root_secret, other_secret] [] = Ok (snd (setKey wire_env other_secret (snd (setKey wire_env root_secret []))))"
    by (simp add: setKey_def labels read)
  note follow = keys_follow_secrets [OF this, of "[OnDelete other_secret, OnUpdate new_secret root_secret]" key_uid ?k, THEN conjunct1]
  have "told wire_env key_uid (OnUpdate new_secret root_secret) = Some (Some ?k)"
    by (simp add: key_in_def labels uids read new_secret_def root_secret_def GetValueStr_def secret_value_def AsTime_def no_metadata_def)
      (simp add: isJWKSecret_def root_labels_def)
  then show ?thesis
    unfolding follow
    by (intro exI [of _ "[OnAdd root_secret, OnAdd other_secret, OnDelete other_secret]"] exI [of _ "OnUpdate new_secret root_secret"]
        exI [of _ "[]"]) simp
qed

text \<open>A token that was made with the key of a UID.\<close>

definition made_with :: "token_env \<Rightarrow> string \<Rightarrow> string \<Rightarrow> bool" where
  "made_with E u tkn \<longleftrightarrow>
     (\<exists>m k now c. keys_ok E m \<and> chooseJWK m = Ok k \<and> jk_uid k = u \<and> length (tk_Subject c) = 16 \<and> length (tk_TokenID c) = 16 \<and>
       createToken E now m c = Ok tkn)"

text \<open>
  C36: once the controller has seen that a root secret is deleted, and until it is told of the secret again, no token that was made
  with its key, or that names it, verifies: neither as an access token nor as a refresh token nor as a credential, at any time.
\<close>

theorem deleted_key_refused:
  assumes "tokens E" and "isJWKSecret s"
    and "\<forall>ev\<in>set evs. \<forall>x\<in>stored_by ev. \<not> (isJWKSecret x \<and> md_Uid (sec_Metadata x) = md_Uid (sec_Metadata s))"
    and "made_with E (md_Uid (sec_Metadata s)) tkn \<or> key_named E (md_Uid (sec_Metadata s)) tkn"
  shows "\<not> is_ok (VerifyAccessToken E now (fold (jwk_event E) evs (jwk_event E (OnDelete s) m)) tkn) \<and>
    \<not> is_ok (VerifyRefreshToken E now (fold (jwk_event E) evs (jwk_event E (OnDelete s) m)) tkn) \<and>
    \<not> is_ok (VerifyCredential E now (fold (jwk_event E) evs (jwk_event E (OnDelete s) m)) tkn)"
proof -
  let ?m = "fold (jwk_event E) evs (jwk_event E (OnDelete s) m)"
  have named: "key_named E (md_Uid (sec_Metadata s)) tkn"
    using assms(4) tokens.created_names_key [OF assms(1)] unfolding made_with_def by metis
  have "map_of (jwk_event E (OnDelete s) m) (md_Uid (sec_Metadata s)) = None"
    using assms(2) by (simp add: jwk_event_def onDeleteSecret_def delete_conv')
  then have "map_of ?m (md_Uid (sec_Metadata s)) = None" by (rule jwk_events_none) (use assms(3) in blast)
  from key_gone_refused [OF named this] show ?thesis
    by (auto simp: VerifyAccessToken_def VerifyRefreshToken_def VerifyCredential_def is_ok_iff)
qed

lemma session_token_made_with:
  assumes "CreateAccessToken wire_env 5 token_keys (Some token_session) = Ok tkn"
  shows "made_with wire_env key_uid tkn"
proof -
  obtain s t where b: "te_MustParse wire_env sess_uid = Ok s" "getUID wire_env s = Ok sess_uid" "te_MustParse wire_env token_uid = Ok t"
    "getUID wire_env t = Ok token_uid" using example_uids(2,3) by (auto simp: uid_ok_def)
  have "authentication_of (Some token_session) = Ok (token_session, token_auth)"
    by (simp add: authentication_of_def token_session_auth) (simp add: token_uid_def)
  with assms b token_session_auth have "createToken wire_env 5 token_keys
      \<lparr>tk_Type = ACCESS_TOKEN_T0, tk_KeyID = [], tk_Subject = s, tk_TokenID = t,
       tk_ExpiresAt = Some (token_end token_auth (au_AccessTokenDuration token_auth))\<rparr> = Ok tkn"
    by (simp add: CreateAccessToken_def session_token_def)
  moreover have "length s = 16" "length t = 16" using b(2,4) by (simp_all add: getUID_Ok)
  moreover have "chooseJWK token_keys = Ok \<lparr>jk_key = Some (Ed25519_Key ''seed''), jk_createdAt = 0, jk_uid = key_uid\<rparr>"
    by (simp add: token_keys_eq chooseJWK_def)
  ultimately show ?thesis
    using token_keys_ok unfolding made_with_def by (metis jwtKey.select_convs(3) TokenT0_Content.select_convs(3,4))
qed

theorem deleted_key_refused_witness:
  "\<exists>tkn. VerifyAccessToken wire_env 3600000000000 token_keys tkn = Ok \<lparr>tc_SessionUID = sess_uid, tc_TokenID = token_uid\<rparr> \<and>
     \<not> is_ok (VerifyAccessToken wire_env 3600000000000 (jwk_event wire_env (OnDelete root_secret) token_keys) tkn)"
proof -
  obtain tkn where tkn: "CreateAccessToken wire_env 5 token_keys (Some token_session) = Ok tkn"
    "VerifyAccessToken wire_env 3600000000000 token_keys tkn = Ok \<lparr>tc_SessionUID = sess_uid, tc_TokenID = token_uid\<rparr>"
    using token_verifies by blast
  have root: "isJWKSecret root_secret" "md_Uid (sec_Metadata root_secret) = key_uid"
    by (simp_all add: isJWKSecret_def root_secret_def root_labels_def)
  from deleted_key_refused [OF wire.tokens_axioms root(1), of "[]" tkn 3600000000000 token_keys] session_token_made_with [OF tkn(1)] root(2) tkn(2)
  show ?thesis by auto
qed

section \<open>Authentication by token\<close>

text \<open>
  C32: when the decision point verifies tokens with the keys of the cluster, a request that does not come from an address of
  the cluster is authenticated only for a public service, as an unexpired session, by an unexpired
  access token that one of the keys has signed, that names the session and the current token of the session.
\<close>

theorem authenticated_by_token:
  assumes "authenticate E now (Some rq) c = (Ok di, c')" and "oe_VerifyAccessToken E = VerifyAccessToken T t m"
    and "\<forall>req src. da_Request rq = Some req \<longrightarrow> dq_Source req = Some src \<longrightarrow> \<not> isAddressFromClient E (so_Address src)"
  shows "\<not> IsExpired now (di_Session di) \<and>
    (\<exists>svc req tkn ct a. da_Service rq = Some svc \<and> da_Request rq = Some req \<and> sv_IsPublic (svc_Spec svc) \<and>
       getAccessTokenFromHTTPHeader (getHTTPHeadersFromReq req) = Ok tkn \<and> accepted T t m tkn ct \<and> tk_Type ct = ACCESS_TOKEN_T0 \<and>
       getUID T (tk_Subject ct) = Ok (md_Uid (se_Metadata (di_Session di))) \<and>
       st_Authentication (se_Status (di_Session di)) = Some a \<and> getUID T (tk_TokenID ct) = Ok (au_TokenID a))"
proof -
  from authenticate_Ok(1) [OF assms(1)] assms(3) obtain svc req tkn cl a where
    r: "da_Service rq = Some svc" "da_Request rq = Some req" "sv_IsPublic (svc_Spec svc)"
      "getAccessTokenFromHTTPHeader (getHTTPHeadersFromReq req) = Ok tkn" and
    cl: "VerifyAccessToken T t m tkn = Ok cl" "tc_SessionUID cl = md_Uid (se_Metadata (di_Session di))"
      "st_Authentication (se_Status (di_Session di)) = Some a" "tc_TokenID cl = au_TokenID a"
    unfolding identified_def assms(2) by blast
  from cl obtain ct where "parseToken T t m tkn = Ok ct" "tk_Type ct = ACCESS_TOKEN_T0"
    "getUID T (tk_Subject ct) = Ok (md_Uid (se_Metadata (di_Session di)))" "getUID T (tk_TokenID ct) = Ok (au_TokenID a)"
    by (auto simp: VerifyAccessToken_def dest!: verifyToken_Ok)
  then show ?thesis
    using r cl(3) authenticate_Ok(2) [OF assms(1)] parseToken_accepted by blast
qed

definition token_state :: Octovigil where
  "token_state = on_session bolt_put (OnAdd token_session) (on_user bolt_put (OnAdd example_user) NewOctovigil)"

definition token_request :: "string \<Rightarrow> DoAuthenticateAndAuthorizeRequest" where
  "token_request tkn =
     \<lparr>da_Service = Some (plain_service\<lparr>svc_Spec := (svc_Spec plain_service)\<lparr>sv_IsPublic := True\<rparr>\<rparr>),
      da_Request = Some \<lparr>dq_Source = None, dq_Request = Some (Request_Http
        \<lparr>ht_Headers = [(''authorization'', ''Bearer '' @ tkn)], ht_Method = ''GET'', ht_Path = ''/'', ht_Host = ''web'', ht_Protocol = [],
         ht_Size = 0, ht_Scheme = ''https'', ht_Body = [], ht_BodyMap = None, ht_Uri = ''/'', ht_QueryParams = []\<rparr>)\<rparr>\<rparr>"

definition token_octo :: octo_env where
  "token_octo = example_env\<lparr>oe_VerifyAccessToken := VerifyAccessToken wire_env 3600000000000 token_keys\<rparr>"

lemma token_lookups:
  "GetSession (oc_cache token_state) sess_uid = Ok token_session" "GetUser (oc_cache token_state) ''u1'' = Ok example_user"
proof -
  have "sess_uid \<in> session_keys token_session" "''u1'' \<in> user_keys example_user"
    by (simp_all add: session_keys_def user_keys_def put_keys_def bolt_put_def token_session_auth example_user_def sess_uid_def)
  then show "GetSession (oc_cache token_state) sess_uid = Ok token_session" "GetUser (oc_cache token_state) ''u1'' = Ok example_user"
    by (simp_all add: token_state_def on_session_def on_user_def handle_cache other_buckets users.get_put_same sessions.get_put_same)
qed

lemma token_headers:
  "getAccessTokenFromHTTPHeader (getHTTPHeadersFromReq (the (da_Request (token_request tkn)))) = Ok tkn"
  by (simp add: token_request_def getAccessTokenFromHTTPHeader_def getHTTPHeadersFromReq_def header_value_def HasPrefix_def TrimPrefix_def)

lemma token_authenticate:
  assumes "VerifyAccessToken wire_env 3600000000000 token_keys tkn = Ok \<lparr>tc_SessionUID = sess_uid, tc_TokenID = token_uid\<rparr>"
  shows "authenticate token_octo 5 (Some (token_request tkn)) (oc_cache token_state) =
    (Ok \<lparr>di_User = Some example_user, di_Device = None, di_Session = token_session, di_Groups = []\<rparr>, oc_cache token_state)"
proof -
  have "sess_uid \<noteq> []" by (simp add: sess_uid_def)
  moreover have "getConnectionIdentifier token_octo (Some (token_request tkn)) = Ok (sess_uid, Some \<lparr>tc_SessionUID = sess_uid, tc_TokenID = token_uid\<rparr>)"
    using assms token_headers [of tkn] by (simp add: getConnectionIdentifier_def token_request_def token_octo_def)
  moreover have "\<exists>r. st_UserRef (se_Status token_session) = Some r \<and> or_Uid r = ''u1''"
    "st_DeviceRef (se_Status token_session) = None" "\<not> IsExpired 5 token_session" "us_Groups (ur_Spec example_user) = []"
    by (simp_all add: token_session_def example_session_def IsExpired_def example_user_def)
  ultimately show ?thesis
    by (auto simp: authenticate_def GetDownstreamInfoBySessionIdentifier_def token_lookups session_missing_def lookup_optional_def
        load_user_def load_device_def load_groups_def check_claims_def token_session_auth reject_if_def go_map_def)
qed

theorem authenticated_by_token_witness:
  "\<exists>tkn ct. fst (authenticate token_octo 5 (Some (token_request tkn)) (oc_cache token_state)) =
      Ok \<lparr>di_User = Some example_user, di_Device = None, di_Session = token_session, di_Groups = []\<rparr> \<and>
    accepted wire_env 3600000000000 token_keys tkn ct \<and> tk_Type ct = ACCESS_TOKEN_T0"
proof -
  obtain tkn where tkn: "VerifyAccessToken wire_env 3600000000000 token_keys tkn = Ok \<lparr>tc_SessionUID = sess_uid, tc_TokenID = token_uid\<rparr>"
    using token_verifies by blast
  note auth = token_authenticate [OF tkn]
  have env: "oe_VerifyAccessToken token_octo = VerifyAccessToken wire_env 3600000000000 token_keys" by (simp add: token_octo_def)
  have away: "\<forall>req src. da_Request (token_request tkn) = Some req \<longrightarrow> dq_Source req = Some src \<longrightarrow> \<not> isAddressFromClient token_octo (so_Address src)"
    by (simp add: token_request_def)
  from authenticated_by_token [OF auth env away] obtain req tkn' ct where
    "da_Request (token_request tkn) = Some req" "getAccessTokenFromHTTPHeader (getHTTPHeadersFromReq req) = Ok tkn'"
    "accepted wire_env 3600000000000 token_keys tkn' ct" "tk_Type ct = ACCESS_TOKEN_T0" by blast
  then have "accepted wire_env 3600000000000 token_keys tkn ct \<and> tk_Type ct = ACCESS_TOKEN_T0" using token_headers [of tkn] by auto
  then show ?thesis using auth by (intro exI [of _ tkn] exI [of _ ct]) simp
qed

end
