(* ===== verification/SessionClaims.thy ===== *)
theory SessionClaims imports TokenClaims AddressClaims begin

text \<open>
  The properties of sessions: how long their tokens last, how many a user can have, how much of their history is kept,
  and that a new authentication puts an end to the tokens of the former one.
\<close>

section \<open>Durations of tokens\<close>

lemma token_duration_least:
  "token_duration get so = Some d \<Longrightarrow> 1800000000000 \<le> sint (ToGo (Some d))"
  by (auto simp: token_duration_def word_sle_eq split: option.splits if_splits)

lemma access_duration_least: "\<exists>d. access_duration sp cc = Some d \<and> 1800000000000 \<le> sint (ToGo (Some d))"
  using token_duration_least
  by (auto simp: access_duration_def or_else_def split: option.splits)

text \<open>
  The access token of a new session lasts at least half an hour, whatever the user and the cluster configure, and
  its refresh token at least as long; the two are those of its first authentication as well.
\<close>

theorem new_session_tokens_last:
  "\<exists>a. st_Authentication (se_Status (new_session N o' cc)) = Some a \<and> st_InitialAuthentication (se_Status (new_session N o' cc)) = Some a \<and>
     1800000000000 \<le> sint (ToGo (au_AccessTokenDuration a)) \<and>
     sint (ToGo (au_AccessTokenDuration a)) \<le> sint (ToGo (au_RefreshTokenDuration a))"
proof -
  obtain d where d: "access_duration (ur_Spec (cs_Usr o')) cc = Some d" "1800000000000 \<le> sint (ToGo (Some d))"
    using access_duration_least by blast
  have "sint (ToGo (Some d)) \<le> sint (ToGo (refresh_duration (ur_Spec (cs_Usr o')) cc))"
    by (simp add: refresh_duration_def d(1) Let_def word_sless_alt)
  then show ?thesis
    using d by (simp add: new_session_def Let_def)
qed

section \<open>The limit on sessions\<close>

lemma max_sessions_le: "max_sessions sp cc \<le> 10000"
  by (simp add: max_sessions_def Let_def not_less)

lemma checkMaxSessionsPerUser_Ok:
  assumes "checkMaxSessionsPerUser C usr cc s = (Ok u, s')"
  shows "\<exists>xs. cl_List C (FilterByUser usr) s = (Ok xs, s') \<and> of_nat (length xs) < max_sessions (ur_Spec usr) cc"
  using assms by (auto simp: checkMaxSessionsPerUser_def not_le dest!: go_seq_Ok)

text \<open>
  C38: a session that is created under the limit on the sessions of a user is at most the last one the limit allows:
  afterwards no more sessions of that user are stored than it says, and never more than ten thousand. (The sessions are counted
  as an unsigned number of 32 bits, and two calls at the same time are not held apart.)
\<close>

theorem session_limit_respected:
  fixes K :: "(Session, 'p) codec"
  assumes "client_inv S K st" and "cs_CheckPerUserLimit o'" and "cs_ClusterConfig o' = Some cc"
    and "CreateSession N (CoreC S net K) Cc o' st = (Ok sess, st')"
    and "\<forall>xs. fst (cl_List (CoreC S net K) (FilterByUser (cs_Usr o')) st) = Ok xs \<longrightarrow> length xs < 2 ^ 32"
  shows "card {x \<in> set (kind_view K st'). filter_holds K (FilterStatusUserUID (md_Uid (ur_Metadata (cs_Usr o')))) x}
    \<le> unat (max_sessions (ur_Spec (cs_Usr o')) cc) \<and> unat (max_sessions (ur_Spec (cs_Usr o')) cc) \<le> 10000"
proof -
  let ?C = "CoreC S net K" and ?usr = "cs_Usr o'"
  let ?owned = "\<lambda>st. {x \<in> set (kind_view K st). filter_holds K (FilterStatusUserUID (md_Uid (ur_Metadata ?usr))) x}"
  let ?max = "max_sessions (ur_Spec ?usr) cc"
  from assms(2-4) obtain s1 where check: "checkMaxSessionsPerUser ?C ?usr cc st = (Ok (), s1)" and
    create: "cl_Create ?C (new_session N (o'\<lparr>cs_ClusterConfig := Some cc\<rparr>) cc) s1 = (Ok sess, st')"
    by (auto simp: CreateSession_def given_config_def NewSession_def dest!: go_seq_Ok)
  from checkMaxSessionsPerUser_Ok [OF check] obtain xs where xs: "cl_List ?C (FilterByUser ?usr) st = (Ok xs, s1)"
    "of_nat (length xs) < ?max" by blast
  have s1: "client_inv S K s1" "kind_view K s1 = kind_view K st" "set xs = ?owned st"
    using core.listed [OF assms(1) xs(1) [unfolded FilterByUser_def]] by auto
  have "unat (of_nat (length xs) :: 32 word) = length xs"
    using assms(5) xs(1) by (simp add: unsigned_of_nat take_bit_nat_eq_self)
  then have len: "length xs < unat ?max" using xs(2) by (simp add: word_less_nat_alt)
  obtain y where "kind_view K st' = kind_view K st @ [y]"
    using core.create [OF s1(1) create] s1(2) by (auto simp: effect_def)
  then have "?owned st' \<subseteq> insert y (set xs)" by (auto simp: s1(3))
  then have "card (?owned st') \<le> card (insert y (set xs))" by (rule card_mono [rotated]) simp
  also have "\<dots> \<le> Suc (card (set xs))" by (simp add: card_insert_if)
  also have "\<dots> \<le> Suc (length xs)" using card_length by simp
  finally have "card (?owned st') \<le> Suc (length xs)" .
  moreover have "unat ?max \<le> 10000" using max_sessions_le [of "ur_Spec ?usr" cc] by (simp add: word_le_nat_alt)
  ultimately show ?thesis using len by simp
qed

definition limited_session :: CreateSessionOpts where
  "limited_session =
     \<lparr>cs_Usr = example_user, cs_Device = None, cs_ClusterConfig = Some (example_cluster no_metadata), cs_SessType = CLIENT,
      cs_IsBrowser = False, cs_Scopes = [], cs_AuthenticationInfo = None, cs_Authorization = None, cs_CredentialRef = None,
      cs_ExpiresAt = None, cs_UserAgent = [], cs_XFF = [], cs_Ext = [], cs_CheckPerUserLimit = True,
      cs_AuthenticatorAction = AUTHENTICATOR_ACTION_UNSET, cs_RequiredAuthenticatorRef = None\<rparr>"

definition session_names :: session_env where
  "session_names = \<lparr>ne_Now = 0, ne_NameEnd = ''abcdef'', ne_TokenID = token_uid\<rparr>"

abbreviation empty_sessions :: "(rsc_state, Session) client" where
  "empty_sessions \<equiv> CoreC (net_serve ''s1'') answered numbered_sessions"

abbreviation empty_clusters :: "(rsc_state, ClusterConfig) client" where
  "empty_clusters \<equiv> CoreC (net_serve ''s1'') answered numbered_clusters"

lemma empty_ready:
  "client_inv (net_serve ''s1'') numbered_sessions rsc_empty" "healthy (net_serve ''s1'') answered numbered_sessions rsc_empty"
proof -
  have "net_invs rsc_empty" by (simp add: net_stored_def stored_empty example_net_codecs view_empty)
  then show "client_inv (net_serve ''s1'') numbered_sessions rsc_empty" by (rule net_invsD(1)) (simp add: plain_def)
  show "healthy (net_serve ''s1'') answered numbered_sessions rsc_empty"
    unfolding net_serve_def by (rule example_healthy) (simp_all add: rsc_empty_def)
qed

lemma user_filter_listed: "is_ok (getListFilters [FilterStatusUserUID u])"
  by (simp add: getListFilters_def FilterStatusUserUID_def FilterFieldEQValStr_def list_filter_def Let_def go_map_def)

lemma empty_listed: "cl_List empty_sessions (FilterByUser example_user) rsc_empty = (Ok [], rsc_empty)"
proof -
  obtain xs where xs: "cl_List empty_sessions (FilterByUser example_user) rsc_empty = (Ok xs, rsc_empty)"
    using core_list_ok [OF empty_ready user_filter_listed] by (auto simp: FilterByUser_def)
  have "set xs = {}"
    using core.listed [OF empty_ready(1) xs [unfolded FilterByUser_def]] by (auto simp: view_empty)
  then show ?thesis using xs by simp
qed

theorem session_limit_respected_witness:
  "\<exists>sess st'. CreateSession session_names empty_sessions empty_clusters limited_session rsc_empty = (Ok sess, st') \<and>
     card {x \<in> set (kind_view numbered_sessions st'). filter_holds numbered_sessions (FilterStatusUserUID ''u1'') x} \<le> 16"
proof -
  let ?new = "new_session session_names (limited_session\<lparr>cs_ClusterConfig := Some (example_cluster no_metadata)\<rparr>) (example_cluster no_metadata)"
  have max: "max_sessions (ur_Spec example_user) (example_cluster no_metadata) = 16"
    by (simp add: max_sessions_def positive_max_def example_user_def cc_session_def example_cluster_def)
  have name: "md_Name (se_Metadata ?new) = ''alice-abcdef''"
    by (simp add: new_session_def Let_def limited_session_def example_user_def session_names_def)
  have "opts_fine (net_serve ''s1'') (by_name ''alice-abcdef'')"
    unfolding net_serve_def
    by (rule example_opts_name)
      (simp add: checkName_def MaxNameSubArgs_def Let_def reject_if_def rgxName_def lower_alnum_def lower_def decimal_def name_char_def)
  then obtain sess st' where "cl_Create empty_sessions ?new rsc_empty = (Ok sess, st')"
    using core_create_new [OF empty_ready, of ?new] name by (auto simp: view_empty)
  then have create: "CreateSession session_names empty_sessions empty_clusters limited_session rsc_empty = (Ok sess, st')"
    by (simp add: CreateSession_def given_config_def limited_session_def checkMaxSessionsPerUser_def empty_listed max NewSession_def
        reject_if_def on_err_def map_err_def)
  have "\<forall>xs. fst (cl_List empty_sessions (FilterByUser (cs_Usr limited_session)) rsc_empty) = Ok xs \<longrightarrow> length xs < 2 ^ 32"
    by (simp add: limited_session_def empty_listed)
  from session_limit_respected [OF empty_ready(1) _ _ create this, of "example_cluster no_metadata"] create show ?thesis
    by (auto simp: limited_session_def max) (simp add: example_user_def)
qed

section \<open>A new authentication\<close>

lemma SetCurrAuthentication_Ok:
  assumes "SetCurrAuthentication N sess ai ua cc xff = Ok sess'"
  shows "se_Metadata sess' = se_Metadata sess" "\<exists>a. st_Authentication (se_Status sess') = Some a \<and> au_TokenID a = ne_TokenID N"
  using assms by (auto simp: SetCurrAuthentication_def Let_def prependAuthenticationToLastArray_def)

text \<open>
  Of the authentications of a session at most a hundred are kept, the one that is replaced first among them.
\<close>

theorem authentication_history:
  assumes "length (st_LastAuthentications (se_Status sess)) \<le> 100" and "SetCurrAuthentication N sess ai ua cc xff = Ok sess'"
    and "st_Authentication (se_Status sess) = Some a"
  shows "length (st_LastAuthentications (se_Status sess')) \<le> 100 \<and> hd (st_LastAuthentications (se_Status sess')) = a"
  using assms by (auto simp: SetCurrAuthentication_def Let_def prependAuthenticationToLastArray_def push_authentication_def)

text \<open>The session of the example is authenticated anew.\<close>

definition anew :: session_env where
  "anew = \<lparr>ne_Now = 60000000000, ne_NameEnd = [], ne_TokenID = key_uid\<rparr>"

lemma token_session_anew: "\<exists>sess'. SetCurrAuthentication anew token_session None [] (example_cluster no_metadata) [] = Ok sess'"
  by (simp add: SetCurrAuthentication_def token_session_def go_map_def)

theorem authentication_history_witness:
  "\<exists>sess'. SetCurrAuthentication anew token_session None [] (example_cluster no_metadata) [] = Ok sess' \<and>
     length (st_LastAuthentications (se_Status sess')) \<le> 100 \<and> hd (st_LastAuthentications (se_Status sess')) = token_auth"
proof -
  have "length (st_LastAuthentications (se_Status token_session)) \<le> 100" by (simp add: token_session_def example_session_def)
  with token_session_anew authentication_history token_session_auth(1) show ?thesis by blast
qed

text \<open>
  C33: once a session has been authenticated anew, the access token of its former authentication is refused at the decision
  point, however long it would still have lasted.
\<close>

theorem reauthentication_revokes:
  assumes "tokens T" and "keys_ok T m" and "st_Authentication (se_Status sess) = Some a"
    and "uid_ok T (md_Uid (se_Metadata sess))" and "uid_ok T (au_TokenID a)"
    and "CreateAccessToken T now m (Some sess) = Ok tkn"
    and "SetCurrAuthentication N sess ai ua cc xff = Ok sess'" and "ne_TokenID N \<noteq> au_TokenID a"
    and "oe_VerifyAccessToken E = VerifyAccessToken T t m'" and "GetSession c (md_Uid (se_Metadata sess)) = Ok sess'"
    and "da_Request rq = Some req" and "getAccessTokenFromHTTPHeader (getHTTPHeadersFromReq req) = Ok tkn"
    and "\<forall>src. dq_Source req = Some src \<longrightarrow> \<not> isAddressFromClient E (so_Address src)"
  shows "\<not> is_ok (fst (authenticate E now' (Some rq) c))"
proof
  assume "is_ok (fst (authenticate E now' (Some rq) c))"
  then obtain di c' where di: "authenticate E now' (Some rq) c = (Ok di, c')"
    by (cases "authenticate E now' (Some rq) c") (auto simp: is_ok_iff)
  from authenticate_Ok(1) [OF di] assms(11-13) obtain cl a' where
    cl: "VerifyAccessToken T t m' tkn = Ok cl" "tc_SessionUID cl = md_Uid (se_Metadata (di_Session di))"
      "st_Authentication (se_Status (di_Session di)) = Some a'" "tc_TokenID cl = au_TokenID a'"
    unfolding identified_def assms(9) by fastforce
  from cl(1) have v: "verifyToken T t m' tkn ACCESS_TOKEN_T0 = Ok (tc_SessionUID cl, tc_TokenID cl)" by (auto simp: VerifyAccessToken_def)
  from tokens.session_token_claims [OF assms(1) assms(6) [unfolded CreateAccessToken_def] assms(2-5) v]
  have same: "tc_SessionUID cl = md_Uid (se_Metadata sess)" "tc_TokenID cl = au_TokenID a" by simp_all
  obtain sessID claims where id: "getConnectionIdentifier E (Some rq) = Ok (sessID, claims)"
    using di by (auto simp: authenticate_def split: go.splits)
  have "sessID = tc_SessionUID cl"
    using getConnectionIdentifier_Ok [OF id] assms(9,11-13) cl(1) by auto
  then have "di_Session di = sess'"
    using di id same(1) assms(10) by (auto simp: authenticate_def GetDownstreamInfoBySessionIdentifier_def split: go.splits if_splits dest!: go_seq_Ok)
  then show False
    using SetCurrAuthentication_Ok(2) [OF assms(7)] cl(3,4) same(2) assms(8) by auto
qed

definition anew_cache :: "Session \<Rightarrow> Cache" where
  "anew_cache s = oc_cache (on_session bolt_put (OnUpdate s token_session) (on_session bolt_put (OnAdd token_session) NewOctovigil))"

theorem reauthentication_revokes_witness:
  "\<exists>tkn sess'. CreateAccessToken wire_env 5 token_keys (Some token_session) = Ok tkn \<and>
     SetCurrAuthentication anew token_session None [] (example_cluster no_metadata) [] = Ok sess' \<and>
     \<not> is_ok (fst (authenticate token_octo 60000000005 (Some (token_request tkn)) (anew_cache sess')))"
proof -
  obtain tkn where tkn: "CreateAccessToken wire_env 5 token_keys (Some token_session) = Ok tkn" using token_made by blast
  obtain sess' where sess': "SetCurrAuthentication anew token_session None [] (example_cluster no_metadata) [] = Ok sess'"
    using token_session_anew by blast
  have uid: "md_Uid (se_Metadata token_session) = sess_uid" "md_Uid (se_Metadata sess') = sess_uid"
    using token_session_auth(4) SetCurrAuthentication_Ok(1) [OF sess'] by simp_all
  then have "sess_uid \<in> session_keys sess'"
    by (simp add: session_keys_def put_keys_def bolt_put_def) (simp add: sess_uid_def)
  then have get: "GetSession (anew_cache sess') (md_Uid (se_Metadata token_session)) = Ok sess'"
    using uid by (simp add: anew_cache_def on_session_def handle_cache sessions.get_put_same)
  have new: "ne_TokenID anew \<noteq> au_TokenID token_auth" by (simp add: anew_def token_auth_def key_uid_def token_uid_def)
  have env: "oe_VerifyAccessToken token_octo = VerifyAccessToken wire_env 3600000000000 token_keys" by (simp add: token_octo_def)
  have req: "da_Request (token_request tkn) = Some (the (da_Request (token_request tkn)))"
    "\<forall>src. dq_Source (the (da_Request (token_request tkn))) = Some src \<longrightarrow> \<not> isAddressFromClient token_octo (so_Address src)"
    by (simp_all add: token_request_def)
  have "uid_ok wire_env (md_Uid (se_Metadata token_session))" "uid_ok wire_env (au_TokenID token_auth)"
    using example_uids token_session_auth by simp_all
  from reauthentication_revokes [OF wire.tokens_axioms token_keys_ok token_session_auth(1) this tkn sess' new env get req(1) token_headers req(2)]
    tkn sess' show ?thesis by blast
qed

end
