(* ===== verification/AdminSecurity.thy ===== *)
theory AdminSecurity imports AdminDirectory Jwkctl begin

text \<open>
  \<open>cluster/apiserver/apiserver/admin\<close>: the handlers for secrets and for credentials (\<open>secret.go\<close>, \<open>credential.go\<close>).
  A request for a secret carries its data beside its spec.
\<close>

section \<open>Secrets\<close>

definition check_secret_value :: "Secret_Value \<Rightarrow> unit go" where
  "check_secret_value d =
     (case d of
        Value v \<Rightarrow> reject_if (length v = 0 \<or> 512 * 1024 < length v) InvalidArg
      | ValueBytes v \<Rightarrow> reject_if (length v = 0 \<or> 512 * 1024 < length v) InvalidArg
      | Other_Value \<Rightarrow> Fail InvalidArg)"

definition validateSecret :: "api_env \<Rightarrow> Secret_Value option api_request \<Rightarrow> Secret_Value option \<Rightarrow> unit go" where
  "validateSecret A req data =
     go_bind (ValidateCommon (ap_V A) (Some (api_resource req)) (Some (named_opts 0))) (\<lambda>_.
     case aq_Spec req of
       None \<Rightarrow> Fail InvalidArg
     | Some sd \<Rightarrow>
         (case data of
            None \<Rightarrow> Fail InvalidArg
          | Some d \<Rightarrow>
              go_bind (case sd of None \<Rightarrow> Ok () | Some x \<Rightarrow> check_secret_value x) (\<lambda>_. check_secret_value d)))"

definition admin_CreateSecret ::
  "api_env \<Rightarrow> ('s, Secret) client \<Rightarrow> Secret_Value option api_request \<Rightarrow> Secret_Value option \<Rightarrow> 's \<Rightarrow> Secret go \<times> 's" where
  "admin_CreateSecret A C req data s =
     go_seq (map_err InvalidArgWithErr (validateSecret A req data), s) (\<lambda>_ s.
     go_seq (deref (aq_Metadata req), s) (\<lambda>md s.
     go_seq (must_be_absent InternalWithErr (cl_Get C (by_name (md_Name md)) s)) (\<lambda>_ s.
     go_seq (deref (aq_Spec req), s) (\<lambda>sd s.
     on_err InternalWithErr
       (cl_Create C \<lparr>sec_ApiVersion = [], sec_Kind = [], sec_Metadata = MetadataFrom md, sec_Spec_Data = sd, sec_Data = data\<rparr> s)))))"

definition without_data :: "Secret \<Rightarrow> Secret" where
  "without_data = sec_Data_update (\<lambda>_. None)"

definition admin_ListSecret :: "('s, Secret) client \<Rightarrow> CommonListOptions option \<Rightarrow> 's \<Rightarrow> Secret list go \<times> 's" where
  "admin_ListSecret C common s =
     go_seq (cl_List C (GetPublicListOptions common []) s) (\<lambda>xs s. (Ok (map without_data xs), s))"

definition admin_DeleteSecret :: "api_env \<Rightarrow> ('s, Secret) client \<Rightarrow> DeleteOptions \<Rightarrow> 's \<Rightarrow> unit go \<times> 's" where
  "admin_DeleteSecret A C req s =
     go_seq (CheckDeleteOptions (ap_V A) (Some req) None, s) (\<lambda>_ s.
     go_seq (on_err InternalWithErr (cl_Get C \<lparr>go_Uid = do_Uid req, go_Name = do_Name req\<rparr> s)) (\<lambda>sec s.
     go_seq (CheckIsSystem (Some (sec_Metadata sec)), s) (\<lambda>_ s.
     go_seq (on_err InternalWithErr (cl_Delete C \<lparr>do_Uid = md_Uid (sec_Metadata sec), do_Name = []\<rparr> s)) (\<lambda>_ s.
     (Ok (), s)))))"

definition admin_GetSecret :: "api_env \<Rightarrow> ('s, Secret) client \<Rightarrow> GetOptions \<Rightarrow> 's \<Rightarrow> Secret go \<times> 's" where
  "admin_GetSecret A C req s =
     go_seq (CheckGetOptions (ap_V A) (Some req) None, s) (\<lambda>_ s.
     go_seq (shown sec_Metadata (on_err K8sNotFoundOrInternalWithErr (cl_Get C req s))) (\<lambda>ret s.
     (Ok (without_data ret), s)))"

definition admin_UpdateSecret ::
  "api_env \<Rightarrow> ('s, Secret) client \<Rightarrow> Secret_Value option api_request \<Rightarrow> Secret_Value option \<Rightarrow> 's \<Rightarrow> Secret go \<times> 's" where
  "admin_UpdateSecret A C req data s =
     go_seq (map_err InvalidArgWithErr (validateSecret A req data), s) (\<lambda>_ s.
     go_seq (deref (aq_Metadata req), s) (\<lambda>md s.
     go_seq (on_err K8sNotFoundOrInternalWithErr (cl_Get C (by_name (md_Name md)) s)) (\<lambda>sec s.
     go_seq (CheckIsSystem (Some (sec_Metadata sec)), s) (\<lambda>_ s.
     go_seq (deref (aq_Spec req), s) (\<lambda>sd s.
     on_err InternalWithErr (cl_Update C (sec\<lparr>sec_Spec_Data := sd, sec_Data := data\<rparr>) s))))))"

section \<open>Credentials\<close>

record 's cred_clients =
  kc_Credential :: "('s, Credential) client"
  kc_User :: "('s, User) client"
  kc_Policy :: "('s, Policy) client"
  kc_Session :: "('s, Session) client"
  kc_ClusterConfig :: "('s, ClusterConfig) client"
  kc_Secret :: "('s, Secret) client"

text \<open>What a handler draws at random: the identifiers of a credential and of its token, and those of a session.\<close>

record mint_env =
  mi_T :: token_env
  mi_N :: session_env
  mi_Id :: string
  mi_TokenID :: string

definition not_past :: "int \<Rightarrow> timestamp \<Rightarrow> unit go" where
  "not_past now ex = (case ex of None \<Rightarrow> Ok () | Some t \<Rightarrow> reject_if (t < now) InvalidArg)"

text \<open>The reference to its user that a valid credential gets.\<close>

definition validateCredential ::
  "api_env \<Rightarrow> 's cred_clients \<Rightarrow> Credential_Spec api_request \<Rightarrow> 's \<Rightarrow> ObjectReference option go \<times> 's" where
  "validateCredential A C req s =
     go_seq (ValidateCommon (ap_V A) (Some (api_resource req)) (Some (named_opts 0)), s) (\<lambda>_ s.
     case aq_Spec req of
       None \<Rightarrow> (Fail InvalidArg, s)
     | Some sp \<Rightarrow>
         go_seq (reject_if (crs_Type sp = CRED_TYPE_UNKNOWN) InvalidArg, s) (\<lambda>_ s.
         go_seq (not_past (ap_Now A) (crs_ExpiresAt sp), s) (\<lambda>_ s.
         go_seq (reject_if (crs_User sp = []) InvalidArg, s) (\<lambda>_ s.
         go_seq (on_err missing_arg (cl_Get (kc_User C) (by_name (crs_User sp)) s)) (\<lambda>usr s.
         go_seq (reject_if (crs_Type sp = OAUTH2 \<and> us_Type (ur_Spec usr) \<noteq> WORKLOAD) InvalidArg, s) (\<lambda>_ s.
         go_seq (reject_if (crs_Type sp = ACCESS_TOKEN \<and> us_Type (ur_Spec usr) \<noteq> WORKLOAD) InvalidArg, s) (\<lambda>_ s.
         go_seq (validatePolicyOwner A (kc_Policy C) (crs_Authorization sp) s) (\<lambda>_ s.
         (Ok (GetObjectReference (ur_ApiVersion usr) (ur_Kind usr) (Some (ur_Metadata usr))), s)))))))))"

definition new_credential :: "string \<Rightarrow> Metadata \<Rightarrow> Credential_Spec \<Rightarrow> ObjectReference option \<Rightarrow> Credential" where
  "new_credential i md sp r =
     \<lparr>cr_ApiVersion = [], cr_Kind = [], cr_Metadata = MetadataFrom md, cr_Spec = sp,
      cr_Status = \<lparr>crt_UserRef = r, crt_Id = i, crt_TokenID = [], crt_LastRotationAt = None, crt_TotalRotations = 0,
        crt_TotalAuthentications = 0, crt_IsLocked = False\<rparr>\<rparr>"

definition admin_CreateCredential ::
  "api_env \<Rightarrow> mint_env \<Rightarrow> 's cred_clients \<Rightarrow> Credential_Spec api_request \<Rightarrow> 's \<Rightarrow> Credential go \<times> 's" where
  "admin_CreateCredential A M C req s =
     go_seq (validateCredential A C req s) (\<lambda>userRef s.
     go_seq (deref (aq_Metadata req), s) (\<lambda>md s.
     go_seq (must_be_absent K8sInternal (cl_Get (kc_Credential C) (by_name (md_Name md)) s)) (\<lambda>_ s.
     go_seq (deref (aq_Spec req), s) (\<lambda>sp s.
     on_err InternalWithErr (cl_Create (kc_Credential C) (new_credential (mi_Id M) md sp userRef) s)))))"

definition admin_DeleteCredential :: "api_env \<Rightarrow> ('s, Credential) client \<Rightarrow> DeleteOptions \<Rightarrow> 's \<Rightarrow> unit go \<times> 's" where
  "admin_DeleteCredential A C req s =
     go_seq (CheckDeleteOptions (ap_V A) (Some req) None, s) (\<lambda>_ s.
     go_seq (on_err K8sNotFoundOrInternalWithErr (cl_Get C \<lparr>go_Uid = do_Uid req, go_Name = do_Name req\<rparr> s)) (\<lambda>tkn s.
     go_seq (CheckIsSystem (Some (cr_Metadata tkn)), s) (\<lambda>_ s.
     go_seq (cl_Delete C \<lparr>do_Uid = md_Uid (cr_Metadata tkn), do_Name = []\<rparr> s) (\<lambda>_ s.
     (Ok (), s)))))"

definition admin_ListCredential ::
  "api_env \<Rightarrow> 's cred_clients \<Rightarrow> ObjectReference option \<Rightarrow> CommonListOptions option \<Rightarrow> 's \<Rightarrow> Credential list go \<times> 's" where
  "admin_ListCredential A C userRef common s =
     go_seq (user_filter A (kc_User C) userRef s) (\<lambda>listOpts s.
     cl_List (kc_Credential C) (GetPublicListOptions common listOpts) s)"

definition admin_GetCredential :: "api_env \<Rightarrow> ('s, Credential) client \<Rightarrow> GetOptions \<Rightarrow> 's \<Rightarrow> Credential go \<times> 's" where
  "admin_GetCredential A C req s =
     go_seq (CheckGetOptions (ap_V A) (Some req) None, s) (\<lambda>_ s. on_err K8sNotFoundOrInternalWithErr (cl_Get C req s))"

definition admin_UpdateCredential ::
  "api_env \<Rightarrow> 's cred_clients \<Rightarrow> Credential_Spec api_request \<Rightarrow> 's \<Rightarrow> Credential go \<times> 's" where
  "admin_UpdateCredential A C req s =
     go_seq (validateCredential A C req s) (\<lambda>userRef s.
     go_seq (deref (aq_Metadata req), s) (\<lambda>md s.
     go_seq (cl_Get (kc_Credential C) \<lparr>go_Uid = md_Uid md, go_Name = md_Name md\<rparr> s) (\<lambda>item s.
     go_seq (CheckIsSystem (Some (cr_Metadata item)), s) (\<lambda>_ s.
     go_seq (deref (aq_Spec req), s) (\<lambda>sp s.
     cl_Update (kc_Credential C)
       (item\<lparr>cr_Metadata := MetadataUpdate (cr_Metadata item) md, cr_Spec := sp,
         cr_Status := (cr_Status item)\<lparr>crt_UserRef := userRef\<rparr>\<rparr>) s)))))"

section \<open>The token of a credential\<close>

definition rotated :: "int \<Rightarrow> string \<Rightarrow> Credential \<Rightarrow> Credential" where
  "rotated now tokenID cred =
     cred\<lparr>cr_Status := (cr_Status cred)\<lparr>crt_TokenID := tokenID, crt_LastRotationAt := Some now,
       crt_TotalRotations := crt_TotalRotations (cr_Status cred) + 1\<rparr>\<rparr>"

definition credential_ref :: "Credential \<Rightarrow> ObjectReference option" where
  "credential_ref c = GetObjectReference (cr_ApiVersion c) (cr_Kind c) (Some (cr_Metadata c))"

definition credential_info :: "Credential \<Rightarrow> Authentication_Info" where
  "credential_info c =
     \<lparr>ai_Type = CREDENTIAL,
      ai_Details = Details_Credential
        \<lparr>ic_CredentialRef = credential_ref c, ic_Type = crs_Type (cr_Spec c), ic_TokenID = crt_TokenID (cr_Status c)\<rparr>,
      ai_Aal = 0, ai_Downstream = None\<rparr>"

definition credential_session :: "Credential \<Rightarrow> User \<Rightarrow> ClusterConfig \<Rightarrow> CreateSessionOpts" where
  "credential_session cred usr cc =
     \<lparr>cs_Usr = usr, cs_Device = None, cs_ClusterConfig = Some cc,
      cs_SessType = (if crs_SessionType (cr_Spec cred) \<noteq> TYPE_UNKNOWN then crs_SessionType (cr_Spec cred) else CLIENTLESS),
      cs_IsBrowser = False, cs_Scopes = [], cs_AuthenticationInfo = Some (credential_info cred),
      cs_Authorization = crs_Authorization (cr_Spec cred), cs_CredentialRef = credential_ref cred,
      cs_ExpiresAt = None, cs_UserAgent = [], cs_XFF = [], cs_Ext = [], cs_CheckPerUserLimit = True,
      cs_AuthenticatorAction = AUTHENTICATOR_ACTION_UNSET, cs_RequiredAuthenticatorRef = None\<rparr>"

text \<open>The first session of the credential is authenticated anew, or one is created.\<close>

definition credential_access_token ::
  "mint_env \<Rightarrow> 's cred_clients \<Rightarrow> int \<Rightarrow> keyMap \<Rightarrow> Credential \<Rightarrow> ClusterConfig \<Rightarrow> 's \<Rightarrow> CredentialToken go \<times> 's" where
  "credential_access_token M C now m cred cc s =
     go_seq (on_err InternalWithErr (cl_List (kc_Session C)
       (no_list_options\<lparr>lo_Filters := [FilterFieldEQValStr ''status.credentialRef.uid'' (md_Uid (cr_Metadata cred))]\<rparr>) s)) (\<lambda>sessList s.
     go_seq (deref (crt_UserRef (cr_Status cred)), s) (\<lambda>userRef s.
     go_seq (on_err K8sNotFoundOrInternalWithErr (cl_Get (kc_User C) (by_uid (or_Uid userRef)) s)) (\<lambda>usr s.
     go_seq
       (case sessList of
          sess # _ \<Rightarrow>
            go_seq (SetCurrAuthentication (mi_N M) sess (Some (credential_info cred)) [] cc [], s) (\<lambda>sess s.
            go_seq (on_err InternalWithErr (cl_Update (kc_Session C) sess s)) (\<lambda>_ s. (Ok sess, s)))
        | [] \<Rightarrow>
            on_err InternalWithErr
              (CreateSession (mi_N M) (kc_Session C) (kc_ClusterConfig C) (credential_session cred usr cc) s)) (\<lambda>sess s.
     (go_map AccessToken (map_err InternalWithErr (CreateAccessToken (mi_T M) now m (Some sess))), s)))))"

text \<open>A token for a credential is made before its type is looked at; each call makes the earlier tokens of the credential void.\<close>

definition admin_GenerateCredentialToken ::
  "api_env \<Rightarrow> mint_env \<Rightarrow> 's cred_clients \<Rightarrow> ObjectReference option \<Rightarrow> 's \<Rightarrow> CredentialToken go \<times> 's" where
  "admin_GenerateCredentialToken A M C cref s =
     go_seq (CheckObjectRef (ap_V A) cref None, s) (\<lambda>_ s.
     go_seq (deref cref, s) (\<lambda>r s.
     go_seq (on_err K8sNotFoundOrInternalWithErr
       (cl_Get (kc_Credential C) \<lparr>go_Uid = or_Uid r, go_Name = or_Name r\<rparr> s)) (\<lambda>cred s.
     go_seq (on_err InternalWithErr (cl_Update (kc_Credential C) (rotated (ap_Now A) (mi_TokenID M) cred) s)) (\<lambda>cred s.
     go_seq (on_err InternalWithErr (NewJWKController (mi_T M) (kc_Secret C) (kc_ClusterConfig C) s)) (\<lambda>jwkCtl s.
     go_seq (map_err InternalWithErr (CreateCredential (mi_T M) (ap_Now A) (jc_keyMap jwkCtl) (Some cred)), s) (\<lambda>tknStr s.
     go_seq (on_err InternalWithErr (cl_Get (kc_ClusterConfig C) (by_name ''default'') s)) (\<lambda>cc s.
     case crs_Type (cr_Spec cred) of
       AUTH_TOKEN \<Rightarrow> (Ok (AuthenticationToken tknStr), s)
     | OAUTH2 \<Rightarrow> (Ok (Oauth2Credentials (crt_Id (cr_Status cred)) tknStr), s)
     | ACCESS_TOKEN \<Rightarrow> credential_access_token M C (ap_Now A) (jc_keyMap jwkCtl) cred cc s
     | _ \<Rightarrow> (Fail (Status InternalCode), s))))))))"

end
