(* ===== verification/AdminResources.thy ===== *)
theory AdminResources imports AdminDirectory Corev1Credentials begin

text \<open>
  \<open>cluster/apiserver/apiserver/admin\<close>: the handlers for sessions, authenticators, identity providers, gateways, regions and
  the configuration of the cluster. The discovery at an OpenID provider is an argument; the build is not one for tests.
\<close>

section \<open>Sessions\<close>

definition any_opts :: ValidateCommonOpts where
  "any_opts = \<lparr>vc_Metadata = no_metadata_opts, vc_RequireStatus = False, vc_RequireData = False\<rparr>"

definition admin_ListSession ::
  "api_env \<Rightarrow> ('s, User) client \<Rightarrow> ('s, Session) client \<Rightarrow> ObjectReference option \<Rightarrow> CommonListOptions option \<Rightarrow> 's \<Rightarrow>
   Session list go \<times> 's"
where
  "admin_ListSession A Cu C userRef common s =
     go_seq (user_filter A Cu userRef s) (\<lambda>listOpts s. cl_List C (GetPublicListOptions common listOpts) s)"

definition own_session :: "api_env \<Rightarrow> Session \<Rightarrow> bool go" where
  "own_session A sess =
     go_bind (ap_GetUserCtx A) (\<lambda>i.
     go_bind (deref (ctx_Session i)) (\<lambda>own. Ok (md_Uid (se_Metadata own) = md_Uid (se_Metadata sess))))"

definition admin_DeleteSession :: "api_env \<Rightarrow> ('s, Session) client \<Rightarrow> DeleteOptions \<Rightarrow> 's \<Rightarrow> unit go \<times> 's" where
  "admin_DeleteSession A C req s =
     go_seq (CheckDeleteOptions (ap_V A) (Some req) None, s) (\<lambda>_ s.
     go_seq (on_err K8sNotFoundOrInternalWithErr (cl_Get C \<lparr>go_Uid = do_Uid req, go_Name = do_Name req\<rparr> s)) (\<lambda>sess s.
     go_seq (CheckIsSystem (Some (se_Metadata sess)), s) (\<lambda>_ s.
     go_seq (own_session A sess, s) (\<lambda>own s.
     go_seq (reject_if own Unauthorized, s) (\<lambda>_ s.
     go_seq (on_err InternalWithErr (cl_Delete C \<lparr>do_Uid = md_Uid (se_Metadata sess), do_Name = []\<rparr> s)) (\<lambda>_ s.
     (Ok (), s)))))))"

definition admin_GetSession :: "api_env \<Rightarrow> ('s, Session) client \<Rightarrow> GetOptions \<Rightarrow> 's \<Rightarrow> Session go \<times> 's" where
  "admin_GetSession A C req s =
     go_seq (CheckGetOptions (ap_V A) (Some req) None, s) (\<lambda>_ s. on_err K8sNotFoundOrInternalWithErr (cl_Get C req s))"

definition admin_validateSession :: "int \<Rightarrow> Session_Spec option \<Rightarrow> unit go" where
  "admin_validateSession now so =
     (case so of
        None \<Rightarrow> Fail InvalidArg
      | Some spec \<Rightarrow>
          go_bind (reject_if (ss_State spec = STATE_UNKNOWN) InvalidArg) (\<lambda>_.
          case ss_ExpiresAt spec of
            None \<Rightarrow> Fail InvalidArg
          | Some t \<Rightarrow> reject_if (t < now) InvalidArg))"

text \<open>Only the spec is updated.\<close>

definition admin_UpdateSession ::
  "api_env \<Rightarrow> ('s, Session) client \<Rightarrow> Session_Spec api_request \<Rightarrow> 's \<Rightarrow> Session go \<times> 's" where
  "admin_UpdateSession A C req s =
     go_seq (ValidateCommon (ap_V A) (Some (api_resource req)) (Some any_opts), s) (\<lambda>_ s.
     go_seq (map_err InvalidArgWithErr (admin_validateSession (ap_Now A) (aq_Spec req)), s) (\<lambda>_ s.
     go_seq (deref (aq_Metadata req), s) (\<lambda>md s.
     go_seq (on_err K8sNotFoundOrInternalWithErr (cl_Get C \<lparr>go_Uid = md_Uid md, go_Name = md_Name md\<rparr> s)) (\<lambda>ret s.
     go_seq (CheckIsSystem (Some (se_Metadata ret)), s) (\<lambda>_ s.
     go_seq (own_session A ret, s) (\<lambda>own s.
     go_seq (deref (aq_Spec req), s) (\<lambda>sp s.
     go_seq (reject_if (own \<and> ss_State sp \<in> {PENDING, REJECTED}) Unauthorized, s) (\<lambda>_ s.
     on_err InternalWithErr (cl_Update C (ret\<lparr>se_Spec := sp\<rparr>) s)))))))))"

section \<open>Authenticators\<close>

definition admin_ListAuthenticator ::
  "api_env \<Rightarrow> ('s, User) client \<Rightarrow> ('s, Authenticator) client \<Rightarrow> ObjectReference option \<Rightarrow> CommonListOptions option \<Rightarrow> 's \<Rightarrow>
   Authenticator list go \<times> 's"
where
  "admin_ListAuthenticator A Cu C userRef common s =
     go_seq (user_filter A Cu userRef s) (\<lambda>listOpts s.
     on_err InternalWithErr (cl_List C (GetPublicListOptions common listOpts) s))"

definition admin_DeleteAuthenticator ::
  "api_env \<Rightarrow> ('s, Authenticator) client \<Rightarrow> DeleteOptions \<Rightarrow> 's \<Rightarrow> unit go \<times> 's" where
  "admin_DeleteAuthenticator A C req s =
     go_seq (CheckDeleteOptions (ap_V A) (Some req) None, s) (\<lambda>_ s.
     go_seq (on_err K8sNotFoundOrInternalWithErr (cl_Get C \<lparr>go_Uid = do_Uid req, go_Name = do_Name req\<rparr> s)) (\<lambda>dev s.
     go_seq (on_err InternalWithErr (cl_Delete C \<lparr>do_Uid = md_Uid (atr_Metadata dev), do_Name = []\<rparr> s)) (\<lambda>_ s.
     (Ok (), s))))"

definition admin_GetAuthenticator ::
  "api_env \<Rightarrow> ('s, Authenticator) client \<Rightarrow> GetOptions \<Rightarrow> 's \<Rightarrow> Authenticator go \<times> 's" where
  "admin_GetAuthenticator A C req s =
     go_seq (CheckGetOptions (ap_V A) (Some req) None, s) (\<lambda>_ s. on_err K8sNotFoundOrInternalWithErr (cl_Get C req s))"

section \<open>Identity providers\<close>

definition optional_ascii :: "validators \<Rightarrow> string \<Rightarrow> unit go" where
  "optional_ascii V x = (if x \<noteq> [] then ValidateGenASCII V x else Ok ())"

definition check_oidc ::
  "api_env \<Rightarrow> (string \<Rightarrow> bool) \<Rightarrow> ('s, Secret) client \<Rightarrow> IdP_OIDC \<Rightarrow> 's \<Rightarrow> unit go \<times> 's" where
  "check_oidc A discover C t s =
     go_seq (reject_if (oi_IssuerURL t = [] \<or> \<not> IsURL (ap_V A) (oi_IssuerURL t) \<or> \<not> discover (oi_IssuerURL t)) InvalidArg, s)
       (\<lambda>_ s.
     go_seq (validateGenStr (ap_V A) (oi_ClientID t) True, s) (\<lambda>_ s.
     go_seq (validateSecretOwner C (oi_ClientSecret t) s) (\<lambda>_ s.
     go_seq (reject_if (32 < length (oi_Scopes t)) InvalidArg, s) (\<lambda>_ s.
     go_seq (go_each (ValidateGenASCII (ap_V A)) (oi_Scopes t), s) (\<lambda>_ s.
     (optional_ascii (ap_V A) (oi_IdentifierClaim t), s))))))"

definition check_identity_token :: "api_env \<Rightarrow> IdP_OIDCIdentityToken \<Rightarrow> unit go" where
  "check_identity_token A t =
     (case ot_Type t of
        OIT_IssuerURL u \<Rightarrow> reject_if (\<not> IsURL (ap_V A) u) InvalidArg
      | OIT_JwksContent x \<Rightarrow> Ok ()
      | OIT_JwksURL u \<Rightarrow> reject_if (\<not> IsURL (ap_V A) u) InvalidArg
      | OIT_Unset \<Rightarrow> Fail InvalidArg)"

definition check_saml :: "api_env \<Rightarrow> IdP_SAML \<Rightarrow> unit go" where
  "check_saml A t =
     go_bind (case sa_MetadataType t of
        SAML_Metadata m \<Rightarrow> reject_if (length m = 0 \<or> 20000 < length m) InvalidArg
      | SAML_MetadataURL u \<Rightarrow> reject_if (u = [] \<or> \<not> IsURL (ap_V A) u) InvalidArg
      | SAML_Unset \<Rightarrow> Fail InvalidArg) (\<lambda>_.
     go_bind (optional_ascii (ap_V A) (sa_IdentifierAttribute t)) (\<lambda>_. optional_ascii (ap_V A) (sa_EntityID t)))"

definition provider_type ::
  "api_env \<Rightarrow> (string \<Rightarrow> bool) \<Rightarrow> ('s, Secret) client \<Rightarrow> IdP_Spec_Type \<Rightarrow> 's \<Rightarrow> IdP_Type go \<times> 's" where
  "provider_type A discover C ty s =
     (case ty of
        IdP_Github t \<Rightarrow>
          go_seq (validateGenStr (ap_V A) (gh_ClientID t) True, s) (\<lambda>_ s.
          go_seq (validateSecretOwner C (gh_ClientSecret t) s) (\<lambda>_ s. (Ok GITHUB, s)))
      | IdP_Oidc t \<Rightarrow> go_seq (check_oidc A discover C t s) (\<lambda>_ s. (Ok OIDC, s))
      | IdP_OidcIdentityToken t \<Rightarrow> (go_map (\<lambda>_. OIDC_IDENTITY_TOKEN) (check_identity_token A t), s)
      | IdP_Saml t \<Rightarrow> (go_map (\<lambda>_. SAML) (check_saml A t), s)
      | IdP_Unset \<Rightarrow> (Fail InvalidArg, s))"

definition provider_rules :: "api_env \<Rightarrow> IdentityProvider_Spec \<Rightarrow> unit go" where
  "provider_rules A sp =
     go_bind (reject_if (128 < length (is_AalRules sp)) InvalidArg) (\<lambda>_.
     go_bind (go_each (\<lambda>r. go_bind (validateCondition A (aa_Condition r)) (\<lambda>_. reject_if (aa_Aal r = AAL_UNSET) InvalidArg))
       (is_AalRules sp)) (\<lambda>_.
     go_bind (reject_if (128 < length (is_PostAuthenticationRules sp)) InvalidArg) (\<lambda>_.
     go_each (\<lambda>r. go_bind (validateCondition A (pa_Condition r)) (\<lambda>_. reject_if (pa_Effect r = EFFECT_UNKNOWN) InvalidArg))
       (is_PostAuthenticationRules sp))))"

definition validateIdentityProvider ::
  "api_env \<Rightarrow> (string \<Rightarrow> bool) \<Rightarrow> ('s, Secret) client \<Rightarrow> IdentityProvider_Spec option \<Rightarrow> 's \<Rightarrow> IdP_Type go \<times> 's" where
  "validateIdentityProvider A discover C spec s =
     (case spec of
        None \<Rightarrow> (Fail InvalidArg, s)
      | Some sp \<Rightarrow>
          go_seq (provider_type A discover C (is_Type sp) s) (\<lambda>ty s.
          go_seq (provider_rules A sp, s) (\<lambda>_ s. (Ok ty, s))))"

definition admin_CreateIdentityProvider ::
  "api_env \<Rightarrow> (string \<Rightarrow> bool) \<Rightarrow> ('s, Secret) client \<Rightarrow> ('s, IdentityProvider) client \<Rightarrow> IdentityProvider_Spec api_request \<Rightarrow> 's \<Rightarrow>
   IdentityProvider go \<times> 's"
where
  "admin_CreateIdentityProvider A discover Csec C req s =
     go_seq (ValidateCommon (ap_V A) (Some (api_resource req)) (Some (named_opts 0)), s) (\<lambda>_ s.
     go_seq (validateIdentityProvider A discover Csec (aq_Spec req) s) (\<lambda>ty s.
     go_seq (deref (aq_Metadata req), s) (\<lambda>md s.
     go_seq (must_be_absent InternalWithErr (cl_Get C (by_name (md_Name md)) s)) (\<lambda>_ s.
     go_seq (deref (aq_Spec req), s) (\<lambda>sp s.
     on_err InternalWithErr
       (cl_Create C \<lparr>idp_ApiVersion = [], idp_Kind = [], idp_Metadata = MetadataFrom md, idp_Spec = sp, idp_Status = \<lparr>it_Type = ty, it_IsLocked = False\<rparr>\<rparr> s))))))"

definition admin_GetIdentityProvider ::
  "api_env \<Rightarrow> ('s, IdentityProvider) client \<Rightarrow> GetOptions \<Rightarrow> 's \<Rightarrow> IdentityProvider go \<times> 's" where
  "admin_GetIdentityProvider A C req s =
     go_seq (CheckGetOrDeleteOptions (ap_V A) req, s) (\<lambda>_ s. on_err K8sNotFoundOrInternalWithErr (cl_Get C req s))"

definition admin_ListIdentityProvider ::
  "('s, IdentityProvider) client \<Rightarrow> CommonListOptions option \<Rightarrow> 's \<Rightarrow> IdentityProvider list go \<times> 's" where
  "admin_ListIdentityProvider C common s = cl_List C (GetPublicListOptions common []) s"

text \<open>The options of this request are not checked.\<close>

definition admin_DeleteIdentityProvider ::
  "('s, IdentityProvider) client \<Rightarrow> DeleteOptions \<Rightarrow> 's \<Rightarrow> unit go \<times> 's" where
  "admin_DeleteIdentityProvider C req s =
     go_seq (cl_Get C \<lparr>go_Uid = do_Uid req, go_Name = do_Name req\<rparr> s) (\<lambda>g s.
     go_seq (CheckIsSystem (Some (idp_Metadata g)), s) (\<lambda>_ s.
     go_seq (on_err K8sInternal (cl_Delete C \<lparr>do_Uid = md_Uid (idp_Metadata g), do_Name = []\<rparr> s)) (\<lambda>_ s.
     (Ok (), s))))"

definition admin_UpdateIdentityProvider ::
  "api_env \<Rightarrow> (string \<Rightarrow> bool) \<Rightarrow> ('s, Secret) client \<Rightarrow> ('s, IdentityProvider) client \<Rightarrow> IdentityProvider_Spec api_request \<Rightarrow> 's \<Rightarrow>
   IdentityProvider go \<times> 's"
where
  "admin_UpdateIdentityProvider A discover Csec C req s =
     go_seq (ValidateCommon (ap_V A) (Some (api_resource req)) (Some (named_opts 0)), s) (\<lambda>_ s.
     go_seq (validateIdentityProvider A discover Csec (aq_Spec req) s) (\<lambda>ty s.
     go_seq (deref (aq_Metadata req), s) (\<lambda>md s.
     go_seq (cl_Get C (by_name (md_Name md)) s) (\<lambda>item s.
     go_seq (CheckIsSystem (Some (idp_Metadata item)), s) (\<lambda>_ s.
     go_seq (reject_if (it_Type (idp_Status item) \<noteq> ty) InvalidArg, s) (\<lambda>_ s.
     go_seq (deref (aq_Spec req), s) (\<lambda>sp s.
     on_err K8sInternal
       (cl_Update C (item\<lparr>idp_Metadata := MetadataUpdate (idp_Metadata item) md, idp_Spec := sp\<rparr>) s))))))))"

section \<open>Gateways and regions\<close>

definition region_filter ::
  "api_env \<Rightarrow> ('s, Region) client \<Rightarrow> ObjectReference option \<Rightarrow> 's \<Rightarrow> Filter list go \<times> 's" where
  "region_filter A Cr regionRef s =
     (case regionRef of
        None \<Rightarrow> (Ok [], s)
      | Some r \<Rightarrow>
          go_seq (CheckObjectRef (ap_V A) (Some r) (Some (parents_opts 0)), s) (\<lambda>_ s.
          go_seq (cl_Get Cr \<lparr>go_Uid = or_Uid r, go_Name = or_Name r\<rparr> s) (\<lambda>rgn s.
          (Ok [FilterFieldEQValStr ''status.regionRef.uid'' (md_Uid (rg_Metadata rgn))], s))))"

definition admin_ListGateway ::
  "api_env \<Rightarrow> ('s, Region) client \<Rightarrow> ('s, Gateway) client \<Rightarrow> ObjectReference option \<Rightarrow> CommonListOptions option \<Rightarrow> 's \<Rightarrow>
   Gateway list go \<times> 's"
where
  "admin_ListGateway A Cr C regionRef common s =
     go_seq (region_filter A Cr regionRef s) (\<lambda>listOpts s. cl_List C (GetPublicListOptions common listOpts) s)"

definition admin_GetGateway :: "api_env \<Rightarrow> ('s, Gateway) client \<Rightarrow> GetOptions \<Rightarrow> 's \<Rightarrow> Gateway go \<times> 's" where
  "admin_GetGateway A C req s =
     go_seq (CheckGetOrDeleteOptions (ap_V A) req, s) (\<lambda>_ s. on_err K8sNotFoundOrInternalWithErr (cl_Get C req s))"

definition admin_ListRegion :: "('s, Region) client \<Rightarrow> CommonListOptions option \<Rightarrow> 's \<Rightarrow> Region list go \<times> 's" where
  "admin_ListRegion C common s = cl_List C (GetPublicListOptions common []) s"

definition admin_GetRegion :: "api_env \<Rightarrow> ('s, Region) client \<Rightarrow> GetOptions \<Rightarrow> 's \<Rightarrow> Region go \<times> 's" where
  "admin_GetRegion A C req s =
     go_seq (CheckGetOrDeleteOptions (ap_V A) req, s) (\<lambda>_ s.
     shown rg_Metadata (on_err K8sNotFoundOrInternalWithErr (cl_Get C req s)))"

section \<open>The configuration of the cluster\<close>

definition admin_GetClusterConfig :: "('s, ClusterConfig) client \<Rightarrow> 's \<Rightarrow> ClusterConfig go \<times> 's" where
  "admin_GetClusterConfig C s = on_err InternalWithErr (cl_Get C (by_name ''default'') s)"

definition cc_durations :: "User_Spec_Session option \<Rightarrow> unit go" where
  "cc_durations d =
     (case d of
        None \<Rightarrow> Ok ()
      | Some x \<Rightarrow>
          go_each ValidateDuration
            [uss_ClientDuration x, uss_ClientlessDuration x, uss_RefreshTokenDuration x, uss_AccessTokenDuration x])"

definition cc_validateSession :: "ClusterConfig_Spec \<Rightarrow> unit go" where
  "cc_validateSession c =
     (case ccs_Session c of
        None \<Rightarrow> Ok ()
      | Some ss \<Rightarrow> go_bind (cc_durations (cn_Human ss)) (\<lambda>_. cc_durations (cn_Workload ss)))"

definition validateGateway :: "ClusterConfig_Spec \<Rightarrow> unit go" where
  "validateGateway c = (case ccs_Gateway c of None \<Rightarrow> Ok () | Some g \<Rightarrow> ValidateDuration (cg_WireguardKeyRotationDuration g))"

text \<open>A list of servers that is empty is nil in a message that was received.\<close>

definition validateDNS :: "validators \<Rightarrow> ClusterConfig_Spec \<Rightarrow> unit go" where
  "validateDNS V c =
     (case Option.bind (ccs_Dns c) cd_FallbackZone of
        None \<Rightarrow> Ok ()
      | Some z \<Rightarrow>
          if dz_Servers z = [] then Ok ()
          else
            go_bind (ValidateDuration (dz_CacheDuration z)) (\<lambda>_.
            go_bind (reject_if (32 < length (dz_Servers z)) InvalidArg) (\<lambda>_.
            go_each (\<lambda>srv. reject_if (\<not> (IsDNSName V srv \<or> IsIP V srv \<or> IsURL V srv)) InvalidArg) (dz_Servers z))))"

definition enforcement_rules :: "api_env \<Rightarrow> AuthEnforcementRule list \<Rightarrow> unit go" where
  "enforcement_rules A rs =
     go_bind (reject_if (256 < length rs) InvalidArg) (\<lambda>_.
     go_each (\<lambda>r. go_bind (validateCondition A (ae_Condition r)) (\<lambda>_.
       reject_if (ae_Effect r = AUTH_ENFORCEMENT_UNKNOWN) InvalidArg)) rs)"

definition authentication_rules :: "api_env \<Rightarrow> AuthRule list \<Rightarrow> unit go" where
  "authentication_rules A rs =
     go_bind (reject_if (256 < length rs) InvalidArg) (\<lambda>_.
     go_each (\<lambda>r. go_bind (validateCondition A (ar_Condition r)) (\<lambda>_. reject_if (ar_Effect r = EFFECT_UNKNOWN) InvalidArg)) rs)"

definition validateCCAuthenticator :: "api_env \<Rightarrow> ClusterConfig_Spec \<Rightarrow> unit go" where
  "validateCCAuthenticator A c =
     (case ccs_Authenticator c of
        None \<Rightarrow> Ok ()
      | Some cfg \<Rightarrow>
          go_bind (enforcement_rules A (ca_AuthenticationEnforcementRules cfg)) (\<lambda>_.
          go_bind (authentication_rules A (ca_PostAuthenticationRules cfg)) (\<lambda>_.
          enforcement_rules A (ca_RegistrationEnforcementRules cfg))))"

definition validateClusterConfigSpec ::
  "api_env \<Rightarrow> ('s, Policy) client \<Rightarrow> ClusterConfig_Spec \<Rightarrow> 's \<Rightarrow> unit go \<times> 's" where
  "validateClusterConfigSpec A Cp c s =
     go_seq (cc_validateSession c, s) (\<lambda>_ s.
     go_seq (validateGateway c, s) (\<lambda>_ s.
     go_seq (validateDNS (ap_V A) c, s) (\<lambda>_ s.
     go_seq (if ccs_Authorization c \<noteq> None then validatePolicyOwner A Cp (ccs_Authorization c) s else (Ok (), s)) (\<lambda>_ s.
     (validateCCAuthenticator A c, s)))))"

definition validateClusterConfig ::
  "api_env \<Rightarrow> ('s, Policy) client \<Rightarrow> ClusterConfig_Spec api_request \<Rightarrow> 's \<Rightarrow> unit go \<times> 's" where
  "validateClusterConfig A Cp req s =
     go_seq (ValidateCommon (ap_V A) (Some (api_resource req)) (Some any_opts), s) (\<lambda>_ s.
     case aq_Spec req of
       None \<Rightarrow> (Fail InvalidArg, s)
     | Some c \<Rightarrow> on_err InvalidArgWithErr (validateClusterConfigSpec A Cp c s))"

definition admin_UpdateClusterConfig ::
  "api_env \<Rightarrow> ('s, Policy) client \<Rightarrow> ('s, ClusterConfig) client \<Rightarrow> ClusterConfig_Spec api_request \<Rightarrow> 's \<Rightarrow> ClusterConfig go \<times> 's" where
  "admin_UpdateClusterConfig A Cp C req s =
     go_seq (validateClusterConfig A Cp req s) (\<lambda>_ s.
     go_seq (on_err InternalWithErr (cl_Get C (by_name ''default'') s)) (\<lambda>cfg s.
     go_seq (deref (aq_Metadata req), s) (\<lambda>md s.
     go_seq (deref (aq_Spec req), s) (\<lambda>sp s.
     cl_Update C (cfg\<lparr>cc_Metadata := MetadataUpdate (cc_Metadata cfg) md, cc_Spec := sp\<rparr>) s))))"

end
