(* ===== verification/AdminService.thy ===== *)
theory AdminService imports AdminDirectory Vutils begin

text \<open>
  \<open>cluster/apiserver/apiserver/admin/service.go\<close>: the handlers for Services and the long checks of what a
  Service may say, with \<open>GetMergedServiceConfig\<close> of \<open>cluster/common/rscutils/svc.go\<close>. The libraries for URLs, certificates,
  schemas, media types, YAML and the merge of two messages are fields of a record. The build is not one for tests.
\<close>

section \<open>Environment and clients\<close>

record svc_env =
  xe_A :: api_env
  xe_urlParse :: "string \<Rightarrow> url option"
  xe_IsChainPEM :: "string \<Rightarrow> bool"
  xe_Compiles :: "string \<Rightarrow> bool"
  xe_IsMediaType :: "string \<Rightarrow> bool"
  xe_UnmarshalKubeConfig :: "string \<Rightarrow> KubeConfig option"
  xe_Merge :: "Service_Spec_Config \<Rightarrow> Service_Spec_Config \<Rightarrow> Service_Spec_Config"

record 's svc_clients =
  xc_Service :: "('s, Service) client"
  xc_Namespace :: "('s, Namespace) client"
  xc_Region :: "('s, Region) client"
  xc_User :: "('s, User) client"
  xc_Policy :: "('s, Policy) client"
  xc_Secret :: "('s, Secret) client"

type_synonym labels = "(string \<times> string) list"

text \<open>The first check that fails decides.\<close>

definition first_failure :: "unit go list \<Rightarrow> unit go" where
  "first_failure cs = go_each id cs"

definition all_same :: "'a list \<Rightarrow> bool" where
  "all_same xs \<longleftrightarrow> list_all (\<lambda>x. x = hd xs) (tl xs)"

section \<open>The request for a Service\<close>

definition checkURL :: "svc_env \<Rightarrow> string \<Rightarrow> (string \<times> int) go" where
  "checkURL E u =
     go_bind (reject_if (u = []) InvalidArg) (\<lambda>_.
     case xe_urlParse E u of
       None \<Rightarrow> Fail InvalidArg
     | Some backendURL \<Rightarrow>
         go_bind (reject_if (u_Scheme backendURL = []) InvalidArg) (\<lambda>_.
         if u_Port backendURL \<noteq> [] then
           (case Atoi (u_Port backendURL) of
              None \<Rightarrow> Fail InvalidArg
            | Some portnum \<Rightarrow>
                go_bind (ValidatePort (ap_V (xe_A E)) portnum) (\<lambda>_. Ok (u_Scheme backendURL, portnum)))
         else go_map (Pair (u_Scheme backendURL)) (map_err (\<lambda>_. InvalidArg) (getPortFromScheme (u_Scheme backendURL)))))"

definition spec_upstream :: "Service_Spec \<Rightarrow> Config_Upstream option" where
  "spec_upstream sp = Option.bind (sv_Config sp) sc_Upstream"

text \<open>The schemes and the ports of the URLs of the upstream.\<close>

definition check_backends :: "svc_env \<Rightarrow> Service_Spec \<Rightarrow> (string \<times> int) list go" where
  "check_backends E sp =
     (case spec_upstream sp of
        None \<Rightarrow> Ok []
      | Some u \<Rightarrow>
          (case cu_Type u of
             Upstream_Url url \<Rightarrow> go_map (\<lambda>b. [b]) (checkURL E url)
           | Upstream_Loadbalance eps \<Rightarrow>
               go_bind (reject_if (length eps = 0) InvalidArg) (\<lambda>_. go_mapM (\<lambda>b. checkURL E (ep_Url b)) eps)
           | Upstream_Container c \<Rightarrow> go_map (\<lambda>_. []) (ValidatePort (ap_V (xe_A E)) (uint (uc_Port c)))
           | Upstream_Unset \<Rightarrow> Ok []))"

definition check_anonymous :: "Service_Spec \<Rightarrow> unit go" where
  "check_anonymous sp =
     (if \<not> sv_IsAnonymous sp then Ok ()
      else first_failure
        [reject_if (\<not> sv_IsPublic sp) InvalidArg,
         reject_if (sv_Mode sp \<notin> {HTTP, WEB, GRPC}) InvalidArg,
         reject_if (sv_Authorization sp \<noteq> None) InvalidArg])"

definition validateService ::
  "svc_env \<Rightarrow> 's svc_clients \<Rightarrow> Service_Spec api_request \<Rightarrow> 's \<Rightarrow> unit go \<times> 's" where
  "validateService E C req s =
     (let V = ap_V (xe_A E) in
      go_seq (ValidateCommon V (Some (api_resource req)) (Some (named_opts 1)), s) (\<lambda>_ s.
      case aq_Spec req of
        None \<Rightarrow> (Fail InvalidArg, s)
      | Some sp \<Rightarrow>
          go_seq (ValidateAttrs V (sv_Attrs sp), s) (\<lambda>_ s.
          go_seq (check_backends E sp, s) (\<lambda>bs s.
          go_seq (if sv_Port sp \<noteq> 0 then ValidatePort V (uint (sv_Port sp)) else Ok (), s) (\<lambda>_ s.
          go_seq (reject_if (\<not> all_same (map fst bs)) InvalidArg, s) (\<lambda>_ s.
          go_seq (reject_if (sv_Port sp = 0 \<and> \<not> all_same (map snd bs)) InvalidArg, s) (\<lambda>_ s.
          go_seq (validatePolicyOwner (xe_A E) (xc_Policy C) (sv_Authorization sp) s) (\<lambda>_ s.
          (check_anonymous sp, s)))))))))"

section \<open>Regions and upstreams\<close>

definition service_region :: "'s svc_clients \<Rightarrow> string \<Rightarrow> 's \<Rightarrow> ObjectReference option go \<times> 's" where
  "service_region C region s =
     go_seq
       (if region \<noteq> [] then on_err missing_arg (cl_Get (xc_Region C) (by_name region) s)
        else on_err InternalWithErr (cl_Get (xc_Region C) (by_name ''default'') s)) (\<lambda>rgn s.
     (Ok (GetObjectReference (rg_ApiVersion rgn) (rg_Kind rgn) (Some (rg_Metadata rgn))), s))"

definition host_user :: "'s svc_clients \<Rightarrow> string \<Rightarrow> labels \<Rightarrow> 's \<Rightarrow> labels go \<times> 's" where
  "host_user C u labels s =
     (if u = [] then (Ok labels, s)
      else
        go_seq (on_err missing_arg (cl_Get (xc_User C) (by_name u) s)) (\<lambda>usr s.
        (Ok (AList.update (''host-user-'' @ md_Name (ur_Metadata usr)) (md_Uid (ur_Metadata usr)) labels), s)))"

fun endpoint_users :: "'s svc_clients \<Rightarrow> Endpoint list \<Rightarrow> labels \<Rightarrow> 's \<Rightarrow> labels go \<times> 's" where
  "endpoint_users C [] labels s = (Ok labels, s)"
| "endpoint_users C (ep # eps) labels s =
     go_seq (host_user C (ep_User ep) labels s) (\<lambda>labels s. endpoint_users C eps labels s)"

section \<open>Containers\<close>

text \<open>The value of a variable is checked as its key is.\<close>

definition check_env :: "svc_env \<Rightarrow> 's svc_clients \<Rightarrow> Container_Env \<Rightarrow> 's \<Rightarrow> unit go \<times> 's" where
  "check_env E C itm s =
     go_seq (ValidateEnvVarKey (cv_Name itm), s) (\<lambda>_ s.
     case cv_Type itm of
       Env_Value v \<Rightarrow> (ValidateEnvVarKey v, s)
     | Env_FromSecret f \<Rightarrow> validateSecretOwner (xc_Secret C) (Some f) s
     | Env_KubernetesSecretRef n k \<Rightarrow>
         (first_failure
            [reject_if (n = []) InvalidArg, reject_if (k = []) InvalidArg,
             ValidateGenASCII (ap_V (xe_A E)) n, ValidateGenASCII (ap_V (xe_A E)) k], s)
     | Env_Unset \<Rightarrow> (Fail InvalidArg, s))"

definition check_resources :: "svc_env \<Rightarrow> labels option \<Rightarrow> unit go" where
  "check_resources E r =
     (case r of
        None \<Rightarrow> Ok ()
      | Some ext \<Rightarrow>
          go_bind (reject_if (100 < length ext) InvalidArg) (\<lambda>_.
          go_each (\<lambda>(k, v). go_bind (ValidateGenASCII (ap_V (xe_A E)) k) (\<lambda>_. ValidateGenASCII (ap_V (xe_A E)) v)) ext))"

definition check_credentials ::
  "svc_env \<Rightarrow> 's svc_clients \<Rightarrow> Container_Credentials option \<Rightarrow> 's \<Rightarrow> unit go \<times> 's" where
  "check_credentials E C co s =
     (case co of
        None \<Rightarrow> (Ok (), s)
      | Some uP \<Rightarrow>
          go_seq (reject_if (cw_Username uP = [] \<or> 256 < length (cw_Username uP)) InvalidArg, s) (\<lambda>_ s.
          go_seq (reject_if (cw_Password uP = None) InvalidArg, s) (\<lambda>_ s.
          go_seq (validateSecretOwner (xc_Secret C) (cw_Password uP) s) (\<lambda>_ s.
          (reject_if (cw_Server uP \<noteq> [] \<and> \<not> IsDNSName (ap_V (xe_A E)) (cw_Server uP)) InvalidArg, s)))))"

definition check_volume :: "Container_Volume \<Rightarrow> unit go" where
  "check_volume vol =
     go_bind (ValidateName (vo_Name vol) 0 0) (\<lambda>_.
     case vo_PersistentVolumeClaim vol of None \<Rightarrow> Fail InvalidArg | Some n \<Rightarrow> ValidateName n 0 0)"

definition check_mount :: "svc_env \<Rightarrow> Container_VolumeMount \<Rightarrow> unit go" where
  "check_mount E mount =
     first_failure
       [ValidateName (mo_Name mount) 0 0,
        reject_if (\<not> IsUnixFilePath (ap_V (xe_A E)) (mo_MountPath mount)) InvalidArg,
        validateGenStr (ap_V (xe_A E)) (mo_SubPath mount) False]"

definition validateProbe :: "svc_env \<Rightarrow> Container_Probe option \<Rightarrow> unit go" where
  "validateProbe E po =
     (let V = ap_V (xe_A E) in
      case po of
        None \<Rightarrow> Ok ()
      | Some (Probe_Grpc p) \<Rightarrow> ValidatePort V (uint p)
      | Some (Probe_HttpGet path p) \<Rightarrow>
          first_failure
            [reject_if (512 < length path) InvalidArg, reject_if (\<not> IsRequestURI V path) InvalidArg, ValidatePort V (uint p)]
      | Some (Probe_TcpSocket p) \<Rightarrow> ValidatePort V (uint p)
      | Some Probe_Unset \<Rightarrow> Fail InvalidArg)"

definition container_head :: "svc_env \<Rightarrow> Upstream_Container \<Rightarrow> unit go" where
  "container_head E typ =
     first_failure
       [reject_if (uc_Image typ = []) InvalidArg,
        reject_if (256 < length (uc_Image typ)) InvalidArg,
        ValidatePort (ap_V (xe_A E)) (uint (uc_Port typ)),
        reject_if (64 < length (uc_Args typ)) InvalidArg,
        reject_if (64 < length (uc_Command typ)) InvalidArg,
        go_each (\<lambda>arg. reject_if (1024 < length arg) InvalidArg) (uc_Args typ),
        go_each (\<lambda>arg. reject_if (1024 < length arg) InvalidArg) (uc_Command typ),
        reject_if (100 < uint (uc_Replicas typ)) InvalidArg,
        reject_if (32 < length (uc_Env typ)) InvalidArg]"

definition container_tail :: "svc_env \<Rightarrow> Upstream_Container \<Rightarrow> unit go" where
  "container_tail E typ =
     first_failure
       [reject_if (32 < length (uc_Volumes typ)) InvalidArg,
        go_each check_volume (uc_Volumes typ),
        reject_if (32 < length (uc_VolumeMounts typ)) InvalidArg,
        go_each (check_mount E) (uc_VolumeMounts typ),
        validateProbe E (uc_ReadinessProbe typ),
        validateProbe E (uc_LivenessProbe typ)]"

definition check_container :: "svc_env \<Rightarrow> 's svc_clients \<Rightarrow> Upstream_Container \<Rightarrow> 's \<Rightarrow> unit go \<times> 's" where
  "check_container E C typ s =
     go_seq (container_head E typ, s) (\<lambda>_ s.
     go_seq (go_each_st (check_env E C) (uc_Env typ) s) (\<lambda>_ s.
     go_seq (check_resources E (uc_ResourceLimit typ), s) (\<lambda>_ s.
     go_seq (check_credentials E C (uc_UsernamePassword typ) s) (\<lambda>_ s.
     (container_tail E typ, s)))))"

text \<open>Only the upstream of the default configuration is looked at; the labels name the users that host it.\<close>

definition check_upstream ::
  "svc_env \<Rightarrow> 's svc_clients \<Rightarrow> Config_Upstream option \<Rightarrow> 's \<Rightarrow> labels go \<times> 's" where
  "check_upstream E C uo s =
     (case uo of
        None \<Rightarrow> (Ok [], s)
      | Some u \<Rightarrow>
          go_seq (host_user C (cu_User u) [] s) (\<lambda>labels s.
          case cu_Type u of
            Upstream_Url x \<Rightarrow> (Ok labels, s)
          | Upstream_Loadbalance eps \<Rightarrow>
              go_seq (reject_if (length eps = 0) InvalidArg, s) (\<lambda>_ s.
              go_seq (reject_if (100 < length eps) InvalidArg, s) (\<lambda>_ s.
              endpoint_users C eps labels s))
          | Upstream_Container typ \<Rightarrow> go_seq (check_container E C typ s) (\<lambda>_ s. (Ok labels, s))
          | Upstream_Unset \<Rightarrow> (Fail InvalidArg, s)))"

end
