(* ===== verification/AdminServiceConfig.thy ===== *)
theory AdminServiceConfig imports AdminService begin

text \<open>
  What \<open>checkAndSetService\<close> of \<open>admin/service.go\<close> asks of one configuration of a Service, the closure \<open>validateConfig\<close>:
  its parent, its certificates, and the settings for HTTP and its plugins, for Kubernetes, for SSH and for databases.
\<close>

section \<open>Authentication at an HTTP upstream\<close>

definition named_ascii :: "svc_env \<Rightarrow> string \<Rightarrow> unit go" where
  "named_ascii E x = (if x = [] then Fail InvalidArg else ValidateGenASCII (ap_V (xe_A E)) x)"

text \<open>Of the errors of a lookup only an internal one is kept.\<close>

definition secret_exists :: "'s svc_clients \<Rightarrow> string \<Rightarrow> 's \<Rightarrow> unit go \<times> 's" where
  "secret_exists C n s =
     go_seq (on_err (\<lambda>e. if \<not> IsInternal e then InvalidArg else InternalWithErr e) (cl_Get (xc_Secret C) (by_name n) s))
       (\<lambda>_ s. (Ok (), s))"

definition check_http_auth :: "svc_env \<Rightarrow> 's svc_clients \<Rightarrow> HTTP_Auth \<Rightarrow> 's \<Rightarrow> unit go \<times> 's" where
  "check_http_auth E C a s =
     (case a of
        Auth_Unset \<Rightarrow> (Ok (), s)
      | Auth_Bearer f \<Rightarrow> if f \<noteq> [] then secret_exists C f s else (Ok (), s)
      | Auth_Basic u pw \<Rightarrow> go_seq (named_ascii E u, s) (\<lambda>_ s. validateSecretOwner (xc_Secret C) pw s)
      | Auth_Custom h v \<Rightarrow>
          go_seq (validateGenStr (ap_V (xe_A E)) h True, s) (\<lambda>_ s. validateSecretOwner (xc_Secret C) v s)
      | Auth_Sigv4 svc region key sec \<Rightarrow>
          go_seq (first_failure [named_ascii E svc, named_ascii E region, named_ascii E key], s) (\<lambda>_ s.
          validateSecretOwner (xc_Secret C) sec s)
      | Auth_Oauth2ClientCredentials cid turl sec \<Rightarrow>
          go_seq (first_failure [reject_if (cid = []) InvalidArg, reject_if (turl = []) InvalidArg], s) (\<lambda>_ s.
          validateSecretOwner (xc_Secret C) sec s))"

section \<open>Bodies, paths and responses\<close>

definition check_schema :: "svc_env \<Rightarrow> JSON_Schema \<Rightarrow> unit go" where
  "check_schema E sc =
     (case sc of
        Schema_Inline val \<Rightarrow>
          first_failure
            [reject_if (length val = 0) InvalidArg, reject_if (30000 < length val) InvalidArg,
             reject_if (\<not> xe_Compiles E val) InvalidArg]
      | Schema_Unset \<Rightarrow> Fail InvalidArg)"

definition check_body :: "svc_env \<Rightarrow> Body_Validation option option \<Rightarrow> unit go" where
  "check_body E b =
     (case b of
        Some (Some (Validation_JsonSchema sc)) \<Rightarrow> check_schema E sc
      | Some (Some Validation_Unset) \<Rightarrow> Fail InvalidArg
      | _ \<Rightarrow> Ok ())"

definition check_prefix :: "svc_env \<Rightarrow> string \<Rightarrow> unit go" where
  "check_prefix E p =
     (if p = [] then Ok ()
      else first_failure [reject_if (512 < length p) InvalidArg, reject_if (\<not> IsRequestURI (ap_V (xe_A E)) p) InvalidArg])"

definition check_path :: "svc_env \<Rightarrow> HTTP_Path \<Rightarrow> unit go" where
  "check_path E pth = first_failure [check_prefix E (hp_AddPrefix pth), check_prefix E (hp_RemovePrefix pth)]"

text \<open>A body that is unset is refused in a response, and is let through in a plugin.\<close>

definition check_inline :: "Inline_Body \<Rightarrow> unit go" where
  "check_inline b =
     (case b of
        Body_Inline x \<Rightarrow> reject_if (50000 < length x) InvalidArg
      | Body_InlineBytes x \<Rightarrow> reject_if (35000 < length x) InvalidArg
      | Body_Unset \<Rightarrow> Ok ())"

definition check_response :: "svc_env \<Rightarrow> HTTP_Response \<Rightarrow> unit go" where
  "check_response E r =
     (case r of
        Response_Direct d \<Rightarrow>
          first_failure
            [reject_if (rd_StatusCode d \<noteq> 0 \<and> (rd_StatusCode d < 200 \<or> 599 < rd_StatusCode d)) InvalidArg,
             reject_if (rd_ContentType d \<noteq> [] \<and> 128 < length (rd_ContentType d)) InvalidArg,
             reject_if (rd_ContentType d \<noteq> [] \<and> \<not> xe_IsMediaType E (rd_ContentType d)) InvalidArg,
             check_inline (rd_Type d),
             reject_if (rd_Type d = Body_Unset) InvalidArg]
      | Response_Unset \<Rightarrow> Fail InvalidArg)"

section \<open>Plugins\<close>

definition check_headers :: "svc_env \<Rightarrow> labels \<Rightarrow> unit go" where
  "check_headers E hs =
     go_each (\<lambda>(k, v). go_bind (validateGenStr (ap_V (xe_A E)) k True) (\<lambda>_. validateGenStr (ap_V (xe_A E)) v True)) hs"

definition plugin_status :: "int \<Rightarrow> unit go" where
  "plugin_status c = (if c \<noteq> 0 then ValidateHTTPStatusCode c else Ok ())"

definition check_ext_proc :: "svc_env \<Rightarrow> Duration option \<Rightarrow> ExtProc_Type \<Rightarrow> unit go" where
  "check_ext_proc E d ty =
     go_bind (reject_if (6000 * 1000000 < sint (ToGo d)) InvalidArg) (\<lambda>_.
     case ty of
       ExtProc_Address x \<Rightarrow> ValidateHostPort (ap_V (xe_A E)) x
     | ExtProc_Container im \<Rightarrow> first_failure [reject_if (im = []) InvalidArg, reject_if (256 < length im) InvalidArg]
     | ExtProc_Unset \<Rightarrow> Ok ())"

definition check_cache :: "svc_env \<Rightarrow> Plugin_Cache \<Rightarrow> unit go" where
  "check_cache E conf =
     first_failure
       [ValidateDuration (pc_Ttl conf),
        (case pc_Key conf of
           None \<Rightarrow> Ok () | Some (Key_Eval e) \<Rightarrow> checkCELExpression (xe_A E) e | Some Key_Unset \<Rightarrow> Fail InvalidArg),
        reject_if (256000000 < uint (pc_MaxSize conf)) InvalidArg]"

text \<open>The length that is compared is that of the schema, also where the body is meant.\<close>

definition check_schema_plugin :: "svc_env \<Rightarrow> Plugin_JSONSchema \<Rightarrow> unit go" where
  "check_schema_plugin E conf =
     first_failure
       [check_schema E (pj_Type conf),
        check_headers E (pj_Headers conf),
        (case pj_Body conf of
           Some (Body_Inline x) \<Rightarrow>
             reject_if (50000 < length (case pj_Type conf of Schema_Inline v \<Rightarrow> v | Schema_Unset \<Rightarrow> [])) InvalidArg
         | Some (Body_InlineBytes x) \<Rightarrow> reject_if (35000 < length x) InvalidArg
         | _ \<Rightarrow> Ok ())]"

definition check_rate_limit :: "svc_env \<Rightarrow> Plugin_RateLimit \<Rightarrow> unit go" where
  "check_rate_limit E conf =
     first_failure
       [reject_if (rl_Limit conf = 0) InvalidArg,
        reject_if (rl_Limit conf < 0) InvalidArg,
        plugin_status (rl_StatusCode conf),
        reject_if (rl_Window conf = None) InvalidArg,
        ValidateDuration (rl_Window conf),
        check_headers E (rl_Headers conf),
        (case rl_Body conf of None \<Rightarrow> Ok () | Some b \<Rightarrow> check_inline b)]"

definition check_plugin_type :: "svc_env \<Rightarrow> HTTP_Plugin_Type \<Rightarrow> unit go" where
  "check_plugin_type E ty =
     (case ty of
        Plugin_Lua x \<Rightarrow> first_failure [reject_if (length x = 0) InvalidArg, reject_if (20000 < length x) InvalidArg]
      | Plugin_Direct d \<Rightarrow>
          first_failure
            [plugin_status (pl_StatusCode d), reject_if (100 < length (pl_Headers d)) InvalidArg,
             check_headers E (pl_Headers d), (case pl_Body d of None \<Rightarrow> Ok () | Some b \<Rightarrow> check_inline b)]
      | Plugin_ExtProc d ty \<Rightarrow> check_ext_proc E d ty
      | Plugin_Cache conf \<Rightarrow> check_cache E conf
      | Plugin_JsonSchema conf \<Rightarrow> check_schema_plugin E conf
      | Plugin_Path pth \<Rightarrow> check_path E pth
      | Plugin_RateLimit conf \<Rightarrow> check_rate_limit E conf
      | Plugin_Unset \<Rightarrow> Fail InvalidArg)"

fun check_plugins :: "svc_env \<Rightarrow> string list \<Rightarrow> HTTP_Plugin list \<Rightarrow> unit go" where
  "check_plugins E names [] = Ok ()"
| "check_plugins E names (plugin # ps) =
     go_bind (ValidateName (pg_Name plugin) 0 0) (\<lambda>_.
     go_bind (reject_if (pg_Name plugin \<in> set names) InvalidArg) (\<lambda>_.
     go_bind (validateCondition (xe_A E) (pg_Condition plugin)) (\<lambda>_.
     go_bind (check_plugin_type E (pg_Type plugin)) (\<lambda>_.
     check_plugins E (names @ [pg_Name plugin]) ps))))"

definition check_visibility :: "svc_env \<Rightarrow> HTTP_Visibility \<Rightarrow> unit go" where
  "check_visibility E v =
     (let maxHeaders = 128; each = go_each (\<lambda>hdr. validateGenStr (ap_V (xe_A E)) hdr True) in
      first_failure
        [reject_if (maxHeaders < length (vi_IncludeRequestHeaders v)) InvalidArg, each (vi_IncludeRequestHeaders v),
         reject_if (maxHeaders < length (vi_IncludeResponseHeaders v)) InvalidArg, each (vi_IncludeResponseHeaders v)])"

definition optional :: "('a \<Rightarrow> unit go) \<Rightarrow> 'a option \<Rightarrow> unit go" where
  "optional f x = (case x of None \<Rightarrow> Ok () | Some y \<Rightarrow> f y)"

definition check_http :: "svc_env \<Rightarrow> 's svc_clients \<Rightarrow> Service_Spec \<Rightarrow> Config_HTTP \<Rightarrow> 's \<Rightarrow> unit go \<times> 's" where
  "check_http E C sp h s =
     go_seq (reject_if (sv_Mode sp \<notin> {HTTP, WEB, GRPC}) InvalidArg, s) (\<lambda>_ s.
     go_seq (case ch_Auth h of None \<Rightarrow> (Ok (), s) | Some a \<Rightarrow> check_http_auth E C a s) (\<lambda>_ s.
     (first_failure
        [check_body E (ch_Body h),
         optional (check_path E) (ch_Path h),
         optional (check_response E) (ch_Response h),
         reject_if (256 < length (ch_Plugins h)) InvalidArg,
         check_plugins E [] (ch_Plugins h),
         optional (check_visibility E) (ch_Visibility h)], s)))"

end
