(* ===== verification/AdminServiceHandlers.thy ===== *)
theory AdminServiceHandlers imports AdminServiceConfig begin

text \<open>
  The rest of \<open>admin/service.go\<close>: one configuration as a whole, what \<open>checkAndSetService\<close> computes of a
  Service, and the handlers. The reserved ports are those of \<open>cluster/common/vutils/vutils.go\<close>.
\<close>

section \<open>One configuration\<close>

definition GetMergedServiceConfig :: "svc_env \<Rightarrow> Service_Spec_Config \<Rightarrow> Service_Spec \<Rightarrow> Service_Spec_Config go" where
  "GetMergedServiceConfig E cfg sp =
     (if sc_Parent cfg = [] then Ok cfg
      else if sc_Parent cfg = ''default'' then
        Ok (xe_Merge E
          (case sv_Config sp of
             Some parent \<Rightarrow> parent
           | None \<Rightarrow> \<lparr>sc_Name = [], sc_ClientCertificate = None, sc_Upstream = None, sc_Parent = [], sc_Tls = None,
                      sc_Type = Config_Unset\<rparr>) cfg)
      else
        go_map (\<lambda>dc. case List.find (\<lambda>itm. sc_Name itm = sc_Parent cfg) (dc_Configs dc) of
                 None \<Rightarrow> cfg | Some parent \<Rightarrow> xe_Merge E parent cfg) (deref (sv_DynamicConfig sp)))"

definition dynamic_configs :: "Service_Spec \<Rightarrow> Service_Spec_Config list" where
  "dynamic_configs sp = (case sv_DynamicConfig sp of None \<Rightarrow> [] | Some dc \<Rightarrow> dc_Configs dc)"

definition with_parent_config :: "svc_env \<Rightarrow> Service_Spec_Config \<Rightarrow> Service_Spec \<Rightarrow> Service_Spec_Config go" where
  "with_parent_config E cfg sp =
     (if sc_Parent cfg = [] then Ok cfg
      else
        go_bind (reject_if (sc_Parent cfg = sc_Name cfg) InvalidArg) (\<lambda>_.
        go_bind (reject_if (sc_Parent cfg \<noteq> ''default'' \<and> sc_Parent cfg \<notin> set (map sc_Name (dynamic_configs sp))) InvalidArg)
          (\<lambda>_. GetMergedServiceConfig E cfg sp)))"

definition check_cas :: "svc_env \<Rightarrow> string list \<Rightarrow> unit go" where
  "check_cas E cas =
     go_bind (reject_if (32 < length cas) InvalidArg) (\<lambda>_. go_each (\<lambda>ca. reject_if (\<not> xe_IsChainPEM E ca) InvalidArg) cas)"

definition check_tls :: "svc_env \<Rightarrow> 's svc_clients \<Rightarrow> Config_TLS option \<Rightarrow> 's \<Rightarrow> unit go \<times> 's" where
  "check_tls E C t s =
     (case t of
        None \<Rightarrow> (Ok (), s)
      | Some tls \<Rightarrow>
          go_seq (check_cas E (tl_TrustedCAs tls), s) (\<lambda>_ s.
          if tl_ClientCertificate tls \<noteq> None then validateSecretOwner (xc_Secret C) (tl_ClientCertificate tls) s
          else (Ok (), s)))"

definition check_client_certificate ::
  "svc_env \<Rightarrow> 's svc_clients \<Rightarrow> Config_ClientCertificate option \<Rightarrow> 's \<Rightarrow> unit go \<times> 's" where
  "check_client_certificate E C t s =
     (case t of
        None \<Rightarrow> (Ok (), s)
      | Some cc \<Rightarrow>
          go_seq (validateSecretOwner (xc_Secret C) (Some (ck_FromSecret cc)) s) (\<lambda>_ s. (check_cas E (ck_TrustedCAs cc), s)))"

text \<open>The settings are those of the default configuration, whichever configuration is checked.\<close>

definition default_kubernetes :: "Service_Spec \<Rightarrow> Config_Kubernetes option" where
  "default_kubernetes sp =
     (case sv_Config sp of
        None \<Rightarrow> None
      | Some c \<Rightarrow> (case sc_Type c of Config_Kubernetes k \<Rightarrow> Some k | _ \<Rightarrow> None))"

definition check_kubeconfig ::
  "svc_env \<Rightarrow> 's svc_clients \<Rightarrow> Service_Spec_Config \<Rightarrow> string \<Rightarrow> string \<Rightarrow> labels \<Rightarrow> 's \<Rightarrow> labels go \<times> 's" where
  "check_kubeconfig E C cfg fromSecret context' labels s =
     go_seq (reject_if (fromSecret = []) InvalidArg, s) (\<lambda>_ s.
     go_seq (on_err missing_arg (cl_Get (xc_Secret C) (by_name fromSecret) s)) (\<lambda>sec s.
     case xe_UnmarshalKubeConfig E (GetValueStr sec) of
       None \<Rightarrow> (Fail InvalidArg, s)
     | Some kubeconfig \<Rightarrow>
         (case (kf_GetCluster kubeconfig context', kf_GetUser kubeconfig context') of
            (Some clstr, Some usr) \<Rightarrow>
              (let labels = AList.update (''k8s-kubeconfig-url-'' @ GetRealName (Some cfg)) (kc_Server clstr) labels in
               (Ok (if ku_Token usr \<noteq> []
                    then AList.update (''k8s-kubeconfig-has-token-'' @ GetRealName (Some cfg)) ''true'' labels
                    else labels), s))
          | _ \<Rightarrow> (Fail InvalidArg, s))))"

definition check_kubernetes ::
  "svc_env \<Rightarrow> 's svc_clients \<Rightarrow> Service_Spec \<Rightarrow> Service_Spec_Config \<Rightarrow> labels \<Rightarrow> 's \<Rightarrow> labels go \<times> 's" where
  "check_kubernetes E C sp cfg labels s =
     go_seq (reject_if (sv_Mode sp \<noteq> KUBERNETES) InvalidArg, s) (\<lambda>_ s.
     go_seq (deref (default_kubernetes sp), s) (\<lambda>k8s s.
     case k8s of
       K8s_Kubeconfig fromSecret context' \<Rightarrow> check_kubeconfig E C cfg fromSecret context' labels s
     | K8s_ClientCertificate c \<Rightarrow>
         (case c of
            None \<Rightarrow> (Fail InvalidArg, s)
          | Some n \<Rightarrow>
              go_seq (reject_if (n = []) InvalidArg, s) (\<lambda>_ s.
              go_seq (on_err missing_arg (cl_Get (xc_Secret C) (by_name n) s)) (\<lambda>_ s. (Ok labels, s))))
     | K8s_BearerToken t \<Rightarrow> go_seq (validateSecretOwner (xc_Secret C) t s) (\<lambda>_ s. (Ok labels, s))
     | K8s_Unset \<Rightarrow> (Fail InvalidArg, s)))"

definition check_ssh :: "'s svc_clients \<Rightarrow> Service_Spec \<Rightarrow> Config_SSH \<Rightarrow> 's \<Rightarrow> unit go \<times> 's" where
  "check_ssh C sp inSSH s =
     go_seq (reject_if (sv_Mode sp \<noteq> SSH) InvalidArg, s) (\<lambda>_ s.
     case cs_Auth inSSH of
       Some (SSH_Password (Some n)) \<Rightarrow> secret_exists C n s
     | Some (SSH_PrivateKey (Some n)) \<Rightarrow> secret_exists C n s
     | _ \<Rightarrow> (Ok (), s))"

definition check_database ::
  "svc_env \<Rightarrow> 's svc_clients \<Rightarrow> Service_Mode \<Rightarrow> Service_Spec \<Rightarrow> Config_Database \<Rightarrow> 's \<Rightarrow> unit go \<times> 's" where
  "check_database E C mode sp pg s =
     (let text' = (\<lambda>x. if x \<noteq> [] then ValidateGenASCII (ap_V (xe_A E)) x else Ok ()) in
      go_seq (reject_if (sv_Mode sp \<noteq> mode) InvalidArg, s) (\<lambda>_ s.
      go_seq (text' (db_User pg), s) (\<lambda>_ s.
      go_seq (if db_Password pg \<noteq> None then validateSecretOwner (xc_Secret C) (db_Password pg) s else (Ok (), s)) (\<lambda>_ s.
      (text' (db_Database pg), s)))))"

definition keep_labels :: "labels \<Rightarrow> unit go \<times> 's \<Rightarrow> labels go \<times> 's" where
  "keep_labels labels r = go_seq r (\<lambda>_ s. (Ok labels, s))"

definition validateConfig ::
  "svc_env \<Rightarrow> 's svc_clients \<Rightarrow> Service_Spec \<Rightarrow> Service_Spec_Config \<Rightarrow> labels \<Rightarrow> 's \<Rightarrow> labels go \<times> 's" where
  "validateConfig E C sp cfg labels s =
     go_seq (with_parent_config E cfg sp, s) (\<lambda>cfg s.
     go_seq (check_tls E C (sc_Tls cfg) s) (\<lambda>_ s.
     go_seq (check_client_certificate E C (sc_ClientCertificate cfg) s) (\<lambda>_ s.
     case sc_Type cfg of
       Config_Http h \<Rightarrow> keep_labels labels (check_http E C sp h s)
     | Config_Kubernetes k \<Rightarrow> check_kubernetes E C sp cfg labels s
     | Config_Ssh h \<Rightarrow> keep_labels labels (check_ssh C sp h s)
     | Config_Postgres d \<Rightarrow> keep_labels labels (check_database E C POSTGRES sp d s)
     | Config_Mysql d \<Rightarrow> keep_labels labels (check_database E C MYSQL sp d s)
     | Config_Unset \<Rightarrow> (Ok labels, s)
     | Config_Other j \<Rightarrow> (Ok labels, s))))"

section \<open>All configurations\<close>

definition check_default_config ::
  "svc_env \<Rightarrow> 's svc_clients \<Rightarrow> Service_Spec \<Rightarrow> labels \<Rightarrow> 's \<Rightarrow> labels go \<times> 's" where
  "check_default_config E C sp labels s =
     (case sv_Config sp of
        None \<Rightarrow> (Ok labels, s)
      | Some cfg \<Rightarrow>
          go_seq (reject_if (sc_Name cfg \<notin> {[], ''default''}) InvalidArg, s) (\<lambda>_ s.
          go_seq (reject_if (sc_Parent cfg \<noteq> []) InvalidArg, s) (\<lambda>_ s.
          validateConfig E C sp cfg labels s)))"

fun check_named_configs ::
  "svc_env \<Rightarrow> 's svc_clients \<Rightarrow> Service_Spec \<Rightarrow> string list \<Rightarrow> Service_Spec_Config list \<Rightarrow> labels \<Rightarrow> 's \<Rightarrow> labels go \<times> 's"
where
  "check_named_configs E C sp names [] labels s = (Ok labels, s)"
| "check_named_configs E C sp names (cfg # cfgs) labels s =
     go_seq (ValidateName (sc_Name cfg) 0 0, s) (\<lambda>_ s.
     go_seq (reject_if (sc_Name cfg \<in> set names) InvalidArg, s) (\<lambda>_ s.
     go_seq (validateConfig E C sp cfg labels s) (\<lambda>labels s.
     check_named_configs E C sp (names @ [sc_Name cfg]) cfgs labels s)))"

definition check_rule :: "svc_env \<Rightarrow> DynamicConfig_Rule \<Rightarrow> unit go" where
  "check_rule E rule =
     first_failure
       [reject_if (dr_Condition rule = None) InvalidArg,
        validateCondition (xe_A E) (dr_Condition rule),
        ValidateName (dr_ConfigName rule) 0 0]"

definition check_dynamic_config ::
  "svc_env \<Rightarrow> 's svc_clients \<Rightarrow> Service_Spec \<Rightarrow> labels \<Rightarrow> 's \<Rightarrow> labels go \<times> 's" where
  "check_dynamic_config E C sp labels s =
     (case sv_DynamicConfig sp of
        None \<Rightarrow> (Ok labels, s)
      | Some dc \<Rightarrow>
          go_seq (reject_if (256 < length (dc_Configs dc)) InvalidArg, s) (\<lambda>_ s.
          go_seq (reject_if (1000 < length (dc_Rules dc)) InvalidArg, s) (\<lambda>_ s.
          go_seq (check_named_configs E C sp [''default''] (dc_Configs dc) labels s) (\<lambda>labels s.
          keep_labels labels (go_each (check_rule E) (dc_Rules dc), s)))))"

section \<open>What is computed of a Service\<close>

definition primary_hostname :: "string \<Rightarrow> string \<Rightarrow> string" where
  "primary_hostname name ns =
     (if name = ''default'' \<and> ns = ''default'' then []
      else if ns = ''default'' then name
      else if name = ''default'' then ns
      else name @ ''.'' @ ns)"

definition additional_hostnames :: "string \<Rightarrow> string \<Rightarrow> string list" where
  "additional_hostnames name ns =
     (if name = ''default'' \<and> ns = ''default'' then [''default.default'']
      else if ns = ''default'' then [name @ ''.default'']
      else if name = ''default'' then [''default.'' @ ns]
      else [])"

definition service_port :: "svc_env \<Rightarrow> Service \<Rightarrow> 32 word go" where
  "service_port E svc =
     (if sv_Port (svc_Spec svc) \<noteq> 0 then Ok (sv_Port (svc_Spec svc))
      else if IsESSH svc then Ok 22
      else if IsManagedService svc then Ok 8080
      else
        go_map (\<lambda>upstreamPort. if \<not> sv_IsTLS (svc_Spec svc) \<and> IsHTTP svc \<and> upstreamPort = 443 then 80
                              else word_of_int upstreamPort) (UpstreamRealPort (xe_urlParse E) svc))"

definition reservedPorts :: "32 word list" where
  "reservedPorts = [49094, 49095]"

definition check_authorization :: "svc_env \<Rightarrow> 's svc_clients \<Rightarrow> Authorization option \<Rightarrow> 's \<Rightarrow> unit go \<times> 's" where
  "check_authorization E C ao s =
     (case ao of
        None \<Rightarrow> (Ok (), s)
      | Some az \<Rightarrow>
          go_seq (go_each (\<lambda>ip. validatePolicySpec (xe_A E) (ip_Spec ip)) (az_InlinePolicies az), s) (\<lambda>_ s.
          go_each_st (\<lambda>p s. case cl_Get (xc_Policy C) (by_name p) s of
              (Ok _, s) \<Rightarrow> (Ok (), s)
            | (Fail e, s) \<Rightarrow> (reject_if (IsNotFound e) InvalidArg, s)
            | (Panic, s) \<Rightarrow> (Panic, s)) (az_Policies az) s))"

definition with_spec_labels :: "Service \<Rightarrow> labels \<Rightarrow> Service" where
  "with_spec_labels svc labels = svc\<lparr>svc_Metadata := (svc_Metadata svc)\<lparr>md_SpecLabels := labels\<rparr>\<rparr>"

definition with_hostnames :: "Service \<Rightarrow> Service" where
  "with_hostnames svc =
     svc\<lparr>svc_Status := (svc_Status svc)
       \<lparr>sx_PrimaryHostname := primary_hostname (Service_Name svc) (Service_Namespace svc),
        sx_AdditionalHostnames := additional_hostnames (Service_Name svc) (Service_Namespace svc)\<rparr>\<rparr>"

text \<open>The last steps: host names, the port, and that there is a configuration at all.\<close>

definition set_addresses :: "svc_env \<Rightarrow> Service \<Rightarrow> Service go" where
  "set_addresses E svc =
     go_bind (reject_if (sv_IsPublic (svc_Spec svc) \<and> \<not> IsHTTP svc) InvalidArg) (\<lambda>_.
     go_bind (service_port E (with_hostnames svc)) (\<lambda>port.
     go_bind (reject_if (port \<in> set reservedPorts) InvalidArg) (\<lambda>_.
     go_bind (reject_if (\<not> IsManagedService svc \<and> sv_Config (svc_Spec svc) = None \<and> dynamic_configs (svc_Spec svc) = [])
                InvalidArg) (\<lambda>_.
     Ok (with_hostnames svc\<lparr>svc_Status := (svc_Status (with_hostnames svc))\<lparr>sx_Port := port\<rparr>\<rparr>)))))"

definition checkAndSetService :: "svc_env \<Rightarrow> 's svc_clients \<Rightarrow> Service \<Rightarrow> 's \<Rightarrow> Service go \<times> 's" where
  "checkAndSetService E C svc s =
     (let spec = svc_Spec svc in
      go_seq (reject_if (sv_Mode spec = Service_Mode.MODE_UNSET) InvalidArg, s) (\<lambda>_ s.
      go_seq (service_region C (sv_Region spec) s) (\<lambda>rgn s.
      go_seq (check_upstream E C (spec_upstream spec) s) (\<lambda>labels s.
      go_seq (check_authorization E C (sv_Authorization spec) s) (\<lambda>_ s.
      go_seq (check_default_config E C spec labels s) (\<lambda>labels s.
      go_seq (check_dynamic_config E C spec labels s) (\<lambda>labels s.
      (set_addresses E (with_spec_labels (svc\<lparr>svc_Status := (svc_Status svc)\<lparr>sx_RegionRef := rgn\<rparr>\<rparr>) labels), s))))))))"

section \<open>Handlers\<close>

definition service_filters ::
  "svc_env \<Rightarrow> 's svc_clients \<Rightarrow> ObjectReference option \<Rightarrow> ObjectReference option \<Rightarrow> 's \<Rightarrow> Filter list go \<times> 's" where
  "service_filters E C nsRef rgnRef s =
     go_seq
       (case nsRef of
          None \<Rightarrow> (Ok [], s)
        | Some r \<Rightarrow>
            go_seq (CheckObjectRef (ap_V (xe_A E)) (Some r) (Some (parents_opts 0)), s) (\<lambda>_ s.
            go_seq (cl_Get (xc_Namespace C) \<lparr>go_Uid = or_Uid r, go_Name = or_Name r\<rparr> s) (\<lambda>ns s.
            (Ok [FilterFieldEQValStr ''status.namespaceRef.uid'' (md_Uid (na_Metadata ns))], s)))) (\<lambda>fs s.
     case rgnRef of
       None \<Rightarrow> (Ok fs, s)
     | Some r \<Rightarrow>
         go_seq (CheckObjectRef (ap_V (xe_A E)) (Some r) (Some (parents_opts 0)), s) (\<lambda>_ s.
         go_seq (cl_Get (xc_Region C) \<lparr>go_Uid = or_Uid r, go_Name = or_Name r\<rparr> s) (\<lambda>rgn s.
         (Ok (fs @ [FilterFieldEQValStr ''status.regionRef.uid'' (md_Uid (rg_Metadata rgn))]), s))))"

definition admin_ListService ::
  "svc_env \<Rightarrow> 's svc_clients \<Rightarrow> ObjectReference option \<Rightarrow> ObjectReference option \<Rightarrow> CommonListOptions option \<Rightarrow> 's \<Rightarrow>
   Service list go \<times> 's"
where
  "admin_ListService E C nsRef rgnRef common s =
     go_seq (service_filters E C nsRef rgnRef s) (\<lambda>listOpts s.
     cl_List (xc_Service C) (GetPublicListOptions common listOpts) s)"

definition admin_UpdateService ::
  "svc_env \<Rightarrow> 's svc_clients \<Rightarrow> Service_Spec api_request \<Rightarrow> 's \<Rightarrow> Service go \<times> 's" where
  "admin_UpdateService E C req s =
     go_seq (on_err InvalidArgWithErr (validateService E C req s)) (\<lambda>_ s.
     go_seq (deref (aq_Metadata req), s) (\<lambda>md s.
     go_seq (getNamespace (md_Name md), s) (\<lambda>nsName s.
     go_seq (on_err K8sNotFoundOrInternalWithErr (cl_Get (xc_Namespace C) (by_name nsName) s)) (\<lambda>_ s.
     go_seq (on_err K8sNotFoundOrInternalWithErr
       (cl_Get (xc_Service C) (by_name (GetServiceFullNameFromName (md_Name md))) s)) (\<lambda>item s.
     go_seq (CheckIsSystem (Some (svc_Metadata item)), s) (\<lambda>_ s.
     go_seq (deref (aq_Spec req), s) (\<lambda>sp s.
     go_seq (checkAndSetService E C (item\<lparr>svc_Metadata := MetadataUpdate (svc_Metadata item) md, svc_Spec := sp\<rparr>) s) (\<lambda>item s.
     on_err InternalWithErr (cl_Update (xc_Service C) item s)))))))))"

definition new_service ::
  "bool \<Rightarrow> Status_ManagedService option \<Rightarrow> Metadata \<Rightarrow> Service_Spec \<Rightarrow> ObjectReference option \<Rightarrow> Service" where
  "new_service isSystemService managed md sp nsRef =
     \<lparr>svc_ApiVersion = [], svc_Kind = [],
      svc_Metadata = (MetadataFrom md)\<lparr>md_Name := GetServiceFullNameFromName (md_Name md)\<rparr>, svc_Spec = sp,
      svc_Status =
        \<lparr>sx_Addresses = [], sx_NamespaceRef = nsRef, sx_ManagedService = (if isSystemService then managed else None),
         sx_RegionRef = None, sx_PrimaryHostname = [], sx_AdditionalHostnames = [], sx_Port = 0\<rparr>\<rparr>"

definition put_labels :: "labels \<Rightarrow> labels \<Rightarrow> labels" where
  "put_labels old new = (if old = [] then new else fold (\<lambda>(k, v). AList.update k v) new old)"

definition as_system :: "bool \<Rightarrow> Metadata \<Rightarrow> Metadata \<Rightarrow> Metadata" where
  "as_system isSystemService req md =
     (if isSystemService then
        md\<lparr>md_IsSystem := True, md_IsSystemHidden := md_IsSystemHidden req, md_IsUserHidden := md_IsUserHidden req,
           md_SystemLabels := put_labels (md_SystemLabels md) (md_SystemLabels req),
           md_SpecLabels := put_labels (md_SpecLabels md) (md_SpecLabels req)\<rparr>
      else md\<lparr>md_IsSystem := False\<rparr>)"

text \<open>A Service of the default namespace must not have the name of a namespace.\<close>

definition no_namespace_named :: "'s svc_clients \<Rightarrow> bool \<Rightarrow> Service \<Rightarrow> 's \<Rightarrow> unit go \<times> 's" where
  "no_namespace_named C isSystemService item s =
     (if \<not> isSystemService \<and> sx_NamespaceRef (svc_Status item) \<noteq> None \<and> Service_Namespace item = ''default'' then
        (case cl_Get (xc_Namespace C) (by_name (Service_Name item)) s of
           (Ok _, s) \<Rightarrow> (Fail InvalidArg, s)
         | (Fail e, s) \<Rightarrow> (if \<not> IsNotFound e then Fail (InternalWithErr e) else Ok (), s)
         | (Panic, s) \<Rightarrow> (Panic, s))
      else (Ok (), s))"

definition DoCreateService ::
  "svc_env \<Rightarrow> 's svc_clients \<Rightarrow> Service_Spec api_request \<Rightarrow> Status_ManagedService option \<Rightarrow> bool \<Rightarrow> 's \<Rightarrow>
   Service go \<times> 's"
where
  "DoCreateService E C req managed isSystemService s =
     go_seq (on_err InvalidArgWithErr (validateService E C req s)) (\<lambda>_ s.
     go_seq (deref (aq_Metadata req), s) (\<lambda>md s.
     go_seq (getNamespace (md_Name md), s) (\<lambda>nsName s.
     go_seq (on_err missing_arg (cl_Get (xc_Namespace C) (by_name nsName) s)) (\<lambda>ns s.
     go_seq (must_be_absent InternalWithErr
       (cl_Get (xc_Service C) (by_name (GetServiceFullNameFromName (md_Name md))) s)) (\<lambda>_ s.
     go_seq (deref (aq_Spec req), s) (\<lambda>sp s.
     go_seq (checkAndSetService E C
       (new_service isSystemService managed md sp (GetObjectReference (na_ApiVersion ns) (na_Kind ns) (Some (na_Metadata ns)))) s)
       (\<lambda>item s.
     let item = item\<lparr>svc_Metadata := as_system isSystemService md (svc_Metadata item)\<rparr> in
     go_seq (no_namespace_named C isSystemService item s) (\<lambda>_ s.
     on_err InternalWithErr (cl_Create (xc_Service C) item s)))))))))"

definition admin_CreateService ::
  "svc_env \<Rightarrow> 's svc_clients \<Rightarrow> Service_Spec api_request \<Rightarrow> Status_ManagedService option \<Rightarrow> 's \<Rightarrow> Service go \<times> 's" where
  "admin_CreateService E C req managed s = DoCreateService E C req managed False s"

definition admin_DeleteService :: "svc_env \<Rightarrow> 's svc_clients \<Rightarrow> DeleteOptions \<Rightarrow> 's \<Rightarrow> unit go \<times> 's" where
  "admin_DeleteService E C req s =
     go_seq (CheckDeleteOptions (ap_V (xe_A E)) (Some req) (Some (parents_opts 1)), s) (\<lambda>_ s.
     go_seq (on_err K8sNotFoundOrInternalWithErr
       (cl_Get (xc_Service C) \<lparr>go_Uid = do_Uid req, go_Name = GetServiceFullNameFromName (do_Name req)\<rparr> s)) (\<lambda>svc s.
     go_seq (CheckIsSystem (Some (svc_Metadata svc)), s) (\<lambda>_ s.
     go_seq (on_err K8sInternal (cl_Delete (xc_Service C) \<lparr>do_Uid = md_Uid (svc_Metadata svc), do_Name = []\<rparr> s)) (\<lambda>_ s.
     (Ok (), s)))))"

definition admin_GetService :: "svc_env \<Rightarrow> 's svc_clients \<Rightarrow> GetOptions \<Rightarrow> 's \<Rightarrow> Service go \<times> 's" where
  "admin_GetService E C req s =
     go_seq (CheckGetOptions (ap_V (xe_A E)) (Some req) (Some (parents_opts 1)), s) (\<lambda>_ s.
     shown svc_Metadata (on_err K8sNotFoundOrInternalWithErr
       (cl_Get (xc_Service C) \<lparr>go_Uid = go_Uid req, go_Name = GetServiceFullNameFromName (go_Name req)\<rparr> s)))"

end
