(* ===== verification/ServiceFacts.thy ===== *)
theory ServiceFacts imports AdminServiceHandlers DirectoryFacts begin

text \<open>
  What the handlers for Services guarantee: a Service that is stored is well-formed, and while namespaces are
  created and updated, but not deleted, no two Services have the same host name.
\<close>

section \<open>Well-formed Services\<close>

definition configs_wf :: "Service_Spec \<Rightarrow> bool" where
  "configs_wf sp \<longleftrightarrow>
     distinct (''default'' # map sc_Name (dynamic_configs sp)) \<and> length (dynamic_configs sp) \<le> 256 \<and>
     (\<forall>c\<in>set (dynamic_configs sp). NameMain (sc_Name c) \<and> sc_Parent c \<noteq> sc_Name c \<and>
        sc_Parent c \<in> {[], ''default''} \<union> sc_Name ` set (dynamic_configs sp)) \<and>
     (\<forall>c. sv_Config sp = Some c \<longrightarrow> sc_Name c \<in> {[], ''default''} \<and> sc_Parent c = [])"

definition service_wf :: "Service \<Rightarrow> bool" where
  "service_wf svc \<longleftrightarrow>
     (let sp = svc_Spec svc in
      sv_Mode sp \<noteq> Service_Mode.MODE_UNSET \<and> (sv_IsPublic sp \<longrightarrow> IsHTTP svc) \<and>
      (sv_IsAnonymous sp \<longrightarrow> sv_IsPublic sp \<and> sv_Authorization sp = None) \<and> configs_wf sp \<and>
      sx_Port (svc_Status svc) \<notin> {49094, 49095} \<and>
      (IsManagedService svc \<or> sv_Config sp \<noteq> None \<or> dynamic_configs sp \<noteq> []))"

lemma validateService_Ok:
  assumes "validateService E C req s = (Ok u, s')"
  shows "\<exists>md sp. aq_Metadata req = Some md \<and> aq_Spec req = Some sp \<and> validateName (md_Name md) 0 1 = Ok () \<and>
    named_policies (sv_Authorization sp) \<and> (sv_IsAnonymous sp \<longrightarrow> sv_IsPublic sp \<and> sv_Authorization sp = None)"
proof -
  from assms obtain sp s1 where sp: "aq_Spec req = Some sp"
    "ValidateCommon (ap_V (xe_A E)) (Some (api_resource req)) (Some (named_opts 1)) = Ok ()"
    "validatePolicyOwner (xe_A E) (xc_Policy C) (sv_Authorization sp) s1 = (Ok (), s')" "check_anonymous sp = Ok ()"
    by (auto simp: validateService_def Let_def dest!: go_seq_Ok split: option.splits)
  with validate_named [OF sp(2)] owner_named [OF sp(3)] show ?thesis
    by (auto simp: check_anonymous_def first_failure_def split: if_splits)
qed

lemma named_configs_Ok:
  assumes "check_named_configs E C sp names cfgs labels s = (Ok x, s')" and "distinct names"
  shows "distinct (names @ map sc_Name cfgs) \<and> (\<forall>c\<in>set cfgs. NameMain (sc_Name c) \<and> sc_Parent c \<noteq> sc_Name c \<and>
    (sc_Parent c \<in> {[], ''default''} \<union> sc_Name ` set (dynamic_configs sp)))"
  using assms
proof (induction cfgs arbitrary: names labels s)
  case (Cons c cfgs)
  then obtain l s1 where c: "ValidateName (sc_Name c) 0 0 = Ok ()" "sc_Name c \<notin> set names"
    "validateConfig E C sp c labels s = (Ok l, s1)" "check_named_configs E C sp (names @ [sc_Name c]) cfgs l s1 = (Ok x, s')"
    by (auto dest!: go_seq_Ok)
  have "NameMain (sc_Name c)" using c(1) by (auto simp: ValidateName_def validateName_def)
  moreover have "sc_Parent c \<noteq> sc_Name c \<and> sc_Parent c \<in> {[], ''default''} \<union> sc_Name ` set (dynamic_configs sp)"
    using c(3) calculation by (auto simp: validateConfig_def with_parent_config_def NameMain_def dest!: go_seq_Ok split: if_splits)
  ultimately show ?case using Cons.IH [OF c(4)] Cons.prems(2) c(2) by auto
qed simp

lemma dynamic_config_Ok:
  assumes "check_dynamic_config E C sp labels s = (Ok x, s')"
  shows "distinct (''default'' # map sc_Name (dynamic_configs sp)) \<and> length (dynamic_configs sp) \<le> 256 \<and>
    (\<forall>c\<in>set (dynamic_configs sp). NameMain (sc_Name c) \<and> sc_Parent c \<noteq> sc_Name c \<and>
      sc_Parent c \<in> {[], ''default''} \<union> sc_Name ` set (dynamic_configs sp))"
proof (cases "sv_DynamicConfig sp")
  case (Some dc)
  then have dyn: "dynamic_configs sp = dc_Configs dc" by (simp add: dynamic_configs_def)
  from assms Some obtain l s1 s2 where run: "length (dc_Configs dc) \<le> 256"
    "check_named_configs E C sp [''default''] (dc_Configs dc) labels s1 = (Ok l, s2)"
    by (auto simp: check_dynamic_config_def dest!: go_seq_Ok)
  show ?thesis using named_configs_Ok [OF run(2)] run(1) unfolding dyn by simp
qed (simp add: dynamic_configs_def)

lemma default_config_Ok:
  "check_default_config E C sp labels s = (Ok x, s') \<Longrightarrow> sv_Config sp = Some c \<Longrightarrow> sc_Name c \<in> {[], ''default''} \<and> sc_Parent c = []"
  by (auto simp: check_default_config_def dest!: go_seq_Ok)

lemma with_hostnames_simps [simp]:
  "svc_Spec (with_hostnames svc) = svc_Spec svc" "svc_Metadata (with_hostnames svc) = svc_Metadata svc"
  "sx_NamespaceRef (svc_Status (with_hostnames svc)) = sx_NamespaceRef (svc_Status svc)"
  "sx_ManagedService (svc_Status (with_hostnames svc)) = sx_ManagedService (svc_Status svc)"
  "sx_PrimaryHostname (svc_Status (with_hostnames svc)) = primary_hostname (Service_Name svc) (Service_Namespace svc)"
  "sx_AdditionalHostnames (svc_Status (with_hostnames svc)) = additional_hostnames (Service_Name svc) (Service_Namespace svc)"
  by (simp_all add: with_hostnames_def)

text \<open>What the long check gives.\<close>

lemma checkAndSet_Ok:
  assumes "checkAndSetService E C svc s = (Ok x, s')"
  shows "svc_Spec x = svc_Spec svc \<and> md_Name (svc_Metadata x) = md_Name (svc_Metadata svc) \<and>
    md_Uid (svc_Metadata x) = md_Uid (svc_Metadata svc) \<and>
    sx_NamespaceRef (svc_Status x) = sx_NamespaceRef (svc_Status svc) \<and>
    sx_ManagedService (svc_Status x) = sx_ManagedService (svc_Status svc) \<and>
    sx_PrimaryHostname (svc_Status x) = primary_hostname (Service_Name svc) (Service_Namespace svc) \<and>
    sx_AdditionalHostnames (svc_Status x) = additional_hostnames (Service_Name svc) (Service_Namespace svc) \<and>
    ((sv_IsAnonymous (svc_Spec svc) \<longrightarrow> sv_IsPublic (svc_Spec svc) \<and> sv_Authorization (svc_Spec svc) = None) \<longrightarrow> service_wf x)"
proof -
  let ?sp = "svc_Spec svc"
  from assms obtain rgn labels labels' labels'' s1 s2 s3 s4 where run: "sv_Mode ?sp \<noteq> Service_Mode.MODE_UNSET"
    "check_default_config E C ?sp labels s1 = (Ok labels', s2)"
    "check_dynamic_config E C ?sp labels' s3 = (Ok labels'', s4)"
    "set_addresses E (with_spec_labels (svc\<lparr>svc_Status := (svc_Status svc)\<lparr>sx_RegionRef := rgn\<rparr>\<rparr>) labels'') = Ok x"
    by (auto simp: checkAndSetService_def Let_def dest!: go_seq_Ok)
  define y where "y = with_spec_labels (svc\<lparr>svc_Status := (svc_Status svc)\<lparr>sx_RegionRef := rgn\<rparr>\<rparr>) labels''"
  have y: "svc_Spec y = ?sp" "md_Name (svc_Metadata y) = md_Name (svc_Metadata svc)" "md_Uid (svc_Metadata y) = md_Uid (svc_Metadata svc)"
    "sx_NamespaceRef (svc_Status y) = sx_NamespaceRef (svc_Status svc)" "Service_Name y = Service_Name svc"
    "Service_Namespace y = Service_Namespace svc" "sx_ManagedService (svc_Status y) = sx_ManagedService (svc_Status svc)"
    by (simp_all add: y_def with_spec_labels_def Service_Name_def Service_Namespace_def)
  have wf: "configs_wf ?sp"
    using dynamic_config_Ok [OF run(3)] default_config_Ok [OF run(2)] unfolding configs_wf_def by blast
  from run(4) [folded y_def] obtain port where port: "\<not> sv_IsPublic ?sp \<or> IsHTTP y" "port \<notin> set reservedPorts"
    "IsManagedService y \<or> sv_Config ?sp \<noteq> None \<or> dynamic_configs ?sp \<noteq> []"
    "x = with_hostnames y\<lparr>svc_Status := (svc_Status (with_hostnames y))\<lparr>sx_Port := port\<rparr>\<rparr>"
    by (auto simp: set_addresses_def y(1))
  have x: "svc_Spec x = ?sp" "IsHTTP x = IsHTTP y" "IsManagedService x = IsManagedService y" "sx_Port (svc_Status x) = port"
    by (simp_all add: port(4) IsHTTP_def IsManagedService_def y(1))
  have "service_wf x" if "sv_IsAnonymous ?sp \<longrightarrow> sv_IsPublic ?sp \<and> sv_Authorization ?sp = None"
    using run(1) that wf port(1-3) unfolding service_wf_def Let_def x by (auto simp: reservedPorts_def)
  then show ?thesis using x y by (simp add: port(4))
qed

section \<open>Host names\<close>

text \<open>A Service of the name and the namespace, with the host name that it gets there.\<close>

definition placed :: "string \<Rightarrow> string \<Rightarrow> Service \<Rightarrow> bool" where
  "placed n ns svc \<longleftrightarrow>
     md_Name (svc_Metadata svc) = n @ ''.'' @ ns \<and> NameMain n \<and> NameMain ns \<and> sx_NamespaceRef (svc_Status svc) \<noteq> None \<and>
     Service_Namespace svc = ns \<and> sx_PrimaryHostname (svc_Status svc) = primary_hostname n ns \<and>
     sx_AdditionalHostnames (svc_Status svc) = additional_hostnames n ns"

definition hostnames :: "Service \<Rightarrow> string list" where
  "hostnames svc = sx_PrimaryHostname (svc_Status svc) # sx_AdditionalHostnames (svc_Status svc)"

definition hosted :: "Service list \<Rightarrow> Namespace list \<Rightarrow> bool" where
  "hosted vs vn \<longleftrightarrow>
     (\<forall>x\<in>set vs. service_wf x \<and> (\<exists>n ns. placed n ns x \<and>
        (n = ''default'' \<and> ns \<noteq> ''default'' \<longrightarrow> ns \<in> (\<lambda>q. md_Name (na_Metadata q)) ` set vn) \<and>
        (ns = ''default'' \<and> n \<noteq> ''default'' \<longrightarrow> n \<notin> (\<lambda>q. md_Name (na_Metadata q)) ` set vn)))"

lemma NameMain_no_dot: "NameMain n \<Longrightarrow> CHR ''.'' \<notin> set n"
proof -
  assume n: "NameMain n"
  have "\<exists>a b c. n = a # b @ [c]" using n by (cases n; cases "tl n" rule: rev_cases) (auto simp: NameMain_def)
  then obtain a b c where abc: "n = a # b @ [c]" by blast
  show "CHR ''.'' \<notin> set n"
    using n unfolding abc by (auto simp: NameMain_def list_all_iff name_char_def lower_alnum_def lower_def decimal_def)
qed

lemma placed_name: "placed n ns svc \<Longrightarrow> Service_Name svc = n"
  using NameMain_no_dot by (auto simp: placed_def Service_Name_def Split_append_sep)

lemma default_name: "NameMain ''default''"
  by (simp add: NameMain_def lower_def lower_alnum_def name_char_def)

lemma one_or_two: "xs \<noteq> [] \<Longrightarrow> length xs \<le> 2 \<Longrightarrow> (\<exists>a. xs = [a]) \<or> (\<exists>a b. xs = [a, b])"
  by (cases xs; cases "tl xs") auto

lemma full_name:
  assumes "validateName name 0 1 = Ok ()" and "getNamespace name = Ok ns"
  shows "\<exists>n. GetServiceFullNameFromName name = n @ ''.'' @ ns \<and> NameMain n \<and> NameMain ns"
proof -
  have parts: "list_all NameMain (Split name CHR ''.'')" "length (Split name CHR ''.'') \<le> 2"
    using assms(1) by (auto simp: validateName_def check_names_def list_all_iff Let_def split: if_splits)
  consider (one) a where "Split name CHR ''.'' = [a]" | (two) a b where "Split name CHR ''.'' = [a, b]"
    using one_or_two [of "Split name CHR ''.''"] parts(2) by auto
  then show ?thesis
  proof cases
    case one
    with Join_Split [of name "CHR ''.''"] have "name = a" by simp
    with one assms(2) parts(1) default_name show ?thesis
      by (auto simp: getNamespace_def Let_def GetServiceFullNameFromName_def NameMain_def)
  next
    case two
    with Join_Split [of name "CHR ''.''"] have "name = a @ CHR ''.'' # b" by simp
    with two assms(2) parts(1) show ?thesis
      by (auto simp: getNamespace_def Let_def GetServiceFullNameFromName_def NameMain_def)
  qed
qed

text \<open>A host name with a dot is the whole name; one without is the name or the namespace, where the other is \<open>default\<close>.\<close>

lemma hostname_cases:
  assumes "placed n ns x" "h \<in> set (hostnames x)"
  shows "if CHR ''.'' \<in> set h then h = n @ CHR ''.'' # ns
    else h = primary_hostname n ns \<and> (n = ''default'' \<or> ns = ''default'')"
  using assms NameMain_no_dot [of n] NameMain_no_dot [of ns]
  by (auto simp: placed_def hostnames_def primary_hostname_def additional_hostnames_def split: if_splits)

lemma placed_nonempty: "placed n ns x \<Longrightarrow> n \<noteq> [] \<and> ns \<noteq> []"
  by (auto simp: placed_def NameMain_def)

lemma hosted_hostnames:
  assumes "hosted vs vn" and "distinct (map (\<lambda>x. md_Name (svc_Metadata x)) vs)" and "x \<in> set vs" "y \<in> set vs"
    and h: "h \<in> set (hostnames x)" "h \<in> set (hostnames y)"
  shows "x = y"
proof -
  obtain n ns where x: "placed n ns x"
      "n = ''default'' \<and> ns \<noteq> ''default'' \<longrightarrow> ns \<in> (\<lambda>q. md_Name (na_Metadata q)) ` set vn"
      "ns = ''default'' \<and> n \<noteq> ''default'' \<longrightarrow> n \<notin> (\<lambda>q. md_Name (na_Metadata q)) ` set vn"
    using assms(1,3) unfolding hosted_def by blast
  obtain m ms where y: "placed m ms y"
      "m = ''default'' \<and> ms \<noteq> ''default'' \<longrightarrow> ms \<in> (\<lambda>q. md_Name (na_Metadata q)) ` set vn"
      "ms = ''default'' \<and> m \<noteq> ''default'' \<longrightarrow> m \<notin> (\<lambda>q. md_Name (na_Metadata q)) ` set vn"
    using assms(1,4) unfolding hosted_def by blast
  note hx = hostname_cases [OF x(1) h(1)] and hy = hostname_cases [OF y(1) h(2)]
  have "md_Name (svc_Metadata x) = md_Name (svc_Metadata y)"
  proof (cases "CHR ''.'' \<in> set h")
    case True
    then show ?thesis using hx hy x(1) y(1) by (simp add: placed_def)
  next
    case False
    then have eq: "primary_hostname n ns = primary_hostname m ms" "n = ''default'' \<or> ns = ''default''" "m = ''default'' \<or> ms = ''default''"
      using hx hy by simp_all
    then have "n = m \<and> ns = ms"
      using x(2,3) y(2,3) placed_nonempty [OF x(1)] placed_nonempty [OF y(1)]
      by (auto simp: primary_hostname_def split: if_splits)
    then show ?thesis using x(1) y(1) by (simp add: placed_def)
  qed
  with assms(2-4) show ?thesis by (auto simp: distinct_map inj_on_def)
qed

end
