(* ===== verification/ServiceHosts.thy ===== *)
theory ServiceHosts imports ServiceFacts begin

text \<open>
  Over clients that share one server, the handlers for Services and for namespaces keep every Service
  well-formed and its host name its own.
\<close>

section \<open>Over clients of one server\<close>

text \<open>
  The clients for Services and for namespaces change nothing of each other, and looking up regions, users, policies and
  secrets changes neither.
\<close>

locale services =
  sv: resource_client "xc_Service C" svc_Metadata "\<lambda>x. (svc_Spec x, svc_Status x)" holds_s inv_s fits_s view_s rest_s +
  nm: resource_client "xc_Namespace C" na_Metadata pay_n holds_n inv_n fits_n view_n rest_n
  for C :: "'s svc_clients" and holds_s inv_s fits_s view_s and rest_s :: "'s \<Rightarrow> 'o"
    and pay_n :: "Namespace \<Rightarrow> 'n" and holds_n inv_n fits_n view_n and rest_n :: "'s \<Rightarrow> 'o" +
  fixes inv_o :: "'s \<Rightarrow> bool"
  assumes frame_s: "inv_s s \<and> inv_n s \<and> inv_o s \<Longrightarrow> inv_s t \<Longrightarrow> rest_s t = rest_s s \<Longrightarrow>
      inv_n t \<and> inv_o t \<and> view_n t = view_n s"
    and frame_n: "inv_s s \<and> inv_n s \<and> inv_o s \<Longrightarrow> inv_n t \<Longrightarrow> rest_n t = rest_n s \<Longrightarrow>
      inv_s t \<and> inv_o t \<and> view_s t = view_s s"
    and other: "inv_s s \<and> inv_n s \<and> inv_o s \<Longrightarrow>
      t \<in> {snd (cl_Get (xc_Region C) (by_name n) s), snd (cl_Get (xc_User C) (by_name n) s),
           snd (cl_Get (xc_Policy C) (by_name n) s), snd (cl_Get (xc_Secret C) (by_name n) s)} \<Longrightarrow>
      inv_s t \<and> inv_n t \<and> inv_o t \<and> view_s t = view_s s \<and> view_n t = view_n s"
begin

definition fine :: "'s \<Rightarrow> bool" where
  "fine s \<longleftrightarrow> inv_s s \<and> inv_n s \<and> inv_o s"

definition calm :: "'s \<Rightarrow> 's \<Rightarrow> bool" where
  "calm s t \<longleftrightarrow> fine t \<and> view_s t = view_s s \<and> view_n t = view_n s"

lemma calm_via_s: "calm s t \<Longrightarrow> (inv_s t \<Longrightarrow> inv_s r \<and> rest_s r = rest_s t \<and> view_s r = view_s t) \<Longrightarrow> calm s r"
  using frame_s [of t r] by (auto simp: calm_def fine_def)

lemma calm_via_n: "calm s t \<Longrightarrow> (inv_n t \<Longrightarrow> inv_n r \<and> rest_n r = rest_n t \<and> view_n r = view_n t) \<Longrightarrow> calm s r"
  using frame_n [of t r] by (auto simp: calm_def fine_def)

text \<open>Reading leaves everything calm.\<close>

lemma read_s: "calm s t \<Longrightarrow> fits_s o' t \<Longrightarrow> keeps (calm s) (cl_Get (xc_Service C) o' t)"
  unfolding keeps_def by (erule calm_via_s) (rule sv.get_same; blast)

lemma named_s: "calm s t \<Longrightarrow> n \<noteq> [] \<Longrightarrow> keeps (calm s) (cl_Get (xc_Service C) (by_name n) t)"
  unfolding keeps_def by (erule calm_via_s) (rule sv.get_name_same; blast)

lemma named_n: "calm s t \<Longrightarrow> n \<noteq> [] \<Longrightarrow> keeps (calm s) (cl_Get (xc_Namespace C) (by_name n) t)"
  unfolding keeps_def by (erule calm_via_n) (rule nm.get_name_same; blast)

lemma named_others:
  assumes "calm s t"
  shows "keeps (calm s) (cl_Get (xc_Region C) (by_name n) t)" "keeps (calm s) (cl_Get (xc_User C) (by_name n) t)"
    "keeps (calm s) (cl_Get (xc_Policy C) (by_name n) t)" "keeps (calm s) (cl_Get (xc_Secret C) (by_name n) t)"
proof -
  have t: "inv_s t \<and> inv_n t \<and> inv_o t" "view_s t = view_s s" "view_n t = view_n s"
    using assms by (simp_all add: calm_def fine_def)
  have o: "calm s r" if "r \<in> {snd (cl_Get (xc_Region C) (by_name n) t), snd (cl_Get (xc_User C) (by_name n) t),
      snd (cl_Get (xc_Policy C) (by_name n) t), snd (cl_Get (xc_Secret C) (by_name n) t)}" for r
    using other [OF t(1) that] t(2,3) by (simp add: calm_def fine_def)
  show "keeps (calm s) (cl_Get (xc_Region C) (by_name n) t)" "keeps (calm s) (cl_Get (xc_User C) (by_name n) t)"
    "keeps (calm s) (cl_Get (xc_Policy C) (by_name n) t)" "keeps (calm s) (cl_Get (xc_Secret C) (by_name n) t)"
    unfolding keeps_def by (rule o; blast)+
qed

lemma keeps_if: "(b \<Longrightarrow> keeps R m) \<Longrightarrow> (\<not> b \<Longrightarrow> keeps R m') \<Longrightarrow> keeps R (if b then m else m')"
  by simp

lemmas calm_rules = keeps_check keeps_return keeps_seq keeps_on_err keeps_if named_others

lemma secret_owner_calm: "calm s t \<Longrightarrow> keeps (calm s) (validateSecretOwner (xc_Secret C) ow t)"
proof (cases ow)
  case (Some f)
  assume "calm s t"
  with named_others(4) [of s t f] Some show ?thesis
    by (auto simp: validateSecretOwner_def keeps_def split: prod.splits go.splits)
qed (simp add: validateSecretOwner_def keeps_def)

lemma owner_calm:
  assumes "calm s t"
  shows "keeps (calm s) (validatePolicyOwner A (xc_Policy C) ow t)"
  unfolding validatePolicyOwner_def Let_def owner_policy_def
  by (intro keeps_rules named_others(3) assms; assumption)

lemma validate_calm:
  assumes "calm s t"
  shows "keeps (calm s) (validateService E C req t)"
  unfolding validateService_def Let_def
  by (intro keeps_rules assms; assumption?)
    (auto split: option.splits intro!: keeps_rules owner_calm)

lemma endpoint_users_calm: "calm s t \<Longrightarrow> keeps (calm s) (endpoint_users C eps labels t)"
  by (induction eps arbitrary: labels t) (auto simp: host_user_def keeps_return intro!: calm_rules)

lemma container_calm:
  assumes "calm s t"
  shows "keeps (calm s) (check_container E C typ t)"
proof -
  have "keeps (calm s) (check_env E C x r)" if "calm s r" for x r
    unfolding check_env_def using that secret_owner_calm
    by (auto split: Container_Env_Type.splits intro!: calm_rules)
  moreover have "keeps (calm s) (check_credentials E C x r)" if "calm s r" for x r
    unfolding check_credentials_def using that secret_owner_calm by (auto split: option.splits intro!: calm_rules)
  ultimately show ?thesis
    unfolding check_container_def by (intro keeps_rules assms; assumption?)
qed

lemma upstream_calm:
  assumes "calm s t"
  shows "keeps (calm s) (check_upstream E C u t)"
proof (cases u)
  case (Some x)
  have host: "keeps (calm s) (host_user C y labels r)" if "calm s r" for y labels r
    unfolding host_user_def by (intro calm_rules that; assumption?)
  show ?thesis
    unfolding check_upstream_def Some option.case
    by (rule keeps_seq [OF host [OF assms]])
      (auto split: Upstream_Type.splits intro!: calm_rules endpoint_users_calm container_calm)
qed (simp add: check_upstream_def keeps_return assms)

lemma http_calm:
  assumes "calm s t"
  shows "keeps (calm s) (check_http E C sp h t)"
proof -
  have "keeps (calm s) (check_http_auth E C a r)" if "calm s r" for a r
    unfolding check_http_auth_def secret_exists_def
    using that by (auto split: HTTP_Auth.splits intro!: calm_rules secret_owner_calm)
  then show ?thesis
    unfolding check_http_def by (intro calm_rules assms; assumption?) (auto split: option.splits intro!: calm_rules)
qed

lemma kubernetes_calm:
  assumes "calm s t"
  shows "keeps (calm s) (check_kubernetes E C sp cfg labels t)"
proof -
  have config: "keeps (calm s) (check_kubeconfig E C cfg x y labels r)" if "calm s r" for x y r
    unfolding check_kubeconfig_def
    by (intro calm_rules that; assumption?) (auto simp: Let_def split: option.splits intro!: calm_rules)
  show ?thesis
    unfolding check_kubernetes_def
    by (intro calm_rules assms; assumption?)
      (use assms in \<open>auto split: Config_Kubernetes.splits option.splits intro!: calm_rules secret_owner_calm config\<close>)
qed

lemma config_calm:
  assumes "calm s t"
  shows "keeps (calm s) (validateConfig E C sp cfg labels t)"
proof -
  have tls: "keeps (calm s) (check_tls E C x r)" if "calm s r" for x r
    unfolding check_tls_def using that by (auto split: option.splits intro!: calm_rules secret_owner_calm)
  have cert: "keeps (calm s) (check_client_certificate E C x r)" if "calm s r" for x r
    unfolding check_client_certificate_def using that by (auto split: option.splits intro!: calm_rules secret_owner_calm)
  have ssh: "keeps (calm s) (check_ssh C sp x r)" if "calm s r" for x r
    unfolding check_ssh_def secret_exists_def
    using that by (auto split: option.splits SSH_Auth.splits intro!: calm_rules)
  have db: "keeps (calm s) (check_database E C m sp x r)" if "calm s r" for m x r
    unfolding check_database_def Let_def using that by (intro calm_rules secret_owner_calm; assumption?)
  show ?thesis
    unfolding validateConfig_def keep_labels_def
    by (intro calm_rules tls cert assms; assumption?)
      (auto split: Config_Type.splits intro!: calm_rules tls cert ssh db http_calm kubernetes_calm)
qed

lemma named_configs_calm: "calm s t \<Longrightarrow> keeps (calm s) (check_named_configs E C sp names cfgs labels t)"
proof (induction cfgs arbitrary: names labels t)
  case (Cons c cfgs)
  show ?case
    unfolding check_named_configs.simps
    by (intro calm_rules config_calm Cons.IH Cons.prems; assumption?)
qed (simp add: keeps_return)

lemma authorization_calm:
  assumes "calm s t"
  shows "keeps (calm s) (check_authorization E C a t)"
proof -
  have "keeps (calm s) (case cl_Get (xc_Policy C) (by_name p) r of
              (Ok _, s) \<Rightarrow> (Ok (), s)
            | (Fail e, s) \<Rightarrow> (reject_if (IsNotFound e) InvalidArg, s)
            | (Panic, s) \<Rightarrow> (Panic, s))" if "calm s r" for p r
    using named_others(3) [OF that, of p] by (auto simp: keeps_def split: prod.splits go.splits)
  then show ?thesis
    unfolding check_authorization_def using assms by (auto split: option.splits intro!: keeps_rules)
qed

lemma check_calm:
  assumes "calm s t"
  shows "keeps (calm s) (checkAndSetService E C svc t)"
proof -
  have region: "keeps (calm s) (service_region C x r)" if "calm s r" for x r
    unfolding service_region_def by (intro calm_rules that; assumption?)
  have default: "keeps (calm s) (check_default_config E C sp labels r)" if "calm s r" for sp labels r
    unfolding check_default_config_def using that by (auto split: option.splits intro!: calm_rules config_calm)
  have dynamic: "keeps (calm s) (check_dynamic_config E C sp labels r)" if "calm s r" for sp labels r
    unfolding check_dynamic_config_def keep_labels_def
    using that by (auto split: option.splits intro!: calm_rules named_configs_calm)
  show ?thesis
    unfolding checkAndSetService_def Let_def
    by (intro calm_rules region upstream_calm authorization_calm default dynamic assms; assumption?)
qed

section \<open>The invariant\<close>

definition good :: "'s \<Rightarrow> bool" where
  "good s \<longleftrightarrow> fine s \<and> hosted (view_s s) (view_n s)"

lemma good_calm: "good s \<Longrightarrow> calm s t \<Longrightarrow> good t"
  by (simp add: good_def calm_def)

lemma leads_good: "good s \<Longrightarrow> leads (calm s) good m \<Longrightarrow> good (snd m)"
  using good_calm by (auto simp: leads_def)

lemma calm_refl: "good s \<Longrightarrow> calm s s"
  by (simp add: good_def calm_def)

definition name_free :: "'s \<Rightarrow> string \<Rightarrow> string \<Rightarrow> bool" where
  "name_free s n ns \<longleftrightarrow>
     (n = ''default'' \<and> ns \<noteq> ''default'' \<longrightarrow> ns \<in> (\<lambda>q. md_Name (na_Metadata q)) ` set (view_n s)) \<and>
     (ns = ''default'' \<and> n \<noteq> ''default'' \<longrightarrow> n \<notin> (\<lambda>q. md_Name (na_Metadata q)) ` set (view_n s))"

lemma good_iff:
  "good s \<longleftrightarrow> fine s \<and> (\<forall>x\<in>set (view_s s). service_wf x \<and> (\<exists>n ns. placed n ns x \<and> name_free s n ns))"
  unfolding good_def hosted_def name_free_def ..

text \<open>Writing a Service that is placed where the name is free keeps the invariant.\<close>

lemma good_services:
  assumes "good s" "calm s t" "inv_s r" "rest_s r = rest_s t" "set (view_s r) \<subseteq> set (view_s s) \<union> {y}"
    and "y \<in> set (view_s r) \<Longrightarrow> service_wf y \<and> placed n ns y \<and> name_free s n ns"
  shows "good r"
proof -
  have r: "inv_n r" "inv_o r" "view_n r = view_n s"
    using frame_s [of t r] assms(2-4) by (simp_all add: calm_def fine_def)
  have free: "name_free r = name_free s" by (simp add: name_free_def fun_eq_iff r(3))
  show ?thesis
    using assms(1,3,5,6) r(1,2) unfolding good_iff free by (auto simp: fine_def)
qed

lemma no_namespace_calm:
  assumes "calm s t" "Service_Name item \<noteq> []"
  shows "keeps (calm s) (no_namespace_named C b item t)"
  using named_n [OF assms] assms(1)
  by (auto simp: no_namespace_named_def keeps_def split: prod.splits go.splits)

lemma no_namespace_Ok:
  assumes "calm s t" "no_namespace_named C False item t = (Ok u, t')" "placed n ns item"
  shows "calm s t' \<and> (ns = ''default'' \<longrightarrow> n \<notin> (\<lambda>q. md_Name (na_Metadata q)) ` set (view_n s))"
proof (cases "ns = ''default''")
  case True
  have ns: "Service_Namespace item = ''default''" "sx_NamespaceRef (svc_Status item) \<noteq> None" "Service_Name item = n" "n \<noteq> []"
    using assms(3) True placed_name [OF assms(3)] placed_nonempty [OF assms(3)] by (simp_all add: placed_def)
  have t: "inv_n t" "view_n t = view_n s" using assms(1) by (simp_all add: calm_def fine_def)
  obtain q t1 where q: "cl_Get (xc_Namespace C) (by_name n) t = (q, t1)" by fastforce
  from assms(2) ns q have "t1 = t'" "\<exists>e. q = Fail e \<and> IsNotFound e"
    by (auto simp: no_namespace_named_def split: go.splits if_splits)
  moreover have "calm s t1" using named_n [OF assms(1) ns(4)] q by (simp add: keeps_def)
  ultimately show ?thesis
    using nm.get [OF t(1) nm.fits_name q] t ns(4) by (auto simp: opt_matches_def)
qed (use assms in \<open>auto simp: no_namespace_named_def placed_def split: if_splits\<close>)

lemma validated:
  assumes "validateService E C req s = (Ok u, t)" "aq_Metadata req = Some md" "aq_Spec req = Some sp"
    "getNamespace (md_Name md) = Ok nsName"
  shows "(sv_IsAnonymous sp \<longrightarrow> sv_IsPublic sp \<and> sv_Authorization sp = None) \<and> nsName \<noteq> [] \<and>
    (\<exists>n. GetServiceFullNameFromName (md_Name md) = n @ ''.'' @ nsName \<and> NameMain n \<and> NameMain nsName)"
  using validateService_Ok [OF assms(1)] assms(2,3) full_name [OF _ assms(4)] by (auto simp: NameMain_def)

lemma stored_placed:
  assumes "unstamped (svc_Metadata y) = unstamped (svc_Metadata x)" "(svc_Spec y, svc_Status y) = (svc_Spec x, svc_Status x)"
  shows "service_wf y = service_wf x \<and> placed n ns y = placed n ns x"
  using unstamped_keeps [OF assms(1)] assms(2)
  by (simp add: service_wf_def placed_def IsHTTP_def IsManagedService_def Service_Namespace_def)

lemma wf_metadata [simp]: "service_wf (x\<lparr>svc_Metadata := m\<rparr>) = service_wf x"
  by (simp add: service_wf_def IsHTTP_def IsManagedService_def)

lemma namespace_found:
  assumes "calm s t" "cl_Get (xc_Namespace C) (by_name nsName) t = (Ok q, t1)" "nsName \<noteq> []"
  shows "q \<in> set (view_n s) \<and> md_Name (na_Metadata q) = nsName"
proof -
  have t: "inv_n t" "view_n t = view_n s" using assms(1) by (simp_all add: calm_def fine_def)
  show ?thesis using nm.get_Ok [OF t(1) nm.fits_name assms(2)] t assms(3) by (auto simp: opt_matches_def)
qed

text \<open>What is about to be created.\<close>

lemma prepared:
  assumes "validateService E C req s = (Ok u, t)" "aq_Metadata req = Some md" "aq_Spec req = Some sp"
    "getNamespace (md_Name md) = Ok nsName" "calm s t" "cl_Get (xc_Namespace C) (by_name nsName) t = (Ok q, t1)"
    "checkAndSetService E C (new_service False managed md sp (GetObjectReference a k (Some (na_Metadata q)))) t2 = (Ok item, t3)"
  shows "\<exists>n. placed n nsName (item\<lparr>svc_Metadata := as_system False md (svc_Metadata item)\<rparr>) \<and> service_wf item \<and>
    nsName \<in> (\<lambda>q. md_Name (na_Metadata q)) ` set (view_n s)"
proof -
  let ?new = "new_service False managed md sp (GetObjectReference a k (Some (na_Metadata q)))"
  note v = validated [OF assms(1-4)]
  then obtain n where n: "GetServiceFullNameFromName (md_Name md) = n @ ''.'' @ nsName" "NameMain n" "NameMain nsName" by blast
  have q: "q \<in> set (view_n s)" "md_Name (na_Metadata q) = nsName" using namespace_found [OF assms(5,6)] v by blast+
  have new: "Service_Name ?new = n" "Service_Namespace ?new = nsName" "svc_Spec ?new = sp"
    "md_Name (svc_Metadata ?new) = n @ ''.'' @ nsName" "sx_NamespaceRef (svc_Status ?new) \<noteq> None"
    using n q(2) NameMain_no_dot [OF n(2)]
    by (simp_all add: new_service_def Service_Name_def Service_Namespace_def GetObjectReference_def Split_append_sep)
  note x = checkAndSet_Ok [OF assms(7)]
  have "service_wf item" using x v new(3) by simp
  moreover have "Service_Namespace item = nsName" using x new(2) by (simp add: Service_Namespace_def)
  then have "placed n nsName (item\<lparr>svc_Metadata := as_system False md (svc_Metadata item)\<rparr>)"
    using x new n(2,3) by (simp add: placed_def as_system_def Service_Namespace_def)
  ultimately show ?thesis using q by blast
qed

lemma CreateService_good:
  assumes "good s"
  shows "good (snd (admin_CreateService E C req managed s))"
proof (rule leads_good [OF assms])
  note c = calm_refl [OF assms]
  show "leads (calm s) good (admin_CreateService E C req managed s)"
    unfolding admin_CreateService_def DoCreateService_def Let_def
  proof ((intro leads_check leads_step leads_on_err keeps_on_err keeps_absent validate_calm check_calm c; assumption?), goal_cases)
    case (1 u t md nsName)
    then show ?case using validateService_Ok [of E C req s u t] full_name [of "md_Name md" nsName]
      by (intro named_n) (auto simp: NameMain_def)
  next
    case (2 u t md nsName q t1)
    then show ?case using validateService_Ok [of E C req s u t] full_name [of "md_Name md" nsName]
      by (intro named_s) (auto simp: NameMain_def)
  next
    case (3 u t md nsName q t1 v t2 sp item t3)
    obtain n where "placed n nsName (item\<lparr>svc_Metadata := as_system False md (svc_Metadata item)\<rparr>)"
      using prepared [OF 3(1) [THEN on_err_simps(4) [THEN iffD1]] 3(3) [unfolded deref_eq_Ok] 3(9) [unfolded deref_eq_Ok] 3(4,2)
        3(5) [THEN on_err_simps(4) [THEN iffD1]] 3(10)] by blast
    then show ?case by (intro no_namespace_calm 3(11)) (simp add: placed_name placed_nonempty)
  next
    case (4 u t md nsName q t1 v t2 sp item t3 w t4)
    let ?x = "item\<lparr>svc_Metadata := as_system False md (svc_Metadata item)\<rparr>"
    let ?m = "cl_Create (xc_Service C) ?x t4"
    obtain n where x: "placed n nsName ?x" "service_wf item" "nsName \<in> (\<lambda>q. md_Name (na_Metadata q)) ` set (view_n s)"
      using prepared [OF 4(1) [THEN on_err_simps(4) [THEN iffD1]] 4(3) [unfolded deref_eq_Ok] 4(9) [unfolded deref_eq_Ok] 4(4,2)
        4(5) [THEN on_err_simps(4) [THEN iffD1]] 4(10)] by blast
    have free: "name_free s n nsName"
      using no_namespace_Ok [OF 4(11,12) x(1)] x(3) by (auto simp: name_free_def)
    have t4: "inv_s t4" "view_s t4 = view_s s" using 4(13) by (simp_all add: calm_def fine_def)
    note d = sv.create [OF t4(1) prod.collapse [symmetric], of ?x]
    show ?case
    proof (rule leads_effect [where view = view_s])
      show "effect (fst ?m) (\<lambda>y v. v = view_s t4 @ [y] \<and> (svc_Spec y, svc_Status y) = (svc_Spec ?x, svc_Status ?x) \<and>
          unstamped (svc_Metadata y) = unstamped (svc_Metadata ?x)) (view_s t4) (view_s (snd ?m))"
        using d by blast
      assume "view_s (snd ?m) = view_s t4"
      with d show "calm s (snd ?m)" by (intro calm_via_s [OF 4(13)]) blast
    next
      fix y
      assume y: "view_s (snd ?m) = view_s t4 @ [y] \<and> (svc_Spec y, svc_Status y) = (svc_Spec ?x, svc_Status ?x) \<and>
          unstamped (svc_Metadata y) = unstamped (svc_Metadata ?x)"
      have "service_wf y \<and> placed n nsName y \<and> name_free s n nsName"
        using stored_placed [of y ?x n nsName] y x free by simp
      with d y t4(2) show "good (snd ?m)"
        by (intro good_services [OF assms 4(13), of _ y n nsName]) auto
    qed
  qed
qed

lemma updated_placed:
  assumes "placed n ns z" "checkAndSetService E C (z\<lparr>svc_Metadata := MetadataUpdate (svc_Metadata z) md, svc_Spec := sp\<rparr>) t = (Ok x, t')"
    and "sv_IsAnonymous sp \<longrightarrow> sv_IsPublic sp \<and> sv_Authorization sp = None"
  shows "placed n ns x \<and> service_wf x \<and> md_Uid (svc_Metadata x) = md_Uid (svc_Metadata z) \<and>
    md_Name (svc_Metadata x) = md_Name (svc_Metadata z)"
proof -
  let ?z = "z\<lparr>svc_Metadata := MetadataUpdate (svc_Metadata z) md, svc_Spec := sp\<rparr>"
  have "Service_Name ?z = n" using placed_name [OF assms(1)] by (simp add: Service_Name_def)
  then show ?thesis
    using checkAndSet_Ok [OF assms(2)] assms(1,3) by (auto simp: placed_def Service_Namespace_def)
qed

lemma UpdateService_good:
  assumes "good s"
  shows "good (snd (admin_UpdateService E C req s))"
proof (rule leads_good [OF assms])
  note c = calm_refl [OF assms]
  show "leads (calm s) good (admin_UpdateService E C req s)"
    unfolding admin_UpdateService_def
  proof ((intro leads_check leads_step leads_on_err keeps_on_err validate_calm check_calm c; assumption?), goal_cases)
    case (1 u t md nsName)
    then show ?case using validateService_Ok [of E C req s u t] full_name [of "md_Name md" nsName]
      by (intro named_n) (auto simp: NameMain_def)
  next
    case (2 u t md nsName q t1)
    then show ?case using validateService_Ok [of E C req s u t] full_name [of "md_Name md" nsName]
      by (intro named_s) (auto simp: NameMain_def)
  next
    case (3 u t md nsName q t1 z t2 v sp x t3)
    note v = validated [OF 3(1) [THEN on_err_simps(4) [THEN iffD1]] 3(3) [unfolded deref_eq_Ok] 3(10) [unfolded deref_eq_Ok] 3(4)]
    have t1: "inv_s t1" "view_s t1 = view_s s" "inv_s t3" "view_s t3 = view_s s"
      using 3(6,12) by (simp_all add: calm_def fine_def)
    have full: "GetServiceFullNameFromName (md_Name md) \<noteq> []" using v by auto
    have z: "z \<in> set (view_s s)"
      using sv.get_Ok [OF t1(1) sv.fits_name [OF t1(1)] 3(7) [THEN on_err_simps(4) [THEN iffD1]]] full t1(2) by auto
    then obtain n ns where p: "placed n ns z" "name_free s n ns" using assms unfolding good_iff by blast
    note x = updated_placed [OF p(1) 3(11)]
    have same: "md_Uid (svc_Metadata x) = md_Uid (svc_Metadata z)" "md_Name (svc_Metadata x) = md_Name (svc_Metadata z)"
      using x v by blast+
    let ?m = "cl_Update (xc_Service C) x t3"
    have z3: "z \<in> set (view_s t3)" using z t1(4) by simp
    note d = sv.update [OF t1(3) z3 same prod.collapse [symmetric]]
    show ?case
    proof (rule leads_effect [where view = view_s])
      show "effect (fst ?m) (\<lambda>y v. v = map (\<lambda>q. if md_Uid (svc_Metadata q) = md_Uid (svc_Metadata x) then y else q) (view_s t3) \<and>
          (svc_Spec y, svc_Status y) = (svc_Spec x, svc_Status x) \<and> unstamped (svc_Metadata y) = unstamped (svc_Metadata x) \<and>
          md_Uid (svc_Metadata y) = md_Uid (svc_Metadata x)) (view_s t3) (view_s (snd ?m))"
        using d by blast
      assume "view_s (snd ?m) = view_s t3"
      with d show "calm s (snd ?m)" by (intro calm_via_s [OF 3(12)]) blast
    next
      fix y
      assume y: "view_s (snd ?m) = map (\<lambda>q. if md_Uid (svc_Metadata q) = md_Uid (svc_Metadata x) then y else q) (view_s t3) \<and>
          (svc_Spec y, svc_Status y) = (svc_Spec x, svc_Status x) \<and> unstamped (svc_Metadata y) = unstamped (svc_Metadata x) \<and>
          md_Uid (svc_Metadata y) = md_Uid (svc_Metadata x)"
      have "service_wf y \<and> placed n ns y \<and> name_free s n ns"
        using stored_placed [of y x n ns] y x v p(2) by simp
      with d y t1(4) show "good (snd ?m)"
        by (intro good_services [OF assms 3(12), of _ y n ns]) (auto split: if_splits)
    qed
  qed
qed

lemma DeleteService_good:
  assumes "good s" and "fits_s \<lparr>go_Uid = do_Uid req, go_Name = GetServiceFullNameFromName (do_Name req)\<rparr> s"
  shows "good (snd (admin_DeleteService E C req s))"
proof (rule leads_good [OF assms(1)])
  note c = calm_refl [OF assms(1)]
  show "leads (calm s) good (admin_DeleteService E C req s)"
    unfolding admin_DeleteService_def
  proof ((intro leads_finish leads_check leads_step leads_on_err keeps_on_err read_s c assms(2); assumption?), goal_cases)
    case (1 u z t v)
    have s: "inv_s s" using assms(1) by (simp add: good_iff fine_def)
    have t: "inv_s t" "view_s t = view_s s" using 1(3) by (simp_all add: calm_def fine_def)
    have z: "z \<in> set (view_s t)"
      using sv.get_Ok [OF s assms(2) 1(2) [THEN on_err_simps(4) [THEN iffD1]]] t(2) by simp
    let ?m = "cl_Delete (xc_Service C) \<lparr>do_Uid = md_Uid (svc_Metadata z), do_Name = []\<rparr> t"
    note d = sv.delete [OF t(1) z prod.collapse [symmetric]]
    show ?case
    proof (rule leads_effect [where view = view_s])
      show "effect (fst ?m) (\<lambda>y v. v = filter (\<lambda>q. md_Uid (svc_Metadata q) \<noteq> md_Uid (svc_Metadata z)) (view_s t)) (view_s t) (view_s (snd ?m))"
        using d by blast
      assume "view_s (snd ?m) = view_s t"
      with d show "calm s (snd ?m)" by (intro calm_via_s [OF 1(3)]) blast
    next
      assume y: "view_s (snd ?m) = filter (\<lambda>q. md_Uid (svc_Metadata q) \<noteq> md_Uid (svc_Metadata z)) (view_s t)"
      have "z \<notin> set (view_s (snd ?m))" using y by simp
      with d y t(2) show "good (snd ?m)"
        by (intro good_services [OF assms(1) 1(3), of _ z undefined undefined]) auto
    qed
  qed
qed

text \<open>Namespaces with other names leave the Services where they are.\<close>

lemma good_namespaces:
  assumes "good s" "calm s t" "inv_n r" "rest_n r = rest_n t"
    and "(\<lambda>q. md_Name (na_Metadata q)) ` set (view_n r) = (\<lambda>q. md_Name (na_Metadata q)) ` set (view_n s) \<union> new"
    and "\<And>x n. x \<in> set (view_s s) \<Longrightarrow> n \<in> new \<Longrightarrow> md_Name (svc_Metadata x) \<noteq> n @ ''.default''"
  shows "good r"
proof -
  have r: "inv_s r" "inv_o r" "view_s r = view_s s"
    using frame_n [of t r] assms(2-4) by (simp_all add: calm_def fine_def)
  have "\<exists>n ns. placed n ns x \<and> name_free r n ns" if x: "x \<in> set (view_s s)" for x
  proof -
    obtain n ns where p: "placed n ns x" "name_free s n ns" using assms(1) x unfolding good_iff by blast
    have "n \<notin> new" if "ns = ''default''" using assms(6) [OF x, of n] p(1) that by (auto simp: placed_def)
    with p(2) have "name_free r n ns" by (auto simp: name_free_def assms(5))
    with p(1) show ?thesis by blast
  qed
  with assms(1,3) r show ?thesis unfolding good_iff by (simp add: fine_def)
qed

lemma namespace_valid:
  assumes "validateNamespace A (xc_Policy C) req s = (Ok u, t)" "aq_Metadata req = Some md"
  shows "md_Name md \<noteq> []"
  using assms
  by (auto simp: validateNamespace_def validate_owner_spec_def dest!: go_seq_Ok validate_named)

lemma namespace_calm:
  assumes "calm s t"
  shows "keeps (calm s) (validateNamespace A (xc_Policy C) req t)"
  unfolding validateNamespace_def validate_owner_spec_def
  by (intro keeps_rules assms; assumption?) (auto split: option.splits intro!: keeps_rules owner_calm assms)

lemma no_default_calm:
  assumes "calm s t"
  shows "keeps (calm s) (no_default_service (xc_Service C) n t)"
  using named_s [OF assms, of "n @ ''.default''"] by (auto simp: no_default_service_def keeps_def split: prod.splits go.splits)

lemma no_default_Ok:
  assumes "calm s t" "no_default_service (xc_Service C) n t = (Ok u, t')" "x \<in> set (view_s s)"
  shows "md_Name (svc_Metadata x) \<noteq> n @ ''.default''"
proof -
  have t: "inv_s t" "view_s t = view_s s" using assms(1) by (simp_all add: calm_def fine_def)
  obtain q t1 where q: "cl_Get (xc_Service C) (by_name (n @ ''.default'')) t = (q, t1)" by fastforce
  with assms(2) have "\<exists>e. q = Fail e \<and> IsNotFound e" by (auto simp: no_default_service_def split: go.splits if_splits)
  then show ?thesis using sv.get [OF t(1) sv.fits_name [OF t(1)] q] t(2) assms(3) by (auto simp: opt_matches_def)
qed

lemma CreateNamespace_good:
  assumes "good s"
  shows "good (snd (admin_CreateNamespace A (xc_Policy C) (xc_Service C) (xc_Namespace C) req s))"
proof (rule leads_good [OF assms])
  note c = calm_refl [OF assms]
  show "leads (calm s) good (admin_CreateNamespace A (xc_Policy C) (xc_Service C) (xc_Namespace C) req s)"
    unfolding admin_CreateNamespace_def
  proof ((intro leads_check leads_step leads_on_err keeps_on_err keeps_absent namespace_calm no_default_calm c; assumption?), goal_cases)
    case (1 u t md v w t1)
    then show ?case using namespace_valid by (intro named_n) auto
  next
    case (2 u t md v w t1 a t2 sp)
    let ?x = "new_namespace md sp"
    let ?m = "cl_Create (xc_Namespace C) ?x t2"
    have t2: "inv_n t2" "view_n t2 = view_n s" using 2(8) by (simp_all add: calm_def fine_def)
    note d = nm.create [OF t2(1) prod.collapse [symmetric], of ?x]
    show ?case
    proof (rule leads_effect [where view = view_n])
      show "effect (fst ?m) (\<lambda>y v. v = view_n t2 @ [y] \<and> pay_n y = pay_n ?x \<and>
          unstamped (na_Metadata y) = unstamped (na_Metadata ?x)) (view_n t2) (view_n (snd ?m))"
        using d by blast
      assume "view_n (snd ?m) = view_n t2"
      with d show "calm s (snd ?m)" by (intro calm_via_n [OF 2(8)]) blast
    next
      fix y
      assume y: "view_n (snd ?m) = view_n t2 @ [y] \<and> pay_n y = pay_n ?x \<and> unstamped (na_Metadata y) = unstamped (na_Metadata ?x)"
      then have "md_Name (na_Metadata y) = md_Name md"
        using unstamped_keeps [of "na_Metadata y" "na_Metadata ?x"] by (simp add: new_namespace_def)
      with d y t2(2) show "good (snd ?m)"
        by (intro good_namespaces [OF assms 2(8), of _ "{md_Name md}"]) (use no_default_Ok [OF 2(2,5)] in auto)
    qed
  qed
qed

lemma UpdateNamespace_good:
  assumes "good s"
  shows "good (snd (admin_UpdateNamespace A (xc_Policy C) (xc_Namespace C) req s))"
proof (rule leads_good [OF assms])
  note c = calm_refl [OF assms]
  show "leads (calm s) good (admin_UpdateNamespace A (xc_Policy C) (xc_Namespace C) req s)"
    unfolding admin_UpdateNamespace_def
  proof ((intro leads_check leads_step leads_on_err keeps_on_err namespace_calm c; assumption?), goal_cases)
    case (1 u t md)
    then show ?case using namespace_valid by (intro named_n) auto
  next
    case (2 u t md z t1 v sp)
    have t: "inv_n t" "view_n t = view_n s" "inv_n t1" "view_n t1 = view_n s" using 2(2,5) by (simp_all add: calm_def fine_def)
    have md: "md_Name md \<noteq> []" using namespace_valid 2(1,3) by auto
    let ?x = "z\<lparr>na_Metadata := MetadataUpdate (na_Metadata z) md, na_Authorization := nas_Authorization sp, na_Attrs := nas_Attrs sp\<rparr>"
    let ?m = "cl_Update (xc_Namespace C) ?x t1"
    have z: "z \<in> set (view_n t1)" using namespace_found [OF 2(2) _ md] 2(4) t(4) by auto
    have same: "md_Uid (na_Metadata ?x) = md_Uid (na_Metadata z)" "md_Name (na_Metadata ?x) = md_Name (na_Metadata z)" by simp_all
    note d = nm.update [OF t(3) z same prod.collapse [symmetric]]
    show ?case
    proof (rule leads_effect [where view = view_n])
      show "effect (fst ?m) (\<lambda>y v. v = map (\<lambda>q. if md_Uid (na_Metadata q) = md_Uid (na_Metadata ?x) then y else q) (view_n t1) \<and>
          pay_n y = pay_n ?x \<and> unstamped (na_Metadata y) = unstamped (na_Metadata ?x) \<and>
          md_Uid (na_Metadata y) = md_Uid (na_Metadata ?x)) (view_n t1) (view_n (snd ?m))"
        using d by blast
      assume "view_n (snd ?m) = view_n t1"
      with d show "calm s (snd ?m)" by (intro calm_via_n [OF 2(5)]) blast
    next
      fix y
      assume y: "view_n (snd ?m) = map (\<lambda>q. if md_Uid (na_Metadata q) = md_Uid (na_Metadata ?x) then y else q) (view_n t1) \<and>
          pay_n y = pay_n ?x \<and> unstamped (na_Metadata y) = unstamped (na_Metadata ?x) \<and>
          md_Uid (na_Metadata y) = md_Uid (na_Metadata ?x)"
      then have name: "md_Name (na_Metadata y) = md_Name (na_Metadata z)"
        using unstamped_keeps [of "na_Metadata y" "na_Metadata ?x"] by simp
      have only: "q = z" if "q \<in> set (view_n s)" "md_Uid (na_Metadata q) = md_Uid (na_Metadata z)" for q
        using nm.view_unique [OF t(3) _ z] that t(4) by simp
      have "map (\<lambda>q. md_Name (na_Metadata q)) (view_n (snd ?m)) = map (\<lambda>q. md_Name (na_Metadata q)) (view_n s)"
        using y t(4) name only by (auto simp: same)
      then have "(\<lambda>q. md_Name (na_Metadata q)) ` set (view_n (snd ?m)) = (\<lambda>q. md_Name (na_Metadata q)) ` set (view_n s)"
        unfolding set_map [symmetric] by simp
      with d show "good (snd ?m)" by (intro good_namespaces [OF assms 2(5), of _ "{}"]) auto
    qed
  qed
qed

end

end
