(* ===== verification/ServiceNumbers.thy ===== *)
theory ServiceNumbers imports Corev1Services CoreExamples begin

text \<open>
  The spec and the status of a Service have numbers, so that the server of the examples can store Services.
\<close>

instance DualStackIP_ext :: (countable) countable
  by (rule countable_classI [of "\<lambda>r. to_nat (ip_Ipv4 r, ip_Ipv6 r,
    DualStackIP.more r)"]) (simp add: DualStackIP.equality)

instance Container_Env_Type :: countable by countable_datatype

instance Container_Env_ext :: (countable) countable
  by (rule countable_classI [of "\<lambda>r. to_nat (cv_Name r, cv_Type r,
    Container_Env.more r)"]) (simp add: Container_Env.equality)

instance Container_Credentials_ext :: (countable) countable
  by (rule countable_classI [of "\<lambda>r. to_nat (cw_Username r, cw_Password r, cw_Server r,
    Container_Credentials.more r)"]) (simp add: Container_Credentials.equality)

instance Container_Volume_ext :: (countable) countable
  by (rule countable_classI [of "\<lambda>r. to_nat (vo_Name r, vo_PersistentVolumeClaim r,
    Container_Volume.more r)"]) (simp add: Container_Volume.equality)

instance Container_VolumeMount_ext :: (countable) countable
  by (rule countable_classI [of "\<lambda>r. to_nat (mo_Name r, mo_MountPath r, mo_SubPath r,
    Container_VolumeMount.more r)"]) (simp add: Container_VolumeMount.equality)

instance Container_Probe :: countable by countable_datatype

instance Upstream_Container_ext :: (countable) countable
  by (rule countable_classI [of "\<lambda>r. to_nat (uc_Port r, uc_Image r, uc_Command r, uc_Args r, uc_Env r,
    uc_Replicas r, uc_UsernamePassword r, uc_ResourceLimit r, uc_Volumes r, uc_VolumeMounts r, uc_LivenessProbe r,
    uc_ReadinessProbe r, uc_Rest r, Upstream_Container.more r)"]) (simp add: Upstream_Container.equality)

instance Endpoint_ext :: (countable) countable
  by (rule countable_classI [of "\<lambda>r. to_nat (ep_Url r, ep_User r, Endpoint.more r)"]) (simp add: Endpoint.equality)

instance Upstream_Type :: countable by countable_datatype

instance Config_Upstream_ext :: (countable) countable
  by (rule countable_classI [of "\<lambda>r. to_nat (cu_User r, cu_Type r,
    Config_Upstream.more r)"]) (simp add: Config_Upstream.equality)

instance HTTP_Auth :: countable by countable_datatype

instance HTTP_Path_ext :: (countable) countable
  by (rule countable_classI [of "\<lambda>r. to_nat (hp_AddPrefix r, hp_RemovePrefix r,
    HTTP_Path.more r)"]) (simp add: HTTP_Path.equality)

instance JSON_Schema :: countable by countable_datatype

instance Body_Validation :: countable by countable_datatype

instance Inline_Body :: countable by countable_datatype

instance Response_Direct_ext :: (countable) countable
  by (rule countable_classI [of "\<lambda>r. to_nat (rd_StatusCode r, rd_ContentType r, rd_Type r,
    Response_Direct.more r)"]) (simp add: Response_Direct.equality)

instance HTTP_Response :: countable by countable_datatype

instance Plugin_Direct_ext :: (countable) countable
  by (rule countable_classI [of "\<lambda>r. to_nat (pl_StatusCode r, pl_Headers r, pl_Body r,
    Plugin_Direct.more r)"]) (simp add: Plugin_Direct.equality)

instance ExtProc_Type :: countable by countable_datatype

instance Cache_Key :: countable by countable_datatype

instance Plugin_Cache_ext :: (countable) countable
  by (rule countable_classI [of "\<lambda>r. to_nat (pc_Ttl r, pc_Key r, pc_MaxSize r,
    Plugin_Cache.more r)"]) (simp add: Plugin_Cache.equality)

instance Plugin_JSONSchema_ext :: (countable) countable
  by (rule countable_classI [of "\<lambda>r. to_nat (pj_Type r, pj_Headers r, pj_Body r,
    Plugin_JSONSchema.more r)"]) (simp add: Plugin_JSONSchema.equality)

instance Plugin_RateLimit_ext :: (countable) countable
  by (rule countable_classI [of "\<lambda>r. to_nat (rl_Limit r, rl_StatusCode r, rl_Window r, rl_Headers r, rl_Body r,
    Plugin_RateLimit.more r)"]) (simp add: Plugin_RateLimit.equality)

instance HTTP_Plugin_Type :: countable by countable_datatype

instance HTTP_Plugin_ext :: (countable) countable
  by (rule countable_classI [of "\<lambda>r. to_nat (pg_Name r, pg_Condition r, pg_Type r,
    HTTP_Plugin.more r)"]) (simp add: HTTP_Plugin.equality)

instance HTTP_Visibility_ext :: (countable) countable
  by (rule countable_classI [of "\<lambda>r. to_nat (vi_IncludeRequestHeaders r, vi_IncludeResponseHeaders r,
    HTTP_Visibility.more r)"]) (simp add: HTTP_Visibility.equality)

instance Config_HTTP_ext :: (countable) countable
  by (rule countable_classI [of "\<lambda>r. to_nat (ch_Auth r, ch_Path r, ch_IsUpstreamHTTP2 r, ch_ListenHTTP2 r,
    ch_EnableRequestBuffering r, ch_Body r, ch_Response r, ch_Plugins r, ch_Visibility r, ch_Rest r,
    Config_HTTP.more r)"]) (simp add: Config_HTTP.equality)

instance SSH_Auth :: countable by countable_datatype

instance Config_SSH_ext :: (countable) countable
  by (rule countable_classI [of "\<lambda>r. to_nat (cs_User r, cs_Auth r, cs_EnableLocalPortForwarding r,
    cs_EnableSubsystem r, cs_ESSHMode r, cs_Rest r, Config_SSH.more r)"]) (simp add: Config_SSH.equality)

instance Config_Kubernetes :: countable by countable_datatype

instance Config_Database_ext :: (countable) countable
  by (rule countable_classI [of "\<lambda>r. to_nat (db_User r, db_Password r, db_Database r, db_Rest r,
    Config_Database.more r)"]) (simp add: Config_Database.equality)

instance Config_Type :: countable by countable_datatype

instance Config_TLS_ext :: (countable) countable
  by (rule countable_classI [of "\<lambda>r. to_nat (tl_TrustedCAs r, tl_ClientCertificate r,
    Config_TLS.more r)"]) (simp add: Config_TLS.equality)

instance Config_ClientCertificate_ext :: (countable) countable
  by (rule countable_classI [of "\<lambda>r. to_nat (ck_FromSecret r, ck_TrustedCAs r,
    Config_ClientCertificate.more r)"]) (simp add: Config_ClientCertificate.equality)

instance Service_Spec_Config_ext :: (countable) countable
  by (rule countable_classI [of "\<lambda>r. to_nat (sc_Name r, sc_ClientCertificate r, sc_Upstream r, sc_Parent r,
    sc_Tls r, sc_Type r, Service_Spec_Config.more r)"]) (simp add: Service_Spec_Config.equality)

instance Service_Mode :: countable by countable_datatype

instance DynamicConfig_Rule_ext :: (countable) countable
  by (rule countable_classI [of "\<lambda>r. to_nat (dr_Condition r, dr_ConfigName r,
    DynamicConfig_Rule.more r)"]) (simp add: DynamicConfig_Rule.equality)

instance DynamicConfig_ext :: (countable) countable
  by (rule countable_classI [of "\<lambda>r. to_nat (dc_Configs r, dc_Rules r,
    DynamicConfig.more r)"]) (simp add: DynamicConfig.equality)

instance Service_Spec_ext :: (countable) countable
  by (rule countable_classI [of "\<lambda>r. to_nat (sv_Port r, sv_Mode r, sv_Authorization r, sv_Config r,
    sv_DynamicConfig r, sv_IsTLS r, sv_IsPublic r, sv_IsAnonymous r, sv_Deployment r, sv_Attrs r, sv_Region r,
    Service_Spec.more r)"]) (simp add: Service_Spec.equality)

instance Status_ManagedService_ext :: (countable) countable
  by (rule countable_classI [of "\<lambda>r. to_nat (ms_Image r, ms_Port r, ms_HasSubdomain r, ms_ForwardHost r,
    ms_Type r, ms_Rest r, Status_ManagedService.more r)"]) (simp add: Status_ManagedService.equality)

instance Service_Status_Address_ext :: (countable) countable
  by (rule countable_classI [of "\<lambda>r. to_nat (sa_DualStackIP r, sa_PodRef r,
    Service_Status_Address.more r)"]) (simp add: Service_Status_Address.equality)

instance Service_Status_ext :: (countable) countable
  by (rule countable_classI [of "\<lambda>r. to_nat (sx_Addresses r, sx_NamespaceRef r, sx_ManagedService r,
    sx_RegionRef r, sx_PrimaryHostname r, sx_AdditionalHostnames r, sx_Port r,
    Service_Status.more r)"]) (simp add: Service_Status.equality)

end
