(* ===== verification/ServiceClaims.thy ===== *)
theory ServiceClaims imports ServiceHosts ServiceNumbers DirectoryClaims begin

text \<open>
  The handlers for Services over the resource server: the interpretation of their interface, the properties of the
  Services that are stored, and a server with a Service in it.
\<close>

section \<open>Over the resource server\<close>

record svc_conversions =
  cz_Service :: "Service conversion"
  cz_Namespace :: "Namespace conversion"
  cz_Region :: "Region conversion"
  cz_User :: "User conversion"
  cz_Policy :: "Policy conversion"
  cz_Secret :: "Secret conversion"

abbreviation svcs :: "svc_conversions \<Rightarrow> (Service, Service_Spec \<times> Service_Status) codec" where
  "svcs D \<equiv> codec_of ''Service'' svc_Metadata (\<lambda>x. (svc_Spec x, svc_Status x)) (cz_Service D)"

abbreviation nss :: "svc_conversions \<Rightarrow> (Namespace, Authorization option \<times> json option) codec" where
  "nss D \<equiv> codec_of ''Namespace'' na_Metadata (\<lambda>x. (na_Authorization x, na_Attrs x)) (cz_Namespace D)"

abbreviation regions :: "svc_conversions \<Rightarrow> (Region, string) codec" where
  "regions D \<equiv> codec_of ''Region'' rg_Metadata rg_Kind (cz_Region D)"

abbreviation hosts :: "svc_conversions \<Rightarrow> (User, User_Spec \<times> User_Status option) codec" where
  "hosts D \<equiv> codec_of ''User'' ur_Metadata (\<lambda>u. (ur_Spec u, ur_Status u)) (cz_User D)"

abbreviation pols :: "svc_conversions \<Rightarrow> (Policy, Policy_Spec \<times> ObjectReference option) codec" where
  "pols D \<equiv> codec_of ''Policy'' pol_Metadata (\<lambda>p. (pol_Spec p, pol_ParentPolicyRef p)) (cz_Policy D)"

abbreviation secrets :: "svc_conversions \<Rightarrow> (Secret, Secret_Value option \<times> Secret_Value option) codec" where
  "secrets D \<equiv> codec_of ''Secret'' sec_Metadata (\<lambda>x. (sec_Spec_Data x, sec_Data x)) (cz_Secret D)"

definition core_services :: "serve_env \<Rightarrow> (string \<Rightarrow> fate) \<Rightarrow> svc_conversions \<Rightarrow> rsc_state svc_clients" where
  "core_services S net D =
     \<lparr>xc_Service = CoreC S net (svcs D), xc_Namespace = CoreC S net (nss D), xc_Region = CoreC S net (regions D),
      xc_User = CoreC S net (hosts D), xc_Policy = CoreC S net (pols D), xc_Secret = CoreC S net (secrets D)\<rparr>"

lemma core_services_simps [simp]:
  "xc_Service (core_services S net D) = CoreC S net (svcs D)" "xc_Namespace (core_services S net D) = CoreC S net (nss D)"
  "xc_Region (core_services S net D) = CoreC S net (regions D)" "xc_User (core_services S net D) = CoreC S net (hosts D)"
  "xc_Policy (core_services S net D) = CoreC S net (pols D)" "xc_Secret (core_services S net D) = CoreC S net (secrets D)"
  by (simp_all add: core_services_def)

definition others_inv :: "serve_env \<Rightarrow> svc_conversions \<Rightarrow> rsc_state \<Rightarrow> bool" where
  "others_inv S D s \<longleftrightarrow>
     client_inv S (regions D) s \<and> client_inv S (hosts D) s \<and> client_inv S (pols D) s \<and> client_inv S (secrets D) s"

text \<open>A lookup by name, also by an empty one, leaves all resources as they are.\<close>

lemma core_get_named:
  assumes "client_inv S K s" and "t = snd (cl_Get (CoreC S net K) (by_name n) s)"
  shows "client_inv S K t \<and> kind_rest K t = kind_rest K s \<and> kind_view K t = kind_view K s"
proof (cases "n = []")
  case True
  let ?h = "doGet (sn_rsc S) (by_name n) ''core'' ''v1'' (cd_kind K) s"
  obtain r where r: "cl_Get (CoreC S net K) (by_name n) s = (r, t)" using assms(2) by (metis prod.collapse)
  then have "client_call S net (rsc_path ''core'' ''Get'' (cd_kind K)) (Req_Get (by_name n)) (resp_object K) s = (r, t)"
    by (simp add: CoreC_def)
  from call_object [OF handle_core(1) [OF client_invD(6) [OF assms(1)]] this] have "t = s \<or> t = snd ?h" by blast
  moreover have "snd ?h = s" by (simp add: True doGet_def rsc_checkGetOptions_def reject_if_def)
  ultimately show ?thesis using assms(1) by auto
next
  case False
  obtain r where "cl_Get (CoreC S net K) (by_name n) s = (r, t)" using assms(2) by (metis prod.collapse)
  with client_get [OF assms(1) fits_by_name [OF assms(1)] this] False show ?thesis by simp
qed

lemma core_get_frame:
  assumes "client_inv S K s" and "t = snd (cl_Get (CoreC S net K) (by_name n) s)" and "client_inv S K' s" "cd_kind K' \<noteq> cd_kind K"
  shows "client_inv S K' t \<and> kind_view K' t = kind_view K' s"
  using core_get_named [OF assms(1,2)] core_frame [OF assms(3) _ _ assms(4)] by blast

lemma core_other:
  assumes inv: "client_inv S (svcs D) s \<and> client_inv S (nss D) s \<and> others_inv S D s"
    and t: "t \<in> {snd (cl_Get (CoreC S net (regions D)) (by_name n) s), snd (cl_Get (CoreC S net (hosts D)) (by_name n) s),
      snd (cl_Get (CoreC S net (pols D)) (by_name n) s), snd (cl_Get (CoreC S net (secrets D)) (by_name n) s)}"
  shows "client_inv S (svcs D) t \<and> client_inv S (nss D) t \<and> others_inv S D t \<and>
    kind_view (svcs D) t = kind_view (svcs D) s \<and> kind_view (nss D) t = kind_view (nss D) s"
proof -
  have o: "client_inv S (svcs D) s" "client_inv S (nss D) s" "client_inv S (regions D) s" "client_inv S (hosts D) s"
    "client_inv S (pols D) s" "client_inv S (secrets D) s" using inv by (simp_all add: others_inv_def)
  from t consider "t = snd (cl_Get (CoreC S net (regions D)) (by_name n) s)" | "t = snd (cl_Get (CoreC S net (hosts D)) (by_name n) s)"
    | "t = snd (cl_Get (CoreC S net (pols D)) (by_name n) s)" | "t = snd (cl_Get (CoreC S net (secrets D)) (by_name n) s)" by blast
  then show ?thesis
  proof cases
    case 1
    from core_get_named [OF o(3) 1] core_get_frame [OF o(3) 1 o(1)] core_get_frame [OF o(3) 1 o(2)] core_get_frame [OF o(3) 1 o(4)]
      core_get_frame [OF o(3) 1 o(5)] core_get_frame [OF o(3) 1 o(6)]
    show ?thesis by (simp add: others_inv_def)
  next
    case 2
    from core_get_named [OF o(4) 2] core_get_frame [OF o(4) 2 o(1)] core_get_frame [OF o(4) 2 o(2)] core_get_frame [OF o(4) 2 o(3)]
      core_get_frame [OF o(4) 2 o(5)] core_get_frame [OF o(4) 2 o(6)]
    show ?thesis by (simp add: others_inv_def)
  next
    case 3
    from core_get_named [OF o(5) 3] core_get_frame [OF o(5) 3 o(1)] core_get_frame [OF o(5) 3 o(2)] core_get_frame [OF o(5) 3 o(3)]
      core_get_frame [OF o(5) 3 o(4)] core_get_frame [OF o(5) 3 o(6)]
    show ?thesis by (simp add: others_inv_def)
  next
    case 4
    from core_get_named [OF o(6) 4] core_get_frame [OF o(6) 4 o(1)] core_get_frame [OF o(6) 4 o(2)] core_get_frame [OF o(6) 4 o(3)]
      core_get_frame [OF o(6) 4 o(4)] core_get_frame [OF o(6) 4 o(5)]
    show ?thesis by (simp add: others_inv_def)
  qed
qed

lemma core_written:
  assumes inv: "client_inv S (svcs D) s \<and> client_inv S (nss D) s \<and> others_inv S D s"
    and t: "client_inv S K t" "kind_rest K t = kind_rest K s" "cd_kind K \<notin> {''Region'', ''User'', ''Policy'', ''Secret''}"
  shows "others_inv S D t"
  using assms core_frame [OF _ t(1,2), of "regions D"] core_frame [OF _ t(1,2), of "hosts D"]
    core_frame [OF _ t(1,2), of "pols D"] core_frame [OF _ t(1,2), of "secrets D"]
  by (auto simp: others_inv_def)

interpretation core_services: services "core_services S net D"
  "filter_holds (svcs D)" "client_inv S (svcs D)" "\<lambda>o'. kind_fits o' ''core'' ''v1'' ''Service''" "kind_view (svcs D)" "kind_rest (svcs D)"
  "\<lambda>x. (na_Authorization x, na_Attrs x)" "filter_holds (nss D)" "client_inv S (nss D)"
    "\<lambda>o'. kind_fits o' ''core'' ''v1'' ''Namespace''" "kind_view (nss D)" "kind_rest (nss D)" "others_inv S D" for S net D
proof (unfold services_def services_axioms_def core_services_simps, intro conjI allI impI)
  show "resource_client (CoreC S net (svcs D)) svc_Metadata (\<lambda>x. (svc_Spec x, svc_Status x)) (filter_holds (svcs D))
      (client_inv S (svcs D)) (\<lambda>o'. kind_fits o' ''core'' ''v1'' ''Service'') (kind_view (svcs D)) (kind_rest (svcs D))"
    using core.resource_client_axioms [of S net "svcs D"] by simp
  show "resource_client (CoreC S net (nss D)) na_Metadata (\<lambda>x. (na_Authorization x, na_Attrs x)) (filter_holds (nss D))
      (client_inv S (nss D)) (\<lambda>o'. kind_fits o' ''core'' ''v1'' ''Namespace'') (kind_view (nss D)) (kind_rest (nss D))"
    using core.resource_client_axioms [of S net "nss D"] by simp
next
  fix s t
  assume inv: "client_inv S (svcs D) s \<and> client_inv S (nss D) s \<and> others_inv S D s"
  { assume t: "client_inv S (svcs D) t" "kind_rest (svcs D) t = kind_rest (svcs D) s"
    from core_frame [OF _ t, of "nss D"] inv core_written [OF inv t]
    show "client_inv S (nss D) t" "others_inv S D t" "kind_view (nss D) t = kind_view (nss D) s" by simp_all }
  { assume t: "client_inv S (nss D) t" "kind_rest (nss D) t = kind_rest (nss D) s"
    from core_frame [OF _ t, of "svcs D"] inv core_written [OF inv t]
    show "client_inv S (svcs D) t" "others_inv S D t" "kind_view (svcs D) t = kind_view (svcs D) s" by simp_all }
qed (use core_other in blast)+

section \<open>Every Service has a host name of its own\<close>

definition all_served :: "serve_env \<Rightarrow> svc_conversions \<Rightarrow> bool" where
  "all_served S D \<longleftrightarrow> serve_ok S (svcs D) \<and> serve_ok S (nss D) \<and> serve_ok S (regions D) \<and> serve_ok S (hosts D) \<and>
     serve_ok S (pols D) \<and> serve_ok S (secrets D)"

definition all_kept :: "svc_conversions \<Rightarrow> rsc_state \<Rightarrow> bool" where
  "all_kept D st \<longleftrightarrow> stored_ok (svcs D) st \<and> stored_ok (nss D) st \<and> stored_ok (regions D) st \<and> stored_ok (hosts D) st \<and>
     stored_ok (pols D) st \<and> stored_ok (secrets D) st"

text \<open>
  The resource server under an API server for Services and namespaces. It starts with any resources in which the Services are
  well-formed and hosted; requests come one after the other, over a network that may lose calls, with statements of
  the database failing at any time; in between comes anything that leaves Services and namespaces as they are. Namespaces
  are created and updated, but not deleted.
\<close>

inductive service_server :: "svc_conversions \<Rightarrow> rsc_state \<Rightarrow> bool" for D where
  start: "all_kept D st \<Longrightarrow> hosted (kind_view (svcs D) st) (kind_view (nss D) st) \<Longrightarrow> service_server D st"
| others: "service_server D st \<Longrightarrow> all_kept D st' \<Longrightarrow> kind_view (svcs D) st' = kind_view (svcs D) st \<Longrightarrow>
    kind_view (nss D) st' = kind_view (nss D) st \<Longrightarrow> service_server D st'"
| create_service: "service_server D st \<Longrightarrow> all_served S D \<Longrightarrow>
    service_server D (snd (admin_CreateService E (core_services S net D) req managed st))"
| update_service: "service_server D st \<Longrightarrow> all_served S D \<Longrightarrow>
    service_server D (snd (admin_UpdateService E (core_services S net D) req st))"
| delete_service: "service_server D st \<Longrightarrow> all_served S D \<Longrightarrow>
    kind_fits \<lparr>go_Uid = do_Uid d, go_Name = GetServiceFullNameFromName (do_Name d)\<rparr> ''core'' ''v1'' ''Service'' st \<Longrightarrow>
    service_server D (snd (admin_DeleteService E (core_services S net D) d st))"
| create_namespace: "service_server D st \<Longrightarrow> all_served S D \<Longrightarrow>
    service_server D (snd (admin_CreateNamespace A (CoreC S net (pols D)) (CoreC S net (svcs D)) (CoreC S net (nss D)) g st))"
| update_namespace: "service_server D st \<Longrightarrow> all_served S D \<Longrightarrow>
    service_server D (snd (admin_UpdateNamespace A (CoreC S net (pols D)) (CoreC S net (nss D)) g st))"

lemma good_iff_kept:
  "all_served S D \<Longrightarrow> core_services.good S D st \<longleftrightarrow> all_kept D st \<and> hosted (kind_view (svcs D) st) (kind_view (nss D) st)"
  by (auto simp: core_services.good_def core_services.fine_def others_inv_def client_inv_def all_served_def all_kept_def)

lemma service_server_inv:
  "service_server D st \<Longrightarrow> all_kept D st \<and> hosted (kind_view (svcs D) st) (kind_view (nss D) st)"
proof (induction rule: service_server.induct)
  case (create_service st S E net req managed)
  then show ?case using core_services.CreateService_good [of S D st E net req managed] by (simp add: good_iff_kept)
next
  case (update_service st S E net req)
  then show ?case using core_services.UpdateService_good [of S D st E net req] by (simp add: good_iff_kept)
next
  case (delete_service st S d E net)
  then show ?case using core_services.DeleteService_good [of S D st d E net] by (simp add: good_iff_kept)
next
  case (create_namespace st S A net g)
  then show ?case using core_services.CreateNamespace_good [of S D st A net g] by (simp add: good_iff_kept)
next
  case (update_namespace st S A net g)
  then show ?case using core_services.UpdateNamespace_good [of S D st A net g] by (simp add: good_iff_kept)
qed simp_all

text \<open>
  C18: whatever requests for Services and namespaces are made one after the other, and whatever fails, no two stored
  Services have a host name in common, as long as no namespace is deleted.
\<close>

theorem hostnames_unique:
  assumes "service_server D st" and "all_served S D"
    and "a \<in> set (kind_view (svcs D) st)" "b \<in> set (kind_view (svcs D) st)"
    and "h \<in> set (hostnames a)" "h \<in> set (hostnames b)"
  shows "a = b"
proof -
  have "client_inv S (svcs D) st" using service_server_inv [OF assms(1)] assms(2)
    by (simp add: client_inv_def all_served_def all_kept_def)
  from view_unique_keys [OF this] have "distinct (map (\<lambda>x. md_Name (svc_Metadata x)) (kind_view (svcs D) st))" by simp
  with hosted_hostnames [of "kind_view (svcs D) st"] service_server_inv [OF assms(1)] assms(3-6) show ?thesis by blast
qed

text \<open>
  C19: whatever requests for Services and namespaces are made one after the other, and whatever fails, every stored
  Service is well-formed: it has a mode; it is public only in a mode over HTTP and anonymous only when it is public and has no
  policies; the names of its configurations are valid, distinct and not \<open>default\<close>, and each names another as its
  parent; its port is not reserved; and it has a configuration unless it is managed.
\<close>

theorem stored_services_wf:
  assumes "service_server D st" and "a \<in> set (kind_view (svcs D) st)"
  shows "service_wf a"
  using service_server_inv [OF assms(1)] assms(2) by (auto simp: hosted_def)

section \<open>A server with a namespace and a Service in it\<close>

definition no_cond :: "sql_cond \<Rightarrow> rsc_obj \<Rightarrow> bool" where
  "no_cond c z = False"

definition numbered_svcs :: "(Service, Service_Spec \<times> Service_Status) codec" where
  "numbered_svcs = numbered ''Service'' svc_Metadata (\<lambda>x. (svc_Spec x, svc_Status x))
     (\<lambda>m p. \<lparr>svc_ApiVersion = [], svc_Kind = [], svc_Metadata = m, svc_Spec = fst p, svc_Status = snd p\<rparr>) (\<lambda>c x. False)"

definition numbered_nss :: "(Namespace, Authorization option \<times> json option) codec" where
  "numbered_nss = numbered ''Namespace'' na_Metadata (\<lambda>x. (na_Authorization x, na_Attrs x))
     (\<lambda>m p. \<lparr>na_ApiVersion = [], na_Kind = [], na_Metadata = m, na_Authorization = fst p, na_Attrs = snd p\<rparr>) (\<lambda>c x. False)"

definition numbered_regions :: "(Region, string) codec" where
  "numbered_regions = numbered ''Region'' rg_Metadata rg_Kind (\<lambda>m p. \<lparr>rg_ApiVersion = [], rg_Kind = p, rg_Metadata = m\<rparr>) (\<lambda>c x. False)"

definition numbered_hosts :: "(User, User_Spec \<times> User_Status option) codec" where
  "numbered_hosts = numbered ''User'' ur_Metadata (\<lambda>u. (ur_Spec u, ur_Status u))
     (\<lambda>m p. \<lparr>ur_ApiVersion = [], ur_Kind = [], ur_Metadata = m, ur_Spec = fst p, ur_Status = snd p\<rparr>) (\<lambda>c x. False)"

instance Secret_Value :: countable by countable_datatype

definition numbered_secrets :: "(Secret, Secret_Value option \<times> Secret_Value option) codec" where
  "numbered_secrets = numbered ''Secret'' sec_Metadata (\<lambda>x. (sec_Spec_Data x, sec_Data x))
     (\<lambda>m p. \<lparr>sec_ApiVersion = [], sec_Kind = [], sec_Metadata = m, sec_Spec_Data = fst p, sec_Data = snd p\<rparr>) (\<lambda>c x. False)"

definition example_svc_conv :: svc_conversions where
  "example_svc_conv =
     \<lparr>cz_Service = conversion_of numbered_svcs, cz_Namespace = conversion_of numbered_nss, cz_Region = conversion_of numbered_regions,
      cz_User = conversion_of numbered_hosts, cz_Policy = conversion_of numbered_pols, cz_Secret = conversion_of numbered_secrets\<rparr>"

lemma example_svc_codecs:
  "svcs example_svc_conv = numbered_svcs" "nss example_svc_conv = numbered_nss" "regions example_svc_conv = numbered_regions"
  "hosts example_svc_conv = numbered_hosts" "pols example_svc_conv = numbered_pols" "secrets example_svc_conv = numbered_secrets"
  by (simp_all add: codec_of_def example_svc_conv_def conversion_of_def numbered_svcs_def numbered_nss_def numbered_regions_def
      numbered_hosts_def numbered_pols_def numbered_secrets_def numbered_def)

definition svc_serve :: "string \<Rightarrow> serve_env" where
  "svc_serve uid = example_serve no_cond uid"

lemma svc_serve_ok: "plain uid \<Longrightarrow> all_served (svc_serve uid) example_svc_conv"
  unfolding all_served_def example_svc_codecs svc_serve_def numbered_svcs_def numbered_nss_def numbered_regions_def numbered_hosts_def
    numbered_pols_def numbered_secrets_def
  by (intro conjI example_serve_ok) (auto simp: resource_kinds_def no_cond_def)

definition dev_namespace :: Namespace where
  "dev_namespace = \<lparr>na_ApiVersion = [], na_Kind = [], na_Metadata = no_metadata\<lparr>md_Name := ''dev''\<rparr>, na_Authorization = None, na_Attrs = None\<rparr>"

definition dev_service :: Service where
  "dev_service =
     \<lparr>svc_ApiVersion = [], svc_Kind = [], svc_Metadata = no_metadata\<lparr>md_Name := ''default.dev''\<rparr>,
      svc_Spec = \<lparr>sv_Port = 8080, sv_Mode = HTTP, sv_Authorization = None,
        sv_Config = Some \<lparr>sc_Name = [], sc_ClientCertificate = None, sc_Upstream = None, sc_Parent = [], sc_Tls = None, sc_Type = Config_Unset\<rparr>,
        sv_DynamicConfig = None, sv_IsTLS = False, sv_IsPublic = True, sv_IsAnonymous = True, sv_Deployment = None, sv_Attrs = None,
        sv_Region = []\<rparr>,
      svc_Status = \<lparr>sx_Addresses = [], sx_NamespaceRef = GetObjectReference [] [] (Some (na_Metadata dev_namespace)), sx_ManagedService = None,
        sx_RegionRef = None, sx_PrimaryHostname = ''dev'', sx_AdditionalHostnames = [''default.dev''], sx_Port = 8080\<rparr>\<rparr>"

lemma dev_service_fits: "service_wf dev_service" "placed ''default'' ''dev'' dev_service"
  by (simp_all add: service_wf_def configs_wf_def dev_service_def dynamic_configs_def IsHTTP_def placed_def default_name NameMain_def
      lower_def lower_alnum_def name_char_def GetObjectReference_def dev_namespace_def Service_Namespace_def primary_hostname_def
      additional_hostnames_def)

definition dev_state0 :: rsc_state where
  "dev_state0 = snd (cl_Create (CoreC (svc_serve ''n1'') answered numbered_nss) dev_namespace rsc_empty)"

definition dev_state :: rsc_state where
  "dev_state = snd (cl_Create (CoreC (svc_serve ''s1'') answered numbered_svcs) dev_service dev_state0)"

lemma svc_kinds [simp]:
  "cd_kind numbered_svcs = ''Service''" "cd_kind numbered_nss = ''Namespace''" "cd_kind numbered_regions = ''Region''"
  "cd_kind numbered_hosts = ''User''" "cd_kind numbered_secrets = ''Secret''" "cd_md numbered_svcs = svc_Metadata"
  "cd_md numbered_nss = na_Metadata" "cd_payload numbered_svcs = (\<lambda>x. (svc_Spec x, svc_Status x))"
  by (simp_all add: numbered_svcs_def numbered_nss_def numbered_regions_def numbered_hosts_def numbered_secrets_def)

lemma kept_iff:
  "plain uid \<Longrightarrow> all_kept example_svc_conv st \<longleftrightarrow>
     client_inv (svc_serve uid) numbered_svcs st \<and> client_inv (svc_serve uid) numbered_nss st \<and>
     client_inv (svc_serve uid) numbered_regions st \<and> client_inv (svc_serve uid) numbered_hosts st \<and>
     client_inv (svc_serve uid) numbered_pols st \<and> client_inv (svc_serve uid) numbered_secrets st"
  using svc_serve_ok [of uid] by (auto simp: all_kept_def all_served_def client_inv_def example_svc_codecs)

lemma dev_names: "checkName ''dev'' = Ok ()" "checkName ''default.dev'' = Ok ()"
  by (simp_all add: checkName_def MaxNameSubArgs_def Let_def reject_if_def rgxName_def lower_alnum_def lower_def decimal_def
      name_char_def)

lemmas created_here = example_created [where h = no_cond, folded svc_serve_def]

lemma dev_reached:
  "all_kept example_svc_conv dev_state"
  "\<exists>y q. kind_view numbered_svcs dev_state = [y] \<and> svc_Spec y = svc_Spec dev_service \<and> svc_Status y = svc_Status dev_service \<and>
     md_Name (svc_Metadata y) = ''default.dev'' \<and> kind_view numbered_nss dev_state = [q] \<and> md_Name (na_Metadata q) = ''dev''"
proof -
  have plain: "plain ''n1''" "plain ''s1''" by (simp_all add: plain_def)
  note g = kept_iff [OF plain(1)] and u = kept_iff [OF plain(2)]
  have empty: "all_kept example_svc_conv rsc_empty" by (simp add: all_kept_def stored_empty)
  obtain q where q: "client_inv (svc_serve ''n1'') numbered_nss dev_state0"
    "kind_rest numbered_nss dev_state0 = kind_rest numbered_nss rsc_empty" "kind_view numbered_nss dev_state0 = [q]"
    "md_Name (na_Metadata q) = ''dev''" "rw_Uid ` set (rs_table dev_state0) = {''n1''}"
    by (rule created_here [OF _ _ _ _ _ dev_state0_def])
      (use empty g dev_names in \<open>auto simp: dev_namespace_def\<close>)
  have frame: "client_inv (svc_serve ''n1'') K dev_state0 \<and> kind_view K dev_state0 = []"
    if "client_inv (svc_serve ''n1'') K rsc_empty" "cd_kind K \<noteq> ''Namespace''" for K :: "('a, 'p) codec"
    using core_frame [OF that(1) q(1,2)] that(2) by simp
  have stored: "all_kept example_svc_conv dev_state0" "kind_view numbered_svcs dev_state0 = []"
    using empty frame [of numbered_svcs] frame [of numbered_regions] frame [of numbered_hosts] frame [of numbered_pols]
      frame [of numbered_secrets] q(1) by (simp_all add: g)
  obtain y where y: "client_inv (svc_serve ''s1'') numbered_svcs dev_state"
    "kind_rest numbered_svcs dev_state = kind_rest numbered_svcs dev_state0" "kind_view numbered_svcs dev_state = [y]"
    "svc_Spec y = svc_Spec dev_service" "svc_Status y = svc_Status dev_service" "md_Name (svc_Metadata y) = ''default.dev''"
    by (rule created_here [OF _ _ _ _ _ dev_state_def])
      (use stored q(5) dev_names in \<open>auto simp: u dev_service_def\<close>)
  have frame': "client_inv (svc_serve ''s1'') K dev_state \<and> kind_view K dev_state = kind_view K dev_state0"
    if "client_inv (svc_serve ''s1'') K dev_state0" "cd_kind K \<noteq> ''Service''" for K :: "('a, 'p) codec"
    using core_frame [OF that(1) y(1,2)] that(2) by simp
  show "all_kept example_svc_conv dev_state"
    using stored(1) y(1) frame' [of numbered_nss] frame' [of numbered_regions] frame' [of numbered_hosts] frame' [of numbered_pols]
      frame' [of numbered_secrets] by (simp add: u)
  show "\<exists>y q. kind_view numbered_svcs dev_state = [y] \<and> svc_Spec y = svc_Spec dev_service \<and> svc_Status y = svc_Status dev_service \<and>
     md_Name (svc_Metadata y) = ''default.dev'' \<and> kind_view numbered_nss dev_state = [q] \<and> md_Name (na_Metadata q) = ''dev''"
    using y(3-6) q(3,4) frame' [of numbered_nss] stored(1) by (simp add: u)
qed

lemma dev_hosted: "service_server example_svc_conv dev_state"
proof (rule service_server.start [OF dev_reached(1)])
  obtain y q where y: "kind_view numbered_svcs dev_state = [y]" "svc_Spec y = svc_Spec dev_service" "svc_Status y = svc_Status dev_service"
     "md_Name (svc_Metadata y) = ''default.dev''" "kind_view numbered_nss dev_state = [q]" "md_Name (na_Metadata q) = ''dev''"
    using dev_reached(2) by blast
  have "service_wf y" "placed ''default'' ''dev'' y"
    using dev_service_fits y(2-4)
    by (simp_all add: service_wf_def placed_def IsHTTP_def IsManagedService_def Service_Namespace_def)
  with y show "hosted (kind_view (svcs example_svc_conv) dev_state) (kind_view (nss example_svc_conv) dev_state)"
    by (auto simp: example_svc_codecs hosted_def)
qed

text \<open>Also after a request for another Service, whose name would be taken by the namespace.\<close>

definition example_svc_env :: svc_env where
  "example_svc_env =
     \<lparr>xe_A = example_api, xe_urlParse = (\<lambda>u. None), xe_IsChainPEM = (\<lambda>x. False), xe_Compiles = (\<lambda>x. False),
      xe_IsMediaType = (\<lambda>x. False), xe_UnmarshalKubeConfig = (\<lambda>x. None), xe_Merge = (\<lambda>a b. b)\<rparr>"

definition dev_request :: "Service_Spec api_request" where
  "dev_request =
     \<lparr>aq_Metadata = Some (no_metadata\<lparr>md_Name := ''dev''\<rparr>), aq_Spec = Some (svc_Spec dev_service), aq_Map = Ok [(''spec'', JMap [])]\<rparr>"

theorem hostnames_unique_witness:
  "(\<exists>y. kind_view numbered_svcs dev_state = [y] \<and> hostnames y = [''dev'', ''default.dev'']) \<and>
   (let t = snd (admin_CreateService example_svc_env (core_services (svc_serve ''s2'') answered example_svc_conv) dev_request None dev_state) in
    list_all (\<lambda>a. list_all (\<lambda>b. a = b \<or> set (hostnames a) \<inter> set (hostnames b) = {}) (kind_view numbered_svcs t)) (kind_view numbered_svcs t))"
proof -
  let ?t = "snd (admin_CreateService example_svc_env (core_services (svc_serve ''s2'') answered example_svc_conv) dev_request None dev_state)"
  have served: "all_served (svc_serve ''s2'') example_svc_conv" by (rule svc_serve_ok) (simp add: plain_def)
  have "\<exists>y. kind_view numbered_svcs dev_state = [y] \<and> hostnames y = [''dev'', ''default.dev'']"
    using dev_reached(2) by (auto simp: hostnames_def dev_service_def)
  moreover have "service_server example_svc_conv ?t"
    by (rule service_server.create_service [OF dev_hosted served])
  from hostnames_unique [OF this served]
  have "a = b" if "a \<in> set (kind_view numbered_svcs ?t)" "b \<in> set (kind_view numbered_svcs ?t)" "set (hostnames a) \<inter> set (hostnames b) \<noteq> {}" for a b
    using that unfolding example_svc_codecs by blast
  then have "list_all (\<lambda>a. list_all (\<lambda>b. a = b \<or> set (hostnames a) \<inter> set (hostnames b) = {}) (kind_view numbered_svcs ?t)) (kind_view numbered_svcs ?t)"
    unfolding list_all_iff by blast
  ultimately show ?thesis unfolding Let_def by blast
qed

theorem stored_services_wf_witness:
  "\<exists>y. kind_view numbered_svcs dev_state = [y] \<and> sv_IsAnonymous (svc_Spec y) \<and> service_wf y"
proof -
  obtain y where y: "kind_view numbered_svcs dev_state = [y]" "svc_Spec y = svc_Spec dev_service" using dev_reached(2) by blast
  with stored_services_wf [OF dev_hosted, of y] show ?thesis by (simp add: example_svc_codecs dev_service_def)
qed

end
