(* ===== verification/AuthTokens.thy ===== *)
theory AuthTokens imports AdminSecurity begin

text \<open>
  \<open>cluster/authserver/authserver\<close>: the tokens of sessions, and the ways to get a session from a token of a credential, from an
  assertion of an identity provider, from a refresh token or from the client credentials of OAuth 2, and to
  log out (\<open>accesstoken.go\<close>, \<open>sessiontoken.go\<close>, \<open>oauth2.go\<close>, \<open>logout.go\<close>, \<open>server.go\<close>). A call reads the clock and the
  keys of the controller of tokens as they are at one instant; the messages of errors are left out.
\<close>

section \<open>Calls\<close>

text \<open>
  The clients of the server, and what it reads beside them: the validators, the clock and the engine of conditions, the
  libraries of tokens, what a new session draws at random, the keys, the domain, and the maps that conditions see.
\<close>

record 's auth_clients =
  hc_User :: "('s, User) client"
  hc_Session :: "('s, Session) client"
  hc_Credential :: "('s, Credential) client"
  hc_Authenticator :: "('s, Authenticator) client"
  hc_Device :: "('s, Device) client"
  hc_ClusterConfig :: "('s, ClusterConfig) client"
  hc_Secret :: "('s, Secret) client"

record auth_env =
  ae_A :: api_env
  ae_T :: token_env
  ae_N :: session_env
  ae_keys :: keyMap
  ae_domain :: string
  ae_postAuthMap :: "User \<Rightarrow> IdentityProvider \<Rightarrow> Authentication_Info \<Rightarrow> input go"
  ae_enforceMap :: "User \<Rightarrow> IdentityProvider option \<Rightarrow> Session \<Rightarrow> Authenticator list \<Rightarrow> input go"
  ae_authnMap :: "Authenticator \<Rightarrow> User \<Rightarrow> Session option \<Rightarrow> Authentication_Info \<Rightarrow> input go"

abbreviation ae_now :: "auth_env \<Rightarrow> int" where
  "ae_now E \<equiv> ap_Now (ae_A E)"

abbreviation ae_V :: "auth_env \<Rightarrow> validators" where
  "ae_V E \<equiv> ap_V (ae_A E)"

text \<open>The metadata of a gRPC call: the keys are in lower case, each has a list of values.\<close>

type_synonym grpc_md = "(string \<times> string list) list"

definition GetHeaderValueAll :: "grpc_md \<Rightarrow> string \<Rightarrow> string list" where
  "GetHeaderValueAll md k = (case map_of md (ToLower k) of None \<Rightarrow> [] | Some vs \<Rightarrow> vs)"

definition GetHeaderValueMust :: "grpc_md \<Rightarrow> string \<Rightarrow> string" where
  "GetHeaderValueMust md k = (case GetHeaderValueAll md k of [] \<Rightarrow> [] | v # _ \<Rightarrow> v)"

text \<open>Every error of a call becomes a code of its own choosing.\<close>

definition errUnauthenticatedErr :: "error \<Rightarrow> error" where
  "errUnauthenticatedErr e = Unauthenticated"

definition errInvalidArgErr :: "error \<Rightarrow> error" where
  "errInvalidArgErr e = InvalidArg"

definition errPermissionDeniedErr :: "error \<Rightarrow> error" where
  "errPermissionDeniedErr e = PermissionDenied"

definition errInternalErr :: "error \<Rightarrow> error" where
  "errInternalErr e = Internal"

definition found_or :: "error \<Rightarrow> error \<Rightarrow> error" where
  "found_or missing e = (if IsNotFound e then missing else Internal)"

definition get_cluster :: "'s auth_clients \<Rightarrow> 's \<Rightarrow> ClusterConfig go \<times> 's" where
  "get_cluster C s = on_err errInternalErr (cl_Get (hc_ClusterConfig C) (by_name ''default'') s)"

text \<open>The empty options of a check of a reference.\<close>

definition no_get_opts :: CheckGetOptionsOpts where
  "no_get_opts = \<lparr>cg_HasName = False, cg_HasUID = False, cg_ParentsMax = 0, cg_ParentsMust = 0\<rparr>"

section \<open>The tokens of a session\<close>

datatype same_site = LaxMode | NoneMode

record cookie =
  ck_Name :: string
  ck_Value :: string
  ck_Domain :: string
  ck_HttpOnly :: bool
  ck_SameSite :: same_site
  ck_Expires :: timestamp

record SessionToken =
  tn_AccessToken :: string
  tn_RefreshToken :: string
  tn_ExpiresIn :: int
  tn_RefreshTokenExpiresIn :: int

definition generateAccessToken :: "auth_env \<Rightarrow> Session option \<Rightarrow> string go" where
  "generateAccessToken E sess =
     (case sess of
        None \<Rightarrow> Fail (Errorf ''generateAccessToken: Nil Session'')
      | _ \<Rightarrow> CreateAccessToken (ae_T E) (ae_now E) (ae_keys E) sess)"

definition generateRefreshToken :: "auth_env \<Rightarrow> Session option \<Rightarrow> string go" where
  "generateRefreshToken E sess =
     (case sess of
        None \<Rightarrow> Fail (Errorf ''generateRefreshToken: Nil Session'')
      | _ \<Rightarrow> CreateRefreshToken (ae_T E) (ae_now E) (ae_keys E) sess)"

definition token_cookie :: "auth_env \<Rightarrow> string \<Rightarrow> string \<Rightarrow> Duration option \<Rightarrow> cookie" where
  "token_cookie E name v d =
     \<lparr>ck_Name = name, ck_Value = v, ck_Domain = ae_domain E, ck_HttpOnly = True, ck_SameSite = LaxMode,
      ck_Expires = Some (Add (ae_now E) (ToGo d))\<rparr>"

text \<open>A browser gets its tokens as cookies, in the header of the answer, and an empty message.\<close>

definition generateSessionTokenResponse :: "auth_env \<Rightarrow> Session \<Rightarrow> (SessionToken \<times> cookie list) go" where
  "generateSessionTokenResponse E sess =
     go_bind (map_err errInternalErr (generateAccessToken E (Some sess))) (\<lambda>accessToken.
     go_bind (map_err errInternalErr (generateRefreshToken E (Some sess))) (\<lambda>refreshToken.
     go_bind (deref (st_Authentication (se_Status sess))) (\<lambda>a.
     if st_Type (se_Status sess) = CLIENTLESS \<and> st_IsBrowser (se_Status sess)
     then
       Ok (\<lparr>tn_AccessToken = [], tn_RefreshToken = [], tn_ExpiresIn = 0, tn_RefreshTokenExpiresIn = 0\<rparr>,
           [token_cookie E ''octelium_auth'' accessToken (au_AccessTokenDuration a),
            token_cookie E ''octelium_rt'' refreshToken (au_RefreshTokenDuration a)])
     else
       Ok (\<lparr>tn_AccessToken = accessToken, tn_RefreshToken = refreshToken,
            tn_ExpiresIn = ToSeconds (au_AccessTokenDuration a),
            tn_RefreshTokenExpiresIn = ToSeconds (au_RefreshTokenDuration a)\<rparr>, []))))"

section \<open>Credentials, users and sessions behind tokens\<close>

definition check_credential :: "int \<Rightarrow> CredentialClaims \<Rightarrow> Credential \<Rightarrow> unit go" where
  "check_credential now claims tkn =
     go_bind (reject_if (crs_IsDisabled (cr_Spec tkn)) Unauthenticated) (\<lambda>_.
     go_bind (reject_if (crt_IsLocked (cr_Status tkn)) Unauthenticated) (\<lambda>_.
     go_bind (reject_if (cl_TokenID claims \<noteq> crt_TokenID (cr_Status tkn)) Unauthenticated) (\<lambda>_.
     reject_if (case crs_ExpiresAt (cr_Spec tkn) of None \<Rightarrow> False | Some t \<Rightarrow> t < now) Unauthenticated)))"

definition getCredentialFromToken ::
  "auth_env \<Rightarrow> 's auth_clients \<Rightarrow> string \<Rightarrow> 's \<Rightarrow> Credential go \<times> 's" where
  "getCredentialFromToken E C authTokenStr s =
     go_seq (map_err errUnauthenticatedErr (VerifyCredential (ae_T E) (ae_now E) (ae_keys E) authTokenStr), s) (\<lambda>claims s.
     go_seq (on_err (found_or Unauthenticated) (cl_Get (hc_Credential C) (by_uid (cl_UID claims)) s)) (\<lambda>tkn s.
     go_seq (check_credential (ae_now E) claims tkn, s) (\<lambda>_ s. (Ok tkn, s))))"

definition getUserFromUserRef :: "'s auth_clients \<Rightarrow> ObjectReference option \<Rightarrow> 's \<Rightarrow> User go \<times> 's" where
  "getUserFromUserRef C usrRef s =
     go_seq (deref usrRef, s) (\<lambda>r s.
     go_seq (on_err (found_or Unauthenticated) (cl_Get (hc_User C) (by_uid (or_Uid r)) s)) (\<lambda>usr s.
     go_seq (reject_if (us_IsDisabled (ur_Spec usr)) PermissionDenied, s) (\<lambda>_ s.
     go_seq (deref (ur_Status usr), s) (\<lambda>ut s.
     go_seq (reject_if (ut_IsLocked ut) PermissionDenied, s) (\<lambda>_ s. (Ok usr, s))))))"

definition getUserFromSession :: "'s auth_clients \<Rightarrow> Session \<Rightarrow> 's \<Rightarrow> User go \<times> 's" where
  "getUserFromSession C sess s = getUserFromUserRef C (st_UserRef (se_Status sess)) s"

definition check_session :: "int \<Rightarrow> RefreshTokenClaims \<Rightarrow> Session \<Rightarrow> unit go" where
  "check_session now claims sess =
     go_bind (reject_if (rf_SessionUID claims \<noteq> md_Uid (se_Metadata sess)) Unauthenticated) (\<lambda>_.
     go_bind (deref (st_Authentication (se_Status sess))) (\<lambda>a.
     go_bind (reject_if (au_TokenID a \<noteq> rf_TokenID claims) Unauthenticated) (\<lambda>_.
     go_bind (reject_if (IsExpired now sess) Unauthenticated) (\<lambda>_.
     go_bind (HasValidRefreshToken now sess) (\<lambda>valid.
     go_bind (reject_if (\<not> valid) Unauthenticated) (\<lambda>_.
     go_bind (reject_if (ss_State (se_Spec sess) = REJECTED) Unauthenticated) (\<lambda>_.
     reject_if (st_IsLocked (se_Status sess)) Unauthenticated)))))))"

definition getSessionFromRefreshToken ::
  "auth_env \<Rightarrow> 's auth_clients \<Rightarrow> string \<Rightarrow> 's \<Rightarrow> Session go \<times> 's" where
  "getSessionFromRefreshToken E C refreshToken s =
     go_seq (reject_if (refreshToken = []) Unauthenticated, s) (\<lambda>_ s.
     go_seq (map_err errUnauthenticatedErr (VerifyRefreshToken (ae_T E) (ae_now E) (ae_keys E) refreshToken), s) (\<lambda>claims s.
     go_seq (on_err (found_or Unauthenticated) (cl_Get (hc_Session C) (by_uid (rf_SessionUID claims)) s)) (\<lambda>sess s.
     go_seq (check_session (ae_now E) claims sess, s) (\<lambda>_ s. (Ok sess, s)))))"

text \<open>
  The refresh token of a call: a header of its own, or a cookie. An HTTP request has its headers in the same form.
\<close>

definition request_cookie :: "grpc_md \<Rightarrow> string \<Rightarrow> string option" where
  "request_cookie md name = Cookie (Join (GetHeaderValueAll md ''cookie'') CHR '';'') name"

definition refresh_token_of :: "grpc_md \<Rightarrow> string" where
  "refresh_token_of md =
     (if GetHeaderValueMust md ''x-octelium-refresh-token'' \<noteq> [] then GetHeaderValueMust md ''x-octelium-refresh-token''
      else if GetHeaderValueAll md ''cookie'' \<noteq> []
      then (case request_cookie md ''octelium_rt'' of None \<Rightarrow> [] | Some v \<Rightarrow> v)
      else [])"

definition getSessionFromGRPCCtx :: "auth_env \<Rightarrow> 's auth_clients \<Rightarrow> grpc_md \<Rightarrow> 's \<Rightarrow> Session go \<times> 's" where
  "getSessionFromGRPCCtx E C md s =
     go_seq (reject_if (refresh_token_of md = []) Unauthenticated, s) (\<lambda>_ s.
     getSessionFromRefreshToken E C (refresh_token_of md) s)"

text \<open>The same from an HTTP request, for a browser only.\<close>

definition getWebSessionFromHTTPRefreshCookie ::
  "auth_env \<Rightarrow> 's auth_clients \<Rightarrow> grpc_md \<Rightarrow> 's \<Rightarrow> Session go \<times> 's" where
  "getWebSessionFromHTTPRefreshCookie E C hdr s =
     (case request_cookie hdr ''octelium_rt'' of
        None \<Rightarrow> (Fail (Errorf ''named cookie not present''), s)
      | Some v \<Rightarrow>
          go_seq (getSessionFromRefreshToken E C v s) (\<lambda>sess s.
          go_seq (reject_if (\<not> st_IsBrowser (se_Status sess)) InvalidArg, s) (\<lambda>_ s. (Ok sess, s))))"

section \<open>When a session needs a new authentication\<close>

definition maxAuthenticationsPerHour :: nat where
  "maxAuthenticationsPerHour = 5"

definition recent_authentications :: "int \<Rightarrow> Session \<Rightarrow> nat" where
  "recent_authentications now sess =
     length (filter (\<lambda>a. now < AsTime (au_SetAt a) + 3600000000000) (st_LastAuthentications (se_Status sess)))"

definition needsReAuth :: "int \<Rightarrow> Session \<Rightarrow> bool go" where
  "needsReAuth now sess =
     (case st_Authentication (se_Status sess) of
        None \<Rightarrow> Ok True
      | Some a \<Rightarrow>
          if au_AccessTokenDuration a = None then Ok True
          else
            go_bind (HasValidAccessToken now sess) (\<lambda>valid.
            if \<not> valid then Ok True
            else if AsTime (au_SetAt a) + sint (ToGo (au_AccessTokenDuration a)) sdiv 2 < now then Ok True
            else Ok (recent_authentications now sess < maxAuthenticationsPerHour)))"

definition checkSessionValid :: "int \<Rightarrow> Session \<Rightarrow> unit go" where
  "checkSessionValid now sess =
     go_bind (IsValid now sess) (\<lambda>valid.
     go_bind (reject_if (\<not> valid) PermissionDenied) (\<lambda>_.
     go_bind (reject_if (st_IsLocked (se_Status sess)) PermissionDenied) (\<lambda>_.
     reject_if (st_AuthenticatorAction (se_Status sess) = AUTHENTICATION_REQUIRED) PermissionDenied)))"

end
