(* ===== verification/AuthSessions.thy ===== *)
theory AuthSessions imports AuthTokens begin

text \<open>
  \<open>cluster/authserver/authserver\<close>: how a session is got from a token of a credential, from the assertion of a workload
  (\<open>providers/oidcassertion\<close>, \<open>providers/utils\<close>), from a refresh token and from the client credentials of
  OAuth 2, and how it is given up. The verifiers of OpenID tokens are parameters.
\<close>

section \<open>The limit on sessions\<close>

definition auth_checkMaxSessionsPerUser :: "'s auth_clients \<Rightarrow> User \<Rightarrow> ClusterConfig \<Rightarrow> 's \<Rightarrow> unit go \<times> 's" where
  "auth_checkMaxSessionsPerUser C usr cc s =
     go_seq (on_err errInternalErr (cl_List (hc_Session C) (FilterByUser usr) s)) (\<lambda>sessList s.
     (reject_if (max_sessions (ur_Spec usr) cc \<le> of_nat (length sessList)) PermissionDenied, s))"

section \<open>Tokens of credentials\<close>

definition mustGetSessionTypeFromUserAgent :: "grpc_md \<Rightarrow> Session_Type" where
  "mustGetSessionTypeFromUserAgent md =
     (let ua = GetHeaderValueMust md ''User-Agent'' in
      if ua \<noteq> [] \<and> HasPrefix ua ''octelium-cli'' then CLIENT
      else if ua \<noteq> [] \<and> HasPrefix ua ''octelium-sdk'' then CLIENTLESS
      else CLIENTLESS)"

definition auth_session_opts ::
  "User \<Rightarrow> ClusterConfig \<Rightarrow> Session_Type \<Rightarrow> Scope list \<Rightarrow> Authentication_Info option \<Rightarrow> string \<Rightarrow> string \<Rightarrow> CreateSessionOpts" where
  "auth_session_opts usr cc ty scopes info ua xff =
     \<lparr>cs_Usr = usr, cs_Device = None, cs_ClusterConfig = Some cc, cs_SessType = ty, cs_IsBrowser = False, cs_Scopes = scopes,
      cs_AuthenticationInfo = info, cs_Authorization = None, cs_CredentialRef = None, cs_ExpiresAt = None, cs_UserAgent = ua,
      cs_XFF = xff, cs_Ext = [], cs_CheckPerUserLimit = False, cs_AuthenticatorAction = AUTHENTICATOR_ACTION_UNSET,
      cs_RequiredAuthenticatorRef = None\<rparr>"

definition credential_session_opts ::
  "Credential \<Rightarrow> User \<Rightarrow> ClusterConfig \<Rightarrow> Session_Type \<Rightarrow> Scope list \<Rightarrow> string \<Rightarrow> string \<Rightarrow> CreateSessionOpts" where
  "credential_session_opts tkn usr cc ty scopes ua xff =
     (auth_session_opts usr cc ty scopes (Some (credential_info tkn)) ua xff)
       \<lparr>cs_CredentialRef := credential_ref tkn, cs_Authorization := crs_Authorization (cr_Spec tkn)\<rparr>"

definition counted :: "Credential \<Rightarrow> Credential" where
  "counted tkn =
     tkn\<lparr>cr_Status := (cr_Status tkn)\<lparr>crt_TotalAuthentications := crt_TotalAuthentications (cr_Status tkn) + 1\<rparr>\<rparr>"

definition used_up :: "Credential \<Rightarrow> bool" where
  "used_up tkn \<longleftrightarrow>
     crs_AutoDelete (cr_Spec tkn) \<and> crs_MaxAuthentications (cr_Spec tkn) \<noteq> 0 \<and>
     crs_MaxAuthentications (cr_Spec tkn) \<le> crt_TotalAuthentications (cr_Status tkn)"

definition updateAndAutoDeleteCredential :: "'s auth_clients \<Rightarrow> Credential \<Rightarrow> 's \<Rightarrow> unit go \<times> 's" where
  "updateAndAutoDeleteCredential C tkn s =
     go_seq (cl_Update (hc_Credential C) (counted tkn) s) (\<lambda>_ s.
     if used_up (counted tkn)
     then
       go_seq (on_err errInternalErr
         (cl_Delete (hc_Credential C) \<lparr>do_Uid = md_Uid (cr_Metadata tkn), do_Name = []\<rparr> s)) (\<lambda>_ s. (Ok (), s))
     else (Ok (), s))"

definition doAuthenticateWithAuthenticationToken ::
  "auth_env \<Rightarrow> 's auth_clients \<Rightarrow> grpc_md \<Rightarrow> string \<Rightarrow> string list option \<Rightarrow> 's \<Rightarrow> (SessionToken \<times> cookie list) go \<times> 's" where
  "doAuthenticateWithAuthenticationToken E C md authToken scopes s =
     go_seq (map_err errInvalidArgErr (VerifyScopes (ae_V E) scopes), s) (\<lambda>_ s.
     go_seq (getCredentialFromToken E C authToken s) (\<lambda>tkn s.
     go_seq (reject_if (crs_Type (cr_Spec tkn) \<noteq> AUTH_TOKEN) Unauthenticated, s) (\<lambda>_ s.
     go_seq (getUserFromUserRef C (crt_UserRef (cr_Status tkn)) s) (\<lambda>usr s.
     go_seq (get_cluster C s) (\<lambda>cc s.
     go_seq (map_err errInvalidArgErr (GetScopes (ae_V E) scopes), s) (\<lambda>scs s.
     let ty = (if crs_SessionType (cr_Spec tkn) \<noteq> TYPE_UNKNOWN then crs_SessionType (cr_Spec tkn)
               else mustGetSessionTypeFromUserAgent md) in
     go_seq (auth_checkMaxSessionsPerUser C usr cc s) (\<lambda>_ s.
     go_seq (on_err InternalWithErr
       (CreateSession (ae_N E) (hc_Session C) (hc_ClusterConfig C)
         (credential_session_opts tkn usr cc ty scs
           (GetHeaderValueMust md ''user-agent'') (GetHeaderValueMust md ''x-forwarded-for'')) s)) (\<lambda>sess s.
     go_seq (generateSessionTokenResponse E sess, s) (\<lambda>ret s.
     go_seq (updateAndAutoDeleteCredential C tkn s) (\<lambda>_ s. (Ok ret, s)))))))))))"

section \<open>Assertions of workloads\<close>

text \<open>The first identity of the user with the provider.\<close>

definition account_of :: "string \<Rightarrow> User \<Rightarrow> Identity option" where
  "account_of idpName usr =
     (case us_Authentication (ur_Spec usr) of
        None \<Rightarrow> None
      | Some ids \<Rightarrow> List.find (\<lambda>acc. id_IdentityProvider acc = idpName) ids)"

definition check_account :: "string \<Rightarrow> string \<Rightarrow> User \<Rightarrow> unit go" where
  "check_account idpName identifier usr =
     (case account_of idpName usr of
        None \<Rightarrow> Fail (Errorf ''The User authentication account does not exist'')
      | Some acc \<Rightarrow> reject_if (id_Identifier acc \<noteq> identifier) (Errorf ''The User identifier does not match the account''))"

definition by_identity :: "auth_env \<Rightarrow> string \<Rightarrow> string \<Rightarrow> ListOptions" where
  "by_identity E idpName identifier =
     no_list_options\<lparr>lo_SpecLabels := [(''auth-'' @ idpName, ap_Slug (ae_A E) identifier)]\<rparr>"

definition GetUserFromIdentifier ::
  "auth_env \<Rightarrow> 's auth_clients \<Rightarrow> string \<Rightarrow> string \<Rightarrow> User_Type \<Rightarrow> 's \<Rightarrow> User go \<times> 's" where
  "GetUserFromIdentifier E C idpName identifier ty s =
     go_seq (reject_if (identifier = []) (Errorf ''Empty identifier''), s) (\<lambda>_ s.
     go_seq (on_err (\<lambda>_. Errorf ''Internal error'') (cl_List (hc_User C) (by_identity E idpName identifier) s)) (\<lambda>usrs s.
     case usrs of
       [usr] \<Rightarrow>
         go_seq (reject_if (us_IsDisabled (ur_Spec usr)) (Errorf ''Deactivated User''), s) (\<lambda>_ s.
         go_seq (reject_if (us_Type (ur_Spec usr) \<noteq> ty) (Errorf ''Invalid User type''), s) (\<lambda>_ s.
         go_seq (check_account idpName identifier usr, s) (\<lambda>_ s. (Ok usr, s))))
     | _ \<Rightarrow> (Fail (Errorf ''This User does not exist''), s)))"

fun aal_of :: "cel_env \<Rightarrow> input \<Rightarrow> AALRule list \<Rightarrow> AAL go" where
  "aal_of E inp [] = Ok AAL_UNSET"
| "aal_of E inp (r # rs) =
     (case EvalCondition E (aa_Condition r) inp of
        Ok b \<Rightarrow> if b then Ok (aa_Aal r) else aal_of E inp rs
      | Fail e \<Rightarrow> aal_of E inp rs
      | Panic \<Rightarrow> Panic)"

text \<open>The number of a level; an unknown one keeps its own.\<close>

fun aal_number :: "AAL \<Rightarrow> int" where
  "aal_number AAL_UNSET = 0"
| "aal_number AAL1 = 1"
| "aal_number AAL2 = 2"
| "aal_number AAL3 = 3"
| "aal_number (Other_AAL n) = n"

definition GetAAL :: "cel_env \<Rightarrow> AALRule list \<Rightarrow> json \<Rightarrow> string \<Rightarrow> int go" where
  "GetAAL E rules assertionMap assertion =
     (if rules = [] then Ok 0
      else go_map aal_number (aal_of E [(''ctx'', JMap [(''assertionMap'', assertionMap), (''assertion'', JStr assertion)])] rules))"

text \<open>
  An identity token that a verifier has accepted, and the verifiers: that of the issuer of a URL, with the flag that the issuer
  is not checked, that of the keys of a text and that of the keys at a URL.
\<close>

record id_token =
  ik_Issuer :: string
  ik_Audience :: "string list"
  ik_Subject :: string
  ik_Claims :: "json go"

record oidc_env =
  od_ByIssuer :: "string \<Rightarrow> bool \<Rightarrow> string \<Rightarrow> id_token go"
  od_ByContent :: "string \<Rightarrow> string \<Rightarrow> id_token go"
  od_ByURL :: "string \<Rightarrow> string \<Rightarrow> id_token go"

definition assertion_token :: "oidc_env \<Rightarrow> IdP_OIDCIdentityToken \<Rightarrow> string \<Rightarrow> id_token go" where
  "assertion_token Oi spec idToken =
     go_bind
       (case ot_Type spec of
          OIT_IssuerURL u \<Rightarrow> od_ByIssuer Oi u (ot_Issuer spec \<noteq> []) idToken
        | OIT_JwksContent c \<Rightarrow> od_ByContent Oi c idToken
        | OIT_JwksURL u \<Rightarrow> od_ByURL Oi u idToken
        | OIT_Unset \<Rightarrow> Fail (Errorf ''Cannot create a verifier without having an issuer URL or a JWKS'')) (\<lambda>idTkn.
     let skipIssuerCheck = (case ot_Type spec of OIT_IssuerURL u \<Rightarrow> ot_Issuer spec \<noteq> [] | _ \<Rightarrow> True) in
     go_bind (reject_if (skipIssuerCheck \<and> ot_Issuer spec = [])
       (Errorf ''You must supply the issuer for the JWS URL and content modes'')) (\<lambda>_.
     go_bind (reject_if (skipIssuerCheck \<and> ik_Issuer idTkn \<noteq> ot_Issuer spec) (Errorf ''Overridden issuer does not match'')) (\<lambda>_.
     Ok idTkn)))"

definition identity_token_spec :: "IdentityProvider \<Rightarrow> IdP_OIDCIdentityToken go" where
  "identity_token_spec p =
     (case is_Type (idp_Spec p) of
        IdP_OidcIdentityToken x \<Rightarrow> Ok x
      | _ \<Rightarrow> Fail (Errorf ''Not an OIDC idToken provider''))"

definition idp_ref :: "IdentityProvider \<Rightarrow> ObjectReference option" where
  "idp_ref p = GetObjectReference (idp_ApiVersion p) (idp_Kind p) (Some (idp_Metadata p))"

definition AuthenticateAssertion ::
  "auth_env \<Rightarrow> oidc_env \<Rightarrow> 's auth_clients \<Rightarrow> ClusterConfig \<Rightarrow> IdentityProvider \<Rightarrow> ObjectReference option \<Rightarrow> string \<Rightarrow> 's \<Rightarrow>
   (User \<times> Authentication_Info) go \<times> 's"
where
  "AuthenticateAssertion E Oi C cc p ref idToken s =
     go_seq (reject_if (case ref of None \<Rightarrow> True | Some r \<Rightarrow> or_Name r \<noteq> md_Name (idp_Metadata p))
       (Errorf ''Invalid Identity Provider name''), s) (\<lambda>_ s.
     go_seq (identity_token_spec p, s) (\<lambda>spec s.
     go_seq (assertion_token Oi spec idToken, s) (\<lambda>idTkn s.
     let audience = (if ot_Audience spec = [] then ''https://'' @ cc_Domain cc else ot_Audience spec) in
     go_seq (reject_if (audience \<notin> set (ik_Audience idTkn)) (Errorf ''Audience not found in the id token''), s) (\<lambda>_ s.
     go_seq (ik_Claims idTkn, s) (\<lambda>claims s.
     go_seq (GetUserFromIdentifier E C (md_Name (idp_Metadata p)) (ik_Subject idTkn) WORKLOAD s) (\<lambda>usr s.
     go_seq (GetAAL (ap_Cel (ae_A E)) (is_AalRules (idp_Spec p)) claims [], s) (\<lambda>aal s.
     (Ok (usr,
        \<lparr>ai_Type = IDENTITY_PROVIDER,
         ai_Details = Details_IdentityProvider
           \<lparr>ii_IdentityProviderRef = idp_ref p, ii_Type = OIDC_IDENTITY_TOKEN, ii_Identifier = ik_Subject idTkn, ii_PicURL = [],
            ii_Email = []\<rparr>,
         ai_Aal = aal, ai_Downstream = None\<rparr>), s))))))))"

section \<open>Rules after an authentication\<close>

text \<open>
  The first rule whose condition holds decides; a condition that cannot be evaluated is skipped, and so is an effect that is
  neither of the two.
\<close>

fun first_effect :: "cel_env \<Rightarrow> input \<Rightarrow> (Condition option \<times> Rule_Effect) list \<Rightarrow> unit go" where
  "first_effect E inp [] = Ok ()"
| "first_effect E inp ((c, eff) # rs) =
     (case EvalCondition E c inp of
        Ok b \<Rightarrow>
          if \<not> b then first_effect E inp rs
          else (case eff of
                  ALLOW \<Rightarrow> Ok ()
                | DENY \<Rightarrow> Fail (Errorf ''Denied by postAuthentication rule'')
                | _ \<Rightarrow> first_effect E inp rs)
      | Fail e \<Rightarrow> first_effect E inp rs
      | Panic \<Rightarrow> Panic)"

definition doPostAuthenticationRules ::
  "auth_env \<Rightarrow> IdentityProvider \<Rightarrow> User \<Rightarrow> Authentication_Info \<Rightarrow> unit go" where
  "doPostAuthenticationRules E idp usr authInfo =
     (let rules = is_PostAuthenticationRules (idp_Spec idp) in
      if rules = [] then Ok ()
      else
        (case ae_postAuthMap E usr idp authInfo of
           Ok inp \<Rightarrow> first_effect (ap_Cel (ae_A E)) inp (map (\<lambda>r. (pa_Condition r, pa_Effect r)) rules)
         | _ \<Rightarrow> Panic))"

text \<open>The connectors for assertions are those of the providers of that type, in the order of the list.\<close>

definition assertion_providers :: "IdentityProvider list \<Rightarrow> IdentityProvider list" where
  "assertion_providers = filter (\<lambda>p. is_ok (identity_token_spec p))"

definition getAssertionProviderFromName :: "IdentityProvider list \<Rightarrow> string \<Rightarrow> IdentityProvider go" where
  "getAssertionProviderFromName ps name =
     (case List.find (\<lambda>p. md_Name (idp_Metadata p) = name) (assertion_providers ps) of
        None \<Rightarrow> Fail (Errorf ''Could not find IdentityProvider'')
      | Some p \<Rightarrow> Ok p)"

definition doAuthenticateWithAssertion ::
  "auth_env \<Rightarrow> oidc_env \<Rightarrow> 's auth_clients \<Rightarrow> ClusterConfig \<Rightarrow> IdentityProvider list \<Rightarrow> grpc_md \<Rightarrow> ObjectReference option \<Rightarrow>
   string \<Rightarrow> string list option \<Rightarrow> 's \<Rightarrow> (SessionToken \<times> cookie list) go \<times> 's"
where
  "doAuthenticateWithAssertion E Oi C occ ps md ref assertion scopes s =
     go_seq (reject_if (ref = None) Unauthenticated, s) (\<lambda>_ s.
     go_seq (map_err errUnauthenticatedErr (CheckObjectRef (ae_V E) ref (Some no_get_opts)), s) (\<lambda>_ s.
     go_seq (reject_if (assertion = []) Unauthenticated, s) (\<lambda>_ s.
     go_seq (reject_if (\<not> IsASCII (ae_V E) assertion) Unauthenticated, s) (\<lambda>_ s.
     go_seq (reject_if (5000 < length assertion) InvalidArg, s) (\<lambda>_ s.
     go_seq (map_err errUnauthenticatedErr (VerifyScopes (ae_V E) scopes), s) (\<lambda>_ s.
     go_seq (deref ref, s) (\<lambda>r s.
     go_seq (map_err errUnauthenticatedErr (getAssertionProviderFromName ps (or_Name r)), s) (\<lambda>p s.
     go_seq (reject_if (is_IsDisabled (idp_Spec p)) Unauthenticated, s) (\<lambda>_ s.
     go_seq (reject_if (it_IsLocked (idp_Status p)) Unauthenticated, s) (\<lambda>_ s.
     go_seq (on_err errUnauthenticatedErr (AuthenticateAssertion E Oi C occ p ref assertion s)) (\<lambda>(usr, info) s.
     go_seq (reject_if (us_Type (ur_Spec usr) \<noteq> WORKLOAD) PermissionDenied, s) (\<lambda>_ s.
     go_seq (reject_if (us_IsDisabled (ur_Spec usr)) PermissionDenied, s) (\<lambda>_ s.
     go_seq (map_err errPermissionDeniedErr (doPostAuthenticationRules E p usr info), s) (\<lambda>_ s.
     go_seq (get_cluster C s) (\<lambda>cc s.
     go_seq (map_err errInvalidArgErr (GetScopes (ae_V E) scopes), s) (\<lambda>scs s.
     go_seq (auth_checkMaxSessionsPerUser C usr cc s) (\<lambda>_ s.
     go_seq (on_err errInternalErr
       (CreateSession (ae_N E) (hc_Session C) (hc_ClusterConfig C)
         (auth_session_opts usr cc (mustGetSessionTypeFromUserAgent md) scs (Some info)
           (GetHeaderValueMust md ''user-agent'') (GetHeaderValueMust md ''X-Forwarded-For'')) s)) (\<lambda>sess s.
     (generateSessionTokenResponse E sess, s)))))))))))))))))))"

section \<open>Refresh tokens\<close>

definition setCurrAuthenticationGRPC ::
  "auth_env \<Rightarrow> grpc_md \<Rightarrow> Session \<Rightarrow> ClusterConfig \<Rightarrow> Authentication_Info option \<Rightarrow> Session go" where
  "setCurrAuthenticationGRPC E md sess cc authInfo =
     SetCurrAuthentication (ae_N E) sess authInfo (GetHeaderValueMust md ''User-Agent'') cc
       (GetHeaderValueMust md ''X-Forwarded-For'')"

definition refresh_info :: Authentication_Info where
  "refresh_info = \<lparr>ai_Type = REFRESH_TOKEN, ai_Details = Details_Unset, ai_Aal = 0, ai_Downstream = None\<rparr>"

definition doAuthenticateWithRefreshToken ::
  "auth_env \<Rightarrow> 's auth_clients \<Rightarrow> grpc_md \<Rightarrow> 's \<Rightarrow> (SessionToken \<times> cookie list) go \<times> 's" where
  "doAuthenticateWithRefreshToken E C md s =
     go_seq (getSessionFromGRPCCtx E C md s) (\<lambda>sess s.
     go_seq (reject_if (st_IsBrowser (se_Status sess)) PermissionDenied, s) (\<lambda>_ s.
     go_seq (needsReAuth (ae_now E) sess, s) (\<lambda>needed s.
     go_seq (reject_if (\<not> needed) AlreadyExists, s) (\<lambda>_ s.
     go_seq (reject_if (st_RequiredAuthenticatorRef (se_Status sess) \<noteq> None) PermissionDenied, s) (\<lambda>_ s.
     go_seq (getUserFromSession C sess s) (\<lambda>_ s.
     go_seq (get_cluster C s) (\<lambda>cc s.
     go_seq (setCurrAuthenticationGRPC E md sess cc (Some refresh_info), s) (\<lambda>sess s.
     go_seq (on_err errInternalErr (cl_Update (hc_Session C) sess s)) (\<lambda>_ s.
     (generateSessionTokenResponse E sess, s))))))))))"

section \<open>Logging out\<close>

definition logout_cookie :: "auth_env \<Rightarrow> string \<Rightarrow> bool \<Rightarrow> same_site \<Rightarrow> cookie" where
  "logout_cookie E name h site =
     \<lparr>ck_Name = name, ck_Value = [], ck_Domain = ae_domain E, ck_HttpOnly = h, ck_SameSite = site, ck_Expires = None\<rparr>"

definition getLogoutCookies :: "auth_env \<Rightarrow> cookie list" where
  "getLogoutCookies E =
     [logout_cookie E ''octelium_auth'' False LaxMode, logout_cookie E ''octelium_rt'' False LaxMode,
      logout_cookie E ''octelium_login_state'' True NoneMode]"

text \<open>The cookies that a browser would be told to drop are put together but not sent.\<close>

definition doLogout :: "auth_env \<Rightarrow> 's auth_clients \<Rightarrow> grpc_md \<Rightarrow> 's \<Rightarrow> unit go \<times> 's" where
  "doLogout E C md s =
     go_seq (getSessionFromGRPCCtx E C md s) (\<lambda>sess s.
     case cl_Delete (hc_Session C) \<lparr>do_Uid = md_Uid (se_Metadata sess), do_Name = []\<rparr> s of
       (Ok x, s) \<Rightarrow> (Ok (), s)
     | (Fail e, s) \<Rightarrow> (if IsNotFound e then Ok () else Fail (InternalWithErr e), s)
     | (Panic, s) \<Rightarrow> (Panic, s))"

definition IsCanceled :: "error \<Rightarrow> bool" where
  "IsCanceled e \<longleftrightarrow> status_code e = Canceled"

text \<open>The status of the answer and its cookies.\<close>

definition handleLogout :: "auth_env \<Rightarrow> 's auth_clients \<Rightarrow> grpc_md \<Rightarrow> 's \<Rightarrow> (nat \<times> cookie list) go \<times> 's" where
  "handleLogout E C hdr s =
     (case getWebSessionFromHTTPRefreshCookie E C hdr s of
        (Panic, s) \<Rightarrow> (Panic, s)
      | (Fail e, s) \<Rightarrow> (Ok (401, []), s)
      | (Ok sess, s) \<Rightarrow>
          (case cl_Delete (hc_Session C) \<lparr>do_Uid = md_Uid (se_Metadata sess), do_Name = []\<rparr> s of
             (Ok x, s) \<Rightarrow> (Ok (200, getLogoutCookies E), s)
           | (Fail e, s) \<Rightarrow>
               (if IsNotFound e then Ok (200, getLogoutCookies E) else if IsCanceled e then Ok (400, []) else Ok (500, []), s)
           | (Panic, s) \<Rightarrow> (Panic, s)))"

section \<open>Client credentials of OAuth 2\<close>

datatype oauth_answer = OAuth_Token string int | OAuth_Error string nat

definition checkAndGetOAuthScopeStr :: "validators \<Rightarrow> string \<Rightarrow> Scope list go" where
  "checkAndGetOAuthScopeStr V arg =
     (if length arg = 0 then Ok []
      else if 2048 < length arg then Fail (Errorf ''Too long scopes'')
      else if \<not> IsASCII V arg then Fail (Errorf ''Invalid scope argument'')
      else GetScopes V (Some (Split arg CHR '' '')))"

text \<open>A step of the handler: an error becomes an answer.\<close>

definition oauth_step ::
  "(error \<Rightarrow> oauth_answer) \<Rightarrow> 'a go \<times> 's \<Rightarrow> ('a \<Rightarrow> 's \<Rightarrow> oauth_answer go \<times> 's) \<Rightarrow> oauth_answer go \<times> 's" where
  "oauth_step err r f =
     (case r of (Ok x, s) \<Rightarrow> f x s | (Fail e, s) \<Rightarrow> (Ok (err e), s) | (Panic, s) \<Rightarrow> (Panic, s))"

abbreviation server_error :: "error \<Rightarrow> oauth_answer" where
  "server_error \<equiv> \<lambda>e. OAuth_Error ''server_error'' 500"

definition oauth_session ::
  "auth_env \<Rightarrow> 's auth_clients \<Rightarrow> grpc_md \<Rightarrow> Credential \<Rightarrow> User \<Rightarrow> ClusterConfig \<Rightarrow> Scope list \<Rightarrow> Session list \<Rightarrow>
   (Session \<Rightarrow> 's \<Rightarrow> oauth_answer go \<times> 's) \<Rightarrow> 's \<Rightarrow> oauth_answer go \<times> 's"
where
  "oauth_session E C hdr tkn usr cc scopes sessList f s =
     (case sessList of
        sess # _ \<Rightarrow>
          go_seq (SetCurrAuthentication (ae_N E) sess (Some (credential_info tkn)) (GetHeaderValueMust hdr ''User-Agent'') cc
            (GetHeaderValueMust hdr ''X-Forwarded-For''), s) (\<lambda>sess s.
          oauth_step server_error (cl_Update (hc_Session C) sess s) f)
      | [] \<Rightarrow>
          oauth_step (\<lambda>e. OAuth_Error ''invalid_request'' 400) (auth_checkMaxSessionsPerUser C usr cc s) (\<lambda>_ s.
          oauth_step server_error
            (CreateSession (ae_N E) (hc_Session C) (hc_ClusterConfig C)
              (credential_session_opts tkn usr cc CLIENTLESS scopes
                (GetHeaderValueMust hdr ''User-Agent'') (GetHeaderValueMust hdr ''X-Forwarded-For'')) s) f))"

definition handleOAuth2TokenClientCredentials ::
  "auth_env \<Rightarrow> 's auth_clients \<Rightarrow> grpc_md \<Rightarrow> string \<Rightarrow> string \<Rightarrow> string \<Rightarrow> 's \<Rightarrow> oauth_answer go \<times> 's" where
  "handleOAuth2TokenClientCredentials E C hdr clientID clientSecret scopeStr s =
     (let invalid_client = OAuth_Error ''invalid_client''; invalid_request = OAuth_Error ''invalid_request'' 400 in
      oauth_step (\<lambda>e. invalid_client 401) (getCredentialFromToken E C clientSecret s) (\<lambda>tkn s.
      if crs_Type (cr_Spec tkn) \<noteq> OAUTH2 then (Ok (invalid_client 401), s)
      else if crt_Id (cr_Status tkn) \<noteq> clientID then (Ok (invalid_client 401), s)
      else
        oauth_step (\<lambda>e. OAuth_Error ''invalid_scope'' 401) (checkAndGetOAuthScopeStr (ae_V E) scopeStr, s) (\<lambda>scopes s.
        go_seq (deref (crt_UserRef (cr_Status tkn)), s) (\<lambda>r s.
        oauth_step (\<lambda>e. if IsNotFound e then invalid_client 400 else OAuth_Error ''server_error'' 500)
          (cl_Get (hc_User C) (by_uid (or_Uid r)) s) (\<lambda>usr s.
        if us_Type (ur_Spec usr) \<noteq> WORKLOAD then (Ok invalid_request, s)
        else if us_IsDisabled (ur_Spec usr) then (Ok invalid_request, s)
        else
          oauth_step server_error (get_cluster C s) (\<lambda>cc s.
          oauth_step server_error
            (cl_List (hc_Session C)
              (no_list_options\<lparr>lo_Filters :=
                [FilterFieldEQValStr ''status.credentialRef.uid'' (md_Uid (cr_Metadata tkn))]\<rparr>) s) (\<lambda>sessList s.
          oauth_session E C hdr tkn usr cc scopes sessList (\<lambda>sess s.
          oauth_step server_error (updateAndAutoDeleteCredential C tkn s) (\<lambda>_ s.
          oauth_step server_error (generateAccessToken E (Some sess), s) (\<lambda>accessToken s.
          go_seq (deref (st_Authentication (se_Status sess)), s) (\<lambda>a s.
          (Ok (OAuth_Token accessToken (ToSeconds (au_AccessTokenDuration a))), s))))) s)))))))"

definition handleOAuth2Token ::
  "auth_env \<Rightarrow> 's auth_clients \<Rightarrow> grpc_md \<Rightarrow> (string \<Rightarrow> string) \<Rightarrow> 's \<Rightarrow> oauth_answer go \<times> 's" where
  "handleOAuth2Token E C hdr form s =
     (if form ''grant_type'' = ''client_credentials''
      then handleOAuth2TokenClientCredentials E C hdr (form ''client_id'') (form ''client_secret'') (form ''scope'') s
      else (Ok (OAuth_Error ''unsupported_grant_type'' 400), s))"

end
