(* ===== verification/AuthFactors.thy ===== *)
theory AuthFactors imports AuthSessions begin

text \<open>
  \<open>cluster/authserver/authserver\<close>: authenticators, how they are registered and how a session is authenticated with one
  (\<open>authenticatorauth.go\<close>, \<open>sessiontoken.go\<close>, \<open>authenticators/common.go\<close>, \<open>authenticators/totp\<close>). The factors for FIDO and for TPM, AES, the
  generator and the validator of one-time codes, the format of stored challenges and the counter of the
  rate limits are parameters.
\<close>

section \<open>Challenges and answers\<close>

datatype challenge_request =
    Challenge_Unset
  | Challenge_Fido string
  | Challenge_Totp string
  | Challenge_Tpm json

datatype ChallengeResponse =
    Response_Unset
  | Response_Totp string
  | Response_Fido string
  | Response_Tpm string

datatype ek_type = EK_Unset | EK_CertificateDER string | EK_PublicKey string

record AttestationParameters =
  ap_Public :: string
  ap_CreateData :: string
  ap_CreateAttestation :: string
  ap_CreateSignature :: string

record PreChallenge_TPM =
  tp_AkBytes :: string
  tp_Ek :: ek_type
  tp_AttestationParameters :: "AttestationParameters option"

datatype PreChallenge_Type = PreChallenge_Type_Unset | PreChallenge_Tpm PreChallenge_TPM

text \<open>
  A factor works on the authenticator that it is made for. The answer to an authentication may come with
  what a FIDO key says of the user: present, and verified.
\<close>

record 's factor =
  fa_Begin :: "Authenticator \<Rightarrow> User \<Rightarrow> 's \<Rightarrow> (challenge_request \<times> Authenticator) go \<times> 's"
  fa_Finish :: "Authenticator \<Rightarrow> User \<Rightarrow> ChallengeResponse \<Rightarrow> challenge_request \<Rightarrow> 's \<Rightarrow> (bool \<times> bool) option go \<times> 's"
  fa_BeginRegistration ::
    "Authenticator \<Rightarrow> User \<Rightarrow> PreChallenge_Type option \<Rightarrow> 's \<Rightarrow> (challenge_request \<times> Authenticator) go \<times> 's"
  fa_FinishRegistration ::
    "Authenticator \<Rightarrow> User \<Rightarrow> ChallengeResponse \<Rightarrow> challenge_request \<Rightarrow> 's \<Rightarrow> unit go \<times> Authenticator \<times> 's"

record crypt_env =
  cy_Seal :: "string \<Rightarrow> string \<Rightarrow> string \<Rightarrow> string go"
  cy_Open :: "string \<Rightarrow> string \<Rightarrow> string \<Rightarrow> string go"
  cy_pick :: "nat \<Rightarrow> nat"
  cy_nonce :: "string go"

record totp_env =
  to_Generate :: "string \<Rightarrow> string \<Rightarrow> (string \<times> string) go"
  to_Validate :: "string \<Rightarrow> string \<Rightarrow> bool"

record 's factor_env =
  fe_Crypt :: crypt_env
  fe_Totp :: totp_env
  fe_Fido :: "'s factor"
  fe_Tpm :: "'s factor"
  fe_CheckSlidingWindow :: "string \<Rightarrow> Duration \<Rightarrow> int \<Rightarrow> 's \<Rightarrow> bool go \<times> 's"
  fe_Marshal :: "challenge_request \<Rightarrow> string go"
  fe_Unmarshal :: "string \<Rightarrow> challenge_request go"

text \<open>The error of a factor that means a wrong answer; no other error has this text.\<close>

definition ErrInvalidAuth :: error where
  "ErrInvalidAuth = Errorf ''Authentication error''"

definition IsErrInvalidAuth :: "error \<Rightarrow> bool" where
  "IsErrInvalidAuth e \<longleftrightarrow> e = ErrInvalidAuth"

section \<open>Encryption at rest\<close>

definition aes_secrets :: ListOptions where
  "aes_secrets = no_list_options\<lparr>lo_SystemLabels := [(''aes256-key'', ''true'')]\<rparr>"

definition secret_ref :: "Secret \<Rightarrow> ObjectReference option" where
  "secret_ref x = GetObjectReference (sec_ApiVersion x) (sec_Kind x) (Some (sec_Metadata x))"

text \<open>One of the keys is drawn, and a nonce.\<close>

definition EncryptData ::
  "crypt_env \<Rightarrow> ('s, Secret) client \<Rightarrow> string \<Rightarrow> 's \<Rightarrow> Authenticator_EncryptedData go \<times> 's" where
  "EncryptData Y C plaintext s =
     go_seq (cl_List C aes_secrets s) (\<lambda>secretList s.
     go_seq (reject_if (length secretList = 0) (Errorf ''No AEAD Secrets found''), s) (\<lambda>_ s.
     go_seq (nth_go secretList (cy_pick Y (length secretList)), s) (\<lambda>secretKey s.
     go_seq (cy_nonce Y, s) (\<lambda>nonce s.
     go_seq (cy_Seal Y (GetValueStr secretKey) nonce plaintext, s) (\<lambda>ciphertext s.
     (Ok \<lparr>ed_Ciphertext = ciphertext, ed_Nonce = nonce, ed_KeySecretRef = secret_ref secretKey\<rparr>, s))))))"

definition DecryptData ::
  "crypt_env \<Rightarrow> ('s, Secret) client \<Rightarrow> Authenticator_EncryptedData option \<Rightarrow> 's \<Rightarrow> string go \<times> 's" where
  "DecryptData Y C req s =
     go_seq (deref req, s) (\<lambda>r s.
     go_seq (deref (ed_KeySecretRef r), s) (\<lambda>k s.
     go_seq (cl_Get C (by_uid (or_Uid k)) s) (\<lambda>keySecret s.
     (cy_Open Y (GetValueStr keySecret) (ed_Nonce r) (ed_Ciphertext r), s))))"

section \<open>One-time codes\<close>

text \<open>The name of an account: the display name of the authenticator's metadata, the address of the user, or the name.\<close>

definition GetDisplayName :: "Authenticator \<Rightarrow> User \<Rightarrow> string" where
  "GetDisplayName authn usr =
     (if md_DisplayName (atr_Metadata authn) \<noteq> []
      then (if us_Email (ur_Spec usr) \<noteq> [] then us_Email (ur_Spec usr) @ '' ('' @ md_DisplayName (atr_Metadata authn) @ '')''
            else md_DisplayName (atr_Metadata authn))
      else if us_Info (ur_Spec usr) \<noteq> None \<and> us_Email (ur_Spec usr) \<noteq> [] then us_Email (ur_Spec usr)
      else md_Name (atr_Metadata authn))"

definition totp_secret :: "Authenticator \<Rightarrow> Authenticator_EncryptedData option option" where
  "totp_secret authn =
     (case ats_Info (atr_Status authn) of Some (Info_Totp x) \<Rightarrow> Some x | _ \<Rightarrow> None)"

definition totp_Begin :: "Authenticator \<Rightarrow> User \<Rightarrow> 's \<Rightarrow> (challenge_request \<times> Authenticator) go \<times> 's" where
  "totp_Begin authn usr s = (Ok (Challenge_Totp [], authn), s)"

definition totp_Finish ::
  "'s factor_env \<Rightarrow> ('s, Secret) client \<Rightarrow> Authenticator \<Rightarrow> User \<Rightarrow> ChallengeResponse \<Rightarrow> challenge_request \<Rightarrow> 's \<Rightarrow>
   (bool \<times> bool) option go \<times> 's"
where
  "totp_Finish F C authn usr resp req s =
     (case (resp, totp_secret authn) of
        (Response_Totp code, Some sharedSecret) \<Rightarrow>
          go_seq (DecryptData (fe_Crypt F) C sharedSecret s) (\<lambda>secretBytes s.
          go_seq (reject_if (\<not> to_Validate (fe_Totp F) code secretBytes) ErrInvalidAuth, s) (\<lambda>_ s. (Ok None, s)))
      | _ \<Rightarrow> (Fail ErrInvalidAuth, s))"

definition totp_BeginRegistration ::
  "'s factor_env \<Rightarrow> ('s, Secret) client \<Rightarrow> ClusterConfig \<Rightarrow> Authenticator \<Rightarrow> User \<Rightarrow> PreChallenge_Type option \<Rightarrow> 's \<Rightarrow>
   (challenge_request \<times> Authenticator) go \<times> 's"
where
  "totp_BeginRegistration F C cc authn usr pre s =
     go_seq (to_Generate (fe_Totp F) (''Octelium - '' @ cc_Domain cc) (GetDisplayName authn usr), s) (\<lambda>(secret, url) s.
     go_seq (EncryptData (fe_Crypt F) C secret s) (\<lambda>sharedSecret s.
     (Ok (Challenge_Totp url,
          authn\<lparr>atr_Status := (atr_Status authn)\<lparr>ats_Info := Some (Info_Totp (Some sharedSecret))\<rparr>\<rparr>), s)))"

definition totp_FinishRegistration ::
  "'s factor_env \<Rightarrow> ('s, Secret) client \<Rightarrow> Authenticator \<Rightarrow> User \<Rightarrow> ChallengeResponse \<Rightarrow> challenge_request \<Rightarrow> 's \<Rightarrow>
   unit go \<times> Authenticator \<times> 's"
where
  "totp_FinishRegistration F C authn usr resp req s =
     (case totp_Finish F C authn usr resp (Challenge_Totp []) s of
        (Ok x, s) \<Rightarrow> (Ok (), authn, s)
      | (Fail e, s) \<Rightarrow> (Fail e, authn, s)
      | (Panic, s) \<Rightarrow> (Panic, authn, s))"

definition totp_factor :: "'s factor_env \<Rightarrow> ('s, Secret) client \<Rightarrow> ClusterConfig \<Rightarrow> 's factor" where
  "totp_factor F C cc =
     \<lparr>fa_Begin = totp_Begin, fa_Finish = totp_Finish F C, fa_BeginRegistration = totp_BeginRegistration F C cc,
      fa_FinishRegistration = totp_FinishRegistration F C\<rparr>"

definition getAuthenticatorCtl ::
  "'s factor_env \<Rightarrow> ('s, Secret) client \<Rightarrow> ClusterConfig \<Rightarrow> Authenticator \<Rightarrow> 's factor go" where
  "getAuthenticatorCtl F C cc authn =
     (case ats_Type (atr_Status authn) of
        FIDO \<Rightarrow> Ok (fe_Fido F)
      | TOTP \<Rightarrow> Ok (totp_factor F C cc)
      | TPM \<Rightarrow> Ok (fe_Tpm F)
      | _ \<Rightarrow> Fail InvalidArg)"

section \<open>Attempts\<close>

definition strip_attempt :: "AuthenticationAttempt \<Rightarrow> AuthenticationAttempt" where
  "strip_attempt a = a\<lparr>tt_DataMap := [], tt_EncryptedChallengeRequest := None, tt_EncryptedDataMap := []\<rparr>"

text \<open>The attempt that is going on ends up in front of the last ones, and the secrets of all of them go.\<close>

definition prependToLastAttempts :: "Authenticator \<Rightarrow> Authenticator" where
  "prependToLastAttempts a =
     (case ats_AuthenticationAttempt (atr_Status a) of
        None \<Rightarrow> a
      | Some x \<Rightarrow>
          (let old = ats_LastAuthenticationAttempts (atr_Status a);
               kept = (if 10 \<le> length old then take 8 old else old) in
           a\<lparr>atr_Status := (atr_Status a)\<lparr>ats_LastAuthenticationAttempts := map strip_attempt (x # kept),
             ats_AuthenticationAttempt := None\<rparr>\<rparr>))"

definition isAuthenticationAttemptTimeoutExceeded :: "int \<Rightarrow> AuthenticationAttempt \<Rightarrow> bool" where
  "isAuthenticationAttemptTimeoutExceeded now a \<longleftrightarrow> AsTime (tt_CreatedAt a) < now - 1200000000000"

definition session_ref :: "Session \<Rightarrow> ObjectReference option" where
  "session_ref x = GetObjectReference (se_ApiVersion x) (se_Kind x) (Some (se_Metadata x))"

definition authenticator_ref :: "Authenticator \<Rightarrow> ObjectReference option" where
  "authenticator_ref x = GetObjectReference (atr_ApiVersion x) (atr_Kind x) (Some (atr_Metadata x))"

definition new_attempt :: "int \<Rightarrow> Session \<Rightarrow> AuthenticationAttempt" where
  "new_attempt now sess =
     \<lparr>tt_CreatedAt = Some now, tt_EncryptedChallengeRequest = None, tt_EncryptedDataMap = [], tt_DataMap = [],
      tt_SessionRef = session_ref sess\<rparr>"

definition with_attempt :: "AuthenticationAttempt option \<Rightarrow> Authenticator \<Rightarrow> Authenticator" where
  "with_attempt t a = a\<lparr>atr_Status := (atr_Status a)\<lparr>ats_AuthenticationAttempt := t\<rparr>\<rparr>"

definition rate_limits :: "string \<Rightarrow> (string \<times> Duration \<times> int) list" where
  "rate_limits uid =
     [(''octelium:authn:1:'' @ uid, Minutes 3, 20), (''octelium:authn:2:'' @ uid, Minutes 60, 100)]"

fun check_rate_limits :: "'s factor_env \<Rightarrow> (string \<times> Duration \<times> int) list \<Rightarrow> 's \<Rightarrow> unit go \<times> 's" where
  "check_rate_limits F [] s = (Ok (), s)"
| "check_rate_limits F ((key, window, limit) # rls) s =
     go_seq (on_err errInternalErr (fe_CheckSlidingWindow F key window limit s)) (\<lambda>allowed s.
     go_seq (reject_if (\<not> allowed) InvalidArg, s) (\<lambda>_ s. check_rate_limits F rls s))"

definition checkAuthenticatorRateLimit :: "'s factor_env \<Rightarrow> Authenticator \<Rightarrow> 's \<Rightarrow> unit go \<times> 's" where
  "checkAuthenticatorRateLimit F authn s = check_rate_limits F (rate_limits (md_Uid (atr_Metadata authn))) s"

section \<open>The authenticator of a session\<close>

definition getAuthenticator ::
  "auth_env \<Rightarrow> 's auth_clients \<Rightarrow> ObjectReference option \<Rightarrow> Session \<Rightarrow> 's \<Rightarrow> Authenticator go \<times> 's" where
  "getAuthenticator E C ref sess s =
     go_seq (map_err errInvalidArgErr (CheckObjectRef (ae_V E) ref (Some no_get_opts)), s) (\<lambda>_ s.
     go_seq (deref ref, s) (\<lambda>r s.
     go_seq (on_err (found_or NotFound) (cl_Get (hc_Authenticator C) \<lparr>go_Uid = or_Uid r, go_Name = or_Name r\<rparr> s)) (\<lambda>authn s.
     case ats_UserRef (atr_Status authn) of
       None \<Rightarrow> (Fail Internal, s)
     | Some u \<Rightarrow>
         go_seq (deref (st_UserRef (se_Status sess)), s) (\<lambda>own s.
         go_seq (reject_if (or_Uid u \<noteq> or_Uid own) PermissionDenied, s) (\<lambda>_ s. (Ok authn, s))))))"

text \<open>The authenticators that a session may use, the main one first; one that the session requires is the only one.\<close>

definition owned_registered :: "User \<Rightarrow> ListOptions" where
  "owned_registered usr =
     no_list_options\<lparr>lo_Filters := [FilterStatusUserUID (md_Uid (ur_Metadata usr)), FilterFieldBooleanTrue ''status.isRegistered'']\<rparr>"

definition initial_authenticator :: "Session \<Rightarrow> Info_Authenticator option" where
  "initial_authenticator sess =
     (case st_InitialAuthentication (se_Status sess) of
        None \<Rightarrow> None
      | Some a \<Rightarrow>
          (case au_Info a of
             None \<Rightarrow> None
           | Some i \<Rightarrow> (case ai_Details i of Details_Authenticator x \<Rightarrow> Some x | _ \<Rightarrow> None)))"

definition same_device :: "ObjectReference option \<Rightarrow> ObjectReference option \<Rightarrow> bool" where
  "same_device a b = (case (a, b) of (Some x, Some y) \<Rightarrow> or_Uid x = or_Uid y | _ \<Rightarrow> False)"

text \<open>What the loop over the authenticators makes of one: it is left out, it may be used, or it is the one of the device.\<close>

datatype usable = Unusable | Usable | Of_device

definition usable_by :: "Session \<Rightarrow> Authenticator \<Rightarrow> usable" where
  "usable_by sess itm =
     (if \<not> ats_IsRegistered (atr_Status itm) then Unusable
      else
        (case st_Type (se_Status sess) of
           CLIENT \<Rightarrow>
             if ats_Type (atr_Status itm) \<notin> {TPM, TOTP} then Unusable
             else if same_device (ats_DeviceRef (atr_Status itm)) (st_DeviceRef (se_Status sess)) then Of_device
             else Usable
         | CLIENTLESS \<Rightarrow>
             if \<not> st_IsBrowser (se_Status sess) then Unusable
             else if ats_Type (atr_Status itm) \<notin> {FIDO, TOTP} then Unusable
             else Usable
         | _ \<Rightarrow> Usable))"

fun available_loop :: "Session \<Rightarrow> Authenticator list \<Rightarrow> Authenticator list \<Rightarrow> Authenticator option \<times> Authenticator list" where
  "available_loop sess acc [] = (None, acc)"
| "available_loop sess acc (itm # itms) =
     (case usable_by sess itm of
        Unusable \<Rightarrow> available_loop sess acc itms
      | Usable \<Rightarrow> available_loop sess (acc @ [itm]) itms
      | Of_device \<Rightarrow> (Some itm, [itm]))"

definition getAvailableAuthenticators ::
  "'s auth_clients \<Rightarrow> Session \<Rightarrow> User \<Rightarrow> 's \<Rightarrow> (Authenticator option \<times> Authenticator list) go \<times> 's" where
  "getAvailableAuthenticators C sess usr s =
     (case st_RequiredAuthenticatorRef (se_Status sess) of
        Some r \<Rightarrow> go_seq (cl_Get (hc_Authenticator C) (by_uid (or_Uid r)) s) (\<lambda>authn s. (Ok (Some authn, [authn]), s))
      | None \<Rightarrow>
          (case initial_authenticator sess of
             Some i \<Rightarrow>
               if ia_Type i = FIDO
               then
                 go_seq (deref (ia_AuthenticatorRef i), s) (\<lambda>r s.
                 go_seq (cl_Get (hc_Authenticator C) (by_uid (or_Uid r)) s) (\<lambda>authn s. (Ok (Some authn, [authn]), s)))
               else
                 go_seq (on_err errInternalErr (cl_List (hc_Authenticator C) (owned_registered usr) s)) (\<lambda>itms s.
                 (Ok (available_loop sess [] itms), s))
           | None \<Rightarrow>
               go_seq (on_err errInternalErr (cl_List (hc_Authenticator C) (owned_registered usr) s)) (\<lambda>itms s.
               (Ok (available_loop sess [] itms), s))))"

section \<open>Beginning an authentication\<close>

definition session_may_use :: "Session \<Rightarrow> Authenticator \<Rightarrow> bool" where
  "session_may_use sess authn =
     (case st_Type (se_Status sess) of
        CLIENT \<Rightarrow> ats_Type (atr_Status authn) \<in> {TPM, TOTP}
      | CLIENTLESS \<Rightarrow> st_IsBrowser (se_Status sess) \<and> ats_Type (atr_Status authn) \<in> {FIDO, TOTP}
      | _ \<Rightarrow> True)"

definition check_available ::
  "'s auth_clients \<Rightarrow> Session \<Rightarrow> User \<Rightarrow> Authenticator \<Rightarrow> 's \<Rightarrow> unit go \<times> 's" where
  "check_available C sess usr authn s =
     (case st_RequiredAuthenticatorRef (se_Status sess) of
        Some r \<Rightarrow> (reject_if (or_Uid r \<noteq> md_Uid (atr_Metadata authn)) PermissionDenied, s)
      | None \<Rightarrow>
          go_seq (getAvailableAuthenticators C sess usr s) (\<lambda>(m, available) s.
          (reject_if (md_Uid (atr_Metadata authn) \<notin> md_Uid ` atr_Metadata ` set available) PermissionDenied, s)))"

text \<open>The challenge is stored encrypted with the attempt.\<close>

definition store_challenge ::
  "auth_env \<Rightarrow> 's factor_env \<Rightarrow> 's auth_clients \<Rightarrow> challenge_request \<Rightarrow> Authenticator \<Rightarrow> 's \<Rightarrow> challenge_request go \<times> 's"
where
  "store_challenge E F C ch authn s =
     go_seq (map_err errInternalErr (fe_Marshal F ch), s) (\<lambda>b s.
     go_seq (on_err errInternalErr (EncryptData (fe_Crypt F) (hc_Secret C) b s)) (\<lambda>enc s.
     let authn = with_attempt
       (map_option (\<lambda>t. t\<lparr>tt_EncryptedChallengeRequest := Some enc\<rparr>) (ats_AuthenticationAttempt (atr_Status authn))) authn in
     go_seq (on_err errInternalErr (cl_Update (hc_Authenticator C) authn s)) (\<lambda>_ s. (Ok ch, s))))"

definition doAuthenticateAuthenticatorBegin ::
  "auth_env \<Rightarrow> 's factor_env \<Rightarrow> 's auth_clients \<Rightarrow> grpc_md \<Rightarrow> ObjectReference option \<Rightarrow> 's \<Rightarrow> challenge_request go \<times> 's"
where
  "doAuthenticateAuthenticatorBegin E F C md ref s =
     go_seq (getSessionFromGRPCCtx E C md s) (\<lambda>sess s.
     go_seq (getUserFromSession C sess s) (\<lambda>usr s.
     go_seq (get_cluster C s) (\<lambda>cc s.
     go_seq (getAuthenticator E C ref sess s) (\<lambda>authn s.
     go_seq (reject_if (\<not> ats_IsRegistered (atr_Status authn)) InvalidArg, s) (\<lambda>_ s.
     go_seq (check_available C sess usr authn s) (\<lambda>_ s.
     go_seq (checkAuthenticatorRateLimit F authn s) (\<lambda>_ s.
     go_seq (reject_if
       (case (st_DeviceRef (se_Status sess), ats_DeviceRef (atr_Status authn)) of
          (Some a, Some b) \<Rightarrow> or_Uid a \<noteq> or_Uid b
        | _ \<Rightarrow> False) PermissionDenied, s) (\<lambda>_ s.
     go_seq (reject_if (\<not> session_may_use sess authn) PermissionDenied, s) (\<lambda>_ s.
     let authn = prependToLastAttempts authn in
     go_seq (getAuthenticatorCtl F (hc_Secret C) cc authn, s) (\<lambda>fac s.
     go_seq (on_err errInternalErr (fa_Begin fac (with_attempt (Some (new_attempt (ae_now E) sess)) authn) usr s)) (\<lambda>(ch, authn) s.
     store_challenge E F C ch
       (authn\<lparr>atr_Status := (atr_Status authn)\<lparr>ats_TotalAuthenticationAttempts :=
         ats_TotalAuthenticationAttempts (atr_Status authn) + 1\<rparr>\<rparr>) s)))))))))))"

end
