(* ===== verification/AuthAuthenticators.thy ===== *)
theory AuthAuthenticators imports AuthFactors begin

text \<open>
  \<open>cluster/authserver/authserver\<close>: the end of an authentication with an authenticator, the registration of authenticators,
  and the handlers with which a user keeps them (\<open>authenticatorauth.go\<close>, \<open>authenticator.go\<close>, \<open>sessiontoken.go\<close>).
\<close>

section \<open>Rules of the cluster\<close>

definition doPostAuthenticatorAuthenticationRules ::
  "auth_env \<Rightarrow> ClusterConfig \<Rightarrow> Authenticator \<Rightarrow> Session option \<Rightarrow> User \<Rightarrow> Authentication_Info \<Rightarrow> unit go" where
  "doPostAuthenticatorAuthenticationRules E cc authn sess usr authInfo =
     (case ccs_Authenticator (cc_Spec cc) of
        None \<Rightarrow> Ok ()
      | Some a \<Rightarrow>
          if ca_PostAuthenticationRules a = [] then Ok ()
          else
            (case ae_authnMap E authn usr sess authInfo of
               Ok inp \<Rightarrow>
                 first_effect (ap_Cel (ae_A E)) inp (map (\<lambda>r. (ar_Condition r, ar_Effect r)) (ca_PostAuthenticationRules a))
             | _ \<Rightarrow> Panic))"

text \<open>The effect of the first rule that matches; one that cannot be evaluated is skipped.\<close>

fun first_enforcement :: "cel_env \<Rightarrow> input \<Rightarrow> AuthEnforcementRule list \<Rightarrow> AuthEnforcement_Effect go" where
  "first_enforcement E inp [] = Ok AUTH_ENFORCEMENT_UNKNOWN"
| "first_enforcement E inp (r # rs) =
     (case EvalCondition E (ae_Condition r) inp of
        Ok b \<Rightarrow> if b then Ok (ae_Effect r) else first_enforcement E inp rs
      | Fail e \<Rightarrow> first_enforcement E inp rs
      | Panic \<Rightarrow> Panic)"

definition doAuthenticatorEnforcementRule ::
  "auth_env \<Rightarrow> AuthEnforcementRule list \<Rightarrow> IdentityProvider option \<Rightarrow> User \<Rightarrow> Session \<Rightarrow> Authenticator list \<Rightarrow> AuthEnforcement_Effect go"
where
  "doAuthenticatorEnforcementRule E rules idp usr sess authnList =
     (case ae_enforceMap E usr idp sess authnList of
        Ok inp \<Rightarrow> first_enforcement (ap_Cel (ae_A E)) inp rules
      | _ \<Rightarrow> Panic)"

section \<open>Ending an authentication\<close>

definition validateChallengeResponse :: "ChallengeResponse option \<Rightarrow> unit go" where
  "validateChallengeResponse req =
     (case req of
        None \<Rightarrow> Fail InvalidArg
      | Some (Response_Totp r) \<Rightarrow> reject_if (r = [] \<or> 16 < length (trim_with ascii_space r)) InvalidArg
      | Some (Response_Fido r) \<Rightarrow> reject_if (r = [] \<or> 30000 < length r) InvalidArg
      | Some (Response_Tpm r) \<Rightarrow> reject_if (length r < 8 \<or> 256 < length r) InvalidArg
      | Some Response_Unset \<Rightarrow> Fail InvalidArg)"

text \<open>The challenge, the answer and the authenticator must be of one kind.\<close>

definition check_kinds :: "challenge_request \<Rightarrow> ChallengeResponse \<Rightarrow> Authenticator_Type \<Rightarrow> unit go" where
  "check_kinds req resp ty =
     (case req of
        Challenge_Fido c \<Rightarrow> reject_if ((case resp of Response_Fido r \<Rightarrow> False | _ \<Rightarrow> True) \<or> ty \<noteq> FIDO) InvalidArg
      | Challenge_Totp c \<Rightarrow> reject_if ((case resp of Response_Totp r \<Rightarrow> False | _ \<Rightarrow> True) \<or> ty \<noteq> TOTP) InvalidArg
      | Challenge_Tpm c \<Rightarrow> reject_if ((case resp of Response_Tpm r \<Rightarrow> False | _ \<Rightarrow> True) \<or> ty \<noteq> TPM) InvalidArg
      | Challenge_Unset \<Rightarrow> Fail InvalidArg)"

definition getSessionAuthenticatorInfoFIDO :: "bool \<times> bool \<Rightarrow> Authenticator \<Rightarrow> Info_FIDO" where
  "getSessionAuthenticatorInfoFIDO cred authn =
     (case ats_Info (atr_Status authn) of
        Some (Info_Fido fido) \<Rightarrow>
          \<lparr>ff_UserPresent = fst cred, ff_UserVerified = snd cred, ff_IsHardware = af_IsHardware fido,
           ff_IsSoftware = af_IsSoftware fido, ff_IsAttestationVerified = af_IsAttestationVerified fido,
           ff_IsPasskey = af_IsPasskey fido, ff_Aaguid = af_Aaguid fido\<rparr>
      | _ \<Rightarrow>
          \<lparr>ff_UserPresent = fst cred, ff_UserVerified = snd cred, ff_IsHardware = False, ff_IsSoftware = False,
           ff_IsAttestationVerified = False, ff_IsPasskey = False, ff_Aaguid = []\<rparr>)"

definition authenticator_info :: "Authenticator \<Rightarrow> Session \<Rightarrow> (bool \<times> bool) option \<Rightarrow> Authentication_Info" where
  "authenticator_info authn sess cred =
     \<lparr>ai_Type = AUTHENTICATOR,
      ai_Details = Details_Authenticator
        \<lparr>ia_AuthenticatorRef = authenticator_ref authn, ia_Type = ats_Type (atr_Status authn),
         ia_Info = (if ats_Type (atr_Status authn) = FIDO
                    then map_option (\<lambda>c. getSessionAuthenticatorInfoFIDO c authn) cred else None),
         ia_Mode = (if st_AuthenticatorAction (se_Status sess) \<in> {AUTHENTICATION_REQUIRED, AUTHENTICATION_RECOMMENDED}
                    then MFA else DEFAULT)\<rparr>,
      ai_Aal = 0, ai_Downstream = None\<rparr>"

definition succeeded :: "Authenticator \<Rightarrow> Authenticator" where
  "succeeded a = a\<lparr>atr_Status := (atr_Status a)\<lparr>ats_SuccessfulAuthentications := ats_SuccessfulAuthentications (atr_Status a) + 1\<rparr>\<rparr>"

definition failed :: "Authenticator \<Rightarrow> Authenticator" where
  "failed a = a\<lparr>atr_Status := (atr_Status a)\<lparr>ats_FailedAuthentications := ats_FailedAuthentications (atr_Status a) + 1\<rparr>\<rparr>"

definition nullifyCurrAndUpdate :: "'s auth_clients \<Rightarrow> Authenticator \<Rightarrow> 's \<Rightarrow> unit go \<times> 's" where
  "nullifyCurrAndUpdate C authn s =
     go_seq (on_err errInternalErr (cl_Update (hc_Authenticator C) (prependToLastAttempts authn) s)) (\<lambda>_ s. (Ok (), s))"

text \<open>
  The attempt with which an authentication ends: it was begun by the same session, and its challenge is
  there.
\<close>

definition current_attempt :: "Authenticator \<Rightarrow> Session \<Rightarrow> AuthenticationAttempt go" where
  "current_attempt authn sess =
     (case ats_AuthenticationAttempt (atr_Status authn) of
        None \<Rightarrow> Fail PermissionDenied
      | Some a \<Rightarrow>
          (case tt_SessionRef a of
             None \<Rightarrow> Fail PermissionDenied
           | Some r \<Rightarrow>
               if tt_CreatedAt a = None \<or> tt_EncryptedChallengeRequest a = None then Fail PermissionDenied
               else if or_Uid r \<noteq> md_Uid (se_Metadata sess) then Fail PermissionDenied
               else Ok a))"

text \<open>
  What follows when a factor has refused an answer. Storing the failed attempt assigns the variable of the error, in a
  closure: the error of the factor is lost before it is looked at, so that the answer is never that of an invalid
  authentication.
\<close>

definition factor_failed ::
  "'s auth_clients \<Rightarrow> Authenticator \<Rightarrow> error \<Rightarrow> 's \<Rightarrow> 'a go \<times> 's" where
  "factor_failed C authn e s =
     (case nullifyCurrAndUpdate C (failed authn) s of
        (Panic, s) \<Rightarrow> (Panic, s)
      | (r, s) \<Rightarrow> (Fail Internal, s))"

definition doAuthenticateAuthenticator ::
  "auth_env \<Rightarrow> 's factor_env \<Rightarrow> 's auth_clients \<Rightarrow> ClusterConfig \<Rightarrow> ObjectReference option \<Rightarrow> ChallengeResponse option \<Rightarrow>
   User \<Rightarrow> Session \<Rightarrow> 's \<Rightarrow> Authentication_Info go \<times> 's"
where
  "doAuthenticateAuthenticator E F C cc ref resp usr sess s =
     (case resp of
        None \<Rightarrow> (Fail InvalidArg, s)
      | Some cr \<Rightarrow>
          go_seq (getAuthenticator E C ref sess s) (\<lambda>authn s.
          go_seq (reject_if (\<not> ats_IsRegistered (atr_Status authn)) PermissionDenied, s) (\<lambda>_ s.
          go_seq (checkAuthenticatorRateLimit F authn s) (\<lambda>_ s.
          go_seq (current_attempt authn sess, s) (\<lambda>attempt s.
          if isAuthenticationAttemptTimeoutExceeded (ae_now E) attempt
          then go_seq (nullifyCurrAndUpdate C authn s) (\<lambda>_ s. (Fail PermissionDenied, s))
          else
            go_seq (on_err errInternalErr
              (DecryptData (fe_Crypt F) (hc_Secret C) (tt_EncryptedChallengeRequest attempt) s)) (\<lambda>b s.
            go_seq (map_err errInternalErr (fe_Unmarshal F b), s) (\<lambda>challengeReq s.
            go_seq (check_kinds challengeReq cr (ats_Type (atr_Status authn)), s) (\<lambda>_ s.
            go_seq (getAuthenticatorCtl F (hc_Secret C) cc authn, s) (\<lambda>fac s.
            case fa_Finish fac authn usr cr challengeReq s of
              (Panic, s) \<Rightarrow> (Panic, s)
            | (Fail e, s) \<Rightarrow> factor_failed C authn e s
            | (Ok cred, s) \<Rightarrow>
                (let authInfo = authenticator_info (succeeded authn) sess cred in
                 go_seq (map_err errPermissionDeniedErr
                   (doPostAuthenticatorAuthenticationRules E cc (succeeded authn) (Some sess) usr authInfo), s) (\<lambda>_ s.
                 go_seq (nullifyCurrAndUpdate C (succeeded authn) s) (\<lambda>_ s. (Ok authInfo, s)))))))))))))"

text \<open>A session and an authenticator get bound to the device of the other.\<close>

definition bind_device ::
  "'s auth_clients \<Rightarrow> Authenticator \<Rightarrow> Session \<Rightarrow> 's \<Rightarrow> Session go \<times> 's" where
  "bind_device C authn sess s =
     (case (ats_DeviceRef (atr_Status authn), st_DeviceRef (se_Status sess)) of
        (Some d, None) \<Rightarrow> (Ok (sess\<lparr>se_Status := (se_Status sess)\<lparr>st_DeviceRef := Some d\<rparr>\<rparr>), s)
      | (Some d, Some d') \<Rightarrow> (if or_Uid d \<noteq> or_Uid d' then Fail PermissionDenied else Ok sess, s)
      | (None, Some d') \<Rightarrow>
          go_seq (on_err InternalWithErr
            (cl_Update (hc_Authenticator C) (authn\<lparr>atr_Status := (atr_Status authn)\<lparr>ats_DeviceRef := Some d'\<rparr>\<rparr>) s)) (\<lambda>_ s.
          (Ok sess, s))
      | (None, None) \<Rightarrow> (Ok sess, s))"

text \<open>A TPM or a FIDO key becomes the authenticator that the session requires from now on.\<close>

definition authenticated_with :: "Authenticator \<Rightarrow> Session \<Rightarrow> Session" where
  "authenticated_with authn sess =
     sess\<lparr>se_Status := (se_Status sess)\<lparr>st_AuthenticatorAction := AUTHENTICATOR_ACTION_UNSET,
       st_RequiredAuthenticatorRef :=
         (if st_RequiredAuthenticatorRef (se_Status sess) = None \<and> ats_Type (atr_Status authn) \<in> {TPM, FIDO}
          then authenticator_ref authn else st_RequiredAuthenticatorRef (se_Status sess))\<rparr>\<rparr>"

definition info_authenticator_ref :: "Authentication_Info \<Rightarrow> ObjectReference go" where
  "info_authenticator_ref i = (case ai_Details i of Details_Authenticator x \<Rightarrow> deref (ia_AuthenticatorRef x) | _ \<Rightarrow> Panic)"

definition doAuthenticateWithAuthenticator ::
  "auth_env \<Rightarrow> 's factor_env \<Rightarrow> 's auth_clients \<Rightarrow> grpc_md \<Rightarrow> ObjectReference option \<Rightarrow> ChallengeResponse option \<Rightarrow>
   's \<Rightarrow> (SessionToken \<times> cookie list) go \<times> 's"
where
  "doAuthenticateWithAuthenticator E F C md ref resp s =
     go_seq (getSessionFromGRPCCtx E C md s) (\<lambda>sess s.
     go_seq (validateChallengeResponse resp, s) (\<lambda>_ s.
     go_seq (needsReAuth (ae_now E) sess, s) (\<lambda>needed s.
     go_seq (reject_if (\<not> needed) AlreadyExists, s) (\<lambda>_ s.
     go_seq (getUserFromSession C sess s) (\<lambda>usr s.
     go_seq (get_cluster C s) (\<lambda>cc s.
     go_seq (doAuthenticateAuthenticator E F C cc ref resp usr sess s) (\<lambda>authInfo s.
     go_seq (info_authenticator_ref authInfo, s) (\<lambda>r s.
     go_seq (cl_Get (hc_Authenticator C) (by_uid (or_Uid r)) s) (\<lambda>authn s.
     go_seq (bind_device C authn sess s) (\<lambda>sess s.
     go_seq (setCurrAuthenticationGRPC E md sess cc (Some authInfo), s) (\<lambda>sess s.
     let sess = authenticated_with authn sess in
     go_seq (on_err InternalWithErr (cl_Update (hc_Session C) sess s)) (\<lambda>_ s.
     (generateSessionTokenResponse E sess, s)))))))))))))"

end
