(* ===== verification/AuthRegistration.thy ===== *)
theory AuthRegistration imports AuthAuthenticators begin

text \<open>
  \<open>cluster/authserver/authserver\<close>: how a user registers authenticators and keeps them (\<open>authenticatorauth.go\<close>,
  \<open>authenticator.go\<close>).
\<close>

section \<open>Registration\<close>

definition checkBytes :: "string \<Rightarrow> unit go" where
  "checkBytes arg = reject_if (length arg = 0 \<or> 3000 < length arg) InvalidArg"

definition check_ek :: "ek_type \<Rightarrow> unit go" where
  "check_ek ek =
     (case ek of EK_Unset \<Rightarrow> Fail InvalidArg | EK_CertificateDER b \<Rightarrow> checkBytes b | EK_PublicKey b \<Rightarrow> checkBytes b)"

definition validatePreChallenge :: "PreChallenge_Type option \<Rightarrow> unit go" where
  "validatePreChallenge req =
     (case req of
        None \<Rightarrow> Ok ()
      | Some PreChallenge_Type_Unset \<Rightarrow> Ok ()
      | Some (PreChallenge_Tpm arg) \<Rightarrow>
          go_bind (checkBytes (tp_AkBytes arg)) (\<lambda>_.
          go_bind (check_ek (tp_Ek arg)) (\<lambda>_.
          case tp_AttestationParameters arg of
            None \<Rightarrow> Fail InvalidArg
          | Some p \<Rightarrow>
              go_bind (checkBytes (ap_Public p)) (\<lambda>_.
              go_bind (checkBytes (ap_CreateAttestation p)) (\<lambda>_.
              go_bind (checkBytes (ap_CreateData p)) (\<lambda>_.
              checkBytes (ap_CreateSignature p)))))))"

definition cannot_modify :: "Session \<Rightarrow> unit go" where
  "cannot_modify sess = reject_if (st_AuthenticatorAction (se_Status sess) = AUTHENTICATION_REQUIRED) PermissionDenied"

definition doRegisterAuthenticatorBegin ::
  "auth_env \<Rightarrow> 's factor_env \<Rightarrow> 's auth_clients \<Rightarrow> grpc_md \<Rightarrow> ObjectReference option \<Rightarrow> PreChallenge_Type option \<Rightarrow> 's \<Rightarrow>
   challenge_request go \<times> 's"
where
  "doRegisterAuthenticatorBegin E F C md ref pre s =
     go_seq (getSessionFromGRPCCtx E C md s) (\<lambda>sess s.
     go_seq (checkSessionValid (ae_now E) sess, s) (\<lambda>_ s.
     go_seq (cannot_modify sess, s) (\<lambda>_ s.
     go_seq (getUserFromSession C sess s) (\<lambda>usr s.
     go_seq (validatePreChallenge pre, s) (\<lambda>_ s.
     go_seq (get_cluster C s) (\<lambda>cc s.
     go_seq (getAuthenticator E C ref sess s) (\<lambda>authn s.
     go_seq (reject_if (ats_IsRegistered (atr_Status authn)) InvalidArg, s) (\<lambda>_ s.
     let authn = authn\<lparr>atr_Status := (atr_Status authn)\<lparr>ats_AuthenticationAttempt := None,
       ats_LastAuthenticationAttempts := []\<rparr>\<rparr> in
     go_seq (getAuthenticatorCtl F (hc_Secret C) cc authn, s) (\<lambda>fac s.
     go_seq (on_err errInternalErr
       (fa_BeginRegistration fac (with_attempt (Some (new_attempt (ae_now E) sess)) authn) usr pre s)) (\<lambda>(ch, authn) s.
     store_challenge E F C ch authn s))))))))))"

definition drop_attempt :: "'s auth_clients \<Rightarrow> Authenticator \<Rightarrow> 's \<Rightarrow> unit go \<times> 's" where
  "drop_attempt C authn s =
     go_seq (on_err errInternalErr (cl_Update (hc_Authenticator C) (with_attempt None authn) s)) (\<lambda>_ s. (Ok (), s))"

text \<open>The attempt of a registration: it was begun by the same session.\<close>

definition registration_attempt :: "Authenticator \<Rightarrow> Session \<Rightarrow> AuthenticationAttempt go" where
  "registration_attempt authn sess =
     (case ats_AuthenticationAttempt (atr_Status authn) of
        None \<Rightarrow> Fail PermissionDenied
      | Some a \<Rightarrow>
          (case tt_SessionRef a of
             None \<Rightarrow> Fail PermissionDenied
           | Some r \<Rightarrow> if or_Uid r \<noteq> md_Uid (se_Metadata sess) then Fail PermissionDenied else Ok a))"

definition registered :: "Session \<Rightarrow> Authenticator \<Rightarrow> Authenticator" where
  "registered sess a =
     a\<lparr>atr_Status := (atr_Status a)\<lparr>ats_AuthenticationAttempt := None, ats_IsRegistered := True,
       ats_DeviceRef := st_DeviceRef (se_Status sess)\<rparr>\<rparr>"

text \<open>A session that had to register an authenticator no longer has to, before the authenticator itself is stored.\<close>

definition clear_registration :: "'s auth_clients \<Rightarrow> Session \<Rightarrow> 's \<Rightarrow> unit go \<times> 's" where
  "clear_registration C sess s =
     (if st_AuthenticatorAction (se_Status sess) \<in> {REGISTRATION_RECOMMENDED, REGISTRATION_REQUIRED}
      then
        go_seq (on_err errInternalErr (cl_Get (hc_Session C) (by_uid (md_Uid (se_Metadata sess))) s)) (\<lambda>sess s.
        go_seq (on_err errInternalErr
          (cl_Update (hc_Session C)
            (sess\<lparr>se_Status := (se_Status sess)\<lparr>st_AuthenticatorAction := AUTHENTICATOR_ACTION_UNSET\<rparr>\<rparr>) s)) (\<lambda>_ s. (Ok (), s)))
      else (Ok (), s))"

definition registration_failed :: "'s auth_clients \<Rightarrow> Authenticator \<Rightarrow> error \<Rightarrow> 's \<Rightarrow> unit go \<times> 's" where
  "registration_failed C authn e s =
     (case drop_attempt C authn s of
        (Panic, s) \<Rightarrow> (Panic, s)
      | (_, s) \<Rightarrow> (Fail (if IsErrInvalidAuth e then PermissionDenied else Internal), s))"

definition doRegisterAuthenticatorFinish ::
  "auth_env \<Rightarrow> 's factor_env \<Rightarrow> 's auth_clients \<Rightarrow> grpc_md \<Rightarrow> ObjectReference option \<Rightarrow> ChallengeResponse option \<Rightarrow> 's \<Rightarrow>
   unit go \<times> 's"
where
  "doRegisterAuthenticatorFinish E F C md ref resp s =
     (case resp of
        None \<Rightarrow> (Fail InvalidArg, s)
      | Some cr \<Rightarrow>
          go_seq (getSessionFromGRPCCtx E C md s) (\<lambda>sess s.
          go_seq (validateChallengeResponse resp, s) (\<lambda>_ s.
          go_seq (checkSessionValid (ae_now E) sess, s) (\<lambda>_ s.
          go_seq (getUserFromSession C sess s) (\<lambda>usr s.
          go_seq (get_cluster C s) (\<lambda>cc s.
          go_seq (getAuthenticator E C ref sess s) (\<lambda>authn s.
          go_seq (registration_attempt authn sess, s) (\<lambda>attempt s.
          go_seq (reject_if (ats_IsRegistered (atr_Status authn)) InvalidArg, s) (\<lambda>_ s.
          if isAuthenticationAttemptTimeoutExceeded (ae_now E) attempt
          then go_seq (drop_attempt C authn s) (\<lambda>_ s. (Fail PermissionDenied, s))
          else
            go_seq (reject_if (tt_CreatedAt attempt = None \<or> tt_EncryptedChallengeRequest attempt = None) Internal, s) (\<lambda>_ s.
            go_seq (on_err errInternalErr
              (DecryptData (fe_Crypt F) (hc_Secret C) (tt_EncryptedChallengeRequest attempt) s)) (\<lambda>b s.
            go_seq (map_err errInternalErr (fe_Unmarshal F b), s) (\<lambda>challengeReq s.
            go_seq (check_kinds challengeReq cr (ats_Type (atr_Status authn)), s) (\<lambda>_ s.
            go_seq (getAuthenticatorCtl F (hc_Secret C) cc authn, s) (\<lambda>fac s.
            case fa_FinishRegistration fac authn usr cr challengeReq s of
              (Panic, authn, s) \<Rightarrow> (Panic, s)
            | (Fail e, authn, s) \<Rightarrow> registration_failed C authn e s
            | (Ok _, authn, s) \<Rightarrow>
                go_seq (clear_registration C sess s) (\<lambda>_ s.
                go_seq (on_err errInternalErr (cl_Update (hc_Authenticator C) (registered sess authn) s)) (\<lambda>_ s.
                (Ok (), s)))))))))))))))))"

section \<open>The authenticators of a user\<close>

text \<open>An authenticator as its user sees it.\<close>

record User_Authenticator =
  ux_Uid :: string
  ux_Name :: string
  ux_CreatedAt :: timestamp
  ux_DisplayName :: string
  ux_Type :: Authenticator_Type
  ux_IsRegistered :: bool
  ux_Description :: string

definition toAuthenticator :: "Authenticator option \<Rightarrow> User_Authenticator option" where
  "toAuthenticator =
     map_option (\<lambda>i.
       \<lparr>ux_Uid = md_Uid (atr_Metadata i), ux_Name = md_Name (atr_Metadata i), ux_CreatedAt = md_CreatedAt (atr_Metadata i),
        ux_DisplayName = atr_DisplayName i, ux_Type = ats_Type (atr_Status i), ux_IsRegistered = ats_IsRegistered (atr_Status i),
        ux_Description = ats_Description (atr_Status i)\<rparr>)"

definition maxAuthenticatorPerUser :: nat where
  "maxAuthenticatorPerUser = 32"

definition check_new_type :: "Authenticator_Type \<Rightarrow> User \<Rightarrow> Session \<Rightarrow> unit go" where
  "check_new_type ty usr sess =
     (case ty of
        FIDO \<Rightarrow>
          go_bind (reject_if (us_Type (ur_Spec usr) \<noteq> HUMAN) PermissionDenied) (\<lambda>_.
          reject_if (\<not> st_IsBrowser (se_Status sess)) PermissionDenied)
      | TOTP \<Rightarrow> reject_if (us_Type (ur_Spec usr) \<noteq> HUMAN) PermissionDenied
      | TPM \<Rightarrow> reject_if (st_Type (se_Status sess) = CLIENTLESS) PermissionDenied
      | AUTHENTICATOR_UNKNOWN \<Rightarrow> Fail InvalidArg
      | Other_AuthenticatorType n \<Rightarrow> Ok ())"

fun lower_type_name :: "Authenticator_Type \<Rightarrow> string" where
  "lower_type_name FIDO = ''fido''"
| "lower_type_name TOTP = ''totp''"
| "lower_type_name TPM = ''tpm''"
| "lower_type_name AUTHENTICATOR_UNKNOWN = ''type_unknown''"
| "lower_type_name (Other_AuthenticatorType n) = (if n < 0 then CHR ''-'' # dec (nat (- n)) else dec (nat n))"

definition validateAuthenticatorSpec :: "validators \<Rightarrow> string \<Rightarrow> unit go" where
  "validateAuthenticatorSpec V displayName =
     go_bind (reject_if (120 < length displayName) InvalidArg) (\<lambda>_. reject_if (\<not> IsASCII V displayName) InvalidArg)"

definition new_authenticator :: "string \<Rightarrow> string \<Rightarrow> Authenticator_Type \<Rightarrow> User \<Rightarrow> Authenticator" where
  "new_authenticator nameEnd displayName ty usr =
     \<lparr>atr_ApiVersion = [], atr_Kind = [],
      atr_Metadata = no_metadata\<lparr>md_Name := lower_type_name ty @ ''-'' @ nameEnd\<rparr>, atr_DisplayName = displayName,
      atr_Status =
        \<lparr>ats_UserRef = GetObjectReference (ur_ApiVersion usr) (ur_Kind usr) (Some (ur_Metadata usr)), ats_DeviceRef = None,
         ats_Type = ty, ats_Info = None, ats_AuthenticationAttempt = None, ats_LastAuthenticationAttempts = [],
         ats_SuccessfulAuthentications = 0, ats_FailedAuthentications = 0, ats_TotalAuthenticationAttempts = 0,
         ats_IsRegistered = False, ats_Description = []\<rparr>\<rparr>"

definition doCreateAuthenticator ::
  "auth_env \<Rightarrow> 's auth_clients \<Rightarrow> string \<Rightarrow> grpc_md \<Rightarrow> Authenticator_Type \<Rightarrow> string \<Rightarrow> 's \<Rightarrow> User_Authenticator option go \<times> 's"
where
  "doCreateAuthenticator E C nameEnd md ty displayName s =
     go_seq (getSessionFromGRPCCtx E C md s) (\<lambda>sess s.
     go_seq (getUserFromSession C sess s) (\<lambda>usr s.
     go_seq (checkSessionValid (ae_now E) sess, s) (\<lambda>_ s.
     go_seq (cannot_modify sess, s) (\<lambda>_ s.
     go_seq (check_new_type ty usr sess, s) (\<lambda>_ s.
     go_seq (cl_List (hc_Authenticator C) (FilterByUser usr) s) (\<lambda>itmList s.
     go_seq (reject_if (maxAuthenticatorPerUser \<le> length itmList) PermissionDenied, s) (\<lambda>_ s.
     go_seq (validateAuthenticatorSpec (ae_V E) displayName, s) (\<lambda>_ s.
     go_seq (on_err errInternalErr
       (cl_Create (hc_Authenticator C) (new_authenticator nameEnd displayName ty usr) s)) (\<lambda>authn s.
     (Ok (toAuthenticator (Some authn)), s))))))))))"

definition doListAuthenticator ::
  "auth_env \<Rightarrow> 's auth_clients \<Rightarrow> grpc_md \<Rightarrow> 32 word \<Rightarrow> 32 word \<Rightarrow> 's \<Rightarrow> User_Authenticator option list go \<times> 's" where
  "doListAuthenticator E C md page itemsPerPage s =
     go_seq (getSessionFromGRPCCtx E C md s) (\<lambda>sess s.
     go_seq (getUserFromSession C sess s) (\<lambda>usr s.
     go_seq (on_err errInternalErr (cl_List (hc_Authenticator C)
       (no_list_options\<lparr>lo_Paginate := True, lo_Page := page, lo_ItemsPerPage := itemsPerPage,
         lo_Filters := [FilterStatusUserUID (md_Uid (ur_Metadata usr))]\<rparr>) s)) (\<lambda>itmList s.
     (Ok (map (\<lambda>i. toAuthenticator (Some i)) itmList), s))))"

definition doDeleteAuthenticator :: "auth_env \<Rightarrow> 's auth_clients \<Rightarrow> grpc_md \<Rightarrow> DeleteOptions \<Rightarrow> 's \<Rightarrow> unit go \<times> 's" where
  "doDeleteAuthenticator E C md req s =
     go_seq (getSessionFromGRPCCtx E C md s) (\<lambda>sess s.
     go_seq (checkSessionValid (ae_now E) sess, s) (\<lambda>_ s.
     go_seq (cannot_modify sess, s) (\<lambda>_ s.
     go_seq (map_err errInvalidArgErr (CheckDeleteOptions (ae_V E) (Some req) (Some no_get_opts)), s) (\<lambda>_ s.
     go_seq (getAuthenticator E C (Some \<lparr>or_ApiVersion = [], or_Kind = [], or_Uid = do_Uid req, or_Name = do_Name req,
       or_ResourceVersion = []\<rparr>) sess s) (\<lambda>authn s.
     case cl_Delete (hc_Authenticator C)
         \<lparr>do_Uid = md_Uid (atr_Metadata authn), do_Name = md_Name (atr_Metadata authn)\<rparr> s of
       (Ok _, s) \<Rightarrow> (Ok (), s)
     | (Fail e, s) \<Rightarrow> (if IsNotFound e then Ok () else Fail Internal, s)
     | (Panic, s) \<Rightarrow> (Panic, s))))))"

definition doGetAuthenticator ::
  "auth_env \<Rightarrow> 's auth_clients \<Rightarrow> grpc_md \<Rightarrow> GetOptions \<Rightarrow> 's \<Rightarrow> User_Authenticator option go \<times> 's" where
  "doGetAuthenticator E C md req s =
     go_seq (getSessionFromGRPCCtx E C md s) (\<lambda>sess s.
     go_seq (getAuthenticator E C (Some \<lparr>or_ApiVersion = [], or_Kind = [], or_Uid = go_Uid req, or_Name = go_Name req,
       or_ResourceVersion = []\<rparr>) sess s) (\<lambda>authn s.
     (Ok (toAuthenticator (Some authn)), s)))"

definition doGetAvailableAuthenticator ::
  "auth_env \<Rightarrow> 's auth_clients \<Rightarrow> grpc_md \<Rightarrow> 's \<Rightarrow> (User_Authenticator option \<times> User_Authenticator option list) go \<times> 's" where
  "doGetAvailableAuthenticator E C md s =
     go_seq (getSessionFromGRPCCtx E C md s) (\<lambda>sess s.
     go_seq (getUserFromSession C sess s) (\<lambda>usr s.
     go_seq (on_err errInternalErr (getAvailableAuthenticators C sess usr s)) (\<lambda>(m, available) s.
     (Ok (toAuthenticator m, map (\<lambda>i. toAuthenticator (Some i)) available), s))))"

text \<open>An authenticator that is gone when it is stored gives an empty answer.\<close>

definition doUpdateAuthenticator ::
  "auth_env \<Rightarrow> 's auth_clients \<Rightarrow> grpc_md \<Rightarrow> Metadata option \<Rightarrow> string option \<Rightarrow> 's \<Rightarrow> User_Authenticator option go \<times> 's"
where
  "doUpdateAuthenticator E C md req spec s =
     go_seq (getSessionFromGRPCCtx E C md s) (\<lambda>sess s.
     go_seq (checkSessionValid (ae_now E) sess, s) (\<lambda>_ s.
     go_seq (cannot_modify sess, s) (\<lambda>_ s.
     go_seq (map_err errInvalidArgErr (ValidateMetadata (ae_V E) req (Some no_metadata_opts)), s) (\<lambda>_ s.
     go_seq (deref req, s) (\<lambda>r s.
     go_seq (getAuthenticator E C (Some \<lparr>or_ApiVersion = [], or_Kind = [], or_Uid = md_Uid r, or_Name = md_Name r,
       or_ResourceVersion = []\<rparr>) sess s) (\<lambda>authn s.
     case spec of
       None \<Rightarrow> (Fail InvalidArg, s)
     | Some displayName \<Rightarrow>
         go_seq (validateAuthenticatorSpec (ae_V E) displayName, s) (\<lambda>_ s.
         case cl_Update (hc_Authenticator C) (authn\<lparr>atr_DisplayName := displayName\<rparr>) s of
           (Ok a, s) \<Rightarrow> (Ok (toAuthenticator (Some a)), s)
         | (Fail e, s) \<Rightarrow> (if IsNotFound e then Ok None else Fail Internal, s)
         | (Panic, s) \<Rightarrow> (Panic, s))))))))"

end
