(* ===== verification/AuthLogin.thy ===== *)
theory AuthLogin imports AuthRegistration begin

text \<open>
  \<open>cluster/authserver/authserver\<close>: logging in with an identity provider in a browser (\<open>auth.go\<close>, \<open>state.go\<close>, \<open>websession.go\<close>,
  \<open>server.go\<close>, the redirects of \<open>pages.go\<close>). The parsers of URLs and queries, the wire format of a login request, the
  providers themselves and the cache of the resource server are parameters.
\<close>

section \<open>Requests and answers\<close>

record http_req =
  hr_Method :: string
  hr_Header :: grpc_md
  hr_Query :: "string \<Rightarrow> string"
  hr_RawQuery :: string
  hr_Form :: "string \<Rightarrow> string"
  hr_PostForm :: "string \<Rightarrow> string"

datatype redirect =
    To_Login
  | To_AuthenticatorAuthenticate
  | To_AuthenticatorRegister
  | To_CallbackSuccess string
  | To_Portal
  | To_Root
  | To_URL string

text \<open>What a handler writes, in its order; of several redirects or codes the first one is sent.\<close>

datatype http_act = Act_Redirect redirect | Act_Cookies "cookie list" | Act_Status nat | Act_Index | Act_LoggedIn | Act_LoginURL string

record ClientLoginRequest =
  lq_ApiVersion :: int
  lq_CallbackPort :: "32 word"
  lq_CallbackSuffix :: string

record loginState =
  ls_ID :: string
  ls_CallbackURL :: string
  ls_IsApp :: bool
  ls_UID :: string
  ls_RequestID :: string
  ls_LoginURL :: string

record authenticatorCallbackState =
  acs_CallbackURL :: string
  acs_IsApp :: bool

text \<open>A cache that holds values as JSON; a value is taken out when it is read.\<close>

record ('s, 'd) kv =
  kv_Set :: "string \<Rightarrow> 'd \<Rightarrow> Duration \<Rightarrow> 's \<Rightarrow> unit go \<times> 's"
  kv_Take :: "string \<Rightarrow> 's \<Rightarrow> 'd go \<times> 's"

text \<open>A provider: its resource, the URL of a login for a state, and what it makes of the callback.\<close>

record connector =
  cn_Provider :: IdentityProvider
  cn_LoginURL :: "string \<Rightarrow> (string \<times> string) go"
  cn_HandleCallback :: "http_req \<Rightarrow> string \<Rightarrow> Authentication_Info go"

record 's login_env =
  le_Parse :: "string \<Rightarrow> url option"
  le_ParseQuery :: "string \<Rightarrow> (string \<Rightarrow> string) option"
  le_DecodeLogin :: "string \<Rightarrow> ClientLoginRequest go"
  le_States :: "('s, loginState) kv"
  le_Callbacks :: "('s, authenticatorCallbackState) kv"
  le_State :: string
  le_Mint :: mint_env
  le_CredEnd :: string
  le_CredMap :: "Metadata \<Rightarrow> Credential_Spec \<Rightarrow> (string \<times> json) list go"
  le_WithToken :: "string \<Rightarrow> string \<Rightarrow> string go"
  le_Providers :: "connector list"

section \<open>Where a login ends\<close>

definition HasSuffix :: "string \<Rightarrow> string \<Rightarrow> bool" where
  "HasSuffix s suffix \<longleftrightarrow> length suffix \<le> length s \<and> drop (length s - length suffix) s = suffix"

definition isURLSameClusterOrigin :: "'s login_env \<Rightarrow> string \<Rightarrow> string \<Rightarrow> bool" where
  "isURLSameClusterOrigin L domain arg =
     (if length arg = 0 \<or> 1500 < length arg then False
      else (case le_Parse L arg of None \<Rightarrow> False | Some u \<Rightarrow> HasSuffix (u_Hostname u) domain))"

definition getPortalURL :: "string \<Rightarrow> string" where
  "getPortalURL domain = ''https://portal.'' @ domain"

definition getLoginReq :: "'s login_env \<Rightarrow> validators \<Rightarrow> string \<Rightarrow> ClientLoginRequest go" where
  "getLoginReq L V arg =
     go_bind (reject_if (arg = []) (Errorf ''Empty login req'')) (\<lambda>_.
     go_bind (reject_if (512 < length arg) (Errorf ''Invalid login req'')) (\<lambda>_.
     go_bind (le_DecodeLogin L arg) (\<lambda>ret.
     go_bind (reject_if (lq_ApiVersion ret \<noteq> 1) (Errorf ''Unsupported API version'')) (\<lambda>_.
     go_bind (reject_if (lq_CallbackPort ret < 20000 \<or> 65000 < lq_CallbackPort ret) (Errorf ''invalid callback port'')) (\<lambda>_.
     go_bind (reject_if (\<not> IsASCII V (lq_CallbackSuffix ret) \<or> length (lq_CallbackSuffix ret) < 4 \<or>
       8 < length (lq_CallbackSuffix ret)) (Errorf ''invalid callback suffix'')) (\<lambda>_.
     Ok ret))))))"

definition validateLoginQuery :: "'s login_env \<Rightarrow> validators \<Rightarrow> string \<Rightarrow> unit go" where
  "validateLoginQuery L V arg =
     go_bind (reject_if (1000 < length arg) (Errorf ''Query is too long'')) (\<lambda>_.
     case le_ParseQuery L arg of
       None \<Rightarrow> Fail (Errorf ''cannot parse query'')
     | Some vals \<Rightarrow>
         if vals ''octelium_req'' \<noteq> [] then go_map (\<lambda>_. ()) (getLoginReq L V (vals ''octelium_req'')) else Ok ())"

record postAuthReq =
  pq_UID :: string
  pq_Query :: string
  pq_UserAgent :: string

definition validatePostAuthReq :: "'s login_env \<Rightarrow> validators \<Rightarrow> postAuthReq \<Rightarrow> unit go" where
  "validatePostAuthReq L V i =
     go_bind (map_err (\<lambda>_. Errorf ''Invalid user agent'') (ValidateBrowserUserAgent V (pq_UserAgent i))) (\<lambda>_.
     go_bind (if pq_Query i \<noteq> [] then validateLoginQuery L V (pq_Query i) else Ok ()) (\<lambda>_.
     DoCheckUID V (pq_UID i)))"

definition localhost_callback :: "ClientLoginRequest \<Rightarrow> string" where
  "localhost_callback q =
     ''http://localhost:'' @ dec (unat (lq_CallbackPort q)) @ ''/callback/success/'' @ lq_CallbackSuffix q"

definition getRedirectURL :: "'s login_env \<Rightarrow> string \<Rightarrow> (string \<Rightarrow> string) \<Rightarrow> string" where
  "getRedirectURL L domain vals =
     (if vals ''redirect'' \<noteq> [] \<and> isURLSameClusterOrigin L domain (vals ''redirect'') then vals ''redirect'' else [])"

text \<open>The URL to call back, and whether it is that of an application.\<close>

definition generateCallbackURL :: "'s login_env \<Rightarrow> validators \<Rightarrow> string \<Rightarrow> string \<Rightarrow> (string \<times> bool) go" where
  "generateCallbackURL L V domain query =
     (if query = [] then Ok ([], False)
      else
        (case le_ParseQuery L query of
           None \<Rightarrow> Fail InvalidArg
         | Some vals \<Rightarrow>
             go_bind
               (if vals ''octelium_req'' \<noteq> []
                then map_err InvalidArgWithErr (go_map (\<lambda>q. (localhost_callback q, True)) (getLoginReq L V (vals ''octelium_req'')))
                else Ok ([], False)) (\<lambda>(callbackURL, isApp).
             Ok (if callbackURL = [] then getRedirectURL L domain vals else callbackURL, isApp))))"

section \<open>States of a login\<close>

definition getAuthKey :: "string \<Rightarrow> string" where
  "getAuthKey state = ''authserver.ls.'' @ state"

definition getAuthenticatorCallbackKey :: "Session \<Rightarrow> string" where
  "getAuthenticatorCallbackKey sess = ''authserver.ls.authn.'' @ md_Uid (se_Metadata sess)"

definition rgxStateID :: "string \<Rightarrow> bool" where
  "rgxStateID x \<longleftrightarrow>
     length x = 36 \<and>
     list_all (\<lambda>c. (CHR ''a'' \<le> c \<and> c \<le> CHR ''z'') \<or> (CHR ''A'' \<le> c \<and> c \<le> CHR ''Z'') \<or> (CHR ''0'' \<le> c \<and> c \<le> CHR ''9'')) x"

definition saveLoginState :: "'s login_env \<Rightarrow> loginState \<Rightarrow> 's \<Rightarrow> unit go \<times> 's" where
  "saveLoginState L state s = kv_Set (le_States L) (getAuthKey (ls_ID state)) state (Minutes 8) s"

definition state_id :: "http_req \<Rightarrow> string go" where
  "state_id r =
     (if hr_Method r = ''GET''
      then
        go_bind (reject_if (hr_Form r ''error'' \<noteq> []) (Errorf ''error_description'')) (\<lambda>_.
        go_bind (reject_if (hr_Form r ''state'' = []) (Errorf ''No state found'')) (\<lambda>_. Ok (hr_Form r ''state'')))
      else if hr_Method r = ''POST''
      then go_bind (reject_if (hr_PostForm r ''RelayState'' = []) (Errorf ''No state found'')) (\<lambda>_. Ok (hr_PostForm r ''RelayState''))
      else Fail (Errorf ''Invalid HTTP method''))"

definition getStateIDFromCookie :: "http_req \<Rightarrow> string go" where
  "getStateIDFromCookie r =
     (case request_cookie (hr_Header r) ''octelium_login_state'' of
        None \<Rightarrow> Fail (Errorf ''named cookie not present'')
      | Some v \<Rightarrow> if rgxStateID v then Ok v else Fail (Errorf ''Invalid state ID''))"

definition getLoginStateFromStateID :: "'s login_env \<Rightarrow> string \<Rightarrow> 's \<Rightarrow> loginState go \<times> 's" where
  "getLoginStateFromStateID L stateID s = kv_Take (le_States L) (getAuthKey stateID) s"

definition getLoginStateFromCallback :: "'s login_env \<Rightarrow> http_req \<Rightarrow> 's \<Rightarrow> loginState go \<times> 's" where
  "getLoginStateFromCallback L r s =
     go_seq (state_id r, s) (\<lambda>stateID s.
     go_seq (reject_if (\<not> rgxStateID stateID) (Errorf ''Invalid state ID''), s) (\<lambda>_ s.
     go_seq (map_err (\<lambda>_. Errorf ''Could not get state ID from cookie'') (getStateIDFromCookie r), s) (\<lambda>stateIDCookie s.
     go_seq (reject_if (stateID \<noteq> stateIDCookie) (Errorf ''state ID and cookie don't match''), s) (\<lambda>_ s.
     getLoginStateFromStateID L stateID s))))"

definition saveAuthenticatorCallbackState :: "'s login_env \<Rightarrow> Session \<Rightarrow> string \<Rightarrow> bool \<Rightarrow> 's \<Rightarrow> unit go \<times> 's" where
  "saveAuthenticatorCallbackState L sess callbackURL isApp s =
     kv_Set (le_Callbacks L) (getAuthenticatorCallbackKey sess)
       \<lparr>acs_CallbackURL = callbackURL, acs_IsApp = isApp\<rparr> (Minutes 12) s"

definition loadAuthenticatorCallbackState :: "'s login_env \<Rightarrow> Session \<Rightarrow> 's \<Rightarrow> authenticatorCallbackState go \<times> 's" where
  "loadAuthenticatorCallbackState L sess s = kv_Take (le_Callbacks L) (getAuthenticatorCallbackKey sess) s"

section \<open>Providers\<close>

definition getWebProviderFromUID :: "connector list \<Rightarrow> string \<Rightarrow> connector go" where
  "getWebProviderFromUID ps uid =
     (case List.find (\<lambda>p. md_Uid (idp_Metadata (cn_Provider p)) = uid) ps of
        None \<Rightarrow> Fail (Errorf ''Could not find IdentityProvider'')
      | Some p \<Rightarrow>
          if is_IsDisabled (idp_Spec (cn_Provider p)) then Fail PermissionDenied
          else if it_IsLocked (idp_Status (cn_Provider p)) then Fail PermissionDenied
          else Ok p)"

definition login_state_cookie :: "auth_env \<Rightarrow> string \<Rightarrow> timestamp \<Rightarrow> cookie" where
  "login_state_cookie E v ex =
     \<lparr>ck_Name = ''octelium_login_state'', ck_Value = v, ck_Domain = ae_domain E, ck_HttpOnly = True, ck_SameSite = NoneMode,
      ck_Expires = ex\<rparr>"

text \<open>The callback URL that a new login gets from a query.\<close>

definition login_callback :: "'s login_env \<Rightarrow> validators \<Rightarrow> string \<Rightarrow> string \<Rightarrow> http_req \<Rightarrow> (string \<times> bool) go" where
  "login_callback L V domain query r =
     go_bind
       (let q = (if query = [] then hr_RawQuery r else query) in
        generateCallbackURL L V domain q) (\<lambda>(u, isApp).
     Ok (if u = [] then getRedirectURL L domain (hr_Query r) else u, isApp))"

definition doGenerateLoginState ::
  "auth_env \<Rightarrow> 's login_env \<Rightarrow> connector \<Rightarrow> string \<Rightarrow> http_req \<Rightarrow> 's \<Rightarrow> (loginState \<times> http_act) go \<times> 's" where
  "doGenerateLoginState E L p query r s =
     go_seq (map_err InternalWithErr (cn_LoginURL p (le_State L)), s) (\<lambda>(loginURL, reqID) s.
     go_seq (login_callback L (ae_V E) (ae_domain E) query r, s) (\<lambda>(u, isApp) s.
     let userState = \<lparr>ls_ID = le_State L, ls_CallbackURL = u, ls_IsApp = isApp, ls_UID = md_Uid (idp_Metadata (cn_Provider p)),
       ls_RequestID = reqID, ls_LoginURL = loginURL\<rparr> in
     go_seq (saveLoginState L userState s) (\<lambda>_ s.
     (Ok (userState, Act_Cookies [login_state_cookie E (le_State L) (Some (ae_now E + 900000000000))]), s))))"

text \<open>The body of the request, read as JSON, is an argument; \<open>None\<close> when it is too long or cannot be read.\<close>

definition handleAuth ::
  "auth_env \<Rightarrow> 's login_env \<Rightarrow> http_req \<Rightarrow> postAuthReq option \<Rightarrow> 's \<Rightarrow> http_act list go \<times> 's" where
  "handleAuth E L r body s =
     (let origin = GetHeaderValueMust (hr_Header r) ''X-Octelium-Origin'' in
      if origin = [] \<or> origin \<noteq> ''https://'' @ ae_domain E then (Ok [Act_Status 400], s)
      else
        (case body of
           None \<Rightarrow> (Ok [Act_Status 400], s)
         | Some req \<Rightarrow>
             (case validatePostAuthReq L (ae_V E) req of
                Panic \<Rightarrow> (Panic, s)
              | Fail e \<Rightarrow> (Ok [Act_Status 400], s)
              | Ok _ \<Rightarrow>
                  if GetHeaderValueMust (hr_Header r) ''user-agent'' \<noteq> pq_UserAgent req then (Ok [Act_Status 400], s)
                  else
                    (case getWebProviderFromUID (le_Providers L) (pq_UID req) of
                       Panic \<Rightarrow> (Panic, s)
                     | Fail e \<Rightarrow> (Ok [Act_Status 400], s)
                     | Ok p \<Rightarrow>
                         (case doGenerateLoginState E L p (pq_Query req) r s of
                            (Panic, s) \<Rightarrow> (Panic, s)
                          | (Fail e, s) \<Rightarrow> (Ok [Act_Status (if IsInternal e then 500 else 400)], s)
                          | (Ok (st, act), s) \<Rightarrow> (Ok [act, Act_LoginURL (ls_LoginURL st)], s))))))"

end
