(* ===== verification/AuthCallbacks.thy ===== *)
theory AuthCallbacks imports AuthLogin begin

text \<open>
  \<open>cluster/authserver/authserver\<close>: what a callback of an identity provider makes of a user and of the session in the browser, and where
  the browser is sent (\<open>auth.go\<close>, \<open>websession.go\<close>, \<open>pages.go\<close>).
\<close>

section \<open>The user of a login\<close>

definition identity_of :: "Authentication_Info option \<Rightarrow> Info_IdentityProvider option" where
  "identity_of io =
     (case io of None \<Rightarrow> None | Some i \<Rightarrow> (case ai_Details i of Details_IdentityProvider d \<Rightarrow> Some d | _ \<Rightarrow> None))"

definition no_user :: error where
  "no_user = Errorf ''This User does not exist''"

definition user_by_email :: "auth_env \<Rightarrow> 's auth_clients \<Rightarrow> IdentityProvider \<Rightarrow> string \<Rightarrow> 's \<Rightarrow> User go \<times> 's" where
  "user_by_email E C idp email s =
     (if email \<noteq> [] \<and> IsEmail (ae_V E) email \<and> \<not> is_DisableEmailAsIdentity (idp_Spec idp)
      then
        go_seq (cl_List (hc_User C) (no_list_options\<lparr>lo_Filters := [FilterFieldEQValStr ''spec.email'' email]\<rparr>) s) (\<lambda>usrs s.
        case usrs of
          [usr] \<Rightarrow> (if us_Email (ur_Spec usr) \<noteq> email
                    then Fail (Errorf ''The User email does not match the provider info'') else Ok usr, s)
        | _ \<Rightarrow> (Fail no_user, s))
      else (Fail no_user, s))"

definition authenticateUser ::
  "auth_env \<Rightarrow> 's auth_clients \<Rightarrow> Authentication_Info \<Rightarrow> IdentityProvider \<Rightarrow> 's \<Rightarrow> User go \<times> 's" where
  "authenticateUser E C authInfo idp s =
     (case identity_of (Some authInfo) of
        None \<Rightarrow> (Fail (Errorf ''Nil IdentityProvider details''), s)
      | Some info \<Rightarrow>
          if ii_Identifier info = [] then (Fail (Errorf ''Empty identifier''), s)
          else
            go_seq (deref (ii_IdentityProviderRef info), s) (\<lambda>r s.
            go_seq (on_err (\<lambda>_. Errorf ''Internal error'')
              (cl_List (hc_User C) (by_identity E (or_Name r) (ii_Identifier info)) s)) (\<lambda>usrs s.
            go_seq
              (case usrs of
                 [usr] \<Rightarrow> go_seq (check_account (or_Name r) (ii_Identifier info) usr, s) (\<lambda>_ s. (Ok usr, s))
               | [] \<Rightarrow> user_by_email E C idp (ii_Email info) s
               | _ \<Rightarrow> (Fail no_user, s)) (\<lambda>usr s.
            go_seq (reject_if (us_IsDisabled (ur_Spec usr)) (Errorf ''Deactivated User''), s) (\<lambda>_ s.
            go_seq (reject_if (us_Type (ur_Spec usr) \<noteq> HUMAN) (Errorf ''Invalid User type''), s) (\<lambda>_ s. (Ok usr, s)))))))"

section \<open>The session of a browser\<close>

fun enforcement_action :: "AuthenticatorAction \<Rightarrow> AuthenticatorAction \<Rightarrow> AuthEnforcement_Effect \<Rightarrow> AuthenticatorAction" where
  "enforcement_action required recommended AUTH_ENFORCE = required"
| "enforcement_action required recommended AUTH_RECOMMEND = recommended"
| "enforcement_action required recommended AUTH_IGNORE = AUTHENTICATOR_ACTION_UNSET"
| "enforcement_action required recommended AUTH_ENFORCEMENT_UNKNOWN = AUTHENTICATOR_ACTION_UNSET"
| "enforcement_action required recommended (Other_AuthEnforcement n) = AUTHENTICATOR_ACTION_UNSET"

definition getAuthenticatorAction ::
  "auth_env \<Rightarrow> 's auth_clients \<Rightarrow> ClusterConfig \<Rightarrow> IdentityProvider option \<Rightarrow> User \<Rightarrow> Session \<Rightarrow> 's \<Rightarrow> AuthenticatorAction go \<times> 's"
where
  "getAuthenticatorAction E C cc idp usr sess s =
     (case ccs_Authenticator (cc_Spec cc) of
        None \<Rightarrow> (Ok AUTHENTICATOR_ACTION_UNSET, s)
      | Some a \<Rightarrow>
          if ca_AuthenticationEnforcementRules a = [] \<and> ca_RegistrationEnforcementRules a = []
          then (Ok AUTHENTICATOR_ACTION_UNSET, s)
          else
            go_seq (getAvailableAuthenticators C sess usr s) (\<lambda>(m, available) s.
            go_seq (on_err errInternalErr (cl_List (hc_Authenticator C)
              (no_list_options\<lparr>lo_Filters := [FilterStatusUserUID (md_Uid (ur_Metadata usr))]\<rparr>) s)) (\<lambda>authnList s.
            if available \<noteq> []
            then
              (if ca_AuthenticationEnforcementRules a \<noteq> []
               then go_map (enforcement_action AUTHENTICATION_REQUIRED AUTHENTICATION_RECOMMENDED)
                 (doAuthenticatorEnforcementRule E (ca_AuthenticationEnforcementRules a) idp usr sess authnList)
               else Ok AUTHENTICATOR_ACTION_UNSET, s)
            else
              (if ca_RegistrationEnforcementRules a \<noteq> []
               then go_map (enforcement_action REGISTRATION_REQUIRED REGISTRATION_RECOMMENDED)
                 (doAuthenticatorEnforcementRule E (ca_RegistrationEnforcementRules a) idp usr sess authnList)
               else Ok AUTHENTICATOR_ACTION_UNSET, s))))"

text \<open>A login with a passkey makes its authenticator the one that the session requires.\<close>

definition passkey_ref :: "Authentication_Info \<Rightarrow> ObjectReference option" where
  "passkey_ref info =
     (case ai_Details info of
        Details_Authenticator x \<Rightarrow> if ia_Type x = FIDO \<and> ia_Mode x = PASSKEY then ia_AuthenticatorRef x else None
      | _ \<Rightarrow> None)"

definition with_action :: "AuthenticatorAction \<Rightarrow> Session \<Rightarrow> Session" where
  "with_action a sess = sess\<lparr>se_Status := (se_Status sess)\<lparr>st_AuthenticatorAction := a\<rparr>\<rparr>"

definition createWebSession ::
  "auth_env \<Rightarrow> 's auth_clients \<Rightarrow> User \<Rightarrow> Authentication_Info \<Rightarrow> ClusterConfig \<Rightarrow> IdentityProvider option \<Rightarrow> string \<Rightarrow> string \<Rightarrow>
   's \<Rightarrow> Session go \<times> 's"
where
  "createWebSession E C usr info cc idp userAgent xff s =
     go_seq (auth_checkMaxSessionsPerUser C usr cc s) (\<lambda>_ s.
     go_seq (NewSession (ae_N E) (hc_ClusterConfig C)
       ((auth_session_opts usr cc CLIENTLESS [] (Some info) userAgent xff)
         \<lparr>cs_IsBrowser := True, cs_RequiredAuthenticatorRef := passkey_ref info\<rparr>) s) (\<lambda>initSess s.
     go_seq (getAuthenticatorAction E C cc idp usr initSess s) (\<lambda>action s.
     on_err errInternalErr (cl_Create (hc_Session C) (with_action action initSess) s))))"

definition identity_provider_uid :: "Authentication_Info option \<Rightarrow> string option" where
  "identity_provider_uid i =
     (case identity_of i of None \<Rightarrow> None | Some d \<Rightarrow> map_option or_Uid (ii_IdentityProviderRef d))"

definition initial_info :: "Session \<Rightarrow> Authentication_Info option" where
  "initial_info sess = (case st_InitialAuthentication (se_Status sess) of None \<Rightarrow> None | Some a \<Rightarrow> au_Info a)"

definition with_picture :: "string \<Rightarrow> Session \<Rightarrow> Session" where
  "with_picture u sess = (if u \<noteq> [] then sess\<lparr>se_Metadata := (se_Metadata sess)\<lparr>md_PicURL := u\<rparr>\<rparr> else sess)"

text \<open>
  A session that was begun with the same provider is authenticated anew; another one is dropped, whether its removal
  succeeds or not, and a new one is created.
\<close>

definition createOrUpdateSessWeb ::
  "auth_env \<Rightarrow> 's auth_clients \<Rightarrow> grpc_md \<Rightarrow> User \<Rightarrow> Authentication_Info \<Rightarrow> ClusterConfig \<Rightarrow> IdentityProvider option \<Rightarrow> 's \<Rightarrow>
   Session go \<times> 's"
where
  "createOrUpdateSessWeb E C hdr usr authResp cc idp s =
     (let ua = GetHeaderValueMust hdr ''User-Agent''; xff = GetHeaderValueMust hdr ''X-Forwarded-For'';
          doCreate = createWebSession E C usr authResp cc idp ua xff in
      case getWebSessionFromHTTPRefreshCookie E C hdr s of
        (Panic, s) \<Rightarrow> (Panic, s)
      | (Fail e, s) \<Rightarrow> doCreate s
      | (Ok sess, s) \<Rightarrow>
          if identity_provider_uid (Some authResp) = None \<or> identity_provider_uid (initial_info sess) = None \<or>
             identity_provider_uid (Some authResp) \<noteq> identity_provider_uid (initial_info sess)
          then doCreate (snd (cl_Delete (hc_Session C) \<lparr>do_Uid = md_Uid (se_Metadata sess), do_Name = []\<rparr> s))
          else
            go_seq (SetCurrAuthentication (ae_N E) sess (Some authResp) ua cc xff, s) (\<lambda>sess s.
            let sess = with_picture (info_picture (Some authResp)) sess in
            go_seq (getAuthenticatorAction E C cc idp usr sess s) (\<lambda>action s.
            cl_Update (hc_Session C) (with_action action sess) s)))"

section \<open>The way back to an application\<close>

text \<open>The credential, with the request for it as a map.\<close>

definition login_credential :: "auth_env \<Rightarrow> 's login_env \<Rightarrow> string \<Rightarrow> Credential_Spec api_request" where
  "login_credential E L user =
     (let md = no_metadata\<lparr>md_Name := ''auth-token-'' @ le_CredEnd L, md_IsSystem := True, md_IsSystemHidden := True,
            md_IsUserHidden := True\<rparr>;
          spec = \<lparr>crs_Type = AUTH_TOKEN, crs_User = user, crs_MaxAuthentications = 1,
            crs_ExpiresAt = Some (ae_now E + 60000000000), crs_SessionType = CLIENT, crs_Authorization = None,
            crs_IsDisabled = False, crs_AutoDelete = True\<rparr> in
      \<lparr>aq_Metadata = Some md, aq_Spec = Some spec, aq_Map = le_CredMap L md spec\<rparr>)"

definition generateClientCallbackURL ::
  "auth_env \<Rightarrow> 's login_env \<Rightarrow> 's cred_clients \<Rightarrow> Session \<Rightarrow> string \<Rightarrow> 's \<Rightarrow> string go \<times> 's" where
  "generateClientCallbackURL E L K sess callbackURL s =
     go_seq (deref (st_UserRef (se_Status sess)), s) (\<lambda>u s.
     go_seq (admin_CreateCredential (ae_A E) (le_Mint L) K (login_credential E L (or_Name u)) s) (\<lambda>cred s.
     go_seq (admin_GenerateCredentialToken (ae_A E) (le_Mint L) K (credential_ref cred) s) (\<lambda>tokenResp s.
     (le_WithToken L callbackURL (case tokenResp of AuthenticationToken t \<Rightarrow> t | _ \<Rightarrow> []), s))))"

section \<open>The answer to a callback\<close>

definition login_cookies :: "auth_env \<Rightarrow> string \<Rightarrow> string \<Rightarrow> Session_Status_Authentication \<Rightarrow> http_act" where
  "login_cookies E accessToken refreshToken a =
     Act_Cookies [token_cookie E ''octelium_auth'' accessToken (au_AccessTokenDuration a),
       token_cookie E ''octelium_rt'' refreshToken (au_RefreshTokenDuration a), login_state_cookie E [] None]"

text \<open>What a step writes before it ends, with its error if it has one.\<close>

definition acts_then :: "http_act list \<Rightarrow> (http_act list \<times> unit go) \<times> 's \<Rightarrow> (http_act list \<times> unit go) \<times> 's" where
  "acts_then as r = ((as @ fst (fst r), snd (fst r)), snd r)"

definition act_seq ::
  "'a go \<times> 's \<Rightarrow> ('a \<Rightarrow> 's \<Rightarrow> (http_act list \<times> unit go) \<times> 's) \<Rightarrow> (http_act list \<times> unit go) \<times> 's" where
  "act_seq r f =
     (case r of (Ok x, s) \<Rightarrow> f x s | (Fail e, s) \<Rightarrow> (([], Fail e), s) | (Panic, s) \<Rightarrow> (([], Panic), s))"

definition to_callback ::
  "auth_env \<Rightarrow> 's login_env \<Rightarrow> 's cred_clients \<Rightarrow> http_act \<Rightarrow> Session \<Rightarrow> string \<Rightarrow> bool \<Rightarrow> 's \<Rightarrow> (http_act list \<times> unit go) \<times> 's" where
  "to_callback E L K cookies sess callbackURL isApp s =
     (if \<not> isApp
      then (([cookies, Act_Redirect (To_CallbackSuccess (if callbackURL \<noteq> [] then callbackURL else getPortalURL (ae_domain E)))],
             Ok ()), s)
      else
        act_seq (generateClientCallbackURL E L K sess callbackURL s) (\<lambda>u s.
        (([cookies, Act_Redirect (To_CallbackSuccess u)], Ok ()), s)))"

text \<open>A session that has to register an authenticator is sent there, and the rest is carried out nevertheless.\<close>

definition setAuthCallbackResponse ::
  "auth_env \<Rightarrow> 's login_env \<Rightarrow> 's cred_clients \<Rightarrow> loginState \<Rightarrow> Session \<Rightarrow> 's \<Rightarrow> (http_act list \<times> unit go) \<times> 's" where
  "setAuthCallbackResponse E L K state sess s =
     act_seq (generateAccessToken E (Some sess), s) (\<lambda>accessToken s.
     act_seq (generateRefreshToken E (Some sess), s) (\<lambda>refreshToken s.
     act_seq (deref (st_Authentication (se_Status sess)), s) (\<lambda>a s.
     let cookies = login_cookies E accessToken refreshToken a;
         save = saveAuthenticatorCallbackState L sess (ls_CallbackURL state) (ls_IsApp state);
         authenticate = act_seq (save s) (\<lambda>_ s. (([cookies, Act_Redirect To_AuthenticatorAuthenticate], Ok ()), s));
         register = act_seq (save s) (\<lambda>_ s.
           acts_then [cookies, Act_Redirect To_AuthenticatorRegister]
             (to_callback E L K cookies sess (ls_CallbackURL state) (ls_IsApp state) s)) in
     case st_AuthenticatorAction (se_Status sess) of
       AUTHENTICATOR_ACTION_UNSET \<Rightarrow> to_callback E L K cookies sess (ls_CallbackURL state) (ls_IsApp state) s
     | AUTHENTICATION_REQUIRED \<Rightarrow> authenticate
     | AUTHENTICATION_RECOMMENDED \<Rightarrow> authenticate
     | REGISTRATION_REQUIRED \<Rightarrow> register
     | REGISTRATION_RECOMMENDED \<Rightarrow> register
     | Other_Action n \<Rightarrow> (([], Fail (Errorf ''Unhandled authenticatorAction'')), s))))"

text \<open>Every error sends the browser to the start.\<close>

definition to_root :: "(http_act list \<times> unit go) \<times> 's \<Rightarrow> http_act list go \<times> 's" where
  "to_root r =
     (case r of
        ((acts, Ok _), s) \<Rightarrow> (Ok acts, s)
      | ((acts, Fail e), s) \<Rightarrow> (Ok (acts @ [Act_Redirect To_Root]), s)
      | ((acts, Panic), s) \<Rightarrow> (Panic, s))"

definition handleAuthCallback ::
  "auth_env \<Rightarrow> 's login_env \<Rightarrow> 's auth_clients \<Rightarrow> 's cred_clients \<Rightarrow> http_req \<Rightarrow> 's \<Rightarrow> http_act list go \<times> 's" where
  "handleAuthCallback E L C K r s =
     to_root
       (act_seq (getLoginStateFromCallback L r s) (\<lambda>userState s.
        act_seq (cl_Get (hc_ClusterConfig C) (by_name ''default'') s) (\<lambda>cc s.
        act_seq (getWebProviderFromUID (le_Providers L) (ls_UID userState), s) (\<lambda>p s.
        act_seq (cn_HandleCallback p r (ls_RequestID userState), s) (\<lambda>authInfo s.
        act_seq (authenticateUser E C authInfo (cn_Provider p) s) (\<lambda>usr s.
        act_seq (doPostAuthenticationRules E (cn_Provider p) usr authInfo, s) (\<lambda>_ s.
        act_seq (createOrUpdateSessWeb E C (hr_Header r) usr authInfo cc (Some (cn_Provider p)) s) (\<lambda>sess s.
        setAuthCallbackResponse E L K userState sess s))))))))"

section \<open>Pages\<close>

text \<open>Where a browser goes on to: a URL of the request that may be trusted, or the portal.\<close>

definition onwards_to :: "auth_env \<Rightarrow> 's login_env \<Rightarrow> string \<Rightarrow> redirect" where
  "onwards_to E L redirectURL =
     (if redirectURL = [] then To_Portal
      else if isURLSameClusterOrigin L (ae_domain E) redirectURL then To_URL redirectURL
      else
        (case le_Parse L redirectURL of
           None \<Rightarrow> To_Portal
         | Some u \<Rightarrow> if u_Hostname u \<noteq> ''localhost'' then To_Portal else To_URL redirectURL))"

definition handleAuthSuccess ::
  "auth_env \<Rightarrow> 's login_env \<Rightarrow> 's auth_clients \<Rightarrow> 's cred_clients \<Rightarrow> http_req \<Rightarrow> 's \<Rightarrow> http_act list go \<times> 's" where
  "handleAuthSuccess E L C K r s =
     (let onwards = [Act_Redirect (onwards_to E L (hr_Form r ''redirect''))] in
      case getWebSessionFromHTTPRefreshCookie E C (hr_Header r) s of
        (Panic, s) \<Rightarrow> (Panic, s)
      | (Fail e, s) \<Rightarrow> (Ok [Act_Redirect To_Login], s)
      | (Ok sess, s) \<Rightarrow>
          (case st_Authentication (se_Status sess) of
             None \<Rightarrow> (Ok onwards, s)
           | Some a \<Rightarrow>
               (case map_option ai_Details (au_Info a) of
                  Some (Details_Authenticator i) \<Rightarrow>
                    (case loadAuthenticatorCallbackState L sess s of
                       (Panic, s) \<Rightarrow> (Panic, s)
                     | (Fail e, s) \<Rightarrow> (Ok onwards, s)
                     | (Ok state, s) \<Rightarrow>
                         if \<not> acs_IsApp state
                         then (Ok [Act_Redirect (To_CallbackSuccess
                           (if acs_CallbackURL state \<noteq> [] then acs_CallbackURL state else getPortalURL (ae_domain E)))], s)
                         else
                           (case generateClientCallbackURL E L K sess (acs_CallbackURL state) s of
                              (Panic, s) \<Rightarrow> (Panic, s)
                            | (Fail e, s) \<Rightarrow> (Ok [Act_Redirect (To_CallbackSuccess (getPortalURL (ae_domain E)))], s)
                            | (Ok u, s) \<Rightarrow> (Ok [Act_Redirect (To_CallbackSuccess u)], s)))
                | _ \<Rightarrow> (Ok onwards, s))))"

definition when_logged_in ::
  "auth_env \<Rightarrow> 's auth_clients \<Rightarrow> http_req \<Rightarrow> (Session \<Rightarrow> http_act) \<Rightarrow> 's \<Rightarrow> http_act list go \<times> 's" where
  "when_logged_in E C r page s =
     (case getWebSessionFromHTTPRefreshCookie E C (hr_Header r) s of
        (Panic, s) \<Rightarrow> (Panic, s)
      | (Fail e, s) \<Rightarrow> (Ok [Act_Redirect To_Login], s)
      | (Ok sess, s) \<Rightarrow> (Ok [page sess], s))"

definition handleAuthenticatorAuthenticate :: "auth_env \<Rightarrow> 's auth_clients \<Rightarrow> http_req \<Rightarrow> 's \<Rightarrow> http_act list go \<times> 's" where
  "handleAuthenticatorAuthenticate E C r s =
     when_logged_in E C r (\<lambda>sess.
       if st_AuthenticatorAction (se_Status sess) = REGISTRATION_REQUIRED then Act_Redirect To_AuthenticatorRegister else Act_LoggedIn) s"

definition handleAuthenticatorRegister :: "auth_env \<Rightarrow> 's auth_clients \<Rightarrow> http_req \<Rightarrow> 's \<Rightarrow> http_act list go \<times> 's" where
  "handleAuthenticatorRegister E C r s =
     when_logged_in E C r (\<lambda>sess.
       if st_AuthenticatorAction (se_Status sess) = AUTHENTICATION_REQUIRED then Act_Redirect To_AuthenticatorAuthenticate
       else Act_LoggedIn) s"

definition handleAuthenticatorList :: "auth_env \<Rightarrow> 's auth_clients \<Rightarrow> http_req \<Rightarrow> 's \<Rightarrow> http_act list go \<times> 's" where
  "handleAuthenticatorList E C r s = when_logged_in E C r (\<lambda>sess. Act_LoggedIn) s"

definition handleDenied :: "auth_env \<Rightarrow> 's auth_clients \<Rightarrow> http_req \<Rightarrow> 's \<Rightarrow> http_act list go \<times> 's" where
  "handleDenied E C r s = when_logged_in E C r (\<lambda>sess. Act_LoggedIn) s"

text \<open>A session whose provider is gone is dropped, whatever its removal gives.\<close>

definition login_again ::
  "auth_env \<Rightarrow> 's login_env \<Rightarrow> 's auth_clients \<Rightarrow> http_req \<Rightarrow> Session \<Rightarrow> 's \<Rightarrow> http_act list go \<times> 's" where
  "login_again E L C r sess s =
     (let out = [Act_Cookies (getLogoutCookies E), Act_Index] in
      case map_option ai_Details (initial_info sess) of
        Some (Details_Authenticator i) \<Rightarrow> (Ok [Act_Redirect To_AuthenticatorAuthenticate], s)
      | Some (Details_IdentityProvider d) \<Rightarrow>
          if ii_Type d \<notin> {GITHUB, OIDC, SAML} then (Ok out, s)
          else
            go_seq (deref (ii_IdentityProviderRef d), s) (\<lambda>ref s.
            case getWebProviderFromUID (le_Providers L) (or_Uid ref) of
              Panic \<Rightarrow> (Panic, s)
            | Fail e \<Rightarrow> (Ok out, snd (cl_Delete (hc_Session C) \<lparr>do_Uid = md_Uid (se_Metadata sess), do_Name = []\<rparr> s))
            | Ok p \<Rightarrow>
                (case doGenerateLoginState E L p (hr_RawQuery r) r s of
                   (Panic, s) \<Rightarrow> (Panic, s)
                 | (Fail e, s) \<Rightarrow> (Ok [Act_Status 400], s)
                 | (Ok (st, act), s) \<Rightarrow> (Ok [act, Act_Redirect (To_URL (ls_LoginURL st))], s)))
      | _ \<Rightarrow> (Ok out, s))"

definition handleLogin ::
  "auth_env \<Rightarrow> 's login_env \<Rightarrow> 's auth_clients \<Rightarrow> http_req \<Rightarrow> 's \<Rightarrow> http_act list go \<times> 's" where
  "handleLogin E L C r s =
     (case getWebSessionFromHTTPRefreshCookie E C (hr_Header r) s of
        (Panic, s) \<Rightarrow> (Panic, s)
      | (Fail e, s) \<Rightarrow> (Ok [Act_Cookies (getLogoutCookies E), Act_Index], s)
      | (Ok sess, s) \<Rightarrow>
          go_seq (ShouldRefresh (ae_now E) sess, s) (\<lambda>refresh s.
          let redirect = hr_Query r ''redirect''; referer = GetHeaderValueMust (hr_Header r) ''referer'' in
          if \<not> refresh \<and> hr_Query r ''octelium_req'' = []
          then
            (if redirect \<noteq> [] \<and> isURLSameClusterOrigin L (ae_domain E) redirect
             then (Ok [Act_Redirect (To_URL redirect)], s) else (Ok [Act_Redirect To_Portal], s))
          else if \<not> refresh \<and> referer \<noteq> [] \<and> \<not> isURLSameClusterOrigin L (ae_domain E) referer
          then (Ok [Act_Redirect To_Root], s)
          else login_again E L C r sess s))"

end
