(* ===== verification/AuthDevices.thy ===== *)
theory AuthDevices imports AuthCallbacks begin

text \<open>
  \<open>cluster/authserver/authserver/device.go\<close>: how the client of a session registers the device it runs on. The parser of
  hardware addresses is a parameter; the cache holds a registration between its two steps.
\<close>

section \<open>Requests\<close>

record RegisterDevice_Info =
  dg_OsType :: int
  dg_Hostname :: string
  dg_Id :: string
  dg_SerialNumber :: string
  dg_MacAddresses :: "string list"

datatype Device_Response_Type = DResp_Unset | DResp_Command string | DResp_File string

record Device_Response =
  dp_Uid :: string
  dp_Type :: Device_Response_Type

record RegisterDeviceFinish =
  df_Uid :: string
  df_Responses :: "Device_Response list"

text \<open>A registration that was begun: the request, the identifiers of what the client is asked, and its session.\<close>

record device_registration =
  rd_Info :: "RegisterDevice_Info option"
  rd_Requests :: "string list"
  rd_sessUID :: string

record 's device_env =
  ve_ParseMAC :: "string \<Rightarrow> string option"
  ve_Cache :: "('s, device_registration) kv"
  ve_Uid :: string
  ve_NameEnd :: string

definition rgxDeviceID :: "string \<Rightarrow> bool" where
  "rgxDeviceID x \<longleftrightarrow>
     length x = 64 \<and> list_all (\<lambda>c. (CHR ''a'' \<le> c \<and> c \<le> CHR ''f'') \<or> (CHR ''0'' \<le> c \<and> c \<le> CHR ''9'')) x"

definition rgxDeviceRegistrationUID :: "string \<Rightarrow> bool" where
  "rgxDeviceRegistrationUID x \<longleftrightarrow>
     length x = 10 \<and> list_all (\<lambda>c. (CHR ''a'' \<le> c \<and> c \<le> CHR ''z'') \<or> (CHR ''0'' \<le> c \<and> c \<le> CHR ''9'')) x"

definition check_serial :: "string \<Rightarrow> unit go" where
  "check_serial n =
     (if n = [] then Ok ()
      else
        go_bind (reject_if (128 < length n) (Errorf ''Serial Number is too long'')) (\<lambda>_.
        go_bind (reject_if (length n < 6) (Errorf ''Serial Number is too short'')) (\<lambda>_.
        reject_if (ToLower n \<in> {''0'', ''default string'', ''null'', ''nil''}) (Errorf ''Invalid serial number''))))"

definition validateRegisterDeviceBeginRequest :: "'s device_env \<Rightarrow> RegisterDevice_Info option \<Rightarrow> unit go" where
  "validateRegisterDeviceBeginRequest D req =
     (case req of
        None \<Rightarrow> Fail InvalidArg
      | Some info \<Rightarrow>
          go_bind (reject_if (dg_Id info = []) (Errorf ''Empty ID'')) (\<lambda>_.
          go_bind (reject_if (\<not> rgxDeviceID (dg_Id info)) (Errorf ''Invalid ID'')) (\<lambda>_.
          go_bind (reject_if (32 < length (dg_Hostname info)) (Errorf ''Hostname is too long'')) (\<lambda>_.
          go_bind (check_serial (dg_SerialNumber info)) (\<lambda>_.
          go_bind (reject_if (dg_OsType info = 0) (Errorf ''Unknown osType'')) (\<lambda>_.
          go_bind (reject_if (dg_OsType info \<in> {4, 5}) (Errorf ''Unsupported osType'')) (\<lambda>_.
          go_bind (reject_if (16 < length (dg_MacAddresses info)) (Errorf ''Too many mac addrs'')) (\<lambda>_.
          reject_if (list_ex (\<lambda>a. ve_ParseMAC D a = None) (dg_MacAddresses info)) (Errorf ''Invalid mac addr'')))))))))"

definition check_response :: "Device_Response \<Rightarrow> unit go" where
  "check_response resp =
     go_bind (reject_if (\<not> rgxDeviceRegistrationUID (dp_Uid resp)) InvalidArg) (\<lambda>_.
     case dp_Type resp of
       DResp_Command out \<Rightarrow> reject_if (10000 < length out) InvalidArg
     | DResp_File out \<Rightarrow> reject_if (10000 < length out) InvalidArg
     | DResp_Unset \<Rightarrow> Fail InvalidArg)"

definition validateRegisterDeviceFinishRequest :: "RegisterDeviceFinish \<Rightarrow> unit go" where
  "validateRegisterDeviceFinishRequest req =
     go_bind (reject_if (\<not> rgxDeviceRegistrationUID (df_Uid req)) InvalidArg) (\<lambda>_.
     go_bind (reject_if (100 < length (df_Responses req)) InvalidArg) (\<lambda>_.
     go_each check_response (df_Responses req)))"

section \<open>Limits\<close>

definition device_defaults :: "ClusterConfig \<Rightarrow> User_Type \<Rightarrow> Device_Defaults option" where
  "device_defaults cc t =
     (case ccs_Device (cc_Spec cc) of
        None \<Rightarrow> None
      | Some d \<Rightarrow> (case t of HUMAN \<Rightarrow> cdv_Human d | WORKLOAD \<Rightarrow> cdv_Workload d | _ \<Rightarrow> None))"

definition defaultMaxDevicePerUser :: "32 word" where
  "defaultMaxDevicePerUser = 32"

definition max_devices :: "ClusterConfig \<Rightarrow> User_Type \<Rightarrow> 32 word" where
  "max_devices cc t =
     (let configured = (case device_defaults cc t of None \<Rightarrow> 0 | Some d \<Rightarrow> dd_MaxPerUser d);
          maxPerUser = (if configured = 0 then defaultMaxDevicePerUser else configured) in
      if maxPerUser > 10000 then 10000 else maxPerUser)"

definition device_ref :: "Device \<Rightarrow> ObjectReference option" where
  "device_ref d = GetObjectReference (dv_ApiVersion d) (dv_Kind d) (Some (dv_Metadata d))"

definition with_device :: "ObjectReference option \<Rightarrow> Session \<Rightarrow> Session" where
  "with_device d sess = sess\<lparr>se_Status := (se_Status sess)\<lparr>st_DeviceRef := d\<rparr>\<rparr>"

definition device_owner :: "Device \<Rightarrow> ObjectReference go" where
  "device_owner d = go_bind (deref (dv_Status d)) (\<lambda>t. deref (dt_UserRef t))"

text \<open>A device of the user that is known already becomes that of the session, and the call fails.\<close>

definition known_device ::
  "'s auth_clients \<Rightarrow> User \<Rightarrow> Session \<Rightarrow> string \<Rightarrow> string \<Rightarrow> 's \<Rightarrow> unit go \<times> 's" where
  "known_device C usr sess field v s =
     go_seq (on_err errInternalErr (cl_List (hc_Device C) (no_list_options\<lparr>lo_Filters := [FilterFieldEQValStr field v]\<rparr>) s)) (\<lambda>devs s.
     case devs of
       [] \<Rightarrow> (Ok (), s)
     | dev # _ \<Rightarrow>
         go_seq (device_owner dev, s) (\<lambda>u s.
         go_seq (reject_if (or_Uid u \<noteq> md_Uid (ur_Metadata usr)) InvalidArg, s) (\<lambda>_ s.
         go_seq (on_err errInternalErr (cl_Update (hc_Session C) (with_device (device_ref dev) sess) s)) (\<lambda>_ s.
         (Fail AlreadyExists, s)))))"

definition checkCanCreateDevice ::
  "'s auth_clients \<Rightarrow> ClusterConfig \<Rightarrow> User \<Rightarrow> Session \<Rightarrow> RegisterDevice_Info \<Rightarrow> 's \<Rightarrow> unit go \<times> 's" where
  "checkCanCreateDevice C cc usr sess info s =
     go_seq (known_device C usr sess ''status.id'' (dg_Id info) s) (\<lambda>_ s.
     go_seq (if dg_SerialNumber info \<noteq> [] then known_device C usr sess ''status.serialNumber'' (dg_SerialNumber info) s
             else (Ok (), s)) (\<lambda>_ s.
     go_seq (on_err errInternalErr (cl_List (hc_Device C) (FilterByUser usr) s)) (\<lambda>devList s.
     (reject_if (unat (max_devices cc (us_Type (ur_Spec usr))) \<le> length devList) PermissionDenied, s))))"

section \<open>Registration\<close>

definition getDeviceRegistrationKey :: "string \<Rightarrow> string" where
  "getDeviceRegistrationKey uid = ''octelium.dev-registration.'' @ uid"

fun lower_os_name :: "int \<Rightarrow> string" where
  "lower_os_name n =
     (if n = 1 then ''linux'' else if n = 2 then ''windows'' else if n = 3 then ''mac'' else if n = 4 then ''android''
      else if n = 5 then ''ios'' else if n = 0 then ''os_type_unknown''
      else if n < 0 then CHR ''-'' # dec (nat (- n)) else dec (nat n))"

definition device_state :: "ClusterConfig \<Rightarrow> User_Type \<Rightarrow> Device_State" where
  "device_state cc t =
     (case device_defaults cc t of
        None \<Rightarrow> DEVICE_ACTIVE
      | Some d \<Rightarrow> if dd_DefaultState d \<noteq> DEVICE_STATE_UNKNOWN then dd_DefaultState d else DEVICE_ACTIVE)"

definition doBuildDevice ::
  "'s device_env \<Rightarrow> ClusterConfig \<Rightarrow> RegisterDevice_Info \<Rightarrow> User \<Rightarrow> Device go" where
  "doBuildDevice D cc info usr =
     go_bind
       (go_mapM (\<lambda>a. case ve_ParseMAC D a of None \<Rightarrow> Fail (Errorf ''invalid MAC address'') | Some hw \<Rightarrow> Ok hw) (dg_MacAddresses info))
       (\<lambda>macAddrs.
     Ok \<lparr>dv_ApiVersion = [], dv_Kind = [],
         dv_Metadata = no_metadata\<lparr>md_Name := lower_os_name (dg_OsType info) @ ''-'' @ ve_NameEnd D\<rparr>,
         dv_Spec = \<lparr>ds_State = device_state cc (us_Type (ur_Spec usr)), ds_Authorization = None\<rparr>,
         dv_Status = Some
           \<lparr>dt_Ext = [], dt_UserRef = GetObjectReference (ur_ApiVersion usr) (ur_Kind usr) (Some (ur_Metadata usr)),
            dt_OsType = dg_OsType info, dt_Hostname = dg_Hostname info, dt_Id = dg_Id info,
            dt_SerialNumber = dg_SerialNumber info, dt_IsLocked = False, dt_MacAddresses = macAddrs\<rparr>\<rparr>)"

definition doRegisterDeviceBegin ::
  "auth_env \<Rightarrow> 's device_env \<Rightarrow> 's auth_clients \<Rightarrow> grpc_md \<Rightarrow> RegisterDevice_Info option \<Rightarrow> 's \<Rightarrow> string go \<times> 's" where
  "doRegisterDeviceBegin E D C md req s =
     go_seq (validateRegisterDeviceBeginRequest D req, s) (\<lambda>_ s.
     go_seq (deref req, s) (\<lambda>info s.
     go_seq (getSessionFromGRPCCtx E C md s) (\<lambda>sess s.
     go_seq (reject_if (st_Type (se_Status sess) \<noteq> CLIENT) PermissionDenied, s) (\<lambda>_ s.
     go_seq (checkSessionValid (ae_now E) sess, s) (\<lambda>_ s.
     go_seq (reject_if (st_DeviceRef (se_Status sess) \<noteq> None) AlreadyExists, s) (\<lambda>_ s.
     go_seq (cl_Get (hc_ClusterConfig C) (by_name ''default'') s) (\<lambda>cc s.
     go_seq (getUserFromSession C sess s) (\<lambda>usr s.
     go_seq (checkCanCreateDevice C cc usr sess info s) (\<lambda>_ s.
     go_seq (on_err errInternalErr
       (kv_Set (ve_Cache D) (getDeviceRegistrationKey (ve_Uid D))
         \<lparr>rd_Info = Some info, rd_Requests = [], rd_sessUID = md_Uid (se_Metadata sess)\<rparr> (Seconds 20) s)) (\<lambda>_ s.
     (Ok (ve_Uid D), s)))))))))))"

definition loadDeviceRegistrationBeginReq ::
  "'s device_env \<Rightarrow> Session \<Rightarrow> RegisterDeviceFinish \<Rightarrow> 's \<Rightarrow> RegisterDevice_Info option go \<times> 's" where
  "loadDeviceRegistrationBeginReq D sess reqi s =
     go_seq (kv_Take (ve_Cache D) (getDeviceRegistrationKey (df_Uid reqi)) s) (\<lambda>d s.
     go_seq (reject_if (rd_sessUID d \<noteq> md_Uid (se_Metadata sess)) InvalidArg, s) (\<lambda>_ s.
     go_seq (reject_if (length (df_Responses reqi) \<noteq> length (rd_Requests d)) InvalidArg, s) (\<lambda>_ s.
     go_seq (reject_if (list_ex (\<lambda>uid. uid \<notin> dp_Uid ` set (df_Responses reqi)) (rd_Requests d)) InvalidArg, s) (\<lambda>_ s.
     (Ok (rd_Info d), s)))))"

definition getDeviceByID :: "'s auth_clients \<Rightarrow> string \<Rightarrow> 's \<Rightarrow> Device go \<times> 's" where
  "getDeviceByID C i s =
     go_seq (on_err errInternalErr (cl_List (hc_Device C) (no_list_options\<lparr>lo_Filters := [FilterFieldEQValStr ''status.id'' i]\<rparr>) s)) (\<lambda>devs s.
     (case devs of [d] \<Rightarrow> Ok d | _ \<Rightarrow> Fail NotFound, s))"

definition owned_by :: "Device \<Rightarrow> User \<Rightarrow> bool go" where
  "owned_by d usr =
     go_map (\<lambda>t. case dt_UserRef t of None \<Rightarrow> False | Some u \<Rightarrow> or_Uid u = md_Uid (ur_Metadata usr)) (deref (dv_Status d))"

definition doRegisterDeviceFinish ::
  "auth_env \<Rightarrow> 's device_env \<Rightarrow> 's auth_clients \<Rightarrow> grpc_md \<Rightarrow> RegisterDeviceFinish \<Rightarrow> 's \<Rightarrow> unit go \<times> 's" where
  "doRegisterDeviceFinish E D C md reqi s =
     go_seq (validateRegisterDeviceFinishRequest reqi, s) (\<lambda>_ s.
     go_seq (getSessionFromGRPCCtx E C md s) (\<lambda>sess s.
     go_seq (checkSessionValid (ae_now E) sess, s) (\<lambda>_ s.
     go_seq (loadDeviceRegistrationBeginReq D sess reqi s) (\<lambda>req s.
     go_seq (map_err errInvalidArgErr (validateRegisterDeviceBeginRequest D req), s) (\<lambda>_ s.
     go_seq (deref req, s) (\<lambda>info s.
     go_seq (reject_if (st_Type (se_Status sess) \<noteq> CLIENT) PermissionDenied, s) (\<lambda>_ s.
     go_seq (reject_if (st_DeviceRef (se_Status sess) \<noteq> None) AlreadyExists, s) (\<lambda>_ s.
     go_seq (getUserFromSession C sess s) (\<lambda>usr s.
     go_seq
       (case getDeviceByID C (dg_Id info) s of
          (Ok dev, s) \<Rightarrow> go_seq (owned_by dev usr, s) (\<lambda>own s. (reject_if own AlreadyExists, s))
        | (Fail e, s) \<Rightarrow> (Ok (), s)
        | (Panic, s) \<Rightarrow> (Panic, s)) (\<lambda>_ s.
     go_seq (get_cluster C s) (\<lambda>cc s.
     go_seq (doBuildDevice D cc info usr, s) (\<lambda>devReq s.
     go_seq (cl_Create (hc_Device C) devReq s) (\<lambda>dev s.
     go_seq (cl_Update (hc_Session C) (with_device (device_ref dev) sess) s) (\<lambda>_ s. (Ok (), s)))))))))))))))"

end
