(* ===== verification/AuthPasskeys.thy ===== *)
theory AuthPasskeys imports AuthDevices begin

text \<open>
  \<open>cluster/authserver/authserver\<close>: the cache of the authenticators that are FIDO keys (\<open>rsccache/rsccache.go\<close>, kept in step with the
  authenticators by the watchers of \<open>server.go\<close>) and the login with a passkey (\<open>passkey.go\<close>). The hash and the library for WebAuthn
  are parameters.
\<close>

section \<open>The cache of authenticators\<close>

text \<open>The buckets of the database for users and for authenticators.\<close>

record rsc_cache =
  rx_User :: "string \<rightharpoonup> Authenticator"
  rx_Authenticator :: "string \<rightharpoonup> Authenticator"

definition empty_rsc_cache :: rsc_cache where
  "empty_rsc_cache = \<lparr>rx_User = Map.empty, rx_Authenticator = Map.empty\<rparr>"

definition fido_of :: "Authenticator \<Rightarrow> Authenticator_FIDO option" where
  "fido_of a = (case ats_Info (atr_Status a) of Some (Info_Fido f) \<Rightarrow> Some f | _ \<Rightarrow> None)"

definition SetAuthenticator :: "Authenticator \<Rightarrow> rsc_cache \<Rightarrow> rsc_cache" where
  "SetAuthenticator authn c =
     (case fido_of authn of
        None \<Rightarrow> c
      | Some f \<Rightarrow>
          if ats_IsRegistered (atr_Status authn) \<and> ats_Type (atr_Status authn) = FIDO \<and> af_IdHash f \<noteq> []
          then c\<lparr>rx_Authenticator := (rx_Authenticator c)(af_IdHash f \<mapsto> authn)\<rparr>
          else c)"

definition GetAuthenticatorByCredID :: "(string \<Rightarrow> string) \<Rightarrow> string \<Rightarrow> rsc_cache \<Rightarrow> Authenticator go" where
  "GetAuthenticatorByCredID sha i c =
     (if i = [] then Fail ErrNotFound
      else (case rx_Authenticator c (sha i) of None \<Rightarrow> Fail ErrNotFound | Some a \<Rightarrow> Ok a))"

text \<open>A removal takes the key out of the bucket of the users.\<close>

definition DeleteAuthenticator :: "(string \<Rightarrow> string) \<Rightarrow> Authenticator \<Rightarrow> rsc_cache \<Rightarrow> rsc_cache" where
  "DeleteAuthenticator sha authn c =
     (case fido_of authn of
        None \<Rightarrow> c
      | Some f \<Rightarrow> if af_Id f = [] then c else c\<lparr>rx_User := (rx_User c)(sha (af_Id f) := None)\<rparr>)"

definition authenticator_event :: "(string \<Rightarrow> string) \<Rightarrow> Authenticator watch \<Rightarrow> rsc_cache \<Rightarrow> rsc_cache" where
  "authenticator_event sha ev c =
     (case ev of
        OnAdd x \<Rightarrow> SetAuthenticator x c
      | OnUpdate new old \<Rightarrow> SetAuthenticator new c
      | OnDelete x \<Rightarrow> DeleteAuthenticator sha x c)"

section \<open>Logging in with a passkey\<close>

record passkey_response =
  wr_Challenge :: string
  wr_RawID :: string
  wr_UserHandle :: string
  wr_Rest :: string

record 'w passkeyState =
  ps_Session :: 'w
  ps_Query :: string

text \<open>
  The library: the data of a ceremony and its challenge, the request for the browser, the parser of a response, the checks it
  makes before it asks for the user and those it makes with the credentials of the user.
\<close>

record ('s, 'w) passkey_env =
  wp_Begin :: "('w \<times> string) go"
  wp_ChallengeOf :: "'w \<Rightarrow> string"
  wp_Parse :: "string \<Rightarrow> passkey_response go"
  wp_Before :: "'w \<Rightarrow> passkey_response \<Rightarrow> unit go"
  wp_Validate :: "'w \<Rightarrow> passkey_response \<Rightarrow> Authenticator \<Rightarrow> User \<Rightarrow> (bool \<times> bool) go"
  wp_UserID :: "string \<Rightarrow> string"
  wp_Sha256 :: "string \<Rightarrow> string"
  wp_States :: "('s, 'w passkeyState) kv"
  wp_Cache :: rsc_cache
  wp_Config :: ClusterConfig

definition checkGRPCRequestIsWeb :: "auth_env \<Rightarrow> grpc_md \<Rightarrow> unit go" where
  "checkGRPCRequestIsWeb E md =
     go_bind (reject_if (GetHeaderValueMust md ''origin'' \<noteq> ''https://'' @ ae_domain E) InvalidArg) (\<lambda>_.
     map_err errInvalidArgErr (ValidateBrowserUserAgent (ae_V E) (GetHeaderValueMust md ''user-agent'')))"

definition passkeys_enabled :: "ClusterConfig \<Rightarrow> unit go" where
  "passkeys_enabled cc =
     reject_if (case ccs_Authenticator (cc_Spec cc) of None \<Rightarrow> True | Some a \<Rightarrow> \<not> ca_EnablePasskeyLogin a) PermissionDenied"

definition getPasskeyKey :: "string \<Rightarrow> string" where
  "getPasskeyKey challenge = ''octelium:passkey:'' @ challenge"

definition savePasskeyState :: "('s, 'w) passkey_env \<Rightarrow> 'w passkeyState \<Rightarrow> 's \<Rightarrow> unit go \<times> 's" where
  "savePasskeyState P state s = kv_Set (wp_States P) (getPasskeyKey (wp_ChallengeOf P (ps_Session state))) state (Minutes 2) s"

definition loadPasskeyState :: "auth_env \<Rightarrow> ('s, 'w) passkey_env \<Rightarrow> string \<Rightarrow> 's \<Rightarrow> 'w passkeyState go \<times> 's" where
  "loadPasskeyState E P challenge s =
     go_seq (reject_if (length challenge < 32 \<or> 64 < length challenge) InvalidArg, s) (\<lambda>_ s.
     go_seq (reject_if (\<not> IsASCII (ae_V E) challenge) InvalidArg, s) (\<lambda>_ s.
     kv_Take (wp_States P) (getPasskeyKey challenge) s))"

definition doAuthenticateWithPasskeyBegin ::
  "auth_env \<Rightarrow> 's login_env \<Rightarrow> ('s, 'w) passkey_env \<Rightarrow> grpc_md \<Rightarrow> string \<Rightarrow> 's \<Rightarrow> string go \<times> 's" where
  "doAuthenticateWithPasskeyBegin E L P md query s =
     go_seq (if query \<noteq> [] then map_err errInvalidArgErr (validateLoginQuery L (ae_V E) query) else Ok (), s) (\<lambda>_ s.
     go_seq (checkGRPCRequestIsWeb E md, s) (\<lambda>_ s.
     go_seq (passkeys_enabled (wp_Config P), s) (\<lambda>_ s.
     go_seq (wp_Begin P, s) (\<lambda>(sess, req) s.
     go_seq (savePasskeyState P \<lparr>ps_Session = sess, ps_Query = query\<rparr> s) (\<lambda>_ s. (Ok req, s))))))"

text \<open>The user and the authenticator behind a response, what the key says of the user, and the query that the login began with.\<close>

definition doAuthenticationWithPasskey ::
  "auth_env \<Rightarrow> ('s, 'w) passkey_env \<Rightarrow> 's auth_clients \<Rightarrow> string \<Rightarrow> 's \<Rightarrow> (User \<times> Authenticator \<times> (bool \<times> bool) \<times> string) go \<times> 's"
where
  "doAuthenticationWithPasskey E P C response s =
     go_seq (reject_if (length response < 100 \<or> 5000 < length response) (Errorf ''Invalid response length''), s) (\<lambda>_ s.
     go_seq (reject_if (\<not> IsASCII (ae_V E) response) (Errorf ''Invalid response''), s) (\<lambda>_ s.
     go_seq (wp_Parse P response, s) (\<lambda>parsed s.
     go_seq (loadPasskeyState E P (wr_Challenge parsed) s) (\<lambda>state s.
     go_seq (wp_Before P (ps_Session state) parsed, s) (\<lambda>_ s.
     go_seq (GetAuthenticatorByCredID (wp_Sha256 P) (wr_RawID parsed) (wp_Cache P), s) (\<lambda>authn s.
     go_seq (deref (ats_UserRef (atr_Status authn)), s) (\<lambda>u s.
     go_seq (cl_Get (hc_User C) (by_uid (or_Uid u)) s) (\<lambda>usr s.
     go_seq (reject_if (wp_UserID P (md_Uid (ur_Metadata usr)) \<noteq> wr_UserHandle parsed) (Errorf ''Incorrect userHandle''), s) (\<lambda>_ s.
     go_seq (wp_Validate P (ps_Session state) parsed authn usr, s) (\<lambda>cred s.
     (Ok (usr, authn, cred, ps_Query state), s)))))))))))"

definition passkey_info :: "Authenticator \<Rightarrow> bool \<times> bool \<Rightarrow> Authentication_Info" where
  "passkey_info authn cred =
     \<lparr>ai_Type = AUTHENTICATOR,
      ai_Details = Details_Authenticator
        \<lparr>ia_AuthenticatorRef = authenticator_ref authn, ia_Type = FIDO,
         ia_Info = Some (getSessionAuthenticatorInfoFIDO cred authn), ia_Mode = PASSKEY\<rparr>,
      ai_Aal = 0, ai_Downstream = None\<rparr>"

text \<open>A query that no longer makes sense, or a state that cannot be saved, is passed over.\<close>

definition save_passkey_callback ::
  "auth_env \<Rightarrow> 's login_env \<Rightarrow> Session \<Rightarrow> string \<Rightarrow> 's \<Rightarrow> unit go \<times> 's" where
  "save_passkey_callback E L sess query s =
     (if query = [] then (Ok (), s)
      else
        (case generateCallbackURL L (ae_V E) (ae_domain E) query of
           Panic \<Rightarrow> (Panic, s)
         | Fail e \<Rightarrow> (Ok (), s)
         | Ok (callbackURL, isApp) \<Rightarrow>
             (case saveAuthenticatorCallbackState L sess callbackURL isApp s of
                (Panic, s) \<Rightarrow> (Panic, s)
              | (_, s) \<Rightarrow> (Ok (), s))))"

definition doAuthenticateWithPasskey ::
  "auth_env \<Rightarrow> 's login_env \<Rightarrow> ('s, 'w) passkey_env \<Rightarrow> 's auth_clients \<Rightarrow> grpc_md \<Rightarrow> string \<Rightarrow> 's \<Rightarrow>
   (SessionToken \<times> cookie list) go \<times> 's"
where
  "doAuthenticateWithPasskey E L P C md response s =
     go_seq (checkGRPCRequestIsWeb E md, s) (\<lambda>_ s.
     go_seq (passkeys_enabled (wp_Config P), s) (\<lambda>_ s.
     go_seq (on_err (\<lambda>_. Unauthorized) (doAuthenticationWithPasskey E P C response s)) (\<lambda>(usr, authn, cred, query) s.
     let authInfo = passkey_info authn cred; cc = wp_Config P in
     go_seq (map_err errPermissionDeniedErr (doPostAuthenticatorAuthenticationRules E cc authn None usr authInfo), s) (\<lambda>_ s.
     go_seq (auth_checkMaxSessionsPerUser C usr cc s) (\<lambda>_ s.
     go_seq (on_err errInternalErr
       (createWebSession E C usr authInfo cc None
         (GetHeaderValueMust md ''user-agent'') (GetHeaderValueMust md ''x-forwarded-for'') s)) (\<lambda>sess s.
     go_seq (save_passkey_callback E L sess query s) (\<lambda>_ s.
     (generateSessionTokenResponse E sess, s))))))))"

end
