(* ===== verification/AuthFacts.thy ===== *)
theory AuthFacts imports AuthPasskeys JwkctlFacts begin

text \<open>
  What the calls of the authentication server rely on when they succeed: the session behind a refresh token, the credential
  behind a token, the authenticator and the attempt behind an answer, the user and the state behind a callback.
\<close>

section \<open>Sessions behind refresh tokens\<close>

text \<open>A session that its refresh token still stands for.\<close>

definition live_session :: "int \<Rightarrow> RefreshTokenClaims \<Rightarrow> Session \<Rightarrow> bool" where
  "live_session now claims sess \<longleftrightarrow>
     rf_SessionUID claims = md_Uid (se_Metadata sess) \<and>
     (\<exists>a. st_Authentication (se_Status sess) = Some a \<and> au_TokenID a = rf_TokenID claims) \<and>
     \<not> IsExpired now sess \<and> HasValidRefreshToken now sess = Ok True \<and> ss_State (se_Spec sess) \<noteq> REJECTED \<and>
     \<not> st_IsLocked (se_Status sess)"

lemma check_session_Ok: "check_session now claims sess = Ok u \<longleftrightarrow> live_session now claims sess"
  by (auto simp: check_session_def live_session_def)

text \<open>The session that a call presents the refresh token of, and the state after the call for it.\<close>

definition presents :: "auth_env \<Rightarrow> 's auth_clients \<Rightarrow> string \<Rightarrow> 's \<Rightarrow> Session \<Rightarrow> 's \<Rightarrow> bool" where
  "presents E C tkn s sess s' \<longleftrightarrow>
     (\<exists>claims. VerifyRefreshToken (ae_T E) (ae_now E) (ae_keys E) tkn = Ok claims \<and>
       cl_Get (hc_Session C) (by_uid (rf_SessionUID claims)) s = (Ok sess, s') \<and> live_session (ae_now E) claims sess)"

lemma getSessionFromRefreshToken_Ok:
  "getSessionFromRefreshToken E C t s = (Ok sess, s') \<Longrightarrow> presents E C t s sess s'"
  by (auto simp: getSessionFromRefreshToken_def check_session_Ok presents_def dest!: go_seq_Ok)

lemma getSessionFromGRPCCtx_Ok:
  "getSessionFromGRPCCtx E C md s = (Ok sess, s') \<Longrightarrow> presents E C (refresh_token_of md) s sess s'"
  by (auto simp: getSessionFromGRPCCtx_def dest!: go_seq_Ok getSessionFromRefreshToken_Ok)

lemma getWebSession_Ok:
  assumes "getWebSessionFromHTTPRefreshCookie E C hdr s = (Ok sess, s')"
  shows "\<exists>t. request_cookie hdr ''octelium_rt'' = Some t \<and> presents E C t s sess s' \<and> st_IsBrowser (se_Status sess)"
  using assms
  by (auto simp: getWebSessionFromHTTPRefreshCookie_def split: option.splits dest!: go_seq_Ok getSessionFromRefreshToken_Ok)

lemma getUserFromUserRef_Ok:
  assumes "getUserFromUserRef C ref s = (Ok usr, s')"
  shows "\<exists>r. ref = Some r \<and> cl_Get (hc_User C) (by_uid (or_Uid r)) s = (Ok usr, s') \<and> \<not> us_IsDisabled (ur_Spec usr) \<and>
    (\<exists>t. ur_Status usr = Some t \<and> \<not> ut_IsLocked t)"
  using assms by (auto simp: getUserFromUserRef_def dest!: go_seq_Ok)

section \<open>Second factors\<close>

text \<open>The challenge of an attempt: what is stored with it, opened with the key that it names.\<close>

definition challenge_of ::
  "'s factor_env \<Rightarrow> 's auth_clients \<Rightarrow> AuthenticationAttempt \<Rightarrow> 's \<Rightarrow> challenge_request \<Rightarrow> 's \<Rightarrow> bool" where
  "challenge_of F C attempt s ch s' \<longleftrightarrow>
     (\<exists>enc k key b. tt_EncryptedChallengeRequest attempt = Some enc \<and> ed_KeySecretRef enc = Some k \<and>
       cl_Get (hc_Secret C) (by_uid (or_Uid k)) s = (Ok key, s') \<and>
       cy_Open (fe_Crypt F) (GetValueStr key) (ed_Nonce enc) (ed_Ciphertext enc) = Ok b \<and> fe_Unmarshal F b = Ok ch)"

fun of_one_kind :: "challenge_request \<Rightarrow> ChallengeResponse \<Rightarrow> Authenticator_Type \<Rightarrow> bool" where
  "of_one_kind (Challenge_Fido c) (Response_Fido r) FIDO = True"
| "of_one_kind (Challenge_Totp c) (Response_Totp r) TOTP = True"
| "of_one_kind (Challenge_Tpm c) (Response_Tpm r) TPM = True"
| "of_one_kind _ _ _ = False"

text \<open>
  What stands behind an authentication with an authenticator: the one that is referred to belongs to the user of the session and is
  registered, its limits on attempts are kept, the same session has begun the attempt at most twenty minutes before, the answer is of
  the kind of the attempt's own challenge and of the authenticator, the factor has accepted it for that challenge, and no
  rule of the cluster denies it.
\<close>

definition factor_accepted ::
  "auth_env \<Rightarrow> 's factor_env \<Rightarrow> 's auth_clients \<Rightarrow> ClusterConfig \<Rightarrow> User \<Rightarrow> Session \<Rightarrow> ObjectReference option \<Rightarrow> ChallengeResponse option \<Rightarrow>
   's \<Rightarrow> Authentication_Info \<Rightarrow> bool"
where
  "factor_accepted E F C cc usr sess ref resp s info \<longleftrightarrow>
     (\<exists>r authn attempt s1 s2. ref = Some r \<and> cl_Get (hc_Authenticator C) \<lparr>go_Uid = or_Uid r, go_Name = or_Name r\<rparr> s = (Ok authn, s1) \<and>
       (\<exists>u own b. ats_UserRef (atr_Status authn) = Some u \<and> st_UserRef (se_Status sess) = Some own \<and> or_Uid u = or_Uid own \<and>
         ats_AuthenticationAttempt (atr_Status authn) = Some attempt \<and> tt_SessionRef attempt = Some b \<and>
         or_Uid b = md_Uid (se_Metadata sess)) \<and>
       ats_IsRegistered (atr_Status authn) \<and> checkAuthenticatorRateLimit F authn s1 = (Ok (), s2) \<and>
       ae_now E - 1200000000000 \<le> AsTime (tt_CreatedAt attempt) \<and>
       (\<exists>ch cr fac cred s3 s4. challenge_of F C attempt s2 ch s3 \<and> resp = Some cr \<and>
         of_one_kind ch cr (ats_Type (atr_Status authn)) \<and> getAuthenticatorCtl F (hc_Secret C) cc authn = Ok fac \<and>
         fa_Finish fac authn usr cr ch s3 = (Ok cred, s4) \<and> info = authenticator_info (succeeded authn) sess cred) \<and>
       doPostAuthenticatorAuthenticationRules E cc (succeeded authn) (Some sess) usr info = Ok ())"

lemma check_kinds_Ok: "check_kinds ch cr ty = Ok u \<longleftrightarrow> of_one_kind ch cr ty"
  by (cases ch; cases cr; cases ty) (simp_all add: check_kinds_def)

lemma DecryptData_Ok:
  assumes "DecryptData (fe_Crypt F) (hc_Secret C) (tt_EncryptedChallengeRequest attempt) s = (Ok b, s')" and "fe_Unmarshal F b = Ok ch"
  shows "challenge_of F C attempt s ch s'"
  using assms by (auto simp: DecryptData_def challenge_of_def dest!: go_seq_Ok)

lemma getAuthenticator_Ok:
  assumes "getAuthenticator E C ref sess s = (Ok authn, s')"
  shows "\<exists>u own. ats_UserRef (atr_Status authn) = Some u \<and> st_UserRef (se_Status sess) = Some own \<and> or_Uid u = or_Uid own"
    "\<exists>r. ref = Some r \<and> cl_Get (hc_Authenticator C) \<lparr>go_Uid = or_Uid r, go_Name = or_Name r\<rparr> s = (Ok authn, s')"
  using assms by (auto simp: getAuthenticator_def split: option.splits dest!: go_seq_Ok)

lemma current_attempt_Ok:
  "current_attempt authn sess = Ok a \<Longrightarrow>
     ats_AuthenticationAttempt (atr_Status authn) = Some a \<and> (\<exists>r. tt_SessionRef a = Some r \<and> or_Uid r = md_Uid (se_Metadata sess))"
  by (auto simp: current_attempt_def split: option.splits if_splits)

lemma factor_failed_not_Ok: "factor_failed C authn e s \<noteq> (Ok x, s')"
  by (auto simp: factor_failed_def split: prod.splits go.splits)

lemma doAuthenticateAuthenticator_Ok:
  assumes "doAuthenticateAuthenticator E F C cc ref resp usr sess s = (Ok info, s')"
  shows "factor_accepted E F C cc usr sess ref resp s info"
proof -
  obtain cr where cr: "resp = Some cr" using assms by (auto simp: doAuthenticateAuthenticator_def split: option.splits)
  from assms cr obtain authn s1 s2 attempt b s3 ch fac cred s4 where
    a: "getAuthenticator E C ref sess s = (Ok authn, s1)" "ats_IsRegistered (atr_Status authn)"
      "checkAuthenticatorRateLimit F authn s1 = (Ok (), s2)"
      "current_attempt authn sess = Ok attempt" "\<not> isAuthenticationAttemptTimeoutExceeded (ae_now E) attempt"
      "DecryptData (fe_Crypt F) (hc_Secret C) (tt_EncryptedChallengeRequest attempt) s2 = (Ok b, s3)" "fe_Unmarshal F b = Ok ch"
      "check_kinds ch cr (ats_Type (atr_Status authn)) = Ok ()" "getAuthenticatorCtl F (hc_Secret C) cc authn = Ok fac"
      "fa_Finish fac authn usr cr ch s3 = (Ok cred, s4)" "info = authenticator_info (succeeded authn) sess cred"
      "doPostAuthenticatorAuthenticationRules E cc (succeeded authn) (Some sess) usr info = Ok ()"
    by (auto simp: doAuthenticateAuthenticator_def Let_def factor_failed_not_Ok split: if_splits prod.splits go.splits dest!: go_seq_Ok)
  obtain r where r: "ref = Some r" "cl_Get (hc_Authenticator C) \<lparr>go_Uid = or_Uid r, go_Name = or_Name r\<rparr> s = (Ok authn, s1)"
    using getAuthenticator_Ok(2) [OF a(1)] by blast
  have "ae_now E - 1200000000000 \<le> AsTime (tt_CreatedAt attempt)"
    using a(5) by (simp add: isAuthenticationAttemptTimeoutExceeded_def not_less)
  moreover note getAuthenticator_Ok(1) [OF a(1)] current_attempt_Ok [OF a(4)] DecryptData_Ok [OF a(6,7)] a(8) [unfolded check_kinds_Ok]
  ultimately show ?thesis
    unfolding factor_accepted_def using r cr a(2,3,9-12) by blast
qed

section \<open>Credentials\<close>

text \<open>A credential that its token still stands for.\<close>

definition live_credential :: "int \<Rightarrow> CredentialClaims \<Rightarrow> Credential \<Rightarrow> bool" where
  "live_credential now claims tkn \<longleftrightarrow>
     \<not> crs_IsDisabled (cr_Spec tkn) \<and> \<not> crt_IsLocked (cr_Status tkn) \<and> cl_TokenID claims = crt_TokenID (cr_Status tkn) \<and>
     (\<forall>t. crs_ExpiresAt (cr_Spec tkn) = Some t \<longrightarrow> now \<le> t)"

lemma check_credential_Ok: "check_credential now claims tkn = Ok u \<longleftrightarrow> live_credential now claims tkn"
  by (auto simp: check_credential_def live_credential_def not_less split: option.splits)

definition presents_credential :: "auth_env \<Rightarrow> 's auth_clients \<Rightarrow> string \<Rightarrow> 's \<Rightarrow> Credential \<Rightarrow> 's \<Rightarrow> bool" where
  "presents_credential E C t s tkn s' \<longleftrightarrow>
     (\<exists>claims. VerifyCredential (ae_T E) (ae_now E) (ae_keys E) t = Ok claims \<and>
       cl_Get (hc_Credential C) (by_uid (cl_UID claims)) s = (Ok tkn, s') \<and> live_credential (ae_now E) claims tkn)"

lemma getCredentialFromToken_Ok:
  "getCredentialFromToken E C t s = (Ok tkn, s') \<Longrightarrow> presents_credential E C t s tkn s'"
  by (auto simp: getCredentialFromToken_def check_credential_Ok presents_credential_def dest!: go_seq_Ok)

section \<open>Logins with an identity provider\<close>

text \<open>
  The user that a provider vouches for: its first identity with the provider is the one that the provider gave, or nobody has
  that identity and the provider may vouch for an address, and it is the user's.
\<close>

definition vouched_for :: "auth_env \<Rightarrow> 's auth_clients \<Rightarrow> IdentityProvider \<Rightarrow> Info_IdentityProvider \<Rightarrow> User \<Rightarrow> bool" where
  "vouched_for E C idp d usr \<longleftrightarrow>
     (\<exists>r. ii_IdentityProviderRef d = Some r \<and> ii_Identifier d \<noteq> [] \<and>
       ((\<exists>acc. account_of (or_Name r) usr = Some acc \<and> id_Identifier acc = ii_Identifier d) \<or>
        (us_Email (ur_Spec usr) = ii_Email d \<and> IsEmail (ae_V E) (ii_Email d) \<and> \<not> is_DisableEmailAsIdentity (idp_Spec idp) \<and>
         (\<exists>s s'. cl_List (hc_User C) (by_identity E (or_Name r) (ii_Identifier d)) s = (Ok [], s')))))"

lemma user_by_email_Ok:
  assumes "user_by_email E C idp email s = (Ok usr, s')"
  shows "us_Email (ur_Spec usr) = email \<and> IsEmail (ae_V E) email \<and> \<not> is_DisableEmailAsIdentity (idp_Spec idp)"
  using assms by (auto simp: user_by_email_def split: if_splits list.splits dest!: go_seq_Ok)

lemma check_account_Ok:
  "check_account n i usr = Ok u \<longleftrightarrow> (\<exists>acc. account_of n usr = Some acc \<and> id_Identifier acc = i)"
  by (auto simp: check_account_def split: option.splits)

lemma authenticateUser_Ok:
  assumes "authenticateUser E C info idp s = (Ok usr, s')"
  shows "\<exists>d. identity_of (Some info) = Some d \<and> vouched_for E C idp d usr \<and> us_Type (ur_Spec usr) = HUMAN \<and>
    \<not> us_IsDisabled (ur_Spec usr)"
proof -
  from assms obtain d where d: "identity_of (Some info) = Some d" "ii_Identifier d \<noteq> []"
    by (auto simp: authenticateUser_def split: option.splits if_splits)
  with assms obtain r usrs s1 s2 where
    r: "ii_IdentityProviderRef d = Some r" "cl_List (hc_User C) (by_identity E (or_Name r) (ii_Identifier d)) s = (Ok usrs, s1)"
    and u: "(case usrs of
              [usr] \<Rightarrow> go_seq (check_account (or_Name r) (ii_Identifier d) usr, s1) (\<lambda>_ s. (Ok usr, s))
            | [] \<Rightarrow> user_by_email E C idp (ii_Email d) s1
            | _ \<Rightarrow> (Fail no_user, s1)) = (Ok usr, s2)"
    and ok: "us_Type (ur_Spec usr) = HUMAN" "\<not> us_IsDisabled (ur_Spec usr)"
    by (auto simp: authenticateUser_def dest!: go_seq_Ok)
  have "vouched_for E C idp d usr"
    unfolding vouched_for_def using d(2) r u
    by (auto simp: check_account_Ok split: list.splits dest!: go_seq_Ok user_by_email_Ok)
  with d(1) ok show ?thesis by blast
qed

text \<open>The state that a callback continues: its identifier is in the request and in the cookie, and it is taken out of the cache.\<close>

definition continues :: "'s login_env \<Rightarrow> http_req \<Rightarrow> 's \<Rightarrow> loginState \<Rightarrow> 's \<Rightarrow> bool" where
  "continues L r s st s' \<longleftrightarrow>
     (\<exists>i. state_id r = Ok i \<and> getStateIDFromCookie r = Ok i \<and> rgxStateID i \<and> kv_Take (le_States L) (getAuthKey i) s = (Ok st, s'))"

lemma getLoginStateFromCallback_Ok:
  assumes "getLoginStateFromCallback L r s = (Ok st, s')"
  shows "continues L r s st s'"
  using assms by (auto simp: getLoginStateFromCallback_def getLoginStateFromStateID_def continues_def dest!: go_seq_Ok)

lemma getWebProviderFromUID_Ok:
  assumes "getWebProviderFromUID ps uid = Ok p"
  shows "p \<in> set ps \<and> md_Uid (idp_Metadata (cn_Provider p)) = uid \<and> \<not> is_IsDisabled (idp_Spec (cn_Provider p)) \<and>
    \<not> it_IsLocked (idp_Status (cn_Provider p))"
  using assms by (auto simp: getWebProviderFromUID_def find_Some_iff split: option.splits if_splits)

lemma act_seq_acts: "a \<in> set (fst (fst (act_seq m f))) \<Longrightarrow> \<exists>x s. m = (Ok x, s) \<and> a \<in> set (fst (fst (f x s)))"
  by (auto simp: act_seq_def split: prod.splits go.splits)

lemma to_root_acts: "to_root m = (Ok acts, s') \<Longrightarrow> a \<in> set acts \<Longrightarrow> a = Act_Redirect To_Root \<or> a \<in> set (fst (fst m))"
  by (auto simp: to_root_def split: prod.splits go.splits)

text \<open>
  The session that a login in a browser ends with: one that is begun for the user, or the one that the browser has already and that was
  begun with the same provider, under a new token identifier. It stays the session of its own user.
\<close>

definition token_id :: "Session \<Rightarrow> string option" where
  "token_id sess = map_option au_TokenID (st_Authentication (se_Status sess))"

definition begun_session :: "auth_env \<Rightarrow> 's auth_clients \<Rightarrow> User \<Rightarrow> Authentication_Info \<Rightarrow> Session \<Rightarrow> bool" where
  "begun_session E C usr info sess \<longleftrightarrow>
     (\<exists>n s s'. cl_Create (hc_Session C) n s = (Ok sess, s') \<and>
       st_UserRef (se_Status n) = GetObjectReference (ur_ApiVersion usr) (ur_Kind usr) (Some (ur_Metadata usr)) \<and>
       st_Type (se_Status n) = CLIENTLESS \<and> st_IsBrowser (se_Status n) \<and> token_id n = Some (ne_TokenID (ae_N E)) \<and>
       identity_provider_uid (initial_info n) = identity_provider_uid (Some info))"

definition renewed_session :: "auth_env \<Rightarrow> 's auth_clients \<Rightarrow> grpc_md \<Rightarrow> Authentication_Info \<Rightarrow> Session \<Rightarrow> bool" where
  "renewed_session E C hdr info sess \<longleftrightarrow>
     (\<exists>t u old n s1 s2 s3 s4. request_cookie hdr ''octelium_rt'' = Some t \<and> presents E C t s1 old s2 \<and> st_IsBrowser (se_Status old) \<and>
       identity_provider_uid (Some info) = Some u \<and> identity_provider_uid (initial_info old) = Some u \<and>
       cl_Update (hc_Session C) n s3 = (Ok sess, s4) \<and> md_Uid (se_Metadata n) = md_Uid (se_Metadata old) \<and>
       st_UserRef (se_Status n) = st_UserRef (se_Status old) \<and> token_id n = Some (ne_TokenID (ae_N E)))"

lemma createWebSession_Ok:
  "createWebSession E C usr info cc idp ua xff s = (Ok sess, s') \<Longrightarrow> begun_session E C usr info sess"
  by (auto simp: createWebSession_def NewSession_def given_config_def auth_session_opts_def begun_session_def token_id_def with_action_def
      new_session_def initial_info_def identity_provider_uid_def identity_of_def info_from_def Let_def dest!: go_seq_Ok)
    (rule exI, rule conjI, rule exI, rule exI, assumption, simp add: Let_def)

lemma SetCurrAuthentication_keeps:
  assumes "SetCurrAuthentication N sess ai ua cc xff = Ok sess'"
  shows "se_Metadata sess' = se_Metadata sess \<and> st_UserRef (se_Status sess') = st_UserRef (se_Status sess) \<and>
    token_id sess' = Some (ne_TokenID N)"
  using assms by (auto simp: SetCurrAuthentication_def Let_def prependAuthenticationToLastArray_def token_id_def split: option.splits)

lemma createOrUpdateSessWeb_Ok:
  assumes "createOrUpdateSessWeb E C hdr usr info cc idp s = (Ok sess, s')"
  shows "begun_session E C usr info sess \<or> renewed_session E C hdr info sess"
proof -
  obtain g s1 where g: "getWebSessionFromHTTPRefreshCookie E C hdr s = (g, s1)" by fastforce
  show ?thesis
  proof (cases "\<exists>old u. g = Ok old \<and> identity_provider_uid (Some info) = Some u \<and> identity_provider_uid (initial_info old) = Some u")
    case True
    then obtain old u where old: "g = Ok old" "identity_provider_uid (Some info) = Some u" "identity_provider_uid (initial_info old) = Some u"
      by blast
    from assms g old obtain x a s2 where
      x: "SetCurrAuthentication (ae_N E) old (Some info) (GetHeaderValueMust hdr ''User-Agent'') cc (GetHeaderValueMust hdr ''X-Forwarded-For'') = Ok x"
      "cl_Update (hc_Session C) (with_action a (with_picture (info_picture (Some info)) x)) s2 = (Ok sess, s')"
      by (auto simp: createOrUpdateSessWeb_def Let_def dest!: go_seq_Ok)
    let ?n = "with_action a (with_picture (info_picture (Some info)) x)"
    have "md_Uid (se_Metadata ?n) = md_Uid (se_Metadata old)" "st_UserRef (se_Status ?n) = st_UserRef (se_Status old)"
      "token_id ?n = Some (ne_TokenID (ae_N E))"
      using SetCurrAuthentication_keeps [OF x(1)] by (auto simp: with_action_def with_picture_def token_id_def)
    with getWebSession_Ok [OF g [unfolded old(1)]] old(2,3) x(2) have "renewed_session E C hdr info sess"
      unfolding renewed_session_def by blast
    then show ?thesis ..
  next
    case False
    then show ?thesis
      using assms g by (auto simp: createOrUpdateSessWeb_def Let_def split: go.splits if_splits dest: createWebSession_Ok)
  qed
qed

lemma to_callback_cookies: "Act_Cookies cs \<in> set (fst (fst (to_callback E L K cookies sess u isApp s))) \<Longrightarrow> Act_Cookies cs = cookies"
  by (auto simp: to_callback_def act_seq_def split: if_splits prod.splits go.splits)

lemma setAuthCallbackResponse_cookies:
  assumes "Act_Cookies cs \<in> set (fst (fst (setAuthCallbackResponse E L K st sess s)))"
  shows "\<exists>x y a. generateAccessToken E (Some sess) = Ok x \<and> generateRefreshToken E (Some sess) = Ok y \<and>
    st_Authentication (se_Status sess) = Some a \<and> Act_Cookies cs = login_cookies E x y a"
proof -
  from assms obtain x y a where "generateAccessToken E (Some sess) = Ok x" "generateRefreshToken E (Some sess) = Ok y"
    "st_Authentication (se_Status sess) = Some a" "Act_Cookies cs = login_cookies E x y a"
    by (auto simp: setAuthCallbackResponse_def Let_def acts_then_def split: AuthenticatorAction.splits
        dest!: act_seq_acts to_callback_cookies)
  then show ?thesis by blast
qed

end
