(* ===== verification/AuthStore.thy ===== *)
theory AuthStore imports AuthFacts SessionClaims begin

text \<open>
  The authentication server over the resource server: its clients, what is stored between its calls, and which of its steps
  change nothing; what a login with the token of a credential does to the credentials, whatever of it fails.
\<close>

section \<open>Clients and stored resources\<close>

definition auth_kinds ::
  "serve_env \<Rightarrow> (string \<Rightarrow> fate) \<Rightarrow> (Session, 'p) codec \<Rightarrow> (User, 'u) codec \<Rightarrow> (ClusterConfig, 'c) codec \<Rightarrow> (Credential, 'r) codec \<Rightarrow>
   rsc_state auth_clients \<Rightarrow> bool"
where
  "auth_kinds S net Ks Ku Kc Kr C \<longleftrightarrow>
     (hc_Session C = CoreC S net Ks \<and> hc_User C = CoreC S net Ku \<and> hc_ClusterConfig C = CoreC S net Kc \<and> hc_Credential C = CoreC S net Kr) \<and>
     (cd_kind Ks = ''Session'' \<and> cd_kind Ku = ''User'' \<and> cd_kind Kc = ''ClusterConfig'' \<and> cd_kind Kr = ''Credential'') \<and>
     (cd_md Ks = se_Metadata \<and> cd_md Ku = ur_Metadata \<and> cd_md Kc = cc_Metadata \<and> cd_md Kr = cr_Metadata) \<and>
     (\<forall>x y. cd_payload Ks x = cd_payload Ks y \<longrightarrow> st_Authentication (se_Status x) = st_Authentication (se_Status y))"

definition auth_stored ::
  "serve_env \<Rightarrow> (Session, 'p) codec \<Rightarrow> (User, 'u) codec \<Rightarrow> (ClusterConfig, 'c) codec \<Rightarrow> (Credential, 'r) codec \<Rightarrow> rsc_state \<Rightarrow> bool"
where
  "auth_stored S Ks Ku Kc Kr st \<longleftrightarrow> client_inv S Ks st \<and> client_inv S Ku st \<and> client_inv S Kc st \<and> client_inv S Kr st"

lemma auth_kindsD:
  assumes "auth_kinds S net Ks Ku Kc Kr C"
  shows "hc_Session C = CoreC S net Ks" "hc_User C = CoreC S net Ku" "hc_ClusterConfig C = CoreC S net Kc"
    "hc_Credential C = CoreC S net Kr" "cd_kind Ks = ''Session''" "cd_kind Ku = ''User''" "cd_kind Kc = ''ClusterConfig''"
    "cd_kind Kr = ''Credential''" "cd_md Ks = se_Metadata" "cd_md Kr = cr_Metadata"
proof -
  note a = assms [unfolded auth_kinds_def, THEN conjunct1] assms [unfolded auth_kinds_def, THEN conjunct2, THEN conjunct1]
    assms [unfolded auth_kinds_def, THEN conjunct2, THEN conjunct2, THEN conjunct1]
  show "hc_Session C = CoreC S net Ks" "hc_User C = CoreC S net Ku" "hc_ClusterConfig C = CoreC S net Kc"
    "hc_Credential C = CoreC S net Kr" "cd_kind Ks = ''Session''" "cd_kind Ku = ''User''" "cd_kind Kc = ''ClusterConfig''"
    "cd_kind Kr = ''Credential''" "cd_md Ks = se_Metadata" "cd_md Kr = cr_Metadata"
    using a by (simp_all only: simp_thms)
qed

lemma auth_payload:
  assumes "auth_kinds S net Ks Ku Kc Kr C" and "cd_payload Ks x = cd_payload Ks y"
  shows "st_Authentication (se_Status x) = st_Authentication (se_Status y)"
  using assms unfolding auth_kinds_def by blast

lemma auth_storedD:
  assumes "auth_stored S Ks Ku Kc Kr st"
  shows "client_inv S Ks st" "client_inv S Ku st" "client_inv S Kc st" "client_inv S Kr st"
  using assms by (simp_all add: auth_stored_def)

text \<open>A UID that names a resource of the kind, if any.\<close>

abbreviation names :: "('a, 'p) codec \<Rightarrow> string \<Rightarrow> rsc_state \<Rightarrow> bool" where
  "names K u st \<equiv> kind_fits (by_uid u) ''core'' ''v1'' (cd_kind K) st"

definition refs_known :: "(Session, 'p) codec \<Rightarrow> (User, 'u) codec \<Rightarrow> rsc_state \<Rightarrow> bool" where
  "refs_known Ks Ku st \<longleftrightarrow>
     (\<forall>x\<in>set (kind_view Ks st). \<forall>r. st_UserRef (se_Status x) = Some r \<longrightarrow> names Ku (or_Uid r) st)"

section \<open>Steps that only read\<close>

text \<open>A step that keeps the table and its coherence keeps everything that is read from them.\<close>

definition unchanged :: "rsc_state \<Rightarrow> rsc_state \<Rightarrow> bool" where
  "unchanged s t \<longleftrightarrow> rs_table t = rs_table s \<and> (coherent s \<longrightarrow> coherent t)"

lemma unchanged_refl: "unchanged s s"
  by (simp add: unchanged_def)

lemma unchanged_trans: "unchanged s t \<Longrightarrow> unchanged t u \<Longrightarrow> unchanged s u"
  by (simp add: unchanged_def)

lemma unchanged_keeps:
  assumes "unchanged s t"
  shows "client_inv S K s \<Longrightarrow> client_inv S K t" "kind_view K t = kind_view K s" "kind_rest K t = kind_rest K s"
    "kind_fits o' api version kind t = kind_fits o' api version kind s"
  using assms client_inv_table(1) [of S K s t] client_inv_table(2,3) [of t s K] client_invD(1) [of S K s]
  by (auto simp: unchanged_def kind_fits_def own_kind_def)

lemma unchanged_stored: "unchanged s t \<Longrightarrow> auth_stored S Ks Ku Kc Kr s \<Longrightarrow> auth_stored S Ks Ku Kc Kr t"
  by (simp add: auth_stored_def unchanged_keeps(1))

lemma core_get_unchanged:
  assumes "client_inv S K st" and "kind_fits o' ''core'' ''v1'' (cd_kind K) st" and "cl_Get (CoreC S net K) o' st = (r, st')"
  shows "unchanged st st'"
proof -
  note D = client_invD [OF assms(1)]
  have "client_call S net (rsc_path ''core'' ''Get'' (cd_kind K)) (Req_Get o') (resp_object K) st = (r, st')"
    using assms(3) by (simp add: CoreC_def)
  from call_object [OF handle_core(1) [OF D(6)] this] have "st' = st \<or> st' = snd (doGet (sn_rsc S) o' ''core'' ''v1'' (cd_kind K) st)"
    by blast
  with doGet_state [OF D(1,2) assms(2)] show ?thesis by (auto simp: unchanged_def)
qed

lemma core_list_unchanged:
  assumes "client_inv S K st" and "cl_List (CoreC S net K) o' st = (l, st')"
  shows "unchanged st st'"
  using assms(2) handle_core(2) [OF client_invD(6) [OF assms(1)]]
  by (auto simp: CoreC_def client_call_def Let_def unchanged_def split: fate.splits)

text \<open>The cluster and the user of a session are read.\<close>

lemma get_cluster_unchanged:
  assumes "auth_kinds S net Ks Ku Kc Kr C" and "auth_stored S Ks Ku Kc Kr st" and "get_cluster C st = (r, st')"
  shows "unchanged st st'"
proof -
  have "kind_fits (by_name ''default'') ''core'' ''v1'' (cd_kind Kc) st"
    by (rule core.fits_name [OF auth_storedD(3) [OF assms(2)]]) simp
  from core_get_unchanged [OF auth_storedD(3) [OF assms(2)] this prod.collapse [symmetric], of net] assms(3) show ?thesis
    by (auto simp: get_cluster_def auth_kindsD(3) [OF assms(1)] on_err_def)
qed

lemma getUserFromUserRef_unchanged:
  assumes "auth_kinds S net Ks Ku Kc Kr C" and "auth_stored S Ks Ku Kc Kr st" and "getUserFromUserRef C ref st = (usr, st')"
    and "\<And>r. ref = Some r \<Longrightarrow> names Ku (or_Uid r) st"
  shows "unchanged st st'"
proof (cases ref)
  case (Some r)
  obtain q s1 where q: "cl_Get (CoreC S net Ku) (by_uid (or_Uid r)) st = (q, s1)" by fastforce
  from core_get_unchanged [OF auth_storedD(2) [OF assms(2)] assms(4) [OF Some] q] assms(3) Some show ?thesis
    by (cases q) (auto simp: getUserFromUserRef_def auth_kindsD(2) [OF assms(1)] q go_seq_def on_err_def map_err_def split: go.splits)
qed (use assms(3) in \<open>simp add: getUserFromUserRef_def unchanged_refl\<close>)

text \<open>What the name of a kind and the rest of the table say of a UID.\<close>

lemma names_rest:
  assumes "kind_rest K t = kind_rest K s" and "names K u s"
  shows "names K u t"
proof -
  have own: "own_kind u ''core'' ''v1'' (cd_kind K) st \<longleftrightarrow> (\<forall>r\<in>set (kind_rest K st). rw_Uid r \<noteq> u)" for st
    by (auto simp: own_kind_def kind_rest_def of_kind_def)
  then show ?thesis using assms by (simp add: kind_fits_def)
qed

section \<open>Sessions after a call\<close>

lemma verifyToken_same:
  assumes "verifyToken T now m s ty = Ok x" and "verifyToken T now' m' s ty' = Ok y"
  shows "x = y"
  using assms verifyToken_Ok [of T now m s ty "fst x" "snd x"] verifyToken_Ok [of T now' m' s ty' "fst y" "snd y"]
  by (cases x; cases y) (auto dest!: parseToken_accepted dest: accepted_unique)

lemma VerifyRefreshToken_same: "VerifyRefreshToken T now m s = Ok x \<Longrightarrow> VerifyRefreshToken T now' m' s = Ok y \<Longrightarrow> x = y"
  by (auto simp: VerifyRefreshToken_def) (drule (1) verifyToken_same, simp)+

lemma VerifyCredential_same: "VerifyCredential T now m s = Ok x \<Longrightarrow> VerifyCredential T now' m' s = Ok y \<Longrightarrow> x = y"
  by (auto simp: VerifyCredential_def) (drule (1) verifyToken_same, simp)+

text \<open>
  A refresh token is refused once the session that it names is gone, or has another token.
\<close>

lemma refused_afterwards:
  assumes "auth_kinds S net Ks Ku Kc Kr C" and "client_inv S Ks st" and "names Ks (rf_SessionUID cl) st"
    and "VerifyRefreshToken T now m tkn = Ok cl" and "ae_T E' = T"
    and "\<And>x a. x \<in> set (kind_view Ks st) \<Longrightarrow> md_Uid (se_Metadata x) = rf_SessionUID cl \<Longrightarrow>
      st_Authentication (se_Status x) = Some a \<Longrightarrow> au_TokenID a \<noteq> rf_TokenID cl"
  shows "\<not> is_ok (fst (getSessionFromRefreshToken E' C tkn st))"
proof
  assume "is_ok (fst (getSessionFromRefreshToken E' C tkn st))"
  then obtain sess st' where "getSessionFromRefreshToken E' C tkn st = (Ok sess, st')"
    by (cases "getSessionFromRefreshToken E' C tkn st") (auto simp: is_ok_iff)
  from getSessionFromRefreshToken_Ok [OF this] obtain cl' where
    v: "VerifyRefreshToken T (ae_now E') (ae_keys E') tkn = Ok cl'" and
    g: "cl_Get (hc_Session C) (by_uid (rf_SessionUID cl')) st = (Ok sess, st')" and live: "live_session (ae_now E') cl' sess"
    by (auto simp: presents_def assms(5))
  have "cl' = cl" by (rule VerifyRefreshToken_same [OF v assms(4)])
  with core.get_Ok [OF assms(2,3), of net sess st'] g live assms(6) [of sess] show False
    by (auto simp: auth_kindsD(1,9) [OF assms(1)] live_session_def opt_matches_def)
qed


lemma refresh_voids:
  assumes K: "auth_kinds S net Ks Ku Kc Kr C" and st: "auth_stored S Ks Ku Kc Kr st" "refs_known Ks Ku st"
    and tok: "VerifyRefreshToken (ae_T E) (ae_now E) (ae_keys E) (refresh_token_of md) = Ok cl" "names Ks (rf_SessionUID cl) st"
    and ok: "doAuthenticateWithRefreshToken E C md st = (Ok r, st')"
  shows "client_inv S Ks st'" and "names Ks (rf_SessionUID cl) st'"
    and "x \<in> set (kind_view Ks st') \<Longrightarrow> md_Uid (se_Metadata x) = rf_SessionUID cl \<Longrightarrow>
      \<exists>a. st_Authentication (se_Status x) = Some a \<and> au_TokenID a = ne_TokenID (ae_N E)"
proof -
  from ok obtain sess s1 usr s2 cc s3 sess' q where
    f: "getSessionFromGRPCCtx E C md st = (Ok sess, s1)" "getUserFromUserRef C (st_UserRef (se_Status sess)) s1 = (Ok usr, s2)"
    "get_cluster C s2 = (Ok cc, s3)" "setCurrAuthenticationGRPC E md sess cc (Some refresh_info) = Ok sess'"
    "cl_Update (CoreC S net Ks) sess' s3 = (Ok q, st')"
    by (auto simp: doAuthenticateWithRefreshToken_def getUserFromSession_def auth_kindsD(1) [OF K] dest!: go_seq_Ok)
  from getSessionFromGRPCCtx_Ok [OF f(1)] tok(1) have
    g: "cl_Get (CoreC S net Ks) (by_uid (rf_SessionUID cl)) st = (Ok sess, s1)" "md_Uid (se_Metadata sess) = rf_SessionUID cl"
    by (auto simp: presents_def live_session_def auth_kindsD(1) [OF K])
  have sess: "sess \<in> set (kind_view Ks st)"
    using core.get_Ok [OF auth_storedD(1) [OF st(1)] tok(2) g(1)] by blast
  have u1: "unchanged st s1" by (rule core_get_unchanged [OF auth_storedD(1) [OF st(1)] tok(2) g(1)])
  obtain ref where ref: "st_UserRef (se_Status sess) = Some ref" using getUserFromUserRef_Ok [OF f(2)] by blast
  have "names Ku (or_Uid ref) s1"
    using st(2) sess ref unchanged_keeps(4) [OF u1] by (auto simp: refs_known_def)
  then have "\<And>r. st_UserRef (se_Status sess) = Some r \<Longrightarrow> names Ku (or_Uid r) s1" using ref by simp
  from getUserFromUserRef_unchanged [OF K unchanged_stored [OF u1 st(1)] f(2) this]
  have u2: "unchanged st s2" by (rule unchanged_trans [OF u1])
  from get_cluster_unchanged [OF K unchanged_stored [OF u2 st(1)] f(3)]
  have u3: "unchanged st s3" by (rule unchanged_trans [OF u2])
  have z: "sess \<in> set (kind_view Ks s3)" using sess unchanged_keeps(2) [OF u3, of Ks] by simp
  have md: "se_Metadata sess' = se_Metadata sess" and "\<exists>a. st_Authentication (se_Status sess') = Some a \<and> au_TokenID a = ne_TokenID (ae_N E)"
    using SetCurrAuthentication_Ok f(4) by (auto simp: setCurrAuthenticationGRPC_def)
  then obtain a where a: "st_Authentication (se_Status sess') = Some a" "au_TokenID a = ne_TokenID (ae_N E)" by blast
  have same: "md_Uid (cd_md Ks sess') = md_Uid (cd_md Ks sess)" "md_Name (cd_md Ks sess') = md_Name (cd_md Ks sess)"
    using md by (simp_all add: auth_kindsD(9) [OF K])
  note up = core.update [OF unchanged_keeps(1) [OF u3 auth_storedD(1) [OF st(1)]] z same f(5)]
  obtain y where y: "kind_view Ks st' = map (\<lambda>z. if md_Uid (cd_md Ks z) = md_Uid (cd_md Ks sess') then y else z) (kind_view Ks s3)"
    "cd_payload Ks y = cd_payload Ks sess'" "md_Uid (cd_md Ks y) = md_Uid (cd_md Ks sess')"
    using up by (auto dest!: effect_Ok)
  show inv: "client_inv S Ks st'" using up by blast
  have "y \<in> set (kind_view Ks st')" using y(1) z same(1) by (auto intro!: image_eqI [of _ _ sess])
  then have "names Ks (md_Uid (cd_md Ks y)) st'" by (rule core.fits_own [OF inv])
  then show "names Ks (rf_SessionUID cl) st'" using y(3) same(1) g(2) by (simp add: auth_kindsD(9) [OF K])
  show "\<exists>a. st_Authentication (se_Status x) = Some a \<and> au_TokenID a = ne_TokenID (ae_N E)"
    if "x \<in> set (kind_view Ks st')" "md_Uid (se_Metadata x) = rf_SessionUID cl"
  proof -
    have "x = y" using that y(1) same(1) g(2) by (auto simp: auth_kindsD(9) [OF K] split: if_splits)
    then show ?thesis using a auth_payload [OF K y(2)] by auto
  qed
qed

section \<open>Credentials after a call\<close>

lemma auth_max_unchanged:
  assumes "auth_kinds S net Ks Ku Kc Kr C" and "auth_stored S Ks Ku Kc Kr st" and "auth_checkMaxSessionsPerUser C usr cc st = (u, st')"
  shows "unchanged st st'"
proof -
  obtain l s1 where l: "cl_List (CoreC S net Ks) (FilterByUser usr) st = (l, s1)" by fastforce
  from core_list_unchanged [OF auth_storedD(1) [OF assms(2)] l] assms(3) show ?thesis
    by (cases l) (auto simp: auth_checkMaxSessionsPerUser_def auth_kindsD(1) [OF assms(1)] l on_err_def map_err_def)
qed

text \<open>A session is created; the credentials stay, and so do the users.\<close>

lemma session_created_credentials:
  assumes K: "auth_kinds S net Ks Ku Kc Kr C" and st: "auth_stored S Ks Ku Kc Kr s" and c: "cl_Create (CoreC S net Ks) x s = (q, t)"
  shows "auth_stored S Ks Ku Kc Kr t \<and> kind_view Kr t = kind_view Kr s \<and> kind_view Ku t = kind_view Ku s"
  using core.create [OF auth_storedD(1) [OF st] c] core_frame [OF auth_storedD(2) [OF st], of Ks t] core_frame [OF auth_storedD(3) [OF st], of Ks t]
    core_frame [OF auth_storedD(4) [OF st], of Ks t] auth_kindsD(5-8) [OF K] by (auto simp: auth_stored_def)

lemma CreateSession_given:
  assumes "cs_ClusterConfig o' = Some cc" and "\<not> cs_CheckPerUserLimit o'"
  shows "\<exists>x. CreateSession N C Cc o' s = on_err InternalWithErr (cl_Create C x s)"
  using assms by (auto simp: CreateSession_def given_config_def NewSession_def)

text \<open>
  What a call of a login with a token does to the credentials: nothing, and then it has failed; or the credential is counted once more,
  and then it has failed or another use is left; or the credential is removed.
\<close>

definition uses :: "Credential \<Rightarrow> bool \<times> 32 word \<times> 32 word \<times> ObjectReference option" where
  "uses x = (crs_AutoDelete (cr_Spec x), crs_MaxAuthentications (cr_Spec x), crt_TotalAuthentications (cr_Status x), crt_UserRef (cr_Status x))"

lemma uses_counted: "uses x = (a, m, t, u) \<Longrightarrow> uses (counted x) = (a, m, t + 1, u)"
  by (auto simp: uses_def counted_def)

lemma used_up_uses: "uses x = (a, m, t, u) \<Longrightarrow> used_up x \<longleftrightarrow> a \<and> m \<noteq> 0 \<and> m \<le> t"
  by (auto simp: uses_def used_up_def)

definition login_effect ::
  "serve_env \<Rightarrow> (Session, 'p) codec \<Rightarrow> (User, 'u) codec \<Rightarrow> (ClusterConfig, 'c) codec \<Rightarrow> (Credential, 'r) codec \<Rightarrow> Credential \<Rightarrow> rsc_state \<Rightarrow>
   'a go \<times> rsc_state \<Rightarrow> bool"
where
  "login_effect S Ks Ku Kc Kr z st m \<longleftrightarrow>
     auth_stored S Ks Ku Kc Kr (snd m) \<and> kind_view Ku (snd m) = kind_view Ku st \<and>
     (z \<in> set (kind_view Kr (snd m)) \<and> \<not> is_ok (fst m) \<or>
      (\<exists>y\<in>set (kind_view Kr (snd m)). cd_payload Kr y = cd_payload Kr (counted z) \<and> md_Uid (cd_md Kr y) = md_Uid (cd_md Kr z) \<and>
        (is_ok (fst m) \<longrightarrow> \<not> used_up (counted z))) \<or>
      names Kr (md_Uid (cd_md Kr z)) (snd m) \<and> (\<forall>x\<in>set (kind_view Kr (snd m)). md_Uid (cd_md Kr x) \<noteq> md_Uid (cd_md Kr z)))"

lemma login_effect_none:
  assumes "auth_stored S Ks Ku Kc Kr st" and "z \<in> set (kind_view Kr st)" and "unchanged st s" and "\<not> is_ok r"
  shows "login_effect S Ks Ku Kc Kr z st (r, s)"
  using unchanged_stored [OF assms(3,1)] unchanged_keeps(2) [OF assms(3), of Ku] unchanged_keeps(2) [OF assms(3), of Kr] assms(2,4)
  by (simp add: login_effect_def)

text \<open>A step that only reads goes before the rest.\<close>

lemma login_effect_seq:
  assumes st: "auth_stored S Ks Ku Kc Kr st" "z \<in> set (kind_view Kr st)"
    and m: "unchanged st (snd m)" and f: "\<And>x s. m = (Ok x, s) \<Longrightarrow> unchanged st s \<Longrightarrow> login_effect S Ks Ku Kc Kr z st (f x s)"
  shows "login_effect S Ks Ku Kc Kr z st (go_seq m f)"
proof -
  obtain r s where rs: "m = (r, s)" by fastforce
  then show ?thesis
    using m f by (cases r) (auto intro: login_effect_none [OF st])
qed

lemma login_effect_pure:
  assumes st: "auth_stored S Ks Ku Kc Kr st" "z \<in> set (kind_view Kr st)"
    and "unchanged st s" and "\<And>x. r = Ok x \<Longrightarrow> login_effect S Ks Ku Kc Kr z st (f x s)"
  shows "login_effect S Ks Ku Kc Kr z st (go_seq (r, s) f)"
  by (rule login_effect_seq [OF st]) (use assms(3,4) in auto)

lemma use_effect:
  assumes K: "auth_kinds S net Ks Ku Kc Kr C" and st: "auth_stored S Ks Ku Kc Kr s" and z: "z \<in> set (kind_view Kr s)"
    and users: "kind_view Ku s = kind_view Ku st"
  shows "login_effect S Ks Ku Kc Kr z st (updateAndAutoDeleteCredential C z s)"
proof -
  note inv = auth_storedD(4) [OF st]
  have others: "auth_stored S Ks Ku Kc Kr t \<and> kind_view Ku t = kind_view Ku st" if "client_inv S Kr t" "kind_rest Kr t = kind_rest Kr s" for t
    using core_frame [OF auth_storedD(1) [OF st] that] core_frame [OF auth_storedD(2) [OF st] that] core_frame [OF auth_storedD(3) [OF st] that]
      auth_kindsD(5-8) [OF K] that users by (auto simp: auth_stored_def)
  have md: "cr_Metadata (counted z) = cr_Metadata z" by (simp add: counted_def)
  have same: "md_Uid (cd_md Kr (counted z)) = md_Uid (cd_md Kr z)" "md_Name (cd_md Kr (counted z)) = md_Name (cd_md Kr z)"
    by (simp_all add: auth_kindsD(10) [OF K] md)
  obtain q s1 where q: "cl_Update (CoreC S net Kr) (counted z) s = (q, s1)" by fastforce
  note up = core.update [OF inv z same q]
  note o1 = others [of s1]
  have "effect q (\<lambda>y v. v = map (\<lambda>x. if md_Uid (cd_md Kr x) = md_Uid (cd_md Kr (counted z)) then y else x) (kind_view Kr s) \<and>
      cd_payload Kr y = cd_payload Kr (counted z) \<and> unstamped (cd_md Kr y) = unstamped (cd_md Kr (counted z)) \<and>
      md_Uid (cd_md Kr y) = md_Uid (cd_md Kr (counted z))) (kind_view Kr s) (kind_view Kr s1)"
    using up by blast
  then consider (kept) "kind_view Kr s1 = kind_view Kr s" "\<not> is_ok q" |
    (new) y where "y \<in> set (kind_view Kr s1)" "cd_payload Kr y = cd_payload Kr (counted z)" "md_Uid (cd_md Kr y) = md_Uid (cd_md Kr z)"
    unfolding effect_def same(1)
  proof (elim disjE exE conjE)
    fix y
    assume y: "kind_view Kr s1 = map (\<lambda>x. if md_Uid (cd_md Kr x) = md_Uid (cd_md Kr z) then y else x) (kind_view Kr s)"
      "cd_payload Kr y = cd_payload Kr (counted z)" "md_Uid (cd_md Kr y) = md_Uid (cd_md Kr z)"
    have "y \<in> set (kind_view Kr s1)" unfolding y(1) using z by (auto intro!: image_eqI [of _ _ z])
    then show thesis using y(2,3) by (rule that(2))
  qed (rule that(1))
  then show ?thesis
  proof cases
    case kept
    then show ?thesis using z o1 up
      by (cases q) (auto simp: updateAndAutoDeleteCredential_def auth_kindsD(4) [OF K] q login_effect_def)
  next
    case new
    note counted_once = o1 up new
    show ?thesis
    proof (cases "is_ok q \<and> used_up (counted z)")
      case False
      then show ?thesis using counted_once
        by (cases q) (auto simp: updateAndAutoDeleteCredential_def auth_kindsD(4) [OF K] q login_effect_def)
    next
      case True
      obtain d t where d: "cl_Delete (CoreC S net Kr) \<lparr>do_Uid = md_Uid (cd_md Kr y), do_Name = []\<rparr> s1 = (d, t)" by fastforce
      have inv1: "client_inv S Kr s1" and rest1: "kind_rest Kr s1 = kind_rest Kr s" using up by blast+
      note del = core.delete [OF inv1 new(1) d]
      have rest: "client_inv S Kr t" "kind_rest Kr t = kind_rest Kr s" "kind_rest Kr t = kind_rest Kr s1" using del rest1 by auto
      have "names Kr (md_Uid (cd_md Kr z)) t" using names_rest [OF rest(3) core.fits_own [OF inv1 new(1)]] new(3) by simp
      moreover have "effect d (\<lambda>y' v. v = filter (\<lambda>x. md_Uid (cd_md Kr x) \<noteq> md_Uid (cd_md Kr z)) (kind_view Kr s1)) (kind_view Kr s1) (kind_view Kr t)"
        using del new(3) by simp
      moreover have "md_Uid (cr_Metadata z) = md_Uid (cd_md Kr y)" using new(3) by (simp add: auth_kindsD(10) [OF K])
      ultimately show ?thesis
        using others [OF rest(1,2)] True new d
        by (cases q; cases d) (auto simp: updateAndAutoDeleteCredential_def auth_kindsD(4) [OF K] q login_effect_def on_err_def map_err_def effect_def)
    qed
  qed
qed

lemma login_effect_finish: "login_effect S Ks Ku Kc Kr z st m \<Longrightarrow> login_effect S Ks Ku Kc Kr z st (go_seq m (\<lambda>_ s. (Ok x, s)))"
  by (cases m; cases "fst m") (auto simp: login_effect_def)

lemma login_effect_failed:
  "auth_stored S Ks Ku Kc Kr t \<Longrightarrow> kind_view Ku t = kind_view Ku st \<Longrightarrow> z \<in> set (kind_view Kr t) \<Longrightarrow> \<not> is_ok r \<Longrightarrow>
    login_effect S Ks Ku Kc Kr z st (r, t)"
  by (simp add: login_effect_def)

text \<open>The steps that write: the session is created, and the use is counted.\<close>

lemma login_creates:
  assumes K: "auth_kinds S net Ks Ku Kc Kr C" and st: "auth_stored S Ks Ku Kc Kr st" and z: "z \<in> set (kind_view Kr st)" and s: "unchanged st s"
  shows "login_effect S Ks Ku Kc Kr z st
    (go_seq (on_err InternalWithErr (CreateSession N (hc_Session C) (hc_ClusterConfig C) (credential_session_opts z usr cc ty scs ua xff) s)) (\<lambda>sess s.
     go_seq (response sess, s) (\<lambda>ret s. go_seq (updateAndAutoDeleteCredential C z s) (\<lambda>_ s. (Ok ret, s)))))"
proof -
  have "cs_ClusterConfig (credential_session_opts z usr cc ty scs ua xff) = Some cc" "\<not> cs_CheckPerUserLimit (credential_session_opts z usr cc ty scs ua xff)"
    by (simp_all add: credential_session_opts_def auth_session_opts_def)
  from CreateSession_given [OF this, where N = N and C = "CoreC S net Ks" and Cc = "hc_ClusterConfig C" and s = s] obtain n where
    n: "CreateSession N (hc_Session C) (hc_ClusterConfig C) (credential_session_opts z usr cc ty scs ua xff) s = on_err InternalWithErr (cl_Create (CoreC S net Ks) n s)"
    unfolding auth_kindsD(1) [OF K] by blast
  obtain q t where q: "cl_Create (CoreC S net Ks) n s = (q, t)" by fastforce
  from session_created_credentials [OF K unchanged_stored [OF s st] q]
  have t: "auth_stored S Ks Ku Kc Kr t" "kind_view Ku t = kind_view Ku st" "z \<in> set (kind_view Kr t)"
    using z unchanged_keeps(2) [OF s, of Kr] unchanged_keeps(2) [OF s, of Ku] by auto
  note used = login_effect_finish [OF use_effect [OF K t(1,3,2)]]
  show ?thesis
  proof (cases q)
    case (Ok sess)
    then show ?thesis
      by (cases "response sess") (auto simp: n q on_err_def map_err_def intro: used login_effect_failed [OF t])
  qed (auto simp: n q on_err_def map_err_def intro: login_effect_failed [OF t])
qed

end
