(* ===== verification/CoreWrites.thy ===== *)
theory CoreWrites imports CoreLive begin

text \<open>
  On a server on which nothing fails, a resource that is there can be changed and removed, and a created one has the identifier
  that was drawn.
\<close>

lemma own_found:
  assumes inv: "client_inv S K st" and h: "works S net K" and z: "z \<in> set (kind_view K st)"
    and o': "opts_fine S (by_uid (md_Uid (cd_md K z)))"
  obtains w st1 where "cd_dec K w = Ok z"
    "doGet (sn_rsc S) (by_uid (md_Uid (cd_md K z))) ''core'' ''v1'' (cd_kind K) st = (Ok w, st1)"
    "rs_table st1 = rs_table st"
proof -
  note D = client_invD [OF inv]
  let ?o = "by_uid (md_Uid (cd_md K z))"
  obtain st1 where st1: "doGet (sn_rsc S) ?o ''core'' ''v1'' (cd_kind K) st = (table_get (sn_rsc S) ?o ''core'' ''v1'' (cd_kind K) st, st1)"
    "rs_table st1 = rs_table st"
    using doGet_healthy [OF inv h fits_by_own_uid [OF inv z]] by blast
  obtain q where q: "q \<in> set (rs_table st)" "of_kind K q" "cd_dec K (rw_Resource q) = Ok z"
    using z by (auto simp: in_view)
  then have "row_selected ?o ''core'' ''v1'' (cd_kind K) q" using selected_iff [OF inv q(1,3), of ?o] by (simp add: opt_matches_def)
  then have "List.find (row_selected ?o ''core'' ''v1'' (cd_kind K)) (rs_table st) = Some q"
    by (rule find_selected [OF D(1) q(1)])
  then have "table_get (sn_rsc S) ?o ''core'' ''v1'' (cd_kind K) st = Ok (rw_Resource q)"
    using o' h kinds_fine(1) [OF D(6)] by (simp add: table_get_def get_row_def opts_fine_def works_def)
  with st1(1) have "doGet (sn_rsc S) ?o ''core'' ''v1'' (cd_kind K) st = (Ok (rw_Resource q), st1)" by simp
  then show thesis by (rule that [OF q(3) _ st1(2)])
qed

lemma core_update_present:
  assumes inv: "client_inv S K st" and h: "works S net K" and z: "z \<in> set (kind_view K st)"
    and o': "opts_fine S (by_uid (md_Uid (cd_md K z)))" and same: "cd_md K x = cd_md K z" and kind: "\<not> isTypeSecret (cd_kind K)"
  shows "\<exists>y st'. cl_Update (CoreC S net K) x st = (Ok y, st')"
proof -
  note D = client_invD [OF inv]
  let ?E = "sn_rsc S" and ?new = "(cd_enc K x)\<lparr>ob_Metadata := Some (stamp_update (sn_call S) (cd_md K x))\<rparr>"
  obtain w st1 where q: "cd_dec K w = Ok z"
    "doGet ?E (by_uid (md_Uid (cd_md K z))) ''core'' ''v1'' (cd_kind K) st = (Ok w, st1)"
    by (rule own_found [OF inv h z o'])
  have md: "ob_Metadata w = Some (cd_md K z)" "ob_Metadata (cd_enc K x) = Some (cd_md K z)"
    using codecD(1,3) [OF D(4)] q(1) same by simp_all
  obtain y0 where y0: "cd_dec K (cd_enc K x) = Ok y0" using codecD(2) [OF D(4)] by blast
  obtain y where y: "cd_dec K ?new = Ok y" using codecD(4) [OF D(4) y0] by blast
  have "\<exists>p s. doUpdate ?E (sn_call S) (cd_enc K x) ''core'' ''v1'' (cd_kind K) st = (Ok p, s) \<and> fst p \<in> {cd_enc K x, ?new}"
  proof (cases "cd_enc K x = w")
    case True
    then show ?thesis using q(2) md by (simp add: doUpdate_def update_prepare_def)
  next
    case False
    then show ?thesis
      using q(2) md kind same h by (simp add: doUpdate_def update_prepare_def update_commit_def update_row_def works_def doPostUpdate_def doSetCache_def)
  qed
  then show ?thesis
    using call_answered [OF h handle_core(4) [OF D(6)], of "cd_enc K x"] y y0 by (auto simp: CoreC_def)
qed

lemma core_delete_present:
  assumes inv: "client_inv S K st" and h: "works S net K" and z: "z \<in> set (kind_view K st)"
    and o': "opts_fine S (by_uid (md_Uid (cd_md K z)))"
  shows "\<exists>y st'. cl_Delete (CoreC S net K) \<lparr>do_Uid = md_Uid (cd_md K z), do_Name = []\<rparr> st = (Ok y, st')"
proof -
  note D = client_invD [OF inv]
  obtain w st1 where q: "cd_dec K w = Ok z"
    "doGet (sn_rsc S) (by_uid (md_Uid (cd_md K z))) ''core'' ''v1'' (cd_kind K) st = (Ok w, st1)"
    by (rule own_found [OF inv h z o'])
  have md: "ob_Metadata w = Some (cd_md K z)" using codecD(3) [OF D(4)] q(1) by simp
  obtain y where y: "cd_dec K (w\<lparr>ob_Metadata := Some (stamp_update (sn_call S) (cd_md K z))\<rparr>) = Ok y"
    using codecD(4) [OF D(4) q(1)] by blast
  have "\<exists>s. doDelete (sn_rsc S) (sn_call S) \<lparr>do_Uid = md_Uid (cd_md K z), do_Name = []\<rparr> ''core'' ''v1'' (cd_kind K) st =
      (Ok (w\<lparr>ob_Metadata := Some (stamp_update (sn_call S) (cd_md K z))\<rparr>), s)"
    using q(2) md o' h by (simp add: doDelete_def delete_row_def works_def opts_fine_def doPostDelete_def doDeleteCache_def Let_def)
  then show ?thesis
    using call_answered [OF h handle_core(5) [OF D(6)], of "\<lparr>do_Uid = md_Uid (cd_md K z), do_Name = []\<rparr>"] y by (auto simp: CoreC_def)
qed

lemma core_create_uid:
  assumes inv: "client_inv S K st" and h: "healthy S net K st" and ok: "cl_Create (CoreC S net K) x st = (Ok y, st')"
  shows "md_Uid (cd_md K y) = rc_NewUid (sn_call S)"
proof -
  note D = client_invD [OF inv]
  obtain q s1 where q: "doCreate (sn_rsc S) (sn_call S) (cd_enc K x) ''core'' ''v1'' (cd_kind K) st = (q, s1)" by fastforce
  then obtain z where z: "q = Ok z" "cd_dec K z = Ok y"
    using call_answered [OF healthy_works [OF h] handle_core(3) [OF D(6)], of "cd_enc K x"] ok by (auto simp: CoreC_def)
  then obtain obj md where "z = obj\<lparr>ob_Metadata := Some (stamp_create (sn_call S) md)\<rparr>"
    using doCreate_table [OF D(1,2,7,8,5,3) q] by auto
  then have "cd_md K y = stamp_create (sn_call S) md" using codecD(3) [OF D(4) z(2)] by simp
  then show ?thesis by (simp add: stamp_create_def)
qed

end
