(* ===== verification/AuthExamples.thy ===== *)
theory AuthExamples imports AuthStore CoreWrites begin

text \<open>
  A cluster with a user, a session and a credential (stored by the numbers that its uses depend on), over the resource server of the examples, and the tokens for them.
\<close>

section \<open>Numbers\<close>

instance Authentication_Info_Downstream_ext :: (countable) countable
  by (rule countable_classI [of "\<lambda>r. to_nat (ad_IpAddress r, ad_UserAgent r, ad_ClientVersion r,
    Authentication_Info_Downstream.more r)"]) (simp add: Authentication_Info_Downstream.equality)

instance Credential_Type :: countable by countable_datatype

instance Info_IdentityProvider_ext :: (countable) countable
  by (rule countable_classI [of "\<lambda>r. to_nat (ii_IdentityProviderRef r, ii_Type r, ii_Identifier r, ii_PicURL r,
    ii_Email r, Info_IdentityProvider.more r)"]) (simp add: Info_IdentityProvider.equality)

instance Info_Credential_ext :: (countable) countable
  by (rule countable_classI [of "\<lambda>r. to_nat (ic_CredentialRef r, ic_Type r, ic_TokenID r,
    Info_Credential.more r)"]) (simp add: Info_Credential.equality)

instance Authenticator_Type :: countable by countable_datatype

instance Authenticator_Mode :: countable by countable_datatype

instance Info_FIDO_ext :: (countable) countable
  by (rule countable_classI [of "\<lambda>r. to_nat (ff_UserPresent r, ff_UserVerified r, ff_IsHardware r,
    ff_IsSoftware r, ff_IsAttestationVerified r, ff_IsPasskey r, ff_Aaguid r,
    Info_FIDO.more r)"]) (simp add: Info_FIDO.equality)

instance Info_Authenticator_ext :: (countable) countable
  by (rule countable_classI [of "\<lambda>r. to_nat (ia_AuthenticatorRef r, ia_Type r, ia_Info r, ia_Mode r,
    Info_Authenticator.more r)"]) (simp add: Info_Authenticator.equality)

instance Info_Details :: countable by countable_datatype

instance Authentication_Info_Type :: countable by countable_datatype

instance Authentication_Info_ext :: (countable) countable
  by (rule countable_classI [of "\<lambda>r. to_nat (ai_Type r, ai_Details r, ai_Aal r, ai_Downstream r,
    Authentication_Info.more r)"]) (simp add: Authentication_Info.equality)

instance Session_Status_Authentication_ext :: (countable) countable
  by (rule countable_classI [of "\<lambda>r. to_nat (au_Info r, au_SetAt r, au_TokenID r, au_AccessTokenDuration r,
    au_RefreshTokenDuration r, Session_Status_Authentication.more r)"]) (simp add: Session_Status_Authentication.equality)

section \<open>The resources\<close>

definition both_durations :: Session_Status_Authentication where
  "both_durations =
     \<lparr>au_Info = None, au_SetAt = Some 0, au_TokenID = token_uid, au_AccessTokenDuration = Some (Hours 1),
      au_RefreshTokenDuration = Some (Hours 8)\<rparr>"

definition session_of :: "Metadata \<Rightarrow> Session_Status_Authentication option \<Rightarrow> Session" where
  "session_of m a = example_session
     \<lparr>se_Metadata := m, se_Status := (se_Status example_session)\<lparr>st_Authentication := a, st_InitialAuthentication := Some both_durations\<rparr>\<rparr>"

definition credential_of :: "Metadata \<Rightarrow> 32 word \<Rightarrow> Credential" where
  "credential_of m n =
     \<lparr>cr_ApiVersion = ''core/v1'', cr_Kind = ''Credential'', cr_Metadata = m,
      cr_Spec = \<lparr>crs_Type = AUTH_TOKEN, crs_User = ''alice'', crs_MaxAuthentications = 1, crs_ExpiresAt = None,
        crs_SessionType = CLIENT, crs_Authorization = None, crs_IsDisabled = False, crs_AutoDelete = True\<rparr>,
      cr_Status = \<lparr>crt_UserRef = st_UserRef (se_Status example_session), crt_Id = [], crt_TokenID = key_uid, crt_LastRotationAt = None,
        crt_TotalRotations = 0, crt_TotalAuthentications = n, crt_IsLocked = False\<rparr>\<rparr>"

definition auth_sessions :: "(Session, Session_Status_Authentication option) codec" where
  "auth_sessions = numbered ''Session'' se_Metadata (\<lambda>x. st_Authentication (se_Status x)) session_of (\<lambda>c x. False)"

definition auth_users :: "(User, unit) codec" where
  "auth_users = numbered ''User'' ur_Metadata (\<lambda>x. ()) (\<lambda>m u. example_user\<lparr>ur_Metadata := m\<rparr>) (\<lambda>c x. False)"

text \<open>A credential is written with the numbers that its uses depend on.\<close>

definition credential_with :: "Metadata \<Rightarrow> bool \<times> 32 word \<times> 32 word \<times> ObjectReference option \<Rightarrow> Credential" where
  "credential_with m u =
     (case u of (gone, most, n, ref) \<Rightarrow>
        (credential_of m n)
          \<lparr>cr_Spec := (cr_Spec (credential_of m n))\<lparr>crs_AutoDelete := gone, crs_MaxAuthentications := most\<rparr>,
           cr_Status := (cr_Status (credential_of m n))\<lparr>crt_UserRef := ref\<rparr>\<rparr>)"

definition auth_credentials :: "(Credential, bool \<times> 32 word \<times> 32 word \<times> ObjectReference option) codec" where
  "auth_credentials = numbered ''Credential'' cr_Metadata uses credential_with (\<lambda>c x. False)"

lemma credential_with_simps [simp]: "cr_Metadata (credential_with m u) = m" "uses (credential_with m u) = u"
  by (cases u; simp add: credential_with_def credential_of_def uses_def)+

lemma credential_with_uses: "credential_with m (uses (credential_of m' n)) = credential_of m n"
  by (simp add: credential_with_def credential_of_def uses_def)

lemma auth_codecs [simp]:
  "cd_kind auth_sessions = ''Session''" "cd_kind auth_users = ''User''" "cd_kind auth_credentials = ''Credential''"
  "cd_md auth_sessions = se_Metadata" "cd_md auth_users = ur_Metadata" "cd_md auth_credentials = cr_Metadata"
  "cd_payload auth_sessions = (\<lambda>x. st_Authentication (se_Status x))" "cd_payload auth_credentials = uses"
  by (simp_all add: auth_sessions_def auth_users_def auth_credentials_def)

lemma auth_serve_ok:
  assumes "plain uid"
  shows "serve_ok (net_serve uid) auth_sessions" "serve_ok (net_serve uid) auth_users" "serve_ok (net_serve uid) numbered_clusters"
    "serve_ok (net_serve uid) auth_credentials"
  unfolding net_serve_def auth_sessions_def auth_users_def numbered_clusters_def auth_credentials_def
  by (rule example_serve_ok; use assms in \<open>simp add: resource_kinds_def session_of_def credential_of_def example_cluster_def\<close>)+

abbreviation ready :: "string \<Rightarrow> rsc_state \<Rightarrow> bool" where
  "ready uid st \<equiv> auth_stored (net_serve uid) auth_sessions auth_users numbered_clusters auth_credentials st"

lemma ready_uid: "plain uid \<Longrightarrow> plain uid' \<Longrightarrow> ready uid st \<Longrightarrow> ready uid' st"
  by (simp add: auth_stored_def client_inv_def auth_serve_ok)

text \<open>The resources of a state: its views of the four kinds, and the identifiers that are taken.\<close>

definition shows_auth ::
  "rsc_state \<Rightarrow> ClusterConfig list \<Rightarrow> User list \<Rightarrow> Session list \<Rightarrow> Credential list \<Rightarrow> string set \<Rightarrow> bool" where
  "shows_auth st cs us ss rs uids \<longleftrightarrow>
     kind_view numbered_clusters st = cs \<and> kind_view auth_users st = us \<and> kind_view auth_sessions st = ss \<and>
     kind_view auth_credentials st = rs \<and> rw_Uid ` set (rs_table st) = uids \<and> ready ''x'' st"

lemma ready_frame:
  assumes "ready uid st" and "plain uid" and "client_inv (net_serve uid) K t" and "kind_rest K t = kind_rest K st"
  shows "cd_kind K \<noteq> ''Session'' \<Longrightarrow> client_inv (net_serve uid) auth_sessions t \<and> kind_view auth_sessions t = kind_view auth_sessions st"
    and "cd_kind K \<noteq> ''User'' \<Longrightarrow> client_inv (net_serve uid) auth_users t \<and> kind_view auth_users t = kind_view auth_users st"
    and "cd_kind K \<noteq> ''ClusterConfig'' \<Longrightarrow>
      client_inv (net_serve uid) numbered_clusters t \<and> kind_view numbered_clusters t = kind_view numbered_clusters st"
    and "cd_kind K \<noteq> ''Credential'' \<Longrightarrow>
      client_inv (net_serve uid) auth_credentials t \<and> kind_view auth_credentials t = kind_view auth_credentials st"
  using core_frame [OF auth_storedD(1) [OF assms(1)] assms(3,4)] core_frame [OF auth_storedD(2) [OF assms(1)] assms(3,4)]
    core_frame [OF auth_storedD(3) [OF assms(1)] assms(3,4)] core_frame [OF auth_storedD(4) [OF assms(1)] assms(3,4)]
  by auto

text \<open>A resource with a new name and a new identifier is created.\<close>

lemma auth_created:
  assumes "client_inv (net_serve uid) K st" and "uid \<noteq> []" "uid \<notin> rw_Uid ` set (rs_table st)" "checkName (md_Name (cd_md K x)) = Ok ()"
    and "\<forall>y\<in>set (kind_view K st). md_Name (cd_md K y) \<noteq> md_Name (cd_md K x)"
  obtains y t where "client_inv (net_serve uid) K t" "kind_rest K t = kind_rest K st" "kind_view K t = kind_view K st @ [y]"
    "cd_payload K y = cd_payload K x" "md_Uid (cd_md K y) = uid" "md_Name (cd_md K y) = md_Name (cd_md K x)"
    "rw_Uid ` set (rs_table t) = insert uid (rw_Uid ` set (rs_table st))"
proof -
  have h: "healthy (net_serve uid) answered K st" unfolding net_serve_def by (rule example_healthy [OF assms(2,3)])
  have n: "opts_fine (net_serve uid) (by_name (md_Name (cd_md K x)))" unfolding net_serve_def by (rule example_opts_name [OF assms(4)])
  obtain y t where y: "cl_Create (CoreC (net_serve uid) answered K) x st = (Ok y, t)"
    using core_create_new [OF assms(1) h n assms(5)] by blast
  from client_create [OF assms(1) y] have c: "client_inv (net_serve uid) K t \<and> kind_rest K t = kind_rest K st \<and>
      kind_view K t = kind_view K st @ [y] \<and> cd_payload K y = cd_payload K x \<and> unstamped (cd_md K y) = unstamped (cd_md K x)"
    by (auto dest!: effect_Ok)
  then have "md_Name (cd_md K y) = md_Name (cd_md K x)" using unstamped_keeps by blast
  moreover have "md_Uid (cd_md K y) = uid" using core_create_uid [OF assms(1) h y] by (simp add: net_serve_def)
  moreover have "rw_Uid ` set (rs_table t) = insert uid (rw_Uid ` set (rs_table st))"
    using core_create_uids [OF assms(1) h y] by (simp add: net_serve_def)
  ultimately show thesis using c by (intro that [of t y]) simp_all
qed

lemma auth_shapes:
  "x \<in> set (kind_view auth_users st) \<Longrightarrow> x = example_user\<lparr>ur_Metadata := ur_Metadata x\<rparr>"
  "k \<in> set (kind_view numbered_clusters st) \<Longrightarrow> k = example_cluster (cc_Metadata k)"
  "z \<in> set (kind_view auth_sessions st) \<Longrightarrow> z = session_of (se_Metadata z) (st_Authentication (se_Status z))"
  "r \<in> set (kind_view auth_credentials st) \<Longrightarrow> r = credential_with (cr_Metadata r) (uses r)"
  by (auto simp: in_view auth_users_def numbered_clusters_def auth_sessions_def auth_credentials_def numbered_dec session_of_def
      credential_of_def example_cluster_def)

lemma auth_names: "checkName ''default'' = Ok ()" "checkName ''alice'' = Ok ()" "checkName ''alice-1'' = Ok ()" "checkName ''one-time'' = Ok ()"
  by (simp_all add: checkName_def MaxNameSubArgs_def Let_def reject_if_def rgxName_def lower_alnum_def lower_def decimal_def
      name_char_def)

lemma auth_plain: "plain ''x''" "plain ''k1''" "plain ''u1''" "plain ''n1''" "plain sess_uid" "plain token_uid"
  by (simp_all add: plain_def sess_uid_def token_uid_def)

text \<open>A cluster and a user; then a session of the user, or a credential.\<close>

lemma auth_base:
  obtains k u st where "shows_auth st [k] [u] [] [] {''k1'', ''u1''}" "md_Name (cc_Metadata k) = ''default''"
    "md_Uid (ur_Metadata u) = ''u1''" "md_Name (ur_Metadata u) = ''alice''"
proof -
  have inv0: "client_inv (net_serve uid) K rsc_empty" if "serve_ok (net_serve uid) K" for uid and K :: "('a, 'p) codec"
    using that stored_empty [of K] by (simp add: client_inv_def)
  have r0: "ready uid rsc_empty" if "plain uid" for uid
    using that by (simp add: auth_stored_def client_inv_def auth_serve_ok stored_empty)
  have uids: "rw_Uid ` set (rs_table rsc_empty) = {}" by (simp add: rsc_empty_def)
  obtain k s1 where k: "client_inv (net_serve ''k1'') numbered_clusters s1" "kind_rest numbered_clusters s1 = kind_rest numbered_clusters rsc_empty"
    "kind_view numbered_clusters s1 = [k]" "md_Name (cc_Metadata k) = ''default''" "rw_Uid ` set (rs_table s1) = {''k1''}"
    by (rule auth_created [OF auth_storedD(3) [OF r0 [OF auth_plain(2)]], of "example_cluster (no_metadata\<lparr>md_Name := ''default''\<rparr>)"])
      (use auth_names in \<open>simp_all add: view_empty example_cluster_def uids\<close>)
  note f1 = ready_frame [OF r0 [OF auth_plain(2)] auth_plain(2) k(1,2), simplified]
  have r1: "ready ''k1'' s1" using f1 k(1) by (simp add: auth_stored_def)
  obtain u s2 where u: "client_inv (net_serve ''u1'') auth_users s2" "kind_rest auth_users s2 = kind_rest auth_users s1"
    "kind_view auth_users s2 = [u]" "md_Uid (ur_Metadata u) = ''u1''" "md_Name (ur_Metadata u) = ''alice''" "rw_Uid ` set (rs_table s2) = {''k1'', ''u1''}"
    by (rule auth_created [OF auth_storedD(2) [OF ready_uid [OF auth_plain(2,3) r1]], of "example_user\<lparr>ur_Metadata := no_metadata\<lparr>md_Name := ''alice''\<rparr>\<rparr>"])
      (use auth_names k(5) f1 in \<open>simp_all add: view_empty insert_commute\<close>)
  note f2 = ready_frame [OF ready_uid [OF auth_plain(2,3) r1] auth_plain(3) u(1,2), simplified]
  have r2: "ready ''u1'' s2" using f2 u(1) by (simp add: auth_stored_def)
  have "shows_auth s2 [k] [u] [] [] {''k1'', ''u1''}"
    using f1 f2 k(3) u(3,6) ready_uid [OF auth_plain(3,1) r2] by (simp add: shows_auth_def view_empty)
  then show thesis by (rule that [OF _ k(4) u(4,5)])
qed

lemma with_session:
  obtains k u z st where "shows_auth st [k] [u] [z] [] {''k1'', ''u1'', sess_uid}" "md_Name (cc_Metadata k) = ''default''"
    "md_Uid (ur_Metadata u) = ''u1''" "md_Uid (se_Metadata z) = sess_uid" "z = session_of (se_Metadata z) (Some both_durations)"
proof -
  obtain k u st where b: "shows_auth st [k] [u] [] [] {''k1'', ''u1''}" "md_Name (cc_Metadata k) = ''default''" "md_Uid (ur_Metadata u) = ''u1''"
    by (rule auth_base)
  have r: "ready sess_uid st" using b(1) ready_uid [OF auth_plain(1,5)] by (simp add: shows_auth_def)
  have new: "sess_uid \<noteq> []" "sess_uid \<notin> {''k1'', ''u1''}" by (simp_all add: sess_uid_def)
  obtain z t where z: "client_inv (net_serve sess_uid) auth_sessions t" "kind_rest auth_sessions t = kind_rest auth_sessions st"
    "kind_view auth_sessions t = [z]" "st_Authentication (se_Status z) = Some both_durations" "md_Uid (se_Metadata z) = sess_uid"
    "rw_Uid ` set (rs_table t) = insert sess_uid {''k1'', ''u1''}"
    by (rule auth_created [OF auth_storedD(1) [OF r], of "session_of (no_metadata\<lparr>md_Name := ''alice-1''\<rparr>) (Some both_durations)"])
      (use b(1) new auth_names in \<open>simp_all add: shows_auth_def session_of_def\<close>)
  note f = ready_frame [OF r auth_plain(5) z(1,2), simplified]
  have "ready sess_uid t" using f z(1) by (simp add: auth_stored_def)
  then have s: "shows_auth t [k] [u] [z] [] {''k1'', ''u1'', sess_uid}"
    using b(1) f z(3,6) ready_uid [OF auth_plain(5,1)] by (simp add: shows_auth_def insert_commute)
  have "z = session_of (se_Metadata z) (Some both_durations)" using auth_shapes(3) [of z t] z(3,4) by simp
  with s b(2,3) z(5) show thesis by (rule that)
qed

lemma with_credential:
  obtains k u r st where "shows_auth st [k] [u] [] [r] {''k1'', ''u1'', token_uid}" "md_Name (cc_Metadata k) = ''default''"
    "md_Uid (ur_Metadata u) = ''u1''" "md_Name (ur_Metadata u) = ''alice''" "md_Uid (cr_Metadata r) = token_uid" "r = credential_of (cr_Metadata r) 0"
proof -
  obtain k u st where b: "shows_auth st [k] [u] [] [] {''k1'', ''u1''}" "md_Name (cc_Metadata k) = ''default''" "md_Uid (ur_Metadata u) = ''u1''"
    "md_Name (ur_Metadata u) = ''alice''"
    by (rule auth_base)
  have r: "ready token_uid st" using b(1) ready_uid [OF auth_plain(1,6)] by (simp add: shows_auth_def)
  have new: "token_uid \<noteq> []" "token_uid \<notin> {''k1'', ''u1''}" by (simp_all add: token_uid_def)
  obtain c t where c: "client_inv (net_serve token_uid) auth_credentials t" "kind_rest auth_credentials t = kind_rest auth_credentials st"
    "kind_view auth_credentials t = [c]" "uses c = uses (credential_of (no_metadata\<lparr>md_Name := ''one-time''\<rparr>) 0)" "md_Uid (cr_Metadata c) = token_uid"
    "rw_Uid ` set (rs_table t) = insert token_uid {''k1'', ''u1''}"
    by (rule auth_created [OF auth_storedD(4) [OF r], of "credential_of (no_metadata\<lparr>md_Name := ''one-time''\<rparr>) 0"])
      (use b(1) new auth_names in \<open>simp_all add: shows_auth_def credential_of_def\<close>)
  note f = ready_frame [OF r auth_plain(6) c(1,2), simplified]
  have "ready token_uid t" using f c(1) by (simp add: auth_stored_def)
  then have s: "shows_auth t [k] [u] [] [c] {''k1'', ''u1'', token_uid}"
    using b(1) f c(3,6) ready_uid [OF auth_plain(6,1)] by (simp add: shows_auth_def insert_commute)
  have "c = credential_of (cr_Metadata c) 0" using auth_shapes(4) [of c t] c(3,4) credential_with_uses by simp
  with s b(2-4) c(5) show thesis by (rule that)
qed

section \<open>Tokens of the example\<close>

lemma wire_made:
  assumes "uid_ok wire_env su" and "uid_ok wire_env tu" and "te_MustParse wire_env su = Ok s" "te_MustParse wire_env tu = Ok t"
    and "type_number ty = Some n" and "case ex of None \<Rightarrow> True | Some x \<Rightarrow> now \<le> x \<and> 0 \<le> x \<and> x div 1000000000 < 2 ^ 40"
  shows "\<exists>tkn. createToken wire_env now token_keys
    \<lparr>tk_Type = ty, tk_KeyID = [], tk_Subject = s, tk_TokenID = t, tk_ExpiresAt = ex\<rparr> = Ok tkn"
proof -
  obtain k where k: "uuid_MustParse key_uid = Ok k" using key_uid_bytes by blast
  let ?ex = "map_option whole_second ex"
  let ?c = "\<lparr>tk_Type = ty, tk_KeyID = k, tk_Subject = s, tk_TokenID = t, tk_ExpiresAt = ?ex\<rparr>"
  have "\<exists>ts. time_fields ?ex = Some ts"
    using assms(6) by (cases ex) (simp_all add: time_fields_def whole_second_def pos_imp_zdiv_nonneg_iff)
  then obtain fs where fs: "content_fields ?c = Some fs" using assms(5) by (auto simp: content_fields_def)
  have ex: "expiry_of now ex = Ok ?ex" using assms(6) by (cases ex) (auto simp: expiry_of_def)
  have "createToken wire_env now token_keys \<lparr>tk_Type = ty, tk_KeyID = [], tk_Subject = s, tk_TokenID = t, tk_ExpiresAt = ex\<rparr> =
    go_map (\<lambda>b. EncodeToString (CHR 0x01 # b))
      (wire_token \<lparr>tk_Signature = stand_in_signature ''seed'' (text_of (put_fields fs)), tk_Content = Some ?c\<rparr>)"
    by (simp add: createToken_def chooseJWK_def token_keys_eq k ex wire_content_Ok [OF fs] Let_def ed25519_key_def go_map_def)
  then show ?thesis using wire_token_Ok [OF fs] by (auto simp: is_ok_iff)
qed

end
