(* ===== verification/AuthTokenExamples.thy ===== *)
theory AuthTokenExamples imports AuthExamples PolicyClaims begin

text \<open>
  The environment in which the calls of the examples are made, and the tokens of sessions and credentials in it.
\<close>

section \<open>The environment\<close>

text \<open>A minute after the session of the example was authenticated.\<close>

definition auth_session_env :: session_env where
  "auth_session_env = anew\<lparr>ne_NameEnd := ''abcdef''\<rparr>"

definition auth_example :: auth_env where
  "auth_example =
     \<lparr>ae_A = example_api\<lparr>ap_Now := 60000000000\<rparr>, ae_T = wire_env, ae_N = auth_session_env, ae_keys = token_keys, ae_domain = ''example.com'',
      ae_postAuthMap = (\<lambda>usr idp info. Ok []), ae_enforceMap = (\<lambda>usr idp sess as. Ok []), ae_authnMap = (\<lambda>a usr sess info. Ok [])\<rparr>"

lemma auth_example_simps [simp]:
  "ae_now auth_example = 60000000000" "ae_T auth_example = wire_env" "ae_N auth_example = auth_session_env" "ae_keys auth_example = token_keys"
  "ae_V auth_example = ascii_validators" "ae_domain auth_example = ''example.com''"
  by (simp_all add: auth_example_def example_api_def)

lemma uid_bytes:
  assumes "u \<in> {key_uid, sess_uid, token_uid}"
  shows "uid_ok wire_env u" and "\<exists>b. te_MustParse wire_env u = Ok b \<and> getUID wire_env b = Ok u" and "u \<noteq> []"
proof -
  show ok: "uid_ok wire_env u" using assms example_uids by blast
  then show "\<exists>b. te_MustParse wire_env u = Ok b \<and> getUID wire_env b = Ok u" by (simp add: uid_ok_def)
  show "u \<noteq> []" using assms by (auto simp: key_uid_def sess_uid_def token_uid_def)
qed

lemma session_tokens_made:
  assumes u: "md_Uid (se_Metadata z) = sess_uid" and a: "st_Authentication (se_Status z) = Some a"
    and t: "au_SetAt a = Some x" "au_TokenID a = token_uid \<or> au_TokenID a = key_uid"
    and n: "type_number ty = Some n"
    and e: "60000000000 \<le> token_end a (dur a)" "token_end a (dur a) div 1000000000 < 2 ^ 40"
  shows "is_ok (session_token wire_env 60000000000 token_keys ty dur (Some z))"
proof -
  have tu: "au_TokenID a \<in> {key_uid, sess_uid, token_uid}" and su: "sess_uid \<in> {key_uid, sess_uid, token_uid}" using t(2) by auto
  obtain sb where sb: "te_MustParse wire_env sess_uid = Ok sb" using uid_bytes(2) [OF su] by blast
  obtain tb where tb: "te_MustParse wire_env (au_TokenID a) = Ok tb" using uid_bytes(2) [OF tu] by blast
  have "\<exists>tkn. createToken wire_env 60000000000 token_keys
    \<lparr>tk_Type = ty, tk_KeyID = [], tk_Subject = sb, tk_TokenID = tb, tk_ExpiresAt = Some (token_end a (dur a))\<rparr> = Ok tkn"
    by (rule wire_made [OF uid_bytes(1) [OF su] uid_bytes(1) [OF tu] sb tb n]) (use e in simp)
  moreover have "authentication_of (Some z) = Ok (z, a)" using a t(1) uid_bytes(3) [OF tu] by (simp add: authentication_of_def)
  ultimately show ?thesis using sb tb u by (auto simp: session_token_def is_ok_iff)
qed

text \<open>The tokens that a call answers with.\<close>

lemma response_made:
  assumes u: "md_Uid (se_Metadata z) = sess_uid" and a: "st_Authentication (se_Status z) = Some a"
    and t: "au_SetAt a = Some 60000000000" "au_TokenID a = key_uid"
    and d: "(au_AccessTokenDuration a = Some (Hours 1) \<and> au_RefreshTokenDuration a = Some (Hours 8)) \<or>
      (au_AccessTokenDuration a = Some (Hours 4) \<and> au_RefreshTokenDuration a = Some (Hours 18))"
  shows "is_ok (generateSessionTokenResponse auth_example z)"
proof -
  have e: "60000000000 \<le> token_end a (au_AccessTokenDuration a)" "token_end a (au_AccessTokenDuration a) div 1000000000 < 2 ^ 40"
    "60000000000 \<le> token_end a (au_RefreshTokenDuration a)" "token_end a (au_RefreshTokenDuration a) div 1000000000 < 2 ^ 40"
    using d t(1) by (auto simp: token_end_def AsTime_def Add_def)
  have "is_ok (CreateAccessToken wire_env 60000000000 token_keys (Some z))"
    unfolding CreateAccessToken_def by (rule session_tokens_made [OF u a t(1)]) (use t(2) e in simp_all)
  moreover have "is_ok (CreateRefreshToken wire_env 60000000000 token_keys (Some z))"
    unfolding CreateRefreshToken_def by (rule session_tokens_made [OF u a t(1)]) (use t(2) e in simp_all)
  ultimately obtain x y where "CreateAccessToken wire_env 60000000000 token_keys (Some z) = Ok x"
    "CreateRefreshToken wire_env 60000000000 token_keys (Some z) = Ok y" by (auto simp: is_ok_iff)
  then show ?thesis
    using a by (simp add: generateSessionTokenResponse_def generateAccessToken_def generateRefreshToken_def map_err_def)
qed

section \<open>Reading what is stored\<close>

lemma net_works: "works (net_serve uid) answered K"
  by (simp add: net_serve_def works_def example_works)

lemma read_present:
  assumes "client_inv (net_serve uid) K st" and "uid \<noteq> []" "uid \<notin> rw_Uid ` set (rs_table st)" and "unchanged st s"
    and x: "x \<in> set (kind_view K st)" "opt_matches o' (cd_md K x)" and o': "kind_fits o' ''core'' ''v1'' (cd_kind K) st"
    and fine: "opts_fine (net_serve uid) o'"
  shows "\<exists>t. cl_Get (CoreC (net_serve uid) answered K) o' s = (Ok x, t) \<and> unchanged st t"
proof -
  have inv: "client_inv (net_serve uid) K s" and view: "kind_view K s = kind_view K st"
    and fits: "kind_fits o' ''core'' ''v1'' (cd_kind K) s"
    using unchanged_keeps [OF assms(4)] assms(1) o' by auto
  have "healthy (net_serve uid) answered K s"
    unfolding net_serve_def by (rule example_healthy [OF assms(2)]) (use assms(3,4) in \<open>simp add: unchanged_def\<close>)
  from core_get_present [OF inv this fits fine] x view obtain t where
    t: "cl_Get (CoreC (net_serve uid) answered K) o' s = (Ok x, t)" by auto
  from core_get_unchanged [OF inv fits t] show ?thesis using t unchanged_trans [OF assms(4)] by blast
qed

lemma read_own:
  assumes inv: "client_inv (net_serve uid) K st" and "uid \<noteq> []" "uid \<notin> rw_Uid ` set (rs_table st)" and "unchanged st s"
    and x: "x \<in> set (kind_view K st)" "md_Uid (cd_md K x) = u" "u \<noteq> []"
  shows "\<exists>t. cl_Get (CoreC (net_serve uid) answered K) (by_uid u) s = (Ok x, t) \<and> unchanged st t"
  by (rule read_present [OF assms(1-5)])
    (use core.fits_own [OF inv x(1)] x in \<open>simp_all add: opt_matches_def net_serve_def example_opts_uid\<close>)

lemma read_named:
  assumes inv: "client_inv (net_serve uid) K st" and "uid \<noteq> []" "uid \<notin> rw_Uid ` set (rs_table st)" and "unchanged st s"
    and x: "x \<in> set (kind_view K st)" "md_Name (cd_md K x) = n" "n \<noteq> []" "checkName n = Ok ()"
  shows "\<exists>t. cl_Get (CoreC (net_serve uid) answered K) (by_name n) s = (Ok x, t) \<and> unchanged st t"
  by (rule read_present [OF assms(1-5)])
    (use core.fits_name [OF inv] x in \<open>simp_all add: opt_matches_def net_serve_def example_opts_name\<close>)

section \<open>The clients\<close>

text \<open>The calls of the examples reach no devices, secrets or authenticators.\<close>

definition unreached :: "('s, 'a) client" where
  "unreached =
     \<lparr>cl_Get = (\<lambda>o' s. (Fail Internal, s)), cl_List = (\<lambda>o' s. (Fail Internal, s)), cl_Create = (\<lambda>x s. (Fail Internal, s)),
      cl_Update = (\<lambda>x s. (Fail Internal, s)), cl_Delete = (\<lambda>o' s. (Fail Internal, s))\<rparr>"

definition auth_net :: "string \<Rightarrow> rsc_state auth_clients" where
  "auth_net uid =
     \<lparr>hc_User = CoreC (net_serve uid) answered auth_users, hc_Session = CoreC (net_serve uid) answered auth_sessions,
      hc_Credential = CoreC (net_serve uid) answered auth_credentials, hc_Authenticator = unreached, hc_Device = unreached,
      hc_ClusterConfig = CoreC (net_serve uid) answered numbered_clusters, hc_Secret = unreached\<rparr>"

lemma auth_net_kinds: "auth_kinds (net_serve uid) answered auth_sessions auth_users numbered_clusters auth_credentials (auth_net uid)"
  by (simp add: auth_kinds_def auth_net_def)

section \<open>A session and its refresh token\<close>

definition refresh_call :: "string \<Rightarrow> grpc_md" where
  "refresh_call tkn = [(''x-octelium-refresh-token'', [tkn])]"

lemma refresh_call_token [simp]: "refresh_token_of (refresh_call tkn) = tkn"
  by (cases tkn) (simp_all add: refresh_token_of_def refresh_call_def GetHeaderValueMust_def GetHeaderValueAll_def ToLower_def request_cookie_def)

text \<open>The first refresh token of the session of the example, and the session after it has been used.\<close>

lemma first_refresh_token:
  assumes "z = session_of m (Some both_durations)" and "md_Uid m = sess_uid"
  obtains tkn where "CreateRefreshToken wire_env 60000000000 token_keys (Some z) = Ok tkn"
    "VerifyRefreshToken wire_env 60000000000 token_keys tkn = Ok \<lparr>rf_SessionUID = sess_uid, rf_TokenID = token_uid\<rparr>" "tkn \<noteq> []"
proof -
  have u: "md_Uid (se_Metadata z) = sess_uid" and a: "st_Authentication (se_Status z) = Some both_durations"
    using assms by (simp_all add: session_of_def)
  have e: "au_SetAt both_durations = Some 0" "au_TokenID both_durations = token_uid"
    "token_end both_durations (au_RefreshTokenDuration both_durations) = 28800000000000"
    by (simp_all add: both_durations_def token_end_def AsTime_def Add_def)
  have "is_ok (session_token wire_env 60000000000 token_keys REFRESH_TOKEN_T0 au_RefreshTokenDuration (Some z))"
    by (rule session_tokens_made [OF u a e(1)]) (simp_all add: e)
  then obtain tkn where tkn: "session_token wire_env 60000000000 token_keys REFRESH_TOKEN_T0 au_RefreshTokenDuration (Some z) = Ok tkn"
    by (auto simp: is_ok_iff)
  have "verifyToken wire_env 60000000000 token_keys tkn REFRESH_TOKEN_T0 = Ok (sess_uid, token_uid)"
    using wire.session_token_verifies [OF tkn token_keys_ok map_le_refl a, of 60000000000 REFRESH_TOKEN_T0]
    by (simp add: u e example_uids whole_second_def)
  then have "VerifyRefreshToken wire_env 60000000000 token_keys tkn = Ok \<lparr>rf_SessionUID = sess_uid, rf_TokenID = token_uid\<rparr>"
    by (simp add: VerifyRefreshToken_def go_map_def)
  moreover from this have "tkn \<noteq> []"
    by (auto simp: VerifyRefreshToken_def verifyToken_def parseToken_def token_bytes_def rgxT0_def reject_if_def)
  ultimately show thesis using tkn by (intro that) (simp_all add: CreateRefreshToken_def)
qed

lemma session_renewed_auth:
  assumes "z = session_of m (Some both_durations)"
  obtains z' a where "setCurrAuthenticationGRPC auth_example md z (example_cluster n) info = Ok z'"
    "se_Metadata z' = m" "st_Authentication (se_Status z') = Some a" "au_SetAt a = Some 60000000000" "au_TokenID a = key_uid"
    "au_AccessTokenDuration a = Some (Hours 1)" "au_RefreshTokenDuration a = Some (Hours 8)"
proof -
  obtain z' where z': "SetCurrAuthentication auth_session_env z info (GetHeaderValueMust md ''User-Agent'') (example_cluster n)
      (GetHeaderValueMust md ''X-Forwarded-For'') = Ok z'"
    using assms(1) by (simp add: SetCurrAuthentication_def session_of_def go_map_def)
  then have "se_Metadata z' = m \<and> (\<exists>a. st_Authentication (se_Status z') = Some a \<and> au_SetAt a = Some 60000000000 \<and> au_TokenID a = key_uid \<and>
      au_AccessTokenDuration a = Some (Hours 1) \<and> au_RefreshTokenDuration a = Some (Hours 8))"
    using assms(1) by (auto simp: SetCurrAuthentication_def session_of_def go_map_def Let_def auth_session_env_def anew_def both_durations_def
        prependAuthenticationToLastArray_def)
  with z' that show thesis by (auto simp: setCurrAuthenticationGRPC_def)
qed

lemma session_renewed:
  assumes "z = session_of m (Some both_durations)" and "md_Uid m = sess_uid"
  obtains z' where "setCurrAuthenticationGRPC auth_example md z (example_cluster n) info = Ok z'"
    "se_Metadata z' = m" "is_ok (generateSessionTokenResponse auth_example z')"
proof -
  obtain z' a where z': "setCurrAuthenticationGRPC auth_example md z (example_cluster n) info = Ok z'" "se_Metadata z' = m" and
    a: "st_Authentication (se_Status z') = Some a" "au_SetAt a = Some 60000000000" "au_TokenID a = key_uid"
    "au_AccessTokenDuration a = Some (Hours 1)" "au_RefreshTokenDuration a = Some (Hours 8)"
    by (rule session_renewed_auth [OF assms(1)])
  have "is_ok (generateSessionTokenResponse auth_example z')" by (rule response_made [OF _ a(1-3)]) (use z' a assms(2) in simp_all)
  with z' show thesis by (rule that)
qed

lemma session_live:
  "live_session 60000000000 \<lparr>rf_SessionUID = md_Uid m, rf_TokenID = token_uid\<rparr> (session_of m (Some both_durations))"
  "needsReAuth 60000000000 (session_of m (Some both_durations)) = Ok True"
  by (simp_all add: live_session_def session_of_def both_durations_def example_session_def IsExpired_def HasValidRefreshToken_def
      token_end_def Add_def AsTime_def needsReAuth_def HasValidAccessToken_def recent_authentications_def maxAuthenticationsPerHour_def
      go_map_def)

lemma auth_example_user: "\<not> us_IsDisabled (ur_Spec example_user)" "ur_Status example_user = Some \<lparr>ut_Ext = [], ut_IdentityProviderRef = None, ut_IsLocked = False\<rparr>"
  by (simp_all add: example_user_def)

section \<open>Clients that answer with one resource\<close>

definition fixed :: "'a \<Rightarrow> ('s, 'a) client" where
  "fixed x =
     \<lparr>cl_Get = (\<lambda>o' s. (Ok x, s)), cl_List = (\<lambda>o' s. (Ok [x], s)), cl_Create = (\<lambda>y s. (Ok x, s)),
      cl_Update = (\<lambda>y s. (Ok x, s)), cl_Delete = (\<lambda>o' s. (Ok x, s))\<rparr>"

lemma fixed_simps [simp]:
  "cl_Get (fixed x) o' s = (Ok x, s)" "cl_List (fixed x) lo s = (Ok [x], s)" "cl_Create (fixed x) y s = (Ok x, s)"
  "cl_Update (fixed x) y s = (Ok x, s)" "cl_Delete (fixed x) d s = (Ok x, s)"
  by (simp_all add: fixed_def)

definition signed_in :: Session where
  "signed_in = session_of (no_metadata\<lparr>md_Uid := sess_uid\<rparr>) (Some both_durations)"

lemma signed_in_uid [simp]: "md_Uid (se_Metadata signed_in) = sess_uid"
  by (simp add: signed_in_def session_of_def)

lemma signed_in_token:
  obtains tkn where "VerifyRefreshToken wire_env 60000000000 token_keys tkn = Ok \<lparr>rf_SessionUID = sess_uid, rf_TokenID = token_uid\<rparr>" "tkn \<noteq> []"
  using first_refresh_token [OF signed_in_def] by auto

end
