(* ===== verification/AuthClaims.thy ===== *)
theory AuthClaims imports AuthTokenExamples begin

text \<open>
  The properties of the authentication server: what its calls rely on when they succeed, and what they leave behind.
\<close>

section \<open>Second factors\<close>

lemma bind_device_metadata: "bind_device C authn sess s = (Ok sess', s') \<Longrightarrow> se_Metadata sess' = se_Metadata sess"
  by (auto simp: bind_device_def dest!: go_seq_Ok split: option.splits if_splits)

text \<open>
  C9: a session gets new tokens by an authenticator only when the call presents the current refresh token of the session, which is
  live, its user is not disabled, and the user's own registered authenticator has accepted the answer for the challenge that is stored
  with the attempt, which the same session has begun at most twenty minutes before; and the tokens are those of that session, under
  a new identifier.
\<close>

theorem second_factor_sound:
  assumes "doAuthenticateWithAuthenticator E F C md ref resp s = (Ok r, s')"
  shows "\<exists>sess usr own cc info s1 s2 s3. presents E C (refresh_token_of md) s sess s1 \<and> needsReAuth (ae_now E) sess = Ok True \<and>
    st_UserRef (se_Status sess) = Some own \<and> cl_Get (hc_User C) (by_uid (or_Uid own)) s1 = (Ok usr, s2) \<and>
    \<not> us_IsDisabled (ur_Spec usr) \<and> get_cluster C s2 = (Ok cc, s3) \<and> factor_accepted E F C cc usr sess ref resp s3 info \<and>
    (\<exists>new q s4. cl_Update (hc_Session C) new s4 = (Ok q, s') \<and> generateSessionTokenResponse E new = Ok r \<and>
      se_Metadata new = se_Metadata sess \<and>
      (\<exists>a. st_Authentication (se_Status new) = Some a \<and> au_TokenID a = ne_TokenID (ae_N E)))"
proof -
  from assms obtain sess usr cc info authn bound renewed q s1 s2 s3 s4 s5 s6 s7 where
    f: "getSessionFromGRPCCtx E C md s = (Ok sess, s1)" "needsReAuth (ae_now E) sess = Ok True"
    "getUserFromUserRef C (st_UserRef (se_Status sess)) s1 = (Ok usr, s2)" "get_cluster C s2 = (Ok cc, s3)"
    "doAuthenticateAuthenticator E F C cc ref resp usr sess s3 = (Ok info, s4)"
    "bind_device C authn sess s5 = (Ok bound, s6)" "setCurrAuthenticationGRPC E md bound cc (Some info) = Ok renewed"
    "cl_Update (hc_Session C) (authenticated_with authn renewed) s7 = (Ok q, s')"
    "generateSessionTokenResponse E (authenticated_with authn renewed) = Ok r"
    by (auto simp: doAuthenticateWithAuthenticator_def getUserFromSession_def Let_def dest!: go_seq_Ok)
  obtain own where own: "st_UserRef (se_Status sess) = Some own" "cl_Get (hc_User C) (by_uid (or_Uid own)) s1 = (Ok usr, s2)"
    "\<not> us_IsDisabled (ur_Spec usr)" using getUserFromUserRef_Ok [OF f(3)] by blast
  note auth = SetCurrAuthentication_Ok [OF f(7) [unfolded setCurrAuthenticationGRPC_def]]
  have "se_Metadata (authenticated_with authn renewed) = se_Metadata sess"
    using auth(1) bind_device_metadata [OF f(6)] by (simp add: authenticated_with_def)
  moreover have "\<exists>a. st_Authentication (se_Status (authenticated_with authn renewed)) = Some a \<and> au_TokenID a = ne_TokenID (ae_N E)"
    using auth(2) by (simp add: authenticated_with_def)
  ultimately show ?thesis
    using getSessionFromGRPCCtx_Ok [OF f(1)] f(2,4,8,9) own doAuthenticateAuthenticator_Ok [OF f(5)] by blast
qed

text \<open>A session whose user answers with a code of an authenticator.\<close>

definition code_ref :: "string \<Rightarrow> string \<Rightarrow> ObjectReference" where
  "code_ref kind u = \<lparr>or_ApiVersion = ''core/v1'', or_Kind = kind, or_Uid = u, or_Name = [], or_ResourceVersion = []\<rparr>"

definition code_secret :: Authenticator_EncryptedData where
  "code_secret = \<lparr>ed_Ciphertext = ''seed'', ed_Nonce = [], ed_KeySecretRef = Some (code_ref ''Secret'' key_uid)\<rparr>"

definition code_authenticator :: Authenticator where
  "code_authenticator =
     \<lparr>atr_ApiVersion = ''core/v1'', atr_Kind = ''Authenticator'', atr_Metadata = no_metadata\<lparr>md_Uid := ''a1''\<rparr>, atr_DisplayName = [],
      atr_Status =
        \<lparr>ats_UserRef = st_UserRef (se_Status example_session), ats_DeviceRef = None, ats_Type = TOTP,
         ats_Info = Some (Info_Totp (Some code_secret)),
         ats_AuthenticationAttempt = Some \<lparr>tt_CreatedAt = Some 0, tt_EncryptedChallengeRequest = Some code_secret, tt_EncryptedDataMap = [],
           tt_DataMap = [], tt_SessionRef = Some (code_ref ''Session'' sess_uid)\<rparr>,
         ats_LastAuthenticationAttempts = [], ats_SuccessfulAuthentications = 0, ats_FailedAuthentications = 0,
         ats_TotalAuthenticationAttempts = 1, ats_IsRegistered = True, ats_Description = []\<rparr>\<rparr>"

definition code_clients :: "unit auth_clients" where
  "code_clients =
     \<lparr>hc_User = fixed example_user, hc_Session = fixed signed_in, hc_Credential = fixed (credential_of no_metadata 0),
      hc_Authenticator = fixed code_authenticator, hc_Device = unreached, hc_ClusterConfig = fixed (example_cluster no_metadata),
      hc_Secret = fixed root_secret\<rparr>"

definition no_factor :: "'s factor" where
  "no_factor =
     \<lparr>fa_Begin = (\<lambda>a u s. (Fail Internal, s)), fa_Finish = (\<lambda>a u r c s. (Fail ErrInvalidAuth, s)),
      fa_BeginRegistration = (\<lambda>a u p s. (Fail Internal, s)), fa_FinishRegistration = (\<lambda>a u r c s. (Fail ErrInvalidAuth, a, s))\<rparr>"

definition code_factor :: "unit factor_env" where
  "code_factor =
     \<lparr>fe_Crypt = \<lparr>cy_Seal = (\<lambda>k n x. Ok x), cy_Open = (\<lambda>k n x. Ok x), cy_pick = (\<lambda>n. 0), cy_nonce = Ok []\<rparr>,
      fe_Totp = \<lparr>to_Generate = (\<lambda>i a. Ok ([], [])), to_Validate = (\<lambda>code key. code = ''123456'' \<and> key = ''seed'')\<rparr>,
      fe_Fido = no_factor, fe_Tpm = no_factor,
      fe_CheckSlidingWindow = (\<lambda>k d n s. (Ok True, s)), fe_Marshal = (\<lambda>c. Ok []), fe_Unmarshal = (\<lambda>b. Ok (Challenge_Totp []))\<rparr>"

lemma code_accepted:
  "\<exists>info. doAuthenticateAuthenticator auth_example code_factor code_clients (example_cluster no_metadata) (Some (code_ref ''Authenticator'' ''a1''))
      (Some (Response_Totp ''123456'')) example_user signed_in () = (Ok info, ()) \<and> info_authenticator_ref info = Ok (code_ref ''Authenticator'' ''a1'')"
proof -
  have "getAuthenticator auth_example code_clients (Some (code_ref ''Authenticator'' ''a1'')) signed_in () = (Ok code_authenticator, ())"
    by (simp add: getAuthenticator_def code_ref_def CheckObjectRef_def CheckGetOptions_def no_get_opts_def code_clients_def
        code_authenticator_def signed_in_def session_of_def example_session_def ascii_validators_def reject_if_def on_err_def map_err_def)
  moreover have "current_attempt code_authenticator signed_in = Ok (the (ats_AuthenticationAttempt (atr_Status code_authenticator)))"
    by (simp add: current_attempt_def code_authenticator_def code_ref_def)
  moreover have "DecryptData (fe_Crypt code_factor) (hc_Secret code_clients) (Some code_secret) () = (Ok ''seed'', ())"
    by (simp add: DecryptData_def code_secret_def code_factor_def code_clients_def)
  moreover have "checkAuthenticatorRateLimit code_factor code_authenticator () = (Ok (), ())"
    by (simp add: checkAuthenticatorRateLimit_def rate_limits_def code_factor_def reject_if_def on_err_def map_err_def)
  moreover have "ats_IsRegistered (atr_Status code_authenticator)" "ats_Type (atr_Status code_authenticator) = TOTP"
    "\<not> isAuthenticationAttemptTimeoutExceeded 60000000000 (the (ats_AuthenticationAttempt (atr_Status code_authenticator)))"
    "tt_EncryptedChallengeRequest (the (ats_AuthenticationAttempt (atr_Status code_authenticator))) = Some code_secret"
    "totp_secret code_authenticator = Some (Some code_secret)"
    by (simp_all add: code_authenticator_def isAuthenticationAttemptTimeoutExceeded_def AsTime_def totp_secret_def)
  moreover have "nullifyCurrAndUpdate code_clients (succeeded code_authenticator) () = (Ok (), ())"
    by (simp add: nullifyCurrAndUpdate_def code_clients_def on_err_def map_err_def)
  moreover have "doPostAuthenticatorAuthenticationRules auth_example (example_cluster no_metadata) a (Some signed_in) u i = Ok ()" for a u i
    by (simp add: doPostAuthenticatorAuthenticationRules_def example_cluster_def)
  moreover have "authenticator_ref (succeeded code_authenticator) = Some (code_ref ''Authenticator'' ''a1'')"
    by (simp add: authenticator_ref_def succeeded_def code_authenticator_def code_ref_def GetObjectReference_def no_metadata_def)
  ultimately show ?thesis
    by (simp add: doAuthenticateAuthenticator_def reject_if_def on_err_def map_err_def check_kinds_def getAuthenticatorCtl_def totp_factor_def
        totp_Finish_def Let_def info_authenticator_ref_def authenticator_info_def)
      (simp add: code_factor_def reject_if_def)
qed

theorem second_factor_sound_witness:
  "\<exists>tkn r sess. doAuthenticateWithAuthenticator auth_example code_factor code_clients (refresh_call tkn) (Some (code_ref ''Authenticator'' ''a1''))
      (Some (Response_Totp ''123456'')) () = (Ok r, ()) \<and> presents auth_example code_clients tkn () sess () \<and>
    needsReAuth 60000000000 sess = Ok True"
proof -
  obtain tkn where tkn: "VerifyRefreshToken wire_env 60000000000 token_keys tkn = Ok \<lparr>rf_SessionUID = sess_uid, rf_TokenID = token_uid\<rparr>" "tkn \<noteq> []"
    by (rule signed_in_token)
  obtain info where info: "doAuthenticateAuthenticator auth_example code_factor code_clients (example_cluster no_metadata)
      (Some (code_ref ''Authenticator'' ''a1'')) (Some (Response_Totp ''123456'')) example_user signed_in () = (Ok info, ())"
    "info_authenticator_ref info = Ok (code_ref ''Authenticator'' ''a1'')" using code_accepted by blast
  obtain z' a where z': "setCurrAuthenticationGRPC auth_example (refresh_call tkn) signed_in (example_cluster no_metadata) (Some info) = Ok z'"
    "se_Metadata z' = no_metadata\<lparr>md_Uid := sess_uid\<rparr>" and a: "st_Authentication (se_Status z') = Some a" "au_SetAt a = Some 60000000000"
    "au_TokenID a = key_uid" "au_AccessTokenDuration a = Some (Hours 1)" "au_RefreshTokenDuration a = Some (Hours 8)"
    by (rule session_renewed_auth [OF signed_in_def])
  have "is_ok (generateSessionTokenResponse auth_example (authenticated_with code_authenticator z'))"
    by (rule response_made [of _ a]) (use z' a in \<open>simp_all add: authenticated_with_def\<close>)
  then obtain r where r: "generateSessionTokenResponse auth_example (authenticated_with code_authenticator z') = Ok r" by (auto simp: is_ok_iff)
  have live: "check_session 60000000000 \<lparr>rf_SessionUID = sess_uid, rf_TokenID = token_uid\<rparr> signed_in = Ok ()" "needsReAuth 60000000000 signed_in = Ok True"
    using session_live [of "no_metadata\<lparr>md_Uid := sess_uid\<rparr>"] by (simp_all add: check_session_Ok signed_in_def)
  have sess: "getSessionFromGRPCCtx auth_example code_clients (refresh_call tkn) () = (Ok signed_in, ())"
    using tkn live(1) by (simp add: getSessionFromGRPCCtx_def getSessionFromRefreshToken_def code_clients_def reject_if_def on_err_def map_err_def)
  have user: "getUserFromSession code_clients signed_in () = (Ok example_user, ())"
    by (simp add: getUserFromSession_def getUserFromUserRef_def code_clients_def signed_in_def session_of_def example_session_def
        auth_example_user reject_if_def on_err_def map_err_def)
  have bind: "bind_device code_clients code_authenticator signed_in () = (Ok signed_in, ())"
    by (simp add: bind_device_def code_authenticator_def signed_in_def session_of_def example_session_def)
  have "get_cluster code_clients () = (Ok (example_cluster no_metadata), ())"
    "cl_Get (hc_Authenticator code_clients) o' () = (Ok code_authenticator, ())" "cl_Update (hc_Session code_clients) x () = (Ok signed_in, ())"
    "validateChallengeResponse (Some (Response_Totp ''123456'')) = Ok ()" for o' x
    by (simp_all add: get_cluster_def code_clients_def on_err_def map_err_def validateChallengeResponse_def reject_if_def trim_with_def ascii_space_def)
  then have ok: "doAuthenticateWithAuthenticator auth_example code_factor code_clients (refresh_call tkn) (Some (code_ref ''Authenticator'' ''a1''))
      (Some (Response_Totp ''123456'')) () = (Ok r, ())"
    using sess live(2) user info bind z'(1) r
    by (simp add: doAuthenticateWithAuthenticator_def reject_if_def on_err_def map_err_def Let_def)
  from second_factor_sound [OF ok] obtain sess where "presents auth_example code_clients tkn () sess ()"
    "needsReAuth 60000000000 sess = Ok True" by auto
  with ok show ?thesis by blast
qed

section \<open>Logins in a browser\<close>

lemma handleAuthCallback_acts:
  assumes "handleAuthCallback E L C K r s = (Ok acts, s')" and "act \<in> set acts" and "act \<noteq> Act_Redirect To_Root"
  shows "\<exists>st p info usr sess cc s1 s2 s3 s4. continues L r s st s1 \<and> getWebProviderFromUID (le_Providers L) (ls_UID st) = Ok p \<and>
    cn_HandleCallback p r (ls_RequestID st) = Ok info \<and> authenticateUser E C info (cn_Provider p) s2 = (Ok usr, s3) \<and>
    doPostAuthenticationRules E (cn_Provider p) usr info = Ok () \<and>
    createOrUpdateSessWeb E C (hr_Header r) usr info cc (Some (cn_Provider p)) s3 = (Ok sess, s4) \<and>
    act \<in> set (fst (fst (setAuthCallbackResponse E L K st sess s4)))"
  using to_root_acts [OF assms(1) [unfolded handleAuthCallback_def] assms(2)] assms(3)
  by (auto dest!: act_seq_acts getLoginStateFromCallback_Ok) blast

text \<open>
  C11: a callback gives a browser the tokens of a session only when it carries the identifier of a login that the same browser began,
  which is taken out of the cache, the provider of that login is neither disabled nor locked and has accepted the callback, no rule of
  it denies, and the user is a human who is not disabled and for whom the provider vouches; and the tokens are those of a session that
  is begun for this user, or of the live session that the browser has already and that was begun with the same provider, under a new
  token identifier (whose user is not compared with the one who has logged in: \<open>renewal_ignores_user\<close>).
\<close>

theorem login_callback_sound:
  assumes "handleAuthCallback E L C K r s = (Ok acts, s')" and "Act_Cookies cs \<in> set acts"
  shows "\<exists>st p info d usr sess x y a s1. continues L r s st s1 \<and>
    p \<in> set (le_Providers L) \<and> md_Uid (idp_Metadata (cn_Provider p)) = ls_UID st \<and>
    \<not> is_IsDisabled (idp_Spec (cn_Provider p)) \<and> \<not> it_IsLocked (idp_Status (cn_Provider p)) \<and>
    cn_HandleCallback p r (ls_RequestID st) = Ok info \<and> identity_of (Some info) = Some d \<and>
    vouched_for E C (cn_Provider p) d usr \<and> us_Type (ur_Spec usr) = HUMAN \<and> \<not> us_IsDisabled (ur_Spec usr) \<and>
    doPostAuthenticationRules E (cn_Provider p) usr info = Ok () \<and>
    (begun_session E C usr info sess \<or> renewed_session E C (hr_Header r) info sess) \<and>
    generateAccessToken E (Some sess) = Ok x \<and> generateRefreshToken E (Some sess) = Ok y \<and>
    st_Authentication (se_Status sess) = Some a \<and> Act_Cookies cs = login_cookies E x y a"
proof -
  from handleAuthCallback_acts [OF assms http_act.distinct(2)] obtain st p info usr sess cc s1 s2 s3 s4 where
    f: "continues L r s st s1" "getWebProviderFromUID (le_Providers L) (ls_UID st) = Ok p" "cn_HandleCallback p r (ls_RequestID st) = Ok info"
    "authenticateUser E C info (cn_Provider p) s2 = (Ok usr, s3)" "doPostAuthenticationRules E (cn_Provider p) usr info = Ok ()"
    and g: "createOrUpdateSessWeb E C (hr_Header r) usr info cc (Some (cn_Provider p)) s3 = (Ok sess, s4)"
    "Act_Cookies cs \<in> set (fst (fst (setAuthCallbackResponse E L K st sess s4)))"
    by (elim exE conjE) (rule that)
  obtain d where "identity_of (Some info) = Some d" "vouched_for E C (cn_Provider p) d usr" "us_Type (ur_Spec usr) = HUMAN"
    "\<not> us_IsDisabled (ur_Spec usr)"
    using authenticateUser_Ok [OF f(4)] by blast
  with f(1,3,5) getWebProviderFromUID_Ok [OF f(2)] createOrUpdateSessWeb_Ok [OF g(1)] setAuthCallbackResponse_cookies [OF g(2)]
  show ?thesis by blast
qed

text \<open>
  When the browser has a live session that was begun with the provider, what a login does with it depends in no way on the user who has
  logged in: the session of another user, even of one that is disabled, is authenticated anew, and its tokens are handed out.
\<close>

lemma renewal_ignores_user:
  assumes "getWebSessionFromHTTPRefreshCookie E C hdr s = (Ok old, s1)" and "ccs_Authenticator (cc_Spec cc) = None"
    and "identity_provider_uid (Some info) = Some u" and "identity_provider_uid (initial_info old) = Some u"
  shows "createOrUpdateSessWeb E C hdr usr info cc idp s = createOrUpdateSessWeb E C hdr usr' info cc idp s"
  using assms by (simp add: createOrUpdateSessWeb_def getAuthenticatorAction_def Let_def)

text \<open>A browser that comes back from a provider, to a login that it began.\<close>

definition login_provider :: IdentityProvider where
  "login_provider =
     \<lparr>idp_ApiVersion = ''core/v1'', idp_Kind = ''IdentityProvider'', idp_Metadata = no_metadata\<lparr>md_Uid := ''p1'', md_Name := ''corp''\<rparr>,
      idp_Spec = \<lparr>is_IsDisabled = False, is_DisplayName = [], is_AalRules = [], is_DisableEmailAsIdentity = True,
        is_PostAuthenticationRules = [], is_Type = IdP_Unset\<rparr>,
      idp_Status = \<lparr>it_Type = OIDC, it_IsLocked = False\<rparr>\<rparr>"

definition login_info :: Authentication_Info where
  "login_info =
     \<lparr>ai_Type = IDENTITY_PROVIDER,
      ai_Details = Details_IdentityProvider
        \<lparr>ii_IdentityProviderRef = Some \<lparr>or_ApiVersion = ''core/v1'', or_Kind = ''IdentityProvider'', or_Uid = ''p1'', or_Name = ''corp'',
           or_ResourceVersion = []\<rparr>, ii_Type = OIDC, ii_Identifier = ''alice@corp'', ii_PicURL = [], ii_Email = []\<rparr>,
      ai_Aal = 0, ai_Downstream = None\<rparr>"

definition login_user :: User where
  "login_user = example_user\<lparr>ur_Spec := (ur_Spec example_user)\<lparr>us_Authentication :=
     Some [\<lparr>id_IdentityProvider = ''corp'', id_Identifier = ''alice@corp''\<rparr>]\<rparr>\<rparr>"

definition login_example :: "unit login_env" where
  "login_example =
     \<lparr>le_Parse = (\<lambda>u. Some \<lparr>u_Scheme = ''https'', u_Hostname = takeWhile (\<lambda>c. c \<noteq> CHR ''/'') (drop 8 u), u_Port = [], u_String = u\<rparr>),
      le_ParseQuery = (\<lambda>q. Some (\<lambda>k. if k = ''octelium_req'' then q else [])),
      le_DecodeLogin = (\<lambda>q. Ok \<lparr>lq_ApiVersion = 1, lq_CallbackPort = 20001, lq_CallbackSuffix = ''abcdef''\<rparr>),
      le_States = \<lparr>kv_Set = (\<lambda>k d x s. (Ok (), s)), kv_Take = (\<lambda>k s. (Ok \<lparr>ls_ID = [], ls_CallbackURL = [], ls_IsApp = False, ls_UID = ''p1'',
        ls_RequestID = [], ls_LoginURL = []\<rparr>, s))\<rparr>,
      le_Callbacks = \<lparr>kv_Set = (\<lambda>k d x s. (Ok (), s)), kv_Take = (\<lambda>k s. (Fail NotFound, s))\<rparr>,
      le_State = [], le_Mint = \<lparr>mi_T = wire_env, mi_N = auth_session_env, mi_Id = [], mi_TokenID = key_uid\<rparr>,
      le_CredEnd = ''abcdef'', le_CredMap = (\<lambda>m c. Ok []), le_WithToken = (\<lambda>u t. Ok (u @ t)),
      le_Providers = [\<lparr>cn_Provider = login_provider, cn_LoginURL = (\<lambda>s. Ok (''https://corp/login'', [])),
        cn_HandleCallback = (\<lambda>r i. Ok login_info)\<rparr>]\<rparr>"

definition login_clients :: "unit auth_clients" where
  "login_clients = code_clients\<lparr>hc_User := fixed login_user\<rparr>"

abbreviation login_id :: string where
  "login_id \<equiv> ''abcdefghijklmnopqrstuvwxyz0123456789''"

definition callback_request :: http_req where
  "callback_request =
     \<lparr>hr_Method = ''GET'', hr_Header = [(''cookie'', [''octelium_login_state='' @ login_id])], hr_Query = (\<lambda>k. []), hr_RawQuery = [],
      hr_Form = (\<lambda>k. if k = ''state'' then login_id else []), hr_PostForm = (\<lambda>k. [])\<rparr>"

lemma login_id_ok: "rgxStateID login_id"
  by (simp add: rgxStateID_def)

lemma quote_char: "char_of (34 :: nat) = CHR 0x22"
  by (simp add: char_of_def bit_Suc_0_iff)

lemma login_cookie: "request_cookie (hr_Header callback_request) ''octelium_login_state'' = Some login_id"
  "request_cookie (hr_Header callback_request) ''octelium_rt'' = None"
  by (simp_all add: request_cookie_def callback_request_def GetHeaderValueAll_def ToLower_def Cookie_def trim_with_def http_space_def
      parseCookieValue_def validCookieValueByte_def quote_char)

definition login_credentials :: "unit cred_clients" where
  "login_credentials =
     \<lparr>kc_Credential = unreached, kc_User = unreached, kc_Policy = unreached, kc_Session = unreached, kc_ClusterConfig = unreached,
      kc_Secret = unreached\<rparr>"

lemma login_accepted:
  "authenticateUser auth_example login_clients login_info login_provider () = (Ok login_user, ())"
  by (simp add: authenticateUser_def identity_of_def login_info_def login_clients_def code_clients_def login_user_def example_user_def
      check_account_def account_of_def reject_if_def on_err_def map_err_def)

lemma login_session:
  "createOrUpdateSessWeb auth_example login_clients (hr_Header callback_request) login_user login_info (example_cluster no_metadata)
     (Some login_provider) () = (Ok signed_in, ())"
proof -
  have max: "max_sessions (ur_Spec login_user) (example_cluster no_metadata) = 16"
    by (simp add: login_user_def max_sessions_def positive_max_def example_user_def cc_session_def example_cluster_def)
  have "ccs_Authenticator (cc_Spec (example_cluster no_metadata)) = None" "\<not> (16 :: 32 word) \<le> 1"
    by (simp_all add: example_cluster_def word_le_nat_alt)
  then show ?thesis
    by (simp add: createOrUpdateSessWeb_def Let_def getWebSessionFromHTTPRefreshCookie_def login_cookie createWebSession_def
        auth_checkMaxSessionsPerUser_def login_clients_def code_clients_def max reject_if_def on_err_def map_err_def NewSession_def
        given_config_def auth_session_opts_def getAuthenticatorAction_def)
qed

lemma signed_in_tokens: "is_ok (generateAccessToken auth_example (Some signed_in))" "is_ok (generateRefreshToken auth_example (Some signed_in))"
proof -
  have a: "st_Authentication (se_Status signed_in) = Some both_durations" by (simp add: signed_in_def session_of_def)
  have e: "au_SetAt both_durations = Some 0" "au_TokenID both_durations = token_uid"
    "token_end both_durations (au_RefreshTokenDuration both_durations) = 28800000000000"
    "token_end both_durations (au_AccessTokenDuration both_durations) = 3600000000000"
    by (simp_all add: both_durations_def token_end_def AsTime_def Add_def)
  show "is_ok (generateAccessToken auth_example (Some signed_in))" "is_ok (generateRefreshToken auth_example (Some signed_in))"
    using session_tokens_made [OF signed_in_uid a e(1), of ACCESS_TOKEN_T0 _ au_AccessTokenDuration]
      session_tokens_made [OF signed_in_uid a e(1), of REFRESH_TOKEN_T0 _ au_RefreshTokenDuration]
    by (simp_all add: e generateAccessToken_def CreateAccessToken_def generateRefreshToken_def CreateRefreshToken_def)
qed

theorem login_callback_sound_witness:
  "\<exists>acts cs st. handleAuthCallback auth_example login_example login_clients login_credentials callback_request () = (Ok acts, ()) \<and>
     Act_Cookies cs \<in> set acts \<and> continues login_example callback_request () st () \<and> ls_UID st = md_Uid (idp_Metadata login_provider)"
proof -
  let ?L = login_example and ?st = "\<lparr>ls_ID = [], ls_CallbackURL = [], ls_IsApp = False, ls_UID = ''p1'', ls_RequestID = [], ls_LoginURL = []\<rparr>"
  have st: "getLoginStateFromCallback ?L callback_request () = (Ok ?st, ())"
    by (simp add: getLoginStateFromCallback_def getStateIDFromCookie_def login_cookie login_id_ok getLoginStateFromStateID_def reject_if_def map_err_def)
      (simp add: state_id_def callback_request_def login_id_ok reject_if_def login_example_def)
  have p: "getWebProviderFromUID (le_Providers ?L) ''p1'' = Ok \<lparr>cn_Provider = login_provider, cn_LoginURL = (\<lambda>s. Ok (''https://corp/login'', [])),
      cn_HandleCallback = (\<lambda>r i. Ok login_info)\<rparr>"
    by (simp add: getWebProviderFromUID_def login_example_def login_provider_def)
  obtain x y where xy: "generateAccessToken auth_example (Some signed_in) = Ok x" "generateRefreshToken auth_example (Some signed_in) = Ok y"
    using signed_in_tokens by (auto simp: is_ok_iff)
  have z: "st_Authentication (se_Status signed_in) = Some both_durations" "st_AuthenticatorAction (se_Status signed_in) = AUTHENTICATOR_ACTION_UNSET"
    by (simp_all add: signed_in_def session_of_def example_session_def)
  have c: "cl_Get (hc_ClusterConfig login_clients) o' () = (Ok (example_cluster no_metadata), ())" for o'
    by (simp add: login_clients_def code_clients_def)
  have rules: "doPostAuthenticationRules auth_example login_provider login_user login_info = Ok ()"
    by (simp add: doPostAuthenticationRules_def login_provider_def)
  obtain acts where acts: "handleAuthCallback auth_example ?L login_clients login_credentials callback_request () = (Ok acts, ())"
    "login_cookies auth_example x y both_durations \<in> set acts"
    by (simp add: handleAuthCallback_def act_seq_def st p c login_accepted rules login_session setAuthCallbackResponse_def xy z
        to_callback_def to_root_def Let_def)
  then obtain cs where cs: "Act_Cookies cs \<in> set acts" by (auto simp: login_cookies_def)
  from login_callback_sound [OF acts(1) cs] obtain st p where "continues login_example callback_request () st ()"
    "p \<in> set (le_Providers login_example)" "md_Uid (idp_Metadata (cn_Provider p)) = ls_UID st" by auto
  moreover from this(2,3) have "ls_UID st = md_Uid (idp_Metadata login_provider)" by (simp add: login_example_def)
  ultimately show ?thesis using acts(1) cs by blast
qed

section \<open>Where a browser is sent\<close>

lemma isURLSameClusterOrigin_iff:
  "isURLSameClusterOrigin L domain u \<longleftrightarrow>
     u \<noteq> [] \<and> length u \<le> 1500 \<and> (\<exists>h x. le_Parse L u = Some h \<and> u_Hostname h = x @ domain)"
  by (auto simp: isURLSameClusterOrigin_def HasSuffix_def split: option.splits intro: append_take_drop_id [symmetric])
    (metis append_take_drop_id)

lemma getLoginReq_Ok:
  assumes "getLoginReq L V arg = Ok q"
  shows "20000 \<le> unat (lq_CallbackPort q) \<and> unat (lq_CallbackPort q) \<le> 65000 \<and> 4 \<le> length (lq_CallbackSuffix q) \<and>
    length (lq_CallbackSuffix q) \<le> 8 \<and> IsASCII V (lq_CallbackSuffix q)"
  using assms by (auto simp: getLoginReq_def word_less_nat_alt not_less)

lemma getRedirectURL_same: "getRedirectURL L domain vals \<noteq> [] \<Longrightarrow> isURLSameClusterOrigin L domain (getRedirectURL L domain vals)"
  by (simp add: getRedirectURL_def split: if_splits)

text \<open>
  C39: the address that a login calls back is that of an application, on the local host at a port between 20000 and 65000 and with a
  suffix of four to eight ASCII characters, or it is empty, or the name of its host ends in the domain of the cluster.
\<close>

theorem callback_address_bounds:
  assumes "login_callback L V domain query r = Ok (u, isApp)"
  shows "if isApp
    then \<exists>q. u = localhost_callback q \<and> 20000 \<le> unat (lq_CallbackPort q) \<and> unat (lq_CallbackPort q) \<le> 65000 \<and>
      4 \<le> length (lq_CallbackSuffix q) \<and> length (lq_CallbackSuffix q) \<le> 8 \<and> IsASCII V (lq_CallbackSuffix q)
    else u = [] \<or> (\<exists>h x. le_Parse L u = Some h \<and> u_Hostname h = x @ domain)"
proof -
  have gen: "if isApp
    then \<exists>q. v = localhost_callback q \<and> 20000 \<le> unat (lq_CallbackPort q) \<and> unat (lq_CallbackPort q) \<le> 65000 \<and>
      4 \<le> length (lq_CallbackSuffix q) \<and> length (lq_CallbackSuffix q) \<le> 8 \<and> IsASCII V (lq_CallbackSuffix q)
    else v = [] \<or> isURLSameClusterOrigin L domain v" if "generateCallbackURL L V domain q = Ok (v, isApp)" for q v isApp
    using that getLoginReq_Ok [of L V] getRedirectURL_same [of L domain]
    by (fastforce simp: generateCallbackURL_def localhost_callback_def split: if_splits option.splits)
  from assms obtain q v where v: "generateCallbackURL L V domain q = Ok (v, isApp)"
    "u = (if v = [] then getRedirectURL L domain (hr_Query r) else v)"
    by (auto simp: login_callback_def Let_def)
  have "v \<noteq> []" if isApp
    using gen [OF v(1)] that by (auto simp: localhost_callback_def)
  with gen [OF v(1)] v(2) getRedirectURL_same [of L domain "hr_Query r"] show ?thesis
    by (auto simp: isURLSameClusterOrigin_iff split: if_splits)
qed

theorem callback_address_bounds_witness:
  "\<exists>u q. login_callback login_example ascii_validators ''example.com'' ''app'' callback_request = Ok (u, True) \<and> u = localhost_callback q \<and>
     20000 \<le> unat (lq_CallbackPort q) \<and> unat (lq_CallbackPort q) \<le> 65000"
proof -
  have u: "login_callback login_example ascii_validators ''example.com'' ''app'' callback_request =
      Ok (localhost_callback \<lparr>lq_ApiVersion = 1, lq_CallbackPort = 20001, lq_CallbackSuffix = ''abcdef''\<rparr>, True)"
    by (simp add: login_callback_def generateCallbackURL_def getLoginReq_def login_example_def ascii_validators_def reject_if_def go_map_def
        map_err_def localhost_callback_def Let_def word_less_nat_alt)
  from callback_address_bounds [OF u] u show ?thesis by auto
qed

text \<open>The login page of a provider that is not disabled.\<close>

definition provider_page :: "'s login_env \<Rightarrow> string \<Rightarrow> bool" where
  "provider_page L u \<longleftrightarrow>
     (\<exists>p\<in>set (le_Providers L). \<exists>req. \<not> is_IsDisabled (idp_Spec (cn_Provider p)) \<and> cn_LoginURL p (le_State L) = Ok (u, req))"

lemma provider_pageI:
  "getWebProviderFromUID (le_Providers L) uid = Ok p \<Longrightarrow> cn_LoginURL p (le_State L) = Ok (u, req) \<Longrightarrow> provider_page L u"
  using getWebProviderFromUID_Ok [of "le_Providers L" uid p] by (auto simp: provider_page_def)

lemma doGenerateLoginState_URL:
  assumes "doGenerateLoginState E L p query r s = (Ok (st, act), s')"
  shows "(\<exists>req. cn_LoginURL p (le_State L) = Ok (ls_LoginURL st, req)) \<and> (\<exists>cs. act = Act_Cookies cs)"
  using assms by (auto simp: doGenerateLoginState_def Let_def dest!: go_seq_Ok)

lemma login_again_redirects:
  assumes "login_again E L C r sess s = (Ok acts, s')" and "Act_Redirect (To_URL u) \<in> set acts"
  shows "provider_page L u"
  using assms
  by (auto simp: login_again_def Let_def split: option.splits Info_Details.splits if_splits go.splits prod.splits
      dest!: go_seq_Ok doGenerateLoginState_URL)
    (rule provider_pageI, assumption, assumption)+

lemma handleLogin_redirects:
  assumes "handleLogin E L C r s = (Ok acts, s')" and "Act_Redirect (To_URL u) \<in> set acts"
  shows "isURLSameClusterOrigin L (ae_domain E) u \<or>
    provider_page L u"
  using assms
  by (auto simp: handleLogin_def Let_def split: go.splits prod.splits if_splits dest!: go_seq_Ok login_again_redirects)

lemma onwards_to_URL:
  assumes "onwards_to E L v = To_URL u"
  shows "isURLSameClusterOrigin L (ae_domain E) u \<or> (\<exists>h. le_Parse L u = Some h \<and> u_Hostname h = ''localhost'')"
  using assms by (auto simp: onwards_to_def split: if_splits option.splits)

lemma handleAuthSuccess_redirects:
  assumes "handleAuthSuccess E L C K r s = (Ok acts, s')" and "Act_Redirect (To_URL u) \<in> set acts"
  shows "isURLSameClusterOrigin L (ae_domain E) u \<or> (\<exists>h. le_Parse L u = Some h \<and> u_Hostname h = ''localhost'')"
proof -
  have "onwards_to E L (hr_Form r ''redirect'') = To_URL u"
    using assms
    by (auto simp: handleAuthSuccess_def Let_def split: go.splits prod.splits if_splits option.splits Info_Details.splits)
  then show ?thesis by (rule onwards_to_URL)
qed

text \<open>
  C40: a page of the login sends a browser to a URL of its choosing only when the name of its host is \<open>localhost\<close> or ends in the
  domain of the cluster, or when it is the login page of a provider that is not disabled. (The name ends in the domain: it need not be a
  name in the domain.)
\<close>

theorem redirects_confined:
  assumes "handleAuthSuccess E L C K r s = (Ok acts, s') \<or> handleLogin E L C r s = (Ok acts, s')"
    and "Act_Redirect (To_URL u) \<in> set acts"
  shows "(\<exists>h x. le_Parse L u = Some h \<and> (u_Hostname h = ''localhost'' \<or> u_Hostname h = x @ ae_domain E)) \<or>
    provider_page L u"
  using assms(1)
proof
  assume "handleAuthSuccess E L C K r s = (Ok acts, s')"
  from handleAuthSuccess_redirects [OF this assms(2)] show ?thesis by (auto simp: isURLSameClusterOrigin_iff)
next
  assume "handleLogin E L C r s = (Ok acts, s')"
  from handleLogin_redirects [OF this assms(2)] show ?thesis by (auto simp: isURLSameClusterOrigin_iff)
qed

text \<open>A browser that is signed in, and asks to log in from a page of the cluster.\<close>

lemma token_char_byte:
  assumes "token_char c"
  shows "validCookieValueByte c" "\<not> http_space c" "c \<noteq> CHR '';''" "c \<noteq> CHR 0x22"
  using assms by (auto simp: token_char_def validCookieValueByte_def http_space_def Let_def less_eq_char_def)

lemma token_cookie_read:
  assumes "rgxT0 tkn"
  shows "request_cookie [(''cookie'', [''octelium_rt='' @ tkn])] ''octelium_rt'' = Some tkn"
proof -
  have c: "\<forall>c\<in>set tkn. token_char c" and ne: "tkn \<noteq> []" using assms by (auto simp: rgxT0_def list_all_iff)
  have "\<not> http_space (last tkn)" "hd tkn \<noteq> CHR 0x22" using c ne token_char_byte by auto
  then have trim: "trim_with http_space (''octelium_rt='' @ tkn) = ''octelium_rt='' @ tkn"
    using ne by (cases "rev tkn") (auto simp: trim_with_def http_space_def last_rev)
  have "CHR '';'' \<notin> set (''octelium_rt='' @ tkn)" using c token_char_byte(3) by auto
  from Split_no_sep [OF this] have split: "Split (''octelium_rt='' @ tkn) CHR '';'' = [''octelium_rt='' @ tkn]" .
  have parsed: "parseCookieValue tkn = Some tkn"
    using c token_char_byte(1) \<open>hd tkn \<noteq> CHR 0x22\<close> by (auto simp: parseCookieValue_def quote_char list_all_iff Let_def)
  have "trim_with http_space ''octelium_rt'' = ''octelium_rt''" by (simp add: trim_with_def http_space_def)
  then have "cookie_in ''octelium_rt'' [''octelium_rt='' @ tkn] = Some tkn"
    using trim parsed by simp
  moreover have "request_cookie [(''cookie'', [''octelium_rt='' @ tkn])] ''octelium_rt'' = cookie_in ''octelium_rt'' [''octelium_rt='' @ tkn]"
    using trim split by (simp add: request_cookie_def GetHeaderValueAll_def ToLower_def Cookie_def)
  ultimately show ?thesis by simp
qed

definition browser_session :: Session where
  "browser_session = signed_in\<lparr>se_Status := (se_Status signed_in)\<lparr>st_IsBrowser := True\<rparr>\<rparr>"

definition browser_clients :: "unit auth_clients" where
  "browser_clients = login_clients\<lparr>hc_Session := fixed browser_session\<rparr>"

definition page_request :: "string \<Rightarrow> http_req" where
  "page_request tkn =
     callback_request\<lparr>hr_Header := [(''cookie'', [''octelium_rt='' @ tkn])],
       hr_Query := (\<lambda>k. if k = ''redirect'' then ''https://web.example.com/'' else [])\<rparr>"

theorem redirects_confined_witness:
  "\<exists>tkn acts. handleLogin auth_example login_example browser_clients (page_request tkn) () = (Ok acts, ()) \<and>
     Act_Redirect (To_URL ''https://web.example.com/'') \<in> set acts \<and>
     ((\<exists>h x. le_Parse login_example ''https://web.example.com/'' = Some h \<and>
       (u_Hostname h = ''localhost'' \<or> u_Hostname h = x @ ''example.com'')) \<or> provider_page login_example ''https://web.example.com/'')"
proof -
  obtain tkn where tkn: "VerifyRefreshToken wire_env 60000000000 token_keys tkn = Ok \<lparr>rf_SessionUID = sess_uid, rf_TokenID = token_uid\<rparr>" "tkn \<noteq> []"
    by (rule signed_in_token)
  then have "rgxT0 tkn"
    by (auto simp: VerifyRefreshToken_def verifyToken_def parseToken_def token_bytes_def)
  note cookie = token_cookie_read [OF this]
  have "live_session 60000000000 \<lparr>rf_SessionUID = sess_uid, rf_TokenID = token_uid\<rparr> signed_in"
    using session_live(1) [of "no_metadata\<lparr>md_Uid := sess_uid\<rparr>"] by (simp add: signed_in_def)
  then have "check_session 60000000000 \<lparr>rf_SessionUID = sess_uid, rf_TokenID = token_uid\<rparr> browser_session = Ok ()"
    by (simp add: check_session_Ok live_session_def browser_session_def IsExpired_def HasValidRefreshToken_def)
  then have web: "getWebSessionFromHTTPRefreshCookie auth_example browser_clients (hr_Header (page_request tkn)) () = (Ok browser_session, ())"
    using tkn cookie
    by (simp add: getWebSessionFromHTTPRefreshCookie_def page_request_def getSessionFromRefreshToken_def browser_clients_def reject_if_def
        on_err_def map_err_def)
      (simp add: browser_session_def)
  have "ShouldRefresh 60000000000 browser_session = Ok False"
    by (simp add: ShouldRefresh_def browser_session_def signed_in_def session_of_def both_durations_def Add_def AsTime_def)
  moreover have "isURLSameClusterOrigin login_example ''example.com'' ''https://web.example.com/''"
    by (simp add: isURLSameClusterOrigin_def login_example_def HasSuffix_def)
  ultimately have login: "handleLogin auth_example login_example browser_clients (page_request tkn) () =
      (Ok [Act_Redirect (To_URL ''https://web.example.com/'')], ())"
    by (simp add: handleLogin_def web Let_def) (simp add: page_request_def)
  have "(\<exists>h x. le_Parse login_example ''https://web.example.com/'' = Some h \<and>
      (u_Hostname h = ''localhost'' \<or> u_Hostname h = x @ ae_domain auth_example)) \<or> provider_page login_example ''https://web.example.com/''"
    by (rule redirects_confined [OF disjI2 [OF login]]) simp
  with login show ?thesis
    by (intro exI [of _ tkn] exI [of _ "[Act_Redirect (To_URL ''https://web.example.com/'')]"]) simp
qed

section \<open>Passkeys\<close>

text \<open>
  The removal of an authenticator does not reach the cache in which a login with a passkey looks for it: its key is still found
  there, and stands for the authenticator that was removed.
\<close>

lemma removed_passkey_still_found:
  assumes "fido_of a = Some f" and "ats_IsRegistered (atr_Status a)" and "ats_Type (atr_Status a) = FIDO"
    and "af_Id f \<noteq> []" and "af_IdHash f = sha (af_Id f)" and "af_IdHash f \<noteq> []"
  shows "GetAuthenticatorByCredID sha (af_Id f) (authenticator_event sha (OnDelete a) (authenticator_event sha (OnAdd a) c)) = Ok a"
  using assms by (simp add: authenticator_event_def SetAuthenticator_def DeleteAuthenticator_def GetAuthenticatorByCredID_def)

end
