(* ===== verification/AuthReplay.thy ===== *)
theory AuthReplay imports AuthTokenExamples begin

text \<open>
  What becomes of a token of the authentication server once it has been used, over the resource server that stores the sessions
  and the credentials: a refresh token is void, and the token of a credential leads to no more logins than uses were left.
\<close>

section \<open>Refresh tokens\<close>

text \<open>
  C8: a refresh token works once. When a session has got new tokens for it, no call that presents it again finds a session,
  whatever the time and the keys at that call, as long as the identifier of the new authentication is a new one.
\<close>

theorem refreshed_token_is_void:
  assumes "auth_kinds S net Ks Ku Kc Kr C" and "auth_stored S Ks Ku Kc Kr st" and "refs_known Ks Ku st"
    and "VerifyRefreshToken (ae_T E) (ae_now E) (ae_keys E) (refresh_token_of md) = Ok cl" and "names Ks (rf_SessionUID cl) st"
    and "doAuthenticateWithRefreshToken E C md st = (Ok r, st')" and "ne_TokenID (ae_N E) \<noteq> rf_TokenID cl"
    and "refresh_token_of md' = refresh_token_of md" and "ae_T E' = ae_T E"
  shows "\<not> is_ok (fst (getSessionFromGRPCCtx E' C md' st'))"
proof -
  note v = refresh_voids [OF assms(1-6)]
  have "\<not> is_ok (fst (getSessionFromRefreshToken E' C (refresh_token_of md) st'))"
    by (rule refused_afterwards [OF assms(1) v(1,2) assms(4,9)]) (use v(3) assms(7) in fastforce)
  then show ?thesis
    by (auto simp: getSessionFromGRPCCtx_def assms(8) reject_if_def is_ok_iff)
qed

text \<open>What the calls of the examples read: the user and the cluster.\<close>

lemma user_and_cluster:
  assumes "shows_auth st [k] [u] ss rs uids" and "md_Name (cc_Metadata k) = ''default''" and "md_Uid (ur_Metadata u) = ''u1''"
    and "plain uid" "uid \<noteq> []" "uid \<notin> uids" and "unchanged st s"
  obtains s1 s2 where "getUserFromUserRef (auth_net uid) (st_UserRef (se_Status example_session)) s = (Ok u, s1)"
    "get_cluster (auth_net uid) s1 = (Ok (example_cluster (cc_Metadata k)), s2)" "unchanged st s1" "unchanged st s2"
proof -
  have inv: "ready uid st" and free: "uid \<notin> rw_Uid ` set (rs_table st)" and
    view: "u \<in> set (kind_view auth_users st)" "k \<in> set (kind_view numbered_clusters st)"
    using assms(1,4,6) ready_uid [OF auth_plain(1)] by (auto simp: shows_auth_def)
  obtain s1 where s1: "cl_Get (CoreC (net_serve uid) answered auth_users) (by_uid ''u1'') s = (Ok u, s1)" "unchanged st s1"
    using read_own [OF auth_storedD(2) [OF inv] assms(5) free assms(7) view(1)] assms(3) by auto
  obtain s2 where s2: "cl_Get (CoreC (net_serve uid) answered numbered_clusters) (by_name ''default'') s1 = (Ok k, s2)" "unchanged st s2"
    using read_named [OF auth_storedD(3) [OF inv] assms(5) free s1(2) view(2)] assms(2) auth_names(1) by auto
  have u: "u = example_user\<lparr>ur_Metadata := ur_Metadata u\<rparr>" by (rule auth_shapes(1) [OF view(1)])
  have "\<not> us_IsDisabled (ur_Spec u)" "\<exists>t. ur_Status u = Some t \<and> \<not> ut_IsLocked t"
    by (subst u, simp add: auth_example_user)+
  then have "getUserFromUserRef (auth_net uid) (st_UserRef (se_Status example_session)) s = (Ok u, s1)"
    using s1(1) by (auto simp: getUserFromUserRef_def example_session_def auth_net_def on_err_def map_err_def reject_if_def)
  moreover have "get_cluster (auth_net uid) s1 = (Ok (example_cluster (cc_Metadata k)), s2)"
    using s2(1) auth_shapes(2) [OF view(2)] by (simp add: get_cluster_def auth_net_def on_err_def map_err_def)
  ultimately show thesis using s1(2) s2(2) by (rule that)
qed

theorem refreshed_token_is_void_witness:
  "\<exists>st tkn r st'. doAuthenticateWithRefreshToken auth_example (auth_net ''x'') (refresh_call tkn) st = (Ok r, st') \<and>
     \<not> is_ok (fst (getSessionFromGRPCCtx auth_example (auth_net ''x'') (refresh_call tkn) st'))"
proof -
  obtain k u z st where st: "shows_auth st [k] [u] [z] [] {''k1'', ''u1'', sess_uid}" "md_Name (cc_Metadata k) = ''default''"
    "md_Uid (ur_Metadata u) = ''u1''" and z: "md_Uid (se_Metadata z) = sess_uid" "z = session_of (se_Metadata z) (Some both_durations)"
    by (rule with_session)
  obtain tkn where tkn: "VerifyRefreshToken wire_env 60000000000 token_keys tkn = Ok \<lparr>rf_SessionUID = sess_uid, rf_TokenID = token_uid\<rparr>" "tkn \<noteq> []"
    by (rule first_refresh_token [OF z(2,1)])
  have inv: "ready ''x'' st" and free: "''x'' \<notin> rw_Uid ` set (rs_table st)" "''x'' \<notin> {''k1'', ''u1'', sess_uid}" "''x'' \<noteq> []"
    "sess_uid \<noteq> []" and view: "z \<in> set (kind_view auth_sessions st)" "u \<in> set (kind_view auth_users st)" "kind_view auth_sessions st = [z]"
    using st(1) by (auto simp: shows_auth_def sess_uid_def)
  obtain s1 where s1: "cl_Get (CoreC (net_serve ''x'') answered auth_sessions) (by_uid sess_uid) st = (Ok z, s1)" "unchanged st s1"
    using read_own [OF auth_storedD(1) [OF inv] free(3,1) unchanged_refl view(1)] z(1) free(4) by auto
  obtain s2 s3 where s: "getUserFromUserRef (auth_net ''x'') (st_UserRef (se_Status example_session)) s1 = (Ok u, s2)"
    "get_cluster (auth_net ''x'') s2 = (Ok (example_cluster (cc_Metadata k)), s3)" "unchanged st s3"
    using user_and_cluster [OF st auth_plain(1) free(3,2) s1(2)] by metis
  obtain z' where z': "setCurrAuthenticationGRPC auth_example (refresh_call tkn) z (example_cluster (cc_Metadata k)) (Some refresh_info) = Ok z'"
    "se_Metadata z' = se_Metadata z" "is_ok (generateSessionTokenResponse auth_example z')"
    by (rule session_renewed [OF z(2,1)])
  have inv3: "client_inv (net_serve ''x'') auth_sessions s3" and z3: "z \<in> set (kind_view auth_sessions s3)"
    using unchanged_keeps(1) [OF s(3) auth_storedD(1) [OF inv]] unchanged_keeps(2) [OF s(3), of auth_sessions] view(1) by simp_all
  have "opts_fine (net_serve ''x'') (by_uid (md_Uid (cd_md auth_sessions z)))"
    unfolding net_serve_def by (rule example_opts_uid) (simp add: z(1) free(4))
  from core_update_present [OF inv3 net_works z3 this, of z'] z'(2) obtain y st' where
    up: "cl_Update (CoreC (net_serve ''x'') answered auth_sessions) z' s3 = (Ok y, st')" by (auto simp: isTypeSecret_def)
  obtain r where r: "generateSessionTokenResponse auth_example z' = Ok r" using z'(3) by (auto simp: is_ok_iff)
  have facts: "check_session 60000000000 \<lparr>rf_SessionUID = sess_uid, rf_TokenID = token_uid\<rparr> z = Ok ()" "needsReAuth 60000000000 z = Ok True"
    "\<not> st_IsBrowser (se_Status z)" "st_RequiredAuthenticatorRef (se_Status z) = None" "st_UserRef (se_Status z) = st_UserRef (se_Status example_session)"
    using session_live [of "se_Metadata z"] z(1) by (simp_all add: check_session_Ok z(2) [symmetric])
      (subst z(2), simp add: session_of_def example_session_def)+
  have ok: "doAuthenticateWithRefreshToken auth_example (auth_net ''x'') (refresh_call tkn) st = (Ok r, st')"
    using s1(1) s up tkn z'(1) r facts
    by (simp add: doAuthenticateWithRefreshToken_def getSessionFromGRPCCtx_def getSessionFromRefreshToken_def getUserFromSession_def
        auth_net_def reject_if_def map_err_def on_err_def)
  have refs: "refs_known auth_sessions auth_users st"
    using core.fits_own [OF auth_storedD(2) [OF inv] view(2)] st(3) view(3) facts(5) by (auto simp: refs_known_def example_session_def)
  have "names auth_sessions sess_uid st" using core.fits_own [OF auth_storedD(1) [OF inv] view(1)] z(1) by simp
  then have "\<not> is_ok (fst (getSessionFromGRPCCtx auth_example (auth_net ''x'') (refresh_call tkn) st'))"
    using refreshed_token_is_void [OF auth_net_kinds inv refs _ _ ok, of "\<lparr>rf_SessionUID = sess_uid, rf_TokenID = token_uid\<rparr>"
      "refresh_call tkn" auth_example] tkn(1)
    by (simp add: auth_session_env_def anew_def key_uid_def token_uid_def)
  with ok show ?thesis by blast
qed

section \<open>One-time tokens\<close>

text \<open>What a login with a token reads first.\<close>

lemma getCredentialFromToken_reads:
  assumes K: "auth_kinds S net Ks Ku Kc Kr C" and st: "auth_stored S Ks Ku Kc Kr st" and named: "names Kr (cl_UID cl) st"
    and tok: "VerifyCredential (ae_T E) now m tkn = Ok cl" and got: "getCredentialFromToken E C tkn st = (q, s)"
  shows "unchanged st s" and "q = Ok x \<Longrightarrow> x \<in> set (kind_view Kr st) \<and> md_Uid (cr_Metadata x) = cl_UID cl"
proof -
  obtain g s1 where g: "cl_Get (CoreC S net Kr) (by_uid (cl_UID cl)) st = (g, s1)" by fastforce
  have claims: "cl' = cl" if "VerifyCredential (ae_T E) (ae_now E) (ae_keys E) tkn = Ok cl'" for cl'
    by (rule VerifyCredential_same [OF that tok])
  show "unchanged st s"
    using got g core_get_unchanged [OF auth_storedD(4) [OF st] named g] claims
    by (cases g) (auto simp: getCredentialFromToken_def auth_kindsD(4) [OF K] go_seq_def on_err_def map_err_def unchanged_refl
        split: go.splits)
  show "x \<in> set (kind_view Kr st) \<and> md_Uid (cr_Metadata x) = cl_UID cl" if "q = Ok x"
  proof -
    from getCredentialFromToken_Ok [OF got [unfolded that]] claims have "cl_Get (CoreC S net Kr) (by_uid (cl_UID cl)) st = (Ok x, s)"
      by (auto simp: presents_credential_def auth_kindsD(4) [OF K])
    from core.get_Ok [OF auth_storedD(4) [OF st] named this] show ?thesis by (simp add: opt_matches_def auth_kindsD(10) [OF K])
  qed
qed

text \<open>When the credential is gone, a login with its token does nothing.\<close>

lemma login_refused:
  assumes "auth_kinds S net Ks Ku Kc Kr C" and "auth_stored S Ks Ku Kc Kr st" and "names Kr (cl_UID cl) st"
    and "VerifyCredential (ae_T E) now m tkn = Ok cl" and "\<forall>x\<in>set (kind_view Kr st). md_Uid (cr_Metadata x) \<noteq> cl_UID cl"
    and "doAuthenticateWithAuthenticationToken E C md tkn scopes st = (r, s)"
  shows "unchanged st s \<and> \<not> is_ok r"
proof -
  obtain q s1 where q: "getCredentialFromToken E C tkn st = (q, s1)" by fastforce
  note reads = getCredentialFromToken_reads [OF assms(1-4) q]
  have "\<not> is_ok q" using reads(2) assms(5) by (cases q) auto
  with reads(1) q assms(6) show ?thesis
    by (cases q) (auto simp: doAuthenticateWithAuthenticationToken_def go_seq_def unchanged_refl split: go.splits)
qed

text \<open>A login with the token of a credential that is there.\<close>

lemma login_use:
  assumes K: "auth_kinds S net Ks Ku Kc Kr C" and st: "auth_stored S Ks Ku Kc Kr st" and z: "z \<in> set (kind_view Kr st)"
    and user: "\<And>r. crt_UserRef (cr_Status z) = Some r \<Longrightarrow> names Ku (or_Uid r) st"
    and tok: "VerifyCredential (ae_T E) now m tkn = Ok cl" "md_Uid (cr_Metadata z) = cl_UID cl"
  shows "login_effect S Ks Ku Kc Kr z st (doAuthenticateWithAuthenticationToken E C md tkn scopes st)"
  unfolding doAuthenticateWithAuthenticationToken_def Let_def
proof (rule login_effect_pure [OF st z unchanged_refl], rule login_effect_seq [OF st z], goal_cases)
  have named: "names Kr (cl_UID cl) st" using core.fits_own [OF auth_storedD(4) [OF st] z] tok(2) by (simp add: auth_kindsD(10) [OF K])
  case 1
  show ?case using getCredentialFromToken_reads(1) [OF K st named tok(1) prod.collapse [symmetric]] .
  case (2 u x s)
  have "x = z"
    using getCredentialFromToken_reads(2) [OF K st named tok(1) 2(2) refl] core.view_unique [OF auth_storedD(4) [OF st] _ z] tok(2)
    by (auto simp: auth_kindsD(10) [OF K])
  note reads = 2(3)
  show ?case unfolding \<open>x = z\<close>
  proof (rule login_effect_pure [OF st z reads], rule login_effect_seq [OF st z], goal_cases)
    have "names Ku (or_Uid r) s" if "crt_UserRef (cr_Status z) = Some r" for r using user [OF that] unchanged_keeps(4) [OF reads] by simp
    from getUserFromUserRef_unchanged [OF K unchanged_stored [OF reads st] prod.collapse [symmetric] this]
    show "unchanged st (snd (getUserFromUserRef C (crt_UserRef (cr_Status z)) s))" by (rule unchanged_trans [OF reads])
    case (2 u' usr s2)
    note user_read = this(3)
    show ?case
    proof (rule login_effect_seq [OF st z], goal_cases)
      case 1
      show ?case using unchanged_trans [OF user_read get_cluster_unchanged [OF K unchanged_stored [OF user_read st] prod.collapse [symmetric]]] .
      case (2 cc s3)
      note cluster_read = this(2)
      show ?case
      proof (rule login_effect_pure [OF st z cluster_read], rule login_effect_seq [OF st z], goal_cases)
        case 1
        show ?case using unchanged_trans [OF cluster_read auth_max_unchanged [OF K unchanged_stored [OF cluster_read st] prod.collapse [symmetric]]] .
        case (2 scs u'' s4)
        show ?case by (rule login_creates [OF K st z 2(3)])
      qed
    qed
  qed
qed

text \<open>
  Logins with one token, one after the other: each with the state of the connection to the resource server, the randomness, the clock,
  the keys and the request of its own. How many of them succeed, and what is stored in the end.
\<close>

record login_call =
  lc_Serve :: serve_env
  lc_Net :: "string \<Rightarrow> fate"
  lc_Clients :: "rsc_state auth_clients"
  lc_Env :: auth_env
  lc_Header :: grpc_md
  lc_Scopes :: "string list option"

fun token_logins :: "string \<Rightarrow> login_call list \<Rightarrow> rsc_state \<Rightarrow> nat \<times> rsc_state" where
  "token_logins tkn [] st = (0, st)"
| "token_logins tkn (l # ls) st =
     (let (r, st1) = doAuthenticateWithAuthenticationToken (lc_Env l) (lc_Clients l) (lc_Header l) tkn (lc_Scopes l) st;
          (n, st') = token_logins tkn ls st1 in
      ((if is_ok r then 1 else 0) + n, st'))"

declare token_logins.simps(2) [simp del]

lemma token_logins_Cons:
  assumes "doAuthenticateWithAuthenticationToken (lc_Env l) (lc_Clients l) (lc_Header l) tkn (lc_Scopes l) st = (r, s)"
  shows "fst (token_logins tkn (l # ls) st) = (if is_ok r then 1 else 0) + fst (token_logins tkn ls s)"
    "snd (token_logins tkn (l # ls) st) = snd (token_logins tkn ls s)"
  using assms by (simp_all add: token_logins.simps(2) Let_def split_beta)

definition serves_login ::
  "(Session, 'p) codec \<Rightarrow> (User, 'u) codec \<Rightarrow> (ClusterConfig, 'c) codec \<Rightarrow> (Credential, 'r) codec \<Rightarrow> token_env \<Rightarrow> rsc_state \<Rightarrow> login_call \<Rightarrow> bool"
where
  "serves_login Ks Ku Kc Kr T st l \<longleftrightarrow>
     auth_kinds (lc_Serve l) (lc_Net l) Ks Ku Kc Kr (lc_Clients l) \<and> auth_stored (lc_Serve l) Ks Ku Kc Kr st \<and> ae_T (lc_Env l) = T"

lemma serves_login_after:
  assumes "serves_login Ks Ku Kc Kr T st l" and "auth_stored S Ks Ku Kc Kr st'"
  shows "serves_login Ks Ku Kc Kr T st' l"
  using assms by (simp add: serves_login_def auth_stored_def client_inv_def)

lemma logins_when_gone:
  assumes "\<forall>l\<in>set ls. serves_login Ks Ku Kc Kr T st l" and "VerifyCredential T now m tkn = Ok cl" and "names Kr (cl_UID cl) st"
    and "\<forall>x\<in>set (kind_view Kr st). md_Uid (cr_Metadata x) \<noteq> cl_UID cl"
  shows "fst (token_logins tkn ls st) = 0 \<and> (\<forall>x\<in>set (kind_view Kr (snd (token_logins tkn ls st))). md_Uid (cr_Metadata x) \<noteq> cl_UID cl)"
  using assms
proof (induction ls arbitrary: st)
  case (Cons l ls)
  obtain r s where r: "doAuthenticateWithAuthenticationToken (lc_Env l) (lc_Clients l) (lc_Header l) tkn (lc_Scopes l) st = (r, s)" by fastforce
  have l: "auth_kinds (lc_Serve l) (lc_Net l) Ks Ku Kc Kr (lc_Clients l)" "auth_stored (lc_Serve l) Ks Ku Kc Kr st"
    "VerifyCredential (ae_T (lc_Env l)) now m tkn = Ok cl"
    using Cons.prems(1,2) by (simp_all add: serves_login_def)
  from login_refused [OF l(1,2) Cons.prems(3) l(3) Cons.prems(4) r] have u: "unchanged st s" "\<not> is_ok r" by simp_all
  have "auth_stored (lc_Serve l) Ks Ku Kc Kr s" by (rule unchanged_stored [OF u(1) l(2)])
  with Cons.prems(1) have "\<forall>l\<in>set ls. serves_login Ks Ku Kc Kr T s l" by (auto intro: serves_login_after)
  from Cons.IH [OF this Cons.prems(2)] Cons.prems(3,4) u show ?case
    by (simp add: token_logins_Cons [OF r] unchanged_keeps(2) [OF u(1), of Kr] unchanged_keeps(4) [OF u(1)])
qed simp

text \<open>The cases of one login, and what the next ones find.\<close>

lemma login_cases:
  assumes l: "serves_login Ks Ku Kc Kr T st l" and tok: "VerifyCredential T now m tkn = Ok cl"
    and x: "x \<in> set (kind_view Kr st)" "md_Uid (cr_Metadata x) = cl_UID cl"
    and user: "\<forall>r. crt_UserRef (cr_Status x) = Some r \<longrightarrow> (\<exists>u\<in>set (kind_view Ku st). md_Uid (cd_md Ku u) = or_Uid r)"
    and call: "doAuthenticateWithAuthenticationToken (lc_Env l) (lc_Clients l) (lc_Header l) tkn (lc_Scopes l) st = (r, s)"
  obtains S where "auth_stored S Ks Ku Kc Kr s" "kind_view Ku s = kind_view Ku st" "x \<in> set (kind_view Kr s)" "\<not> is_ok r"
  | S y where "auth_stored S Ks Ku Kc Kr s" "kind_view Ku s = kind_view Ku st" "y \<in> set (kind_view Kr s)" "md_Uid (cr_Metadata y) = cl_UID cl"
      "cd_payload Kr y = cd_payload Kr (counted x)" "is_ok r \<longrightarrow> \<not> used_up (counted x)"
  | S where "auth_stored S Ks Ku Kc Kr s" "names Kr (cl_UID cl) s" "\<forall>y\<in>set (kind_view Kr s). md_Uid (cr_Metadata y) \<noteq> cl_UID cl"
proof -
  have k: "auth_kinds (lc_Serve l) (lc_Net l) Ks Ku Kc Kr (lc_Clients l)" "auth_stored (lc_Serve l) Ks Ku Kc Kr st" "ae_T (lc_Env l) = T"
    using l by (simp_all add: serves_login_def)
  have "names Ku (or_Uid q) st" if q: "crt_UserRef (cr_Status x) = Some q" for q
  proof -
    obtain u where "u \<in> set (kind_view Ku st)" "md_Uid (cd_md Ku u) = or_Uid q" using user q by blast
    with core.fits_own [OF auth_storedD(2) [OF k(2)] this(1)] show ?thesis by simp
  qed
  from login_use [OF k(1,2) x(1) this tok [folded k(3)] x(2), of "lc_Header l" "lc_Scopes l"]
  have "login_effect (lc_Serve l) Ks Ku Kc Kr x st (r, s)" by (simp add: call)
  then show thesis using x(2) by (auto simp: login_effect_def auth_kindsD(10) [OF k(1)] intro: that)
qed

lemma unat_plus_one: "unat (n :: 32 word) + 1 < 2 ^ 32 \<Longrightarrow> unat (n + 1) = unat n + 1"
  by (subst unat_add_lem [THEN iffD1]) simp_all

text \<open>
  C10: however often a login is tried with the token of a credential that is removed after its last use, whatever fails, at most as
  many logins succeed as uses were left (and one when none was); and when that many have succeeded, the credential is gone. So a
  token for one use works once. (The bound on the number of tries keeps the counter of 32 bits from starting again.)
\<close>

theorem token_uses_bounded:
  assumes "\<forall>l\<in>set ls. serves_login Ks Ku Kc Kr T st l" and "VerifyCredential T now m tkn = Ok cl"
    and "x \<in> set (kind_view Kr st)" and "md_Uid (cr_Metadata x) = cl_UID cl"
    and "crs_AutoDelete (cr_Spec x)" and "0 < crs_MaxAuthentications (cr_Spec x)"
    and "unat (crt_TotalAuthentications (cr_Status x)) + length ls < 2 ^ 32"
    and "\<forall>r. crt_UserRef (cr_Status x) = Some r \<longrightarrow> (\<exists>u\<in>set (kind_view Ku st). md_Uid (cd_md Ku u) = or_Uid r)"
    and "\<forall>x y. cd_payload Kr x = cd_payload Kr y \<longrightarrow> uses x = uses y"
    and "left = max 1 (unat (crs_MaxAuthentications (cr_Spec x)) - unat (crt_TotalAuthentications (cr_Status x)))"
  shows "fst (token_logins tkn ls st) \<le> left \<and>
    (fst (token_logins tkn ls st) = left \<longrightarrow>
      (\<forall>y\<in>set (kind_view Kr (snd (token_logins tkn ls st))). md_Uid (cr_Metadata y) \<noteq> cl_UID cl))"
  using assms
proof (induction ls arbitrary: st x left)
  case (Cons l ls)
  let ?max = "unat (crs_MaxAuthentications (cr_Spec x))" and ?n = "unat (crt_TotalAuthentications (cr_Status x))"
  obtain r s where r: "doAuthenticateWithAuthenticationToken (lc_Env l) (lc_Clients l) (lc_Header l) tkn (lc_Scopes l) st = (r, s)" by fastforce
  note all = token_logins_Cons [OF r, of ls] and left = Cons.prems(10)
  have served: "\<forall>l\<in>set ls. serves_login Ks Ku Kc Kr T s l" if "auth_stored S Ks Ku Kc Kr s" for S
    using Cons.prems(1) that by (auto intro: serves_login_after)
  have "serves_login Ks Ku Kc Kr T st l" using Cons.prems(1) by simp
  from this Cons.prems(2-4,8) r show ?case
  proof (cases rule: login_cases)
    case (1 S)
    from Cons.IH [OF served [OF 1(1)] Cons.prems(2) 1(3) Cons.prems(4-6) _ _ Cons.prems(9,10)] Cons.prems(7,8) 1(2,4)
    show ?thesis by (simp add: all)
  next
    case (2 S y)
    have "uses y = uses (counted x)" using Cons.prems(9) 2(5) by blast
    then have y: "uses y = (True, crs_MaxAuthentications (cr_Spec x), crt_TotalAuthentications (cr_Status x) + 1, crt_UserRef (cr_Status x))"
      using Cons.prems(5) uses_counted [of x] by (simp add: uses_def)
    have n: "unat (crt_TotalAuthentications (cr_Status x) + 1) = ?n + 1" by (rule unat_plus_one) (use Cons.prems(7) in simp)
    have more: "?n + 1 < ?max" if "is_ok r"
      using 2(6) that Cons.prems(5,6) n by (auto simp: used_up_def counted_def word_le_nat_alt not_le)
    from Cons.IH [OF served [OF 2(1)] Cons.prems(2) 2(3,4) _ _ _ _ Cons.prems(9) refl] Cons.prems(6-8) 2(2) y n
    have ih: "fst (token_logins tkn ls s) \<le> max 1 (?max - (?n + 1)) \<and> (fst (token_logins tkn ls s) = max 1 (?max - (?n + 1)) \<longrightarrow>
        (\<forall>y\<in>set (kind_view Kr (snd (token_logins tkn ls s))). md_Uid (cr_Metadata y) \<noteq> cl_UID cl))"
      by (simp add: uses_def)
    show ?thesis
    proof (cases "is_ok r")
      case True
      then have "left = Suc (max 1 (?max - (?n + 1)))" using more left by linarith
      with ih True show ?thesis by (simp add: all)
    next
      case False
      have "max 1 (?max - (?n + 1)) \<le> left" using left by linarith
      with ih False show ?thesis by (auto simp: all)
    qed
  next
    case (3 S)
    from logins_when_gone [OF served [OF 3(1)] Cons.prems(2) 3(2,3)] left show ?thesis by (simp add: all)
  qed
qed simp

lemma credential_token:
  obtains tkn where "VerifyCredential wire_env 60000000000 token_keys tkn = Ok \<lparr>cl_UID = token_uid, cl_TokenID = key_uid\<rparr>"
proof -
  have u: "uid_ok wire_env token_uid" "uid_ok wire_env key_uid" by (rule uid_bytes; simp)+
  then obtain s t where b: "te_MustParse wire_env token_uid = Ok s" "getUID wire_env s = Ok token_uid" "te_MustParse wire_env key_uid = Ok t"
    "getUID wire_env t = Ok key_uid" by (auto simp: uid_ok_def)
  have "type_number CREDENTIAL_T0 = Some 3" by simp
  from wire_made [where ex = None and now = 60000000000, OF u b(1,3) this] obtain tkn where "createToken wire_env 60000000000 token_keys
      \<lparr>tk_Type = CREDENTIAL_T0, tk_KeyID = [], tk_Subject = s, tk_TokenID = t, tk_ExpiresAt = None\<rparr> = Ok tkn" by auto
  from wire.created_verifies [OF this token_keys_ok map_le_refl, of token_uid key_uid 60000000000 CREDENTIAL_T0] b(2,4)
  have "verifyToken wire_env 60000000000 token_keys tkn CREDENTIAL_T0 = Ok (token_uid, key_uid)" by simp
  then have "VerifyCredential wire_env 60000000000 token_keys tkn = Ok \<lparr>cl_UID = token_uid, cl_TokenID = key_uid\<rparr>"
    by (simp add: VerifyCredential_def go_map_def)
  then show thesis by (rule that)
qed

lemma credential_live:
  "live_credential 60000000000 \<lparr>cl_UID = token_uid, cl_TokenID = key_uid\<rparr> (credential_of m 0)" "used_up (counted (credential_of m 0))"
  "crs_Type (cr_Spec (credential_of m 0)) = AUTH_TOKEN" "crt_UserRef (cr_Status (credential_of m 0)) = st_UserRef (se_Status example_session)"
  "crs_SessionType (cr_Spec (credential_of m 0)) = CLIENT" "cr_Metadata (credential_of m 0) = m"
  by (simp_all add: live_credential_def credential_of_def used_up_def counted_def)

lemma new_session_auth:
  assumes "ur_Spec u = ur_Spec example_user"
  shows "\<exists>a. st_Authentication (se_Status (new_session auth_session_env
      ((credential_session_opts c u cc CLIENT [] ua xff)\<lparr>cs_ClusterConfig := d\<rparr>) (example_cluster m))) = Some a \<and>
    au_SetAt a = Some 60000000000 \<and> au_TokenID a = key_uid \<and> au_AccessTokenDuration a = Some (Hours 4) \<and> au_RefreshTokenDuration a = Some (Hours 18)"
  by (simp add: new_session_def Let_def credential_session_opts_def auth_session_opts_def assms auth_session_env_def anew_def
      access_duration_def refresh_duration_def or_else_def token_duration_def cc_session_def example_cluster_def example_user_def word_sless_alt)

text \<open>The session that a token of a credential leads to, and the end of the credential.\<close>

lemma session_created:
  assumes inv: "ready sess_uid st" and free: "sess_uid \<notin> rw_Uid ` set (rs_table st)" and un: "unchanged st s"
    and none: "kind_view auth_sessions st = []" and u: "u = example_user\<lparr>ur_Metadata := m\<rparr>" "md_Name m = ''alice''"
  obtains y t where "CreateSession auth_session_env (hc_Session (auth_net sess_uid)) (hc_ClusterConfig (auth_net sess_uid))
      (credential_session_opts c u (example_cluster n) CLIENT [] ua xff) s = (Ok y, t)"
    "is_ok (generateSessionTokenResponse auth_example y)" "client_inv (net_serve sess_uid) auth_credentials t"
    "kind_view auth_credentials t = kind_view auth_credentials st"
proof -
  let ?x = "new_session auth_session_env
    ((credential_session_opts c u (example_cluster n) CLIENT [] ua xff)\<lparr>cs_ClusterConfig := Some (example_cluster n)\<rparr>) (example_cluster n)"
  let ?C = "CoreC (net_serve sess_uid) answered auth_sessions"
  have inv': "ready sess_uid s" by (rule unchanged_stored [OF un inv])
  note i = auth_storedD(1) [OF inv']
  have "sess_uid \<notin> rw_Uid ` set (rs_table s)" using un free by (simp add: unchanged_def)
  then have h: "healthy (net_serve sess_uid) answered auth_sessions s"
    unfolding net_serve_def by (intro example_healthy) (simp add: sess_uid_def)
  have view: "kind_view auth_sessions s = []" "kind_view auth_credentials s = kind_view auth_credentials st"
    using unchanged_keeps(2) [OF un, of auth_sessions] unchanged_keeps(2) [OF un, of auth_credentials] none by simp_all
  have name: "md_Name (cd_md auth_sessions ?x) = ''alice-abcdef''"
    by (simp add: new_session_def Let_def credential_session_opts_def auth_session_opts_def u auth_session_env_def)
  have "opts_fine (net_serve sess_uid) (by_name (md_Name (cd_md auth_sessions ?x)))"
    unfolding name net_serve_def
    by (rule example_opts_name)
      (simp add: checkName_def MaxNameSubArgs_def Let_def reject_if_def rgxName_def lower_alnum_def lower_def decimal_def name_char_def)
  then obtain y t where y: "cl_Create ?C ?x s = (Ok y, t)" using core_create_new [OF i h, of ?x] view(1) by auto
  obtain a where a: "st_Authentication (se_Status ?x) = Some a" "au_SetAt a = Some 60000000000" "au_TokenID a = key_uid"
    "au_AccessTokenDuration a = Some (Hours 4) \<and> au_RefreshTokenDuration a = Some (Hours 18)"
    using new_session_auth [where u = u and c = c and cc = "example_cluster n" and ua = ua and xff = xff and d = "Some (example_cluster n)" and m = n]
      u(1) by auto
  have uid: "md_Uid (se_Metadata y) = sess_uid" using core_create_uid [OF i h y] by (simp add: net_serve_def)
  have "st_Authentication (se_Status y) = Some a"
    using client_create [OF i y] a(1) by (auto dest!: effect_Ok)
  from response_made [OF uid this a(2,3) disjI2 [OF a(4)]] have r: "is_ok (generateSessionTokenResponse auth_example y)" .
  have made: "CreateSession auth_session_env (hc_Session (auth_net sess_uid)) (hc_ClusterConfig (auth_net sess_uid))
      (credential_session_opts c u (example_cluster n) CLIENT [] ua xff) s = (Ok y, t)"
    using y by (simp add: CreateSession_def given_config_def credential_session_opts_def auth_session_opts_def NewSession_def on_err_def
        map_err_def auth_net_def)
  show thesis
    by (rule that [OF made r]) (use session_created_credentials [OF auth_net_kinds inv' y] view(2) in \<open>auto dest: auth_storedD(4)\<close>)
qed

lemma sessions_below_limit:
  assumes inv: "ready sess_uid st" and free: "sess_uid \<notin> rw_Uid ` set (rs_table st)" and un: "unchanged st s"
    and none: "kind_view auth_sessions st = []" and u: "u = example_user\<lparr>ur_Metadata := m\<rparr>"
  shows "auth_checkMaxSessionsPerUser (auth_net sess_uid) u (example_cluster n) s = (Ok (), s)"
proof -
  let ?C = "CoreC (net_serve sess_uid) answered auth_sessions"
  note i = auth_storedD(1) [OF unchanged_stored [OF un inv]]
  have "sess_uid \<notin> rw_Uid ` set (rs_table s)" using un free by (simp add: unchanged_def)
  then have h: "healthy (net_serve sess_uid) answered auth_sessions s"
    unfolding net_serve_def by (intro example_healthy) (simp add: sess_uid_def)
  obtain xs where xs: "cl_List ?C (FilterByUser u) s = (Ok xs, s)"
    using core_list_ok [OF i h user_filter_listed] by (auto simp: FilterByUser_def)
  have "set xs = {}"
    using core.listed [OF i xs [unfolded FilterByUser_def]] unchanged_keeps(2) [OF un, of auth_sessions] none by auto
  moreover have "max_sessions (ur_Spec u) (example_cluster n) = 16"
    by (simp add: u max_sessions_def positive_max_def example_user_def cc_session_def example_cluster_def)
  ultimately show ?thesis
    using xs by (simp add: auth_checkMaxSessionsPerUser_def auth_net_def reject_if_def on_err_def map_err_def)
qed

lemma credential_consumed:
  assumes inv: "client_inv (net_serve uid) auth_credentials s" and z: "z \<in> set (kind_view auth_credentials s)"
    and uid: "md_Uid (cr_Metadata z) = token_uid" and last_use: "used_up (counted z)"
  shows "\<exists>t. updateAndAutoDeleteCredential (auth_net uid) z s = (Ok (), t)"
proof -
  let ?C = "CoreC (net_serve uid) answered auth_credentials"
  have fine: "opts_fine (net_serve uid) (by_uid (md_Uid (cd_md auth_credentials y)))" if "md_Uid (cr_Metadata y) = token_uid" for y
    unfolding net_serve_def by (rule example_opts_uid) (simp add: that token_uid_def)
  have md: "cd_md auth_credentials (counted z) = cd_md auth_credentials z" by (simp add: counted_def)
  obtain q s1 where up: "cl_Update ?C (counted z) s = (Ok q, s1)"
    using core_update_present [OF inv net_works z fine [OF uid] md] by (auto simp: isTypeSecret_def)
  have "md_Uid (cd_md auth_credentials (counted z)) = md_Uid (cd_md auth_credentials z)"
    "md_Name (cd_md auth_credentials (counted z)) = md_Name (cd_md auth_credentials z)" by (simp_all only: md)
  note u = core.update [OF inv z this up]
  obtain y where y: "kind_view auth_credentials s1 = map (\<lambda>z'. if md_Uid (cr_Metadata z') = md_Uid (cr_Metadata (counted z)) then y else z')
      (kind_view auth_credentials s)" "md_Uid (cr_Metadata y) = md_Uid (cr_Metadata (counted z))"
    using u by (auto dest!: effect_Ok)
  have in1: "y \<in> set (kind_view auth_credentials s1)" using y(1) z md by (auto intro!: image_eqI [of _ _ z])
  have yu: "md_Uid (cr_Metadata y) = token_uid" using y(2) uid md by simp
  have inv1: "client_inv (net_serve uid) auth_credentials s1" using u by blast
  obtain d t where "cl_Delete ?C \<lparr>do_Uid = token_uid, do_Name = []\<rparr> s1 = (Ok d, t)"
    using core_delete_present [OF inv1 net_works in1 fine [OF yu]] yu by auto
  then show ?thesis
    using up last_use uid by (simp add: updateAndAutoDeleteCredential_def auth_net_def on_err_def map_err_def)
qed

theorem token_uses_bounded_witness:
  "\<exists>st tkn l st'. token_logins tkn [l, l] st = (1, st') \<and> (\<exists>x\<in>set (kind_view auth_credentials st). md_Uid (cr_Metadata x) = token_uid) \<and>
     (\<forall>y\<in>set (kind_view auth_credentials st'). md_Uid (cr_Metadata y) \<noteq> token_uid)"
proof -
  obtain k u r st where st: "shows_auth st [k] [u] [] [r] {''k1'', ''u1'', token_uid}" "md_Name (cc_Metadata k) = ''default''"
    "md_Uid (ur_Metadata u) = ''u1''" and u: "md_Name (ur_Metadata u) = ''alice''" and
    r: "md_Uid (cr_Metadata r) = token_uid" "r = credential_of (cr_Metadata r) 0"
    by (rule with_credential)
  obtain tkn where tkn: "VerifyCredential wire_env 60000000000 token_keys tkn = Ok \<lparr>cl_UID = token_uid, cl_TokenID = key_uid\<rparr>"
    by (rule credential_token)
  note live = credential_live [of "cr_Metadata r", folded r(2)]
  have inv: "ready sess_uid st" and free: "sess_uid \<notin> rw_Uid ` set (rs_table st)" "sess_uid \<notin> {''k1'', ''u1'', token_uid}" "sess_uid \<noteq> []"
    "token_uid \<noteq> []" and view: "r \<in> set (kind_view auth_credentials st)" "kind_view auth_credentials st = [r]"
    "kind_view auth_sessions st = []" "u \<in> set (kind_view auth_users st)"
    using st(1) ready_uid [OF auth_plain(1,5)] by (auto simp: shows_auth_def sess_uid_def token_uid_def)
  obtain s1 where s1: "cl_Get (CoreC (net_serve sess_uid) answered auth_credentials) (by_uid token_uid) st = (Ok r, s1)" "unchanged st s1"
    using read_own [OF auth_storedD(4) [OF inv] free(3,1) unchanged_refl view(1)] r(1) free(4) by auto
  obtain s2 s3 where s: "getUserFromUserRef (auth_net sess_uid) (st_UserRef (se_Status example_session)) s1 = (Ok u, s2)"
    "get_cluster (auth_net sess_uid) s2 = (Ok (example_cluster (cc_Metadata k)), s3)" "unchanged st s3"
    using user_and_cluster [OF st auth_plain(5) free(3,2) s1(2)] by metis
  have ushape: "u = example_user\<lparr>ur_Metadata := ur_Metadata u\<rparr>" by (rule auth_shapes(1) [OF view(4)])
  have max: "auth_checkMaxSessionsPerUser (auth_net sess_uid) u (example_cluster (cc_Metadata k)) s3 = (Ok (), s3)"
    by (rule sessions_below_limit [OF inv free(1) s(3) view(3) ushape])
  obtain y t where y: "CreateSession auth_session_env (hc_Session (auth_net sess_uid)) (hc_ClusterConfig (auth_net sess_uid))
      (credential_session_opts r u (example_cluster (cc_Metadata k)) CLIENT [] [] []) s3 = (Ok y, t)"
    "is_ok (generateSessionTokenResponse auth_example y)" "client_inv (net_serve sess_uid) auth_credentials t"
    "kind_view auth_credentials t = kind_view auth_credentials st"
    by (rule session_created [OF inv free(1) s(3) view(3) ushape u])
  obtain st1 where st1: "updateAndAutoDeleteCredential (auth_net sess_uid) r t = (Ok (), st1)"
    using credential_consumed [OF y(3) _ r(1) live(2)] y(4) view(1) by auto
  obtain a where a: "generateSessionTokenResponse auth_example y = Ok a" using y(2) by (auto simp: is_ok_iff)
  have "check_credential 60000000000 \<lparr>cl_UID = token_uid, cl_TokenID = key_uid\<rparr> r = Ok ()" using live(1) by (simp add: check_credential_Ok)
  then have ok: "doAuthenticateWithAuthenticationToken auth_example (auth_net sess_uid) [] tkn None st = (Ok a, st1)"
    using s1(1) s max y(1) st1 tkn a live(3-5)
    by (simp add: doAuthenticateWithAuthenticationToken_def getCredentialFromToken_def VerifyScopes_def GetScopes_def auth_net_def
        reject_if_def map_err_def on_err_def go_map_def GetHeaderValueMust_def GetHeaderValueAll_def)
  define l where "l = \<lparr>lc_Serve = net_serve sess_uid, lc_Net = answered, lc_Clients = auth_net sess_uid, lc_Env = auth_example,
    lc_Header = [], lc_Scopes = None\<rparr>"
  obtain n st' where n: "token_logins tkn [l, l] st = (n, st')" by fastforce
  have "\<forall>l'\<in>set [l, l]. serves_login auth_sessions auth_users numbered_clusters auth_credentials wire_env st l'"
    using auth_net_kinds inv by (simp add: serves_login_def l_def)
  moreover have "crs_AutoDelete (cr_Spec r)" "crs_MaxAuthentications (cr_Spec r) = 1" "crt_TotalAuthentications (cr_Status r) = 0"
    by (subst r(2), simp add: credential_of_def)+
  moreover have "\<forall>q. crt_UserRef (cr_Status r) = Some q \<longrightarrow>
      (\<exists>u\<in>set (kind_view auth_users st). md_Uid (cd_md auth_users u) = or_Uid q)"
    using view(4) st(3) live(4) by (auto simp: example_session_def)
  ultimately have "n \<le> 1 \<and> (n = 1 \<longrightarrow> (\<forall>y\<in>set (kind_view auth_credentials st'). md_Uid (cr_Metadata y) \<noteq> token_uid))"
    using token_uses_bounded [OF _ tkn view(1), where ls = "[l, l]" and Ks = auth_sessions and Kc = numbered_clusters and Ku = auth_users
      and left = 1] n r(1) by simp
  moreover have "1 \<le> n" using n token_logins_Cons(1) [of l tkn st "Ok a" st1 "[l]"] ok by (simp add: l_def)
  ultimately have "token_logins tkn [l, l] st = (1, st')" "\<forall>y\<in>set (kind_view auth_credentials st'). md_Uid (cr_Metadata y) \<noteq> token_uid"
    using n by simp_all
  then show ?thesis using view(1) r(1) by blast
qed

end
