(* ===== verification/Spec2Isabelle.thy ===== *)
theory Spec2Isabelle imports OctovigilFacts Ucorev1Config RscRaces DirectoryClaims AddressClaims SessionClaims AdminSecurity AdminResources ServiceClaims AuthClaims AuthReplay begin

text \<open>
  Octelium is a platform of zero trust access. The servers of a cluster keep its configuration (users, sessions, Services, policies and so on) as
  resources in one database; clients reach Services through proxies that ask a policy decision point for every request. This development models, in
  Go's terms and from the Go sources, the servers that decide who may do what, and proves what they guarantee.

  \<^bold>\<open>How a call is modelled.\<close> A Go function is a HOL function with its name, its parameters and the same order of tests. Its
  outcome is of type \<open>'a go\<close> (theory \<open>Prelude\<close>): \<open>Ok x\<close>, \<open>Fail e\<close> for a returned error, or
  \<open>Panic\<close> for a run-time panic (nil pointer, index out of range, failed type assertion). \<open>go_bind\<close> sequences outcomes,
  \<open>go_seq\<close> sequences calls that pass a state on, \<open>reject_if\<close> and \<open>map_err\<close> are the early returns. A handler
  that talks to other servers takes a record of clients, each of them a record of functions over a state. Struct types are records with the Go field
  names under a short prefix, enums and oneofs are datatypes, integers keep their width (\<open>32 word\<close>, \<open>64 word\<close>). What is not
  under \<open>src/\<close> is a field of an environment record or an argument: CEL and Rego, bbolt, Postgres and its SQL, protobuf's encoding, the
  libraries for URLs, UUIDs, WebAuthn, signatures, the clock and the random numbers of a call.

  \<^bold>\<open>The parts, from the bottom up.\<close>

  \<^item> Values. \<open>Prelude\<close> (outcomes, Go's \<open>strings\<close>, loops), \<open>Serr\<close> (\<open>grpcutils\<close>,
    \<open>serr\<close>, \<open>grpcerr\<close>), \<open>Netip\<close> (\<open>net/netip\<close> as far as it is used), \<open>Base64\<close>
    (\<open>encoding/base64\<close>), \<open>GoSort\<close> (\<open>slices.SortFunc\<close>), \<open>Umetav1\<close>
    (\<open>pkg/apiutils/umetav1\<close>), \<open>Apivalidation\<close> (\<open>cluster/common/apivalidation\<close>, \<open>pkg/common/rgx\<close>),
    \<open>Ucorev1\<close> and \<open>Ucorev1Config\<close> (\<open>pkg/apiutils/ucorev1\<close>), and the messages: \<open>Corev1\<close>,
    \<open>Corev1Services\<close>, \<open>Corev1ServiceConfig\<close>, \<open>Corev1Credentials\<close> (\<open>apis/main\<close>).
  \<^item> The decision point (\<open>cluster/octovigil\<close>). \<open>Acache\<close> is its cache and \<open>Controllers\<close> what the watchers
    make of events; \<open>CelEngine\<close> evaluates conditions (\<open>cluster/common/celengine\<close>), \<open>Oscope\<close> the scopes of a
    session (\<open>cluster/common/oscope\<close>), \<open>PolicyDecision\<close> the rules in their order and \<open>PolicyRules\<close> collects
    them (\<open>policy.go\<close>, \<open>policytrigger.go\<close>); \<open>Octovigil\<close> composes authentication and authorization
    (\<open>octovigil.go\<close>, \<open>apis.go\<close>).
  \<^item> The resource server (\<open>cluster/rscserver\<close>). \<open>Rscserver\<close> has the table, the copy in Redis and the messages
    (\<open>common.go\<close>), with an update or a creation split where another request can come between; \<open>RscList\<close> the lists and their
    filters; \<open>RscServe\<close> the dispatch of a method. \<open>CoreClient\<close> is the client that every other server uses, over a network
    that may lose a request or an answer.
  \<^item> The API server for administrators (\<open>cluster/apiserver/apiserver/admin\<close>). \<open>ApiCommon\<close> and \<open>UserCtx\<close>
    hold what the handlers share; \<open>PolicyAdmin\<close>, \<open>AdminDirectory\<close> (groups, namespaces, users, devices),
    \<open>AdminSecurity\<close> (secrets, credentials), \<open>AdminResources\<close> (sessions, authenticators, identity providers, gateways,
    regions, the configuration), \<open>AdminService\<close>, \<open>AdminServiceConfig\<close> and \<open>AdminServiceHandlers\<close>
    (\<open>service.go\<close>).
  \<^item> The API server for users (\<open>cluster/apiserver/apiserver/user\<close>). \<open>Vutils\<close>, \<open>Upstream\<close>
    (\<open>cluster/common/upstream\<close>: addresses and hosted services), \<open>ApiUser\<close>, and \<open>UserConnect\<close>
    (\<open>connect.go\<close>: how a session connects, ticks and disconnects).
  \<^item> Sessions and tokens. \<open>Jwkctl\<close> (\<open>cluster/common/jwkctl\<close>: keys, and tokens signed with them),
    \<open>Sessionc\<close> (\<open>cluster/common/sessionc\<close>).
  \<^item> The authentication server (\<open>cluster/authserver\<close>). \<open>AuthTokens\<close> (what stands behind a token),
    \<open>AuthSessions\<close> (logins by token, assertion, refresh token and OAuth 2, and logouts), \<open>AuthFactors\<close>,
    \<open>AuthAuthenticators\<close> and \<open>AuthRegistration\<close> (second factors), \<open>AuthLogin\<close> and \<open>AuthCallbacks\<close>
    (logins in a browser), \<open>AuthDevices\<close>, \<open>AuthPasskeys\<close>.

  The parts meet in resources: an administrator's request becomes a row of the table, the watchers of the decision point copy it into the cache, the
  decision point reads it for the next request; a login at the authentication server creates a session and a token that names it, which the decision
  point verifies with the keys that it watches.

  \<^bold>\<open>Interfaces.\<close> Each locale states what a part relies on, and is interpreted on the model of the code that provides it:
  \<open>keyed_cache\<close> (a bucket of the cache, interpreted for each kind in \<open>Acache\<close>); \<open>slice_sort\<close> (the contract of
  \<open>slices.SortFunc\<close>, met by Go's insertion sort in \<open>GoSort\<close>); \<open>resource_client\<close> (what a client gets from the
  resource server: \<open>core\<close> in \<open>CoreClient\<close> shows that the model of the resource server meets it, whatever fails);
  \<open>policy_client\<close>, \<open>directory\<close>, \<open>services\<close> and \<open>connections\<close> (clients of several kinds on one
  server, with the invariants that the handlers keep: \<open>core_policy\<close>, \<open>core_directory\<close>, \<open>core_services\<close>,
  \<open>core_addresses\<close>); \<open>tokens\<close> (wire format, UUIDs and signatures: \<open>wire\<close> in \<open>TokenClaims\<close> on the
  encoding of \<open>TokenWire\<close>).

  \<^bold>\<open>What the lemmas show.\<close>

  \<^item> \<open>PolicyDecision\<close>, \<open>PolicyRulesFacts\<close>, \<open>OctovigilFacts\<close>: the loop over the sorted rules implements an
    order-free policy language; the rules are those of the enabled and enforced policies that the owners of a request and the triggers
    ask for, each policy once, as the lookups load them; a request is let in only on stated grounds. \<open>Controllers\<close> and
    \<open>Acache\<close>: what the cache finds, in every reachable state. \<open>CelEngine\<close> and \<open>Oscope\<close>: conditions have
    the meaning that their syntax suggests, and scopes that of the texts from which they are read.
  \<^item> \<open>RscTable\<close>, \<open>RscFacts\<close>, \<open>RscSteps\<close>, \<open>RscList\<close>, \<open>RscRaces\<close>: the copy in
    Redis cannot be told from the table, names are unique, pages partition a list, stale updates are refused and change nothing; and what is lost when the two halves of
    requests interleave. \<open>CoreLive\<close>, \<open>CoreWrites\<close>: on a server on which nothing fails, requests succeed;
    \<open>CoreExamples\<close> has such a server, on which the examples run.
  \<^item> \<open>PolicyAdminFacts\<close>, \<open>PolicyClaims\<close>, \<open>DirectoryFacts\<close>, \<open>DirectoryClaims\<close>,
    \<open>ServiceFacts\<close>, \<open>ServiceHosts\<close>, \<open>ServiceNumbers\<close>, \<open>ServiceClaims\<close>: invariants of what is
    stored, over every sequence of requests: well-formed policies and Services, groups that exist, host names that are not shared.
  \<^item> \<open>UpstreamFacts\<close>, \<open>AddressFacts\<close>, \<open>AddressClaims\<close>: addresses of connections are never shared, hosted
    services have ports of their own, the search for a port ends.
  \<^item> \<open>JwkctlFacts\<close>, \<open>TokenWire\<close>, \<open>TokenClaims\<close>, \<open>SessionClaims\<close>: a token verifies exactly as
    what it was made for, and not after its key or its authentication is gone; the keys of a controller follow the root secrets.
  \<^item> \<open>AuthFacts\<close>, \<open>AuthStore\<close>, \<open>AuthClaims\<close>, \<open>AuthReplay\<close> with the examples of
    \<open>AuthExamples\<close> and \<open>AuthTokenExamples\<close>: what stands behind a login and a second factor and whose session it
    leads to, that a refresh token works once and the token of a credential at most as often as uses are left, over any sequence of logins, and
    where a browser may be sent.

  \<^bold>\<open>Loops and bounds.\<close> Loops over slices are structural recursions. The search for a port of a hosted service is a
  \<open>partial_function (option)\<close>, as it could run on; \<open>getListenerPort_returns\<close> shows that it always returns. Random indexes
  come as the list of what the source delivers, as long as the loop's own bound of a hundred thousand. No definition has fuel. Reachable states are
  inductive predicates: \<open>reachable\<close> (events at the decision point), \<open>rsc_reachable\<close>, \<open>policy_server\<close>,
  \<open>directory_server\<close>, \<open>service_server\<close>, \<open>connecting\<close> and \<open>hosting\<close> (requests, with any of them
  failing half way). The examples of the witnesses store resources by numbering them, have a stand-in for signatures, and accept what the validators
  of third-party packages would.

  \<^bold>\<open>Not modelled.\<close> Goroutines, except where requests interleave at the statements of the resource server; timeouts, which are
  errors of the calls that they end; logs and metrics; the texts of errors. The proxies of Services (\<open>cluster/vigil\<close>), gateways
  (\<open>gwagent\<close>), \<open>dnsserver\<close>, \<open>ingress\<close> and \<open>portal\<close> move bytes between connections of third-party
  libraries; \<open>nocturne\<close> and \<open>genesis\<close> write objects of Kubernetes; the clients (\<open>src/client\<close>) call the servers
  and set up devices of the operating system. Identity providers (\<open>oidc\<close>, \<open>github\<close>, \<open>saml\<close>), FIDO and TPM are
  parameters of the authentication server under the types that it gives them.
\<close>

end
